(* ===== verification/Acs_Prelude.thy ===== *)
theory Acs_Prelude
  imports Main "HOL-Library.Word" "HOL-Library.Monad_Syntax"
begin

text \<open>
  Shared vocabulary of the development: the C integer types as words, the undefined
  behaviour of C shifts and array accesses as \<open>None\<close>, the device history that every
  register access appends to, and the parameter that stands for the hardware.

  A C function that can go wrong (a NULL table, an index outside an array, a shift by more
  than the width) returns an option, and \<open>None\<close> is "the run has undefined behaviour".
  The state is passed explicitly; the do-notation is the one of the option type.
\<close>

unbundle bit_operations_syntax

subsection \<open>Collections of facts\<close>

named_theorems reg_defs \<open>register offsets, shifts and masks\<close>
named_theorems frame \<open>what an operation leaves alone\<close>
named_theorems run \<open>what an operation does on the states where it is defined\<close>

subsection \<open>C integer types\<close>

type_synonym u8 = "8 word"
type_synonym u16 = "16 word"
type_synonym u32 = "32 word"
type_synonym u64 = "64 word"

text \<open>A C shift is defined only for a count below the width of the promoted operand.\<close>

definition shl32 :: "u32 \<Rightarrow> nat \<Rightarrow> u32 option" where
  "shl32 x n = (if n < 32 then Some (push_bit n x) else None)"

text \<open>Reading entry \<open>i\<close> of a C array whose valid entries are the list \<open>xs\<close>.\<close>

definition at :: "'a list \<Rightarrow> nat \<Rightarrow> 'a option" where
  "at xs i = (if i < length xs then Some (xs ! i) else None)"

lemma at_Some [simp]: "i < length xs \<Longrightarrow> at xs i = Some (xs ! i)"
  by (simp add: at_def)

lemma at_None [simp]: "length xs \<le> i \<Longrightarrow> at xs i = None"
  by (simp add: at_def)

lemma at_eq_Some: "at xs i = Some x \<longleftrightarrow> i < length xs \<and> xs ! i = x"
  by (auto simp: at_def)

lemma at_list_update: "at (xs[j := x]) i = (if i = j \<and> j < length xs then Some x else at xs i)"
  by (auto simp: at_def)

lemma at_map [simp]: "at (map f xs) i = map_option f (at xs i)"
  by (simp add: at_def)

text \<open>Writing entry \<open>i\<close> of an array.\<close>

definition set_at :: "nat \<Rightarrow> 'a \<Rightarrow> 'a list \<Rightarrow> 'a list option" where
  "set_at i v xs = (if i < length xs then Some (xs[i := v]) else None)"

lemma set_at_Some [simp]: "i < length xs \<Longrightarrow> set_at i v xs = Some (xs[i := v])"
  by (simp add: set_at_def)

lemma set_at_eq_Some: "set_at i v xs = Some ys \<longleftrightarrow> i < length xs \<and> ys = xs[i := v]"
  by (auto simp: set_at_def)

subsection \<open>Words\<close>

lemma unat_and_le: "unat (a AND b) \<le> unat (b :: 'a::len word)"
  by (rule word_and_le1 [THEN word_le_nat_alt [THEN iffD1]])

lemma and_mask_eq_mod: "unat (a AND mask n) = unat (a :: 'a::len word) mod 2 ^ n"
  by (metis take_bit_eq_mask take_bit_eq_mod unsigned_take_bit_eq)

lemma unat_ucast_small: "unat x < 2 ^ LENGTH('b) \<Longrightarrow> unat (ucast (x :: 'a::len word) :: 'b::len word) = unat x"
  by (metis take_bit_nat_eq_self unsigned_ucast_eq)

lemma unat_of_nat_below: "k < unat (n :: 'a::len word) \<Longrightarrow> unat (of_nat k :: 'a word) = k"
  by (rule order.strict_trans [OF _ unsigned_less, THEN unat_of_nat [THEN trans, OF mod_less]])

lemma unat_of_nat_atmost: "k \<le> unat (n :: 'a::len word) \<Longrightarrow> unat (of_nat k :: 'a word) = k"
  by (rule order.strict_trans1 [OF _ unsigned_less, THEN unat_of_nat [THEN trans, OF mod_less]])

lemma bit_below: "(v :: u32) < 2 ^ k \<Longrightarrow> k < 32 \<Longrightarrow> k \<le> i \<Longrightarrow> \<not> bit v i"
  by (metis bit_take_bit_iff less_mask_eq take_bit_eq_mask leD)

lemma and_low_mask:
  "(x :: u32) AND 0xF = take_bit 4 x" "x AND 0xFFF = take_bit 12 x"
  "x AND 0xFFFF = take_bit 16 x"
  by (simp_all add: take_bit_eq_mask mask_eq_exp_minus_1)

text \<open>A field taken out of a register: shift right, then mask.\<close>

definition field :: "u32 \<Rightarrow> nat \<Rightarrow> u32 \<Rightarrow> u32" where
  "field v sh m = drop_bit sh v AND m"

lemma field_le: "unat (field v sh m) \<le> unat m"
  by (simp add: field_def unat_and_le)

text \<open>Alignment of register addresses to four bytes.\<close>

definition aligned4 :: "u64 \<Rightarrow> bool" where
  "aligned4 a \<longleftrightarrow> a AND 3 = 0"

lemma aligned4_unat: "aligned4 a \<longleftrightarrow> 4 dvd unat a"
proof -
  have "unat (a AND 3) = unat a mod 4"
    using and_mask_eq_mod [of a 2] by (simp add: mask_eq_exp_minus_1)
  then show ?thesis
    by (metis aligned4_def dvd_eq_mod_eq_0 unat_eq_zero)
qed

lemma aligned4_add [simp]: "aligned4 a \<Longrightarrow> aligned4 b \<Longrightarrow> aligned4 (a + b)"
  by (simp add: aligned4_unat unat_word_ariths dvd_mod)

subsection \<open>Counting loops\<close>

text \<open>
  \<open>for (i = 0; i < n; i++)\<close> over a 32-bit counter visits \<open>upto_u32 n\<close>; the body may
  go wrong, and then so does the loop.
\<close>

definition upto_u32 :: "u32 \<Rightarrow> u32 list" where
  "upto_u32 n = map word_of_nat [0..<unat n]"

fun for_each :: "('i \<Rightarrow> 's \<Rightarrow> 's option) \<Rightarrow> 'i list \<Rightarrow> 's \<Rightarrow> 's option" where
  "for_each f [] s = Some s"
| "for_each f (x # xs) s = do { s' \<leftarrow> f x s; for_each f xs s' }"

lemma for_each_append:
  "for_each f (xs @ ys) s = do { s' \<leftarrow> for_each f xs s; for_each f ys s' }"
proof (induction xs arbitrary: s)
  case Nil
  then show ?case by simp
next
  case (Cons x xs)
  then show ?case by (cases "f x s") simp_all
qed

lemma for_each_invariant:
  assumes "for_each f xs s = Some t" and "P s"
    and "\<And>i s t. i \<in> set xs \<Longrightarrow> P s \<Longrightarrow> f i s = Some t \<Longrightarrow> P t"
  shows "P t"
  using assms
proof (induction xs arbitrary: s)
  case Nil
  then show ?case by simp
next
  case (Cons x xs)
  from Cons.prems(1) obtain u where u: "f x s = Some u" "for_each f xs u = Some t"
    by (auto simp: Option.bind_eq_Some_conv)
  have "P u" by (rule Cons.prems(3) [of x s]) (use u Cons.prems in auto)
  with u(2) show ?case by (rule Cons.IH) (auto intro: Cons.prems(3))
qed

lemma for_each_defined:
  assumes "P s" and "\<And>i s. i \<in> set xs \<Longrightarrow> P s \<Longrightarrow> \<exists>t. f i s = Some t \<and> P t"
  shows "\<exists>t. for_each f xs s = Some t \<and> P t"
  using assms
proof (induction xs arbitrary: s)
  case Nil
  then show ?case by simp
next
  case (Cons x xs)
  obtain u where "f x s = Some u" "P u" using Cons.prems by (metis list.set_intros(1))
  with Cons.IH [of u] Cons.prems(2) show ?case by auto
qed

lemma for_each_upt:
  assumes "for_each f [0..<n] s = Some t" "P 0 s"
    and "\<And>i s t. i < n \<Longrightarrow> P i s \<Longrightarrow> f i s = Some t \<Longrightarrow> P (Suc i) t"
  shows "P n t"
  using assms
proof (induction n arbitrary: t)
  case 0
  then show ?case by simp
next
  case (Suc n)
  then obtain u where u: "for_each f [0..<n] s = Some u" "f n u = Some t"
    by (auto simp: for_each_append Option.bind_eq_Some_conv)
  then have "P n u" using Suc by auto
  then show ?case using Suc.prems(3) u(2) by blast
qed

lemma for_each_upt_defined:
  assumes "P 0 s" "\<And>i s. i < n \<Longrightarrow> P i s \<Longrightarrow> \<exists>t. f i s = Some t \<and> P (Suc i) t"
  shows "\<exists>t. for_each f [0..<n] s = Some t \<and> P n t"
  using assms(2)
proof (induction n)
  case 0
  then show ?case using assms(1) by simp
next
  case (Suc n)
  then obtain u where "for_each f [0..<n] s = Some u" "P n u" by auto
  then show ?case using Suc.prems [of n u] by (auto simp: for_each_append)
qed

lemma set_upto_u32: "set (upto_u32 n) = {i. i < n}"
proof -
  have "i \<in> word_of_nat ` {0..<unat n}" if "i < n" for i :: u32
    using that by (intro image_eqI [of _ _ "unat i"]) (auto simp: word_less_nat_alt)
  moreover have "word_of_nat k < n" if "k < unat n" for k
    using that unsigned_less [of n] by (simp add: word_less_nat_alt unat_of_nat)
  ultimately show ?thesis by (auto simp: upto_u32_def)
qed

lemma upto_u32_0 [simp]: "upto_u32 0 = []"
  by (simp add: upto_u32_def)

lemma upto_u32_1 [simp]: "upto_u32 1 = [0]"
  by (simp add: upto_u32_def)

subsection \<open>Runs that return\<close>

text \<open>
  \<open>returns Q m\<close> says that the run \<open>m\<close> has a result and the result satisfies \<open>Q\<close>: total
  correctness of one run. The rules follow the do-notation, so that a proof about an operation
  is a walk through its lines.
\<close>

definition returns :: "('a \<Rightarrow> bool) \<Rightarrow> 'a option \<Rightarrow> bool" where
  "returns Q m \<longleftrightarrow> (\<exists>x. m = Some x \<and> Q x)"

named_theorems wp \<open>that an operation returns, and with what\<close>

lemma returns_Some [simp]: "returns Q (Some x) \<longleftrightarrow> Q x"
  by (simp add: returns_def)

lemma returns_bind: "returns (\<lambda>x. returns Q (f x)) m \<Longrightarrow> returns Q (Option.bind m f)"
  by (auto simp: returns_def)

lemma returns_mono: "returns P m \<Longrightarrow> (\<And>x. P x \<Longrightarrow> Q x) \<Longrightarrow> returns Q m"
  by (auto simp: returns_def)

text \<open>Running an operation whose own rule is known, then the rest.\<close>

lemma returns_seq:
  "returns P m \<Longrightarrow> (\<And>x. P x \<Longrightarrow> returns Q (f x)) \<Longrightarrow> returns Q (Option.bind m f)"
  by (auto simp: returns_def)

lemma returns_seq_pair:
  "returns (\<lambda>(v, t). P v t) m \<Longrightarrow> (\<And>v t. P v t \<Longrightarrow> returns Q (f v t)) \<Longrightarrow>
     returns Q (Option.bind m (\<lambda>(v, t). f v t))"
  by (auto simp: returns_def)

lemma returns_if:
  "(b \<Longrightarrow> returns Q m) \<Longrightarrow> (\<not> b \<Longrightarrow> returns Q m') \<Longrightarrow> returns Q (if b then m else m')"
  by simp

lemma returnsE:
  assumes "returns Q m"
  obtains x where "m = Some x" "Q x"
  using assms by (auto simp: returns_def)


lemma returns_for_each:
  assumes "\<And>i s. i \<in> set is' \<Longrightarrow> P s \<Longrightarrow> returns P (f i s)" "P s"
  shows "returns P (for_each f is' s)"
  using assms
proof (induction is' arbitrary: s)
  case Nil
  then show ?case by simp
next
  case (Cons i is')
  show ?case
    by (simp, rule returns_seq [OF Cons.prems(1)]) (use Cons in auto)
qed

text \<open>Two facts about one run are one fact.\<close>

lemma returns_conj: "returns P m \<Longrightarrow> returns Q m \<Longrightarrow> returns (\<lambda>x. P x \<and> Q x) m"
  by (auto simp: returns_def)

text \<open>\<open>yields Q m\<close> says that the result satisfies \<open>Q\<close> if the run has one: partial correctness.\<close>

definition yields :: "('a \<Rightarrow> bool) \<Rightarrow> 'a option \<Rightarrow> bool" where
  "yields Q m \<longleftrightarrow> (\<forall>x. m = Some x \<longrightarrow> Q x)"

lemma yields_simps [simp]: "yields Q (Some x) = Q x" "yields Q None"
  by (simp_all add: yields_def)

lemma yields_mono: "yields P m \<Longrightarrow> (\<And>x. P x \<Longrightarrow> Q x) \<Longrightarrow> yields Q m"
  by (simp add: yields_def)

lemma yields_seq: "yields P m \<Longrightarrow> (\<And>x. P x \<Longrightarrow> yields Q (f x)) \<Longrightarrow> yields Q (Option.bind m f)"
  by (cases m) simp_all

lemma yields_pair:
  "yields (\<lambda>(v, t). P v t) m \<Longrightarrow> (\<And>v t. P v t \<Longrightarrow> yields Q (f v t)) \<Longrightarrow> yields Q (Option.bind m (\<lambda>(v, t). f v t))"
  by (cases m) auto

lemma yields_if: "(b \<Longrightarrow> yields Q m) \<Longrightarrow> (\<not> b \<Longrightarrow> yields Q m') \<Longrightarrow> yields Q (if b then m else m')"
  by simp

lemma yields_for_each:
  assumes "\<And>i s. i \<in> set is' \<Longrightarrow> P s \<Longrightarrow> yields P (f i s)" "P s"
  shows "yields P (for_each f is' s)"
  using assms
proof (induction is' arbitrary: s)
  case (Cons i is')
  then show ?case by (simp, intro yields_seq [OF Cons.prems(1)]) auto
qed simp

end
