(* ===== verification/Acs_Machine.thy ===== *)
theory Acs_Machine
  imports Acs_Prelude
begin

text \<open>
  What both suites run on. The state every suite extends: the history of device accesses
  (newest first), the console, the print level and the memory shared by the processing
  elements (PEs). The machine itself is not code of the repository: it is the parameter
  \<open>hw\<close>, whose functions say what a register, a system register, a firmware call or the
  other PEs answer after a given history. A device may answer the same read differently
  after each access, so nothing is assumed about it unless a lemma names the assumption.
\<close>

subsection \<open>Device accesses\<close>

datatype loc = LVar string | LShared nat string | LAddr u64

datatype io_event =
    MmioRead u64
  | MmioWrite u64 u32
  | Barrier u32
  | CacheOp loc u32
  | SysRead string
  | SysWrite string u64
  | Smc u64 "u64 list"
  | Firmware string "u64 list"
  | MemCopy u64 u64 u64

type_synonym history = "io_event list"

text \<open>One entry of the shared memory (VAL_SHARED_MEM_t, pe_shared_mem_t).\<close>

record shared_mem =
  data0 :: u64
  data1 :: u64
  status :: u32

record base =
  io :: history
  con :: "(u32 \<times> string \<times> u64 list) list"
  print_level :: u32
  shared :: "shared_mem list option"

subsection \<open>The machine as a parameter\<close>

text \<open>
  \<open>mmio_in\<close> is the value a 32-bit register read returns, \<open>sysreg_in\<close> that of a system
  register of this PE, \<open>mpidr_in\<close> the value of MPIDR_EL1, \<open>smc_in\<close> what is left in
  x0 to x3 after a secure monitor call of the PE with the given MPIDR, \<open>entry_point\<close> the address of the secondary entry code, \<open>fw_in\<close> the status a UEFI boot service returns and the address it stores, \<open>fresh_in\<close> the content of
  newly allocated shared entries, and
  \<open>peers\<close> the shared memory as the other PEs have left it by now.
\<close>

record hw =
  mmio_in :: "history \<Rightarrow> u64 \<Rightarrow> u32"
  sysreg_in :: "history \<Rightarrow> string \<Rightarrow> u64"
  mpidr_in :: u64
  smc_in :: "history \<Rightarrow> u64 \<Rightarrow> u64 list \<Rightarrow> u64 \<times> u64 \<times> u64 \<times> u64"
  entry_point :: u64
  fw_in :: "history \<Rightarrow> string \<Rightarrow> u64 list \<Rightarrow> u64 \<times> u64"
  fresh_in :: "history \<Rightarrow> nat \<Rightarrow> shared_mem"
  peers :: "history \<Rightarrow> shared_mem list \<Rightarrow> shared_mem list"

text \<open>An EFI status is an error when its top bit is set.\<close>

definition EFI_ERROR :: "u64 \<Rightarrow> bool" where
  "EFI_ERROR st \<longleftrightarrow> bit st 63"

lemma EFI_SUCCESS_ok [simp]: "\<not> EFI_ERROR 0"
  by (simp add: EFI_ERROR_def)

definition log_io :: "io_event \<Rightarrow> 'a base_scheme \<Rightarrow> 'a base_scheme" where
  "log_io e s = s\<lparr>io := e # io s\<rparr>"

definition interfere :: "hw \<Rightarrow> 'a base_scheme \<Rightarrow> 'a base_scheme" where
  "interfere hw s = s\<lparr>shared := map_option (peers hw (io s)) (shared s)\<rparr>"

text \<open>Documented behaviour that some lemmas name.\<close>

definition ro_reg :: "hw \<Rightarrow> u64 \<Rightarrow> u32 \<Rightarrow> bool" where
  "ro_reg hw a v \<longleftrightarrow> (\<forall>h. mmio_in hw h a = v)"

definition quiet_peers :: "hw \<Rightarrow> bool" where
  "quiet_peers hw \<longleftrightarrow> (\<forall>h m. peers hw h m = m)"

definition peers_keep_size :: "hw \<Rightarrow> bool" where
  "peers_keep_size hw \<longleftrightarrow> (\<forall>h m. length (peers hw h m) = length m)"

text \<open>A read/write register: what is read is the last value written, or the reset value.\<close>

fun last_write :: "history \<Rightarrow> u64 \<Rightarrow> u32 option" where
  "last_write [] a = None"
| "last_write (MmioWrite b v # h) a = (if a = b then Some v else last_write h a)"
| "last_write (_ # h) a = last_write h a"

definition rw_reg :: "hw \<Rightarrow> u64 \<Rightarrow> u32 \<Rightarrow> bool" where
  "rw_reg hw a rst \<longleftrightarrow>
     (\<forall>h. mmio_in hw h a = (case last_write h a of None \<Rightarrow> rst | Some v \<Rightarrow> v))"

lemma rw_reg_in:
  "rw_reg hw a rst \<Longrightarrow> mmio_in hw h a = (case last_write h a of None \<Rightarrow> rst | Some v \<Rightarrow> v)"
  by (simp add: rw_reg_def)

lemma ro_reg_in: "ro_reg hw a v \<Longrightarrow> mmio_in hw h a = v"
  by (simp add: ro_reg_def)

lemma quiet_peers_in [simp]: "quiet_peers hw \<Longrightarrow> peers hw h = (\<lambda>m. m)"
  by (simp add: quiet_peers_def fun_eq_iff)

lemma quiet_interfere [simp]: "quiet_peers hw \<Longrightarrow> interfere hw s = s"
  by (simp add: interfere_def option.map_ident)

lemma quiet_keeps_size: "quiet_peers hw \<Longrightarrow> peers_keep_size hw"
  by (simp add: peers_keep_size_def)

subsection \<open>Secure monitor calls\<close>

text \<open>ArmCallSmc loads x0 to x7 from the structure and stores x0 to x3 back.\<close>

record ARM_SMC_ARGS =
  Arg0 :: u64
  Arg1 :: u64
  Arg2 :: u64
  Arg3 :: u64
  Arg4 :: u64
  Arg5 :: u64
  Arg6 :: u64
  Arg7 :: u64

definition smc_list :: "ARM_SMC_ARGS \<Rightarrow> u64 list" where
  "smc_list a = [Arg0 a, Arg1 a, Arg2 a, Arg3 a, Arg4 a, Arg5 a, Arg6 a, Arg7 a]"

definition smc_zero :: ARM_SMC_ARGS where
  "smc_zero = \<lparr>Arg0 = 0, Arg1 = 0, Arg2 = 0, Arg3 = 0, Arg4 = 0, Arg5 = 0, Arg6 = 0, Arg7 = 0\<rparr>"

definition ArmCallSmc ::
    "hw \<Rightarrow> ARM_SMC_ARGS \<Rightarrow> 'a base_scheme \<Rightarrow> ARM_SMC_ARGS \<times> 'a base_scheme" where
  "ArmCallSmc hw a s =
     (let (x0, x1, x2, x3) = smc_in hw (io s) (mpidr_in hw) (smc_list a)
      in (a\<lparr>Arg0 := x0, Arg1 := x1, Arg2 := x2, Arg3 := x3\<rparr>, log_io (Smc (mpidr_in hw) (smc_list a)) s))"

text \<open>A system register of this PE, read through its assembly accessor.\<close>

definition read_sysreg :: "hw \<Rightarrow> string \<Rightarrow> 'a base_scheme \<Rightarrow> u64 \<times> 'a base_scheme" where
  "read_sysreg hw r s = (sysreg_in hw (io s) r, log_io (SysRead r) s)"

definition write_sysreg :: "string \<Rightarrow> u64 \<Rightarrow> 'a base_scheme \<Rightarrow> 'a base_scheme" where
  "write_sysreg r v s = log_io (SysWrite r v) s"

text \<open>A boot service or protocol call of the firmware.\<close>

definition firmware :: "hw \<Rightarrow> string \<Rightarrow> u64 list \<Rightarrow> 'a base_scheme \<Rightarrow> (u64 \<times> u64) \<times> 'a base_scheme" where
  "firmware hw f args s = (fw_in hw (io s) f args, log_io (Firmware f args) s)"

subsection \<open>A memory-like machine for concrete runs\<close>

text \<open>
  Every register is plain memory with the reset values \<open>rst\<close>, the other PEs do nothing,
  and every firmware call returns 0. It instantiates the parameter in the witnesses.
\<close>

definition ram_hw :: "(u64 \<Rightarrow> u32) \<Rightarrow> u64 \<Rightarrow> hw" where
  "ram_hw rst mp =
     \<lparr>mmio_in = (\<lambda>h a. case last_write h a of None \<Rightarrow> rst a | Some v \<Rightarrow> v),
      sysreg_in = (\<lambda>h r. 0), mpidr_in = mp, smc_in = (\<lambda>h m args. (0, 0, 0, 0)), entry_point = 0x80000,
      fw_in = (\<lambda>h f args. (0, 0)),
      fresh_in = (\<lambda>h i. \<lparr>data0 = 0, data1 = 0, status = 0\<rparr>), peers = (\<lambda>h m. m)\<rparr>"

lemma ram_hw_rw_reg [simp]: "rw_reg (ram_hw rst mp) a (rst a)"
  by (simp add: rw_reg_def ram_hw_def)

lemma ram_hw_quiet [simp]: "quiet_peers (ram_hw rst mp)"
  by (simp add: quiet_peers_def ram_hw_def)

lemma ram_hw_simps [simp]:
  "mmio_in (ram_hw rst mp) h a = (case last_write h a of None \<Rightarrow> rst a | Some v \<Rightarrow> v)"
  "sysreg_in (ram_hw rst mp) h r = 0"
  "mpidr_in (ram_hw rst mp) = mp"
  "smc_in (ram_hw rst mp) h m args = (0, 0, 0, 0)" "entry_point (ram_hw rst mp) = 0x80000"
  "fw_in (ram_hw rst mp) h f args = (0, 0)"
  "fresh_in (ram_hw rst mp) h i = \<lparr>data0 = 0, data1 = 0, status = 0\<rparr>"
  by (simp_all add: ram_hw_def)

subsection \<open>Frames of the elementary steps\<close>

lemma log_io_sel [simp]:
  "io (log_io e s) = e # io s" "con (log_io e s) = con s"
  "print_level (log_io e s) = print_level s" "shared (log_io e s) = shared s"
  "base.more (log_io e s) = base.more s"
  by (simp_all add: log_io_def)

lemma interfere_sel [simp]:
  "io (interfere hw s) = io s" "con (interfere hw s) = con s"
  "print_level (interfere hw s) = print_level s"
  "shared (interfere hw s) = map_option (peers hw (io s)) (shared s)"
  "base.more (interfere hw s) = base.more s"
  by (simp_all add: interfere_def)

end
