(* ===== verification/Acs_Interfaces.thy ===== *)
theory Acs_Interfaces
  imports Acs_Machine
begin

text \<open>
  The contracts between the components, stated once for both suites. The MPAM and the SDEI
  validation layers each have their own PE table and their own status words; what the test
  infrastructure relies on is the same, and each provider discharges the laws for its own
  definitions where these are declared.
\<close>

subsection \<open>The directory of PEs\<close>

text \<open>
  \<open>num\<close> counts the PEs, \<open>mpid_at\<close> is the identifier stored for an index and \<open>index_of\<close>
  the search for an identifier, with \<open>unknown\<close> as the answer when nothing matches. The two
  suites differ in that answer: MPAM takes index 0 as a safe value, SDEI an invalid index.
\<close>

locale pe_directory =
  fixes wf :: "'s \<Rightarrow> bool"
    and num :: "'s \<Rightarrow> u32"
    and mpid_at :: "u32 \<Rightarrow> 's \<Rightarrow> u64 option"
    and index_of :: "u64 \<Rightarrow> 's \<Rightarrow> u32 option"
    and unknown :: u32
  assumes mpid_at_defined: "wf s \<Longrightarrow> i < num s \<Longrightarrow> \<exists>m. mpid_at i s = Some m"
    and index_mpid: "wf s \<Longrightarrow> i < num s \<Longrightarrow> mpid_at i s = Some m \<Longrightarrow> index_of m s = Some i"
    and index_unknown: "wf s \<Longrightarrow> \<forall>i<num s. mpid_at i s \<noteq> Some m \<Longrightarrow> index_of m s = Some unknown"
begin

lemma mpid_at_inj:
  assumes "wf s" "i < num s" "j < num s" "mpid_at i s = mpid_at j s"
  shows "i = j"
proof -
  obtain m where "mpid_at i s = Some m" using mpid_at_defined assms by blast
  then have "index_of m s = Some i" "index_of m s = Some j"
    using index_mpid assms by metis+
  then show ?thesis by simp
qed

lemma index_of_cases:
  assumes "wf s"
  obtains (found) i where "i < num s" "mpid_at i s = Some m" "index_of m s = Some i"
    | (missing) "\<forall>i<num s. mpid_at i s \<noteq> Some m" "index_of m s = Some unknown"
  using assms index_mpid index_unknown by blast

end

text \<open>A directory whose search always gives an index that can be used.\<close>

locale failsafe_directory = pe_directory +
  assumes failsafe: "unknown = 0"
begin

lemma index_of_less: "wf s \<Longrightarrow> 0 < num s \<Longrightarrow> \<exists>i. index_of m s = Some i \<and> i < num s"
  by (rule index_of_cases [of s m]) (auto simp: failsafe)

end

text \<open>A directory whose search tells whether the identifier is there.\<close>

locale strict_directory = pe_directory +
  assumes num_unknown: "wf s \<Longrightarrow> num s \<le> unknown"
begin

lemma index_of_known:
  assumes "wf s" "index_of m s = Some i"
  shows "i < num s \<longleftrightarrow> (\<exists>k<num s. mpid_at k s = Some m)"
  using assms(1)
proof (cases rule: index_of_cases [of s m])
  case (found k)
  then show ?thesis using assms(2) by auto
next
  case missing
  then show ?thesis using assms num_unknown [of s] by auto
qed

lemma index_of_at:
  assumes "wf s" "index_of m s = Some i" "i < num s"
  shows "mpid_at i s = Some m"
  using assms(1)
proof (cases rule: index_of_cases [of s m])
  case (found k)
  then show ?thesis using assms(2) by auto
next
  case missing
  then show ?thesis using assms num_unknown [of s] by auto
qed

end

subsection \<open>Status words\<close>

text \<open>
  \<open>put\<close> stores the word of one PE and \<open>fetch\<close> reads it back, when the index is among the
  \<open>size\<close> allocated entries; a reader sees the stored word as long as no other PE stores.
\<close>

locale status_store =
  fixes quiet :: bool
    and size_of :: "'s \<Rightarrow> nat"
    and put :: "u32 \<Rightarrow> 'v \<Rightarrow> 's \<Rightarrow> 's option"
    and fetch :: "u32 \<Rightarrow> 's \<Rightarrow> ('v \<times> 's) option"
    and word_at :: "u32 \<Rightarrow> 's \<Rightarrow> 'v"
  assumes put_defined: "unat i < size_of s \<Longrightarrow> \<exists>t. put i v s = Some t"
    and put_size: "put i v s = Some t \<Longrightarrow> size_of t = size_of s"
    and put_word: "put i v s = Some t \<Longrightarrow> word_at j t = (if j = i then v else word_at j s)"
    and fetch_word: "quiet \<Longrightarrow> unat i < size_of s \<Longrightarrow> \<exists>t. fetch i s = Some (word_at i s, t)"
    and fetch_keeps: "quiet \<Longrightarrow> fetch i s = Some (v, t) \<Longrightarrow> word_at j t = word_at j s"
    and fetch_size: "quiet \<Longrightarrow> fetch i s = Some (v, t) \<Longrightarrow> size_of t = size_of s"
begin

lemma fetch_after_put:
  assumes "quiet" "unat i < size_of s" "put i v s = Some t"
  shows "\<exists>u. fetch i t = Some (v, u)"
  using fetch_word [of i t] put_size [OF assms(3)] put_word [OF assms(3), of i] assms by auto

lemma fetch_other:
  assumes "quiet" "unat j < size_of s" "put i v s = Some t" "i \<noteq> j" "fetch j s = Some (w, u)"
  shows "\<exists>u'. fetch j t = Some (w, u')"
proof -
  have "word_at j t = word_at j s" using put_word [OF assms(3), of j] assms(4) by auto
  moreover have "w = word_at j s" using fetch_word [OF assms(1,2)] assms(5) by auto
  ultimately show ?thesis
    using fetch_word [of j t] put_size [OF assms(3)] assms by auto
qed

text \<open>Storing the same word for a list of PEs, the way a test is set up.\<close>

lemma put_all:
  assumes "\<forall>i\<in>set is'. unat i < size_of s"
  shows "\<exists>t. for_each (\<lambda>i. put i (f i)) is' s = Some t \<and> size_of t = size_of s \<and>
           (\<forall>j. word_at j t = (if j \<in> set is' then f j else word_at j s))"
  using assms
proof (induction is' arbitrary: s)
  case Nil
  then show ?case by simp
next
  case (Cons i is')
  obtain u where u: "put i (f i) s = Some u" using put_defined Cons.prems by force
  from Cons.IH [of u] Cons.prems put_size [OF u] obtain t where
    "for_each (\<lambda>i. put i (f i)) is' u = Some t" "size_of t = size_of u"
    "\<forall>j. word_at j t = (if j \<in> set is' then f j else word_at j u)" by auto
  then show ?case using u put_size [OF u] put_word [OF u] by auto
qed

end

end
