(* ===== verification/Mpam_World.thy ===== *)
theory Mpam_World
  imports Acs_Machine
begin

text \<open>
  The data of the MPAM suite: the information tables the platform layer fills
  (pal_interface.h), the global variables of the validation layer, and the platform's
  register access, console and cache operations (pal_misc.c, val_test_infra.c).
  A pointer to a table is an option, NULL being \<open>None\<close>; a flexible array is the list of
  the entries that were written.
\<close>

subsection \<open>Constants of val_interface.h and val_cfg.h\<close>

definition ACS_PRINT_ERR :: u32 where [reg_defs]: "ACS_PRINT_ERR = 5"
definition ACS_PRINT_WARN :: u32 where [reg_defs]: "ACS_PRINT_WARN = 4"
definition ACS_PRINT_TEST :: u32 where [reg_defs]: "ACS_PRINT_TEST = 3"
definition ACS_PRINT_DEBUG :: u32 where [reg_defs]: "ACS_PRINT_DEBUG = 2"
definition ACS_PRINT_INFO :: u32 where [reg_defs]: "ACS_PRINT_INFO = 1"

definition ACS_STATUS_FAIL :: u32 where [reg_defs]: "ACS_STATUS_FAIL = 0x90000000"
definition ACS_STATUS_ERR :: u32 where [reg_defs]: "ACS_STATUS_ERR = 0xEDCB1234"
definition ACS_STATUS_SKIP :: u32 where [reg_defs]: "ACS_STATUS_SKIP = 0x10000000"
definition ACS_STATUS_PASS :: u32 where [reg_defs]: "ACS_STATUS_PASS = 0"
definition ACS_STATUS_EXIT :: u32 where [reg_defs]: "ACS_STATUS_EXIT = 0xFFFFFFFF"

definition MAX_TEST_SKIP_NUM :: nat where [reg_defs]: "MAX_TEST_SKIP_NUM = 3"
definition DMB :: u32 where [reg_defs]: "DMB = 0"
definition DSB :: u32 where [reg_defs]: "DSB = 1"
definition ISB :: u32 where [reg_defs]: "ISB = 2"
definition CLEAN_AND_INVALIDATE :: u32 where [reg_defs]: "CLEAN_AND_INVALIDATE = 1"
definition CLEAN :: u32 where [reg_defs]: "CLEAN = 2"
definition INVALIDATE :: u32 where [reg_defs]: "INVALIDATE = 3"

definition TIMEOUT_LARGE :: u32 where [reg_defs]: "TIMEOUT_LARGE = 0x1000000"
definition TIMEOUT_MEDIUM :: u32 where [reg_defs]: "TIMEOUT_MEDIUM = 0x100000"
definition TIMEOUT_SMALL :: u32 where [reg_defs]: "TIMEOUT_SMALL = 0x1000"

text \<open>CLEAR_BITS_M_TO_N keeps the bits above m and below n. The shift by m + 1 is a C shift
  of an unsigned 64-bit value: m = 63 would be undefined, and no caller passes it.\<close>

definition CLEAR_BITS_M_TO_N :: "u64 \<Rightarrow> nat \<Rightarrow> nat \<Rightarrow> u64" where
  "CLEAR_BITS_M_TO_N num m n = num AND (push_bit (m + 1) (NOT 0) OR (push_bit n 1 - 1))"

definition GET_MAX_VALUE :: "u32 \<Rightarrow> u32 \<Rightarrow> u32" where
  "GET_MAX_VALUE ax ay = (if ax > ay then ax else ay)"

definition GET_MIN_VALUE :: "u32 \<Rightarrow> u32 \<Rightarrow> u32" where
  "GET_MIN_VALUE ax ay = (if ax > ay then ay else ax)"

subsection \<open>Tables of pal_interface.h\<close>

record pe_info_entry =
  pe_num :: u32
  attr :: u32
  mpidr :: u64
  pmu_gsiv :: u32

record pe_info_table =
  num_of_pe :: u32
  pe_info :: "pe_info_entry list"

definition ENTRY_TYPE_CPUIF :: u32 where [reg_defs]: "ENTRY_TYPE_CPUIF = 0x1000"
definition ENTRY_TYPE_GICD :: u32 where [reg_defs]: "ENTRY_TYPE_GICD = 0x1001"
definition ENTRY_TYPE_GICRD :: u32 where [reg_defs]: "ENTRY_TYPE_GICRD = 0x1002"
definition ENTRY_TYPE_GICITS :: u32 where [reg_defs]: "ENTRY_TYPE_GICITS = 0x1003"

record gic_info_entry =
  gtype :: u32
  gbase :: u64

record gic_info_table =
  gic_version :: u32
  num_gicd :: u32
  num_gicrd :: u32
  num_its :: u32
  gic_info :: "gic_info_entry list"

definition INTR_EDGE_TRIGGER :: u32 where [reg_defs]: "INTR_EDGE_TRIGGER = 0"
definition INTR_LEVEL_TRIGGER :: u32 where [reg_defs]: "INTR_LEVEL_TRIGGER = 1"

record intr_info =
  error_intr_num :: u32
  overflow_intr_num :: u32
  error_intr_type :: u32
  overflow_intr_type :: u32

definition CACHE_SCOPE_PRIVATE :: u32 where [reg_defs]: "CACHE_SCOPE_PRIVATE = 0"
definition CACHE_SCOPE_CLUSTER :: u32 where [reg_defs]: "CACHE_SCOPE_CLUSTER = 1"
definition CACHE_SCOPE_SYSTEM :: u32 where [reg_defs]: "CACHE_SCOPE_SYSTEM = 2"

text \<open>The bit-fields of CACHE_NODE_INFO (24 and 8 bits) and CACHE_NODE_ATTR (2, 2, 1, 3).\<close>

record cache_node_entry =
  line_size :: u16
  csize :: u32
  neighbours :: "u64 list"
  scope_index :: "24 word"
  node_scope :: u8
  alloc_type :: "2 word"
  cache_type :: "2 word"
  write_policy :: "1 word"
  areserved :: "3 word"
  cn_hwreg_base :: u64
  cn_not_ready_max_us :: u32
  cn_intr :: intr_info

record memory_node_entry =
  proximity_domain :: u32
  base_address :: u64
  mlength :: u64
  flags :: u32
  mn_hwreg_base :: u64
  mn_not_ready_max_us :: u32
  mn_intr :: intr_info

definition MPAM_NODE_SMMU :: u8 where [reg_defs]: "MPAM_NODE_SMMU = 0"
definition MPAM_NODE_CACHE :: u8 where [reg_defs]: "MPAM_NODE_CACHE = 1"
definition MPAM_NODE_MEMORY :: u8 where [reg_defs]: "MPAM_NODE_MEMORY = 2"

record mpam_info =
  num_cache_nodes :: u32
  num_memory_nodes :: u32
  cache_node :: "cache_node_entry list"
  memory_node :: "memory_node_entry list"

subsection \<open>The global state of the suite\<close>

text \<open>
  The variables of MpamAcsMain.c, val_node_infra.c, val_csu_monitor.c, val_pe_infra.c,
  val_gic.c and pal_misc.c; the allocated buffers are the addresses the firmware returned.
\<close>

record globals =
  g_skip_test_num :: "u32 list"
  g_acs_tests_total :: u32
  g_acs_tests_pass :: u32
  g_acs_tests_fail :: u32
  g_stack_pointer :: u64
  g_exception_ret_addr :: u64
  g_ret_addr :: u64
  g_pe_info_table :: "pe_info_table option"
  g_gic_info_table :: "gic_info_table option"
  g_mpam_info_table :: "mpam_info list option"
  err_ctrl_reg :: u32
  csu_ctl_temp :: u32
  g_smc_args :: ARM_SMC_ARGS
  gSharedMemCpyBuf :: "u64 option list option"
  gSharedLatencyBuf :: "u64 option list option"
  gMpidrMax :: u64
  gSecondaryPeStack :: "u64 option"

record world = base +
  gl :: globals

subsection \<open>The elementary steps leave the globals alone\<close>

lemma elementary_gl [frame, simp]:
  "gl (log_io e s) = gl s" "gl (interfere hw s) = gl s"
  by (simp_all add: log_io_def interfere_def)

text \<open>A small machine for concrete runs: two PEs, the second with Aff3 = 1 and Aff0 = 1.\<close>

definition two_pe_world :: world where
  "two_pe_world =
     \<lparr>io = [], con = [], print_level = 5,
      shared = Some (replicate 2 \<lparr>data0 = 0, data1 = 0, status = 0\<rparr>),
      gl = \<lparr>g_skip_test_num = [10000, 10000, 10000], g_acs_tests_total = 0, g_acs_tests_pass = 0,
        g_acs_tests_fail = 0, g_stack_pointer = 0, g_exception_ret_addr = 0, g_ret_addr = 0,
        g_pe_info_table = Some \<lparr>num_of_pe = 2, pe_info =
          [\<lparr>pe_num = 0, attr = 0, mpidr = 0, pmu_gsiv = 23\<rparr>,
           \<lparr>pe_num = 1, attr = 0, mpidr = 0x100000001, pmu_gsiv = 23\<rparr>]\<rparr>,
        g_gic_info_table = None, g_mpam_info_table = None, err_ctrl_reg = 0, csu_ctl_temp = 0,
        g_smc_args = smc_zero, gSharedMemCpyBuf = None, gSharedLatencyBuf = None,
        gMpidrMax = 0, gSecondaryPeStack = None\<rparr>\<rparr>"

lemma world_eqI:
  assumes "io s = io t" "con s = con t" "print_level s = print_level t" "shared s = shared t"
    and "gl s = gl t"
  shows "s = (t :: world)"
  using assms by (cases s, cases t) simp

subsection \<open>Console\<close>

definition acs_print :: "u32 \<Rightarrow> string \<Rightarrow> u64 list \<Rightarrow> world \<Rightarrow> world" where
  "acs_print verbose str args s =
     (if verbose \<ge> print_level s then s\<lparr>con := (verbose, str, args) # con s\<rparr> else s)"

definition val_print :: "u32 \<Rightarrow> string \<Rightarrow> u64 \<Rightarrow> world \<Rightarrow> world" where
  "val_print level str data s =
     (if level \<ge> print_level s then s\<lparr>con := (level, str, [data]) # con s\<rparr> else s)"

lemma acs_print_more [frame, simp]:
  "io (acs_print l m a s) = io s" "print_level (acs_print l m a s) = print_level s"
  "shared (acs_print l m a s) = shared s" "gl (acs_print l m a s) = gl s"
  by (simp_all add: acs_print_def)

lemma val_print_more [frame, simp]:
  "io (val_print l m a s) = io s" "print_level (val_print l m a s) = print_level s"
  "shared (val_print l m a s) = shared s" "gl (val_print l m a s) = gl s"
  by (simp_all add: val_print_def)

subsection \<open>Memory-mapped registers\<close>

text \<open>A read masks the low two address bits and warns, a write uses the address as it is.\<close>

definition pal_mmio_read :: "hw \<Rightarrow> u64 \<Rightarrow> world \<Rightarrow> u32 \<times> world" where
  "pal_mmio_read hw addr s =
     (let s = (if addr AND 3 \<noteq> 0
               then acs_print ACS_PRINT_WARN
                      ''Error-Input address is not aligned. Masking the last 2 bits'' [] s
               else s);
          addr = (if addr AND 3 \<noteq> 0 then addr AND NOT 3 else addr);
          data = mmio_in hw (io s) addr;
          s = log_io (MmioRead addr) s;
          s = acs_print ACS_PRINT_INFO ''pal_mmio_read Address = %8x Data = %x''
                [addr, ucast data] s
      in (data, s))"

definition pal_mmio_write :: "u64 \<Rightarrow> u32 \<Rightarrow> world \<Rightarrow> world" where
  "pal_mmio_write addr data s =
     (let s = acs_print ACS_PRINT_INFO ''pal_mmio_write Address = %8x Data = %x''
                [addr, ucast data] s
      in log_io (MmioWrite addr data) s)"

definition val_mmio_read :: "hw \<Rightarrow> u64 \<Rightarrow> world \<Rightarrow> u32 \<times> world" where
  "val_mmio_read hw addr s = pal_mmio_read hw addr s"

definition val_mmio_write :: "u64 \<Rightarrow> u32 \<Rightarrow> world \<Rightarrow> world" where
  "val_mmio_write addr data s = pal_mmio_write addr data s"

definition mmio_addr :: "u64 \<Rightarrow> u64" where
  "mmio_addr a = (if a AND 3 \<noteq> 0 then a AND NOT 3 else a)"

lemma mmio_addr_aligned [simp]: "aligned4 a \<Longrightarrow> mmio_addr a = a"
  by (simp add: mmio_addr_def aligned4_def)

lemma fst_val_mmio_read [simp]:
  "fst (val_mmio_read hw a s) = mmio_in hw (io s) (mmio_addr a)"
  by (simp add: val_mmio_read_def pal_mmio_read_def mmio_addr_def Let_def)

lemma snd_val_mmio_read [frame, simp]:
  "io (snd (val_mmio_read hw a s)) = MmioRead (mmio_addr a) # io s"
  "print_level (snd (val_mmio_read hw a s)) = print_level s"
  "shared (snd (val_mmio_read hw a s)) = shared s"
  "gl (snd (val_mmio_read hw a s)) = gl s"
  by (simp_all add: val_mmio_read_def pal_mmio_read_def mmio_addr_def Let_def)

lemma val_mmio_write_sel [frame, simp]:
  "io (val_mmio_write a d s) = MmioWrite a d # io s"
  "print_level (val_mmio_write a d s) = print_level s"
  "shared (val_mmio_write a d s) = shared s"
  "gl (val_mmio_write a d s) = gl s"
  by (simp_all add: val_mmio_write_def pal_mmio_write_def Let_def)

lemma mmio_read_run [run]:
  assumes "val_mmio_read hw a s = (v, t)"
  shows "v = mmio_in hw (io s) (mmio_addr a)" "io t = MmioRead (mmio_addr a) # io s"
    "gl t = gl s" "shared t = shared s" "print_level t = print_level s"
  using fst_val_mmio_read [of hw a s] snd_val_mmio_read [of hw a s] by (simp_all add: assms)

subsection \<open>Barriers and caches\<close>

definition val_memory_ops_issue_barrier :: "u32 \<Rightarrow> world \<Rightarrow> world" where
  "val_memory_ops_issue_barrier type s =
     (if type = DMB then log_io (Barrier DMB) s
      else if type = DSB then log_io (Barrier DSB) s
      else if type = ISB then log_io (Barrier ISB) s
      else log_io (Barrier DSB) s)"

definition pal_pe_data_cache_ops_by_va :: "loc \<Rightarrow> u32 \<Rightarrow> world \<Rightarrow> world" where
  "pal_pe_data_cache_ops_by_va addr type s =
     (if type = CLEAN_AND_INVALIDATE then log_io (CacheOp addr CLEAN_AND_INVALIDATE) s
      else if type = CLEAN then log_io (CacheOp addr CLEAN) s
      else if type = INVALIDATE then log_io (CacheOp addr INVALIDATE) s
      else log_io (CacheOp addr CLEAN_AND_INVALIDATE) s)"

definition val_data_cache_ops_by_va :: "loc \<Rightarrow> u32 \<Rightarrow> world \<Rightarrow> world" where
  "val_data_cache_ops_by_va addr type s = pal_pe_data_cache_ops_by_va addr type s"

lemma barrier_DSB [simp]: "val_memory_ops_issue_barrier DSB s = log_io (Barrier DSB) s"
  by (simp add: val_memory_ops_issue_barrier_def)

lemma cache_ops [simp]:
  "val_data_cache_ops_by_va l CLEAN_AND_INVALIDATE s = log_io (CacheOp l CLEAN_AND_INVALIDATE) s"
  "val_data_cache_ops_by_va l INVALIDATE s = log_io (CacheOp l INVALIDATE) s"
  "val_data_cache_ops_by_va l CLEAN s = log_io (CacheOp l CLEAN) s"
  by (simp_all add: val_data_cache_ops_by_va_def pal_pe_data_cache_ops_by_va_def reg_defs)

end
