(* ===== verification/Mpam_Status.thy ===== *)
theory Mpam_Status
  imports Mpam_World Acs_Interfaces
begin

text \<open>
  Status words (val_common.h, val_status.c): a 32-bit word holds the state of a test in its
  top four bits, the test number from bit 16 and the failure code below. The words are kept
  in the shared memory, one per PE, and printed at the end of a test.
\<close>

subsection \<open>Encoding\<close>

definition STATE_BIT :: nat where [reg_defs]: "STATE_BIT = 28"
definition STATE_MASK :: u32 where [reg_defs]: "STATE_MASK = 0xF"
definition TEST_START_VAL :: u32 where [reg_defs]: "TEST_START_VAL = 0x1"
definition TEST_END_VAL :: u32 where [reg_defs]: "TEST_END_VAL = 0x2"
definition TEST_PASS_VAL :: u32 where [reg_defs]: "TEST_PASS_VAL = 0x4"
definition TEST_FAIL_VAL :: u32 where [reg_defs]: "TEST_FAIL_VAL = 0x8"
definition TEST_SKIP_VAL :: u32 where [reg_defs]: "TEST_SKIP_VAL = 0x9"
definition TEST_PENDING_VAL :: u32 where [reg_defs]: "TEST_PENDING_VAL = 0xA"
definition TEST_NUM_BIT :: nat where [reg_defs]: "TEST_NUM_BIT = 16"
definition TEST_NUM_MASK :: u32 where [reg_defs]: "TEST_NUM_MASK = 0xFF"

definition ACS_TEST_START :: "u32 \<Rightarrow> u32" where
  "ACS_TEST_START test_num = push_bit STATE_BIT TEST_START_VAL OR push_bit TEST_NUM_BIT test_num"

definition ACS_TEST_END :: "u32 \<Rightarrow> u32" where
  "ACS_TEST_END test_num = push_bit STATE_BIT TEST_END_VAL OR push_bit TEST_NUM_BIT test_num"

definition RESULT_PASS :: "u32 \<Rightarrow> u32 \<Rightarrow> u32" where
  "RESULT_PASS test_num st =
     push_bit STATE_BIT TEST_PASS_VAL OR push_bit TEST_NUM_BIT test_num OR st"

definition RESULT_FAIL :: "u32 \<Rightarrow> u32 \<Rightarrow> u32" where
  "RESULT_FAIL test_num st =
     push_bit STATE_BIT TEST_FAIL_VAL OR push_bit TEST_NUM_BIT test_num OR st"

definition RESULT_SKIP :: "u32 \<Rightarrow> u32 \<Rightarrow> u32" where
  "RESULT_SKIP test_num st =
     push_bit STATE_BIT TEST_SKIP_VAL OR push_bit TEST_NUM_BIT test_num OR st"

definition RESULT_PENDING :: "u32 \<Rightarrow> u32" where
  "RESULT_PENDING test_num =
     push_bit STATE_BIT TEST_PENDING_VAL OR push_bit TEST_NUM_BIT test_num"

definition IS_TEST_START :: "u32 \<Rightarrow> bool" where
  "IS_TEST_START v \<longleftrightarrow> drop_bit STATE_BIT v AND STATE_MASK = TEST_START_VAL"
definition IS_TEST_END :: "u32 \<Rightarrow> bool" where
  "IS_TEST_END v \<longleftrightarrow> drop_bit STATE_BIT v AND STATE_MASK = TEST_END_VAL"
definition IS_RESULT_PENDING :: "u32 \<Rightarrow> bool" where
  "IS_RESULT_PENDING v \<longleftrightarrow> drop_bit STATE_BIT v AND STATE_MASK = TEST_PENDING_VAL"
definition IS_TEST_PASS :: "u32 \<Rightarrow> bool" where
  "IS_TEST_PASS v \<longleftrightarrow> drop_bit STATE_BIT v AND STATE_MASK = TEST_PASS_VAL"
definition IS_TEST_FAIL :: "u32 \<Rightarrow> bool" where
  "IS_TEST_FAIL v \<longleftrightarrow> drop_bit STATE_BIT v AND STATE_MASK = TEST_FAIL_VAL"
definition IS_TEST_SKIP :: "u32 \<Rightarrow> bool" where
  "IS_TEST_SKIP v \<longleftrightarrow> drop_bit STATE_BIT v AND STATE_MASK = TEST_SKIP_VAL"
definition IS_TEST_FAIL_SKIP :: "u32 \<Rightarrow> bool" where
  "IS_TEST_FAIL_SKIP v \<longleftrightarrow> IS_TEST_FAIL v \<or> IS_TEST_SKIP v"

lemmas is_test_defs =
  IS_TEST_START_def IS_TEST_END_def IS_RESULT_PENDING_def IS_TEST_PASS_def IS_TEST_FAIL_def
  IS_TEST_SKIP_def IS_TEST_FAIL_SKIP_def

lemmas result_defs =
  ACS_TEST_START_def ACS_TEST_END_def RESULT_PASS_def RESULT_FAIL_def RESULT_SKIP_def
  RESULT_PENDING_def

text \<open>
  The fields do not overlap as long as the state has 4 bits, the test number at most 12 and
  the code at most 16: then each is read back.
\<close>

definition mk_status :: "u32 \<Rightarrow> u32 \<Rightarrow> u32 \<Rightarrow> u32" where
  "mk_status v n st = push_bit 28 v OR push_bit 16 n OR st"

lemma mk_status_state:
  assumes "v < 2 ^ 4" "n < 2 ^ 12" "st < 2 ^ 16"
  shows "drop_bit 28 (mk_status v n st) AND 0xF = v"
proof (rule bit_word_eqI)
  fix i assume "i < LENGTH(32)"
  show "bit (drop_bit 28 (mk_status v n st) AND 0xF) i = bit v i"
    using bit_below [OF assms(1), of i] bit_below [OF assms(2), of "12 + i"]
      bit_below [OF assms(3), of "28 + i"]
    by (cases "i < 4") (auto simp: mk_status_def and_low_mask bit_simps)
qed

lemma mk_status_num:
  assumes "n < 2 ^ 12" "st < 2 ^ 16"
  shows "drop_bit 16 (mk_status v n st) AND 0xFFF = n"
proof (rule bit_word_eqI)
  fix i assume "i < LENGTH(32)"
  show "bit (drop_bit 16 (mk_status v n st) AND 0xFFF) i = bit n i"
    using bit_below [OF assms(1), of i] bit_below [OF assms(2), of "16 + i"]
    by (auto simp: mk_status_def and_low_mask bit_simps)
qed

lemma mk_status_code:
  assumes "st < 2 ^ 16"
  shows "mk_status v n st AND 0xFFFF = st"
proof (rule bit_word_eqI)
  fix i assume "i < LENGTH(32)"
  show "bit (mk_status v n st AND 0xFFFF) i = bit st i"
    using bit_below [OF assms(1), of i] by (auto simp: mk_status_def and_low_mask bit_simps)
qed

lemma results_mk_status:
  "ACS_TEST_START n = mk_status 1 n 0" "ACS_TEST_END n = mk_status 2 n 0"
  "RESULT_PASS n st = mk_status 4 n st" "RESULT_FAIL n st = mk_status 8 n st"
  "RESULT_SKIP n st = mk_status 9 n st" "RESULT_PENDING n = mk_status 10 n 0"
  by (simp_all add: result_defs reg_defs mk_status_def)

lemma small_result_states:
  assumes "n < 0x1000" "st < 0x10000"
  shows "drop_bit 28 (RESULT_PASS n st) AND 0xF = 4" "drop_bit 28 (RESULT_FAIL n st) AND 0xF = 8"
    "drop_bit 28 (RESULT_SKIP n st) AND 0xF = 9" "drop_bit 28 (RESULT_PENDING n) AND 0xF = 10"
    "drop_bit 28 (ACS_TEST_START n) AND 0xF = 1" "drop_bit 28 (ACS_TEST_END n) AND 0xF = 2"
  using assms by (simp_all add: results_mk_status mk_status_state)

lemma small_results_classified:
  assumes "n < 0x1000" "st < 0x10000"
  shows "IS_TEST_PASS (RESULT_PASS n st)" "\<not> IS_TEST_FAIL_SKIP (RESULT_PASS n st)"
    "IS_TEST_FAIL (RESULT_FAIL n st)" "\<not> IS_TEST_PASS (RESULT_FAIL n st)"
    "\<not> IS_TEST_SKIP (RESULT_FAIL n st)"
    "IS_TEST_SKIP (RESULT_SKIP n st)" "\<not> IS_TEST_PASS (RESULT_SKIP n st)"
    "\<not> IS_TEST_FAIL (RESULT_SKIP n st)"
    "IS_RESULT_PENDING (RESULT_PENDING n)" "\<not> IS_RESULT_PENDING (RESULT_PASS n st)"
    "\<not> IS_RESULT_PENDING (RESULT_FAIL n st)" "\<not> IS_RESULT_PENDING (RESULT_SKIP n st)"
    "\<not> IS_TEST_PASS (RESULT_PENDING n)" "\<not> IS_TEST_FAIL_SKIP (RESULT_PENDING n)"
  using assms by (simp_all add: is_test_defs reg_defs small_result_states)

subsection \<open>Reporting\<close>

text \<open>The line val_report_status prints, level and text.\<close>

definition val_report_status :: "u32 \<Rightarrow> u32 \<Rightarrow> world \<Rightarrow> world" where
  "val_report_status index st s =
     (let s = (if IS_TEST_FAIL st
               then val_print ACS_PRINT_ERR ''Failed on PE - %4d'' (ucast index) s else s)
      in if IS_TEST_PASS st then val_print ACS_PRINT_TEST '': Result:  PASS'' (ucast st) s
         else if IS_TEST_FAIL st
         then val_print ACS_PRINT_ERR '': Result:  --FAIL-- %x'' (ucast (st AND 0xFFFF)) s
         else if IS_TEST_SKIP st
         then val_print ACS_PRINT_WARN '': Result:  -SKIPPED- %x'' (ucast (st AND 0xFFFF)) s
         else if IS_TEST_START st then val_print ACS_PRINT_INFO ''START'' (ucast st) s
         else if IS_TEST_END st then val_print ACS_PRINT_INFO ''END'' (ucast st) s
         else val_print ACS_PRINT_ERR '': Result:  %8x'' (ucast st) s)"

lemma val_report_status_frame [frame, simp]:
  "io (val_report_status i st s) = io s" "print_level (val_report_status i st s) = print_level s"
  "shared (val_report_status i st s) = shared s"
  "gl (val_report_status i st s) = gl s"
  by (simp_all add: val_report_status_def Let_def)

subsection \<open>Status words in shared memory\<close>

text \<open>
  Writing or reading past the allocated entries, or before the memory is allocated, is
  undefined behaviour of the C code. Between the cache invalidation and the read the other
  PEs may have stored their own words.
\<close>

definition val_set_status :: "u32 \<Rightarrow> u32 \<Rightarrow> world \<Rightarrow> world option" where
  "val_set_status index st s =
     do { mem \<leftarrow> shared s;
          e \<leftarrow> at mem (unat index);
          let s = s\<lparr>shared := Some (mem[unat index := e\<lparr>status := st\<rparr>])\<rparr>;
          Some (val_data_cache_ops_by_va (LShared (unat index) ''status'') CLEAN_AND_INVALIDATE s) }"

definition val_get_status :: "hw \<Rightarrow> u32 \<Rightarrow> world \<Rightarrow> (u32 \<times> world) option" where
  "val_get_status hw index s =
     (let s = interfere hw (val_data_cache_ops_by_va (LShared (unat index) ''status'') INVALIDATE s)
      in do { mem \<leftarrow> shared s;
              e \<leftarrow> at mem (unat index);
              Some (status e, s) })"

text \<open>What is stored for a PE, and how many entries there are.\<close>

definition shared_size :: "'a base_scheme \<Rightarrow> nat" where
  "shared_size s = (case shared s of None \<Rightarrow> 0 | Some mem \<Rightarrow> length mem)"

definition status_word :: "u32 \<Rightarrow> 'a base_scheme \<Rightarrow> u32" where
  "status_word i s = (case shared s of None \<Rightarrow> 0 | Some mem \<Rightarrow>
                        if unat i < length mem then status (mem ! unat i) else 0)"

lemma shared_size_cong: "shared s = shared t \<Longrightarrow> shared_size s = shared_size t"
  by (simp add: shared_size_def)

lemma val_set_status_run [run]:
  assumes "val_set_status i v s = Some t"
  shows "gl t = gl s" "con t = con s" "print_level t = print_level s" "shared_size t = shared_size s"
    "status_word j t = (if j = i then v else status_word j s)"
    "io t = CacheOp (LShared (unat i) ''status'') CLEAN_AND_INVALIDATE # io s"
  using assms
  by (auto simp: val_set_status_def at_eq_Some Option.bind_eq_Some_conv shared_size_def status_word_def
      nth_list_update word_unat_eq_iff Let_def)

lemma val_set_status_defined [run]:
  "(\<exists>t. val_set_status i v s = Some t) \<longleftrightarrow> unat i < shared_size s"
  by (auto simp: val_set_status_def at_eq_Some Option.bind_eq_Some_conv shared_size_def Let_def
      split: option.splits)

lemma val_get_status_run [run]:
  assumes "val_get_status hw i s = Some (v, t)"
  shows "gl t = gl s" "con t = con s" "print_level t = print_level s"
    "v = status_word i t"
  using assms
  by (auto simp: val_get_status_def at_eq_Some Option.bind_eq_Some_conv status_word_def Let_def)

lemma val_get_status_quiet [run]:
  assumes "quiet_peers hw" "unat i < shared_size s"
  shows "val_get_status hw i s =
    Some (status_word i s, log_io (CacheOp (LShared (unat i) ''status'') INVALIDATE) s)"
  using assms
  by (auto simp: val_get_status_def shared_size_def status_word_def split: option.splits)

lemma val_get_status_quiet_shared:
  assumes "quiet_peers hw" "val_get_status hw i s = Some (v, t)"
  shows "shared t = shared s" "unat i < shared_size s"
  using assms
  by (auto simp: val_get_status_def shared_size_def Option.bind_eq_Some_conv at_eq_Some)

lemma status_word_cong: "shared s = shared t \<Longrightarrow> status_word i s = status_word i t"
  by (simp add: status_word_def)

text \<open>The MPAM status words are a status store.\<close>

interpretation mpam_status: status_store "quiet_peers hw" shared_size val_set_status
  "val_get_status hw" status_word for hw
proof
  fix i v and s t :: world
  show "unat i < shared_size s \<Longrightarrow> \<exists>t. val_set_status i v s = Some t"
    by (simp add: val_set_status_defined)
  show "val_set_status i v s = Some t \<Longrightarrow> shared_size t = shared_size s"
    by (rule val_set_status_run)
  show "val_set_status i v s = Some t \<Longrightarrow>
      status_word j t = (if j = i then v else status_word j s)" for j
    by (rule val_set_status_run)
  show "quiet_peers hw \<Longrightarrow> unat i < shared_size s \<Longrightarrow>
      \<exists>t. val_get_status hw i s = Some (status_word i s, t)"
    by (simp add: val_get_status_quiet)
  show "quiet_peers hw \<Longrightarrow> val_get_status hw i s = Some (v, t) \<Longrightarrow>
      status_word j t = status_word j s" for j
    by (metis val_get_status_quiet_shared(1) status_word_cong)
  show "quiet_peers hw \<Longrightarrow> val_get_status hw i s = Some (v, t) \<Longrightarrow> shared_size t = shared_size s"
    by (metis val_get_status_quiet_shared(1) shared_size_cong)
qed

end
