(* ===== verification/Mpam_Pe.thy ===== *)
theory Mpam_Pe
  imports Mpam_Status
begin

text \<open>
  Processing elements (val_pe.c, val_pe_infra.c, val_pe.h): the system registers behind their
  identifiers, the PE table and the searches in it. A function that follows a NULL table or
  an index outside the table is undefined.
\<close>

subsection \<open>System registers\<close>

datatype (plugins only: code size) MPAM_ACS_PE_REGS =
    MPIDR_EL1 | ID_AA64PFR0_EL1 | ID_AA64PFR1_EL1 | ID_AA64MMFR0_EL1
  | ID_AA64MMFR1_EL1 | ID_AA64MMFR2_EL1 | ID_AA64DFR0_EL1 | ID_AA64DFR1_EL1
  | CTR_EL0 | ID_AA64ISAR0_EL1 | ID_AA64ISAR1_EL1 | SCTLR_EL3
  | SCTLR_EL2 | PMOVSSET_EL0 | PMOVSCLR_EL0 | PMINTENSET_EL1
  | PMINTENCLR_EL1 | CurrentEL | MDCR_EL2 | VBAR_EL2
  | CCSIDR_EL1 | CSSELR_EL1 | CLIDR_EL1 | ID_DFR0_EL1
  | ID_ISAR0_EL1 | ID_ISAR1_EL1 | ID_ISAR2_EL1 | ID_ISAR3_EL1
  | ID_ISAR4_EL1 | ID_ISAR5_EL1 | MIDR_EL1 | MVFR0_EL1
  | MVFR1_EL1 | MVFR2_EL1 | PMCEID0_EL0 | PMCEID1_EL0
  | VMPIDR_EL2 | VPIDR_EL2 | PMBIDR_EL1 | PMSIDR_EL1
  | LORID_EL1 | ERRIDR_EL1 | ERR0FR_EL1 | ERR1FR_EL1
  | ERR2FR_EL1 | ERR3FR_EL1 | PMSIRR_EL1 | PMSCR_EL2
  | PMSFCR_EL1 | PMBPTR_EL1 | PMBLIMITR_EL1 | ESR_EL2
  | FAR_EL2

text \<open>The accessor each identifier selects; the identifiers that have none take the default branch.\<close>

definition reg_reader :: "MPAM_ACS_PE_REGS \<Rightarrow> string option" where
  "reg_reader r =
     (case r of
        MPIDR_EL1 \<Rightarrow> Some ''arm64_read_mpidr''
      | ID_AA64PFR0_EL1 \<Rightarrow> Some ''arm64_read_idpfr0''
      | ID_AA64PFR1_EL1 \<Rightarrow> Some ''arm64_read_idpfr1''
      | ID_AA64MMFR0_EL1 \<Rightarrow> Some ''arm64_read_mmfr0''
      | ID_AA64MMFR1_EL1 \<Rightarrow> Some ''arm64_read_mmfr1''
      | ID_AA64MMFR2_EL1 \<Rightarrow> Some ''arm64_read_mmfr2''
      | CTR_EL0 \<Rightarrow> Some ''arm64_read_ctr''
      | ID_AA64ISAR0_EL1 \<Rightarrow> Some ''arm64_read_isar0''
      | ID_AA64ISAR1_EL1 \<Rightarrow> Some ''arm64_read_isar1''
      | SCTLR_EL3 \<Rightarrow> Some ''arm64_read_sctlr3''
      | SCTLR_EL2 \<Rightarrow> Some ''arm64_read_sctlr2''
      | ID_AA64DFR0_EL1 \<Rightarrow> Some ''arm64_read_iddfr0''
      | ID_AA64DFR1_EL1 \<Rightarrow> Some ''arm64_read_iddfr1''
      | CurrentEL \<Rightarrow> Some ''arm64_read_cur_el''
      | MDCR_EL2 \<Rightarrow> Some ''arm64_read_mdcr2''
      | VBAR_EL2 \<Rightarrow> Some ''arm64_read_vbar2''
      | CCSIDR_EL1 \<Rightarrow> Some ''arm64_read_ccsidr''
      | CSSELR_EL1 \<Rightarrow> Some ''arm64_read_csselr''
      | CLIDR_EL1 \<Rightarrow> Some ''arm64_read_clidr''
      | ID_DFR0_EL1 \<Rightarrow> Some ''arm_read_dfr0''
      | ID_ISAR0_EL1 \<Rightarrow> Some ''arm_read_isar0''
      | ID_ISAR1_EL1 \<Rightarrow> Some ''arm_read_isar1''
      | ID_ISAR2_EL1 \<Rightarrow> Some ''arm_read_isar2''
      | ID_ISAR3_EL1 \<Rightarrow> Some ''arm_read_isar3''
      | ID_ISAR4_EL1 \<Rightarrow> Some ''arm_read_isar4''
      | ID_ISAR5_EL1 \<Rightarrow> Some ''arm_read_isar5''
      | MIDR_EL1 \<Rightarrow> Some ''arm_read_midr''
      | MVFR0_EL1 \<Rightarrow> Some ''arm_read_mvfr0''
      | MVFR1_EL1 \<Rightarrow> Some ''arm_read_mvfr1''
      | MVFR2_EL1 \<Rightarrow> Some ''arm_read_mvfr2''
      | PMCEID0_EL0 \<Rightarrow> Some ''arm64_read_pmceid0''
      | PMCEID1_EL0 \<Rightarrow> Some ''arm64_read_pmceid1''
      | VMPIDR_EL2 \<Rightarrow> Some ''arm64_read_vmpidr''
      | VPIDR_EL2 \<Rightarrow> Some ''arm64_read_vpidr''
      | PMBIDR_EL1 \<Rightarrow> Some ''arm64_read_pmbidr''
      | PMSIDR_EL1 \<Rightarrow> Some ''arm64_read_pmsidr''
      | LORID_EL1 \<Rightarrow> Some ''arm64_read_lorid''
      | ERRIDR_EL1 \<Rightarrow> Some ''arm64_read_erridr''
      | ERR0FR_EL1 \<Rightarrow> Some ''arm64_read_err0fr''
      | ERR1FR_EL1 \<Rightarrow> Some ''arm64_read_err1fr''
      | ERR2FR_EL1 \<Rightarrow> Some ''arm64_read_err2fr''
      | ERR3FR_EL1 \<Rightarrow> Some ''arm64_read_err3fr''
      | ESR_EL2 \<Rightarrow> Some ''arm64_read_esr2''
      | FAR_EL2 \<Rightarrow> Some ''arm64_read_far2''
      | _ \<Rightarrow> None)"

definition reg_writer :: "MPAM_ACS_PE_REGS \<Rightarrow> string option" where
  "reg_writer r =
     (case r of
        CSSELR_EL1 \<Rightarrow> Some ''arm64_write_csselr''
      | PMOVSSET_EL0 \<Rightarrow> Some ''arm64_write_pmovsset''
      | PMOVSCLR_EL0 \<Rightarrow> Some ''arm64_write_pmovsclr''
      | PMINTENSET_EL1 \<Rightarrow> Some ''arm64_write_pmintenset''
      | PMINTENCLR_EL1 \<Rightarrow> Some ''arm64_write_pmintenclr''
      | MDCR_EL2 \<Rightarrow> Some ''arm64_write_mdcr2''
      | VBAR_EL2 \<Rightarrow> Some ''arm64_write_vbar2''
      | PMSIRR_EL1 \<Rightarrow> Some ''arm64_write_pmsirr''
      | PMSCR_EL2 \<Rightarrow> Some ''arm64_write_pmscr2''
      | PMSFCR_EL1 \<Rightarrow> Some ''arm64_write_pmsfcr''
      | PMBPTR_EL1 \<Rightarrow> Some ''arm64_write_pmbptr''
      | PMBLIMITR_EL1 \<Rightarrow> Some ''arm64_write_pmblimitr''
      | _ \<Rightarrow> None)"

definition EXCEPT_AARCH64_SYNC :: u32 where [reg_defs]: "EXCEPT_AARCH64_SYNC = 0"

subsection \<open>The PE table\<close>

definition val_pe_get_num :: "world \<Rightarrow> u32" where
  "val_pe_get_num s =
     (case g_pe_info_table (gl s) of None \<Rightarrow> 0 | Some t \<Rightarrow> num_of_pe t)"

text \<open>The affinity bits of MPIDR_EL1, packed: Aff3 moves from bit 32 to bit 24.\<close>

definition affx :: "u64 \<Rightarrow> u64" where
  "affx d = push_bit 24 (drop_bit 32 d AND 0xFF) OR (d AND 0xFFFFFF)"

definition val_pe_get_mpid :: "hw \<Rightarrow> world \<Rightarrow> u64 \<times> world" where
  "val_pe_get_mpid hw s = (affx (mpidr_in hw), log_io (SysRead ''arm64_read_mpidr'') s)"

definition val_pe_get_mpid_index :: "u32 \<Rightarrow> world \<Rightarrow> (u64 \<times> world) option" where
  "val_pe_get_mpid_index index s =
     do { t \<leftarrow> g_pe_info_table (gl s);
          if index > num_of_pe t
          then Some (0xFFFFFF, val_report_status index (RESULT_FAIL 0 0xFF) s)
          else do { e \<leftarrow> at (pe_info t) (unat index); Some (mpidr e, s) } }"

text \<open>The search runs num_of_pe steps over the entries; zero is the failsafe answer.\<close>

fun find_pe :: "pe_info_entry list \<Rightarrow> nat \<Rightarrow> u64 \<Rightarrow> u32 option" where
  "find_pe es 0 mpid = Some 0"
| "find_pe [] (Suc i) mpid = None"
| "find_pe (e # es) (Suc i) mpid = (if mpidr e = mpid then Some (pe_num e) else find_pe es i mpid)"

definition val_pe_get_index_mpid :: "u64 \<Rightarrow> world \<Rightarrow> u32 option" where
  "val_pe_get_index_mpid mpid s =
     do { t \<leftarrow> g_pe_info_table (gl s); find_pe (pe_info t) (unat (num_of_pe t)) mpid }"

text \<open>The index of this PE, as every caller asks for it.\<close>

definition my_index :: "hw \<Rightarrow> world \<Rightarrow> (u32 \<times> world) option" where
  "my_index hw s =
     (let (m, s) = val_pe_get_mpid hw s
      in do { i \<leftarrow> val_pe_get_index_mpid m s; Some (i, s) })"

definition val_pe_reg_read :: "hw \<Rightarrow> MPAM_ACS_PE_REGS \<Rightarrow> world \<Rightarrow> (u64 \<times> world) option" where
  "val_pe_reg_read hw reg_id s =
     (if reg_id = MPIDR_EL1
      then Some (mpidr_in hw, log_io (SysRead ''arm64_read_mpidr'') s)
      else case reg_reader reg_id of
        Some r \<Rightarrow> Some (read_sysreg hw r s)
      | None \<Rightarrow> do { (i, s) \<leftarrow> my_index hw s;
                     Some (0, val_report_status i (RESULT_FAIL 0 0x78) s) })"

definition val_pe_reg_write :: "hw \<Rightarrow> MPAM_ACS_PE_REGS \<Rightarrow> u64 \<Rightarrow> world \<Rightarrow> world option" where
  "val_pe_reg_write hw reg_id write_data s =
     (case reg_writer reg_id of
        Some r \<Rightarrow> Some (write_sysreg r write_data s)
      | None \<Rightarrow> do { (i, s) \<leftarrow> my_index hw s;
                     Some (val_report_status i (RESULT_FAIL 0 0x78) s) })"

text \<open>The result is uint8_t.\<close>

definition val_is_el3_enabled :: "hw \<Rightarrow> world \<Rightarrow> (u8 \<times> world) option" where
  "val_is_el3_enabled hw s =
     do { (data, s) \<leftarrow> val_pe_reg_read hw ID_AA64PFR0_EL1 s;
          Some (ucast (drop_bit 12 data AND 0xF), s) }"

definition val_is_el2_enabled :: "hw \<Rightarrow> world \<Rightarrow> (u8 \<times> world) option" where
  "val_is_el2_enabled hw s =
     do { (data, s) \<leftarrow> val_pe_reg_read hw ID_AA64PFR0_EL1 s;
          Some (ucast (drop_bit 8 data AND 0xF), s) }"

definition val_pe_get_pmu_gsiv :: "u32 \<Rightarrow> world \<Rightarrow> (u32 \<times> world) option" where
  "val_pe_get_pmu_gsiv index s =
     do { t \<leftarrow> g_pe_info_table (gl s);
          if index > num_of_pe t
          then Some (0xFFFFFF, val_report_status index (RESULT_FAIL 0 0xFF) s)
          else do { e \<leftarrow> at (pe_info t) (unat index); Some (pmu_gsiv e, s) } }"

subsection \<open>The table is a directory\<close>

text \<open>
  A table is well formed when its num_of_pe entries are there, numbered in order, with
  distinct identifiers; pal_pe_create_info_table builds such tables.
\<close>

definition wf_pe_table :: "pe_info_table \<Rightarrow> bool" where
  "wf_pe_table t \<longleftrightarrow>
     length (pe_info t) = unat (num_of_pe t) \<and>
     (\<forall>k<length (pe_info t). pe_num (pe_info t ! k) = of_nat k) \<and>
     distinct (map mpidr (pe_info t))"

definition wf_pe :: "world \<Rightarrow> bool" where
  "wf_pe s \<longleftrightarrow> (\<exists>t. g_pe_info_table (gl s) = Some t \<and> wf_pe_table t)"

lemma wf_pe_cong: "gl s = gl t \<Longrightarrow> wf_pe s = wf_pe t"
  by (simp add: wf_pe_def)

lemma find_pe_find:
  "n \<le> length es \<Longrightarrow> find_pe es n m =
     Some (case find (\<lambda>e. mpidr e = m) (take n es) of None \<Rightarrow> 0 | Some e \<Rightarrow> pe_num e)"
  by (induction es n m rule: find_pe.induct) auto

lemma find_pe_hit:
  assumes "k < n" "n \<le> length es" "distinct (map mpidr es)" "mpidr (es ! k) = m"
  shows "find_pe es n m = Some (pe_num (es ! k))"
proof -
  have "find (\<lambda>e. mpidr e = m) (take n es) = Some (es ! k)"
    unfolding find_Some_iff
  proof (intro exI [of _ k] conjI allI impI)
    fix j assume "j < k"
    then show "\<not> mpidr (take n es ! j) = m"
      using assms by (auto simp: distinct_conv_nth)
  qed (use assms in auto)
  with assms(2) show ?thesis by (simp add: find_pe_find)
qed

lemma find_pe_miss:
  assumes "n \<le> length es" "\<forall>e\<in>set (take n es). mpidr e \<noteq> m"
  shows "find_pe es n m = Some 0"
proof -
  have "find (\<lambda>e. mpidr e = m) (take n es) = None"
    using assms(2) by (simp add: find_None_iff)
  with assms(1) show ?thesis by (simp add: find_pe_find)
qed

interpretation mpam_pe: failsafe_directory wf_pe val_pe_get_num
  "\<lambda>i s. map_option fst (val_pe_get_mpid_index i s)" val_pe_get_index_mpid 0
proof
  fix s :: world and i :: u32 and m :: u64
  assume "wf_pe s"
  then obtain t where t: "g_pe_info_table (gl s) = Some t" "wf_pe_table t"
    by (auto simp: wf_pe_def)
  have len: "length (pe_info t) = unat (num_of_pe t)" using t(2) by (simp add: wf_pe_table_def)
  have at_i: "map_option fst (val_pe_get_mpid_index j s) = Some (mpidr (pe_info t ! unat j))"
    if "j < val_pe_get_num s" for j
    using that t(1) len
    by (auto simp: val_pe_get_mpid_index_def val_pe_get_num_def word_less_nat_alt)
  show "\<exists>m. map_option fst (val_pe_get_mpid_index i s) = Some m" if "i < val_pe_get_num s"
    using at_i [OF that] by blast
  show "val_pe_get_index_mpid m s = Some i"
    if i: "i < val_pe_get_num s" "map_option fst (val_pe_get_mpid_index i s) = Some m"
  proof -
    have "unat i < length (pe_info t)"
      using i(1) t(1) len by (simp add: val_pe_get_num_def word_less_nat_alt)
    moreover have "mpidr (pe_info t ! unat i) = m" using at_i [OF i(1)] i(2) by simp
    ultimately show ?thesis
      using t find_pe_hit [of "unat i" "unat (num_of_pe t)" "pe_info t" m] len
      by (simp add: val_pe_get_index_mpid_def wf_pe_table_def)
  qed
  show "val_pe_get_index_mpid m s = Some 0"
    if none: "\<forall>i<val_pe_get_num s. map_option fst (val_pe_get_mpid_index i s) \<noteq> Some m"
  proof -
    have "mpidr e \<noteq> m" if "e \<in> set (pe_info t)" for e
    proof -
      from that obtain k where k: "k < length (pe_info t)" "e = pe_info t ! k"
        by (auto simp: in_set_conv_nth)
      then have "unat (of_nat k :: u32) = k"
        using len by (simp add: unat_of_nat_below)
      then show ?thesis
        using none k len at_i [of "of_nat k"] t(1)
        by (auto simp: val_pe_get_num_def word_less_nat_alt)
    qed
    then show ?thesis
      using t len find_pe_miss [of "unat (num_of_pe t)" "pe_info t" m]
      by (simp add: val_pe_get_index_mpid_def)
  qed
qed simp

lemma val_pe_frame [frame, run]:
  "my_index hw s = Some (i, t) \<Longrightarrow> gl t = gl s \<and> shared t = shared s \<and> con t = con s \<and>
     print_level t = print_level s \<and> io t = SysRead ''arm64_read_mpidr'' # io s"
  by (auto simp: my_index_def val_pe_get_mpid_def Option.bind_eq_Some_conv)

lemma val_pe_get_num_cong: "gl s = gl t \<Longrightarrow> val_pe_get_num s = val_pe_get_num t"
  by (simp add: val_pe_get_num_def)

lemma val_pe_get_index_mpid_cong:
  "gl s = gl t \<Longrightarrow> val_pe_get_index_mpid m s = val_pe_get_index_mpid m t"
  by (simp add: val_pe_get_index_mpid_def)

lemma my_index_eq:
  assumes "val_pe_get_index_mpid (affx (mpidr_in hw)) s = Some i"
  shows "my_index hw s = Some (i, log_io (SysRead ''arm64_read_mpidr'') s)"
  using assms
  by (simp add: my_index_def val_pe_get_mpid_def val_pe_get_index_mpid_cong [of "log_io e s" s for e])

lemma my_index_defined:
  assumes "wf_pe s" "0 < val_pe_get_num s"
  obtains i where "my_index hw s = Some (i, log_io (SysRead ''arm64_read_mpidr'') s)"
    "i < val_pe_get_num s"
  using mpam_pe.index_of_less [OF assms] my_index_eq by metis

subsection \<open>Finding this PE\<close>

lemma aff3_mask: "(d AND 0xFF00FFFFFF :: u64) = (d AND 0xFFFFFF) OR push_bit 32 (drop_bit 32 d AND 0xFF)"
proof (rule bit_word_eqI)
  fix i assume "i < LENGTH(64)"
  have m: "(0xFF00FFFFFF :: u64) = push_bit 32 (mask 8) OR mask 24" "(0xFFFFFF::u64) = mask 24" "(0xFF::u64) = mask 8"
    by (simp_all add: mask_eq_exp_minus_1 push_bit_eq_mult)
  show "bit (d AND 0xFF00FFFFFF) i = bit ((d AND 0xFFFFFF) OR push_bit 32 (drop_bit 32 d AND 0xFF)) i"
    unfolding m by (auto simp: bit_simps)
qed

lemma affx_no_aff3: "drop_bit 32 d AND 0xFF = 0 \<Longrightarrow> affx d = d AND 0xFF00FFFFFF"
  by (simp add: aff3_mask affx_def)

lemma affx_aff3: 
  assumes "drop_bit 32 d AND 0xFF \<noteq> 0"
  shows "affx d AND 0xFF000000 \<noteq> 0"
proof
  have m: "(0xFF000000 :: u64) = push_bit 24 (mask 8)" "(0xFFFFFF::u64) = mask 24" "(0xFF::u64) = mask 8"
    by (simp_all add: mask_eq_exp_minus_1 push_bit_eq_mult)
  assume z: "affx d AND 0xFF000000 = 0"
  have "drop_bit 32 d AND 0xFF = 0"
  proof (rule bit_word_eqI)
    fix i assume i: "i < LENGTH(64)"
    have "\<not> bit (affx d AND 0xFF000000) (i + 24)" using z by simp
    then show "bit (drop_bit 32 d AND 0xFF) i = bit (0 :: u64) i"
      using i unfolding m affx_def by (auto simp: bit_simps)
  qed
  with assms show False by simp
qed

text \<open>A PE whose Aff3 is zero finds its own index: when the table stores at index i the
  affinity bits of this PE's MPIDR, the lookup every test starts with returns i.\<close>

theorem mpam_my_index:
  assumes "wf_pe s" "i < val_pe_get_num s"
    and "val_pe_get_mpid_index i s = Some (mpidr_in hw AND 0xFF00FFFFFF, s)"
    and "drop_bit 32 (mpidr_in hw) AND 0xFF = 0"
  shows "my_index hw s = Some (i, log_io (SysRead ''arm64_read_mpidr'') s)"
  using assms mpam_pe.index_mpid [of s i] by (simp add: my_index_eq affx_no_aff3)

lemma two_pe_world_wf: "wf_pe two_pe_world"
  by (simp add: wf_pe_def two_pe_world_def wf_pe_table_def All_less_Suc)

lemma mpam_my_index_witness:
  "my_index (ram_hw (\<lambda>_. 0) 0) two_pe_world =
     Some (0, log_io (SysRead ''arm64_read_mpidr'') two_pe_world)"
  by (rule mpam_my_index [OF two_pe_world_wf])
     (simp_all add: two_pe_world_def val_pe_get_num_def val_pe_get_mpid_index_def)

text \<open>Aff3 is lost. The tables come from the MADT, where Aff3 is in bits 32 to 39 and bits
  24 to 31 are zero; the packed identifier of a PE with Aff3 other than zero has bits there.
  So no entry matches and the lookup answers with the failsafe index 0 on every such PE.\<close>

theorem mpam_my_index_aff3:
  assumes "wf_pe s" "\<forall>j<val_pe_get_num s. \<forall>m t. val_pe_get_mpid_index j s = Some (m, t) \<longrightarrow>
             m AND 0xFF000000 = 0"
    and "drop_bit 32 (mpidr_in hw) AND 0xFF \<noteq> 0"
  shows "my_index hw s = Some (0, log_io (SysRead ''arm64_read_mpidr'') s)"
proof (rule my_index_eq, rule mpam_pe.index_unknown [OF assms(1)], intro allI impI notI)
  fix j assume "j < val_pe_get_num s"
    "map_option fst (val_pe_get_mpid_index j s) = Some (affx (mpidr_in hw))"
  then show False using assms(2) affx_aff3 [OF assms(3)] by auto
qed

lemma mpam_my_index_aff3_witness:
  "my_index (ram_hw (\<lambda>_. 0) 0x100000001) two_pe_world =
     Some (0, log_io (SysRead ''arm64_read_mpidr'') two_pe_world)"
proof (rule mpam_my_index_aff3 [OF two_pe_world_wf])
  show "\<forall>j<val_pe_get_num two_pe_world. \<forall>m t.
      val_pe_get_mpid_index j two_pe_world = Some (m, t) \<longrightarrow> m AND 0xFF000000 = 0"
    by (auto simp: two_pe_world_def val_pe_get_num_def val_pe_get_mpid_index_def at_eq_Some
        nth_Cons' Option.bind_eq_Some_conv)
qed simp

end
