(* ===== verification/Mpam_Shared.thy ===== *)
theory Mpam_Shared
  imports Mpam_Pe
begin

text \<open>
  Memory of the suite (pal_misc.c and its wrappers in val_test_infra.c): the shared entries
  through which the PEs exchange test arguments and status words, the buffers for memory copy
  tests, and the latency table. The firmware's allocator is the parameter; a pointer variable
  that does not point to allocated memory is \<open>None\<close>.
\<close>

definition SIZEOF_VAL_SHARED_MEM :: u32 where [reg_defs]: "SIZEOF_VAL_SHARED_MEM = 24"
definition SIZEOF_UINT64 :: u32 where [reg_defs]: "SIZEOF_UINT64 = 8"

subsection \<open>Shared entries\<close>

text \<open>The size is computed in 32 bits; a failed allocation is reported and leaves NULL.\<close>

definition pal_mem_allocate_shared :: "hw \<Rightarrow> u32 \<Rightarrow> u32 \<Rightarrow> world \<Rightarrow> world" where
  "pal_mem_allocate_shared hw num_pe sizeofentry s =
     (let ((st, a), s) = firmware hw ''AllocatePool'' [ucast (num_pe * sizeofentry)] s;
          s = s\<lparr>shared := (if EFI_ERROR st then None
                 else Some (map (fresh_in hw (io s))
                              [0..<unat (num_pe * sizeofentry) div unat sizeofentry]))\<rparr>;
          s = acs_print ACS_PRINT_INFO ''Shared memory is %llx'' [if EFI_ERROR st then 0 else a] s;
          s = (if EFI_ERROR st
               then acs_print ACS_PRINT_ERR ''Allocate Pool shared memory failed %x'' [st] s else s)
      in pal_pe_data_cache_ops_by_va (LVar ''gSharedMemory'') CLEAN_AND_INVALIDATE s)"

definition val_allocate_shared_mem :: "hw \<Rightarrow> world \<Rightarrow> world" where
  "val_allocate_shared_mem hw s =
     pal_mem_allocate_shared hw (val_pe_get_num s) SIZEOF_VAL_SHARED_MEM s"

definition pal_mem_free_shared :: "hw \<Rightarrow> world \<Rightarrow> world" where
  "pal_mem_free_shared hw s = (snd (firmware hw ''FreePool'' [] s))\<lparr>shared := None\<rparr>"

definition val_free_shared_mem :: "hw \<Rightarrow> world \<Rightarrow> world" where
  "val_free_shared_mem hw s = pal_mem_free_shared hw s"

definition val_set_test_data :: "u32 \<Rightarrow> u64 \<Rightarrow> u64 \<Rightarrow> world \<Rightarrow> world option" where
  "val_set_test_data index addr test_data s =
     (if index > val_pe_get_num s
      then Some (val_print ACS_PRINT_ERR ''Incorrect PE index = %d'' (ucast index) s)
      else do {
        mem \<leftarrow> shared s;
        e \<leftarrow> at mem (unat index);
        let s = s\<lparr>shared := Some (mem[unat index := e\<lparr>data0 := addr, data1 := test_data\<rparr>])\<rparr>;
        let s = val_data_cache_ops_by_va (LShared (unat index) ''data0'') CLEAN_AND_INVALIDATE s;
        Some (val_data_cache_ops_by_va (LShared (unat index) ''data1'') CLEAN_AND_INVALIDATE s) })"

text \<open>On a rejected index the output variables are not written.\<close>

definition val_get_test_data :: "hw \<Rightarrow> u32 \<Rightarrow> world \<Rightarrow> ((u64 \<times> u64) option \<times> world) option" where
  "val_get_test_data hw index s =
     (if index > val_pe_get_num s
      then Some (None, val_print ACS_PRINT_ERR ''Incorrect PE index = %d'' (ucast index) s)
      else (let s = val_data_cache_ops_by_va (LShared (unat index) ''data0'') INVALIDATE s;
                s = val_data_cache_ops_by_va (LShared (unat index) ''data1'') INVALIDATE s;
                s = interfere hw s
            in do { mem \<leftarrow> shared s; e \<leftarrow> at mem (unat index); Some (Some (data0 e, data1 e), s) }))"

subsection \<open>Buffers at a given address\<close>

text \<open>
  The loop tries consecutive windows of the node until the firmware grants one. The status
  variable is unset until the first attempt; with a buffer size of zero the loop may not end,
  so its value is \<open>None\<close> when it does not return.
\<close>

partial_function (option) alloc_windows ::
    "hw \<Rightarrow> u64 \<Rightarrow> (u64 \<times> u64) option \<Rightarrow> u64 \<Rightarrow> u64 \<Rightarrow> world \<Rightarrow> ((u64 \<times> u64) option \<times> world) option"
where
  "alloc_windows hw buf_size result mem_base mem_size s =
     (if mem_size = 0 then Some (result, s)
      else (case firmware hw ''AllocatePages'' [mem_base, buf_size] s of
        ((st, _), s') \<Rightarrow>
          if \<not> EFI_ERROR st \<or> mem_size - buf_size < buf_size
          then Some (Some (st, mem_base), s')
          else alloc_windows hw buf_size (Some (st, mem_base))
                 (mem_base + buf_size) (mem_size - buf_size) s'))"

definition pal_mem_allocate_address ::
    "hw \<Rightarrow> u64 \<Rightarrow> u64 \<Rightarrow> u64 \<Rightarrow> world \<Rightarrow> (u64 option \<times> world) option" where
  "pal_mem_allocate_address hw mem_base mem_size buf_size s =
     do { (result, s) \<leftarrow> alloc_windows hw buf_size None mem_base mem_size s;
          (st, base_addr) \<leftarrow> result;
          if EFI_ERROR st
          then Some (None, acs_print ACS_PRINT_ERR ''AllocatePages failed %x'' [st] s)
          else Some (Some base_addr, s) }"

definition val_allocate_address ::
    "hw \<Rightarrow> u64 \<Rightarrow> u64 \<Rightarrow> u64 \<Rightarrow> world \<Rightarrow> (u64 option \<times> world) option" where
  "val_allocate_address hw mem_base mem_size n_bytes s =
     pal_mem_allocate_address hw mem_base mem_size n_bytes s"

definition pal_mem_allocate_buf :: "hw \<Rightarrow> u64 \<Rightarrow> world \<Rightarrow> u64 option \<times> world" where
  "pal_mem_allocate_buf hw n_bytes s =
     (let ((st, a), s) = firmware hw ''AllocatePages'' [n_bytes] s
      in if EFI_ERROR st
         then (None, acs_print ACS_PRINT_ERR ''AllocatePages failed %x'' [st] s)
         else (Some a, s))"

definition val_allocate_buf :: "hw \<Rightarrow> u64 \<Rightarrow> world \<Rightarrow> u64 option \<times> world" where
  "val_allocate_buf hw n_bytes s = pal_mem_allocate_buf hw n_bytes s"

definition pal_mem_free_buf :: "hw \<Rightarrow> u64 option \<Rightarrow> u64 \<Rightarrow> world \<Rightarrow> world" where
  "pal_mem_free_buf hw buffer n_bytes s =
     snd (firmware hw ''FreePages'' [case buffer of None \<Rightarrow> 0 | Some a \<Rightarrow> a, n_bytes] s)"

definition val_free_buf :: "hw \<Rightarrow> u64 option \<Rightarrow> u64 \<Rightarrow> world \<Rightarrow> world" where
  "val_free_buf hw buffer n_bytes s = pal_mem_free_buf hw buffer n_bytes s"

definition pal_mem_copy :: "u64 \<Rightarrow> u64 \<Rightarrow> u64 \<Rightarrow> world \<Rightarrow> world" where
  "pal_mem_copy src dest n s = log_io (MemCopy src dest n) s"

definition val_mem_copy :: "u64 \<Rightarrow> u64 \<Rightarrow> u64 \<Rightarrow> world \<Rightarrow> world" where
  "val_mem_copy src dest n s = pal_mem_copy src dest n s"

subsection \<open>One copy buffer per PE\<close>

definition pal_mem_free_shared_memcpybuf :: "hw \<Rightarrow> u32 \<Rightarrow> u64 \<Rightarrow> world \<Rightarrow> world option" where
  "pal_mem_free_shared_memcpybuf hw pe_cnt buf_size s =
     do { s \<leftarrow> for_each (\<lambda>i s. do { bufs \<leftarrow> gSharedMemCpyBuf (gl s); b \<leftarrow> at bufs (unat i);
                                   Some (pal_mem_free_buf hw b buf_size s) })
               (upto_u32 pe_cnt) s;
          bufs \<leftarrow> gSharedMemCpyBuf (gl s);
          let s = snd (firmware hw ''FreePool'' [] s);
          Some (s\<lparr>gl := (gl s)\<lparr>gSharedMemCpyBuf := None\<rparr>\<rparr>) }"

definition val_mem_free_shared_memcpybuf :: "hw \<Rightarrow> u32 \<Rightarrow> u64 \<Rightarrow> world \<Rightarrow> world option" where
  "val_mem_free_shared_memcpybuf hw num_pe buf_size s =
     pal_mem_free_shared_memcpybuf hw num_pe buf_size s"

text \<open>The loop over the PEs; the pointers written so far are the list.\<close>

fun alloc_memcpybufs ::
    "hw \<Rightarrow> u64 \<Rightarrow> u64 \<Rightarrow> u64 \<Rightarrow> u32 list \<Rightarrow> world \<Rightarrow> (u8 \<times> world) option" where
  "alloc_memcpybufs hw mem_base mem_size buf_size [] s =
     Some (1, pal_pe_data_cache_ops_by_va (LVar ''gSharedMemCpyBuf'') CLEAN_AND_INVALIDATE s)"
| "alloc_memcpybufs hw mem_base mem_size buf_size (i # is') s =
     do { (b, s) \<leftarrow> pal_mem_allocate_address hw (mem_base + ucast i * buf_size) mem_size buf_size s;
          bufs \<leftarrow> gSharedMemCpyBuf (gl s);
          let s = s\<lparr>gl := (gl s)\<lparr>gSharedMemCpyBuf := Some (bufs @ [b])\<rparr>\<rparr>;
          if b = None
          then do { let s = acs_print ACS_PRINT_ERR
                              ''Allocate address for shared memcpy buf failed %x'' [ucast i] s;
                    s \<leftarrow> pal_mem_free_shared_memcpybuf hw i buf_size s;
                    Some (0, s) }
          else alloc_memcpybufs hw mem_base mem_size buf_size is' s }"

definition pal_mem_allocate_shared_memcpybuf ::
    "hw \<Rightarrow> u64 \<Rightarrow> u64 \<Rightarrow> u64 \<Rightarrow> u32 \<Rightarrow> world \<Rightarrow> (u8 \<times> world) option" where
  "pal_mem_allocate_shared_memcpybuf hw mem_base mem_size buf_size pe_cnt s =
     (let s = s\<lparr>gl := (gl s)\<lparr>gSharedMemCpyBuf := None\<rparr>\<rparr>;
          ((st, a), s) = firmware hw ''AllocatePool'' [ucast pe_cnt * 8] s
      in if EFI_ERROR st
         then Some (0, acs_print ACS_PRINT_ERR ''Allocate Pool for shared memcpy buf failed %x'' [st] s)
         else alloc_memcpybufs hw mem_base mem_size buf_size (upto_u32 pe_cnt)
                (s\<lparr>gl := (gl s)\<lparr>gSharedMemCpyBuf := Some []\<rparr>\<rparr>))"

definition val_allocate_shared_memcpybuf ::
    "hw \<Rightarrow> u64 \<Rightarrow> u64 \<Rightarrow> u64 \<Rightarrow> u32 \<Rightarrow> world \<Rightarrow> (u8 \<times> world) option" where
  "val_allocate_shared_memcpybuf hw mem_base mem_size buf_size pe_cnt s =
     pal_mem_allocate_shared_memcpybuf hw mem_base mem_size buf_size pe_cnt s"

definition val_get_shared_memcpybuf :: "u32 \<Rightarrow> world \<Rightarrow> u64 option" where
  "val_get_shared_memcpybuf pe_index s =
     (if pe_index > val_pe_get_num s then Some 0
      else do { bufs \<leftarrow> gSharedMemCpyBuf (gl s); b \<leftarrow> at bufs (unat pe_index);
                Some (case b of None \<Rightarrow> 0 | Some a \<Rightarrow> a) })"

subsection \<open>The latency table\<close>

text \<open>A failed allocation of the row pointers is reported, and the first row is then stored
  through NULL.\<close>

definition alloc_latency_row :: "hw \<Rightarrow> u32 \<Rightarrow> world \<Rightarrow> world option" where
  "alloc_latency_row hw scenario_cnt s =
     do { rows \<leftarrow> gSharedLatencyBuf (gl s);
          let ((st, a), s) = firmware hw ''AllocatePool'' [ucast scenario_cnt * 8] s;
          let s = (if EFI_ERROR st then acs_print ACS_PRINT_ERR
                     ''Allocate Pool shared latency buf failed %x'' [st] s else s);
          Some (s\<lparr>gl := (gl s)\<lparr>gSharedLatencyBuf :=
                  Some (rows @ [if EFI_ERROR st then None else Some a])\<rparr>\<rparr>) }"

definition pal_mem_allocate_shared_latencybuf :: "hw \<Rightarrow> u32 \<Rightarrow> u32 \<Rightarrow> world \<Rightarrow> world option" where
  "pal_mem_allocate_shared_latencybuf hw node_cnt scenario_cnt s =
     (let ((st, a), s) = firmware hw ''AllocatePool'' [ucast node_cnt * 8] s;
          s = (if EFI_ERROR st then acs_print ACS_PRINT_ERR
                 ''Allocate Pool shared latency buf failed %x'' [st] s else s);
          s = s\<lparr>gl := (gl s)\<lparr>gSharedLatencyBuf := (if EFI_ERROR st then None else Some [])\<rparr>\<rparr>
      in do { s \<leftarrow> for_each (\<lambda>_. alloc_latency_row hw scenario_cnt) (upto_u32 node_cnt) s;
              Some (pal_pe_data_cache_ops_by_va (LVar ''gSharedLatencyBuf'')
                      CLEAN_AND_INVALIDATE s) })"

definition val_allocate_shared_latencybuf :: "hw \<Rightarrow> u32 \<Rightarrow> u32 \<Rightarrow> world \<Rightarrow> world option" where
  "val_allocate_shared_latencybuf hw node_cnt scenario_cnt s =
     pal_mem_allocate_shared_latencybuf hw node_cnt scenario_cnt s"

text \<open>The address of a cell: eight bytes per scenario.\<close>

definition val_get_shared_latencybuf :: "u32 \<Rightarrow> u32 \<Rightarrow> world \<Rightarrow> u64 option" where
  "val_get_shared_latencybuf scenario_index node_index s =
     do { rows \<leftarrow> gSharedLatencyBuf (gl s);
          row \<leftarrow> at rows (unat node_index);
          a \<leftarrow> row;
          Some (a + 8 * ucast scenario_index) }"

definition pal_mem_free_shared_latencybuf :: "hw \<Rightarrow> u32 \<Rightarrow> world \<Rightarrow> world option" where
  "pal_mem_free_shared_latencybuf hw node_cnt s =
     do { s \<leftarrow> for_each (\<lambda>i s. do { rows \<leftarrow> gSharedLatencyBuf (gl s); r \<leftarrow> at rows (unat i);
                 Some (snd (firmware hw ''FreePool'' [case r of None \<Rightarrow> 0 | Some a \<Rightarrow> a] s)) })
               (upto_u32 node_cnt) s;
          rows \<leftarrow> gSharedLatencyBuf (gl s);
          let s = snd (firmware hw ''FreePool'' [] s);
          Some (s\<lparr>gl := (gl s)\<lparr>gSharedLatencyBuf := None\<rparr>\<rparr>) }"

definition val_mem_free_shared_latencybuf :: "hw \<Rightarrow> u32 \<Rightarrow> world \<Rightarrow> world option" where
  "val_mem_free_shared_latencybuf hw node_cnt s = pal_mem_free_shared_latencybuf hw node_cnt s"

subsection \<open>Allocation inside a node\<close>

lemma firmware_sel [frame, simp]:
  "gl (snd (firmware hw f args s)) = gl s" "shared (snd (firmware hw f args s)) = shared s"
  "io (snd (firmware hw f args s)) = Firmware f args # io s"
  "con (snd (firmware hw f args s)) = con s" "print_level (snd (firmware hw f args s)) = print_level s"
  "fst (firmware hw f args s) = fw_in hw (io s) f args"
  by (simp_all add: firmware_def)

lemma alloc_windows_frame:
  "alloc_windows hw b r base n s = Some y \<Longrightarrow>
     gl (snd y) = gl s \<and> shared (snd y) = shared s \<and> con (snd y) = con s \<and>
     print_level (snd y) = print_level s"
proof (induction rule: alloc_windows.raw_induct [rotated, consumes 1])
  case (1 rec hw b r base n s y)
  obtain st a s' where fw: "firmware hw ''AllocatePages'' [base, b] s = ((st, a), s')"
    by (metis prod_cases3 surj_pair)
  have s': "s' = snd (firmware hw ''AllocatePages'' [base, b] s)" by (simp add: fw)
  show ?case
  proof (cases "n = 0 \<or> \<not> EFI_ERROR st \<or> n - b < b")
    case True
    with 1(2) have "y = (r, s) \<or> y = (Some (st, base), s')"
      by (simp add: fw split: if_split_asm)
    then show ?thesis by (elim disjE) (simp_all add: s')
  next
    case False
    with 1(2) have "rec hw b (Some (st, base)) (base + b) (n - b) s' = Some y"
      by (simp add: fw)
    from 1(1) [OF this] show ?thesis by (simp add: s')
  qed
qed

lemma pal_mem_allocate_address_frame:
  "pal_mem_allocate_address hw base n b s = Some (r, t) \<Longrightarrow> gl t = gl s \<and> shared t = shared s"
  by (auto simp: pal_mem_allocate_address_def Option.bind_eq_Some_conv dest!: alloc_windows_frame
      split: if_splits)

lemma alloc_windows_total:
  assumes "0 < b" "b \<le> n"
  shows "\<exists>st k t. alloc_windows hw b r base n s = Some (Some (st, base + of_nat k * b), t) \<and>
     (k + 1) * unat b \<le> unat n"
  using assms(2)
proof (induction "unat n" arbitrary: n r base s rule: less_induct)
  case less
  have n0: "n \<noteq> 0" using assms(1) less.prems by auto
  obtain st a s' where fw: "firmware hw ''AllocatePages'' [base, b] s = ((st, a), s')"
    by (metis prod_cases3 surj_pair)
  have sub: "unat (n - b) = unat n - unat b" using less.prems by (simp add: unat_sub)
  show ?case
  proof (cases "\<not> EFI_ERROR st \<or> n - b < b")
    case True
    then have "alloc_windows hw b r base n s = Some (Some (st, base + of_nat 0 * b), s')"
      by (subst alloc_windows.simps) (simp add: n0 fw)
    then show ?thesis using less.prems by (metis Suc_eq_plus1 mult_1 plus_nat.add_0 One_nat_def word_le_nat_alt)
  next
    case False
    then have ge: "b \<le> n - b" by (simp add: not_less)
    have "unat (n - b) < unat n"
      using assms(1) less.prems sub by (simp add: word_le_nat_alt word_less_nat_alt)
    from less.hyps [OF this ge, of "Some (st, base)" "base + b" s'] obtain st' k t where
      ih: "alloc_windows hw b (Some (st, base)) (base + b) (n - b) s' =
             Some (Some (st', base + b + of_nat k * b), t)" "(k + 1) * unat b \<le> unat (n - b)"
      by blast
    have "alloc_windows hw b r base n s = Some (Some (st', base + of_nat (Suc k) * b), t)"
      using ih(1) False by (subst alloc_windows.simps) (simp add: n0 fw algebra_simps)
    moreover have "(Suc k + 1) * unat b \<le> unat n"
      using ih(2) sub less.prems by (simp add: word_le_nat_alt)
    ultimately show ?thesis by blast
  qed
qed

text \<open>Pal_mem_allocate_address returns on every firmware: with a nonzero buffer that fits in the
  node the search ends, and an address it returns is the start of a whole window inside the node.\<close>

theorem allocate_address_in_node:
  assumes "0 < b" "b \<le> n"
  shows "\<exists>r t. pal_mem_allocate_address hw base n b s = Some (r, t) \<and>
     (\<forall>a. r = Some a \<longrightarrow> (\<exists>k. a = base + of_nat k * b \<and> (k + 1) * unat b \<le> unat n))"
proof -
  obtain st k t where "alloc_windows hw b None base n s = Some (Some (st, base + of_nat k * b), t)"
      "(k + 1) * unat b \<le> unat n"
    using alloc_windows_total [OF assms] by metis
  then show ?thesis by (auto simp: pal_mem_allocate_address_def)
qed

lemma allocate_address_in_node_witness:
  "\<exists>r t. pal_mem_allocate_address (ram_hw (\<lambda>_. 0) 0) 0x80000000 0x10000 0x4000 two_pe_world = Some (r, t)"
  using allocate_address_in_node [where n = "0x10000" and b = "0x4000" and base = "0x80000000"
      and hw = "ram_hw (\<lambda>_. 0) 0" and s = two_pe_world]
  by auto

text \<open>A node smaller than the buffer is not rejected: the remaining size wraps around, so when
  the firmware refuses the node's own address the search goes on behind the node, and a window
  granted there is returned although it lies outside.\<close>

theorem allocate_address_past_node:
  assumes "0 < n" "n < b" "b < 2 ^ 62"
    and "\<And>h. EFI_ERROR (fst (fw_in hw h ''AllocatePages'' [base, b]))"
    and "\<And>h. \<not> EFI_ERROR (fst (fw_in hw h ''AllocatePages'' [base + b, b]))"
  shows "\<exists>t. pal_mem_allocate_address hw base n b s = Some (Some (base + b), t)"
proof -
  have ge: "\<not> n - b < b"
  proof -
    have "unat (n - b) = 2 ^ 64 + unat n - unat b"
      using assms(2) by (simp add: unat_sub_if' word_less_nat_alt)
    moreover have "unat b < 2 ^ 62" using assms(3) by (simp add: word_less_nat_alt)
    ultimately show ?thesis using assms(1) by (simp add: word_less_nat_alt)
  qed
  moreover have "n - b \<noteq> 0" using assms(2) by auto
  moreover obtain st a s' where fw: "firmware hw ''AllocatePages'' [base, b] s = ((st, a), s')"
    by (metis prod_cases3 surj_pair)
  moreover obtain st2 a2 s2 where fw2: "firmware hw ''AllocatePages'' [base + b, b] s' = ((st2, a2), s2)"
    by (metis prod_cases3 surj_pair)
  ultimately have "alloc_windows hw b None base n s = Some (Some (st2, base + b), s2)"
    using assms(1) assms(4) [of "io s"] assms(5) [of "io s'"]
    by (subst alloc_windows.simps, subst alloc_windows.simps) (auto simp: firmware_def)
  moreover have "\<not> EFI_ERROR st2" using fw2 assms(5) [of "io s'"] by (auto simp: firmware_def)
  ultimately show ?thesis by (simp add: pal_mem_allocate_address_def)
qed

lemma allocate_address_past_node_witness:
  "\<exists>t. pal_mem_allocate_address
        ((ram_hw (\<lambda>_. 0) 0)\<lparr>fw_in := \<lambda>h f args. (if hd args = 0x1000 then 0x8000000000000009 else 0, 0)\<rparr>)
        0x1000 0x1000 0x4000 two_pe_world = Some (Some 0x5000, t)"
  using allocate_address_past_node [where n = "0x1000" and b = "0x4000" and base = "0x1000"
      and hw = "(ram_hw (\<lambda>_. 0) 0)\<lparr>fw_in := \<lambda>h f args. (if hd args = 0x1000 then 0x8000000000000009 else 0, 0)\<rparr>"
      and s = two_pe_world]
  by (simp add: EFI_ERROR_def bit_numeral_word_iff)

subsection \<open>Buffers of all PEs\<close>

lemma free_memcpybuf_null:
  "pal_mem_free_shared_memcpybuf hw n b s = Some t \<Longrightarrow> gSharedMemCpyBuf (gl t) = None"
  by (auto simp: pal_mem_free_shared_memcpybuf_def Option.bind_eq_Some_conv)

lemma alloc_memcpybufs_all_or_none:
  assumes "alloc_memcpybufs hw base n b is' s = Some (r, t)"
    and "gSharedMemCpyBuf (gl s) = Some bufs" "\<forall>p\<in>set bufs. p \<noteq> None"
  shows "(r = 1 \<and> (\<exists>ps. gSharedMemCpyBuf (gl t) = Some ps \<and>
              length ps = length bufs + length is' \<and> (\<forall>p\<in>set ps. p \<noteq> None)))
         \<or> (r = 0 \<and> gSharedMemCpyBuf (gl t) = None)"
  using assms
proof (induction is' arbitrary: s bufs)
  case Nil
  then show ?case by (auto simp: pal_pe_data_cache_ops_by_va_def)
next
  case (Cons i is')
  from Cons.prems(1) obtain p u where
    p: "pal_mem_allocate_address hw (base + ucast i * b) n b s = Some (p, u)"
    by (auto simp: Option.bind_eq_Some_conv)
  have u: "gSharedMemCpyBuf (gl u) = Some bufs"
    using pal_mem_allocate_address_frame [OF p] Cons.prems(2) by simp
  show ?case
  proof (cases p)
    case None
    with Cons.prems(1) show ?thesis
      by (auto simp: p u Option.bind_eq_Some_conv dest: free_memcpybuf_null)
  next
    case (Some a)
    with Cons.prems(1) have "alloc_memcpybufs hw base n b is'
        (u\<lparr>gl := (gl u)\<lparr>gSharedMemCpyBuf := Some (bufs @ [p])\<rparr>\<rparr>) = Some (r, t)"
      by (simp add: p u)
    from Cons.IH [OF this, of "bufs @ [p]"] Cons.prems(3) Some show ?thesis by simp
  qed
qed



subsection \<open>Test arguments\<close>

text \<open>The arguments of a test reach the PE they are meant for: what val_set_test_data stores for
  an index below the number of PEs, val_get_test_data on that index returns.\<close>

theorem test_data_roundtrip:
  assumes "quiet_peers hw" "index < val_pe_get_num s" "shared_size s = unat (val_pe_get_num s)"
  shows "\<exists>t u. val_set_test_data index addr dat s = Some t \<and>
           val_get_test_data hw index t = Some (Some (addr, dat), u)"
proof -
  obtain mem where mem: "shared s = Some mem" "unat index < length mem"
    using assms(2,3) by (auto simp: shared_size_def word_less_nat_alt split: option.splits)
  have ok: "\<not> val_pe_get_num s < index" using assms(2) by simp
  from mem ok obtain t where t: "val_set_test_data index addr dat s = Some t"
      "gl t = gl s" "shared t = Some (mem[unat index := (mem ! unat index)\<lparr>data0 := addr, data1 := dat\<rparr>])"
    by (simp add: val_set_test_data_def Let_def)
  have "\<not> val_pe_get_num t < index" using ok t(2) val_pe_get_num_cong by metis
  with mem(2) t(3) assms(1) show ?thesis
    unfolding t(1) by (simp add: val_get_test_data_def Let_def)
qed

lemma test_data_roundtrip_witness:
  "\<exists>t u. val_set_test_data 1 0x8000 5 two_pe_world = Some t \<and>
      val_get_test_data (ram_hw (\<lambda>_. 0) 0) 1 t = Some (Some (0x8000, 5), u)"
  by (rule test_data_roundtrip)
    (simp_all add: two_pe_world_def val_pe_get_num_def shared_size_def)

text \<open>The index check lets the number of PEs itself through: with one shared entry per PE,
  storing test data for that index is a write behind the last entry.\<close>

theorem test_data_off_by_one:
  assumes "shared_size s = unat (val_pe_get_num s)" "quiet_peers hw"
  shows "val_set_test_data (val_pe_get_num s) addr dat s = None \<and>
         val_get_test_data hw (val_pe_get_num s) s = None"
  using assms by (auto simp: val_set_test_data_def val_get_test_data_def shared_size_def Let_def
      split: option.splits)

lemma test_data_off_by_one_witness:
  "val_set_test_data 2 0x8000 5 two_pe_world = None"
  using test_data_off_by_one [of two_pe_world "ram_hw (\<lambda>_. 0) 0" "0x8000" 5]
  by (simp add: two_pe_world_def val_pe_get_num_def shared_size_def)

end
