(* ===== verification/Mpam_Exec.thy ===== *)
theory Mpam_Exec
  imports Mpam_Shared
begin

text \<open>
  Running a test (val_test_infra.c, val_pe_infra.c, pal_pe.c): setting up the status words,
  waking the other PEs with PSCI, waiting for their words, and the verdict with its counters.
  A payload is the address handed to the other PEs and what it does on this one.
\<close>

subsection \<open>Exceptions\<close>

text \<open>The three calls to the UEFI CPU protocol; the first error status is returned.\<close>

definition pal_pe_install_esr :: "hw \<Rightarrow> u32 \<Rightarrow> world \<Rightarrow> u64 \<times> world" where
  "pal_pe_install_esr hw exception_type s =
     (let ((st, _), s) = firmware hw ''LocateProtocol'' [] s
      in if EFI_ERROR st then (st, s)
         else (let ((st, _), s) = firmware hw ''RegisterInterruptHandler'' [ucast exception_type, 0] s
               in if EFI_ERROR st then (st, s)
                  else (let ((st, _), s) = firmware hw ''RegisterInterruptHandler''
                                             [ucast exception_type, 1] s
                        in if EFI_ERROR st then (st, s) else (0, s))))"

definition val_pe_install_esr :: "hw \<Rightarrow> u32 \<Rightarrow> world \<Rightarrow> u32 \<times> world" where
  "val_pe_install_esr hw exception_type s =
     (if exception_type > 3
      then (ACS_STATUS_ERR, val_print ACS_PRINT_ERR ''Invalid Exception type %x'' (ucast exception_type) s)
      else (0, snd (pal_pe_install_esr hw exception_type s)))"

definition val_pe_initialize_default_exception_handler :: "hw \<Rightarrow> world \<Rightarrow> world" where
  "val_pe_initialize_default_exception_handler hw s =
     snd (val_pe_install_esr hw EXCEPT_AARCH64_SYNC s)"

text \<open>The exception context of UEFI: only the three registers the code reads or writes.\<close>

record efi_context =
  ELR :: u64
  ESR :: u64
  FAR :: u64

definition val_pe_get_far :: "efi_context \<Rightarrow> u64" where "val_pe_get_far c = FAR c"
definition val_pe_get_esr :: "efi_context \<Rightarrow> u64" where "val_pe_get_esr c = ESR c"
definition val_pe_update_elr :: "efi_context \<Rightarrow> u64 \<Rightarrow> efi_context" where
  "val_pe_update_elr c offset = c\<lparr>ELR := offset\<rparr>"

definition val_pe_default_esr :: "hw \<Rightarrow> efi_context \<Rightarrow> world \<Rightarrow> (efi_context \<times> world) option" where
  "val_pe_default_esr hw c s =
     do { (index, s) \<leftarrow> my_index hw s;
          let s = val_print ACS_PRINT_WARN ''Unexpected exception occured'' 0 s;
          let s = val_print ACS_PRINT_WARN ''FAR reported = 0x%x'' (val_pe_get_far c) s;
          let s = val_print ACS_PRINT_WARN ''ESR reported = 0x%x'' (val_pe_get_esr c) s;
          s \<leftarrow> val_set_status index (RESULT_FAIL 0 1) s;
          Some (val_pe_update_elr c (g_exception_ret_addr (gl s)), s) }"

subsection \<open>Waking a PE\<close>

definition ARM_SMC_ID_PSCI_CPU_OFF :: u64 where [reg_defs]: "ARM_SMC_ID_PSCI_CPU_OFF = 0x84000002"
definition ARM_SMC_ID_PSCI_CPU_ON_AARCH64 :: u64 where
  [reg_defs]: "ARM_SMC_ID_PSCI_CPU_ON_AARCH64 = 0xc4000003"
definition ARM_SMC_PSCI_RET_ALREADY_ON :: u64 where [reg_defs]: "ARM_SMC_PSCI_RET_ALREADY_ON = - 4"

definition pal_pe_execute_payload :: "hw \<Rightarrow> ARM_SMC_ARGS \<Rightarrow> world \<Rightarrow> ARM_SMC_ARGS \<times> world" where
  "pal_pe_execute_payload hw a s = ArmCallSmc hw (a\<lparr>Arg2 := entry_point hw\<rparr>) s"

text \<open>One round of the do-while loop: arguments, test data, the call.\<close>

definition psci_on_once :: "hw \<Rightarrow> u32 \<Rightarrow> u64 \<Rightarrow> u64 \<Rightarrow> world \<Rightarrow> world option" where
  "psci_on_once hw index payload test_input s =
     do { let s = s\<lparr>gl := (gl s)\<lparr>g_smc_args :=
                    (g_smc_args (gl s))\<lparr>Arg0 := ARM_SMC_ID_PSCI_CPU_ON_AARCH64\<rparr>\<rparr>\<rparr>;
          (m, s) \<leftarrow> val_pe_get_mpid_index index s;
          let s = s\<lparr>gl := (gl s)\<lparr>g_smc_args := (g_smc_args (gl s))\<lparr>Arg1 := m\<rparr>\<rparr>\<rparr>;
          s \<leftarrow> val_set_test_data index payload test_input s;
          let (a, s) = pal_pe_execute_payload hw (g_smc_args (gl s)) s;
          Some (s\<lparr>gl := (gl s)\<lparr>g_smc_args := a\<rparr>\<rparr>) }"

fun psci_on_loop :: "hw \<Rightarrow> u32 \<Rightarrow> u64 \<Rightarrow> u64 \<Rightarrow> nat \<Rightarrow> world \<Rightarrow> world option" where
  "psci_on_loop hw index payload test_input timeout s =
     do { s \<leftarrow> psci_on_once hw index payload test_input s;
          if Arg0 (g_smc_args (gl s)) = ARM_SMC_PSCI_RET_ALREADY_ON
          then (case timeout of 0 \<Rightarrow> Some s
                | Suc n \<Rightarrow> psci_on_loop hw index payload test_input n s)
          else Some s }"

declare psci_on_loop.simps [simp del]

definition val_execute_on_pe :: "hw \<Rightarrow> u32 \<Rightarrow> u64 \<Rightarrow> u64 \<Rightarrow> world \<Rightarrow> world option" where
  "val_execute_on_pe hw index payload test_input s =
     do { t \<leftarrow> g_pe_info_table (gl s);
          if index > num_of_pe t
          then Some (val_report_status index (RESULT_FAIL 0 0xFF)
                 (val_print ACS_PRINT_ERR ''Input Index exceeds Num of PE %x'' (ucast index) s))
          else do {
            s \<leftarrow> psci_on_loop hw index payload test_input (unat TIMEOUT_LARGE) s;
            let x0 = Arg0 (g_smc_args (gl s));
            if x0 = 0 then Some (val_print ACS_PRINT_INFO ''PSCI_CPU_ON: success'' 0 s)
            else do {
              let s = (if x0 = ARM_SMC_PSCI_RET_ALREADY_ON
                       then val_print ACS_PRINT_ERR ''PSCI_CPU_ON: cpu already on'' 0 s
                       else val_print ACS_PRINT_ERR ''PSCI_CPU_ON: failure'' 0 s);
              val_set_status index (RESULT_FAIL 0 (0x120 - ucast x0)) s } } }"

text \<open>The entry of a woken PE: it fetches its arguments, runs the payload they name and
  switches itself off; \<open>run_at\<close> is what the code at an address does with its argument.
  Without arguments the call goes through an unset pointer.\<close>

definition val_test_entry ::
    "hw \<Rightarrow> (u64 \<Rightarrow> u64 \<Rightarrow> world \<Rightarrow> world option) \<Rightarrow> ARM_SMC_ARGS \<Rightarrow> world \<Rightarrow> world option" where
  "val_test_entry hw run_at smc_args s =
     do { (i, s) \<leftarrow> my_index hw s;
          (d, s) \<leftarrow> val_get_test_data hw i s;
          (vector, test_arg) \<leftarrow> d;
          s \<leftarrow> run_at vector test_arg s;
          let (m, s) = val_pe_get_mpid hw s;
          Some (snd (ArmCallSmc hw (smc_args\<lparr>Arg0 := ARM_SMC_ID_PSCI_CPU_OFF, Arg1 := m\<rparr>) s)) }"

subsection \<open>Setting up a test\<close>

text \<open>The skip list is an array of MAX_TEST_SKIP_NUM numbers.\<close>

definition skip_listed :: "u32 \<Rightarrow> world \<Rightarrow> bool option" where
  "skip_listed n s =
     (let xs = g_skip_test_num (gl s)
      in if n \<in> set (take MAX_TEST_SKIP_NUM xs) then Some True
         else if length xs < MAX_TEST_SKIP_NUM then None else Some False)"

definition val_initialize_test :: "hw \<Rightarrow> u32 \<Rightarrow> string \<Rightarrow> u32 \<Rightarrow> world \<Rightarrow> (u32 \<times> world) option" where
  "val_initialize_test hw test_num desc num_pe s =
     do { (index, s) \<leftarrow> my_index hw s;
          let s = val_print ACS_PRINT_ERR ''%4d : '' (ucast test_num) s;
          let s = val_print ACS_PRINT_TEST desc 0 s;
          let s = val_report_status 0 (ACS_TEST_START test_num) s;
          let s = val_pe_initialize_default_exception_handler hw s;
          let s = s\<lparr>gl := (gl s)\<lparr>g_acs_tests_total := g_acs_tests_total (gl s) + 1\<rparr>\<rparr>;
          s \<leftarrow> for_each (\<lambda>i. val_set_status i (RESULT_PENDING test_num)) (upto_u32 num_pe) s;
          skip \<leftarrow> skip_listed test_num s;
          if skip
          then do { let s = val_print ACS_PRINT_TEST ''USER OVERRIDE  - Skip Test'' 0 s;
                    s \<leftarrow> val_set_status index (RESULT_SKIP test_num 0) s;
                    Some (ACS_STATUS_SKIP, s) }
          else Some (ACS_STATUS_PASS, s) }"

subsection \<open>Waiting\<close>

text \<open>One pass over the PEs: one more than the last index that is still pending, or zero.\<close>

fun scan_pending :: "hw \<Rightarrow> u32 list \<Rightarrow> u32 \<Rightarrow> world \<Rightarrow> (u32 \<times> world) option" where
  "scan_pending hw [] j s = Some (j, s)"
| "scan_pending hw (i # is') j s =
     do { (st, s) \<leftarrow> val_get_status hw i s;
          scan_pending hw is' (if IS_RESULT_PENDING st then i + 1 else j) s }"

text \<open>The passes that are left are the fuel; the result is the last \<open>j\<close>, zero when nobody is
  pending any more.\<close>

fun wait_loop :: "hw \<Rightarrow> u32 \<Rightarrow> nat \<Rightarrow> u32 \<Rightarrow> world \<Rightarrow> (u32 option \<times> world) option" where
  "wait_loop hw num_pe 0 j s = Some (Some j, s)"
| "wait_loop hw num_pe (Suc n) j s =
     do { (j, s) \<leftarrow> scan_pending hw (upto_u32 num_pe) 0 s;
          if j = 0 then Some (None, s) else wait_loop hw num_pe n j s }"

definition val_wait_for_test_completion ::
    "hw \<Rightarrow> u32 \<Rightarrow> u32 \<Rightarrow> u32 \<Rightarrow> world \<Rightarrow> world option" where
  "val_wait_for_test_completion hw test_num num_pe timeout s =
     (if num_pe = 1 then Some s
      else do { (r, s) \<leftarrow> wait_loop hw num_pe (unat (timeout - 1)) 0 s;
                case r of None \<Rightarrow> Some s
                | Some j \<Rightarrow> val_set_status (j - 1) (RESULT_FAIL test_num 0xF) s })"

definition val_run_test_payload ::
    "hw \<Rightarrow> u32 \<Rightarrow> u32 \<Rightarrow> u64 \<Rightarrow> (world \<Rightarrow> world option) \<Rightarrow> u64 \<Rightarrow> world \<Rightarrow> world option" where
  "val_run_test_payload hw test_num num_pe addr payload test_input s =
     do { (me, s) \<leftarrow> my_index hw s;
          s \<leftarrow> payload s;
          if num_pe = 1 then Some s
          else do {
            s \<leftarrow> for_each (\<lambda>i s. if i \<noteq> me then val_execute_on_pe hw i addr test_input s else Some s)
                   (upto_u32 num_pe) s;
            val_wait_for_test_completion hw test_num num_pe TIMEOUT_LARGE s } }"

subsection \<open>The verdict\<close>

definition count_pass :: "world \<Rightarrow> world" where
  "count_pass s = s\<lparr>gl := (gl s)\<lparr>g_acs_tests_pass := g_acs_tests_pass (gl s) + 1\<rparr>\<rparr>"

definition count_fail :: "world \<Rightarrow> world" where
  "count_fail s = s\<lparr>gl := (gl s)\<lparr>g_acs_tests_fail := g_acs_tests_fail (gl s) + 1\<rparr>\<rparr>"

definition verdict :: "u32 \<Rightarrow> world \<Rightarrow> u32 \<times> world" where
  "verdict st s =
     (if IS_TEST_PASS st then (ACS_STATUS_PASS, count_pass s)
      else if IS_TEST_SKIP st then (ACS_STATUS_SKIP, s)
      else (ACS_STATUS_FAIL, count_fail s))"

text \<open>The loop stops at the first failed or skipped PE; otherwise the last word read remains.\<close>

fun scan_error :: "hw \<Rightarrow> u32 list \<Rightarrow> u32 \<Rightarrow> world \<Rightarrow> (u32 \<times> bool \<times> world) option" where
  "scan_error hw [] st s = Some (st, False, s)"
| "scan_error hw (i # is') st s =
     do { (st, s) \<leftarrow> val_get_status hw i s;
          if IS_TEST_FAIL_SKIP st then Some (st, True, val_report_status i st s)
          else scan_error hw is' st s }"

definition val_check_for_error :: "hw \<Rightarrow> u32 \<Rightarrow> u32 \<Rightarrow> world \<Rightarrow> (u32 \<times> world) option" where
  "val_check_for_error hw test_num num_pe s =
     do { (me, s) \<leftarrow> my_index hw s;
          if num_pe = 1
          then do { (st, s) \<leftarrow> val_get_status hw me s;
                    Some (verdict st (val_report_status me st s)) }
          else do { (st, err, s) \<leftarrow> scan_error hw (upto_u32 num_pe) 0 s;
                    let s = (if err then s else val_report_status me st s);
                    Some (verdict st s) } }"

subsection \<open>Cleaning an address range\<close>

text \<open>The loop variable may wrap around at the end of the address space, and then the loop
  does not end; its value is \<open>None\<close> in that case.\<close>

partial_function (option) clean_lines :: "u64 \<Rightarrow> u64 \<Rightarrow> u64 \<Rightarrow> world \<Rightarrow> world option" where
  "clean_lines line_length end_addr a s =
     (if a < end_addr
      then clean_lines line_length end_addr (a + line_length)
             (val_data_cache_ops_by_va (LAddr a) CLEAN s)
      else Some s)"

definition val_pe_cache_clean_range :: "hw \<Rightarrow> u64 \<Rightarrow> u64 \<Rightarrow> world \<Rightarrow> world option" where
  "val_pe_cache_clean_range hw start_addr n_bytes s =
     do { (ctr, s) \<leftarrow> val_pe_reg_read hw CTR_EL0 s;
          let line_length = push_bit (unat (drop_bit 16 ctr AND 0xF)) 2;
          let aligned_addr = start_addr - (start_addr AND (line_length - 1));
          clean_lines line_length (start_addr + n_bytes) aligned_addr s }"

subsection \<open>What the steps leave alone\<close>

lemma val_pe_install_esr_frame [frame, simp]:
  "gl (snd (val_pe_install_esr hw e s)) = gl s"
  "shared (snd (val_pe_install_esr hw e s)) = shared s"
  by (simp_all add: val_pe_install_esr_def pal_pe_install_esr_def split_beta Let_def)

lemma default_handler_frame [frame, simp]:
  "gl (val_pe_initialize_default_exception_handler hw s) = gl s"
  "shared (val_pe_initialize_default_exception_handler hw s) = shared s"
  by (simp_all add: val_pe_initialize_default_exception_handler_def)

lemma set_status_gl_all:
  "for_each (\<lambda>i. val_set_status i (f i)) is' s = Some t \<Longrightarrow> gl t = gl s"
  by (induction is' arbitrary: s) (auto simp: Option.bind_eq_Some_conv dest: val_set_status_run(1))

lemma verdict_simps:
  "IS_TEST_PASS st \<Longrightarrow> verdict st s = (ACS_STATUS_PASS, count_pass s)"
  "IS_TEST_SKIP st \<Longrightarrow> verdict st s = (ACS_STATUS_SKIP, s)"
  "\<not> IS_TEST_PASS st \<Longrightarrow> \<not> IS_TEST_SKIP st \<Longrightarrow> verdict st s = (ACS_STATUS_FAIL, count_fail s)"
  by (simp_all add: verdict_def is_test_defs reg_defs)

lemma status_codes_distinct [simp]:
  "ACS_STATUS_PASS \<noteq> ACS_STATUS_SKIP" "ACS_STATUS_PASS \<noteq> ACS_STATUS_FAIL"
  "ACS_STATUS_SKIP \<noteq> ACS_STATUS_FAIL" "ACS_STATUS_SKIP \<noteq> ACS_STATUS_PASS"
  "ACS_STATUS_FAIL \<noteq> ACS_STATUS_PASS" "ACS_STATUS_FAIL \<noteq> ACS_STATUS_SKIP"
  by (simp_all add: reg_defs)

subsection \<open>Initialising a test\<close>

lemma initialize_test_run:
  assumes "my_index hw s = Some (me, s1)" "unat num_pe \<le> shared_size s" "unat me < shared_size s"
    and "length (g_skip_test_num (gl s)) = MAX_TEST_SKIP_NUM"
  shows "\<exists>t. val_initialize_test hw n desc num_pe s =
       Some (if n \<in> set (g_skip_test_num (gl s)) then ACS_STATUS_SKIP else ACS_STATUS_PASS, t) \<and>
     gl t = (gl s)\<lparr>g_acs_tests_total := g_acs_tests_total (gl s) + 1\<rparr> \<and>
     shared_size t = shared_size s \<and>
     (\<forall>j. status_word j t =
        (if n \<in> set (g_skip_test_num (gl s)) \<and> j = me then RESULT_SKIP n 0
         else if j < num_pe then RESULT_PENDING n else status_word j s))"
proof -
  note me = val_pe_frame [OF assms(1)]
  let ?u = "(val_pe_initialize_default_exception_handler hw
         (val_report_status 0 (ACS_TEST_START n) (val_print ACS_PRINT_TEST desc 0
            (val_print ACS_PRINT_ERR ''%4d : '' (ucast n) s1))))"
  let ?v = "?u\<lparr>gl := (gl ?u)\<lparr>g_acs_tests_total := g_acs_tests_total (gl ?u) + 1\<rparr>\<rparr>"
  have v: "gl ?v = (gl s)\<lparr>g_acs_tests_total := g_acs_tests_total (gl s) + 1\<rparr>" "shared ?v = shared s"
    using me by simp_all
  have sz: "shared_size ?v = shared_size s" by (rule shared_size_cong) (rule v(2))
  have "\<forall>i\<in>set (upto_u32 num_pe). unat i < shared_size ?v"
    using assms(2) sz by (simp add: set_upto_u32 word_less_nat_alt)
  from mpam_status.put_all [OF this, of "\<lambda>_. RESULT_PENDING n"] obtain w where
    w: "for_each (\<lambda>i. val_set_status i (RESULT_PENDING n)) (upto_u32 num_pe) ?v = Some w"
       "shared_size w = shared_size ?v"
       "\<forall>j. status_word j w = (if j < num_pe then RESULT_PENDING n else status_word j ?v)"
    by (auto simp: set_upto_u32)
  have gw: "gl w = gl ?v" by (rule set_status_gl_all [OF w(1)])
  have sl: "skip_listed n w = Some (n \<in> set (g_skip_test_num (gl s)))"
    using assms(4) me by (simp add: skip_listed_def gw Let_def)
  show ?thesis
  proof (cases "n \<in> set (g_skip_test_num (gl s))")
    case False
    then have "val_initialize_test hw n desc num_pe s = Some (ACS_STATUS_PASS, w)"
      using w(1) sl by (simp add: val_initialize_test_def assms(1))
    moreover have "status_word j ?v = status_word j s" for j by (rule status_word_cong) (rule v(2))
    ultimately show ?thesis using False w(2,3) gw v(1) sz by simp
  next
    case True
    let ?w = "val_print ACS_PRINT_TEST ''USER OVERRIDE  - Skip Test'' 0 w"
    have "unat me < shared_size ?w"
      using assms(3) w(2) sz by (simp add: shared_size_def)
    then obtain x where x: "val_set_status me (RESULT_SKIP n 0) ?w = Some x"
      using val_set_status_defined by blast
    have "val_initialize_test hw n desc num_pe s = Some (ACS_STATUS_SKIP, x)"
      using w(1) sl x True by (simp add: val_initialize_test_def assms(1))
    moreover have "status_word i ?w = status_word i w" for i by (rule status_word_cong) simp
    moreover have "shared_size ?w = shared_size w" by (rule shared_size_cong) simp
    moreover have "status_word j ?v = status_word j s" for j by (rule status_word_cong) (rule v(2))
    ultimately show ?thesis
      using True w(2,3) gw v(1) sz val_set_status_run [OF x] by simp
  qed
qed

text \<open>Setting up a test marks every PE pending and counts the test; a test on the skip list
  comes back as skipped with the skip word stored for the PE that runs the suite, and any
  other test is allowed to run.\<close>

theorem initialize_test_sets_pending:
  assumes "my_index hw s = Some (me, s1)" "unat num_pe \<le> shared_size s" "unat me < shared_size s"
    and "length (g_skip_test_num (gl s)) = MAX_TEST_SKIP_NUM"
  shows "\<exists>r t. val_initialize_test hw n desc num_pe s = Some (r, t) \<and>
     g_acs_tests_total (gl t) = g_acs_tests_total (gl s) + 1 \<and>
     (if n \<in> set (g_skip_test_num (gl s))
      then r = ACS_STATUS_SKIP \<and> status_word me t = RESULT_SKIP n 0
      else r = ACS_STATUS_PASS \<and> (\<forall>i<num_pe. status_word i t = RESULT_PENDING n)) \<and>
     (\<forall>i<num_pe. i \<noteq> me \<longrightarrow> status_word i t = RESULT_PENDING n)"
  using initialize_test_run [OF assms, of n desc] by (auto split: if_splits)

lemma find_pe_numeral [simp]:
  "find_pe (e # es) (numeral k) m = (if mpidr e = m then Some (pe_num e) else find_pe es (pred_numeral k) m)"
  by (simp add: numeral_eq_Suc)

lemma two_pe_index0:
  "my_index (ram_hw r 0) two_pe_world = Some (0, log_io (SysRead ''arm64_read_mpidr'') two_pe_world)"
  by (rule my_index_eq)
     (simp add: affx_def val_pe_get_index_mpid_def two_pe_world_def)

lemma initialize_test_sets_pending_witness:
  "\<exists>t. val_initialize_test (ram_hw (\<lambda>_. 0) 0) 7 ''x'' 2 two_pe_world = Some (ACS_STATUS_PASS, t) \<and>
     status_word 1 t = RESULT_PENDING 7"
proof -
  have "\<exists>r t. val_initialize_test (ram_hw (\<lambda>_. 0) 0) 7 ''x'' 2 two_pe_world = Some (r, t) \<and>
     g_acs_tests_total (gl t) = g_acs_tests_total (gl two_pe_world) + 1 \<and>
     (if 7 \<in> set (g_skip_test_num (gl two_pe_world))
      then r = ACS_STATUS_SKIP \<and> status_word 0 t = RESULT_SKIP 7 0
      else r = ACS_STATUS_PASS \<and> (\<forall>i<2. status_word i t = RESULT_PENDING 7)) \<and>
     (\<forall>i<2. i \<noteq> 0 \<longrightarrow> status_word i t = RESULT_PENDING 7)"
    by (rule initialize_test_sets_pending [OF two_pe_index0])
       (simp_all add: two_pe_world_def shared_size_def reg_defs)
  then show ?thesis by (auto simp: two_pe_world_def)
qed

subsection \<open>Waiting\<close>

lemma scan_pending_quiet:
  assumes "quiet_peers hw" "\<forall>i\<in>set is'. unat i < shared_size s"
  shows "\<exists>t. scan_pending hw is' j s =
      Some (fold (\<lambda>i j. if IS_RESULT_PENDING (status_word i s) then i + 1 else j) is' j, t) \<and>
      shared t = shared s \<and> gl t = gl s"
  using assms(2)
proof (induction is' arbitrary: j s)
  case Nil
  then show ?case by simp
next
  case (Cons i is')
  let ?s = "log_io (CacheOp (LShared (unat i) ''status'') INVALIDATE) s"
  have st: "status_word k ?s = status_word k s" for k by (rule status_word_cong) simp
  have sz: "shared_size ?s = shared_size s" by (rule shared_size_cong) simp
  have "val_get_status hw i s = Some (status_word i s, ?s)"
    using val_get_status_quiet assms(1) Cons.prems by simp
  with Cons.IH [of ?s "if IS_RESULT_PENDING (status_word i s) then i + 1 else j"] Cons.prems show ?case
    by (simp add: st sz)
qed

lemma fold_last_pending:
  assumes "\<forall>i\<in>set is'. \<not> P i"
  shows "fold (\<lambda>i j. if P i then i + 1 else j) is' j = (j :: u32)"
  using assms by (induction is' arbitrary: j) auto

lemma fold_last_pending_hit:
  assumes "P (i :: u32)" "\<forall>k\<in>set ys. \<not> P k"
  shows "fold (\<lambda>i j. if P i then i + 1 else j) (xs @ i # ys) j = i + 1"
  using assms fold_last_pending [of ys P] by simp

lemma upto_u32_split:
  assumes "i < n"
  shows "\<exists>xs ys. upto_u32 n = xs @ i # ys \<and> (\<forall>k\<in>set ys. i < k \<and> k < n)"
proof -
  have i: "unat i < unat n" using assms by (simp add: word_less_nat_alt)
  then have "[0..<unat n] = [0..<unat i] @ unat i # [Suc (unat i)..<unat n]"
    using upt_add_eq_append [of 0 "unat i" "unat n - unat i"] by (simp add: upt_conv_Cons)
  then have "upto_u32 n = map word_of_nat [0..<unat i] @ i # map word_of_nat [Suc (unat i)..<unat n]"
    by (simp add: upto_u32_def)
  moreover have "\<forall>k\<in>set (map word_of_nat [Suc (unat i)..<unat n]). i < k \<and> k < n"
  proof -
  have "i < word_of_nat k \<and> word_of_nat k < n" if "Suc (unat i) \<le> k" "k < unat n" for k
    using that by (simp add: word_less_nat_alt unat_of_nat_below)
  then show "\<forall>k\<in>set (map word_of_nat [Suc (unat i)..<unat n]). i < k \<and> k < n" by auto
  qed
  ultimately show ?thesis by blast
qed

lemma wait_loop_done:
  assumes "quiet_peers hw" "unat num_pe \<le> shared_size s"
    and "\<forall>i<num_pe. \<not> IS_RESULT_PENDING (status_word i s)"
  shows "\<exists>t. wait_loop hw num_pe (Suc n) j s = Some (None, t) \<and> shared t = shared s \<and> gl t = gl s"
proof -
  have "\<forall>i\<in>set (upto_u32 num_pe). unat i < shared_size s"
    using assms(2) by (simp add: set_upto_u32 word_less_nat_alt)
  from scan_pending_quiet [OF assms(1) this, of 0] fold_last_pending
      [of "upto_u32 num_pe" "\<lambda>i. IS_RESULT_PENDING (status_word i s)" 0] assms(3)
  show ?thesis by (auto simp: set_upto_u32)
qed

lemma scan_pending_last:
  assumes "quiet_peers hw" "unat num_pe \<le> shared_size s"
    and "i < num_pe" "IS_RESULT_PENDING (status_word i s)"
    and "\<forall>k<num_pe. i < k \<longrightarrow> \<not> IS_RESULT_PENDING (status_word k s)"
  shows "\<exists>t. scan_pending hw (upto_u32 num_pe) 0 s = Some (i + 1, t) \<and>
           shared t = shared s \<and> gl t = gl s"
proof -
  obtain xs ys where sp: "upto_u32 num_pe = xs @ i # ys" "\<forall>k\<in>set ys. i < k \<and> k < num_pe"
    using upto_u32_split [OF assms(3)] by blast
  have "\<forall>i\<in>set (upto_u32 num_pe). unat i < shared_size s"
    using assms(2) by (simp add: set_upto_u32 word_less_nat_alt)
  from scan_pending_quiet [OF assms(1) this, of 0] obtain t where
    t: "scan_pending hw (upto_u32 num_pe) 0 s =
        Some (fold (\<lambda>i j. if IS_RESULT_PENDING (status_word i s) then i + 1 else j) (upto_u32 num_pe) 0, t)"
      "shared t = shared s" "gl t = gl s" by blast
  have "fold (\<lambda>i j. if IS_RESULT_PENDING (status_word i s) then i + 1 else j) (upto_u32 num_pe) 0 = i + 1"
    unfolding sp(1)
    by (rule fold_last_pending_hit [where P = "\<lambda>i. IS_RESULT_PENDING (status_word i s)"])
       (use assms(4,5) sp(2) in auto)
  with t show ?thesis by metis
qed

lemma plus_one_nonzero: "(i :: u32) < n \<Longrightarrow> i + 1 \<noteq> 0"
  using word_n1_ge [of n] by (metis add_eq_0_iff2 add.commute eq_neg_iff_add_eq_0 leD)

lemma wait_loop_silent:
  assumes "quiet_peers hw" "unat num_pe \<le> shared_size s"
    and "i < num_pe" "IS_RESULT_PENDING (status_word i s)"
    and "\<forall>k<num_pe. i < k \<longrightarrow> \<not> IS_RESULT_PENDING (status_word k s)"
  shows "\<exists>t. wait_loop hw num_pe (Suc n) j s = Some (Some (i + 1), t) \<and>
           shared t = shared s \<and> gl t = gl s"
  using assms(2,4,5)
proof (induction n arbitrary: j s)
  case 0
  from scan_pending_last [OF assms(1) 0(1) assms(3) 0(2,3)] plus_one_nonzero [OF assms(3)]
  show ?case by auto
next
  case (Suc n)
  from scan_pending_last [OF assms(1) Suc.prems(1) assms(3) Suc.prems(2,3)] obtain t where
    t: "scan_pending hw (upto_u32 num_pe) 0 s = Some (i + 1, t)" "shared t = shared s" "gl t = gl s"
    by blast
  have "status_word k t = status_word k s" "shared_size t = shared_size s" for k
    using t(2) status_word_cong shared_size_cong by blast+
  with Suc.IH [of t "i + 1"] Suc.prems t plus_one_nonzero [OF assms(3)] show ?case
    by (simp only: wait_loop.simps(2) [of hw num_pe "Suc n"] t(1)) simp
qed

lemma wait_fuel: "1 < timeout \<Longrightarrow> \<exists>m. unat (timeout - 1 :: u32) = Suc m"
proof -
  assume "1 < timeout"
  then have "timeout - 1 \<noteq> 0" by auto
  then show ?thesis by (metis nat.exhaust unat_eq_zero)
qed

lemma wait_all_reported:
  assumes "quiet_peers hw" "num_pe \<noteq> 1" "unat num_pe \<le> shared_size s" "1 < timeout"
    and "\<forall>i<num_pe. \<not> IS_RESULT_PENDING (status_word i s)"
  shows "\<exists>t. val_wait_for_test_completion hw n num_pe timeout s = Some t \<and> gl t = gl s \<and>
     shared t = shared s"
proof -
  obtain m where m: "unat (timeout - 1) = Suc m" using wait_fuel [OF assms(4)] by blast
  from wait_loop_done [OF assms(1,3,5), of m 0] obtain t where
    "wait_loop hw num_pe (unat (timeout - 1)) 0 s = Some (None, t)"
    "shared t = shared s" "gl t = gl s" by (auto simp only: m)
  with assms(2) show ?thesis by (auto simp: val_wait_for_test_completion_def)
qed

lemma wait_last_pending:
  assumes "quiet_peers hw" "num_pe \<noteq> 1" "unat num_pe \<le> shared_size s" "1 < timeout"
    and "i < num_pe" "IS_RESULT_PENDING (status_word i s)"
    and "\<forall>k<num_pe. i < k \<longrightarrow> \<not> IS_RESULT_PENDING (status_word k s)"
  shows "\<exists>t. val_wait_for_test_completion hw n num_pe timeout s = Some t \<and> gl t = gl s \<and>
     (\<forall>k. status_word k t = (if k = i then RESULT_FAIL n 0xF else status_word k s)) \<and>
     shared_size t = shared_size s"
proof -
  obtain m where m: "unat (timeout - 1) = Suc m" using wait_fuel [OF assms(4)] by blast
  from wait_loop_silent [OF assms(1,3,5-7), of m 0] obtain t where
    t: "wait_loop hw num_pe (unat (timeout - 1)) 0 s = Some (Some (i + 1), t)"
      "shared t = shared s" "gl t = gl s" by (auto simp only: m)
  have sz: "shared_size t = shared_size s" by (rule shared_size_cong) (rule t(2))
  then have "unat i < shared_size t" using assms(3,5) by (simp add: word_less_nat_alt)
  then obtain u where u: "val_set_status i (RESULT_FAIL n 0xF) t = Some u"
    using val_set_status_defined by blast
  have "status_word k t = status_word k s" for k by (rule status_word_cong) (rule t(2))
  then have "status_word k u = (if k = i then RESULT_FAIL n 0xF else status_word k s)" for k
    using val_set_status_run(5) [OF u] by simp
  moreover have "gl u = gl s" "shared_size u = shared_size s"
    using val_set_status_run(1,4) [OF u] t(3) sz by simp_all
  moreover have "val_wait_for_test_completion hw n num_pe timeout s = Some u"
    using assms(2) t(1) u by (simp add: val_wait_for_test_completion_def)
  ultimately show ?thesis by blast
qed

lemma last_pending_cases:
  obtains (none) "\<forall>i<(n :: u32). \<not> P i"
    | (last) i where "i < n" "P i" "\<forall>k<n. i < k \<longrightarrow> \<not> P k"
proof (cases "\<exists>i<n. P i")
  case True
  let ?A = "{i. i < n \<and> P i}"
  have "Max ?A \<in> ?A" using True by (intro Max_in) auto
  then have A: "Max ?A < n" "P (Max ?A)" by blast+
  have "\<not> P k" if "k < n" "Max ?A < k" for k
  proof
    assume "P k"
    with that have "k \<le> Max ?A" by (intro Max_ge) auto
    with that show False by simp
  qed
  then show ?thesis by (intro last [OF A]) blast
qed (use none in blast)

text \<open>C33: waiting ends early when every PE has reported, and nothing is changed; otherwise the wait is
  bounded, and the last PE that is still pending is marked as failed with code 0xF while all
  other words stay as they are.\<close>

theorem wait_marks_silent_pe:
  assumes "quiet_peers hw" "num_pe \<noteq> 1" "unat num_pe \<le> shared_size s" "1 < timeout"
  shows "\<exists>t. val_wait_for_test_completion hw n num_pe timeout s = Some t \<and> gl t = gl s \<and>
     ((\<forall>i<num_pe. \<not> IS_RESULT_PENDING (status_word i s)) \<longrightarrow> shared t = shared s) \<and>
     (\<forall>i<num_pe. IS_RESULT_PENDING (status_word i s) \<longrightarrow>
        (\<forall>k<num_pe. i < k \<longrightarrow> \<not> IS_RESULT_PENDING (status_word k s)) \<longrightarrow>
        (\<forall>k. status_word k t = (if k = i then RESULT_FAIL n 0xF else status_word k s)))"
proof (cases rule: last_pending_cases [where n = num_pe and P = "\<lambda>i. IS_RESULT_PENDING (status_word i s)"])
  case none
  with wait_all_reported [OF assms] show ?thesis by blast
next
  case (last i)
  have "j = i" if "j < num_pe" "IS_RESULT_PENDING (status_word j s)"
      "\<forall>k<num_pe. j < k \<longrightarrow> \<not> IS_RESULT_PENDING (status_word k s)" for j
    using that last by (meson linorder_less_linear)
  with wait_last_pending [OF assms last] last(1,2) show ?thesis by blast
qed

lemma wait_marks_silent_pe_witness:
  "\<exists>t. val_wait_for_test_completion (ram_hw (\<lambda>_. 0) 0) 7 2 5 two_pe_world = Some t \<and>
     shared t = shared two_pe_world"
proof -
  have "\<not> IS_RESULT_PENDING 0" by (simp add: is_test_defs reg_defs)
  then have "\<forall>i<2. \<not> IS_RESULT_PENDING (status_word i two_pe_world)"
    by (auto simp: status_word_def two_pe_world_def nth_Cons')
  with wait_marks_silent_pe [of "ram_hw (\<lambda>_. 0) 0" 2 two_pe_world 5 7] show ?thesis
    by (auto simp: shared_size_def two_pe_world_def)
qed

subsection \<open>The verdict\<close>

lemma scan_error_quiet:
  assumes "quiet_peers hw" "\<forall>i\<in>set is'. unat i < shared_size s"
  shows "\<exists>t. scan_error hw is' st s =
      (case find (\<lambda>i. IS_TEST_FAIL_SKIP (status_word i s)) is' of
         Some i \<Rightarrow> Some (status_word i s, True, t)
       | None \<Rightarrow> Some (if is' = [] then st else status_word (last is') s, False, t)) \<and>
      shared t = shared s \<and> gl t = gl s"
  using assms(2)
proof (induction is' arbitrary: st s)
  case Nil
  then show ?case by simp
next
  case (Cons i is')
  let ?s = "log_io (CacheOp (LShared (unat i) ''status'') INVALIDATE) s"
  have st: "status_word k ?s = status_word k s" for k by (rule status_word_cong) simp
  have sz: "shared_size ?s = shared_size s" by (rule shared_size_cong) simp
  have r: "val_get_status hw i s = Some (status_word i s, ?s)"
    using val_get_status_quiet assms(1) Cons.prems by simp
  from Cons.IH [of ?s "status_word i s"] Cons.prems r show ?case
    by (cases "IS_TEST_FAIL_SKIP (status_word i s)") (auto simp: st sz split: option.splits)
qed

text \<open>The word that decides a test on \<open>n\<close> PEs: that of the first PE that failed or skipped, and
  otherwise that of the last PE.\<close>

definition deciding_word :: "u32 \<Rightarrow> world \<Rightarrow> u32" where
  "deciding_word n s =
     (case find (\<lambda>i. IS_TEST_FAIL_SKIP (status_word i s)) (upto_u32 n) of
        Some i \<Rightarrow> status_word i s
      | None \<Rightarrow> if n = 0 then 0 else status_word (n - 1) s)"

lemma upto_u32_last: "n \<noteq> 0 \<Longrightarrow> upto_u32 n \<noteq> [] \<and> last (upto_u32 n) = n - 1"
  using unat_gt_0 [of n] by (auto simp: upto_u32_def last_map of_nat_diff Suc_le_eq)

lemma check_for_error_word:
  assumes "quiet_peers hw" "my_index hw s = Some (me, s1)" "num_pe \<noteq> 1"
    and "unat num_pe \<le> shared_size s"
  shows "\<exists>u. val_check_for_error hw n num_pe s = Some (verdict (deciding_word num_pe s) u) \<and>
     gl u = gl s \<and> shared u = shared s"
proof -
  note me = val_pe_frame [OF assms(2)]
  have w: "status_word k s1 = status_word k s" "shared_size s1 = shared_size s" for k
    using me status_word_cong shared_size_cong by blast+
  have "\<forall>i\<in>set (upto_u32 num_pe). unat i < shared_size s1"
    using assms(4) w by (simp add: set_upto_u32 word_less_nat_alt)
  from scan_error_quiet [OF assms(1) this, of 0] obtain t where
    t: "scan_error hw (upto_u32 num_pe) 0 s1 =
      (case find (\<lambda>i. IS_TEST_FAIL_SKIP (status_word i s1)) (upto_u32 num_pe) of
         Some i \<Rightarrow> Some (status_word i s1, True, t)
       | None \<Rightarrow> Some (if upto_u32 num_pe = [] then 0 else status_word (last (upto_u32 num_pe)) s1, False, t))"
    "shared t = shared s1" "gl t = gl s1" by blast
  show ?thesis
    using t assms(2,3) me upto_u32_last [of num_pe] w
    by (cases "num_pe = 0") (auto simp: val_check_for_error_def deciding_word_def split: option.splits)
qed

text \<open>The verdict of a test on several PEs, stated without the loop.\<close>



text \<open>C6: a PE that never reports makes the test fail: after waiting, the verdict on the same PEs is
  a failure whenever all the others passed, and it is counted once.\<close>

theorem silent_pe_fails_test:
  assumes "quiet_peers hw" "my_index hw s = Some (me, s1)" "num_pe \<noteq> 1"
    and "unat num_pe \<le> shared_size s" "1 < timeout" "n < 0x1000"
    and "i < num_pe" "IS_RESULT_PENDING (status_word i s)"
    and "\<forall>k<num_pe. k \<noteq> i \<longrightarrow> IS_TEST_PASS (status_word k s)"
  shows "\<exists>t r u. val_wait_for_test_completion hw n num_pe timeout s = Some t \<and>
     val_check_for_error hw n num_pe t = Some (r, u) \<and> r = ACS_STATUS_FAIL \<and>
     g_acs_tests_fail (gl u) = g_acs_tests_fail (gl s) + 1"
proof -
  have others: "\<forall>k<num_pe. i < k \<longrightarrow> \<not> IS_RESULT_PENDING (status_word k s)"
    using assms(9) by (auto simp: is_test_defs reg_defs)
  from wait_last_pending [OF assms(1,3,4,5,7,8) others, of n] obtain t where
    t: "val_wait_for_test_completion hw n num_pe timeout s = Some t" "gl t = gl s"
      "\<forall>k. status_word k t = (if k = i then RESULT_FAIL n 0xF else status_word k s)"
      "shared_size t = shared_size s" by blast
  obtain s2 where s2: "my_index hw t = Some (me, s2)"
    using assms(2) t(2) by (auto simp: my_index_def val_pe_get_mpid_def val_pe_get_index_mpid_def
        Option.bind_eq_Some_conv)
  from check_for_error_word [OF assms(1) s2 assms(3), of n] assms(4) t(4) obtain u where
    u: "val_check_for_error hw n num_pe t = Some (verdict (deciding_word num_pe t) u)" "gl u = gl t"
    by auto
  have f: "IS_TEST_FAIL (RESULT_FAIL n 0xF)" by (rule small_results_classified) (use assms(6) in auto)
  have dw: "deciding_word num_pe t = RESULT_FAIL n 0xF"
  proof (cases "find (\<lambda>i. IS_TEST_FAIL_SKIP (status_word i t)) (upto_u32 num_pe)")
    case None
    then have "\<not> IS_TEST_FAIL_SKIP (status_word i t)"
      using assms(7) by (simp add: find_None_iff set_upto_u32)
    with f t(3) show ?thesis by (simp add: IS_TEST_FAIL_SKIP_def)
  next
    case (Some k)
    then have k: "k \<in> set (upto_u32 num_pe)" "IS_TEST_FAIL_SKIP (status_word k t)"
      by (auto simp: find_Some_iff in_set_conv_nth)
    have "k = i"
    proof (rule ccontr)
      assume "k \<noteq> i"
      then have "IS_TEST_PASS (status_word k t)" using assms(9) k(1) t(3) by (simp add: set_upto_u32)
      with k(2) show False by (auto simp: is_test_defs reg_defs)
    qed
    with Some t(3) show ?thesis by (simp add: deciding_word_def)
  qed
  have "\<not> IS_TEST_PASS (RESULT_FAIL n 0xF)" "\<not> IS_TEST_SKIP (RESULT_FAIL n 0xF)"
    using small_results_classified [of n "0xF"] assms(6) by auto
  with u t show ?thesis by (simp add: dw verdict_simps count_fail_def)
qed

lemma silent_pe_fails_test_witness:
  "\<exists>t u. val_wait_for_test_completion (ram_hw (\<lambda>_. 0) 0) 7 2 5
        (two_pe_world\<lparr>shared := Some [\<lparr>data0 = 0, data1 = 0, status = RESULT_PASS 7 1\<rparr>,
           \<lparr>data0 = 0, data1 = 0, status = RESULT_PENDING 7\<rparr>]\<rparr>) = Some t \<and>
     val_check_for_error (ram_hw (\<lambda>_. 0) 0) 7 2 t = Some (ACS_STATUS_FAIL, u)"
proof -
  let ?s = "two_pe_world\<lparr>shared := Some [\<lparr>data0 = 0, data1 = 0, status = RESULT_PASS 7 1\<rparr>,
           \<lparr>data0 = 0, data1 = 0, status = RESULT_PENDING 7\<rparr>]\<rparr>"
  have me: "my_index (ram_hw (\<lambda>_. 0) 0) ?s = Some (0, log_io (SysRead ''arm64_read_mpidr'') ?s)"
    by (rule my_index_eq) (simp add: affx_def val_pe_get_index_mpid_def two_pe_world_def)
  have w: "status_word 1 ?s = RESULT_PENDING 7" "status_word 0 ?s = RESULT_PASS 7 1"
    by (simp_all add: status_word_def)
  have k: "k = 0 \<or> k = 1" if "k < 2" for k :: u32
  proof -
    have "unat k < 2" using that by (simp add: word_less_nat_alt)
    then have "unat k = unat (0 :: u32) \<or> unat k = unat (1 :: u32)" by auto
    then show ?thesis by (simp only: word_unat_eq_iff)
  qed
  have p: "IS_TEST_PASS (RESULT_PASS 7 1)" by (rule small_results_classified) simp_all
  have "\<forall>k<2. k \<noteq> 1 \<longrightarrow> IS_TEST_PASS (status_word k ?s)"
    using k w(2) p by metis
  moreover have "IS_RESULT_PENDING (status_word 1 ?s)"
    using w small_results_classified(9) [of 7 1] by simp
  ultimately show ?thesis
    using silent_pe_fails_test [where hw = "ram_hw (\<lambda>_. 0) 0" and s = ?s and num_pe = 2
        and timeout = 5 and n = 7 and i = 1, OF _ me]
    by (auto simp add: shared_size_def)
qed

subsection \<open>Waking a PE is bounded\<close>

definition smc_count :: "history \<Rightarrow> nat" where
  "smc_count h = length (List.filter (\<lambda>e. case e of Smc _ _ \<Rightarrow> True | _ \<Rightarrow> False) h)"

text \<open>A state in which PE \<open>index\<close> can be woken: it is in the table and has a shared entry.\<close>

definition wakeable :: "u32 \<Rightarrow> world \<Rightarrow> bool" where
  "wakeable index s \<longleftrightarrow>
     (\<exists>t. g_pe_info_table (gl s) = Some t \<and> index < num_of_pe t \<and> unat index < length (pe_info t)) \<and>
     unat index < shared_size s"

lemma psci_on_once_run:
  assumes "wakeable index s" "\<And>h m a. fst (smc_in hw h m a) = x"
  shows "\<exists>t. psci_on_once hw index p d s = Some t \<and> wakeable index t \<and>
     Arg0 (g_smc_args (gl t)) = x \<and> smc_count (io t) = smc_count (io s) + 1 \<and>
     (\<forall>j. status_word j t = status_word j s)"
proof -
  obtain tb mem where tb: "g_pe_info_table (gl s) = Some tb" "index < num_of_pe tb"
      "unat index < length (pe_info tb)" and mem: "shared s = Some mem" "unat index < length mem"
    using assms by (auto simp: wakeable_def shared_size_def split: option.splits)
  have n1: "\<not> num_of_pe tb < index" using tb(2) by simp
  show ?thesis
    using tb mem n1 assms(2)
    by (auto simp: psci_on_once_def val_pe_get_mpid_index_def val_set_test_data_def val_pe_get_num_def
        pal_pe_execute_payload_def ArmCallSmc_def wakeable_def shared_size_def smc_count_def Let_def
        split_beta status_word_def nth_list_update)
qed

lemma psci_on_loop_run:
  assumes "wakeable index s" "\<And>h m a. fst (smc_in hw h m a) = x"
  shows "\<exists>t. psci_on_loop hw index p d n s = Some t \<and> wakeable index t \<and>
     Arg0 (g_smc_args (gl t)) = x \<and>
     smc_count (io t) = smc_count (io s) + (if x = ARM_SMC_PSCI_RET_ALREADY_ON then n + 1 else 1) \<and>
     (\<forall>j. status_word j t = status_word j s)"
  using assms(1)
proof (induction n arbitrary: s)
  case 0
  from psci_on_once_run [OF 0 assms(2), of p d] show ?case
    by (auto simp: psci_on_loop.simps)
next
  case (Suc n)
  from psci_on_once_run [OF Suc.prems assms(2), of p d] obtain t where
    t: "psci_on_once hw index p d s = Some t" "wakeable index t" "Arg0 (g_smc_args (gl t)) = x"
      "smc_count (io t) = smc_count (io s) + 1" "\<forall>j. status_word j t = status_word j s" by blast
  from Suc.IH [OF t(2)] t show ?case
    by (subst psci_on_loop.simps) auto
qed

text \<open>Waking a PE always returns, whatever PSCI answers: after one call, or when the answer stays
  ALREADY_ON after TIMEOUT_LARGE + 1 calls. Success leaves all status words alone, and every
  other answer stores a failure word with code 0x120 minus the answer for the PE.\<close>

theorem execute_on_pe_result:
  assumes "wakeable index s" "\<And>h m a. fst (smc_in hw h m a) = x"
  shows "\<exists>t. val_execute_on_pe hw index p d s = Some t \<and>
     smc_count (io t) = smc_count (io s) +
        (if x = ARM_SMC_PSCI_RET_ALREADY_ON then unat TIMEOUT_LARGE + 1 else 1) \<and>
     (\<forall>j. status_word j t =
        (if j = index \<and> x \<noteq> 0 then RESULT_FAIL 0 (0x120 - ucast x) else status_word j s))"
proof -
  obtain tb where tb: "g_pe_info_table (gl s) = Some tb" "\<not> num_of_pe tb < index"
    using assms(1) by (auto simp: wakeable_def)
  from psci_on_loop_run [OF assms, of p d "unat TIMEOUT_LARGE"] obtain u where
    u: "psci_on_loop hw index p d (unat TIMEOUT_LARGE) s = Some u" "wakeable index u"
      "Arg0 (g_smc_args (gl u)) = x" "smc_count (io u) = smc_count (io s) +
        (if x = ARM_SMC_PSCI_RET_ALREADY_ON then unat TIMEOUT_LARGE + 1 else 1)"
      "\<forall>j. status_word j u = status_word j s" by blast
  show ?thesis
  proof (cases "x = 0")
    case True
    have "status_word j (val_print ACS_PRINT_INFO ''PSCI_CPU_ON: success'' 0 u) = status_word j u" for j
      by (rule status_word_cong) simp
    with True tb u show ?thesis by (simp add: val_execute_on_pe_def)
  next
    case False
    define v where "v = (if x = ARM_SMC_PSCI_RET_ALREADY_ON
       then val_print ACS_PRINT_ERR ''PSCI_CPU_ON: cpu already on'' 0 u
       else val_print ACS_PRINT_ERR ''PSCI_CPU_ON: failure'' 0 u)"
    have v: "io v = io u" "shared v = shared u" by (simp_all add: v_def)
    have "unat index < shared_size v"
      using u(2) shared_size_cong [OF v(2)] by (simp add: wakeable_def)
    then obtain t where t: "val_set_status index (RESULT_FAIL 0 (0x120 - ucast x)) v = Some t"
      using val_set_status_defined by blast
    have r: "val_execute_on_pe hw index p d s = Some t"
      using False tb u t by (simp add: val_execute_on_pe_def v_def)
    have c: "smc_count (io t) = smc_count (io u)"
      using val_set_status_run(6) [OF t] v(1) by (simp add: smc_count_def)
    have "status_word j v = status_word j s" for j using status_word_cong [OF v(2)] u(5) by simp
    then have "status_word j t = (if j = index then RESULT_FAIL 0 (0x120 - ucast x) else status_word j s)" for j
      using val_set_status_run(5) [OF t, of j] by simp
    with r c u(4) False show ?thesis by auto
  qed
qed

lemma execute_on_pe_result_witness:
  "\<exists>t. val_execute_on_pe ((ram_hw (\<lambda>_. 0) 0)\<lparr>smc_in := \<lambda>h m a. (- 4, 0, 0, 0)\<rparr>) 1 0x8000 0 two_pe_world
       = Some t \<and> status_word 1 t = RESULT_FAIL 0 (0x120 - ucast (- 4 :: u64))"
proof -
  have "wakeable 1 two_pe_world" by (simp add: wakeable_def two_pe_world_def shared_size_def)
  from execute_on_pe_result [where p = "0x8000" and d = 0 and x = "- 4"
      and hw = "(ram_hw (\<lambda>_. 0) 0)\<lparr>smc_in := \<lambda>h m a. (- 4, 0, 0, 0)\<rparr>", OF this]
  show ?thesis by auto
qed

subsection \<open>Every line of a range is cleaned\<close>

lemma clean_lines_run:
  assumes "0 < l" "unat e + unat l < 2 ^ 64"
  shows "\<exists>t. clean_lines l e a s = Some t \<and> set (io s) \<subseteq> set (io t) \<and>
     (\<forall>x. a \<le> x \<and> x < e \<longrightarrow>
        (\<exists>b. CacheOp (LAddr b) CLEAN \<in> set (io t) \<and> b \<le> x \<and> unat x < unat b + unat l))"
proof (induction "unat e - unat a" arbitrary: a s rule: less_induct)
  case less
  show ?case
  proof (cases "a < e")
    case False
    then have "clean_lines l e a s = Some s" by (subst clean_lines.simps) simp
    with False show ?thesis by auto
  next
    case True
    let ?s = "log_io (CacheOp (LAddr a) CLEAN) s"
    have al: "unat (a + l) = unat a + unat l"
      using assms(2) True by (simp add: unat_add_lem [THEN iffD1] word_less_nat_alt)
    have "unat e - unat (a + l) < unat e - unat a"
      using al assms(1) True by (simp add: word_less_nat_alt)
    from less.hyps [OF this, of ?s] obtain t where
      t: "clean_lines l e (a + l) ?s = Some t" "set (io ?s) \<subseteq> set (io t)"
        "\<forall>x. a + l \<le> x \<and> x < e \<longrightarrow>
          (\<exists>b. CacheOp (LAddr b) CLEAN \<in> set (io t) \<and> b \<le> x \<and> unat x < unat b + unat l)" by blast
    have r: "clean_lines l e a s = Some t" using True t(1) by (subst clean_lines.simps) simp
    have "\<exists>b. CacheOp (LAddr b) CLEAN \<in> set (io t) \<and> b \<le> x \<and> unat x < unat b + unat l"
      if x: "a \<le> x" "x < e" for x
    proof (cases "a + l \<le> x")
      case True
      with t(3) x show ?thesis by blast
    next
      case False
      then have "unat x < unat a + unat l" using al by (simp add: word_le_nat_alt)
      with x t(2) show ?thesis by (intro exI [of _ a]) auto
    qed
    with r t(2) show ?thesis by auto
  qed
qed

definition clean_line_length :: "u64 \<Rightarrow> u64" where
  "clean_line_length ctr = push_bit (unat (drop_bit 16 ctr AND 0xF)) 2"

lemma clean_line_length_bounds: "0 < clean_line_length c" "unat (clean_line_length c) \<le> 0x10000"
proof -
  let ?k = "unat (drop_bit 16 c AND 0xF)"
  have k: "?k \<le> 15" using and_mask_eq_mod [of "drop_bit 16 c" 4]
    by (simp add: mask_eq_exp_minus_1)
  have "clean_line_length c = of_nat (2 * 2 ^ ?k)"
    by (simp add: clean_line_length_def push_bit_eq_mult)
  moreover have le: "(2 :: nat) * 2 ^ ?k \<le> 2 * 2 ^ 15"
    using k by (intro mult_left_mono power_increasing) auto
  then have "2 * 2 ^ ?k mod 2 ^ LENGTH(64) = (2 * 2 ^ ?k :: nat)" by (intro mod_less) simp
  ultimately have u: "unat (clean_line_length c) = 2 * 2 ^ ?k"
    by (simp only: unat_of_nat)
  show "unat (clean_line_length c) \<le> 0x10000" using u le by simp
  show "0 < clean_line_length c" using u by (simp add: word_less_nat_alt)
qed

text \<open>Cleaning a range returns and reaches every byte of it, unless the range touches the last
  64 KiB of the address space: each byte lies in a line for which the clean operation was
  issued.\<close>

theorem cache_clean_range_covers:
  assumes "unat start_addr + unat n + 0x10000 < 2 ^ 64"
  shows "\<exists>t. val_pe_cache_clean_range hw start_addr n s = Some t \<and>
     (\<forall>x. start_addr \<le> x \<and> x < start_addr + n \<longrightarrow>
        (\<exists>b. CacheOp (LAddr b) CLEAN \<in> set (io t) \<and> b \<le> x \<and>
             unat x < unat b + unat (clean_line_length (sysreg_in hw (io s) ''arm64_read_ctr''))))"
proof -
  let ?c = "sysreg_in hw (io s) ''arm64_read_ctr''"
  let ?l = "clean_line_length ?c"
  let ?a = "start_addr - (start_addr AND (?l - 1))"
  have rd: "val_pe_reg_read hw CTR_EL0 s = Some (?c, log_io (SysRead ''arm64_read_ctr'') s)"
    by (simp add: val_pe_reg_read_def reg_reader_def read_sysreg_def)
  have "unat (start_addr + n) = unat start_addr + unat n"
    using assms by (simp add: unat_add_lem [THEN iffD1])
  then have "unat (start_addr + n) + unat ?l < 2 ^ 64"
    using assms clean_line_length_bounds(2) [of ?c] by simp
  from clean_lines_run [OF clean_line_length_bounds(1) this, of ?a "log_io (SysRead ''arm64_read_ctr'') s"]
  obtain t where t: "clean_lines ?l (start_addr + n) ?a (log_io (SysRead ''arm64_read_ctr'') s) = Some t"
    "\<forall>x. ?a \<le> x \<and> x < start_addr + n \<longrightarrow>
        (\<exists>b. CacheOp (LAddr b) CLEAN \<in> set (io t) \<and> b \<le> x \<and> unat x < unat b + unat ?l)" by blast
  have "?a \<le> start_addr" by (rule word_sub_le) (rule word_and_le2)
  moreover have "val_pe_cache_clean_range hw start_addr n s = Some t"
    using t(1) by (simp add: val_pe_cache_clean_range_def rd clean_line_length_def [symmetric])
  ultimately show ?thesis using t(2) by (meson order_trans)
qed

lemma cache_clean_range_covers_witness:
  "\<exists>t. val_pe_cache_clean_range (ram_hw (\<lambda>_. 0) 0) 0x1003 0x40 two_pe_world = Some t \<and>
     (\<exists>b. CacheOp (LAddr b) CLEAN \<in> set (io t) \<and> b \<le> 0x1005)"
proof -
  have "unat (0x1003 :: u64) + unat (0x40 :: u64) + 0x10000 < 2 ^ 64" by simp
  from cache_clean_range_covers [OF this, of "ram_hw (\<lambda>_. 0) 0" two_pe_world] obtain t where
    t: "val_pe_cache_clean_range (ram_hw (\<lambda>_. 0) 0) 0x1003 0x40 two_pe_world = Some t"
    "\<forall>x. 0x1003 \<le> x \<and> x < 0x1003 + 0x40 \<longrightarrow>
        (\<exists>b. CacheOp (LAddr b) CLEAN \<in> set (io t) \<and> b \<le> x \<and> unat x < unat b + unat
        (clean_line_length (sysreg_in (ram_hw (\<lambda>_. 0) 0) (io two_pe_world) ''arm64_read_ctr'')))"
    by blast
  have "(0x1003 :: u64) \<le> 0x1005 \<and> (0x1005 :: u64) < 0x1003 + 0x40" by simp
  with t show ?thesis by blast
qed

end
