(* ===== verification/Mpam_Hwreg.thy ===== *)
theory Mpam_Hwreg
  imports Acs_Machine
begin

text \<open>
  The register map of an MPAM memory system component (val_mpam_hwreg_defs.h): offsets as
  64-bit addresses, shift counts as naturals, masks and codes as 32-bit words. All of them
  are in the collection \<open>reg_defs\<close>.
\<close>

text \<open>MPAMn_ELx bit definitions\<close>

definition MPAMn_ELx_PARTID_I_SHIFT :: nat where [reg_defs]: "MPAMn_ELx_PARTID_I_SHIFT = 0"
definition MPAMn_ELx_PARTID_D_SHIFT :: nat where [reg_defs]: "MPAMn_ELx_PARTID_D_SHIFT = 16"
definition MPAMn_ELx_PMG_I_SHIFT :: nat where [reg_defs]: "MPAMn_ELx_PMG_I_SHIFT = 32"
definition MPAMn_ELx_PMG_D_SHIFT :: nat where [reg_defs]: "MPAMn_ELx_PMG_D_SHIFT = 40"
definition MPAMn_ELx_MPAMEN_SHIFT :: nat where [reg_defs]: "MPAMn_ELx_MPAMEN_SHIFT = 63"
definition MPAMn_ELx_PARTID_I_MASK :: u32 where [reg_defs]: "MPAMn_ELx_PARTID_I_MASK = 0xffff"
definition MPAMn_ELx_PARTID_D_MASK :: u32 where [reg_defs]: "MPAMn_ELx_PARTID_D_MASK = 0xffff"
definition MPAMn_ELx_PMG_I_MASK :: u32 where [reg_defs]: "MPAMn_ELx_PMG_I_MASK = 0xff"
definition MPAMn_ELx_PMG_D_MASK :: u32 where [reg_defs]: "MPAMn_ELx_PMG_D_MASK = 0xff"
definition MPAMn_ELx_MPAMEN_MASK :: u32 where [reg_defs]: "MPAMn_ELx_MPAMEN_MASK = 0x1"

text \<open>MPAMIDR_EL1 bit definitions\<close>

definition MPAMIDR_PARTID_MAX_SHIFT :: nat where [reg_defs]: "MPAMIDR_PARTID_MAX_SHIFT = 0"
definition MPAMIDR_PMG_MAX_SHIFT :: nat where [reg_defs]: "MPAMIDR_PMG_MAX_SHIFT = 32"
definition MPAMIDR_PARTID_MAX_MASK :: u32 where [reg_defs]: "MPAMIDR_PARTID_MAX_MASK = 0xffff"
definition MPAMIDR_PMG_MAX_MASK :: u32 where [reg_defs]: "MPAMIDR_PMG_MAX_MASK = 0xff"
definition REG_MPAMF_IDR :: u64 where [reg_defs]: "REG_MPAMF_IDR = 0x0000"
definition REG_MPAMF_SIDR :: u64 where [reg_defs]: "REG_MPAMF_SIDR = 0x0008"
definition REG_MPAMF_MSMON_IDR :: u64 where [reg_defs]: "REG_MPAMF_MSMON_IDR = 0x0080"
definition REG_MPAMF_IMPL_IDR :: u64 where [reg_defs]: "REG_MPAMF_IMPL_IDR = 0x0028"
definition REG_MPAMF_CPOR_IDR :: u64 where [reg_defs]: "REG_MPAMF_CPOR_IDR = 0x0030"
definition REG_MPAMF_CCAP_IDR :: u64 where [reg_defs]: "REG_MPAMF_CCAP_IDR = 0x0038"
definition REG_MPAMF_MBW_IDR :: u64 where [reg_defs]: "REG_MPAMF_MBW_IDR = 0x0040"
definition REG_MPAMF_PRI_IDR :: u64 where [reg_defs]: "REG_MPAMF_PRI_IDR = 0x0048"
definition REG_MPAMF_CSUMON_IDR :: u64 where [reg_defs]: "REG_MPAMF_CSUMON_IDR = 0x0088"
definition REG_MPAMF_MBWUMON_IDR :: u64 where [reg_defs]: "REG_MPAMF_MBWUMON_IDR = 0x0090"
definition REG_PARTID_NRW_IDR :: u64 where [reg_defs]: "REG_PARTID_NRW_IDR = 0x0050"
definition REG_MPAMF_IIDR :: u64 where [reg_defs]: "REG_MPAMF_IIDR = 0x0018"
definition REG_MPAMF_AIDR :: u64 where [reg_defs]: "REG_MPAMF_AIDR = 0x0020"

text \<open>MPAMF_IDR bit definitions\<close>

definition IDR_PARTID_MAX_SHIFT :: nat where [reg_defs]: "IDR_PARTID_MAX_SHIFT = 0"
definition IDR_PMG_MAX_SHIFT :: nat where [reg_defs]: "IDR_PMG_MAX_SHIFT = 16"
definition IDR_HAS_CCAP_PART_SHIFT :: nat where [reg_defs]: "IDR_HAS_CCAP_PART_SHIFT = 24"
definition IDR_HAS_CPOR_PART_SHIFT :: nat where [reg_defs]: "IDR_HAS_CPOR_PART_SHIFT = 25"
definition IDR_HAS_MBW_PART_SHIFT :: nat where [reg_defs]: "IDR_HAS_MBW_PART_SHIFT = 26"
definition IDR_HAS_MSMON_SHIFT :: nat where [reg_defs]: "IDR_HAS_MSMON_SHIFT = 30"
definition IDR_PARTID_MAX_MASK :: u32 where [reg_defs]: "IDR_PARTID_MAX_MASK = 0xffff"
definition IDR_PMG_MAX_MASK :: u32 where [reg_defs]: "IDR_PMG_MAX_MASK = 0xff"
definition IDR_HAS_CCAP_PART_MASK :: u32 where [reg_defs]: "IDR_HAS_CCAP_PART_MASK = 0x1"
definition IDR_HAS_CPOR_PART_MASK :: u32 where [reg_defs]: "IDR_HAS_CPOR_PART_MASK = 0x1"
definition IDR_HAS_MBW_PART_MASK :: u32 where [reg_defs]: "IDR_HAS_MBW_PART_MASK = 0x1"
definition IDR_HAS_MSMON_MASK :: u32 where [reg_defs]: "IDR_HAS_MSMON_MASK = 0x1"

text \<open>MPAMF_MSMON_IDR bit definitions\<close>

definition MSMON_IDR_MSMON_CSU_SHIFT :: nat where [reg_defs]: "MSMON_IDR_MSMON_CSU_SHIFT = 16"
definition MSMON_IDR_MSMON_MBWU_SHIFT :: nat where [reg_defs]: "MSMON_IDR_MSMON_MBWU_SHIFT = 17"
definition MSMON_IDR_HAS_LOCAL_CAPT_EVNT_SHIFT :: nat where [reg_defs]: "MSMON_IDR_HAS_LOCAL_CAPT_EVNT_SHIFT = 31"
definition MSMON_IDR_MSMON_CSU_MASK :: u32 where [reg_defs]: "MSMON_IDR_MSMON_CSU_MASK = 0x1"
definition MSMON_IDR_MSMON_MBWU_MASK :: u32 where [reg_defs]: "MSMON_IDR_MSMON_MBWU_MASK = 0x1"
definition MSMON_IDR_HAS_LOCAL_CAPT_EVNT_MASK :: u32 where [reg_defs]: "MSMON_IDR_HAS_LOCAL_CAPT_EVNT_MASK = 0x1"

text \<open>MPAMF_CPOR_IDR bit definitions\<close>

definition CPOR_IDR_CPBM_WD_SHIFT :: nat where [reg_defs]: "CPOR_IDR_CPBM_WD_SHIFT = 0"
definition CPOR_IDR_CPBM_WD_MASK :: u32 where [reg_defs]: "CPOR_IDR_CPBM_WD_MASK = 0xffff"

text \<open>MPAMF_CCAP_IDR bit definitions\<close>

definition CCAP_IDR_CMAX_WD_SHIFT :: nat where [reg_defs]: "CCAP_IDR_CMAX_WD_SHIFT = 0"
definition CCAP_IDR_CMAX_WD_MASK :: u32 where [reg_defs]: "CCAP_IDR_CMAX_WD_MASK = 0x3f"

text \<open>MPAMF_MBW_IDR bit definitions\<close>

definition MBW_IDR_BWA_WD_SHIFT :: nat where [reg_defs]: "MBW_IDR_BWA_WD_SHIFT = 0"
definition MBW_IDR_HAS_MIN_SHIFT :: nat where [reg_defs]: "MBW_IDR_HAS_MIN_SHIFT = 10"
definition MBW_IDR_HAS_MAX_SHIFT :: nat where [reg_defs]: "MBW_IDR_HAS_MAX_SHIFT = 11"
definition MBW_IDR_HAS_PBM_SHIFT :: nat where [reg_defs]: "MBW_IDR_HAS_PBM_SHIFT = 12"
definition MBW_IDR_HAS_WINDWR_SHIFT :: nat where [reg_defs]: "MBW_IDR_HAS_WINDWR_SHIFT = 14"
definition MBW_IDR_BWPBM_WD_SHIFT :: nat where [reg_defs]: "MBW_IDR_BWPBM_WD_SHIFT = 16"
definition MBW_IDR_BWA_WD_MASK :: u32 where [reg_defs]: "MBW_IDR_BWA_WD_MASK = 0x3f"
definition MBW_IDR_HAS_MIN_MASK :: u32 where [reg_defs]: "MBW_IDR_HAS_MIN_MASK = 0x1"
definition MBW_IDR_HAS_MAX_MASK :: u32 where [reg_defs]: "MBW_IDR_HAS_MAX_MASK = 0x1"
definition MBW_IDR_HAS_PBM_MASK :: u32 where [reg_defs]: "MBW_IDR_HAS_PBM_MASK = 0x1"
definition MBW_IDR_HAS_WINDWR_MASK :: u32 where [reg_defs]: "MBW_IDR_HAS_WINDWR_MASK = 0x1"
definition MBW_IDR_BWPBM_WD_MASK :: u32 where [reg_defs]: "MBW_IDR_BWPBM_WD_MASK = 0x1fff"

text \<open>MPAMF_CSUMON_IDR bit definitions\<close>

definition CSUMON_IDR_NUM_MON_SHIFT :: nat where [reg_defs]: "CSUMON_IDR_NUM_MON_SHIFT = 0"
definition CSUMON_IDR_HAS_CAPTURE_SHIFT :: nat where [reg_defs]: "CSUMON_IDR_HAS_CAPTURE_SHIFT = 31"
definition CSUMON_IDR_NUM_MON_MASK :: u32 where [reg_defs]: "CSUMON_IDR_NUM_MON_MASK = 0xffff"
definition CSUMON_IDR_HAS_CAPTURE_MASK :: u32 where [reg_defs]: "CSUMON_IDR_HAS_CAPTURE_MASK = 0x1"

text \<open>MPAMF_MBWUMON_IDR bit definitions\<close>

definition MBWUMON_IDR_NUM_MON_SHIFT :: nat where [reg_defs]: "MBWUMON_IDR_NUM_MON_SHIFT = 0"
definition MBWUMON_IDR_HAS_CAPTURE_SHIFT :: nat where [reg_defs]: "MBWUMON_IDR_HAS_CAPTURE_SHIFT = 31"
definition MBWUMON_IDR_NUM_MON_MASK :: u32 where [reg_defs]: "MBWUMON_IDR_NUM_MON_MASK = 0xffff"
definition MBWUMON_IDR_HAS_CAPTURE_MASK :: u32 where [reg_defs]: "MBWUMON_IDR_HAS_CAPTURE_MASK = 0x1"

text \<open>MPAMF_AIDR bit definitions\<close>

definition AIDR_ARCH_MIN_VER_SHIFT :: nat where [reg_defs]: "AIDR_ARCH_MIN_VER_SHIFT = 0"
definition AIDR_ARCH_MAJ_VER_SHIFT :: nat where [reg_defs]: "AIDR_ARCH_MAJ_VER_SHIFT = 4"
definition AIDR_ARCH_MIN_VER_MASK :: u32 where [reg_defs]: "AIDR_ARCH_MIN_VER_MASK = 0xf"
definition AIDR_ARCH_MAJ_VER_MASK :: u32 where [reg_defs]: "AIDR_ARCH_MAJ_VER_MASK = 0xf"
definition REG_MPAMCFG_PART_SEL :: u64 where [reg_defs]: "REG_MPAMCFG_PART_SEL = 0x0100"
definition REG_MPAMCFG_CPBM :: u64 where [reg_defs]: "REG_MPAMCFG_CPBM = 0x1000"
definition REG_MPAMCFG_CMAX :: u64 where [reg_defs]: "REG_MPAMCFG_CMAX = 0x0108"
definition REG_MPAMCFG_MBW_MIN :: u64 where [reg_defs]: "REG_MPAMCFG_MBW_MIN = 0x0200"
definition REG_MPAMCFG_MBW_MAX :: u64 where [reg_defs]: "REG_MPAMCFG_MBW_MAX = 0x0208"
definition REG_MPAMCFG_MBW_WINWD :: u64 where [reg_defs]: "REG_MPAMCFG_MBW_WINWD = 0x0220"
definition REG_MPAMCFG_MBW_PBM :: u64 where [reg_defs]: "REG_MPAMCFG_MBW_PBM = 0x2000"

text \<open>MPAMCFG_PART_SEL bit definitions\<close>

definition PART_SEL_PARTID_SEL_SHIFT :: nat where [reg_defs]: "PART_SEL_PARTID_SEL_SHIFT = 0"
definition PART_SEL_INTERNAL_SHIFT :: nat where [reg_defs]: "PART_SEL_INTERNAL_SHIFT = 16"
definition PART_SEL_PARTID_SEL_MASK :: u32 where [reg_defs]: "PART_SEL_PARTID_SEL_MASK = 0xffff"
definition PART_SEL_INTERNAL_MASK :: u32 where [reg_defs]: "PART_SEL_INTERNAL_MASK = 0x1"

text \<open>MPAMCFG_MBW_MAX bit definitions\<close>

definition MBW_MAX_HARDLIM_SHIFT :: nat where [reg_defs]: "MBW_MAX_HARDLIM_SHIFT = 31"
definition MBW_MAX_HARDLIM_MASK :: u32 where [reg_defs]: "MBW_MAX_HARDLIM_MASK = 0x1"

text \<open>MPAMCFG_MBW_WINWD bit definitions\<close>

definition MBW_WINWD_US_FRAC_SHIFT :: nat where [reg_defs]: "MBW_WINWD_US_FRAC_SHIFT = 0"
definition MBW_WINWD_US_INT_SHIFT :: nat where [reg_defs]: "MBW_WINWD_US_INT_SHIFT = 8"
definition MBW_WINWD_US_FRAC_MASK :: u32 where [reg_defs]: "MBW_WINWD_US_FRAC_MASK = 0xff"
definition MBW_WINWD_US_INT_MASK :: u32 where [reg_defs]: "MBW_WINWD_US_INT_MASK = 0xffff"
definition REG_MSMON_CFG_MON_SEL :: u64 where [reg_defs]: "REG_MSMON_CFG_MON_SEL = 0x0800"
definition REG_MSMON_CFG_CSU_FLT :: u64 where [reg_defs]: "REG_MSMON_CFG_CSU_FLT = 0x0810"
definition REG_MSMON_CFG_CSU_CTL :: u64 where [reg_defs]: "REG_MSMON_CFG_CSU_CTL = 0x0818"
definition REG_MSMON_CFG_MBWU_FLT :: u64 where [reg_defs]: "REG_MSMON_CFG_MBWU_FLT = 0x0820"
definition REG_MSMON_CFG_MBWU_CTL :: u64 where [reg_defs]: "REG_MSMON_CFG_MBWU_CTL = 0x0828"
definition REG_MSMON_CSU :: u64 where [reg_defs]: "REG_MSMON_CSU = 0x0840"
definition REG_MSMON_CSU_CAPTURE :: u64 where [reg_defs]: "REG_MSMON_CSU_CAPTURE = 0x0848"
definition REG_MSMON_MBWU :: u64 where [reg_defs]: "REG_MSMON_MBWU = 0x0860"
definition REG_MSMON_MBWU_CAPTURE :: u64 where [reg_defs]: "REG_MSMON_MBWU_CAPTURE = 0x0868"
definition REG_MSMON_CAPT_EVNT :: u64 where [reg_defs]: "REG_MSMON_CAPT_EVNT = 0x0808"

text \<open>MSMON_CFG_MON_SEL bit definitions\<close>

definition MON_SEL_MON_SEL_SHIFT :: nat where [reg_defs]: "MON_SEL_MON_SEL_SHIFT = 0"
definition MON_SEL_MON_SEL_MASK :: u32 where [reg_defs]: "MON_SEL_MON_SEL_MASK = 0xffff"

text \<open>MSMON_CFG_CSU_FLT bit definitions\<close>

definition CSU_FLT_PARTID_SHIFT :: nat where [reg_defs]: "CSU_FLT_PARTID_SHIFT = 0"
definition CSU_FLT_PMG_SHIFT :: nat where [reg_defs]: "CSU_FLT_PMG_SHIFT = 16"
definition CSU_FLT_PARTID_MASK :: u32 where [reg_defs]: "CSU_FLT_PARTID_MASK = 0xffff"
definition CSU_FLT_PMG_MASK :: u32 where [reg_defs]: "CSU_FLT_PMG_MASK = 0xff"

text \<open>MSMON_CFG_CSU_CTL bit definitions\<close>

definition CSU_CTL_TYPE_SHIFT :: nat where [reg_defs]: "CSU_CTL_TYPE_SHIFT = 0"
definition CSU_CTL_OFLOW_STATUS_SHIFT :: nat where [reg_defs]: "CSU_CTL_OFLOW_STATUS_SHIFT = 26"
definition CSU_CTL_TYPE_MASK :: u32 where [reg_defs]: "CSU_CTL_TYPE_MASK = 0xff"
definition CSU_CTL_OFLOW_STATUS_MASK :: u32 where [reg_defs]: "CSU_CTL_OFLOW_STATUS_MASK = 0x1"
definition CSU_CTL_ENABLE_MATCH_PARTID_SHIFT :: nat where [reg_defs]: "CSU_CTL_ENABLE_MATCH_PARTID_SHIFT = 16"
definition CSU_CTL_ENABLE_MATCH_PMG_SHIFT :: nat where [reg_defs]: "CSU_CTL_ENABLE_MATCH_PMG_SHIFT = 17"
definition CSU_CTL_ENABLE_OFLOW_FRZ_SHIFT :: nat where [reg_defs]: "CSU_CTL_ENABLE_OFLOW_FRZ_SHIFT = 24"
definition CSU_CTL_ENABLE_OFLOW_INTR_SHIFT :: nat where [reg_defs]: "CSU_CTL_ENABLE_OFLOW_INTR_SHIFT = 25"
definition CSU_CTL_SELECT_CAPT_EVNT_SHIFT :: nat where [reg_defs]: "CSU_CTL_SELECT_CAPT_EVNT_SHIFT = 28"
definition CSU_CTL_ENABLE_SHIFT :: nat where [reg_defs]: "CSU_CTL_ENABLE_SHIFT = 31"
definition CSU_CTL_ENABLE_MATCH_PARTID_BIT :: u32 where [reg_defs]: "CSU_CTL_ENABLE_MATCH_PARTID_BIT = push_bit CSU_CTL_ENABLE_MATCH_PARTID_SHIFT 1"
definition CSU_CTL_ENABLE_MATCH_PMG_BIT :: u32 where [reg_defs]: "CSU_CTL_ENABLE_MATCH_PMG_BIT = push_bit CSU_CTL_ENABLE_MATCH_PMG_SHIFT 1"
definition CSU_CTL_ENABLE_OFLOW_FRZ_BIT :: u32 where [reg_defs]: "CSU_CTL_ENABLE_OFLOW_FRZ_BIT = push_bit CSU_CTL_ENABLE_OFLOW_FRZ_SHIFT 1"
definition CSU_CTL_ENABLE_OFLOW_INTR_BIT :: u32 where [reg_defs]: "CSU_CTL_ENABLE_OFLOW_INTR_BIT = push_bit CSU_CTL_ENABLE_OFLOW_INTR_SHIFT 1"
definition CSU_CTL_ENABLE_BIT :: u32 where [reg_defs]: "CSU_CTL_ENABLE_BIT = push_bit CSU_CTL_ENABLE_SHIFT 1"

text \<open>MSMON_CFG_MBWU_FLT bit definitions\<close>

definition MBWU_FLT_PARTID_SHIFT :: nat where [reg_defs]: "MBWU_FLT_PARTID_SHIFT = 0"
definition MBWU_FLT_PMG_SHIFT :: nat where [reg_defs]: "MBWU_FLT_PMG_SHIFT = 16"
definition MBWU_FLT_PARTID_MASK :: u32 where [reg_defs]: "MBWU_FLT_PARTID_MASK = 0xffff"
definition MBWU_FLT_PMG_MASK :: u32 where [reg_defs]: "MBWU_FLT_PMG_MASK = 0xff"

text \<open>MSMON_CFG_MBWU_CTL bit definitions\<close>

definition MBWU_CTL_TYPE_SHIFT :: nat where [reg_defs]: "MBWU_CTL_TYPE_SHIFT = 0"
definition MBWU_CTL_OFLOW_STATUS_SHIFT :: nat where [reg_defs]: "MBWU_CTL_OFLOW_STATUS_SHIFT = 26"
definition MBWU_CTL_TYPE_MASK :: u32 where [reg_defs]: "MBWU_CTL_TYPE_MASK = 0xff"
definition MBWU_CTL_OFLOW_STATUS_MASK :: u32 where [reg_defs]: "MBWU_CTL_OFLOW_STATUS_MASK = 0x1"
definition MBWU_CTL_ENABLE_MATCH_PARTID_SHIFT :: nat where [reg_defs]: "MBWU_CTL_ENABLE_MATCH_PARTID_SHIFT = 16"
definition MBWU_CTL_ENABLE_MATCH_PMG_SHIFT :: nat where [reg_defs]: "MBWU_CTL_ENABLE_MATCH_PMG_SHIFT = 17"
definition MBWU_CTL_SELECT_SUBTYPE_SHIFT :: nat where [reg_defs]: "MBWU_CTL_SELECT_SUBTYPE_SHIFT = 20"
definition MBWU_CTL_ENABLE_OFLOW_FRZ_SHIFT :: nat where [reg_defs]: "MBWU_CTL_ENABLE_OFLOW_FRZ_SHIFT = 24"
definition MBWU_CTL_ENABLE_OFLOW_INTR_SHIFT :: nat where [reg_defs]: "MBWU_CTL_ENABLE_OFLOW_INTR_SHIFT = 25"
definition MBWU_CTL_ENABLE_CAPT_RESET_SHIFT :: nat where [reg_defs]: "MBWU_CTL_ENABLE_CAPT_RESET_SHIFT = 27"
definition MBWU_CTL_SELECT_CAPT_EVNT_SHIFT :: nat where [reg_defs]: "MBWU_CTL_SELECT_CAPT_EVNT_SHIFT = 28"
definition MBWU_CTL_ENABLE_SHIFT :: nat where [reg_defs]: "MBWU_CTL_ENABLE_SHIFT = 31"
definition MBWU_CTL_ENABLE_MATCH_PARTID_BIT :: u32 where [reg_defs]: "MBWU_CTL_ENABLE_MATCH_PARTID_BIT = push_bit MBWU_CTL_ENABLE_MATCH_PARTID_SHIFT 1"
definition MBWU_CTL_ENABLE_MATCH_PMG_BIT :: u32 where [reg_defs]: "MBWU_CTL_ENABLE_MATCH_PMG_BIT = push_bit MBWU_CTL_ENABLE_MATCH_PMG_SHIFT 1"
definition MBWU_CTL_ENABLE_OFLOW_FRZ_BIT :: u32 where [reg_defs]: "MBWU_CTL_ENABLE_OFLOW_FRZ_BIT = push_bit MBWU_CTL_ENABLE_OFLOW_FRZ_SHIFT 1"
definition MBWU_CTL_ENABLE_OFLOW_INTR_BIT :: u32 where [reg_defs]: "MBWU_CTL_ENABLE_OFLOW_INTR_BIT = push_bit MBWU_CTL_ENABLE_OFLOW_INTR_SHIFT 1"
definition MBWU_CTL_ENABLE_CAPT_RESET_BIT :: u32 where [reg_defs]: "MBWU_CTL_ENABLE_CAPT_RESET_BIT = push_bit MBWU_CTL_ENABLE_CAPT_RESET_SHIFT 1"
definition MBWU_CTL_ENABLE_BIT :: u32 where [reg_defs]: "MBWU_CTL_ENABLE_BIT = push_bit MBWU_CTL_ENABLE_SHIFT 1"

text \<open>MSMON_CSU bit definitions\<close>

definition CSU_VALUE_SHIFT :: nat where [reg_defs]: "CSU_VALUE_SHIFT = 0"
definition CSU_NRDY_SHIFT :: nat where [reg_defs]: "CSU_NRDY_SHIFT = 31"
definition CSU_VALUE_MASK :: u32 where [reg_defs]: "CSU_VALUE_MASK = 0x7fffffff"
definition CSU_NRDY_MASK :: u32 where [reg_defs]: "CSU_NRDY_MASK = 0x1"

text \<open>MSMON_CSU_CAPTURE bit definitions\<close>

definition CSU_CAPTURE_VALUE_SHIFT :: nat where [reg_defs]: "CSU_CAPTURE_VALUE_SHIFT = 0"
definition CSU_CAPTURE_NRDY_SHIFT :: nat where [reg_defs]: "CSU_CAPTURE_NRDY_SHIFT = 31"
definition CSU_CAPTURE_VALUE_MASK :: u32 where [reg_defs]: "CSU_CAPTURE_VALUE_MASK = 0x7fffffff"
definition CSU_CAPTURE_NRDY_MASK :: u32 where [reg_defs]: "CSU_CAPTURE_NRDY_MASK = 0x1"

text \<open>MSMON_MBWU bit definitions\<close>

definition MBWU_VALUE_SHIFT :: nat where [reg_defs]: "MBWU_VALUE_SHIFT = 0"
definition MBWU_NRDY_SHIFT :: nat where [reg_defs]: "MBWU_NRDY_SHIFT = 31"
definition MBWU_VALUE_MASK :: u32 where [reg_defs]: "MBWU_VALUE_MASK = 0x7fffffff"
definition MBWU_NRDY_MASK :: u32 where [reg_defs]: "MBWU_NRDY_MASK = 0x1"

text \<open>MSMON_CSU_CAPTURE bit definitions\<close>

definition MBWU_CAPTURE_VALUE_SHIFT :: nat where [reg_defs]: "MBWU_CAPTURE_VALUE_SHIFT = 0"
definition MBWU_CAPTURE_NRDY_SHIFT :: nat where [reg_defs]: "MBWU_CAPTURE_NRDY_SHIFT = 31"
definition MBWU_CAPTURE_VALUE_MASK :: u32 where [reg_defs]: "MBWU_CAPTURE_VALUE_MASK = 0x7fffffff"
definition MBWU_CAPTURE_NRDY_MASK :: u32 where [reg_defs]: "MBWU_CAPTURE_NRDY_MASK = 0x1"

text \<open>MSMON_CAPT_EVNT bit definitions\<close>

definition CAPT_EVNT_ENABLE_NOW_SHIFT :: nat where [reg_defs]: "CAPT_EVNT_ENABLE_NOW_SHIFT = 0"
definition CAPT_EVNT_ENABLE_ALL_SHIFT :: nat where [reg_defs]: "CAPT_EVNT_ENABLE_ALL_SHIFT = 1"
definition CAPT_EVNT_ENABLE_NOW_BIT :: u32 where [reg_defs]: "CAPT_EVNT_ENABLE_NOW_BIT = push_bit CAPT_EVNT_ENABLE_NOW_SHIFT 1"
definition CAPT_EVNT_ENABLE_ALL_BIT :: u32 where [reg_defs]: "CAPT_EVNT_ENABLE_ALL_BIT = push_bit CAPT_EVNT_ENABLE_ALL_SHIFT 1"
definition REG_MPAMF_ECR :: u64 where [reg_defs]: "REG_MPAMF_ECR = 0x00F0"
definition REG_MPAMF_ESR :: u64 where [reg_defs]: "REG_MPAMF_ESR = 0x00F8"

text \<open>MPAMF_ECR bit definitions\<close>

definition ECR_ENABLE_INTEN_SHIFT :: nat where [reg_defs]: "ECR_ENABLE_INTEN_SHIFT = 0"
definition ECR_ENABLE_INTEN_BIT :: u32 where [reg_defs]: "ECR_ENABLE_INTEN_BIT = push_bit ECR_ENABLE_INTEN_SHIFT 1"

text \<open>MPAMF_ESR bit definitions\<close>

definition ESR_PARTID_MON_SHIFT :: nat where [reg_defs]: "ESR_PARTID_MON_SHIFT = 0"
definition ESR_PMG_SHIFT :: nat where [reg_defs]: "ESR_PMG_SHIFT = 16"
definition ESR_ERRCODE_SHIFT :: nat where [reg_defs]: "ESR_ERRCODE_SHIFT = 24"
definition ESR_OVRWR_SHIFT :: nat where [reg_defs]: "ESR_OVRWR_SHIFT = 31"
definition ESR_PARTID_MON_MASK :: u32 where [reg_defs]: "ESR_PARTID_MON_MASK = 0xffff"
definition ESR_PMG_MASK :: u32 where [reg_defs]: "ESR_PMG_MASK = 0xff"
definition ESR_ERRCODE_MASK :: u32 where [reg_defs]: "ESR_ERRCODE_MASK = 0xf"
definition ESR_OVRWR_MASK :: u32 where [reg_defs]: "ESR_OVRWR_MASK = 0x1"
definition MPAM_ERRCODE_NO_ERROR :: u32 where [reg_defs]: "MPAM_ERRCODE_NO_ERROR = 0"
definition MPAM_ERRCODE_PARTID_SEL_RANGE :: u32 where [reg_defs]: "MPAM_ERRCODE_PARTID_SEL_RANGE = 1"
definition MPAM_ERRCODE_REQ_PARTID_RANGE :: u32 where [reg_defs]: "MPAM_ERRCODE_REQ_PARTID_RANGE = 2"
definition MPAM_ERRCODE_MSMONCFG_ID_RANGE :: u32 where [reg_defs]: "MPAM_ERRCODE_MSMONCFG_ID_RANGE = 3"
definition MPAM_ERRCODE_REQ_PMG_RANGE :: u32 where [reg_defs]: "MPAM_ERRCODE_REQ_PMG_RANGE = 4"
definition MPAM_ERRCODE_MONITOR_RANGE :: u32 where [reg_defs]: "MPAM_ERRCODE_MONITOR_RANGE = 5"
definition MPAM_ERRCODE_INTPARTID_RANGE :: u32 where [reg_defs]: "MPAM_ERRCODE_INTPARTID_RANGE = 6"
definition MPAM_ERRCODE_UNEXPECTED_INTERNAL :: u32 where [reg_defs]: "MPAM_ERRCODE_UNEXPECTED_INTERNAL = 7"
definition MPAM_ERRCODE_RESERVED :: u32 where [reg_defs]: "MPAM_ERRCODE_RESERVED = 8"

end
