(* ===== verification/Mpam_Node.thy ===== *)
theory Mpam_Node
  imports Mpam_Exec Mpam_Hwreg
begin

text \<open>
  MPAM nodes (val_node_infra.c): the table of cache and memory nodes as seen from this PE, the
  identification registers of a node, and the error conditions the interrupt tests provoke.
\<close>

definition DEFAULT_PARTID :: u16 where [reg_defs]: "DEFAULT_PARTID = 0"
definition DEFAULT_PMG :: u8 where [reg_defs]: "DEFAULT_PMG = 0"
definition POR_BUF_SIZE :: u64 where [reg_defs]: "POR_BUF_SIZE = 1024"
definition COUNT_BW_RW :: u32 where [reg_defs]: "COUNT_BW_RW = 3"
definition TWO_MB :: u64 where [reg_defs]: "TWO_MB = 2 * 1024 * 1024"
definition MBWU_VALUE_MAX :: u32 where [reg_defs]: "MBWU_VALUE_MAX = 0xEFFFFFFF"

subsection \<open>MPAM system registers\<close>

datatype sysreg_mpam_t = MPAMIDR_SYSREG | MPAM1_SYSREG | MPAM2_SYSREG

definition val_sysreg_read :: "hw \<Rightarrow> sysreg_mpam_t \<Rightarrow> world \<Rightarrow> u64 \<times> world" where
  "val_sysreg_read hw regid s =
     (case regid of
        MPAMIDR_SYSREG \<Rightarrow> read_sysreg hw ''sysreg_read_mpamidr'' s
      | MPAM1_SYSREG \<Rightarrow> read_sysreg hw ''sysreg_read_mpam1'' s
      | MPAM2_SYSREG \<Rightarrow> read_sysreg hw ''sysreg_read_mpam2'' s)"

definition val_sysreg_write :: "sysreg_mpam_t \<Rightarrow> u64 \<Rightarrow> world \<Rightarrow> world" where
  "val_sysreg_write regid data s =
     (case regid of MPAM2_SYSREG \<Rightarrow> write_sysreg ''sysreg_write_mpam2'' data s | _ \<Rightarrow> s)"

subsection \<open>The node table\<close>

text \<open>
  Every query finds this PE's row of the table and then the node; without a table the answer
  is fixed, an SMMU or unknown type answers 0, and a row or node that does not exist is
  undefined. The queries differ in the field they return.
\<close>

definition node_lookup ::
    "hw \<Rightarrow> 'v \<Rightarrow> 'v \<Rightarrow> (cache_node_entry \<Rightarrow> 'v) \<Rightarrow> (memory_node_entry \<Rightarrow> 'v) \<Rightarrow>
     u8 \<Rightarrow> u32 \<Rightarrow> world \<Rightarrow> ('v \<times> world) option" where
  "node_lookup hw no_table other fc fm node_type node_index s =
     (case g_mpam_info_table (gl s) of
        None \<Rightarrow> Some (no_table, s)
      | Some tbl \<Rightarrow> do {
          (pe_index, s) \<leftarrow> my_index hw s;
          if node_type = MPAM_NODE_CACHE
          then do { m \<leftarrow> at tbl (unat pe_index); e \<leftarrow> at (cache_node m) (unat node_index);
                    Some (fc e, s) }
          else if node_type = MPAM_NODE_MEMORY
          then do { m \<leftarrow> at tbl (unat pe_index); e \<leftarrow> at (memory_node m) (unat node_index);
                    Some (fm e, s) }
          else Some (other, s) })"

definition val_node_get_total :: "hw \<Rightarrow> u8 \<Rightarrow> world \<Rightarrow> (u32 \<times> world) option" where
  "val_node_get_total hw node_type s =
     (case g_mpam_info_table (gl s) of
        None \<Rightarrow> Some (0, s)
      | Some tbl \<Rightarrow> do {
          (pe_index, s) \<leftarrow> my_index hw s;
          if node_type = MPAM_NODE_CACHE
          then do { m \<leftarrow> at tbl (unat pe_index); Some (num_cache_nodes m, s) }
          else if node_type = MPAM_NODE_MEMORY
          then do { m \<leftarrow> at tbl (unat pe_index); Some (num_memory_nodes m, s) }
          else Some (0, s) })"

definition val_node_hwreg_base :: "hw \<Rightarrow> u8 \<Rightarrow> u32 \<Rightarrow> world \<Rightarrow> (u64 \<times> world) option" where
  "val_node_hwreg_base hw = node_lookup hw 0 0 cn_hwreg_base mn_hwreg_base"

definition val_node_get_error_intrnum :: "hw \<Rightarrow> u8 \<Rightarrow> u32 \<Rightarrow> world \<Rightarrow> (u32 \<times> world) option" where
  "val_node_get_error_intrnum hw =
     node_lookup hw 0 0 (\<lambda>e. error_intr_num (cn_intr e)) (\<lambda>e. error_intr_num (mn_intr e))"

definition val_node_get_error_intrtype :: "hw \<Rightarrow> u8 \<Rightarrow> u32 \<Rightarrow> world \<Rightarrow> (u32 \<times> world) option" where
  "val_node_get_error_intrtype hw =
     node_lookup hw 0xFFFF 0 (\<lambda>e. error_intr_type (cn_intr e)) (\<lambda>e. error_intr_type (mn_intr e))"

definition val_node_get_oflow_intrnum :: "hw \<Rightarrow> u8 \<Rightarrow> u32 \<Rightarrow> world \<Rightarrow> (u32 \<times> world) option" where
  "val_node_get_oflow_intrnum hw =
     node_lookup hw 0 0 (\<lambda>e. overflow_intr_num (cn_intr e)) (\<lambda>e. overflow_intr_num (mn_intr e))"

definition val_node_get_oflow_intrtype :: "hw \<Rightarrow> u8 \<Rightarrow> u32 \<Rightarrow> world \<Rightarrow> (u32 \<times> world) option" where
  "val_node_get_oflow_intrtype hw =
     node_lookup hw 0xFFFF 0 (\<lambda>e. overflow_intr_type (cn_intr e)) (\<lambda>e. overflow_intr_type (mn_intr e))"

text \<open>Reading one register of a node, the way the queries below do.\<close>

definition node_read :: "hw \<Rightarrow> u8 \<Rightarrow> u32 \<Rightarrow> u64 \<Rightarrow> world \<Rightarrow> (u32 \<times> world) option" where
  "node_read hw node_type node_index reg s =
     do { (base, s) \<leftarrow> val_node_hwreg_base hw node_type node_index s;
          Some (val_mmio_read hw (base + reg) s) }"

definition val_node_get_partid :: "hw \<Rightarrow> u8 \<Rightarrow> u32 \<Rightarrow> world \<Rightarrow> (u16 \<times> world) option" where
  "val_node_get_partid hw node_type node_index s =
     do { (v, s) \<leftarrow> node_read hw node_type node_index REG_MPAMF_IDR s;
          Some (ucast (v AND IDR_PARTID_MAX_MASK), s) }"

definition val_node_get_pmg :: "hw \<Rightarrow> u8 \<Rightarrow> u32 \<Rightarrow> world \<Rightarrow> (u8 \<times> world) option" where
  "val_node_get_pmg hw node_type node_index s =
     do { (v, s) \<leftarrow> node_read hw node_type node_index REG_MPAMF_IDR s;
          Some (ucast (field v IDR_PMG_MAX_SHIFT IDR_PMG_MAX_MASK), s) }"

definition val_node_supports_mon :: "hw \<Rightarrow> u8 \<Rightarrow> u32 \<Rightarrow> world \<Rightarrow> (u8 \<times> world) option" where
  "val_node_supports_mon hw node_type node_index s =
     do { (v, s) \<leftarrow> node_read hw node_type node_index REG_MPAMF_IDR s;
          Some (ucast (field v IDR_HAS_MSMON_SHIFT IDR_HAS_MSMON_MASK), s) }"

definition val_memory_get_base :: "hw \<Rightarrow> u32 \<Rightarrow> world \<Rightarrow> (u64 \<times> world) option" where
  "val_memory_get_base hw node_index =
     node_lookup hw 0 0 (\<lambda>_. 0) base_address MPAM_NODE_MEMORY node_index"

definition val_memory_get_size :: "hw \<Rightarrow> u32 \<Rightarrow> world \<Rightarrow> (u64 \<times> world) option" where
  "val_memory_get_size hw node_index =
     node_lookup hw 0 0 (\<lambda>_. 0) mlength MPAM_NODE_MEMORY node_index"

definition val_cache_get_size :: "hw \<Rightarrow> u32 \<Rightarrow> world \<Rightarrow> (u32 \<times> world) option" where
  "val_cache_get_size hw node_index =
     node_lookup hw 0 0 csize (\<lambda>_. 0) MPAM_NODE_CACHE node_index"

text \<open>Creating the table: the platform fills it (its own theory models that).\<close>

definition val_mpam_create_info_table ::
    "hw \<Rightarrow> (world \<Rightarrow> world option) \<Rightarrow> world \<Rightarrow> (u32 \<times> world) option" where
  "val_mpam_create_info_table hw pal_create s =
     do { let s = s\<lparr>gl := (gl s)\<lparr>g_mpam_info_table := None\<rparr>\<rparr>;
          s \<leftarrow> pal_create s;
          let s = val_data_cache_ops_by_va (LVar ''g_mpam_info_table'') CLEAN_AND_INVALIDATE s;
          (nc, s) \<leftarrow> val_node_get_total hw MPAM_NODE_CACHE s;
          let s = val_print ACS_PRINT_TEST ''MPAM_INFO: Number of MPAM Cache Nodes: %4d'' (ucast nc) s;
          (nm, s) \<leftarrow> val_node_get_total hw MPAM_NODE_MEMORY s;
          let s = val_print ACS_PRINT_TEST ''MPAM_INFO: Number of MPAM Memory Nodes : %4d'' (ucast nm) s;
          (nc, s) \<leftarrow> val_node_get_total hw MPAM_NODE_CACHE s;
          if nc = 0
          then Some (ACS_STATUS_ERR, val_print ACS_PRINT_ERR
                      ''CRITICAL ERROR: Num MPAM Cache Nodes is 0x0'' 0 s)
          else Some (ACS_STATUS_PASS, s) }"

definition pal_mem_free :: "hw \<Rightarrow> string \<Rightarrow> world \<Rightarrow> world" where
  "pal_mem_free hw what s = snd (firmware hw (''FreePool '' @ what) [] s)"

definition val_mpam_free_info_table :: "hw \<Rightarrow> world \<Rightarrow> world option" where
  "val_mpam_free_info_table hw s =
     do { t \<leftarrow> g_pe_info_table (gl s);
          s \<leftarrow> for_each (\<lambda>i s. do { tbl \<leftarrow> g_mpam_info_table (gl s); m \<leftarrow> at tbl (unat i);
                  Some (pal_mem_free hw ''memory_node'' (pal_mem_free hw ''cache_node'' s)) })
               (upto_u32 (num_of_pe t)) s;
          Some (pal_mem_free hw ''g_mpam_info_table'' s) }"

end
