(* ===== verification/Mpam_Errors.thy ===== *)
theory Mpam_Errors
  imports Mpam_Node
begin

text \<open>
  The error conditions of an MPAM component (second half of val_node_infra.c): each saves the
  error control register in err_ctrl_reg, enables the interrupt, and makes the component see a
  partition, monitor or group number it does not have. val_node_restore_ecr puts the register
  back when the handler has run. C integer promotion is written out: \<open>max + 1\<close> is a 32-bit
  int and is stored as such.
\<close>

definition set_err_ctrl :: "u32 \<Rightarrow> world \<Rightarrow> world" where
  "set_err_ctrl v s = s\<lparr>gl := (gl s)\<lparr>err_ctrl_reg := v\<rparr>\<rparr>"

text \<open>Reading the error control register into err_ctrl_reg.\<close>

definition save_ecr :: "hw \<Rightarrow> u64 \<Rightarrow> world \<Rightarrow> world" where
  "save_ecr hw base s =
     (let (v, s) = val_mmio_read hw (base + REG_MPAMF_ECR) s in set_err_ctrl v s)"

definition enable_inten :: "u64 \<Rightarrow> world \<Rightarrow> world" where
  "enable_inten base s = val_mmio_write (base + REG_MPAMF_ECR) (push_bit ECR_ENABLE_INTEN_SHIFT 1) s"

definition val_node_trigger_intr :: "hw \<Rightarrow> u8 \<Rightarrow> u32 \<Rightarrow> world \<Rightarrow> world option" where
  "val_node_trigger_intr hw node_type node_index s =
     do { (base, s) \<leftarrow> val_node_hwreg_base hw node_type node_index s;
          let s = save_ecr hw base s;
          let s = enable_inten base s;
          let s = val_mmio_write (base + REG_MPAMF_ESR)
                    (push_bit ESR_ERRCODE_SHIFT MPAM_ERRCODE_PARTID_SEL_RANGE) s;
          Some (val_memory_ops_issue_barrier DSB s) }"

definition val_node_clear_intr :: "hw \<Rightarrow> u8 \<Rightarrow> u32 \<Rightarrow> world \<Rightarrow> world option" where
  "val_node_clear_intr hw node_type node_index s =
     do { (base, s) \<leftarrow> val_node_hwreg_base hw node_type node_index s;
          let s = val_mmio_write (base + REG_MPAMF_ESR) 0 s;
          Some (val_memory_ops_issue_barrier DSB s) }"

definition val_node_restore_ecr :: "hw \<Rightarrow> u8 \<Rightarrow> u32 \<Rightarrow> world \<Rightarrow> world option" where
  "val_node_restore_ecr hw node_type node_index s =
     do { (base, s) \<leftarrow> val_node_hwreg_base hw node_type node_index s;
          let s = val_mmio_write (base + REG_MPAMF_ECR) (err_ctrl_reg (gl s)) s;
          Some (val_memory_ops_issue_barrier DSB s) }"

definition val_node_generate_psr_error :: "hw \<Rightarrow> u8 \<Rightarrow> u32 \<Rightarrow> world \<Rightarrow> world option" where
  "val_node_generate_psr_error hw node_type node_index s =
     do { (base, s) \<leftarrow> val_node_hwreg_base hw node_type node_index s;
          let s = save_ecr hw base s;
          (max_partid, s) \<leftarrow> val_node_get_partid hw node_type node_index s;
          let s = enable_inten base s;
          let s = val_mmio_write (base + REG_MPAMCFG_PART_SEL) (ucast max_partid + 1) s;
          Some (val_memory_ops_issue_barrier DSB s) }"

definition mbwu_oflow_ctl :: u32 where
  "mbwu_oflow_ctl =
     push_bit MBWU_CTL_ENABLE_MATCH_PARTID_SHIFT 1 OR push_bit MBWU_CTL_ENABLE_MATCH_PMG_SHIFT 1 OR
     push_bit MBWU_CTL_SELECT_SUBTYPE_SHIFT COUNT_BW_RW OR
     push_bit MBWU_CTL_ENABLE_OFLOW_FRZ_SHIFT 1 OR push_bit MBWU_CTL_ENABLE_OFLOW_INTR_SHIFT 1"

text \<open>Address and size of the node are looked up anew for each of the two buffers.\<close>

definition alloc_in_node :: "hw \<Rightarrow> u32 \<Rightarrow> u64 \<Rightarrow> world \<Rightarrow> (u64 option \<times> world) option" where
  "alloc_in_node hw node_index buf_size s =
     do { (b, s) \<leftarrow> val_memory_get_base hw node_index s;
          (n, s) \<leftarrow> val_memory_get_size hw node_index s;
          val_allocate_address hw b n buf_size s }"

definition val_node_generate_msmon_oflow_error :: "hw \<Rightarrow> u32 \<Rightarrow> u16 \<Rightarrow> world \<Rightarrow> world option" where
  "val_node_generate_msmon_oflow_error hw node_index mon_count s =
     do { (base, s) \<leftarrow> val_node_hwreg_base hw MPAM_NODE_MEMORY node_index s;
          let s = save_ecr hw base s;
          let s = enable_inten base s;
          let s = val_mmio_write (base + REG_MSMON_CFG_MON_SEL) (ucast mon_count - 1) s;
          let s = val_mmio_write (base + REG_MSMON_CFG_MBWU_FLT)
                    (push_bit MBWU_FLT_PMG_SHIFT (ucast DEFAULT_PMG) OR ucast DEFAULT_PARTID) s;
          let s = val_mmio_write (base + REG_MSMON_CFG_MBWU_CTL) mbwu_oflow_ctl s;
          let s = val_mmio_write (base + REG_MSMON_MBWU)
                    (push_bit MBWU_CAPTURE_NRDY_SHIFT 0 OR MBWU_VALUE_MAX) s;
          let s = val_memory_ops_issue_barrier DSB s;
          (src, s) \<leftarrow> alloc_in_node hw node_index TWO_MB s;
          (dst, s) \<leftarrow> alloc_in_node hw node_index TWO_MB s;
          case (src, dst) of
            (Some a, Some b) \<Rightarrow>
              (let s = val_mem_copy a b TWO_MB s;
                   s = val_free_buf hw src TWO_MB s
               in Some (val_free_buf hw dst TWO_MB s))
          | _ \<Rightarrow> Some (val_print ACS_PRINT_ERR ''Mem allocation for MBWPBM buffers failed'' 0 s) }"

definition val_node_generate_msmon_config_error :: "hw \<Rightarrow> u8 \<Rightarrow> u32 \<Rightarrow> u16 \<Rightarrow> world \<Rightarrow> world option" where
  "val_node_generate_msmon_config_error hw node_type node_index mon_count s =
     do { (base, s) \<leftarrow> val_node_hwreg_base hw node_type node_index s;
          let s = save_ecr hw base s;
          (max_partid, s) \<leftarrow> val_node_get_partid hw node_type node_index s;
          let s = enable_inten base s;
          let s = val_mmio_write (base + REG_MSMON_CFG_MON_SEL) (ucast mon_count - 1) s;
          let s = (if node_type = MPAM_NODE_CACHE
                   then val_mmio_write (base + REG_MSMON_CFG_CSU_FLT) (ucast max_partid + 1) s
                   else if node_type = MPAM_NODE_MEMORY
                   then val_mmio_write (base + REG_MSMON_CFG_MBWU_FLT) (ucast max_partid + 1) s
                   else s);
          Some (val_memory_ops_issue_barrier DSB s) }"

definition val_node_generate_msr_error :: "hw \<Rightarrow> u8 \<Rightarrow> u32 \<Rightarrow> u16 \<Rightarrow> world \<Rightarrow> world option" where
  "val_node_generate_msr_error hw node_type node_index mon_count s =
     do { (base, s) \<leftarrow> val_node_hwreg_base hw node_type node_index s;
          let s = save_ecr hw base s;
          let s = enable_inten base s;
          let s = val_mmio_write (base + REG_MSMON_CFG_MON_SEL) (ucast mon_count + 1) s;
          Some (val_memory_ops_issue_barrier DSB s) }"

text \<open>Two buffers and a copy between them. Neither allocation is checked and neither buffer is
  freed; a failed one is copied through address 0.\<close>

definition por_traffic :: "hw \<Rightarrow> world \<Rightarrow> world" where
  "por_traffic hw s =
     (let (src, s) = val_allocate_buf hw POR_BUF_SIZE s;
          (dst, s) = val_allocate_buf hw POR_BUF_SIZE s
      in val_mem_copy (case src of None \<Rightarrow> 0 | Some a \<Rightarrow> a) (case dst of None \<Rightarrow> 0 | Some a \<Rightarrow> a)
           POR_BUF_SIZE s)"

text \<open>The new value of MPAM2_EL2: \<open>(msc_max_partid + 1) << 16\<close> is a signed 32-bit value that is
  widened to 64 bits before it is or-ed in; the old PARTID_D bits stay.\<close>

definition por_mpam2 :: "u16 \<Rightarrow> u64 \<Rightarrow> u64" where
  "por_mpam2 msc_max_partid old =
     old OR scast (push_bit MPAMn_ELx_PARTID_D_SHIFT (ucast msc_max_partid + 1 :: 32 word))"

definition val_node_generate_por_error :: "hw \<Rightarrow> u8 \<Rightarrow> u32 \<Rightarrow> world \<Rightarrow> (u32 \<times> world) option" where
  "val_node_generate_por_error hw node_type node_index s =
     do { (base, s) \<leftarrow> val_node_hwreg_base hw node_type node_index s;
          let s = save_ecr hw base s;
          (msc_max_partid, s) \<leftarrow> val_node_get_partid hw node_type node_index s;
          let (mpamidr, s) = val_sysreg_read hw MPAMIDR_SYSREG s;
          let pe_max_partid = (ucast (drop_bit MPAMIDR_PARTID_MAX_SHIFT mpamidr AND
                                 ucast MPAMIDR_PARTID_MAX_MASK) :: u16);
          if msc_max_partid > pe_max_partid then Some (ACS_STATUS_SKIP, s)
          else do {
            let s = enable_inten base s;
            let (old, s) = val_sysreg_read hw MPAM2_SYSREG s;
            let s = val_sysreg_write MPAM2_SYSREG (por_mpam2 msc_max_partid old) s;
            Some (ACS_STATUS_PASS, por_traffic hw s) } }"

definition pmgor_mpam2 :: "u16 \<Rightarrow> u64 \<Rightarrow> u64" where
  "pmgor_mpam2 msc_max_pmg old =
     (let v = CLEAR_BITS_M_TO_N old (MPAMn_ELx_PARTID_D_SHIFT + 15) MPAMn_ELx_PARTID_D_SHIFT;
          v = CLEAR_BITS_M_TO_N v (MPAMn_ELx_PMG_D_SHIFT + 7) MPAMn_ELx_PMG_D_SHIFT
      in v OR push_bit MPAMn_ELx_PMG_D_SHIFT (ucast msc_max_pmg + 1) OR
         push_bit MPAMn_ELx_PARTID_D_SHIFT (ucast DEFAULT_PARTID))"

definition val_node_generate_pmgor_error :: "hw \<Rightarrow> u8 \<Rightarrow> u32 \<Rightarrow> world \<Rightarrow> (u32 \<times> world) option" where
  "val_node_generate_pmgor_error hw node_type node_index s =
     do { (base, s) \<leftarrow> val_node_hwreg_base hw node_type node_index s;
          let s = save_ecr hw base s;
          (pmg, s) \<leftarrow> val_node_get_pmg hw node_type node_index s;
          let msc_max_pmg = (ucast pmg :: u16);
          let (mpamidr, s) = val_sysreg_read hw MPAMIDR_SYSREG s;
          let pe_max_pmg = (ucast (drop_bit MPAMIDR_PMG_MAX_SHIFT mpamidr AND
                              ucast MPAMIDR_PMG_MAX_MASK) :: u16);
          if msc_max_pmg > pe_max_pmg
          then (let s = val_print ACS_PRINT_WARN ''node_type is %d'' (ucast node_type) s;
                    s = val_print ACS_PRINT_WARN ''node_index is %d'' (ucast node_index) s;
                    s = val_print ACS_PRINT_WARN ''Skipping test as MSC pmg > PE pmg'' 0 s
                in Some (ACS_STATUS_SKIP, s))
          else do {
            let s = enable_inten base s;
            let (old, s) = val_sysreg_read hw MPAM2_SYSREG s;
            let s = val_sysreg_write MPAM2_SYSREG (pmgor_mpam2 msc_max_pmg old) s;
            Some (ACS_STATUS_PASS, por_traffic hw s) } }"

subsection \<open>Look-ups only read\<close>

definition same_nodes :: "world \<Rightarrow> world \<Rightarrow> bool" where
  "same_nodes s t \<longleftrightarrow> g_mpam_info_table (gl t) = g_mpam_info_table (gl s) \<and>
     g_pe_info_table (gl t) = g_pe_info_table (gl s)"

lemma same_nodes_refl [simp]: "same_nodes s s" by (simp add: same_nodes_def)

lemma node_lookup_run [run]:
  assumes "node_lookup hw a b fc fm ty i s = Some (v, t)"
  shows "gl t = gl s" "shared t = shared s" "con t = con s" "print_level t = print_level s"
    "last_write (io t) x = last_write (io s) x"
  using assms
  by (auto simp: node_lookup_def my_index_def val_pe_get_mpid_def Option.bind_eq_Some_conv
      split: option.splits if_splits)

lemma node_lookup_again:
  assumes "node_lookup hw a b fc fm ty i s = Some (v, t)" "same_nodes s s'"
  shows "\<exists>t'. node_lookup hw a b fc fm ty i s' = Some (v, t')"
  using assms
  by (fastforce simp: node_lookup_def my_index_def val_pe_get_mpid_def Option.bind_eq_Some_conv
      val_pe_get_index_mpid_def same_nodes_def split: option.splits if_splits)

lemma hwreg_base_run [run]:
  assumes "val_node_hwreg_base hw ty i s = Some (v, t)"
  shows "gl t = gl s" "shared t = shared s" "last_write (io t) x = last_write (io s) x"
  using assms by (simp_all add: val_node_hwreg_base_def node_lookup_run)

lemma hwreg_base_again:
  "val_node_hwreg_base hw ty i s = Some (v, t) \<Longrightarrow> same_nodes s s' \<Longrightarrow>
     \<exists>t'. val_node_hwreg_base hw ty i s' = Some (v, t')"
  unfolding val_node_hwreg_base_def by (rule node_lookup_again)

lemma node_read_split:
  assumes "node_read hw ty i r s = Some (v, t)"
  obtains b u where "val_node_hwreg_base hw ty i s = Some (b, u)" "val_mmio_read hw (b + r) u = (v, t)"
  using assms by (auto simp: node_read_def Option.bind_eq_Some_conv)

lemma node_read_run [run]:
  assumes "node_read hw ty i r s = Some (v, t)"
  shows "gl t = gl s" "shared t = shared s" "last_write (io t) x = last_write (io s) x"
  by (rule node_read_split [OF assms]; simp add: hwreg_base_run mmio_read_run)+

lemma get_partid_run [run]:
  assumes "val_node_get_partid hw ty i s = Some (v, t)"
  shows "gl t = gl s" "shared t = shared s" "last_write (io t) x = last_write (io s) x"
  using assms by (auto simp: val_node_get_partid_def Option.bind_eq_Some_conv node_read_run)

lemma get_pmg_run [run]:
  assumes "val_node_get_pmg hw ty i s = Some (v, t)"
  shows "gl t = gl s" "shared t = shared s" "last_write (io t) x = last_write (io s) x"
  using assms by (auto simp: val_node_get_pmg_def Option.bind_eq_Some_conv node_read_run)

subsection \<open>Saving and restoring the error control register\<close>

text \<open>What every generator has done to the component at \<open>base\<close>: the old value of the control
  register is kept, and the interrupt enable bit is the value last written.\<close>

definition ecr_armed :: "hw \<Rightarrow> u64 \<Rightarrow> world \<Rightarrow> world \<Rightarrow> bool" where
  "ecr_armed hw base s t \<longleftrightarrow>
     err_ctrl_reg (gl t) = mmio_in hw (io s) (base + REG_MPAMF_ECR) \<and>
     last_write (io t) (base + REG_MPAMF_ECR) = Some 1 \<and> same_nodes s t"

lemma offsets_distinct [simp]:
  "REG_MPAMCFG_PART_SEL \<noteq> REG_MPAMF_ECR" "REG_MPAMF_ESR \<noteq> REG_MPAMF_ECR"
  "REG_MSMON_CFG_MON_SEL \<noteq> REG_MPAMF_ECR" "REG_MSMON_CFG_CSU_FLT \<noteq> REG_MPAMF_ECR"
  "REG_MSMON_CFG_MBWU_FLT \<noteq> REG_MPAMF_ECR"
  "REG_MPAMF_ECR \<noteq> REG_MPAMCFG_PART_SEL" "REG_MPAMF_ECR \<noteq> REG_MPAMF_ESR"
  "REG_MPAMF_ECR \<noteq> REG_MSMON_CFG_MON_SEL" "REG_MPAMF_ECR \<noteq> REG_MSMON_CFG_CSU_FLT"
  "REG_MPAMF_ECR \<noteq> REG_MSMON_CFG_MBWU_FLT"
  by (simp_all add: reg_defs)

lemma save_ecr_sel [simp]:
  "gl (save_ecr hw base s) = (gl s)\<lparr>err_ctrl_reg := mmio_in hw (io s) (mmio_addr (base + REG_MPAMF_ECR))\<rparr>"
  "last_write (io (save_ecr hw base s)) x = last_write (io s) x"
  by (simp_all add: save_ecr_def set_err_ctrl_def split_beta Let_def)

lemma enable_inten_sel [simp]:
  "gl (enable_inten base s) = gl s"
  "last_write (io (enable_inten base s)) x = (if x = base + REG_MPAMF_ECR then Some 1 else last_write (io s) x)"
  by (simp_all add: enable_inten_def ECR_ENABLE_INTEN_SHIFT_def)

lemma aligned_ecr: "aligned4 base \<Longrightarrow> mmio_addr (base + REG_MPAMF_ECR) = base + REG_MPAMF_ECR"
  by (rule mmio_addr_aligned, rule aligned4_add) (simp_all add: aligned4_def REG_MPAMF_ECR_def)

lemma same_reg_value:
  "rw_reg hw a rst \<Longrightarrow> last_write h a = last_write h' a \<Longrightarrow> mmio_in hw h a = mmio_in hw h' a"
  by (simp add: rw_reg_in)


text \<open>The interrupt tests call one of these on a node, wait, and then restore.\<close>

definition error_generators :: "hw \<Rightarrow> u8 \<Rightarrow> u32 \<Rightarrow> u16 \<Rightarrow> (world \<Rightarrow> world option) list" where
  "error_generators hw ty i mon_count =
     [val_node_trigger_intr hw ty i, val_node_generate_psr_error hw ty i,
      val_node_generate_msmon_config_error hw ty i mon_count,
      val_node_generate_msr_error hw ty i mon_count]"

lemma generator_arms:
  assumes "g \<in> set (error_generators hw ty i mc)" "g s = Some t"
    and "val_node_hwreg_base hw ty i s = Some (base, s0)"
    and "aligned4 base" "rw_reg hw (base + REG_MPAMF_ECR) rst"
  shows "ecr_armed hw base s t"
proof -
  note b = hwreg_base_run [OF assms(3)]
  have v: "mmio_in hw (io s0) (base + REG_MPAMF_ECR) = mmio_in hw (io s) (base + REG_MPAMF_ECR)"
    by (rule same_reg_value [OF assms(5)]) (rule b(3))
  consider (tr) "val_node_trigger_intr hw ty i s = Some t"
    | (psr) "val_node_generate_psr_error hw ty i s = Some t"
    | (cfg) "val_node_generate_msmon_config_error hw ty i mc s = Some t"
    | (msr) "val_node_generate_msr_error hw ty i mc s = Some t"
    using assms(1,2) by (auto simp: error_generators_def)
  then show ?thesis
  proof cases
    case tr
    then show ?thesis
      using v b by (auto simp: val_node_trigger_intr_def assms(3) ecr_armed_def same_nodes_def
          aligned_ecr [OF assms(4)] Let_def)
  next
    case msr
    then show ?thesis
      using v b by (auto simp: val_node_generate_msr_error_def assms(3) ecr_armed_def same_nodes_def
          aligned_ecr [OF assms(4)] Let_def)
  next
    case psr
    then obtain m u where u: "val_node_get_partid hw ty i (save_ecr hw base s0) = Some (m, u)"
      by (auto simp: val_node_generate_psr_error_def assms(3) Option.bind_eq_Some_conv Let_def)
    from psr get_partid_run [OF u] v b show ?thesis
      by (auto simp: val_node_generate_psr_error_def assms(3) ecr_armed_def same_nodes_def
          aligned_ecr [OF assms(4)] Let_def u)
  next
    case cfg
    then obtain m u where u: "val_node_get_partid hw ty i (save_ecr hw base s0) = Some (m, u)"
      by (auto simp: val_node_generate_msmon_config_error_def assms(3) Option.bind_eq_Some_conv Let_def)
    from cfg get_partid_run [OF u] v b show ?thesis
      by (auto simp: val_node_generate_msmon_config_error_def assms(3) ecr_armed_def same_nodes_def
          aligned_ecr [OF assms(4)] Let_def u)
  qed
qed

text \<open>C32: provoking an error leaves no trace in the error control register: after any of the four
  register-level generators (trigger, PART_SEL range, monitor configuration, monitor range) the interrupt is enabled, and val_node_restore_ecr on the same node brings back
  exactly the value the register had before, for a register that keeps what is written.\<close>

theorem ecr_restored:
  assumes "g \<in> set (error_generators hw ty i mc)" "g s = Some t"
    and "val_node_hwreg_base hw ty i s = Some (base, s0)"
    and "aligned4 base" "rw_reg hw (base + REG_MPAMF_ECR) rst"
  shows "mmio_in hw (io t) (base + REG_MPAMF_ECR) = 1 \<and>
     (\<exists>u. val_node_restore_ecr hw ty i t = Some u \<and>
       mmio_in hw (io u) (base + REG_MPAMF_ECR) = mmio_in hw (io s) (base + REG_MPAMF_ECR))"
proof -
  from generator_arms [OF assms] have a: "ecr_armed hw base s t" .
  from hwreg_base_again [OF assms(3), of t] a obtain t1 where
    t1: "val_node_hwreg_base hw ty i t = Some (base, t1)" by (auto simp: ecr_armed_def)
  then show ?thesis
    using a hwreg_base_run(1) [OF t1]
    by (simp add: val_node_restore_ecr_def rw_reg_in [OF assms(5)] ecr_armed_def)
qed

definition one_node_world :: world where
  "one_node_world = two_pe_world\<lparr>gl := (gl two_pe_world)\<lparr>g_mpam_info_table := Some
     [\<lparr>num_cache_nodes = 1, num_memory_nodes = 0,
       cache_node = [\<lparr>line_size = 64, csize = 0x10000, neighbours = [], scope_index = 0, node_scope = 2,
          alloc_type = 0, cache_type = 0, write_policy = 0, areserved = 0, cn_hwreg_base = 0x60000000,
          cn_not_ready_max_us = 0, cn_intr = \<lparr>error_intr_num = 40, overflow_intr_num = 41,
          error_intr_type = 0, overflow_intr_type = 0\<rparr>\<rparr>], memory_node = []\<rparr>]\<rparr>\<rparr>"

lemma one_node_base:
  "val_node_hwreg_base (ram_hw r 0) MPAM_NODE_CACHE 0 one_node_world =
     Some (0x60000000, log_io (SysRead ''arm64_read_mpidr'') one_node_world)"
  by (simp add: val_node_hwreg_base_def node_lookup_def one_node_world_def two_pe_world_def
      my_index_def val_pe_get_mpid_def val_pe_get_index_mpid_def affx_def)

lemma ecr_restored_witness:
  "\<exists>t u. val_node_trigger_intr (ram_hw (\<lambda>_. 5) 0) MPAM_NODE_CACHE 0 one_node_world = Some t \<and>
     val_node_restore_ecr (ram_hw (\<lambda>_. 5) 0) MPAM_NODE_CACHE 0 t = Some u \<and>
     mmio_in (ram_hw (\<lambda>_. 5) 0) (io u) 0x600000F0 = 5"
proof -
  obtain t where t: "val_node_trigger_intr (ram_hw (\<lambda>_. 5) 0) MPAM_NODE_CACHE 0 one_node_world = Some t"
    by (simp add: val_node_trigger_intr_def one_node_base)
  have "val_node_trigger_intr (ram_hw (\<lambda>_. 5) 0) MPAM_NODE_CACHE 0
      \<in> set (error_generators (ram_hw (\<lambda>_. 5) 0) MPAM_NODE_CACHE 0 1)"
    by (simp add: error_generators_def)
  from ecr_restored [OF this t one_node_base _ ram_hw_rw_reg] t show ?thesis
    by (auto simp: aligned4_def REG_MPAMF_ECR_def one_node_world_def two_pe_world_def)
qed


subsection \<open>Numbers out of range\<close>

lemma por_number:
  fixes m :: u16
  assumes "m < 0xFFFF"
  defines "w \<equiv> ucast m + 1 :: u32"
  shows "unat w = unat m + 1" "(ucast m + 1 :: u64) = ucast w" "bit w 15 \<longleftrightarrow> 0x7FFF \<le> m"
    "i \<ge> 16 \<Longrightarrow> \<not> bit w i" "m < 0x7FFF \<Longrightarrow> i \<ge> 15 \<Longrightarrow> \<not> bit w i"
proof -
  have m: "unat m < 0xFFFF" using assms(1) by (simp add: word_less_nat_alt)
  have um: "unat (ucast m :: u32) = unat m" "unat (ucast m :: u64) = unat m"
    using m by (simp_all add: unat_ucast_small)
  show w: "unat w = unat m + 1" using m um(1) by (simp add: w_def unat_word_ariths)
  have "unat (ucast w :: u64) = unat w" using w m by (simp add: unat_ucast_small)
  moreover have "unat (ucast m + 1 :: u64) = unat m + 1" using m um(2) by (simp add: unat_word_ariths)
  ultimately show "(ucast m + 1 :: u64) = ucast w" using w by (simp add: word_unat_eq_iff)
  have "bit w 15 \<longleftrightarrow> bit (unat w) 15" by (simp add: bit_unsigned_iff)
  also have "\<dots> \<longleftrightarrow> odd (unat w div 2 ^ 15)" by (simp only: bit_iff_odd)
  also have "\<dots> \<longleftrightarrow> 0x8000 \<le> unat w"
  proof
    assume "odd (unat w div 2 ^ 15)"
    then have "unat w div 2 ^ 15 \<noteq> 0" by (metis even_zero)
    then show "0x8000 \<le> unat w" by (simp add: div_eq_0_iff)
  next
    assume "0x8000 \<le> unat w"
    moreover have "unat w < 0x10000" using w m by simp
    ultimately have "unat w div 2 ^ 15 = 1" by (simp add: div_nat_eqI)
    then show "odd (unat w div 2 ^ 15)" by simp
  qed
  finally show "bit w 15 \<longleftrightarrow> 0x7FFF \<le> m" using w by (simp add: word_le_nat_alt)
  show "\<not> bit w i" if "i \<ge> 16"
    by (rule bit_below [of _ 16]) (use w m that in \<open>simp_all add: word_less_nat_alt\<close>)
  show "\<not> bit w i" if "m < 0x7FFF" "i \<ge> 15"
    by (rule bit_below [of _ 15]) (use w m that in \<open>simp_all add: word_less_nat_alt\<close>)
qed

lemma bit_por_mpam2:
  "bit (por_mpam2 m old) i \<longleftrightarrow>
     i < 64 \<and> (bit old i \<or> (16 \<le> i \<and> bit (ucast m + 1 :: u32) (min i 31 - 16)))"
  by (auto simp: por_mpam2_def MPAMn_ELx_PARTID_D_SHIFT_def bit_simps min_def
      dest: bit_imp_le_length)

text \<open>The out-of-range PARTID for a component whose largest PARTID is below 0x7FFF is put into
  the PARTID_D field of MPAM2_EL2, when that field was zero, and no other field changes. From
  0x7FFF on the shifted number is a negative int: sign extension then sets all of the upper
  32 bits, PMG_D and MPAMEN among them.\<close>

theorem por_mpam2_fields:
  assumes "m < 0xFFFF"
  shows "(m < 0x7FFF \<and> old AND push_bit 16 0xFFFF = 0 \<longrightarrow>
            drop_bit 16 (por_mpam2 m old) AND 0xFFFF = ucast m + 1 \<and>
            por_mpam2 m old AND NOT (push_bit 16 0xFFFF) = old) \<and>
         (0x7FFF \<le> m \<longrightarrow> drop_bit 32 (por_mpam2 m old) = mask 32)"
proof (intro conjI impI)
  note n = por_number [OF assms]
  have mk: "(0xFFFF :: u64) = mask 16" by (simp add: mask_eq_exp_minus_1)
  {
    assume h: "m < 0x7FFF \<and> old AND push_bit 16 0xFFFF = 0"
    have o: "\<not> bit old i" if "16 \<le> i" "i < 32" for i
    proof
      assume "bit old i"
      then have "bit (old AND push_bit 16 0xFFFF) i"
        using that unfolding mk by (auto simp: bit_simps)
      then show False using h by simp
    qed
    have small: "i < 15" if "bit (ucast m + 1 :: u32) i" for i
      using n(5) [of i] h that by (cases "i < 15") auto
    show "drop_bit 16 (por_mpam2 m old) AND 0xFFFF = ucast m + 1"
      unfolding n(2) mk
      by (rule bit_word_eqI)
         (use o in \<open>auto simp: bit_simps bit_por_mpam2 min_def not_less dest: small\<close>)
    show "por_mpam2 m old AND NOT (push_bit 16 0xFFFF) = old"
      unfolding mk
      by (rule bit_word_eqI)
         (use o in \<open>auto simp: bit_simps bit_por_mpam2 min_def not_less dest: small\<close>)
  next
    assume "0x7FFF \<le> m"
    then show "drop_bit 32 (por_mpam2 m old) = mask 32"
      using n(3) by (intro bit_word_eqI) (auto simp: bit_simps bit_por_mpam2 min_def)
  }
qed

lemma por_mpam2_fields_witness: "drop_bit 16 (por_mpam2 90 0) AND 0xFFFF = 91"
  using por_mpam2_fields [of 90 0] by simp

lemma bit_CLEAR_BITS:
  "n < 64 \<Longrightarrow> bit (CLEAR_BITS_M_TO_N num m n) i \<longleftrightarrow> bit num i \<and> (i < n \<or> m < i)"
proof -
  assume "n < 64"
  have "push_bit n (1 :: u64) - 1 = mask n" by (simp add: push_bit_eq_mult mask_eq_exp_minus_1)
  then show ?thesis
    by (auto simp: CLEAR_BITS_M_TO_N_def bit_simps dest: bit_imp_le_length)
qed

text \<open>For the out-of-range PMG both data fields of MPAM2_EL2 are cleared first: PMG_D becomes one
  more than the component's largest PMG, PARTID_D becomes the default 0, and every other bit
  keeps its value. For a component with the full PMG range of 255 the number does not fit: the
  field becomes 0 and the carry sets reserved bit 48.\<close>

theorem pmgor_mpam2_fields:
  "(m < 255 \<longrightarrow> drop_bit 40 (pmgor_mpam2 m old) AND 0xFF = ucast m + 1 \<and>
      (\<forall>i. i < 16 \<or> (32 \<le> i \<and> i < 40) \<or> 48 \<le> i \<longrightarrow> bit (pmgor_mpam2 m old) i = bit old i)) \<and>
   (m = 255 \<longrightarrow> drop_bit 40 (pmgor_mpam2 m old) AND 0xFF = 0 \<and> bit (pmgor_mpam2 m old) 48) \<and>
   drop_bit 16 (pmgor_mpam2 m old) AND 0xFFFF = 0"
proof -
  let ?w = "ucast m + 1 :: u64"
  have b: "bit (pmgor_mpam2 m old) i \<longleftrightarrow>
      i < 64 \<and> (bit old i \<and> (i < 16 \<or> 31 < i) \<and> (i < 40 \<or> 47 < i) \<or> (40 \<le> i \<and> bit ?w (i - 40)))" for i
    by (auto simp: pmgor_mpam2_def Let_def bit_simps bit_CLEAR_BITS MPAMn_ELx_PARTID_D_SHIFT_def
        MPAMn_ELx_PMG_D_SHIFT_def DEFAULT_PARTID_def dest: bit_imp_le_length)
  have mk: "(0xFF :: u64) = mask 8" "(0xFFFF :: u64) = mask 16" by (simp_all add: mask_eq_exp_minus_1)
  have p: "drop_bit 16 (pmgor_mpam2 m old) AND 0xFFFF = 0"
    unfolding mk by (rule bit_word_eqI) (auto simp: bit_simps b)
  have small: "drop_bit 40 (pmgor_mpam2 m old) AND 0xFF = ?w \<and>
      (\<forall>i. i < 16 \<or> (32 \<le> i \<and> i < 40) \<or> 48 \<le> i \<longrightarrow> bit (pmgor_mpam2 m old) i = bit old i)"
    if m: "m < 255"
  proof -
    have um: "unat m < 255" using m by (simp add: word_less_nat_alt)
    have "unat ?w = unat m + 1" using um by (simp add: unat_word_ariths unat_ucast_small)
    then have wl: "?w < 2 ^ 8" using um by (simp add: word_less_nat_alt)
    have s: "i < 8" if "bit ?w i" for i
    proof (rule ccontr)
      assume "\<not> i < 8"
      moreover have "take_bit 8 ?w = ?w" using wl by (metis less_mask_eq take_bit_eq_mask)
      ultimately show False using that by (metis bit_take_bit_iff)
    qed
    have "drop_bit 40 (pmgor_mpam2 m old) AND 0xFF = ?w"
      unfolding mk by (rule bit_word_eqI) (auto simp: bit_simps b dest: s)
    moreover have "bit (pmgor_mpam2 m old) i = bit old i"
      if "i < 16 \<or> (32 \<le> i \<and> i < 40) \<or> 48 \<le> i" for i
      using that s [of "i - 40"] unfolding b by (auto dest: bit_imp_le_length)
    ultimately show ?thesis by blast
  qed
  have big: "drop_bit 40 (pmgor_mpam2 m old) AND 0xFF = 0 \<and> bit (pmgor_mpam2 m old) 48" if "m = 255"
  proof -
    have w: "bit ?w i \<longleftrightarrow> i = 8" for i
    proof -
      have "?w = 2 ^ 8" using that by simp
      then have "bit ?w i = bit (2 ^ 8 :: u64) i" by (simp only:)
      then show ?thesis by (auto simp only: bit_exp_iff possible_bit_word) simp
    qed
    have "drop_bit 40 (pmgor_mpam2 m old) AND 0xFF = 0"
      unfolding mk by (rule bit_word_eqI) (auto simp: bit_simps b w)
    then show ?thesis by (simp add: b w)
  qed
  from p small big show ?thesis by blast
qed

lemma pmgor_mpam2_fields_witness: "drop_bit 40 (pmgor_mpam2 50 0xFFFF0000) AND 0xFF = 51"
  using pmgor_mpam2_fields [of 50 "0xFFFF0000"] by simp

end
