(* ===== verification/Mpam_Partition.thy ===== *)
theory Mpam_Partition
  imports Mpam_Errors
begin

text \<open>
  Partitioning resources (val_cache.c, val_memory.c): which partitioning schemes a component
  has, the widths of its settings, and the operations that program a percentage of a resource
  for a PARTID. Promotions and narrowings of the C expressions are written out.
\<close>

definition CPOR_BITMAP_DEF_VAL :: u32 where [reg_defs]: "CPOR_BITMAP_DEF_VAL = 0xFFFF"
definition MBWPOR_BITMAP_DEF_VAL :: u32 where [reg_defs]: "MBWPOR_BITMAP_DEF_VAL = 0xFFFFFFFF"

subsection \<open>Feature queries\<close>

text \<open>The base of a node is looked up first, and again by every query that is called.\<close>

definition val_cache_supports_cpor :: "hw \<Rightarrow> u32 \<Rightarrow> world \<Rightarrow> (u8 \<times> world) option" where
  "val_cache_supports_cpor hw node_index s =
     do { (v, s) \<leftarrow> node_read hw MPAM_NODE_CACHE node_index REG_MPAMF_IDR s;
          Some (ucast (field v IDR_HAS_CPOR_PART_SHIFT IDR_HAS_CPOR_PART_MASK), s) }"

definition val_cache_supports_ccap :: "hw \<Rightarrow> u32 \<Rightarrow> world \<Rightarrow> (u8 \<times> world) option" where
  "val_cache_supports_ccap hw node_index s =
     do { (v, s) \<leftarrow> node_read hw MPAM_NODE_CACHE node_index REG_MPAMF_IDR s;
          Some (ucast (field v IDR_HAS_CCAP_PART_SHIFT IDR_HAS_CCAP_PART_MASK), s) }"

text \<open>A register that is read only when a feature is there, and 0 otherwise.\<close>

definition read_if ::
    "hw \<Rightarrow> u8 \<Rightarrow> u32 \<Rightarrow> (world \<Rightarrow> (u8 \<times> world) option) \<Rightarrow> u64 \<Rightarrow> nat \<Rightarrow> u32 \<Rightarrow> world \<Rightarrow> (u32 \<times> world) option"
where
  "read_if hw node_type node_index feature reg sh m s =
     do { (base, s) \<leftarrow> val_node_hwreg_base hw node_type node_index s;
          (f, s) \<leftarrow> feature s;
          if f \<noteq> 0 then (let (v, s) = val_mmio_read hw (base + reg) s in Some (field v sh m, s))
          else Some (0, s) }"

definition val_cache_supports_csumon :: "hw \<Rightarrow> u32 \<Rightarrow> world \<Rightarrow> (u8 \<times> world) option" where
  "val_cache_supports_csumon hw node_index s =
     do { (v, s) \<leftarrow> read_if hw MPAM_NODE_CACHE node_index (val_node_supports_mon hw MPAM_NODE_CACHE node_index)
                      REG_MPAMF_MSMON_IDR MSMON_IDR_MSMON_CSU_SHIFT MSMON_IDR_MSMON_CSU_MASK s;
          Some (ucast v, s) }"

definition val_cache_cpbm_width :: "hw \<Rightarrow> u32 \<Rightarrow> world \<Rightarrow> (u16 \<times> world) option" where
  "val_cache_cpbm_width hw node_index s =
     do { (v, s) \<leftarrow> read_if hw MPAM_NODE_CACHE node_index (val_cache_supports_cpor hw node_index)
                      REG_MPAMF_CPOR_IDR 0 CPOR_IDR_CPBM_WD_MASK s;
          Some (ucast v, s) }"

definition val_cache_cmax_width :: "hw \<Rightarrow> u32 \<Rightarrow> world \<Rightarrow> (u8 \<times> world) option" where
  "val_cache_cmax_width hw node_index s =
     do { (v, s) \<leftarrow> read_if hw MPAM_NODE_CACHE node_index (val_cache_supports_ccap hw node_index)
                      REG_MPAMF_CCAP_IDR 0 CCAP_IDR_CMAX_WD_MASK s;
          Some (ucast v, s) }"

definition val_cache_mon_count :: "hw \<Rightarrow> u32 \<Rightarrow> world \<Rightarrow> (u16 \<times> world) option" where
  "val_cache_mon_count hw node_index s =
     do { (v, s) \<leftarrow> read_if hw MPAM_NODE_CACHE node_index (val_cache_supports_csumon hw node_index)
                      REG_MPAMF_CSUMON_IDR 0 CSUMON_IDR_NUM_MON_MASK s;
          Some (ucast v, s) }"

definition val_memory_supports_part :: "hw \<Rightarrow> u32 \<Rightarrow> world \<Rightarrow> (u8 \<times> world) option" where
  "val_memory_supports_part hw node_index s =
     do { (v, s) \<leftarrow> node_read hw MPAM_NODE_MEMORY node_index REG_MPAMF_IDR s;
          Some (ucast (field v IDR_HAS_MBW_PART_SHIFT IDR_HAS_MBW_PART_MASK), s) }"

text \<open>The fields of MPAMF_MBW_IDR.\<close>

definition mbw_idr :: "hw \<Rightarrow> u32 \<Rightarrow> nat \<Rightarrow> u32 \<Rightarrow> world \<Rightarrow> (u32 \<times> world) option" where
  "mbw_idr hw node_index sh m =
     read_if hw MPAM_NODE_MEMORY node_index (val_memory_supports_part hw node_index)
       REG_MPAMF_MBW_IDR sh m"

definition val_memory_supports_mbwmin :: "hw \<Rightarrow> u32 \<Rightarrow> world \<Rightarrow> (u8 \<times> world) option" where
  "val_memory_supports_mbwmin hw node_index s =
     do { (v, s) \<leftarrow> mbw_idr hw node_index MBW_IDR_HAS_MIN_SHIFT MBW_IDR_HAS_MIN_MASK s; Some (ucast v, s) }"

definition val_memory_supports_mbwmax :: "hw \<Rightarrow> u32 \<Rightarrow> world \<Rightarrow> (u8 \<times> world) option" where
  "val_memory_supports_mbwmax hw node_index s =
     do { (v, s) \<leftarrow> mbw_idr hw node_index MBW_IDR_HAS_MAX_SHIFT MBW_IDR_HAS_MAX_MASK s; Some (ucast v, s) }"

definition val_memory_supports_mbwpbm :: "hw \<Rightarrow> u32 \<Rightarrow> world \<Rightarrow> (u8 \<times> world) option" where
  "val_memory_supports_mbwpbm hw node_index s =
     do { (v, s) \<leftarrow> mbw_idr hw node_index MBW_IDR_HAS_PBM_SHIFT MBW_IDR_HAS_PBM_MASK s; Some (ucast v, s) }"

definition val_memory_mbwmin_width :: "hw \<Rightarrow> u32 \<Rightarrow> world \<Rightarrow> (u16 \<times> world) option" where
  "val_memory_mbwmin_width hw node_index s =
     do { (v, s) \<leftarrow> mbw_idr hw node_index MBW_IDR_BWA_WD_SHIFT MBW_IDR_BWA_WD_MASK s; Some (ucast v, s) }"

definition val_memory_mbwmax_width :: "hw \<Rightarrow> u32 \<Rightarrow> world \<Rightarrow> (u16 \<times> world) option" where
  "val_memory_mbwmax_width hw node_index s =
     do { (v, s) \<leftarrow> mbw_idr hw node_index MBW_IDR_BWA_WD_SHIFT MBW_IDR_BWA_WD_MASK s; Some (ucast v, s) }"

definition val_memory_mbwpbm_width :: "hw \<Rightarrow> u32 \<Rightarrow> world \<Rightarrow> (u16 \<times> world) option" where
  "val_memory_mbwpbm_width hw node_index s =
     do { (v, s) \<leftarrow> mbw_idr hw node_index MBW_IDR_BWPBM_WD_SHIFT MBW_IDR_BWPBM_WD_MASK s; Some (ucast v, s) }"

definition val_memory_supports_mbwumon :: "hw \<Rightarrow> u32 \<Rightarrow> world \<Rightarrow> (u8 \<times> world) option" where
  "val_memory_supports_mbwumon hw node_index s =
     do { (v, s) \<leftarrow> read_if hw MPAM_NODE_MEMORY node_index (val_node_supports_mon hw MPAM_NODE_MEMORY node_index)
                      REG_MPAMF_MSMON_IDR MSMON_IDR_MSMON_MBWU_SHIFT MSMON_IDR_MSMON_MBWU_MASK s;
          Some (ucast v, s) }"

definition val_memory_mon_count :: "hw \<Rightarrow> u32 \<Rightarrow> world \<Rightarrow> (u16 \<times> world) option" where
  "val_memory_mon_count hw node_index s =
     do { (v, s) \<leftarrow> read_if hw MPAM_NODE_MEMORY node_index (val_memory_supports_mbwumon hw node_index)
                      REG_MPAMF_MBWUMON_IDR 0 MBWUMON_IDR_NUM_MON_MASK s;
          Some (ucast v, s) }"

subsection \<open>Portion bitmaps\<close>

text \<open>
  \<open>num * percentage / 100\<close> is computed in 32 bits and stored in 16. The loop counts bits: it
  writes the default pattern for every 32 whole bits, at the address that is the bit index
  added to the bitmap register, and leaves the index of the first bit not covered.
\<close>

definition portion_bits :: "u16 \<Rightarrow> u32 \<Rightarrow> u16" where
  "portion_bits num percentage = ucast ((ucast num * percentage) div 100)"

lemma portion_step:
  assumes "int (unat index) < int (unat num) - 31"
  shows "unat (index + 32 :: u16) = unat index + 32" "unat index + 32 \<le> unat (num :: u16)"
proof -
  show le: "unat index + 32 \<le> unat num" using assms by linarith
  also have "\<dots> < 2 ^ 16" using unsigned_less [of num] by simp
  finally show "unat (index + 32) = unat index + 32" by (simp add: unat_word_ariths)
qed

function portion_loop :: "u64 \<Rightarrow> u32 \<Rightarrow> u16 \<Rightarrow> u16 \<Rightarrow> world \<Rightarrow> u16 \<times> world" where
  "portion_loop reg pattern num index s =
     (if int (unat index) < int (unat num) - 31
      then portion_loop reg pattern num (index + 32) (val_mmio_write (reg + ucast index) pattern s)
      else (index, s))"
  by auto
termination
proof (relation "measure (\<lambda>(_, _, num, index, _). unat num - unat index)")
  fix reg :: u64 and pattern :: u32 and num index :: u16 and s :: world
  assume "int (unat index) < int (unat num) - 31"
  from portion_step [OF this]
  show "((reg, pattern, num, index + 32, val_mmio_write (reg + ucast index) pattern s),
      reg, pattern, num, index, s) \<in> measure (\<lambda>(_, _, num, index, _). unat num - unat index)"
    by simp
qed simp

declare portion_loop.simps [simp del]

text \<open>The rest is programmed as one more word, if there is a rest. The shift count is the
  32-bit difference of the two 16-bit counts; a count of 32 or more would be undefined.\<close>

definition portion_config :: "u64 \<Rightarrow> u32 \<Rightarrow> u16 \<Rightarrow> world \<Rightarrow> world option" where
  "portion_config reg pattern num s =
     (let (index, s) = portion_loop reg pattern num 0 s
      in do { bit \<leftarrow> shl32 1 (unat (ucast num - ucast index :: u32));
              let unset_bitmask = bit - 1;
              let s = (if unset_bitmask \<noteq> 0 then val_mmio_write (reg + ucast index) unset_bitmask s else s);
              Some (val_memory_ops_issue_barrier DSB s) })"

definition val_cache_configure_cpor :: "hw \<Rightarrow> u32 \<Rightarrow> u16 \<Rightarrow> u32 \<Rightarrow> world \<Rightarrow> world option" where
  "val_cache_configure_cpor hw node_index partid cpbm_percentage s =
     do { (base, s) \<leftarrow> val_node_hwreg_base hw MPAM_NODE_CACHE node_index s;
          (num, s) \<leftarrow> val_cache_cpbm_width hw node_index s;
          let s = val_mmio_write (base + REG_MPAMCFG_PART_SEL) (ucast partid) s;
          portion_config (base + REG_MPAMCFG_CPBM) CPOR_BITMAP_DEF_VAL
            (portion_bits num cpbm_percentage) s }"

definition val_memory_configure_mbwpbm :: "hw \<Rightarrow> u32 \<Rightarrow> u16 \<Rightarrow> u32 \<Rightarrow> world \<Rightarrow> world option" where
  "val_memory_configure_mbwpbm hw node_index partid mbwpbm_percentage s =
     do { (base, s) \<leftarrow> val_node_hwreg_base hw MPAM_NODE_MEMORY node_index s;
          (num, s) \<leftarrow> val_memory_mbwpbm_width hw node_index s;
          let s = val_mmio_write (base + REG_MPAMCFG_PART_SEL) (ucast partid) s;
          portion_config (base + REG_MPAMCFG_MBW_PBM) MBWPOR_BITMAP_DEF_VAL
            (portion_bits num mbwpbm_percentage) s }"

subsection \<open>Fixed-point limits\<close>

text \<open>
  \<open>((1 << n) * percentage / 100) - 1\<close>, narrowed to 16 bits, then placed in the top \<open>n\<close> bits
  of a 16-bit field. Both shifts have C counts: \<open>n\<close> of 32 or more, or above 16, is undefined.
\<close>

definition limit_fraction :: "u8 \<Rightarrow> u32 \<Rightarrow> u16 option" where
  "limit_fraction n percentage =
     do { one \<leftarrow> shl32 1 (unat n); Some (ucast ((one * percentage) div 100 - 1)) }"

definition limit_field :: "u8 \<Rightarrow> u32 \<Rightarrow> u32 option" where
  "limit_field n percentage =
     do { f \<leftarrow> limit_fraction n percentage;
          if unat n \<le> 16 then Some (push_bit (16 - unat n) (ucast f) AND 0xFFFF) else None }"

definition val_cache_configure_ccap :: "hw \<Rightarrow> u32 \<Rightarrow> u16 \<Rightarrow> u8 \<Rightarrow> u32 \<Rightarrow> world \<Rightarrow> world option" where
  "val_cache_configure_ccap hw node_index partid hardlim ccap_percentage s =
     do { (base, s) \<leftarrow> val_node_hwreg_base hw MPAM_NODE_CACHE node_index s;
          (n, s) \<leftarrow> val_cache_cmax_width hw node_index s;
          fraction \<leftarrow> limit_field n ccap_percentage;
          let s = val_mmio_write (base + REG_MPAMCFG_PART_SEL) (ucast partid) s;
          let s = val_mmio_write (base + REG_MPAMCFG_CMAX)
                    (push_bit MBW_MAX_HARDLIM_SHIFT (ucast hardlim) OR fraction) s;
          Some (val_memory_ops_issue_barrier DSB s) }"

text \<open>The width query of the memory limits is 16 bits wide and narrowed to 8.\<close>

definition val_memory_configure_mbwmin :: "hw \<Rightarrow> u32 \<Rightarrow> u16 \<Rightarrow> u32 \<Rightarrow> world \<Rightarrow> world option" where
  "val_memory_configure_mbwmin hw node_index partid mbwmin_percentage s =
     do { (base, s) \<leftarrow> val_node_hwreg_base hw MPAM_NODE_MEMORY node_index s;
          (n, s) \<leftarrow> val_memory_mbwmin_width hw node_index s;
          fraction \<leftarrow> limit_field (ucast n) mbwmin_percentage;
          let s = val_mmio_write (base + REG_MPAMCFG_PART_SEL) (ucast partid) s;
          let s = val_mmio_write (base + REG_MPAMCFG_MBW_MIN) fraction s;
          Some (val_memory_ops_issue_barrier DSB s) }"

definition val_memory_configure_mbwmax :: "hw \<Rightarrow> u32 \<Rightarrow> u16 \<Rightarrow> u8 \<Rightarrow> u32 \<Rightarrow> world \<Rightarrow> world option" where
  "val_memory_configure_mbwmax hw node_index partid hardlim mbwmax_percentage s =
     do { (base, s) \<leftarrow> val_node_hwreg_base hw MPAM_NODE_MEMORY node_index s;
          (n, s) \<leftarrow> val_memory_mbwmax_width hw node_index s;
          fraction \<leftarrow> limit_field (ucast n) mbwmax_percentage;
          let s = val_mmio_write (base + REG_MPAMCFG_PART_SEL) (ucast partid) s;
          let s = val_mmio_write (base + REG_MPAMCFG_MBW_MAX)
                    (push_bit MBW_MAX_HARDLIM_SHIFT (ucast hardlim) OR fraction) s;
          Some (val_memory_ops_issue_barrier DSB s) }"

subsection \<open>What a portion bitmap ends up with\<close>

text \<open>The writes of the loop from word \<open>j\<close> on, in order.\<close>

definition portion_writes :: "u64 \<Rightarrow> u32 \<Rightarrow> nat \<Rightarrow> nat \<Rightarrow> io_event list" where
  "portion_writes reg pattern j n = map (\<lambda>k. MmioWrite (reg + of_nat (32 * k)) pattern) [j..<n]"

lemma portion_loop_run:
  assumes "j \<le> unat num div 32"
  shows "\<exists>t. portion_loop reg pattern num (of_nat (32 * j)) s =
      (of_nat (32 * (unat num div 32)), t) \<and>
      io t = rev (portion_writes reg pattern j (unat num div 32)) @ io s \<and> gl t = gl s"
  using assms
proof (induction "unat num div 32 - j" arbitrary: j s)
  case 0
  then have j: "j = unat num div 32" by simp
  have u: "unat (of_nat (32 * j) :: u16) = 32 * j"
    by (rule unat_of_nat_atmost [of _ num]) (use j in linarith)
  then have "\<not> int (unat (of_nat (32 * j) :: u16)) < int (unat num) - 31" unfolding j by linarith
  then show ?case by (subst portion_loop.simps) (simp add: portion_writes_def j)
next
  case (Suc d)
  have j: "j < unat num div 32" using Suc.hyps(2) by linarith
  have u: "unat (of_nat (32 * j) :: u16) = 32 * j"
    by (rule unat_of_nat_atmost [of _ num]) (use j in linarith)
  then have c: "int (unat (of_nat (32 * j) :: u16)) < int (unat num) - 31" using j by linarith
  have uc: "ucast (of_nat (32 * j) :: u16) = (of_nat (32 * j) :: u64)"
    using u by (metis of_nat_unat)
  have nx: "of_nat (32 * j) + 32 = (of_nat (32 * Suc j) :: u16)" by simp
  have d: "d = unat num div 32 - Suc j" "Suc j \<le> unat num div 32" using Suc.hyps(2) j by simp_all
  from Suc.hyps(1) [OF d, of "val_mmio_write (reg + of_nat (32 * j)) pattern s"] obtain t where
    t: "portion_loop reg pattern num (of_nat (32 * Suc j)) (val_mmio_write (reg + of_nat (32 * j)) pattern s)
      = (of_nat (32 * (unat num div 32)), t)"
      "io t = rev (portion_writes reg pattern (Suc j) (unat num div 32)) @ MmioWrite (reg + of_nat (32 * j)) pattern # io s"
      "gl t = gl s" by auto
  have w: "portion_writes reg pattern j (unat num div 32) =
      MmioWrite (reg + of_nat (32 * j)) pattern # portion_writes reg pattern (Suc j) (unat num div 32)"
    using j by (simp add: portion_writes_def upt_conv_Cons)
  show ?case
    using c t by (subst portion_loop.simps) (simp only: if_True uc nx w rev.simps append.simps append_assoc, simp)
qed

lemma portion_config_run:
  "\<exists>t. portion_config reg pattern num s = Some t \<and> gl t = gl s \<and>
     io t = Barrier DSB # (if unat num mod 32 = 0 then []
         else [MmioWrite (reg + of_nat (32 * (unat num div 32))) (mask (unat num mod 32))]) @
       rev (portion_writes reg pattern 0 (unat num div 32)) @ io s"
proof -
  let ?i = "of_nat (32 * (unat num div 32)) :: u16"
  let ?r = "unat num mod 32"
  obtain t where t: "portion_loop reg pattern num 0 s = (?i, t)"
      "io t = rev (portion_writes reg pattern 0 (unat num div 32)) @ io s" "gl t = gl s"
    using portion_loop_run [of 0 num reg pattern s] by auto
  have lt: "unat num < 2 ^ 16" using unsigned_less [of num] by simp
  have ui: "unat ?i = 32 * (unat num div 32)"
    by (rule unat_of_nat_atmost [of _ num]) linarith
  have le: "(ucast ?i :: u32) \<le> ucast num"
    using ui lt by (simp add: word_le_nat_alt unat_ucast_small)
  have sub: "unat (ucast num - ucast ?i :: u32) = ?r"
    using ui lt unat_sub [OF le] by (simp add: unat_ucast_small minus_div_mult_eq_mod [symmetric] mult.commute)
  have uc: "ucast ?i = (of_nat (32 * (unat num div 32)) :: u64)" using ui by (metis of_nat_unat)
  have m: "push_bit ?r 1 - 1 = (mask ?r :: u32)" by (simp add: push_bit_eq_mult mask_eq_exp_minus_1)
  have z: "(mask ?r :: u32) = 0 \<longleftrightarrow> ?r = 0"
    by (metis mask_0 mod_less_divisor mask_eq_0_iff)
  have z2: "(2 ^ ?r :: u32) = 1 \<Longrightarrow> ?r = 0" using z by (metis diff_self mask_eq_exp_minus_1)
  show ?thesis
    unfolding portion_config_def t(1) Let_def prod.case sub
    using t(2,3) m z z2 uc by (auto simp add: shl32_def)
qed


text \<open>How many one bits the writes of a run put into registers.\<close>

definition popcount :: "u32 \<Rightarrow> nat" where
  "popcount w = length (List.filter (bit w) [0..<32])"

fun ones_written :: "io_event list \<Rightarrow> nat" where
  "ones_written [] = 0"
| "ones_written (MmioWrite a v # h) = popcount v + ones_written h"
| "ones_written (_ # h) = ones_written h"

lemma ones_written_append [simp]: "ones_written (h @ h') = ones_written h + ones_written h'"
  by (induction h rule: ones_written.induct) simp_all

lemma ones_written_portions:
  "ones_written (rev (portion_writes reg pattern j n)) = (n - j) * popcount pattern"
  by (induction n) (auto simp: portion_writes_def Suc_diff_le)

lemma popcount_mask: "r < 32 \<Longrightarrow> popcount (mask r) = r"
proof -
  assume r: "r < 32"
  have "List.filter (bit (mask r :: u32)) [0..<32] = [0..<r]"
  proof -
    have "[0..<32] = [0..<r] @ [r..<32]" using r upt_add_eq_append [of 0 r "32 - r"] by simp
    then show ?thesis using r by (simp add: bit_mask_iff filter_id_conv filter_empty_conv)
  qed
  then show ?thesis by (simp add: popcount_def)
qed

lemma popcount_defaults: "popcount CPOR_BITMAP_DEF_VAL = 16" "popcount MBWPOR_BITMAP_DEF_VAL = 32"
proof -
  have c: "CPOR_BITMAP_DEF_VAL = mask 16" by (simp add: CPOR_BITMAP_DEF_VAL_def mask_eq_exp_minus_1)
  show "popcount CPOR_BITMAP_DEF_VAL = 16" unfolding c by (rule popcount_mask) simp
  have "MBWPOR_BITMAP_DEF_VAL = - 1" by (simp add: MBWPOR_BITMAP_DEF_VAL_def)
  moreover have "List.filter (bit (- 1 :: u32)) [0..<32] = [0..<32]" by (rule filter_True) simp
  ultimately show "popcount MBWPOR_BITMAP_DEF_VAL = 32"
    unfolding popcount_def by (metis diff_zero length_upt)
qed

text \<open>Programming a portion bitmap is defined for every number of portions and always ends. The
  memory bandwidth pattern writes exactly the number of one bits asked for; the cache pattern,
  of 16 ones for every 32 portions, falls short by 16 for each whole word.\<close>

theorem portion_ones:
  "\<exists>t. portion_config reg MBWPOR_BITMAP_DEF_VAL num s = Some t \<and>
     (\<exists>h. io t = h @ io s \<and> ones_written h = unat num) \<and>
   (\<exists>u. portion_config reg CPOR_BITMAP_DEF_VAL num s = Some u \<and>
     (\<exists>h. io u = h @ io s \<and> ones_written h + 16 * (unat num div 32) = unat num))"
proof -
  have o: "\<exists>t. portion_config reg pat num s = Some t \<and>
     (\<exists>h. io t = h @ io s \<and> ones_written h = unat num div 32 * popcount pat + unat num mod 32)" for pat
  proof -
    obtain t where t: "portion_config reg pat num s = Some t" "io t = Barrier DSB # (if unat num mod 32 = 0 then []
         else [MmioWrite (reg + of_nat (32 * (unat num div 32))) (mask (unat num mod 32))]) @
       rev (portion_writes reg pat 0 (unat num div 32)) @ io s"
      using portion_config_run by blast
    let ?h = "Barrier DSB # (if unat num mod 32 = 0 then []
         else [MmioWrite (reg + of_nat (32 * (unat num div 32))) (mask (unat num mod 32))]) @
       rev (portion_writes reg pat 0 (unat num div 32))"
    have "io t = ?h @ io s" using t(2) by simp
    moreover have "ones_written ?h = unat num div 32 * popcount pat + unat num mod 32"
      by (simp add: ones_written_portions popcount_mask)
    ultimately show ?thesis using t(1) by blast
  qed
  have "unat num div 32 * 32 + unat num mod 32 = unat num" by simp
  with o [of MBWPOR_BITMAP_DEF_VAL] o [of CPOR_BITMAP_DEF_VAL] show ?thesis
    by (fastforce simp: popcount_defaults)
qed

text \<open>The words of a bitmap do not go to consecutive registers: the loop uses the bit index as a
  byte offset, so word \<open>k\<close> is written 32 k bytes behind the first, not 4 k.\<close>

theorem portion_addresses:
  assumes "portion_config reg pattern num s = Some t" "32 \<le> unat num"
  shows "\<forall>k<unat num div 32. MmioWrite (reg + 32 * of_nat k) pattern \<in> set (io t)"
    using assms(1) portion_config_run [of reg pattern num s]
    by (auto simp: portion_writes_def)

lemma portion_addresses_witness:
  "\<exists>t. portion_config 0x1000 0xFFFF 64 two_pe_world = Some t \<and> MmioWrite 0x1020 0xFFFF \<in> set (io t)"
proof -
  obtain t where t: "portion_config 0x1000 0xFFFF 64 two_pe_world = Some t"
    using portion_config_run by blast
  have "\<forall>k<unat (64 :: u16) div 32. MmioWrite (0x1000 + 32 * of_nat k) 0xFFFF \<in> set (io t)"
    by (rule portion_addresses [OF t]) simp
  then show ?thesis using t by (auto dest: spec [of _ 1])
qed

subsection \<open>What a limit ends up with\<close>

lemma limit_fraction_eq:
  assumes "unat n \<le> 16" "unat p \<le> 100" "100 \<le> 2 ^ unat n * unat p"
  shows "\<exists>f. limit_fraction n p = Some f \<and> unat f = 2 ^ unat n * unat p div 100 - 1 \<and> unat f < 2 ^ unat n"
proof -
  let ?N = "2 ^ unat n * unat p div 100"
  have pw: "(2 :: nat) ^ unat n \<le> 2 ^ 16" using assms(1) by (intro power_increasing) auto
  have u1: "unat (push_bit (unat n) 1 :: u32) = 2 ^ unat n"
  proof -
    have "push_bit (unat n) 1 = (of_nat (2 ^ unat n) :: u32)" by (simp add: push_bit_eq_mult)
    moreover have "(2 :: nat) ^ unat n mod 2 ^ LENGTH(32) = 2 ^ unat n"
      using pw by (intro mod_less) simp
    ultimately show ?thesis by (simp only: unat_of_nat)
  qed
  have b: "2 ^ unat n * unat p \<le> 2 ^ 16 * 100" using pw assms(2) by (rule mult_le_mono)
  then have u2: "unat (push_bit (unat n) 1 * p) = 2 ^ unat n * unat p"
    using u1 by (simp add: unat_word_ariths)
  have N: "1 \<le> ?N" "?N \<le> 2 ^ unat n"
  proof -
    show "1 \<le> ?N" using assms(3) by (simp add: div_greater_zero_iff Suc_le_eq)
    have "2 ^ unat n * unat p \<le> 2 ^ unat n * 100" using assms(2) by simp
    then show "?N \<le> 2 ^ unat n" by (metis div_le_mono nonzero_mult_div_cancel_right zero_neq_numeral)
  qed
  have u3: "unat (push_bit (unat n) 1 * p div 100) = ?N" using u2 by (simp add: unat_div)
  have "unat (push_bit (unat n) 1 * p div 100 - 1) = ?N - 1"
    using u3 N(1) by (simp add: unat_sub word_le_nat_alt)
  moreover have "?N - 1 < 2 ^ 16" using N pw by linarith
  ultimately have "unat (ucast (push_bit (unat n) 1 * p div 100 - 1) :: u16) = ?N - 1"
    by (simp add: unat_ucast_small)
  then show ?thesis using assms(1) N by (simp add: limit_fraction_def shl32_def)
qed

lemma limit_place:
  assumes "unat n \<le> 16" "unat (f :: u16) < 2 ^ unat (n :: u8)"
  shows "unat (push_bit (16 - unat n) (ucast f) AND 0xFFFF :: u32) = unat f * 2 ^ (16 - unat n)"
proof -
  let ?k = "16 - unat n"
  have "unat f * 2 ^ ?k < 2 ^ unat n * 2 ^ ?k" using assms(2) by simp
  also have "\<dots> = 2 ^ 16" using assms(1) by (simp flip: power_add)
  finally have lt: "unat f * 2 ^ ?k < 2 ^ 16" .
  have "push_bit ?k (ucast f :: u32) = of_nat (unat f * 2 ^ ?k)"
    by (simp add: push_bit_eq_mult unsigned_of_nat [symmetric])
  moreover have "unat f * 2 ^ ?k mod 2 ^ LENGTH(32) = unat f * 2 ^ ?k"
    using lt by (intro mod_less) simp
  ultimately have u: "unat (push_bit ?k (ucast f :: u32)) = unat f * 2 ^ ?k"
    by (simp only: unat_of_nat)
  then show ?thesis using lt and_mask_eq_mod [of "push_bit ?k (ucast f :: u32)" 16]
    by (simp add: mask_eq_exp_minus_1)
qed

text \<open>A limit of at most 100 percent on a width of at most 16 bits is programmed as the fixed-point
  fraction floor(2^n * percentage / 100) - 1 in the top \<open>n\<close> bits of the 16-bit field, as soon
  as the percentage amounts to one step of the width.\<close>

theorem limit_field_value:
  assumes "unat n \<le> 16" "unat p \<le> 100" "100 \<le> 2 ^ unat n * unat p"
  shows "\<exists>v. limit_field n p = Some v \<and>
     unat v = (2 ^ unat n * unat p div 100 - 1) * 2 ^ (16 - unat n)"
proof -
  obtain f where f: "limit_fraction n p = Some f" "unat f = 2 ^ unat n * unat p div 100 - 1"
      "unat f < 2 ^ unat n" using limit_fraction_eq [OF assms] by blast
  then show ?thesis using assms(1) limit_place [OF assms(1) f(3)] by (simp add: limit_field_def)
qed

lemma limit_field_value_witness: "\<exists>v. limit_field 8 50 = Some v \<and> unat v = 127 * 256"
  using limit_field_value [of 8 50] by simp

text \<open>A percentage below one step of the width wraps around: the subtraction underflows and the
  component is given the largest limit it has, the same as for 100 percent.\<close>

theorem limit_field_wraps:
  assumes "unat n \<le> 16" "2 ^ unat n * unat p < 100"
  shows "limit_field n p = limit_field n 100"
proof -
  have pw: "(2 :: nat) ^ unat n \<le> 2 ^ 16" using assms(1) by (intro power_increasing) auto
  have o: "push_bit (unat n) 1 = (of_nat (2 ^ unat n) :: u32)" by (simp add: push_bit_eq_mult)
  have "push_bit (unat n) 1 * p = (of_nat (2 ^ unat n * unat p) :: u32)"
    unfolding o by simp
  moreover have "2 ^ unat n * unat p mod 2 ^ LENGTH(32) = 2 ^ unat n * unat p"
    using assms(2) by (intro mod_less) simp
  ultimately have "unat (push_bit (unat n) 1 * p) = 2 ^ unat n * unat p" by (simp only: unat_of_nat)
  then have "unat (push_bit (unat n) 1 * p div 100) = 0" using assms(2) by (simp add: unat_div)
  then have "push_bit (unat n) 1 * p div 100 = 0" by (simp add: unat_eq_zero)
  moreover have "ucast (- 1 :: u32) = (- 1 :: u16)" by (rule bit_word_eqI) (simp add: bit_simps)
  ultimately have a: "limit_fraction n p = Some (- 1)"
    using assms(1) by (simp add: limit_fraction_def shl32_def)
  obtain f where f: "limit_fraction n 100 = Some f" "unat f = 2 ^ unat n - 1" "unat f < 2 ^ unat n"
    using limit_fraction_eq [of n 100] assms(1) by auto
  have fm: "f = mask (unat n)"
  proof -
    have "f = of_nat (unat f)" by simp
    also have "\<dots> = of_nat (2 ^ unat n) - 1" unfolding f(2) by (subst of_nat_diff) simp_all
    finally show ?thesis by (simp add: mask_eq_exp_minus_1)
  qed
  have mk: "(0xFFFF :: u32) = mask 16" by (simp add: mask_eq_exp_minus_1)
  have "push_bit (16 - unat n) (ucast (- 1 :: u16)) AND 0xFFFF
      = (push_bit (16 - unat n) (ucast f) AND 0xFFFF :: u32)"
    unfolding mk fm using assms(1) by (intro bit_word_eqI) (auto simp: bit_simps)
  then show ?thesis by (simp add: limit_field_def a f(1))
qed

lemma limit_field_wraps_witness: "limit_field 4 5 = limit_field 4 100"
  by (rule limit_field_wraps) simp_all

text \<open>A component that reports a width above 16, which the 6-bit identification field can express,
  makes the shift count negative or too large: programming a limit is then undefined.\<close>

theorem limit_field_undefined: "16 < unat n \<Longrightarrow> limit_field n p = None"
  by (simp add: limit_field_def limit_fraction_def shl32_def)

lemma limit_field_undefined_witness: "limit_field 20 50 = None"
  by (rule limit_field_undefined) simp

end
