(* ===== verification/Mpam_Csumon.thy ===== *)
theory Mpam_Csumon
  imports Mpam_Partition
begin

text \<open>
  Cache storage usage monitors (val_csu_monitor.c): configuring a monitor, reading its value,
  and putting its control register back from the variable csu_ctl_temp.
\<close>

definition val_csumon_monitor_count :: "hw \<Rightarrow> u32 \<Rightarrow> world \<Rightarrow> (u16 \<times> world) option" where
  "val_csumon_monitor_count hw node_index s =
     do { (v, s) \<leftarrow> read_if hw MPAM_NODE_CACHE node_index (val_cache_supports_csumon hw node_index)
                      REG_MPAMF_CSUMON_IDR 0 CSUMON_IDR_NUM_MON_MASK s;
          Some (ucast v, s) }"

definition set_csu_temp :: "u32 \<Rightarrow> world \<Rightarrow> world" where
  "set_csu_temp v s = s\<lparr>gl := (gl s)\<lparr>csu_ctl_temp := v\<rparr>\<rparr>"

text \<open>The control word a monitor runs with: enabled, matching PARTID and PMG, no overflow
  interrupt, all else as it was.\<close>

definition csu_disabled :: "u32 \<Rightarrow> u32" where
  "csu_disabled v = v AND NOT (push_bit CSU_CTL_ENABLE_SHIFT 1)"

definition csu_enabled :: "u32 \<Rightarrow> u32" where
  "csu_enabled v =
     (csu_disabled v AND NOT (push_bit CSU_CTL_ENABLE_OFLOW_INTR_SHIFT 1)) OR
     (push_bit CSU_CTL_ENABLE_MATCH_PARTID_SHIFT 1 OR push_bit CSU_CTL_ENABLE_MATCH_PMG_SHIFT 1 OR
      push_bit CSU_CTL_ENABLE_SHIFT 1)"

definition val_csumon_config_monitor :: "hw \<Rightarrow> u32 \<Rightarrow> u16 \<Rightarrow> u8 \<Rightarrow> u16 \<Rightarrow> world \<Rightarrow> world option" where
  "val_csumon_config_monitor hw node_index partid pmg mon_sel s =
     do { (base, s) \<leftarrow> val_node_hwreg_base hw MPAM_NODE_CACHE node_index s;
          let s = val_mmio_write (base + REG_MSMON_CFG_MON_SEL) (ucast mon_sel) s;
          let s = val_mmio_write (base + REG_MSMON_CSU) (push_bit CSU_NRDY_SHIFT 1) s;
          let s = val_mmio_write (base + REG_MSMON_CFG_CSU_FLT)
                    (push_bit CSU_FLT_PMG_SHIFT (ucast pmg) OR ucast partid) s;
          let (v, s) = val_mmio_read hw (base + REG_MSMON_CFG_CSU_CTL) s;
          let s = set_csu_temp v s;
          let s = val_mmio_write (base + REG_MSMON_CFG_CSU_CTL) (csu_disabled v) s;
          let s = val_mmio_write (base + REG_MSMON_CFG_CSU_CTL) (csu_enabled v) s;
          Some (val_memory_ops_issue_barrier DSB s) }"

definition val_csumon_storage_value :: "hw \<Rightarrow> u32 \<Rightarrow> u16 \<Rightarrow> world \<Rightarrow> (u32 \<times> world) option" where
  "val_csumon_storage_value hw node_index mon_sel s =
     do { (base, s) \<leftarrow> val_node_hwreg_base hw MPAM_NODE_CACHE node_index s;
          let s = val_mmio_write (base + REG_MSMON_CFG_MON_SEL) (ucast mon_sel) s;
          let s = val_memory_ops_issue_barrier DSB s;
          let (v, s) = val_mmio_read hw (base + REG_MSMON_CSU) s;
          Some (if field v CSU_NRDY_SHIFT CSU_NRDY_MASK \<noteq> 0 then 0 else v AND CSU_VALUE_MASK, s) }"

definition val_csumon_reset_monitor :: "hw \<Rightarrow> u32 \<Rightarrow> u16 \<Rightarrow> world \<Rightarrow> world option" where
  "val_csumon_reset_monitor hw node_index mon_sel s =
     do { (base, s) \<leftarrow> val_node_hwreg_base hw MPAM_NODE_CACHE node_index s;
          let s = val_mmio_write (base + REG_MSMON_CFG_MON_SEL) (ucast mon_sel) s;
          let s = val_memory_ops_issue_barrier DSB s;
          Some (val_mmio_write (base + REG_MSMON_CSU) (push_bit CSU_NRDY_SHIFT 1) s) }"

definition val_csumon_restore_ctlreg :: "hw \<Rightarrow> u32 \<Rightarrow> u16 \<Rightarrow> world \<Rightarrow> world option" where
  "val_csumon_restore_ctlreg hw node_index mon_sel s =
     do { (base, s) \<leftarrow> val_node_hwreg_base hw MPAM_NODE_CACHE node_index s;
          let s = val_mmio_write (base + REG_MSMON_CFG_MON_SEL) (ucast mon_sel) s;
          let s = val_mmio_write (base + REG_MSMON_CFG_CSU_CTL) (csu_ctl_temp (gl s)) s;
          Some (val_memory_ops_issue_barrier DSB s) }"

text \<open>
  The monitor registers are banked: which CSU_CTL is seen depends on the monitor selected
  last. A device with that behaviour: the control register of each monitor keeps what was
  written while it was selected.
\<close>

fun banked_ctl :: "u64 \<Rightarrow> (u32 \<Rightarrow> u32) \<Rightarrow> history \<Rightarrow> u32 \<Rightarrow> u32" where
  "banked_ctl base rst [] m = rst m"
| "banked_ctl base rst (MmioWrite a v # h) m =
     (if a = base + REG_MSMON_CFG_CSU_CTL \<and> last_write h (base + REG_MSMON_CFG_MON_SEL) = Some m
      then v else banked_ctl base rst h m)"
| "banked_ctl base rst (_ # h) m = banked_ctl base rst h m"

definition banked_csu :: "hw \<Rightarrow> u64 \<Rightarrow> (u32 \<Rightarrow> u32) \<Rightarrow> bool" where
  "banked_csu hw base rst \<longleftrightarrow>
     (\<forall>h m. last_write h (base + REG_MSMON_CFG_MON_SEL) = Some m \<longrightarrow>
        mmio_in hw h (base + REG_MSMON_CFG_CSU_CTL) = banked_ctl base rst h m)"

lemma csu_offsets [simp]:
  "REG_MSMON_CFG_CSU_CTL \<noteq> REG_MSMON_CFG_MON_SEL" "REG_MSMON_CFG_MON_SEL \<noteq> REG_MSMON_CFG_CSU_CTL"
  "REG_MSMON_CSU \<noteq> REG_MSMON_CFG_MON_SEL" "REG_MSMON_CFG_CSU_FLT \<noteq> REG_MSMON_CFG_MON_SEL"
  "REG_MSMON_CSU \<noteq> REG_MSMON_CFG_CSU_CTL" "REG_MSMON_CFG_CSU_FLT \<noteq> REG_MSMON_CFG_CSU_CTL"
  "REG_MSMON_CFG_MON_SEL \<noteq> REG_MSMON_CSU" "REG_MSMON_CFG_MON_SEL \<noteq> REG_MSMON_CFG_CSU_FLT"
  by (simp_all add: reg_defs)

lemma csu_ctl_aligned: "aligned4 base \<Longrightarrow> mmio_addr (base + REG_MSMON_CFG_CSU_CTL) = base + REG_MSMON_CFG_CSU_CTL"
  by (rule mmio_addr_aligned, rule aligned4_add) (simp_all add: aligned4_def REG_MSMON_CFG_CSU_CTL_def)

lemma csu_aligned: "aligned4 base \<Longrightarrow> mmio_addr (base + REG_MSMON_CSU) = base + REG_MSMON_CSU"
  by (rule mmio_addr_aligned, rule aligned4_add) (simp_all add: aligned4_def REG_MSMON_CSU_def)

lemma banked_ctl_lookup:
  assumes "val_node_hwreg_base hw ty i s = Some (b, t)"
  shows "banked_ctl base rst (io t) m = banked_ctl base rst (io s) m"
  using assms
  by (auto simp: val_node_hwreg_base_def node_lookup_def my_index_def val_pe_get_mpid_def
      Option.bind_eq_Some_conv split: option.splits if_splits)

text \<open>Configuring a monitor and restoring it afterwards is the identity on its control register:
  while it runs, the register holds the enable word for the old value, and
  val_csumon_restore_ctlreg on the same monitor puts the old value back, on a device that
  keeps one control register per monitor.\<close>

theorem csumon_restored:
  assumes "val_node_hwreg_base hw MPAM_NODE_CACHE i s = Some (base, s0)" "aligned4 base"
    and "banked_csu hw base rst" and m_def: "m = (ucast (mon :: u16) :: u32)"
  shows "\<exists>t u. val_csumon_config_monitor hw i partid pmg mon s = Some t \<and>
     banked_ctl base rst (io t) m = csu_enabled (banked_ctl base rst (io s) m) \<and>
     val_csumon_restore_ctlreg hw i mon t = Some u \<and>
     banked_ctl base rst (io u) m = banked_ctl base rst (io s) m"
proof -
  note r = hwreg_base_run [OF assms(1)]
  let ?flt = "push_bit CSU_FLT_PMG_SHIFT (ucast pmg) OR ucast partid :: u32"
  let ?s1 = "val_mmio_write (base + REG_MSMON_CFG_CSU_FLT) ?flt
      (val_mmio_write (base + REG_MSMON_CSU) (push_bit CSU_NRDY_SHIFT 1)
        (val_mmio_write (base + REG_MSMON_CFG_MON_SEL) m s0))"
  have v: "mmio_in hw (io ?s1) (base + REG_MSMON_CFG_CSU_CTL) = banked_ctl base rst (io s) m"
    using assms(3) banked_ctl_lookup [OF assms(1)] unfolding banked_csu_def by simp
  let ?v = "banked_ctl base rst (io s) m"
  obtain t where t: "val_csumon_config_monitor hw i partid pmg mon s = Some t"
      "gl t = (gl s)\<lparr>csu_ctl_temp := ?v\<rparr>" "banked_ctl base rst (io t) m = csu_enabled ?v"
      "last_write (io t) (base + REG_MSMON_CFG_MON_SEL) = Some m"
    using v r by (auto simp: val_csumon_config_monitor_def assms(1) Let_def split_beta
        csu_ctl_aligned [OF assms(2)] set_csu_temp_def m_def)
  have "same_nodes s t" by (simp add: same_nodes_def t(2))
  with assms(1) obtain t1 where t1: "val_node_hwreg_base hw MPAM_NODE_CACHE i t = Some (base, t1)"
    using hwreg_base_again by blast
  have "gl t1 = (gl s)\<lparr>csu_ctl_temp := ?v\<rparr>" using hwreg_base_run(1) [OF t1] t(2) by simp
  then obtain u where "val_csumon_restore_ctlreg hw i mon t = Some u" "banked_ctl base rst (io u) m = ?v"
    by (simp add: val_csumon_restore_ctlreg_def t1 m_def)
  with t show ?thesis by blast
qed

text \<open>A cache node whose monitors keep one control register each.\<close>

definition csu_hw :: "u32 \<Rightarrow> hw" where
  "csu_hw x = (ram_hw (\<lambda>_. 0) 0)\<lparr>mmio_in := \<lambda>h a.
     if a = 0x60000000 + REG_MSMON_CFG_CSU_CTL
     then (case last_write h (0x60000000 + REG_MSMON_CFG_MON_SEL) of None \<Rightarrow> 0
           | Some m \<Rightarrow> banked_ctl 0x60000000 (\<lambda>_. 0x80000005) h m)
     else x\<rparr>"

lemma csu_node_base:
  "val_node_hwreg_base (csu_hw x) MPAM_NODE_CACHE 0 one_node_world =
     Some (0x60000000, log_io (SysRead ''arm64_read_mpidr'') one_node_world)"
  by (simp add: val_node_hwreg_base_def node_lookup_def one_node_world_def two_pe_world_def csu_hw_def
      my_index_def val_pe_get_mpid_def val_pe_get_index_mpid_def affx_def)

lemma csu_hw_banked: "banked_csu (csu_hw x) 0x60000000 (\<lambda>_. 0x80000005)"
  by (simp add: banked_csu_def csu_hw_def)

lemma csumon_restored_witness:
  "\<exists>t u. val_csumon_config_monitor (csu_hw 0) 0 3 1 2 one_node_world = Some t \<and>
     banked_ctl 0x60000000 (\<lambda>_. 0x80000005) (io t) 2 = csu_enabled 0x80000005 \<and>
     val_csumon_restore_ctlreg (csu_hw 0) 0 2 t = Some u \<and>
     banked_ctl 0x60000000 (\<lambda>_. 0x80000005) (io u) 2 = 0x80000005"
proof -
  have "aligned4 (0x60000000 :: u64)" by (simp add: aligned4_def)
  moreover have "io one_node_world = []" by (simp add: one_node_world_def two_pe_world_def)
  ultimately show ?thesis
    using csumon_restored [OF csu_node_base _ csu_hw_banked refl, where mon = 2 and partid = 3 and pmg = 1]
    by simp
qed

text \<open>The storage value of a monitor is what its register holds in the low 31 bits, and 0 while
  the register says it is not ready; so it is always below 2^31.\<close>

theorem csumon_value_bound:
  assumes "val_node_hwreg_base hw MPAM_NODE_CACHE i s = Some (base, s0)" "aligned4 base"
    and "\<And>h. mmio_in hw h (base + REG_MSMON_CSU) = x"
  shows "\<exists>v t. val_csumon_storage_value hw i mon s = Some (v, t) \<and> unat v < 2 ^ 31 \<and>
     v = (if bit x 31 then 0 else x)"
proof -
  have n: "field x CSU_NRDY_SHIFT CSU_NRDY_MASK \<noteq> 0 \<longleftrightarrow> bit x 31"
    by (simp add: field_def CSU_NRDY_SHIFT_def CSU_NRDY_MASK_def bit_iff_odd_drop_bit and_one_eq odd_iff_mod_2_eq_one)
  have mk: "CSU_VALUE_MASK = mask 31" by (simp add: CSU_VALUE_MASK_def mask_eq_exp_minus_1)
  have id: "x AND CSU_VALUE_MASK = x" if "\<not> bit x 31"
    unfolding mk using that by (intro bit_word_eqI) (auto simp: bit_simps less_Suc_eq numeral_eq_Suc)
  have lt: "unat (x AND CSU_VALUE_MASK) < 2 ^ 31" unfolding mk and_mask_eq_mod by simp
  show ?thesis
    using n id lt by (auto simp: val_csumon_storage_value_def assms(1) Let_def split_beta
        csu_aligned [OF assms(2)] assms(3))
qed

lemma csumon_value_bound_witness:
  "\<exists>v t. val_csumon_storage_value (csu_hw 0x4000) 0 2 one_node_world = Some (v, t) \<and>
     unat v < 2 ^ 31 \<and> v = 0x4000"
proof -
  have "aligned4 (0x60000000 :: u64)" by (simp add: aligned4_def)
  moreover have "\<And>h. mmio_in (csu_hw 0x4000) h (0x60000000 + REG_MSMON_CSU) = 0x4000"
    by (simp add: csu_hw_def reg_defs)
  ultimately show ?thesis
    using csumon_value_bound [OF csu_node_base, where mon = 2 and x = "0x4000"] by simp
qed

end
