(* ===== verification/Mpam_Madt.thy ===== *)
theory Mpam_Madt
  imports Mpam_Exec
begin

text \<open>
  Building the PE and GIC tables from the ACPI MADT (pal_pe.c, pal_gic.c, the top of
  val_pe_infra.c and val_gic.c), and the stacks of the secondary PEs. The MADT is the list of
  its interrupt controller structures with the length field of its header; the firmware
  supplies it, or none. A structure is read through the layout of the GIC CPU interface
  structure first, so an entry carries the fields of all three layouts the code overlays.
\<close>

subsection \<open>The MADT\<close>

definition EFI_ACPI_6_1_GIC :: u8 where [reg_defs]: "EFI_ACPI_6_1_GIC = 0xB"
definition EFI_ACPI_6_1_GICD :: u8 where [reg_defs]: "EFI_ACPI_6_1_GICD = 0xC"
definition EFI_ACPI_6_1_GIC_ITS :: u8 where [reg_defs]: "EFI_ACPI_6_1_GIC_ITS = 0xF"
definition SIZEOF_MADT_HEADER :: u32 where [reg_defs]: "SIZEOF_MADT_HEADER = 44"

record madt_entry =
  mtype :: u8
  mlen :: u8
  m_mpidr :: u64
  m_perf_gsiv :: u32
  m_cpuif_base :: u64
  m_gicr_base :: u64
  m_phys_base :: u64
  m_gic_version :: u8

record madt =
  madt_length :: u32
  madt_entries :: "madt_entry list"

text \<open>
  The do-while walk common to both builders: one step per structure, until the lengths add up
  to the length of the table. A structure of length 0 is visited for ever, and a table whose
  length reaches beyond its structures is read beyond its end; both are \<open>None\<close>.
\<close>

fun madt_walk :: "('e \<Rightarrow> u8) \<Rightarrow> ('e \<Rightarrow> 's \<Rightarrow> 's) \<Rightarrow> u32 \<Rightarrow> u32 \<Rightarrow> 'e list \<Rightarrow> 's \<Rightarrow> 's option" where
  "madt_walk len f tlen l [] s = None"
| "madt_walk len f tlen l (e # es) s =
     (let s = f e s; l = l + ucast (len e)
      in if l < tlen then (if len e = 0 then None else madt_walk len f tlen l es s) else Some s)"

subsection \<open>Affinity maxima and stacks\<close>

definition SIZE_STACK_SECONDARY_PE :: u32 where [reg_defs]: "SIZE_STACK_SECONDARY_PE = 0x200"

definition UPDATE_AFF_MAX :: "u64 \<Rightarrow> u64 \<Rightarrow> u64 \<Rightarrow> u64" where
  "UPDATE_AFF_MAX src dest m =
     (if (dest AND m) > (src AND m) then dest AND m else src AND m)"

definition aff0 :: "u64 \<Rightarrow> u32" where "aff0 m = ucast (m AND 0xff)"
definition aff1 :: "u64 \<Rightarrow> u32" where "aff1 m = ucast (drop_bit 8 (m AND 0xff00))"
definition aff2 :: "u64 \<Rightarrow> u32" where "aff2 m = ucast (drop_bit 16 (m AND 0xff0000))"
definition aff3 :: "u64 \<Rightarrow> u32" where "aff3 m = ucast (drop_bit 32 (m AND 0xff00000000))"

definition num_pe_of :: "u64 \<Rightarrow> u32" where
  "num_pe_of m = (aff3 m + 1) * (aff2 m + 1) * (aff1 m + 1) * (aff0 m + 1)"

definition PalAllocateSecondaryStack :: "hw \<Rightarrow> u64 \<Rightarrow> world \<Rightarrow> world" where
  "PalAllocateSecondaryStack hw m s =
     (if gSecondaryPeStack (gl s) = None
      then (let ((st, a), s) = firmware hw ''AllocatePool'' [ucast (num_pe_of m * SIZE_STACK_SECONDARY_PE)] s;
                s = (if EFI_ERROR st
                     then acs_print ACS_PRINT_ERR ''FATAL - Allocation for Seconday stack failed %x'' [st] s
                     else s\<lparr>gl := (gl s)\<lparr>gSecondaryPeStack := Some a\<rparr>\<rparr>)
            in pal_pe_data_cache_ops_by_va (LVar ''gSecondaryPeStack'') CLEAN_AND_INVALIDATE s)
      else s)"

text \<open>The stack slot of a PE as the entry code (module_entrypoint.S) computes it.\<close>

definition core_pos :: "u64 \<Rightarrow> u64 \<Rightarrow> nat" where
  "core_pos mx m =
     unat (aff0 m) + unat (aff1 m) * (unat (aff0 mx) + 1) +
     unat (aff2 m) * ((unat (aff0 mx) + 1) * (unat (aff1 mx) + 1)) +
     unat (aff3 m) * ((unat (aff0 mx) + 1) * (unat (aff1 mx) + 1) * (unat (aff2 mx) + 1))"

subsection \<open>The PE table\<close>

record pe_build =
  b_entries :: "pe_info_entry list"
  b_num :: u32
  b_aff0 :: u64
  b_aff1 :: u64
  b_aff2 :: u64
  b_aff3 :: u64

text \<open>One structure: a GIC CPU interface becomes the next entry. The attribute of an entry is
  not written by the builder; \<open>junk\<close> is what the allocated memory held.\<close>

definition pe_step :: "u32 \<Rightarrow> madt_entry \<Rightarrow> pe_build \<times> world \<Rightarrow> pe_build \<times> world" where
  "pe_step junk e bs =
     (let (b, s) = bs
      in if mtype e = EFI_ACPI_6_1_GIC
         then (let p = \<lparr>pe_num = b_num b, attr = junk, mpidr = m_mpidr e, pmu_gsiv = m_perf_gsiv e\<rparr>;
                   s = acs_print ACS_PRINT_DEBUG ''MPIDR %x PE num %x'' [m_mpidr e, ucast (b_num b)] s;
                   s = pal_pe_data_cache_ops_by_va (LShared (unat (b_num b)) ''pe_info'') CLEAN_AND_INVALIDATE s
               in (\<lparr>b_entries = b_entries b @ [p], b_num = b_num b + 1,
                    b_aff0 = UPDATE_AFF_MAX (b_aff0 b) (m_mpidr e) 0x000000ff,
                    b_aff1 = UPDATE_AFF_MAX (b_aff1 b) (m_mpidr e) 0x0000ff00,
                    b_aff2 = UPDATE_AFF_MAX (b_aff2 b) (m_mpidr e) 0x00ff0000,
                    b_aff3 = UPDATE_AFF_MAX (b_aff3 b) (m_mpidr e) 0xff00000000\<rparr>, s))
         else (b, s))"

text \<open>Without a MADT the table keeps what was in it.\<close>

definition pal_pe_create_info_table :: "hw \<Rightarrow> madt option \<Rightarrow> u32 \<Rightarrow> world \<Rightarrow> world option" where
  "pal_pe_create_info_table hw m junk s =
     (case m of
        None \<Rightarrow> Some (acs_print ACS_PRINT_ERR ''MADT not found'' [] s)
      | Some m \<Rightarrow> do {
          let s = acs_print ACS_PRINT_INFO ''MADT is at %x and length is %x'' [0, ucast (madt_length m)] s;
          (b, s) \<leftarrow> madt_walk mlen (pe_step junk) (madt_length m) SIZEOF_MADT_HEADER (madt_entries m)
                      (\<lparr>b_entries = [], b_num = 0, b_aff0 = 0, b_aff1 = 0, b_aff2 = 0, b_aff3 = 0\<rparr>, s);
          let mx = b_aff0 b OR b_aff1 b OR b_aff2 b OR b_aff3 b;
          let s = s\<lparr>gl := (gl s)\<lparr>g_pe_info_table := Some \<lparr>num_of_pe = b_num b, pe_info = b_entries b\<rparr>,
                                  gMpidrMax := mx\<rparr>\<rparr>;
          let s = pal_pe_data_cache_ops_by_va (LVar ''PeTable'') CLEAN_AND_INVALIDATE s;
          let s = pal_pe_data_cache_ops_by_va (LVar ''gMpidrMax'') CLEAN_AND_INVALIDATE s;
          Some (PalAllocateSecondaryStack hw mx s) })"

text \<open>The caller passes a freshly allocated table: its old content is \<open>old\<close>.\<close>

definition val_pe_create_info_table ::
    "hw \<Rightarrow> madt option \<Rightarrow> u32 \<Rightarrow> pe_info_table option \<Rightarrow> world \<Rightarrow> (u32 \<times> world) option" where
  "val_pe_create_info_table hw m junk old s =
     (case old of
        None \<Rightarrow> Some (ACS_STATUS_ERR,
                  val_print ACS_PRINT_ERR ''Input memory for PE Info table cannot be NULL'' 0 s)
      | Some t \<Rightarrow> do {
          let s = s\<lparr>gl := (gl s)\<lparr>g_pe_info_table := Some t\<rparr>\<rparr>;
          s \<leftarrow> pal_pe_create_info_table hw m junk s;
          let s = val_data_cache_ops_by_va (LVar ''g_pe_info_table'') CLEAN_AND_INVALIDATE s;
          let s = val_print ACS_PRINT_TEST ''PE_INFO: Number of PE detected       : %4d''
                    (ucast (val_pe_get_num s)) s;
          if val_pe_get_num s = 0
          then Some (ACS_STATUS_ERR, val_print ACS_PRINT_ERR ''CRITICAL ERROR: Num PE is 0x0'' 0 s)
          else Some (ACS_STATUS_PASS, s) })"

subsection \<open>The GIC table\<close>

definition gic_add :: "u32 \<Rightarrow> u64 \<Rightarrow> gic_info_table \<Rightarrow> gic_info_table" where
  "gic_add ty b t = t\<lparr>gic_info := gic_info t @ [\<lparr>gtype = ty, gbase = b\<rparr>]\<rparr>"

definition gic_step :: "madt_entry \<Rightarrow> gic_info_table \<times> world \<Rightarrow> gic_info_table \<times> world" where
  "gic_step e ts =
     (let (t, s) = ts;
          (t, s) = (if mtype e = EFI_ACPI_6_1_GIC \<and> m_cpuif_base e \<noteq> 0
                    then (gic_add ENTRY_TYPE_CPUIF (m_cpuif_base e) t,
                          acs_print ACS_PRINT_INFO ''GIC CPUIF base %x'' [m_cpuif_base e] s)
                    else (t, s));
          (t, s) = (if mtype e = EFI_ACPI_6_1_GIC \<and> m_gicr_base e \<noteq> 0
                    then ((gic_add ENTRY_TYPE_GICRD (m_gicr_base e) t)\<lparr>num_gicrd := num_gicrd t + 1\<rparr>,
                          acs_print ACS_PRINT_INFO ''GIC RD base %x'' [m_gicr_base e] s)
                    else (t, s));
          (t, s) = (if mtype e = EFI_ACPI_6_1_GICD
                    then ((gic_add ENTRY_TYPE_GICD (m_phys_base e) t)
                            \<lparr>gic_version := ucast (m_gic_version e), num_gicd := num_gicd t + 1\<rparr>, s)
                    else (t, s))
      in if mtype e = EFI_ACPI_6_1_GIC_ITS
         then ((gic_add ENTRY_TYPE_GICITS (m_phys_base e) t)\<lparr>num_its := num_its t + 1\<rparr>,
               acs_print ACS_PRINT_INFO ''GIC ITS base %x'' [m_phys_base e] s)
         else (t, s))"

text \<open>The table ends with an entry of type 0xFF, whose base is not written.\<close>

definition pal_gic_create_info_table ::
    "madt option \<Rightarrow> u64 \<Rightarrow> gic_info_table \<Rightarrow> world \<Rightarrow> (gic_info_table \<times> world) option" where
  "pal_gic_create_info_table m junk old s =
     (let t = old\<lparr>gic_version := 0, num_gicrd := 0, num_gicd := 0, num_its := 0\<rparr>
      in case m of
           None \<Rightarrow> Some (t, acs_print ACS_PRINT_ERR ''MADT not found'' [] s)
         | Some m \<Rightarrow> do {
             let s = acs_print ACS_PRINT_INFO ''MADT is at %x and length is %x'' [0, ucast (madt_length m)] s;
             (t, s) \<leftarrow> madt_walk mlen gic_step (madt_length m) SIZEOF_MADT_HEADER (madt_entries m)
                         (t\<lparr>gic_info := []\<rparr>, s);
             Some (gic_add 0xFF junk t, s) })"

definition val_gic_create_info_table ::
    "madt option \<Rightarrow> u64 \<Rightarrow> gic_info_table option \<Rightarrow> world \<Rightarrow> (u32 \<times> world) option" where
  "val_gic_create_info_table m junk old s =
     (case old of
        None \<Rightarrow> Some (ACS_STATUS_ERR,
                  val_print ACS_PRINT_ERR ''Input for Create Info table cannot be NULL'' 0 s)
      | Some t \<Rightarrow> do {
          (t, s) \<leftarrow> pal_gic_create_info_table m junk t s;
          let s = s\<lparr>gl := (gl s)\<lparr>g_gic_info_table := Some t\<rparr>\<rparr>;
          let s = val_print ACS_PRINT_TEST ''GIC_INFO: Number of GICD             : %4d'' (ucast (num_gicd t)) s;
          let s = val_print ACS_PRINT_TEST ''GIC_INFO: Number of ITS              : %4d'' (ucast (num_its t)) s;
          if num_gicd t = 0
          then Some (ACS_STATUS_ERR, val_print ACS_PRINT_ERR ''CRITICAL ERROR: GIC Distributor count is 0'' 0 s)
          else Some (ACS_STATUS_PASS, s) })"

subsection \<open>Finding the tables\<close>

text \<open>The configuration table of the firmware and the XSDT: each pointer is given with the
  signature found at its address. The first entry with the MADT signature wins.\<close>

definition MADT_SIGNATURE :: u32 where [reg_defs]: "MADT_SIGNATURE = 0x43495041"

definition pal_get_madt_ptr :: "(u32 \<times> u64) list option \<Rightarrow> u64" where
  "pal_get_madt_ptr xsdt =
     (case xsdt of None \<Rightarrow> 0
      | Some es \<Rightarrow> (case find (\<lambda>(sg, _). sg = MADT_SIGNATURE) es of None \<Rightarrow> 0 | Some (_, a) \<Rightarrow> a))"

text \<open>\<open>tables\<close> lists the vendor tables: whether the GUID is one of the two ACPI ones, and the
  XSDT address the root pointer holds.\<close>

definition pal_get_xsdt_ptr :: "(bool \<times> u64) list \<Rightarrow> u64" where
  "pal_get_xsdt_ptr tables = (case find fst tables of None \<Rightarrow> 0 | Some (_, x) \<Rightarrow> x)"

subsection \<open>The walk as a fold\<close>

text \<open>The structures a walk visits, when it returns.\<close>

fun madt_visited :: "('e \<Rightarrow> u8) \<Rightarrow> u32 \<Rightarrow> u32 \<Rightarrow> 'e list \<Rightarrow> 'e list option" where
  "madt_visited len tlen l [] = None"
| "madt_visited len tlen l (e # es) =
     (let l = l + ucast (len e)
      in if l < tlen then (if len e = 0 then None else map_option ((#) e) (madt_visited len tlen l es))
         else Some [e])"

lemma madt_walk_fold:
  "madt_walk len f tlen l es s = map_option (\<lambda>vs. fold f vs s) (madt_visited len tlen l es)"
  by (induction es arbitrary: l s) (auto simp: Let_def option.map_comp comp_def)

definition gics :: "madt_entry list \<Rightarrow> madt_entry list" where
  "gics vs = List.filter (\<lambda>e. mtype e = EFI_ACPI_6_1_GIC) vs"

definition pe_of :: "u32 \<Rightarrow> nat \<Rightarrow> madt_entry \<Rightarrow> pe_info_entry" where
  "pe_of junk k e = \<lparr>pe_num = of_nat k, attr = junk, mpidr = m_mpidr e, pmu_gsiv = m_perf_gsiv e\<rparr>"

fun number_pes :: "u32 \<Rightarrow> nat \<Rightarrow> madt_entry list \<Rightarrow> pe_info_entry list" where
  "number_pes junk k [] = []"
| "number_pes junk k (e # es) = pe_of junk k e # number_pes junk (Suc k) es"

lemma length_number_pes [simp]: "length (number_pes junk k es) = length es"
  by (induction es arbitrary: k) simp_all

lemma nth_number_pes: "i < length es \<Longrightarrow> number_pes junk k es ! i = pe_of junk (k + i) (es ! i)"
  by (induction es arbitrary: k i) (auto simp: nth_Cons split: nat.splits)

definition aff_max :: "u64 \<Rightarrow> u64 \<Rightarrow> madt_entry list \<Rightarrow> u64" where
  "aff_max m x vs = fold (\<lambda>e x. UPDATE_AFF_MAX x (m_mpidr e) m) (gics vs) x"

lemma pe_step_fold:
  "fold (pe_step junk) vs (b, s) = (b', s') \<Longrightarrow>
     b_num b = of_nat (length (b_entries b)) \<Longrightarrow>
     b_entries b' = b_entries b @ number_pes junk (length (b_entries b)) (gics vs) \<and>
     b_num b' = of_nat (length (b_entries b')) \<and>
     b_aff0 b' = aff_max 0xff (b_aff0 b) vs \<and> b_aff1 b' = aff_max 0xff00 (b_aff1 b) vs \<and>
     b_aff2 b' = aff_max 0xff0000 (b_aff2 b) vs \<and> b_aff3 b' = aff_max 0xff00000000 (b_aff3 b) vs \<and>
     gl s' = gl s \<and> shared s' = shared s"
proof (induction vs arbitrary: b s)
  case Nil
  then show ?case by (simp add: gics_def aff_max_def)
next
  case (Cons e vs)
  obtain b1 s1 where st: "pe_step junk e (b, s) = (b1, s1)" by fastforce
  with Cons.prems(1) have f: "fold (pe_step junk) vs (b1, s1) = (b', s')" by simp
  show ?case
  proof (cases "mtype e = EFI_ACPI_6_1_GIC")
    case True
    with st Cons.prems(2) have b1: "b_entries b1 = b_entries b @ [pe_of junk (length (b_entries b)) e]"
        "b_num b1 = of_nat (length (b_entries b1))" "gl s1 = gl s" "shared s1 = shared s"
        "b_aff0 b1 = UPDATE_AFF_MAX (b_aff0 b) (m_mpidr e) 0xff"
        "b_aff1 b1 = UPDATE_AFF_MAX (b_aff1 b) (m_mpidr e) 0xff00"
        "b_aff2 b1 = UPDATE_AFF_MAX (b_aff2 b) (m_mpidr e) 0xff0000"
        "b_aff3 b1 = UPDATE_AFF_MAX (b_aff3 b) (m_mpidr e) 0xff00000000"
      by (auto simp: pe_step_def Let_def pe_of_def pal_pe_data_cache_ops_by_va_def)
    have g: "gics (e # vs) = e # gics vs" using True by (simp add: gics_def)
    show ?thesis
      using Cons.IH [OF f b1(2)] b1
      by (simp add: g aff_max_def)
  next
    case False
    with st have "b1 = b" "s1 = s" by (auto simp: pe_step_def Let_def)
    moreover have "gics (e # vs) = gics vs" using False by (simp add: gics_def)
    ultimately show ?thesis using Cons.IH f Cons.prems(2) by (simp add: aff_max_def)
  qed
qed


subsection \<open>The PE table is well formed\<close>

lemma stack_frame [simp]:
  "g_pe_info_table (gl (PalAllocateSecondaryStack hw m s)) = g_pe_info_table (gl s)"
  "gMpidrMax (gl (PalAllocateSecondaryStack hw m s)) = gMpidrMax (gl s)"
  by (simp_all add: PalAllocateSecondaryStack_def pal_pe_data_cache_ops_by_va_def Let_def split_beta)

lemma pe_cache_frame [simp]: "gl (pal_pe_data_cache_ops_by_va l ty s) = gl s"
  by (simp add: pal_pe_data_cache_ops_by_va_def)

lemma pe_table_built:
  assumes "madt_visited mlen (madt_length m) SIZEOF_MADT_HEADER (madt_entries m) = Some vs"
  shows "\<exists>t. pal_pe_create_info_table hw (Some m) junk s = Some t \<and>
     g_pe_info_table (gl t) = Some \<lparr>num_of_pe = of_nat (length (gics vs)), pe_info = number_pes junk 0 (gics vs)\<rparr> \<and>
     gMpidrMax (gl t) = aff_max 0xff 0 vs OR aff_max 0xff00 0 vs OR aff_max 0xff0000 0 vs OR
                        aff_max 0xff00000000 0 vs"
proof -
  let ?s = "acs_print ACS_PRINT_INFO ''MADT is at %x and length is %x'' [0, ucast (madt_length m)] s"
  let ?b = "\<lparr>b_entries = [], b_num = 0, b_aff0 = 0, b_aff1 = 0, b_aff2 = 0, b_aff3 = 0\<rparr>"
  obtain b s' where bs: "fold (pe_step junk) vs (?b, ?s) = (b, s')" by fastforce
  have w: "madt_walk mlen (pe_step junk) (madt_length m) SIZEOF_MADT_HEADER (madt_entries m) (?b, ?s)
      = Some (b, s')"
    by (simp add: madt_walk_fold assms bs)
  show ?thesis
    using pe_step_fold [OF bs] w by (simp add: pal_pe_create_info_table_def Let_def)
qed

lemma number_pes_wf:
  assumes "distinct (map m_mpidr vs)" "length vs < 2 ^ 32"
  shows "wf_pe_table \<lparr>num_of_pe = of_nat (length vs), pe_info = number_pes junk 0 vs\<rparr>"
proof -
  have "unat (of_nat (length vs) :: u32) = length vs" using assms(2) by (simp add: unat_of_nat)
  moreover have "map mpidr (number_pes junk 0 vs) = map m_mpidr vs"
    by (rule nth_equalityI) (simp_all add: nth_number_pes pe_of_def)
  ultimately show ?thesis using assms(1) by (simp add: wf_pe_table_def nth_number_pes pe_of_def)
qed


definition small_madt :: madt where
  "small_madt = \<lparr>madt_length = 148, madt_entries =
     [\<lparr>mtype = 0xB, mlen = 80, m_mpidr = 0x100, m_perf_gsiv = 23, m_cpuif_base = 0, m_gicr_base = 0x2F100000,
       m_phys_base = 0, m_gic_version = 0\<rparr>,
      \<lparr>mtype = 0xC, mlen = 24, m_mpidr = 0, m_perf_gsiv = 0, m_cpuif_base = 0, m_gicr_base = 0,
       m_phys_base = 0x2F000000, m_gic_version = 3\<rparr>]\<rparr>"

lemma small_madt_visited:
  "madt_visited mlen (madt_length small_madt) SIZEOF_MADT_HEADER (madt_entries small_madt) =
     Some (madt_entries small_madt)"
  by (simp add: small_madt_def SIZEOF_MADT_HEADER_def)



subsection \<open>Stacks of the secondary PEs\<close>

lemma update_aff_max: "(src AND m = src) \<Longrightarrow>
    UPDATE_AFF_MAX src d m AND m = UPDATE_AFF_MAX src d m \<and>
    src \<le> UPDATE_AFF_MAX src d m \<and> d AND m \<le> UPDATE_AFF_MAX src d m"
  by (auto simp: UPDATE_AFF_MAX_def and.assoc not_less)

lemma aff_max_bounds:
  assumes "x AND m = x"
  shows "aff_max m x vs AND m = aff_max m x vs" "x \<le> aff_max m x vs"
    "e \<in> set (gics vs) \<Longrightarrow> m_mpidr e AND m \<le> aff_max m x vs"
proof -
  have "fold (\<lambda>e x. UPDATE_AFF_MAX x (m_mpidr e) m) es x AND m = fold (\<lambda>e x. UPDATE_AFF_MAX x (m_mpidr e) m) es x \<and>
      x \<le> fold (\<lambda>e x. UPDATE_AFF_MAX x (m_mpidr e) m) es x \<and>
      (\<forall>e\<in>set es. m_mpidr e AND m \<le> fold (\<lambda>e x. UPDATE_AFF_MAX x (m_mpidr e) m) es x)"
    if "x AND m = x" for es
    using that
  proof (induction es arbitrary: x)
    case Nil
    then show ?case by simp
  next
    case (Cons e es)
    from Cons.IH [of "UPDATE_AFF_MAX x (m_mpidr e) m"] update_aff_max [OF Cons.prems, of "m_mpidr e"]
    show ?case by (auto intro: order_trans)
  qed
  from this [OF assms, of "gics vs"]
  show "aff_max m x vs AND m = aff_max m x vs" "x \<le> aff_max m x vs"
    "e \<in> set (gics vs) \<Longrightarrow> m_mpidr e AND m \<le> aff_max m x vs"
    by (simp_all add: aff_max_def)
qed

text \<open>The stack of the PE whose identifier is \<open>m\<close> starts this many bytes above the block.\<close>

definition stack_offset :: "u64 \<Rightarrow> u64 \<Rightarrow> nat" where
  "stack_offset mx m = core_pos mx m * unat SIZE_STACK_SECONDARY_PE"

definition aff_le :: "u64 \<Rightarrow> u64 \<Rightarrow> bool" where
  "aff_le m mx \<longleftrightarrow> aff0 m \<le> aff0 mx \<and> aff1 m \<le> aff1 mx \<and> aff2 m \<le> aff2 mx \<and> aff3 m \<le> aff3 mx"

definition slots :: "u64 \<Rightarrow> nat" where
  "slots mx = (unat (aff3 mx) + 1) * (unat (aff2 mx) + 1) * (unat (aff1 mx) + 1) * (unat (aff0 mx) + 1)"

lemma mixed_radix_less:
  fixes a b A B :: nat
  assumes "a < A" "b < B"
  shows "a + b * A < B * A"
proof -
  have "a + b * A < A + b * A" using assms(1) by simp
  also have "\<dots> = Suc b * A" by simp
  also have "\<dots> \<le> B * A" using assms(2) by (intro mult_right_mono) auto
  finally show ?thesis .
qed

lemma core_pos_less:
  assumes "aff_le m mx"
  shows "core_pos mx m < slots mx"
proof -
  let ?A = "unat (aff0 mx) + 1" and ?B = "unat (aff1 mx) + 1" and ?C = "unat (aff2 mx) + 1"
    and ?D = "unat (aff3 mx) + 1"
  have l: "unat (aff0 m) < ?A" "unat (aff1 m) < ?B" "unat (aff2 m) < ?C" "unat (aff3 m) < ?D"
    using assms by (auto simp: aff_le_def word_le_nat_alt less_Suc_eq_le)
  have "unat (aff0 m) + unat (aff1 m) * ?A < ?B * ?A" using l(1,2) by (rule mixed_radix_less)
  then have "unat (aff0 m) + unat (aff1 m) * ?A + unat (aff2 m) * (?B * ?A) < ?C * (?B * ?A)"
    using l(3) by (rule mixed_radix_less)
  then have "unat (aff0 m) + unat (aff1 m) * ?A + unat (aff2 m) * (?B * ?A) + unat (aff3 m) * (?C * (?B * ?A))
      < ?D * (?C * (?B * ?A))"
    using l(4) by (rule mixed_radix_less)
  then show ?thesis by (simp add: core_pos_def slots_def algebra_simps)
qed

lemma unat_num_pe_of:
  assumes "slots mx < 2 ^ 32"
  shows "unat (num_pe_of mx) = slots mx"
proof -
  have "num_pe_of mx = of_nat (slots mx)" by (simp add: num_pe_of_def slots_def algebra_simps)
  then show ?thesis using assms by (simp add: unat_of_nat)
qed


lemma field_mask_le: "unat (m AND k) \<le> unat (k :: u64)"
  by (rule word_and_le1 [THEN word_le_nat_alt [THEN iffD1]])

lemma unat_aff:
  "unat (aff0 m) = unat (m AND 0xff)" "unat (aff1 m) = unat (m AND 0xff00) div 2 ^ 8"
  "unat (aff2 m) = unat (m AND 0xff0000) div 2 ^ 16" "unat (aff3 m) = unat (m AND 0xff00000000) div 2 ^ 32"
proof -
  have d: "unat (drop_bit k (m AND j)) = unat (m AND j) div 2 ^ k" for k j
    by (rule trans [OF unat_drop_bit_eq drop_bit_eq_div])
  have u: "unat (ucast (drop_bit k (m AND j)) :: u32) = unat (m AND j) div 2 ^ k"
    if "unat (m AND j) div 2 ^ k < 2 ^ 32" for k j
    by (rule trans [OF unat_ucast_small d]) (simp only: d, use that in simp)
  have b: "unat (m AND 0xff) \<le> 255" "unat (m AND 0xff00) \<le> 0xff00" "unat (m AND 0xff0000) \<le> 0xff0000"
    "unat (m AND 0xff00000000) \<le> 0xff00000000"
    using field_mask_le [of m "0xff"] field_mask_le [of m "0xff00"] field_mask_le [of m "0xff0000"]
      field_mask_le [of m "0xff00000000"] by simp_all
  show "unat (aff0 m) = unat (m AND 0xff)" using b(1) by (simp add: aff0_def unat_ucast_small)
  show "unat (aff1 m) = unat (m AND 0xff00) div 2 ^ 8" unfolding aff1_def by (rule u, rule le_less_trans [OF div_le_mono [OF b(2)]]) simp
  show "unat (aff2 m) = unat (m AND 0xff0000) div 2 ^ 16" unfolding aff2_def by (rule u, rule le_less_trans [OF div_le_mono [OF b(3)]]) simp
  show "unat (aff3 m) = unat (m AND 0xff00000000) div 2 ^ 32" unfolding aff3_def by (rule u, rule le_less_trans [OF div_le_mono [OF b(4)]]) simp
qed

lemma aff_of_or:
  assumes "a AND 0xff = a" "b AND 0xff00 = b" "c AND 0xff0000 = c" "d AND 0xff00000000 = (d :: u64)"
  shows "(a OR b OR c OR d) AND 0xff = a" "(a OR b OR c OR d) AND 0xff00 = b"
    "(a OR b OR c OR d) AND 0xff0000 = c" "(a OR b OR c OR d) AND 0xff00000000 = d"
proof -
  have z: "(x AND m) AND n = 0" if "m AND n = 0" for x m n :: u64
    using that by (simp add: and.assoc)
  have d: "a AND 0xff00 = 0" "a AND 0xff0000 = 0" "a AND 0xff00000000 = 0"
    "b AND 0xff = 0" "b AND 0xff0000 = 0" "b AND 0xff00000000 = 0"
    "c AND 0xff = 0" "c AND 0xff00 = 0" "c AND 0xff00000000 = 0"
    "d AND 0xff = 0" "d AND 0xff00 = 0" "d AND 0xff0000 = 0"
    using z [of "0xff" _ a] z [of "0xff00" _ b] z [of "0xff0000" _ c] z [of "0xff00000000" _ d]
    unfolding assms by simp_all
  show "(a OR b OR c OR d) AND 0xff = a" "(a OR b OR c OR d) AND 0xff00 = b"
    "(a OR b OR c OR d) AND 0xff0000 = c" "(a OR b OR c OR d) AND 0xff00000000 = d"
    by (simp_all add: bit.conj_disj_distrib2 d assms)
qed

text \<open>Every PE of the MADT has a place in the stack block: with gMpidrMax as the builder
  leaves it, the slot the entry code computes lies inside the block PalAllocateSecondaryStack
  asks for.\<close>

theorem stack_slots:
  assumes "madt_visited mlen (madt_length m) SIZEOF_MADT_HEADER (madt_entries m) = Some vs"
    and "pal_pe_create_info_table hw (Some m) junk s = Some t"
    and "e \<in> set (gics vs)" "slots (gMpidrMax (gl t)) * 0x200 < 2 ^ 32"
  shows "stack_offset (gMpidrMax (gl t)) (m_mpidr e)
           < unat (num_pe_of (gMpidrMax (gl t)) * SIZE_STACK_SECONDARY_PE)"
proof -
  let ?mx = "gMpidrMax (gl t)"
  have mx: "?mx = aff_max 0xff 0 vs OR aff_max 0xff00 0 vs OR aff_max 0xff0000 0 vs OR
                        aff_max 0xff00000000 0 vs"
    using pe_table_built [OF assms(1), of hw junk s] assms(2) by auto
  have a: "?mx AND 0xff = aff_max 0xff 0 vs" "?mx AND 0xff00 = aff_max 0xff00 0 vs"
    "?mx AND 0xff0000 = aff_max 0xff0000 0 vs" "?mx AND 0xff00000000 = aff_max 0xff00000000 0 vs"
    unfolding mx by (intro aff_of_or aff_max_bounds(1); simp)+
  have "m_mpidr e AND 0xff \<le> ?mx AND 0xff" "m_mpidr e AND 0xff00 \<le> ?mx AND 0xff00"
    "m_mpidr e AND 0xff0000 \<le> ?mx AND 0xff0000" "m_mpidr e AND 0xff00000000 \<le> ?mx AND 0xff00000000"
    unfolding a by (intro aff_max_bounds(3) assms(3); simp)+
  then have "aff_le (m_mpidr e) ?mx"
    by (simp add: aff_le_def word_le_nat_alt unat_aff div_le_mono)
  then have "core_pos ?mx (m_mpidr e) < slots ?mx" by (rule core_pos_less)
  moreover have "unat (num_pe_of ?mx) = slots ?mx" using assms(4) by (intro unat_num_pe_of) simp
  then have "unat (num_pe_of ?mx * SIZE_STACK_SECONDARY_PE) = slots ?mx * 0x200"
    using assms(4) by (simp add: unat_word_ariths SIZE_STACK_SECONDARY_PE_def)
  ultimately show ?thesis by (simp add: stack_offset_def SIZE_STACK_SECONDARY_PE_def)
qed

lemma stack_slots_witness:
  "\<exists>t. pal_pe_create_info_table (ram_hw (\<lambda>_. 0) 0) (Some small_madt) 0 two_pe_world = Some t \<and>
     stack_offset (gMpidrMax (gl t)) 0x100 < unat (num_pe_of (gMpidrMax (gl t)) * SIZE_STACK_SECONDARY_PE)"
proof -
  have g: "gics (madt_entries small_madt) = [hd (madt_entries small_madt)]"
    by (simp add: gics_def small_madt_def reg_defs)
  have mp: "m_mpidr (hd (madt_entries small_madt)) = 0x100" by (simp add: small_madt_def)
  from pe_table_built [OF small_madt_visited, of "ram_hw (\<lambda>_. 0) 0" 0 two_pe_world] obtain t where
    t: "pal_pe_create_info_table (ram_hw (\<lambda>_. 0) 0) (Some small_madt) 0 two_pe_world = Some t"
    "gMpidrMax (gl t) = 0x100" by (auto simp: aff_max_def g mp UPDATE_AFF_MAX_def)
  have "slots (gMpidrMax (gl t)) * 0x200 < 2 ^ 32"
    by (simp add: t(2) slots_def unat_aff)
  from stack_slots [OF small_madt_visited t(1) _ this, of "hd (madt_entries small_madt)"] t(1)
  show ?thesis by (simp add: g mp)
qed

end
