(* ===== verification/Mpam_Gic.thy ===== *)
theory Mpam_Gic
  imports Mpam_Madt
begin

text \<open>
  The interrupt controller (val_gic.c, val_gic_support.c, pal_gic.c): finding the distributor
  in the GIC table, installing and routing interrupts, and the system registers of the CPU
  interface. Scanning the table stops at the entry of type 0xFF; a table without one is read
  past its end.
\<close>

fun find_gic :: "u32 \<Rightarrow> gic_info_entry list \<Rightarrow> u64 option" where
  "find_gic ty [] = None"
| "find_gic ty (e # es) =
     (if gtype e = 0xFF then Some 0 else if gtype e = ty then Some (gbase e) else find_gic ty es)"

definition val_get_gicd_base :: "world \<Rightarrow> (u64 \<times> world) option" where
  "val_get_gicd_base s =
     (case g_gic_info_table (gl s) of
        None \<Rightarrow> Some (0, val_print ACS_PRINT_ERR ''GIC INFO table not available'' 0 s)
      | Some t \<Rightarrow> do { b \<leftarrow> find_gic ENTRY_TYPE_GICD (gic_info t); Some (b, s) })"

definition gicd_read :: "hw \<Rightarrow> u64 \<Rightarrow> world \<Rightarrow> (u32 \<times> world) option" where
  "gicd_read hw off s = do { (b, s) \<leftarrow> val_get_gicd_base s; Some (val_mmio_read hw (b + off) s) }"

definition gicd_write :: "u64 \<Rightarrow> u32 \<Rightarrow> world \<Rightarrow> world option" where
  "gicd_write off v s = do { (b, s) \<leftarrow> val_get_gicd_base s; Some (val_mmio_write (b + off) v s) }"

definition GIC_INFO_VERSION :: u32 where [reg_defs]: "GIC_INFO_VERSION = 1"
definition GIC_INFO_SEC_STATES :: u32 where [reg_defs]: "GIC_INFO_SEC_STATES = 2"
definition GIC_INFO_NUM_ITS :: u32 where [reg_defs]: "GIC_INFO_NUM_ITS = 7"

definition val_gic_get_info :: "hw \<Rightarrow> u32 \<Rightarrow> world \<Rightarrow> (u32 \<times> world) option" where
  "val_gic_get_info hw type s =
     (case g_gic_info_table (gl s) of
        None \<Rightarrow> Some (0, val_print ACS_PRINT_ERR ''Get GIC info called before gic info table is filled'' 0 s)
      | Some t \<Rightarrow>
          if type = GIC_INFO_VERSION
          then (if gic_version t \<noteq> 0
                then Some (gic_version t, val_print ACS_PRINT_INFO
                       ''gic version from ACPI table = %d'' (ucast (gic_version t)) s)
                else do { (v, s) \<leftarrow> gicd_read hw 0xFE8 s; Some (drop_bit 4 v AND 0xF, s) })
          else if type = GIC_INFO_SEC_STATES
          then do { (v, s) \<leftarrow> gicd_read hw 0 s; Some (drop_bit 6 v AND 0x1, s) }
          else if type = GIC_INFO_NUM_ITS then Some (num_its t, s)
          else Some (ACS_STATUS_ERR,
                     val_print ACS_PRINT_ERR ''GIC Info - TYPE not recognized %d'' (ucast type) s))"

definition val_get_max_intid :: "hw \<Rightarrow> world \<Rightarrow> (u32 \<times> world) option" where
  "val_get_max_intid hw s =
     do { (v, s) \<leftarrow> gicd_read hw 0x004 s; Some (32 * ((v AND 0x1F) + 1) - 1, s) }"

text \<open>The handler is registered with the UEFI protocol; a second attempt follows a failure.\<close>

definition pal_gic_install_isr :: "hw \<Rightarrow> u32 \<Rightarrow> world \<Rightarrow> u32 \<times> world" where
  "pal_gic_install_isr hw int_id s =
     (let ((st, _), s) = firmware hw ''LocateProtocol'' [] s
      in if EFI_ERROR st then (0xFFFFFFFF, s)
         else (let s = snd (firmware hw ''DisableInterruptSource'' [ucast int_id] s);
                   ((st, _), s) = firmware hw ''RegisterInterruptSource'' [ucast int_id, 1] s;
                   s = (if EFI_ERROR st
                        then snd (firmware hw ''RegisterInterruptSource'' [ucast int_id, 1]
                               (snd (firmware hw ''RegisterInterruptSource'' [ucast int_id, 0] s)))
                        else s)
               in (0, s)))"

definition val_gic_install_isr :: "hw \<Rightarrow> u32 \<Rightarrow> world \<Rightarrow> (u32 \<times> world) option" where
  "val_gic_install_isr hw int_id s =
     do { (mx, s) \<leftarrow> val_get_max_intid hw s;
          if int_id > mx \<or> int_id = 0
          then Some (ACS_STATUS_ERR, val_print ACS_PRINT_ERR ''Invalid Interrupt ID number %d'' (ucast int_id) s)
          else do {
            let s = snd (pal_gic_install_isr hw int_id s);
            if int_id > 31
            then do { s \<leftarrow> gicd_write (0x100 + ucast (4 * (int_id div 32)))
                             (push_bit (unat (int_id mod 32)) 1) s;
                      Some (0, s) }
            else Some (0, s) } }"

definition pal_gic_end_of_interrupt :: "hw \<Rightarrow> u32 \<Rightarrow> world \<Rightarrow> u32 \<times> world" where
  "pal_gic_end_of_interrupt hw int_id s =
     (let ((st, _), s) = firmware hw ''LocateProtocol'' [] s
      in if EFI_ERROR st then (0xFFFFFFFF, s)
         else (0, snd (firmware hw ''EndOfInterrupt'' [ucast int_id] s)))"

definition val_gic_end_of_interrupt :: "hw \<Rightarrow> u32 \<Rightarrow> world \<Rightarrow> u32 \<times> world" where
  "val_gic_end_of_interrupt hw int_id s = (0, snd (pal_gic_end_of_interrupt hw int_id s))"

text \<open>The masked identifier is 64 bits wide; the register write takes the low 32.\<close>

definition val_gic_route_interrupt_to_pe :: "u32 \<Rightarrow> u64 \<Rightarrow> world \<Rightarrow> (u32 \<times> world) option" where
  "val_gic_route_interrupt_to_pe int_id m s =
     (if int_id > 31
      then do { s \<leftarrow> gicd_write (0x6000 + ucast (8 * int_id)) (ucast (m AND 0xF00FFFFFF)) s; Some (0, s) }
      else Some (0, val_print ACS_PRINT_ERR
              ''Only SPIs can be routed, interrupt with INTID = %d cannot be routed'' (ucast int_id) s))"

definition val_gic_get_interrupt_state :: "hw \<Rightarrow> u32 \<Rightarrow> world \<Rightarrow> (u32 \<times> world) option" where
  "val_gic_get_interrupt_state hw int_id s =
     do { let reg_offset = int_id div 32;
          let reg_shift = int_id mod 32;
          (pending, s) \<leftarrow> gicd_read hw (0x200 + ucast (4 * reg_offset)) s;
          (active, s) \<leftarrow> gicd_read hw (0x300 + ucast (4 * reg_offset)) s;
          Some (if reg_shift AND active \<noteq> 0 \<or> reg_shift AND pending \<noteq> 0 then 1 else 0, s) }"

definition val_gic_clear_interrupt :: "u32 \<Rightarrow> world \<Rightarrow> world option" where
  "val_gic_clear_interrupt int_id s =
     do { let reg_offset = int_id div 32;
          let reg_shift = int_id mod 32;
          s \<leftarrow> gicd_write (0x280 + ucast (4 * reg_offset)) reg_shift s;
          gicd_write (0x380 + ucast (4 * reg_offset)) reg_shift s }"

text \<open>Setting an interrupt pending from software is compiled only for the simulation build; the
  function is empty otherwise.\<close>

definition val_gic_write_ispendreg :: "bool \<Rightarrow> u32 \<Rightarrow> world \<Rightarrow> world option" where
  "val_gic_write_ispendreg fvp intr_id s =
     (if fvp
      then gicd_write (0x200 + ucast (push_bit 2 (drop_bit 5 intr_id))) (push_bit (unat (intr_id mod 32)) 1) s
      else Some s)"

subsection \<open>CPU interface registers\<close>

datatype MPAM_ACS_GIC_REGS =
  ICH_HCR_EL2 | ICH_MISR_EL2 | ICC_IGRPEN1_EL1 | ICC_BPR1_EL1 | ICC_PMR_EL1

definition val_gic_reg_read :: "hw \<Rightarrow> MPAM_ACS_GIC_REGS \<Rightarrow> world \<Rightarrow> (u64 \<times> world) option" where
  "val_gic_reg_read hw reg_id s =
     (case reg_id of
        ICH_HCR_EL2 \<Rightarrow> Some (read_sysreg hw ''GicReadIchHcr'' s)
      | ICH_MISR_EL2 \<Rightarrow> Some (read_sysreg hw ''GicReadIchMisr'' s)
      | _ \<Rightarrow> do { (i, s) \<leftarrow> my_index hw s; Some (0, val_report_status i (RESULT_FAIL 0 0x78) s) })"

definition val_gic_reg_write :: "hw \<Rightarrow> MPAM_ACS_GIC_REGS \<Rightarrow> u64 \<Rightarrow> world \<Rightarrow> world option" where
  "val_gic_reg_write hw reg_id write_data s =
     (case reg_id of
        ICH_HCR_EL2 \<Rightarrow> Some (write_sysreg ''GicWriteIchHcr'' write_data s)
      | ICC_IGRPEN1_EL1 \<Rightarrow> Some (write_sysreg ''GicWriteIccIgrpen1'' write_data s)
      | ICC_BPR1_EL1 \<Rightarrow> Some (write_sysreg ''GicWriteIccBpr1'' write_data s)
      | ICC_PMR_EL1 \<Rightarrow> Some (write_sysreg ''GicWriteIccPmr'' write_data s)
      | _ \<Rightarrow> do { (i, s) \<leftarrow> my_index hw s; Some (val_report_status i (RESULT_FAIL 0 0x78) s) })"

definition val_gic_cpuif_init :: "hw \<Rightarrow> world \<Rightarrow> world option" where
  "val_gic_cpuif_init hw s =
     do { s \<leftarrow> val_gic_reg_write hw ICC_IGRPEN1_EL1 0x1 s;
          s \<leftarrow> val_gic_reg_write hw ICC_BPR1_EL1 0x7 s;
          val_gic_reg_write hw ICC_PMR_EL1 0xff s }"

subsection \<open>The distributor of the table\<close>

text \<open>Adding the entries of one structure; the number of distributors and the first of them.\<close>

definition gic_entries_of :: "madt_entry \<Rightarrow> gic_info_entry list" where
  "gic_entries_of e =
     (if mtype e = EFI_ACPI_6_1_GIC
      then (if m_cpuif_base e \<noteq> 0 then [\<lparr>gtype = ENTRY_TYPE_CPUIF, gbase = m_cpuif_base e\<rparr>] else []) @
           (if m_gicr_base e \<noteq> 0 then [\<lparr>gtype = ENTRY_TYPE_GICRD, gbase = m_gicr_base e\<rparr>] else [])
      else if mtype e = EFI_ACPI_6_1_GICD then [\<lparr>gtype = ENTRY_TYPE_GICD, gbase = m_phys_base e\<rparr>]
      else if mtype e = EFI_ACPI_6_1_GIC_ITS then [\<lparr>gtype = ENTRY_TYPE_GICITS, gbase = m_phys_base e\<rparr>]
      else [])"

lemma madt_types [simp]:
  "EFI_ACPI_6_1_GIC \<noteq> EFI_ACPI_6_1_GICD" "EFI_ACPI_6_1_GIC \<noteq> EFI_ACPI_6_1_GIC_ITS"
  "EFI_ACPI_6_1_GICD \<noteq> EFI_ACPI_6_1_GIC_ITS" "EFI_ACPI_6_1_GICD \<noteq> EFI_ACPI_6_1_GIC"
  "EFI_ACPI_6_1_GIC_ITS \<noteq> EFI_ACPI_6_1_GIC" "EFI_ACPI_6_1_GIC_ITS \<noteq> EFI_ACPI_6_1_GICD"
  by (simp_all add: reg_defs)

lemma gic_step_run:
  assumes "gic_step e (t, s) = (t', s')"
  shows "gic_info t' = gic_info t @ gic_entries_of e" "gl s' = gl s"
    "num_gicd t' = num_gicd t + (if mtype e = EFI_ACPI_6_1_GICD then 1 else 0)"
    "num_its t' = num_its t + (if mtype e = EFI_ACPI_6_1_GIC_ITS then 1 else 0)"
  using assms
  by (auto simp: gic_step_def gic_entries_of_def gic_add_def Let_def split: if_splits)

lemma gic_fold_run:
  assumes "fold gic_step vs (t, s) = (t', s')"
  shows "gic_info t' = gic_info t @ concat (map gic_entries_of vs) \<and> gl s' = gl s \<and>
    num_gicd t' = num_gicd t + of_nat (length (List.filter (\<lambda>e. mtype e = EFI_ACPI_6_1_GICD) vs))"
  using assms
proof (induction vs arbitrary: t s)
  case Nil
  then show ?case by simp
next
  case (Cons e vs)
  obtain t1 s1 where st: "gic_step e (t, s) = (t1, s1)" by fastforce
  with Cons.prems have "fold gic_step vs (t1, s1) = (t', s')" by simp
  from Cons.IH [OF this] gic_step_run [OF st] show ?case by simp
qed

lemma find_gic_entries:
  "find_gic ENTRY_TYPE_GICD (concat (map gic_entries_of vs) @ [\<lparr>gtype = 0xFF, gbase = j\<rparr>]) =
     Some (case find (\<lambda>e. mtype e = EFI_ACPI_6_1_GICD) vs of None \<Rightarrow> 0 | Some e \<Rightarrow> m_phys_base e)"
  by (induction vs)
     (auto simp: gic_entries_of_def ENTRY_TYPE_CPUIF_def ENTRY_TYPE_GICD_def ENTRY_TYPE_GICRD_def ENTRY_TYPE_GICITS_def)

text \<open>The distributor every GIC access goes through is the first one of the MADT: after
  val_gic_create_info_table the base val_get_gicd_base finds is that of the first GICD
  structure, and the creation fails exactly when the number of them, as a 32-bit count, is 0.\<close>

theorem gicd_base_from_madt:
  assumes "madt_visited mlen (madt_length m) SIZEOF_MADT_HEADER (madt_entries m) = Some vs"
  shows "\<exists>r t. val_gic_create_info_table (Some m) junk (Some old) s = Some (r, t) \<and>
     (r = ACS_STATUS_PASS \<longleftrightarrow>
        (of_nat (length (List.filter (\<lambda>e. mtype e = EFI_ACPI_6_1_GICD) vs)) :: u32) \<noteq> 0) \<and>
     val_get_gicd_base t =
       Some (case find (\<lambda>e. mtype e = EFI_ACPI_6_1_GICD) vs of None \<Rightarrow> 0 | Some e \<Rightarrow> m_phys_base e, t)"
proof -
  let ?s = "acs_print ACS_PRINT_INFO ''MADT is at %x and length is %x'' [0, ucast (madt_length m)] s"
  let ?t = "old\<lparr>gic_version := 0, num_gicrd := 0, num_gicd := 0, num_its := 0, gic_info := []\<rparr>"
  obtain t' s' where f: "fold gic_step vs (?t, ?s) = (t', s')" by fastforce
  note g = gic_fold_run [OF f]
  have "pal_gic_create_info_table (Some m) junk old s = Some (gic_add 0xFF junk t', s')"
    using f by (simp add: pal_gic_create_info_table_def madt_walk_fold assms Let_def)
  moreover have "ACS_STATUS_ERR \<noteq> ACS_STATUS_PASS" by (simp add: reg_defs)
  ultimately show ?thesis
    using g find_gic_entries [of vs junk]
    by (cases "(of_nat (length (List.filter (\<lambda>e. mtype e = EFI_ACPI_6_1_GICD) vs)) :: u32) = 0")
       (simp_all add: val_gic_create_info_table_def gic_add_def val_get_gicd_base_def)
qed

lemma gicd_base_from_madt_witness:
  "\<exists>t. val_gic_create_info_table (Some small_madt) 0
      (Some \<lparr>gic_version = 0, num_gicd = 0, num_gicrd = 0, num_its = 0, gic_info = []\<rparr>) two_pe_world
      = Some (ACS_STATUS_PASS, t) \<and> val_get_gicd_base t = Some (0x2F000000, t)"
  using gicd_base_from_madt [OF small_madt_visited, of 0
      "\<lparr>gic_version = 0, num_gicd = 0, num_gicrd = 0, num_its = 0, gic_info = []\<rparr>" two_pe_world]
  by (simp add: small_madt_def reg_defs)

subsection \<open>Interrupt state\<close>

text \<open>The state has a GIC table with a terminator, and its distributor is at \<open>b\<close>.\<close>

definition gicd_at :: "u64 \<Rightarrow> world \<Rightarrow> bool" where
  "gicd_at b s \<longleftrightarrow> (\<exists>t. g_gic_info_table (gl s) = Some t \<and> find_gic ENTRY_TYPE_GICD (gic_info t) = Some b)"

lemma gicd_at_run [run]:
  "gicd_at b s \<Longrightarrow> gl t = gl s \<Longrightarrow> gicd_read hw off t = Some (val_mmio_read hw (b + off) t)"
  "gicd_at b s \<Longrightarrow> gl t = gl s \<Longrightarrow> gicd_write off v t = Some (val_mmio_write (b + off) v t)"
  by (auto simp: gicd_at_def gicd_read_def gicd_write_def val_get_gicd_base_def)

lemma install_isr_frame [simp]:
  "gl (snd (pal_gic_install_isr hw i s)) = gl s"
  by (simp add: pal_gic_install_isr_def split_beta Let_def)

definition gic_world :: world where
  "gic_world = two_pe_world\<lparr>gl := (gl two_pe_world)\<lparr>g_gic_info_table := Some
     \<lparr>gic_version = 3, num_gicd = 1, num_gicrd = 0, num_its = 0, gic_info =
       [\<lparr>gtype = 0x1001, gbase = 0x2F000000\<rparr>, \<lparr>gtype = 0xFF, gbase = 0\<rparr>]\<rparr>\<rparr>\<rparr>"

lemma gic_world_at: "gicd_at 0x2F000000 gic_world"
  by (simp add: gicd_at_def gic_world_def two_pe_world_def ENTRY_TYPE_GICD_def)

text \<open>Installing a handler checks the interrupt number against the distributor: number 0 and
  numbers above the implemented maximum are rejected with no register write, and a shared
  interrupt in range ends with the one write that sets its own enable bit.\<close>

theorem install_isr_checks:
  assumes "gicd_at b s" "aligned4 b"
    and mx: "mx = 32 * ((mmio_in hw (io s) (b + 4) AND 0x1F) + 1) - 1"
  shows "((int_id > mx \<or> int_id = 0) \<longrightarrow>
           (\<exists>t. val_gic_install_isr hw int_id s = Some (ACS_STATUS_ERR, t) \<and>
              io t = MmioRead (b + 4) # io s)) \<and>
         (int_id \<le> mx \<and> 31 < int_id \<longrightarrow>
           (\<exists>t h. val_gic_install_isr hw int_id s = Some (0, t) \<and>
              io t = MmioWrite (b + (0x100 + ucast (4 * (int_id div 32)))) (push_bit (unat (int_id mod 32)) 1) # h))"
proof -
  have al: "mmio_addr (b + 4) = b + 4"
    by (rule mmio_addr_aligned, rule aligned4_add [OF assms(2)]) (simp add: aligned4_def)
  let ?s = "snd (val_mmio_read hw (b + 4) s)"
  have m: "val_get_max_intid hw s = Some (mx, ?s)"
    by (simp add: val_get_max_intid_def gicd_at_run(1) [OF assms(1) refl] split_beta al mx)
  have i: "io ?s = MmioRead (b + 4) # io s" "gl ?s = gl s" by (simp_all add: al)
  have w: "gicd_write off v (snd (pal_gic_install_isr hw int_id ?s)) =
      Some (val_mmio_write (b + off) v (snd (pal_gic_install_isr hw int_id ?s)))" for off v
    by (rule gicd_at_run(2) [OF assms(1)]) (simp add: i)
  have "int_id \<noteq> 0" if "31 < int_id" using that by auto
  then show ?thesis using i by (auto simp: val_gic_install_isr_def m w not_less)
qed

lemma install_isr_checks_witness:
  "\<exists>t. val_gic_install_isr (ram_hw (\<lambda>_. 5) 0) 1000 gic_world = Some (ACS_STATUS_ERR, t)"
  using install_isr_checks [OF gic_world_at _ refl, of "ram_hw (\<lambda>_. 5) 0" 1000]
  by (auto simp: aligned4_def gic_world_def two_pe_world_def)

text \<open>The state of an interrupt is looked up with its bit number instead of its bit: for every
  interrupt whose number is a multiple of 32 the answer is 0 whatever the distributor reports,
  and clearing such an interrupt writes 0 to both clear registers, which clears nothing.\<close>

theorem interrupt_state_bit_number:
  assumes "gicd_at b s" "int_id mod 32 = 0"
  shows "(\<exists>t. val_gic_get_interrupt_state hw int_id s = Some (0, t)) \<and>
     (\<exists>u. val_gic_clear_interrupt int_id s = Some u \<and>
        io u = MmioWrite (b + (0x380 + ucast (4 * (int_id div 32)))) 0 #
               MmioWrite (b + (0x280 + ucast (4 * (int_id div 32)))) 0 # io s)"
  using assms(2)
  by (simp add: val_gic_get_interrupt_state_def val_gic_clear_interrupt_def Let_def split_beta
      gicd_at_run [OF assms(1)])

lemma interrupt_state_bit_number_witness:
  "\<exists>t. val_gic_get_interrupt_state (ram_hw (\<lambda>_. 0xFFFFFFFF) 0) 64 gic_world = Some (0, t)"
  using interrupt_state_bit_number [OF gic_world_at, of 64] by simp

end
