(* ===== verification/Mpam_Suite.thy ===== *)
theory Mpam_Suite
  imports Mpam_Csumon Mpam_Madt Mpam_Gic "HOL-Library.Char_ord"
begin

text \<open>
  The suite as a whole: the entry functions of the tests (test_pool/*/test_*.c), the modules
  that run them (val_cache.c, val_csu_monitor.c, val_interrupts.c, val_memory.c) and the
  application (uefi_app/MpamAcsMain.c). The payload of the first test is here; those of
  the other tests are a parameter \<open>pool\<close>, indexed by the test number.
\<close>

subsection \<open>Test numbers\<close>

definition ACS_CACHE_TEST_NUM_BASE :: u32 where [reg_defs]: "ACS_CACHE_TEST_NUM_BASE = 0"
definition ACS_CSUMON_TEST_NUM_BASE :: u32 where [reg_defs]: "ACS_CSUMON_TEST_NUM_BASE = 20"
definition ACS_INTR_TEST_NUM_BASE :: u32 where [reg_defs]: "ACS_INTR_TEST_NUM_BASE = 30"
definition ACS_MEMORY_TEST_NUM_BASE :: u32 where [reg_defs]: "ACS_MEMORY_TEST_NUM_BASE = 40"

text \<open>The value of MPAM2_EL2 that gives the accesses of this PE a PARTID and a PMG.\<close>

definition mpam2_traffic :: "u16 \<Rightarrow> u8 \<Rightarrow> u64 \<Rightarrow> u64" where
  "mpam2_traffic partid pmg old =
     (let v = CLEAR_BITS_M_TO_N old (MPAMn_ELx_PARTID_D_SHIFT + 15) MPAMn_ELx_PARTID_D_SHIFT;
          v = CLEAR_BITS_M_TO_N v (MPAMn_ELx_PMG_D_SHIFT + 7) MPAMn_ELx_PMG_D_SHIFT
      in v OR (push_bit MPAMn_ELx_PMG_D_SHIFT (ucast pmg) OR push_bit MPAMn_ELx_PARTID_D_SHIFT (ucast partid)))"

type_synonym pool = "u32 \<Rightarrow> world \<Rightarrow> world option"

subsection \<open>Test entries\<close>

text \<open>The first test: is there any MPAM node.\<close>

definition payload_c001 :: "hw \<Rightarrow> world \<Rightarrow> world option" where
  "payload_c001 hw s =
     do { (pe_index, s) \<leftarrow> my_index hw s;
          (nc, s) \<leftarrow> val_node_get_total hw MPAM_NODE_CACHE s;
          (nm, s) \<leftarrow> val_node_get_total hw MPAM_NODE_MEMORY s;
          if nc + nm = 0
          then val_set_status pe_index (RESULT_FAIL (ACS_CACHE_TEST_NUM_BASE + 1) 1)
                 (val_print ACS_PRINT_ERR ''Zero MPAM suported nodes in the system'' 0 s)
          else val_set_status pe_index (RESULT_PASS (ACS_CACHE_TEST_NUM_BASE + 1) 1) s }"

definition testc001_entry :: "hw \<Rightarrow> world \<Rightarrow> (u32 \<times> world) option" where
  "testc001_entry hw s =
     (let n = ACS_CACHE_TEST_NUM_BASE + 1
      in do { (_, s) \<leftarrow> val_initialize_test hw n ''Check MPAM node presence          '' 1 s;
              s \<leftarrow> val_run_test_payload hw n 1 0 (payload_c001 hw) 0 s;
              (st, s) \<leftarrow> val_check_for_error hw n 1 s;
              Some (st, val_report_status 0 (ACS_TEST_END n) s) })"

text \<open>The common shape of the tests that run on the calling PE only: the payload is not run
  when the user listed the test.\<close>

definition single_pe_test :: "hw \<Rightarrow> pool \<Rightarrow> u32 \<Rightarrow> string \<Rightarrow> world \<Rightarrow> (u32 \<times> world) option" where
  "single_pe_test hw pool n desc s =
     do { (st, s) \<leftarrow> val_initialize_test hw n desc 1 s;
          s \<leftarrow> (if st \<noteq> ACS_STATUS_SKIP then val_run_test_payload hw n 1 0 (pool n) 0 s else Some s);
          (st, s) \<leftarrow> val_check_for_error hw n 1 s;
          Some (st, val_report_status 0 (ACS_TEST_END n) s) }"

text \<open>The two bandwidth tests run on all PEs: every status word is set to a pass before the
  payload of the primary PE runs, and nothing is reported at the end.\<close>

definition all_pe_test :: "hw \<Rightarrow> pool \<Rightarrow> u32 \<Rightarrow> string \<Rightarrow> world \<Rightarrow> (u32 \<times> world) option" where
  "all_pe_test hw pool n desc s =
     do { let num_pe = val_pe_get_num s;
          (st, s) \<leftarrow> val_initialize_test hw n desc num_pe s;
          s \<leftarrow> for_each (\<lambda>i. val_set_status i (RESULT_PASS n 1)) (upto_u32 num_pe) s;
          s \<leftarrow> (if st \<noteq> ACS_STATUS_SKIP then pool n s else Some s);
          val_check_for_error hw n num_pe s }"

definition testc002_entry :: "hw \<Rightarrow> pool \<Rightarrow> world \<Rightarrow> (u32 \<times> world) option" where
  "testc002_entry hw pool = single_pe_test hw pool (ACS_CACHE_TEST_NUM_BASE + 2) ''Check CPOR Partitioning           ''"
definition testc003_entry :: "hw \<Rightarrow> pool \<Rightarrow> world \<Rightarrow> (u32 \<times> world) option" where
  "testc003_entry hw pool = single_pe_test hw pool (ACS_CACHE_TEST_NUM_BASE + 3) ''Check CCAP Partitioning           ''"
definition testc004_entry :: "hw \<Rightarrow> pool \<Rightarrow> world \<Rightarrow> (u32 \<times> world) option" where
  "testc004_entry hw pool = single_pe_test hw pool (ACS_CACHE_TEST_NUM_BASE + 4) ''Check CCAP with CPOR Partitioning ''"
definition testc005_entry :: "hw \<Rightarrow> pool \<Rightarrow> world \<Rightarrow> (u32 \<times> world) option" where
  "testc005_entry hw pool = single_pe_test hw pool (ACS_CACHE_TEST_NUM_BASE + 5) ''Check PARTID storage by CPOR nodes''"
definition testc006_entry :: "hw \<Rightarrow> pool \<Rightarrow> world \<Rightarrow> (u32 \<times> world) option" where
  "testc006_entry hw pool = single_pe_test hw pool (ACS_CACHE_TEST_NUM_BASE + 6) ''Check PARTID storage by CCAP nodes''"
definition testm001_entry :: "hw \<Rightarrow> pool \<Rightarrow> world \<Rightarrow> (u32 \<times> world) option" where
  "testm001_entry hw pool = single_pe_test hw pool (ACS_CSUMON_TEST_NUM_BASE + 1) ''Check PMG storage by CPOR nodes   ''"
definition testm002_entry :: "hw \<Rightarrow> pool \<Rightarrow> world \<Rightarrow> (u32 \<times> world) option" where
  "testm002_entry hw pool = single_pe_test hw pool (ACS_CSUMON_TEST_NUM_BASE + 2) ''Check PMG storage by CCAP nodes   ''"
definition testm003_entry :: "hw \<Rightarrow> pool \<Rightarrow> world \<Rightarrow> (u32 \<times> world) option" where
  "testm003_entry hw pool = single_pe_test hw pool (ACS_CSUMON_TEST_NUM_BASE + 3) ''Check new monitor config doesn't affect ongoing''"
definition testi001_entry :: "hw \<Rightarrow> pool \<Rightarrow> world \<Rightarrow> (u32 \<times> world) option" where
  "testi001_entry hw pool = single_pe_test hw pool (ACS_INTR_TEST_NUM_BASE + 1) ''Check MSC Level-Sensitive Error Interrupt Behaviour''"
definition testi002_entry :: "hw \<Rightarrow> pool \<Rightarrow> world \<Rightarrow> (u32 \<times> world) option" where
  "testi002_entry hw pool = single_pe_test hw pool (ACS_INTR_TEST_NUM_BASE + 2) ''Check MSC Edge-Trigger Error Interrupt Behaviour''"
definition testi003_entry :: "hw \<Rightarrow> pool \<Rightarrow> world \<Rightarrow> (u32 \<times> world) option" where
  "testi003_entry hw pool = single_pe_test hw pool (ACS_INTR_TEST_NUM_BASE + 3) ''Check MSC PARTID selection range error''"
definition testi004_entry :: "hw \<Rightarrow> pool \<Rightarrow> world \<Rightarrow> (u32 \<times> world) option" where
  "testi004_entry hw pool = single_pe_test hw pool (ACS_INTR_TEST_NUM_BASE + 4) ''Check MSC MONITOR selection range error''"
definition testi005_entry :: "hw \<Rightarrow> pool \<Rightarrow> world \<Rightarrow> (u32 \<times> world) option" where
  "testi005_entry hw pool = single_pe_test hw pool (ACS_INTR_TEST_NUM_BASE + 5) ''Check request PARTID out-of-range error''"
definition testi006_entry :: "hw \<Rightarrow> pool \<Rightarrow> world \<Rightarrow> (u32 \<times> world) option" where
  "testi006_entry hw pool = single_pe_test hw pool (ACS_INTR_TEST_NUM_BASE + 6) ''Check request PMG out-of-range error   ''"
definition testi007_entry :: "hw \<Rightarrow> pool \<Rightarrow> world \<Rightarrow> (u32 \<times> world) option" where
  "testi007_entry hw pool = single_pe_test hw pool (ACS_INTR_TEST_NUM_BASE + 7) ''Check MSMON config ID out-of-range error''"
definition testi008_entry :: "hw \<Rightarrow> pool \<Rightarrow> world \<Rightarrow> (u32 \<times> world) option" where
  "testi008_entry hw pool = single_pe_test hw pool (ACS_INTR_TEST_NUM_BASE + 8) ''Check MBWU monitor overflow interrupt functionality''"
definition testd001_entry :: "hw \<Rightarrow> pool \<Rightarrow> world \<Rightarrow> (u32 \<times> world) option" where
  "testd001_entry hw pool = single_pe_test hw pool (ACS_MEMORY_TEST_NUM_BASE + 1) ''Check MBWPBM Partitioning           ''"
definition testd002_entry :: "hw \<Rightarrow> pool \<Rightarrow> world \<Rightarrow> (u32 \<times> world) option" where
  "testd002_entry hw pool = all_pe_test hw pool (ACS_MEMORY_TEST_NUM_BASE + 2) ''Check MBWMIN Partitioning           ''"
definition testd003_entry :: "hw \<Rightarrow> pool \<Rightarrow> world \<Rightarrow> (u32 \<times> world) option" where
  "testd003_entry hw pool = all_pe_test hw pool (ACS_MEMORY_TEST_NUM_BASE + 3) ''Check MBWMAX Partitioning           ''"

lemmas entry_defs =
  testc002_entry_def testc003_entry_def testc004_entry_def testc005_entry_def
  testc006_entry_def testm001_entry_def testm002_entry_def testm003_entry_def
  testi001_entry_def testi002_entry_def testi003_entry_def testi004_entry_def
  testi005_entry_def testi006_entry_def testi007_entry_def testi008_entry_def
  testd001_entry_def testd002_entry_def testd003_entry_def

subsection \<open>Modules\<close>

text \<open>st = t1; status |= t2; ...\<close>

fun or_tests :: "(world \<Rightarrow> (u32 \<times> world) option) list \<Rightarrow> u32 \<Rightarrow> world \<Rightarrow> (u32 \<times> world) option" where
  "or_tests [] st s = Some (st, s)"
| "or_tests (t # ts) st s = do { (r, s) \<leftarrow> t s; or_tests ts (st OR r) s }"

definition module_skipped :: "u32 \<Rightarrow> string \<Rightarrow> world \<Rightarrow> (u32 \<times> world) option \<Rightarrow> (u32 \<times> world) option" where
  "module_skipped num_base msg s run =
     do { skip \<leftarrow> skip_listed num_base s;
          if skip then Some (ACS_STATUS_SKIP, val_print ACS_PRINT_TEST msg 0 s) else run }"

definition module_verdict :: "string \<Rightarrow> string \<Rightarrow> u32 \<times> world \<Rightarrow> u32 \<times> world" where
  "module_verdict failed passed r =
     (case r of (st, s) \<Rightarrow>
        (st, val_print ACS_PRINT_TEST (if st \<noteq> ACS_STATUS_PASS then failed else passed) 0 s))"

definition val_cache_execute_tests :: "hw \<Rightarrow> pool \<Rightarrow> u32 \<Rightarrow> world \<Rightarrow> (u32 \<times> world) option" where
  "val_cache_execute_tests hw pool num_pe s =
     module_skipped ACS_CACHE_TEST_NUM_BASE ''USER Override - Skipping all cache partition tests'' s
      (do { (st, s) \<leftarrow> testc001_entry hw s;
            if st \<noteq> ACS_STATUS_PASS then Some (ACS_STATUS_EXIT, s)
            else do {
              r \<leftarrow> or_tests [testc002_entry hw pool, testc003_entry hw pool, testc004_entry hw pool,
                     testc005_entry hw pool, testc006_entry hw pool] st s;
              Some (module_verdict ''*** One or more cache partition tests have failed... ***''
                      ''All cache partition tests have passed!!'' r) } })"

definition val_csumon_execute_tests :: "hw \<Rightarrow> pool \<Rightarrow> u32 \<Rightarrow> world \<Rightarrow> (u32 \<times> world) option" where
  "val_csumon_execute_tests hw pool num_pe s =
     module_skipped ACS_CSUMON_TEST_NUM_BASE ''USER Override - Skipping all csu monitor tests'' s
      (do { r \<leftarrow> or_tests [testm001_entry hw pool, testm002_entry hw pool, testm003_entry hw pool] 0 s;
            Some (module_verdict ''*** One or more cache monitor tests have failed... ***''
                    ''All cache monitor tests have passed!!'' r) })"

definition val_interrupts_execute_tests :: "hw \<Rightarrow> pool \<Rightarrow> u32 \<Rightarrow> world \<Rightarrow> (u32 \<times> world) option" where
  "val_interrupts_execute_tests hw pool num_pe s =
     module_skipped ACS_INTR_TEST_NUM_BASE ''USER Override - Skipping all error interrupt tests'' s
      (do { r \<leftarrow> or_tests [testi001_entry hw pool, testi002_entry hw pool, testi003_entry hw pool,
                   testi004_entry hw pool, testi005_entry hw pool, testi006_entry hw pool,
                   testi007_entry hw pool, testi008_entry hw pool] 0 s;
            Some (module_verdict ''*** One or more error interrupt tests have failed... ***''
                    ''All error interrupt tests have passed!!'' r) })"

text \<open>The memory module looks for the number of the cache module in the skip list.\<close>

definition val_memory_execute_tests :: "hw \<Rightarrow> pool \<Rightarrow> u32 \<Rightarrow> world \<Rightarrow> (u32 \<times> world) option" where
  "val_memory_execute_tests hw pool num_pe s =
     module_skipped ACS_CACHE_TEST_NUM_BASE ''USER Override - Skipping all memory partition tests'' s
      (do { r \<leftarrow> or_tests [testd001_entry hw pool, testd002_entry hw pool, testd003_entry hw pool] 0 s;
            Some (module_verdict ''*** One or more memory partition tests have failed... ***''
                    ''All memory partition tests have passed!!'' r) })"

subsection \<open>The application\<close>

text \<open>
  What the application is started with and what it finds: the command line as the UEFI shell
  library parsed it (\<open>dec\<close> is its decimal conversion), the MADT, the content of fresh pool
  memory, its own image, the stack word above the stack pointer, the platform's table builder
  for MPAM nodes, and the payloads.
\<close>

record platform =
  argv :: "string list"
  parse_status :: u32
  opt_v :: "string option"
  opt_help :: bool
  dec :: "string \<Rightarrow> u64"
  madt_ptr :: "madt option"
  fresh_pe_table :: pe_info_table
  fresh_gic_table :: gic_info_table
  junk_attr :: u32
  junk_gbase :: u64
  image_base :: u64
  image_size :: u64
  stack_word :: u64
  label_addr :: u64
  pal_mpam :: "world \<Rightarrow> world option"
  test_pool :: pool

definition val_pe_context_save :: "u64 \<Rightarrow> u64 \<Rightarrow> u64 \<Rightarrow> world \<Rightarrow> world" where
  "val_pe_context_save word_above sp elr s =
     s\<lparr>gl := (gl s)\<lparr>g_stack_pointer := sp, g_exception_ret_addr := elr, g_ret_addr := word_above\<rparr>\<rparr>"

definition CreatePeInfoTable :: "hw \<Rightarrow> platform \<Rightarrow> world \<Rightarrow> (u32 \<times> world) option" where
  "CreatePeInfoTable hw p s =
     (let ((st, _), s) = firmware hw ''AllocatePool'' [8192] s
      in if EFI_ERROR st then Some (ucast st, s)
         else val_pe_create_info_table hw (madt_ptr p) (junk_attr p) (Some (fresh_pe_table p)) s)"

definition CreateGicInfoTable :: "hw \<Rightarrow> platform \<Rightarrow> world \<Rightarrow> (u32 \<times> world) option" where
  "CreateGicInfoTable hw p s =
     (let ((st, _), s) = firmware hw ''AllocatePool'' [8192] s
      in if EFI_ERROR st then Some (ucast st, s)
         else val_gic_create_info_table (madt_ptr p) (junk_gbase p) (Some (fresh_gic_table p)) s)"

definition CreateMpamInfoTable :: "hw \<Rightarrow> platform \<Rightarrow> world \<Rightarrow> (u32 \<times> world) option" where
  "CreateMpamInfoTable hw p s = val_mpam_create_info_table hw (pal_mpam p) s"

definition FlushImage :: "hw \<Rightarrow> platform \<Rightarrow> world \<Rightarrow> world option" where
  "FlushImage hw p s =
     (let ((st, _), s) = firmware hw ''HandleProtocol'' [] s
      in if EFI_ERROR st then Some s
         else val_pe_cache_clean_range hw (image_base p) (image_size p) s)"

definition val_pe_free_info_table :: "hw \<Rightarrow> world \<Rightarrow> world" where
  "val_pe_free_info_table hw s = pal_mem_free hw ''g_pe_info_table'' s"

definition val_gic_free_info_table :: "hw \<Rightarrow> world \<Rightarrow> world" where
  "val_gic_free_info_table hw s = pal_mem_free hw ''g_gic_info_table'' s"

definition FreeMpamAcsMem :: "hw \<Rightarrow> world \<Rightarrow> world" where
  "FreeMpamAcsMem hw s = val_free_shared_mem hw (val_gic_free_info_table hw (val_pe_free_info_table hw s))"

text \<open>The skip list: the first number is converted again in every round; after each comma the
  next slot is filled, and a slot past the end of the array is a write out of bounds.\<close>

fun parse_skip :: "(string \<Rightarrow> u64) \<Rightarrow> string \<Rightarrow> string \<Rightarrow> nat \<Rightarrow> u32 list \<Rightarrow> u32 list option" where
  "parse_skip d cmd [] j xs = Some xs"
| "parse_skip d cmd (c # r) j xs =
     (let xs = xs[0 := ucast (d cmd)]
      in if c = CHR '',''
         then if Suc j < length xs then parse_skip d cmd r (Suc j) (xs[Suc j := ucast (d r)]) else None
         else parse_skip d cmd r j xs)"

text \<open>The argument after the first \<open>-skip\<close>; there is no argument past the last one.\<close>

fun skip_arg :: "string list \<Rightarrow> string option option" where
  "skip_arg [] = Some None"
| "skip_arg (a # as) =
     (if a = ''-skip'' then (case as of [] \<Rightarrow> None | b # _ \<Rightarrow> Some (Some b)) else skip_arg as)"

definition process_skip :: "platform \<Rightarrow> world \<Rightarrow> world option" where
  "process_skip p s =
     do { a \<leftarrow> skip_arg (tl (argv p));
          case a of None \<Rightarrow> Some s
          | Some cmd \<Rightarrow> do { xs \<leftarrow> parse_skip (dec p) cmd cmd 0 (g_skip_test_num (gl s));
                              Some (s\<lparr>gl := (gl s)\<lparr>g_skip_test_num := xs\<rparr>\<rparr>) } }"

definition verbosity :: "platform \<Rightarrow> u32" where
  "verbosity p =
     (case opt_v p of None \<Rightarrow> ACS_PRINT_TEST
      | Some v \<Rightarrow> let l = ucast (dec p v) in if l > 5 then ACS_PRINT_TEST else l)"

definition report_totals :: "world \<Rightarrow> world" where
  "report_totals s =
     (let s = val_print ACS_PRINT_TEST ''-------------------------------------------------------'' 0 s;
          s = val_print ACS_PRINT_TEST ''Total Tests run  = %4d;'' (ucast (g_acs_tests_total (gl s))) s;
          s = val_print ACS_PRINT_TEST ''Tests Passed  = %4d'' (ucast (g_acs_tests_pass (gl s))) s;
          s = val_print ACS_PRINT_TEST ''Tests Failed = %4d'' (ucast (g_acs_tests_fail (gl s))) s
      in val_print ACS_PRINT_TEST ''---------------------------------------------------------'' 0 s)"

definition run_modules :: "hw \<Rightarrow> pool \<Rightarrow> u32 \<Rightarrow> world \<Rightarrow> (u32 \<times> world) option" where
  "run_modules hw pool st s =
     do { (r, s) \<leftarrow> val_cache_execute_tests hw pool (val_pe_get_num s) s;
          let st = st OR r;
          if st = ACS_STATUS_EXIT
          then Some (st, val_print ACS_PRINT_TEST ''*** Exiting suite - No MPAM nodes ***'' 0 s)
          else do {
            (r, s) \<leftarrow> val_csumon_execute_tests hw pool (val_pe_get_num s) s;
            let st = st OR r;
            (r, s) \<leftarrow> val_interrupts_execute_tests hw pool (val_pe_get_num s) s;
            let st = st OR r;
            (r, s) \<leftarrow> val_memory_execute_tests hw pool (val_pe_get_num s) s;
            Some (st OR r, s) } }"

definition zero_counters :: "world \<Rightarrow> world" where
  "zero_counters s =
     s\<lparr>gl := (gl s)\<lparr>g_acs_tests_total := 0, g_acs_tests_pass := 0, g_acs_tests_fail := 0\<rparr>\<rparr>"

definition setup_execution :: "hw \<Rightarrow> platform \<Rightarrow> world \<Rightarrow> world option" where
  "setup_execution hw p s =
     do { let s = val_allocate_shared_mem hw s;
          let (sp, s) = read_sysreg hw ''arm64_read_sp'' s;
          let s = val_pe_context_save (stack_word p) sp (label_addr p) s;
          let s = val_pe_initialize_default_exception_handler hw s;
          FlushImage hw p s }"

definition ShellAppMain :: "hw \<Rightarrow> platform \<Rightarrow> world \<Rightarrow> (u32 \<times> world) option" where
  "ShellAppMain hw p s =
     (if parse_status p \<noteq> 0 then Some (2, s)
      else do {
        s \<leftarrow> process_skip p s;
        let s = s\<lparr>print_level := verbosity p\<rparr>;
        if opt_help p then Some (0, s)
        else do {
          (st, s) \<leftarrow> CreatePeInfoTable hw p (zero_counters s);
          if st \<noteq> 0 then Some (st, s)
          else do {
            (st, s) \<leftarrow> CreateGicInfoTable hw p s;
            if st \<noteq> 0 then Some (st, s)
            else do {
              (st, s) \<leftarrow> CreateMpamInfoTable hw p s;
              if st \<noteq> 0 then Some (st, s)
              else do {
                s \<leftarrow> setup_execution hw p s;
                (_, s) \<leftarrow> run_modules hw (test_pool p) st s;
                Some (0, FreeMpamAcsMem hw (report_totals s)) } } } } })"



subsection \<open>One test on one PE\<close>

lemma check_for_error_counts:
  assumes "val_check_for_error hw n k s = Some (r, t)"
  shows "\<exists>st u. gl u = gl s \<and> (r, t) = verdict st u"
proof -
  have scan: "gl v = gl u" if "scan_error hw is' st u = Some (st', e, v)" for is' st st' e u v
    using that by (induction hw is' st u rule: scan_error.induct)
      (auto simp: Option.bind_eq_Some_conv split: if_splits dest: val_get_status_run(1))
  show ?thesis
  proof (cases "k = 1")
    case True
    then obtain me s1 st s2 where "my_index hw s = Some (me, s1)" "val_get_status hw me s1 = Some (st, s2)"
        "(r, t) = verdict st (val_report_status me st s2)"
      using assms by (auto simp: val_check_for_error_def Option.bind_eq_Some_conv)
    then show ?thesis using val_pe_frame(1) val_get_status_run(1) val_report_status_frame(4) by metis
  next
    case False
    then obtain me s1 st e s2 where m: "my_index hw s = Some (me, s1)"
        "scan_error hw (upto_u32 k) 0 s1 = Some (st, e, s2)"
        "(r, t) = verdict st (if e then s2 else val_report_status me st s2)"
      using assms by (auto simp: val_check_for_error_def Option.bind_eq_Some_conv)
    have "gl s2 = gl s" using scan [OF m(2)] val_pe_frame(1) [OF m(1)] by simp
    then have "gl (if e then s2 else val_report_status me st s2) = gl s" by simp
    with m(3) show ?thesis by blast
  qed
qed

lemma check_for_error_one:
  assumes "quiet_peers hw" "my_index hw s = Some (me, s1)" "unat me < shared_size s"
  shows "\<exists>u. val_check_for_error hw n 1 s = Some (verdict (status_word me s) u) \<and> gl u = gl s"
proof -
  note f = val_pe_frame [OF assms(2)]
  have "unat me < shared_size s1" "status_word me s1 = status_word me s"
    using assms(3) f shared_size_cong status_word_cong by metis+
  with val_get_status_quiet [OF assms(1), of me s1] assms(2) f show ?thesis
    by (auto simp: val_check_for_error_def)
qed

lemma check_for_error_single:
  assumes "quiet_peers hw" "my_index hw s = Some (me, s1)" "unat me < shared_size s"
  shows "\<exists>u r t. val_check_for_error hw n 1 s = Some (r, t) \<and> (r, t) = verdict (status_word me s) u \<and>
     gl u = gl s \<and> shared_size t = shared_size s"
proof -
  note f = val_pe_frame [OF assms(2)]
  have sz: "unat me < shared_size s1" "status_word me s1 = status_word me s" "shared_size s1 = shared_size s"
    using assms(3) f shared_size_cong status_word_cong by metis+
  let ?u = "val_report_status me (status_word me s)
     (log_io (CacheOp (LShared (unat me) ''status'') INVALIDATE) s1)"
  obtain r t where v: "(r, t) = verdict (status_word me s) ?u" by (metis surj_pair)
  have "val_check_for_error hw n 1 s = Some (r, t)"
    using val_get_status_quiet [OF assms(1), of me s1] assms(2) sz v by (simp add: val_check_for_error_def)
  moreover have "shared t = shared s1"
    using v by (auto simp: verdict_def count_pass_def count_fail_def split: if_splits)
  then have "shared_size t = shared_size s" using sz(3) shared_size_cong [of t s1] by simp
  moreover have "gl ?u = gl s" using f by simp
  ultimately show ?thesis using v by blast
qed

lemma my_index_cong_gl:
  "my_index hw s = Some (me, s1) \<Longrightarrow> gl t = gl s \<or> gl t = (gl s)\<lparr>g_acs_tests_total := x\<rparr> \<Longrightarrow>
     \<exists>t1. my_index hw t = Some (me, t1)"
  by (auto simp: my_index_def val_pe_get_mpid_def val_pe_get_index_mpid_def Option.bind_eq_Some_conv)

text \<open>A test the user listed is reported as skipped: its payload is never run, no PE is recorded as
  passed or failed, and only the number of tests moves.\<close>

theorem single_pe_test_user_skip:
  assumes "quiet_peers hw" "my_index hw s = Some (me, s1)" "unat me < shared_size s" "1 \<le> shared_size s"
    and "length (g_skip_test_num (gl s)) = MAX_TEST_SKIP_NUM"
    and "n \<in> set (g_skip_test_num (gl s))" "n < 0x1000"
  shows "\<exists>t. single_pe_test hw pool n desc s = Some (ACS_STATUS_SKIP, t) \<and>
     gl t = (gl s)\<lparr>g_acs_tests_total := g_acs_tests_total (gl s) + 1\<rparr>"
proof -
  from initialize_test_run [OF assms(2) _ assms(3,5), of 1 n desc] assms(4,6) obtain t where
    t: "val_initialize_test hw n desc 1 s = Some (ACS_STATUS_SKIP, t)"
       "gl t = (gl s)\<lparr>g_acs_tests_total := g_acs_tests_total (gl s) + 1\<rparr>"
       "shared_size t = shared_size s" "status_word me t = RESULT_SKIP n 0" by auto
  obtain t1 where "my_index hw t = Some (me, t1)" using my_index_cong_gl assms(2) t(2) by blast
  from check_for_error_one [OF assms(1) this, of n] assms(3) t(3,4) obtain u where
    "val_check_for_error hw n 1 t = Some (verdict (RESULT_SKIP n 0) u)" "gl u = gl t" by auto
  moreover have "IS_TEST_SKIP (RESULT_SKIP n 0)" using small_results_classified(6) assms(7) by simp
  ultimately show ?thesis using t(1,2) by (simp add: single_pe_test_def verdict_simps)
qed

lemma single_pe_test_user_skip_witness:
  "\<exists>t. single_pe_test (ram_hw (\<lambda>_. 0) 0) (\<lambda>_ _. None) 31 ''x''
        (two_pe_world\<lparr>gl := (gl two_pe_world)\<lparr>g_skip_test_num := [31, 10000, 10000]\<rparr>\<rparr>) =
      Some (ACS_STATUS_SKIP, t) \<and> g_acs_tests_fail (gl t) = 0"
proof -
  let ?s = "two_pe_world\<lparr>gl := (gl two_pe_world)\<lparr>g_skip_test_num := [31, 10000, 10000]\<rparr>\<rparr>"
  have "my_index (ram_hw (\<lambda>_. 0) 0) ?s = Some (0, log_io (SysRead ''arm64_read_mpidr'') ?s)"
    by (rule my_index_eq) (simp add: affx_def val_pe_get_index_mpid_def two_pe_world_def)
  from single_pe_test_user_skip [OF _ this, of 31 "\<lambda>_ _. None" "''x''"]
  show ?thesis by (auto simp: shared_size_def two_pe_world_def MAX_TEST_SKIP_NUM_def)
qed

lemma set_all_status:
  assumes "unat k \<le> shared_size s"
  shows "\<exists>t. for_each (\<lambda>i. val_set_status i v) (upto_u32 k) s = Some t \<and> gl t = gl s \<and>
     shared_size t = shared_size s \<and> (\<forall>j. status_word j t = (if j < k then v else status_word j s))"
proof -
  have "\<forall>i\<in>set (upto_u32 k). unat i < shared_size s"
    using assms by (simp add: set_upto_u32 word_less_nat_alt)
  from mpam_status.put_all [OF this, of "\<lambda>_. v"] set_status_gl_all [of "\<lambda>_. v"]
  show ?thesis by (auto simp: set_upto_u32)
qed

text \<open>The two bandwidth tests set every status word to a pass before they look at the skip list, so a
  bandwidth test the user listed is not run and yet is counted as passed.\<close>

theorem all_pe_test_user_skip_passes:
  assumes "quiet_peers hw" "my_index hw s = Some (me, s1)" "me < val_pe_get_num s" "1 < val_pe_get_num s"
    and "unat (val_pe_get_num s) \<le> shared_size s"
    and "length (g_skip_test_num (gl s)) = MAX_TEST_SKIP_NUM"
    and "n \<in> set (g_skip_test_num (gl s))" "n < 0x1000"
  shows "\<exists>t. all_pe_test hw pool n desc s = Some (ACS_STATUS_PASS, t) \<and>
     g_acs_tests_pass (gl t) = g_acs_tests_pass (gl s) + 1"
proof -
  let ?k = "val_pe_get_num s"
  have me: "unat me < shared_size s" using assms(3,5) by (simp add: word_less_nat_alt)
  from initialize_test_run [OF assms(2,5) me assms(6), of n desc] assms(7) obtain t where
    t: "val_initialize_test hw n desc ?k s = Some (ACS_STATUS_SKIP, t)"
       "gl t = (gl s)\<lparr>g_acs_tests_total := g_acs_tests_total (gl s) + 1\<rparr>"
       "shared_size t = shared_size s" by auto
  from set_all_status [of ?k t "RESULT_PASS n 1"] assms(5) t(3) obtain u where
    u: "for_each (\<lambda>i. val_set_status i (RESULT_PASS n 1)) (upto_u32 ?k) t = Some u" "gl u = gl t"
       "shared_size u = shared_size s" "\<forall>j. j < ?k \<longrightarrow> status_word j u = RESULT_PASS n 1" by auto
  obtain t1 where m: "my_index hw u = Some (me, t1)" using my_index_cong_gl assms(2) t(2) u(2) by metis
  have k: "?k \<noteq> 1" "?k \<noteq> 0" using assms(4) by auto
  have pass: "IS_TEST_PASS (RESULT_PASS n 1)" "\<not> IS_TEST_FAIL_SKIP (RESULT_PASS n 1)"
    using small_results_classified(1,2) [of n 1] assms(8) by simp_all
  have "find (\<lambda>i. IS_TEST_FAIL_SKIP (status_word i u)) (upto_u32 ?k) = None"
    using u(4) pass(2) by (simp add: find_None_iff set_upto_u32)
  moreover have "?k - 1 < ?k" using k(2) by (simp add: word_less_1 measure_unat word_less_nat_alt)
  ultimately have "deciding_word ?k u = RESULT_PASS n 1" using u(4) k(2) by (simp add: deciding_word_def)
  with check_for_error_word [OF assms(1) m k(1), of n] assms(5) u(3) obtain v where
    "val_check_for_error hw n ?k u = Some (verdict (RESULT_PASS n 1) v)" "gl v = gl u" by auto
  with t u(1,2) pass(1) show ?thesis
    by (simp add: all_pe_test_def verdict_simps count_pass_def Let_def)
qed

lemma all_pe_test_user_skip_passes_witness:
  "\<exists>t. all_pe_test (ram_hw (\<lambda>_. 0) 0) (\<lambda>_ _. None) 42 ''x''
        (two_pe_world\<lparr>gl := (gl two_pe_world)\<lparr>g_skip_test_num := [42, 10000, 10000]\<rparr>\<rparr>) =
      Some (ACS_STATUS_PASS, t) \<and> g_acs_tests_pass (gl t) = 1"
proof -
  let ?s = "two_pe_world\<lparr>gl := (gl two_pe_world)\<lparr>g_skip_test_num := [42, 10000, 10000]\<rparr>\<rparr>"
  have "my_index (ram_hw (\<lambda>_. 0) 0) ?s = Some (0, log_io (SysRead ''arm64_read_mpidr'') ?s)"
    by (rule my_index_eq) (simp add: affx_def val_pe_get_index_mpid_def two_pe_world_def)
  from all_pe_test_user_skip_passes [OF _ this, of 42 "\<lambda>_ _. None" "''x''"]
  show ?thesis by (auto simp: shared_size_def two_pe_world_def MAX_TEST_SKIP_NUM_def val_pe_get_num_def)
qed

subsection \<open>Modules\<close>

definition counters :: "world \<Rightarrow> u32 \<times> u32 \<times> u32" where
  "counters s = (g_acs_tests_total (gl s), g_acs_tests_pass (gl s), g_acs_tests_fail (gl s))"

definition keeps_counters :: "pool \<Rightarrow> bool" where
  "keeps_counters pool \<longleftrightarrow> (\<forall>n s t. pool n s = Some t \<longrightarrow> counters t = counters s)"

text \<open>What one run of a test does to the three counters.\<close>

definition counted :: "u32 \<Rightarrow> world \<Rightarrow> world \<Rightarrow> bool" where
  "counted r s t \<longleftrightarrow> r \<in> {ACS_STATUS_PASS, ACS_STATUS_SKIP, ACS_STATUS_FAIL} \<and>
     counters t = (g_acs_tests_total (gl s) + 1,
       g_acs_tests_pass (gl s) + (if r = ACS_STATUS_PASS then 1 else 0),
       g_acs_tests_fail (gl s) + (if r = ACS_STATUS_FAIL then 1 else 0))"

lemma counters_cong: "gl s = gl t \<Longrightarrow> counters s = counters t"
  by (simp add: counters_def)

lemma initialize_test_counters:
  assumes "val_initialize_test hw n desc k s = Some (r, t)"
  shows "counters t = (g_acs_tests_total (gl s) + 1, g_acs_tests_pass (gl s), g_acs_tests_fail (gl s))"
proof -
  obtain me s1 where m: "my_index hw s = Some (me, s1)"
    using assms by (auto simp: val_initialize_test_def Option.bind_eq_Some_conv)
  let ?u = "val_pe_initialize_default_exception_handler hw
         (val_report_status 0 (ACS_TEST_START n) (val_print ACS_PRINT_TEST desc 0
            (val_print ACS_PRINT_ERR ''%4d : '' (ucast n) s1)))"
  let ?v = "?u\<lparr>gl := (gl ?u)\<lparr>g_acs_tests_total := g_acs_tests_total (gl ?u) + 1\<rparr>\<rparr>"
  obtain v where v: "for_each (\<lambda>i. val_set_status i (RESULT_PENDING n)) (upto_u32 k) ?v = Some v"
      "gl t = gl v"
    using assms m by (auto simp: val_initialize_test_def Option.bind_eq_Some_conv Let_def split: if_splits
        dest!: val_set_status_run(1))
  then show ?thesis
    using set_status_gl_all [OF v(1)] val_pe_frame(1) [OF m] by (simp add: counters_def)
qed

lemma verdict_counted:
  assumes "(r, t) = verdict st u"
  shows "r \<in> {ACS_STATUS_PASS, ACS_STATUS_SKIP, ACS_STATUS_FAIL}"
    "counters t = (g_acs_tests_total (gl u),
       g_acs_tests_pass (gl u) + (if r = ACS_STATUS_PASS then 1 else 0),
       g_acs_tests_fail (gl u) + (if r = ACS_STATUS_FAIL then 1 else 0))"
  using assms by (auto simp: verdict_def counters_def count_pass_def count_fail_def split: if_splits)

lemma check_for_error_counted:
  assumes "val_check_for_error hw n k s = Some (r, t)"
    and "counters s = (g_acs_tests_total (gl s0) + 1, g_acs_tests_pass (gl s0), g_acs_tests_fail (gl s0))"
  shows "counted r s0 t"
proof -
  from check_for_error_counts [OF assms(1)] obtain st u where u: "gl u = gl s" "(r, t) = verdict st u"
    by blast
  from verdict_counted [OF u(2)] u(1) assms(2) show ?thesis by (auto simp: counted_def counters_def)
qed

lemma single_pe_test_counted:
  assumes "keeps_counters pool" "single_pe_test hw pool n desc s = Some (r, t)"
  shows "counted r s t"
proof -
  obtain st u v w where i: "val_initialize_test hw n desc 1 s = Some (st, u)"
    and p: "(if st \<noteq> ACS_STATUS_SKIP then val_run_test_payload hw n 1 0 (pool n) 0 u else Some u) = Some v"
    and e: "val_check_for_error hw n 1 v = Some (r, w)" "t = val_report_status 0 (ACS_TEST_END n) w"
    using assms(2) by (auto simp: single_pe_test_def Option.bind_eq_Some_conv)
  have "counters v = counters u"
    using p assms(1)
    by (auto simp: val_run_test_payload_def Option.bind_eq_Some_conv keeps_counters_def split: if_splits
        dest!: val_pe_frame(1) counters_cong)
  with initialize_test_counters [OF i] e show ?thesis
    using check_for_error_counted [OF e(1)] by (simp add: counted_def counters_def)
qed

lemma all_pe_test_counted:
  assumes "keeps_counters pool" "all_pe_test hw pool n desc s = Some (r, t)"
  shows "counted r s t"
proof -
  obtain st u u' v where i: "val_initialize_test hw n desc (val_pe_get_num s) s = Some (st, u)"
    and a: "for_each (\<lambda>i. val_set_status i (RESULT_PASS n 1)) (upto_u32 (val_pe_get_num s)) u = Some u'"
    and p: "(if st \<noteq> ACS_STATUS_SKIP then pool n u' else Some u') = Some v"
    and e: "val_check_for_error hw n (val_pe_get_num s) v = Some (r, t)"
    using assms(2) by (auto simp: all_pe_test_def Option.bind_eq_Some_conv Let_def)
  have "counters v = counters u"
    using p assms(1) counters_cong [OF set_status_gl_all [OF a]]
    by (auto simp: keeps_counters_def split: if_splits)
  with initialize_test_counters [OF i] show ?thesis
    using check_for_error_counted [OF e] by simp
qed

text \<open>The worst of a list of verdicts: this is what or-ing their codes gives.\<close>

definition worst :: "u32 list \<Rightarrow> u32" where
  "worst rs = (if ACS_STATUS_FAIL \<in> set rs then ACS_STATUS_FAIL
               else if ACS_STATUS_SKIP \<in> set rs then ACS_STATUS_SKIP else ACS_STATUS_PASS)"

lemma fold_or_worst:
  assumes "set rs \<subseteq> {ACS_STATUS_PASS, ACS_STATUS_SKIP, ACS_STATUS_FAIL}"
  shows "foldr (OR) rs 0 = worst rs"
  using assms
proof (induction rs)
  case Nil
  then show ?case by (simp add: worst_def reg_defs)
next
  case (Cons r rs)
  have "r OR worst rs = worst (r # rs)"
    using Cons.prems by (auto simp: worst_def ACS_STATUS_PASS_def ACS_STATUS_SKIP_def ACS_STATUS_FAIL_def)
  with Cons show ?case by simp
qed

text \<open>
  A payload may do what it likes with the devices, but it leaves alone the counters, the tables,
  the skip list and the size of the shared memory, and from the states \<open>R\<close> it comes back. The
  states \<open>R\<close> are those in which the suite is set up; what the payload leaves alone has to be
  enough to stay in them.
\<close>

definition same_suite :: "world \<Rightarrow> world \<Rightarrow> bool" where
  "same_suite s t \<longleftrightarrow> g_pe_info_table (gl t) = g_pe_info_table (gl s) \<and>
     g_gic_info_table (gl t) = g_gic_info_table (gl s) \<and>
     g_mpam_info_table (gl t) = g_mpam_info_table (gl s) \<and>
     g_skip_test_num (gl t) = g_skip_test_num (gl s) \<and> shared_size t = shared_size s"

definition ready :: "hw \<Rightarrow> world \<Rightarrow> bool" where
  "ready hw s \<longleftrightarrow> (\<exists>me s1. my_index hw s = Some (me, s1) \<and> unat me < shared_size s) \<and>
     length (g_skip_test_num (gl s)) = MAX_TEST_SKIP_NUM"

definition set_up :: "hw \<Rightarrow> (world \<Rightarrow> bool) \<Rightarrow> bool" where
  "set_up hw R \<longleftrightarrow> (\<forall>s. R s \<longrightarrow> ready hw s) \<and> (\<forall>s t. R s \<longrightarrow> same_suite s t \<longrightarrow> R t)"

definition good_pool :: "(world \<Rightarrow> bool) \<Rightarrow> u32 set \<Rightarrow> pool \<Rightarrow> bool" where
  "good_pool R ns pool \<longleftrightarrow>
     (\<forall>n\<in>ns. \<forall>s. R s \<longrightarrow> returns (\<lambda>t. same_suite s t \<and> counters t = counters s) (pool n s))"

lemma same_suite_refl [simp]: "same_suite s s" by (simp add: same_suite_def)

lemma same_suite_trans: "same_suite s t \<Longrightarrow> same_suite t u \<Longrightarrow> same_suite s u"
  by (simp add: same_suite_def)

lemma my_index_same:
  assumes "my_index hw s = Some (me, s1)" "g_pe_info_table (gl t) = g_pe_info_table (gl s)"
  shows "my_index hw t = Some (me, log_io (SysRead ''arm64_read_mpidr'') t)"
  using assms by (auto simp: my_index_def val_pe_get_mpid_def val_pe_get_index_mpid_def Option.bind_eq_Some_conv)

lemma ready_same:
  assumes "ready hw s" "same_suite s t"
  shows "ready hw t"
proof -
  obtain me s1 where "my_index hw s = Some (me, s1)" "unat me < shared_size s"
    using assms(1) by (auto simp: ready_def)
  then show ?thesis using my_index_same [of hw s me s1 t] assms by (auto simp: ready_def same_suite_def)
qed

lemma set_up_ready: "set_up hw (ready hw)"
  using ready_same by (auto simp: set_up_def)

lemma verdict_same: "(r, t) = verdict st u \<Longrightarrow> shared_size u = shared_size s \<Longrightarrow> gl u = gl s \<Longrightarrow> same_suite s t"
  by (auto simp: verdict_def count_pass_def count_fail_def same_suite_def shared_size_def split: if_splits)

text \<open>What a test entry does from the states \<open>R\<close>.\<close>

definition runs_counted :: "(world \<Rightarrow> bool) \<Rightarrow> (world \<Rightarrow> (u32 \<times> world) option) \<Rightarrow> bool" where
  "runs_counted R T \<longleftrightarrow> (\<forall>s. R s \<longrightarrow> returns (\<lambda>(r, t). same_suite s t \<and> counted r s t) (T s))"

lemma single_pe_test_runs:
  assumes "quiet_peers hw" "good_pool R ns pool" "n \<in> ns" "set_up hw R"
  shows "runs_counted R (single_pe_test hw pool n desc)"
  unfolding runs_counted_def
proof (intro allI impI)
  fix s
  assume s: "R s"
  obtain me s1 where me: "my_index hw s = Some (me, s1)" "unat me < shared_size s"
    "length (g_skip_test_num (gl s)) = MAX_TEST_SKIP_NUM" using s assms(4) by (auto simp: ready_def set_up_def)
  have "unat (1 :: u32) \<le> shared_size s" using me(2) by simp
  from initialize_test_run [OF me(1) this me(2,3), of n desc] obtain st t where
    t: "val_initialize_test hw n desc 1 s = Some (st, t)" "same_suite s t"
    by (auto simp: same_suite_def)
  have lg: "shared_size (log_io e x) = shared_size x" for e and x :: world by (rule shared_size_cong) simp
  have mt: "my_index hw t = Some (me, log_io (SysRead ''arm64_read_mpidr'') t)"
    using my_index_same [OF me(1)] t(2) by (simp add: same_suite_def)
  have "same_suite s (log_io (SysRead ''arm64_read_mpidr'') t)" using t(2) by (simp add: same_suite_def lg)
  then have "R (log_io (SysRead ''arm64_read_mpidr'') t)" using assms(4) s by (auto simp: set_up_def)
  then have "returns (\<lambda>u. same_suite (log_io (SysRead ''arm64_read_mpidr'') t) u \<and>
      counters u = counters (log_io (SysRead ''arm64_read_mpidr'') t)) (pool n (log_io (SysRead ''arm64_read_mpidr'') t))"
    using assms(2,3) by (simp add: good_pool_def)
  then obtain u where u: "pool n (log_io (SysRead ''arm64_read_mpidr'') t) = Some u"
    "same_suite (log_io (SysRead ''arm64_read_mpidr'') t) u" "counters u = counters t"
    by (auto elim!: returnsE simp: counters_def)
  obtain v where v: "(if st \<noteq> ACS_STATUS_SKIP then val_run_test_payload hw n 1 0 (pool n) 0 t else Some t) = Some v"
    "same_suite s v" "counters v = counters t"
    using u mt t(2) by (cases "st = ACS_STATUS_SKIP") (simp_all add: val_run_test_payload_def same_suite_def lg)
  have mv: "my_index hw v = Some (me, log_io (SysRead ''arm64_read_mpidr'') v)"
    using my_index_same [OF me(1)] v(2) by (simp add: same_suite_def)
  have "unat me < shared_size v" using me(2) v(2) by (simp add: same_suite_def)
  from check_for_error_single [OF assms(1) mv this, of n] obtain w r x where
    w: "val_check_for_error hw n 1 v = Some (r, x)" "(r, x) = verdict (status_word me v) w" "gl w = gl v"
      "shared_size x = shared_size v" by blast
  have c: "counted r s x"
    using check_for_error_counted [OF w(1)] v(3) initialize_test_counters [OF t(1)] by simp
  have "g_pe_info_table (gl x) = g_pe_info_table (gl w) \<and> g_gic_info_table (gl x) = g_gic_info_table (gl w) \<and>
     g_mpam_info_table (gl x) = g_mpam_info_table (gl w) \<and> g_skip_test_num (gl x) = g_skip_test_num (gl w)"
    using verdict_same [OF w(2) refl refl] by (simp add: same_suite_def)
  then have "same_suite s (val_report_status 0 (ACS_TEST_END n) x)"
    using v(2) w(3,4) by (simp add: same_suite_def shared_size_def)
  then show "returns (\<lambda>(r, t). same_suite s t \<and> counted r s t) (single_pe_test hw pool n desc s)"
    using t(1) v(1) w(1) c by (simp add: single_pe_test_def counted_def counters_def)
qed

lemma or_tests_runs:
  assumes "set_up hw R" "\<forall>T\<in>set ts. runs_counted R T" "R s"
  shows "\<exists>rs t. or_tests ts st0 s = Some (st0 OR foldr (OR) rs 0, t) \<and> length rs = length ts \<and>
     set rs \<subseteq> {ACS_STATUS_PASS, ACS_STATUS_SKIP, ACS_STATUS_FAIL} \<and> same_suite s t \<and>
     counters t = (g_acs_tests_total (gl s) + of_nat (length rs),
       g_acs_tests_pass (gl s) + of_nat (count_list rs ACS_STATUS_PASS),
       g_acs_tests_fail (gl s) + of_nat (count_list rs ACS_STATUS_FAIL))"
  using assms(2,3)
proof (induction ts arbitrary: st0 s)
  case Nil
  then show ?case by (simp add: counters_def)
next
  case (Cons T ts)
  then obtain r u where u: "T s = Some (r, u)" "same_suite s u" "counted r s u"
    by (auto simp: runs_counted_def returns_def)
  have "R u" using assms(1) Cons.prems(2) u(2) by (auto simp: set_up_def)
  from Cons.IH [OF _ this, of "st0 OR r"] Cons.prems(1) obtain rs t where
    rs: "or_tests ts (st0 OR r) u = Some ((st0 OR r) OR foldr (OR) rs 0, t)" "length rs = length ts"
      "set rs \<subseteq> {ACS_STATUS_PASS, ACS_STATUS_SKIP, ACS_STATUS_FAIL}" "same_suite u t"
      "counters t = (g_acs_tests_total (gl u) + of_nat (length rs),
         g_acs_tests_pass (gl u) + of_nat (count_list rs ACS_STATUS_PASS),
         g_acs_tests_fail (gl u) + of_nat (count_list rs ACS_STATUS_FAIL))" by auto
  show ?case
    using rs u same_suite_trans [OF u(2) rs(4)]
    by (intro exI [of _ "r # rs"] exI [of _ t]) (auto simp: counted_def counters_def or.assoc)
qed

lemma module_not_skipped:
  assumes "length (g_skip_test_num (gl s)) = MAX_TEST_SKIP_NUM" "b \<notin> set (g_skip_test_num (gl s))"
  shows "module_skipped b msg s run = run"
  using assms by (simp add: module_skipped_def skip_listed_def Let_def)

text \<open>Unless the user skipped it, the interrupt module runs to its end, its status is the worst
  verdict of its eight tests, and the counters move by exactly the verdicts: eight tests, one
  pass for each pass, one failure for each failure.\<close>

theorem interrupts_status_counts:
  assumes "quiet_peers hw" "good_pool R {31..38} pool" "set_up hw R" "R s" "30 \<notin> set (g_skip_test_num (gl s))"
  shows "\<exists>st t rs. val_interrupts_execute_tests hw pool k s = Some (st, t) \<and>
       length rs = 8 \<and> set rs \<subseteq> {ACS_STATUS_PASS, ACS_STATUS_SKIP, ACS_STATUS_FAIL} \<and>
       st = worst rs \<and>
       g_acs_tests_total (gl t) = g_acs_tests_total (gl s) + 8 \<and>
       g_acs_tests_pass (gl t) = g_acs_tests_pass (gl s) + of_nat (count_list rs ACS_STATUS_PASS) \<and>
       g_acs_tests_fail (gl t) = g_acs_tests_fail (gl s) + of_nat (count_list rs ACS_STATUS_FAIL)"
proof -
  let ?ts = "[testi001_entry hw pool, testi002_entry hw pool, testi003_entry hw pool,
       testi004_entry hw pool, testi005_entry hw pool, testi006_entry hw pool,
       testi007_entry hw pool, testi008_entry hw pool]"
  have "\<forall>T\<in>set ?ts. runs_counted R T"
    using single_pe_test_runs [OF assms(1,2) _ assms(3)]
    by (simp add: entry_defs ACS_INTR_TEST_NUM_BASE_def)
  from or_tests_runs [OF assms(3) this assms(4), of 0] obtain rs v where
    rs: "or_tests ?ts 0 s = Some (foldr (OR) rs 0, v)" "length rs = 8"
      "set rs \<subseteq> {ACS_STATUS_PASS, ACS_STATUS_SKIP, ACS_STATUS_FAIL}"
      "counters v = (g_acs_tests_total (gl s) + of_nat (length rs),
         g_acs_tests_pass (gl s) + of_nat (count_list rs ACS_STATUS_PASS),
         g_acs_tests_fail (gl s) + of_nat (count_list rs ACS_STATUS_FAIL))" by auto
  have "ready hw s" using assms(3,4) by (simp add: set_up_def)
  then obtain t where t: "val_interrupts_execute_tests hw pool k s = Some (worst rs, t)" "gl t = gl v"
    using rs(1) assms(5) fold_or_worst [OF rs(3)]
    by (simp add: val_interrupts_execute_tests_def module_not_skipped ready_def
        ACS_INTR_TEST_NUM_BASE_def module_verdict_def del: or_tests.simps)
  then show ?thesis using rs(2-4)
    by (intro exI [of _ "worst rs"] exI [of _ t] exI [of _ rs]) (simp add: counters_def)
qed

text \<open>The first payload stores whether there are nodes.\<close>

definition no_nodes :: "mpam_info \<Rightarrow> bool" where
  "no_nodes m \<longleftrightarrow> num_cache_nodes m + num_memory_nodes m = 0"

lemma payload_c001_word:
  assumes "my_index hw s = Some (me, s1)" "unat me < shared_size s"
    and "g_mpam_info_table (gl s) = Some tbl" "unat me < length tbl"
  shows "\<exists>t. payload_c001 hw s = Some t \<and> gl t = gl s \<and> shared_size t = shared_size s \<and>
     status_word me t = (if no_nodes (tbl ! unat me) then RESULT_FAIL 1 1 else RESULT_PASS 1 1)"
proof -
  let ?r = "log_io (SysRead ''arm64_read_mpidr'') :: world \<Rightarrow> world"
  let ?m = "tbl ! unat me"
  have idx: "my_index hw u = Some (me, ?r u)" if "gl u = gl s" for u
    by (rule my_index_same [OF assms(1)]) (simp add: that)
  have num: "val_node_get_total hw MPAM_NODE_CACHE u = Some (num_cache_nodes ?m, ?r u)"
      "val_node_get_total hw MPAM_NODE_MEMORY u = Some (num_memory_nodes ?m, ?r u)" if "gl u = gl s" for u
    using assms(3,4) idx [OF that]
    by (simp_all add: val_node_get_total_def that at_def MPAM_NODE_CACHE_def MPAM_NODE_MEMORY_def)
  let ?u = "if no_nodes ?m then val_print ACS_PRINT_ERR ''Zero MPAM suported nodes in the system'' 0 (?r (?r (?r s)))
    else ?r (?r (?r s))"
  let ?v = "if no_nodes ?m then RESULT_FAIL 1 1 else RESULT_PASS 1 1"
  have sz: "shared_size ?u = shared_size s" by (rule shared_size_cong) simp
  then have "unat me < shared_size ?u" using assms(2) by simp
  then obtain t where t: "val_set_status me ?v ?u = Some t" using val_set_status_defined [of me ?v ?u] by blast
  then have "payload_c001 hw s = Some t"
    by (auto simp: payload_c001_def idx num no_nodes_def ACS_CACHE_TEST_NUM_BASE_def)
  then show ?thesis using val_set_status_run [OF t] sz by auto
qed

lemma first_test_run:
  assumes "quiet_peers hw" "my_index hw s = Some (me, s1)" "unat me < shared_size s"
    and "length (g_skip_test_num (gl s)) = MAX_TEST_SKIP_NUM"
    and "g_mpam_info_table (gl s) = Some tbl" "unat me < length tbl"
  shows "\<exists>t. testc001_entry hw s =
       Some (if no_nodes (tbl ! unat me) then ACS_STATUS_FAIL else ACS_STATUS_PASS, t) \<and> same_suite s t \<and>
     counters t = (g_acs_tests_total (gl s) + 1,
       g_acs_tests_pass (gl s) + (if no_nodes (tbl ! unat me) then 0 else 1),
       g_acs_tests_fail (gl s) + (if no_nodes (tbl ! unat me) then 1 else 0))"
proof -
  let ?v = "if no_nodes (tbl ! unat me) then RESULT_FAIL 1 1 else RESULT_PASS 1 1"
  have one: "unat (1 :: u32) \<le> shared_size s" using assms(3) by simp
  from initialize_test_run [OF assms(2) one assms(3,4), of 1 "''Check MPAM node presence          ''"]
  obtain r t where t: "val_initialize_test hw 1 ''Check MPAM node presence          '' 1 s = Some (r, t)"
       "gl t = (gl s)\<lparr>g_acs_tests_total := g_acs_tests_total (gl s) + 1\<rparr>"
       "shared_size t = shared_size s" by auto
  have idx: "my_index hw u = Some (me, log_io (SysRead ''arm64_read_mpidr'') u)" if "gl u = gl t" for u
    by (rule my_index_same [OF assms(2)]) (simp add: that t(2))
  let ?t1 = "log_io (SysRead ''arm64_read_mpidr'') t"
  have sz1: "shared_size ?t1 = shared_size s" using t(3) by (simp add: shared_size_def)
  obtain t5 where t5: "payload_c001 hw ?t1 = Some t5" "gl t5 = gl t" "shared_size t5 = shared_size s"
     "status_word me t5 = ?v"
    using payload_c001_word [OF idx, of ?t1 tbl] assms(3,5,6) t(2) sz1 by auto
  have run: "val_run_test_payload hw 1 1 0 (payload_c001 hw) 0 t = Some t5"
    using idx [OF refl] t5(1) by (simp add: val_run_test_payload_def)
  have me5: "unat me < shared_size t5" using t5(3) assms(3) by simp
  from check_for_error_single [OF assms(1) idx [OF t5(2)] me5, of 1] obtain w r' x where
    w: "val_check_for_error hw 1 1 t5 = Some (r', x)" "(r', x) = verdict ?v w" "gl w = gl t"
      "shared_size x = shared_size t5" using t5(2,4) by auto
  have c: "IS_TEST_PASS (RESULT_PASS 1 1)" "\<not> IS_TEST_PASS (RESULT_FAIL 1 1)" "\<not> IS_TEST_SKIP (RESULT_FAIL 1 1)"
    using small_results_classified [of 1 1] by simp_all
  then have x: "(r', x) = (if no_nodes (tbl ! unat me) then (ACS_STATUS_FAIL, count_fail w) else (ACS_STATUS_PASS, count_pass w))"
    using w(2) by (simp add: verdict_simps)
  have "testc001_entry hw s = Some (r', val_report_status 0 (ACS_TEST_END 1) x)"
    using t(1) run w(1) by (simp add: testc001_entry_def ACS_CACHE_TEST_NUM_BASE_def)
  moreover have "same_suite s (val_report_status 0 (ACS_TEST_END 1) x)"
    using w(4) t5(3) x w(3) t(2)
    by (auto simp: same_suite_def count_fail_def count_pass_def shared_size_def split: if_splits)
  ultimately show ?thesis
    using x w(3) t(2) by (auto simp: counters_def count_fail_def count_pass_def split: if_splits)
qed

text \<open>On a system without MPAM nodes the suite stops after its first test, which fails: whatever the
  other tests do, none of them runs, and the result is the exit code. Listing test 1 for
  skipping does not help, because its payload runs in any case.\<close>

theorem no_nodes_exit:
  assumes "quiet_peers hw" "my_index hw s = Some (me, s1)" "unat me < shared_size s" "1 \<le> shared_size s"
    and "length (g_skip_test_num (gl s)) = MAX_TEST_SKIP_NUM" "0 \<notin> set (g_skip_test_num (gl s))"
    and "g_mpam_info_table (gl s) = Some tbl" "unat me < length tbl"
    and "num_cache_nodes (tbl ! unat me) = 0" "num_memory_nodes (tbl ! unat me) = 0"
  shows "\<exists>t. (\<forall>pool. run_modules hw pool ACS_STATUS_PASS s = Some (ACS_STATUS_EXIT, t)) \<and>
     g_acs_tests_total (gl t) = g_acs_tests_total (gl s) + 1 \<and>
     g_acs_tests_pass (gl t) = g_acs_tests_pass (gl s) \<and>
     g_acs_tests_fail (gl t) = g_acs_tests_fail (gl s) + 1"
proof -
  have none: "no_nodes (tbl ! unat me)" using assms(9,10) by (simp add: no_nodes_def)
  obtain t where t: "testc001_entry hw s = Some (ACS_STATUS_FAIL, t)"
     "counters t = (g_acs_tests_total (gl s) + 1, g_acs_tests_pass (gl s), g_acs_tests_fail (gl s) + 1)"
    using first_test_run [OF assms(1-3,5,7,8)] none by auto
  have "skip_listed 0 s = Some False" using assms(5,6) by (simp add: skip_listed_def)
  then have "val_cache_execute_tests hw pool k s = Some (ACS_STATUS_EXIT, t)" for pool k
    using t(1) by (simp add: val_cache_execute_tests_def module_skipped_def ACS_CACHE_TEST_NUM_BASE_def)
  then show ?thesis
    using t(2) by (auto simp: run_modules_def ACS_STATUS_PASS_def counters_def)
qed

text \<open>A system whose MPAM table is there and empty.\<close>

definition no_node_world :: world where
  "no_node_world = two_pe_world\<lparr>gl := (gl two_pe_world)\<lparr>g_mpam_info_table := Some
     [\<lparr>num_cache_nodes = 0, num_memory_nodes = 0, cache_node = [], memory_node = []\<rparr>]\<rparr>\<rparr>"

lemma no_node_index:
  "my_index (ram_hw r 0) no_node_world = Some (0, log_io (SysRead ''arm64_read_mpidr'') no_node_world)"
  by (rule my_index_eq)
     (simp add: affx_def val_pe_get_index_mpid_def no_node_world_def two_pe_world_def)

lemma no_nodes_exit_witness:
  "\<exists>t. run_modules (ram_hw (\<lambda>_. 0) 0) (\<lambda>_ _. None) ACS_STATUS_PASS no_node_world =
      Some (ACS_STATUS_EXIT, t) \<and> g_acs_tests_fail (gl t) = 1"
proof -
  from no_nodes_exit [OF _ no_node_index]
  show ?thesis by (fastforce simp: shared_size_def no_node_world_def two_pe_world_def MAX_TEST_SKIP_NUM_def)
qed

lemma interrupts_status_counts_witness:
  "\<exists>st t. val_interrupts_execute_tests (ram_hw (\<lambda>_. 0) 0) (\<lambda>_. Some) 2 no_node_world = Some (st, t) \<and>
     g_acs_tests_total (gl t) = 8"
proof -
  have "good_pool (ready (ram_hw (\<lambda>_. 0) 0)) {31..38} (\<lambda>_. Some)" by (simp add: good_pool_def)
  moreover have "ready (ram_hw (\<lambda>_. 0) 0) no_node_world"
    using no_node_index [of "\<lambda>_. 0"]
    by (auto simp: ready_def shared_size_def no_node_world_def two_pe_world_def MAX_TEST_SKIP_NUM_def)
  ultimately show ?thesis
    using interrupts_status_counts [OF _ _ set_up_ready, of "ram_hw (\<lambda>_. 0) 0" "\<lambda>_. Some" no_node_world 2]
    by (auto simp: no_node_world_def two_pe_world_def)
qed

subsection \<open>The skip list\<close>

text \<open>The fields of a comma-separated argument.\<close>

fun join :: "string list \<Rightarrow> string" where
  "join [] = []"
| "join [f] = f"
| "join (f # fs) = f @ CHR '','' # join fs"

lemma parse_skip_field:
  assumes "CHR '','' \<notin> set f"
  shows "parse_skip d cmd (f @ r) j xs =
    parse_skip d cmd r j (if f = [] then xs else xs[0 := ucast (d cmd)])"
  using assms
  by (induction f arbitrary: xs) (auto simp: Let_def)

lemma parse_skip_fields:
  assumes "\<forall>f\<in>set (f # fs). CHR '','' \<notin> set f" "0 < j \<or> join (f # fs) \<noteq> []"
    and "\<And>f r. CHR '','' \<notin> set f \<Longrightarrow> d (f @ CHR '','' # r) = d f"
    and "j < length xs" "0 < j \<Longrightarrow> xs ! 0 = ucast (d cmd)"
  shows "parse_skip d cmd (join (f # fs)) j xs =
     (if j + length fs < length xs
      then Some (take (Suc j) (xs[0 := ucast (d cmd)]) @ map (\<lambda>f. ucast (d f)) fs @ drop (Suc j + length fs) xs)
      else None)"
  using assms
proof (induction fs arbitrary: f j xs)
  case Nil
  let ?xs = "xs[0 := ucast (d cmd)]"
  have "(if f = [] then xs else ?xs) = ?xs"
  proof (cases "f = []")
    case True
    then have "xs ! 0 = ucast (d cmd)" using Nil.prems(2,5) by simp
    then show ?thesis by (metis list_update_id)
  qed simp
  then have "parse_skip d cmd (f @ []) j xs = Some ?xs"
    using Nil.prems(1) by (subst parse_skip_field) auto
  moreover have "take (Suc j) ?xs @ drop (Suc j) xs = ?xs"
    using Nil.prems(4) by (intro nth_equalityI) (auto simp: nth_append nth_list_update)
  ultimately show ?case using Nil.prems(4) by simp
next
  case (Cons g fs)
  let ?xs = "xs[0 := ucast (d cmd)]"
  have hd: "?xs ! 0 = ucast (d cmd)" using Cons.prems(4) by (cases xs) auto
  let ?ys = "?xs[Suc j := ucast (d g)]"
  have x0: "(if f = [] then xs else ?xs)[0 := ucast (d cmd)] = ?xs" by simp
  have dg: "d (join (g # fs)) = d g" using Cons.prems(1,3) by (cases fs) auto
  have step: "parse_skip d cmd (join (f # g # fs)) j xs =
      (if Suc j < length xs then parse_skip d cmd (join (g # fs)) (Suc j) ?ys else None)"
    using Cons.prems(1) by (simp add: parse_skip_field x0 dg Let_def)
  show ?case
  proof (cases "Suc j < length xs")
    case True
    have "parse_skip d cmd (join (g # fs)) (Suc j) ?ys =
       (if Suc j + length fs < length ?ys
        then Some (take (Suc (Suc j)) (?ys[0 := ucast (d cmd)]) @ map (\<lambda>f. ucast (d f)) fs @
                   drop (Suc (Suc j) + length fs) ?ys) else None)"
      by (rule Cons.IH) (use Cons.prems True hd in auto)
    moreover have "?ys[0 := ucast (d cmd)] = ?ys" by (simp add: list_update_swap)
    moreover have "take (Suc (Suc j)) ?ys = take (Suc j) ?xs @ [ucast (d g)]"
      using True by (subst take_Suc_conv_app_nth) (simp_all del: take_Suc)
    ultimately show ?thesis using step True by simp
  next
    case False
    then show ?thesis using step by simp
  qed
qed

text \<open>The numbers after -skip, separated by commas, fill the skip list from its first entry and the
  entries that are left keep their value; with more numbers than the list has entries the
  code writes past the end of the array.\<close>

theorem skip_list_parsed:
  assumes "\<forall>f\<in>set (f # fs). CHR '','' \<notin> set f" "join (f # fs) \<noteq> []"
    and "\<And>f r. CHR '','' \<notin> set f \<Longrightarrow> d (f @ CHR '','' # r) = d f"
    and "length xs = MAX_TEST_SKIP_NUM"
  shows "parse_skip d (join (f # fs)) (join (f # fs)) 0 xs =
     (if length (f # fs) \<le> MAX_TEST_SKIP_NUM
      then Some (map (\<lambda>f. ucast (d f)) (f # fs) @ drop (length (f # fs)) xs)
      else None)"
proof -
  have len: "length xs = 3" using assms(4) by (simp add: MAX_TEST_SKIP_NUM_def)
  have "d (join (f # fs)) = d f" using assms(1,3) by (cases fs) auto
  moreover have "take (Suc 0) (xs[0 := x]) = [x]" for x using len by (cases xs) auto
  ultimately show ?thesis
    using parse_skip_fields [OF assms(1) disjI2 [OF assms(2)] assms(3), of 0 xs "join (f # fs)"] len
    by (simp add: MAX_TEST_SKIP_NUM_def less_Suc_eq_le Suc_le_eq)
qed

text \<open>A decimal conversion that stops at the first character that is not a digit.\<close>

fun dec_from :: "u64 \<Rightarrow> string \<Rightarrow> u64" where
  "dec_from a [] = a"
| "dec_from a (c # r) =
     (if CHR ''0'' \<le> c \<and> c \<le> CHR ''9'' then dec_from (10 * a + of_nat (of_char c - 48)) r else a)"

lemma dec_from_field: "CHR '','' \<notin> set f \<Longrightarrow> dec_from a (f @ CHR '','' # r) = dec_from a f"
  by (induction f arbitrary: a) (auto simp: less_eq_char_def)

lemma skip_list_parsed_witness:
  "parse_skip (dec_from 0) ''31,42'' ''31,42'' 0 [10000, 10000, 10000] = Some [31, 42, 10000]"
proof -
  have "parse_skip (dec_from 0) (join [''31'', ''42'']) (join [''31'', ''42'']) 0 [10000, 10000, 10000] =
     (if length [''31'', ''42''] \<le> MAX_TEST_SKIP_NUM
      then Some (map (\<lambda>f. ucast (dec_from 0 f)) [''31'', ''42''] @ drop (length [''31'', ''42'']) [10000, 10000, 10000])
      else None)"
    by (rule skip_list_parsed) (simp_all add: dec_from_field MAX_TEST_SKIP_NUM_def)
  then show ?thesis by (simp add: MAX_TEST_SKIP_NUM_def less_eq_char_def)
qed

end
