(* ===== verification/Mpam_Irq_Tests.thy ===== *)
theory Mpam_Irq_Tests
  imports Mpam_Suite
begin

text \<open>
  The payloads of the interrupt tests (test_pool/interrupts/test_i001.c to test_i008.c). Each
  walks over the nodes, and for every node it is meant for installs a handler, sets this PE's
  status word to pending, provokes an error in the component, and polls the word until the
  handler has replaced it or TIMEOUT_LARGE polls have passed.

  When the PE takes an interrupt is a parameter: \<open>irq h i\<close> says whether interrupt \<open>i\<close> is taken
  after the history \<open>h\<close>. It can be taken right after the error was provoked and before every
  poll; the handler then runs to its end. \<open>fvp\<close> is the build option MPAM_SIMULATION_FVP. The
  file-level variables node_type, node_index and intr_num are arguments of the handler.
\<close>

type_synonym irqs = "history \<Rightarrow> u32 \<Rightarrow> bool"

subsection \<open>What the tests share\<close>

text \<open>The handler: a word for this PE, the error code cleared, \<open>restore\<close>, and the end of the interrupt.\<close>

definition intr_handler ::
    "hw \<Rightarrow> u32 \<Rightarrow> string \<Rightarrow> u32 \<Rightarrow> (world \<Rightarrow> world) \<Rightarrow> u8 \<Rightarrow> u32 \<Rightarrow> u32 \<Rightarrow> world \<Rightarrow> world option" where
  "intr_handler hw lvl msg word restore node_type node_index intr_num s =
     do { (pe_index, s) \<leftarrow> my_index hw s;
          let s = val_print lvl msg (ucast intr_num) s;
          s \<leftarrow> val_set_status pe_index word s;
          s \<leftarrow> val_node_clear_intr hw node_type node_index s;
          let s = restore s;
          Some (snd (val_gic_end_of_interrupt hw intr_num s)) }"

definition take_irq :: "irqs \<Rightarrow> u32 \<Rightarrow> (world \<Rightarrow> world option) \<Rightarrow> world \<Rightarrow> world option" where
  "take_irq irq intr_num isr s = (if irq (io s) intr_num then isr s else Some s)"

text \<open>\<open>while ((--timeout > 0) && IS_RESULT_PENDING(val_get_status(pe_index)))\<close>, with the value
  timeout has afterwards.\<close>

fun poll_status ::
    "hw \<Rightarrow> irqs \<Rightarrow> u32 \<Rightarrow> (world \<Rightarrow> world option) \<Rightarrow> u32 \<Rightarrow> nat \<Rightarrow> world \<Rightarrow> (nat \<times> world) option" where
  "poll_status hw irq intr_num isr pe_index 0 s = Some (0, s)"
| "poll_status hw irq intr_num isr pe_index (Suc timeout) s =
     (if timeout > 0
      then do { s \<leftarrow> take_irq irq intr_num isr s;
                (st, s) \<leftarrow> val_get_status hw pe_index s;
                if IS_RESULT_PENDING st then poll_status hw irq intr_num isr pe_index timeout s
                else Some (timeout, s) }
      else Some (0, s))"

text \<open>Installing the handler, routing the interrupt to this PE, and the pending word; a handler
  that cannot be installed fails the test.\<close>

definition arm_interrupt :: "hw \<Rightarrow> u32 \<Rightarrow> u32 \<Rightarrow> u32 \<Rightarrow> world \<Rightarrow> (bool \<times> world) option" where
  "arm_interrupt hw n pe_index intr_num s =
     do { (r, s) \<leftarrow> val_gic_install_isr hw intr_num s;
          if r = ACS_STATUS_ERR
          then do { s \<leftarrow> val_set_status pe_index (RESULT_FAIL n 2) s; Some (False, s) }
          else do { (m, s) \<leftarrow> val_pe_get_mpid_index pe_index s;
                    (_, s) \<leftarrow> val_gic_route_interrupt_to_pe intr_num m s;
                    s \<leftarrow> val_set_status pe_index (RESULT_PENDING n) s;
                    Some (True, s) } }"

definition await_interrupt ::
    "bool \<Rightarrow> irqs \<Rightarrow> hw \<Rightarrow> u32 \<Rightarrow> u32 \<Rightarrow> (world \<Rightarrow> world option) \<Rightarrow> world \<Rightarrow> (nat \<times> world) option" where
  "await_interrupt fvp irq hw pe_index intr_num isr s =
     do { s \<leftarrow> take_irq irq intr_num isr s;
          s \<leftarrow> val_gic_write_ispendreg fvp intr_num s;
          poll_status hw irq intr_num isr pe_index (unat TIMEOUT_LARGE) s }"

text \<open>How the visit of a node ends: it is passed over, the test goes on, or the payload returns.\<close>

datatype visit = Passed_over | Visited | Returned

text \<open>The visit of a node that is not passed over. The tests differ in the handler, in the error
  they provoke (\<open>gen\<close>, which may end the test) and in what counts as lost (\<open>lost\<close>).\<close>

definition irq_visit ::
    "bool \<Rightarrow> irqs \<Rightarrow> hw \<Rightarrow> u32 \<Rightarrow> u32 \<Rightarrow> u8 \<Rightarrow> u32 \<Rightarrow> u32 \<Rightarrow> (world \<Rightarrow> world option) \<Rightarrow>
     (world \<Rightarrow> (bool \<times> world) option) \<Rightarrow> (nat \<Rightarrow> world \<Rightarrow> (bool \<times> world) option) \<Rightarrow> world \<Rightarrow> (visit \<times> world) option"
where
  "irq_visit fvp irq hw n pe_index node_type node_index intr_num isr gen lost s =
     do { (ok, s) \<leftarrow> arm_interrupt hw n pe_index intr_num s;
          if \<not> ok then Some (Returned, s)
          else do {
            (go, s) \<leftarrow> gen s;
            if \<not> go then Some (Returned, s)
            else do {
              (timeout, s) \<leftarrow> await_interrupt fvp irq hw pe_index intr_num isr s;
              s \<leftarrow> val_node_restore_ecr hw node_type node_index s;
              (bad, s) \<leftarrow> lost timeout s;
              if bad
              then do { s \<leftarrow> val_set_status pe_index (RESULT_FAIL n 2) s; Some (Returned, s) }
              else Some (Visited, s) } } }"

text \<open>The interrupt has not come.\<close>

definition not_received :: "string \<Rightarrow> u32 \<Rightarrow> nat \<Rightarrow> world \<Rightarrow> (bool \<times> world) option" where
  "not_received msg intr_num timeout s =
     (if timeout = 0 then Some (True, val_print ACS_PRINT_ERR msg (ucast intr_num) s) else Some (False, s))"

text \<open>The loop over all nodes: the caches, and after them the memories. The number of caches is
  asked for again in every round. \<open>None\<close> says that the payload has returned.\<close>

definition node_of_index :: "hw \<Rightarrow> u32 \<Rightarrow> world \<Rightarrow> ((u8 \<times> u32) \<times> world) option" where
  "node_of_index hw index s =
     do { (nc, s) \<leftarrow> val_node_get_total hw MPAM_NODE_CACHE s;
          if index \<ge> nc
          then do { (nc, s) \<leftarrow> val_node_get_total hw MPAM_NODE_CACHE s;
                    Some ((MPAM_NODE_MEMORY, index - nc), s) }
          else Some ((MPAM_NODE_CACHE, index), s) }"

fun irq_loop ::
    "hw \<Rightarrow> (u8 \<Rightarrow> u32 \<Rightarrow> world \<Rightarrow> (visit \<times> world) option) \<Rightarrow> u32 list \<Rightarrow> u32 \<Rightarrow> world \<Rightarrow> (u32 option \<times> world) option"
where
  "irq_loop hw visit [] intr_count s = Some (Some intr_count, s)"
| "irq_loop hw visit (index # is') intr_count s =
     do { ((node_type, node_index), s) \<leftarrow> node_of_index hw index s;
          (v, s) \<leftarrow> visit node_type node_index s;
          case v of
            Passed_over \<Rightarrow> irq_loop hw visit is' intr_count s
          | Visited \<Rightarrow> irq_loop hw visit is' (intr_count + 1) s
          | Returned \<Rightarrow> Some (None, s) }"

text \<open>The result when the loop has ended: a skip when no node was visited.\<close>

definition irq_result :: "u32 \<Rightarrow> u32 \<Rightarrow> u32 option \<Rightarrow> world \<Rightarrow> world option" where
  "irq_result n pe_index r s =
     (case r of None \<Rightarrow> Some s
      | Some intr_count \<Rightarrow>
          val_set_status pe_index (if intr_count = 0 then RESULT_SKIP n 0 else RESULT_PASS n 1) s)"

text \<open>\<open>start\<close> is what is read before the loop.\<close>

definition irq_payload ::
    "hw \<Rightarrow> u32 \<Rightarrow> (world \<Rightarrow> u64 \<times> world) \<Rightarrow>
     (u64 \<Rightarrow> u32 \<Rightarrow> u8 \<Rightarrow> u32 \<Rightarrow> world \<Rightarrow> (visit \<times> world) option) \<Rightarrow> world \<Rightarrow> world option" where
  "irq_payload hw n start visit s =
     do { (pe_index, s) \<leftarrow> my_index hw s;
          (nc, s) \<leftarrow> val_node_get_total hw MPAM_NODE_CACHE s;
          (nm, s) \<leftarrow> val_node_get_total hw MPAM_NODE_MEMORY s;
          let (saved, s) = start s;
          (r, s) \<leftarrow> irq_loop hw (visit saved pe_index) (upto_u32 (nc + nm)) 0 s;
          irq_result n pe_index r s }"

subsection \<open>The tests\<close>

abbreviation TEST_I :: "u32 \<Rightarrow> u32" where "TEST_I k \<equiv> ACS_INTR_TEST_NUM_BASE + k"

text \<open>Test 1: level-sensitive error interrupts. The type is kept in 8 bits.\<close>

definition visit_i001 :: "bool \<Rightarrow> irqs \<Rightarrow> hw \<Rightarrow> u64 \<Rightarrow> u32 \<Rightarrow> u8 \<Rightarrow> u32 \<Rightarrow> world \<Rightarrow> (visit \<times> world) option" where
  "visit_i001 fvp irq hw saved pe_index node_type node_index s =
     do { (intr_num, s) \<leftarrow> val_node_get_error_intrnum hw node_type node_index s;
          (intr_type, s) \<leftarrow> val_node_get_error_intrtype hw node_type node_index s;
          if intr_num = 0 \<or> (ucast intr_type :: u8) = ucast INTR_EDGE_TRIGGER then Some (Passed_over, s)
          else irq_visit fvp irq hw (TEST_I 1) pe_index node_type node_index intr_num
            (intr_handler hw ACS_PRINT_DEBUG ''Received MSC Err interrupt %d'' (RESULT_PASS (TEST_I 1) 1)
               (\<lambda>s. s) node_type node_index intr_num)
            (\<lambda>s. do { s \<leftarrow> val_node_trigger_intr hw node_type node_index
                        (val_print ACS_PRINT_DEBUG ''Triggering MSC Error interrupt %d'' (ucast intr_num) s);
                      Some (True, s) })
            (not_received ''MSC Err Interrupt not received on %d'' intr_num) s }"

definition payload_i001 :: "bool \<Rightarrow> irqs \<Rightarrow> hw \<Rightarrow> world \<Rightarrow> world option" where
  "payload_i001 fvp irq hw = irq_payload hw (TEST_I 1) (\<lambda>s. (0, s)) (visit_i001 fvp irq hw)"

text \<open>Test 2: the same error must not raise an edge-triggered interrupt, so the handler records a
  failure, and an interrupt that has come in time is one. The status word is read once more.\<close>

definition visit_i002 :: "bool \<Rightarrow> irqs \<Rightarrow> hw \<Rightarrow> u64 \<Rightarrow> u32 \<Rightarrow> u8 \<Rightarrow> u32 \<Rightarrow> world \<Rightarrow> (visit \<times> world) option" where
  "visit_i002 fvp irq hw saved pe_index node_type node_index s =
     do { (intr_num, s) \<leftarrow> val_node_get_error_intrnum hw node_type node_index s;
          (intr_type, s) \<leftarrow> val_node_get_error_intrtype hw node_type node_index s;
          if intr_num = 0 \<or> (ucast intr_type :: u8) = ucast INTR_LEVEL_TRIGGER then Some (Passed_over, s)
          else irq_visit fvp irq hw (TEST_I 2) pe_index node_type node_index intr_num
            (intr_handler hw ACS_PRINT_ERR ''Received unexpected edge-trigger interrupt %d''
               (RESULT_FAIL (TEST_I 2) 2) (\<lambda>s. s) node_type node_index intr_num)
            (\<lambda>s. do { s \<leftarrow> val_node_trigger_intr hw node_type node_index s; Some (True, s) })
            (\<lambda>timeout s. if timeout \<noteq> 0
               then do { (st, s) \<leftarrow> val_get_status hw pe_index s; Some (\<not> IS_RESULT_PENDING st, s) }
               else Some (False, s)) s }"

definition payload_i002 :: "bool \<Rightarrow> irqs \<Rightarrow> hw \<Rightarrow> world \<Rightarrow> world option" where
  "payload_i002 fvp irq hw = irq_payload hw (TEST_I 2) (\<lambda>s. (0, s)) (visit_i002 fvp irq hw)"

text \<open>Test 3: a PARTID selection out of range.\<close>

definition visit_i003 :: "bool \<Rightarrow> irqs \<Rightarrow> hw \<Rightarrow> u64 \<Rightarrow> u32 \<Rightarrow> u8 \<Rightarrow> u32 \<Rightarrow> world \<Rightarrow> (visit \<times> world) option" where
  "visit_i003 fvp irq hw saved pe_index node_type node_index s =
     do { (intr_num, s) \<leftarrow> val_node_get_error_intrnum hw node_type node_index s;
          if intr_num = 0 then Some (Passed_over, s)
          else irq_visit fvp irq hw (TEST_I 3) pe_index node_type node_index intr_num
            (intr_handler hw ACS_PRINT_DEBUG ''Received PSR Err interrupt %d'' (RESULT_PASS (TEST_I 3) 1)
               (\<lambda>s. s) node_type node_index intr_num)
            (\<lambda>s. do { s \<leftarrow> val_node_generate_psr_error hw node_type node_index s; Some (True, s) })
            (not_received ''MSC PSR Err Interrupt not received on %d'' intr_num) s }"

definition payload_i003 :: "bool \<Rightarrow> irqs \<Rightarrow> hw \<Rightarrow> world \<Rightarrow> world option" where
  "payload_i003 fvp irq hw = irq_payload hw (TEST_I 3) (\<lambda>s. (0, s)) (visit_i003 fvp irq hw)"

text \<open>The number of monitors of a node, as tests 4 and 7 read it.\<close>

definition monitors_of :: "hw \<Rightarrow> u8 \<Rightarrow> u32 \<Rightarrow> world \<Rightarrow> (u16 \<times> world) option" where
  "monitors_of hw node_type node_index s =
     do { (m, s) \<leftarrow> val_node_supports_mon hw node_type node_index s;
          if m \<noteq> 0
          then if node_type = MPAM_NODE_CACHE
               then do { (c, s) \<leftarrow> val_cache_supports_csumon hw node_index s;
                         if c \<noteq> 0 then val_cache_mon_count hw node_index s else Some (0, s) }
               else if node_type = MPAM_NODE_MEMORY
               then do { (c, s) \<leftarrow> val_memory_supports_mbwumon hw node_index s;
                         if c \<noteq> 0 then val_memory_mon_count hw node_index s else Some (0, s) }
               else Some (0, s)
          else Some (0, s) }"

text \<open>Test 4: a monitor selection out of range.\<close>

definition visit_i004 :: "bool \<Rightarrow> irqs \<Rightarrow> hw \<Rightarrow> u64 \<Rightarrow> u32 \<Rightarrow> u8 \<Rightarrow> u32 \<Rightarrow> world \<Rightarrow> (visit \<times> world) option" where
  "visit_i004 fvp irq hw saved pe_index node_type node_index s =
     do { (intr_num, s) \<leftarrow> val_node_get_error_intrnum hw node_type node_index s;
          (mon_count, s) \<leftarrow> monitors_of hw node_type node_index s;
          if intr_num = 0 \<or> mon_count = 0 then Some (Passed_over, s)
          else irq_visit fvp irq hw (TEST_I 4) pe_index node_type node_index intr_num
            (intr_handler hw ACS_PRINT_DEBUG ''Received MSR Err interrupt %d'' (RESULT_PASS (TEST_I 4) 1)
               (\<lambda>s. s) node_type node_index intr_num)
            (\<lambda>s. do { s \<leftarrow> val_node_generate_msr_error hw node_type node_index mon_count s; Some (True, s) })
            (not_received ''MSC PSR Err Interrupt not received on %d'' intr_num) s }"

definition payload_i004 :: "bool \<Rightarrow> irqs \<Rightarrow> hw \<Rightarrow> world \<Rightarrow> world option" where
  "payload_i004 fvp irq hw = irq_payload hw (TEST_I 4) (\<lambda>s. (0, s)) (visit_i004 fvp irq hw)"

text \<open>Tests 5 and 6: a PARTID and a PMG that the component does not have. When the component's
  range exceeds that of the PE the test ends as skipped.\<close>

definition or_skip :: "u32 \<Rightarrow> u32 \<Rightarrow> string \<Rightarrow> (world \<Rightarrow> world) \<Rightarrow> u32 \<times> world \<Rightarrow> (bool \<times> world) option" where
  "or_skip n pe_index msg restore r =
     (case r of (st, s) \<Rightarrow>
        if st = ACS_STATUS_SKIP
        then do { s \<leftarrow> val_set_status pe_index (RESULT_SKIP n 2) (val_print ACS_PRINT_WARN msg 0 (restore s));
                  Some (False, s) }
        else Some (True, s))"

definition visit_i005 :: "bool \<Rightarrow> irqs \<Rightarrow> hw \<Rightarrow> u64 \<Rightarrow> u32 \<Rightarrow> u8 \<Rightarrow> u32 \<Rightarrow> world \<Rightarrow> (visit \<times> world) option" where
  "visit_i005 fvp irq hw saved pe_index node_type node_index s =
     do { (intr_num, s) \<leftarrow> val_node_get_error_intrnum hw node_type node_index s;
          if intr_num = 0 then Some (Passed_over, s)
          else irq_visit fvp irq hw (TEST_I 5) pe_index node_type node_index intr_num
            (intr_handler hw ACS_PRINT_DEBUG ''Received PSR Err interrupt %d'' (RESULT_PASS (TEST_I 5) 1)
               (\<lambda>s. s) node_type node_index intr_num)
            (\<lambda>s. do { r \<leftarrow> val_node_generate_por_error hw node_type node_index s;
                      or_skip (TEST_I 5) pe_index ''MSC PARTID range exceeds PE PARTID range'' (\<lambda>s. s) r })
            (not_received ''MSC POR Err Interrupt not received on %d'' intr_num) s }"

definition payload_i005 :: "bool \<Rightarrow> irqs \<Rightarrow> hw \<Rightarrow> world \<Rightarrow> world option" where
  "payload_i005 fvp irq hw = irq_payload hw (TEST_I 5) (\<lambda>s. (0, s)) (visit_i005 fvp irq hw)"

text \<open>Test 6 puts MPAM2_EL2 back in the handler and on the way out.\<close>

definition visit_i006 :: "bool \<Rightarrow> irqs \<Rightarrow> hw \<Rightarrow> u64 \<Rightarrow> u32 \<Rightarrow> u8 \<Rightarrow> u32 \<Rightarrow> world \<Rightarrow> (visit \<times> world) option" where
  "visit_i006 fvp irq hw saved pe_index node_type node_index s =
     do { (intr_num, s) \<leftarrow> val_node_get_error_intrnum hw node_type node_index s;
          if intr_num = 0 then Some (Passed_over, s)
          else irq_visit fvp irq hw (TEST_I 6) pe_index node_type node_index intr_num
            (intr_handler hw ACS_PRINT_DEBUG ''Received PSR Err interrupt %d'' (RESULT_PASS (TEST_I 6) 1)
               (val_sysreg_write MPAM2_SYSREG saved) node_type node_index intr_num)
            (\<lambda>s. do { r \<leftarrow> val_node_generate_pmgor_error hw node_type node_index s;
                      or_skip (TEST_I 6) pe_index ''MSC PMG range exceeds PE PMG range''
                        (val_sysreg_write MPAM2_SYSREG saved) r })
            (\<lambda>timeout s. not_received ''MSC PMGOR Err Interrupt not received on %d'' intr_num timeout
               (val_sysreg_write MPAM2_SYSREG saved s)) s }"

definition payload_i006 :: "bool \<Rightarrow> irqs \<Rightarrow> hw \<Rightarrow> world \<Rightarrow> world option" where
  "payload_i006 fvp irq hw = irq_payload hw (TEST_I 6) (val_sysreg_read hw MPAM2_SYSREG) (visit_i006 fvp irq hw)"

text \<open>Test 7: a monitor configured for a PARTID out of range.\<close>

definition visit_i007 :: "bool \<Rightarrow> irqs \<Rightarrow> hw \<Rightarrow> u64 \<Rightarrow> u32 \<Rightarrow> u8 \<Rightarrow> u32 \<Rightarrow> world \<Rightarrow> (visit \<times> world) option" where
  "visit_i007 fvp irq hw saved pe_index node_type node_index s =
     do { (intr_num, s) \<leftarrow> val_node_get_error_intrnum hw node_type node_index s;
          (mon_count, s) \<leftarrow> monitors_of hw node_type node_index s;
          if intr_num = 0 \<or> mon_count = 0 then Some (Passed_over, s)
          else irq_visit fvp irq hw (TEST_I 7) pe_index node_type node_index intr_num
            (intr_handler hw ACS_PRINT_DEBUG ''Received MSMON oor Err interrupt %d'' (RESULT_PASS (TEST_I 7) 1)
               (\<lambda>s. s) node_type node_index intr_num)
            (\<lambda>s. do { s \<leftarrow> val_node_generate_msmon_config_error hw node_type node_index mon_count s;
                      Some (True, s) })
            (not_received ''MSC MSMON oor Err Interrupt not received on %d'' intr_num) s }"

definition payload_i007 :: "bool \<Rightarrow> irqs \<Rightarrow> hw \<Rightarrow> world \<Rightarrow> world option" where
  "payload_i007 fvp irq hw = irq_payload hw (TEST_I 7) (\<lambda>s. (0, s)) (visit_i007 fvp irq hw)"

text \<open>
  Test 8: overflow of a bandwidth monitor. The loop counts index, but every call is given the
  file-level node_index, which nothing sets: it is 0 in every round. mon_count has no initial
  value and is set only when the node has monitors; \<open>None\<close> is the unset variable.
\<close>

definition oflow_monitors :: "hw \<Rightarrow> u16 option \<Rightarrow> world \<Rightarrow> (u16 option \<times> world) option" where
  "oflow_monitors hw mon_count s =
     do { (m, s) \<leftarrow> val_node_supports_mon hw MPAM_NODE_MEMORY 0 s;
          if m \<noteq> 0
          then do { (c, s) \<leftarrow> val_memory_supports_mbwumon hw 0 s;
                    if c \<noteq> 0
                    then do { (k, s) \<leftarrow> val_memory_mon_count hw 0 s; Some (Some k, s) }
                    else Some (Some 0, s) }
          else Some (mon_count, s) }"

fun oflow_loop ::
    "bool \<Rightarrow> irqs \<Rightarrow> hw \<Rightarrow> u32 \<Rightarrow> u32 list \<Rightarrow> u16 option \<Rightarrow> u32 \<Rightarrow> world \<Rightarrow> (u32 option \<times> world) option" where
  "oflow_loop fvp irq hw pe_index [] mon_count intr_count s = Some (Some intr_count, s)"
| "oflow_loop fvp irq hw pe_index (index # is') mon_count intr_count s =
     do { (intr_num, s) \<leftarrow> val_node_get_oflow_intrnum hw MPAM_NODE_MEMORY 0 s;
          (mon_count, s) \<leftarrow> oflow_monitors hw mon_count s;
          if intr_num = 0 then oflow_loop fvp irq hw pe_index is' mon_count intr_count s
          else do {
            k \<leftarrow> mon_count;
            if k = 0 then oflow_loop fvp irq hw pe_index is' mon_count intr_count s
            else do {
              (v, s) \<leftarrow> irq_visit fvp irq hw (TEST_I 8) pe_index MPAM_NODE_MEMORY 0 intr_num
                (intr_handler hw ACS_PRINT_DEBUG ''Received Oflow error interrupt %d'' (RESULT_PASS (TEST_I 8) 1)
                   (\<lambda>s. s) MPAM_NODE_MEMORY 0 intr_num)
                (\<lambda>s. do { s \<leftarrow> val_node_generate_msmon_oflow_error hw 0 k s; Some (True, s) })
                (not_received ''MSC MSMON oor Err Interrupt not received on %d'' intr_num) s;
              if v = Returned then Some (None, s)
              else oflow_loop fvp irq hw pe_index is' mon_count (intr_count + 1) s } } }"

text \<open>MPAM2_EL2 is put back on every way out.\<close>

definition payload_i008 :: "bool \<Rightarrow> irqs \<Rightarrow> hw \<Rightarrow> world \<Rightarrow> world option" where
  "payload_i008 fvp irq hw s =
     do { (pe_index, s) \<leftarrow> my_index hw s;
          (total_nodes, s) \<leftarrow> val_node_get_total hw MPAM_NODE_MEMORY s;
          let (mpam2_el2, s) = val_sysreg_read hw MPAM2_SYSREG s;
          let s = val_sysreg_write MPAM2_SYSREG
                    (mpam2_traffic (ucast DEFAULT_PMG) DEFAULT_PMG mpam2_el2) s;
          (r, s) \<leftarrow> oflow_loop fvp irq hw pe_index (upto_u32 total_nodes) None 0 s;
          irq_result (TEST_I 8) pe_index r (val_sysreg_write MPAM2_SYSREG mpam2_el2 s) }"

text \<open>The payloads by test number, with those of the other modules from \<open>other\<close>.\<close>

definition irq_pool :: "bool \<Rightarrow> irqs \<Rightarrow> hw \<Rightarrow> pool \<Rightarrow> pool" where
  "irq_pool fvp irq hw other n =
     (if n = TEST_I 1 then payload_i001 fvp irq hw
      else if n = TEST_I 2 then payload_i002 fvp irq hw
      else if n = TEST_I 3 then payload_i003 fvp irq hw
      else if n = TEST_I 4 then payload_i004 fvp irq hw
      else if n = TEST_I 5 then payload_i005 fvp irq hw
      else if n = TEST_I 6 then payload_i006 fvp irq hw
      else if n = TEST_I 7 then payload_i007 fvp irq hw
      else if n = TEST_I 8 then payload_i008 fvp irq hw
      else other n)"

subsection \<open>The machine the tests run on\<close>

text \<open>
  This PE has the index \<open>me\<close>, an entry in the PE table, a shared entry, and the row \<open>m\<close> of the
  node table, whose counts are right; the distributor is at \<open>b\<close>; and the memory nodes have room
  for the buffers of test 8.
\<close>

definition test_env :: "hw \<Rightarrow> world \<Rightarrow> u32 \<Rightarrow> mpam_info \<Rightarrow> u64 \<Rightarrow> bool" where
  "test_env hw w me m b \<longleftrightarrow>
     my_index hw w = Some (me, log_io (SysRead ''arm64_read_mpidr'') w) \<and> unat me < shared_size w \<and>
     (\<exists>t. g_pe_info_table (gl w) = Some t \<and> unat me < length (pe_info t)) \<and>
     (\<exists>tbl. g_mpam_info_table (gl w) = Some tbl \<and> unat me < length tbl \<and> tbl ! unat me = m) \<and>
     unat (num_cache_nodes m) = length (cache_node m) \<and> unat (num_memory_nodes m) = length (memory_node m) \<and>
     length (cache_node m) + length (memory_node m) < 2 ^ 32 \<and>
     (\<forall>e\<in>set (memory_node m). TWO_MB \<le> mlength e) \<and> gicd_at b w"

text \<open>The state is \<open>w\<close> but for devices, console and err_ctrl_reg, and this PE's word is \<open>v\<close>.\<close>

definition kept :: "world \<Rightarrow> u32 \<Rightarrow> u32 \<Rightarrow> world \<Rightarrow> bool" where
  "kept w me v s \<longleftrightarrow> (gl s)\<lparr>err_ctrl_reg := 0\<rparr> = (gl w)\<lparr>err_ctrl_reg := 0\<rparr> \<and>
     shared_size s = shared_size w \<and> status_word me s = v"

definition node_exists :: "mpam_info \<Rightarrow> u8 \<Rightarrow> u32 \<Rightarrow> bool" where
  "node_exists m ty i \<longleftrightarrow> (ty = MPAM_NODE_CACHE \<longrightarrow> unat i < length (cache_node m)) \<and>
     (ty = MPAM_NODE_MEMORY \<longrightarrow> unat i < length (memory_node m))"

lemma kept_same: "gl t = gl s \<Longrightarrow> shared t = shared s \<Longrightarrow> kept w me v t = kept w me v s"
  using status_word_cong [of t s me] shared_size_cong [of t s] by (simp add: kept_def)

lemma kept_tables:
  assumes "kept w me v s"
  shows "g_pe_info_table (gl s) = g_pe_info_table (gl w)" "g_gic_info_table (gl s) = g_gic_info_table (gl w)"
    "g_mpam_info_table (gl s) = g_mpam_info_table (gl w)" "g_skip_test_num (gl s) = g_skip_test_num (gl w)"
    "counters s = counters w" "shared_size s = shared_size w"
proof -
  have e: "f ((gl s)\<lparr>err_ctrl_reg := 0\<rparr>) = f ((gl w)\<lparr>err_ctrl_reg := 0\<rparr>)" for f :: "globals \<Rightarrow> 'c"
    using assms by (simp add: kept_def)
  show "g_pe_info_table (gl s) = g_pe_info_table (gl w)" using e [of g_pe_info_table] by simp
  show "g_gic_info_table (gl s) = g_gic_info_table (gl w)" using e [of g_gic_info_table] by simp
  show "g_mpam_info_table (gl s) = g_mpam_info_table (gl w)" using e [of g_mpam_info_table] by simp
  show "g_skip_test_num (gl s) = g_skip_test_num (gl w)" using e [of g_skip_test_num] by simp
  show "counters s = counters w"
    using e [of g_acs_tests_total] e [of g_acs_tests_pass] e [of g_acs_tests_fail] by (simp add: counters_def)
  show "shared_size s = shared_size w" using assms by (simp add: kept_def)
qed

lemma kept_refl: "kept w me (status_word me w) w"
  by (simp add: kept_def)

lemma kept_pure [simp]:
  "kept w me v (log_io e s) = kept w me v s"
  "kept w me v (val_print l x a s) = kept w me v s"
  "kept w me v (acs_print l x c s) = kept w me v s"
  "kept w me v (val_mmio_write r d s) = kept w me v s"
  "kept w me v (snd (val_mmio_read hw r s)) = kept w me v s"
  "kept w me v (snd (firmware hw f args s)) = kept w me v s"
  "kept w me v (enable_inten r s) = kept w me v s"
  "kept w me v (val_report_status i st s) = kept w me v s"
  by (rule kept_same; simp add: enable_inten_def)+

lemma kept_ecr [simp]: "kept w me v (save_ecr hw r s) = kept w me v s"
proof -
  have "shared (save_ecr hw r s) = shared s" by (simp add: save_ecr_def set_err_ctrl_def split_beta Let_def)
  then show ?thesis
    using status_word_cong [of "save_ecr hw r s" s me] shared_size_cong [of "save_ecr hw r s" s]
    by (auto simp: kept_def)
qed

lemma kept_sysreg [simp]:
  "kept w me v (val_sysreg_write r x s) = kept w me v s"
  "kept w me v (snd (val_sysreg_read hw r s)) = kept w me v s"
  by (rule kept_same; simp add: val_sysreg_write_def val_sysreg_read_def write_sysreg_def read_sysreg_def
      split: sysreg_mpam_t.split)+

lemma kept_bufs [simp]:
  "kept w me v (snd (val_allocate_buf hw n s)) = kept w me v s"
  "kept w me v (val_free_buf hw x n s) = kept w me v s"
  "kept w me v (val_mem_copy y z n s) = kept w me v s"
  by (simp_all add: val_allocate_buf_def pal_mem_allocate_buf_def val_free_buf_def pal_mem_free_buf_def
      val_mem_copy_def pal_mem_copy_def split_beta Let_def)

lemma kept_por [simp]: "kept w me v (por_traffic hw s) = kept w me v s"
  by (simp add: por_traffic_def split_beta Let_def)

subsection \<open>Every operation of the tests returns\<close>

lemma my_index_wp [wp]:
  assumes "test_env hw w me m b" "kept w me v s"
  shows "returns (\<lambda>(i, t). i = me \<and> kept w me v t) (my_index hw s)"
  using my_index_same [OF _ kept_tables(1) [OF assms(2)]] assms by (auto simp: test_env_def)

lemma node_lookup_wp [wp]:
  assumes "test_env hw w me m b" "kept w me v s" "node_exists m ty i"
  shows "returns (\<lambda>(x, t). kept w me v t \<and>
      x = (if ty = MPAM_NODE_CACHE then fc (cache_node m ! unat i)
           else if ty = MPAM_NODE_MEMORY then fm (memory_node m ! unat i) else z))
    (node_lookup hw a z fc fm ty i s)"
  using my_index_same [OF _ kept_tables(1) [OF assms(2)]] kept_tables(3) [OF assms(2)] assms
  by (auto simp: test_env_def node_lookup_def node_exists_def)

lemma node_total_wp [wp]:
  assumes "test_env hw w me m b" "kept w me v s"
  shows "returns (\<lambda>(x, t). kept w me v t \<and> x = num_cache_nodes m) (val_node_get_total hw MPAM_NODE_CACHE s)"
    "returns (\<lambda>(x, t). kept w me v t \<and> x = num_memory_nodes m) (val_node_get_total hw MPAM_NODE_MEMORY s)"
  using my_index_same [OF _ kept_tables(1) [OF assms(2)]] kept_tables(3) [OF assms(2)] assms
  by (auto simp: test_env_def val_node_get_total_def MPAM_NODE_MEMORY_def MPAM_NODE_CACHE_def)

lemma hwreg_base_wp [wp]:
  assumes "test_env hw w me m b" "kept w me v s" "node_exists m ty i"
  shows "returns (\<lambda>(x, t). kept w me v t) (val_node_hwreg_base hw ty i s)"
  unfolding val_node_hwreg_base_def by (rule returns_mono [OF node_lookup_wp [OF assms]]) auto

lemma node_read_wp [wp]:
  assumes "test_env hw w me m b" "kept w me v s" "node_exists m ty i"
  shows "returns (\<lambda>(x, t). kept w me v t) (node_read hw ty i r s)"
  unfolding node_read_def by (rule returns_seq_pair [OF hwreg_base_wp [OF assms]]) (simp add: split_beta)

lemma node_queries_wp [wp]:
  assumes "test_env hw w me m b" "kept w me v s" "node_exists m ty i"
  shows "returns (\<lambda>(x, t). kept w me v t) (val_node_get_partid hw ty i s)"
    "returns (\<lambda>(x, t). kept w me v t) (val_node_get_pmg hw ty i s)"
    "returns (\<lambda>(x, t). kept w me v t) (val_node_supports_mon hw ty i s)"
  unfolding val_node_get_partid_def val_node_get_pmg_def val_node_supports_mon_def
  by (rule returns_seq_pair [OF node_read_wp [OF assms]]; simp)+

lemma intr_num_wp [wp]:
  assumes "test_env hw w me m b" "kept w me v s" "node_exists m ty i"
  shows "returns (\<lambda>(x, t). kept w me v t \<and>
      x = (if ty = MPAM_NODE_CACHE then error_intr_num (cn_intr (cache_node m ! unat i))
           else if ty = MPAM_NODE_MEMORY then error_intr_num (mn_intr (memory_node m ! unat i)) else 0))
    (val_node_get_error_intrnum hw ty i s)"
    "returns (\<lambda>(x, t). kept w me v t \<and>
      x = (if ty = MPAM_NODE_CACHE then error_intr_type (cn_intr (cache_node m ! unat i))
           else if ty = MPAM_NODE_MEMORY then error_intr_type (mn_intr (memory_node m ! unat i)) else 0))
    (val_node_get_error_intrtype hw ty i s)"
  unfolding val_node_get_error_intrnum_def val_node_get_error_intrtype_def
  by (rule node_lookup_wp [OF assms])+

lemma read_if_wp [wp]:
  assumes "test_env hw w me m b" "kept w me v s" "node_exists m ty i"
    and "\<And>s. kept w me v s \<Longrightarrow> returns (\<lambda>(x, t). kept w me v t) (f s)"
  shows "returns (\<lambda>(x, t). kept w me v t) (read_if hw ty i f r sh k s)"
  unfolding read_if_def
  by (rule returns_seq_pair [OF hwreg_base_wp [OF assms(1-3)]],
      rule returns_seq_pair [OF assms(4)]) (simp_all add: split_beta Let_def)

lemma monitor_counts_wp [wp]:
  assumes "test_env hw w me m b" "kept w me v s"
  shows "node_exists m MPAM_NODE_CACHE i \<Longrightarrow> returns (\<lambda>(x, t). kept w me v t) (val_cache_supports_csumon hw i s)"
    "node_exists m MPAM_NODE_CACHE i \<Longrightarrow> returns (\<lambda>(x, t). kept w me v t) (val_cache_mon_count hw i s)"
    "node_exists m MPAM_NODE_MEMORY i \<Longrightarrow> returns (\<lambda>(x, t). kept w me v t) (val_memory_supports_mbwumon hw i s)"
    "node_exists m MPAM_NODE_MEMORY i \<Longrightarrow> returns (\<lambda>(x, t). kept w me v t) (val_memory_mon_count hw i s)"
proof -
  note r = read_if_wp [OF assms(1) _ _ node_queries_wp(3) [OF assms(1)]]
  have c: "returns (\<lambda>(x, t). kept w me v t) (val_cache_supports_csumon hw i s)"
    if "node_exists m MPAM_NODE_CACHE i" "kept w me v s" for s
    unfolding val_cache_supports_csumon_def
    by (rule returns_seq_pair [OF r [OF that(2,1)]]) (use that in simp_all)
  have d: "returns (\<lambda>(x, t). kept w me v t) (val_memory_supports_mbwumon hw i s)"
    if "node_exists m MPAM_NODE_MEMORY i" "kept w me v s" for s
    unfolding val_memory_supports_mbwumon_def
    by (rule returns_seq_pair [OF r [OF that(2,1)]]) (use that in simp_all)
  show "node_exists m MPAM_NODE_CACHE i \<Longrightarrow> returns (\<lambda>(x, t). kept w me v t) (val_cache_supports_csumon hw i s)"
    by (rule c [OF _ assms(2)])
  show "node_exists m MPAM_NODE_MEMORY i \<Longrightarrow> returns (\<lambda>(x, t). kept w me v t) (val_memory_supports_mbwumon hw i s)"
    by (rule d [OF _ assms(2)])
  show "returns (\<lambda>(x, t). kept w me v t) (val_cache_mon_count hw i s)" if "node_exists m MPAM_NODE_CACHE i"
    unfolding val_cache_mon_count_def
    by (rule returns_seq_pair [OF read_if_wp [OF assms that c [OF that]]]) simp_all
  show "returns (\<lambda>(x, t). kept w me v t) (val_memory_mon_count hw i s)" if "node_exists m MPAM_NODE_MEMORY i"
    unfolding val_memory_mon_count_def
    by (rule returns_seq_pair [OF read_if_wp [OF assms that d [OF that]]]) simp_all
qed

lemma val_set_status_wp [wp]:
  assumes "test_env hw w me m b" "kept w me v s"
  shows "returns (kept w me x) (val_set_status me x s)"
proof -
  have "unat me < shared_size s" using assms by (simp add: test_env_def kept_def)
  then obtain t where t: "val_set_status me x s = Some t" using val_set_status_defined by blast
  with val_set_status_run [OF t] assms(2) show ?thesis by (simp add: kept_def)
qed

lemma val_get_status_wp [wp]:
  assumes "quiet_peers hw" "test_env hw w me m b" "kept w me v s"
  shows "returns (\<lambda>(x, t). x = v \<and> kept w me v t) (val_get_status hw me s)"
proof -
  have "unat me < shared_size s" using assms by (simp add: test_env_def kept_def)
  from val_get_status_quiet [OF assms(1) this] assms(3) show ?thesis by simp (simp add: kept_def)
qed

lemma ecr_ops_wp [wp]:
  assumes "test_env hw w me m b" "kept w me v s" "node_exists m ty i"
  shows "returns (kept w me v) (val_node_trigger_intr hw ty i s)"
    "returns (kept w me v) (val_node_clear_intr hw ty i s)"
    "returns (kept w me v) (val_node_restore_ecr hw ty i s)"
    "returns (kept w me v) (val_node_generate_msr_error hw ty i mc s)"
  unfolding val_node_trigger_intr_def val_node_clear_intr_def val_node_restore_ecr_def
    val_node_generate_msr_error_def
  by (rule returns_seq_pair [OF hwreg_base_wp [OF assms]]; simp add: Let_def)+

lemma partid_errors_wp [wp]:
  assumes "test_env hw w me m b" "kept w me v s" "node_exists m ty i"
  shows "returns (kept w me v) (val_node_generate_psr_error hw ty i s)"
    "returns (kept w me v) (val_node_generate_msmon_config_error hw ty i mc s)"
  unfolding val_node_generate_psr_error_def val_node_generate_msmon_config_error_def Let_def
  by (rule returns_seq_pair [OF hwreg_base_wp [OF assms]],
      rule returns_seq_pair [OF node_queries_wp(1) [OF assms(1) _ assms(3)]]; simp)+

lemma pe_range_errors_wp [wp]:
  assumes "test_env hw w me m b" "kept w me v s" "node_exists m ty i"
  shows "returns (\<lambda>(x, t). kept w me v t) (val_node_generate_por_error hw ty i s)"
    "returns (\<lambda>(x, t). kept w me v t) (val_node_generate_pmgor_error hw ty i s)"
  unfolding val_node_generate_por_error_def val_node_generate_pmgor_error_def Let_def split_beta
  by (rule returns_seq [OF hwreg_base_wp [OF assms]],
      rule returns_seq [OF node_queries_wp(1) [OF assms(1) _ assms(3)]]; force simp: split_beta)
    (rule returns_seq [OF hwreg_base_wp [OF assms]],
      rule returns_seq [OF node_queries_wp(2) [OF assms(1) _ assms(3)]]; force simp: split_beta)

lemma alloc_in_node_wp [wp]:
  assumes "test_env hw w me m b" "kept w me v s" "node_exists m MPAM_NODE_MEMORY i"
  shows "returns (\<lambda>(x, t). kept w me v t) (alloc_in_node hw i TWO_MB s)"
proof -
  let ?e = "memory_node m ! unat i"
  have "?e \<in> set (memory_node m)" using assms(3) by (simp add: node_exists_def)
  then have fits: "0 < TWO_MB" "TWO_MB \<le> mlength ?e" using assms(1) by (simp_all add: test_env_def TWO_MB_def)
  have al: "returns (\<lambda>(x, t). kept w me v t) (val_allocate_address hw base (mlength ?e) TWO_MB t)"
    if "kept w me v t" for base t
  proof -
    have "pal_mem_allocate_address hw base (mlength ?e) TWO_MB t \<noteq> None"
      using alloc_windows_total [OF fits, of hw None base t] by (auto simp: pal_mem_allocate_address_def)
    then obtain r u where r: "pal_mem_allocate_address hw base (mlength ?e) TWO_MB t = Some (r, u)"
      by (metis not_None_eq surj_pair)
    from pal_mem_allocate_address_frame [OF r] have "kept w me v u = kept w me v t"
      by (intro kept_same) simp_all
    with r that show ?thesis by (simp add: val_allocate_address_def)
  qed
  show ?thesis
    unfolding alloc_in_node_def val_memory_get_base_def val_memory_get_size_def
    by (rule returns_seq_pair [OF node_lookup_wp [OF assms]], elim conjE,
        rule returns_seq_pair [OF node_lookup_wp [OF assms(1) _ assms(3)]])
       (auto simp: MPAM_NODE_MEMORY_def MPAM_NODE_CACHE_def intro: al)
qed

lemma oflow_error_wp [wp]:
  assumes "test_env hw w me m b" "kept w me v s" "node_exists m MPAM_NODE_MEMORY i"
  shows "returns (kept w me v) (val_node_generate_msmon_oflow_error hw i mc s)"
  unfolding val_node_generate_msmon_oflow_error_def Let_def
  by (rule returns_seq_pair [OF hwreg_base_wp [OF assms]],
      rule returns_seq_pair [OF alloc_in_node_wp [OF assms(1) _ assms(3)]], simp,
      rule returns_seq_pair [OF alloc_in_node_wp [OF assms(1) _ assms(3)]], simp)
     (simp split: option.split)

subsection \<open>The interrupt controller\<close>

lemma gicd_run_kept:
  assumes "test_env hw w me m b" "kept w me v s"
  shows "gicd_read hw' off s = Some (val_mmio_read hw' (b + off) s)"
    "gicd_write off d s = Some (val_mmio_write (b + off) d s)"
proof -
  have "gicd_at b s" using assms kept_tables(2) [OF assms(2)] by (simp add: test_env_def gicd_at_def)
  from gicd_at_run [OF this refl] show "gicd_read hw' off s = Some (val_mmio_read hw' (b + off) s)"
    "gicd_write off d s = Some (val_mmio_write (b + off) d s)" .
qed

lemma kept_isr_calls [simp]:
  "kept w me v (snd (pal_gic_install_isr hw i s)) = kept w me v s"
  "kept w me v (snd (val_gic_end_of_interrupt hw i s)) = kept w me v s"
  by (simp_all add: pal_gic_install_isr_def val_gic_end_of_interrupt_def pal_gic_end_of_interrupt_def
      split_beta Let_def)

text \<open>The largest number the distributor implements, when its type register does not change.\<close>

definition max_intid :: "u32 \<Rightarrow> u32" where
  "max_intid typer = 32 * ((typer AND 0x1F) + 1) - 1"

lemma install_isr_wp [wp]:
  assumes "test_env hw w me m b" "kept w me v s"
  shows "returns (\<lambda>(r, t). kept w me v t \<and>
      (ro_reg hw (mmio_addr (b + 4)) typer \<longrightarrow>
         r = (if i > max_intid typer \<or> i = 0 then ACS_STATUS_ERR else 0))) (val_gic_install_isr hw i s)"
proof -
  let ?s = "snd (pal_gic_install_isr hw i (snd (val_mmio_read hw (b + 4) s)))"
  have "kept w me v ?s" using assms(2) by simp
  note g = gicd_run_kept [OF assms] gicd_run_kept [OF assms(1) this]
  show ?thesis
    using assms(2)
    by (auto simp: val_gic_install_isr_def val_get_max_intid_def g split_beta Let_def ro_reg_in max_intid_def)
qed

lemma mpid_index_wp [wp]:
  assumes "test_env hw w me m b" "kept w me v s"
  shows "returns (\<lambda>(x, t). kept w me v t) (val_pe_get_mpid_index me s)"
  using assms kept_tables(1) [OF assms(2)] by (auto simp: test_env_def val_pe_get_mpid_index_def)

lemma route_wp [wp]:
  assumes "test_env hw w me m b" "kept w me v s"
  shows "returns (\<lambda>(x, t). kept w me v t) (val_gic_route_interrupt_to_pe i x s)"
  using assms by (simp add: val_gic_route_interrupt_to_pe_def gicd_run_kept [OF assms])

lemma ispend_wp [wp]:
  assumes "test_env hw w me m b" "kept w me v s"
  shows "returns (kept w me v) (val_gic_write_ispendreg fvp i s)"
  using assms by (simp add: val_gic_write_ispendreg_def gicd_run_kept [OF assms])

subsection \<open>Waiting for the handler\<close>

text \<open>The state is \<open>w\<close> but for devices, console, err_ctrl_reg and this PE's word.\<close>

definition kept_any :: "world \<Rightarrow> u32 \<Rightarrow> world \<Rightarrow> bool" where
  "kept_any w me s \<longleftrightarrow> (\<exists>v. kept w me v s)"

lemma kept_anyI: "kept w me v s \<Longrightarrow> kept_any w me s" by (auto simp: kept_any_def)

lemma kept_any_pure [simp]:
  "kept_any w me (val_print l x a s) = kept_any w me s"
  "kept_any w me (val_sysreg_write r y s) = kept_any w me s"
  "kept_any w me (snd (val_sysreg_read hw r s)) = kept_any w me s"
  by (simp_all add: kept_any_def)

text \<open>A handler that stores the word \<open>x\<close>.\<close>

definition handler_stores :: "world \<Rightarrow> u32 \<Rightarrow> u32 \<Rightarrow> (world \<Rightarrow> world option) \<Rightarrow> bool" where
  "handler_stores w me x isr \<longleftrightarrow> (\<forall>v s. kept w me v s \<longrightarrow> returns (kept w me x) (isr s))"

lemma intr_handler_stores:
  assumes "test_env hw w me m b" "node_exists m ty i"
    and "\<And>v s. kept w me v (restore s) = kept w me v s"
  shows "handler_stores w me x (intr_handler hw lvl msg x restore ty i n)"
  unfolding handler_stores_def
proof (intro allI impI)
  fix v s
  assume k: "kept w me v s"
  show "returns (kept w me x) (intr_handler hw lvl msg x restore ty i n s)"
    unfolding intr_handler_def Let_def
    by (rule returns_seq_pair [OF my_index_wp [OF assms(1) k]], clarify,
        rule returns_seq [OF val_set_status_wp [OF assms(1)]], simp,
        rule returns_seq [OF ecr_ops_wp(2) [OF assms(1) _ assms(2)]])
       (simp_all add: assms(3))
qed

lemma take_irq_wp:
  assumes "handler_stores w me x isr" "kept w me v s"
  shows "returns (\<lambda>t. kept w me v t \<or> kept w me x t) (take_irq irq n isr s)"
    "irq (io s) n \<Longrightarrow> returns (kept w me x) (take_irq irq n isr s)"
    "\<not> irq (io s) n \<Longrightarrow> take_irq irq n isr s = Some s"
  using assms by (auto simp: take_irq_def handler_stores_def intro: returns_mono)

lemma poll_status_wp:
  assumes "quiet_peers hw" "test_env hw w me m b" "handler_stores w me x isr" "kept_any w me s"
  shows "returns (\<lambda>(t, u). kept_any w me u) (poll_status hw irq n isr me timeout s)"
  using assms(4)
proof (induction timeout arbitrary: s)
  case 0
  then show ?case by simp
next
  case (Suc k)
  from Suc.prems obtain v where v: "kept w me v s" by (auto simp: kept_any_def)
  have "returns (\<lambda>(t, u). kept_any w me u) (take_irq irq n isr s \<bind> (\<lambda>s. val_get_status hw me s \<bind>
      (\<lambda>(st, s). if IS_RESULT_PENDING st then poll_status hw irq n isr me k s else Some (k, s))))"
  proof (rule returns_seq [OF take_irq_wp(1) [OF assms(3) v]])
    fix t
    assume "kept w me v t \<or> kept w me x t"
    then obtain y where "kept w me y t" by blast
    then show "returns (\<lambda>(t, u). kept_any w me u) (val_get_status hw me t \<bind>
      (\<lambda>(st, s). if IS_RESULT_PENDING st then poll_status hw irq n isr me k s else Some (k, s)))"
      by (rule returns_seq_pair [OF val_get_status_wp [OF assms(1,2)]])
         (auto intro: kept_anyI Suc.IH)
  qed
  with Suc.prems show ?case by simp
qed

lemma poll_status_never:
  assumes "quiet_peers hw" "test_env hw w me m b" "\<And>h. \<not> irq h n" "kept w me v s" "IS_RESULT_PENDING v"
  shows "returns (\<lambda>(t, u). t = 0 \<and> kept w me v u) (poll_status hw irq n isr me timeout s)"
  using assms(4)
proof (induction timeout arbitrary: s)
  case 0
  then show ?case by simp
next
  case (Suc k)
  have "returns (\<lambda>(t, u). t = 0 \<and> kept w me v u) (val_get_status hw me s \<bind>
      (\<lambda>(st, s). if IS_RESULT_PENDING st then poll_status hw irq n isr me k s else Some (k, s)))"
    by (rule returns_seq_pair [OF val_get_status_wp [OF assms(1,2) Suc.prems]])
       (simp add: assms(5) Suc.IH)
  with Suc.prems show ?case by (simp add: take_irq_def assms(3))
qed

lemma poll_status_taken:
  assumes "quiet_peers hw" "test_env hw w me m b" "handler_stores w me x isr" "kept w me v s"
    and "irq (io s) n" "\<not> IS_RESULT_PENDING x"
  shows "returns (\<lambda>(t, u). t = Suc k \<and> kept w me x u) (poll_status hw irq n isr me (Suc (Suc k)) s)"
proof -
  have "returns (\<lambda>(t, u). t = Suc k \<and> kept w me x u) (take_irq irq n isr s \<bind> (\<lambda>s. val_get_status hw me s \<bind>
      (\<lambda>(st, s). if IS_RESULT_PENDING st then poll_status hw irq n isr me (Suc k) s else Some (Suc k, s))))"
    by (rule returns_seq [OF take_irq_wp(2) [of w me x isr v s irq n, OF assms(3-5)]],
        rule returns_seq_pair [OF val_get_status_wp [OF assms(1,2)]])
       (use assms(6) in \<open>auto simp del: poll_status.simps\<close>)
  then show ?thesis by (subst poll_status.simps) (simp del: poll_status.simps)
qed

lemma timeout_large: "\<exists>k. unat TIMEOUT_LARGE = Suc (Suc k)"
  by (rule exI [of _ "0xFFFFFE"]) (simp add: TIMEOUT_LARGE_def)

lemma await_interrupt_wp:
  assumes "quiet_peers hw" "test_env hw w me m b" "handler_stores w me x isr" "kept_any w me s"
  shows "returns (\<lambda>(t, u). kept_any w me u) (await_interrupt fvp irq hw me n isr s)"
proof -
  from assms(4) obtain v where v: "kept w me v s" by (auto simp: kept_any_def)
  show ?thesis
    unfolding await_interrupt_def
  proof (rule returns_seq [OF take_irq_wp(1) [OF assms(3) v]])
    fix t
    assume "kept w me v t \<or> kept w me x t"
    then obtain y where "kept w me y t" by blast
    then show "returns (\<lambda>(t, u). kept_any w me u) (val_gic_write_ispendreg fvp n t \<bind>
        poll_status hw irq n isr me (unat TIMEOUT_LARGE))"
      by (rule returns_seq [OF ispend_wp [OF assms(2)]])
         (rule poll_status_wp [OF assms(1-3)], rule kept_anyI)
  qed
qed

lemma await_interrupt_never:
  assumes "quiet_peers hw" "test_env hw w me m b" "\<And>h. \<not> irq h n" "kept w me v s" "IS_RESULT_PENDING v"
  shows "returns (\<lambda>(t, u). t = 0 \<and> kept w me v u) (await_interrupt fvp irq hw me n isr s)"
  unfolding await_interrupt_def take_irq_def
  by (simp add: assms(3), rule returns_seq [OF ispend_wp [OF assms(2,4)]],
      rule poll_status_never [where irq = irq, OF assms(1-3) _ assms(5)])

text \<open>In the simulation build the last access before the first poll sets the interrupt pending.\<close>

definition just_pended :: "u64 \<Rightarrow> u32 \<Rightarrow> history \<Rightarrow> bool" where
  "just_pended b n h \<longleftrightarrow> (\<exists>h'. h = MmioWrite (b + (0x200 + ucast (push_bit 2 (drop_bit 5 n))))
     (push_bit (unat (n mod 32)) 1) # h')"

lemma await_interrupt_taken:
  assumes "quiet_peers hw" "test_env hw w me m b" "handler_stores w me x isr" "kept w me v s"
    and "\<And>h. just_pended b n h \<Longrightarrow> irq h n" "\<not> IS_RESULT_PENDING x"
  shows "returns (\<lambda>(t, u). t \<noteq> 0 \<and> kept w me x u) (await_interrupt True irq hw me n isr s)"
  unfolding await_interrupt_def
proof (rule returns_seq [OF take_irq_wp(1) [OF assms(3,4)]])
  fix t
  assume "kept w me v t \<or> kept w me x t"
  then obtain y where t: "kept w me y t" by blast
  obtain k where k: "unat TIMEOUT_LARGE = Suc (Suc k)" using timeout_large by blast
  let ?u = "val_mmio_write (b + (0x200 + ucast (push_bit 2 (drop_bit 5 n)))) (push_bit (unat (n mod 32)) 1) t"
  have "irq (io ?u) n" by (rule assms(5)) (auto simp: just_pended_def)
  then have "returns (\<lambda>(t, u). t = Suc k \<and> kept w me x u) (poll_status hw irq n isr me (Suc (Suc k)) ?u)"
    using t by (intro poll_status_taken [OF assms(1-3) _ _ assms(6)]) simp_all
  then show "returns (\<lambda>(t, u). t \<noteq> 0 \<and> kept w me x u)
      (val_gic_write_ispendreg True n t \<bind> poll_status hw irq n isr me (unat TIMEOUT_LARGE))"
    unfolding k by (simp add: val_gic_write_ispendreg_def gicd_run_kept [OF assms(2) t])
      (erule returns_mono, auto)
qed

subsection \<open>Visits\<close>

lemma arm_interrupt_wp:
  assumes "test_env hw w me m b" "kept w me v s"
  shows "returns (\<lambda>(ok, t). kept w me (if ok then RESULT_PENDING n else RESULT_FAIL n 2) t \<and>
     (ro_reg hw (mmio_addr (b + 4)) typer \<longrightarrow> ok = (0 < i \<and> i \<le> max_intid typer)))
    (arm_interrupt hw n me i s)"
  unfolding arm_interrupt_def
proof (rule returns_seq_pair [OF install_isr_wp [OF assms, of typer]], rule returns_if)
  fix r t
  assume k: "kept w me v t \<and> (ro_reg hw (mmio_addr (b + 4)) typer \<longrightarrow>
         r = (if i > max_intid typer \<or> i = 0 then ACS_STATUS_ERR else 0))"
  have e: "(0 :: u32) \<noteq> ACS_STATUS_ERR" by (simp add: ACS_STATUS_ERR_def)
  let ?Q = "\<lambda>(ok, t). kept w me (if ok then RESULT_PENDING n else RESULT_FAIL n 2) t \<and>
     (ro_reg hw (mmio_addr (b + 4)) typer \<longrightarrow> ok = (0 < i \<and> i \<le> max_intid typer))"
  show "returns ?Q (val_set_status me (RESULT_FAIL n 2) t \<bind> (\<lambda>s. Some (False, s)))" if "r = ACS_STATUS_ERR"
    by (rule returns_seq [OF val_set_status_wp [OF assms(1) k [THEN conjunct1]]])
       (use k that e in \<open>auto split: if_splits\<close>)
  show "returns ?Q (val_pe_get_mpid_index me t \<bind> (\<lambda>(x, s). val_gic_route_interrupt_to_pe i x s \<bind>
       (\<lambda>(_, s). val_set_status me (RESULT_PENDING n) s \<bind> (\<lambda>s. Some (True, s)))))" if "r \<noteq> ACS_STATUS_ERR"
    by (rule returns_seq_pair [OF mpid_index_wp [OF assms(1) k [THEN conjunct1]]],
        rule returns_seq_pair [OF route_wp [OF assms(1)]], assumption,
        rule returns_seq [OF val_set_status_wp [OF assms(1)]], assumption)
       (use k that e in \<open>auto simp: word_gt_0 split: if_splits\<close>)
qed

text \<open>A step of a visit that may change this PE's word, but returns.\<close>

definition mild :: "world \<Rightarrow> u32 \<Rightarrow> (world \<Rightarrow> ('a \<times> world) option) \<Rightarrow> bool" where
  "mild w me f \<longleftrightarrow> (\<forall>s. kept_any w me s \<longrightarrow> returns (\<lambda>(x, t). kept_any w me t) (f s))"

lemma mildD: "mild w me f \<Longrightarrow> kept_any w me s \<Longrightarrow> returns (\<lambda>(x, t). kept_any w me t) (f s)"
  by (simp add: mild_def)

lemma mildI: "(\<And>v s. kept w me v s \<Longrightarrow> returns (\<lambda>(x, t). kept_any w me t) (f s)) \<Longrightarrow> mild w me f"
  by (auto simp: mild_def kept_any_def)

lemma restore_ecr_any:
  assumes "test_env hw w me m b" "node_exists m ty i" "kept_any w me s"
  shows "returns (kept_any w me) (val_node_restore_ecr hw ty i s)"
  using assms(3) unfolding kept_any_def
  by (elim exE) (rule returns_mono [OF ecr_ops_wp(3) [OF assms(1) _ assms(2)]]; blast)

lemma set_status_any:
  assumes "test_env hw w me m b" "kept_any w me s"
  shows "returns (kept_any w me) (val_set_status me x s)"
  using assms(2) unfolding kept_any_def
  by (elim exE) (rule returns_mono [OF val_set_status_wp [OF assms(1)]]; blast)

lemma not_received_mild: "mild w me (not_received msg n k)"
  by (rule mildI) (simp add: not_received_def kept_anyI)

lemma irq_visit_mild:
  assumes "quiet_peers hw" "test_env hw w me m b" "node_exists m ty i" "handler_stores w me x isr"
    and "mild w me gen" "\<And>k. mild w me (lost k)"
  shows "mild w me (irq_visit fvp irq hw n me ty i intr isr gen lost)"
proof (rule mildI)
  fix v s
  assume k: "kept w me v s"
  show "returns (\<lambda>(y, t). kept_any w me t) (irq_visit fvp irq hw n me ty i intr isr gen lost s)"
    unfolding irq_visit_def
    by (rule returns_seq_pair [OF arm_interrupt_wp [OF assms(2) k, where typer = 0]], rule returns_if,
        (simp, blast intro: kept_anyI), rule returns_seq_pair [OF mildD [OF assms(5)]],
        (blast intro: kept_anyI), rule returns_if, simp,
        rule returns_seq_pair [OF await_interrupt_wp [OF assms(1,2,4)]], assumption,
        rule returns_seq [OF restore_ecr_any [OF assms(2,3)]], assumption,
        rule returns_seq_pair [OF mildD [OF assms(6)]], assumption, rule returns_if,
        rule returns_seq [OF set_status_any [OF assms(2)]]) simp_all
qed

text \<open>A visit whose wait has a known result \<open>T\<close> and leaves the word \<open>z\<close>.\<close>

lemma irq_visit_known:
  assumes "test_env hw w me m b" "node_exists m ty i" "kept w me v s"
    and "ro_reg hw (mmio_addr (b + 4)) typer" "0 < intr" "intr \<le> max_intid typer"
    and gen: "\<And>v s. kept w me v s \<Longrightarrow> returns (\<lambda>(g, t). g \<and> kept w me v t) (gen s)"
    and wait: "\<And>s. kept w me (RESULT_PENDING n) s \<Longrightarrow>
      returns (\<lambda>(k, t). T k \<and> kept w me z t) (await_interrupt fvp irq hw me intr isr s)"
    and lost: "\<And>k s. T k \<Longrightarrow> kept w me z s \<Longrightarrow> returns (\<lambda>(bad, t). bad = y \<and> kept w me z t) (lost k s)"
  shows "returns (\<lambda>(r, t). r = (if y then Returned else Visited) \<and>
      kept w me (if y then RESULT_FAIL n 2 else z) t)
    (irq_visit fvp irq hw n me ty i intr isr gen lost s)"
proof -
  let ?Q = "\<lambda>(r, t). r = (if y then Returned else Visited) \<and> kept w me (if y then RESULT_FAIL n 2 else z) t"
  have arm: "returns (\<lambda>(ok, t). ok \<and> kept w me (RESULT_PENDING n) t) (arm_interrupt hw n me intr s)"
    by (rule returns_mono [OF arm_interrupt_wp [OF assms(1,3), where typer = typer]])
       (use assms(4-6) in auto)
  have last: "returns ?Q (lost k u \<bind> (\<lambda>(bad, s). if bad
      then val_set_status me (RESULT_FAIL n 2) s \<bind> (\<lambda>s. Some (Returned, s)) else Some (Visited, s)))"
    if "T k" "kept w me z u" for k u
    by (rule returns_seq_pair [OF lost [OF that]], rule returns_if, elim conjE,
        rule returns_seq [OF val_set_status_wp [OF assms(1)]]) auto
  have tail: "returns ?Q (await_interrupt fvp irq hw me intr isr t \<bind> (\<lambda>(k, s).
      val_node_restore_ecr hw ty i s \<bind> (\<lambda>s. lost k s \<bind> (\<lambda>(bad, s). if bad
      then val_set_status me (RESULT_FAIL n 2) s \<bind> (\<lambda>s. Some (Returned, s)) else Some (Visited, s)))))"
    if "kept w me (RESULT_PENDING n) t" for t
    by (rule returns_seq_pair [OF wait [OF that]], elim conjE,
        rule returns_seq [OF ecr_ops_wp(3) [OF assms(1) _ assms(2)]], assumption) (rule last)
  show ?thesis
    unfolding irq_visit_def
    by (rule returns_seq_pair [OF arm], elim conjE, rule returns_if, simp,
        rule returns_seq_pair [OF gen], assumption, elim conjE, rule returns_if, simp) (rule tail)
qed

text \<open>A machine that never takes the interrupt, and one that takes it once it is pending.\<close>

lemma irq_visit_never:
  assumes "quiet_peers hw" "test_env hw w me m b" "node_exists m ty i" "kept w me v s"
    and "ro_reg hw (mmio_addr (b + 4)) typer" "0 < intr" "intr \<le> max_intid typer"
    and "\<And>h. \<not> irq h intr" "n < 0x1000"
    and "\<And>v s. kept w me v s \<Longrightarrow> returns (\<lambda>(g, t). g \<and> kept w me v t) (gen s)"
    and "\<And>s. kept w me (RESULT_PENDING n) s \<Longrightarrow> returns (\<lambda>(bad, t). bad = y \<and> kept w me (RESULT_PENDING n) t) (lost 0 s)"
  shows "returns (\<lambda>(r, t). r = (if y then Returned else Visited) \<and>
      kept w me (if y then RESULT_FAIL n 2 else RESULT_PENDING n) t)
    (irq_visit fvp irq hw n me ty i intr isr gen lost s)"
proof -
  have p: "IS_RESULT_PENDING (RESULT_PENDING n)" using small_results_classified(9) [of n 1] assms(9) by simp
  show ?thesis
    by (rule irq_visit_known [where T = "\<lambda>k. k = 0", OF assms(2-7,10)
          await_interrupt_never [where irq = irq, OF assms(1,2,8) _ p]])
       (simp_all add: assms(11))
qed

lemma irq_visit_taken:
  assumes "quiet_peers hw" "test_env hw w me m b" "node_exists m ty i" "kept w me v s"
    and "ro_reg hw (mmio_addr (b + 4)) typer" "0 < intr" "intr \<le> max_intid typer"
    and "\<And>h. just_pended b intr h \<Longrightarrow> irq h intr" "handler_stores w me x isr" "\<not> IS_RESULT_PENDING x"
    and "\<And>v s. kept w me v s \<Longrightarrow> returns (\<lambda>(g, t). g \<and> kept w me v t) (gen s)"
    and "\<And>k s. k \<noteq> 0 \<Longrightarrow> kept w me x s \<Longrightarrow> returns (\<lambda>(bad, t). bad = y \<and> kept w me x t) (lost k s)"
  shows "returns (\<lambda>(r, t). r = (if y then Returned else Visited) \<and>
      kept w me (if y then RESULT_FAIL n 2 else x) t)
    (irq_visit True irq hw n me ty i intr isr gen lost s)"
  by (rule irq_visit_known [where T = "\<lambda>k. k \<noteq> 0", OF assms(2-7,11)
        await_interrupt_taken [where irq = irq, OF assms(1,2,9) _ assms(8,10)]])
     (simp_all add: assms(12))

subsection \<open>The loop over the nodes\<close>

definition node_no :: "mpam_info \<Rightarrow> u32 \<Rightarrow> u8 \<times> u32" where
  "node_no m index = (if index \<ge> num_cache_nodes m then (MPAM_NODE_MEMORY, index - num_cache_nodes m)
                      else (MPAM_NODE_CACHE, index))"

definition intr_of :: "mpam_info \<Rightarrow> u8 \<times> u32 \<Rightarrow> intr_info" where
  "intr_of m p = (if fst p = MPAM_NODE_CACHE then cn_intr (cache_node m ! unat (snd p))
                  else mn_intr (memory_node m ! unat (snd p)))"

text \<open>The interrupts of all nodes, in the order of the walk.\<close>

definition node_intrs :: "mpam_info \<Rightarrow> intr_info list" where
  "node_intrs m = map cn_intr (cache_node m) @ map mn_intr (memory_node m)"

lemma total_nodes:
  assumes "test_env hw w me m b"
  shows "unat (num_cache_nodes m + num_memory_nodes m) = length (node_intrs m)"
proof -
  have "unat (num_cache_nodes m) + unat (num_memory_nodes m) < 2 ^ 32"
    using assms by (simp add: test_env_def)
  then have "unat (num_cache_nodes m + num_memory_nodes m) = unat (num_cache_nodes m) + unat (num_memory_nodes m)"
    by (simp add: unat_word_ariths)
  then show ?thesis using assms by (simp add: test_env_def node_intrs_def)
qed

lemma node_no_valid:
  assumes "test_env hw w me m b" "index < num_cache_nodes m + num_memory_nodes m" "node_no m index = (ty, i)"
  shows "node_exists m ty i" "intr_of m (ty, i) = node_intrs m ! unat index"
proof -
  have ix: "unat index < length (node_intrs m)"
    using assms(2) total_nodes [OF assms(1)] by (simp add: word_less_nat_alt)
  have n: "unat (num_cache_nodes m) = length (cache_node m)" "unat (num_memory_nodes m) = length (memory_node m)"
    using assms(1) by (simp_all add: test_env_def)
  have d: "MPAM_NODE_MEMORY \<noteq> MPAM_NODE_CACHE" by (simp add: MPAM_NODE_MEMORY_def MPAM_NODE_CACHE_def)
  have "node_exists m ty i \<and> intr_of m (ty, i) = node_intrs m ! unat index"
  proof (cases "index \<ge> num_cache_nodes m")
    case True
    then have u: "unat (index - num_cache_nodes m) = unat index - length (cache_node m)"
        "length (cache_node m) \<le> unat index"
      using n by (simp_all add: unat_sub word_le_nat_alt)
    with True assms(3) ix d show ?thesis
      by (auto simp: node_no_def node_exists_def intr_of_def node_intrs_def nth_append)
  next
    case False
    then have "unat index < length (cache_node m)" using n by (simp add: word_less_nat_alt not_le)
    with False assms(3) d show ?thesis
      by (auto simp: node_no_def node_exists_def intr_of_def node_intrs_def nth_append)
  qed
  then show "node_exists m ty i" "intr_of m (ty, i) = node_intrs m ! unat index" by simp_all
qed

lemma node_of_index_wp [wp]:
  assumes "test_env hw w me m b" "kept w me v s"
  shows "returns (\<lambda>(p, t). p = node_no m index \<and> kept w me v t) (node_of_index hw index s)"
  unfolding node_of_index_def node_no_def
  by (rule returns_seq_pair [OF node_total_wp(1) [OF assms]], elim conjE, rule returns_if,
      rule returns_seq_pair [OF node_total_wp(1) [OF assms(1)]]) auto

text \<open>One round of the loop, with the node of the index.\<close>

lemma irq_loop_step:
  assumes "test_env hw w me m b" "kept w me v s"
    and "\<And>s. kept w me v s \<Longrightarrow> returns (\<lambda>(r, t). S r t) (visit (fst (node_no m index)) (snd (node_no m index)) s)"
    and "\<And>r t. S r t \<Longrightarrow> returns Q (case r of Passed_over \<Rightarrow> irq_loop hw visit is' c t
          | Visited \<Rightarrow> irq_loop hw visit is' (c + 1) t | Returned \<Rightarrow> Some (None, t))"
  shows "returns Q (irq_loop hw visit (index # is') c s)"
  unfolding irq_loop.simps
proof (rule returns_seq [OF node_of_index_wp [OF assms(1,2), of index]])
  fix x
  assume "case x of (p, t) \<Rightarrow> p = node_no m index \<and> kept w me v t"
  then obtain t where x: "x = (node_no m index, t)" "kept w me v t" by (cases x) auto
  obtain ty i where p: "node_no m index = (ty, i)" by fastforce
  show "returns Q (case x of (xa, xb) \<Rightarrow> (case xa of (node_type, node_index) \<Rightarrow> \<lambda>s. visit node_type node_index s \<bind>
      (\<lambda>(v, s). case v of Passed_over \<Rightarrow> irq_loop hw visit is' c s
          | Visited \<Rightarrow> irq_loop hw visit is' (c + 1) s | Returned \<Rightarrow> Some (None, s))) xb)"
    unfolding x(1) p prod.case
    by (rule returns_seq_pair [OF assms(3) [OF x(2), unfolded p fst_conv snd_conv]]) (rule assms(4))
qed

lemma irq_loop_mild:
  assumes "test_env hw w me m b"
    and "\<And>index. index \<in> set is' \<Longrightarrow> mild w me (visit (fst (node_no m index)) (snd (node_no m index)))"
    and "kept_any w me s"
  shows "returns (\<lambda>(r, t). kept_any w me t) (irq_loop hw visit is' c s)"
  using assms(2,3)
proof (induction is' arbitrary: c s)
  case Nil
  then show ?case by simp
next
  case (Cons index is')
  from Cons.prems(2) obtain v where v: "kept w me v s" by (auto simp: kept_any_def)
  have m: "mild w me (visit (fst (node_no m index)) (snd (node_no m index)))" by (rule Cons.prems(1)) simp
  have ih: "returns (\<lambda>(r, t). kept_any w me t) (irq_loop hw visit is' c t)" if "kept_any w me t" for c t
    by (rule Cons.IH [OF Cons.prems(1) that]) simp
  show ?case
    by (rule irq_loop_step [OF assms(1) v], rule mildD [OF m kept_anyI], assumption)
       (auto split: visit.split intro: ih)
qed

lemma irq_loop_visits:
  assumes "test_env hw w me m b"
    and "\<And>index v s. index \<in> set is' \<Longrightarrow> kept w me v s \<Longrightarrow>
      returns (\<lambda>(r, t). kept_any w me t \<and> r = (if P index then Visited else Passed_over))
        (visit (fst (node_no m index)) (snd (node_no m index)) s)"
    and "kept_any w me s"
  shows "returns (\<lambda>(r, t). kept_any w me t \<and> r = Some (c + of_nat (length (List.filter P is'))))
    (irq_loop hw visit is' c s)"
  using assms(2,3)
proof (induction is' arbitrary: c s)
  case Nil
  then show ?case by simp
next
  case (Cons index is')
  from Cons.prems(2) obtain v where v: "kept w me v s" by (auto simp: kept_any_def)
  have ih: "returns (\<lambda>(r, t). kept_any w me t \<and> r = Some (c + of_nat (length (List.filter P is'))))
      (irq_loop hw visit is' c t)" if "kept_any w me t" for c t
    by (rule Cons.IH [OF Cons.prems(1) that]) simp_all
  show ?case
    by (rule irq_loop_step [OF assms(1) v], rule Cons.prems(1), simp, assumption)
       (auto split: visit.split if_splits intro: returns_mono [OF ih])
qed

lemma irq_loop_stops:
  assumes "test_env hw w me m b"
    and "\<And>index v s. index \<in> set is' \<Longrightarrow> kept w me v s \<Longrightarrow>
      returns (\<lambda>(r, t). r = (if P index then Returned else Passed_over) \<and>
          kept w me (if P index then z else v) t)
        (visit (fst (node_no m index)) (snd (node_no m index)) s)"
    and "kept w me v s"
  shows "returns (\<lambda>(r, t). r = (if \<exists>index\<in>set is'. P index then None else Some c) \<and>
      kept w me (if \<exists>index\<in>set is'. P index then z else v) t) (irq_loop hw visit is' c s)"
  using assms(2,3)
proof (induction is' arbitrary: s)
  case Nil
  then show ?case by simp
next
  case (Cons index is')
  have ih: "returns (\<lambda>(r, t). r = (if \<exists>index\<in>set is'. P index then None else Some c) \<and>
      kept w me (if \<exists>index\<in>set is'. P index then z else v) t) (irq_loop hw visit is' c t)"
    if "kept w me v t" for t
    by (rule Cons.IH [OF Cons.prems(1) that]) simp_all
  show ?case
    by (rule irq_loop_step [OF assms(1) Cons.prems(2)], rule Cons.prems(1), simp, assumption)
       (auto split: visit.split if_splits intro: returns_mono [OF ih])
qed

subsection \<open>The payloads\<close>

lemma irq_result_any:
  assumes "test_env hw w me m b" "kept_any w me s"
  shows "returns (kept_any w me) (irq_result n me r s)"
  using set_status_any [OF assms] assms(2) by (cases r) (simp_all add: irq_result_def)

text \<open>Payloads without side effects before the loop but a read.\<close>

definition only_reads :: "(world \<Rightarrow> u64 \<times> world) \<Rightarrow> bool" where
  "only_reads start \<longleftrightarrow> (\<forall>w me v s. kept w me v (snd (start s)) = kept w me v s)"

lemma irq_payload_split:
  assumes "test_env hw w me m b" "kept w me v s" "only_reads start"
    and "\<And>saved s. kept w me v s \<Longrightarrow> returns Q (irq_loop hw (visit saved me)
           (upto_u32 (num_cache_nodes m + num_memory_nodes m)) 0 s \<bind> (\<lambda>(r, s). irq_result n me r s))"
  shows "returns Q (irq_payload hw n start visit s)"
  unfolding irq_payload_def Let_def
proof (rule returns_seq_pair [OF my_index_wp [OF assms(1,2)]], elim conjE, hypsubst,
    rule returns_seq_pair [OF node_total_wp(1) [OF assms(1)]], assumption, elim conjE, hypsubst,
    rule returns_seq_pair [OF node_total_wp(2) [OF assms(1)]], assumption, elim conjE, hypsubst)
  fix t
  assume t: "kept w me v t"
  obtain x u where u: "start t = (x, u)" by fastforce
  with assms(3) t have "kept w me v u" unfolding only_reads_def by (metis snd_conv)
  from assms(4) [OF this, of x]
  show "returns Q (case start t of (saved, s) \<Rightarrow> irq_loop hw (visit saved me)
      (upto_u32 (num_cache_nodes m + num_memory_nodes m)) 0 s \<bind> (\<lambda>(r, s). irq_result n me r s))"
    by (simp add: u)
qed

lemma irq_payload_any:
  assumes "test_env hw w me m b" "kept_any w me s" "only_reads start"
    and "\<And>saved ty i. node_exists m ty i \<Longrightarrow> mild w me (visit saved me ty i)"
  shows "returns (kept_any w me) (irq_payload hw n start visit s)"
proof -
  from assms(2) obtain v where v: "kept w me v s" by (auto simp: kept_any_def)
  have mild: "mild w me (visit saved me (fst (node_no m index)) (snd (node_no m index)))"
    if "index \<in> set (upto_u32 (num_cache_nodes m + num_memory_nodes m))" for saved index
    using node_no_valid(1) [OF assms(1)] that by (intro assms(4)) (auto simp: set_upto_u32 intro: prod.collapse [symmetric])
  show ?thesis
    by (rule irq_payload_split [OF assms(1) v assms(3)],
        rule returns_seq_pair [OF irq_loop_mild [OF assms(1)]], erule mild, rule kept_anyI, assumption)
       (rule irq_result_any [OF assms(1)])
qed

text \<open>The nodes a test is meant for, given by a condition on their interrupts.\<close>

lemma wanted_nodes:
  assumes "test_env hw w me m b"
  shows "(\<exists>index\<in>set (upto_u32 (num_cache_nodes m + num_memory_nodes m)). P (intr_of m (node_no m index))) \<longleftrightarrow>
    (\<exists>x\<in>set (node_intrs m). P x)"
proof -
  let ?n = "num_cache_nodes m + num_memory_nodes m"
  have e: "intr_of m (node_no m index) = node_intrs m ! unat index" if "index < ?n" for index
    using node_no_valid(2) [OF assms that] by (metis prod.collapse)
  have t: "index < ?n \<longleftrightarrow> unat index < length (node_intrs m)" for index
    using total_nodes [OF assms] by (simp add: word_less_nat_alt)
  show ?thesis
  proof
    assume "\<exists>index\<in>set (upto_u32 ?n). P (intr_of m (node_no m index))"
    then obtain index where "index < ?n" "P (intr_of m (node_no m index))" by (auto simp: set_upto_u32)
    then show "\<exists>x\<in>set (node_intrs m). P x" using e t by (metis nth_mem)
  next
    assume "\<exists>x\<in>set (node_intrs m). P x"
    then obtain k where k: "k < length (node_intrs m)" "P (node_intrs m ! k)" by (auto simp: in_set_conv_nth)
    then have "unat (of_nat k :: u32) = k"
      using total_nodes [OF assms] by (intro unat_of_nat_below [of _ ?n]) simp
    with k e [of "of_nat k"] t [of "of_nat k"] show "\<exists>index\<in>set (upto_u32 ?n). P (intr_of m (node_no m index))"
      by (intro bexI [of _ "of_nat k"]) (auto simp: set_upto_u32)
  qed
qed

lemma count_zero:
  "(of_nat (length (List.filter P (upto_u32 n))) :: u32) = 0 \<longleftrightarrow> (\<forall>i\<in>set (upto_u32 n). \<not> P i)"
proof -
  have "length (List.filter P (upto_u32 n)) \<le> unat n"
    using length_filter_le [of P "upto_u32 n"] by (simp add: upto_u32_def)
  then have "unat (of_nat (length (List.filter P (upto_u32 n))) :: u32) = length (List.filter P (upto_u32 n))"
    by (rule unat_of_nat_atmost)
  then have "(of_nat (length (List.filter P (upto_u32 n))) :: u32) = 0 \<longleftrightarrow> length (List.filter P (upto_u32 n)) = 0"
    by (metis unat_eq_zero)
  then show ?thesis by (simp add: filter_empty_conv)
qed

lemma irq_payload_passes:
  assumes "test_env hw w me m b" "kept w me v s" "only_reads start"
    and step: "\<And>saved index v s. index < num_cache_nodes m + num_memory_nodes m \<Longrightarrow> kept w me v s \<Longrightarrow>
      returns (\<lambda>(r, t). kept_any w me t \<and> r = (if P (intr_of m (node_no m index)) then Visited else Passed_over))
        (visit saved me (fst (node_no m index)) (snd (node_no m index)) s)"
  shows "returns (kept w me (if \<exists>x\<in>set (node_intrs m). P x then RESULT_PASS n 1 else RESULT_SKIP n 0))
    (irq_payload hw n start visit s)"
proof -
  let ?n = "num_cache_nodes m + num_memory_nodes m"
  have z: "(of_nat (length (List.filter (\<lambda>k. P (intr_of m (node_no m k))) (upto_u32 ?n))) :: u32) = 0 \<longleftrightarrow>
      \<not> (\<exists>x\<in>set (node_intrs m). P x)"
    unfolding count_zero wanted_nodes [OF assms(1), of P, symmetric] by blast
  have last: "returns (kept w me (if \<exists>x\<in>set (node_intrs m). P x then RESULT_PASS n 1 else RESULT_SKIP n 0))
      (irq_result n me (Some (0 + of_nat (length (List.filter (\<lambda>k. P (intr_of m (node_no m k))) (upto_u32 ?n))))) t)"
    if "kept_any w me t" for t
    using that z unfolding kept_any_def
    by (elim exE) (simp add: irq_result_def val_set_status_wp [OF assms(1)])
  show ?thesis
    by (rule irq_payload_split [OF assms(1,2,3)],
        rule returns_seq_pair [OF irq_loop_visits [where P = "\<lambda>k. P (intr_of m (node_no m k))", OF assms(1) _ kept_anyI]],
        rule step, simp add: set_upto_u32, assumption, assumption, elim conjE, hypsubst) (rule last)
qed

lemma irq_payload_stops:
  assumes "test_env hw w me m b" "kept w me v s" "only_reads start"
    and step: "\<And>saved index v s. index < num_cache_nodes m + num_memory_nodes m \<Longrightarrow> kept w me v s \<Longrightarrow>
      returns (\<lambda>(r, t). r = (if P (intr_of m (node_no m index)) then Returned else Passed_over) \<and>
          kept w me (if P (intr_of m (node_no m index)) then z else v) t)
        (visit saved me (fst (node_no m index)) (snd (node_no m index)) s)"
  shows "returns (kept w me (if \<exists>x\<in>set (node_intrs m). P x then z else RESULT_SKIP n 0))
    (irq_payload hw n start visit s)"
proof -
  let ?n = "num_cache_nodes m + num_memory_nodes m"
  let ?E = "\<exists>x\<in>set (node_intrs m). P x"
  have last: "returns (kept w me (if ?E then z else RESULT_SKIP n 0))
      (irq_result n me (if ?E then None else Some 0) t)" if "kept w me (if ?E then z else v) t" for t
    using that by (cases ?E) (simp_all add: irq_result_def val_set_status_wp [OF assms(1)])
  show ?thesis
    by (rule irq_payload_split [OF assms(1,2,3)],
        rule returns_seq_pair [OF irq_loop_stops [where P = "\<lambda>k. P (intr_of m (node_no m k))" and z = z, OF assms(1)]],
        rule step, simp add: set_upto_u32, assumption, assumption, elim conjE, hypsubst)
       (unfold wanted_nodes [OF assms(1)], rule last)
qed

subsection \<open>The tests return\<close>

lemma gen_known:
  assumes "\<And>v s. kept w me v s \<Longrightarrow> returns (kept w me v) (f s)" "kept w me v s"
  shows "returns (\<lambda>(g, t). g \<and> kept w me v t) (f s \<bind> (\<lambda>s. Some (True, s)))"
  by (rule returns_seq [OF assms(1) [OF assms(2)]]) simp

lemma gen_mild:
  assumes "\<And>v s. kept w me v s \<Longrightarrow> returns (kept w me v) (f s)"
  shows "mild w me (\<lambda>s. f s \<bind> (\<lambda>s. Some (True, s)))"
  by (rule mildI, rule returns_mono [OF gen_known [OF assms]]) (auto intro: kept_anyI)

lemma or_skip_mild:
  assumes "test_env hw w me m b" "\<And>v s. kept w me v s \<Longrightarrow> returns (\<lambda>(x, t). kept w me v t) (f s)"
    and "\<And>v s. kept w me v (restore s) = kept w me v s"
  shows "mild w me (\<lambda>s. f s \<bind> or_skip n me msg restore)"
proof (rule mildI, rule returns_seq [OF assms(2)], assumption)
  fix v s and x :: "u32 \<times> world"
  assume x: "case x of (x, t) \<Rightarrow> kept w me v t"
  obtain st t where p: "x = (st, t)" by fastforce
  with x have "kept w me v (val_print ACS_PRINT_WARN msg 0 (restore t))" by (simp add: assms(3))
  note wp = returns_seq [OF val_set_status_wp [OF assms(1) this]]
  show "returns (\<lambda>(y, t). kept_any w me t) (or_skip n me msg restore x)"
    unfolding or_skip_def p prod.case
    by (rule returns_if, rule wp) (use x p in \<open>auto intro: kept_anyI\<close>)
qed

text \<open>A visit that first reads, and then may pass over the node.\<close>

lemma visit_mild:
  assumes "\<And>v s. kept w me v s \<Longrightarrow> returns (\<lambda>(x, t). kept w me v t) (f s)"
    and "\<And>v s. kept w me v s \<Longrightarrow> returns (\<lambda>(x, t). kept w me v t) (g s)"
    and "\<And>x y. mild w me (rest x y)"
  shows "mild w me (\<lambda>s. f s \<bind> (\<lambda>(x, s). g s \<bind> (\<lambda>(y, s).
      if skip x y then Some (Passed_over, s) else rest x y s)))"
  by (rule mildI, rule returns_seq_pair [OF assms(1)], assumption, rule returns_seq_pair [OF assms(2)], assumption,
      rule returns_if) (auto intro: kept_anyI mildD [OF assms(3)])

lemma visit_mild1:
  assumes "\<And>v s. kept w me v s \<Longrightarrow> returns (\<lambda>(x, t). kept w me v t) (f s)"
    and "\<And>x. mild w me (rest x)"
  shows "mild w me (\<lambda>s. f s \<bind> (\<lambda>(x, s). if skip x then Some (Passed_over, s) else rest x s))"
  by (rule mildI, rule returns_seq_pair [OF assms(1)], assumption, rule returns_if)
     (auto intro: kept_anyI mildD [OF assms(2)])

lemma intr_queries:
  assumes "test_env hw w me m b" "node_exists m ty i" "kept w me v s"
  shows "returns (\<lambda>(x, t). kept w me v t) (val_node_get_error_intrnum hw ty i s)"
    "returns (\<lambda>(x, t). kept w me v t) (val_node_get_error_intrtype hw ty i s)"
  by (rule returns_mono [OF intr_num_wp(1) [OF assms(1,3,2)]], auto)
     (rule returns_mono [OF intr_num_wp(2) [OF assms(1,3,2)]], auto)

lemma monitors_of_wp:
  assumes "test_env hw w me m b" "node_exists m ty i" "kept w me v s"
  shows "returns (\<lambda>(x, t). kept w me v t) (monitors_of hw ty i s)"
proof -
  have c: "node_exists m MPAM_NODE_CACHE i" if "ty = MPAM_NODE_CACHE" using assms(2) that by simp
  have d: "node_exists m MPAM_NODE_MEMORY i" if "ty = MPAM_NODE_MEMORY" using assms(2) that by simp
  note k = monitor_counts_wp [OF assms(1)]
  show ?thesis
    unfolding monitors_of_def
    by (rule returns_seq_pair [OF node_queries_wp(3) [OF assms(1,3,2)]], intro returns_if)
       (auto intro!: returns_seq_pair [OF k(1)] returns_seq_pair [OF k(3)] returns_if k(2,4) c d)
qed

lemma visits_mild:
  assumes "quiet_peers hw" "test_env hw w me m b" "node_exists m ty i"
  shows "mild w me (visit_i001 fvp irq hw saved me ty i)" "mild w me (visit_i002 fvp irq hw saved me ty i)"
    "mild w me (visit_i003 fvp irq hw saved me ty i)" "mild w me (visit_i004 fvp irq hw saved me ty i)"
    "mild w me (visit_i005 fvp irq hw saved me ty i)" "mild w me (visit_i006 fvp irq hw saved me ty i)"
    "mild w me (visit_i007 fvp irq hw saved me ty i)"
proof -
  note q = intr_queries [OF assms(2,3)] and mo = monitors_of_wp [OF assms(2,3)]
  note v = irq_visit_mild [OF assms intr_handler_stores [OF assms(2,3)]]
  note e = ecr_ops_wp [OF assms(2) _ assms(3)] partid_errors_wp [OF assms(2) _ assms(3)]
  note r = pe_range_errors_wp [OF assms(2) _ assms(3)]
  show "mild w me (visit_i001 fvp irq hw saved me ty i)"
    unfolding visit_i001_def
    by (rule visit_mild [OF q], assumption, assumption, rule v [OF _ gen_mild not_received_mild], simp, rule e) simp
  have lost: "mild w me (\<lambda>s. if k \<noteq> 0 then val_get_status hw me s \<bind> (\<lambda>(st, s). Some (\<not> IS_RESULT_PENDING st, s))
      else Some (False, s))" for k :: nat
    by (rule mildI, rule returns_if, rule returns_seq_pair [OF val_get_status_wp [OF assms(1,2)]])
       (auto intro: kept_anyI)
  show "mild w me (visit_i002 fvp irq hw saved me ty i)"
    unfolding visit_i002_def
    by (rule visit_mild [OF q], assumption, assumption, rule v [OF _ gen_mild lost], simp, rule e)
  show "mild w me (visit_i003 fvp irq hw saved me ty i)"
    unfolding visit_i003_def
    by (rule visit_mild1 [OF q(1)], assumption, rule v [OF _ gen_mild not_received_mild], simp, rule e)
  show "mild w me (visit_i004 fvp irq hw saved me ty i)"
    unfolding visit_i004_def
    by (rule visit_mild [OF q(1) mo], assumption, assumption, rule v [OF _ gen_mild not_received_mild], simp, rule e)
  show "mild w me (visit_i007 fvp irq hw saved me ty i)"
    unfolding visit_i007_def
    by (rule visit_mild [OF q(1) mo], assumption, assumption, rule v [OF _ gen_mild not_received_mild], simp, rule e)
  show "mild w me (visit_i005 fvp irq hw saved me ty i)"
    unfolding visit_i005_def
    by (rule visit_mild1 [OF q(1)], assumption, rule v [OF _ or_skip_mild [OF assms(2)] not_received_mild], simp, rule r) simp_all
  have lost6: "mild w me (\<lambda>s. not_received msg n k (val_sysreg_write MPAM2_SYSREG saved s))" for msg n k
    by (rule mildI, rule mildD [OF not_received_mild]) (simp add: kept_anyI)
  show "mild w me (visit_i006 fvp irq hw saved me ty i)"
    unfolding visit_i006_def
    by (rule visit_mild1 [OF q(1)], assumption, rule v [OF _ or_skip_mild [OF assms(2)] lost6], simp, rule r) simp_all
qed

lemma only_reads_simps [simp]: "only_reads (\<lambda>s. (0, s))" "only_reads (val_sysreg_read hw r)"
  by (simp_all add: only_reads_def)

lemma payloads_return:
  assumes "quiet_peers hw" "test_env hw w me m b" "kept_any w me s"
  shows "returns (kept_any w me) (payload_i001 fvp irq hw s)" "returns (kept_any w me) (payload_i002 fvp irq hw s)"
    "returns (kept_any w me) (payload_i003 fvp irq hw s)" "returns (kept_any w me) (payload_i004 fvp irq hw s)"
    "returns (kept_any w me) (payload_i005 fvp irq hw s)" "returns (kept_any w me) (payload_i006 fvp irq hw s)"
    "returns (kept_any w me) (payload_i007 fvp irq hw s)"
  unfolding payload_i001_def payload_i002_def payload_i003_def payload_i004_def payload_i005_def
    payload_i006_def payload_i007_def
  by (rule irq_payload_any [OF assms(2,3)], simp, erule visits_mild [OF assms(1,2)])+

subsection \<open>The verdict of the level and the edge test\<close>

lemma intrs_of_node:
  assumes "test_env hw w me m b" "node_exists m ty i" "kept w me v s" "ty = MPAM_NODE_CACHE \<or> ty = MPAM_NODE_MEMORY"
  shows "returns (\<lambda>(x, t). kept w me v t \<and> x = error_intr_num (intr_of m (ty, i))) (val_node_get_error_intrnum hw ty i s)"
    "returns (\<lambda>(x, t). kept w me v t \<and> x = error_intr_type (intr_of m (ty, i))) (val_node_get_error_intrtype hw ty i s)"
  by (rule returns_mono [OF intr_num_wp(1) [OF assms(1,3,2)]], use assms(4) in \<open>fastforce simp: intr_of_def\<close>)
     (rule returns_mono [OF intr_num_wp(2) [OF assms(1,3,2)]], use assms(4) in \<open>fastforce simp: intr_of_def\<close>)

lemma node_no_type: "fst (node_no m index) = MPAM_NODE_CACHE \<or> fst (node_no m index) = MPAM_NODE_MEMORY"
  by (simp add: node_no_def)

text \<open>The nodes with a level-sensitive, or an edge-triggered, error interrupt.\<close>

definition level_intr :: "intr_info \<Rightarrow> bool" where
  "level_intr x \<longleftrightarrow> error_intr_num x \<noteq> 0 \<and> (ucast (error_intr_type x) :: u8) \<noteq> ucast INTR_EDGE_TRIGGER"

definition edge_intr :: "intr_info \<Rightarrow> bool" where
  "edge_intr x \<longleftrightarrow> error_intr_num x \<noteq> 0 \<and> (ucast (error_intr_type x) :: u8) \<noteq> ucast INTR_LEVEL_TRIGGER"

text \<open>A visit of test 1 or 2, when the visit of a node it is meant for has the result \<open>r\<close>.\<close>

lemma typed_visit:
  assumes "test_env hw w me m b" "index < num_cache_nodes m + num_memory_nodes m" "kept w me v s"
    and "p = node_no m index"
    and "\<And>t. kept w me v t \<Longrightarrow> \<not> skip (error_intr_num (intr_of m p)) (error_intr_type (intr_of m p)) \<Longrightarrow>
      returns Q (rest (error_intr_num (intr_of m p)) (error_intr_type (intr_of m p)) t)"
    and "\<And>t. kept w me v t \<Longrightarrow> skip (error_intr_num (intr_of m p)) (error_intr_type (intr_of m p)) \<Longrightarrow>
      Q (Passed_over, t)"
  shows "returns Q (val_node_get_error_intrnum hw (fst p) (snd p) s \<bind> (\<lambda>(x, s).
      val_node_get_error_intrtype hw (fst p) (snd p) s \<bind> (\<lambda>(y, s).
      if skip x y then Some (Passed_over, s) else rest x y s)))"
proof -
  have n: "node_exists m (fst p) (snd p)" using node_no_valid(1) [OF assms(1,2)] assms(4) by (metis prod.collapse)
  note i = intrs_of_node [OF assms(1) n _ node_no_type [of m index, folded assms(4)], unfolded prod.collapse]
  show ?thesis
    by (rule returns_seq_pair [OF i(1) [OF assms(3)]], elim conjE, hypsubst,
        rule returns_seq_pair [OF i(2)], assumption, elim conjE, hypsubst, rule returns_if)
       (simp_all add: assms(5,6))
qed

text \<open>The visit of a test that looks at the number and the type of the interrupt, on a machine that
  never takes an interrupt, and on one that takes what is pending.\<close>

lemma typed_visit_known:
  assumes "test_env hw w me m b" "ro_reg hw (mmio_addr (b + 4)) typer"
    and "\<forall>x\<in>set (node_intrs m). error_intr_num x \<le> max_intid typer"
    and "index < num_cache_nodes m + num_memory_nodes m" "kept w me v s" "p = node_no m index"
    and skip: "\<And>x. skip (error_intr_num x) (error_intr_type x) \<longleftrightarrow> \<not> P x" "\<And>x. P x \<Longrightarrow> error_intr_num x \<noteq> 0"
    and gen: "\<And>x v s. kept w me v s \<Longrightarrow> returns (\<lambda>(g, t). g \<and> kept w me v t) (gen x s)"
    and wait: "\<And>x s. kept w me (RESULT_PENDING n) s \<Longrightarrow>
      returns (\<lambda>(k, t). T k \<and> kept w me z t) (await_interrupt fvp irq hw me x (isr x) s)"
    and lost: "\<And>x k s. T k \<Longrightarrow> kept w me z s \<Longrightarrow> returns (\<lambda>(bad, t). bad = y \<and> kept w me z t) (lost x k s)"
  shows "returns (\<lambda>(r, t). r = (if P (intr_of m p) then if y then Returned else Visited else Passed_over) \<and>
      kept w me (if P (intr_of m p) then if y then RESULT_FAIL n 2 else z else v) t)
    (val_node_get_error_intrnum hw (fst p) (snd p) s \<bind> (\<lambda>(x, s).
      val_node_get_error_intrtype hw (fst p) (snd p) s \<bind> (\<lambda>(ty, s).
      if skip x ty then Some (Passed_over, s)
      else irq_visit fvp irq hw n me (fst p) (snd p) x (isr x) (gen x) (lost x) s)))"
proof (rule typed_visit [OF assms(1,4,5,6)])
  have n: "node_exists m (fst p) (snd p)"
    using node_no_valid(1) [OF assms(1,4)] assms(6) by (metis prod.collapse)
  have "intr_of m p \<in> set (node_intrs m)"
    using node_no_valid(2) [OF assms(1,4)] assms(4,6) total_nodes [OF assms(1)]
    by (metis nth_mem prod.collapse word_less_nat_alt)
  then have mx: "error_intr_num (intr_of m p) \<le> max_intid typer" using assms(3) by blast
  fix t
  assume t: "kept w me v t" "\<not> skip (error_intr_num (intr_of m p)) (error_intr_type (intr_of m p))"
  then have l: "P (intr_of m p)" "0 < error_intr_num (intr_of m p)" using skip by (auto simp: word_gt_0)
  show "returns (\<lambda>(r, t). r = (if P (intr_of m p) then if y then Returned else Visited else Passed_over) \<and>
      kept w me (if P (intr_of m p) then if y then RESULT_FAIL n 2 else z else v) t)
    (irq_visit fvp irq hw n me (fst p) (snd p) (error_intr_num (intr_of m p)) (isr (error_intr_num (intr_of m p)))
       (gen (error_intr_num (intr_of m p))) (lost (error_intr_num (intr_of m p))) t)"
    by (rule returns_mono [OF irq_visit_known [OF assms(1) n t(1) assms(2) l(2) mx gen wait lost]]) (use l in auto)
qed (auto simp: skip)

lemma typed_visit_never:
  assumes "quiet_peers hw" "test_env hw w me m b" "ro_reg hw (mmio_addr (b + 4)) typer"
    and "\<forall>x\<in>set (node_intrs m). error_intr_num x \<le> max_intid typer"
    and "index < num_cache_nodes m + num_memory_nodes m" "kept w me v s" "p = node_no m index"
    and "\<And>x. skip (error_intr_num x) (error_intr_type x) \<longleftrightarrow> \<not> P x" "\<And>x. P x \<Longrightarrow> error_intr_num x \<noteq> 0"
    and "\<And>x v s. kept w me v s \<Longrightarrow> returns (\<lambda>(g, t). g \<and> kept w me v t) (gen x s)"
    and "\<forall>h n. \<not> irq h n" "n < 0x1000"
    and lost: "\<And>x s. kept w me (RESULT_PENDING n) s \<Longrightarrow>
      returns (\<lambda>(bad, t). bad = y \<and> kept w me (RESULT_PENDING n) t) (lost x 0 s)"
  shows "returns (\<lambda>(r, t). r = (if P (intr_of m p) then if y then Returned else Visited else Passed_over) \<and>
      kept w me (if P (intr_of m p) then if y then RESULT_FAIL n 2 else RESULT_PENDING n else v) t)
    (val_node_get_error_intrnum hw (fst p) (snd p) s \<bind> (\<lambda>(x, s).
      val_node_get_error_intrtype hw (fst p) (snd p) s \<bind> (\<lambda>(ty, s).
      if skip x ty then Some (Passed_over, s)
      else irq_visit fvp irq hw n me (fst p) (snd p) x (isr x) (gen x) (lost x) s)))"
proof -
  have pd: "IS_RESULT_PENDING (RESULT_PENDING n)" using small_results_classified(9) [of n 1] assms(12) by simp
  have w: "returns (\<lambda>(k, t). k = 0 \<and> kept w me (RESULT_PENDING n) t) (await_interrupt fvp irq hw me x (isr x) s)"
    if "kept w me (RESULT_PENDING n) s" for x s
    by (rule await_interrupt_never [where irq = irq, OF assms(1,2) _ that pd]) (simp add: assms(11))
  show ?thesis
    by (rule typed_visit_known [where P = P, OF assms(2-7) _ _ assms(10) w]) (simp_all add: assms(8,9) lost)
qed

lemma typed_visit_taken:
  assumes "quiet_peers hw" "test_env hw w me m b" "ro_reg hw (mmio_addr (b + 4)) typer"
    and "\<forall>x\<in>set (node_intrs m). error_intr_num x \<le> max_intid typer"
    and "index < num_cache_nodes m + num_memory_nodes m" "kept w me v s" "p = node_no m index"
    and "\<And>x. skip (error_intr_num x) (error_intr_type x) \<longleftrightarrow> \<not> P x" "\<And>x. P x \<Longrightarrow> error_intr_num x \<noteq> 0"
    and "\<And>x v s. kept w me v s \<Longrightarrow> returns (\<lambda>(g, t). g \<and> kept w me v t) (gen x s)"
    and "\<forall>h n. just_pended b n h \<longrightarrow> irq h n" "\<And>x. handler_stores w me z (isr x)" "\<not> IS_RESULT_PENDING z"
    and lost: "\<And>x k s. k \<noteq> 0 \<Longrightarrow> kept w me z s \<Longrightarrow> returns (\<lambda>(bad, t). bad = y \<and> kept w me z t) (lost x k s)"
  shows "returns (\<lambda>(r, t). r = (if P (intr_of m p) then if y then Returned else Visited else Passed_over) \<and>
      kept w me (if P (intr_of m p) then if y then RESULT_FAIL n 2 else z else v) t)
    (val_node_get_error_intrnum hw (fst p) (snd p) s \<bind> (\<lambda>(x, s).
      val_node_get_error_intrtype hw (fst p) (snd p) s \<bind> (\<lambda>(ty, s).
      if skip x ty then Some (Passed_over, s)
      else irq_visit True irq hw n me (fst p) (snd p) x (isr x) (gen x) (lost x) s)))"
proof -
  have w: "returns (\<lambda>(k, t). k \<noteq> 0 \<and> kept w me z t) (await_interrupt True irq hw me x (isr x) s)"
    if "kept w me (RESULT_PENDING n) s" for x s
    by (rule await_interrupt_taken [where irq = irq, OF assms(1,2,12) that _ assms(13)]) (use assms(11) in blast)
  show ?thesis
    by (rule typed_visit_known [where P = P, OF assms(2-7) _ _ assms(10) w]) (simp_all add: assms(8,9) lost)
qed

lemma trigger_gen:
  assumes "test_env hw w me m b" "node_exists m ty i" "kept w me v s"
  shows "returns (\<lambda>(g, t). g \<and> kept w me v t) (val_node_trigger_intr hw ty i s \<bind> (\<lambda>s. Some (True, s)))"
  by (rule returns_seq [OF ecr_ops_wp(1) [OF assms(1,3,2)]]) simp



text \<open>
  The edge test is the mirror image: an interrupt that arrives in time is the failure. The error
  it provokes must not raise an edge-triggered interrupt; but in the simulation build the test
  sets the interrupt pending in the distributor itself, and then it fails on every machine with
  such a component whose distributor works, also when the component is silent.
\<close>

theorem edge_test_verdict:
  assumes "quiet_peers hw" "test_env hw s me m b" "ro_reg hw (mmio_addr (b + 4)) typer"
    and "\<forall>x\<in>set (node_intrs m). error_intr_num x \<le> max_intid typer"
  shows "((\<forall>h n. \<not> irq h n) \<longrightarrow> (\<exists>t. payload_i002 fvp irq hw s = Some t \<and>
            status_word me t = (if \<exists>x\<in>set (node_intrs m). edge_intr x then RESULT_PASS 32 1 else RESULT_SKIP 32 0))) \<and>
         ((\<forall>h n. just_pended b n h \<longrightarrow> irq h n) \<longrightarrow> (\<exists>t. payload_i002 True irq hw s = Some t \<and>
            status_word me t = (if \<exists>x\<in>set (node_intrs m). edge_intr x then RESULT_FAIL 32 2 else RESULT_SKIP 32 0)))"
proof -
  have l: "error_intr_num x = 0 \<or> (ucast (error_intr_type x) :: u8) = ucast INTR_LEVEL_TRIGGER \<longleftrightarrow> \<not> edge_intr x"
    "edge_intr x \<Longrightarrow> error_intr_num x \<noteq> 0" for x by (auto simp: edge_intr_def)
  have small: "TEST_I 2 < 0x1000" "\<not> IS_RESULT_PENDING (RESULT_FAIL (TEST_I 2) 2)" "TEST_I 2 = 32"
    using small_results_classified(11) [of "TEST_I 2" 2] by (simp_all add: ACS_INTR_TEST_NUM_BASE_def)
  have n: "node_exists m (fst (node_no m k)) (snd (node_no m k))" if "k < num_cache_nodes m + num_memory_nodes m" for k
    using node_no_valid(1) [OF assms(2) that] by (metis prod.collapse)
  have again: "returns (\<lambda>(bad, t). bad = True \<and> kept s me (RESULT_FAIL (TEST_I 2) 2) t)
      (if k \<noteq> 0 then val_get_status hw me u \<bind> (\<lambda>(st, s). Some (\<not> IS_RESULT_PENDING st, s)) else Some (False, u))"
    if "k \<noteq> 0" "kept s me (RESULT_FAIL (TEST_I 2) 2) u" for k :: nat and u
    using that(1) small(2)
    by (simp, intro returns_seq_pair [OF val_get_status_wp [OF assms(1,2) that(2)]]) simp
  have never: "returns (kept s me (if \<exists>x\<in>set (node_intrs m). edge_intr x then RESULT_PASS (TEST_I 2) 1 else RESULT_SKIP (TEST_I 2) 0))
      (payload_i002 fvp irq hw s)" if irq: "\<forall>h n. \<not> irq h n"
    unfolding payload_i002_def visit_i002_def
    by (rule irq_payload_passes [where P = edge_intr, OF assms(2) kept_refl], simp,
        rule returns_mono [OF typed_visit_never [where y = False and P = edge_intr, OF assms(1-4) _ _ refl l _ irq small(1)]])
       (auto intro!: trigger_gen [OF assms(2) n] intro: kept_anyI)
  have taken: "returns (kept s me (if \<exists>x\<in>set (node_intrs m). edge_intr x then RESULT_FAIL (TEST_I 2) 2 else RESULT_SKIP (TEST_I 2) 0))
      (payload_i002 True irq hw s)" if irq: "\<forall>h n. just_pended b n h \<longrightarrow> irq h n"
    unfolding payload_i002_def visit_i002_def
    by (rule irq_payload_stops [OF assms(2) kept_refl], simp,
        rule returns_mono [OF typed_visit_taken [where y = True and P = edge_intr, OF assms(1-4) _ _ refl l _ irq
            intr_handler_stores [OF assms(2) n] small(2) again]])
       (auto intro!: trigger_gen [OF assms(2) n])
  from never taken show ?thesis unfolding small(3) by (auto simp: returns_def kept_def)
qed

text \<open>A machine with a distributor, a cache with the level-sensitive interrupt 40, and a memory
  with the edge-triggered interrupt 41; every register reads 5.\<close>

definition irq_info :: mpam_info where
  "irq_info = \<lparr>num_cache_nodes = 1, num_memory_nodes = 1,
     cache_node = [\<lparr>line_size = 64, csize = 0x10000, neighbours = [], scope_index = 0, node_scope = 2,
        alloc_type = 0, cache_type = 0, write_policy = 0, areserved = 0, cn_hwreg_base = 0x60000000,
        cn_not_ready_max_us = 0, cn_intr = \<lparr>error_intr_num = 40, overflow_intr_num = 0,
          error_intr_type = 1, overflow_intr_type = 0\<rparr>\<rparr>],
     memory_node = [\<lparr>proximity_domain = 0, base_address = 0x80000000, mlength = 0x40000000, flags = 0,
        mn_hwreg_base = 0x61000000, mn_not_ready_max_us = 0, mn_intr = \<lparr>error_intr_num = 41,
          overflow_intr_num = 0, error_intr_type = 0, overflow_intr_type = 0\<rparr>\<rparr>]\<rparr>"

definition irq_world :: world where
  "irq_world = gic_world\<lparr>gl := (gl gic_world)\<lparr>g_mpam_info_table := Some [irq_info, irq_info]\<rparr>\<rparr>"

definition five_hw :: hw where
  "five_hw = (ram_hw (\<lambda>_. 0) 0)\<lparr>mmio_in := \<lambda>h a. 5\<rparr>"

lemma five_hw_simps [simp]:
  "quiet_peers five_hw" "ro_reg five_hw a 5" "max_intid 5 = 191" "mmio_in five_hw h a = 5"
  by (simp_all add: five_hw_def quiet_peers_def ram_hw_def ro_reg_def max_intid_def)

lemma irq_world_env: "test_env five_hw irq_world 0 irq_info 0x2F000000"
proof -
  have "my_index five_hw irq_world = Some (0, log_io (SysRead ''arm64_read_mpidr'') irq_world)"
    by (rule my_index_eq) (simp add: affx_def val_pe_get_index_mpid_def irq_world_def gic_world_def two_pe_world_def
        five_hw_def ram_hw_def)
  moreover have "gicd_at 0x2F000000 irq_world"
    using gic_world_at by (simp add: gicd_at_def irq_world_def)
  ultimately show ?thesis
    by (simp add: test_env_def irq_world_def gic_world_def two_pe_world_def irq_info_def shared_size_def TWO_MB_def)
qed

lemma irq_info_intrs:
  "\<forall>x\<in>set (node_intrs irq_info). error_intr_num x \<le> max_intid 5"
  "\<exists>x\<in>set (node_intrs irq_info). level_intr x" "\<exists>x\<in>set (node_intrs irq_info). edge_intr x"
  by (simp_all add: node_intrs_def irq_info_def level_intr_def edge_intr_def INTR_EDGE_TRIGGER_def INTR_LEVEL_TRIGGER_def)


lemma edge_test_verdict_witness:
  "\<exists>t u. payload_i002 False (\<lambda>h n. False) five_hw irq_world = Some t \<and> status_word 0 t = RESULT_PASS 32 1 \<and>
     payload_i002 True (\<lambda>h n. True) five_hw irq_world = Some u \<and> status_word 0 u = RESULT_FAIL 32 2"
  using edge_test_verdict [OF five_hw_simps(1) irq_world_env five_hw_simps(2) irq_info_intrs(1), of "\<lambda>h n. False" False]
    edge_test_verdict [OF five_hw_simps(1) irq_world_env five_hw_simps(2) irq_info_intrs(1), of "\<lambda>h n. True" False]
    irq_info_intrs(3)
  by auto

subsection \<open>The overflow test looks at one node only\<close>

text \<open>The monitor bit of memory node 0, as the test reads it after a history.\<close>

definition oflow_bit :: "hw \<Rightarrow> mpam_info \<Rightarrow> history \<Rightarrow> u8" where
  "oflow_bit hw m h = ucast (field (mmio_in hw h (mmio_addr (mn_hwreg_base (memory_node m ! 0) + REG_MPAMF_IDR)))
     IDR_HAS_MSMON_SHIFT IDR_HAS_MSMON_MASK)"

lemma first_memory_wp:
  assumes "test_env hw w me m b" "memory_node m \<noteq> []" "kept w me v s"
  shows "returns (\<lambda>(x, t). kept w me v t \<and> x = overflow_intr_num (mn_intr (memory_node m ! 0)))
      (val_node_get_oflow_intrnum hw MPAM_NODE_MEMORY 0 s)"
    "returns (\<lambda>(x, t). kept w me v t \<and> (\<exists>h. x = oflow_bit hw m h)) (val_node_supports_mon hw MPAM_NODE_MEMORY 0 s)"
proof -
  have d: "MPAM_NODE_MEMORY \<noteq> MPAM_NODE_CACHE" by (simp add: MPAM_NODE_MEMORY_def MPAM_NODE_CACHE_def)
  have n: "node_exists m MPAM_NODE_MEMORY 0" using assms(2) d by (simp add: node_exists_def)
  note l = node_lookup_wp [OF assms(1,3) n]
  show "returns (\<lambda>(x, t). kept w me v t \<and> x = overflow_intr_num (mn_intr (memory_node m ! 0)))
      (val_node_get_oflow_intrnum hw MPAM_NODE_MEMORY 0 s)"
    unfolding val_node_get_oflow_intrnum_def by (rule returns_mono [OF l]) (auto simp: d)
  obtain base t where t: "val_node_hwreg_base hw MPAM_NODE_MEMORY 0 s = Some (base, t)" "kept w me v t"
    "base = mn_hwreg_base (memory_node m ! 0)"
    using l [of cn_hwreg_base mn_hwreg_base 0 0] d by (auto simp: val_node_hwreg_base_def returns_def)
  then show "returns (\<lambda>(x, t). kept w me v t \<and> (\<exists>h. x = oflow_bit hw m h)) (val_node_supports_mon hw MPAM_NODE_MEMORY 0 s)"
    by (auto simp: val_node_supports_mon_def node_read_def oflow_bit_def split_beta)
qed

lemma oflow_monitors_wp:
  assumes "test_env hw w me m b" "memory_node m \<noteq> []" "kept w me v s"
  shows "returns (\<lambda>(k, t). kept w me v t \<and> ((\<forall>h. oflow_bit hw m h \<noteq> 0) \<longrightarrow> k \<noteq> None) \<and>
     ((\<forall>h. oflow_bit hw m h = 0) \<longrightarrow> k = mon)) (oflow_monitors hw mon s)"
proof -
  have n: "node_exists m MPAM_NODE_MEMORY 0"
    using assms(2) by (simp add: node_exists_def MPAM_NODE_MEMORY_def MPAM_NODE_CACHE_def)
  note k = monitor_counts_wp [OF assms(1)]
  show ?thesis
    unfolding oflow_monitors_def
    by (rule returns_seq_pair [OF first_memory_wp(2) [OF assms]], elim conjE exE, rule returns_if,
        rule returns_seq_pair [OF k(3) [OF _ n]], assumption, rule returns_if,
        rule returns_seq_pair [OF k(4) [OF _ n]], assumption)
       auto
qed

text \<open>The test is defined when node 0 has no overflow interrupt, or has monitors.\<close>

definition oflow_defined :: "hw \<Rightarrow> mpam_info \<Rightarrow> bool" where
  "oflow_defined hw m \<longleftrightarrow> memory_node m = [] \<or> overflow_intr_num (mn_intr (memory_node m ! 0)) = 0 \<or>
     (\<forall>h. oflow_bit hw m h \<noteq> 0)"

lemma oflow_loop_mild:
  assumes "quiet_peers hw" "test_env hw w me m b" "memory_node m \<noteq> []" "oflow_defined hw m" "kept_any w me s"
  shows "returns (\<lambda>(r, t). kept_any w me t) (oflow_loop fvp irq hw me is' mon c s)"
  using assms(5)
proof (induction is' arbitrary: mon c s)
  case Nil
  then show ?case by simp
next
  case (Cons index is')
  from Cons.prems obtain v where v: "kept w me v s" by (auto simp: kept_any_def)
  have n: "node_exists m MPAM_NODE_MEMORY 0"
    using assms(3) by (simp add: node_exists_def MPAM_NODE_MEMORY_def MPAM_NODE_CACHE_def)
  let ?i = "overflow_intr_num (mn_intr (memory_node m ! 0))"
  have visit: "mild w me (irq_visit fvp irq hw (TEST_I 8) me MPAM_NODE_MEMORY 0 ?i
      (intr_handler hw ACS_PRINT_DEBUG ''Received Oflow error interrupt %d'' (RESULT_PASS (TEST_I 8) 1)
         (\<lambda>s. s) MPAM_NODE_MEMORY 0 ?i)
      (\<lambda>s. val_node_generate_msmon_oflow_error hw 0 k s \<bind> (\<lambda>s. Some (True, s)))
      (not_received ''MSC MSMON oor Err Interrupt not received on %d'' ?i))" for k
    by (rule irq_visit_mild [OF assms(1,2) n intr_handler_stores [OF assms(2) n] gen_mild not_received_mild])
       (simp_all add: oflow_error_wp [OF assms(2) _ n])
  show ?case
    unfolding oflow_loop.simps
  proof (rule returns_seq_pair [OF first_memory_wp(1) [OF assms(2,3) v]], elim conjE, hypsubst,
      rule returns_seq_pair [OF oflow_monitors_wp [OF assms(2,3), where mon = mon]], assumption, rule returns_if)
    fix t k and u :: world
    assume k: "kept w me v u \<and> ((\<forall>h. oflow_bit hw m h \<noteq> 0) \<longrightarrow> k \<noteq> None) \<and> ((\<forall>h. oflow_bit hw m h = 0) \<longrightarrow> k = mon)"
    then show "returns (\<lambda>(r, t). kept_any w me t) (oflow_loop fvp irq hw me is' k c u)" by (auto intro: Cons.IH kept_anyI)
    assume "?i \<noteq> 0"
    then obtain x where x: "k = Some x" using k assms(3,4) by (auto simp: oflow_defined_def)
    show "returns (\<lambda>(r, t). kept_any w me t) (k \<bind> (\<lambda>x. if x = 0 then oflow_loop fvp irq hw me is' k c u
       else irq_visit fvp irq hw (TEST_I 8) me MPAM_NODE_MEMORY 0 ?i
         (intr_handler hw ACS_PRINT_DEBUG ''Received Oflow error interrupt %d'' (RESULT_PASS (TEST_I 8) 1)
            (\<lambda>s. s) MPAM_NODE_MEMORY 0 ?i)
         (\<lambda>s. val_node_generate_msmon_oflow_error hw 0 x s \<bind> (\<lambda>s. Some (True, s)))
         (not_received ''MSC MSMON oor Err Interrupt not received on %d'' ?i) u \<bind>
         (\<lambda>(v, s). if v = Returned then Some (None, s) else oflow_loop fvp irq hw me is' k (c + 1) s)))"
      unfolding x bind.simps(2)
      by (rule returns_if, rule Cons.IH, use k in \<open>blast intro: kept_anyI\<close>,
          rule returns_seq_pair [OF mildD [OF visit]], use k in \<open>blast intro: kept_anyI\<close>)
         (auto intro: Cons.IH)
  qed
qed

lemma payload_i008_split:
  assumes "test_env hw w me m b" "kept w me v s"
    and "\<And>t x. kept w me v t \<Longrightarrow> returns Q (oflow_loop fvp irq hw me (upto_u32 (num_memory_nodes m)) None 0 t \<bind>
        (\<lambda>(r, s). irq_result (TEST_I 8) me r (val_sysreg_write MPAM2_SYSREG x s)))"
  shows "returns Q (payload_i008 fvp irq hw s)"
  unfolding payload_i008_def Let_def split_beta
  by (rule returns_seq [OF my_index_wp [OF assms(1,2)]], clarsimp,
      rule returns_seq [OF node_total_wp(2) [OF assms(1)]], assumption, clarsimp)
     (simp add: assms(3) [unfolded split_beta])

lemma payload_i008_returns:
  assumes "quiet_peers hw" "test_env hw w me m b" "oflow_defined hw m" "kept_any w me s"
  shows "returns (kept_any w me) (payload_i008 fvp irq hw s)"
proof -
  from assms(4) obtain v where v: "kept w me v s" by (auto simp: kept_any_def)
  have r: "returns (kept_any w me) (irq_result n me r (val_sysreg_write MPAM2_SYSREG x u))" if "kept_any w me u" for n r x u
    by (rule irq_result_any [OF assms(2)]) (simp add: that)
  show ?thesis
  proof (rule payload_i008_split [OF assms(2) v])
    fix t x
    assume t: "kept w me v t"
    show "returns (kept_any w me) (oflow_loop fvp irq hw me (upto_u32 (num_memory_nodes m)) None 0 t \<bind>
        (\<lambda>(r, s). irq_result (TEST_I 8) me r (val_sysreg_write MPAM2_SYSREG x s)))"
    proof (cases "memory_node m = []")
      case True
      then have "num_memory_nodes m = 0" using assms(2) by (simp add: test_env_def unat_eq_zero)
      then show ?thesis by (simp add: r kept_anyI [OF t])
    next
      case False
      show ?thesis
        by (rule returns_seq_pair [OF oflow_loop_mild [OF assms(1,2) False assms(3) kept_anyI [OF t]]]) (rule r)
    qed
  qed
qed

lemma oflow_loop_skips:
  assumes "test_env hw w me m b" "memory_node m \<noteq> []" "overflow_intr_num (mn_intr (memory_node m ! 0)) = 0"
    and "kept w me v s"
  shows "returns (\<lambda>(r, t). r = Some c \<and> kept w me v t) (oflow_loop fvp irq hw me is' mon c s)"
  using assms(4)
proof (induction is' arbitrary: mon s)
  case Nil
  then show ?case by simp
next
  case (Cons index is')
  show ?case
    unfolding oflow_loop.simps
    by (rule returns_seq_pair [OF first_memory_wp(1) [OF assms(1,2) Cons.prems]], elim conjE, hypsubst,
        rule returns_seq_pair [OF oflow_monitors_wp [OF assms(1,2), where mon = mon]], assumption)
       (simp add: assms(3) Cons.IH)
qed

text \<open>C24: 
  The overflow test never looks past memory node 0: with no overflow interrupt there it is
  skipped, however many other nodes have monitors and interrupts; and if node 0 has the
  interrupt but no monitors, the test reads a count that was never set.
\<close>

theorem oflow_test_first_node:
  assumes "test_env hw s me m b" "memory_node m \<noteq> []"
  shows "(overflow_intr_num (mn_intr (memory_node m ! 0)) = 0 \<longrightarrow>
            (\<exists>t. payload_i008 fvp irq hw s = Some t \<and> status_word me t = RESULT_SKIP 38 0)) \<and>
         (overflow_intr_num (mn_intr (memory_node m ! 0)) \<noteq> 0 \<and> (\<forall>h. oflow_bit hw m h = 0) \<longrightarrow>
            payload_i008 fvp irq hw s = None)"
proof (intro conjI impI)
  assume z: "overflow_intr_num (mn_intr (memory_node m ! 0)) = 0"
  have "returns (kept s me (RESULT_SKIP (TEST_I 8) 0)) (payload_i008 fvp irq hw s)"
    by (rule payload_i008_split [OF assms(1) kept_refl],
        rule returns_seq_pair [OF oflow_loop_skips [OF assms z]], assumption, elim conjE)
       (simp add: irq_result_def val_set_status_wp [OF assms(1)])
  then show "\<exists>t. payload_i008 fvp irq hw s = Some t \<and> status_word me t = RESULT_SKIP 38 0"
    by (auto simp: returns_def kept_def ACS_INTR_TEST_NUM_BASE_def)
next
  assume h: "overflow_intr_num (mn_intr (memory_node m ! 0)) \<noteq> 0 \<and> (\<forall>h. oflow_bit hw m h = 0)"
  obtain k where "unat (num_memory_nodes m) = Suc k"
    using assms by (cases "unat (num_memory_nodes m)") (auto simp: test_env_def)
  then obtain is' where up: "upto_u32 (num_memory_nodes m) = 0 # is'"
    by (auto simp: upto_u32_def upt_conv_Cons simp del: upt_Suc)
  have none: "oflow_loop fvp irq hw me (0 # is') None 0 t = None"
    if t: "kept s me (status_word me s) t" for t
  proof -
    obtain u where u: "val_node_get_oflow_intrnum hw MPAM_NODE_MEMORY 0 t =
        Some (overflow_intr_num (mn_intr (memory_node m ! 0)), u)" "kept s me (status_word me s) u"
      using first_memory_wp(1) [OF assms t] by (auto simp: returns_def)
    obtain x where "oflow_monitors hw None u = Some (None, x)"
      using oflow_monitors_wp [OF assms u(2), of None] h by (auto simp: returns_def)
    with u h show ?thesis by simp
  qed
  obtain i t where i: "my_index hw s = Some (i, t)" "i = me" "kept s me (status_word me s) t"
    using my_index_wp [OF assms(1) kept_refl] by (auto simp: returns_def)
  obtain j u where j: "val_node_get_total hw MPAM_NODE_MEMORY t = Some (j, u)" "j = num_memory_nodes m"
      "kept s me (status_word me s) u"
    using node_total_wp(2) [OF assms(1) i(3)] by (auto simp: returns_def)
  show "payload_i008 fvp irq hw s = None"
    using i j by (simp add: payload_i008_def Let_def split_beta up none del: oflow_loop.simps)
qed


lemma oflow_test_first_node_witness:
  "\<exists>t. payload_i008 False (\<lambda>h n. False) five_hw irq_world = Some t \<and> status_word 0 t = RESULT_SKIP 38 0"
  using oflow_test_first_node [OF irq_world_env] by (simp add: irq_info_def)

subsection \<open>The interrupt module with its own payloads\<close>

text \<open>The state in which the tests run.\<close>

definition test_ready :: "hw \<Rightarrow> world \<Rightarrow> bool" where
  "test_ready hw s \<longleftrightarrow> length (g_skip_test_num (gl s)) = MAX_TEST_SKIP_NUM \<and>
     (\<exists>me m b. test_env hw s me m b \<and> oflow_defined hw m)"

lemma test_env_same:
  assumes "test_env hw s me m b" "same_suite s t"
  shows "test_env hw t me m b"
  using my_index_same [of hw s me _ t] assms
  by (auto simp: test_env_def same_suite_def gicd_at_def)

lemma test_ready_set_up: "set_up hw (test_ready hw)"
  unfolding set_up_def
proof (intro conjI allI impI)
  show "ready hw s" if "test_ready hw s" for s
    using that by (auto simp: test_ready_def test_env_def ready_def)
  show "test_ready hw t" if "test_ready hw s" "same_suite s t" for s t
    using that test_env_same [OF _ that(2)] unfolding test_ready_def by (metis same_suite_def)
qed

lemma kept_any_same_suite: "kept_any w me t \<Longrightarrow> same_suite w t \<and> counters t = counters w"
  using kept_tables [of w me _ t] by (auto simp: kept_any_def same_suite_def)

lemma irq_pool_good:
  assumes "quiet_peers hw"
  shows "good_pool (test_ready hw) {31..38} (irq_pool fvp irq hw other)"
  unfolding good_pool_def
proof (intro ballI allI impI)
  fix n :: u32 and s
  assume n: "n \<in> {31..38}" and s: "test_ready hw s"
  obtain me m b where e: "test_env hw s me m b" "oflow_defined hw m" using s by (auto simp: test_ready_def)
  have k: "kept_any s me s" by (rule kept_anyI [OF kept_refl])
  have "unat n \<in> {31..38}" using n by (auto simp: word_le_nat_alt)
  then have "unat n = 31 \<or> unat n = 32 \<or> unat n = 33 \<or> unat n = 34 \<or> unat n = 35 \<or> unat n = 36 \<or>
      unat n = 37 \<or> unat n = 38" by auto
  then have "n = 31 \<or> n = 32 \<or> n = 33 \<or> n = 34 \<or> n = 35 \<or> n = 36 \<or> n = 37 \<or> n = 38"
    by (simp add: word_unat_eq_iff)
  then have "returns (kept_any s me) (irq_pool fvp irq hw other n s)"
    using payloads_return [OF assms e(1) k] payload_i008_returns [OF assms e k]
    by (elim disjE) (simp_all add: irq_pool_def ACS_INTR_TEST_NUM_BASE_def)
  then show "returns (\<lambda>t. same_suite s t \<and> counters t = counters s) (irq_pool fvp irq hw other n s)"
    by (rule returns_mono) (rule kept_any_same_suite)
qed



end
