(* ===== verification/Mpam_Pmu.thy ===== *)
theory Mpam_Pmu
  imports Mpam_World
begin

text \<open>
  The cycle counter of the performance monitors (platform pal_pmu.c, val_measurements.c): reading
  and writing the four registers by identifier, starting the counter, which keeps the old value
  of two of the registers in static variables, and stopping it, which writes them back.
\<close>

unbundle bit_operations_syntax

datatype (plugins only: code size) PAL_PMU_REGS = PMCR_EL0 | PMCCNTR_EL0 | PMCCFILTR_EL0 | PMCNTENSET_EL0 | BadPmuReg

definition PMCCFILTR_NSH_EN_BIT :: nat where [reg_defs]: "PMCCFILTR_NSH_EN_BIT = 27"
definition PMCNTENSET_C_EN_BIT :: nat where [reg_defs]: "PMCNTENSET_C_EN_BIT = 31"
definition PMCR_LC_EN_BIT :: nat where [reg_defs]: "PMCR_LC_EN_BIT = 6"
definition PMCR_C_RESET_BIT :: nat where [reg_defs]: "PMCR_C_RESET_BIT = 2"
definition PMCR_EN_BIT :: nat where [reg_defs]: "PMCR_EN_BIT = 0"

text \<open>The static variables of the file.\<close>

record pmu_backup =
  ControlRegBackup :: u64
  CcFiltRegBackup :: u64

definition pal_pmu_reg_read :: "hw \<Rightarrow> PAL_PMU_REGS \<Rightarrow> world \<Rightarrow> u64 \<times> world" where
  "pal_pmu_reg_read hw RegId s =
     (case RegId of
        PMCR_EL0 \<Rightarrow> read_sysreg hw ''Pmcr'' s
      | PMCCNTR_EL0 \<Rightarrow> read_sysreg hw ''Pmccntr'' s
      | PMCCFILTR_EL0 \<Rightarrow> read_sysreg hw ''Pmccfiltr'' s
      | PMCNTENSET_EL0 \<Rightarrow> read_sysreg hw ''Pmcntenset'' s
      | BadPmuReg \<Rightarrow> (0, acs_print ACS_PRINT_ERR ''FATAL - Unsupported PMU register read'' [] s))"

definition pal_pmu_reg_write :: "PAL_PMU_REGS \<Rightarrow> u64 \<Rightarrow> world \<Rightarrow> world" where
  "pal_pmu_reg_write RegId v s =
     (case RegId of
        PMCR_EL0 \<Rightarrow> write_sysreg ''Pmcr'' v s
      | PMCCNTR_EL0 \<Rightarrow> write_sysreg ''Pmccntr'' v s
      | PMCCFILTR_EL0 \<Rightarrow> write_sysreg ''Pmccfiltr'' v s
      | PMCNTENSET_EL0 \<Rightarrow> write_sysreg ''Pmcntenset'' v s
      | BadPmuReg \<Rightarrow> acs_print ACS_PRINT_ERR ''FATAL - Unsupported PMU register read'' [] s)"

text \<open>\<open>1 << n\<close> is a signed 32-bit int: extended to 64 bits it carries its sign.\<close>

definition int_bit :: "nat \<Rightarrow> u64" where
  "int_bit n = scast (push_bit n 1 :: u32)"

definition pal_pmu_cycle_counter_start :: "hw \<Rightarrow> world \<Rightarrow> pmu_backup \<times> world" where
  "pal_pmu_cycle_counter_start hw s =
     (let (CcFiltReg, s) = pal_pmu_reg_read hw PMCCFILTR_EL0 s;
          (ControlReg, s) = pal_pmu_reg_read hw PMCR_EL0 s;
          b = \<lparr>ControlRegBackup = ControlReg, CcFiltRegBackup = CcFiltReg\<rparr>;
          s = pal_pmu_reg_write PMCCFILTR_EL0 (CcFiltReg OR int_bit PMCCFILTR_NSH_EN_BIT) s;
          (_, s) = pal_pmu_reg_read hw PMCCFILTR_EL0 s;
          (CcEnableSetReg, s) = pal_pmu_reg_read hw PMCNTENSET_EL0 s;
          s = pal_pmu_reg_write PMCNTENSET_EL0 (CcEnableSetReg OR int_bit PMCNTENSET_C_EN_BIT) s;
          (_, s) = pal_pmu_reg_read hw PMCNTENSET_EL0 s;
          s = pal_pmu_reg_write PMCR_EL0
                (ControlReg OR (int_bit PMCR_LC_EN_BIT OR int_bit PMCR_C_RESET_BIT OR int_bit PMCR_EN_BIT)) s;
          (_, s) = pal_pmu_reg_read hw PMCR_EL0 s
      in (b, s))"

definition pal_pmu_cycle_counter_stop :: "pmu_backup \<Rightarrow> world \<Rightarrow> world" where
  "pal_pmu_cycle_counter_stop b s =
     pal_pmu_reg_write PMCCFILTR_EL0 (CcFiltRegBackup b) (pal_pmu_reg_write PMCR_EL0 (ControlRegBackup b) s)"

definition val_measurement_start :: "hw \<Rightarrow> world \<Rightarrow> pmu_backup \<times> world" where
  "val_measurement_start hw s = pal_pmu_cycle_counter_start hw s"

definition val_measurement_stop :: "pmu_backup \<Rightarrow> world \<Rightarrow> world" where
  "val_measurement_stop b s = pal_pmu_cycle_counter_stop b s"

definition val_measurement_read :: "hw \<Rightarrow> world \<Rightarrow> u64 \<times> world" where
  "val_measurement_read hw s = pal_pmu_reg_read hw PMCCNTR_EL0 s"

subsection \<open>Starting and stopping\<close>

text \<open>A system register that holds what was last written to it.\<close>

fun last_syswrite :: "history \<Rightarrow> string \<Rightarrow> u64 option" where
  "last_syswrite [] r = None"
| "last_syswrite (SysWrite q v # h) r = (if q = r then Some v else last_syswrite h r)"
| "last_syswrite (_ # h) r = last_syswrite h r"

definition sys_value :: "(string \<Rightarrow> u64) \<Rightarrow> history \<Rightarrow> string \<Rightarrow> u64" where
  "sys_value rst h r = (case last_syswrite h r of None \<Rightarrow> rst r | Some v \<Rightarrow> v)"

definition holds_sysregs :: "hw \<Rightarrow> (string \<Rightarrow> u64) \<Rightarrow> bool" where
  "holds_sysregs hw rst \<longleftrightarrow> (\<forall>h. \<forall>r \<in> {''Pmcr'', ''Pmccfiltr'', ''Pmcntenset''}. sysreg_in hw h r = sys_value rst h r)"

lemma int_bits:
  "int_bit PMCCFILTR_NSH_EN_BIT = 0x8000000" "int_bit PMCNTENSET_C_EN_BIT = 0xFFFFFFFF80000000"
  "int_bit PMCR_LC_EN_BIT = 0x40" "int_bit PMCR_C_RESET_BIT = 4" "int_bit PMCR_EN_BIT = 1"
  by (simp_all add: int_bit_def reg_defs push_bit_eq_mult)

text \<open>Starting and stopping the cycle counter leaves the control register and the filter register as
  they were. The enable register is not put back, and it has been written with all bits from 31 to
  63: the enable bit is computed as a signed 32-bit value and extended.\<close>

theorem pmu_registers_after:
  assumes "holds_sysregs hw rst" "val_measurement_start hw s = (b, t)"
  shows "let u = val_measurement_stop b t in
     sys_value rst (io u) ''Pmcr'' = sys_value rst (io s) ''Pmcr'' \<and>
     sys_value rst (io u) ''Pmccfiltr'' = sys_value rst (io s) ''Pmccfiltr'' \<and>
     sys_value rst (io u) ''Pmcntenset'' = sys_value rst (io s) ''Pmcntenset'' OR 0xFFFFFFFF80000000"
proof -
  have rd: "sysreg_in hw h ''Pmcr'' = sys_value rst h ''Pmcr''"
    "sysreg_in hw h ''Pmccfiltr'' = sys_value rst h ''Pmccfiltr''"
    "sysreg_in hw h ''Pmcntenset'' = sys_value rst h ''Pmcntenset''" for h
    using assms(1) by (simp_all add: holds_sysregs_def)
  show ?thesis using assms(2)
    by (auto simp: val_measurement_start_def val_measurement_stop_def pal_pmu_cycle_counter_start_def
        pal_pmu_cycle_counter_stop_def pal_pmu_reg_read_def pal_pmu_reg_write_def read_sysreg_def
        write_sysreg_def rd int_bits sys_value_def Let_def)
qed

lemma pmu_registers_after_witness:
  "\<exists>b t. val_measurement_start (ram_hw (\<lambda>_. 0) 0 \<lparr>sysreg_in := sys_value (\<lambda>_. 5)\<rparr>) two_pe_world = (b, t) \<and>
     sys_value (\<lambda>_. 5) (io (val_measurement_stop b t)) ''Pmcr'' = 5"
proof -
  let ?hw = "ram_hw (\<lambda>_. 0) 0 \<lparr>sysreg_in := sys_value (\<lambda>_. 5)\<rparr>"
  obtain b t where bt: "val_measurement_start ?hw two_pe_world = (b, t)" by fastforce
  have "holds_sysregs ?hw (\<lambda>_. 5)" by (simp add: holds_sysregs_def)
  from pmu_registers_after [OF this bt] bt show ?thesis
    by (auto simp: Let_def sys_value_def two_pe_world_def)
qed

end
