(* ===== verification/Mpam_Cache_Tests.thy ===== *)
theory Mpam_Cache_Tests
  imports Mpam_Suite Mpam_Pmu
begin

text \<open>
  The payloads of the cache partitioning tests (test_pool/cache/test_c002.c to test_c006.c).
  Each looks for the caches with the partitioning it is about, the largest of them and the
  largest PARTID that every cache has; programs the caches for each of its scenarios; and
  measures with the cycle counter how long a copy through the cache takes. MPAM2_EL2, which
  labels this PE's accesses, is changed for the measurement and put back.
\<close>

definition HARDLIMIT_DIS :: u8 where [reg_defs]: "HARDLIMIT_DIS = 0"
definition HARDLIMIT_EN :: u8 where [reg_defs]: "HARDLIMIT_EN = 1"
definition DEFAULT_PARTID_MAX :: u16 where [reg_defs]: "DEFAULT_PARTID_MAX = 65535"

abbreviation TEST_C :: "u32 \<Rightarrow> u32" where "TEST_C k \<equiv> ACS_CACHE_TEST_NUM_BASE + k"

definition debug :: "string \<Rightarrow> u64 \<Rightarrow> world \<Rightarrow> world" where
  "debug msg v s = val_print ACS_PRINT_DEBUG msg v s"

subsection \<open>Looking over the caches\<close>

text \<open>GET_MAX_VALUE and GET_MIN_VALUE are macros: a query that is the result is made twice.\<close>

definition max_with :: "'a::len word \<Rightarrow> (world \<Rightarrow> ('a word \<times> world) option) \<Rightarrow> world \<Rightarrow> ('a word \<times> world) option" where
  "max_with x query s = do { (y, s) \<leftarrow> query s; if x > y then Some (x, s) else query s }"

definition min_with :: "'a::len word \<Rightarrow> (world \<Rightarrow> ('a word \<times> world) option) \<Rightarrow> world \<Rightarrow> ('a word \<times> world) option" where
  "min_with x query s = do { (y, s) \<leftarrow> query s; if x > y then query s else Some (x, s) }"

type_synonym feature = "u32 \<Rightarrow> world \<Rightarrow> (bool \<times> world) option"

definition has :: "(hw \<Rightarrow> u32 \<Rightarrow> world \<Rightarrow> (u8 \<times> world) option) \<Rightarrow> hw \<Rightarrow> feature" where
  "has supports hw node_index s = do { (f, s) \<leftarrow> supports hw node_index s; Some (f \<noteq> 0, s) }"

text \<open>\<open>val_cache_supports_ccap(i) && val_cache_supports_cpor(i)\<close>.\<close>

definition has_both :: "hw \<Rightarrow> feature" where
  "has_both hw node_index s =
     do { (f, s) \<leftarrow> has val_cache_supports_ccap hw node_index s;
          if f then has val_cache_supports_cpor hw node_index s else Some (False, s) }"

record cache_scan =
  cache_maxsize :: u32
  feature_nodes :: u32
  minmax_partid :: u16

fun scan_caches :: "hw \<Rightarrow> feature \<Rightarrow> u32 list \<Rightarrow> cache_scan \<Rightarrow> world \<Rightarrow> (cache_scan \<times> world) option" where
  "scan_caches hw feature [] c s = Some (c, s)"
| "scan_caches hw feature (node_index # is') c s =
     do { (f, s) \<leftarrow> feature node_index s;
          (c, s) \<leftarrow> (if f
                    then do { (n, s) \<leftarrow> max_with (cache_maxsize c) (val_cache_get_size hw node_index) s;
                              Some (c\<lparr>cache_maxsize := n, feature_nodes := feature_nodes c + 1\<rparr>, s) }
                    else Some (c, s));
          (p, s) \<leftarrow> min_with (minmax_partid c) (val_node_get_partid hw MPAM_NODE_CACHE node_index) s;
          scan_caches hw feature is' (c\<lparr>minmax_partid := p\<rparr>) s }"

subsection \<open>Measuring\<close>

text \<open>The size of the two buffers, computed in 32 bits.\<close>

definition copy_size :: "u32 \<Rightarrow> u8 \<Rightarrow> u64" where
  "copy_size maxsize cache_percent = ucast ((maxsize * ucast cache_percent) div 100 div 2)"

definition alloc_pair :: "hw \<Rightarrow> u64 \<Rightarrow> world \<Rightarrow> (u64 option \<times> u64 option) \<times> world" where
  "alloc_pair hw buf_size s =
     (let (src, s) = val_allocate_buf hw buf_size s;
          (dest, s) = val_allocate_buf hw buf_size s
      in ((src, dest), s))"

definition timed_copy :: "hw \<Rightarrow> string \<Rightarrow> u64 \<Rightarrow> u64 \<Rightarrow> u64 \<Rightarrow> world \<Rightarrow> u64 \<times> world" where
  "timed_copy hw msg src dest buf_size s =
     (let (b, s) = val_measurement_start hw s;
          (start_time, s) = val_measurement_read hw s;
          s = val_mem_copy src dest buf_size s;
          (end_time, s) = val_measurement_read hw s;
          s = val_measurement_stop b s;
          s = debug ''start_time          = 0x%lx'' start_time s;
          s = debug ''end_time            = 0x%lx'' end_time s
      in (end_time - start_time, debug msg (end_time - start_time) s))"

text \<open>This PE's accesses get a PARTID and the default PMG.\<close>

definition set_traffic :: "hw \<Rightarrow> u16 \<Rightarrow> world \<Rightarrow> u64 \<times> world" where
  "set_traffic hw partid s =
     (let (old, s) = val_sysreg_read hw MPAM2_SYSREG s
      in (old, val_sysreg_write MPAM2_SYSREG (mpam2_traffic partid DEFAULT_PMG old) s))"

text \<open>The verdict over the measured values, when the loop over the scenarios has ended; \<open>None\<close>
  is a payload that has returned.\<close>

definition latency_result :: "u32 \<Rightarrow> u32 \<Rightarrow> ('a \<Rightarrow> bool) \<Rightarrow> u64 \<Rightarrow> 'a option \<Rightarrow> world \<Rightarrow> world option" where
  "latency_result n pe_index good saved r s =
     (case r of None \<Rightarrow> Some s
      | Some l \<Rightarrow> val_set_status pe_index (if good l then RESULT_PASS n 1 else RESULT_FAIL n 1)
                    (val_sysreg_write MPAM2_SYSREG saved s))"

text \<open>No latency is smaller than the one before.\<close>

fun non_decreasing :: "u64 list \<Rightarrow> bool" where
  "non_decreasing (x # y # zs) = (\<not> y < x \<and> non_decreasing (y # zs))"
| "non_decreasing _ = True"

subsection \<open>One PARTID, several partition sizes (tests 2 to 4)\<close>

text \<open>The texts and the number of a test, and its scenarios: the percentages, the size of the
  copy, and whether the scenario is enabled.\<close>

record cache_test =
  ct_num :: u32
  nodes_msg :: string
  size_msg :: string
  fail_msg :: string

text \<open>The tests with two PARTIDs also differ in their latency texts, in whether the second
  measurement has a copy before it that is not measured, and in the scenario from which on
  latencies are compared.\<close>

record pair_cache_test = cache_test +
  latency1_msg :: string
  latency2_msg :: string
  second_warm_up :: bool
  compare_from :: nat

type_synonym 'p scenario = "'p \<times> u8 \<times> bool"

text \<open>The buffers of a scenario, and what is printed about them.\<close>

definition scenario_buffers :: "hw \<Rightarrow> 'a cache_test_scheme \<Rightarrow> u32 \<Rightarrow> u64 \<Rightarrow> u64 \<Rightarrow> world \<Rightarrow> (u64 option \<times> u64 option) \<times> world" where
  "scenario_buffers hw ct maxsize buf_size index s =
     (let (bufs, s) = alloc_pair hw buf_size s;
          s = debug ''index               = %d'' index s;
          s = debug (size_msg ct) (ucast maxsize) s
      in (bufs, debug ''buf_size            = %d'' buf_size s))"

text \<open>One scenario: the latency, or \<open>None\<close> when the payload has returned.\<close>

definition size_scenario ::
    "hw \<Rightarrow> cache_test \<Rightarrow> u32 \<Rightarrow> u32 \<Rightarrow> u32 list \<Rightarrow> (u32 \<Rightarrow> world \<Rightarrow> world option) \<Rightarrow> u64 \<Rightarrow> u8 \<Rightarrow> u64 \<Rightarrow> world \<Rightarrow>
     (u64 option \<times> world) option" where
  "size_scenario hw ct pe_index maxsize nodes conf saved cache_percent index s =
     do { s \<leftarrow> for_each conf nodes s;
          let buf_size = copy_size maxsize cache_percent;
          let ((src, dest), s) = scenario_buffers hw ct maxsize buf_size index s;
          case (src, dest) of
            (Some a, Some b) \<Rightarrow>
              (let s = val_mem_copy a b buf_size s;
                   (l, s) = timed_copy hw ''latency             = 0x%lx'' a b buf_size s;
                   s = val_free_buf hw src buf_size s
               in Some (Some l, val_free_buf hw dest buf_size s))
          | _ \<Rightarrow> do { s \<leftarrow> val_set_status pe_index (RESULT_FAIL (ct_num ct) 1)
                             (val_print ACS_PRINT_ERR (fail_msg ct) 0 s);
                      Some (None, val_sysreg_write MPAM2_SYSREG saved s) } }"

text \<open>The loop over the scenarios collects the results.\<close>

fun scenario_loop ::
    "('p \<Rightarrow> u8 \<Rightarrow> u64 \<Rightarrow> world \<Rightarrow> ('l option \<times> world) option) \<Rightarrow> 'p scenario list \<Rightarrow> u64 \<Rightarrow> 'l list \<Rightarrow> world \<Rightarrow>
     ('l list option \<times> world) option" where
  "scenario_loop run [] index latency s = Some (Some latency, s)"
| "scenario_loop run ((p, cache_percent, enabled) # cs) index latency s =
     (if \<not> enabled then scenario_loop run cs (index + 1) latency s
      else do { (r, s) \<leftarrow> run p cache_percent index s;
                case r of None \<Rightarrow> Some (None, s)
                | Some l \<Rightarrow> scenario_loop run cs (index + 1) (latency @ [l]) s })"

text \<open>The start of every test: the caches are looked over, and without one that has the feature
  the test is skipped.\<close>

definition cache_payload ::
    "hw \<Rightarrow> 'a cache_test_scheme \<Rightarrow> feature \<Rightarrow> (u32 \<Rightarrow> cache_scan \<Rightarrow> u32 list \<Rightarrow> world \<Rightarrow> world option) \<Rightarrow> world \<Rightarrow> world option" where
  "cache_payload hw ct feature rest s =
     do { (pe_index, s) \<leftarrow> my_index hw s;
          (total_nodes, s) \<leftarrow> val_node_get_total hw MPAM_NODE_CACHE s;
          (c, s) \<leftarrow> scan_caches hw feature (upto_u32 total_nodes)
                     \<lparr>cache_maxsize = 0, feature_nodes = 0, minmax_partid = DEFAULT_PARTID_MAX\<rparr> s;
          let s = debug (nodes_msg ct) (ucast (feature_nodes c)) s;
          let s = debug ''minmax_partid       = %d'' (ucast (minmax_partid c)) s;
          if feature_nodes c = 0 then val_set_status pe_index (RESULT_SKIP (ct_num ct) 0) s
          else rest pe_index c (upto_u32 total_nodes) s }"

definition size_test ::
    "hw \<Rightarrow> cache_test \<Rightarrow> (u16 \<Rightarrow> 'p \<Rightarrow> u32 \<Rightarrow> world \<Rightarrow> world option) \<Rightarrow> 'p scenario list \<Rightarrow>
     u32 \<Rightarrow> cache_scan \<Rightarrow> u32 list \<Rightarrow> world \<Rightarrow> world option" where
  "size_test hw ct conf scenarios pe_index c nodes s =
     do { let (saved, s) = set_traffic hw (minmax_partid c) s;
          (r, s) \<leftarrow> scenario_loop (\<lambda>p. size_scenario hw ct pe_index (cache_maxsize c) nodes
                                          (conf (minmax_partid c) p) saved) scenarios 0 [] s;
          latency_result (ct_num ct) pe_index non_decreasing saved r s }"

text \<open>Programming a node when it has a feature.\<close>

definition if_has :: "(hw \<Rightarrow> u32 \<Rightarrow> world \<Rightarrow> (u8 \<times> world) option) \<Rightarrow> hw \<Rightarrow> u32 \<Rightarrow> (world \<Rightarrow> world option) \<Rightarrow> world \<Rightarrow> world option" where
  "if_has supports hw node_index f s =
     do { (b, s) \<leftarrow> has supports hw node_index s; if b then f s else Some s }"

text \<open>Test 2: portions.\<close>

definition conf_c002 :: "hw \<Rightarrow> u16 \<Rightarrow> u8 \<Rightarrow> u32 \<Rightarrow> world \<Rightarrow> world option" where
  "conf_c002 hw partid percent node_index s =
     do { s \<leftarrow> if_has val_cache_supports_cpor hw node_index
                 (val_cache_configure_cpor hw node_index partid (ucast percent)) s;
          if_has val_cache_supports_ccap hw node_index (val_cache_configure_ccap hw node_index partid 0 100) s }"

definition cpor_config_data :: "u8 scenario list" where
  "cpor_config_data = [(75, 75, True), (50, 75, False), (25, 75, True)]"

definition c002_texts :: cache_test where
  "c002_texts = \<lparr>ct_num = TEST_C 2, nodes_msg = ''cpor_nodes          = %d'',
     size_msg = ''cpor_cache_maxsize  = %d'', fail_msg = ''Mem allocation for COPR buffers failed''\<rparr>"

definition payload_c002 :: "hw \<Rightarrow> world \<Rightarrow> world option" where
  "payload_c002 hw = cache_payload hw c002_texts (has val_cache_supports_cpor hw)
     (size_test hw c002_texts (conf_c002 hw) cpor_config_data)"

text \<open>Test 3: capacity limits.\<close>

definition conf_c003 :: "hw \<Rightarrow> u16 \<Rightarrow> u8 \<Rightarrow> u32 \<Rightarrow> world \<Rightarrow> world option" where
  "conf_c003 hw partid percent node_index s =
     do { s \<leftarrow> if_has val_cache_supports_ccap hw node_index
                 (val_cache_configure_ccap hw node_index partid HARDLIMIT_EN (ucast percent)) s;
          if_has val_cache_supports_cpor hw node_index (val_cache_configure_cpor hw node_index partid 100) s }"

definition ccap_config_data :: "u8 scenario list" where
  "ccap_config_data = [(75, 75, True), (50, 75, False), (25, 75, True)]"

definition c003_texts :: cache_test where
  "c003_texts = \<lparr>ct_num = TEST_C 3, nodes_msg = ''ccap_nodes          = %d'',
     size_msg = ''ccap_cache_maxsize  = %d'', fail_msg = ''Mem allocation for COPR buffers failed''\<rparr>"

definition payload_c003 :: "hw \<Rightarrow> world \<Rightarrow> world option" where
  "payload_c003 hw = cache_payload hw c003_texts (has val_cache_supports_ccap hw)
     (size_test hw c003_texts (conf_c003 hw) ccap_config_data)"

text \<open>Test 4: both on the caches that have both, and neither on the others.\<close>

definition conf_c004 :: "hw \<Rightarrow> u16 \<Rightarrow> u8 \<times> u8 \<Rightarrow> u32 \<Rightarrow> world \<Rightarrow> world option" where
  "conf_c004 hw partid percent node_index s =
     do { (both, s) \<leftarrow> has_both hw node_index s;
          if both
          then do { s \<leftarrow> val_cache_configure_ccap hw node_index partid HARDLIMIT_EN (ucast (fst percent)) s;
                    val_cache_configure_cpor hw node_index partid (ucast (snd percent)) s }
          else do {
            (ccap, s) \<leftarrow> has val_cache_supports_ccap hw node_index s;
            if ccap then val_cache_configure_ccap hw node_index partid HARDLIMIT_DIS 100 s
            else if_has val_cache_supports_cpor hw node_index
                   (val_cache_configure_cpor hw node_index partid 100) s } }"

definition test_config_data :: "(u8 \<times> u8) scenario list" where
  "test_config_data = [((75, 75), 75, True), ((75, 50), 75, False), ((75, 25), 75, True)]"

definition c004_texts :: cache_test where
  "c004_texts = \<lparr>ct_num = TEST_C 4, nodes_msg = ''ccap_cpor_nodes     = %d'',
     size_msg = ''cache_maxsize       = %d'', fail_msg = ''Mem allocation for CCAP COPR buffers failed''\<rparr>"

definition payload_c004 :: "hw \<Rightarrow> world \<Rightarrow> world option" where
  "payload_c004 hw = cache_payload hw c004_texts (has_both hw)
     (size_test hw c004_texts (conf_c004 hw) test_config_data)"

subsection \<open>Two PARTIDs with different sizes (tests 5 and 6)\<close>

text \<open>
  The copy is measured for both PARTIDs. A failed allocation does not put MPAM2_EL2 back.
\<close>

definition pair_scenario ::
    "hw \<Rightarrow> pair_cache_test \<Rightarrow> u32 \<Rightarrow> cache_scan \<Rightarrow> u32 list \<Rightarrow> (u16 \<Rightarrow> u8 \<Rightarrow> u32 \<Rightarrow> world \<Rightarrow> world option) \<Rightarrow>
     u8 \<times> u8 \<Rightarrow> u8 \<Rightarrow> u64 \<Rightarrow> world \<Rightarrow> ((u64 \<times> u64) option \<times> world) option" where
  "pair_scenario hw ct pe_index c nodes conf percents cache_percent index s =
     do { let partid1 = minmax_partid c;
          let partid2 = minmax_partid c - 1;
          s \<leftarrow> for_each (conf partid1 (fst percents)) nodes s;
          s \<leftarrow> for_each (conf partid2 (snd percents)) nodes s;
          let buf_size = copy_size (cache_maxsize c) cache_percent;
          let ((src, dest), s) = scenario_buffers hw ct (cache_maxsize c) buf_size index s;
          case (src, dest) of
            (Some a, Some b) \<Rightarrow>
              (let s = snd (set_traffic hw partid1 s);
                   s = val_mem_copy a b buf_size s;
                   (l1, s) = timed_copy hw (latency1_msg ct) a b buf_size s;
                   s = snd (set_traffic hw partid2 s);
                   s = (if second_warm_up ct then val_mem_copy a b buf_size s else s);
                   (l2, s) = timed_copy hw (latency2_msg ct) a b buf_size s;
                   s = val_free_buf hw src buf_size s
               in Some (Some (l1, l2), val_free_buf hw dest buf_size s))
          | _ \<Rightarrow> do { s \<leftarrow> val_set_status pe_index (RESULT_FAIL (ct_num ct) 1)
                             (val_print ACS_PRINT_ERR (fail_msg ct) 0 s);
                      Some (None, s) } }"

definition pair_test ::
    "hw \<Rightarrow> pair_cache_test \<Rightarrow> (u16 \<Rightarrow> u8 \<Rightarrow> u32 \<Rightarrow> world \<Rightarrow> world option) \<Rightarrow> (u8 \<times> u8) scenario list \<Rightarrow>
     u32 \<Rightarrow> cache_scan \<Rightarrow> u32 list \<Rightarrow> world \<Rightarrow> world option" where
  "pair_test hw ct conf scenarios pe_index c nodes s =
     do { let (saved, s) = val_sysreg_read hw MPAM2_SYSREG s;
          (r, s) \<leftarrow> scenario_loop (pair_scenario hw ct pe_index c nodes conf) scenarios 0 [] s;
          latency_result (ct_num ct) pe_index (\<lambda>ls. \<forall>(l1, l2)\<in>set (drop (compare_from ct) ls). \<not> l1 > l2) saved r s }"

definition cpor_partid_config_data :: "(u8 \<times> u8) scenario list" where
  "cpor_partid_config_data = [((75, 50), 75, True), ((75, 25), 75, False)]"

definition c005_texts :: pair_cache_test where
  "c005_texts = \<lparr>ct_num = TEST_C 5, nodes_msg = ''cpor_nodes          = %d'',
     size_msg = ''cpor_cache_maxsize  = %d'', fail_msg = ''Mem allocation for COPR buffers failed'',
     latency1_msg = ''latency1            = 0x%lx'', latency2_msg = ''latency2            = 0x%lx'',
     second_warm_up = False, compare_from = 0\<rparr>"

definition payload_c005 :: "hw \<Rightarrow> world \<Rightarrow> world option" where
  "payload_c005 hw = cache_payload hw c005_texts (has val_cache_supports_cpor hw)
     (pair_test hw c005_texts (conf_c002 hw) cpor_partid_config_data)"

definition ccap_partid_config_data :: "(u8 \<times> u8) scenario list" where
  "ccap_partid_config_data = [((75, 50), 75, True), ((75, 25), 75, False)]"

definition c006_texts :: pair_cache_test where
  "c006_texts = \<lparr>ct_num = TEST_C 6, nodes_msg = ''ccap_nodes          = %d'',
     size_msg = ''ccap_cache_maxsize  = %d'', fail_msg = ''Mem allocation for CCAP buffers failed'',
     latency1_msg = ''latency             = 0x%lx'', latency2_msg = ''latency             = 0x%lx'',
     second_warm_up = True, compare_from = 1\<rparr>"

definition payload_c006 :: "hw \<Rightarrow> world \<Rightarrow> world option" where
  "payload_c006 hw = cache_payload hw c006_texts (has val_cache_supports_ccap hw)
     (pair_test hw c006_texts (conf_c003 hw) ccap_partid_config_data)"

subsection \<open>The machine the tests run on\<close>

text \<open>This PE has an index, a shared entry and the row \<open>m\<close> of the node table.\<close>

definition cache_env :: "hw \<Rightarrow> world \<Rightarrow> u32 \<Rightarrow> mpam_info \<Rightarrow> bool" where
  "cache_env hw w me m \<longleftrightarrow>
     my_index hw w = Some (me, log_io (SysRead ''arm64_read_mpidr'') w) \<and> unat me < shared_size w \<and>
     (\<exists>tbl. g_mpam_info_table (gl w) = Some tbl \<and> unat me < length tbl \<and> tbl ! unat me = m) \<and>
     unat (num_cache_nodes m) = length (cache_node m)"

text \<open>Capacity limits have at most 16 bits, as the architecture says.\<close>

definition ccap_width :: "hw \<Rightarrow> mpam_info \<Rightarrow> nat \<Rightarrow> history \<Rightarrow> u8" where
  "ccap_width hw m i h = ucast (field (mmio_in hw h (mmio_addr (cn_hwreg_base (cache_node m ! i) + REG_MPAMF_CCAP_IDR)))
     0 CCAP_IDR_CMAX_WD_MASK)"

definition ccap_narrow :: "hw \<Rightarrow> mpam_info \<Rightarrow> bool" where
  "ccap_narrow hw m \<longleftrightarrow> (\<forall>i<length (cache_node m). \<forall>h. unat (ccap_width hw m i h) \<le> 16)"

text \<open>MPAM2_EL2 holds what is written to it.\<close>

abbreviation mpam2_written :: "history \<Rightarrow> u64 option" where
  "mpam2_written h \<equiv> last_syswrite h ''sysreg_write_mpam2''"

definition mpam2_value :: "u64 \<Rightarrow> history \<Rightarrow> u64" where
  "mpam2_value rst h = (case mpam2_written h of None \<Rightarrow> rst | Some v \<Rightarrow> v)"

definition holds_mpam2 :: "hw \<Rightarrow> u64 \<Rightarrow> bool" where
  "holds_mpam2 hw rst \<longleftrightarrow> (\<forall>h. sysreg_in hw h ''sysreg_read_mpam2'' = mpam2_value rst h)"

text \<open>The state is \<open>w\<close> but for the devices and the console, and MPAM2_EL2 was last written with \<open>x\<close>.\<close>

definition calm :: "world \<Rightarrow> u64 option \<Rightarrow> world \<Rightarrow> bool" where
  "calm w x s \<longleftrightarrow> gl s = gl w \<and> shared s = shared w \<and> mpam2_written (io s) = x"

lemma calm_refl: "calm w (mpam2_written (io w)) w" by (simp add: calm_def)

lemma calm_same:
  "gl t = gl s \<Longrightarrow> shared t = shared s \<Longrightarrow> mpam2_written (io t) = mpam2_written (io s) \<Longrightarrow> calm w x t = calm w x s"
  by (simp add: calm_def)

lemma calm_pure [simp]:
  "calm w x (val_print l msg a s) = calm w x s" "calm w x (debug msg a s) = calm w x s"
  "calm w x (val_mmio_write r d s) = calm w x s" "calm w x (snd (val_mmio_read hw r s)) = calm w x s"
  "calm w x (snd (firmware hw f args s)) = calm w x s" "calm w x (acs_print l msg c s) = calm w x s"
  "calm w x (log_io (SysRead q) s) = calm w x s" "calm w x (log_io (Barrier k) s) = calm w x s"
  "calm w x (log_io (MemCopy y z n) s) = calm w x s"
  by (rule calm_same; simp add: debug_def)+

lemma calm_mpam2 [simp]:
  "calm w x (snd (val_sysreg_read hw r s)) = calm w x s"
  "calm w x (val_sysreg_write MPAM2_SYSREG v s) \<longleftrightarrow> x = Some v \<and> gl s = gl w \<and> shared s = shared w"
  by (auto simp: val_sysreg_read_def read_sysreg_def val_sysreg_write_def write_sysreg_def calm_def split: sysreg_mpam_t.split)

lemma calm_bufs [simp]:
  "calm w x (snd (alloc_pair hw n s)) = calm w x s" "calm w x (val_free_buf hw p n s) = calm w x s"
  "calm w x (val_mem_copy y z n s) = calm w x s"
  by (simp_all add: alloc_pair_def val_allocate_buf_def pal_mem_allocate_buf_def val_free_buf_def pal_mem_free_buf_def
      val_mem_copy_def pal_mem_copy_def split_beta Let_def)

lemma calm_pmu [simp]:
  "calm w x (snd (val_measurement_start hw s)) = calm w x s" "calm w x (val_measurement_stop bk s) = calm w x s"
  "calm w x (snd (val_measurement_read hw s)) = calm w x s"
  by (rule calm_same; simp add: val_measurement_start_def val_measurement_stop_def val_measurement_read_def
      pal_pmu_cycle_counter_start_def pal_pmu_cycle_counter_stop_def pal_pmu_reg_read_def pal_pmu_reg_write_def
      read_sysreg_def write_sysreg_def Let_def split_beta)+

lemma calm_timed_copy [simp]: "calm w x (snd (timed_copy hw msg p q n s)) = calm w x s"
  by (simp add: timed_copy_def Let_def split_beta)

lemma calm_buffers [simp]: "calm w x (snd (scenario_buffers hw ct k n i s)) = calm w x s"
  by (simp add: scenario_buffers_def Let_def split_beta)

text \<open>The same with any MPAM2_EL2.\<close>

definition calm_any :: "world \<Rightarrow> world \<Rightarrow> bool" where
  "calm_any w s \<longleftrightarrow> gl s = gl w \<and> shared s = shared w"

lemma calm_iff: "calm w x s \<longleftrightarrow> calm_any w s \<and> mpam2_written (io s) = x"
  by (simp add: calm_def calm_any_def)

lemma calm_any_ex: "calm_any w s \<longleftrightarrow> (\<exists>x. calm w x s)"
  by (simp add: calm_def calm_any_def)

lemma calm_any_ops [simp]:
  "calm_any w (val_mem_copy y z n s) = calm_any w s" "calm_any w (val_free_buf hw b n s) = calm_any w s"
  "calm_any w (snd (timed_copy hw msg y z n s)) = calm_any w s"
  "calm_any w (snd (set_traffic hw p s)) = calm_any w s"
  "calm_any w (snd (scenario_buffers hw ct k n i s)) = calm_any w s"
  "calm_any w (val_sysreg_write MPAM2_SYSREG v s) = calm_any w s"
  "calm_any w (val_print l msg a s) = calm_any w s" "calm_any w (debug msg a s) = calm_any w s"
  by (simp_all only: calm_any_ex calm_pure calm_bufs calm_timed_copy calm_buffers)
     (auto simp: set_traffic_def split_beta val_sysreg_write_def write_sysreg_def val_sysreg_read_def read_sysreg_def calm_def)

subsection \<open>Every operation of the tests returns\<close>

lemma my_index_calm:
  assumes "cache_env hw w me m" "calm w x s"
  shows "returns (\<lambda>(i, t). i = me \<and> calm w x t) (my_index hw s)"
  using my_index_same [of hw w me _ s] assms by (auto simp: cache_env_def calm_def)

lemma total_calm:
  assumes "cache_env hw w me m" "calm w x s"
  shows "returns (\<lambda>(k, t). k = num_cache_nodes m \<and> calm w x t) (val_node_get_total hw MPAM_NODE_CACHE s)"
  using my_index_same [of hw w me _ s] assms by (auto simp: cache_env_def calm_def val_node_get_total_def)

lemma cache_lookup_calm:
  assumes "cache_env hw w me m" "calm w x s" "unat i < length (cache_node m)"
  shows "returns (\<lambda>(v, t). calm w x t \<and> v = fc (cache_node m ! unat i)) (node_lookup hw a z fc fm MPAM_NODE_CACHE i s)"
  using my_index_same [of hw w me _ s] assms by (auto simp: cache_env_def calm_def node_lookup_def)

lemma hwreg_base_calm:
  assumes "cache_env hw w me m" "calm w x s" "unat i < length (cache_node m)"
  shows "returns (\<lambda>(v, t). calm w x t \<and> v = cn_hwreg_base (cache_node m ! unat i)) (val_node_hwreg_base hw MPAM_NODE_CACHE i s)"
  unfolding val_node_hwreg_base_def by (rule cache_lookup_calm [OF assms])

lemma cache_queries_calm:
  assumes "cache_env hw w me m" "calm w x s" "unat i < length (cache_node m)"
  shows "returns (\<lambda>(v, t). calm w x t) (val_cache_get_size hw i s)"
    "returns (\<lambda>(v, t). calm w x t) (val_node_get_partid hw MPAM_NODE_CACHE i s)"
    "returns (\<lambda>(v, t). calm w x t) (val_cache_supports_cpor hw i s)"
    "returns (\<lambda>(v, t). calm w x t) (val_cache_supports_ccap hw i s)"
proof -
  note l = cache_lookup_calm [OF assms]
  show "returns (\<lambda>(v, t). calm w x t) (val_cache_get_size hw i s)"
    unfolding val_cache_get_size_def by (rule returns_mono [OF l]) auto
  have n: "returns (\<lambda>(v, t). calm w x t) (node_read hw MPAM_NODE_CACHE i r s)" for r
    unfolding node_read_def by (rule returns_seq_pair [OF hwreg_base_calm [OF assms]]) (simp add: split_beta)
  show "returns (\<lambda>(v, t). calm w x t) (val_node_get_partid hw MPAM_NODE_CACHE i s)"
    "returns (\<lambda>(v, t). calm w x t) (val_cache_supports_cpor hw i s)"
    "returns (\<lambda>(v, t). calm w x t) (val_cache_supports_ccap hw i s)"
    unfolding val_node_get_partid_def val_cache_supports_cpor_def val_cache_supports_ccap_def
    by (rule returns_seq_pair [OF n]; simp)+
qed

lemma width_queries_calm:
  assumes "cache_env hw w me m" "calm w x s" "unat i < length (cache_node m)"
  shows "returns (\<lambda>(v, t). calm w x t) (val_cache_cpbm_width hw i s)"
    "returns (\<lambda>(v, t). calm w x t \<and> (v = 0 \<or> (\<exists>h. v = ccap_width hw m (unat i) h))) (val_cache_cmax_width hw i s)"
proof -
  show "returns (\<lambda>(v, t). calm w x t) (val_cache_cpbm_width hw i s)"
    unfolding val_cache_cpbm_width_def read_if_def Let_def split_beta
    by (simp, rule returns_seq [OF hwreg_base_calm [OF assms]], clarsimp,
        rule returns_seq [OF cache_queries_calm(3) [OF assms(1) _ assms(3)]], assumption, clarsimp)
  show "returns (\<lambda>(v, t). calm w x t \<and> (v = 0 \<or> (\<exists>h. v = ccap_width hw m (unat i) h))) (val_cache_cmax_width hw i s)"
    unfolding val_cache_cmax_width_def read_if_def Let_def split_beta
    by (simp, rule returns_seq [OF hwreg_base_calm [OF assms]], clarsimp,
        rule returns_seq [OF cache_queries_calm(4) [OF assms(1) _ assms(3)]], assumption)
       (auto simp: ccap_width_def)
qed


lemma portion_loop_calm: "calm w x (snd (portion_loop reg pt num index s)) = calm w x s"
  by (induction reg pt num index s rule: portion_loop.induct) (simp add: portion_loop.simps [of _ _ _ _ s for s])

lemma barrier_calm [simp]: "calm w x (val_memory_ops_issue_barrier k s) = calm w x s"
  by (simp add: val_memory_ops_issue_barrier_def)

lemma portion_config_calm:
  assumes "calm w x s"
  shows "returns (calm w x) (portion_config reg pt num s)"
proof -
  obtain t where t: "portion_config reg pt num s = Some t" using portion_config_run by blast
  moreover have "calm w x (snd (portion_loop reg pt num 0 s))" using assms by (simp add: portion_loop_calm)
  ultimately show ?thesis
    by (auto simp: portion_config_def Let_def split_beta Option.bind_eq_Some_conv)
qed

lemma limit_field_defined: "unat n \<le> 16 \<Longrightarrow> returns (\<lambda>_. True) (limit_field n p)"
  by (auto simp: limit_field_def limit_fraction_def shl32_def)

lemma configure_calm:
  assumes "cache_env hw w me m" "calm w x s" "unat i < length (cache_node m)"
  shows "returns (calm w x) (val_cache_configure_cpor hw i p pc s)"
    "ccap_narrow hw m \<Longrightarrow> returns (calm w x) (val_cache_configure_ccap hw i p hl pc s)"
proof -
  show "returns (calm w x) (val_cache_configure_cpor hw i p pc s)"
    unfolding val_cache_configure_cpor_def
    by (rule returns_seq_pair [OF hwreg_base_calm [OF assms]], elim conjE,
        rule returns_seq_pair [OF width_queries_calm(1) [OF assms(1) _ assms(3)]], assumption)
       (simp add: portion_config_calm)
  assume n: "ccap_narrow hw m"
  show "returns (calm w x) (val_cache_configure_ccap hw i p hl pc s)"
    unfolding val_cache_configure_ccap_def
    by (rule returns_seq_pair [OF hwreg_base_calm [OF assms]], elim conjE,
        rule returns_seq_pair [OF width_queries_calm(2) [OF assms(1) _ assms(3)]], assumption,
        rule returns_seq [OF limit_field_defined])
       (use n assms(3) in \<open>auto simp: ccap_narrow_def\<close>)
qed

text \<open>What a test asks of a node, and what it does with one.\<close>

definition calm_feature :: "world \<Rightarrow> mpam_info \<Rightarrow> feature \<Rightarrow> bool" where
  "calm_feature w m f \<longleftrightarrow> (\<forall>i x s. unat i < length (cache_node m) \<longrightarrow> calm w x s \<longrightarrow>
     returns (\<lambda>(b, t). calm w x t) (f i s))"

definition calm_conf :: "world \<Rightarrow> mpam_info \<Rightarrow> (u32 \<Rightarrow> world \<Rightarrow> world option) \<Rightarrow> bool" where
  "calm_conf w m f \<longleftrightarrow> (\<forall>i x s. unat i < length (cache_node m) \<longrightarrow> calm w x s \<longrightarrow> returns (calm w x) (f i s))"

lemma features_calm:
  assumes "cache_env hw w me m"
  shows "calm_feature w m (has val_cache_supports_cpor hw)" "calm_feature w m (has val_cache_supports_ccap hw)"
    "calm_feature w m (has_both hw)"
proof -
  note q = cache_queries_calm(3,4) [OF assms]
  show c: "calm_feature w m (has val_cache_supports_cpor hw)" "calm_feature w m (has val_cache_supports_ccap hw)"
    unfolding calm_feature_def has_def by (intro allI impI, rule returns_seq_pair [OF q(1)]; simp)
      (intro allI impI, rule returns_seq_pair [OF q(2)]; simp)
  show "calm_feature w m (has_both hw)"
    unfolding calm_feature_def has_both_def
    by (intro allI impI, rule returns_seq_pair [OF c(2) [unfolded calm_feature_def, rule_format]])
       (use c(1) in \<open>auto simp: calm_feature_def\<close>)
qed

lemma if_has_calm:
  assumes "calm_feature w m (has g hw)" "unat i < length (cache_node m)" "calm w x s"
    and "\<And>t. calm w x t \<Longrightarrow> returns (calm w x) (f t)"
  shows "returns (calm w x) (if_has g hw i f s)"
  unfolding if_has_def
  by (rule returns_seq_pair [OF assms(1) [unfolded calm_feature_def, rule_format, OF assms(2,3)]]) (simp add: assms(4))

lemma confs_calm:
  assumes "cache_env hw w me m" "ccap_narrow hw m"
  shows "calm_conf w m (conf_c002 hw p c)" "calm_conf w m (conf_c003 hw p c)" "calm_conf w m (conf_c004 hw p pp)"
proof -
  note f = features_calm [OF assms(1)]
  note c = configure_calm(1) [OF assms(1)] configure_calm(2) [OF assms(1) _ _ assms(2)]
  show "calm_conf w m (conf_c002 hw p c)"
    unfolding calm_conf_def conf_c002_def
    by (intro allI impI, rule returns_seq [OF if_has_calm [OF f(1)]]) (auto intro: if_has_calm [OF f(2)] c)
  show "calm_conf w m (conf_c003 hw p c)"
    unfolding calm_conf_def conf_c003_def
    by (intro allI impI, rule returns_seq [OF if_has_calm [OF f(2)]]) (auto intro: if_has_calm [OF f(1)] c)
  show "calm_conf w m (conf_c004 hw p pp)"
    unfolding calm_conf_def conf_c004_def
    by (intro allI impI, rule returns_seq_pair [OF f(3) [unfolded calm_feature_def, rule_format]], assumption, assumption,
        rule returns_if, rule returns_seq [OF c(2)], assumption, assumption, erule (1) c(1),
        rule returns_seq_pair [OF f(2) [unfolded calm_feature_def, rule_format]], assumption, assumption,
        rule returns_if)
       (auto intro: if_has_calm [OF f(1)] c)
qed

lemma minmax_calm:
  assumes "\<And>t. calm w x t \<Longrightarrow> returns (\<lambda>(v, t). calm w x t) (q t)" "calm w x s"
  shows "returns (\<lambda>(v, t). calm w x t) (max_with y q s)" "returns (\<lambda>(v, t). calm w x t) (min_with y q s)"
  unfolding max_with_def min_with_def
  by (rule returns_seq_pair [OF assms(1)], rule assms(2), rule returns_if; simp add: assms(1))+

text \<open>A cache that is found to have the feature whenever it is asked.\<close>

definition always :: "world \<Rightarrow> feature \<Rightarrow> u32 \<Rightarrow> bool" where
  "always w f i \<longleftrightarrow> (\<forall>x s. calm w x s \<longrightarrow> returns (\<lambda>(b, t). b) (f i s))"

definition counts :: "world \<Rightarrow> feature \<Rightarrow> u32 list \<Rightarrow> u32 \<Rightarrow> u32 \<Rightarrow> bool" where
  "counts w f is' k k' \<longleftrightarrow> unat k + length is' < 2 ^ 32 \<longrightarrow>
     unat k \<le> unat k' \<and> ((\<exists>i\<in>set is'. always w f i) \<longrightarrow> unat k < unat k')"

lemma counts_step:
  assumes "counts w f is' (if b then k + 1 else k) k'" "always w f i \<Longrightarrow> b"
  shows "counts w f (i # is') k k'"
  unfolding counts_def
proof
  assume l: "unat k + length (i # is') < 2 ^ 32"
  then have u: "unat (k + 1) = unat k + 1" by (simp add: unat_word_ariths)
  show "unat k \<le> unat k' \<and> ((\<exists>i\<in>set (i # is'). always w f i) \<longrightarrow> unat k < unat k')"
    using assms l u by (cases b) (auto simp: counts_def)
qed

lemma scan_caches_calm:
  assumes "cache_env hw w me m" "calm_feature w m f" "\<forall>i\<in>set is'. unat i < length (cache_node m)" "calm w x s"
  shows "returns (\<lambda>(c', t). calm w x t \<and> counts w f is' (feature_nodes c) (feature_nodes c')) (scan_caches hw f is' c s)"
  using assms(3,4)
proof (induction is' arbitrary: c s)
  case Nil
  then show ?case by (simp add: counts_def)
next
  case (Cons i is')
  then have i: "unat i < length (cache_node m)" and up: "\<forall>i\<in>set is'. unat i < length (cache_node m)" by simp_all
  note q = cache_queries_calm [OF assms(1) _ i]
  have "returns (\<lambda>(b, t). calm w x t) (f i s)" using assms(2) i Cons.prems(2) by (auto simp: calm_feature_def)
  then obtain b t where b: "f i s = Some (b, t)" "calm w x t" by (auto simp: returns_def)
  have a: "b" if "always w f i" using that b(1) Cons.prems(2) by (fastforce simp: always_def)
  have "returns (\<lambda>(c', u). calm w x u \<and> feature_nodes c' = (if b then feature_nodes c + 1 else feature_nodes c))
    (if b then do { (n, s) \<leftarrow> max_with (cache_maxsize c) (val_cache_get_size hw i) t;
                    Some (c\<lparr>cache_maxsize := n, feature_nodes := feature_nodes c + 1\<rparr>, s) }
     else Some (c, t))"
    by (rule returns_if, rule returns_seq_pair [OF minmax_calm(1) [OF q(1) b(2)]]) (simp_all add: b(2))
  then obtain d u where u: "(if b then do { (n, s) \<leftarrow> max_with (cache_maxsize c) (val_cache_get_size hw i) t;
                    Some (c\<lparr>cache_maxsize := n, feature_nodes := feature_nodes c + 1\<rparr>, s) }
     else Some (c, t)) = Some (d, u)" "calm w x u" "feature_nodes d = (if b then feature_nodes c + 1 else feature_nodes c)"
    by (rule returnsE) auto
  show ?case
    unfolding scan_caches.simps b(1) u(1) bind.simps(2) prod.case
    by (rule returns_seq_pair [OF minmax_calm(2) [OF q(2) u(2)]], assumption,
        rule returns_mono [OF Cons.IH [OF up]], assumption)
       (use counts_step [OF _ a] in \<open>auto simp: u(3)\<close>)
qed

subsection \<open>What the tests leave behind\<close>

text \<open>The payload has ended with one of the verdicts \<open>vs\<close>, and MPAM2_EL2 reads as before.\<close>

definition ended :: "u64 \<Rightarrow> world \<Rightarrow> u32 \<Rightarrow> u32 set \<Rightarrow> world \<Rightarrow> bool" where
  "ended rst w me vs t \<longleftrightarrow> gl t = gl w \<and> shared_size t = shared_size w \<and> status_word me t \<in> vs \<and>
     mpam2_value rst (io t) = mpam2_value rst (io w)"

lemma set_status_ended:
  assumes "cache_env hw w me m" "calm w x s" "v \<in> vs" "x = mpam2_written (io w) \<or> x = Some (mpam2_value rst (io w))"
  shows "returns (ended rst w me vs) (val_set_status me v s)"
proof -
  have "unat me < shared_size s" using assms(1,2) by (simp add: cache_env_def calm_def shared_size_def)
  then obtain t where t: "val_set_status me v s = Some t" using val_set_status_defined by blast
  show ?thesis
    using val_set_status_run [OF t] assms(2-4)
    by (auto simp: t ended_def calm_def shared_size_def mpam2_value_def)
qed

text \<open>A payload that has returned early, but for MPAM2_EL2.\<close>

definition stopped :: "world \<Rightarrow> u32 \<Rightarrow> u32 \<Rightarrow> u64 option \<Rightarrow> world \<Rightarrow> bool" where
  "stopped w me v x t \<longleftrightarrow> gl t = gl w \<and> shared_size t = shared_size w \<and> status_word me t = v \<and>
     mpam2_written (io t) = x"

lemma set_status_stopped:
  assumes "cache_env hw w me m" "calm_any w s"
  shows "returns (stopped w me v (mpam2_written (io s))) (val_set_status me v s)"
proof -
  have "unat me < shared_size s" using assms by (simp add: cache_env_def calm_any_def shared_size_def)
  then obtain t where t: "val_set_status me v s = Some t" using val_set_status_defined by blast
  show ?thesis
    using val_set_status_run [OF t] assms(2) by (auto simp: t stopped_def calm_any_def shared_size_def)
qed

lemma stopped_write: "stopped w me v x t \<Longrightarrow> stopped w me v (Some y) (val_sysreg_write MPAM2_SYSREG y t)"
  by (auto simp: stopped_def val_sysreg_write_def write_sysreg_def shared_size_def status_word_def)

lemma stopped_ended:
  "stopped w me v x t \<Longrightarrow> v \<in> vs \<Longrightarrow> x = mpam2_written (io w) \<or> x = Some (mpam2_value rst (io w)) \<Longrightarrow>
     ended rst w me vs t"
  by (auto simp: stopped_def ended_def mpam2_value_def)

text \<open>A scenario goes on with \<open>I\<close>, or has ended the payload with \<open>E\<close>.\<close>

definition goes_on :: "(world \<Rightarrow> bool) \<Rightarrow> (world \<Rightarrow> bool) \<Rightarrow> 'l option \<times> world \<Rightarrow> bool" where
  "goes_on I E rt = (case fst rt of Some l \<Rightarrow> I (snd rt) | None \<Rightarrow> E (snd rt))"

lemma goes_on_simps [simp]: "goes_on I E (Some l, t) = I t" "goes_on I E (None, t) = E t"
  by (simp_all add: goes_on_def)

lemma returns_goes_on:
  assumes "returns (goes_on I E) m" "\<And>l t. I t \<Longrightarrow> returns Q (f (Some l) t)" "\<And>t. E t \<Longrightarrow> returns Q (f None t)"
  shows "returns Q (m \<bind> (\<lambda>(r, t). f r t))"
proof -
  from assms(1) obtain r t where m: "m = Some (r, t)" "goes_on I E (r, t)" by (auto simp: returns_def)
  then show ?thesis using assms(2,3) by (cases r) auto
qed

lemma scenario_loop_rule:
  assumes "\<And>p c i s. I s \<Longrightarrow> returns (goes_on I E) (run p c i s)" "I s"
  shows "returns (goes_on I E) (scenario_loop run cs i ls s)"
  using assms(2)
proof (induction cs arbitrary: i ls s)
  case Nil
  then show ?case by simp
next
  case (Cons p_c_en cs)
  obtain p c en where p: "p_c_en = (p, c, en)" by (cases p_c_en)
  show ?case
    unfolding p scenario_loop.simps
    by (rule returns_if, rule Cons.IH, rule Cons.prems, rule returns_goes_on [OF assms(1) [OF Cons.prems]])
       (simp_all add: Cons.IH)
qed

lemma cache_payload_ended:
  assumes "cache_env hw w me m" "calm_feature w m f"
    and "\<And>c s. calm w (mpam2_written (io w)) s \<Longrightarrow> returns (ended rst w me vs) (rest me c (upto_u32 (num_cache_nodes m)) s)"
    and "(\<exists>i<num_cache_nodes m. always w f i) \<or> RESULT_SKIP (ct_num ct) 0 \<in> vs"
  shows "returns (ended rst w me vs) (cache_payload hw ct f rest w)"
proof -
  have "length (upto_u32 (num_cache_nodes m)) < 2 ^ 32"
    using unsigned_less [of "num_cache_nodes m"] by (simp add: upto_u32_def)
  then have found: "RESULT_SKIP (ct_num ct) 0 \<in> vs"
    if "counts w f (upto_u32 (num_cache_nodes m)) 0 0"
    using that assms(4) by (auto simp: counts_def set_upto_u32)
  have skip: "returns (ended rst w me vs) (val_set_status me (RESULT_SKIP (ct_num ct) 0) u)"
    if "calm w (mpam2_written (io w)) u" "RESULT_SKIP (ct_num ct) 0 \<in> vs" for u
    by (rule set_status_ended [OF assms(1) that]) simp
  have up: "\<forall>i\<in>set (upto_u32 (num_cache_nodes m)). unat i < length (cache_node m)"
    using assms(1) by (auto simp: cache_env_def set_upto_u32 word_less_nat_alt)
  show ?thesis
    unfolding cache_payload_def
    by (rule returns_seq_pair [OF my_index_calm [OF assms(1) calm_refl]], elim conjE, hypsubst,
        rule returns_seq_pair [OF total_calm [OF assms(1)]], assumption, elim conjE, hypsubst,
        rule returns_seq_pair [OF scan_caches_calm [OF assms(1,2) up]], assumption)
       (auto simp: assms(3) Let_def intro!: skip found)
qed

text \<open>The end of a scenario whose buffers could not be allocated.\<close>

lemma buffers_failed:
  assumes "cache_env hw w me m" "calm_any w s"
  shows "returns (stopped w me v (mpam2_written (io s))) (val_set_status me v (val_print l msg a s))"
  using set_status_stopped [OF assms(1), of "val_print l msg a s"] assms(2) by simp

lemma confs_ended:
  assumes "calm w x s" "calm_conf w m conf" "\<forall>i\<in>set is'. unat i < length (cache_node m)"
  shows "returns (calm w x) (for_each conf is' s)"
  by (rule returns_for_each) (use assms in \<open>auto simp: calm_conf_def\<close>)

lemma size_scenario_calm:
  assumes "cache_env hw w me m" "calm w x s" "calm_conf w m conf" "\<forall>i\<in>set is'. unat i < length (cache_node m)"
  shows "returns (goes_on (calm w x) (stopped w me (RESULT_FAIL (ct_num ct) 1) (Some saved)))
    (size_scenario hw ct me mx is' conf saved pc i s)"
proof -
  have f: "returns (goes_on (calm w x) (stopped w me (RESULT_FAIL (ct_num ct) 1) (Some saved)))
    (do { s \<leftarrow> val_set_status me (RESULT_FAIL (ct_num ct) 1) (val_print ACS_PRINT_ERR (fail_msg ct) 0 u);
          Some (None :: u64 option, val_sysreg_write MPAM2_SYSREG saved s) })" if "calm w x u" for u
    by (rule returns_seq [OF buffers_failed [OF assms(1)]]) (use that in \<open>auto simp: calm_iff intro: stopped_write\<close>)
  show ?thesis
    unfolding size_scenario_def
    by (rule returns_seq [OF confs_ended [OF assms(2-4)]]) (auto simp: Let_def split_beta f split: option.split)
qed

text \<open>The firmware grants every buffer.\<close>

definition pages_granted :: "hw \<Rightarrow> bool" where
  "pages_granted hw \<longleftrightarrow> (\<forall>h n. \<not> EFI_ERROR (fst (fw_in hw h ''AllocatePages'' [n])))"

lemma granted_buffers:
  assumes "pages_granted hw"
  shows "fst (fst (scenario_buffers hw ct k n i s)) \<noteq> None" "snd (fst (scenario_buffers hw ct k n i s)) \<noteq> None"
  using assms by (simp_all add: pages_granted_def scenario_buffers_def alloc_pair_def val_allocate_buf_def
      pal_mem_allocate_buf_def firmware_def Let_def split_beta)

lemma pair_scenario_calm:
  assumes "cache_env hw w me m" "calm w x s" "\<And>p q. calm_conf w m (conf p q)" "\<forall>i\<in>set is'. unat i < length (cache_node m)"
  shows "returns (goes_on (calm_any w) (\<lambda>t. \<not> pages_granted hw \<and> stopped w me (RESULT_FAIL (ct_num ct) 1) x t))
    (pair_scenario hw ct me c is' conf ps pc i s)"
proof -
  have f: "returns (goes_on (calm_any w) (\<lambda>t. \<not> pages_granted hw \<and> stopped w me (RESULT_FAIL (ct_num ct) 1) x t))
    (do { s \<leftarrow> val_set_status me (RESULT_FAIL (ct_num ct) 1) (val_print ACS_PRINT_ERR (fail_msg ct) 0 u);
          Some (None :: (u64 \<times> u64) option, s) })" if "calm w x u" "\<not> pages_granted hw" for u
    by (rule returns_seq [OF buffers_failed [OF assms(1)]]) (use that in \<open>auto simp: calm_iff\<close>)
  have g: "calm_any w u" if "calm w y u" for y u using that by (simp add: calm_iff)
  show ?thesis
    unfolding pair_scenario_def Let_def
    by (rule returns_seq [OF confs_ended [OF assms(2-4)]], rule returns_seq [OF confs_ended [OF _ assms(3,4)]], assumption)
       (auto simp: split_beta g split: option.split intro!: f dest: granted_buffers)
qed

lemma traffic_saved:
  assumes "holds_mpam2 hw rst" "calm w (mpam2_written (io w)) s"
  shows "fst (set_traffic hw p s) = mpam2_value rst (io w)" "fst (val_sysreg_read hw MPAM2_SYSREG s) = mpam2_value rst (io w)"
  using assms by (simp_all add: set_traffic_def split_beta val_sysreg_read_def read_sysreg_def holds_mpam2_def
      calm_def mpam2_value_def)

lemma latency_result_ended:
  assumes "cache_env hw w me m" "calm_any w t" "RESULT_PASS n 1 \<in> vs" "good l \<or> RESULT_FAIL n 1 \<in> vs"
  shows "returns (ended rst w me vs) (latency_result n me good (mpam2_value rst (io w)) (Some l) t)"
  unfolding latency_result_def option.case
  by (rule set_status_ended [OF assms(1), where x = "Some (mpam2_value rst (io w))"])
     (use assms(2-4) in \<open>auto simp: calm_any_def\<close>)

lemma nodes_known:
  assumes "cache_env hw w me m"
  shows "\<forall>i\<in>set (upto_u32 (num_cache_nodes m)). unat i < length (cache_node m)"
  using assms by (auto simp: cache_env_def set_upto_u32 word_less_nat_alt)

lemma size_test_ended:
  assumes "cache_env hw w me m" "\<And>p q. calm_conf w m (conf p q)" "holds_mpam2 hw rst"
    and "calm w (mpam2_written (io w)) s"
    and "{RESULT_FAIL (ct_num ct) 1, RESULT_PASS (ct_num ct) 1} \<subseteq> vs"
  shows "returns (ended rst w me vs)
    (size_test hw ct conf scenarios me c (upto_u32 (num_cache_nodes m)) s)"
proof -
  let ?u = "snd (set_traffic hw (minmax_partid c) s)"
  have u: "calm w (mpam2_written (io ?u)) ?u" using assms(4) by (simp add: calm_iff)
  show ?thesis
    unfolding size_test_def Let_def split_beta traffic_saved [OF assms(3,4)]
    by (rule returns_seq [OF scenario_loop_rule [where I = "calm w (mpam2_written (io ?u))",
          OF size_scenario_calm [OF assms(1) _ assms(2) nodes_known [OF assms(1)]] u]])
       (use assms(5) in \<open>auto simp: goes_on_def latency_result_def [where r = None] calm_iff stopped_ended
          intro!: latency_result_ended [OF assms(1)] split: option.splits\<close>)
qed

text \<open>With one scenario that is enabled, a failed allocation finds MPAM2_EL2 unchanged.\<close>

lemma pair_test_ended:
  assumes "cache_env hw w me m" "\<And>p q. calm_conf w m (conf p q)" "holds_mpam2 hw rst"
    and "calm w (mpam2_written (io w)) s"
    and "RESULT_PASS (ct_num ct) 1 \<in> vs"
    and "pages_granted hw \<and> 0 < compare_from ct \<or> RESULT_FAIL (ct_num ct) 1 \<in> vs"
  shows "returns (ended rst w me vs)
    (pair_test hw ct conf [(ps, pc, True), (ps', pc', False)] me c (upto_u32 (num_cache_nodes m)) s)"
proof -
  note p = pair_scenario_calm [OF assms(1) _ assms(2) nodes_known [OF assms(1)]]
  show ?thesis
    unfolding pair_test_def Let_def split_beta traffic_saved [OF assms(3,4)]
    by (simp, rule returns_seq [OF p [where x = "mpam2_written (io w)"]], simp add: assms(4))
       (use assms(5,6) in \<open>auto simp: goes_on_def latency_result_def [where r = None] stopped_ended
          intro!: latency_result_ended [OF assms(1)] split: option.splits\<close>)
qed


text \<open>The words a payload may end with.\<close>

abbreviation verdicts :: "u32 \<Rightarrow> u32 set" where
  "verdicts n \<equiv> {RESULT_SKIP n 0, RESULT_PASS n 1, RESULT_FAIL n 1}"

lemmas texts_defs = c002_texts_def c003_texts_def c004_texts_def c005_texts_def c006_texts_def

lemma cache_payloads_ended:
  assumes "cache_env hw w me m" "ccap_narrow hw m" "holds_mpam2 hw rst"
  shows "returns (ended rst w me (verdicts (TEST_C 2))) (payload_c002 hw w)"
    "returns (ended rst w me (verdicts (TEST_C 3))) (payload_c003 hw w)"
    "returns (ended rst w me (verdicts (TEST_C 4))) (payload_c004 hw w)"
    "returns (ended rst w me (verdicts (TEST_C 5))) (payload_c005 hw w)"
    "returns (ended rst w me (verdicts (TEST_C 6))) (payload_c006 hw w)"
proof -
  note f = features_calm [OF assms(1)] and c = confs_calm [OF assms(1,2)]
  note p = cache_payload_ended [OF assms(1)] and s = size_test_ended [OF assms(1) _ assms(3)]
    and q = pair_test_ended [OF assms(1) _ assms(3)]
  show "returns (ended rst w me (verdicts (TEST_C 2))) (payload_c002 hw w)"
    unfolding payload_c002_def by (rule p [OF f(1)], rule s [OF c(1)]) (simp_all add: texts_defs)
  show "returns (ended rst w me (verdicts (TEST_C 3))) (payload_c003 hw w)"
    unfolding payload_c003_def by (rule p [OF f(2)], rule s [OF c(2)]) (simp_all add: texts_defs)
  show "returns (ended rst w me (verdicts (TEST_C 4))) (payload_c004 hw w)"
    unfolding payload_c004_def by (rule p [OF f(3)], rule s [OF c(3)]) (simp_all add: texts_defs)
  show "returns (ended rst w me (verdicts (TEST_C 5))) (payload_c005 hw w)"
    unfolding payload_c005_def cpor_partid_config_data_def by (rule p [OF f(1)], rule q [OF c(1)]) (simp_all add: texts_defs)
  show "returns (ended rst w me (verdicts (TEST_C 6))) (payload_c006 hw w)"
    unfolding payload_c006_def ccap_partid_config_data_def by (rule p [OF f(2)], rule q [OF c(2)]) (simp_all add: texts_defs)
qed

text \<open>The bit that says whether a cache has capacity limits.\<close>

definition ccap_bit :: "hw \<Rightarrow> mpam_info \<Rightarrow> nat \<Rightarrow> history \<Rightarrow> u8" where
  "ccap_bit hw m i h = ucast (field (mmio_in hw h (mmio_addr (cn_hwreg_base (cache_node m ! i) + REG_MPAMF_IDR)))
     IDR_HAS_CCAP_PART_SHIFT IDR_HAS_CCAP_PART_MASK)"

definition has_ccap_cache :: "hw \<Rightarrow> mpam_info \<Rightarrow> bool" where
  "has_ccap_cache hw m \<longleftrightarrow> (\<exists>i<length (cache_node m). \<forall>h. ccap_bit hw m i h \<noteq> 0)"

lemma ccap_always:
  assumes "cache_env hw w me m" "unat i < length (cache_node m)" "\<forall>h. ccap_bit hw m (unat i) h \<noteq> 0"
  shows "always w (has val_cache_supports_ccap hw) i"
  unfolding always_def
proof (intro allI impI)
  fix x s
  assume "calm w x s"
  from hwreg_base_calm [OF assms(1) this assms(2)] obtain t where
    "val_node_hwreg_base hw MPAM_NODE_CACHE i s = Some (cn_hwreg_base (cache_node m ! unat i), t)"
    by (auto simp: returns_def)
  then show "returns (\<lambda>(b, t). b) (has val_cache_supports_ccap hw i s)"
    using assms(3) by (simp add: has_def val_cache_supports_ccap_def node_read_def split_beta ccap_bit_def)
qed

lemma has_ccap_always:
  assumes "cache_env hw w me m" "has_ccap_cache hw m"
  shows "\<exists>i<num_cache_nodes m. always w (has val_cache_supports_ccap hw) i"
proof -
  from assms(2) obtain i where i: "i < length (cache_node m)" "\<forall>h. ccap_bit hw m i h \<noteq> 0"
    by (auto simp: has_ccap_cache_def)
  have lt: "i < unat (num_cache_nodes m)" using i(1) assms(1) by (simp add: cache_env_def)
  then have u: "unat (word_of_nat i :: u32) = i"
    using unat_of_nat_atmost [of i "num_cache_nodes m"] by simp
  then have "(word_of_nat i :: u32) < num_cache_nodes m" using lt by (simp add: word_less_nat_alt)
  with ccap_always [OF assms(1), of "word_of_nat i"] i u show ?thesis by auto
qed

lemma c006_ended:
  assumes "cache_env hw w me m" "ccap_narrow hw m" "holds_mpam2 hw rst" "pages_granted hw"
    and "has_ccap_cache hw m \<or> RESULT_SKIP (TEST_C 6) 0 \<in> vs" "RESULT_PASS (TEST_C 6) 1 \<in> vs"
  shows "returns (ended rst w me vs) (payload_c006 hw w)"
  unfolding payload_c006_def ccap_partid_config_data_def
  by (rule cache_payload_ended [OF assms(1) features_calm(2) [OF assms(1)]],
      rule pair_test_ended [OF assms(1) confs_calm(2) [OF assms(1,2)] assms(3)])
     (use assms(5) has_ccap_always [OF assms(1)] in \<open>auto simp: texts_defs assms(4,6)\<close>)

text \<open>C17: 
  each of the cache tests 2 to 6 ends, whatever caches there are, whatever the firmware and
  the cycle counter answer, with a skip, a pass or a failure of its own number in the status
  word of this PE, and on each of the ways out MPAM2_EL2 reads what it read before.
\<close>

theorem cache_tests_restore_mpam2:
  assumes "cache_env hw s me m" "ccap_narrow hw m" "holds_mpam2 hw rst"
    and "(n, payload) \<in> set [(2, payload_c002), (3, payload_c003), (4, payload_c004), (5, payload_c005), (6, payload_c006)]"
  shows "\<exists>t. payload hw s = Some t \<and> gl t = gl s \<and>
       status_word me t \<in> {RESULT_SKIP n 0, RESULT_PASS n 1, RESULT_FAIL n 1} \<and>
       sysreg_in hw (io t) ''sysreg_read_mpam2'' = sysreg_in hw (io s) ''sysreg_read_mpam2''"
proof -
  have "returns (ended rst s me (verdicts n)) (payload hw s)"
    using cache_payloads_ended [OF assms(1-3)] assms(4) by (auto simp: ACS_CACHE_TEST_NUM_BASE_def)
  then obtain t where "payload hw s = Some t" "ended rst s me (verdicts n) t" by (rule returnsE)
  then show ?thesis using assms(3) by (intro exI [of _ t]) (simp add: ended_def holds_mpam2_def)
qed

text \<open>
  test 6 compares from its second scenario on, and only the first is enabled. So on a
  system with a cache that has capacity limits the test passes whenever the firmware grants the
  buffers, whatever the caches do and however the two latencies relate.
\<close>

theorem ccap_storage_test_passes:
  assumes "cache_env hw s me m" "ccap_narrow hw m" "holds_mpam2 hw rst" "pages_granted hw" "has_ccap_cache hw m"
  shows "\<exists>t. payload_c006 hw s = Some t \<and> status_word me t = RESULT_PASS 6 1"
proof -
  have "returns (ended rst s me {RESULT_PASS 6 1}) (payload_c006 hw s)"
    by (rule c006_ended [OF assms(1-4)]) (simp_all add: assms(5) ACS_CACHE_TEST_NUM_BASE_def)
  then show ?thesis by (auto simp: returns_def ended_def)
qed

text \<open>
  A machine for the witnesses: every register of a cache reads one constant (both features,
  widths of 8 bits), MPAM2_EL2 holds what is written to it, the counter shows the number of
  events so far, and the firmware grants what it is asked for.
\<close>

definition cache_hw :: hw where
  "cache_hw = (ram_hw (\<lambda>_. 0) 0)\<lparr>mmio_in := \<lambda>h a. 0x0F000008,
     sysreg_in := \<lambda>h r. if r = ''sysreg_read_mpam2'' then mpam2_value 0 h else of_nat (length h)\<rparr>"

definition cache_world :: world where
  "cache_world = one_node_world\<lparr>shared := Some [\<lparr>data0 = 0, data1 = 0, status = 0\<rparr>, \<lparr>data0 = 0, data1 = 0, status = 0\<rparr>]\<rparr>"

definition the_info :: mpam_info where
  "the_info = (case g_mpam_info_table (gl one_node_world) of Some (m # _) \<Rightarrow> m | _ \<Rightarrow>
     \<lparr>num_cache_nodes = 0, num_memory_nodes = 0, cache_node = [], memory_node = []\<rparr>)"

lemma the_info_eq: "num_cache_nodes the_info = 1" "length (cache_node the_info) = 1" "num_memory_nodes the_info = 0"
  by (simp_all add: the_info_def one_node_world_def)

lemma cache_world_env: "cache_env cache_hw cache_world 0 the_info"
proof -
  have "my_index cache_hw cache_world = Some (0, log_io (SysRead ''arm64_read_mpidr'') cache_world)"
    by (rule my_index_eq) (simp add: affx_def val_pe_get_index_mpid_def cache_world_def one_node_world_def
        two_pe_world_def cache_hw_def ram_hw_def)
  moreover have "g_mpam_info_table (gl cache_world) = Some [the_info]"
    by (simp add: cache_world_def the_info_def one_node_world_def)
  ultimately show ?thesis
    by (simp add: cache_env_def shared_size_def the_info_eq cache_world_def)
qed

lemma cache_hw_simps:
  "holds_mpam2 cache_hw 0" "pages_granted cache_hw" "ccap_narrow cache_hw the_info" "has_ccap_cache cache_hw the_info"
  "quiet_peers cache_hw"
  by (simp_all add: holds_mpam2_def pages_granted_def ccap_narrow_def has_ccap_cache_def cache_hw_def ram_hw_def
      ccap_width_def ccap_bit_def field_def the_info_eq quiet_peers_def CCAP_IDR_CMAX_WD_MASK_def
      IDR_HAS_CCAP_PART_SHIFT_def IDR_HAS_CCAP_PART_MASK_def)

lemma cache_tests_restore_mpam2_witness:
  "\<exists>t. payload_c003 cache_hw cache_world = Some t \<and>
     status_word 0 t \<in> {RESULT_SKIP 3 0, RESULT_PASS 3 1, RESULT_FAIL 3 1}"
  using cache_tests_restore_mpam2 [OF cache_world_env cache_hw_simps(3,1), of 3 payload_c003] by auto

lemma ccap_storage_test_passes_witness:
  "\<exists>t. payload_c006 cache_hw cache_world = Some t \<and> status_word 0 t = RESULT_PASS 6 1"
  by (rule ccap_storage_test_passes [OF cache_world_env cache_hw_simps(3,1,2,4)])

subsection \<open>The cache module with its own payloads\<close>

text \<open>The numbers of the tests choose the payloads; the rest of the pool is somebody else's.\<close>

definition cache_pool :: "hw \<Rightarrow> pool \<Rightarrow> pool" where
  "cache_pool hw other n =
     (if n = TEST_C 2 then payload_c002 hw else if n = TEST_C 3 then payload_c003 hw
      else if n = TEST_C 4 then payload_c004 hw else if n = TEST_C 5 then payload_c005 hw
      else if n = TEST_C 6 then payload_c006 hw else other n)"

definition cache_ready :: "hw \<Rightarrow> world \<Rightarrow> bool" where
  "cache_ready hw s \<longleftrightarrow> length (g_skip_test_num (gl s)) = MAX_TEST_SKIP_NUM \<and>
     (\<exists>me m. cache_env hw s me m \<and> ccap_narrow hw m \<and> \<not> no_nodes m)"

lemma cache_env_same:
  assumes "cache_env hw s me m" "same_suite s t"
  shows "cache_env hw t me m"
  using my_index_same [of hw s me _ t] assms by (auto simp: cache_env_def same_suite_def)

lemma cache_ready_set_up: "set_up hw (cache_ready hw)"
  unfolding set_up_def
proof (intro conjI allI impI)
  show "ready hw s" if "cache_ready hw s" for s
    using that by (auto simp: cache_ready_def cache_env_def ready_def)
  show "cache_ready hw t" if "cache_ready hw s" "same_suite s t" for s t
    using that cache_env_same [OF _ that(2)] unfolding cache_ready_def by (metis same_suite_def)
qed

lemma cache_pool_good:
  assumes "holds_mpam2 hw rst"
  shows "good_pool (cache_ready hw) {2..6} (cache_pool hw other)"
  unfolding good_pool_def
proof (intro ballI allI impI)
  fix n :: u32 and s
  assume n: "n \<in> {2..6}" and s: "cache_ready hw s"
  obtain me m where e: "cache_env hw s me m" "ccap_narrow hw m" using s by (auto simp: cache_ready_def)
  have "unat n \<in> {2..6}" using n by (auto simp: word_le_nat_alt)
  then have "unat n = 2 \<or> unat n = 3 \<or> unat n = 4 \<or> unat n = 5 \<or> unat n = 6" by auto
  then have "n = 2 \<or> n = 3 \<or> n = 4 \<or> n = 5 \<or> n = 6" by (simp add: word_unat_eq_iff)
  then have "returns (ended rst s me (verdicts n)) (cache_pool hw other n s)"
    using cache_payloads_ended [OF e assms]
    by (elim disjE) (simp_all add: cache_pool_def ACS_CACHE_TEST_NUM_BASE_def)
  then show "returns (\<lambda>t. same_suite s t \<and> counters t = counters s) (cache_pool hw other n s)"
    by (rule returns_mono) (auto simp: ended_def same_suite_def counters_def)
qed

text \<open>C16: 
  on a system with MPAM nodes the cache module, run with its own payloads, comes to its end
  whatever the caches and the firmware answer: the first test passes, the status is the worst of
  the six verdicts, and the counters move by exactly the verdicts.
\<close>

theorem cache_module_runs:
  assumes "quiet_peers hw" "holds_mpam2 hw rst" "cache_ready hw s" "0 \<notin> set (g_skip_test_num (gl s))"
  shows "\<exists>st t rs. val_cache_execute_tests hw (cache_pool hw other) k s = Some (st, t) \<and>
       length rs = 6 \<and> set rs \<subseteq> {ACS_STATUS_PASS, ACS_STATUS_SKIP, ACS_STATUS_FAIL} \<and>
       hd rs = ACS_STATUS_PASS \<and> st = worst rs \<and>
       g_acs_tests_total (gl t) = g_acs_tests_total (gl s) + 6 \<and>
       g_acs_tests_pass (gl t) = g_acs_tests_pass (gl s) + of_nat (count_list rs ACS_STATUS_PASS) \<and>
       g_acs_tests_fail (gl t) = g_acs_tests_fail (gl s) + of_nat (count_list rs ACS_STATUS_FAIL)"
proof -
  from assms(3) obtain me m tbl where m: "cache_env hw s me m" "\<not> no_nodes m"
    "length (g_skip_test_num (gl s)) = MAX_TEST_SKIP_NUM" "g_mpam_info_table (gl s) = Some tbl"
    "unat me < length tbl" "tbl ! unat me = m" by (auto simp: cache_ready_def cache_env_def)
  from first_test_run [OF assms(1) _ _ m(3-5)] m(1,2,6) obtain u where
    u: "testc001_entry hw s = Some (ACS_STATUS_PASS, u)" "same_suite s u"
      "counters u = (g_acs_tests_total (gl s) + 1, g_acs_tests_pass (gl s) + 1, g_acs_tests_fail (gl s))"
    by (fastforce simp: cache_env_def)
  have "cache_ready hw u" using cache_ready_set_up assms(3) u(2) by (auto simp: set_up_def)
  let ?pool = "cache_pool hw other"
  let ?ts = "[testc002_entry hw ?pool, testc003_entry hw ?pool, testc004_entry hw ?pool,
       testc005_entry hw ?pool, testc006_entry hw ?pool]"
  have "\<forall>T\<in>set ?ts. runs_counted (cache_ready hw) T"
    using single_pe_test_runs [OF assms(1) cache_pool_good [OF assms(2)] _ cache_ready_set_up]
    by (simp add: entry_defs ACS_CACHE_TEST_NUM_BASE_def)
  from or_tests_runs [OF cache_ready_set_up this \<open>cache_ready hw u\<close>, of ACS_STATUS_PASS] obtain rs v where
    rs: "or_tests ?ts ACS_STATUS_PASS u = Some (ACS_STATUS_PASS OR foldr (OR) rs 0, v)" "length rs = 5"
      "set rs \<subseteq> {ACS_STATUS_PASS, ACS_STATUS_SKIP, ACS_STATUS_FAIL}"
      "counters v = (g_acs_tests_total (gl u) + of_nat (length rs),
         g_acs_tests_pass (gl u) + of_nat (count_list rs ACS_STATUS_PASS),
         g_acs_tests_fail (gl u) + of_nat (count_list rs ACS_STATUS_FAIL))" by auto
  let ?rs = "ACS_STATUS_PASS # rs"
  have "ACS_STATUS_PASS OR foldr (OR) rs 0 = worst ?rs"
    using fold_or_worst [of ?rs] rs(3) by simp
  then obtain t where t: "val_cache_execute_tests hw ?pool k s = Some (worst ?rs, t)" "gl t = gl v"
    using u(1) rs(1) assms(4) m(3)
    by (simp add: val_cache_execute_tests_def module_not_skipped ACS_CACHE_TEST_NUM_BASE_def module_verdict_def
        del: or_tests.simps)
  show ?thesis
    using t rs(2-4) u(3)
    by (intro exI [of _ "worst ?rs"] exI [of _ t] exI [of _ ?rs]) (simp add: counters_def)
qed

lemma cache_module_runs_witness:
  "\<exists>st t. val_cache_execute_tests cache_hw (cache_pool cache_hw (\<lambda>_ _. None)) 2 cache_world = Some (st, t) \<and>
     g_acs_tests_total (gl t) = 6"
proof -
  have len: "length (g_skip_test_num (gl cache_world)) = MAX_TEST_SKIP_NUM"
    by (simp add: cache_world_def one_node_world_def two_pe_world_def MAX_TEST_SKIP_NUM_def)
  have r: "cache_ready cache_hw cache_world"
    unfolding cache_ready_def using cache_world_env cache_hw_simps(3) len
    by (intro conjI exI [of _ 0] exI [of _ the_info]) (simp_all add: no_nodes_def the_info_eq)
  have "0 \<notin> set (g_skip_test_num (gl cache_world))" by (simp add: cache_world_def one_node_world_def two_pe_world_def)
  from cache_module_runs [OF cache_hw_simps(5,1) r this, of "\<lambda>_ _. None" 2] show ?thesis
    by (auto simp: cache_world_def one_node_world_def two_pe_world_def)
qed

end
