(* ===== verification/Mpam_Csu_Tests.thy ===== *)
theory Mpam_Csu_Tests
  imports Mpam_Cache_Tests Mpam_Csumon
begin

text \<open>
  The payloads of the storage usage monitor tests (test_pool/csu_monitor/test_m001.c to
  test_m003.c). Each programs the caches, walks over their monitors, makes traffic with two
  PMGs, reads after each how much storage the monitor has counted, and keeps the counts in two
  tables of 256 rows (monitors) with 1024 cells (nodes). \<open>junk\<close> is what the memory of the tables
  holds before it is written; \<open>fvp\<close> is the build option MPAM_SIMULATION_FVP, with which the
  monitors are not read.
\<close>

definition DEFAULT_PMG_MAX :: u8 where [reg_defs]: "DEFAULT_PMG_MAX = 255"
definition DEFAULT_MONCNT :: u16 where [reg_defs]: "DEFAULT_MONCNT = 0"
definition NODE_CNT_MAX :: nat where [reg_defs]: "NODE_CNT_MAX = 1024"
definition MON_CNT_MAX :: nat where [reg_defs]: "MON_CNT_MAX = 256"
definition PARTITION_PERCENTAGE :: u8 where [reg_defs]: "PARTITION_PERCENTAGE = 75"
definition CACHE_PERCENTAGE :: u8 where [reg_defs]: "CACHE_PERCENTAGE = 50"
definition MAX_DEVIATION_CNT :: nat where [reg_defs]: "MAX_DEVIATION_CNT = 10"

abbreviation TEST_M :: "u32 \<Rightarrow> u32" where "TEST_M k \<equiv> ACS_CSUMON_TEST_NUM_BASE + k"

subsection \<open>The tables of the counts\<close>

text \<open>A table: the pointers to its rows, and the cells. A row that could not be allocated is NULL.\<close>

record csu_table =
  rows :: "u64 option list"
  cells :: "nat \<Rightarrow> nat \<Rightarrow> u32"

definition cell_ok :: "csu_table \<Rightarrow> u16 \<Rightarrow> u32 \<Rightarrow> bool" where
  "cell_ok T mon_index node_index \<longleftrightarrow>
     unat mon_index < length (rows T) \<and> rows T ! unat mon_index \<noteq> None \<and> unat node_index < NODE_CNT_MAX"

definition get_cell :: "csu_table \<Rightarrow> u16 \<Rightarrow> u32 \<Rightarrow> u32 option" where
  "get_cell T mon_index node_index =
     (if cell_ok T mon_index node_index then Some (cells T (unat mon_index) (unat node_index)) else None)"

definition set_cell :: "csu_table \<Rightarrow> u16 \<Rightarrow> u32 \<Rightarrow> u32 \<Rightarrow> csu_table option" where
  "set_cell T mon_index node_index v =
     (if cell_ok T mon_index node_index
      then Some (T\<lparr>cells := (cells T)(unat mon_index := (cells T (unat mon_index))(unat node_index := v))\<rparr>)
      else None)"

text \<open>The row pointers are stored through the pointers to the tables.\<close>

fun alloc_rows ::
    "hw \<Rightarrow> u64 option \<Rightarrow> u64 option \<Rightarrow> nat \<Rightarrow> csu_table \<times> csu_table \<Rightarrow> world \<Rightarrow> ((csu_table \<times> csu_table) \<times> world) option"
where
  "alloc_rows hw p1 p2 0 T s = Some (T, s)"
| "alloc_rows hw p1 p2 (Suc n) (T1, T2) s =
     do { let (r1, s) = val_allocate_buf hw (of_nat (NODE_CNT_MAX * 4)) s;
          _ \<leftarrow> p1;
          let (r2, s) = val_allocate_buf hw (of_nat (NODE_CNT_MAX * 4)) s;
          _ \<leftarrow> p2;
          alloc_rows hw p1 p2 n (T1\<lparr>rows := rows T1 @ [r1]\<rparr>, T2\<lparr>rows := rows T2 @ [r2]\<rparr>) s }"

definition alloc_tables ::
    "hw \<Rightarrow> (nat \<Rightarrow> nat \<Rightarrow> u32) \<times> (nat \<Rightarrow> nat \<Rightarrow> u32) \<Rightarrow> world \<Rightarrow> ((csu_table \<times> csu_table) \<times> world) option" where
  "alloc_tables hw junk s =
     (let (p1, s) = val_allocate_buf hw (of_nat (MON_CNT_MAX * 8)) s;
          (p2, s) = val_allocate_buf hw (of_nat (MON_CNT_MAX * 8)) s
      in alloc_rows hw p1 p2 MON_CNT_MAX
           (\<lparr>rows = [], cells = fst junk\<rparr>, \<lparr>rows = [], cells = snd junk\<rparr>) s)"

text \<open>Only the rows are freed, not the two arrays of pointers.\<close>

definition free_tables :: "hw \<Rightarrow> csu_table \<times> csu_table \<Rightarrow> world \<Rightarrow> world" where
  "free_tables hw T s =
     fold (\<lambda>(r1, r2) s. val_free_buf hw r2 (of_nat (NODE_CNT_MAX * 4))
             (val_free_buf hw r1 (of_nat (NODE_CNT_MAX * 4)) s))
       (zip (rows (fst T)) (rows (snd T))) s"

text \<open>A copy buffer is used without a check: NULL is address 0 for the copy.\<close>

definition ptr :: "u64 option \<Rightarrow> u64" where
  "ptr p = (case p of None \<Rightarrow> 0 | Some a \<Rightarrow> a)"

subsection \<open>Tests 1 and 2: storage is counted for the PMG of the monitor only\<close>

definition and_csumon :: "feature \<Rightarrow> hw \<Rightarrow> feature" where
  "and_csumon f hw node_index s =
     do { (b, s) \<leftarrow> f node_index s;
          if b then has val_cache_supports_csumon hw node_index s else Some (False, s) }"

record csu_scan = cache_scan +
  minmax_pmg :: u8
  max_moncnt :: u16

fun scan_monitors :: "hw \<Rightarrow> feature \<Rightarrow> u32 list \<Rightarrow> csu_scan \<Rightarrow> world \<Rightarrow> (csu_scan \<times> world) option" where
  "scan_monitors hw feature [] c s = Some (c, s)"
| "scan_monitors hw feature (node_index # is') c s =
     do { (f, s) \<leftarrow> feature node_index s;
          (c, s) \<leftarrow> (if f
                    then do {
                      (n, s) \<leftarrow> max_with (cache_maxsize c) (val_cache_get_size hw node_index) s;
                      (g, s) \<leftarrow> min_with (minmax_pmg c) (val_node_get_pmg hw MPAM_NODE_CACHE node_index) s;
                      (mon, s) \<leftarrow> has val_cache_supports_csumon hw node_index s;
                      (k, s) \<leftarrow> (if mon then max_with (max_moncnt c) (val_csumon_monitor_count hw node_index) s
                                else Some (max_moncnt c, s));
                      Some (c\<lparr>cache_maxsize := n, feature_nodes := feature_nodes c + 1, minmax_pmg := g,
                              max_moncnt := k\<rparr>, s) }
                    else Some (c, s));
          (p, s) \<leftarrow> min_with (minmax_partid c) (val_node_get_partid hw MPAM_NODE_CACHE node_index) s;
          scan_monitors hw feature is' (c\<lparr>minmax_partid := p\<rparr>) s }"

definition config_monitors :: "hw \<Rightarrow> feature \<Rightarrow> u32 list \<Rightarrow> u16 \<Rightarrow> u8 \<Rightarrow> u16 \<Rightarrow> world \<Rightarrow> world option" where
  "config_monitors hw feature nodes partid pmg mon_index =
     for_each (\<lambda>i s. do { (b, s) \<leftarrow> and_csumon feature hw i s;
                          if b then val_csumon_config_monitor hw i partid pmg mon_index s else Some s }) nodes"

text \<open>Reading a monitor at every node into a table; \<open>sim\<close> is the value of the FVP build.\<close>

fun read_monitors ::
    "bool \<Rightarrow> hw \<Rightarrow> feature \<Rightarrow> u32 \<Rightarrow> string \<Rightarrow> u32 list \<Rightarrow> u16 \<Rightarrow> csu_table \<Rightarrow> world \<Rightarrow> (csu_table \<times> world) option" where
  "read_monitors fvp hw feature sim msg [] mon_index T s = Some (T, s)"
| "read_monitors fvp hw feature sim msg (node_index # is') mon_index T s =
     do { (b, s) \<leftarrow> and_csumon feature hw node_index s;
          (T, s) \<leftarrow> (if b
                    then do {
                      (v, s) \<leftarrow> (if fvp then Some (sim, s) else val_csumon_storage_value hw node_index mon_index s);
                      T \<leftarrow> set_cell T mon_index node_index v;
                      let s = debug ''node_index          = 0x%lx'' (ucast node_index) s;
                      v \<leftarrow> get_cell T mon_index node_index;
                      Some (T, debug msg (ucast v) s) }
                    else Some (T, s));
          read_monitors fvp hw feature sim msg is' mon_index T s }"

text \<open>The traffic with a PARTID and a PMG; \<open>mpam2_el2\<close> is the variable the value is computed from.\<close>

definition pmg_traffic :: "u16 \<Rightarrow> u8 \<Rightarrow> u64 \<Rightarrow> world \<Rightarrow> u64 \<times> world" where
  "pmg_traffic partid pmg mpam2_el2 s =
     (let v = mpam2_traffic partid pmg mpam2_el2 in (v, val_sysreg_write MPAM2_SYSREG v s))"

text \<open>One monitor. Buffers that cannot be allocated are reported and used all the same. The labels
  of the two PMGs are exchanged in what is printed.\<close>

definition monitor_round ::
    "bool \<Rightarrow> hw \<Rightarrow> cache_test \<Rightarrow> feature \<Rightarrow> u32 \<Rightarrow> csu_scan \<Rightarrow> u32 list \<Rightarrow> u64 \<Rightarrow> u16 \<Rightarrow>
     (csu_table \<times> csu_table) \<times> u64 \<Rightarrow> world \<Rightarrow> (((csu_table \<times> csu_table) \<times> u64) \<times> world) option" where
  "monitor_round fvp hw ct feature pe_index c nodes saved mon_index Tv s =
     (case Tv of ((T1, T2), mpam2_el2) \<Rightarrow>
      do { let pmg1 = minmax_pmg c;
           let pmg2 = minmax_pmg c - 1;
           let partid = minmax_partid c;
           s \<leftarrow> config_monitors hw feature nodes partid pmg1 mon_index s;
           let buf_size = copy_size (cache_maxsize c) CACHE_PERCENTAGE;
           let ((src, dest), s) = alloc_pair hw buf_size s;
           let s = debug ''mon_index           = 0x%x'' (ucast mon_index) s;
           let s = debug (size_msg ct) (ucast (cache_maxsize c)) s;
           let s = debug ''buf_size            = 0x%x'' buf_size s;
           s \<leftarrow> (if src = None \<or> dest = None
                then val_set_status pe_index (RESULT_FAIL (ct_num ct) 1)
                       (val_print ACS_PRINT_ERR (fail_msg ct) 0 s)
                else Some s);
           let (mpam2_el2, s) = pmg_traffic partid pmg2 mpam2_el2 s;
           let s = val_mem_copy (ptr src) (ptr dest) buf_size s;
           let s = debug ''partid              = %d'' (ucast partid) s;
           let s = debug ''pmg1                = %d'' (ucast pmg1) s;
           (T2, s) \<leftarrow> read_monitors fvp hw feature 0 ''storage_value2      = 0x%lx'' nodes mon_index T2 s;
           let (mpam2_el2, s) = pmg_traffic partid pmg1 saved s;
           let s = val_mem_copy (ptr src) (ptr dest) buf_size s;
           let s = debug ''partid              = %d'' (ucast partid) s;
           let s = debug ''pmg2                = %d'' (ucast pmg2) s;
           (T1, s) \<leftarrow> read_monitors fvp hw feature (ucast buf_size) ''storage_value1      = 0x%lx'' nodes mon_index T1 s;
           let s = val_free_buf hw src buf_size s;
           Some (((T1, T2), mpam2_el2), val_free_buf hw dest buf_size s) })"

text \<open>A loop over 16-bit monitor numbers that carries a value.\<close>

fun over_monitors ::
    "(u16 \<Rightarrow> 'a \<Rightarrow> world \<Rightarrow> ('a \<times> world) option) \<Rightarrow> u16 list \<Rightarrow> 'a \<Rightarrow> world \<Rightarrow> ('a \<times> world) option" where
  "over_monitors f [] a s = Some (a, s)"
| "over_monitors f (m # ms) a s = do { (a, s) \<leftarrow> f m a s; over_monitors f ms a s }"

definition upto_u16 :: "u16 \<Rightarrow> u16 list" where
  "upto_u16 n = map word_of_nat [0..<unat n]"

text \<open>The comparison: whether some monitor of some node has counted wrongly.\<close>

fun wrong_at_nodes ::
    "hw \<Rightarrow> feature \<Rightarrow> csu_table \<times> csu_table \<Rightarrow> u16 \<Rightarrow> u32 list \<Rightarrow> world \<Rightarrow> (bool \<times> world) option" where
  "wrong_at_nodes hw feature T mon_index [] s = Some (False, s)"
| "wrong_at_nodes hw feature T mon_index (node_index # is') s =
     do { (b, s) \<leftarrow> and_csumon feature hw node_index s;
          if b
          then do { v1 \<leftarrow> get_cell (fst T) mon_index node_index;
                    v2 \<leftarrow> get_cell (snd T) mon_index node_index;
                    if v1 = 0 \<or> v2 \<noteq> 0 then Some (True, s)
                    else wrong_at_nodes hw feature T mon_index is' s }
          else wrong_at_nodes hw feature T mon_index is' s }"

fun wrong_monitor ::
    "(u16 \<Rightarrow> world \<Rightarrow> (bool \<times> world) option) \<Rightarrow> u16 list \<Rightarrow> world \<Rightarrow> (bool \<times> world) option" where
  "wrong_monitor f [] s = Some (False, s)"
| "wrong_monitor f (m # ms) s =
     do { (w, s) \<leftarrow> f m s; if w then Some (True, s) else wrong_monitor f ms s }"

text \<open>The end of a test: a failure is recorded before the tables are freed, a pass after.\<close>

definition csu_result :: "hw \<Rightarrow> u32 \<Rightarrow> u32 \<Rightarrow> csu_table \<times> csu_table \<Rightarrow> bool \<Rightarrow> world \<Rightarrow> world option" where
  "csu_result hw n pe_index T wrong s =
     (if wrong then do { s \<leftarrow> val_set_status pe_index (RESULT_FAIL n 1) s; Some (free_tables hw T s) }
      else val_set_status pe_index (RESULT_PASS n 1) (free_tables hw T s))"

definition pmg_payload ::
    "bool \<Rightarrow> (nat \<Rightarrow> nat \<Rightarrow> u32) \<times> (nat \<Rightarrow> nat \<Rightarrow> u32) \<Rightarrow> hw \<Rightarrow> cache_test \<Rightarrow> feature \<Rightarrow>
     (u16 \<Rightarrow> u8 \<Rightarrow> u32 \<Rightarrow> world \<Rightarrow> world option) \<Rightarrow> world \<Rightarrow> world option" where
  "pmg_payload fvp junk hw ct feature conf s =
     do { (pe_index, s) \<leftarrow> my_index hw s;
          (total_nodes, s) \<leftarrow> val_node_get_total hw MPAM_NODE_CACHE s;
          let nodes = upto_u32 total_nodes;
          (c, s) \<leftarrow> scan_monitors hw feature nodes
                     \<lparr>cache_maxsize = 0, feature_nodes = 0, minmax_partid = DEFAULT_PARTID_MAX,
                      minmax_pmg = DEFAULT_PMG_MAX, max_moncnt = DEFAULT_MONCNT\<rparr> s;
          let s = debug (nodes_msg ct) (ucast (feature_nodes c)) s;
          let s = debug ''minmax_partid       = %d'' (ucast (minmax_partid c)) s;
          let s = debug ''minmax_pmg          = %d'' (ucast (minmax_pmg c)) s;
          let s = debug ''max_moncnt          = %d'' (ucast (max_moncnt c)) s;
          if max_moncnt c = DEFAULT_MONCNT then val_set_status pe_index (RESULT_SKIP (ct_num ct) 0) s
          else do {
            s \<leftarrow> for_each (conf (minmax_partid c) PARTITION_PERCENTAGE) nodes s;
            (T, s) \<leftarrow> alloc_tables hw junk s;
            let (saved, s) = val_sysreg_read hw MPAM2_SYSREG s;
            ((T, _), s) \<leftarrow> over_monitors (monitor_round fvp hw ct feature pe_index c nodes saved)
                            (upto_u16 (max_moncnt c)) (T, saved) s;
            let s = val_sysreg_write MPAM2_SYSREG saved s;
            (w, s) \<leftarrow> wrong_monitor (\<lambda>m. wrong_at_nodes hw feature T m nodes) (upto_u16 (max_moncnt c)) s;
            csu_result hw (ct_num ct) pe_index T w s } }"

definition m001_texts :: cache_test where
  "m001_texts = \<lparr>ct_num = TEST_M 1, nodes_msg = ''cpor_nodes          = %d'',
     size_msg = ''cpor_cache_maxsize  = 0x%x'', fail_msg = ''Mem allocation for COPR buffers failed''\<rparr>"

definition payload_m001 :: "bool \<Rightarrow> (nat \<Rightarrow> nat \<Rightarrow> u32) \<times> (nat \<Rightarrow> nat \<Rightarrow> u32) \<Rightarrow> hw \<Rightarrow> world \<Rightarrow> world option" where
  "payload_m001 fvp junk hw =
     pmg_payload fvp junk hw m001_texts (has val_cache_supports_cpor hw) (conf_c002 hw)"

definition m002_texts :: cache_test where
  "m002_texts = \<lparr>ct_num = TEST_M 2, nodes_msg = ''ccap_nodes          = %d'',
     size_msg = ''ccap_cache_maxsize  = 0x%x'', fail_msg = ''Mem allocation for CCAP buffers failed''\<rparr>"

definition payload_m002 :: "bool \<Rightarrow> (nat \<Rightarrow> nat \<Rightarrow> u32) \<times> (nat \<Rightarrow> nat \<Rightarrow> u32) \<Rightarrow> hw \<Rightarrow> world \<Rightarrow> world option" where
  "payload_m002 fvp junk hw =
     pmg_payload fvp junk hw m002_texts (has val_cache_supports_ccap hw) (conf_c003 hw)"

subsection \<open>Test 3: a new configuration does not disturb a running monitor\<close>

fun scan_all_monitors :: "hw \<Rightarrow> u32 list \<Rightarrow> u8 \<times> u16 \<Rightarrow> world \<Rightarrow> ((u8 \<times> u16) \<times> world) option" where
  "scan_all_monitors hw [] c s = Some (c, s)"
| "scan_all_monitors hw (node_index # is') (pmg, moncnt) s =
     do { (pmg, s) \<leftarrow> min_with pmg (val_node_get_pmg hw MPAM_NODE_CACHE node_index) s;
          (mon, s) \<leftarrow> has val_cache_supports_csumon hw node_index s;
          (moncnt, s) \<leftarrow> (if mon then max_with moncnt (val_csumon_monitor_count hw node_index) s
                         else Some (moncnt, s));
          scan_all_monitors hw is' (pmg, moncnt) s }"

text \<open>The number of monitors of a node, 0 without the feature.\<close>

definition node_monitors :: "hw \<Rightarrow> u32 \<Rightarrow> world \<Rightarrow> (u16 \<times> world) option" where
  "node_monitors hw node_index s =
     do { (mon, s) \<leftarrow> has val_cache_supports_csumon hw node_index s;
          if mon then val_csumon_monitor_count hw node_index s else Some (0, s) }"

text \<open>The partitioning of all nodes when \<open>node_index\<close> is tested: that node gets a share, the others
  are not limited. On the way the size of the node and the number of its monitors are read.\<close>

fun config_for_node ::
    "hw \<Rightarrow> u32 \<Rightarrow> u32 list \<Rightarrow> u32 \<times> u16 option \<Rightarrow> world \<Rightarrow> ((u32 \<times> u16 option) \<times> world) option" where
  "config_for_node hw node_index [] r s = Some (r, s)"
| "config_for_node hw node_index (node_index2 # is') r s =
     (if node_index2 \<noteq> node_index
      then do { s \<leftarrow> if_has val_cache_supports_cpor hw node_index2
                      (val_cache_configure_cpor hw node_index2 DEFAULT_PARTID 100) s;
                s \<leftarrow> if_has val_cache_supports_ccap hw node_index2
                      (val_cache_configure_ccap hw node_index2 DEFAULT_PARTID 0 100) s;
                config_for_node hw node_index is' r s }
      else do { s \<leftarrow> if_has val_cache_supports_cpor hw node_index
                      (val_cache_configure_cpor hw node_index DEFAULT_PARTID (ucast PARTITION_PERCENTAGE)) s;
                s \<leftarrow> if_has val_cache_supports_ccap hw node_index
                      (val_cache_configure_ccap hw node_index DEFAULT_PARTID HARDLIMIT_EN (ucast PARTITION_PERCENTAGE)) s;
                (n, s) \<leftarrow> val_cache_get_size hw node_index s;
                (k, s) \<leftarrow> node_monitors hw node_index s;
                config_for_node hw node_index is' (n, Some k) s })"

text \<open>The count of a cell is replaced by the smaller of it and the monitor.\<close>

definition keep_min :: "bool \<Rightarrow> hw \<Rightarrow> u32 \<Rightarrow> u16 \<Rightarrow> csu_table \<Rightarrow> world \<Rightarrow> (csu_table \<times> world) option" where
  "keep_min fvp hw node_index mon_index T s =
     (if fvp then do { T \<leftarrow> set_cell T mon_index node_index 0; Some (T, s) }
      else do { old \<leftarrow> get_cell T mon_index node_index;
                (v, s) \<leftarrow> min_with old (val_csumon_storage_value hw node_index mon_index) s;
                T \<leftarrow> set_cell T mon_index node_index v;
                Some (T, s) })"

text \<open>The first measurement, MAX_DEVIATION_CNT times. A failed allocation is recorded, the monitor's
  control register put back, and the measurement made all the same.\<close>

fun first_measurements ::
    "bool \<Rightarrow> hw \<Rightarrow> u32 \<Rightarrow> u32 \<Rightarrow> u16 \<Rightarrow> u64 \<Rightarrow> nat \<Rightarrow> csu_table \<Rightarrow> world \<Rightarrow> (csu_table \<times> world) option" where
  "first_measurements fvp hw pe_index node_index mon_index buf_size 0 T s = Some (T, s)"
| "first_measurements fvp hw pe_index node_index mon_index buf_size (Suc n) T s =
     do { let ((src, dest), s) = alloc_pair hw buf_size s;
          s \<leftarrow> (if src = None \<or> dest = None
               then do { s \<leftarrow> val_csumon_restore_ctlreg hw node_index mon_index s;
                         val_set_status pe_index (RESULT_FAIL (TEST_M 3) 1)
                           (val_print ACS_PRINT_ERR ''Mem allocation for buffer creation failed'' 0 s) }
               else Some s);
          s \<leftarrow> val_csumon_reset_monitor hw node_index mon_index s;
          let s = val_mem_copy (ptr src) (ptr dest) buf_size s;
          (T, s) \<leftarrow> keep_min fvp hw node_index mon_index T s;
          let s = val_free_buf hw src buf_size s;
          first_measurements fvp hw pe_index node_index mon_index buf_size n T (val_free_buf hw dest buf_size s) }"

text \<open>The second: half of the copy, the new configuration, the other half.\<close>

definition second_measurement ::
    "bool \<Rightarrow> hw \<Rightarrow> u8 \<Rightarrow> u32 \<Rightarrow> u16 \<Rightarrow> u64 \<Rightarrow> csu_table \<Rightarrow> world \<Rightarrow> (csu_table \<times> world) option" where
  "second_measurement fvp hw pmg2 node_index mon_index buf_size T s =
     do { T \<leftarrow> set_cell T mon_index node_index 0;
          let ((src, dest), s) = alloc_pair hw buf_size s;
          s \<leftarrow> val_csumon_reset_monitor hw node_index mon_index s;
          let s = val_mem_copy (ptr src) (ptr dest) (buf_size div 2) s;
          s \<leftarrow> val_csumon_restore_ctlreg hw node_index mon_index s;
          s \<leftarrow> val_csumon_config_monitor hw node_index DEFAULT_PARTID pmg2 mon_index s;
          let s = val_mem_copy (ptr src) (ptr dest) (buf_size div 2) s;
          (T, s) \<leftarrow> keep_min fvp hw node_index mon_index T s;
          let s = val_free_buf hw src buf_size s;
          let s = val_free_buf hw dest buf_size s;
          s \<leftarrow> val_csumon_restore_ctlreg hw node_index mon_index s;
          v \<leftarrow> get_cell T mon_index node_index;
          Some (T, debug ''storage_value2      = 0x%lx'' (ucast v) s) }"

definition measure_monitor ::
    "bool \<Rightarrow> hw \<Rightarrow> u32 \<Rightarrow> u8 \<Rightarrow> u32 \<Rightarrow> u32 \<Rightarrow> u16 \<Rightarrow> (csu_table \<times> csu_table) \<times> u64 \<Rightarrow> world \<Rightarrow>
     (((csu_table \<times> csu_table) \<times> u64) \<times> world) option" where
  "measure_monitor fvp hw pe_index pmg node_index cache_node_size mon_index Tv s =
     (case Tv of ((T1, T2), mpam2_el2) \<Rightarrow>
      do { let pmg1 = pmg;
           let pmg2 = pmg - 1;
           s \<leftarrow> val_csumon_config_monitor hw node_index DEFAULT_PARTID pmg1 mon_index s;
           let (mpam2_el2, s) = pmg_traffic DEFAULT_PARTID pmg1 mpam2_el2 s;
           let buf_size = copy_size cache_node_size CACHE_PERCENTAGE;
           let s = debug ''mon_index           = 0x%x'' (ucast mon_index) s;
           let s = debug ''node_index          = 0x%lx'' (ucast node_index) s;
           let s = debug ''cache_node_size     = 0x%x'' (ucast cache_node_size) s;
           let s = debug ''buf_size            = 0x%x'' buf_size s;
           T1 \<leftarrow> set_cell T1 mon_index node_index 0;
           (T1, s) \<leftarrow> first_measurements fvp hw pe_index node_index mon_index buf_size MAX_DEVIATION_CNT T1 s;
           v \<leftarrow> get_cell T1 mon_index node_index;
           let s = debug ''storage_value1      = 0x%lx'' (ucast v) s;
           let (mpam2_el2, s) = pmg_traffic DEFAULT_PARTID pmg2 mpam2_el2 s;
           (T2, s) \<leftarrow> second_measurement fvp hw pmg2 node_index mon_index buf_size T2 s;
           Some (((T1, T2), mpam2_el2), s) })"

text \<open>\<open>moncnt\<close> has no value before the node itself has been configured.\<close>

fun over_nodes ::
    "bool \<Rightarrow> hw \<Rightarrow> u32 \<Rightarrow> u8 \<Rightarrow> u32 list \<Rightarrow> u32 list \<Rightarrow> u32 \<times> u16 option \<Rightarrow> (csu_table \<times> csu_table) \<times> u64 \<Rightarrow> world \<Rightarrow>
     (((csu_table \<times> csu_table) \<times> u64) \<times> world) option" where
  "over_nodes fvp hw pe_index pmg nodes [] r Tv s = Some (Tv, s)"
| "over_nodes fvp hw pe_index pmg nodes (node_index # is') r Tv s =
     do { (r, s) \<leftarrow> config_for_node hw node_index nodes r s;
          moncnt \<leftarrow> snd r;
          (Tv, s) \<leftarrow> over_monitors (measure_monitor fvp hw pe_index pmg node_index (fst r)) (upto_u16 moncnt) Tv s;
          over_nodes fvp hw pe_index pmg nodes is' r Tv s }"

definition disturbed :: "csu_table \<times> csu_table \<Rightarrow> u32 \<Rightarrow> u16 \<Rightarrow> world \<Rightarrow> (bool \<times> world) option" where
  "disturbed T node_index mon_index s =
     do { v1 \<leftarrow> get_cell (fst T) mon_index node_index;
          v2 \<leftarrow> get_cell (snd T) mon_index node_index;
          Some (v1 > v2, s) }"

fun disturbed_node ::
    "hw \<Rightarrow> csu_table \<times> csu_table \<Rightarrow> u32 list \<Rightarrow> world \<Rightarrow> (bool \<times> world) option" where
  "disturbed_node hw T [] s = Some (False, s)"
| "disturbed_node hw T (node_index # is') s =
     do { (moncnt, s) \<leftarrow> node_monitors hw node_index s;
          (w, s) \<leftarrow> wrong_monitor (disturbed T node_index) (upto_u16 moncnt) s;
          if w then Some (True, s) else disturbed_node hw T is' s }"

definition payload_m003 :: "bool \<Rightarrow> (nat \<Rightarrow> nat \<Rightarrow> u32) \<times> (nat \<Rightarrow> nat \<Rightarrow> u32) \<Rightarrow> hw \<Rightarrow> world \<Rightarrow> world option" where
  "payload_m003 fvp junk hw s =
     do { (pe_index, s) \<leftarrow> my_index hw s;
          (total_nodes, s) \<leftarrow> val_node_get_total hw MPAM_NODE_CACHE s;
          let nodes = upto_u32 total_nodes;
          ((pmg, max_mon), s) \<leftarrow> scan_all_monitors hw nodes (DEFAULT_PMG_MAX, DEFAULT_MONCNT) s;
          let s = debug ''minmax_pmg          = %d'' (ucast pmg) s;
          let s = debug ''max_moncnt          = %d'' (ucast max_mon) s;
          if max_mon = DEFAULT_MONCNT then val_set_status pe_index (RESULT_SKIP (TEST_M 3) 0) s
          else do {
            (T, s) \<leftarrow> alloc_tables hw junk s;
            let (saved, s) = val_sysreg_read hw MPAM2_SYSREG s;
            ((T, _), s) \<leftarrow> over_nodes fvp hw pe_index pmg nodes nodes (0, None) (T, saved) s;
            let s = val_sysreg_write MPAM2_SYSREG saved s;
            (w, s) \<leftarrow> disturbed_node hw T nodes s;
            csu_result hw (TEST_M 3) pe_index T w s } }"

subsection \<open>The machine the tests run on\<close>

text \<open>The identification registers of a cache always read the same.\<close>

definition id_reg :: "hw \<Rightarrow> mpam_info \<Rightarrow> nat \<Rightarrow> u64 \<Rightarrow> history \<Rightarrow> u32" where
  "id_reg hw m i r h = mmio_in hw h (mmio_addr (cn_hwreg_base (cache_node m ! i) + r))"

definition ids_fixed :: "hw \<Rightarrow> mpam_info \<Rightarrow> bool" where
  "ids_fixed hw m \<longleftrightarrow> (\<forall>i<length (cache_node m). \<forall>h.
     id_reg hw m i REG_MPAMF_IDR h = id_reg hw m i REG_MPAMF_IDR [] \<and>
     id_reg hw m i REG_MPAMF_MSMON_IDR h = id_reg hw m i REG_MPAMF_MSMON_IDR [] \<and>
     id_reg hw m i REG_MPAMF_CSUMON_IDR h = id_reg hw m i REG_MPAMF_CSUMON_IDR [])"

definition csu_bit :: "hw \<Rightarrow> mpam_info \<Rightarrow> nat \<Rightarrow> bool" where
  "csu_bit hw m i \<longleftrightarrow>
     (ucast (field (id_reg hw m i REG_MPAMF_IDR []) IDR_HAS_MSMON_SHIFT IDR_HAS_MSMON_MASK) :: u8) \<noteq> 0 \<and>
     (ucast (field (id_reg hw m i REG_MPAMF_MSMON_IDR []) MSMON_IDR_MSMON_CSU_SHIFT MSMON_IDR_MSMON_CSU_MASK) :: u8) \<noteq> 0"

text \<open>The number of storage monitors of a cache.\<close>

definition csu_count :: "hw \<Rightarrow> mpam_info \<Rightarrow> nat \<Rightarrow> u16" where
  "csu_count hw m i =
     (if csu_bit hw m i then ucast (field (id_reg hw m i REG_MPAMF_CSUMON_IDR []) 0 CSUMON_IDR_NUM_MON_MASK) else 0)"

text \<open>The tables can be allocated, and there are no more nodes and monitors than they have room for.\<close>

definition csu_env :: "hw \<Rightarrow> world \<Rightarrow> u32 \<Rightarrow> mpam_info \<Rightarrow> bool" where
  "csu_env hw w me m \<longleftrightarrow> cache_env hw w me m \<and> ccap_narrow hw m \<and> ids_fixed hw m \<and>
     (\<forall>h. \<not> EFI_ERROR (fst (fw_in hw h ''AllocatePages'' [of_nat (MON_CNT_MAX * 8)]))) \<and>
     (\<forall>h. \<not> EFI_ERROR (fst (fw_in hw h ''AllocatePages'' [of_nat (NODE_CNT_MAX * 4)]))) \<and>
     length (cache_node m) \<le> NODE_CNT_MAX \<and> (\<forall>i<length (cache_node m). unat (csu_count hw m i) \<le> MON_CNT_MAX)"

text \<open>The state may differ from \<open>w\<close> in the monitor variable, the status words and the devices;
  MPAM2_EL2 was last written with \<open>x\<close>.\<close>

definition steady :: "world \<Rightarrow> u64 option \<Rightarrow> world \<Rightarrow> bool" where
  "steady w x s \<longleftrightarrow> same_suite w s \<and> counters s = counters w \<and> mpam2_written (io s) = x"

lemma steady_refl: "steady w (mpam2_written (io w)) w" by (simp add: steady_def)

lemma steady_calm: "steady w x s \<Longrightarrow> calm s y t \<Longrightarrow> steady w y t"
  by (auto simp: steady_def calm_def same_suite_def counters_def shared_size_def)

lemma steady_op: "calm s (mpam2_written (io s)) t \<Longrightarrow> steady w x t = steady w x s"
  by (auto simp: steady_def calm_def same_suite_def counters_def shared_size_def)

lemma calm_alloc [simp]: "calm w x (snd (val_allocate_buf hw n s)) = calm w x s"
  by (simp add: val_allocate_buf_def pal_mem_allocate_buf_def split_beta Let_def)

lemma steady_pure [simp]:
  "steady w x (val_print l msg a s) = steady w x s" "steady w x (debug msg a s) = steady w x s"
  "steady w x (val_mmio_write r d s) = steady w x s" "steady w x (snd (val_mmio_read hw r s)) = steady w x s"
  "steady w x (val_memory_ops_issue_barrier k s) = steady w x s"
  "steady w x (snd (val_sysreg_read hw q s)) = steady w x s"
  "steady w x (snd (alloc_pair hw n s)) = steady w x s" "steady w x (val_free_buf hw p n s) = steady w x s"
  "steady w x (snd (val_allocate_buf hw n s)) = steady w x s"
  "steady w x (val_mem_copy y z n s) = steady w x s" "steady w x (log_io (Barrier k) s) = steady w x s"
  by (rule steady_op, simp add: calm_refl)+

lemma steady_write [simp]: "steady w x s \<Longrightarrow> steady w (Some v) (val_sysreg_write MPAM2_SYSREG v s)"
  by (rule steady_calm [where s = s]) simp_all

lemma steady_temp [simp]: "steady w x (set_csu_temp v s) = steady w x s"
  by (simp add: steady_def same_suite_def counters_def shared_size_def set_csu_temp_def)

text \<open>What is known of the cache tests' operations, from the current state on.\<close>

lemma steady_run:
  assumes "cache_env hw w me m" "steady w x s"
  shows "(cache_env hw s me m \<Longrightarrow> calm s x s \<Longrightarrow> returns (\<lambda>(v, t). calm s x t) r) \<Longrightarrow> returns (\<lambda>(v, t). steady w x t) r"
    "(cache_env hw s me m \<Longrightarrow> calm s x s \<Longrightarrow> returns (\<lambda>(v, t). calm s x t \<and> P v) r) \<Longrightarrow> returns (\<lambda>(v, t). steady w x t \<and> P v) r"
    "(cache_env hw s me m \<Longrightarrow> calm s x s \<Longrightarrow> returns (calm s x) r') \<Longrightarrow> returns (steady w x) r'"
proof -
  have c: "cache_env hw s me m" "calm s x s"
    using cache_env_same [OF assms(1)] assms(2) by (auto simp: steady_def calm_def)
  show "(cache_env hw s me m \<Longrightarrow> calm s x s \<Longrightarrow> returns (\<lambda>(v, t). calm s x t) r) \<Longrightarrow> returns (\<lambda>(v, t). steady w x t) r"
    "(cache_env hw s me m \<Longrightarrow> calm s x s \<Longrightarrow> returns (\<lambda>(v, t). calm s x t \<and> P v) r) \<Longrightarrow> returns (\<lambda>(v, t). steady w x t \<and> P v) r"
    "(cache_env hw s me m \<Longrightarrow> calm s x s \<Longrightarrow> returns (calm s x) r') \<Longrightarrow> returns (steady w x) r'"
    using c steady_calm [OF assms(2)] by (auto simp: returns_def)
qed

lemma node_read_calm:
  assumes "cache_env hw w me m" "calm w x s" "unat i < length (cache_node m)"
  shows "returns (\<lambda>(v, t). calm w x t \<and> (\<exists>h. v = id_reg hw m (unat i) r h)) (node_read hw MPAM_NODE_CACHE i r s)"
  unfolding node_read_def
  by (rule returns_seq_pair [OF hwreg_base_calm [OF assms]]) (auto simp: split_beta id_reg_def)

lemma csumon_calm:
  assumes "cache_env hw w me m" "ids_fixed hw m" "calm w x s" "unat i < length (cache_node m)"
  shows "returns (\<lambda>(b, t). calm w x t \<and> (b \<noteq> 0) = csu_bit hw m (unat i)) (val_cache_supports_csumon hw i s)"
    "returns (\<lambda>(k, t). calm w x t \<and> k = csu_count hw m (unat i)) (val_csumon_monitor_count hw i s)"
    "returns (\<lambda>(v, t). calm w x t) (val_node_get_pmg hw MPAM_NODE_CACHE i s)"
proof -
  obtain a b c where ids: "id_reg hw m (unat i) REG_MPAMF_IDR h = a" "id_reg hw m (unat i) REG_MPAMF_MSMON_IDR h = b"
    "id_reg hw m (unat i) REG_MPAMF_CSUMON_IDR h = c" for h
    using assms(2,4) unfolding ids_fixed_def by blast
  let ?mon = "ucast (field a IDR_HAS_MSMON_SHIFT IDR_HAS_MSMON_MASK) :: u8"
  have mon: "returns (\<lambda>(b, t). calm w x t \<and> b = ?mon) (val_node_supports_mon hw MPAM_NODE_CACHE i u)" if "calm w x u" for u
    unfolding val_node_supports_mon_def
    by (rule returns_seq_pair [OF node_read_calm [OF assms(1) that assms(4)]]) (auto simp: ids)
  have csu: "returns (\<lambda>(b, t). calm w x t \<and> (b \<noteq> 0) = csu_bit hw m (unat i)) (val_cache_supports_csumon hw i u)"
    if "calm w x u" for u
    unfolding val_cache_supports_csumon_def read_if_def
    by (simp, rule returns_seq [OF hwreg_base_calm [OF assms(1) that assms(4)]], clarsimp,
        rule returns_seq [OF mon], assumption)
       (auto simp: split_beta Let_def csu_bit_def ids ids(2) [unfolded id_reg_def])
  show "returns (\<lambda>(b, t). calm w x t \<and> (b \<noteq> 0) = csu_bit hw m (unat i)) (val_cache_supports_csumon hw i s)"
    by (rule csu [OF assms(3)])
  show "returns (\<lambda>(k, t). calm w x t \<and> k = csu_count hw m (unat i)) (val_csumon_monitor_count hw i s)"
    unfolding val_csumon_monitor_count_def read_if_def
    by (simp, rule returns_seq [OF hwreg_base_calm [OF assms(1,3,4)]], clarsimp,
        rule returns_seq [OF csu], assumption)
       (auto simp: split_beta Let_def csu_count_def ids ids(3) [unfolded id_reg_def])
  show "returns (\<lambda>(v, t). calm w x t) (val_node_get_pmg hw MPAM_NODE_CACHE i s)"
    unfolding val_node_get_pmg_def by (rule returns_seq_pair [OF node_read_calm [OF assms(1,3,4)]]) simp
qed

lemma monitor_ops_steady:
  assumes "cache_env hw w me m" "steady w x s" "unat i < length (cache_node m)"
  shows "returns (\<lambda>(v, t). steady w x t) (val_csumon_storage_value hw i k s)"
    "returns (steady w x) (val_csumon_config_monitor hw i p g k s)"
    "returns (steady w x) (val_csumon_reset_monitor hw i k s)"
    "returns (steady w x) (val_csumon_restore_ctlreg hw i k s)"
proof -
  have b: "returns (\<lambda>(v, t). steady w x t) (val_node_hwreg_base hw MPAM_NODE_CACHE i s)"
    by (rule steady_run(1) [OF assms(1,2)], rule returns_mono [OF hwreg_base_calm [OF _ _ assms(3)]]) auto
  show "returns (\<lambda>(v, t). steady w x t) (val_csumon_storage_value hw i k s)"
    unfolding val_csumon_storage_value_def by (rule returns_seq_pair [OF b]) (simp add: Let_def split_beta)
  show "returns (steady w x) (val_csumon_config_monitor hw i p g k s)"
    unfolding val_csumon_config_monitor_def by (rule returns_seq_pair [OF b]) (simp add: Let_def split_beta)
  show "returns (steady w x) (val_csumon_reset_monitor hw i k s)"
    unfolding val_csumon_reset_monitor_def by (rule returns_seq_pair [OF b]) (simp add: Let_def split_beta)
  show "returns (steady w x) (val_csumon_restore_ctlreg hw i k s)"
    unfolding val_csumon_restore_ctlreg_def by (rule returns_seq_pair [OF b]) (simp add: Let_def split_beta)
qed

lemma set_status_steady:
  assumes "cache_env hw w me m" "steady w x s"
  shows "returns (\<lambda>t. steady w x t \<and> status_word me t = v) (val_set_status me v s)"
proof -
  have "unat me < shared_size s" using assms by (simp add: cache_env_def steady_def same_suite_def)
  then obtain t where t: "val_set_status me v s = Some t" using val_set_status_defined by blast
  show ?thesis
    using val_set_status_run [OF t] assms(2) by (simp add: t steady_def same_suite_def counters_def)
qed

lemma csumon_steady:
  assumes "cache_env hw w me m" "ids_fixed hw m" "steady w x s" "unat i < length (cache_node m)"
  shows "returns (\<lambda>(b, t). steady w x t \<and> b = csu_bit hw m (unat i)) (has val_cache_supports_csumon hw i s)"
    "returns (\<lambda>(k, t). steady w x t \<and> k = csu_count hw m (unat i)) (val_csumon_monitor_count hw i s)"
    "returns (\<lambda>(v, t). steady w x t) (val_node_get_pmg hw MPAM_NODE_CACHE i s)"
    "returns (\<lambda>(v, t). steady w x t) (val_cache_get_size hw i s)"
    "returns (\<lambda>(v, t). steady w x t) (val_node_get_partid hw MPAM_NODE_CACHE i s)"
proof -
  note r = steady_run [OF assms(1,3)]
  have "returns (\<lambda>(b, t). steady w x t \<and> (b \<noteq> 0) = csu_bit hw m (unat i)) (val_cache_supports_csumon hw i s)"
    by (rule r(2)) (rule csumon_calm(1) [OF _ assms(2) _ assms(4)])
  then show "returns (\<lambda>(b, t). steady w x t \<and> b = csu_bit hw m (unat i)) (has val_cache_supports_csumon hw i s)"
    unfolding has_def by (rule returns_seq_pair) auto
  show "returns (\<lambda>(k, t). steady w x t \<and> k = csu_count hw m (unat i)) (val_csumon_monitor_count hw i s)"
    by (rule r(2)) (rule csumon_calm(2) [OF _ assms(2) _ assms(4)])
  show "returns (\<lambda>(v, t). steady w x t) (val_node_get_pmg hw MPAM_NODE_CACHE i s)"
    by (rule r(1)) (rule csumon_calm(3) [OF _ assms(2) _ assms(4)])
  show "returns (\<lambda>(v, t). steady w x t) (val_cache_get_size hw i s)"
    "returns (\<lambda>(v, t). steady w x t) (val_node_get_partid hw MPAM_NODE_CACHE i s)"
    by (rule r(1), rule cache_queries_calm [OF _ _ assms(4)], assumption+)+
qed

text \<open>A feature that can be asked for, and a programming that can be made, from every such state.\<close>

definition steady_feature :: "world \<Rightarrow> mpam_info \<Rightarrow> feature \<Rightarrow> bool" where
  "steady_feature w m f \<longleftrightarrow> (\<forall>i x s. unat i < length (cache_node m) \<longrightarrow> steady w x s \<longrightarrow>
     returns (\<lambda>(b, t). steady w x t) (f i s))"

definition steady_conf :: "world \<Rightarrow> mpam_info \<Rightarrow> (u32 \<Rightarrow> world \<Rightarrow> world option) \<Rightarrow> bool" where
  "steady_conf w m f \<longleftrightarrow> (\<forall>i x s. unat i < length (cache_node m) \<longrightarrow> steady w x s \<longrightarrow> returns (steady w x) (f i s))"

lemma steady_features:
  assumes "cache_env hw w me m" "ccap_narrow hw m"
  shows "steady_feature w m (has val_cache_supports_cpor hw)" "steady_feature w m (has val_cache_supports_ccap hw)"
    "steady_conf w m (conf_c002 hw p c)" "steady_conf w m (conf_c003 hw p c)"
proof -
  note f = features_calm [unfolded calm_feature_def, rule_format]
  note c = confs_calm [OF _ assms(2), unfolded calm_conf_def, rule_format]
  show "steady_feature w m (has val_cache_supports_cpor hw)"
    unfolding steady_feature_def by (intro allI impI, rule steady_run(1) [OF assms(1)], assumption, rule f(1))
  show "steady_feature w m (has val_cache_supports_ccap hw)"
    unfolding steady_feature_def by (intro allI impI, rule steady_run(1) [OF assms(1)], assumption, rule f(2))
  show "steady_conf w m (conf_c002 hw p c)"
    unfolding steady_conf_def by (intro allI impI, rule steady_run(3) [OF assms(1)], assumption, rule c(1))
  show "steady_conf w m (conf_c003 hw p c)"
    unfolding steady_conf_def by (intro allI impI, rule steady_run(3) [OF assms(1)], assumption, rule c(2))
qed

subsection \<open>Every operation of the tests returns\<close>

lemma min_max_steady:
  assumes "\<And>t. steady w x t \<Longrightarrow> returns (\<lambda>(v, t). steady w x t \<and> P v) (q t)" "steady w x s" "P y"
  shows "returns (\<lambda>(v, t). steady w x t \<and> P v) (max_with y q s)" "returns (\<lambda>(v, t). steady w x t \<and> P v) (min_with y q s)"
  unfolding max_with_def min_with_def
  by (rule returns_seq_pair [OF assms(1)], rule assms(2), rule returns_if; simp add: assms(1,3))+

lemma min_max_any:
  assumes "\<And>t. steady w x t \<Longrightarrow> returns (\<lambda>(v, t). steady w x t) (q t)" "steady w x s"
  shows "returns (\<lambda>(v, t). steady w x t) (max_with y q s)" "returns (\<lambda>(v, t). steady w x t) (min_with y q s)"
  using min_max_steady [where P = "\<lambda>_. True", of w x q s y] assms by simp_all

lemma and_csumon_steady:
  assumes "cache_env hw w me m" "ids_fixed hw m" "steady_feature w m f" "steady w x s" "unat i < length (cache_node m)"
  shows "returns (\<lambda>(b, t). steady w x t) (and_csumon f hw i s)"
  unfolding and_csumon_def
  by (rule returns_seq_pair [OF assms(3) [unfolded steady_feature_def, rule_format, OF assms(5,4)]], rule returns_if)
     (auto intro: returns_mono [OF csumon_steady(1) [OF assms(1,2) _ assms(5)]])

abbreviation in_caches :: "mpam_info \<Rightarrow> u32 list \<Rightarrow> bool" where
  "in_caches m is' \<equiv> \<forall>i\<in>set is'. unat i < length (cache_node m)"

lemma csu_count_bound: "csu_env hw w me m \<Longrightarrow> i < length (cache_node m) \<Longrightarrow> unat (csu_count hw m i) \<le> MON_CNT_MAX"
  by (simp add: csu_env_def)

lemma scan_monitors_steady:
  assumes "csu_env hw w me m" "steady_feature w m f" "in_caches m is'" "steady w x s" "unat (max_moncnt c) \<le> MON_CNT_MAX"
  shows "returns (\<lambda>(c, t). steady w x t \<and> unat (max_moncnt c) \<le> MON_CNT_MAX) (scan_monitors hw f is' c s)"
  using assms(3-5)
proof (induction is' arbitrary: c s)
  case Nil
  then show ?case by simp
next
  case (Cons i is')
  have e: "cache_env hw w me m" "ids_fixed hw m" using assms(1) by (simp_all add: csu_env_def)
  from Cons.prems have i: "unat i < length (cache_node m)" and is': "in_caches m is'" by simp_all
  note q = csumon_steady [OF e _ i]
  have k: "returns (\<lambda>(k, t). steady w x t \<and> unat k \<le> MON_CNT_MAX) (val_csumon_monitor_count hw i t)" if "steady w x t" for t
    by (rule returns_mono [OF q(2) [OF that]]) (use csu_count_bound [OF assms(1) i] in auto)
  have "returns (\<lambda>(d, t). steady w x t \<and> unat (max_moncnt d) \<le> MON_CNT_MAX)
     (if b then do {
        (n, s) \<leftarrow> max_with (cache_maxsize c) (val_cache_get_size hw i) u;
        (g, s) \<leftarrow> min_with (minmax_pmg c) (val_node_get_pmg hw MPAM_NODE_CACHE i) s;
        (mon, s) \<leftarrow> has val_cache_supports_csumon hw i s;
        (k, s) \<leftarrow> (if mon then max_with (max_moncnt c) (val_csumon_monitor_count hw i) s else Some (max_moncnt c, s));
        Some (c\<lparr>cache_maxsize := n, feature_nodes := feature_nodes c + 1, minmax_pmg := g, max_moncnt := k\<rparr>, s) }
      else Some (c, u))" if "steady w x u" for b u
    by (rule returns_if, rule returns_seq_pair [OF min_max_any(1) [OF q(4) that]], assumption,
        rule returns_seq_pair [OF min_max_any(2) [OF q(3)]], assumption, assumption,
        rule returns_seq_pair [OF q(1)], assumption,
        rule returns_seq_pair [where P = "\<lambda>k t. steady w x t \<and> unat k \<le> MON_CNT_MAX"], rule returns_if,
        rule min_max_steady(1) [OF k])
       (use Cons.prems(3) that in auto)
  note step = this
  show ?case
    unfolding scan_monitors.simps
    by (rule returns_seq_pair [OF assms(2) [unfolded steady_feature_def, rule_format, OF i Cons.prems(2)]],
        rule returns_seq_pair [OF step], assumption,
        rule returns_seq_pair [OF min_max_any(2) [OF q(5)]], assumption)
       (auto intro: Cons.IH [OF is'])
qed

lemma config_monitors_steady:
  assumes "csu_env hw w me m" "steady_feature w m f" "in_caches m is'" "steady w x s"
  shows "returns (steady w x) (config_monitors hw f is' p g k s)"
  unfolding config_monitors_def
proof (rule returns_for_each)
  show "steady w x s" by (rule assms(4))
  fix i u
  assume i: "i \<in> set is'" and u: "steady w x u"
  have e: "cache_env hw w me m" "ids_fixed hw m" "unat i < length (cache_node m)"
    using assms(1,3) i by (simp_all add: csu_env_def)
  show "returns (steady w x) (and_csumon f hw i u \<bind> (\<lambda>(b, s). if b then val_csumon_config_monitor hw i p g k s else Some s))"
    by (rule returns_seq_pair [OF and_csumon_steady [OF e(1,2) assms(2) u e(3)]], rule returns_if)
       (auto intro: monitor_ops_steady(2) [OF e(1) _ e(3)])
qed

text \<open>A table all of whose rows are there.\<close>

definition table_ok :: "csu_table \<Rightarrow> bool" where
  "table_ok T \<longleftrightarrow> length (rows T) = MON_CNT_MAX \<and> None \<notin> set (rows T)"

lemma table_cell:
  assumes "table_ok T" "unat k < MON_CNT_MAX" "unat i < NODE_CNT_MAX"
  shows "set_cell T k i v = Some (T\<lparr>cells := (cells T)(unat k := (cells T (unat k))(unat i := v))\<rparr>)"
    "get_cell T k i = Some (cells T (unat k) (unat i))"
proof -
  have "rows T ! unat k \<in> set (rows T)" using assms(1,2) by (simp add: table_ok_def)
  then have "rows T ! unat k \<noteq> None" using assms(1) by (metis table_ok_def)
  then have "cell_ok T k i" using assms by (simp add: cell_ok_def table_ok_def)
  then show "set_cell T k i v = Some (T\<lparr>cells := (cells T)(unat k := (cells T (unat k))(unat i := v))\<rparr>)"
    "get_cell T k i = Some (cells T (unat k) (unat i))" by (simp_all add: set_cell_def get_cell_def)
qed

lemma table_ok_cells [simp]: "table_ok (T\<lparr>cells := c\<rparr>) = table_ok T"
  by (simp add: table_ok_def)

lemma granted: "\<forall>h. \<not> EFI_ERROR (fst (fw_in hw h ''AllocatePages'' [n])) \<Longrightarrow> fst (val_allocate_buf hw n s) \<noteq> None"
  by (simp add: val_allocate_buf_def pal_mem_allocate_buf_def firmware_def split_beta Let_def)

lemma alloc_rows_steady:
  assumes "\<forall>h. \<not> EFI_ERROR (fst (fw_in hw h ''AllocatePages'' [of_nat (NODE_CNT_MAX * 4)]))"
    and "steady w x s" "None \<notin> set (rows (fst T)) \<and> None \<notin> set (rows (snd T))"
  shows "returns (\<lambda>(U, t). steady w x t \<and> None \<notin> set (rows (fst U)) \<and> None \<notin> set (rows (snd U)) \<and>
     length (rows (fst U)) = length (rows (fst T)) + n \<and> length (rows (snd U)) = length (rows (snd T)) + n \<and>
     cells (fst U) = cells (fst T) \<and> cells (snd U) = cells (snd T))
    (alloc_rows hw (Some p) (Some q) n T s)"
  using assms(2,3)
proof (induction n arbitrary: T s)
  case 0
  then show ?case by simp
next
  case (Suc n)
  obtain T1 T2 where T: "T = (T1, T2)" by (cases T)
  let ?a = "val_allocate_buf hw (of_nat (NODE_CNT_MAX * 4))"
  let ?s1 = "snd (?a s)"
  let ?U = "(T1\<lparr>rows := rows T1 @ [fst (?a s)]\<rparr>, T2\<lparr>rows := rows T2 @ [fst (?a ?s1)]\<rparr>)"
  have g: "fst (?a u) \<noteq> None" for u by (rule granted [OF assms(1)])
  have "alloc_rows hw (Some p) (Some q) (Suc n) T s = alloc_rows hw (Some p) (Some q) n ?U (snd (?a ?s1))"
    by (simp add: T split_beta)
  moreover have "None \<notin> set (rows (fst ?U)) \<and> None \<notin> set (rows (snd ?U))"
    using Suc.prems(2) g [of s] g [of ?s1] by (auto simp: T)
  ultimately show ?case
    using Suc.IH [of "snd (?a ?s1)" ?U] Suc.prems(1) by (auto simp: T elim!: returns_mono)
qed

lemma alloc_tables_steady:
  assumes "csu_env hw w me m" "steady w x s"
  shows "returns (\<lambda>(U, t). steady w x t \<and> table_ok (fst U) \<and> table_ok (snd U)) (alloc_tables hw junk s)"
proof -
  let ?a = "val_allocate_buf hw (of_nat (MON_CNT_MAX * 8))"
  have "\<forall>h. \<not> EFI_ERROR (fst (fw_in hw h ''AllocatePages'' [of_nat (MON_CNT_MAX * 8)]))"
    using assms(1) unfolding csu_env_def by blast
  from granted [OF this] have "fst (?a u) \<noteq> None" for u .
  then obtain p q where p: "fst (?a s) = Some p" "fst (?a (snd (?a s))) = Some q" by blast
  have g: "\<forall>h. \<not> EFI_ERROR (fst (fw_in hw h ''AllocatePages'' [of_nat (NODE_CNT_MAX * 4)]))"
    using assms(1) unfolding csu_env_def by blast
  show ?thesis
    unfolding alloc_tables_def split_beta Let_def p
    by (rule returns_mono [OF alloc_rows_steady [OF g, where w = w and x = x]]) (use assms(2) in \<open>auto simp: table_ok_def\<close>)
qed

lemma free_rows_steady:
  "steady w x (fold (\<lambda>(r1, r2) s. val_free_buf hw r2 n (val_free_buf hw r1 n s)) ps s) = steady w x s"
proof (induction ps arbitrary: s)
  case (Cons p ps)
  then show ?case by (cases p) simp
qed simp

lemma free_tables_steady [simp]: "steady w x (free_tables hw T s) = steady w x s"
  unfolding free_tables_def by (rule free_rows_steady)

text \<open>The measurements keep the tables.\<close>

definition tables_ok :: "csu_table \<times> csu_table \<Rightarrow> bool" where
  "tables_ok T \<longleftrightarrow> table_ok (fst T) \<and> table_ok (snd T)"

lemma node_small: "csu_env hw w me m \<Longrightarrow> unat i < length (cache_node m) \<Longrightarrow> unat i < NODE_CNT_MAX"
  by (simp add: csu_env_def)

lemma read_monitors_steady:
  assumes "csu_env hw w me m" "steady_feature w m f" "unat k < MON_CNT_MAX" "in_caches m is'" "steady w x s" "table_ok T"
  shows "returns (\<lambda>(U, t). steady w x t \<and> table_ok U) (read_monitors fvp hw f sim msg is' k T s)"
  using assms(4-6)
proof (induction is' arbitrary: T s)
  case Nil
  then show ?case by simp
next
  case (Cons i is')
  have e: "cache_env hw w me m" "ids_fixed hw m" using assms(1) by (simp_all add: csu_env_def)
  from Cons.prems have i: "unat i < length (cache_node m)" and is': "in_caches m is'" by simp_all
  note c = table_cell [OF _ assms(3) node_small [OF assms(1) i]]
  have v: "returns (\<lambda>(v, t). steady w x t) (if fvp then Some (sim, u) else val_csumon_storage_value hw i k u)"
    if "steady w x u" for u
    by (rule returns_if) (simp_all add: that monitor_ops_steady(1) [OF e(1) that i])
  have step: "returns (\<lambda>(U, t). steady w x t \<and> table_ok U)
     (if b then do {
        (v, s) \<leftarrow> (if fvp then Some (sim, s) else val_csumon_storage_value hw i k s);
        T \<leftarrow> set_cell T k i v;
        let s = debug ''node_index          = 0x%lx'' (ucast i) s;
        v \<leftarrow> get_cell T k i;
        Some (T, debug msg (ucast v) s) }
      else Some (T, s))" if "steady w x s" for b s
    by (rule returns_if, rule returns_seq_pair [OF v [OF that]]) (use Cons.prems(3) that in \<open>simp_all add: c Let_def\<close>)
  show ?case
    unfolding read_monitors.simps
    by (rule returns_seq_pair [OF and_csumon_steady [OF e assms(2) Cons.prems(2) i]],
        rule returns_seq_pair [OF step], assumption) (use Cons.IH [OF is'] in blast)
qed

lemma upto_u16_less: "k \<in> set (upto_u16 n) \<Longrightarrow> unat k < unat n"
proof -
  assume "k \<in> set (upto_u16 n)"
  then obtain j where j: "j < unat n" "k = word_of_nat j" by (auto simp: upto_u16_def)
  then show "unat k < unat n" using unat_of_nat_atmost [of j n] by simp
qed

lemma over_monitors_rule:
  assumes "\<And>k a s. k \<in> set ks \<Longrightarrow> I a s \<Longrightarrow> returns (\<lambda>(b, t). I b t) (f k a s)" "I a s"
  shows "returns (\<lambda>(b, t). I b t) (over_monitors f ks a s)"
  using assms
proof (induction ks arbitrary: a s)
  case Nil
  then show ?case by simp
next
  case (Cons k ks)
  show ?case
    unfolding over_monitors.simps
    by (rule returns_seq_pair [OF Cons.prems(1)]) (use Cons in auto)
qed

text \<open>With any MPAM2_EL2.\<close>

definition steady_any :: "world \<Rightarrow> world \<Rightarrow> bool" where
  "steady_any w s \<longleftrightarrow> same_suite w s \<and> counters s = counters w"

lemma steady_iff: "steady w x s \<longleftrightarrow> steady_any w s \<and> mpam2_written (io s) = x"
  by (simp add: steady_def steady_any_def)

lemma steady_anyI: "steady w x s \<Longrightarrow> steady_any w s" by (simp add: steady_iff)

lemma steady_any_op: "calm_any s t \<Longrightarrow> steady_any w t = steady_any w s"
  by (auto simp: calm_any_def steady_any_def same_suite_def counters_def shared_size_def)

lemma calm_any_same: "(\<And>x. calm s x t = calm s x s) \<Longrightarrow> calm_any s t"
  using calm_refl [of s] by (auto simp: calm_any_ex)

lemma steady_any_pure [simp]:
  "steady_any w (val_print l msg a s) = steady_any w s" "steady_any w (debug msg a s) = steady_any w s"
  "steady_any w (val_mem_copy y z n s) = steady_any w s" "steady_any w (val_free_buf hw p n s) = steady_any w s"
  "steady_any w (snd (alloc_pair hw n s)) = steady_any w s" "steady_any w (snd (val_sysreg_read hw q s)) = steady_any w s"
  "steady_any w (val_sysreg_write MPAM2_SYSREG v s) = steady_any w s"
  "steady_any w (snd (pmg_traffic p' g v s)) = steady_any w s"
proof -
  show wr: "steady_any w (val_sysreg_write MPAM2_SYSREG v s) = steady_any w s" for v
    by (rule steady_any_op, rule calm_any_ops(6) [THEN iffD2]) (simp add: calm_any_def)
  then show "steady_any w (snd (pmg_traffic p' g v s)) = steady_any w s" by (simp add: pmg_traffic_def Let_def)
qed (rule steady_any_op, rule calm_any_same, simp)+

lemma any_run:
  "(\<And>x. steady w x s \<Longrightarrow> returns (\<lambda>(v, t). steady w x t) r) \<Longrightarrow> steady_any w s \<Longrightarrow> returns (\<lambda>(v, t). steady_any w t) r"
  "(\<And>x. steady w x s \<Longrightarrow> returns (\<lambda>(v, t). steady w x t \<and> P v) r) \<Longrightarrow> steady_any w s \<Longrightarrow> returns (\<lambda>(v, t). steady_any w t \<and> P v) r"
  "(\<And>x. steady w x s \<Longrightarrow> returns (steady w x) r') \<Longrightarrow> steady_any w s \<Longrightarrow> returns (steady_any w) r'"
  by (fastforce simp: steady_iff returns_def)+

lemma status_steady_any:
  assumes "cache_env hw w me m" "steady_any w s"
  shows "returns (\<lambda>t. steady_any w t \<and> status_word me t = v) (val_set_status me v s)"
  by (rule returns_mono [OF set_status_steady [OF assms(1)]]) (use assms(2) in \<open>auto simp: steady_iff\<close>)

lemma monitor_round_steady:
  assumes "csu_env hw w me m" "steady_feature w m f" "unat k < MON_CNT_MAX" "in_caches m is'"
    and "steady_any w s" "tables_ok (fst Tv)"
  shows "returns (\<lambda>(Uv, t). steady_any w t \<and> tables_ok (fst Uv)) (monitor_round fvp hw ct f me c is' saved k Tv s)"
proof -
  obtain T1 T2 v where T: "Tv = ((T1, T2), v)" by (metis prod.exhaust)
  have t: "table_ok T1" "table_ok T2" using assms(6) by (simp_all add: T tables_ok_def)
  have e: "cache_env hw w me m" using assms(1) by (simp add: csu_env_def)
  have st: "returns (steady_any w) (if b then val_set_status me y (val_print l msg a u) else Some u)"
    if "steady_any w u" for b y l msg a u
    by (rule returns_if, rule returns_mono [OF status_steady_any [OF e]]) (use that in auto)
  note rd = any_run(2) [OF read_monitors_steady [OF assms(1-4)]]
  show ?thesis
    unfolding monitor_round_def T prod.case Let_def split_beta fst_conv snd_conv
    by (rule returns_seq [OF any_run(3) [OF config_monitors_steady [OF assms(1,2,4)]]], assumption, rule assms(5),
        rule returns_seq [OF st], simp,
        rule returns_seq [OF rd [OF _ t(2)]], assumption, simp,
        rule returns_seq [OF rd [OF _ t(1)]], assumption)
       (auto simp: split_beta tables_ok_def)
qed

lemma wrong_at_nodes_steady:
  assumes "csu_env hw w me m" "steady_feature w m f" "unat k < MON_CNT_MAX" "in_caches m is'" "steady w x s" "tables_ok T"
  shows "returns (\<lambda>(b, t). steady w x t) (wrong_at_nodes hw f T k is' s)"
  using assms(4,5)
proof (induction is' arbitrary: s)
  case Nil
  then show ?case by simp
next
  case (Cons i is')
  have e: "cache_env hw w me m" "ids_fixed hw m" using assms(1) by (simp_all add: csu_env_def)
  from Cons.prems have i: "unat i < length (cache_node m)" and is': "in_caches m is'" by simp_all
  have t: "table_ok (fst T)" "table_ok (snd T)" using assms(6) by (simp_all add: tables_ok_def)
  note c = table_cell(2) [OF _ assms(3) node_small [OF assms(1) i]]
  show ?case
    unfolding wrong_at_nodes.simps c [OF t(1)] c [OF t(2)] bind.simps(2)
    by (rule returns_seq_pair [OF and_csumon_steady [OF e assms(2) Cons.prems(2) i]], rule returns_if, rule returns_if)
       (simp_all add: Cons.IH [OF is'])
qed

lemma wrong_monitor_rule:
  assumes "\<And>k s. k \<in> set ks \<Longrightarrow> I s \<Longrightarrow> returns (\<lambda>(b, t). I t) (f k s)" "I s"
  shows "returns (\<lambda>(b, t). I t) (wrong_monitor f ks s)"
  using assms
proof (induction ks arbitrary: s)
  case Nil
  then show ?case by simp
next
  case (Cons k ks)
  show ?case
    unfolding wrong_monitor.simps
    by (rule returns_seq_pair [OF Cons.prems(1)]) (use Cons in auto)
qed

text \<open>How a test has ended.\<close>

definition csu_ended :: "u64 \<Rightarrow> world \<Rightarrow> u32 \<Rightarrow> u32 set \<Rightarrow> world \<Rightarrow> bool" where
  "csu_ended rst w me vs t \<longleftrightarrow> same_suite w t \<and> counters t = counters w \<and> status_word me t \<in> vs \<and>
     mpam2_value rst (io t) = mpam2_value rst (io w)"

lemma csu_endedI:
  assumes "steady w x t" "status_word me t \<in> vs" "x = mpam2_written (io w) \<or> x = Some (mpam2_value rst (io w))"
  shows "csu_ended rst w me vs t"
  using assms by (auto simp: csu_ended_def steady_def mpam2_value_def)

lemma free_rows_status:
  "shared (fold (\<lambda>(r1, r2) s. val_free_buf hw r2 n (val_free_buf hw r1 n s)) ps s) = shared s"
proof (induction ps arbitrary: s)
  case (Cons p ps)
  then show ?case by (cases p) (simp add: val_free_buf_def pal_mem_free_buf_def)
qed simp

lemma free_tables_status [simp]: "status_word me (free_tables hw T s) = status_word me s"
  by (simp add: status_word_def free_tables_def free_rows_status)

lemma csu_result_ended:
  assumes "cache_env hw w me m" "steady w (Some (mpam2_value rst (io w))) s"
    and "RESULT_PASS n 1 \<in> vs" "\<not> wrong \<or> RESULT_FAIL n 1 \<in> vs"
  shows "returns (csu_ended rst w me vs) (csu_result hw n me T wrong s)"
  unfolding csu_result_def
proof (rule returns_if)
  assume wrong
  then show "returns (csu_ended rst w me vs) (val_set_status me (RESULT_FAIL n 1) s \<bind> (\<lambda>s. Some (free_tables hw T s)))"
    using assms(4)
    by (intro returns_seq [OF set_status_steady [OF assms(1,2)]])
       (auto intro!: csu_endedI [where x = "Some (mpam2_value rst (io w))"])
next
  show "returns (csu_ended rst w me vs) (val_set_status me (RESULT_PASS n 1) (free_tables hw T s))"
    by (rule returns_mono [OF set_status_steady [OF assms(1), of "Some (mpam2_value rst (io w))"]])
       (use assms(2,3) in \<open>auto intro!: csu_endedI [where x = "Some (mpam2_value rst (io w))"]\<close>)
qed

lemma saved_value:
  assumes "holds_mpam2 hw rst" "steady w (mpam2_written (io w)) s"
  shows "fst (val_sysreg_read hw MPAM2_SYSREG s) = mpam2_value rst (io w)"
  using assms by (simp add: val_sysreg_read_def read_sysreg_def holds_mpam2_def steady_def mpam2_value_def)

lemma index_total_steady:
  assumes "cache_env hw w me m" "steady w x s"
  shows "returns (\<lambda>(i, t). steady w x t \<and> i = me) (my_index hw s)"
    "returns (\<lambda>(k, t). steady w x t \<and> k = num_cache_nodes m) (val_node_get_total hw MPAM_NODE_CACHE s)"
  by (rule steady_run(2) [OF assms], rule returns_mono [OF my_index_calm], assumption+, auto)
     (rule steady_run(2) [OF assms], rule returns_mono [OF total_calm], assumption+, auto)

lemma steady_write_any: "steady_any w s \<Longrightarrow> steady w (Some v) (val_sysreg_write MPAM2_SYSREG v s)"
  using steady_write [of w "mpam2_written (io s)" s v] by (simp add: steady_iff)

lemma pmg_payload_ended:
  assumes "csu_env hw w me m" "holds_mpam2 hw rst" "steady_feature w m f" "\<And>p q. steady_conf w m (conf p q)"
    and "{RESULT_SKIP (ct_num ct) 0, RESULT_PASS (ct_num ct) 1, RESULT_FAIL (ct_num ct) 1} \<subseteq> vs"
  shows "returns (csu_ended rst w me vs) (pmg_payload fvp junk hw ct f conf w)"
proof -
  have e: "cache_env hw w me m" using assms(1) by (simp add: csu_env_def)
  have up: "in_caches m (upto_u32 (num_cache_nodes m))" by (rule nodes_known [OF e])
  let ?x = "mpam2_written (io w)" and ?n = "upto_u32 (num_cache_nodes m)"
  have cf: "returns (steady w ?x) (for_each (conf p q) ?n s)" if "steady w ?x s" for p q s
    by (rule returns_for_each) (use that up assms(4) in \<open>auto simp: steady_conf_def\<close>)
  have skip: "returns (csu_ended rst w me vs) (val_set_status me (RESULT_SKIP (ct_num ct) 0) s)" if "steady w ?x s" for s
    by (rule returns_mono [OF set_status_steady [OF e that]]) (use assms(5) in \<open>auto intro: csu_endedI\<close>)
  have rounds: "returns (\<lambda>(Uv, t). steady_any w t \<and> tables_ok (fst Uv))
      (over_monitors (monitor_round fvp hw ct f me c ?n saved) (upto_u16 (max_moncnt c)) Tv s)"
    if "unat (max_moncnt c) \<le> MON_CNT_MAX" "steady_any w s" "tables_ok (fst Tv)" for c saved Tv s
    by (rule over_monitors_rule [where I = "\<lambda>Uv t. steady_any w t \<and> tables_ok (fst Uv)"],
        rule monitor_round_steady [OF assms(1,3) _ up])
       (use that upto_u16_less in \<open>fastforce+\<close>)
  have rest: "returns (csu_ended rst w me vs)
      (do { (w, s) \<leftarrow> wrong_monitor (\<lambda>k. wrong_at_nodes hw f T k ?n) (upto_u16 (max_moncnt c))
              (val_sysreg_write MPAM2_SYSREG (mpam2_value rst (io w)) s);
            csu_result hw (ct_num ct) me T w s })"
    if "unat (max_moncnt c) \<le> MON_CNT_MAX" "steady_any w s" "tables_ok T" for c T s
  proof (rule returns_seq_pair [OF wrong_monitor_rule [where I = "steady w (Some (mpam2_value rst (io w)))"]])
    show "steady w (Some (mpam2_value rst (io w))) (val_sysreg_write MPAM2_SYSREG (mpam2_value rst (io w)) s)"
      by (rule steady_write_any [OF that(2)])
    show "returns (\<lambda>(b, t). steady w (Some (mpam2_value rst (io w))) t) (wrong_at_nodes hw f T k ?n u)"
      if "k \<in> set (upto_u16 (max_moncnt c))" "steady w (Some (mpam2_value rst (io w))) u" for k u
    proof (rule wrong_at_nodes_steady [OF assms(1,3) _ up that(2)])
      show "unat k < MON_CNT_MAX" using upto_u16_less [OF that(1)] \<open>unat (max_moncnt c) \<le> MON_CNT_MAX\<close> by linarith
      show "tables_ok T" by fact
    qed
    show "returns (csu_ended rst w me vs) (csu_result hw (ct_num ct) me T v u)"
      if "steady w (Some (mpam2_value rst (io w))) u" for v u
      by (rule csu_result_ended [OF e that]) (use assms(5) in auto)
  qed
  have tail: "returns (csu_ended rst w me vs)
      (case val_sysreg_read hw MPAM2_SYSREG s of (saved, s) \<Rightarrow>
         do { ((T, _), s) \<leftarrow> over_monitors (monitor_round fvp hw ct f me c ?n saved) (upto_u16 (max_moncnt c)) (T, saved) s;
              (w, s) \<leftarrow> wrong_monitor (\<lambda>m. wrong_at_nodes hw f T m ?n) (upto_u16 (max_moncnt c))
                          (val_sysreg_write MPAM2_SYSREG saved s);
              csu_result hw (ct_num ct) me T w s })"
    if "unat (max_moncnt c) \<le> MON_CNT_MAX" "steady w ?x s" "table_ok (fst T) \<and> table_ok (snd T)" for c T s
    unfolding split_beta saved_value [OF assms(2) that(2)]
    by (rule returns_seq [OF rounds [unfolded split_beta, OF that(1)]])
       (use that in \<open>auto simp: steady_iff tables_ok_def intro!: rest [unfolded split_beta]\<close>)
  show ?thesis
    unfolding pmg_payload_def Let_def
    by (rule returns_seq_pair [OF index_total_steady(1) [OF e steady_refl]], elim conjE, hypsubst,
        rule returns_seq_pair [OF index_total_steady(2) [OF e]], assumption, elim conjE, hypsubst,
        rule returns_seq_pair [OF scan_monitors_steady [OF assms(1,3) up]], assumption, simp add: DEFAULT_MONCNT_def,
        rule returns_if, rule skip, simp,
        rule returns_seq [OF cf], simp,
        rule returns_seq_pair [OF alloc_tables_steady [OF assms(1)]], assumption,
        rule tail) simp_all
qed

subsection \<open>Test 3 never finds a difference\<close>

lemma max_with_value:
  assumes "\<And>t. steady w x t \<Longrightarrow> returns (\<lambda>(k, t). steady w x t \<and> k = v) (q t)" "steady w x s"
  shows "returns (\<lambda>(k, t). steady w x t \<and> k = max y v) (max_with y q s)"
  unfolding max_with_def
  by (rule returns_seq_pair [OF assms(1) [OF assms(2)]], rule returns_if)
     (auto simp: max_def not_less intro!: returns_mono [OF assms(1)])

lemma csu_count_none: "\<not> csu_bit hw m i \<Longrightarrow> csu_count hw m i = 0" by (simp add: csu_count_def)

lemma scan_all_steady:
  assumes "cache_env hw w me m" "ids_fixed hw m" "in_caches m is'" "steady w x s"
  shows "returns (\<lambda>((g', k'), t). steady w x t \<and> k' = fold (\<lambda>i k. max k (csu_count hw m (unat i))) is' k)
    (scan_all_monitors hw is' (g, k) s)"
  using assms(3,4)
proof (induction is' arbitrary: g k s)
  case Nil
  then show ?case by simp
next
  case (Cons i is')
  from Cons.prems have i: "unat i < length (cache_node m)" and is': "in_caches m is'" by simp_all
  note q = csumon_steady [OF assms(1,2) _ i]
  have k: "returns (\<lambda>(k', t). steady w x t \<and> k' = max k (csu_count hw m (unat i)))
     (if b then max_with k (val_csumon_monitor_count hw i) u else Some (k, u))"
    if "steady w x u \<and> b = csu_bit hw m (unat i)" for b u
    by (rule returns_if, rule max_with_value [OF q(2)])
       (use that csu_count_none [of hw m "unat i"] in auto)
  show ?case
    unfolding scan_all_monitors.simps fold.simps comp_apply
    by (rule returns_seq_pair [OF min_max_any(2) [OF q(3)]], assumption, rule Cons.prems(2),
        rule returns_seq_pair [OF q(1)], assumption,
        rule returns_seq_pair [OF k], assumption, elim conjE, hypsubst)
       (rule Cons.IH [OF is'])
qed

lemma node_monitors_steady:
  assumes "cache_env hw w me m" "ids_fixed hw m" "steady w x s" "unat i < length (cache_node m)"
  shows "returns (\<lambda>(k, t). steady w x t \<and> k = csu_count hw m (unat i)) (node_monitors hw i s)"
  unfolding node_monitors_def
  by (rule returns_seq_pair [OF csumon_steady(1) [OF assms]], rule returns_if,
      rule returns_mono [OF csumon_steady(2) [OF assms(1,2) _ assms(4)]])
     (auto simp: csu_count_none)

lemma config_for_node_steady:
  assumes "csu_env hw w me m" "in_caches m is'" "steady w x s" "unat node < length (cache_node m)"
  shows "returns (\<lambda>(r', t). steady w x t \<and> snd r' = (if node \<in> set is' then Some (csu_count hw m (unat node)) else snd r))
    (config_for_node hw node is' r s)"
  using assms(2,3)
proof (induction is' arbitrary: r s)
  case Nil
  then show ?case by simp
next
  case (Cons i is')
  have e: "cache_env hw w me m" "ids_fixed hw m" "ccap_narrow hw m" using assms(1) by (simp_all add: csu_env_def)
  from Cons.prems have i: "unat i < length (cache_node m)" and is': "in_caches m is'" by simp_all
  have c: "returns (steady w x) (if_has val_cache_supports_cpor hw j (val_cache_configure_cpor hw j p q) u)"
    "returns (steady w x) (if_has val_cache_supports_ccap hw j (val_cache_configure_ccap hw j p h q) u)"
    if "unat j < length (cache_node m)" "steady w x u" for j p h q u
    by (rule steady_run(3) [OF e(1) that(2)], rule if_has_calm [OF features_calm(1)], assumption, rule that(1), assumption,
        rule configure_calm(1) [OF _ _ that(1)], assumption+)
       (rule steady_run(3) [OF e(1) that(2)], rule if_has_calm [OF features_calm(2)], assumption, rule that(1), assumption,
        rule configure_calm(2) [OF _ _ that(1) e(3)], assumption+)
  show ?case
    unfolding config_for_node.simps
    by (rule returns_if,
        rule returns_seq [OF c(1) [OF i Cons.prems(2)]], rule returns_seq [OF c(2) [OF i]], assumption,
        rule returns_mono [OF Cons.IH [OF is']], assumption, fastforce,
        rule returns_seq [OF c(1) [OF assms(4) Cons.prems(2)]], rule returns_seq [OF c(2) [OF assms(4)]], assumption,
        rule returns_seq_pair [OF csumon_steady(4) [OF e(1,2) _ assms(4)]], assumption,
        rule returns_seq_pair [OF node_monitors_steady [OF e(1,2) _ assms(4)]], assumption,
        rule returns_mono [OF Cons.IH [OF is']])
       auto
qed

text \<open>A cell that is 0 stays 0, because the smaller of it and the monitor is kept.\<close>

lemma keep_min_zero:
  assumes "csu_env hw w me m" "unat i < length (cache_node m)" "unat k < MON_CNT_MAX" "steady_any w s" "table_ok T"
  shows "returns (\<lambda>(U, t). steady_any w t \<and> table_ok U \<and>
     (cells T (unat k) (unat i) = 0 \<longrightarrow> cells U = cells T)) (keep_min fvp hw i k T s)"
proof -
  have e: "cache_env hw w me m" using assms(1) by (simp add: csu_env_def)
  note c = table_cell [OF assms(5,3) node_small [OF assms(1,2)]]
  have v: "returns (\<lambda>(v, t). steady_any w t) (val_csumon_storage_value hw i k u)" if "steady_any w u" for u
    by (rule any_run(1) [OF monitor_ops_steady(1) [OF e _ assms(2)] that])
  have mw: "returns (\<lambda>(v, t). steady_any w t \<and> (y = 0 \<longrightarrow> v = 0)) (min_with y (val_csumon_storage_value hw i k) s)" for y
    unfolding min_with_def
    by (rule returns_seq_pair [OF v [OF assms(4)]], rule returns_if, rule returns_mono [OF v]) auto
  show ?thesis
    unfolding keep_min_def c bind.simps(2)
    by (rule returns_if, use assms(4,5) in \<open>auto simp: fun_upd_idem\<close>, rule returns_seq_pair [OF mw])
       (use assms(5) in \<open>auto simp: fun_upd_idem\<close>)
qed

lemma first_measurements_zero:
  assumes "csu_env hw w me m" "unat i < length (cache_node m)" "unat k < MON_CNT_MAX"
    and "steady_any w s" "table_ok T" "cells T (unat k) (unat i) = 0"
  shows "returns (\<lambda>(U, t). steady_any w t \<and> table_ok U \<and> cells U = cells T)
    (first_measurements fvp hw me i k buf_size n T s)"
  using assms(4-6)
proof (induction n arbitrary: T s)
  case 0
  then show ?case by simp
next
  case (Suc n)
  have e: "cache_env hw w me m" using assms(1) by (simp add: csu_env_def)
  note ops = monitor_ops_steady(3,4) [OF e _ assms(2)]
  have failed: "returns (steady_any w)
      (if b then do { s \<leftarrow> val_csumon_restore_ctlreg hw i k s; val_set_status me y (val_print l msg a s) } else Some s)"
    if "steady_any w s" for b y l msg a s
    by (rule returns_if, rule returns_seq [OF any_run(3) [OF ops(2)]], assumption, rule that,
        rule returns_mono [OF status_steady_any [OF e]]) (use that in auto)
  note km = keep_min_zero [OF assms(1-3)]
  show ?case
    unfolding first_measurements.simps Let_def split_beta
    by (rule returns_seq [OF failed], simp add: Suc.prems(1),
        rule returns_seq [OF any_run(3) [OF ops(1)]], assumption, assumption,
        rule returns_seq [OF km [OF _ Suc.prems(2)]], simp)
       (use Suc.prems(3) in \<open>auto intro!: returns_mono [OF Suc.IH]\<close>)
qed

lemma second_measurement_steady:
  assumes "csu_env hw w me m" "unat i < length (cache_node m)" "unat k < MON_CNT_MAX" "steady_any w s" "table_ok T"
  shows "returns (\<lambda>(U, t). steady_any w t \<and> table_ok U) (second_measurement fvp hw g i k n T s)"
proof -
  have e: "cache_env hw w me m" using assms(1) by (simp add: csu_env_def)
  note c = table_cell [OF _ assms(3) node_small [OF assms(1,2)]]
  note ops = monitor_ops_steady [OF e _ assms(2)]
  note km = keep_min_zero [OF assms(1-3)]
  show ?thesis
    unfolding second_measurement_def c(1) [OF assms(5)] bind.simps(2) Let_def split_beta
    by (rule returns_seq [OF any_run(3) [OF ops(3)]], assumption, simp add: assms(4),
        rule returns_seq [OF any_run(3) [OF ops(4)]], assumption, simp,
        rule returns_seq [OF any_run(3) [OF ops(2)]], assumption, assumption,
        rule returns_seq [OF km], simp, simp add: assms(5),
        rule returns_seq [OF any_run(3) [OF ops(4)]], assumption)
       (auto simp: c(2))
qed

text \<open>Measuring a monitor leaves 0 in its cell of the first table, and that table is otherwise as it was.\<close>

definition zeroed :: "nat set \<Rightarrow> nat \<Rightarrow> csu_table \<Rightarrow> csu_table \<Rightarrow> bool" where
  "zeroed K j T U \<longleftrightarrow> (\<forall>k i. cells U k i = (if k \<in> K \<and> i = j then 0 else cells T k i))"

lemma measure_monitor_zeroed:
  assumes "csu_env hw w me m" "unat i < length (cache_node m)" "unat k < MON_CNT_MAX" "steady_any w s" "tables_ok (fst Tv)"
  shows "returns (\<lambda>(Uv, t). steady_any w t \<and> tables_ok (fst Uv) \<and> zeroed {unat k} (unat i) (fst (fst Tv)) (fst (fst Uv)))
    (measure_monitor fvp hw me g i n k Tv s)"
proof -
  obtain T1 T2 v where T: "Tv = ((T1, T2), v)" by (metis prod.exhaust)
  have t: "table_ok T1" "table_ok T2" using assms(5) by (simp_all add: T tables_ok_def)
  have e: "cache_env hw w me m" using assms(1) by (simp add: csu_env_def)
  note c = table_cell [OF _ assms(3) node_small [OF assms(1,2)]]
  let ?T = "T1\<lparr>cells := (cells T1)(unat k := (cells T1 (unat k))(unat i := 0))\<rparr>"
  show ?thesis
    unfolding measure_monitor_def T prod.case Let_def split_beta fst_conv snd_conv c(1) [OF t(1)] bind.simps(2)
    by (rule returns_seq [OF any_run(3) [OF monitor_ops_steady(2) [OF e _ assms(2)]]], assumption, rule assms(4),
        rule returns_seq [OF first_measurements_zero [OF assms(1-3), where T = ?T]], simp, simp add: t(1), simp,
        simp add: split_beta c(2),
        rule returns_seq [OF second_measurement_steady [OF assms(1-3) _ t(2)]], simp)
       (auto simp: tables_ok_def zeroed_def)
qed

lemma over_monitors_zeroed:
  assumes "csu_env hw w me m" "unat i < length (cache_node m)" "\<forall>k\<in>set ks. unat k < MON_CNT_MAX"
    and "steady_any w s" "tables_ok (fst Tv)"
  shows "returns (\<lambda>(Uv, t). steady_any w t \<and> tables_ok (fst Uv) \<and> zeroed (unat ` set ks) (unat i) (fst (fst Tv)) (fst (fst Uv)))
    (over_monitors (measure_monitor fvp hw me g i n) ks Tv s)"
  using assms(3-5)
proof (induction ks arbitrary: Tv s)
  case Nil
  then show ?case by (simp add: zeroed_def)
next
  case (Cons k ks)
  from Cons.prems have k: "unat k < MON_CNT_MAX" and ks: "\<forall>k\<in>set ks. unat k < MON_CNT_MAX" by simp_all
  show ?case
    unfolding over_monitors.simps
    by (rule returns_seq_pair [OF measure_monitor_zeroed [OF assms(1,2) k Cons.prems(2,3)]], elim conjE,
        rule returns_mono [OF Cons.IH [OF ks]], assumption, assumption)
       (auto simp: zeroed_def)
qed

lemma upto_u16_all: "j < unat n \<Longrightarrow> j \<in> unat ` set (upto_u16 n)"
  using unat_of_nat_atmost [of j n] by (force simp: upto_u16_def image_iff intro!: bexI [of _ j])

definition zero_at :: "hw \<Rightarrow> mpam_info \<Rightarrow> csu_table \<Rightarrow> u32 \<Rightarrow> bool" where
  "zero_at hw m T i \<longleftrightarrow> (\<forall>k<unat (csu_count hw m (unat i)). cells T k (unat i) = 0)"

lemma zeroed_keeps: "zeroed K j T U \<Longrightarrow> zero_at hw m T i \<Longrightarrow> zero_at hw m U i"
  by (simp add: zeroed_def zero_at_def)

lemma zeroed_makes: "zeroed (unat ` set (upto_u16 (csu_count hw m (unat i)))) (unat i) T U \<Longrightarrow> zero_at hw m U i"
  using upto_u16_all by (simp add: zeroed_def zero_at_def)

lemma over_nodes_zero:
  assumes "csu_env hw w me m" "in_caches m nodes" "set is' \<subseteq> set nodes" "steady_any w s" "tables_ok (fst Tv)"
    and "\<forall>i\<in>Z. zero_at hw m (fst (fst Tv)) i"
  shows "returns (\<lambda>(Uv, t). steady_any w t \<and> tables_ok (fst Uv) \<and> (\<forall>i\<in>Z \<union> set is'. zero_at hw m (fst (fst Uv)) i))
    (over_nodes fvp hw me g nodes is' r Tv s)"
  using assms(3-6)
proof (induction is' arbitrary: r Tv s Z)
  case Nil
  then show ?case by simp
next
  case (Cons i is')
  from Cons.prems have i: "i \<in> set nodes" "unat i < length (cache_node m)" and is': "set is' \<subseteq> set nodes"
    using assms(2) by auto
  have conf: "returns (\<lambda>(r', t). steady_any w t \<and> snd r' = Some (csu_count hw m (unat i))) (config_for_node hw i nodes r s)"
    using config_for_node_steady [OF assms(1,2) _ i(2), of "mpam2_written (io s)" s r] Cons.prems(2) i(1)
    by (auto simp: steady_iff elim: returns_mono)
  have small: "\<forall>k\<in>set (upto_u16 (csu_count hw m (unat i))). unat k < MON_CNT_MAX"
    using csu_count_bound [OF assms(1) i(2)] upto_u16_less by fastforce
  show ?case
    unfolding over_nodes.simps
    by (rule returns_seq_pair [OF conf], elim conjE, simp only: bind.simps(2),
        rule returns_seq_pair [OF over_monitors_zeroed [OF assms(1) i(2) small _ Cons.prems(3)]], assumption, elim conjE,
        rule returns_mono [OF Cons.IH [OF is', where Z = "insert i Z"]], assumption, assumption)
       (use Cons.prems(4) zeroed_keeps zeroed_makes in \<open>blast | fastforce\<close>)+
qed

text \<open>So the comparison, which asks whether the first count is the larger, never says yes.\<close>

lemma wrong_monitor_never:
  assumes "\<And>k. k \<in> set ks \<Longrightarrow> f k s = Some (False, s)"
  shows "wrong_monitor f ks s = Some (False, s)"
  using assms by (induction ks) simp_all

lemma disturbed_never:
  assumes "csu_env hw w me m" "unat i < length (cache_node m)" "tables_ok T" "zero_at hw m (fst T) i"
  shows "wrong_monitor (disturbed T i) (upto_u16 (csu_count hw m (unat i))) s = Some (False, s)"
proof (rule wrong_monitor_never)
  fix k
  assume k: "k \<in> set (upto_u16 (csu_count hw m (unat i)))"
  have t: "table_ok (fst T)" "table_ok (snd T)" using assms(3) by (simp_all add: tables_ok_def)
  have "unat k < MON_CNT_MAX" using csu_count_bound [OF assms(1,2)] upto_u16_less [OF k] by linarith
  note c = table_cell(2) [OF _ this node_small [OF assms(1,2)]]
  show "disturbed T i k s = Some (False, s)"
    using assms(4) upto_u16_less [OF k] by (simp add: disturbed_def c [OF t(1)] c [OF t(2)] zero_at_def)
qed

lemma disturbed_node_never:
  assumes "csu_env hw w me m" "tables_ok T" "in_caches m is'" "\<forall>i\<in>set is'. zero_at hw m (fst T) i" "steady w x s"
  shows "returns (\<lambda>(b, t). steady w x t \<and> \<not> b) (disturbed_node hw T is' s)"
  using assms(3-5)
proof (induction is' arbitrary: s)
  case Nil
  then show ?case by simp
next
  case (Cons i is')
  have e: "cache_env hw w me m" "ids_fixed hw m" using assms(1) by (simp_all add: csu_env_def)
  from Cons.prems have i: "unat i < length (cache_node m)" "zero_at hw m (fst T) i" by simp_all
  show ?case
    unfolding disturbed_node.simps
    by (rule returns_seq_pair [OF node_monitors_steady [OF e Cons.prems(3) i(1)]])
       (use Cons.prems Cons.IH in \<open>simp add: disturbed_never [OF assms(1) i(1) assms(2) i(2)]\<close>)
qed


lemma some_monitors:
  assumes "cache_env hw w me m"
  shows "fold (\<lambda>i k. max k (csu_count hw m (unat i))) (upto_u32 (num_cache_nodes m)) 0 = 0 \<longleftrightarrow>
    (\<forall>i<length (cache_node m). csu_count hw m i = 0)"
proof -
  have none: "fold (\<lambda>i k. max k (csu_count hw m (unat i))) is' k = 0 \<longleftrightarrow>
      k = 0 \<and> (\<forall>i\<in>set is'. csu_count hw m (unat i) = 0)" for is' :: "u32 list" and k
    by (induction is' arbitrary: k) (auto simp: max_def word_gt_0 not_le)
  have all: "(\<forall>i\<in>set (upto_u32 n). P (unat i)) \<longleftrightarrow> (\<forall>i<unat n. P i)" for P and n :: u32
    using unat_of_nat_atmost [OF less_imp_le, of _ n] by (auto simp: upto_u32_def)
  show ?thesis unfolding none all [of _ "\<lambda>i. csu_count hw m i = 0"] using assms by (simp add: cache_env_def)
qed

definition m003_verdict :: "hw \<Rightarrow> mpam_info \<Rightarrow> u32" where
  "m003_verdict hw m =
     (if \<exists>i<length (cache_node m). csu_count hw m i \<noteq> 0 then RESULT_PASS (TEST_M 3) 1 else RESULT_SKIP (TEST_M 3) 0)"

lemma m003_ended:
  assumes "csu_env hw w me m" "holds_mpam2 hw rst"
  shows "returns (csu_ended rst w me {m003_verdict hw m}) (payload_m003 fvp junk hw w)"
proof -
  have e: "cache_env hw w me m" "ids_fixed hw m" using assms(1) by (simp_all add: csu_env_def)
  have up: "in_caches m (upto_u32 (num_cache_nodes m))" by (rule nodes_known [OF e(1)])
  let ?x = "mpam2_written (io w)" and ?n = "upto_u32 (num_cache_nodes m)" and ?v = "mpam2_value rst (io w)"
  let ?vs = "{m003_verdict hw m}" and ?none = "\<forall>i<length (cache_node m). csu_count hw m i = 0"
  have skip: "returns (csu_ended rst w me ?vs) (val_set_status me (RESULT_SKIP (TEST_M 3) 0) s)"
    if "steady w ?x s" ?none for s
    by (rule returns_mono [OF set_status_steady [OF e(1) that(1)]]) (use that(2) in \<open>auto simp: m003_verdict_def intro: csu_endedI\<close>)
  have rest: "returns (csu_ended rst w me ?vs)
      (do { (b, s) \<leftarrow> disturbed_node hw T ?n (val_sysreg_write MPAM2_SYSREG ?v s);
            csu_result hw (TEST_M 3) me T b s })"
    if "steady_any w s" "tables_ok T" "\<forall>i\<in>set ?n. zero_at hw m (fst T) i" "\<not> ?none" for T s
    by (rule returns_seq_pair [OF disturbed_node_never [OF assms(1) that(2) up that(3) steady_write_any [OF that(1)]]],
        elim conjE, rule csu_result_ended [OF e(1)])
       (use that(4) in \<open>auto simp: m003_verdict_def\<close>)
  have tail: "returns (csu_ended rst w me ?vs)
      (case val_sysreg_read hw MPAM2_SYSREG s of (saved, s) \<Rightarrow>
         do { ((T, _), s) \<leftarrow> over_nodes fvp hw me g ?n ?n (0, None) (T, saved) s;
              (b, s) \<leftarrow> disturbed_node hw T ?n (val_sysreg_write MPAM2_SYSREG saved s);
              csu_result hw (TEST_M 3) me T b s })"
    if "steady w ?x s" "table_ok (fst T) \<and> table_ok (snd T)" "\<not> ?none" for g T s
    unfolding split_beta saved_value [OF assms(2) that(1)]
    by (rule returns_seq [OF over_nodes_zero [unfolded split_beta, OF assms(1) up subset_refl, where Z = "{}"]])
       (use that in \<open>auto simp: steady_iff tables_ok_def intro!: rest [unfolded split_beta]\<close>)
  show ?thesis
    unfolding payload_m003_def Let_def
    by (rule returns_seq_pair [OF index_total_steady(1) [OF e(1) steady_refl]], elim conjE, hypsubst,
        rule returns_seq_pair [OF index_total_steady(2) [OF e(1)]], assumption, elim conjE, hypsubst,
        rule returns_seq [OF scan_all_steady [OF e up]], assumption)
       (auto simp: DEFAULT_MONCNT_def some_monitors [OF e(1)]
          intro!: skip returns_seq_pair [OF alloc_tables_steady [OF assms(1)]] tail)
qed


subsection \<open>What the tests and their module promise\<close>

text \<open>The payloads by their test numbers; the rest of the pool is somebody else's.\<close>

definition csu_pool :: "bool \<Rightarrow> (nat \<Rightarrow> nat \<Rightarrow> u32) \<times> (nat \<Rightarrow> nat \<Rightarrow> u32) \<Rightarrow> hw \<Rightarrow> pool \<Rightarrow> pool" where
  "csu_pool fvp junk hw other n =
     (if n = TEST_M 1 then payload_m001 fvp junk hw else if n = TEST_M 2 then payload_m002 fvp junk hw
      else if n = TEST_M 3 then payload_m003 fvp junk hw else other n)"

definition csu_ready :: "hw \<Rightarrow> world \<Rightarrow> bool" where
  "csu_ready hw s \<longleftrightarrow> length (g_skip_test_num (gl s)) = MAX_TEST_SKIP_NUM \<and> (\<exists>me m. csu_env hw s me m)"

lemma csu_pool_ended:
  assumes "csu_env hw s me m" "holds_mpam2 hw rst" "n \<in> {TEST_M 1, TEST_M 2, TEST_M 3}"
  shows "returns (csu_ended rst s me (verdicts n)) (csu_pool fvp junk hw other n s)"
proof -
  have e: "cache_env hw s me m" "ccap_narrow hw m" using assms(1) by (simp_all add: csu_env_def)
  note f = steady_features [OF e]
  have "returns (csu_ended rst s me (verdicts (TEST_M 1))) (payload_m001 fvp junk hw s)"
    unfolding payload_m001_def
    by (rule pmg_payload_ended [OF assms(1,2) f(1,3)]) (simp add: m001_texts_def)
  moreover have "returns (csu_ended rst s me (verdicts (TEST_M 2))) (payload_m002 fvp junk hw s)"
    unfolding payload_m002_def
    by (rule pmg_payload_ended [OF assms(1,2) f(2,4)]) (simp add: m002_texts_def)
  moreover have "returns (csu_ended rst s me (verdicts (TEST_M 3))) (payload_m003 fvp junk hw s)"
    by (rule returns_mono [OF m003_ended [OF assms(1,2)]]) (auto simp: csu_ended_def m003_verdict_def)
  ultimately show ?thesis
    using assms(3) by (auto simp: csu_pool_def ACS_CSUMON_TEST_NUM_BASE_def)
qed

lemma csu_env_same: "csu_env hw s me m \<Longrightarrow> same_suite s t \<Longrightarrow> csu_env hw t me m"
  using cache_env_same [of hw s me m t] by (simp add: csu_env_def)

lemma csu_ready_set_up: "set_up hw (csu_ready hw)"
  unfolding set_up_def
proof (intro conjI allI impI)
  show "ready hw s" if "csu_ready hw s" for s
    using that by (auto simp: csu_ready_def csu_env_def cache_env_def ready_def)
  show "csu_ready hw t" if "csu_ready hw s" "same_suite s t" for s t
    using that csu_env_same [OF _ that(2), of hw] by (simp add: csu_ready_def same_suite_def) blast
qed

lemma csu_pool_good:
  assumes "holds_mpam2 hw rst"
  shows "good_pool (csu_ready hw) {TEST_M 1, TEST_M 2, TEST_M 3} (csu_pool fvp junk hw other)"
  unfolding good_pool_def csu_ready_def
  by (auto simp: csu_ended_def intro!: returns_mono [OF csu_pool_ended [OF _ assms]] simp del: insert_iff)



text \<open>The cache of the witnesses has one storage monitor and both ways of partitioning.\<close>

definition csu_test_hw :: hw where
  "csu_test_hw = cache_hw\<lparr>mmio_in := \<lambda>h a. 0x43010001\<rparr>"

lemma csu_test_env: "csu_env csu_test_hw cache_world 0 the_info"
proof -
  have "my_index csu_test_hw cache_world = my_index cache_hw cache_world"
    by (simp add: my_index_def val_pe_get_mpid_def csu_test_hw_def read_sysreg_def)
  then have "cache_env csu_test_hw cache_world 0 the_info" using cache_world_env by (simp add: cache_env_def)
  then show ?thesis
    by (simp add: csu_env_def ccap_narrow_def ccap_width_def ids_fixed_def id_reg_def csu_count_def csu_bit_def
        csu_test_hw_def cache_hw_def ram_hw_def field_def the_info_eq reg_defs)
qed

lemma csu_test_hw_simps:
  "holds_mpam2 csu_test_hw 0" "quiet_peers csu_test_hw" "csu_count csu_test_hw the_info 0 = 1"
  by (simp_all add: holds_mpam2_def quiet_peers_def csu_test_hw_def cache_hw_def ram_hw_def csu_count_def csu_bit_def
      id_reg_def field_def reg_defs)



text \<open>
  on a system with MPAM nodes the module of the storage monitors, run with its own payloads,
  comes to its end whatever the caches, the monitors and the copy buffers do: its status is the
  worst of the three verdicts, the last of which is never a failure, and the counters move by
  exactly the verdicts.
\<close>

theorem csumon_module_runs:
  assumes "quiet_peers hw" "holds_mpam2 hw rst" "csu_ready hw s" "20 \<notin> set (g_skip_test_num (gl s))"
  shows "\<exists>st t rs. val_csumon_execute_tests hw (csu_pool fvp junk hw other) k s = Some (st, t) \<and>
       length rs = 3 \<and> set rs \<subseteq> {ACS_STATUS_PASS, ACS_STATUS_SKIP, ACS_STATUS_FAIL} \<and> st = worst rs \<and>
       g_acs_tests_total (gl t) = g_acs_tests_total (gl s) + 3 \<and>
       g_acs_tests_pass (gl t) = g_acs_tests_pass (gl s) + of_nat (count_list rs ACS_STATUS_PASS) \<and>
       g_acs_tests_fail (gl t) = g_acs_tests_fail (gl s) + of_nat (count_list rs ACS_STATUS_FAIL)"
proof -
  let ?pool = "csu_pool fvp junk hw other"
  let ?ts = "[testm001_entry hw ?pool, testm002_entry hw ?pool, testm003_entry hw ?pool]"
  have "\<forall>T\<in>set ?ts. runs_counted (csu_ready hw) T"
    using single_pe_test_runs [OF assms(1) csu_pool_good [OF assms(2)] _ csu_ready_set_up] by (simp add: entry_defs)
  from or_tests_runs [OF csu_ready_set_up this assms(3), of 0] obtain rs v where
    rs: "or_tests ?ts 0 s = Some (foldr (OR) rs 0, v)" "length rs = 3"
      "set rs \<subseteq> {ACS_STATUS_PASS, ACS_STATUS_SKIP, ACS_STATUS_FAIL}"
      "counters v = (g_acs_tests_total (gl s) + of_nat (length rs),
         g_acs_tests_pass (gl s) + of_nat (count_list rs ACS_STATUS_PASS),
         g_acs_tests_fail (gl s) + of_nat (count_list rs ACS_STATUS_FAIL))" by auto
  have "length (g_skip_test_num (gl s)) = MAX_TEST_SKIP_NUM" using assms(3) by (simp add: csu_ready_def)
  then obtain t where t: "val_csumon_execute_tests hw ?pool k s = Some (worst rs, t)" "gl t = gl v"
    using rs(1) assms(4) fold_or_worst [OF rs(3)]
    by (simp add: val_csumon_execute_tests_def module_not_skipped ACS_CSUMON_TEST_NUM_BASE_def module_verdict_def
        del: or_tests.simps)
  then show ?thesis using rs(2-4)
    by (intro exI [of _ "worst rs"] exI [of _ t] exI [of _ rs]) (simp add: counters_def)
qed

lemma csumon_module_runs_witness:
  "\<exists>st t. val_csumon_execute_tests csu_test_hw (csu_pool False (\<lambda>_ _. 7, \<lambda>_ _. 7) csu_test_hw (\<lambda>_ _. None)) 2 cache_world =
      Some (st, t) \<and> g_acs_tests_total (gl t) = 3"
proof -
  have w: "g_skip_test_num (gl cache_world) = g_skip_test_num (gl two_pe_world)" "g_acs_tests_total (gl cache_world) = 0"
    by (simp_all add: cache_world_def one_node_world_def two_pe_world_def)
  have r: "csu_ready csu_test_hw cache_world"
    unfolding csu_ready_def w using csu_test_env by (auto simp: two_pe_world_def MAX_TEST_SKIP_NUM_def)
  have "20 \<notin> set (g_skip_test_num (gl cache_world))" by (simp add: w two_pe_world_def)
  from csumon_module_runs [OF csu_test_hw_simps(2,1) r this, of False _ "\<lambda>_ _. None" 2] show ?thesis
    by (fastforce simp: w)
qed


end
