(* ===== verification/Mpam_Memory_Tests.thy ===== *)
theory Mpam_Memory_Tests
  imports Mpam_Cache_Tests
begin

text \<open>
  The payloads of the memory bandwidth tests (test_pool/memory/test_d001.c to test_d003.c). The
  first programs bandwidth portions and measures copies inside each memory node. The other two
  let all other PEs copy at the same time (their payload is \<open>payload_secondary\<close>, handed over with
  PSCI), and measure the copy of this PE under contention with two bandwidth limits.
\<close>

definition ONE_MB :: u64 where [reg_defs]: "ONE_MB = 1024 * 1024"
definition MBWPBM_SCENARIO_MAX :: nat where [reg_defs]: "MBWPBM_SCENARIO_MAX = 10"
definition MEMCPY_BUF_SIZE :: u64 where [reg_defs]: "MEMCPY_BUF_SIZE = 256 * 1024 * 1024"
definition BW1_PERCENTAGE :: u32 where [reg_defs]: "BW1_PERCENTAGE = 25"
definition BW2_PERCENTAGE :: u32 where [reg_defs]: "BW2_PERCENTAGE = 75"
definition SCENARIO_MAX :: u32 where [reg_defs]: "SCENARIO_MAX = 2"

abbreviation TEST_D :: "u32 \<Rightarrow> u32" where "TEST_D k \<equiv> ACS_MEMORY_TEST_NUM_BASE + k"

subsection \<open>Looking over the nodes\<close>

text \<open>The number of memory nodes with a feature, and the smallest largest PARTID.\<close>

fun scan_memory :: "hw \<Rightarrow> feature \<Rightarrow> u32 list \<Rightarrow> u32 \<times> u16 \<Rightarrow> world \<Rightarrow> ((u32 \<times> u16) \<times> world) option" where
  "scan_memory hw feature [] c s = Some (c, s)"
| "scan_memory hw feature (node_index # is') (n, partid) s =
     do { (f, s) \<leftarrow> feature node_index s;
          (p, s) \<leftarrow> min_with partid (val_node_get_partid hw MPAM_NODE_MEMORY node_index) s;
          scan_memory hw feature is' (if f then n + 1 else n, p) s }"

fun scan_partids :: "hw \<Rightarrow> u8 \<Rightarrow> u32 list \<Rightarrow> u16 \<Rightarrow> world \<Rightarrow> (u16 \<times> world) option" where
  "scan_partids hw node_type [] partid s = Some (partid, s)"
| "scan_partids hw node_type (node_index # is') partid s =
     do { (p, s) \<leftarrow> min_with partid (val_node_get_partid hw node_type node_index) s;
          scan_partids hw node_type is' p s }"

text \<open>All types of partitioning of all caches are switched off for a PARTID.\<close>

definition caches_unlimited :: "hw \<Rightarrow> u32 list \<Rightarrow> u16 \<Rightarrow> world \<Rightarrow> world option" where
  "caches_unlimited hw nodes partid =
     for_each (\<lambda>i s. do {
       s \<leftarrow> if_has val_cache_supports_cpor hw i (val_cache_configure_cpor hw i partid 100) s;
       if_has val_cache_supports_ccap hw i (val_cache_configure_ccap hw i partid 0 100) s }) nodes"

subsection \<open>Test 1: bandwidth portions\<close>

text \<open>The rows of the latency table, one cell for each memory node; \<open>columns\<close> is their length.
  A row that could not be allocated is NULL.\<close>

record latency_table =
  lrows :: "u64 option list"
  columns :: u32
  lcells :: "nat \<Rightarrow> nat \<Rightarrow> u64"

definition lcell_ok :: "latency_table \<Rightarrow> nat \<Rightarrow> u32 \<Rightarrow> bool" where
  "lcell_ok L k node_index \<longleftrightarrow> k < length (lrows L) \<and> lrows L ! k \<noteq> None \<and> node_index < columns L"

definition read_latency :: "latency_table \<Rightarrow> nat \<Rightarrow> u32 \<Rightarrow> u64 option" where
  "read_latency L k node_index = (if lcell_ok L k node_index then Some (lcells L k (unat node_index)) else None)"

definition write_latency :: "latency_table \<Rightarrow> nat \<Rightarrow> u32 \<Rightarrow> u64 \<Rightarrow> latency_table option" where
  "write_latency L k node_index v =
     (if lcell_ok L k node_index
      then Some (L\<lparr>lcells := (lcells L)(k := (lcells L k)(unat node_index := v))\<rparr>)
      else None)"

fun alloc_lrows :: "hw \<Rightarrow> u64 option \<Rightarrow> nat \<Rightarrow> latency_table \<Rightarrow> world \<Rightarrow> (latency_table \<times> world) option" where
  "alloc_lrows hw p 0 L s = Some (L, s)"
| "alloc_lrows hw p (Suc n) L s =
     do { let (r, s) = val_allocate_buf hw (ucast (columns L) * 8) s;
          _ \<leftarrow> p;
          alloc_lrows hw p n (L\<lparr>lrows := lrows L @ [r]\<rparr>) s }"

definition alloc_latency :: "hw \<Rightarrow> u32 \<Rightarrow> (nat \<Rightarrow> nat \<Rightarrow> u64) \<Rightarrow> world \<Rightarrow> (latency_table \<times> world) option" where
  "alloc_latency hw memory_node_cnt junk s =
     (let (p, s) = val_allocate_buf hw (of_nat (MBWPBM_SCENARIO_MAX * 8)) s
      in alloc_lrows hw p MBWPBM_SCENARIO_MAX \<lparr>lrows = [], columns = memory_node_cnt, lcells = junk\<rparr> s)"

text \<open>The address in a pointer variable, 0 for NULL.\<close>

definition pointer :: "u64 option \<Rightarrow> u64" where
  "pointer p = (case p of None \<Rightarrow> 0 | Some a \<Rightarrow> a)"

text \<open>One node in one scenario. The row of the table is the number of measurements made so far, not
  the number of the scenario. \<open>None\<close> as the result is a payload that has returned.\<close>

definition portion_scenario ::
    "hw \<Rightarrow> u32 \<Rightarrow> u16 \<Rightarrow> u64 \<Rightarrow> u32 \<Rightarrow> u64 \<Rightarrow> u64 \<Rightarrow> u32 \<Rightarrow> latency_table \<times> u8 \<Rightarrow> world \<Rightarrow>
     ((latency_table \<times> u8) option \<times> world) option" where
  "portion_scenario hw pe_index partid saved percent buf_size index node_index Lk s =
     do { (b, s) \<leftarrow> has val_memory_supports_mbwpbm hw node_index s;
          if \<not> b then Some (Some Lk, s)
          else do {
            s \<leftarrow> val_memory_configure_mbwpbm hw node_index partid percent s;
            s \<leftarrow> if_has val_memory_supports_mbwmin hw node_index (val_memory_configure_mbwmin hw node_index partid 0) s;
            s \<leftarrow> if_has val_memory_supports_mbwmax hw node_index
                   (val_memory_configure_mbwmax hw node_index partid HARDLIMIT_DIS 100) s;
            (base, s) \<leftarrow> val_memory_get_base hw node_index s;
            (size, s) \<leftarrow> val_memory_get_size hw node_index s;
            (src, s) \<leftarrow> val_allocate_address hw base size buf_size s;
            (base, s) \<leftarrow> val_memory_get_base hw node_index s;
            (size, s) \<leftarrow> val_memory_get_size hw node_index s;
            (dest, s) \<leftarrow> val_allocate_address hw base size buf_size s;
            let s = debug ''index               = %d'' index s;
            let s = debug ''buf_size            = %d'' buf_size s;
            if pointer src = 0 \<or> pointer dest = 0
            then do { s \<leftarrow> val_set_status pe_index (RESULT_FAIL (TEST_D 1) 1)
                             (val_print ACS_PRINT_ERR ''Mem allocation for MBWPBM buffers failed'' 0 s);
                      Some (None, val_sysreg_write MPAM2_SYSREG saved s) }
            else do {
              let (l, s) = timed_copy hw ''latency             = 0x%lx'' (pointer src) (pointer dest) buf_size s;
              L \<leftarrow> write_latency (fst Lk) (unat (snd Lk)) node_index l;
              let s = val_free_buf hw src buf_size s;
              Some (Some (L, snd Lk + 1), val_free_buf hw dest buf_size s) } } }"

text \<open>A loop that a step can leave.\<close>

fun until_returned :: "('i \<Rightarrow> 'a \<Rightarrow> world \<Rightarrow> ('a option \<times> world) option) \<Rightarrow> 'i list \<Rightarrow> 'a \<Rightarrow> world \<Rightarrow> ('a option \<times> world) option" where
  "until_returned f [] a s = Some (Some a, s)"
| "until_returned f (i # is') a s =
     do { (r, s) \<leftarrow> f i a s;
          case r of None \<Rightarrow> Some (None, s) | Some a \<Rightarrow> until_returned f is' a s }"

definition mbwpbm_config_data :: "(u64 \<times> u32 \<times> u64 \<times> bool) list" where
  "mbwpbm_config_data = [(0, 75, ONE_MB, True), (1, 50, ONE_MB, False), (2, 25, ONE_MB, True)]"

definition portion_scenarios ::
    "hw \<Rightarrow> u32 \<Rightarrow> u16 \<Rightarrow> u64 \<Rightarrow> u32 list \<Rightarrow> latency_table \<Rightarrow> world \<Rightarrow> ((latency_table \<times> u8) option \<times> world) option" where
  "portion_scenarios hw pe_index partid saved nodes L s =
     until_returned (\<lambda>(index, percent, size, enabled) Lk s.
         if enabled then until_returned (portion_scenario hw pe_index partid saved percent size index) nodes Lk s
         else Some (Some Lk, s))
       mbwpbm_config_data (L, 0) s"

text \<open>The comparison: whether some latency is smaller than the one in the row before.\<close>

fun smaller_at :: "hw \<Rightarrow> latency_table \<Rightarrow> nat \<Rightarrow> u32 list \<Rightarrow> world \<Rightarrow> (bool \<times> world) option" where
  "smaller_at hw L k [] s = Some (False, s)"
| "smaller_at hw L k (node_index # is') s =
     do { (b, s) \<leftarrow> has val_memory_supports_mbwpbm hw node_index s;
          if b
          then do { x \<leftarrow> read_latency L k node_index;
                    y \<leftarrow> read_latency L (k - 1) node_index;
                    if x < y then Some (True, s) else smaller_at hw L k is' s }
          else smaller_at hw L k is' s }"

fun some_smaller :: "hw \<Rightarrow> latency_table \<Rightarrow> u32 list \<Rightarrow> nat list \<Rightarrow> world \<Rightarrow> (bool \<times> world) option" where
  "some_smaller hw L nodes [] s = Some (False, s)"
| "some_smaller hw L nodes (k # ks) s =
     do { (b, s) \<leftarrow> smaller_at hw L k nodes s;
          if b then Some (True, s) else some_smaller hw L nodes ks s }"

definition portion_verdict :: "hw \<Rightarrow> u32 \<Rightarrow> u64 \<Rightarrow> u32 list \<Rightarrow> (latency_table \<times> u8) option \<Rightarrow> world \<Rightarrow> world option" where
  "portion_verdict hw pe_index saved nodes r s =
     (case r of None \<Rightarrow> Some s
      | Some (L, enabled_scenarios) \<Rightarrow>
          do { let s = val_sysreg_write MPAM2_SYSREG saved s;
               (b, s) \<leftarrow> some_smaller hw L nodes [1..<unat enabled_scenarios] s;
               val_set_status pe_index (if b then RESULT_FAIL (TEST_D 1) 1 else RESULT_PASS (TEST_D 1) 1) s })"

definition payload_d001 :: "(nat \<Rightarrow> nat \<Rightarrow> u64) \<Rightarrow> hw \<Rightarrow> world \<Rightarrow> world option" where
  "payload_d001 junk hw s =
     do { (pe_index, s) \<leftarrow> my_index hw s;
          (cache_node_cnt, s) \<leftarrow> val_node_get_total hw MPAM_NODE_CACHE s;
          (memory_node_cnt, s) \<leftarrow> val_node_get_total hw MPAM_NODE_MEMORY s;
          ((n, partid), s) \<leftarrow> scan_memory hw (has val_memory_supports_mbwpbm hw) (upto_u32 memory_node_cnt)
                                (0, DEFAULT_PARTID_MAX) s;
          (partid, s) \<leftarrow> scan_partids hw MPAM_NODE_CACHE (upto_u32 cache_node_cnt) partid s;
          let s = debug ''mbwpbm_node_cnt          = %d'' (ucast n) s;
          let s = debug ''minmax_partid       = %d'' (ucast partid) s;
          if n = 0 then val_set_status pe_index (RESULT_SKIP (TEST_D 1) 0) s
          else do {
            s \<leftarrow> caches_unlimited hw (upto_u32 cache_node_cnt) partid s;
            (L, s) \<leftarrow> alloc_latency hw memory_node_cnt junk s;
            let (saved, s) = set_traffic hw partid s;
            (r, s) \<leftarrow> portion_scenarios hw pe_index partid saved (upto_u32 memory_node_cnt) L s;
            portion_verdict hw pe_index saved (upto_u32 memory_node_cnt) r s } }"

subsection \<open>Tests 2 and 3: bandwidth limits under contention\<close>

text \<open>What the tests differ in: the number, the feature, how the other limit is switched off, and how
  the limit under test is programmed.\<close>

record bw_test =
  bw_num :: u32
  bw_feature :: "hw \<Rightarrow> feature"
  other_unlimited :: "hw \<Rightarrow> u16 \<Rightarrow> u32 \<Rightarrow> world \<Rightarrow> world option"
  bw_limit :: "hw \<Rightarrow> u32 \<Rightarrow> u16 \<Rightarrow> u32 \<Rightarrow> world \<Rightarrow> world option"

definition d002_test :: bw_test where
  "d002_test = \<lparr>bw_num = TEST_D 2, bw_feature = has val_memory_supports_mbwmin,
     other_unlimited = (\<lambda>hw partid i.
       if_has val_memory_supports_mbwmax hw i (val_memory_configure_mbwmax hw i partid HARDLIMIT_DIS 100)),
     bw_limit = val_memory_configure_mbwmin\<rparr>"

definition d003_test :: bw_test where
  "d003_test = \<lparr>bw_num = TEST_D 3, bw_feature = has val_memory_supports_mbwmax,
     other_unlimited = (\<lambda>hw partid i.
       if_has val_memory_supports_mbwmin hw i (val_memory_configure_mbwmin hw i partid 0)),
     bw_limit = (\<lambda>hw i partid. val_memory_configure_mbwmax hw i partid HARDLIMIT_EN)\<rparr>"

text \<open>MPAM2_EL2 is passed as a 32-bit argument, and so is the value that is computed from it.\<close>

definition mpam2_traffic32 :: "u16 \<Rightarrow> u8 \<Rightarrow> u32 \<Rightarrow> u32" where
  "mpam2_traffic32 partid pmg mpam2_el2 =
     (let v = ucast (CLEAR_BITS_M_TO_N (ucast mpam2_el2) (MPAMn_ELx_PARTID_D_SHIFT + 15) MPAMn_ELx_PARTID_D_SHIFT) :: u32;
          v = ucast (CLEAR_BITS_M_TO_N (ucast v) (MPAMn_ELx_PMG_D_SHIFT + 7) MPAMn_ELx_PMG_D_SHIFT) :: u32
      in ucast (ucast v OR (push_bit MPAMn_ELx_PMG_D_SHIFT (ucast pmg) OR
                            push_bit MPAMn_ELx_PARTID_D_SHIFT (ucast partid) :: u64)))"

definition config_mpam_params :: "hw \<Rightarrow> u32 \<Rightarrow> world \<Rightarrow> world option" where
  "config_mpam_params hw mpam2_el2 s =
     do { (cache_node_cnt, s) \<leftarrow> val_node_get_total hw MPAM_NODE_CACHE s;
          (memory_node_cnt, s) \<leftarrow> val_node_get_total hw MPAM_NODE_MEMORY s;
          (partid, s) \<leftarrow> scan_partids hw MPAM_NODE_MEMORY (upto_u32 memory_node_cnt) DEFAULT_PARTID_MAX s;
          (partid, s) \<leftarrow> scan_partids hw MPAM_NODE_CACHE (upto_u32 cache_node_cnt) partid s;
          s \<leftarrow> caches_unlimited hw (upto_u32 cache_node_cnt) partid s;
          Some (val_sysreg_write MPAM2_SYSREG (ucast (mpam2_traffic32 partid DEFAULT_PMG mpam2_el2)) s) }"

text \<open>The other PEs copy until the flag is 0; \<open>flag k\<close> is what the k-th look at it finds. A flag that
  is never cleared is a payload that does not return.\<close>

partial_function (option) contend :: "(nat \<Rightarrow> u8) \<Rightarrow> u64 \<Rightarrow> u64 \<Rightarrow> nat \<Rightarrow> world \<Rightarrow> world option" where
  "contend flag src dest k s =
     (if flag k = 0 then Some s
      else contend flag src dest (Suc k)
             (val_data_cache_ops_by_va (LVar ''contend_flag'') INVALIDATE
               (val_mem_copy src dest (MEMCPY_BUF_SIZE div 2) s)))"

definition payload_secondary :: "u32 \<Rightarrow> (nat \<Rightarrow> u8) \<Rightarrow> hw \<Rightarrow> world \<Rightarrow> world option" where
  "payload_secondary n flag hw s =
     do { (pe_index, s) \<leftarrow> my_index hw s;
          let (mpam2_el2, s) = val_sysreg_read hw MPAM2_SYSREG s;
          s \<leftarrow> config_mpam_params hw (ucast mpam2_el2) s;
          src_buf \<leftarrow> val_get_shared_memcpybuf pe_index s;
          let dest_buf = src_buf + MEMCPY_BUF_SIZE div 2;
          if src_buf = 0 \<or> dest_buf = 0
          then do { s \<leftarrow> val_set_status pe_index (RESULT_FAIL n 1) s;
                    Some (val_sysreg_write MPAM2_SYSREG mpam2_el2 s) }
          else do { s \<leftarrow> contend flag src_buf dest_buf 0 s;
                    val_set_status pe_index (RESULT_PASS n 1) (val_sysreg_write MPAM2_SYSREG mpam2_el2 s) } }"

text \<open>Waiting for the other PEs. The time-out is computed in 32 bits and counted down in 64; the
  passes that are left after the current one are the fuel, and the result is the value the
  time-out has in the end.\<close>

fun others_pending :: "hw \<Rightarrow> u32 \<Rightarrow> u32 list \<Rightarrow> bool \<Rightarrow> world \<Rightarrow> (bool \<times> world) option" where
  "others_pending hw me [] p s = Some (p, s)"
| "others_pending hw me (i # is') p s =
     (if i \<noteq> me then do { (st, s) \<leftarrow> val_get_status hw i s; others_pending hw me is' (p \<or> IS_RESULT_PENDING st) s }
      else others_pending hw me is' p s)"

fun off_loop :: "hw \<Rightarrow> u32 \<Rightarrow> u32 list \<Rightarrow> nat \<Rightarrow> world \<Rightarrow> (u64 \<times> world) option" where
  "off_loop hw me pes n s =
     do { (p, s) \<leftarrow> others_pending hw me pes False s;
          if \<not> p then Some (word_of_nat (Suc n), s)
          else (case n of 0 \<Rightarrow> Some (0, s) | Suc k \<Rightarrow> off_loop hw me pes k s) }"

declare off_loop.simps [simp del]

fun print_pending :: "hw \<Rightarrow> u32 \<Rightarrow> u32 list \<Rightarrow> world \<Rightarrow> world option" where
  "print_pending hw me [] s = Some s"
| "print_pending hw me (i # is') s =
     (if i \<noteq> me
      then do { (st, s) \<leftarrow> val_get_status hw i s;
                print_pending hw me is'
                  (if IS_RESULT_PENDING st then val_print ACS_PRINT_ERR '' Secondary PE %x OFF timedout'' (ucast i) s else s) }
      else print_pending hw me is' s)"

definition off_timeout :: "u32 \<Rightarrow> u64" where
  "off_timeout num_pe = ucast (num_pe * TIMEOUT_LARGE)"

definition wait_for_secondary_off :: "hw \<Rightarrow> u32 \<Rightarrow> world \<Rightarrow> (bool \<times> world) option" where
  "wait_for_secondary_off hw primary_pe_index s =
     do { let num_pe = val_pe_get_num s;
          (timeout, s) \<leftarrow> off_loop hw primary_pe_index (upto_u32 num_pe) (unat (off_timeout num_pe - 1)) s;
          if timeout = 0
          then do { s \<leftarrow> print_pending hw primary_pe_index (upto_u32 num_pe) s; Some (True, s) }
          else Some (False, s) }"

text \<open>The cells of the latency buffers by node and scenario, and the flag the other PEs look at.\<close>

record bw_state =
  latency :: "u32 \<Rightarrow> u32 \<Rightarrow> u64"
  contend_flag :: u8

text \<open>A buffer has SCENARIO_MAX cells.\<close>

definition latency_ok :: "u32 \<Rightarrow> u32 \<Rightarrow> world \<Rightarrow> bool" where
  "latency_ok scenario_index node_index s \<longleftrightarrow>
     val_get_shared_latencybuf scenario_index node_index s \<noteq> None \<and> scenario_index < SCENARIO_MAX"

definition set_flag :: "u8 \<Rightarrow> bw_state \<times> world \<Rightarrow> bw_state \<times> world" where
  "set_flag v bs = (case bs of (b, s) \<Rightarrow>
     (b\<lparr>contend_flag := v\<rparr>, val_data_cache_ops_by_va (LVar ''contend_flag'') CLEAN s))"

text \<open>One scenario: limit, contention, measured copy, and the wait; \<open>addr\<close> is the address of
  \<open>payload_secondary\<close>.\<close>

definition contended_copy ::
    "hw \<Rightarrow> bw_test \<Rightarrow> u64 \<Rightarrow> u32 \<Rightarrow> u16 \<Rightarrow> u32 \<Rightarrow> u64 \<Rightarrow> u64 \<Rightarrow> u32 \<Rightarrow> u32 \<Rightarrow> bw_state \<Rightarrow> world \<Rightarrow>
     ((bool \<times> bw_state) \<times> world) option" where
  "contended_copy hw bt addr me partid node_index src dest scenario_cnt percent b s =
     do { let num_pe = val_pe_get_num s;
          s \<leftarrow> bw_limit bt hw node_index partid percent s;
          let (b, s) = set_flag 1 (b, s);
          s \<leftarrow> for_each (\<lambda>i s. if i \<noteq> me
                             then do { s \<leftarrow> val_set_status i (RESULT_PENDING (bw_num bt)) s;
                                       val_execute_on_pe hw i addr 0 s }
                             else Some s) (upto_u32 num_pe) s;
          let (bk, s) = val_measurement_start hw s;
          let (start_time, s) = val_measurement_read hw s;
          let s = val_mem_copy src dest (MEMCPY_BUF_SIZE div 2) s;
          let (end_time, s) = val_measurement_read hw s;
          if \<not> latency_ok scenario_cnt node_index s then None
          else do {
            let b = b\<lparr>latency := (latency b)(node_index := (latency b node_index)(scenario_cnt := end_time - start_time))\<rparr>;
            let s = val_measurement_stop bk s;
            let (b, s) = set_flag 0 (b, s);
            (w, s) \<leftarrow> wait_for_secondary_off hw me s;
            Some ((w, b), s) } }"

definition secondary_pending :: "hw \<Rightarrow> bw_test \<Rightarrow> u32 \<Rightarrow> u64 \<Rightarrow> u32 \<Rightarrow> world \<Rightarrow> world option" where
  "secondary_pending hw bt me saved memory_node_cnt s =
     do { let num_pe = val_pe_get_num s;
          s \<leftarrow> val_mem_free_shared_memcpybuf hw num_pe MEMCPY_BUF_SIZE (val_sysreg_write MPAM2_SYSREG saved s);
          s \<leftarrow> val_mem_free_shared_latencybuf hw memory_node_cnt s;
          val_set_status me (RESULT_FAIL (bw_num bt) 1) s }"

definition bw_node ::
    "hw \<Rightarrow> bw_test \<Rightarrow> u64 \<Rightarrow> u32 \<Rightarrow> u16 \<Rightarrow> u64 \<Rightarrow> u32 \<Rightarrow> u32 \<Rightarrow> bw_state \<times> u32 \<Rightarrow> world \<Rightarrow>
     ((bw_state \<times> u32) option \<times> world) option" where
  "bw_node hw bt addr me partid saved memory_node_cnt node_index bc s =
     do { (f, s) \<leftarrow> bw_feature bt hw node_index s;
          if \<not> f then Some (Some bc, s)
          else do {
            let num_pe = val_pe_get_num s;
            s \<leftarrow> val_memory_configure_mbwpbm hw node_index partid 100 s;
            s \<leftarrow> other_unlimited bt hw partid node_index s;
            (base, s) \<leftarrow> val_memory_get_base hw node_index s;
            (size, s) \<leftarrow> val_memory_get_size hw node_index s;
            (alloc_status, s) \<leftarrow> val_allocate_shared_memcpybuf hw base size MEMCPY_BUF_SIZE num_pe s;
            if alloc_status = 0
            then do { s \<leftarrow> val_set_status me (RESULT_FAIL (bw_num bt) 1) s;
                      Some (None, val_sysreg_write MPAM2_SYSREG saved s) }
            else do {
              src \<leftarrow> val_get_shared_memcpybuf me s;
              let dest = src + MEMCPY_BUF_SIZE div 2;
              let s = val_mem_copy src dest (MEMCPY_BUF_SIZE div 2) s;
              ((w, b), s) \<leftarrow> contended_copy hw bt addr me partid node_index src dest 0 BW1_PERCENTAGE (fst bc) s;
              if w then do { s \<leftarrow> secondary_pending hw bt me saved memory_node_cnt s; Some (None, s) }
              else do {
                ((w, b), s) \<leftarrow> contended_copy hw bt addr me partid node_index src dest 1 BW2_PERCENTAGE b s;
                if w then do { s \<leftarrow> secondary_pending hw bt me saved memory_node_cnt s; Some (None, s) }
                else do {
                  s \<leftarrow> val_mem_free_shared_memcpybuf hw num_pe MEMCPY_BUF_SIZE s;
                  Some (Some (b, 2), s) } } } } }"

text \<open>The comparison: for each scenario but the last, the cells with the numbers \<open>scenario_cnt\<close> and
  \<open>scenario_cnt + 1\<close> are compared, which do not depend on the scenario.\<close>

definition get_latency :: "bw_state \<Rightarrow> u32 \<Rightarrow> u32 \<Rightarrow> world \<Rightarrow> u64 option" where
  "get_latency b scenario_index node_index s =
     (if latency_ok scenario_index node_index s then Some (latency b node_index scenario_index) else None)"

fun limit_ignored_at ::
    "hw \<Rightarrow> bw_test \<Rightarrow> bw_state \<Rightarrow> u32 \<Rightarrow> u32 \<Rightarrow> nat \<Rightarrow> world \<Rightarrow> (bool \<times> world) option" where
  "limit_ignored_at hw bt b scenario_cnt node_index 0 s = Some (False, s)"
| "limit_ignored_at hw bt b scenario_cnt node_index (Suc k) s =
     do { (f, s) \<leftarrow> bw_feature bt hw node_index s;
          if f
          then do { x \<leftarrow> get_latency b scenario_cnt node_index s;
                    y \<leftarrow> get_latency b (scenario_cnt + 1) node_index s;
                    if x < y then Some (True, s) else limit_ignored_at hw bt b scenario_cnt node_index k s }
          else limit_ignored_at hw bt b scenario_cnt node_index k s }"

fun limit_ignored ::
    "hw \<Rightarrow> bw_test \<Rightarrow> bw_state \<Rightarrow> u32 \<Rightarrow> u32 list \<Rightarrow> world \<Rightarrow> (bool \<times> world) option" where
  "limit_ignored hw bt b scenario_cnt [] s = Some (False, s)"
| "limit_ignored hw bt b scenario_cnt (node_index # is') s =
     do { (w, s) \<leftarrow> limit_ignored_at hw bt b scenario_cnt node_index (unat (scenario_cnt - 1)) s;
          if w then Some (True, s) else limit_ignored hw bt b scenario_cnt is' s }"

definition bw_verdict :: "hw \<Rightarrow> bw_test \<Rightarrow> u32 \<Rightarrow> u64 \<Rightarrow> u32 \<Rightarrow> (bw_state \<times> u32) option \<Rightarrow> world \<Rightarrow> world option" where
  "bw_verdict hw bt me saved memory_node_cnt r s =
     (case r of None \<Rightarrow> Some s
      | Some (b, scenario_cnt) \<Rightarrow>
          do { let s = val_sysreg_write MPAM2_SYSREG saved s;
               (w, s) \<leftarrow> limit_ignored hw bt b scenario_cnt (upto_u32 memory_node_cnt) s;
               if w then val_set_status me (RESULT_FAIL (bw_num bt) 1) s
               else do { s \<leftarrow> val_mem_free_shared_latencybuf hw memory_node_cnt s;
                         val_set_status me (RESULT_PASS (bw_num bt) 1) s } })"

definition payload_primary :: "bw_test \<Rightarrow> u64 \<Rightarrow> bw_state \<Rightarrow> hw \<Rightarrow> world \<Rightarrow> world option" where
  "payload_primary bt addr b hw s =
     do { (me, s) \<leftarrow> my_index hw s;
          (cache_node_cnt, s) \<leftarrow> val_node_get_total hw MPAM_NODE_CACHE s;
          (memory_node_cnt, s) \<leftarrow> val_node_get_total hw MPAM_NODE_MEMORY s;
          ((n, partid), s) \<leftarrow> scan_memory hw (bw_feature bt hw) (upto_u32 memory_node_cnt) (0, DEFAULT_PARTID_MAX) s;
          (partid, s) \<leftarrow> scan_partids hw MPAM_NODE_CACHE (upto_u32 cache_node_cnt) partid s;
          if n = 0 then val_set_status me (RESULT_SKIP (bw_num bt) 0) s
          else do {
            s \<leftarrow> val_allocate_shared_latencybuf hw memory_node_cnt SCENARIO_MAX s;
            let (saved, s) = val_sysreg_read hw MPAM2_SYSREG s;
            s \<leftarrow> config_mpam_params hw (ucast saved) s;
            (r, s) \<leftarrow> until_returned (bw_node hw bt addr me partid saved memory_node_cnt) (upto_u32 memory_node_cnt) (b, 0) s;
            bw_verdict hw bt me saved memory_node_cnt r s } }"

definition payload_d002 :: "u64 \<Rightarrow> bw_state \<Rightarrow> hw \<Rightarrow> world \<Rightarrow> world option" where
  "payload_d002 = payload_primary d002_test"

definition payload_d003 :: "u64 \<Rightarrow> bw_state \<Rightarrow> hw \<Rightarrow> world \<Rightarrow> world option" where
  "payload_d003 = payload_primary d003_test"


subsection \<open>What holds of every run that returns\<close>

text \<open>The tables of the PEs and of the nodes stay as they are in every operation of the tests.\<close>

named_theorems stay \<open>that an operation keeps the tables\<close>

lemma same_nodes_gl: "gl t = gl s \<Longrightarrow> same_nodes w t = same_nodes w s"
  by (simp add: same_nodes_def)

lemma stay_pure [simp]:
  "same_nodes w (val_print l msg a s) = same_nodes w s" "same_nodes w (debug msg a s) = same_nodes w s"
  "same_nodes w (acs_print l msg c s) = same_nodes w s" "same_nodes w (log_io e s) = same_nodes w s"
  "same_nodes w (val_mmio_write r d s) = same_nodes w s" "same_nodes w (snd (val_mmio_read hw r s)) = same_nodes w s"
  "same_nodes w (snd (firmware hw f args s)) = same_nodes w s" "same_nodes w (val_mem_copy y z n s) = same_nodes w s"
  "same_nodes w (snd (val_sysreg_read hw q s)) = same_nodes w s" "same_nodes w (val_sysreg_write q v s) = same_nodes w s"
  "same_nodes w (val_free_buf hw p n s) = same_nodes w s" "same_nodes w (snd (val_allocate_buf hw n s)) = same_nodes w s"
  "same_nodes w (snd (timed_copy hw msg y z n s)) = same_nodes w s" "same_nodes w (snd (set_traffic hw p' s)) = same_nodes w s"
  "same_nodes w (val_data_cache_ops_by_va loc op s) = same_nodes w s" "same_nodes w (interfere hw s) = same_nodes w s"
  "same_nodes w (snd (val_measurement_start hw s)) = same_nodes w s" "same_nodes w (val_measurement_stop bk s) = same_nodes w s"
  "same_nodes w (snd (val_measurement_read hw s)) = same_nodes w s" "same_nodes w (val_memory_ops_issue_barrier k s) = same_nodes w s"
  by (rule same_nodes_gl; simp add: debug_def val_mem_copy_def pal_mem_copy_def val_free_buf_def pal_mem_free_buf_def
      val_allocate_buf_def pal_mem_allocate_buf_def timed_copy_def set_traffic_def val_sysreg_read_def read_sysreg_def
      val_sysreg_write_def write_sysreg_def val_measurement_start_def val_measurement_stop_def val_measurement_read_def
      pal_pmu_cycle_counter_start_def pal_pmu_cycle_counter_stop_def pal_pmu_reg_read_def pal_pmu_reg_write_def
      interfere_def val_memory_ops_issue_barrier_def val_data_cache_ops_by_va_def pal_pe_data_cache_ops_by_va_def
      split_beta Let_def split: sysreg_mpam_t.split)+


lemma stay_lookup [stay]:
  assumes "same_nodes w s"
  shows "yields (\<lambda>(v, t). same_nodes w t) (my_index hw s)"
    "yields (\<lambda>(v, t). same_nodes w t) (node_lookup hw a z fc fm ty i s)"
    "yields (\<lambda>(v, t). same_nodes w t) (val_node_get_total hw ty s)"
  using assms
  by (auto simp: yields_def my_index_def val_pe_get_mpid_def read_sysreg_def node_lookup_def val_node_get_total_def
      Option.bind_eq_Some_conv split: option.splits if_splits)

lemma stay_queries [stay]:
  assumes "same_nodes w s"
  shows "yields (\<lambda>(v, t). same_nodes w t) (val_node_hwreg_base hw ty i s)"
    "yields (\<lambda>(v, t). same_nodes w t) (node_read hw ty i r s)"
    "yields (\<lambda>(v, t). same_nodes w t) (val_node_get_partid hw ty i s)"
    "yields (\<lambda>(v, t). same_nodes w t) (val_memory_get_base hw i s)"
    "yields (\<lambda>(v, t). same_nodes w t) (val_memory_get_size hw i s)"
proof -
  have b: "yields (\<lambda>(v, t). same_nodes w t) (val_node_hwreg_base hw ty i s)" for ty i
    unfolding val_node_hwreg_base_def by (rule stay_lookup(2) [OF assms])
  have r: "yields (\<lambda>(v, t). same_nodes w t) (node_read hw ty i r s)" for ty i r
    unfolding node_read_def by (rule yields_pair [OF b]) (simp add: split_beta)
  show "yields (\<lambda>(v, t). same_nodes w t) (val_node_hwreg_base hw ty i s)"
    "yields (\<lambda>(v, t). same_nodes w t) (node_read hw ty i r s)" by (rule b, rule r)
  show "yields (\<lambda>(v, t). same_nodes w t) (val_node_get_partid hw ty i s)"
    unfolding val_node_get_partid_def by (rule yields_pair [OF r]) simp
  show "yields (\<lambda>(v, t). same_nodes w t) (val_memory_get_base hw i s)"
    "yields (\<lambda>(v, t). same_nodes w t) (val_memory_get_size hw i s)"
    unfolding val_memory_get_base_def val_memory_get_size_def by (rule stay_lookup(2) [OF assms])+
qed

lemma stay_read_if:
  assumes "same_nodes w s" "\<And>u. same_nodes w u \<Longrightarrow> yields (\<lambda>(v, t). same_nodes w t) (f u)"
  shows "yields (\<lambda>(v, t). same_nodes w t) (read_if hw ty i f r sh msk s)"
  unfolding read_if_def
  by (rule yields_pair [OF stay_queries(1) [OF assms(1)]], rule yields_pair [OF assms(2)], assumption)
     (simp add: split_beta Let_def)

lemma stay_mbw [stay]:
  assumes "same_nodes w s"
  shows "yields (\<lambda>(v, t). same_nodes w t) (val_memory_supports_part hw i s)"
    "yields (\<lambda>(v, t). same_nodes w t) (mbw_idr hw i sh msk s)"
    "yields (\<lambda>(v, t). same_nodes w t) (val_memory_supports_mbwmin hw i s)"
    "yields (\<lambda>(v, t). same_nodes w t) (val_memory_supports_mbwmax hw i s)"
    "yields (\<lambda>(v, t). same_nodes w t) (val_memory_supports_mbwpbm hw i s)"
    "yields (\<lambda>(v, t). same_nodes w t) (val_memory_mbwmin_width hw i s)"
    "yields (\<lambda>(v, t). same_nodes w t) (val_memory_mbwmax_width hw i s)"
    "yields (\<lambda>(v, t). same_nodes w t) (val_memory_mbwpbm_width hw i s)"
    "yields (\<lambda>(v, t). same_nodes w t) (val_cache_supports_cpor hw i s)"
    "yields (\<lambda>(v, t). same_nodes w t) (val_cache_supports_ccap hw i s)"
proof -
  have p: "yields (\<lambda>(v, t). same_nodes w t) (val_memory_supports_part hw i u)" if "same_nodes w u" for u
    unfolding val_memory_supports_part_def by (rule yields_pair [OF stay_queries(2) [OF that]]) simp
  have m: "yields (\<lambda>(v, t). same_nodes w t) (mbw_idr hw i sh msk s)" for sh msk
    unfolding mbw_idr_def by (rule stay_read_if [OF assms p])
  show "yields (\<lambda>(v, t). same_nodes w t) (val_memory_supports_part hw i s)" by (rule p [OF assms])
  show "yields (\<lambda>(v, t). same_nodes w t) (mbw_idr hw i sh msk s)" by (rule m)
  show "yields (\<lambda>(v, t). same_nodes w t) (val_memory_supports_mbwmin hw i s)"
    "yields (\<lambda>(v, t). same_nodes w t) (val_memory_supports_mbwmax hw i s)"
    "yields (\<lambda>(v, t). same_nodes w t) (val_memory_supports_mbwpbm hw i s)"
    "yields (\<lambda>(v, t). same_nodes w t) (val_memory_mbwmin_width hw i s)"
    "yields (\<lambda>(v, t). same_nodes w t) (val_memory_mbwmax_width hw i s)"
    "yields (\<lambda>(v, t). same_nodes w t) (val_memory_mbwpbm_width hw i s)"
    unfolding val_memory_supports_mbwmin_def val_memory_supports_mbwmax_def val_memory_supports_mbwpbm_def
      val_memory_mbwmin_width_def val_memory_mbwmax_width_def val_memory_mbwpbm_width_def
    by (rule yields_pair [OF m]; simp)+
  show "yields (\<lambda>(v, t). same_nodes w t) (val_cache_supports_cpor hw i s)"
    "yields (\<lambda>(v, t). same_nodes w t) (val_cache_supports_ccap hw i s)"
    unfolding val_cache_supports_cpor_def val_cache_supports_ccap_def
    by (rule yields_pair [OF stay_queries(2) [OF assms]]; simp)+
qed

lemma stay_has:
  "(\<And>u. same_nodes w u \<Longrightarrow> yields (\<lambda>(v, t). same_nodes w t) (supports hw i u)) \<Longrightarrow> same_nodes w s \<Longrightarrow>
     yields (\<lambda>(b, t). same_nodes w t) (has supports hw i s)"
  unfolding has_def by (rule yields_pair, assumption) simp

lemma stay_if_has:
  assumes "\<And>u. same_nodes w u \<Longrightarrow> yields (\<lambda>(v, t). same_nodes w t) (supports hw i u)"
    and "\<And>u. same_nodes w u \<Longrightarrow> yields (same_nodes w) (f u)" "same_nodes w s"
  shows "yields (same_nodes w) (if_has supports hw i f s)"
  unfolding if_has_def
  by (rule yields_pair, rule stay_has [of w supports hw i s], rule assms(1), assumption, rule assms(3), rule yields_if)
     (simp_all add: assms(2))

lemma stay_portion_loop: "same_nodes w (snd (portion_loop reg pt num index s)) = same_nodes w s"
  by (induction reg pt num index s rule: portion_loop.induct) (simp add: portion_loop.simps [of _ _ _ _ s for s])

lemma stay_portion_config: "same_nodes w s \<Longrightarrow> yields (same_nodes w) (portion_config reg pt num s)"
  using stay_portion_loop [of w reg pt num 0 s] by (auto simp: portion_config_def yields_def split_beta Let_def Option.bind_eq_Some_conv)

lemma stay_configure [stay]:
  assumes "same_nodes w s"
  shows "yields (same_nodes w) (val_memory_configure_mbwpbm hw i p c s)"
    "yields (same_nodes w) (val_memory_configure_mbwmin hw i p c s)"
    "yields (same_nodes w) (val_memory_configure_mbwmax hw i p h c s)"
    "yields (same_nodes w) (val_cache_configure_cpor hw i p c s)"
    "yields (same_nodes w) (val_cache_configure_ccap hw i p h c s)"
proof -
  have l: "yields (same_nodes w) (do { f \<leftarrow> limit_field n c; Some (g f) })" if "\<And>f. same_nodes w (g f)" for n c g
    using that by (auto simp: yields_def Option.bind_eq_Some_conv)
  note b = stay_queries(1) [OF assms]
  show "yields (same_nodes w) (val_memory_configure_mbwpbm hw i p c s)"
    unfolding val_memory_configure_mbwpbm_def
    by (rule yields_pair [OF b], rule yields_pair [OF stay_mbw(8)], assumption) (simp add: stay_portion_config)
  show "yields (same_nodes w) (val_memory_configure_mbwmin hw i p c s)"
    unfolding val_memory_configure_mbwmin_def
    by (rule yields_pair [OF b], rule yields_pair [OF stay_mbw(6)], assumption) (simp add: l Let_def)
  show "yields (same_nodes w) (val_memory_configure_mbwmax hw i p h c s)"
    unfolding val_memory_configure_mbwmax_def
    by (rule yields_pair [OF b], rule yields_pair [OF stay_mbw(7)], assumption) (simp add: l Let_def)
  have cw: "yields (\<lambda>(v, t). same_nodes w t) (val_cache_cpbm_width hw i u)" if "same_nodes w u" for u
    unfolding val_cache_cpbm_width_def by (rule yields_pair [OF stay_read_if [OF that stay_mbw(9)]]) simp_all
  show "yields (same_nodes w) (val_cache_configure_cpor hw i p c s)"
    unfolding val_cache_configure_cpor_def
    by (rule yields_pair [OF b], rule yields_pair [OF cw], assumption) (simp add: stay_portion_config)
  have mw: "yields (\<lambda>(v, t). same_nodes w t) (val_cache_cmax_width hw i u)" if "same_nodes w u" for u
    unfolding val_cache_cmax_width_def by (rule yields_pair [OF stay_read_if [OF that stay_mbw(10)]]) simp_all
  show "yields (same_nodes w) (val_cache_configure_ccap hw i p h c s)"
    unfolding val_cache_configure_ccap_def
    by (rule yields_pair [OF b], rule yields_pair [OF mw], assumption) (simp add: l Let_def)
qed


lemma stay_status [stay]:
  assumes "same_nodes w s"
  shows "yields (same_nodes w) (val_set_status i v s)" "yields (\<lambda>(v, t). same_nodes w t) (val_get_status hw i s)"
proof -
  show "yields (same_nodes w) (val_set_status i v s)"
    using assms val_set_status_run(1) by (fastforce simp: yields_def same_nodes_def)
  show "yields (\<lambda>(v, t). same_nodes w t) (val_get_status hw i s)"
    using assms by (auto simp: yields_def val_get_status_def Let_def Option.bind_eq_Some_conv same_nodes_def interfere_def
        val_data_cache_ops_by_va_def pal_pe_data_cache_ops_by_va_def)
qed

lemma stay_address [stay]: "same_nodes w s \<Longrightarrow> yields (\<lambda>(v, t). same_nodes w t) (val_allocate_address hw b n k s)"
  unfolding val_allocate_address_def using pal_mem_allocate_address_frame by (fastforce simp: yields_def same_nodes_def)

lemma stay_bufs_var [simp]:
  "same_nodes w (s\<lparr>gl := (gl s)\<lparr>gSharedMemCpyBuf := x\<rparr>\<rparr>) = same_nodes w s"
  "same_nodes w (s\<lparr>gl := (gl s)\<lparr>gSharedLatencyBuf := y\<rparr>\<rparr>) = same_nodes w s"
  "same_nodes w (s\<lparr>gl := (gl s)\<lparr>g_smc_args := a\<rparr>\<rparr>) = same_nodes w s"
  by (simp_all add: same_nodes_def)

lemma stay_free [stay]:
  assumes "same_nodes w s"
  shows "yields (same_nodes w) (val_mem_free_shared_memcpybuf hw k n s)"
    "yields (same_nodes w) (val_mem_free_shared_latencybuf hw k s)"
proof -
  have p: "yields (same_nodes w) (for_each (\<lambda>i s. do { bufs \<leftarrow> gSharedMemCpyBuf (gl s); b \<leftarrow> at bufs (unat i);
      Some (pal_mem_free_buf hw b n s) }) is' s)" for is' :: "u32 list"
    by (rule yields_for_each [where P = "same_nodes w"])
       (use assms in \<open>auto simp: yields_def Option.bind_eq_Some_conv pal_mem_free_buf_def\<close>)
  show "yields (same_nodes w) (val_mem_free_shared_memcpybuf hw k n s)"
    unfolding val_mem_free_shared_memcpybuf_def pal_mem_free_shared_memcpybuf_def
    by (rule yields_seq [OF p]) (auto simp: yields_def Option.bind_eq_Some_conv same_nodes_def)
  have l: "yields (same_nodes w) (for_each (\<lambda>i s. do { rows \<leftarrow> gSharedLatencyBuf (gl s); r \<leftarrow> at rows (unat i);
      Some (snd (firmware hw ''FreePool'' [case r of None \<Rightarrow> 0 | Some a \<Rightarrow> a] s)) }) is' s)" for is' :: "u32 list"
    by (rule yields_for_each [where P = "same_nodes w"]) (use assms in \<open>auto simp: yields_def Option.bind_eq_Some_conv\<close>)
  show "yields (same_nodes w) (val_mem_free_shared_latencybuf hw k s)"
    unfolding val_mem_free_shared_latencybuf_def pal_mem_free_shared_latencybuf_def
    by (rule yields_seq [OF l]) (auto simp: yields_def Option.bind_eq_Some_conv same_nodes_def)
qed

lemma stay_alloc_memcpybufs:
  "same_nodes w s \<Longrightarrow> yields (\<lambda>(v, t). same_nodes w t) (alloc_memcpybufs hw b n k is' s)"
proof (induction is' arbitrary: s)
  case Nil
  then show ?case by (simp add: same_nodes_def pal_pe_data_cache_ops_by_va_def)
next
  case (Cons i is')
  have f: "yields (\<lambda>(v, t). same_nodes w t) (do { t \<leftarrow> pal_mem_free_shared_memcpybuf hw i k u; Some (0 :: u8, t) })"
    if "same_nodes w u" for u
    by (rule yields_seq [OF stay_free(1) [unfolded val_mem_free_shared_memcpybuf_def, OF that]]) simp
  show ?case
    unfolding alloc_memcpybufs.simps Let_def
    by (rule yields_pair [OF stay_address [unfolded val_allocate_address_def, OF Cons.prems]],
        rule yields_seq [where P = "\<lambda>_. True"], simp add: yields_def, rule yields_if)
       (simp_all add: f Cons.IH)
qed

lemma stay_alloc [stay]:
  assumes "same_nodes w s"
  shows "yields (\<lambda>(v, t). same_nodes w t) (val_allocate_shared_memcpybuf hw b n k c s)"
    "yields (same_nodes w) (val_allocate_shared_latencybuf hw c d s)"
proof -
  show "yields (\<lambda>(v, t). same_nodes w t) (val_allocate_shared_memcpybuf hw b n k c s)"
    unfolding val_allocate_shared_memcpybuf_def pal_mem_allocate_shared_memcpybuf_def split_beta Let_def
    by (rule yields_if, use assms in simp, rule stay_alloc_memcpybufs [unfolded split_beta])
       (use assms in \<open>simp add: same_nodes_def\<close>)
  have r: "yields (same_nodes w) (alloc_latency_row hw d u)" if "same_nodes w u" for u
    using that by (auto simp: yields_def alloc_latency_row_def Option.bind_eq_Some_conv split_beta Let_def same_nodes_def)
  show "yields (same_nodes w) (val_allocate_shared_latencybuf hw c d s)"
    unfolding val_allocate_shared_latencybuf_def pal_mem_allocate_shared_latencybuf_def split_beta Let_def
    by (rule yields_seq [OF yields_for_each [OF r]])
       (use assms in \<open>auto simp: pal_pe_data_cache_ops_by_va_def\<close>)
qed

lemma stay_wake [stay]:
  assumes "same_nodes w s"
  shows "yields (same_nodes w) (val_execute_on_pe hw i p d s)"
proof -
  have m: "yields (\<lambda>(v, t). same_nodes w t) (val_pe_get_mpid_index i u)" if "same_nodes w u" for u
    using that by (auto simp: yields_def val_pe_get_mpid_index_def Option.bind_eq_Some_conv same_nodes_def split: if_splits)
  have d: "yields (same_nodes w) (val_set_test_data i p d u)" if "same_nodes w u" for u
    using that by (auto simp: yields_def val_set_test_data_def val_data_cache_ops_by_va_def
        pal_pe_data_cache_ops_by_va_def Option.bind_eq_Some_conv Let_def same_nodes_def split: if_splits)
  have once: "yields (same_nodes w) (psci_on_once hw i p d u)" if "same_nodes w u" for u
    unfolding psci_on_once_def Let_def
    by (rule yields_pair [OF m], simp add: that, rule yields_seq [OF d], simp)
       (simp add: pal_pe_execute_payload_def ArmCallSmc_def split_beta Let_def same_nodes_def)
  have loop: "yields (same_nodes w) (psci_on_loop hw i p d n u)" if "same_nodes w u" for n u
    using that
  proof (induction n arbitrary: u)
    case 0
    then show ?case unfolding psci_on_loop.simps [of _ _ _ _ 0] by (auto intro!: yields_seq [OF once])
  next
    case (Suc n)
    then show ?case unfolding psci_on_loop.simps [of _ _ _ _ "Suc n"] by (auto intro!: yields_seq [OF once])
  qed
  have st: "yields (same_nodes w) (val_set_status i v u)" if "same_nodes w u" for v u
    by (rule stay_status(1) [OF that])
  have rep: "same_nodes w (val_report_status i v u) = same_nodes w u" for v u
    by (rule same_nodes_gl) simp
  show ?thesis
    unfolding val_execute_on_pe_def Let_def
    by (rule yields_seq [where P = "\<lambda>_. True"], simp add: yields_def, rule yields_if, simp add: rep assms,
        rule yields_seq [OF loop [OF assms]], rule yields_if)
       (simp_all add: st)
qed

lemma stay_min: "(\<And>u. same_nodes w u \<Longrightarrow> yields (\<lambda>(v, t). same_nodes w t) (q u)) \<Longrightarrow> same_nodes w s \<Longrightarrow>
    yields (\<lambda>(v, t). same_nodes w t) (min_with y q s)"
  unfolding min_with_def by (rule yields_pair, assumption, rule yields_if) simp_all

lemma stay_scan_partids [stay]: "same_nodes w s \<Longrightarrow> yields (\<lambda>(v, t). same_nodes w t) (scan_partids hw ty is' p s)"
proof (induction is' arbitrary: p s)
  case (Cons i is')
  show ?case
    unfolding scan_partids.simps
    by (rule yields_pair, rule stay_min [OF stay_queries(3)], assumption, rule Cons.prems, rule Cons.IH)
qed simp

lemma stay_caches_unlimited [stay]:
  assumes "same_nodes w s"
  shows "yields (same_nodes w) (caches_unlimited hw is' p s)"
  unfolding caches_unlimited_def
proof (rule yields_for_each [where P = "same_nodes w"])
  show "same_nodes w s" by (rule assms)
  fix i u
  assume u: "same_nodes w u"
  show "yields (same_nodes w) (do {
      s \<leftarrow> if_has val_cache_supports_cpor hw i (val_cache_configure_cpor hw i p 100) u;
      if_has val_cache_supports_ccap hw i (val_cache_configure_ccap hw i p 0 100) s })"
    by (rule yields_seq, rule stay_if_has [OF stay_mbw(9)], assumption, rule stay_configure(4), assumption, rule u,
        rule stay_if_has [OF stay_mbw(10)], assumption, rule stay_configure(5))
qed

lemma stay_config_mpam [stay]:
  assumes "same_nodes w s"
  shows "yields (same_nodes w) (config_mpam_params hw v s)"
  unfolding config_mpam_params_def
  by (rule yields_pair [OF stay_lookup(3) [OF assms]], rule yields_pair [OF stay_lookup(3)], assumption,
      rule yields_pair [OF stay_scan_partids], assumption, rule yields_pair [OF stay_scan_partids], assumption,
      rule yields_seq [OF stay_caches_unlimited], assumption) simp


subsection \<open>The memory nodes of the machine\<close>

definition mem_env :: "hw \<Rightarrow> world \<Rightarrow> u32 \<Rightarrow> mpam_info \<Rightarrow> bool" where
  "mem_env hw w me m \<longleftrightarrow> cache_env hw w me m \<and> unat (num_memory_nodes m) = length (memory_node m)"

text \<open>The identification registers of a memory node always read the same.\<close>

definition mem_reg :: "hw \<Rightarrow> mpam_info \<Rightarrow> nat \<Rightarrow> u64 \<Rightarrow> history \<Rightarrow> u32" where
  "mem_reg hw m i r h = mmio_in hw h (mmio_addr (mn_hwreg_base (memory_node m ! i) + r))"

definition mbw_fixed :: "hw \<Rightarrow> mpam_info \<Rightarrow> bool" where
  "mbw_fixed hw m \<longleftrightarrow> (\<forall>i<length (memory_node m). \<forall>h.
     mem_reg hw m i REG_MPAMF_IDR h = mem_reg hw m i REG_MPAMF_IDR [] \<and>
     mem_reg hw m i REG_MPAMF_MBW_IDR h = mem_reg hw m i REG_MPAMF_MBW_IDR [])"

text \<open>Whether a memory node has bandwidth partitioning and, of it, the feature at a bit.\<close>

definition mbw_has :: "hw \<Rightarrow> mpam_info \<Rightarrow> nat \<Rightarrow> u32 \<Rightarrow> nat \<Rightarrow> bool" where
  "mbw_has hw m sh msk i \<longleftrightarrow>
     (ucast (field (mem_reg hw m i REG_MPAMF_IDR []) IDR_HAS_MBW_PART_SHIFT IDR_HAS_MBW_PART_MASK) :: u8) \<noteq> 0 \<and>
     (ucast (field (mem_reg hw m i REG_MPAMF_MBW_IDR []) sh msk) :: u8) \<noteq> 0"

abbreviation has_min :: "hw \<Rightarrow> mpam_info \<Rightarrow> nat \<Rightarrow> bool" where
  "has_min hw m \<equiv> mbw_has hw m MBW_IDR_HAS_MIN_SHIFT MBW_IDR_HAS_MIN_MASK"
abbreviation has_max :: "hw \<Rightarrow> mpam_info \<Rightarrow> nat \<Rightarrow> bool" where
  "has_max hw m \<equiv> mbw_has hw m MBW_IDR_HAS_MAX_SHIFT MBW_IDR_HAS_MAX_MASK"
abbreviation has_pbm :: "hw \<Rightarrow> mpam_info \<Rightarrow> nat \<Rightarrow> bool" where
  "has_pbm hw m \<equiv> mbw_has hw m MBW_IDR_HAS_PBM_SHIFT MBW_IDR_HAS_PBM_MASK"

definition tells :: "world \<Rightarrow> mpam_info \<Rightarrow> feature \<Rightarrow> (nat \<Rightarrow> bool) \<Rightarrow> bool" where
  "tells w m f P \<longleftrightarrow> (\<forall>i s. unat i < length (memory_node m) \<longrightarrow> same_nodes w s \<longrightarrow>
     yields (\<lambda>(b, t). same_nodes w t \<and> b = P (unat i)) (f i s))"

lemma same_index:
  assumes "cache_env hw w me m" "same_nodes w s"
  shows "my_index hw s = Some (me, log_io (SysRead ''arm64_read_mpidr'') s)"
  using my_index_same [of hw w me _ s] assms by (auto simp: cache_env_def same_nodes_def)

lemma mem_totals:
  assumes "mem_env hw w me m" "same_nodes w s"
  shows "yields (\<lambda>(k, t). same_nodes w t \<and> k = num_memory_nodes m) (val_node_get_total hw MPAM_NODE_MEMORY s)"
    "yields (\<lambda>(k, t). same_nodes w t \<and> k = num_cache_nodes m) (val_node_get_total hw MPAM_NODE_CACHE s)"
  using same_index [of hw w me m s] assms
  by (auto simp: yields_def mem_env_def cache_env_def val_node_get_total_def same_nodes_def reg_defs)

lemma mem_base:
  assumes "mem_env hw w me m" "same_nodes w s" "unat i < length (memory_node m)"
  shows "yields (\<lambda>(v, t). same_nodes w t \<and> v = mn_hwreg_base (memory_node m ! unat i)) (val_node_hwreg_base hw MPAM_NODE_MEMORY i s)"
  using same_index [of hw w me m s] assms
  by (auto simp: yields_def mem_env_def cache_env_def val_node_hwreg_base_def node_lookup_def same_nodes_def reg_defs)

lemma mem_features:
  assumes "mem_env hw w me m" "mbw_fixed hw m"
  shows "tells w m (has val_memory_supports_mbwmin hw) (has_min hw m)"
    "tells w m (has val_memory_supports_mbwmax hw) (has_max hw m)"
    "tells w m (has val_memory_supports_mbwpbm hw) (has_pbm hw m)"
proof -
  have f: "yields (\<lambda>(v, t). same_nodes w t \<and> ((ucast v :: u8) \<noteq> 0) = mbw_has hw m sh msk (unat i)) (mbw_idr hw i sh msk s)"
    if i: "unat i < length (memory_node m)" and s: "same_nodes w s" for i s sh msk
  proof -
    obtain a b where ids: "mem_reg hw m (unat i) REG_MPAMF_IDR h = a" "mem_reg hw m (unat i) REG_MPAMF_MBW_IDR h = b" for h
      using assms(2) i unfolding mbw_fixed_def by blast
    let ?part = "ucast (field a IDR_HAS_MBW_PART_SHIFT IDR_HAS_MBW_PART_MASK) :: u8"
    have part: "yields (\<lambda>(v, t). same_nodes w t \<and> v = ?part) (val_memory_supports_part hw i u)" if "same_nodes w u" for u
    proof -
      have "yields (\<lambda>(v, t). same_nodes w t \<and> v = a) (node_read hw MPAM_NODE_MEMORY i REG_MPAMF_IDR u)"
        unfolding node_read_def
        by (rule yields_pair [OF mem_base [OF assms(1) that i]]) (auto simp: split_beta ids(1) [unfolded mem_reg_def])
      then show ?thesis unfolding val_memory_supports_part_def by (rule yields_pair) simp
    qed
    show ?thesis
      unfolding mbw_idr_def read_if_def
      by (rule yields_pair [OF mem_base [OF assms(1) s i]], elim conjE, rule yields_pair [OF part], assumption)
         (auto simp: split_beta Let_def mbw_has_def ids ids(2) [unfolded mem_reg_def])
  qed
  have h: "yields (\<lambda>(b, t). same_nodes w t \<and> b = mbw_has hw m sh msk (unat i)) (has g hw i s)"
    if "g hw i s = do { (v, s) \<leftarrow> mbw_idr hw i sh msk s; Some (ucast v, s) }"
      and i: "unat i < length (memory_node m)" and s: "same_nodes w s" for g i s sh msk
  proof -
    have "yields (\<lambda>(v, t). same_nodes w t \<and> (v \<noteq> 0) = mbw_has hw m sh msk (unat i)) (g hw i s)"
      unfolding that(1) by (rule yields_pair [OF f [OF i s]]) simp
    then show ?thesis unfolding has_def by (rule yields_pair) simp
  qed
  show "tells w m (has val_memory_supports_mbwmin hw) (has_min hw m)"
    "tells w m (has val_memory_supports_mbwmax hw) (has_max hw m)"
    "tells w m (has val_memory_supports_mbwpbm hw) (has_pbm hw m)"
    unfolding tells_def
    by (intro allI impI h; simp add: val_memory_supports_mbwmin_def val_memory_supports_mbwmax_def
        val_memory_supports_mbwpbm_def)+
qed

lemma mem_nodes_known: "mem_env hw w me m \<Longrightarrow> i \<in> set (upto_u32 (num_memory_nodes m)) \<Longrightarrow> unat i < length (memory_node m)"
  by (simp add: mem_env_def set_upto_u32 word_less_nat_alt)

text \<open>Looking over the nodes counts those with the feature.\<close>

lemma scan_memory_counts:
  assumes "tells w m f P" "\<forall>i\<in>set is'. unat i < length (memory_node m)" "same_nodes w s"
    and "unat n + length is' < 2 ^ 32"
  shows "yields (\<lambda>((n', p'), t). same_nodes w t \<and> unat n' = unat n + length (filter (\<lambda>i. P (unat i)) is'))
    (scan_memory hw f is' (n, p) s)"
  using assms(2-4)
proof (induction is' arbitrary: n p s)
  case Nil
  then show ?case by simp
next
  case (Cons i is')
  have f: "yields (\<lambda>(b, t). same_nodes w t \<and> b = P (unat i)) (f i s)"
    using assms(1) Cons.prems by (simp add: tells_def)
  have u: "unat (n + 1) = unat n + 1" using Cons.prems(3) by (simp add: unat_word_ariths)
  show ?case
    unfolding scan_memory.simps
    by (rule yields_pair [OF f], elim conjE, hypsubst, rule yields_pair, rule stay_min [OF stay_queries(3)], assumption, assumption,
        rule yields_mono, rule Cons.IH)
       (use Cons.prems u in \<open>auto split: if_splits\<close>)
qed


subsection \<open>Tests 2 and 3 cannot pass\<close>

lemma status_yields: "yields (\<lambda>t. status_word i t = v) (val_set_status i v s)"
  using val_set_status_run(5) by (fastforce simp: yields_def)

lemma status_sysreg [simp]: "status_word i (val_sysreg_write q v s) = status_word i s"
  by (simp add: status_word_def val_sysreg_write_def write_sysreg_def split: sysreg_mpam_t.split)

lemma stay_others_pending: "same_nodes w s \<Longrightarrow> yields (\<lambda>(v, t). same_nodes w t) (others_pending hw me is' p s)"
proof (induction is' arbitrary: p s)
  case (Cons i is')
  show ?case
    unfolding others_pending.simps
    by (rule yields_if, rule yields_pair [OF stay_status(2) [OF Cons.prems]]) (simp_all add: Cons)
qed simp

lemma stay_off_loop: "same_nodes w s \<Longrightarrow> yields (\<lambda>(v, t). same_nodes w t) (off_loop hw me pes n s)"
proof (induction n arbitrary: s)
  case 0
  then show ?case
    unfolding off_loop.simps [of _ _ _ 0] by (rule yields_pair [OF stay_others_pending]) simp
next
  case (Suc n)
  show ?case
    unfolding off_loop.simps [of _ _ _ "Suc n"]
    by (rule yields_pair [OF stay_others_pending [OF Suc.prems]], rule yields_if) (simp_all add: Suc.IH)
qed

lemma stay_print_pending: "same_nodes w s \<Longrightarrow> yields (same_nodes w) (print_pending hw me is' s)"
proof (induction is' arbitrary: s)
  case (Cons i is')
  show ?case
    unfolding print_pending.simps
    by (rule yields_if, rule yields_pair [OF stay_status(2) [OF Cons.prems]]) (simp_all add: Cons)
qed simp

lemma stay_wait [stay]:
  assumes "same_nodes w s"
  shows "yields (\<lambda>(v, t). same_nodes w t) (wait_for_secondary_off hw me s)"
  unfolding wait_for_secondary_off_def Let_def
  by (rule yields_pair [OF stay_off_loop [OF assms]], rule yields_if, rule yields_seq [OF stay_print_pending]) simp_all

text \<open>What the two tests differ in keeps the tables, too.\<close>

definition sane_bw :: "hw \<Rightarrow> world \<Rightarrow> bw_test \<Rightarrow> bool" where
  "sane_bw hw w bt \<longleftrightarrow> (\<forall>i p c s. same_nodes w s \<longrightarrow>
     yields (same_nodes w) (bw_limit bt hw i p c s) \<and> yields (same_nodes w) (other_unlimited bt hw p i s))"

lemma bw_tests_sane: "sane_bw hw w d002_test" "sane_bw hw w d003_test"
  by (auto simp: sane_bw_def d002_test_def d003_test_def intro: stay_configure stay_if_has stay_mbw)

lemma bw_tests_simps [simp]:
  "bw_num d002_test = 42" "bw_feature d002_test = has val_memory_supports_mbwmin"
  "bw_num d003_test = 43" "bw_feature d003_test = has val_memory_supports_mbwmax"
  by (simp_all add: d002_test_def d003_test_def ACS_MEMORY_TEST_NUM_BASE_def)

lemma stay_contended_copy:
  assumes "sane_bw hw w bt" "same_nodes w s"
  shows "yields (\<lambda>(v, t). same_nodes w t) (contended_copy hw bt addr me p i src dest k c b s)"
proof -
  have wake: "yields (same_nodes w) (for_each (\<lambda>i s. if i \<noteq> me
      then do { s \<leftarrow> val_set_status i v s; val_execute_on_pe hw i addr 0 s } else Some s) is' u)"
    if "same_nodes w u" for v is' u
    by (rule yields_for_each [where P = "same_nodes w"], rule yields_if, rule yields_seq [OF stay_status(1)])
       (use that in \<open>auto intro: stay_wake\<close>)
  have lim: "yields (same_nodes w) (bw_limit bt hw i p c s)" using assms by (simp add: sane_bw_def)
  show ?thesis
    unfolding contended_copy_def Let_def set_flag_def split_beta fst_conv snd_conv
    by (rule yields_seq [OF lim], rule yields_seq [OF wake], simp, rule yields_if, simp,
        rule yields_seq [OF stay_wait]) (auto simp: split_beta)
qed

lemma secondary_pending_fails: "yields (\<lambda>t. status_word me t = RESULT_FAIL (bw_num bt) 1) (secondary_pending hw bt me v k s)"
  unfolding secondary_pending_def Let_def
  by (rule yields_seq [where P = "\<lambda>_. True"], simp add: yields_def, rule yields_seq [where P = "\<lambda>_. True"], simp add: yields_def)
     (rule status_yields)

definition bw_left :: "world \<Rightarrow> u32 \<Rightarrow> bw_test \<Rightarrow> u32 \<Rightarrow> (bw_state \<times> u32) option \<times> world \<Rightarrow> bool" where
  "bw_left w me bt c rt \<longleftrightarrow> (case rt of
     (None, t) \<Rightarrow> status_word me t = RESULT_FAIL (bw_num bt) 1
   | (Some (b, c'), t) \<Rightarrow> same_nodes w t \<and> c' = c)"

lemma bw_left_simps [simp]:
  "bw_left w me bt c (None, t) \<longleftrightarrow> status_word me t = RESULT_FAIL (bw_num bt) 1"
  "bw_left w me bt c (Some bc, t) \<longleftrightarrow> same_nodes w t \<and> snd bc = c"
  by (auto simp: bw_left_def split: prod.splits)

lemma bw_node_left:
  assumes "sane_bw hw w bt" "tells w m (bw_feature bt hw) P" "unat i < length (memory_node m)" "same_nodes w s"
  shows "yields (bw_left w me bt (if P (unat i) then 2 else snd bc)) (bw_node hw bt addr me p v k i bc s)"
proof -
  have f: "yields (\<lambda>(b, t). same_nodes w t \<and> b = P (unat i)) (bw_feature bt hw i s)"
    using assms(2-4) by (simp add: tells_def)
  have oth: "yields (same_nodes w) (other_unlimited bt hw p i u)" if "same_nodes w u" for u
    using assms(1) that by (simp add: sane_bw_def)
  have stop: "yields (bw_left w me bt c) (do { s \<leftarrow> val_set_status me (RESULT_FAIL (bw_num bt) 1) u;
      Some (None, val_sysreg_write MPAM2_SYSREG v s) })" for c u
    by (rule yields_seq [OF status_yields]) simp
  have pend: "yields (bw_left w me bt c) (do { s \<leftarrow> secondary_pending hw bt me v k u; Some (None, s) })" for c u
    by (rule yields_seq [OF secondary_pending_fails]) simp
  show ?thesis
    unfolding bw_node_def Let_def
    by (rule yields_pair [OF f], elim conjE, hypsubst, rule yields_if, simp,
        rule yields_seq [OF stay_configure(1)], assumption,
        rule yields_seq [OF oth], assumption,
        rule yields_pair [OF stay_queries(4)], assumption,
        rule yields_pair [OF stay_queries(5)], assumption,
        rule yields_pair [OF stay_alloc(1)], assumption,
        rule yields_if, rule stop,
        rule yields_seq [where P = "\<lambda>_. True"], simp add: yields_def,
        rule yields_pair [OF stay_contended_copy [OF assms(1)]], simp,
        simp only: split_paired_all prod.case, rule yields_if, rule pend,
        rule yields_pair [OF stay_contended_copy [OF assms(1)]], assumption,
        simp only: split_paired_all prod.case, rule yields_if, rule pend,
        rule yields_seq [OF stay_free(1)], assumption) simp
qed

lemma bw_nodes_left:
  assumes "sane_bw hw w bt" "tells w m (bw_feature bt hw) P" "\<forall>i\<in>set is'. unat i < length (memory_node m)" "same_nodes w s"
  shows "yields (bw_left w me bt (if \<exists>i\<in>set is'. P (unat i) then 2 else snd bc))
    (until_returned (bw_node hw bt addr me p v k) is' bc s)"
  using assms(3,4)
proof (induction is' arbitrary: bc s)
  case Nil
  then show ?case by simp
next
  case (Cons i is')
  have n: "yields (bw_left w me bt (if P (unat i) then 2 else snd bc)) (bw_node hw bt addr me p v k i bc s)"
    by (rule bw_node_left [OF assms(1,2)]) (use Cons.prems in auto)
  show ?case
    unfolding until_returned.simps
  proof (rule yields_seq [OF n], clarify)
    fix r t
    assume x: "bw_left w me bt (if P (unat i) then 2 else snd bc) (r, t)"
    show "yields (bw_left w me bt (if \<exists>i\<in>set (i # is'). P (unat i) then 2 else snd bc))
        (case r of None \<Rightarrow> Some (None, t) | Some a \<Rightarrow> until_returned (bw_node hw bt addr me p v k) is' a t)"
    proof (cases r)
      case None
      then show ?thesis using x by simp
    next
      case (Some bc')
      then show ?thesis using x Cons.IH [of t bc'] Cons.prems by (auto split: if_splits)
    qed
  qed
qed

text \<open>The comparison reads outside the rows as soon as a node has the feature.\<close>

lemma limit_ignored_undefined:
  assumes "tells w m (bw_feature bt hw) P" "\<forall>i\<in>set is'. unat i < length (memory_node m)" "same_nodes w s"
    and "\<exists>i\<in>set is'. P (unat i)"
  shows "yields (\<lambda>_. False) (limit_ignored hw bt b 2 is' s)"
  using assms(2-4)
proof (induction is' arbitrary: s)
  case Nil
  then show ?case by simp
next
  case (Cons i is')
  have f: "yields (\<lambda>(b, t). same_nodes w t \<and> b = P (unat i)) (bw_feature bt hw i s)"
    using assms(1) Cons.prems by (simp add: tells_def)
  have at: "yields (\<lambda>(v, t). same_nodes w t \<and> \<not> v \<and> \<not> P (unat i)) (limit_ignored_at hw bt b 2 i 1 s)"
    unfolding One_nat_def limit_ignored_at.simps
    by (rule yields_pair [OF f]) (simp add: get_latency_def latency_ok_def SCENARIO_MAX_def)
  show ?case
    unfolding limit_ignored.simps
    by (rule yields_pair [where P = "\<lambda>v t. same_nodes w t \<and> \<not> v \<and> \<not> P (unat i)"])
       (use at Cons in \<open>auto simp: numeral_2_eq_2\<close>)
qed

lemma payload_primary_verdict:
  assumes "mem_env hw w me m" "sane_bw hw w bt" "tells w m (bw_feature bt hw) P"
  shows "yields (\<lambda>t. status_word me t =
      (if \<exists>i<length (memory_node m). P i then RESULT_FAIL (bw_num bt) 1 else RESULT_SKIP (bw_num bt) 0))
    (payload_primary bt addr b hw w)"
proof -
  let ?n = "upto_u32 (num_memory_nodes m)"
  have up: "\<forall>i\<in>set ?n. unat i < length (memory_node m)" using mem_nodes_known [OF assms(1)] by blast
  have all: "(\<exists>i\<in>set ?n. P (unat i)) \<longleftrightarrow> (\<exists>i<length (memory_node m). P i)"
    using assms(1) unat_of_nat_atmost [OF less_imp_le, of _ "num_memory_nodes m"]
    by (auto simp: upto_u32_def mem_env_def)
  have "length ?n < 2 ^ 32" using unsigned_less [of "num_memory_nodes m"] by (simp add: upto_u32_def)
  then have scan: "yields (\<lambda>((n, p), t). same_nodes w t \<and> (n = 0) = (\<not> (\<exists>i<length (memory_node m). P i)))
      (scan_memory hw (bw_feature bt hw) ?n (0, q) s)" if "same_nodes w s" for q s
    by (intro yields_mono [OF scan_memory_counts [OF assms(3) up that]])
       (auto simp: all [symmetric] filter_empty_conv unat_eq_zero [symmetric] simp del: unat_eq_zero)
  have v: "yields (\<lambda>t. status_word me t = RESULT_FAIL (bw_num bt) 1) (bw_verdict hw bt me x (num_memory_nodes m) r t)"
    if "bw_left w me bt 2 (r, t)" "\<exists>i\<in>set ?n. P (unat i)" for r t x
  proof (cases r)
    case None
    then show ?thesis using that by (simp add: bw_verdict_def)
  next
    case (Some bc)
    have left: "bw_left w me bt 2 (Some bc, t)" using that(1) by (simp add: Some)
    obtain b' where r: "r = Some (b', 2)" "same_nodes w t" using left by (cases bc) (auto simp: Some)
    show ?thesis
      unfolding bw_verdict_def r(1) option.case prod.case Let_def
      by (rule yields_seq [OF limit_ignored_undefined [OF assms(3) up _ that(2)]]) (simp_all add: r(2))
  qed
  have tail: "yields (\<lambda>t. status_word me t = RESULT_FAIL (bw_num bt) 1)
      (do { (r, s) \<leftarrow> until_returned (bw_node hw bt addr me p x (num_memory_nodes m)) ?n (b, 0) s;
            bw_verdict hw bt me x (num_memory_nodes m) r s })"
    if "\<exists>i\<in>set ?n. P (unat i)" "same_nodes w s" for p x s
    unfolding split_beta
    by (rule yields_seq [OF bw_nodes_left [OF assms(2,3) up that(2)]], rule v) (use that(1) in auto)
  have i: "yields (\<lambda>(i, t). same_nodes w t \<and> i = me) (my_index hw w)"
    using same_index [of hw w me m w] assms(1) by (simp add: mem_env_def)
  show ?thesis
    unfolding payload_primary_def Let_def
    by (rule yields_pair [OF i], elim conjE, hypsubst,
        rule yields_pair [OF mem_totals(2) [OF assms(1)]], assumption, elim conjE, hypsubst,
        rule yields_pair [OF mem_totals(1) [OF assms(1)]], assumption, elim conjE, hypsubst,
        rule yields_pair [OF scan], assumption, clarsimp split del: if_split,
        rule yields_pair [OF stay_scan_partids], assumption, rule yields_if,
        rule yields_mono [OF status_yields], force,
        rule yields_seq [OF stay_alloc(2)], assumption, simp add: split_beta,
        rule yields_seq [OF stay_config_mpam], simp)
       (use tail all in \<open>auto simp: split_beta\<close>)
qed


text \<open>Without memory nodes the tests do return.\<close>

lemma scan_partids_calm:
  assumes "cache_env hw w me m" "\<forall>i\<in>set is'. unat i < length (cache_node m)" "calm w x s"
  shows "returns (\<lambda>(p, t). calm w x t) (scan_partids hw MPAM_NODE_CACHE is' p s)"
  using assms(2,3)
proof (induction is' arbitrary: p s)
  case (Cons i is')
  then have i: "unat i < length (cache_node m)" by simp
  show ?case
    unfolding scan_partids.simps
    by (rule returns_seq_pair [OF minmax_calm(2) [OF cache_queries_calm(2) [OF assms(1) _ i] Cons.prems(2)]], assumption)
       (use Cons in simp)
qed simp

lemma no_memory_nodes_return:
  assumes "mem_env hw w me m" "num_memory_nodes m = 0"
  shows "\<exists>t. payload_primary bt addr b hw w = Some t"
proof -
  have e: "cache_env hw w me m" using assms(1) by (simp add: mem_env_def)
  have mem: "returns (\<lambda>(k, t). k = 0 \<and> calm w x t) (val_node_get_total hw MPAM_NODE_MEMORY s)" if "calm w x s" for x s
    using my_index_same [of hw w me _ s] e that assms(2)
    by (auto simp: cache_env_def calm_def val_node_get_total_def reg_defs)
  have st: "returns (\<lambda>_. True) (val_set_status me v s)" if "calm w x s" for v x s
    using e that val_set_status_defined [where i = me and v = v and s = s] by (auto simp: returns_def cache_env_def calm_def shared_size_def)
  have "returns (\<lambda>_. True) (payload_primary bt addr b hw w)"
    unfolding payload_primary_def Let_def
    by (rule returns_seq_pair [OF my_index_calm [OF e calm_refl]], elim conjE, hypsubst,
        rule returns_seq_pair [OF total_calm [OF e]], assumption, elim conjE, hypsubst,
        rule returns_seq_pair [OF mem], assumption, elim conjE, hypsubst, simp,
        rule returns_seq_pair [OF scan_partids_calm [OF e]], use nodes_known [OF e] in blast, assumption)
       (simp add: st)
  then show ?thesis by (simp add: returns_def)
qed

text \<open>C20: 
  The two tests with bandwidth limits cannot pass. Both scenarios are measured, and then the
  cells 2 and 3 of rows of two cells are compared: a run that does not read outside its rows has
  failed before the comparison, or was skipped for want of a memory node with the feature.
\<close>

theorem bandwidth_tests_cannot_pass:
  assumes "mem_env hw s me m" "mbw_fixed hw m"
    and "(n, P, payload) \<in> set [(42, has_min hw m, payload_d002 addr b), (43, has_max hw m, payload_d003 addr b)]"
    and "payload hw s = Some t"
  shows "status_word me t = (if \<exists>i<length (memory_node m). P i then RESULT_FAIL n 1 else RESULT_SKIP n 0)"
proof -
  note f = mem_features [OF assms(1,2)]
  have d2: "yields (\<lambda>t. status_word me t = (if \<exists>i<length (memory_node m). has_min hw m i then RESULT_FAIL 42 1 else RESULT_SKIP 42 0))
      (payload_d002 addr b hw s)"
    unfolding payload_d002_def
    by (rule payload_primary_verdict [OF assms(1) bw_tests_sane(1), unfolded bw_tests_simps, OF f(1)])
  have d3: "yields (\<lambda>t. status_word me t = (if \<exists>i<length (memory_node m). has_max hw m i then RESULT_FAIL 43 1 else RESULT_SKIP 43 0))
      (payload_d003 addr b hw s)"
    unfolding payload_d003_def
    by (rule payload_primary_verdict [OF assms(1) bw_tests_sane(2), unfolded bw_tests_simps, OF f(2)])
  show ?thesis using assms(3,4) d2 d3 by (auto simp: yields_def)
qed

lemma cache_world_mem: "mem_env cache_hw cache_world 0 the_info" "mbw_fixed cache_hw the_info" "memory_node the_info = []"
proof -
  show n: "memory_node the_info = []" by (simp add: the_info_def one_node_world_def)
  show "mem_env cache_hw cache_world 0 the_info" using cache_world_env by (simp add: mem_env_def the_info_eq n)
  show "mbw_fixed cache_hw the_info" by (simp add: mbw_fixed_def n)
qed

lemma bandwidth_tests_cannot_pass_witness:
  "\<exists>t. payload_d002 0 \<lparr>latency = \<lambda>_ _. 0, contend_flag = 0\<rparr> cache_hw cache_world = Some t \<and> status_word 0 t = RESULT_SKIP 42 0"
proof -
  let ?b = "\<lparr>latency = \<lambda>_ _. 0, contend_flag = 0\<rparr>"
  obtain t where t: "payload_d002 0 ?b cache_hw cache_world = Some t"
    using no_memory_nodes_return [OF cache_world_mem(1) the_info_eq(3)] unfolding payload_d002_def by blast
  have "(42 :: u32, has_min cache_hw the_info, payload_d002 0 ?b) \<in> set [(42, has_min cache_hw the_info, payload_d002 0 ?b),
      (43, has_max cache_hw the_info, payload_d003 0 ?b)]" by simp
  from bandwidth_tests_cannot_pass [OF cache_world_mem(1,2) this t] t show ?thesis by (simp add: cache_world_mem(3))
qed


subsection \<open>Test 1 writes past its table\<close>

definition kept_or :: "(world \<Rightarrow> bool) \<Rightarrow> ('a \<Rightarrow> world \<Rightarrow> bool) \<Rightarrow> 'a option \<times> world \<Rightarrow> bool" where
  "kept_or E I rt \<longleftrightarrow> (case fst rt of None \<Rightarrow> E (snd rt) | Some a \<Rightarrow> I a (snd rt))"

lemma kept_or_simps [simp]: "kept_or E I (None, t) = E t" "kept_or E I (Some a, t) = I a t"
  by (simp_all add: kept_or_def)

text \<open>A loop that counts up by what each round adds.\<close>

lemma until_returned_sum:
  assumes "\<And>i a c s. i \<in> set is' \<Longrightarrow> I c a s \<Longrightarrow> yields (kept_or E (I (c + g i))) (f i a s)" "I c a s"
  shows "yields (kept_or E (I (c + sum_list (map g is')))) (until_returned f is' a s)"
  using assms
proof (induction is' arbitrary: a c s)
  case Nil
  then show ?case by simp
next
  case (Cons i is')
  show ?case
    unfolding until_returned.simps
  proof (rule yields_seq [OF Cons.prems(1) [of i c a s]])
    fix rt
    assume x: "kept_or E (I (c + g i)) rt"
    show "yields (kept_or E (I (c + sum_list (map g (i # is')))))
        (case rt of (r, s) \<Rightarrow> (case r of None \<Rightarrow> Some (None, s) | Some a \<Rightarrow> until_returned f is' a s))"
    proof (cases rt)
      case (Pair r t)
      then show ?thesis
        using x Cons.IH [of "c + g i" _ t] Cons.prems(1) by (cases r) (auto simp: add.assoc)
    qed
  qed (use Cons.prems in auto)
qed

definition rows_used :: "world \<Rightarrow> nat \<Rightarrow> latency_table \<times> u8 \<Rightarrow> world \<Rightarrow> bool" where
  "rows_used w c Lk t \<longleftrightarrow> same_nodes w t \<and> length (lrows (fst Lk)) = MBWPBM_SCENARIO_MAX \<and>
     unat (snd Lk) = c \<and> c \<le> MBWPBM_SCENARIO_MAX"

lemma write_latency_some: "write_latency L k i v = Some L' \<Longrightarrow> k < length (lrows L) \<and> lrows L' = lrows L"
  by (auto simp: write_latency_def lcell_ok_def split: if_splits)

lemma alloc_latency_rows:
  assumes "same_nodes w s"
  shows "yields (\<lambda>(L, t). same_nodes w t \<and> length (lrows L) = MBWPBM_SCENARIO_MAX) (alloc_latency hw k junk s)"
proof -
  have "yields (\<lambda>(M, t). same_nodes w t \<and> length (lrows M) = length (lrows L) + n) (alloc_lrows hw p n L u)"
    if "same_nodes w u" for p n L u
    using that
  proof (induction n arbitrary: L u)
    case 0
    then show ?case by simp
  next
    case (Suc n)
    show ?case
      unfolding alloc_lrows.simps Let_def split_beta
      by (rule yields_seq [where P = "\<lambda>_. True"], simp add: yields_def, rule yields_mono, rule Suc.IH)
         (use Suc.prems in \<open>auto simp: split_beta\<close>)
  qed
  then show ?thesis
    unfolding alloc_latency_def Let_def split_beta by (rule yields_mono) (use assms in \<open>auto simp: split_beta\<close>)
qed

abbreviation d001_failed :: "u32 \<Rightarrow> world \<Rightarrow> bool" where
  "d001_failed me t \<equiv> status_word me t = RESULT_FAIL (TEST_D 1) 1"

lemma portion_scenario_rows:
  assumes "tells w m (has val_memory_supports_mbwpbm hw) P" "unat i < length (memory_node m)" "rows_used w c Lk s"
  shows "yields (kept_or (d001_failed me) (rows_used w (c + (if P (unat i) then 1 else 0))))
    (portion_scenario hw me p v pc n k i Lk s)"
proof -
  have s: "same_nodes w s" using assms(3) by (simp add: rows_used_def)
  have f: "yields (\<lambda>(b, t). same_nodes w t \<and> b = P (unat i)) (has val_memory_supports_mbwpbm hw i s)"
    using assms(1,2) s by (simp add: tells_def)
  have stop: "yields (kept_or (d001_failed me) I) (do { s \<leftarrow> val_set_status me (RESULT_FAIL (TEST_D 1) 1) u;
      Some (None, val_sysreg_write MPAM2_SYSREG v s) })" for I :: "latency_table \<times> u8 \<Rightarrow> world \<Rightarrow> bool" and u
    by (rule yields_seq [OF status_yields]) simp
  have next_row: "rows_used w (c + 1) (L, snd Lk + 1) t" if "write_latency (fst Lk) (unat (snd Lk)) i l = Some L" "same_nodes w t" for L l t
  proof -
    have "unat (snd Lk) < MBWPBM_SCENARIO_MAX" "lrows L = lrows (fst Lk)"
      using write_latency_some [OF that(1)] assms(3) by (auto simp: rows_used_def)
    then show ?thesis using assms(3) that(2) by (auto simp: rows_used_def unat_word_ariths MBWPBM_SCENARIO_MAX_def)
  qed
  show ?thesis
    unfolding portion_scenario_def Let_def
    by (rule yields_pair [OF f], elim conjE, hypsubst, rule yields_if, use assms(3) in \<open>simp add: rows_used_def\<close>,
        rule yields_seq [OF stay_configure(1)], assumption,
        rule yields_seq [OF stay_if_has [OF stay_mbw(3) stay_configure(2)]], assumption, assumption, assumption,
        rule yields_seq [OF stay_if_has [OF stay_mbw(4) stay_configure(3)]], assumption, assumption, assumption,
        rule yields_pair [OF stay_queries(4)], assumption, rule yields_pair [OF stay_queries(5)], assumption,
        rule yields_pair [OF stay_address], assumption,
        rule yields_pair [OF stay_queries(4)], assumption, rule yields_pair [OF stay_queries(5)], assumption,
        rule yields_pair [OF stay_address], assumption,
        rule yields_if, rule stop, simp only: split_beta,
        rule yields_seq [where P = "\<lambda>L. \<exists>l. write_latency (fst Lk) (unat (snd Lk)) i l = Some L"])
       (use next_row in \<open>auto simp: yields_def\<close>)
qed

lemma portion_scenarios_rows:
  assumes "tells w m (has val_memory_supports_mbwpbm hw) P" "\<forall>i\<in>set nodes. unat i < length (memory_node m)"
    and "same_nodes w s" "length (lrows L) = MBWPBM_SCENARIO_MAX"
  shows "yields (kept_or (d001_failed me) (rows_used w (2 * length (filter (\<lambda>i. P (unat i)) nodes))))
    (portion_scenarios hw me p v nodes L s)"
proof -
  let ?N = "length (filter (\<lambda>i. P (unat i)) nodes)"
  have sum: "sum_list (map (\<lambda>i. if P (unat i) then 1 else 0) nodes) = ?N"
    by (induction nodes) simp_all
  have nodes: "yields (kept_or (d001_failed me) (rows_used w (c + ?N))) (until_returned (portion_scenario hw me p v pc n k) nodes Lk u)"
    if "rows_used w c Lk u" for c pc n k Lk u
    unfolding sum [symmetric]
    by (rule until_returned_sum [where I = "rows_used w"], rule portion_scenario_rows [OF assms(1)])
       (use assms(2) that in auto)
  have "yields (kept_or (d001_failed me) (rows_used w (0 + sum_list (map (\<lambda>x. case x of (_, _, _, e) \<Rightarrow> if e then ?N else 0)
      mbwpbm_config_data)))) (portion_scenarios hw me p v nodes L s)"
    unfolding portion_scenarios_def
    by (rule until_returned_sum [where I = "rows_used w"])
       (use nodes assms(3,4) in \<open>auto simp: rows_used_def [of _ 0] split: prod.splits\<close>)
  then show ?thesis by (simp add: mbwpbm_config_data_def mult_2)
qed

text \<open>C21: 
  The first test takes a new row of its table for every node instead of every scenario. With
  six or more nodes that have bandwidth portions the ten rows are not enough, and the test
  writes behind the array of row pointers, unless it fails before for want of memory.
\<close>

theorem portion_test_overflow:
  assumes "mem_env hw s me m" "mbw_fixed hw m" "5 < length (filter (has_pbm hw m) [0..<length (memory_node m)])"
  shows "payload_d001 junk hw s = None \<or> (\<exists>t. payload_d001 junk hw s = Some t \<and> status_word me t = RESULT_FAIL 41 1)"
proof -
  let ?n = "upto_u32 (num_memory_nodes m)" and ?P = "has_pbm hw m"
  note tl = mem_features(3) [OF assms(1,2)]
  have up: "\<forall>i\<in>set ?n. unat i < length (memory_node m)" using mem_nodes_known [OF assms(1)] by blast
  have nodes: "[0..<length (memory_node m)] = map unat ?n"
    using assms(1) unat_of_nat_atmost [OF less_imp_le, of _ "num_memory_nodes m"]
    by (auto simp: upto_u32_def mem_env_def intro!: map_idI [symmetric])
  have many: "5 < length (filter (\<lambda>i. ?P (unat i)) ?n)"
    using assms(3) unfolding nodes by (simp add: filter_map comp_def)
  have "length ?n < 2 ^ 32" using unsigned_less [of "num_memory_nodes m"] by (simp add: upto_u32_def)
  then have scan: "yields (\<lambda>((n, p), t). same_nodes s t \<and> n \<noteq> 0)
      (scan_memory hw (has val_memory_supports_mbwpbm hw) ?n (0, q) u)" if "same_nodes s u" for q u
    by (intro yields_mono [OF scan_memory_counts [OF tl up that]]) (use many in auto)
  have v: "yields (d001_failed me) (portion_verdict hw me x ?n r t)"
    if "kept_or (d001_failed me) (rows_used s (2 * length (filter (\<lambda>i. ?P (unat i)) ?n))) (r, t)" for r t x
    using that many by (cases r) (auto simp: portion_verdict_def rows_used_def MBWPBM_SCENARIO_MAX_def)
  have i: "yields (\<lambda>(i, t). same_nodes s t \<and> i = me) (my_index hw s)"
    using same_index [of hw s me m s] assms(1) by (simp add: mem_env_def)
  have "yields (d001_failed me) (payload_d001 junk hw s)"
    unfolding payload_d001_def Let_def
    by (rule yields_pair [OF i], elim conjE, hypsubst,
        rule yields_pair [OF mem_totals(2) [OF assms(1)]], assumption, elim conjE, hypsubst,
        rule yields_pair [OF mem_totals(1) [OF assms(1)]], assumption, elim conjE, hypsubst,
        rule yields_pair [OF scan], assumption, simp only: split_paired_all prod.case, elim conjE,
        rule yields_pair [OF stay_scan_partids], assumption, rule yields_if, blast,
        rule yields_seq [OF stay_caches_unlimited], simp,
        rule yields_pair [OF alloc_latency_rows], assumption, elim conjE, simp only: split_beta,
        rule yields_seq [OF portion_scenarios_rows [OF tl up]], simp, assumption,
        simp only: split_paired_all prod.case, rule v)
  then show ?thesis by (cases "payload_d001 junk hw s") (simp_all add: ACS_MEMORY_TEST_NUM_BASE_def)
qed


text \<open>A machine with six memory nodes that have all features.\<close>

definition six_info :: mpam_info where
  "six_info = the_info\<lparr>num_memory_nodes := 6, memory_node := replicate 6
     \<lparr>proximity_domain = 0, base_address = 0x80000000, mlength = 0x10000000, flags = 1, mn_hwreg_base = 0x70000000,
      mn_not_ready_max_us = 0, mn_intr = \<lparr>error_intr_num = 50, overflow_intr_num = 51, error_intr_type = 0,
      overflow_intr_type = 0\<rparr>\<rparr>\<rparr>"

definition six_world :: world where
  "six_world = cache_world\<lparr>gl := (gl cache_world)\<lparr>g_mpam_info_table := Some [six_info]\<rparr>\<rparr>"

definition six_hw :: hw where
  "six_hw = cache_hw\<lparr>mmio_in := \<lambda>h a. 0xFFFFFFFF\<rparr>"

lemma six_env: "mem_env six_hw six_world 0 six_info"
proof -
  have "my_index six_hw six_world = Some (0, log_io (SysRead ''arm64_read_mpidr'') six_world)"
    by (rule my_index_eq) (simp add: affx_def val_pe_get_index_mpid_def six_world_def cache_world_def one_node_world_def
        two_pe_world_def six_hw_def cache_hw_def ram_hw_def)
  then show ?thesis
    by (simp add: mem_env_def cache_env_def six_world_def six_info_def the_info_eq shared_size_def cache_world_def)
qed

lemma portion_test_overflow_witness:
  "payload_d001 (\<lambda>_ _. 0) six_hw six_world = None \<or>
     (\<exists>t. payload_d001 (\<lambda>_ _. 0) six_hw six_world = Some t \<and> status_word 0 t = RESULT_FAIL 41 1)"
proof (rule portion_test_overflow [OF six_env])
  show "mbw_fixed six_hw six_info" by (simp add: mbw_fixed_def mem_reg_def six_hw_def)
  have "has_pbm six_hw six_info i" for i
    by (simp add: mbw_has_def mem_reg_def six_hw_def field_def reg_defs)
  then show "5 < length (filter (has_pbm six_hw six_info) [0..<length (memory_node six_info)])"
    by (simp add: six_info_def)
qed

subsection \<open>Waiting for the other PEs\<close>

lemma others_off:
  assumes "quiet_peers hw" "\<forall>i\<in>set is'. unat i < shared_size s \<and> (i \<noteq> me \<longrightarrow> \<not> IS_RESULT_PENDING (status_word i s))"
  shows "\<exists>t. others_pending hw me is' False s = Some (False, t) \<and> shared t = shared s"
  using assms(2)
proof (induction is' arbitrary: s)
  case Nil
  then show ?case by simp
next
  case (Cons i is')
  let ?s = "log_io (CacheOp (LShared (unat i) ''status'') INVALIDATE) s"
  have same: "shared ?s = shared s" "shared_size ?s = shared_size s" by (simp_all add: shared_size_def)
  have st: "status_word j ?s = status_word j s" for j by (rule status_word_cong) simp
  from Cons.IH [of ?s] Cons.IH [of s] Cons.prems show ?case
    using val_get_status_quiet [OF assms(1), of i s] by (auto simp: same st)
qed

lemma off_timeout_zero: "off_timeout n = 0 \<longleftrightarrow> 256 dvd unat n"
proof -
  have "unat (n * TIMEOUT_LARGE) < 2 ^ LENGTH(64)" by (rule unsigned_less [THEN order.strict_trans2]) simp
  then have "off_timeout n = 0 \<longleftrightarrow> n * TIMEOUT_LARGE = 0"
    using unat_ucast_small [of "n * TIMEOUT_LARGE", where 'b = 64] by (simp add: off_timeout_def word_unat_eq_iff)
  also have "\<dots> \<longleftrightarrow> (2 ^ 32 :: nat) dvd unat n * 2 ^ 24"
    by (simp add: word_unat_eq_iff unat_word_ariths TIMEOUT_LARGE_def mod_eq_0_iff_dvd)
  also have "\<dots> \<longleftrightarrow> 256 dvd unat n"
    using dvd_times_right_cancel_iff [of "2 ^ 24" 256 "unat n"] by simp
  finally show ?thesis .
qed

text \<open>C22: 
  The time-out of the wait is multiplied by the number of PEs in 32 bits and is 0 when that
  number is a multiple of 256. Then the wait reports a time-out although all other PEs are off
  at the first look; with any other number of PEs it does not.
\<close>

theorem wait_for_secondary_off_wraps:
  assumes "quiet_peers hw" "unat (val_pe_get_num s) \<le> shared_size s"
    and "\<forall>i<val_pe_get_num s. i \<noteq> me \<longrightarrow> \<not> IS_RESULT_PENDING (status_word i s)"
  shows "\<exists>t. wait_for_secondary_off hw me s = Some (256 dvd unat (val_pe_get_num s), t)"
proof -
  let ?n = "val_pe_get_num s" and ?is = "upto_u32 (val_pe_get_num s)"
  have ok: "\<forall>i\<in>set ?is. unat i < shared_size s \<and> (i \<noteq> me \<longrightarrow> \<not> IS_RESULT_PENDING (status_word i s))"
    using assms(2,3) by (auto simp: set_upto_u32 word_less_nat_alt)
  obtain t where t: "others_pending hw me ?is False s = Some (False, t)" "shared t = shared s"
    using others_off [OF assms(1) ok] by blast
  have "word_of_nat (Suc (unat (off_timeout ?n - 1))) = off_timeout ?n"
    by simp
  then have off: "off_loop hw me ?is (unat (off_timeout ?n - 1)) s = Some (off_timeout ?n, t)"
    by (subst off_loop.simps) (simp add: t(1))
  have "\<exists>u. print_pending hw me ?is t = Some u"
  proof -
    have "\<exists>u. print_pending hw me is' v = Some u" if "\<forall>i\<in>set is'. unat i < shared_size v" for is' v
      using that
    proof (induction is' arbitrary: v)
      case (Cons i is')
      then show ?case using val_get_status_quiet [OF assms(1), of i v] by (simp add: shared_size_def)
    qed simp
    moreover have "shared_size t = shared_size s" using t(2) by (simp add: shared_size_def)
    ultimately show ?thesis using ok by auto
  qed
  then show ?thesis
    unfolding wait_for_secondary_off_def Let_def off bind.simps(2) prod.case off_timeout_zero by auto
qed

lemma wait_for_secondary_off_wraps_witness: "\<exists>t. wait_for_secondary_off cache_hw 0 cache_world = Some (False, t)"
proof -
  have n: "val_pe_get_num cache_world = 2"
    by (simp add: val_pe_get_num_def cache_world_def one_node_world_def two_pe_world_def)
  have st: "status_word i cache_world = 0" if "i < 2" for i
  proof -
    have "unat i < 2" using that by (simp add: word_less_nat_alt)
    then show ?thesis by (cases "unat i") (auto simp: status_word_def cache_world_def less_Suc_eq)
  qed
  have "\<not> IS_RESULT_PENDING 0" by (simp add: IS_RESULT_PENDING_def reg_defs)
  moreover have "shared_size cache_world = 2" by (simp add: shared_size_def cache_world_def)
  ultimately show ?thesis
    using wait_for_secondary_off_wraps [OF cache_hw_simps(5), of cache_world 0] st by (simp add: n)
qed


subsection \<open>The payload of the other PEs\<close>

lemma contend_ends:
  assumes "flag n = 0" "k \<le> n" "calm w x s"
  shows "returns (calm w x) (contend flag src dest k s)"
  using assms(2,3)
proof (induction "n - k" arbitrary: k s)
  case 0
  then show ?case using assms(1) by (subst contend.simps) simp
next
  case (Suc d)
  have "calm w x (val_data_cache_ops_by_va (LVar ''contend_flag'') INVALIDATE (val_mem_copy src dest (MEMCPY_BUF_SIZE div 2) s))"
    using Suc.prems(2) by (simp add: calm_def val_mem_copy_def pal_mem_copy_def)
  with Suc.hyps(1) [of "Suc k"] Suc.hyps(2) Suc.prems show ?case
    by (subst contend.simps) (auto simp: Suc_le_eq)
qed

lemma caches_unlimited_calm:
  assumes "cache_env hw w me m" "ccap_narrow hw m" "\<forall>i\<in>set is'. unat i < length (cache_node m)" "calm w x s"
  shows "returns (calm w x) (caches_unlimited hw is' p s)"
  unfolding caches_unlimited_def
proof (rule returns_for_each [where P = "calm w x"])
  show "calm w x s" by (rule assms(4))
  fix i u
  assume i: "i \<in> set is'" and u: "calm w x u"
  have l: "unat i < length (cache_node m)" using i assms(3) by simp
  note f = features_calm [OF assms(1)]
  show "returns (calm w x) (do {
      s \<leftarrow> if_has val_cache_supports_cpor hw i (val_cache_configure_cpor hw i p 100) u;
      if_has val_cache_supports_ccap hw i (val_cache_configure_ccap hw i p 0 100) s })"
    by (rule returns_seq [OF if_has_calm [OF f(1) l u]], rule configure_calm(1) [OF assms(1) _ l], assumption,
        rule if_has_calm [OF f(2) l], assumption, rule configure_calm(2) [OF assms(1) _ l assms(2)])
qed

lemma mem_partids_calm:
  assumes "mem_env hw w me m" "\<forall>i\<in>set is'. unat i < length (memory_node m)" "calm w x s"
  shows "returns (\<lambda>(p, t). calm w x t) (scan_partids hw MPAM_NODE_MEMORY is' p s)"
  using assms(2,3)
proof (induction is' arbitrary: p s)
  case (Cons i is')
  have q: "returns (\<lambda>(v, t). calm w x t) (val_node_get_partid hw MPAM_NODE_MEMORY i u)" if "calm w x u" for u
  proof -
    have "returns (\<lambda>(v, t). calm w x t) (val_node_hwreg_base hw MPAM_NODE_MEMORY i u)"
      using my_index_same [of hw w me _ u] assms(1) that Cons.prems(1)
      by (auto simp: mem_env_def cache_env_def calm_def val_node_hwreg_base_def node_lookup_def reg_defs)
    then have "returns (\<lambda>(v, t). calm w x t) (node_read hw MPAM_NODE_MEMORY i REG_MPAMF_IDR u)"
      unfolding node_read_def by (rule returns_seq_pair) (simp add: split_beta)
    then show ?thesis unfolding val_node_get_partid_def by (rule returns_seq_pair) simp
  qed
  show ?case
    unfolding scan_partids.simps
    by (rule returns_seq_pair [OF minmax_calm(2) [OF q Cons.prems(2)]], assumption) (use Cons in simp)
qed simp

lemma config_mpam_calm:
  assumes "mem_env hw w me m" "ccap_narrow hw m" "calm w x s"
  shows "returns (calm_any w) (config_mpam_params hw v s)"
proof -
  have e: "cache_env hw w me m" using assms(1) by (simp add: mem_env_def)
  have mem: "returns (\<lambda>(k, t). k = num_memory_nodes m \<and> calm w x t) (val_node_get_total hw MPAM_NODE_MEMORY u)" if "calm w x u" for u
    using my_index_same [of hw w me _ u] e that by (auto simp: cache_env_def calm_def val_node_get_total_def reg_defs)
  show ?thesis
    unfolding config_mpam_params_def
    by (rule returns_seq_pair [OF total_calm [OF e assms(3)]], elim conjE, hypsubst,
        rule returns_seq_pair [OF mem], assumption, elim conjE, hypsubst,
        rule returns_seq_pair [OF mem_partids_calm [OF assms(1)]], use mem_nodes_known [OF assms(1)] in blast, assumption,
        rule returns_seq_pair [OF scan_partids_calm [OF e]], use nodes_known [OF e] in blast, assumption,
        rule returns_seq [OF caches_unlimited_calm [OF e assms(2)]], use nodes_known [OF e] in blast, assumption)
       (simp add: calm_iff)
qed

text \<open>
  Once the flag has been cleared, however late a PE sees it, the payload of the other PEs ends:
  it passes, and MPAM2_EL2 of that PE is what it was, although its upper half was 0 meanwhile.
\<close>

theorem secondary_payload_ends:
  assumes "mem_env hw s me m" "ccap_narrow hw m" "holds_mpam2 hw rst"
    and "val_get_shared_memcpybuf me s = Some a" "a \<noteq> 0" "a + MEMCPY_BUF_SIZE div 2 \<noteq> 0" "flag n = 0"
  shows "\<exists>t. payload_secondary k flag hw s = Some t \<and> status_word me t = RESULT_PASS k 1 \<and> gl t = gl s \<and>
     sysreg_in hw (io t) ''sysreg_read_mpam2'' = sysreg_in hw (io s) ''sysreg_read_mpam2''"
proof -
  have e: "cache_env hw s me m" using assms(1) by (simp add: mem_env_def)
  let ?v = "mpam2_value rst (io s)" and ?x = "mpam2_written (io s)"
  have rd: "\<exists>u. val_sysreg_read hw MPAM2_SYSREG t = (?v, u) \<and> calm s ?x u" if "calm s ?x t" for t
    using assms(3) that by (simp add: val_sysreg_read_def read_sysreg_def holds_mpam2_def mpam2_value_def calm_def)
  have src: "val_get_shared_memcpybuf me t = Some a" if "calm_any s t" for t
  proof -
    have "val_get_shared_memcpybuf me t = val_get_shared_memcpybuf me s"
      using that by (simp add: val_get_shared_memcpybuf_def val_pe_get_num_def calm_any_def)
    then show ?thesis using assms(4) by simp
  qed
  have fin: "returns (\<lambda>t. status_word me t = RESULT_PASS k 1 \<and> gl t = gl s \<and> mpam2_value rst (io t) = ?v)
      (val_set_status me (RESULT_PASS k 1) (val_sysreg_write MPAM2_SYSREG ?v t))" if "calm s y t" for y t
  proof -
    have c: "calm s (Some ?v) (val_sysreg_write MPAM2_SYSREG ?v t)"
      using that unfolding calm_mpam2(2) by (simp add: calm_def)
    show ?thesis
      by (rule returns_mono [OF set_status_ended [OF e c, of "RESULT_PASS k 1" "{RESULT_PASS k 1}" rst]])
         (auto simp: ended_def)
  qed
  have run: "returns (\<lambda>t. status_word me t = RESULT_PASS k 1 \<and> gl t = gl s \<and> mpam2_value rst (io t) = ?v)
      (payload_secondary k flag hw s)"
    unfolding payload_secondary_def Let_def
  proof (rule returns_seq_pair [OF my_index_calm [OF e calm_refl]], elim conjE, hypsubst)
    fix t
    assume "calm s ?x t"
    then obtain r where r: "val_sysreg_read hw MPAM2_SYSREG t = (?v, r)" "calm s ?x r" using rd by blast
    show "returns (\<lambda>t. status_word me t = RESULT_PASS k 1 \<and> gl t = gl s \<and> mpam2_value rst (io t) = ?v)
       (case val_sysreg_read hw MPAM2_SYSREG t of (mpam2_el2, s) \<Rightarrow> do {
          s \<leftarrow> config_mpam_params hw (ucast mpam2_el2) s;
          src_buf \<leftarrow> val_get_shared_memcpybuf me s;
          if src_buf = 0 \<or> src_buf + MEMCPY_BUF_SIZE div 2 = 0
          then do { s \<leftarrow> val_set_status me (RESULT_FAIL k 1) s; Some (val_sysreg_write MPAM2_SYSREG mpam2_el2 s) }
          else do { s \<leftarrow> contend flag src_buf (src_buf + MEMCPY_BUF_SIZE div 2) 0 s;
                    val_set_status me (RESULT_PASS k 1) (val_sysreg_write MPAM2_SYSREG mpam2_el2 s) } })"
      unfolding r(1) prod.case
    proof (rule returns_seq [OF config_mpam_calm [OF assms(1,2) r(2)]])
      fix u
      assume u: "calm_any s u"
      then obtain y where "calm s y u" by (auto simp: calm_any_ex)
      then show "returns (\<lambda>t. status_word me t = RESULT_PASS k 1 \<and> gl t = gl s \<and> mpam2_value rst (io t) = ?v)
         (do { src_buf \<leftarrow> val_get_shared_memcpybuf me u;
            if src_buf = 0 \<or> src_buf + MEMCPY_BUF_SIZE div 2 = 0
            then do { s \<leftarrow> val_set_status me (RESULT_FAIL k 1) u; Some (val_sysreg_write MPAM2_SYSREG ?v s) }
            else do { s \<leftarrow> contend flag src_buf (src_buf + MEMCPY_BUF_SIZE div 2) 0 u;
                      val_set_status me (RESULT_PASS k 1) (val_sysreg_write MPAM2_SYSREG ?v s) } })"
        using assms(5,6) by (simp add: src [OF u]) (rule returns_seq [OF contend_ends [of flag n]], auto simp: assms(7) intro: fin)
    qed
  qed
  then show ?thesis using assms(3) by (auto simp: returns_def holds_mpam2_def)
qed

lemma secondary_payload_ends_witness:
  "\<exists>t. payload_secondary 42 (\<lambda>k. if k < 1000 then 1 else 0) cache_hw
      (cache_world\<lparr>gl := (gl cache_world)\<lparr>gSharedMemCpyBuf := Some [Some 0x80000000, None]\<rparr>\<rparr>) = Some t \<and>
     status_word 0 t = RESULT_PASS 42 1"
proof -
  let ?s = "cache_world\<lparr>gl := (gl cache_world)\<lparr>gSharedMemCpyBuf := Some [Some 0x80000000, None]\<rparr>\<rparr>"
  have "my_index cache_hw ?s = Some (0, log_io (SysRead ''arm64_read_mpidr'') ?s)"
    using my_index_same [of cache_hw cache_world 0 _ ?s] cache_world_env by (simp add: cache_env_def)
  then have e: "mem_env cache_hw ?s 0 the_info"
    using cache_world_mem(1) by (simp add: mem_env_def cache_env_def shared_size_def)
  have "val_get_shared_memcpybuf 0 ?s = Some 0x80000000" by (simp add: val_get_shared_memcpybuf_def)
  from secondary_payload_ends [OF e cache_hw_simps(3,1) this, of "\<lambda>k. if k < 1000 then 1 else 0" 1000 42]
  show ?thesis by (auto simp: MEMCPY_BUF_SIZE_def)
qed


end
