(* ===== verification/Acs_Console.thy ===== *)
theory Acs_Console
  imports Mpam_World
begin

text \<open>
  The raw console of both suites (pal_print_raw, val_print_raw): a format string with one number,
  written byte by byte to the UART. The result is the list of the bytes; \<open>None\<close> is an access outside
  the buffer of 16 digits or behind the end of the string. \<open>fresh\<close> is what the buffer holds at first.
\<close>

definition raw_digit :: "bool \<Rightarrow> u64 \<Rightarrow> u8" where
  "raw_digit hex data =
     (if hex then (let j = ucast (data AND 0xf) in j + (if j > 9 then 55 else 48))
      else ucast (data mod 10) + 48)"

definition raw_rest :: "bool \<Rightarrow> u64 \<Rightarrow> u64" where
  "raw_rest hex data = (if hex then drop_bit 4 data else data div 10)"

lemma raw_rest_less: "data \<noteq> 0 \<Longrightarrow> unat (raw_rest hex data) < unat data"
proof -
  assume "data \<noteq> 0"
  then have "0 < unat data" by (simp add: unat_gt_0)
  moreover have "unat (drop_bit 4 data) = unat data div 16" by (simp add: drop_bit_eq_div unat_div)
  ultimately show ?thesis by (simp add: raw_rest_def unat_div)
qed

text \<open>The digits of the number, the last one first.\<close>

function gather :: "bool \<Rightarrow> u64 \<Rightarrow> int \<Rightarrow> (int \<Rightarrow> u8) \<Rightarrow> (int \<times> (int \<Rightarrow> u8)) option" where
  "gather hex data i buffer =
     (if data = 0 then Some (i, buffer)
      else if 0 \<le> i \<and> i < 16 then gather hex (raw_rest hex data) (i + 1) (buffer(i := raw_digit hex data))
      else None)"
  by auto
termination by (relation "measure (\<lambda>(_, data, _). unat data)") (auto simp: raw_rest_less)

declare gather.simps [simp del]

text \<open>The loop that writes them runs while \<open>i\<close> is not negative, and decrements it before the access.\<close>

function spill :: "int \<Rightarrow> (int \<Rightarrow> u8) \<Rightarrow> u8 list \<Rightarrow> (int \<times> u8 list) option" where
  "spill i buffer out =
     (if i < 0 then Some (i, out)
      else if 0 \<le> i - 1 \<and> i - 1 < 16 then spill (i - 1) buffer (out @ [buffer (i - 1)])
      else None)"
  by auto
termination by (relation "measure (\<lambda>(i, _). nat i)") auto

declare spill.simps [simp del]

definition raw_directive :: "char \<Rightarrow> bool option" where
  "raw_directive c = (if c = CHR ''d'' then Some False else if c = CHR ''x'' \<or> c = CHR ''X'' then Some True else None)"

fun print_raw :: "string \<Rightarrow> u64 \<Rightarrow> int \<Rightarrow> (int \<Rightarrow> u8) \<Rightarrow> u8 list \<Rightarrow> u8 list option" where
  "print_raw [] data i buffer out = Some out"
| "print_raw [c] data i buffer out = (if c = CHR ''%'' then None else Some (out @ [of_char c]))"
| "print_raw (c # d # cs) data i buffer out =
     (if c \<noteq> CHR ''%'' then print_raw (d # cs) data i buffer (out @ [of_char c])
      else do {
        ((i, buffer), data) \<leftarrow> (case raw_directive d of
             None \<Rightarrow> Some ((i, buffer), data)
           | Some hex \<Rightarrow> do { ib \<leftarrow> gather hex data i buffer; Some (ib, 0) });
        (i, out) \<leftarrow> (if i > 0 then spill i buffer out else Some (i, out @ [48]));
        print_raw cs data i buffer out })"

definition pal_print_raw :: "(int \<Rightarrow> u8) \<Rightarrow> string \<Rightarrow> u64 \<Rightarrow> u8 list option" where
  "pal_print_raw fresh string data = print_raw string data 0 fresh []"

definition val_print_raw :: "(int \<Rightarrow> u8) \<Rightarrow> u32 \<Rightarrow> string \<Rightarrow> u64 \<Rightarrow> world \<Rightarrow> u8 list option" where
  "val_print_raw fresh level string data s =
     (if level \<ge> print_level s then pal_print_raw fresh string data else Some [])"

text \<open>The loop that writes the digits never ends in a defined way.\<close>

lemma spill_undefined: "0 \<le> i \<Longrightarrow> spill i buffer out = None"
proof (induction "nat i" arbitrary: i out)
  case 0
  then show ?case by (subst spill.simps) simp
next
  case (Suc n)
  then show ?case by (subst spill.simps) (simp add: Suc.hyps(1))
qed

lemma gather_positive: "gather hex data i buffer = Some (j, b) \<Longrightarrow> data \<noteq> 0 \<Longrightarrow> 0 \<le> i \<Longrightarrow> 0 < j"
proof (induction hex data i buffer rule: gather.induct)
  case (1 hex data i buffer)
  have i: "i < 16" and g: "gather hex (raw_rest hex data) (i + 1) (buffer(i := raw_digit hex data)) = Some (j, b)"
    using 1(2-4) by (subst (asm) gather.simps, simp split: if_splits)+
  show ?case
  proof (cases "raw_rest hex data = 0")
    case True
    then show ?thesis using g 1(4) by (subst (asm) gather.simps) simp
  next
    case False
    show ?thesis by (rule 1(1) [OF _ _ g False]) (use 1(3,4) i in simp_all)
  qed
qed

lemma print_raw_plain:
  "CHR ''%'' \<notin> set pre \<Longrightarrow> cs \<noteq> [] \<Longrightarrow>
     print_raw (pre @ cs) data i buffer out = print_raw cs data i buffer (out @ map of_char pre)"
proof (induction pre arbitrary: out)
  case (Cons c pre)
  obtain d ds where ds: "pre @ cs = d # ds" using Cons.prems(2) by (cases "pre @ cs") simp_all
  have "c \<noteq> CHR ''%''" using Cons.prems(1) by auto
  then show ?case using Cons.IH [of "out @ [of_char c]"] Cons.prems by (simp add: ds)
qed simp

text \<open>A number other than 0 cannot be printed: the digit before the first is read from the buffer.
  The number 0, and a directive that is not known, print as the character 0.\<close>

theorem pal_print_raw_number:
  assumes "CHR ''%'' \<notin> set pre" "raw_directive d = Some hex"
  shows "pal_print_raw fresh (pre @ CHR ''%'' # d # post) data =
     (if data = 0 then print_raw post 0 0 fresh (map of_char pre @ [48]) else None)"
proof -
  have "pal_print_raw fresh (pre @ CHR ''%'' # d # post) data =
      print_raw (CHR ''%'' # d # post) data 0 fresh (map of_char pre)"
    unfolding pal_print_raw_def using print_raw_plain [OF assms(1)] by simp
  also have "\<dots> = (if data = 0 then print_raw post 0 0 fresh (map of_char pre @ [48]) else None)"
  proof (cases "data = 0")
    case True
    then show ?thesis by (simp add: assms(2) gather.simps)
  next
    case False
    then show ?thesis
      using gather_positive [of hex data 0 fresh]
      by (cases "gather hex data 0 fresh") (auto simp: assms(2) spill_undefined)
  qed
  finally show ?thesis .
qed

end
