(* ===== verification/Mpam_Table.thy ===== *)
theory Mpam_Table
  imports Mpam_Node
begin

text \<open>
  The platform's description of the MPAM nodes (platform_cfg.c, acpi_override.h) and the table
  built from it for every PE (pal_mpam.c): the private caches are collected in one linked list
  per PE, and each PE gets an array with its private caches, its cluster's cache and, on the PE
  that builds the table, the system cache; the memory nodes are attached to that PE only.
  The code between \<open>#if MPAM_SIMULATION_FVP\<close> is compiled out and is not modelled.
\<close>

unbundle bit_operations_syntax

subsection \<open>The configuration\<close>

record mpam_cache_node_cfg =
  n_mpidr :: u64
  n_line_size :: u32
  n_size :: u32
  n_neighbours :: "u64 list"
  n_scope_index :: u32
  n_node_scope :: u32
  n_alloc_type :: u8
  n_cache_type :: u8
  n_write_policy :: u8
  n_reserved :: u8
  n_hwreg_base :: u64
  n_not_ready_max_us :: u32
  n_intr :: intr_info

text \<open>The memory nodes of the configuration have the fields of the table's.\<close>

record platform_mpam_cfg =
  cfg_num_cache_nodes :: u32
  cnode :: "mpam_cache_node_cfg list"
  cfg_num_memory_nodes :: u32
  mnode :: "memory_node_entry list"

definition MAX_CACHE_NODES :: nat where "MAX_CACHE_NODES = 256"
definition MAX_DDR_NODES :: nat where "MAX_DDR_NODES = 16"

text \<open>The entries a loop up to the count visits: they have to lie inside the array.\<close>

definition counted_entries :: "u32 \<Rightarrow> 'a list \<Rightarrow> 'a list option" where
  "counted_entries n xs = (if unat n \<le> length xs then Some (take (unat n) xs) else None)"

subsection \<open>The board of the repository\<close>

definition level_intr :: intr_info where
  "level_intr = \<lparr>error_intr_num = 0, overflow_intr_num = 0, error_intr_type = 0, overflow_intr_type = 1\<rparr>"

definition board_node :: "u64 \<Rightarrow> u32 \<Rightarrow> u32 \<Rightarrow> u8 \<Rightarrow> u8 \<Rightarrow> u8 \<Rightarrow> mpam_cache_node_cfg" where
  "board_node m index scope a c w =
     \<lparr>n_mpidr = m, n_line_size = 1024, n_size = 2048, n_neighbours = [0, 0, 0, 0], n_scope_index = index,
      n_node_scope = scope, n_alloc_type = a, n_cache_type = c, n_write_policy = w, n_reserved = 0,
      n_hwreg_base = 0, n_not_ready_max_us = 0, n_intr = level_intr\<rparr>"

definition board_system :: mpam_cache_node_cfg where
  "board_system = board_node 0xFFFFFFFFFFFFFFFF 0x100000 2 0 0 0"

definition board_clusters :: "mpam_cache_node_cfg list" where
  "board_clusters =
     [board_node 0x00000 0x100000 1 0 0 0, board_node 0x00100 0 1 0 0 0, board_node 0x00200 0 1 0 0 0,
      board_node 0x00300 0 1 0 0 0, board_node 0x10000 0 1 0 0 0, board_node 0x10100 0 1 0 0 0,
      board_node 0x10200 0 1 0 0 0, board_node 0x10300 0 1 0 0 0]"

definition board_pes :: "mpam_cache_node_cfg list" where
  "board_pes =
     [board_node 0x00000 0x100000 0 2 1 1, board_node 0x00100 0 0 0 0 0, board_node 0x00200 0 0 0 0 0,
      board_node 0x00300 0 0 0 0 0, board_node 0x10000 0 0 0 0 0, board_node 0x10100 0 0 0 0 0,
      board_node 0x10200 0 0 0 0 0, board_node 0x10300 0 0 0 0 0]"

definition board_memory :: "memory_node_entry list" where
  "board_memory =
     [\<lparr>proximity_domain = 5, base_address = 0x123456, mlength = 0x1024, flags = 10, mn_hwreg_base = 0x11111,
       mn_not_ready_max_us = 0x11111, mn_intr = level_intr\<rparr>,
      \<lparr>proximity_domain = 6, base_address = 0x12345, mlength = 0x1024, flags = 20, mn_hwreg_base = 0x22222,
       mn_not_ready_max_us = 0x22222, mn_intr = level_intr\<rparr>]"

text \<open>The slots of the arrays that the initialiser does not list are zero.\<close>

definition zero_node :: mpam_cache_node_cfg where
  "zero_node = \<lparr>n_mpidr = 0, n_line_size = 0, n_size = 0, n_neighbours = [0, 0, 0, 0], n_scope_index = 0,
     n_node_scope = 0, n_alloc_type = 0, n_cache_type = 0, n_write_policy = 0, n_reserved = 0,
     n_hwreg_base = 0, n_not_ready_max_us = 0,
     n_intr = \<lparr>error_intr_num = 0, overflow_intr_num = 0, error_intr_type = 0, overflow_intr_type = 0\<rparr>\<rparr>"

definition zero_dram :: memory_node_entry where
  "zero_dram = \<lparr>proximity_domain = 0, base_address = 0, mlength = 0, flags = 0, mn_hwreg_base = 0,
     mn_not_ready_max_us = 0,
     mn_intr = \<lparr>error_intr_num = 0, overflow_intr_num = 0, error_intr_type = 0, overflow_intr_type = 0\<rparr>\<rparr>"

definition acpi_override_cfg :: platform_mpam_cfg where
  "acpi_override_cfg =
     \<lparr>cfg_num_cache_nodes = 17, 
      cnode = (board_system # board_clusters @ board_pes) @ replicate (MAX_CACHE_NODES - 17) zero_node,
      cfg_num_memory_nodes = 2, mnode = board_memory @ replicate (MAX_DDR_NODES - 2) zero_dram\<rparr>"

subsection \<open>Memory\<close>

definition SIZEOF_MPAM_INFO_TABLE :: u32 where [reg_defs]: "SIZEOF_MPAM_INFO_TABLE = 24"
definition SIZEOF_CACHE_NODE_ENTRY :: u32 where [reg_defs]: "SIZEOF_CACHE_NODE_ENTRY = 80"
definition SIZEOF_MEMORY_NODE_ENTRY :: u32 where [reg_defs]: "SIZEOF_MEMORY_NODE_ENTRY = 64"
definition SIZEOF_PRIVATE_PE_CACHES :: u32 where [reg_defs]: "SIZEOF_PRIVATE_PE_CACHES = 16"
definition SIZEOF_POINTER :: u32 where [reg_defs]: "SIZEOF_POINTER = 8"

text \<open>The result is how many entries may be accessed behind the pointer; none behind NULL.\<close>

definition PalMemAllocate :: "hw \<Rightarrow> u32 \<Rightarrow> u32 \<Rightarrow> world \<Rightarrow> nat \<times> world" where
  "PalMemAllocate hw NumInstances SizeOfEntry s =
     (let ((st, _), s) = firmware hw ''AllocatePool'' [ucast (NumInstances * SizeOfEntry)] s
      in if EFI_ERROR st then (0, s)
         else (unat (NumInstances * SizeOfEntry) div unat SizeOfEntry,
               pal_pe_data_cache_ops_by_va (LVar ''gMemory'') CLEAN_AND_INVALIDATE s))"

definition PalMemFree :: "hw \<Rightarrow> world \<Rightarrow> world" where
  "PalMemFree hw s = snd (firmware hw ''FreePool'' [] s)"

subsection \<open>Sorting the nodes\<close>

text \<open>The linked list of a PE is the list of its nodes; the head with a NULL cache is \<open>[]\<close>.\<close>

record node_lists =
  privates :: "mpam_cache_node_cfg list list"
  cluster_cap :: nat
  clusters :: "mpam_cache_node_cfg list"
  system_node :: "mpam_cache_node_cfg option"

definition CountClusters :: "mpam_cache_node_cfg list \<Rightarrow> u32" where
  "CountClusters ns = of_nat (length (filter (\<lambda>c. n_node_scope c = CACHE_SCOPE_CLUSTER) ns))"

definition SetPeInfoNull :: "nat \<Rightarrow> u32 \<Rightarrow> mpam_cache_node_cfg list list option" where
  "SetPeInfoNull cap PeCnt = (if unat PeCnt \<le> cap then Some (replicate (unat PeCnt) []) else None)"

text \<open>The index of a PE in the table, 0 for an MPIDR that is not in it.\<close>

definition pe_get_index_mpid :: "pe_info_table \<Rightarrow> u64 \<Rightarrow> u32 option" where
  "pe_get_index_mpid t m = find_pe (pe_info t) (unat (num_of_pe t)) m"

text \<open>A further node of a PE is linked in right behind the head of its list.\<close>

definition place_node ::
    "hw \<Rightarrow> pe_info_table \<Rightarrow> mpam_cache_node_cfg \<Rightarrow> node_lists \<times> world \<Rightarrow> (node_lists \<times> world) option" where
  "place_node hw t c ls =
     (let (l, s) = ls
      in if n_node_scope c = CACHE_SCOPE_PRIVATE
         then do { i \<leftarrow> pe_get_index_mpid t (n_mpidr c);
                   xs \<leftarrow> at (privates l) (unat i);
                   case xs of
                     [] \<Rightarrow> Some (l\<lparr>privates := (privates l)[unat i := [c]]\<rparr>, s)
                   | x # r \<Rightarrow> (let (k, s) = PalMemAllocate hw 1 SIZEOF_PRIVATE_PE_CACHES s
                              in if k = 0 then None
                                 else Some (l\<lparr>privates := (privates l)[unat i := x # c # r]\<rparr>, s)) }
         else if n_node_scope c = CACHE_SCOPE_CLUSTER
         then if length (clusters l) < cluster_cap l then Some (l\<lparr>clusters := clusters l @ [c]\<rparr>, s) else None
         else Some (l\<lparr>system_node := Some c\<rparr>, s))"

text \<open>The length of a PE's list; it is asked for after the head was dereferenced.\<close>

definition GetCacheCount :: "mpam_cache_node_cfg list \<Rightarrow> u32" where
  "GetCacheCount xs = of_nat (length xs)"

fun GetClusterNode :: "mpam_cache_node_cfg list \<Rightarrow> u64 \<Rightarrow> mpam_cache_node_cfg option" where
  "GetClusterNode [] m = None"
| "GetClusterNode (c # cs) m =
     (if n_mpidr c AND 0xFFFFFF00 = m AND 0xFFFFFF00 then Some c else GetClusterNode cs m)"

subsection \<open>Filling the entry of a PE\<close>

text \<open>The fields of the table are narrower than those of the configuration.\<close>

definition CopyCacheNode :: "mpam_cache_node_cfg \<Rightarrow> cache_node_entry" where
  "CopyCacheNode c =
     \<lparr>line_size = ucast (n_line_size c), csize = n_size c, neighbours = take 4 (n_neighbours c),
      scope_index = ucast (n_scope_index c), node_scope = ucast (n_node_scope c),
      alloc_type = ucast (n_alloc_type c), cache_type = ucast (n_cache_type c),
      write_policy = ucast (n_write_policy c), areserved = ucast (n_reserved c),
      cn_hwreg_base = n_hwreg_base c, cn_not_ready_max_us = n_not_ready_max_us c, cn_intr = n_intr c\<rparr>"

fun copy_list :: "nat \<Rightarrow> nat \<Rightarrow> mpam_cache_node_cfg list \<Rightarrow> cache_node_entry list \<Rightarrow> cache_node_entry list option" where
  "copy_list 0 k xs buf = Some buf"
| "copy_list (Suc n) k [] buf = None"
| "copy_list (Suc n) k (x # xs) buf =
     do { buf \<leftarrow> set_at k (CopyCacheNode x) buf; copy_list n (k + 1) xs buf }"

definition CopyPrivateCacheNodes ::
    "mpam_cache_node_cfg list \<Rightarrow> u32 \<Rightarrow> bool \<Rightarrow> cache_node_entry list \<Rightarrow> cache_node_entry list option" where
  "CopyPrivateCacheNodes xs num IsPrimary buf =
     copy_list (unat (if IsPrimary then num - 2 else num - 1)) 0 xs buf"

definition CopyClusterCacheNodes ::
    "mpam_cache_node_cfg \<Rightarrow> u32 \<Rightarrow> bool \<Rightarrow> cache_node_entry list \<Rightarrow> cache_node_entry list option" where
  "CopyClusterCacheNodes c num IsPrimary buf =
     set_at (unat (if IsPrimary then num - 2 else num - 1)) (CopyCacheNode c) buf"

definition CopySystemCacheNode ::
    "mpam_cache_node_cfg \<Rightarrow> u32 \<Rightarrow> cache_node_entry list \<Rightarrow> cache_node_entry list option" where
  "CopySystemCacheNode c num buf = set_at (unat (num - 1)) (CopyCacheNode c) buf"

text \<open>What fresh memory holds: an entry of the table, a cache node and a memory node.\<close>

record fresh_memory =
  fresh_info :: mpam_info
  fresh_cache :: cache_node_entry
  fresh_dram :: memory_node_entry

text \<open>One round of the loop over the PEs. The array is allocated with the count of entry 0.\<close>

definition fill_pe ::
    "hw \<Rightarrow> fresh_memory \<Rightarrow> node_lists \<Rightarrow> nat \<Rightarrow> mpam_info list \<times> world \<Rightarrow> (mpam_info list \<times> world) option" where
  "fill_pe hw f l i ts =
     (let (t, s) = ts; s = log_io (SysRead ''Arm64ReadMpidrPAL'') s
      in do { xs \<leftarrow> at (privates l) i;
              head \<leftarrow> (case xs of [] \<Rightarrow> None | x # r \<Rightarrow> Some x);
              let prim = (n_mpidr head = affx (mpidr_in hw));
              let num = GetCacheCount xs + (if prim then 2 else 1);
              e \<leftarrow> at t i;
              let t = t[i := e\<lparr>num_cache_nodes := num, num_memory_nodes := 0\<rparr>];
              let (cap, s) = PalMemAllocate hw (num_cache_nodes (t ! 0)) SIZEOF_CACHE_NODE_ENTRY s;
              buf \<leftarrow> CopyPrivateCacheNodes xs num prim (replicate cap (fresh_cache f));
              c \<leftarrow> GetClusterNode (clusters l) (n_mpidr head);
              buf \<leftarrow> CopyClusterCacheNodes c num prim buf;
              buf \<leftarrow> (if prim then do { c \<leftarrow> system_node l; CopySystemCacheNode c num buf } else Some buf);
              Some (t[i := (t ! i)\<lparr>cache_node := buf\<rparr>], s) })"

definition CopyMemoryNodes ::
    "hw \<Rightarrow> fresh_memory \<Rightarrow> platform_mpam_cfg \<Rightarrow> mpam_info \<Rightarrow> world \<Rightarrow> (mpam_info \<times> world) option" where
  "CopyMemoryNodes hw f cfg e s =
     (let (cap, s) = PalMemAllocate hw (cfg_num_memory_nodes cfg) SIZEOF_MEMORY_NODE_ENTRY s
      in do { ms \<leftarrow> counted_entries (cfg_num_memory_nodes cfg) (mnode cfg);
              if length ms \<le> cap
              then Some (e\<lparr>num_memory_nodes := cfg_num_memory_nodes cfg,
                           memory_node := ms @ replicate (cap - length ms) (fresh_dram f)\<rparr>, s)
              else None })"

subsection \<open>Printing and freeing\<close>

definition dump_cache :: "cache_node_entry \<Rightarrow> world \<Rightarrow> world" where
  "dump_cache n s =
     fold (\<lambda>(m, v). acs_print ACS_PRINT_DEBUG m [v])
       [(''Line size is'', ucast (line_size n)), (''Size is'', ucast (csize n)),
        (''Scope is'', ucast (node_scope n)), (''Scope Index is'', ucast (scope_index n)),
        (''Alloc type:'', ucast (alloc_type n)), (''Cache Type:'', ucast (cache_type n)),
        (''Write Policy:'', ucast (write_policy n)), (''Hardware Base Addr'', cn_hwreg_base n),
        (''NotReady Max Usage'', ucast (cn_not_ready_max_us n)),
        (''Error Interrupt Number'', ucast (error_intr_num (cn_intr n))),
        (''Overflow Interrupt Number'', ucast (overflow_intr_num (cn_intr n))),
        (''Error Interrupt Type'', ucast (error_intr_type (cn_intr n))),
        (''Overflow Interrupt Type'', ucast (overflow_intr_type (cn_intr n)))] s"

definition dump_memory :: "memory_node_entry \<Rightarrow> world \<Rightarrow> world" where
  "dump_memory n s =
     fold (\<lambda>(m, v). acs_print ACS_PRINT_DEBUG m [v])
       [(''ProximityDomain is'', ucast (proximity_domain n)), (''BaseAddress is'', base_address n),
        (''Length is'', mlength n), (''Flags is'', ucast (flags n)),
        (''Enabled Flag is'', ucast (flags n AND 1)), (''Hot-Pluggable Flag is'', ucast (flags n AND 2)),
        (''Non-Volatile Flag is'', ucast (flags n AND 4)), (''Hardware Base Addr'', mn_hwreg_base n),
        (''NotReady Max Usage'', ucast (mn_not_ready_max_us n)),
        (''Error Interrupt Number'', ucast (error_intr_num (mn_intr n))),
        (''Overflow Interrupt Number'', ucast (overflow_intr_num (mn_intr n))),
        (''Error Interrupt Type'', ucast (error_intr_type (mn_intr n))),
        (''Overflow Interrupt Type'', ucast (overflow_intr_type (mn_intr n)))] s"

definition DumpMpamInfoTable :: "mpam_info \<Rightarrow> world \<Rightarrow> world option" where
  "DumpMpamInfoTable e s =
     do { let s = acs_print ACS_PRINT_DEBUG ''Number Of Cache Node is  %d'' [ucast (num_cache_nodes e)] s;
          cs \<leftarrow> counted_entries (num_cache_nodes e) (cache_node e);
          let s = fold dump_cache cs s;
          let s = acs_print ACS_PRINT_DEBUG ''Number Of Memory Node is  %d'' [ucast (num_memory_nodes e)] s;
          ms \<leftarrow> counted_entries (num_memory_nodes e) (memory_node e);
          Some (fold dump_memory ms s) }"

text \<open>Every node but the head of its list was allocated by itself.\<close>

definition FreePrivateCaches :: "hw \<Rightarrow> mpam_cache_node_cfg list list \<Rightarrow> world \<Rightarrow> world" where
  "FreePrivateCaches hw ps s = PalMemFree hw (fold (\<lambda>_. PalMemFree hw) (concat (map tl ps)) s)"

subsection \<open>The table\<close>

text \<open>After the loop over the PEs: the memory nodes, the dump and the clean-up. Without a PE the
  MPIDR was never read.\<close>

definition finish_table ::
    "hw \<Rightarrow> fresh_memory \<Rightarrow> platform_mpam_cfg \<Rightarrow> pe_info_table \<Rightarrow> node_lists \<Rightarrow> mpam_info list \<times> world \<Rightarrow>
     (mpam_info list \<times> world) option" where
  "finish_table hw f cfg pes l ts =
     do { let (t, s) = ts;
          let n = num_of_pe pes;
          i \<leftarrow> (if n = 0 then None else pe_get_index_mpid pes (affx (mpidr_in hw)));
          e \<leftarrow> at t (unat i);
          (e, s) \<leftarrow> CopyMemoryNodes hw f cfg e s;
          let t = t[unat i := e];
          s \<leftarrow> for_each (\<lambda>k s. do { e \<leftarrow> at t k;
                  DumpMpamInfoTable e (acs_print ACS_PRINT_DEBUG ''Dumping Mpam info for pe_index:  %d'' [of_nat k] s) })
               [0..<unat n] s;
          Some (t, PalMemFree hw (FreePrivateCaches hw (privates l) s)) }"

definition FillMpamInfoTable ::
    "hw \<Rightarrow> fresh_memory \<Rightarrow> platform_mpam_cfg \<Rightarrow> pe_info_table \<Rightarrow> world \<Rightarrow> (mpam_info list \<times> world) option" where
  "FillMpamInfoTable hw f cfg pes s =
     do { let n = num_of_pe pes;
          let (cap, s) = PalMemAllocate hw n SIZEOF_MPAM_INFO_TABLE s;
          ns \<leftarrow> counted_entries (cfg_num_cache_nodes cfg) (cnode cfg);
          let (pcap, s) = PalMemAllocate hw n SIZEOF_PRIVATE_PE_CACHES s;
          let (ccap, s) = PalMemAllocate hw (CountClusters ns) SIZEOF_POINTER s;
          ps \<leftarrow> SetPeInfoNull pcap n;
          (l, s) \<leftarrow> for_each (place_node hw pes) ns
                      (\<lparr>privates = ps, cluster_cap = ccap, clusters = [], system_node = None\<rparr>, s);
          (t, s) \<leftarrow> for_each (fill_pe hw f l) [0..<unat n] (replicate cap (fresh_info f), s);
          finish_table hw f cfg pes l (t, s) }"

definition pal_mpam_create_info_table :: "hw \<Rightarrow> fresh_memory \<Rightarrow> platform_mpam_cfg \<Rightarrow> world \<Rightarrow> world option" where
  "pal_mpam_create_info_table hw f cfg s =
     do { pes \<leftarrow> g_pe_info_table (gl s);
          (t, s) \<leftarrow> FillMpamInfoTable hw f cfg pes s;
          Some (s\<lparr>gl := (gl s)\<lparr>g_mpam_info_table := Some t\<rparr>\<rparr>) }"

subsection \<open>What the table has to hold\<close>

text \<open>The first node of a PE, then the others from the last to the second.\<close>

fun chain :: "'a list \<Rightarrow> 'a list \<Rightarrow> 'a list" where
  "chain [] [] = []"
| "chain [] (c # cs) = c # rev cs"
| "chain (x # r) cs = x # rev cs @ r"

definition listed :: "platform_mpam_cfg \<Rightarrow> mpam_cache_node_cfg list" where
  "listed cfg = take (unat (cfg_num_cache_nodes cfg)) (cnode cfg)"

definition privates_of :: "pe_info_table \<Rightarrow> mpam_cache_node_cfg list \<Rightarrow> nat \<Rightarrow> mpam_cache_node_cfg list" where
  "privates_of pes ns i =
     filter (\<lambda>c. n_node_scope c = CACHE_SCOPE_PRIVATE \<and> pe_get_index_mpid pes (n_mpidr c) = Some (of_nat i)) ns"

definition clusters_of :: "mpam_cache_node_cfg list \<Rightarrow> mpam_cache_node_cfg list" where
  "clusters_of ns = filter (\<lambda>c. n_node_scope c = CACHE_SCOPE_CLUSTER) ns"

definition systems_of :: "mpam_cache_node_cfg list \<Rightarrow> mpam_cache_node_cfg list" where
  "systems_of ns = filter (\<lambda>c. n_node_scope c \<noteq> CACHE_SCOPE_PRIVATE \<and> n_node_scope c \<noteq> CACHE_SCOPE_CLUSTER) ns"

definition row_of :: "hw \<Rightarrow> node_lists \<Rightarrow> nat \<Rightarrow> cache_node_entry list" where
  "row_of hw l i =
     (let xs = privates l ! i; m = n_mpidr (hd xs)
      in map CopyCacheNode xs @ [CopyCacheNode (the (GetClusterNode (clusters l) m))] @
         (if m = affx (mpidr_in hw) then [CopyCacheNode (the (system_node l))] else []))"

definition sorted_nodes :: "pe_info_table \<Rightarrow> platform_mpam_cfg \<Rightarrow> node_lists" where
  "sorted_nodes pes cfg =
     (let ns = listed cfg
      in \<lparr>privates = map (\<lambda>i. chain [] (privates_of pes ns i)) [0..<unat (num_of_pe pes)],
          cluster_cap = length (clusters_of ns), clusters = clusters_of ns,
          system_node = (if systems_of ns = [] then None else Some (last (systems_of ns)))\<rparr>)"

definition pe_row :: "hw \<Rightarrow> pe_info_table \<Rightarrow> platform_mpam_cfg \<Rightarrow> nat \<Rightarrow> cache_node_entry list" where
  "pe_row hw pes cfg i = row_of hw (sorted_nodes pes cfg) i"

text \<open>A configuration that fits its arrays and describes the machine: every PE has a private cache
  and a cluster, and there is a system cache.\<close>

definition describes :: "platform_mpam_cfg \<Rightarrow> pe_info_table \<Rightarrow> bool" where
  "describes cfg pes \<longleftrightarrow>
     length (cnode cfg) = MAX_CACHE_NODES \<and> unat (cfg_num_cache_nodes cfg) \<le> MAX_CACHE_NODES \<and>
     length (mnode cfg) = MAX_DDR_NODES \<and> unat (cfg_num_memory_nodes cfg) \<le> MAX_DDR_NODES \<and>
     systems_of (listed cfg) \<noteq> [] \<and>
     (\<forall>i < unat (num_of_pe pes). privates_of pes (listed cfg) i \<noteq> [] \<and>
        GetClusterNode (clusters_of (listed cfg)) (n_mpidr (hd (privates_of pes (listed cfg) i))) \<noteq> None)"

definition pools_ok :: "hw \<Rightarrow> bool" where
  "pools_ok hw \<longleftrightarrow> (\<forall>h a. \<not> EFI_ERROR (fst (fw_in hw h ''AllocatePool'' a)))"

lemma PalMemAllocate_ok:
  assumes "pools_ok hw" "unat n * unat z < 2 ^ 32" "0 < unat z"
  shows "\<exists>t. PalMemAllocate hw n z s = (unat n, t) \<and> gl t = gl s"
proof -
  have "unat (n * z) = unat n * unat z" using assms(2) by (simp add: unat_word_ariths)
  then show ?thesis using assms(1,3)
    by (simp add: PalMemAllocate_def firmware_def pools_ok_def pal_pe_data_cache_ops_by_va_def split_beta Let_def)
qed

lemma find_pe_total:
  assumes "n \<le> length es" "\<forall>e\<in>set es. unat (pe_num e) < k" "0 < k"
  shows "\<exists>i. find_pe es n m = Some i \<and> unat i < k"
  using assms by (induction es n m rule: find_pe.induct) auto

lemma pe_index_total:
  assumes "wf_pe_table pes" "0 < num_of_pe pes"
  shows "\<exists>i. pe_get_index_mpid pes m = Some i \<and> unat i < unat (num_of_pe pes)"
  unfolding pe_get_index_mpid_def
proof (rule find_pe_total)
  show "\<forall>e\<in>set (pe_info pes). unat (pe_num e) < unat (num_of_pe pes)"
    using assms(1) by (auto simp: wf_pe_table_def in_set_conv_nth unat_of_nat_below)
qed (use assms in \<open>auto simp: wf_pe_table_def word_less_nat_alt\<close>)

lemma chain_step: "chain (chain xs [c]) cs = chain xs (c # cs)"
  by (cases xs) simp_all

text \<open>Sorting the nodes is one filter per list.\<close>

lemma place_nodes:
  assumes "wf_pe_table pes" "0 < num_of_pe pes" "pools_ok hw"
    and "length (privates l) = unat (num_of_pe pes)" "length (clusters l) + length (clusters_of ns) \<le> cluster_cap l"
  shows "\<exists>t. for_each (place_node hw pes) ns (l, s) = Some
     (l\<lparr>privates := map (\<lambda>i. chain (privates l ! i) (privates_of pes ns i)) [0..<unat (num_of_pe pes)],
        clusters := clusters l @ clusters_of ns,
        system_node := (if systems_of ns = [] then system_node l else Some (last (systems_of ns)))\<rparr>, t) \<and>
     gl t = gl s"
  using assms(4,5)
proof (induction ns arbitrary: l s)
  case Nil
  have "chain xs [] = xs" for xs :: "mpam_cache_node_cfg list" by (cases xs) simp_all
  then have "map (\<lambda>i. chain (privates l ! i) []) [0..<unat (num_of_pe pes)] = privates l"
    using Nil(1) by (intro nth_equalityI) simp_all
  then show ?case by (simp add: privates_of_def clusters_of_def systems_of_def)
next
  case (Cons c ns)
  consider (p) "n_node_scope c = CACHE_SCOPE_PRIVATE" | (cl) "n_node_scope c = CACHE_SCOPE_CLUSTER"
    | (s) "n_node_scope c \<noteq> CACHE_SCOPE_PRIVATE" "n_node_scope c \<noteq> CACHE_SCOPE_CLUSTER" by blast
  then show ?case
  proof cases
    case p
    obtain i where i: "pe_get_index_mpid pes (n_mpidr c) = Some i" "unat i < unat (num_of_pe pes)"
      using pe_index_total [OF assms(1,2)] by blast
    let ?l = "l\<lparr>privates := (privates l)[unat i := chain (privates l ! unat i) [c]]\<rparr>"
    have "\<exists>t. place_node hw pes c (l, s) = Some (?l, t) \<and> gl t = gl s"
    proof (cases "privates l ! unat i")
      case Nil
      then show ?thesis using p i Cons.prems(1) by (simp add: place_node_def)
    next
      case (Cons x r)
      obtain t where "PalMemAllocate hw 1 SIZEOF_PRIVATE_PE_CACHES s = (1, t)" "gl t = gl s"
        using PalMemAllocate_ok [OF assms(3), of 1 SIZEOF_PRIVATE_PE_CACHES s] by (auto simp: reg_defs)
      with Cons show ?thesis using p i Cons.prems(1) by (simp add: place_node_def)
    qed
    then obtain t where t: "place_node hw pes c (l, s) = Some (?l, t)" "gl t = gl s" by blast
    have no: "clusters_of (c # ns) = clusters_of ns" "systems_of (c # ns) = systems_of ns"
      using p by (auto simp: clusters_of_def systems_of_def reg_defs)
    have own: "privates_of pes (c # ns) j = (if j = unat i then c # privates_of pes ns j else privates_of pes ns j)"
      if "j < unat (num_of_pe pes)" for j
      using p i(1) that unat_of_nat_below [OF that] by (auto simp: privates_of_def)
    have "map (\<lambda>j. chain (privates ?l ! j) (privates_of pes ns j)) [0..<unat (num_of_pe pes)] =
        map (\<lambda>j. chain (privates l ! j) (privates_of pes (c # ns) j)) [0..<unat (num_of_pe pes)]"
      using Cons.prems(1) by (intro map_cong) (auto simp: own chain_step nth_list_update)
    with Cons.IH [of ?l t] Cons.prems t no show ?thesis by (simp del: map_eq_conv cong: if_cong split del: if_split)
  next
    case cl
    let ?l = "l\<lparr>clusters := clusters l @ [c]\<rparr>"
    have no: "clusters_of (c # ns) = c # clusters_of ns" "systems_of (c # ns) = systems_of ns"
      "privates_of pes (c # ns) = privates_of pes ns"
      using cl by (auto simp: clusters_of_def systems_of_def privates_of_def reg_defs)
    have "place_node hw pes c (l, s) = Some (?l, s)"
      using cl Cons.prems(2) no(1) by (simp add: place_node_def reg_defs)
    with Cons.IH [of ?l s] Cons.prems no show ?thesis by (simp cong: if_cong split del: if_split)
  next
    case s
    let ?l = "l\<lparr>system_node := Some c\<rparr>"
    have no: "clusters_of (c # ns) = clusters_of ns" "systems_of (c # ns) = c # systems_of ns"
      "privates_of pes (c # ns) = privates_of pes ns"
      using s by (auto simp: clusters_of_def systems_of_def privates_of_def)
    have "(if systems_of (c # ns) = [] then system_node l else Some (last (systems_of (c # ns)))) =
        (if systems_of ns = [] then Some c else Some (last (systems_of ns)))" by (simp add: no(2))
    moreover have "place_node hw pes c (l, s) = Some (?l, s)" using s by (simp add: place_node_def)
    ultimately show ?thesis
      using Cons.IH [of ?l s] Cons.prems by (simp add: no(1,3) cong: if_cong split del: if_split)
  qed
qed

subsection \<open>One PE\<close>

lemma copy_list_run:
  "copy_list (length xs) k xs buf =
     (if xs = [] \<or> k + length xs \<le> length buf
      then Some (take k buf @ map CopyCacheNode xs @ drop (k + length xs) buf) else None)"
proof (induction xs arbitrary: k buf)
  case Nil
  then show ?case by simp
next
  case (Cons x xs)
  show ?case
  proof (cases "k < length buf")
    case True
    have "take (Suc k) (buf[k := v]) = take k buf @ [v]" for v
      using True by (simp add: take_Suc_conv_app_nth)
    with True Cons show ?thesis by auto
  next
    case False
    then show ?thesis by (simp add: set_at_def)
  qed
qed

lemma append_set_at:
  "set_at (length xs) v (xs @ ys) = (case ys of [] \<Rightarrow> None | y # zs \<Rightarrow> Some (xs @ v # zs))"
  by (cases ys) (simp_all add: set_at_def list_update_append)

lemma fill_buffer:
  assumes "xs \<noteq> []" "length xs + 2 < 2 ^ 32" "num = of_nat (length xs) + (if prim then 2 else 1 :: u32)"
  shows "(do { buf \<leftarrow> CopyPrivateCacheNodes xs num prim (replicate cap z);
        buf \<leftarrow> CopyClusterCacheNodes c num prim buf;
        (if prim then CopySystemCacheNode d num buf else Some buf) }) =
     (let row = map CopyCacheNode xs @ [CopyCacheNode c] @ (if prim then [CopyCacheNode d] else [])
      in if length row \<le> cap then Some (row @ replicate (cap - length row) z) else None)"
proof -
  have k: "unat (of_nat (length xs) :: u32) = length xs" using assms(2) by (simp add: unat_of_nat)
  have k1: "unat (of_nat (length xs) + 1 :: u32) = length xs + 1"
    using assms(2) by (simp add: unat_word_ariths k)
  have cnt: "unat (if prim then num - 2 else num - 1) = length xs" "prim \<Longrightarrow> unat (num - 1) = length xs + 1"
    using k k1 by (simp_all add: assms(3) add.commute diff_diff_eq2 [symmetric])
  have rep: "drop n (replicate cap z) = replicate (cap - n) z" for n by simp
  show ?thesis
  proof (cases "length xs < cap")
    case True
    then obtain m where m: "cap = length xs + Suc m" using less_iff_Suc_add by auto
    have priv: "CopyPrivateCacheNodes xs num prim (replicate cap z) = Some (map CopyCacheNode xs @ replicate (Suc m) z)"
      unfolding CopyPrivateCacheNodes_def cnt(1) using assms(1) m
      by (simp add: copy_list_run del: replicate.simps)
    have clus: "CopyClusterCacheNodes c num prim (map CopyCacheNode xs @ replicate (Suc m) z) =
        Some ((map CopyCacheNode xs @ [CopyCacheNode c]) @ replicate m z)"
      unfolding CopyClusterCacheNodes_def cnt(1)
      using append_set_at [of "map CopyCacheNode xs" "CopyCacheNode c" "replicate (Suc m) z"] by simp
    have sys: "CopySystemCacheNode d num ((map CopyCacheNode xs @ [CopyCacheNode c]) @ replicate m z) =
        (case m of 0 \<Rightarrow> None | Suc k \<Rightarrow>
           Some ((map CopyCacheNode xs @ [CopyCacheNode c]) @ CopyCacheNode d # replicate k z))" if prim
      unfolding CopySystemCacheNode_def cnt(2) [OF that]
      using append_set_at [of "map CopyCacheNode xs @ [CopyCacheNode c]" "CopyCacheNode d" "replicate m z"]
      by (cases m) simp_all
    show ?thesis unfolding priv bind.simps clus
      using sys by (cases m) (simp_all add: m)
  next
    case False
    then show ?thesis
      using cnt assms(1)
      by (auto simp: CopyPrivateCacheNodes_def CopyClusterCacheNodes_def copy_list_run set_at_def)
  qed
qed

text \<open>A PE that has a private cache, a cluster and, if it needs one, a system cache.\<close>

definition row_ok :: "hw \<Rightarrow> node_lists \<Rightarrow> nat \<Rightarrow> bool" where
  "row_ok hw l i \<longleftrightarrow> i < length (privates l) \<and> privates l ! i \<noteq> [] \<and> length (privates l ! i) \<le> MAX_CACHE_NODES \<and>
     GetClusterNode (clusters l) (n_mpidr (hd (privates l ! i))) \<noteq> None \<and> system_node l \<noteq> None"

definition entry_ok :: "hw \<Rightarrow> node_lists \<Rightarrow> nat \<Rightarrow> mpam_info \<Rightarrow> bool" where
  "entry_ok hw l i e \<longleftrightarrow> num_cache_nodes e = of_nat (length (row_of hw l i)) \<and> num_memory_nodes e = 0 \<and>
     (\<exists>r. cache_node e = row_of hw l i @ r)"

lemma row_length:
  assumes "row_ok hw l i"
  shows "unat (of_nat (length (row_of hw l i)) :: u32) = length (row_of hw l i)"
    "length (row_of hw l i) \<le> MAX_CACHE_NODES + 2"
proof -
  show le: "length (row_of hw l i) \<le> MAX_CACHE_NODES + 2"
    using assms by (simp add: row_ok_def row_of_def Let_def)
  have "length (row_of hw l i) < 2 ^ 32" using le by (simp add: MAX_CACHE_NODES_def)
  then show "unat (of_nat (length (row_of hw l i)) :: u32) = length (row_of hw l i)"
    by (simp add: unat_of_nat)
qed

lemma fill_pe_run:
  assumes "pools_ok hw" "row_ok hw l i" "row_ok hw l 0" "i < length t"
    and "0 < i \<Longrightarrow> num_cache_nodes (t ! 0) = of_nat (length (row_of hw l 0))"
  shows "if length (row_of hw l i) \<le> length (row_of hw l 0)
    then \<exists>e u. fill_pe hw f l i (t, s) = Some (t[i := e], u) \<and> entry_ok hw l i e \<and> gl u = gl s
    else fill_pe hw f l i (t, s) = None"
proof -
  obtain x r where xs: "privates l ! i = x # r" using assms(2) by (cases "privates l ! i") (auto simp: row_ok_def)
  obtain c d where cd: "GetClusterNode (clusters l) (n_mpidr x) = Some c" "system_node l = Some d"
    using assms(2) xs by (auto simp: row_ok_def)
  define prim where "prim = (n_mpidr x = affx (mpidr_in hw))"
  define num :: u32 where "num = of_nat (length (x # r)) + (if prim then 2 else 1)"
  define row where "row = map CopyCacheNode (x # r) @ [CopyCacheNode c] @ (if prim then [CopyCacheNode d] else [])"
  have row: "row_of hw l i = row" by (simp add: row_of_def xs cd prim_def row_def)
  have short: "length (x # r) + 2 < 2 ^ 32" using assms(2) xs by (simp add: row_ok_def MAX_CACHE_NODES_def)
  have num: "num = of_nat (length row)" by (simp add: num_def row_def)
  let ?t = "t[i := (t ! i)\<lparr>num_cache_nodes := num, num_memory_nodes := 0\<rparr>]"
  have n0: "num_cache_nodes (?t ! 0) = of_nat (length (row_of hw l 0))"
    using assms(4,5) num row by (cases "i = 0") simp_all
  have "unat (of_nat (length (row_of hw l 0)) :: u32) * unat SIZEOF_CACHE_NODE_ENTRY < 2 ^ 32"
    using row_length [OF assms(3)] by (simp add: reg_defs MAX_CACHE_NODES_def)
  then obtain u where u: "PalMemAllocate hw (num_cache_nodes (?t ! 0)) SIZEOF_CACHE_NODE_ENTRY
        (log_io (SysRead ''Arm64ReadMpidrPAL'') s) = (length (row_of hw l 0), u)" "gl u = gl s"
    using PalMemAllocate_ok [OF assms(1), of "num_cache_nodes (?t ! 0)" SIZEOF_CACHE_NODE_ENTRY
        "log_io (SysRead ''Arm64ReadMpidrPAL'') s"] row_length(1) [OF assms(3)]
    by (simp add: n0 reg_defs) blast
  have at_i: "at (privates l) i = Some (x # r)" "at t i = Some (t ! i)"
    using assms(2,4) xs by (simp_all add: row_ok_def)
  have step: "fill_pe hw f l i (t, s) =
      (do { buf \<leftarrow> (do { buf \<leftarrow> CopyPrivateCacheNodes (x # r) num prim (replicate (length (row_of hw l 0)) (fresh_cache f));
              buf \<leftarrow> CopyClusterCacheNodes c num prim buf;
              (if prim then CopySystemCacheNode d num buf else Some buf) });
            Some (?t[i := (?t ! i)\<lparr>cache_node := buf\<rparr>], u) })"
    unfolding fill_pe_def Let_def prod.case at_i bind.simps list.case GetCacheCount_def
      prim_def [symmetric] num_def [symmetric] u(1) cd
    by (cases prim) (simp_all add: bind_assoc cd(2))
  show ?thesis
  proof (cases "length row \<le> length (row_of hw l 0)")
    case True
    then have "fill_pe hw f l i (t, s) = Some (t[i := (t ! i)\<lparr>num_cache_nodes := num, num_memory_nodes := 0,
        cache_node := row @ replicate (length (row_of hw l 0) - length row) (fresh_cache f)\<rparr>], u)"
      using assms(4) unfolding step fill_buffer [OF _ short num_def [unfolded prim_def [symmetric]], simplified]
      by (simp add: row_def Let_def)
    with True show ?thesis using u(2) by (auto simp: entry_ok_def row num)
  next
    case False
    then show ?thesis unfolding step fill_buffer [OF _ short num_def, simplified]
      by (simp add: row row_def Let_def)
  qed
qed

subsection \<open>All PEs\<close>

definition rows_inv :: "hw \<Rightarrow> node_lists \<Rightarrow> nat \<Rightarrow> globals \<Rightarrow> nat \<Rightarrow> mpam_info list \<times> world \<Rightarrow> bool" where
  "rows_inv hw l n g i ts \<longleftrightarrow> length (fst ts) = n \<and> gl (snd ts) = g \<and>
     (\<forall>k<i. entry_ok hw l k (fst ts ! k) \<and> length (row_of hw l k) \<le> length (row_of hw l 0))"

lemma rows_step:
  assumes "pools_ok hw" "\<forall>i<n. row_ok hw l i" "i < n" "rows_inv hw l n g i (t, s)"
  shows "if length (row_of hw l i) \<le> length (row_of hw l 0)
    then \<exists>t' u. fill_pe hw f l i (t, s) = Some (t', u) \<and> rows_inv hw l n g (Suc i) (t', u)
    else fill_pe hw f l i (t, s) = None"
proof -
  have len: "i < length t" and first: "0 < i \<Longrightarrow> num_cache_nodes (t ! 0) = of_nat (length (row_of hw l 0))"
    using assms(3,4) by (auto simp: rows_inv_def entry_ok_def)
  note r = fill_pe_run [OF assms(1) _ _ len first, of f s]
  have "row_ok hw l i" "row_ok hw l 0" using assms(2,3) by auto
  from r [OF this] show ?thesis
    using assms(3,4) len by (auto simp: rows_inv_def less_Suc_eq nth_list_update split: if_splits)
qed

lemma fill_rows:
  assumes "pools_ok hw" "\<forall>i<n. row_ok hw l i" "length t = n"
  shows "if \<forall>i<n. length (row_of hw l i) \<le> length (row_of hw l 0)
    then \<exists>t' u. for_each (fill_pe hw f l) [0..<n] (t, s) = Some (t', u) \<and> rows_inv hw l n (gl s) n (t', u)
    else for_each (fill_pe hw f l) [0..<n] (t, s) = None"
proof -
  have start: "rows_inv hw l n (gl s) 0 (t, s)" using assms(3) by (simp add: rows_inv_def)
  show ?thesis
  proof (cases "\<forall>i<n. length (row_of hw l i) \<le> length (row_of hw l 0)")
    case True
    have "\<exists>r. for_each (fill_pe hw f l) [0..<n] (t, s) = Some r \<and> rows_inv hw l n (gl s) n r"
    proof (rule for_each_upt_defined [where P = "rows_inv hw l n (gl s)", OF start])
      fix i r assume "i < n" "rows_inv hw l n (gl s) i r"
      with rows_step [OF assms(1,2), of i "gl s" "fst r" "snd r" f] True
      show "\<exists>t. fill_pe hw f l i r = Some t \<and> rows_inv hw l n (gl s) (Suc i) t" by auto
    qed
    with True show ?thesis by (metis surj_pair)
  next
    case False
    have "rows_inv hw l n (gl s) n r" if r: "for_each (fill_pe hw f l) [0..<n] (t, s) = Some r" for r
    proof (rule for_each_upt [where P = "rows_inv hw l n (gl s)", OF r start])
      fix i r r' assume "i < n" "rows_inv hw l n (gl s) i r" "fill_pe hw f l i r = Some r'"
      with rows_step [OF assms(1,2), of i "gl s" "fst r" "snd r" f]
      show "rows_inv hw l n (gl s) (Suc i) r'" by (auto split: if_splits)
    qed
    with False have "for_each (fill_pe hw f l) [0..<n] (t, s) = None"
      by (cases "for_each (fill_pe hw f l) [0..<n] (t, s)") (auto simp: rows_inv_def)
    with False show ?thesis by simp
  qed
qed

lemma dump_frame [frame, simp]:
  "gl (dump_cache n s) = gl s" "gl (dump_memory m s) = gl s"
  "gl (PalMemFree hw s) = gl s" "gl (FreePrivateCaches hw ps s) = gl s"
  "gl (fold dump_cache cs s) = gl s" "gl (fold dump_memory ms s) = gl s"
proof -
  show a: "gl (dump_cache n s) = gl s" "gl (dump_memory m s) = gl s" for n m and s :: world
    by (simp_all add: dump_cache_def dump_memory_def)
  show f: "gl (PalMemFree hw s) = gl s" for s by (simp add: PalMemFree_def firmware_def)
  have "gl (fold (\<lambda>_. PalMemFree hw) xs s) = gl s" for xs :: "mpam_cache_node_cfg list" and s
    by (induction xs arbitrary: s) (simp_all add: f)
  then show "gl (FreePrivateCaches hw ps s) = gl s" by (simp add: FreePrivateCaches_def f)
  show "gl (fold dump_cache cs s) = gl s" by (induction cs arbitrary: s) (simp_all add: a)
  show "gl (fold dump_memory ms s) = gl s" by (induction ms arbitrary: s) (simp_all add: a)
qed

lemma dump_defined:
  assumes "unat (num_cache_nodes e) \<le> length (cache_node e)" "unat (num_memory_nodes e) \<le> length (memory_node e)"
  shows "\<exists>t. DumpMpamInfoTable e s = Some t \<and> gl t = gl s"
  using assms by (simp add: DumpMpamInfoTable_def counted_entries_def)

lemma dump_all:
  assumes "\<forall>i<n. unat (num_cache_nodes (t ! i)) \<le> length (cache_node (t ! i)) \<and>
      unat (num_memory_nodes (t ! i)) \<le> length (memory_node (t ! i))" "n \<le> length t"
  shows "\<exists>u. for_each (\<lambda>k s. do { e \<leftarrow> at t k;
      DumpMpamInfoTable e (acs_print ACS_PRINT_DEBUG ''Dumping Mpam info for pe_index:  %d'' [of_nat k] s) })
        [0..<n] s = Some u \<and> gl u = gl (s :: world)"
proof (rule for_each_upt_defined [where P = "\<lambda>_ u. gl u = gl s"])
  fix i and u :: world assume i: "i < n" "gl u = gl s"
  with dump_defined [of "t ! i" "acs_print ACS_PRINT_DEBUG ''Dumping Mpam info for pe_index:  %d'' [of_nat i] u"] assms
  show "\<exists>v. (do { e \<leftarrow> at t i; DumpMpamInfoTable e
        (acs_print ACS_PRINT_DEBUG ''Dumping Mpam info for pe_index:  %d'' [of_nat i] u) }) = Some v \<and> gl v = gl s"
    by simp
qed simp

lemma chain_Nil: "chain [] cs = (case cs of [] \<Rightarrow> [] | c # r \<Rightarrow> c # rev r)"
  by (cases cs) simp_all

lemma sorted_rows:
  assumes "describes cfg pes" "i < unat (num_of_pe pes)"
  shows "row_ok hw (sorted_nodes pes cfg) i"
proof -
  let ?ns = "listed cfg" and ?p = "privates_of pes (listed cfg) i"
  have ne: "?p \<noteq> []" "GetClusterNode (clusters_of ?ns) (n_mpidr (hd ?p)) \<noteq> None" "systems_of ?ns \<noteq> []"
    using assms by (auto simp: describes_def)
  then have "hd (chain [] ?p) = hd ?p" "chain [] ?p \<noteq> []" "length (chain [] ?p) = length ?p"
    by (cases ?p; simp)+
  moreover have "length ?p \<le> MAX_CACHE_NODES"
  proof -
    have "length ?p \<le> length ?ns" by (simp add: privates_of_def)
    then show ?thesis using assms(1) by (simp add: listed_def describes_def)
  qed
  ultimately show ?thesis
    using ne assms(2) by (simp add: row_ok_def sorted_nodes_def Let_def)
qed

lemma nodes_sorted:
  assumes "describes cfg pes" "wf_pe_table pes" "0 < num_of_pe pes" "pools_ok hw"
  shows "\<exists>t. for_each (place_node hw pes) (listed cfg)
     (\<lparr>privates = replicate (unat (num_of_pe pes)) [], cluster_cap = length (clusters_of (listed cfg)),
       clusters = [], system_node = None\<rparr>, s) = Some (sorted_nodes pes cfg, t) \<and> gl t = gl s"
proof -
  let ?l = "\<lparr>privates = replicate (unat (num_of_pe pes)) [], cluster_cap = length (clusters_of (listed cfg)),
       clusters = [], system_node = None\<rparr> :: node_lists"
  have "map (\<lambda>i. chain (privates ?l ! i) (privates_of pes (listed cfg) i)) [0..<unat (num_of_pe pes)] =
      map (\<lambda>i. chain [] (privates_of pes (listed cfg) i)) [0..<unat (num_of_pe pes)]"
    by (intro map_cong) simp_all
  then show ?thesis
    using place_nodes [OF assms(2,3,4), of ?l "listed cfg" s]
    by (simp add: sorted_nodes_def Let_def del: map_eq_conv cong: if_cong split del: if_split)
qed

text \<open>Up to the loop over the PEs, all allocations succeed and the nodes are sorted.\<close>

lemma fill_table_start:
  assumes "describes cfg pes" "wf_pe_table pes" "0 < num_of_pe pes" "unat (num_of_pe pes) * 24 < 2 ^ 32" "pools_ok hw"
  shows "\<exists>u. gl u = gl s \<and> FillMpamInfoTable hw f cfg pes s =
     (do { ts \<leftarrow> for_each (fill_pe hw f (sorted_nodes pes cfg)) [0..<unat (num_of_pe pes)]
              (replicate (unat (num_of_pe pes)) (fresh_info f), u);
           finish_table hw f cfg pes (sorted_nodes pes cfg) ts })"
proof -
  let ?n = "num_of_pe pes" and ?ns = "listed cfg"
  have cnt: "counted_entries (cfg_num_cache_nodes cfg) (cnode cfg) = Some ?ns" "length ?ns \<le> MAX_CACHE_NODES"
    using assms(1) by (simp_all add: describes_def counted_entries_def listed_def)
  have cl: "length (clusters_of ?ns) \<le> MAX_CACHE_NODES"
    using cnt(2) le_trans [OF length_filter_le, of ?ns] by (simp add: clusters_of_def)
  then have cc: "unat (CountClusters ?ns) = length (clusters_of ?ns)"
    by (simp add: CountClusters_def clusters_of_def [symmetric] unat_of_nat MAX_CACHE_NODES_def)
  obtain s1 where s1: "PalMemAllocate hw ?n SIZEOF_MPAM_INFO_TABLE s = (unat ?n, s1)" "gl s1 = gl s"
    using PalMemAllocate_ok [OF assms(5), of ?n SIZEOF_MPAM_INFO_TABLE s] assms(4) by (auto simp: reg_defs)
  obtain s2 where s2: "PalMemAllocate hw ?n SIZEOF_PRIVATE_PE_CACHES s1 = (unat ?n, s2)" "gl s2 = gl s1"
    using PalMemAllocate_ok [OF assms(5), of ?n SIZEOF_PRIVATE_PE_CACHES s1] assms(4) by (auto simp: reg_defs)
  obtain s3 where s3: "PalMemAllocate hw (CountClusters ?ns) SIZEOF_POINTER s2 = (length (clusters_of ?ns), s3)" "gl s3 = gl s2"
    using PalMemAllocate_ok [OF assms(5), of "CountClusters ?ns" SIZEOF_POINTER s2] cc cl
    by (auto simp: reg_defs MAX_CACHE_NODES_def)
  obtain u where u: "for_each (place_node hw pes) ?ns
      (\<lparr>privates = replicate (unat ?n) [], cluster_cap = length (clusters_of ?ns), clusters = [], system_node = None\<rparr>, s3) =
        Some (sorted_nodes pes cfg, u)" "gl u = gl s3"
    using nodes_sorted [OF assms(1,2,3,5)] by blast
  have "FillMpamInfoTable hw f cfg pes s =
     (do { ts \<leftarrow> for_each (fill_pe hw f (sorted_nodes pes cfg)) [0..<unat (num_of_pe pes)]
              (replicate (unat (num_of_pe pes)) (fresh_info f), u);
           finish_table hw f cfg pes (sorted_nodes pes cfg) ts })"
    unfolding FillMpamInfoTable_def
    by (simp add: s1(1) s2(1) s3(1) cnt(1) u(1) SetPeInfoNull_def Let_def)
  with u(2) s1(2) s2(2) s3(2) show ?thesis by auto
qed

text \<open>Once the rows are filled, the memory nodes are attached and the rest cannot go wrong.\<close>

lemma finish_rows:
  assumes "rows_inv hw l (unat (num_of_pe pes)) g (unat (num_of_pe pes)) (t, s)"
    "\<forall>i < unat (num_of_pe pes). row_ok hw l i" "describes cfg pes" "pools_ok hw" "0 < num_of_pe pes"
    "pe_get_index_mpid pes (affx (mpidr_in hw)) = Some me" "unat me < unat (num_of_pe pes)"
  shows "\<exists>x. finish_table hw f cfg pes l (t, s) = Some
     (t[unat me := (t ! unat me)\<lparr>num_memory_nodes := cfg_num_memory_nodes cfg,
          memory_node := take (unat (cfg_num_memory_nodes cfg)) (mnode cfg)\<rparr>], x)"
proof -
  let ?n = "unat (num_of_pe pes)" and ?k = "unat (cfg_num_memory_nodes cfg)"
  let ?e = "(t ! unat me)\<lparr>num_memory_nodes := cfg_num_memory_nodes cfg, memory_node := take ?k (mnode cfg)\<rparr>"
  have len: "length t = ?n" using assms(1) by (simp add: rows_inv_def)
  have k: "?k \<le> length (mnode cfg)" "?k * 64 < 2 ^ 32"
    using assms(3) by (simp_all add: describes_def MAX_DDR_NODES_def)
  then obtain w where w: "PalMemAllocate hw (cfg_num_memory_nodes cfg) SIZEOF_MEMORY_NODE_ENTRY s = (?k, w)"
    using PalMemAllocate_ok [OF assms(4), of "cfg_num_memory_nodes cfg" SIZEOF_MEMORY_NODE_ENTRY s] by (auto simp: reg_defs)
  have mem: "CopyMemoryNodes hw f cfg (t ! unat me) s = Some (?e, w)"
    using w k(1) by (simp add: CopyMemoryNodes_def counted_entries_def)
  have "unat (num_cache_nodes (t ! i)) \<le> length (cache_node (t ! i)) \<and> num_memory_nodes (t ! i) = 0"
    if "i < ?n" for i
    using that assms(1,2) row_length(1) [of hw l i] by (auto simp: rows_inv_def entry_ok_def)
  then have "\<forall>i<?n. unat (num_cache_nodes (t[unat me := ?e] ! i)) \<le> length (cache_node (t[unat me := ?e] ! i)) \<and>
      unat (num_memory_nodes (t[unat me := ?e] ! i)) \<le> length (memory_node (t[unat me := ?e] ! i))"
    using k(1) len assms(7) by (auto simp: nth_list_update)
  from dump_all [OF this, of w] len show ?thesis
    using assms(5,6,7) mem by (auto simp: finish_table_def Let_def word_gt_0)
qed

text \<open>C27: The table that is built from a configuration that describes the machine, when no PE needs a
  longer array than the PE of entry 0: the entry of every PE lists its private caches, first node
  first and then the others from the last to the second, its cluster's cache and, for the PE that
  builds the table, the system cache; the memory nodes are in the entry of the PE that builds it.\<close>

theorem mpam_table_filled:
  assumes "g_pe_info_table (gl s) = Some pes" "wf_pe_table pes" "0 < num_of_pe pes"
    "unat (num_of_pe pes) * 24 < 2 ^ 32" "pools_ok hw" "describes cfg pes"
    and "\<forall>i < unat (num_of_pe pes). length (pe_row hw pes cfg i) \<le> length (pe_row hw pes cfg 0)"
  shows "\<exists>t T me. pal_mpam_create_info_table hw f cfg s = Some t \<and> g_mpam_info_table (gl t) = Some T \<and>
     length T = unat (num_of_pe pes) \<and> pe_get_index_mpid pes (affx (mpidr_in hw)) = Some me \<and>
     (\<forall>i < unat (num_of_pe pes). take (unat (num_cache_nodes (T ! i))) (cache_node (T ! i)) = pe_row hw pes cfg i \<and>
        num_memory_nodes (T ! i) = (if i = unat me then cfg_num_memory_nodes cfg else 0)) \<and>
     take (unat (cfg_num_memory_nodes cfg)) (memory_node (T ! unat me)) =
       take (unat (cfg_num_memory_nodes cfg)) (mnode cfg)"
proof -
  let ?n = "unat (num_of_pe pes)" and ?l = "sorted_nodes pes cfg"
  have ok: "\<forall>i<?n. row_ok hw ?l i" using sorted_rows [OF assms(6)] by blast
  obtain u where u: "FillMpamInfoTable hw f cfg pes s =
     (do { ts \<leftarrow> for_each (fill_pe hw f ?l) [0..<?n] (replicate ?n (fresh_info f), u); finish_table hw f cfg pes ?l ts })"
    using fill_table_start [OF assms(6,2,3,4,5)] by blast
  obtain t v where t: "for_each (fill_pe hw f ?l) [0..<?n] (replicate ?n (fresh_info f), u) = Some (t, v)"
    "rows_inv hw ?l ?n (gl u) ?n (t, v)"
    using fill_rows [OF assms(5) ok, of "replicate ?n (fresh_info f)" f u] assms(7) by (auto simp: pe_row_def)
  obtain me where me: "pe_get_index_mpid pes (affx (mpidr_in hw)) = Some me" "unat me < ?n"
    using pe_index_total [OF assms(2,3)] by blast
  let ?T = "t[unat me := (t ! unat me)\<lparr>num_memory_nodes := cfg_num_memory_nodes cfg,
      memory_node := take (unat (cfg_num_memory_nodes cfg)) (mnode cfg)\<rparr>]"
  obtain x where x: "finish_table hw f cfg pes ?l (t, v) = Some (?T, x)"
    using finish_rows [OF t(2) ok assms(6,5,3) me] by blast
  have len: "length t = ?n" using t(2) by (simp add: rows_inv_def)
  have "take (unat (num_cache_nodes (?T ! i))) (cache_node (?T ! i)) = row_of hw ?l i \<and>
      num_memory_nodes (?T ! i) = (if i = unat me then cfg_num_memory_nodes cfg else 0)" if i: "i < ?n" for i
  proof -
    have "row_ok hw ?l i" using ok i by blast
    from row_length(1) [OF this] t(2) i len show ?thesis
      by (auto simp: rows_inv_def entry_ok_def nth_list_update)
  qed
  then show ?thesis
    using me len x t(1) assms(1)
    by (intro exI [of _ "x\<lparr>gl := (gl x)\<lparr>g_mpam_info_table := Some ?T\<rparr>\<rparr>"] exI [of _ ?T] exI [of _ me])
      (simp add: pal_mpam_create_info_table_def u pe_row_def)
qed

text \<open>C28: The arrays of all PEs are allocated with the node count of entry 0, so filling goes past the end of
  an array (undefined behaviour) as soon as some PE has more nodes than the first: with the same
  number of private caches everywhere, whenever the PE that builds the table and also gets the
  system cache is not the first of the PE table.\<close>

theorem mpam_table_overflow:
  assumes "g_pe_info_table (gl s) = Some pes" "wf_pe_table pes" "0 < num_of_pe pes"
    "unat (num_of_pe pes) * 24 < 2 ^ 32" "pools_ok hw" "describes cfg pes"
    and "i < unat (num_of_pe pes)" "length (pe_row hw pes cfg i) > length (pe_row hw pes cfg 0)"
  shows "pal_mpam_create_info_table hw f cfg s = None"
proof -
  let ?n = "unat (num_of_pe pes)" and ?l = "sorted_nodes pes cfg"
  have ok: "\<forall>i<?n. row_ok hw ?l i" using sorted_rows [OF assms(6)] by blast
  have "\<not> (\<forall>i<?n. length (row_of hw ?l i) \<le> length (row_of hw ?l 0))"
    using assms(7,8) by (auto simp: pe_row_def not_le)
  then have "for_each (fill_pe hw f ?l) [0..<?n] (replicate ?n (fresh_info f), u) = None" for u
    using fill_rows [OF assms(5) ok, of "replicate ?n (fresh_info f)" f u] by (simp split: if_splits)
  then show ?thesis
    using fill_table_start [OF assms(6,2,3,4,5), of s f] assms(1) by (auto simp: pal_mpam_create_info_table_def)
qed

subsection \<open>The board's table\<close>

definition board_table :: pe_info_table where
  "board_table = \<lparr>num_of_pe = 8, pe_info = map (\<lambda>(i, m). \<lparr>pe_num = i, attr = 0, mpidr = m, pmu_gsiv = 23\<rparr>)
     [(0, 0), (1, 0x100), (2, 0x200), (3, 0x300), (4, 0x10000), (5, 0x10100), (6, 0x10200), (7, 0x10300)]\<rparr>"

definition board_world :: world where
  "board_world = two_pe_world\<lparr>gl := (gl two_pe_world)\<lparr>g_pe_info_table := Some board_table\<rparr>\<rparr>"

lemma listed_board: "listed acpi_override_cfg = board_system # board_clusters @ board_pes"
  by (simp add: listed_def acpi_override_cfg_def board_clusters_def board_pes_def)

lemma board_wf: "wf_pe_table board_table"
  by code_simp

lemma board_described: "describes acpi_override_cfg board_table"
  unfolding describes_def listed_board
  by code_simp

lemma pe_row_length:
  "length (pe_row hw pes cfg i) = (let xs = privates (sorted_nodes pes cfg) ! i
     in length xs + (if n_mpidr (hd xs) = affx (mpidr_in hw) then 2 else 1))"
  by (simp add: pe_row_def row_of_def Let_def)

lemma board_sorted:
  "map (\<lambda>i. privates_of board_table (board_system # board_clusters @ board_pes) i) [0..<8] = map (\<lambda>c. [c]) board_pes"
  by code_simp

lemma board_ok:
  "0 < num_of_pe board_table" "unat (num_of_pe board_table) * 24 < 2 ^ 32" "unat (num_of_pe board_table) = 8"
  "g_pe_info_table (gl board_world) = Some board_table" "pools_ok (ram_hw r m)"
  by (simp_all add: board_table_def board_world_def pools_ok_def)

lemma board_pes_length: "length board_pes = 8"
  by (simp add: board_pes_def)

lemma board_row:
  assumes "i < 8"
  shows "length (pe_row hw board_table acpi_override_cfg i) =
     (if n_mpidr (board_pes ! i) = affx (mpidr_in hw) then 3 else 2)"
proof -
  have "privates_of board_table (listed acpi_override_cfg) i = [board_pes ! i]"
    using arg_cong [OF board_sorted, of "\<lambda>l. l ! i"] assms board_pes_length by (simp add: listed_board)
  then have "privates (sorted_nodes board_table acpi_override_cfg) ! i = [board_pes ! i]"
    using assms by (simp add: sorted_nodes_def Let_def board_ok)
  then show ?thesis by (simp add: pe_row_length Let_def)
qed

definition fresh0 :: fresh_memory where
  "fresh0 = \<lparr>fresh_info = \<lparr>num_cache_nodes = 0, num_memory_nodes = 0, cache_node = [], memory_node = []\<rparr>,
     fresh_cache = CopyCacheNode zero_node, fresh_dram = zero_dram\<rparr>"

lemma mpam_table_filled_witness:
  "\<exists>t T. pal_mpam_create_info_table (ram_hw (\<lambda>_. 0) 0) fresh0 acpi_override_cfg board_world = Some t \<and>
     g_mpam_info_table (gl t) = Some T \<and> length T = 8 \<and> num_memory_nodes (T ! 0) = 2"
proof -
  have others: "n_mpidr (board_pes ! i) = 0 \<longleftrightarrow> i = 0" if "i < 8" for i
  proof -
    have "\<forall>i<8. (n_mpidr (board_pes ! i) = 0) = (i = 0)" by code_simp
    with that show ?thesis by blast
  qed
  have zero: "affx (mpidr_in (ram_hw (\<lambda>_. 0) 0)) = 0" by (simp add: affx_def)
  have "\<forall>i < unat (num_of_pe board_table). length (pe_row (ram_hw (\<lambda>_. 0) 0) board_table acpi_override_cfg i) \<le>
      length (pe_row (ram_hw (\<lambda>_. 0) 0) board_table acpi_override_cfg 0)"
    using others zero by (simp add: board_ok(3) board_row)
  from mpam_table_filled [OF board_ok(4) board_wf board_ok(1,2,5) board_described this, of fresh0]
  obtain t T me where "pal_mpam_create_info_table (ram_hw (\<lambda>_. 0) 0) fresh0 acpi_override_cfg board_world = Some t"
    "g_mpam_info_table (gl t) = Some T" "length T = 8" "pe_get_index_mpid board_table 0 = Some me"
    "\<forall>i<8. num_memory_nodes (T ! i) = (if i = unat me then cfg_num_memory_nodes acpi_override_cfg else 0)"
    using zero by (auto simp: board_ok(3))
  moreover from this(4) have "me = 0" by (simp add: pe_get_index_mpid_def board_table_def)
  ultimately show ?thesis by (auto simp: acpi_override_cfg_def)
qed

text \<open>On the same board started from its second PE the construction is undefined.\<close>

lemma mpam_table_overflow_witness:
  "pal_mpam_create_info_table (ram_hw (\<lambda>_. 0) 0x100) fresh0 acpi_override_cfg board_world = None"
proof -
  have "affx (mpidr_in (ram_hw (\<lambda>_. 0) 0x100)) = 0x100" by (simp add: affx_def)
  then have "length (pe_row (ram_hw (\<lambda>_. 0) 0x100) board_table acpi_override_cfg 0) <
      length (pe_row (ram_hw (\<lambda>_. 0) 0x100) board_table acpi_override_cfg 1)"
    by (simp add: board_row) (simp add: board_pes_def board_node_def)
  from mpam_table_overflow [OF board_ok(4) board_wf board_ok(1,2,5) board_described _ this, of fresh0]
  show ?thesis by (simp add: board_ok(3))
qed

end
