(* ===== verification/Sdei_World.thy ===== *)
theory Sdei_World
  imports Mpam_Madt Acs_Interfaces
begin

text \<open>
  The SDEI suite below its tests: constants (val_interface.h, pal_interface.h), the global
  tables, the console, register access, the memory shared by the PEs, and the PE table with
  its look-ups (val_pe.c, val_misc.c, platform/pal_uefi/src/pal_pe.c, pal_misc.c). Names
  that the MPAM suite also uses carry the prefix \<open>sdei_\<close>. The structures of the PE and GIC
  tables and of the MADT are declared identically in both suites, and so is the computation
  of the affinity maxima; they are shared with the MPAM theories.
\<close>

unbundle bit_operations_syntax

subsection \<open>Constants\<close>

text \<open>Here a message is printed when its level is at most the print level.\<close>

definition ACS_LOG_ERR :: u32 where [reg_defs]: "ACS_LOG_ERR = 1"
definition ACS_LOG_WARN :: u32 where [reg_defs]: "ACS_LOG_WARN = 2"
definition ACS_LOG_TEST :: u32 where [reg_defs]: "ACS_LOG_TEST = 3"
definition ACS_LOG_DEBUG :: u32 where [reg_defs]: "ACS_LOG_DEBUG = 4"
definition ACS_LOG_INFO :: u32 where [reg_defs]: "ACS_LOG_INFO = 5"

definition ACS_SUCCESS :: u32 where [reg_defs]: "ACS_SUCCESS = 0"
definition ACS_ERROR :: u32 where [reg_defs]: "ACS_ERROR = 1"

definition INVALID_INDEX :: u32 where [reg_defs]: "INVALID_INDEX = 0xFFFFFFFF"

definition SPI_INTR_NUM :: u32 where [reg_defs]: "SPI_INTR_NUM = 230"
definition PPI_INTR_NUM :: u32 where [reg_defs]: "PPI_INTR_NUM = 18"

subsection \<open>State\<close>

record event_info_table_t =
  num_events :: u32
  hest_found :: u32
  num_ghes_notify :: u32
  event_numbers :: "u32 list"

record wd_info_entry_t =
  wd_ctrl_base :: u64
  wd_refresh_base :: u64
  wd_gsiv :: u32
  wd_flags :: u32

record wd_info_table_t =
  num_wd :: u32
  wd_info :: "wd_info_entry_t list"

text \<open>A block of the GTDT: the arrays have eight slots.\<close>

record timer_info_gtblock_t =
  timer_count :: u32
  block_cntl_base :: u64
  GtCntBase :: "u64 list"
  GtCntEl0Base :: "u64 list"
  tgsiv :: "u32 list"
  tvirt_gsiv :: "u32 list"
  tflags :: "u32 list"

record timer_info_table_t =
  s_el1_timer_flag :: u32
  ns_el1_timer_flag :: u32
  el2_timer_flag :: u32
  el2_virt_timer_flag :: u32
  s_el1_timer_gsiv :: u32
  ns_el1_timer_gsiv :: u32
  el2_timer_gsiv :: u32
  virtual_timer_flag :: u32
  virtual_timer_gsiv :: u32
  el2_virt_timer_gsiv :: u32
  num_platform_timer :: u32
  sys_timer_status :: u32
  gt_info :: "timer_info_gtblock_t list"

text \<open>The globals of the suite; \<open>status_of\<close> is the status field of the array sdei_test.\<close>

record sdei_globals =
  sd_pe_table :: "pe_info_table option"
  sd_gic_table :: "gic_info_table option"
  g_gicd_base :: u64
  g_event_info_table :: "event_info_table_t option"
  g_wd_info_table :: "wd_info_table_t option"
  g_timer_info_table :: "timer_info_table_t option"
  g_sys_timertable :: "timer_info_table_t option"
  sd_mpidr_max :: u64
  sd_stack :: "u64 option"
  sdei_firmware_call :: bool

record sworld = base +
  sg :: sdei_globals

lemma sdei_elementary [frame, simp]:
  "sg (log_io e s) = sg s" "sg (interfere hw s) = sg s"
  by (simp_all add: log_io_def interfere_def)

subsection \<open>Console and registers\<close>

definition sdei_pal_print :: "u32 \<Rightarrow> string \<Rightarrow> u64 list \<Rightarrow> sworld \<Rightarrow> sworld" where
  "sdei_pal_print verbosity str args s =
     (if verbosity \<le> print_level s then s\<lparr>con := (verbosity, str, args) # con s\<rparr> else s)"

lemma sdei_print_frame [frame, simp]:
  "io (sdei_pal_print l m a s) = io s" "print_level (sdei_pal_print l m a s) = print_level s"
  "shared (sdei_pal_print l m a s) = shared s" "sg (sdei_pal_print l m a s) = sg s"
  by (simp_all add: sdei_pal_print_def)

definition sdei_pal_mmio_read :: "hw \<Rightarrow> u64 \<Rightarrow> sworld \<Rightarrow> u32 \<times> sworld" where
  "sdei_pal_mmio_read hw addr s =
     (let addr = (if addr AND 3 \<noteq> 0 then addr AND NOT 3 else addr)
      in (mmio_in hw (io s) addr, log_io (MmioRead addr) s))"

definition sdei_pal_mmio_write :: "u64 \<Rightarrow> u32 \<Rightarrow> sworld \<Rightarrow> sworld" where
  "sdei_pal_mmio_write addr data s = log_io (MmioWrite addr data) s"

definition sdei_val_mmio_read :: "hw \<Rightarrow> u64 \<Rightarrow> sworld \<Rightarrow> u32 \<times> sworld" where
  "sdei_val_mmio_read hw addr s = sdei_pal_mmio_read hw addr s"

definition sdei_val_mmio_write :: "u64 \<Rightarrow> u32 \<Rightarrow> sworld \<Rightarrow> sworld" where
  "sdei_val_mmio_write addr data s = sdei_pal_mmio_write addr data s"

definition pal_pe_data_cache_clean_invalidate :: "loc \<Rightarrow> sworld \<Rightarrow> sworld" where
  "pal_pe_data_cache_clean_invalidate a s = log_io (CacheOp a CLEAN_AND_INVALIDATE) s"

definition pal_pe_data_cache_invalidate :: "loc \<Rightarrow> sworld \<Rightarrow> sworld" where
  "pal_pe_data_cache_invalidate a s = log_io (CacheOp a INVALIDATE) s"

definition val_pe_data_cache_clean_invalidate :: "loc \<Rightarrow> sworld \<Rightarrow> sworld" where
  "val_pe_data_cache_clean_invalidate a s = pal_pe_data_cache_clean_invalidate a s"

definition val_pe_data_cache_invalidate :: "loc \<Rightarrow> sworld \<Rightarrow> sworld" where
  "val_pe_data_cache_invalidate a s = pal_pe_data_cache_invalidate a s"

lemma sdei_mmio_frame [frame, simp]:
  "sg (snd (sdei_val_mmio_read hw a s)) = sg s" "sg (sdei_val_mmio_write a d s) = sg s"
  "io (sdei_val_mmio_write a d s) = MmioWrite a d # io s"
  "io (snd (sdei_val_mmio_read hw a s)) = MmioRead (mmio_addr a) # io s"
  "fst (sdei_val_mmio_read hw a s) = mmio_in hw (io s) (mmio_addr a)"
  "shared (snd (sdei_val_mmio_read hw a s)) = shared s" "shared (sdei_val_mmio_write a d s) = shared s"
  by (simp_all add: sdei_val_mmio_read_def sdei_pal_mmio_read_def sdei_val_mmio_write_def
      sdei_pal_mmio_write_def mmio_addr_def Let_def)

lemma sdei_cache_frame [simp]:
  "val_pe_data_cache_clean_invalidate a s = log_io (CacheOp a CLEAN_AND_INVALIDATE) s"
  "val_pe_data_cache_invalidate a s = log_io (CacheOp a INVALIDATE) s"
  by (simp_all add: val_pe_data_cache_clean_invalidate_def val_pe_data_cache_invalidate_def
      pal_pe_data_cache_clean_invalidate_def pal_pe_data_cache_invalidate_def)

text \<open>System registers; the client runs at EL2. The \<open>default\<close> case leaves the output alone.\<close>

datatype pe_reg_id_t = MPIDR_EL1 | ID_AA64PFR0_EL1 | CurrentEL | DAIF | SPsel | ELR_EL | SPSR_EL | BadReg

definition sdei_val_pe_reg_read :: "hw \<Rightarrow> pe_reg_id_t \<Rightarrow> sworld \<Rightarrow> (u32 \<times> u64 option) \<times> sworld" where
  "sdei_val_pe_reg_read hw reg_id s =
     (case reg_id of
        MPIDR_EL1 \<Rightarrow> ((ACS_SUCCESS, Some (mpidr_in hw)), log_io (SysRead ''ArmReadMpidr'') s)
      | ID_AA64PFR0_EL1 \<Rightarrow>
          (let (v, s) = read_sysreg hw ''ArmReadIdPfr0'' s in ((ACS_SUCCESS, Some v), s))
      | CurrentEL \<Rightarrow>
          (let (v, s) = read_sysreg hw ''AA64ReadCurrentEL'' s in ((ACS_SUCCESS, Some v), s))
      | DAIF \<Rightarrow>
          (let (v, s) = read_sysreg hw ''ArmReadDaif'' s
           in ((ACS_SUCCESS, Some (drop_bit 6 v AND (push_bit 4 1 - 1))), s))
      | SPsel \<Rightarrow>
          (let (v, s) = read_sysreg hw ''ArmReadSPselPState'' s in ((ACS_SUCCESS, Some v), s))
      | ELR_EL \<Rightarrow>
          (let (v, s) = read_sysreg hw ''ArmReadElrEl2'' s in ((ACS_SUCCESS, Some v), s))
      | SPSR_EL \<Rightarrow>
          (let (v, s) = read_sysreg hw ''ArmReadSpsrEl2'' s in ((ACS_SUCCESS, Some v), s))
      | BadReg \<Rightarrow> ((ACS_ERROR, None), s))"

definition sdei_val_is_el3_enabled :: "hw \<Rightarrow> sworld \<Rightarrow> u32 \<times> sworld" where
  "sdei_val_is_el3_enabled hw s =
     (let ((_, v), s) = sdei_val_pe_reg_read hw ID_AA64PFR0_EL1 s
      in (ucast (drop_bit 12 (the v) AND 0xF), s))"

definition sdei_val_is_el2_enabled :: "hw \<Rightarrow> sworld \<Rightarrow> u32 \<times> sworld" where
  "sdei_val_is_el2_enabled hw s =
     (let ((_, v), s) = sdei_val_pe_reg_read hw ID_AA64PFR0_EL1 s
      in (ucast (drop_bit 8 (the v) AND 0xF), s))"

subsection \<open>The PE directory\<close>

definition sdei_val_pe_get_num :: "sworld \<Rightarrow> u32" where
  "sdei_val_pe_get_num s = (case sd_pe_table (sg s) of None \<Rightarrow> 0 | Some t \<Rightarrow> num_of_pe t)"

definition sdei_val_pe_get_mpid :: "hw \<Rightarrow> sworld \<Rightarrow> u64 \<times> sworld" where
  "sdei_val_pe_get_mpid hw s =
     (let ((_, v), s) = sdei_val_pe_reg_read hw MPIDR_EL1 s in (affx (the v), s))"

text \<open>An index equal to the number of PEs passes the check and reads the entry after the last.\<close>

definition sdei_val_pe_get_mpid_index :: "u32 \<Rightarrow> sworld \<Rightarrow> u64 option" where
  "sdei_val_pe_get_mpid_index index s =
     do { t \<leftarrow> sd_pe_table (sg s);
          if index > num_of_pe t then Some (ucast INVALID_INDEX)
          else map_option mpidr (at (pe_info t) (unat index)) }"

fun sdei_find_pe :: "pe_info_entry list \<Rightarrow> nat \<Rightarrow> u64 \<Rightarrow> u32 option" where
  "sdei_find_pe es 0 m = Some INVALID_INDEX"
| "sdei_find_pe [] (Suc n) m = None"
| "sdei_find_pe (e # es) (Suc n) m =
     (if mpidr e = m then Some (pe_num e) else sdei_find_pe es n m)"

definition sdei_val_pe_get_index_mpid :: "u64 \<Rightarrow> sworld \<Rightarrow> u32 option" where
  "sdei_val_pe_get_index_mpid m s =
     do { t \<leftarrow> sd_pe_table (sg s); sdei_find_pe (pe_info t) (unat (num_of_pe t)) m }"

definition sdei_val_pe_get_index :: "hw \<Rightarrow> sworld \<Rightarrow> (u32 \<times> sworld) option" where
  "sdei_val_pe_get_index hw s =
     do { let (m, s) = sdei_val_pe_get_mpid hw s;
          i \<leftarrow> sdei_val_pe_get_index_mpid m s;
          Some (i, s) }"

definition sdei_wf_pe :: "sworld \<Rightarrow> bool" where
  "sdei_wf_pe s \<longleftrightarrow> (\<exists>t. sd_pe_table (sg s) = Some t \<and> wf_pe_table t)"

lemma sdei_find_pe_hit:
  assumes "k < n" "n \<le> length es" "distinct (map mpidr es)" "mpidr (es ! k) = m"
  shows "sdei_find_pe es n m = Some (pe_num (es ! k))"
  using assms
proof (induction es n m arbitrary: k rule: sdei_find_pe.induct)
  case (3 e es n m)
  show ?case
  proof (cases k)
    case 0
    with "3.prems" show ?thesis by simp
  next
    case (Suc l)
    then have "es ! l \<in> set es" "mpidr (es ! l) = m" using "3.prems" by auto
    then have "mpidr e \<noteq> m" using "3.prems"(3) by auto
    with "3.IH" [of l] "3.prems" Suc show ?thesis by simp
  qed
qed auto

lemma sdei_find_pe_miss:
  "n \<le> length es \<Longrightarrow> \<forall>e\<in>set es. mpidr e \<noteq> m \<Longrightarrow> sdei_find_pe es n m = Some INVALID_INDEX"
  by (induction es n m rule: sdei_find_pe.induct) auto

lemma wf_pe_table_at:
  assumes "wf_pe_table t" "i < num_of_pe t"
  shows "at (pe_info t) (unat i) = Some (pe_info t ! unat i)" "pe_num (pe_info t ! unat i) = i"
  using assms by (auto simp: wf_pe_table_def at_eq_Some word_less_nat_alt)

interpretation sdei_pe: strict_directory sdei_wf_pe sdei_val_pe_get_num
  sdei_val_pe_get_mpid_index sdei_val_pe_get_index_mpid INVALID_INDEX
proof
  fix s :: sworld and i :: u32 and m :: u64
  assume "sdei_wf_pe s"
  then obtain t where t: "sd_pe_table (sg s) = Some t" "wf_pe_table t" by (auto simp: sdei_wf_pe_def)
  note len = t(2) [unfolded wf_pe_table_def]
  have at_i: "sdei_val_pe_get_mpid_index j s = Some (mpidr (pe_info t ! unat j))"
    if "j < sdei_val_pe_get_num s" for j
    using that t wf_pe_table_at(1) [OF t(2), of j]
    by (auto simp: sdei_val_pe_get_mpid_index_def sdei_val_pe_get_num_def)
  show "\<exists>m. sdei_val_pe_get_mpid_index i s = Some m" if "i < sdei_val_pe_get_num s"
    using at_i [OF that] by blast
  show "sdei_val_pe_get_index_mpid m s = Some i"
    if i: "i < sdei_val_pe_get_num s" "sdei_val_pe_get_mpid_index i s = Some m"
  proof -
    have lt: "i < num_of_pe t" using i(1) t(1) by (simp add: sdei_val_pe_get_num_def)
    have "mpidr (pe_info t ! unat i) = m" using at_i [OF i(1)] i(2) by simp
    then have "sdei_find_pe (pe_info t) (unat (num_of_pe t)) m = Some (pe_num (pe_info t ! unat i))"
      using len lt by (intro sdei_find_pe_hit) (auto simp: word_less_nat_alt)
    then show ?thesis using t wf_pe_table_at(2) [OF t(2) lt] by (simp add: sdei_val_pe_get_index_mpid_def)
  qed
  show "sdei_val_pe_get_index_mpid m s = Some INVALID_INDEX"
    if none: "\<forall>i < sdei_val_pe_get_num s. sdei_val_pe_get_mpid_index i s \<noteq> Some m"
  proof -
    have "mpidr e \<noteq> m" if "e \<in> set (pe_info t)" for e
    proof -
      from that obtain k where k: "k < length (pe_info t)" "e = pe_info t ! k" by (auto simp: in_set_conv_nth)
      then have "unat (of_nat k :: u32) = k" using len by (simp add: unat_of_nat_below)
      then show ?thesis
        using none k len at_i [of "of_nat k"] t(1)
        by (auto simp: sdei_val_pe_get_num_def word_less_nat_alt)
    qed
    then show ?thesis using t len sdei_find_pe_miss [of "unat (num_of_pe t)" "pe_info t" m]
      by (simp add: sdei_val_pe_get_index_mpid_def)
  qed
  have "INVALID_INDEX = - 1" by (simp add: INVALID_INDEX_def)
  then show "sdei_val_pe_get_num s \<le> INVALID_INDEX" by (metis word_order.extremum)
qed

end
