(* ===== verification/Sdei_Pe.thy ===== *)
theory Sdei_Pe
  imports Sdei_World
begin

text \<open>
  Shared memory and status words of the SDEI suite (val_pe.c, val_test_infra.c), and the
  platform's side of the PEs (platform/pal_uefi/src/pal_pe.c): the PE table from the MADT,
  powering PEs on and off, and the PSCI calls.
\<close>

unbundle bit_operations_syntax

subsection \<open>Uninitialised locals\<close>

text \<open>A local structure that is passed on before every field is set holds what the stack
  held; the parameter \<open>fresh_in\<close> of the machine supplies that.\<close>

definition uninit_mem :: "hw \<Rightarrow> sworld \<Rightarrow> shared_mem" where
  "uninit_mem hw s = fresh_in hw (io s) 0"

definition uninit_smc :: "hw \<Rightarrow> sworld \<Rightarrow> ARM_SMC_ARGS" where
  "uninit_smc hw s =
     \<lparr>Arg0 = data0 (fresh_in hw (io s) 0), Arg1 = data0 (fresh_in hw (io s) 1),
      Arg2 = data0 (fresh_in hw (io s) 2), Arg3 = data0 (fresh_in hw (io s) 3),
      Arg4 = data0 (fresh_in hw (io s) 4), Arg5 = data0 (fresh_in hw (io s) 5),
      Arg6 = data0 (fresh_in hw (io s) 6), Arg7 = data0 (fresh_in hw (io s) 7)\<rparr>"

subsection \<open>Shared memory\<close>

definition SIZEOF_PE_SHARED_MEM :: u32 where [reg_defs]: "SIZEOF_PE_SHARED_MEM = 24"

definition pal_pe_alloc_shared_mem :: "hw \<Rightarrow> u32 \<Rightarrow> u32 \<Rightarrow> sworld \<Rightarrow> u32 \<times> sworld" where
  "pal_pe_alloc_shared_mem hw n sizeofentry s =
     (let ((st, a), s) = firmware hw ''AllocatePool'' [ucast (n * sizeofentry)] s;
          s = s\<lparr>shared := (if EFI_ERROR st then None
                 else Some (map (fresh_in hw (io s)) [0..<unat (n * sizeofentry) div unat sizeofentry]))\<rparr>;
          s = sdei_pal_print ACS_LOG_INFO ''Shared memory is %llx'' [if EFI_ERROR st then 0 else a] s;
          s = (if EFI_ERROR st then sdei_pal_print ACS_LOG_ERR ''Allocate Pool shared memory failed %x'' [st] s
               else s)
      in (ACS_SUCCESS, pal_pe_data_cache_clean_invalidate (LVar ''g_pe_shared_mem'') s))"

definition val_shared_mem_alloc :: "hw \<Rightarrow> sworld \<Rightarrow> u32 \<times> sworld" where
  "val_shared_mem_alloc hw s =
     pal_pe_alloc_shared_mem hw (sdei_val_pe_get_num s) SIZEOF_PE_SHARED_MEM s"

definition val_shared_mem_write :: "u32 \<Rightarrow> shared_mem \<Rightarrow> sworld \<Rightarrow> sworld option" where
  "val_shared_mem_write index src s =
     do { mem \<leftarrow> shared s;
          _ \<leftarrow> at mem (unat index);
          let s = s\<lparr>shared := Some (mem[unat index := src])\<rparr>;
          let s = val_pe_data_cache_clean_invalidate (LShared (unat index) ''status'') s;
          let s = val_pe_data_cache_clean_invalidate (LShared (unat index) ''data0'') s;
          Some (val_pe_data_cache_clean_invalidate (LShared (unat index) ''data1'') s) }"

definition val_shared_mem_read :: "hw \<Rightarrow> u32 \<Rightarrow> sworld \<Rightarrow> (shared_mem \<times> sworld) option" where
  "val_shared_mem_read hw index s =
     (let s = val_pe_data_cache_invalidate (LShared (unat index) ''status'') s;
          s = val_pe_data_cache_invalidate (LShared (unat index) ''data0'') s;
          s = interfere hw (val_pe_data_cache_invalidate (LShared (unat index) ''data1'') s)
      in do { mem \<leftarrow> shared s;
              src \<leftarrow> at mem (unat index);
              Some (src, s) })"

definition pal_pe_free_shared_mem :: "hw \<Rightarrow> sworld \<Rightarrow> sworld" where
  "pal_pe_free_shared_mem hw s = (snd (firmware hw ''FreePool'' [] s))\<lparr>shared := None\<rparr>"

subsection \<open>Status words\<close>

text \<open>Only the status of the local copy is set; its two data words go along as they are.\<close>

definition val_test_pe_set_status :: "hw \<Rightarrow> u32 \<Rightarrow> u32 \<Rightarrow> sworld \<Rightarrow> sworld option" where
  "val_test_pe_set_status hw index st s =
     val_shared_mem_write index ((uninit_mem hw s)\<lparr>status := st\<rparr>) s"

definition val_test_set_status :: "hw \<Rightarrow> u32 \<Rightarrow> u32 \<Rightarrow> sworld \<Rightarrow> sworld option" where
  "val_test_set_status hw num_pe st s =
     for_each (\<lambda>i. val_test_pe_set_status hw i st) (upto_u32 num_pe) s"

definition val_test_pe_get_status :: "hw \<Rightarrow> u32 \<Rightarrow> sworld \<Rightarrow> (u32 \<times> sworld) option" where
  "val_test_pe_get_status hw index s =
     do { (mem, s) \<leftarrow> val_shared_mem_read hw index s; Some (status mem, s) }"

lemma sdei_shared_size_cong: "shared s = shared t \<Longrightarrow> shared_size s = shared_size t"
  by (simp add: shared_size_def)

lemma sdei_status_word_cong: "shared s = shared t \<Longrightarrow> status_word i s = status_word i t"
  by (simp add: status_word_def)

lemma sdei_set_status_run [run]:
  assumes "val_test_pe_set_status hw i v s = Some t"
  shows "sg t = sg s" "con t = con s" "print_level t = print_level s" "shared_size t = shared_size s"
    "status_word j t = (if j = i then v else status_word j s)"
  using assms
  by (auto simp: val_test_pe_set_status_def val_shared_mem_write_def at_eq_Some Option.bind_eq_Some_conv
      shared_size_def status_word_def nth_list_update word_unat_eq_iff Let_def)

lemma sdei_set_status_defined [run]:
  "(\<exists>t. val_test_pe_set_status hw i v s = Some t) \<longleftrightarrow> unat i < shared_size s"
  by (auto simp: val_test_pe_set_status_def val_shared_mem_write_def at_eq_Some
      Option.bind_eq_Some_conv shared_size_def Let_def split: option.splits)

lemma sdei_get_status_run [run]:
  assumes "val_test_pe_get_status hw i s = Some (v, t)"
  shows "sg t = sg s" "con t = con s" "print_level t = print_level s" "v = status_word i t"
  using assms
  by (auto simp: val_test_pe_get_status_def val_shared_mem_read_def at_eq_Some
      Option.bind_eq_Some_conv status_word_def Let_def)

lemma sdei_get_status_quiet [run]:
  assumes "quiet_peers hw" "unat i < shared_size s"
  shows "\<exists>t. val_test_pe_get_status hw i s = Some (status_word i s, t) \<and> shared t = shared s \<and> sg t = sg s"
  using assms
  by (auto simp: val_test_pe_get_status_def val_shared_mem_read_def shared_size_def status_word_def
      split: option.splits)

interpretation sdei_status: status_store "quiet_peers hw" shared_size "val_test_pe_set_status hw"
  "val_test_pe_get_status hw" status_word for hw
proof
  fix i v and s t :: sworld
  show "unat i < shared_size s \<Longrightarrow> \<exists>t. val_test_pe_set_status hw i v s = Some t"
    by (simp add: sdei_set_status_defined)
  show "val_test_pe_set_status hw i v s = Some t \<Longrightarrow> shared_size t = shared_size s"
    by (rule sdei_set_status_run)
  show "val_test_pe_set_status hw i v s = Some t \<Longrightarrow>
      status_word j t = (if j = i then v else status_word j s)" for j
    by (rule sdei_set_status_run)
  show "quiet_peers hw \<Longrightarrow> unat i < shared_size s \<Longrightarrow>
      \<exists>t. val_test_pe_get_status hw i s = Some (status_word i s, t)"
    using sdei_get_status_quiet by blast
  assume q: "quiet_peers hw" and g: "val_test_pe_get_status hw i s = Some (v, t)"
  then have "unat i < shared_size s"
    by (auto simp: val_test_pe_get_status_def val_shared_mem_read_def shared_size_def
        Option.bind_eq_Some_conv at_eq_Some)
  with sdei_get_status_quiet [OF q] g have "shared t = shared s" by fastforce
  then show "status_word j t = status_word j s" for j by (rule sdei_status_word_cong)
  show "shared_size t = shared_size s"
    by (rule sdei_shared_size_cong) fact
qed

text \<open>Setting the status of a PE destroys its two data words: the entry is overwritten with a
  local structure of which only the status was set, so whatever was left on the stack replaces
  the data a test stored there.\<close>

lemma set_status_clobbers_data:
  assumes "shared s = Some mem" "unat i < length mem"
    and "fresh_in hw (io s) 0 = \<lparr>data0 = a, data1 = b, status = c\<rparr>"
  shows "\<exists>t. val_test_pe_set_status hw i st s = Some t \<and>
     shared t = Some (mem[unat i := \<lparr>data0 = a, data1 = b, status = st\<rparr>])"
  using assms
  by (simp add: val_test_pe_set_status_def val_shared_mem_write_def uninit_mem_def at_def)

subsection \<open>PSCI\<close>

definition sdei_ARM_SMC_ID_PSCI_CPU_ON_AARCH64 :: u64 where
  "sdei_ARM_SMC_ID_PSCI_CPU_ON_AARCH64 = 0xc4000003"
definition sdei_ARM_SMC_ID_PSCI_CPU_OFF :: u64 where "sdei_ARM_SMC_ID_PSCI_CPU_OFF = 0x84000002"
definition ARM_SMC_ID_PSCI_CPU_SUSPEND_AARCH64 :: u64 where
  "ARM_SMC_ID_PSCI_CPU_SUSPEND_AARCH64 = 0xc4000001"
definition ARM_SMC_ID_PSCI_FEATURES :: u64 where "ARM_SMC_ID_PSCI_FEATURES = 0x8400000A"
definition PSCI_STATE_POWER_DOWN :: u64 where "PSCI_STATE_POWER_DOWN = push_bit 16 1"

definition PowerOnPe :: "hw \<Rightarrow> u64 \<Rightarrow> sworld \<Rightarrow> sworld" where
  "PowerOnPe hw m s =
     snd (ArmCallSmc hw ((uninit_smc hw s)\<lparr>Arg0 := sdei_ARM_SMC_ID_PSCI_CPU_ON_AARCH64, Arg1 := m,
            Arg2 := entry_point hw\<rparr>) s)"

definition PowerOffPe :: "hw \<Rightarrow> sworld \<Rightarrow> sworld" where
  "PowerOffPe hw s =
     snd (ArmCallSmc hw ((uninit_smc hw s)\<lparr>Arg0 := sdei_ARM_SMC_ID_PSCI_CPU_OFF,
            Arg1 := PSCI_STATE_POWER_DOWN\<rparr>) s)"

definition PsciPowerStateIdExtended :: "hw \<Rightarrow> sworld \<Rightarrow> u32 \<times> sworld" where
  "PsciPowerStateIdExtended hw s =
     (let (a, s) = ArmCallSmc hw ((uninit_smc hw s)\<lparr>Arg0 := ARM_SMC_ID_PSCI_FEATURES,
                     Arg1 := ARM_SMC_ID_PSCI_CPU_SUSPEND_AARCH64\<rparr>) s
      in (ucast (drop_bit 1 (Arg0 a) AND 1), s))"

definition pal_pe_suspend :: "hw \<Rightarrow> u32 \<Rightarrow> sworld \<Rightarrow> sworld" where
  "pal_pe_suspend hw PowerDown s =
     (let (PowerState, s) =
            (if PowerDown \<noteq> 0
             then (let (ext, s) = PsciPowerStateIdExtended hw s
                   in (if ext \<noteq> 0 then push_bit 30 1 else push_bit 16 1, s))
             else (0, s))
      in snd (ArmCallSmc hw ((uninit_smc hw s)\<lparr>Arg0 := ARM_SMC_ID_PSCI_CPU_SUSPEND_AARCH64,
                Arg1 := PowerState, Arg2 := 0, Arg3 := 0\<rparr>) s))"

definition val_pe_suspend :: "hw \<Rightarrow> u32 \<Rightarrow> sworld \<Rightarrow> sworld" where
  "val_pe_suspend hw power_down s = pal_pe_suspend hw power_down s"

definition pal_invoke_psci_fn :: "hw \<Rightarrow> u64 \<Rightarrow> u64 \<Rightarrow> u64 \<Rightarrow> u64 \<Rightarrow> sworld \<Rightarrow> u32 \<times> sworld" where
  "pal_invoke_psci_fn hw arg0 arg1 arg2 arg3 s =
     (let (a, s) = ArmCallSmc hw ((uninit_smc hw s)\<lparr>Arg0 := arg0, Arg1 := arg1, Arg2 := arg2,
                     Arg3 := arg3\<rparr>) s
      in (ucast (Arg0 a), s))"

definition pal_pe_poweron :: "hw \<Rightarrow> u64 \<Rightarrow> sworld \<Rightarrow> sworld" where
  "pal_pe_poweron hw m s = PowerOnPe hw m s"

definition val_pe_poweron :: "hw \<Rightarrow> u32 \<Rightarrow> sworld \<Rightarrow> sworld option" where
  "val_pe_poweron hw pe_index s =
     do { m \<leftarrow> sdei_val_pe_get_mpid_index pe_index s; Some (pal_pe_poweron hw m s) }"

subsection \<open>The PE table\<close>

definition sdei_PalAllocateSecondaryStack :: "hw \<Rightarrow> u64 \<Rightarrow> sworld \<Rightarrow> sworld" where
  "sdei_PalAllocateSecondaryStack hw m s =
     (if sd_stack (sg s) = None
      then (let ((st, a), s) = firmware hw ''AllocatePool'' [ucast (num_pe_of m * SIZE_STACK_SECONDARY_PE)] s;
                s = (if EFI_ERROR st
                     then sdei_pal_print ACS_LOG_ERR ''FATAL-Allocation for Seconday stack failed %x'' [st] s
                     else s\<lparr>sg := (sg s)\<lparr>sd_stack := Some a\<rparr>\<rparr>)
            in pal_pe_data_cache_clean_invalidate (LVar ''gSecondaryPeStack'') s)
      else s)"

definition sdei_pe_step :: "u32 \<Rightarrow> madt_entry \<Rightarrow> pe_build \<times> sworld \<Rightarrow> pe_build \<times> sworld" where
  "sdei_pe_step junk e bs =
     (let (b, s) = bs
      in if mtype e = EFI_ACPI_6_1_GIC
         then (let p = \<lparr>pe_num = b_num b, attr = junk, mpidr = m_mpidr e, pmu_gsiv = m_perf_gsiv e\<rparr>;
                   s = sdei_pal_print ACS_LOG_DEBUG ''MPIDR %x PE num %x'' [m_mpidr e, ucast (b_num b)] s;
                   s = pal_pe_data_cache_clean_invalidate (LShared (unat (b_num b)) ''pe_info'') s
               in (\<lparr>b_entries = b_entries b @ [p], b_num = b_num b + 1,
                    b_aff0 = UPDATE_AFF_MAX (b_aff0 b) (m_mpidr e) 0x000000ff,
                    b_aff1 = UPDATE_AFF_MAX (b_aff1 b) (m_mpidr e) 0x0000ff00,
                    b_aff2 = UPDATE_AFF_MAX (b_aff2 b) (m_mpidr e) 0x00ff0000,
                    b_aff3 = UPDATE_AFF_MAX (b_aff3 b) (m_mpidr e) 0xff00000000\<rparr>, s))
         else (b, s))"

text \<open>The table is followed by waking every PE but the first of the table.\<close>

definition sdei_pal_pe_create_info_table :: "hw \<Rightarrow> madt option \<Rightarrow> u32 \<Rightarrow> sworld \<Rightarrow> sworld option" where
  "sdei_pal_pe_create_info_table hw m junk s =
     (case m of
        None \<Rightarrow> Some (sdei_pal_print ACS_LOG_ERR ''MADT not found'' [] s)
      | Some m \<Rightarrow> do {
          let s = sdei_pal_print ACS_LOG_INFO ''MADT is at %x and length is %x'' [0, ucast (madt_length m)] s;
          (b, s) \<leftarrow> madt_walk mlen (sdei_pe_step junk) (madt_length m) SIZEOF_MADT_HEADER (madt_entries m)
                      (\<lparr>b_entries = [], b_num = 0, b_aff0 = 0, b_aff1 = 0, b_aff2 = 0, b_aff3 = 0\<rparr>, s);
          let mx = b_aff0 b OR b_aff1 b OR b_aff2 b OR b_aff3 b;
          let s = s\<lparr>sg := (sg s)\<lparr>sd_pe_table := Some \<lparr>num_of_pe = b_num b, pe_info = b_entries b\<rparr>,
                       sd_mpidr_max := mx\<rparr>\<rparr>;
          let s = sdei_PalAllocateSecondaryStack hw mx s;
          let s = pal_pe_data_cache_clean_invalidate (LVar ''gMpidrMax'') s;
          let s = pal_pe_data_cache_clean_invalidate (LVar ''PeTable'') s;
          Some (fold (\<lambda>e. PowerOnPe hw (mpidr e)) (tl (b_entries b)) s) })"

definition sdei_val_pe_create_info_table ::
    "hw \<Rightarrow> madt option \<Rightarrow> u32 \<Rightarrow> pe_info_table option \<Rightarrow> sworld \<Rightarrow> (u32 \<times> sworld) option" where
  "sdei_val_pe_create_info_table hw m junk old s =
     (case old of
        None \<Rightarrow> Some (ACS_ERROR,
                  sdei_pal_print ACS_LOG_ERR ''Input memory for PE Info table cannot be NULL'' [] s)
      | Some t \<Rightarrow> do {
          let s = s\<lparr>sg := (sg s)\<lparr>sd_pe_table := Some t\<rparr>\<rparr>;
          s \<leftarrow> sdei_pal_pe_create_info_table hw m junk s;
          let s = sdei_pal_print ACS_LOG_TEST ''PE_INFO: Number of PE detected       : %4d''
                    [ucast (sdei_val_pe_get_num s)] s;
          if sdei_val_pe_get_num s = 0
          then Some (ACS_ERROR, sdei_pal_print ACS_LOG_ERR ''*** CRITICAL ERROR: Num PE is 0x0 ***'' [] s)
          else Some (ACS_SUCCESS, s) })"

subsection \<open>Waking the secondary PEs\<close>

text \<open>The function identifier and the first two arguments of every secure monitor call, oldest
  first.\<close>

fun smc_calls :: "history \<Rightarrow> (u64 \<times> u64 \<times> u64) list" where
  "smc_calls [] = []"
| "smc_calls (Smc m (f # x # y # as) # h) = smc_calls h @ [(f, x, y)]"
| "smc_calls (_ # h) = smc_calls h"

lemma smc_calls_other [simp]:
  "smc_calls (CacheOp l t # h) = smc_calls h" "smc_calls (Firmware f as # h) = smc_calls h"
  "smc_calls (SysRead r # h) = smc_calls h"
  by simp_all

lemma ArmCallSmc_run:
  "io (snd (ArmCallSmc hw a s)) = Smc (mpidr_in hw) (smc_list a) # io s"
  "sg (snd (ArmCallSmc hw a s)) = sg (s :: sworld)" "shared (snd (ArmCallSmc hw a s)) = shared s"
  "print_level (snd (ArmCallSmc hw a s)) = print_level s" "con (snd (ArmCallSmc hw a s)) = con s"
  by (simp_all add: ArmCallSmc_def split_beta)

lemma PowerOnPe_run [simp]:
  "smc_calls (io (PowerOnPe hw m s)) =
     smc_calls (io s) @ [(sdei_ARM_SMC_ID_PSCI_CPU_ON_AARCH64, m, entry_point hw)]"
  "sg (PowerOnPe hw m s) = sg s"
  by (simp_all add: PowerOnPe_def ArmCallSmc_run smc_list_def)

lemma PowerOnPe_fold:
  "smc_calls (io (fold (\<lambda>e. PowerOnPe hw (mpidr e)) es s)) =
     smc_calls (io s) @ map (\<lambda>e. (sdei_ARM_SMC_ID_PSCI_CPU_ON_AARCH64, mpidr e, entry_point hw)) es \<and>
   sg (fold (\<lambda>e. PowerOnPe hw (mpidr e)) es s) = sg s"
  by (induction es arbitrary: s) simp_all

lemma sdei_cache_simps [simp]:
  "pal_pe_data_cache_clean_invalidate a s = log_io (CacheOp a CLEAN_AND_INVALIDATE) s"
  "pal_pe_data_cache_invalidate a s = log_io (CacheOp a INVALIDATE) s"
  by (simp_all add: pal_pe_data_cache_clean_invalidate_def pal_pe_data_cache_invalidate_def)

lemma sdei_stack_frame [simp]:
  "sd_pe_table (sg (sdei_PalAllocateSecondaryStack hw m s)) = sd_pe_table (sg s)"
  "sd_mpidr_max (sg (sdei_PalAllocateSecondaryStack hw m s)) = sd_mpidr_max (sg s)"
  "smc_calls (io (sdei_PalAllocateSecondaryStack hw m s)) = smc_calls (io s)"
  by (simp_all add: sdei_PalAllocateSecondaryStack_def firmware_def Let_def split_beta)

lemma sdei_pe_step_fold:
  "fold (sdei_pe_step junk) vs (b, s) = (b', s') \<Longrightarrow>
     b_num b = of_nat (length (b_entries b)) \<Longrightarrow>
     b_entries b' = b_entries b @ number_pes junk (length (b_entries b)) (gics vs) \<and>
     b_num b' = of_nat (length (b_entries b')) \<and>
     b_aff0 b' = aff_max 0xff (b_aff0 b) vs \<and> b_aff1 b' = aff_max 0xff00 (b_aff1 b) vs \<and>
     b_aff2 b' = aff_max 0xff0000 (b_aff2 b) vs \<and> b_aff3 b' = aff_max 0xff00000000 (b_aff3 b) vs \<and>
     sg s' = sg s \<and> smc_calls (io s') = smc_calls (io s)"
proof (induction vs arbitrary: b s)
  case Nil
  then show ?case by (simp add: gics_def aff_max_def)
next
  case (Cons e vs)
  obtain b1 s1 where st: "sdei_pe_step junk e (b, s) = (b1, s1)" by fastforce
  with Cons.prems(1) have f: "fold (sdei_pe_step junk) vs (b1, s1) = (b', s')" by simp
  show ?case
  proof (cases "mtype e = EFI_ACPI_6_1_GIC")
    case True
    with st Cons.prems(2) have b1: "b_entries b1 = b_entries b @ [pe_of junk (length (b_entries b)) e]"
        "b_num b1 = of_nat (length (b_entries b1))" "sg s1 = sg s" "smc_calls (io s1) = smc_calls (io s)"
        "b_aff0 b1 = UPDATE_AFF_MAX (b_aff0 b) (m_mpidr e) 0xff"
        "b_aff1 b1 = UPDATE_AFF_MAX (b_aff1 b) (m_mpidr e) 0xff00"
        "b_aff2 b1 = UPDATE_AFF_MAX (b_aff2 b) (m_mpidr e) 0xff0000"
        "b_aff3 b1 = UPDATE_AFF_MAX (b_aff3 b) (m_mpidr e) 0xff00000000"
      by (auto simp: sdei_pe_step_def Let_def pe_of_def)
    have g: "gics (e # vs) = e # gics vs" using True by (simp add: gics_def)
    show ?thesis using Cons.IH [OF f b1(2)] b1 by (simp add: g aff_max_def)
  next
    case False
    with st have "b1 = b" "s1 = s" by (auto simp: sdei_pe_step_def Let_def)
    moreover have "gics (e # vs) = gics vs" using False by (simp add: gics_def)
    ultimately show ?thesis using Cons.IH f Cons.prems(2) by (simp add: aff_max_def)
  qed
qed

lemma sdei_pe_table_built:
  assumes "madt_visited mlen (madt_length m) SIZEOF_MADT_HEADER (madt_entries m) = Some vs"
  shows "\<exists>t. sdei_pal_pe_create_info_table hw (Some m) junk s = Some t \<and>
     sd_pe_table (sg t) = Some \<lparr>num_of_pe = of_nat (length (gics vs)), pe_info = number_pes junk 0 (gics vs)\<rparr> \<and>
     sd_mpidr_max (sg t) = aff_max 0xff 0 vs OR aff_max 0xff00 0 vs OR aff_max 0xff0000 0 vs OR
                        aff_max 0xff00000000 0 vs \<and>
     smc_calls (io t) = smc_calls (io s) @
       map (\<lambda>e. (sdei_ARM_SMC_ID_PSCI_CPU_ON_AARCH64, mpidr e, entry_point hw)) (tl (number_pes junk 0 (gics vs)))"
proof -
  let ?s = "sdei_pal_print ACS_LOG_INFO ''MADT is at %x and length is %x'' [0, ucast (madt_length m)] s"
  let ?b = "\<lparr>b_entries = [], b_num = 0, b_aff0 = 0, b_aff1 = 0, b_aff2 = 0, b_aff3 = 0\<rparr>"
  obtain b s' where bs: "fold (sdei_pe_step junk) vs (?b, ?s) = (b, s')" by fastforce
  have w: "madt_walk mlen (sdei_pe_step junk) (madt_length m) SIZEOF_MADT_HEADER (madt_entries m) (?b, ?s)
      = Some (b, s')"
    by (simp add: madt_walk_fold assms bs)
  show ?thesis
    using sdei_pe_step_fold [OF bs] w by (simp add: sdei_pal_pe_create_info_table_def Let_def PowerOnPe_fold)
qed


definition sdei_world0 :: sworld where
  "sdei_world0 = \<lparr>io = [], con = [], print_level = 3, shared = None,
     sg = \<lparr>sd_pe_table = None, sd_gic_table = None, g_gicd_base = 0, g_event_info_table = None,
       g_wd_info_table = None, g_timer_info_table = None, g_sys_timertable = None, sd_mpidr_max = 0,
       sd_stack = None, sdei_firmware_call = False\<rparr>\<rparr>"

definition pair_madt :: madt where
  "pair_madt = \<lparr>madt_length = 204, madt_entries =
     [\<lparr>mtype = 0xB, mlen = 80, m_mpidr = 0, m_perf_gsiv = 23, m_cpuif_base = 0, m_gicr_base = 0x2F100000,
       m_phys_base = 0, m_gic_version = 0\<rparr>,
      \<lparr>mtype = 0xB, mlen = 80, m_mpidr = 0x100, m_perf_gsiv = 23, m_cpuif_base = 0, m_gicr_base = 0x2F120000,
       m_phys_base = 0, m_gic_version = 0\<rparr>]\<rparr>"

lemma pair_madt_visited:
  "madt_visited mlen (madt_length pair_madt) SIZEOF_MADT_HEADER (madt_entries pair_madt) =
     Some (madt_entries pair_madt)"
  by (simp add: pair_madt_def SIZEOF_MADT_HEADER_def)


end
