(* ===== verification/Sdei_Tests.thy ===== *)
theory Sdei_Tests
  imports Sdei_Pe
begin

text \<open>
  The test runner of the SDEI suite (val_test_infra.c, val_test_infra.h): the array of tests with
  their dependencies, the flags that select tests, the run of all tests and the collection of the
  PEs' status words. The bodies of the tests are the parameter \<open>test_fn\<close>: everything is proved
  for all of them.
\<close>

unbundle bit_operations_syntax

definition SDEI_TEST_PASS :: u32 where [reg_defs]: "SDEI_TEST_PASS = 0x0"
definition SDEI_TEST_FAIL :: u32 where [reg_defs]: "SDEI_TEST_FAIL = 0x1"
definition SDEI_TEST_PENDING :: u32 where [reg_defs]: "SDEI_TEST_PENDING = 0x2"
definition SDEI_TEST_ERROR :: u32 where [reg_defs]: "SDEI_TEST_ERROR = 0x3"
definition SDEI_TEST_TIMEOUT :: u32 where [reg_defs]: "SDEI_TEST_TIMEOUT = 0x4"
definition SDEI_TEST_ABORT :: u32 where [reg_defs]: "SDEI_TEST_ABORT = 0x5"
definition SDEI_TEST_SKIP :: u32 where [reg_defs]: "SDEI_TEST_SKIP = 0x7"
definition SDEI_NUM_TESTS :: nat where "SDEI_NUM_TESTS = 49"
definition TEST_NONE_ID :: u32 where [reg_defs]: "TEST_NONE_ID = 0"
definition sdei_TEST_TIMEOUT :: nat where "sdei_TEST_TIMEOUT = 0x10000"

record sdei_test_desc =
  test_id :: u32
  deps :: "u32 list"
  test_status :: u32
  all_pe :: bool

record sdei_test_control =
  test_flags :: "u64 list"
  tests_skipped :: u32
  tests_passed :: u32
  tests_failed :: u32
  tests_aborted :: u32

subsection \<open>The tests\<close>

text \<open>The dependencies and the all-PE flag each test of test_pool/tests publishes; the arrays of
  dependencies end with TEST_NONE_ID.\<close>

definition deps_of :: "nat \<Rightarrow> u32 list" where
  "deps_of n =
     (if n \<in> {1, 2, 3, 4, 8, 13, 17, 18, 26, 45, 48} then [TEST_NONE_ID, TEST_NONE_ID]
      else if n \<in> {10, 14} then [1, TEST_NONE_ID] else [1, 2, TEST_NONE_ID])"

definition published :: "nat \<Rightarrow> sdei_test_desc" where
  "published n = \<lparr>test_id = of_nat n, deps = deps_of n, test_status = SDEI_TEST_PENDING,
     all_pe = (n \<in> {1, 3, 5, 6, 7, 13, 15, 16, 33, 39})\<rparr>"

definition sdei_test :: "sdei_test_desc list" where
  "sdei_test = map published [1..<SDEI_NUM_TESTS + 1]"

definition val_test_init :: "sdei_test_control \<Rightarrow> sdei_test_desc list \<times> sdei_test_control" where
  "val_test_init control = (sdei_test, control\<lparr>test_flags := [NOT 0, NOT 0]\<rparr>)"

text \<open>The first position of a test with the identifier.\<close>

fun test_pos :: "sdei_test_desc list \<Rightarrow> u32 \<Rightarrow> nat option" where
  "test_pos [] n = None"
| "test_pos (t # ts) n = (if test_id t = n then Some 0 else map_option Suc (test_pos ts n))"

definition is_test_passed :: "sdei_test_desc list \<Rightarrow> u32 \<Rightarrow> bool" where
  "is_test_passed ts n = (case test_pos ts n of None \<Rightarrow> False | Some i \<Rightarrow> test_status (ts ! i) = SDEI_TEST_PASS)"

fun deps_resolved :: "sdei_test_desc list \<Rightarrow> u32 list \<Rightarrow> bool option" where
  "deps_resolved ts [] = None"
| "deps_resolved ts (d # ds) =
     (if d = 0 then Some True else if is_test_passed ts d then deps_resolved ts ds else Some False)"

definition test_enabled :: "sdei_test_control \<Rightarrow> nat \<Rightarrow> bool option" where
  "test_enabled control i = map_option (\<lambda>w. w AND push_bit (i mod 64) 1 \<noteq> 0) (at (test_flags control) (i div 64))"

definition run_test :: "sdei_test_control \<Rightarrow> sdei_test_desc list \<Rightarrow> nat \<Rightarrow> bool option" where
  "run_test control ts i =
     do { e \<leftarrow> test_enabled control i;
          if e then do { t \<leftarrow> at ts i; deps_resolved ts (deps t) } else Some False }"

definition set_flag :: "(u64 \<Rightarrow> u64 \<Rightarrow> u64) \<Rightarrow> nat \<Rightarrow> sdei_test_control \<Rightarrow> sdei_test_control option" where
  "set_flag f i control =
     do { w \<leftarrow> at (test_flags control) (i div 64);
          Some (control\<lparr>test_flags := (test_flags control)[i div 64 := f w (push_bit (i mod 64) 1)]\<rparr>) }"

definition enable_test :: "nat \<Rightarrow> sdei_test_control \<Rightarrow> sdei_test_control option" where
  "enable_test i control = set_flag (\<lambda>w m. w OR m) i control"

definition disable_test :: "nat \<Rightarrow> sdei_test_control \<Rightarrow> sdei_test_control option" where
  "disable_test i control = set_flag (\<lambda>w m. w AND NOT m) i control"

definition val_test_enable :: "sdei_test_desc list \<Rightarrow> u32 \<Rightarrow> sdei_test_control \<Rightarrow> sdei_test_control option" where
  "val_test_enable ts n control =
     (case test_pos ts n of None \<Rightarrow> Some control | Some i \<Rightarrow> enable_test i control)"

definition val_test_disable :: "sdei_test_desc list \<Rightarrow> u32 \<Rightarrow> sdei_test_control \<Rightarrow> sdei_test_control option" where
  "val_test_disable ts n control =
     (case test_pos ts n of None \<Rightarrow> Some control | Some i \<Rightarrow> disable_test i control)"

definition val_test_run_specific ::
    "sdei_test_desc list \<Rightarrow> u32 \<Rightarrow> bool \<Rightarrow> sdei_test_control \<Rightarrow> sdei_test_control option" where
  "val_test_run_specific ts n init control =
     (let control = (if init then control\<lparr>test_flags := (test_flags control)[0 := 0, 1 := 0]\<rparr> else control)
      in case test_pos ts n of None \<Rightarrow> Some control | Some i \<Rightarrow> enable_test i control)"

subsection \<open>Running the tests\<close>

definition init_test :: "hw \<Rightarrow> sdei_test_desc \<Rightarrow> sworld \<Rightarrow> sworld option" where
  "init_test hw t s =
     do { s \<leftarrow> val_test_set_status hw (sdei_val_pe_get_num s) SDEI_TEST_PENDING s;
          let s = sdei_pal_print ACS_LOG_ERR ''%d. '' [ucast (test_id t)] s;
          Some (sdei_pal_print ACS_LOG_ERR ''description'' [] s) }"

definition log_test_result :: "u32 \<Rightarrow> sdei_test_control \<times> sworld \<Rightarrow> sdei_test_control \<times> sworld" where
  "log_test_result result cs =
     (let (c, s) = cs
      in if result = SDEI_TEST_PASS
         then (c\<lparr>tests_passed := tests_passed c + 1\<rparr>, sdei_pal_print ACS_LOG_ERR '' : PASS'' [] s)
         else if result = SDEI_TEST_SKIP
         then (c\<lparr>tests_skipped := tests_skipped c + 1\<rparr>, sdei_pal_print ACS_LOG_ERR '' : SKIP'' [] s)
         else if result = SDEI_TEST_FAIL
         then (c\<lparr>tests_failed := tests_failed c + 1\<rparr>, sdei_pal_print ACS_LOG_ERR '' : FAIL'' [] s)
         else if result = SDEI_TEST_ABORT
         then (c\<lparr>tests_aborted := tests_aborted c + 1\<rparr>, sdei_pal_print ACS_LOG_ERR '' : ABORT'' [] s)
         else if result = SDEI_TEST_TIMEOUT then (c, sdei_pal_print ACS_LOG_ERR '' : TIMEOUT'' [] s)
         else if result = SDEI_TEST_PENDING then (c, sdei_pal_print ACS_LOG_ERR '' : PENDING'' [] s)
         else if result = SDEI_TEST_ERROR then (c, sdei_pal_print ACS_LOG_ERR '' : ERROR'' [] s)
         else (c, s))"

text \<open>One round over the status words: of a test on one PE the first word that is not pending,
  of a test on all PEs the disjunction of the words up to one with the FAIL bit.\<close>

fun poll_any :: "hw \<Rightarrow> u32 list \<Rightarrow> sworld \<Rightarrow> (u32 option \<times> sworld) option" where
  "poll_any hw [] s = Some (None, s)"
| "poll_any hw (i # is) s =
     do { (st, s) \<leftarrow> val_test_pe_get_status hw i s;
          if st \<noteq> SDEI_TEST_PENDING then Some (Some st, s) else poll_any hw is s }"

fun poll_all :: "hw \<Rightarrow> u32 list \<Rightarrow> u32 \<Rightarrow> sworld \<Rightarrow> (u32 option \<times> sworld) option" where
  "poll_all hw [] acc s = Some (if acc = SDEI_TEST_PASS then Some acc else None, s)"
| "poll_all hw (i # is) acc s =
     do { (w, s) \<leftarrow> val_test_pe_get_status hw i s;
          let acc = acc OR w;
          if acc AND SDEI_TEST_FAIL \<noteq> 0 then Some (Some acc, s) else poll_all hw is acc s }"

text \<open>\<open>while (timeout--)\<close>: as many rounds as the time-out says.\<close>

fun poll_rounds :: "nat \<Rightarrow> (sworld \<Rightarrow> (u32 option \<times> sworld) option) \<Rightarrow> sworld \<Rightarrow> (u32 \<times> sworld) option" where
  "poll_rounds 0 f s = Some (SDEI_TEST_TIMEOUT, s)"
| "poll_rounds (Suc n) f s =
     do { (r, s) \<leftarrow> f s;
          case r of None \<Rightarrow> poll_rounds n f s | Some st \<Rightarrow> Some (st, s) }"

definition val_test_get_status :: "hw \<Rightarrow> u32 \<Rightarrow> nat \<Rightarrow> sworld \<Rightarrow> (u32 \<times> sworld) option" where
  "val_test_get_status hw num_pe timeout s =
     (if num_pe = 1
      then poll_rounds timeout (poll_any hw (upto_u32 (sdei_val_pe_get_num s))) s
      else poll_rounds timeout (poll_all hw (upto_u32 num_pe) SDEI_TEST_PASS) s)"

type_synonym runner = "sdei_test_desc list \<times> sdei_test_control \<times> sworld"

definition test_step :: "hw \<Rightarrow> (nat \<Rightarrow> sworld \<Rightarrow> sworld option) \<Rightarrow> nat \<Rightarrow> runner \<Rightarrow> runner option" where
  "test_step hw test_fn i r =
     (let (ts, c, s) = r
      in do { t \<leftarrow> at ts i;
              s \<leftarrow> init_test hw t s;
              let num_pe = (if all_pe t then sdei_val_pe_get_num s else 1);
              go \<leftarrow> run_test c ts i;
              (st, s) \<leftarrow> (if go then do { s \<leftarrow> test_fn i s; val_test_get_status hw num_pe sdei_TEST_TIMEOUT s }
                              else Some (SDEI_TEST_SKIP, s));
              let ts = ts[i := t\<lparr>test_status := st\<rparr>];
              let (c, s) = log_test_result st (c, s);
              Some (ts, c, s) })"

definition val_test_execute :: "hw \<Rightarrow> (nat \<Rightarrow> sworld \<Rightarrow> sworld option) \<Rightarrow> runner \<Rightarrow> runner option" where
  "val_test_execute hw test_fn r = for_each (test_step hw test_fn) [0..<SDEI_NUM_TESTS] r"


subsection \<open>Selecting tests\<close>

lemma test_enabled_bit:
  "test_enabled c j = map_option (\<lambda>w. bit w (j mod 64)) (at (test_flags c) (j div 64))"
  by (simp add: test_enabled_def push_bit_of_1 and_exp_eq_0_iff_not_bit)

lemma same_flag:
  assumes "j div 64 = i div 64" "j mod 64 = i mod (64 :: nat)"
  shows "j = i"
  using assms by (metis div_mult_mod_eq)

lemma test_enabled_enable:
  assumes "enable_test i c = Some c'"
  shows "test_enabled c' j = (if j = i then Some True else test_enabled c j)"
  using assms same_flag [of j i]
  by (auto simp: enable_test_def set_flag_def test_enabled_bit at_eq_Some Option.bind_eq_Some_conv
      at_list_update bit_or_iff bit_exp_iff)

lemma test_enabled_disable:
  assumes "disable_test i c = Some c'"
  shows "test_enabled c' j = (if j = i then Some False else test_enabled c j)"
  using assms same_flag [of j i]
  by (auto simp: disable_test_def set_flag_def test_enabled_bit at_eq_Some Option.bind_eq_Some_conv
      at_list_update bit_and_iff bit_not_iff bit_exp_iff)

lemma flag_ops_defined:
  assumes "i div 64 < length (test_flags c)"
  shows "\<exists>c'. enable_test i c = Some c'" "\<exists>c'. disable_test i c = Some c'"
  using assms by (simp_all add: enable_test_def disable_test_def set_flag_def)

lemma flag_ops_length [run]:
  "enable_test i c = Some c' \<Longrightarrow> length (test_flags c') = length (test_flags c)"
  "disable_test i c = Some c' \<Longrightarrow> length (test_flags c') = length (test_flags c)"
  by (auto simp: enable_test_def disable_test_def set_flag_def Option.bind_eq_Some_conv)

lemma test_pos_correct:
  "test_pos ts n = Some i \<Longrightarrow> i < length ts \<and> test_id (ts ! i) = n"
  "distinct (map test_id ts) \<Longrightarrow> i < length ts \<Longrightarrow> test_id (ts ! i) = n \<Longrightarrow> test_pos ts n = Some i"
proof -
  show "test_pos ts n = Some i \<Longrightarrow> i < length ts \<and> test_id (ts ! i) = n"
    by (induction ts arbitrary: i) (auto split: if_splits)
  show "distinct (map test_id ts) \<Longrightarrow> i < length ts \<Longrightarrow> test_id (ts ! i) = n \<Longrightarrow> test_pos ts n = Some i"
    by (induction ts arbitrary: i) (auto simp: less_Suc_eq_0_disj nth_Cons')
qed

lemma test_pos_cong: "map test_id ts = map test_id us \<Longrightarrow> test_pos ts n = test_pos us n"
proof (induction ts arbitrary: us)
  case Nil
  then show ?case by simp
next
  case (Cons t ts)
  then show ?case by (cases us) auto
qed

lemma sdei_test_shape [simp]:
  "length sdei_test = SDEI_NUM_TESTS"
  "i < SDEI_NUM_TESTS \<Longrightarrow> sdei_test ! i = published (i + 1)"
  by (simp_all add: sdei_test_def del: upt_Suc)

lemma sdei_test_ids: "distinct (map test_id sdei_test)"
proof -
  have "inj_on (of_nat :: nat \<Rightarrow> u32) {1..<SDEI_NUM_TESTS + 1}"
    by (rule inj_onI) (auto simp: SDEI_NUM_TESTS_def word_unat_eq_iff unat_of_nat)
  then show ?thesis
    by (simp add: sdei_test_def distinct_map comp_def published_def del: upt_Suc)
qed

lemma test_pos_sdei: "i < SDEI_NUM_TESTS \<Longrightarrow> test_pos sdei_test (of_nat (i + 1)) = Some i"
  by (intro test_pos_correct(2)) (simp_all add: sdei_test_ids published_def)

subsection \<open>The verdict on a test that runs on several PEs\<close>

definition words :: "u32 \<Rightarrow> sworld \<Rightarrow> u32 list" where
  "words n s = map (\<lambda>i. status_word i s) (upto_u32 n)"

fun verdict :: "u32 \<Rightarrow> u32 list \<Rightarrow> u32 option" where
  "verdict acc [] = (if acc = 0 then Some 0 else None)"
| "verdict acc (w # ws) = (if bit (acc OR w) 0 then Some (acc OR w) else verdict (acc OR w) ws)"

lemma fail_bit: "(a :: u32) AND SDEI_TEST_FAIL \<noteq> 0 \<longleftrightarrow> bit a 0"
  using and_exp_eq_0_iff_not_bit [of a 0] by (simp add: SDEI_TEST_FAIL_def)

lemma poll_all_verdict:
  assumes "quiet_peers hw" "\<forall>i\<in>set is. unat i < shared_size s"
  shows "\<exists>t. poll_all hw is acc s = Some (verdict acc (map (\<lambda>i. status_word i s) is), t) \<and>
     shared t = shared s \<and> sg t = sg s"
  using assms(2)
proof (induction "is" arbitrary: acc s)
  case Nil
  then show ?case by (simp add: SDEI_TEST_PASS_def)
next
  case (Cons i "is")
  obtain u where u: "val_test_pe_get_status hw i s = Some (status_word i s, u)" "shared u = shared s" "sg u = sg s"
    using sdei_get_status_quiet [OF assms(1), of i s] Cons.prems by auto
  note same = sdei_status_word_cong [OF u(2)] sdei_shared_size_cong [OF u(2)]
  show ?case
    using Cons.IH [of u "acc OR status_word i s"] Cons.prems u same by (simp add: fail_bit)
qed

lemma poll_any_first:
  assumes "quiet_peers hw" "\<forall>i\<in>set is. unat i < shared_size s"
  shows "\<exists>t. poll_any hw is s =
       Some (find (\<lambda>w. w \<noteq> SDEI_TEST_PENDING) (map (\<lambda>i. status_word i s) is), t) \<and>
     shared t = shared s \<and> sg t = sg s"
  using assms(2)
proof (induction "is" arbitrary: s)
  case Nil
  then show ?case by simp
next
  case (Cons i "is")
  obtain u where u: "val_test_pe_get_status hw i s = Some (status_word i s, u)" "shared u = shared s" "sg u = sg s"
    using sdei_get_status_quiet [OF assms(1), of i s] Cons.prems by auto
  note same = sdei_status_word_cong [OF u(2)] sdei_shared_size_cong [OF u(2)]
  show ?case using Cons.IH [of u] Cons.prems u same by simp
qed

text \<open>When nothing else writes the shared memory all rounds see the same words: the first round
  decides, or all rounds are spent.\<close>

lemma poll_rounds_stable:
  assumes "\<And>s. shared s = m \<Longrightarrow> sg s = g \<Longrightarrow> \<exists>t. f s = Some (r, t) \<and> shared t = m \<and> sg t = g"
    and "shared s = m" "sg s = g" "0 < n"
  shows "\<exists>t. poll_rounds n f s = Some (case r of None \<Rightarrow> SDEI_TEST_TIMEOUT | Some v \<Rightarrow> v, t) \<and>
     shared t = m \<and> sg t = g"
  using assms(2,3,4)
proof (induction n arbitrary: s)
  case 0
  then show ?case by simp
next
  case (Suc n)
  obtain t where t: "f s = Some (r, t)" "shared t = m" "sg t = g" using assms(1) Suc.prems by blast
  show ?case
  proof (cases "r = None \<and> 0 < n")
    case True
    then show ?thesis using Suc.IH [OF t(2,3)] t(1) by simp
  next
    case False
    then show ?thesis using t by (cases r) auto
  qed
qed

lemma val_test_get_status_quiet:
  assumes "quiet_peers hw" "0 < timeout" "n \<noteq> 1" "unat n \<le> shared_size s"
  shows "\<exists>t. val_test_get_status hw n timeout s =
       Some (case verdict 0 (words n s) of None \<Rightarrow> SDEI_TEST_TIMEOUT | Some v \<Rightarrow> v, t) \<and>
     shared t = shared s \<and> sg t = sg s"
proof -
  have "\<exists>t. poll_all hw (upto_u32 n) SDEI_TEST_PASS u = Some (verdict 0 (words n s), t) \<and>
      shared t = shared s \<and> sg t = sg s" if u: "shared u = shared s" "sg u = sg s" for u
  proof -
    have "\<forall>i\<in>set (upto_u32 n). unat i < shared_size u"
      using assms(4) sdei_shared_size_cong [OF u(1)] by (auto simp: set_upto_u32 word_less_nat_alt)
    from poll_all_verdict [OF assms(1) this, of 0] u sdei_status_word_cong [OF u(1)]
    show ?thesis by (simp add: SDEI_TEST_PASS_def words_def)
  qed
  from poll_rounds_stable [OF this _ _ assms(2)] show ?thesis
    using assms(3) by (simp add: val_test_get_status_def)
qed

lemma verdict_pass: "verdict acc ws = Some 0 \<longleftrightarrow> acc = 0 \<and> (\<forall>w\<in>set ws. w = 0)"
proof (induction ws arbitrary: acc)
  case Nil
  then show ?case by simp
next
  case (Cons w ws)
  have "(acc OR w = 0) = (acc = 0 \<and> w = 0)" by (rule or_eq_0_iff)
  with Cons [of "acc OR w"] show ?case by auto
qed

lemma verdict_timeout:
  "\<not> bit acc 0 \<Longrightarrow> verdict acc ws = None \<longleftrightarrow> (acc \<noteq> 0 \<or> (\<exists>w\<in>set ws. w \<noteq> 0)) \<and> (\<forall>w\<in>set ws. \<not> bit w 0)"
proof (induction ws arbitrary: acc)
  case Nil
  then show ?case by simp
next
  case (Cons w ws)
  have "(acc OR w = 0) = (acc = 0 \<and> w = 0)" by (rule or_eq_0_iff)
  with Cons.IH [of "acc OR w"] Cons.prems show ?case by (auto simp: bit_or_iff)
qed

lemma verdict_failed:
  assumes "k < length ws" "bit (ws ! k) 0" "\<forall>i<k. \<not> bit (ws ! i) 0" "\<not> bit acc 0"
  shows "verdict acc ws = Some (fold (OR) (take (k + 1) ws) acc)"
  using assms
proof (induction ws arbitrary: acc k)
  case Nil
  then show ?case by simp
next
  case (Cons w ws)
  show ?case
  proof (cases k)
    case 0
    with Cons.prems show ?thesis by (simp add: bit_or_iff or.commute)
  next
    case (Suc l)
    then have "\<not> bit w 0" "\<forall>i<l. \<not> bit (ws ! i) 0" using Cons.prems(3) by force+
    with Cons.IH [of l "acc OR w"] Cons.prems Suc show ?thesis by (simp add: bit_or_iff or.commute)
  qed
qed

text \<open>C26: The verdict on a test that runs on all PEs, with nothing else writing the shared memory:
  PASS exactly when every status word is PASS; TIMEOUT when no word has bit 0 (set in FAIL, ERROR,
  ABORT and SKIP) but some word is not PASS; otherwise the disjunction of the words up to the
  first one with that bit.  A PE that is still pending before one that failed turns the verdict
  from FAIL into ERROR, as the witness shows.\<close>

theorem sdei_verdict:
  assumes "quiet_peers hw" "0 < timeout" "n \<noteq> 1" "unat n \<le> shared_size s"
  shows "\<exists>v t. val_test_get_status hw n timeout s = Some (v, t) \<and>
     (v = SDEI_TEST_PASS \<longleftrightarrow> (\<forall>i < n. status_word i s = SDEI_TEST_PASS)) \<and>
     ((\<exists>i < n. status_word i s \<noteq> SDEI_TEST_PASS) \<longrightarrow> (\<forall>i < n. \<not> bit (status_word i s) 0) \<longrightarrow>
        v = SDEI_TEST_TIMEOUT) \<and>
     (\<forall>k < unat n. bit (words n s ! k) 0 \<longrightarrow> (\<forall>i < k. \<not> bit (words n s ! i) 0) \<longrightarrow>
        v = fold (OR) (take (k + 1) (words n s)) 0)"
proof -
  let ?ws = "words n s"
  let ?v = "case verdict 0 ?ws of None \<Rightarrow> SDEI_TEST_TIMEOUT | Some v \<Rightarrow> v"
  have members: "set ?ws = (\<lambda>i. status_word i s) ` {i. i < n}" and len: "length ?ws = unat n"
    by (simp_all add: words_def set_upto_u32) (simp add: upto_u32_def)
  have "?v = SDEI_TEST_PASS \<longleftrightarrow> (\<forall>i < n. status_word i s = SDEI_TEST_PASS)"
    using verdict_pass [of 0 ?ws] members by (auto simp: reg_defs split: option.splits)
  moreover have "?v = SDEI_TEST_TIMEOUT"
    if "\<exists>i < n. status_word i s \<noteq> SDEI_TEST_PASS" "\<forall>i < n. \<not> bit (status_word i s) 0"
    using verdict_timeout [of 0 ?ws] that members by (auto simp: reg_defs)
  moreover have "?v = fold (OR) (take (k + 1) ?ws) 0"
    if "k < unat n" "bit (?ws ! k) 0" "\<forall>i < k. \<not> bit (?ws ! i) 0" for k
    using verdict_failed [of k ?ws 0] that len by simp
  ultimately show ?thesis using val_test_get_status_quiet [OF assms] by blast
qed

definition two_words :: sworld where
  "two_words = sdei_world0\<lparr>shared := Some [\<lparr>data0 = 0, data1 = 0, status = SDEI_TEST_PENDING\<rparr>,
     \<lparr>data0 = 0, data1 = 0, status = SDEI_TEST_FAIL\<rparr>]\<rparr>"

lemma sdei_verdict_witness:
  "\<exists>t. val_test_get_status (ram_hw (\<lambda>_. 0) 0) 2 sdei_TEST_TIMEOUT two_words = Some (SDEI_TEST_ERROR, t)"
proof -
  have "quiet_peers (ram_hw (\<lambda>_. 0) 0)" "0 < sdei_TEST_TIMEOUT" "(2 :: u32) \<noteq> 1"
    "unat (2 :: u32) \<le> shared_size two_words"
    by (simp_all add: two_words_def shared_size_def sdei_TEST_TIMEOUT_def)
  from sdei_verdict [OF this] obtain v t
    where get: "val_test_get_status (ram_hw (\<lambda>_. 0) 0) 2 sdei_TEST_TIMEOUT two_words = Some (v, t)"
      and v: "\<forall>k < unat (2 :: u32). bit (words 2 two_words ! k) 0 \<longrightarrow>
        (\<forall>i < k. \<not> bit (words 2 two_words ! i) 0) \<longrightarrow> v = fold (OR) (take (k + 1) (words 2 two_words)) 0"
    by blast
  have w: "words 2 two_words = [2, 1]"
    by (simp add: words_def two_words_def upto_u32_def status_word_def upt_rec reg_defs)
  have "v = 3" using v [rule_format, of 1] by (simp add: w)
  with get show ?thesis by (simp add: SDEI_TEST_ERROR_def)
qed

subsection \<open>The report of a run\<close>

definition eligible :: "sdei_test_control \<Rightarrow> sdei_test_desc list \<Rightarrow> nat \<Rightarrow> bool" where
  "eligible c ts i \<longleftrightarrow> test_enabled c i = Some True \<and>
     (\<forall>d\<in>set (deps (ts ! i)). d \<noteq> TEST_NONE_ID \<longrightarrow> test_status (ts ! (unat d - 1)) = SDEI_TEST_PASS)"

definition tally :: "u32 \<Rightarrow> sdei_test_desc list \<Rightarrow> u32" where
  "tally v ts = of_nat (length (filter (\<lambda>t. test_status t = v) ts))"

text \<open>One step writes the status of its test, and counts it.\<close>

lemma test_step_run [run]:
  assumes "test_step hw test_fn i (ts, c, s) = Some (ts', c', s')"
  shows "\<exists>st go. i < length ts \<and> ts' = ts[i := (ts ! i)\<lparr>test_status := st\<rparr>] \<and>
     run_test c ts i = Some go \<and> (\<not> go \<longrightarrow> st = SDEI_TEST_SKIP) \<and> (\<exists>u. (c', s') = log_test_result st (c, u))"
proof -
  obtain t u go st v where st: "at ts i = Some t" "init_test hw t s = Some u" "run_test c ts i = Some go"
      "(if go then do { w \<leftarrow> test_fn i u;
          val_test_get_status hw (if all_pe t then sdei_val_pe_get_num u else 1) sdei_TEST_TIMEOUT w }
        else Some (SDEI_TEST_SKIP, u)) = Some (st, v)"
      "ts' = ts[i := t\<lparr>test_status := st\<rparr>]" "(c', s') = log_test_result st (c, v)"
    using assms by (simp only: test_step_def Let_def prod.case Option.bind_eq_Some_conv)
      (elim exE conjE, simp only: prod.case split: prod.splits, force)
  then show ?thesis by (intro exI [of _ st] exI [of _ go]) (auto simp: at_eq_Some)
qed

lemma log_test_result_counts [run]:
  assumes "log_test_result st (c, s) = (c', s')"
  shows "test_flags c' = test_flags c"
    "tests_passed c' = tests_passed c + (if st = SDEI_TEST_PASS then 1 else 0)"
    "tests_skipped c' = tests_skipped c + (if st = SDEI_TEST_SKIP then 1 else 0)"
    "tests_failed c' = tests_failed c + (if st = SDEI_TEST_FAIL then 1 else 0)"
    "tests_aborted c' = tests_aborted c + (if st = SDEI_TEST_ABORT then 1 else 0)"
    "sg s' = sg s" "shared s' = shared s"
  using assms by (auto simp: log_test_result_def reg_defs split: if_splits)

lemma test_enabled_cong: "test_flags c = test_flags d \<Longrightarrow> test_enabled c i = test_enabled d i"
  by (simp add: test_enabled_def)

text \<open>The published dependencies are on the tests 1 and 2 only, which are the first two.\<close>

lemma published_deps: "d \<in> set (deps (published n)) \<Longrightarrow> d \<in> {0, 1, 2}"
  by (auto simp: published_def deps_of_def TEST_NONE_ID_def split: if_splits)

lemma deps_of_cases:
  obtains "deps_of n = [0, 0]" | "deps_of n = [1, 0]" | "deps_of n = [1, 2, 0]"
proof -
  have "deps_of n = [0, 0] \<or> deps_of n = [1, 0] \<or> deps_of n = [1, 2, 0]"
    unfolding deps_of_def TEST_NONE_ID_def by presburger
  then show ?thesis using that by blast
qed

lemma deps_resolved_defined: "\<exists>b. deps_resolved ts (deps_of n) = Some b"
proof -
  have "\<exists>b. deps_resolved ts (ds @ [0]) = Some b" for ds by (induction ds) auto
  moreover have "\<exists>ds. deps_of n = ds @ [0]" by (rule deps_of_cases [of n]) auto
  ultimately show ?thesis by metis
qed

lemma first_tests:
  assumes "map test_id ts = map test_id sdei_test"
  shows "is_test_passed ts 1 \<longleftrightarrow> test_status (ts ! 0) = SDEI_TEST_PASS"
    "is_test_passed ts 2 \<longleftrightarrow> test_status (ts ! 1) = SDEI_TEST_PASS"
  using test_pos_cong [OF assms, of 1] test_pos_cong [OF assms, of 2]
    test_pos_sdei [of 0] test_pos_sdei [of 1]
  by (simp_all add: is_test_passed_def SDEI_NUM_TESTS_def)

lemma run_test_eligible:
  assumes "map test_id ts = map test_id sdei_test" "i < length ts" "deps (ts ! i) = deps_of (i + 1)"
    "run_test c ts i = Some go"
  shows "go = eligible c ts i"
proof -
  consider "deps (ts ! i) = [0, 0]" | "deps (ts ! i) = [1, 0]" | "deps (ts ! i) = [1, 2, 0]"
    using assms(3) deps_of_cases [of "i + 1"] by metis
  then show ?thesis
    using assms(2,4) first_tests [OF assms(1)]
    by cases (auto simp: run_test_def eligible_def TEST_NONE_ID_def Option.bind_eq_Some_conv split: if_splits)
qed

text \<open>What holds before step \<open>i\<close> of the run: the steps so far only wrote statuses, of the tests below
  \<open>i\<close>, each according to the tests before it, and the counters are the tallies of those.\<close>

definition run_inv :: "sdei_test_control \<Rightarrow> nat \<Rightarrow> runner \<Rightarrow> bool" where
  "run_inv c0 i r \<longleftrightarrow> (case r of (ts, c, s) \<Rightarrow>
     map test_id ts = map test_id sdei_test \<and> map deps ts = map deps sdei_test \<and>
     test_flags c = test_flags c0 \<and>
     (\<forall>j<i. \<not> eligible c0 ts j \<longrightarrow> test_status (ts ! j) = SDEI_TEST_SKIP) \<and>
     tests_passed c = tests_passed c0 + tally SDEI_TEST_PASS (take i ts) \<and>
     tests_skipped c = tests_skipped c0 + tally SDEI_TEST_SKIP (take i ts) \<and>
     tests_failed c = tests_failed c0 + tally SDEI_TEST_FAIL (take i ts) \<and>
     tests_aborted c = tests_aborted c0 + tally SDEI_TEST_ABORT (take i ts))"

lemma tally_step:
  "i < length ts \<Longrightarrow> tally v (take (Suc i) (ts[i := (ts ! i)\<lparr>test_status := st\<rparr>])) =
     tally v (take i ts) + (if st = v then 1 else 0)"
  by (simp add: tally_def take_Suc_conv_app_nth)

lemma deps_below: "i < SDEI_NUM_TESTS \<Longrightarrow> d \<in> set (deps_of (i + 1)) \<Longrightarrow> d \<noteq> 0 \<Longrightarrow> unat d - 1 < i"
proof (cases "i \<le> 1")
  case True
  moreover assume "d \<in> set (deps_of (i + 1))" "d \<noteq> 0"
  ultimately show ?thesis by (cases i) (auto simp: deps_of_def TEST_NONE_ID_def)
next
  case False
  moreover assume "d \<in> set (deps_of (i + 1))" "d \<noteq> 0"
  ultimately show ?thesis using published_deps [of d "i + 1"] by (auto simp: published_def)
qed

lemma run_inv_deps:
  assumes "run_inv c0 i (ts, c, s)" "j < SDEI_NUM_TESTS"
  shows "deps (ts ! j) = deps_of (j + 1)" "length ts = SDEI_NUM_TESTS"
proof -
  have ids: "map test_id ts = map test_id sdei_test" and m: "map deps ts = map deps sdei_test"
    using assms(1) by (simp_all add: run_inv_def)
  then show len: "length ts = SDEI_NUM_TESTS" by (metis length_map sdei_test_shape(1))
  show "deps (ts ! j) = deps_of (j + 1)"
    using arg_cong [OF m, of "\<lambda>l. l ! j"] assms(2) len by (simp add: published_def)
qed

lemma eligible_other:
  assumes "deps (ts ! j) = deps_of (j + 1)" "j < SDEI_NUM_TESTS" "j \<le> i"
  shows "eligible c (ts[i := (ts ! i)\<lparr>test_status := st\<rparr>]) j = eligible c ts j"
proof -
  have "deps (ts[i := (ts ! i)\<lparr>test_status := st\<rparr>] ! j) = deps (ts ! j)"
    by (cases "i < length ts") (auto simp: nth_list_update list_update_beyond not_less)
  moreover have "ts[i := x] ! (unat d - 1) = ts ! (unat d - 1)"
    if "d \<in> set (deps (ts ! j))" "d \<noteq> TEST_NONE_ID" for d x
    using deps_below [OF assms(2), of d] that assms(1,3) by (simp add: TEST_NONE_ID_def)
  ultimately show ?thesis by (simp add: eligible_def)
qed

lemma run_inv_step:
  assumes "i < SDEI_NUM_TESTS" "run_inv c0 i r" "test_step hw test_fn i r = Some r'"
  shows "run_inv c0 (Suc i) r'"
proof -
  obtain ts c s ts' c' s' where r: "r = (ts, c, s)" "r' = (ts', c', s')" by (metis prod_cases3)
  note inv = assms(2) [unfolded r]
  obtain st go u where st: "i < length ts" "ts' = ts[i := (ts ! i)\<lparr>test_status := st\<rparr>]"
      "run_test c ts i = Some go" "\<not> go \<longrightarrow> st = SDEI_TEST_SKIP" "log_test_result st (c, u) = (c', s')"
    using test_step_run [OF assms(3) [unfolded r]] by metis
  have ids: "map test_id ts' = map test_id ts" "map deps ts' = map deps ts"
    using st(1,2) by (auto simp: map_update list_update_same_conv)
  have flags: "test_flags c = test_flags c0" and m: "map test_id ts = map test_id sdei_test"
    using inv by (simp_all add: run_inv_def)
  have "eligible c ts i = eligible c0 ts i" by (simp add: eligible_def test_enabled_cong [OF flags])
  with run_test_eligible [OF m st(1) run_inv_deps(1) [OF inv assms(1)] st(3)] st(4)
  have now: "\<not> eligible c0 ts i \<longrightarrow> st = SDEI_TEST_SKIP" by simp
  have skipped: "test_status (ts' ! j) = SDEI_TEST_SKIP" if "j < Suc i" "\<not> eligible c0 ts' j" for j
  proof -
    have "\<not> eligible c0 ts j"
      using that eligible_other [OF run_inv_deps(1) [OF inv], of j i c0 st] assms(1) st(2) by simp
    then show ?thesis
      using that(1) now inv st(1,2) by (cases "j = i") (auto simp: run_inv_def)
  qed
  show ?thesis
    unfolding r run_inv_def
    using inv ids skipped log_test_result_counts [OF st(5)] tally_step [OF st(1), of _ st]
    by (simp add: run_inv_def st(2) split del: if_split)
qed

lemma run_inv_final:
  assumes "val_test_execute hw test_fn (sdei_test, c, s) = Some r"
  shows "run_inv c SDEI_NUM_TESTS r"
proof (rule for_each_upt [OF assms [unfolded val_test_execute_def]])
  show "run_inv c 0 (sdei_test, c, s)" by (simp add: run_inv_def tally_def)
qed (rule run_inv_step)

text \<open>C25: After a run of all tests, whatever the tests do: a test that is not selected, or one of
  whose dependencies did not pass, has the status SKIP; and each counter of the control has grown
  by the number of tests with its status.\<close>

theorem sdei_run_report:
  assumes "val_test_execute hw test_fn (sdei_test, c, s) = Some (ts, c', s')"
  shows "length ts = SDEI_NUM_TESTS \<and>
     (\<forall>i < SDEI_NUM_TESTS. \<not> eligible c ts i \<longrightarrow> test_status (ts ! i) = SDEI_TEST_SKIP) \<and>
     tests_passed c' = tests_passed c + tally SDEI_TEST_PASS ts \<and>
     tests_skipped c' = tests_skipped c + tally SDEI_TEST_SKIP ts \<and>
     tests_failed c' = tests_failed c + tally SDEI_TEST_FAIL ts \<and>
     tests_aborted c' = tests_aborted c + tally SDEI_TEST_ABORT ts"
proof -
  note inv = run_inv_final [OF assms]
  have "take SDEI_NUM_TESTS ts = ts" using run_inv_deps(2) [OF inv, of 0] by (simp add: SDEI_NUM_TESTS_def)
  with inv run_inv_deps(2) [OF inv, of 0] show ?thesis by (simp add: run_inv_def SDEI_NUM_TESTS_def)
qed

lemma run_specific_enables:
  assumes "val_test_run_specific sdei_test (of_nat (i + 1)) True c0 = Some c" "i < SDEI_NUM_TESTS"
    "length (test_flags c0) = 2" "test_enabled c j = Some True"
  shows "j = i"
proof -
  let ?z = "c0\<lparr>test_flags := (test_flags c0)[0 := 0, 1 := 0]\<rparr>"
  have "enable_test i ?z = Some c"
    using assms(1) test_pos_sdei [OF assms(2)] by (simp add: val_test_run_specific_def)
  from test_enabled_enable [OF this, of j] assms(4)
  have "j = i \<or> test_enabled ?z j = Some True" by (simp split: if_splits)
  moreover have "test_enabled ?z j \<noteq> Some True"
  proof (cases "j div 64 < 2")
    case True
    then have "(test_flags c0)[0 := 0, 1 := 0] ! (j div 64) = 0"
      using assms(3) by (cases "j div 64 = 0") (auto simp: nth_list_update)
    with True show ?thesis using assms(3) by (simp add: test_enabled_def)
  next
    case False
    then show ?thesis using assms(3) by (simp add: test_enabled_def)
  qed
  ultimately show ?thesis by blast
qed

text \<open>Selecting a test by its number alone (the option -run of the applications) does not select
  the tests it depends on, so a test that has dependencies is skipped, like every other one: the
  run executes nothing and reports every test as skipped.\<close>

theorem run_alone_skips:
  assumes "val_test_run_specific sdei_test (of_nat (i + 1)) True c0 = Some c" "i < SDEI_NUM_TESTS"
    "length (test_flags c0) = 2" "deps_of (i + 1) \<noteq> [TEST_NONE_ID, TEST_NONE_ID]"
    "val_test_execute hw test_fn (sdei_test, c, s) = Some (ts, c', s')"
  shows "(\<forall>t\<in>set ts. test_status t = SDEI_TEST_SKIP) \<and>
     tests_skipped c' = tests_skipped c + of_nat SDEI_NUM_TESTS \<and> tests_passed c' = tests_passed c"
proof -
  note inv = run_inv_final [OF assms(5)]
  have skip: "test_status (ts ! j) = SDEI_TEST_SKIP" if "j < SDEI_NUM_TESTS" "\<not> eligible c ts j" for j
    using inv that by (simp add: run_inv_def)
  have i: "0 < i" "1 \<in> set (deps_of (i + 1))"
    using assms(4) by (auto simp: deps_of_def split: if_splits)
  have not_first: "test_status (ts ! 0) = SDEI_TEST_SKIP"
    using skip [of 0] run_specific_enables [OF assms(1,2,3), of 0] i(1)
    by (auto simp: eligible_def SDEI_NUM_TESTS_def)
  have "\<not> eligible c ts j" for j
  proof
    assume e: "eligible c ts j"
    then have "j = i" using run_specific_enables [OF assms(1,2,3), of j] by (simp add: eligible_def)
    with e i(2) run_inv_deps(1) [OF inv assms(2)] have "test_status (ts ! (unat (1 :: u32) - 1)) = SDEI_TEST_PASS"
      by (force simp: eligible_def TEST_NONE_ID_def)
    with not_first show False by (simp add: reg_defs)
  qed
  with skip have all: "\<forall>t\<in>set ts. test_status t = SDEI_TEST_SKIP"
    using run_inv_deps(2) [OF inv assms(2)] by (auto simp: in_set_conv_nth)
  then have "filter (\<lambda>t. test_status t = SDEI_TEST_SKIP) ts = ts"
    "filter (\<lambda>t. test_status t = SDEI_TEST_PASS) ts = []"
    by (auto simp: filter_empty_conv reg_defs)
  then have t: "tally SDEI_TEST_SKIP ts = of_nat SDEI_NUM_TESTS" "tally SDEI_TEST_PASS ts = 0"
    using run_inv_deps(2) [OF inv assms(2)] by (simp_all add: tally_def)
  have whole: "take SDEI_NUM_TESTS ts = ts" using run_inv_deps(2) [OF inv assms(2)] by simp
  have "tests_skipped c' = tests_skipped c + tally SDEI_TEST_SKIP (take SDEI_NUM_TESTS ts)"
    "tests_passed c' = tests_passed c + tally SDEI_TEST_PASS (take SDEI_NUM_TESTS ts)"
    using inv by (simp_all add: run_inv_def)
  with all t whole show ?thesis by simp
qed

text \<open>A run of tests that do nothing, on a machine without a PE table: it is always defined.\<close>

definition control0 :: sdei_test_control where
  "control0 = \<lparr>test_flags = [0, 0], tests_skipped = 0, tests_passed = 0, tests_failed = 0, tests_aborted = 0\<rparr>"

lemma poll_rounds_defined:
  assumes "\<And>s. sd_pe_table (sg s) = None \<Longrightarrow> \<exists>r t. f s = Some (r, t) \<and> sd_pe_table (sg t) = None"
    and "sd_pe_table (sg s) = None"
  shows "\<exists>v t. poll_rounds n f s = Some (v, t) \<and> sd_pe_table (sg t) = None"
  using assms(2)
proof (induction n arbitrary: s)
  case 0
  then show ?case by simp
next
  case (Suc n)
  from assms(1) [OF Suc.prems] obtain r t where t: "f s = Some (r, t)" "sd_pe_table (sg t) = None"
    by blast
  with Suc.IH [OF t(2)] show ?case by (cases r) simp_all
qed

lemma idle_status_defined:
  assumes "sd_pe_table (sg s) = None"
  shows "\<exists>v t. val_test_get_status hw (if b then sdei_val_pe_get_num s else 1) n s = Some (v, t) \<and>
     sd_pe_table (sg t) = None"
  using assms poll_rounds_defined [of "poll_any hw []" s n]
    poll_rounds_defined [of "poll_all hw [] SDEI_TEST_PASS" s n]
  by (simp add: val_test_get_status_def sdei_val_pe_get_num_def)

lemma idle_step_defined:
  assumes "run_inv c0 i (ts, c, s)" "i < SDEI_NUM_TESTS" "length (test_flags c0) = 2"
    "sd_pe_table (sg s) = None"
  shows "\<exists>ts' c' s'. test_step hw (\<lambda>_. Some) i (ts, c, s) = Some (ts', c', s') \<and>
     sd_pe_table (sg s') = None"
proof -
  note d = run_inv_deps [OF assms(1,2)]
  have t: "at ts i = Some (ts ! i)" using d(2) assms(2) by simp
  obtain u where u: "init_test hw (ts ! i) s = Some u" "sd_pe_table (sg u) = None"
    using assms(4) by (simp add: init_test_def sdei_val_pe_get_num_def val_test_set_status_def)
  have "test_flags c = test_flags c0" using assms(1) by (simp add: run_inv_def)
  then obtain e where e: "test_enabled c i = Some e"
    using assms(2,3) by (simp add: test_enabled_def SDEI_NUM_TESTS_def)
  have "\<exists>go. run_test c ts i = Some go"
    using deps_resolved_defined [of ts "i + 1"] e t d(1) by (cases e) (auto simp: run_test_def)
  then obtain go where go: "run_test c ts i = Some go" by blast
  obtain st v where v: "(if go then val_test_get_status hw
        (if all_pe (ts ! i) then sdei_val_pe_get_num u else 1) sdei_TEST_TIMEOUT u
      else Some (SDEI_TEST_SKIP, u)) = Some (st, v)" "sd_pe_table (sg v) = None"
    using idle_status_defined [OF u(2), of hw "all_pe (ts ! i)" sdei_TEST_TIMEOUT] u(2)
    by (cases go) (simp only: if_True if_False; blast)+
  obtain c' s' where l: "log_test_result st (c, v) = (c', s')" by fastforce
  have "test_step hw (\<lambda>_. Some) i (ts, c, s) = Some (ts[i := (ts ! i)\<lparr>test_status := st\<rparr>], c', s')"
    unfolding test_step_def Let_def prod.case t u(1) go bind.simps v(1) l by simp
  with log_test_result_counts(6) [OF l] v(2) show ?thesis by simp
qed

lemma idle_run_defined:
  assumes "length (test_flags c) = 2"
  shows "\<exists>ts c' s'. val_test_execute hw (\<lambda>_. Some) (sdei_test, c, sdei_world0) = Some (ts, c', s')"
proof -
  let ?P = "\<lambda>i r. run_inv c i r \<and> (case r of (ts, d, s) \<Rightarrow> sd_pe_table (sg s) = None)"
  have "\<exists>r. for_each (test_step hw (\<lambda>_. Some)) [0..<SDEI_NUM_TESTS] (sdei_test, c, sdei_world0) = Some r \<and>
      ?P SDEI_NUM_TESTS r"
  proof (rule for_each_upt_defined)
    show "?P 0 (sdei_test, c, sdei_world0)" by (simp add: run_inv_def tally_def sdei_world0_def)
  next
    fix i r assume i: "i < SDEI_NUM_TESTS" and p: "?P i r"
    obtain ts d s where r: "r = (ts, d, s)" by (metis prod_cases3)
    from p [unfolded r] have "run_inv c i (ts, d, s)" "sd_pe_table (sg s) = None" by simp_all
    from idle_step_defined [OF this(1) i assms this(2), of hw] run_inv_step [OF i this(1)]
    show "\<exists>t. test_step hw (\<lambda>_. Some) i r = Some t \<and> ?P (Suc i) t"
      unfolding r by (metis (mono_tags, lifting) case_prod_conv)
  qed
  then show ?thesis unfolding val_test_execute_def by (metis prod_cases3)
qed

lemma sdei_run_report_witness:
  "\<exists>ts c' s'. val_test_execute (ram_hw (\<lambda>_. 0) 0) (\<lambda>_. Some) (sdei_test, control0, sdei_world0) = Some (ts, c', s') \<and>
     tests_passed c' = tally SDEI_TEST_PASS ts"
proof -
  have "length (test_flags control0) = 2" by (simp add: control0_def)
  from idle_run_defined [OF this] obtain ts c' s'
    where r: "val_test_execute (ram_hw (\<lambda>_. 0) 0) (\<lambda>_. Some) (sdei_test, control0, sdei_world0) = Some (ts, c', s')"
    by blast
  with sdei_run_report [OF r] show ?thesis by (simp add: control0_def)
qed

lemma run_alone_skips_witness:
  "\<exists>c ts c' s'. val_test_run_specific sdei_test 5 True control0 = Some c \<and>
     val_test_execute (ram_hw (\<lambda>_. 0) 0) (\<lambda>_. Some) (sdei_test, c, sdei_world0) = Some (ts, c', s') \<and>
     tests_skipped c' = 49"
proof -
  let ?c = "control0\<lparr>test_flags := [16, 0]\<rparr>"
  have sel: "val_test_run_specific sdei_test (of_nat (4 + 1)) True control0 = Some ?c"
    using test_pos_sdei [of 4]
    by (simp add: val_test_run_specific_def control0_def enable_test_def set_flag_def SDEI_NUM_TESTS_def)
  have len: "length (test_flags ?c) = 2" "length (test_flags control0) = 2" by (simp_all add: control0_def)
  from idle_run_defined [OF len(1)] obtain ts c' s'
    where r: "val_test_execute (ram_hw (\<lambda>_. 0) 0) (\<lambda>_. Some) (sdei_test, ?c, sdei_world0) = Some (ts, c', s')"
    by blast
  have "deps_of (4 + 1) \<noteq> [TEST_NONE_ID, TEST_NONE_ID]" by (simp add: deps_of_def)
  from run_alone_skips [OF sel _ len(2) this r]
  have "tests_skipped c' = 49" by (simp add: SDEI_NUM_TESTS_def control0_def)
  with r sel show ?thesis by auto
qed

end
