(* ===== verification/Sdei_Gic.thy ===== *)
theory Sdei_Gic
  imports Sdei_Pe Mpam_Gic
begin

text \<open>
  The interrupt controller of the SDEI suite (val_gic.c, platform/pal_uefi/src/pal_gic.c): the
  GIC table from the MADT, the distributor's base, and enabling, generating, routing, ending and
  clearing interrupts. Shared interrupts go through the distributor, private ones through the
  frames of the redistributors, one per PE and 128 KB apart.
\<close>

unbundle bit_operations_syntax

subsection \<open>The GIC table\<close>

definition EFI_ACPI_6_1_GICR :: u8 where [reg_defs]: "EFI_ACPI_6_1_GICR = 0xE"

text \<open>For a GICR structure \<open>m_phys_base\<close> is its DiscoveryRangeBaseAddress.\<close>

definition sdei_gic_step :: "madt_entry \<Rightarrow> gic_info_table \<times> sworld \<Rightarrow> gic_info_table \<times> sworld" where
  "sdei_gic_step e ts =
     (let (t, s) = ts;
          (t, s) = (if mtype e = EFI_ACPI_6_1_GIC \<and> m_cpuif_base e \<noteq> 0
                    then (gic_add ENTRY_TYPE_CPUIF (m_cpuif_base e) t,
                          sdei_pal_print ACS_LOG_INFO ''GIC CPUIF base %x'' [m_cpuif_base e] s)
                    else (t, s));
          (t, s) = (if mtype e = EFI_ACPI_6_1_GICR
                    then ((gic_add ENTRY_TYPE_GICRD (m_phys_base e) t)\<lparr>num_gicrd := num_gicrd t + 1\<rparr>,
                          sdei_pal_print ACS_LOG_INFO ''GIC RD base %x'' [m_phys_base e] s)
                    else (t, s));
          (t, s) = (if mtype e = EFI_ACPI_6_1_GICD
                    then ((gic_add ENTRY_TYPE_GICD (m_phys_base e) t)
                            \<lparr>gic_version := ucast (m_gic_version e), num_gicd := num_gicd t + 1\<rparr>, s)
                    else (t, s))
      in if mtype e = EFI_ACPI_6_1_GIC_ITS
         then ((gic_add ENTRY_TYPE_GICITS (m_phys_base e) t)\<lparr>num_its := num_its t + 1\<rparr>,
               sdei_pal_print ACS_LOG_INFO ''GIC ITS base %x'' [m_phys_base e] s)
         else (t, s))"

definition sdei_pal_gic_create_info_table ::
    "madt option \<Rightarrow> u64 \<Rightarrow> gic_info_table \<Rightarrow> sworld \<Rightarrow> (gic_info_table \<times> sworld) option" where
  "sdei_pal_gic_create_info_table m junk old s =
     (let t = old\<lparr>gic_version := 0, num_gicrd := 0, num_gicd := 0, num_its := 0\<rparr>
      in case m of
           None \<Rightarrow> Some (t, sdei_pal_print ACS_LOG_ERR ''MADT not found'' [] s)
         | Some m \<Rightarrow> do {
             let s = sdei_pal_print ACS_LOG_INFO ''MADT is at %x and length is %x'' [0, ucast (madt_length m)] s;
             (t, s) \<leftarrow> madt_walk mlen sdei_gic_step (madt_length m) SIZEOF_MADT_HEADER (madt_entries m)
                         (t\<lparr>gic_info := []\<rparr>, s);
             Some (gic_add 0xFF junk t, s) })"

text \<open>The outer \<open>None\<close> is a table without a terminator, the inner one a table without such an entry.\<close>

fun sdei_find_gic :: "u32 \<Rightarrow> gic_info_entry list \<Rightarrow> u64 option option" where
  "sdei_find_gic ty [] = None"
| "sdei_find_gic ty (e # es) =
     (if gtype e = 0xFF then Some None else if gtype e = ty then Some (Some (gbase e)) else sdei_find_gic ty es)"

definition set_gicd_base :: "sworld \<Rightarrow> (u32 \<times> sworld) option" where
  "set_gicd_base s =
     do { t \<leftarrow> sd_gic_table (sg s);
          b \<leftarrow> sdei_find_gic ENTRY_TYPE_GICD (gic_info t);
          Some (case b of None \<Rightarrow> (ACS_ERROR, s)
                | Some b \<Rightarrow> (ACS_SUCCESS, s\<lparr>sg := (sg s)\<lparr>g_gicd_base := b\<rparr>\<rparr>)) }"

definition sdei_val_gic_create_info_table ::
    "madt option \<Rightarrow> u64 \<Rightarrow> gic_info_table option \<Rightarrow> sworld \<Rightarrow> (u32 \<times> sworld) option" where
  "sdei_val_gic_create_info_table m junk old s =
     (case old of
        None \<Rightarrow> Some (ACS_ERROR, sdei_pal_print ACS_LOG_ERR ''Input for Create Info table cannot be NULL'' [] s)
      | Some t \<Rightarrow> do {
          (t, s) \<leftarrow> sdei_pal_gic_create_info_table m junk t s;
          let s = s\<lparr>sg := (sg s)\<lparr>sd_gic_table := Some t\<rparr>\<rparr>;
          let s = sdei_pal_print ACS_LOG_TEST ''GIC_INFO: Number of GICD             : %4d'' [ucast (num_gicd t)] s;
          let s = sdei_pal_print ACS_LOG_TEST ''GIC_INFO: Number of ITS              : %4d'' [ucast (num_its t)] s;
          if num_gicd t = 0
          then Some (ACS_ERROR, sdei_pal_print ACS_LOG_ERR ''** CRITICAL ERROR: GIC Distributor count is 0 **'' [] s)
          else do { (r, s) \<leftarrow> set_gicd_base s;
                    Some (if r \<noteq> 0 then ACS_ERROR else ACS_SUCCESS, s) } })"

definition sdei_val_get_gicd_base :: "sworld \<Rightarrow> u32 \<times> u64" where
  "sdei_val_get_gicd_base s = (ACS_SUCCESS, g_gicd_base (sg s))"

definition val_gic_get_version :: "hw \<Rightarrow> sworld \<Rightarrow> ((u32 \<times> u32) \<times> sworld) option" where
  "val_gic_get_version hw s =
     do { t \<leftarrow> sd_gic_table (sg s);
          if gic_version t \<noteq> 0
          then Some ((ACS_SUCCESS, gic_version t),
            sdei_pal_print ACS_LOG_INFO ''Gic version from ACPI table = %d'' [ucast (gic_version t)] s)
          else (let (v, s) = sdei_val_mmio_read hw (g_gicd_base (sg s) + 0xFE8) s
                in Some ((ACS_SUCCESS, drop_bit 4 v AND 0xF), s)) }"

subsection \<open>Operations on an interrupt\<close>

definition GICD_CLRSPI_NSR :: u64 where [reg_defs]: "GICD_CLRSPI_NSR = 0x048"
definition GICD_CLRLPIR :: u64 where [reg_defs]: "GICD_CLRLPIR = 0x048"
definition GICD_ISENABLER :: u64 where [reg_defs]: "GICD_ISENABLER = 0x100"
definition GICD_ICENABLER :: u64 where [reg_defs]: "GICD_ICENABLER = 0x180"
definition GICD_ISPENDR :: u64 where [reg_defs]: "GICD_ISPENDR = 0x200"
definition GICD_ISACTIVER0 :: u64 where [reg_defs]: "GICD_ISACTIVER0 = 0x300"
definition GICD_ICPENDR0 :: u64 where [reg_defs]: "GICD_ICPENDR0 = 0x280"
definition GICD_ICACTIVER0 :: u64 where [reg_defs]: "GICD_ICACTIVER0 = 0x380"
definition GICD_IROUTER :: u64 where [reg_defs]: "GICD_IROUTER = 0x6000"
definition SZ_64KB :: u32 where [reg_defs]: "SZ_64KB = 0x10000"

definition invalid_id :: "u32 \<Rightarrow> sworld \<Rightarrow> u32 \<times> sworld" where
  "invalid_id int_id s =
     (ACS_ERROR, sdei_pal_print ACS_LOG_ERR ''Invalid Interrupt ID number %d'' [ucast int_id] s)"

definition sdei_pal_gic_install_isr :: "hw \<Rightarrow> u32 \<Rightarrow> sworld \<Rightarrow> u32 \<times> sworld" where
  "sdei_pal_gic_install_isr hw int_id s =
     (let ((st, _), s) = firmware hw ''LocateProtocol'' [] s
      in if EFI_ERROR st then (0xFFFFFFFF, s)
         else (let s = snd (firmware hw ''DisableInterruptSource'' [ucast int_id] s);
                   ((st, _), s) = firmware hw ''RegisterInterruptSource'' [ucast int_id, 1] s;
                   s = (if EFI_ERROR st
                        then snd (firmware hw ''RegisterInterruptSource'' [ucast int_id, 1]
                               (snd (firmware hw ''RegisterInterruptSource'' [ucast int_id, 0] s)))
                        else s)
               in (0, s)))"

definition sdei_val_gic_install_isr :: "hw \<Rightarrow> u32 \<Rightarrow> sworld \<Rightarrow> u32 \<times> sworld" where
  "sdei_val_gic_install_isr hw int_id s =
     (let reg_offset = int_id div 32;
          reg_shift = int_id mod 32
      in if int_id > 1019 \<or> int_id = 0 then invalid_id int_id s
         else (let (ret, s) = sdei_pal_gic_install_isr hw int_id s
               in if ret \<noteq> 0 then (ACS_ERROR, s)
                  else (ACS_SUCCESS,
                    if int_id > 31
                    then sdei_val_mmio_write (g_gicd_base (sg s) + GICD_ISENABLER + ucast (4 * reg_offset))
                           (push_bit (unat reg_shift) 1) s
                    else s)))"

definition pal_gic_free_interrupt :: "u32 \<Rightarrow> u32" where
  "pal_gic_free_interrupt int_id = 0"

definition val_gic_free_interrupt :: "u32 \<Rightarrow> u32" where
  "val_gic_free_interrupt int_id = (if pal_gic_free_interrupt int_id \<noteq> 0 then ACS_ERROR else ACS_SUCCESS)"

text \<open>The base of the first redistributor of the table, 0 when there is none.\<close>

definition redistributor :: "sworld \<Rightarrow> u64 option" where
  "redistributor s =
     do { t \<leftarrow> sd_gic_table (sg s);
          b \<leftarrow> sdei_find_gic ENTRY_TYPE_GICRD (gic_info t);
          Some (case b of None \<Rightarrow> 0 | Some b \<Rightarrow> b) }"

text \<open>One write per PE; the offset of a frame is computed in 32 bits.\<close>

definition gic_disable_interrupt :: "u64 \<Rightarrow> u32 \<Rightarrow> sworld \<Rightarrow> sworld" where
  "gic_disable_interrupt base msk s =
     fold (\<lambda>index. sdei_val_mmio_write (base + ucast (index * 2 * SZ_64KB)) msk)
       (upto_u32 (sdei_val_pe_get_num s)) s"

definition val_gic_generate_interrupt :: "u32 \<Rightarrow> sworld \<Rightarrow> (u32 \<times> sworld) option" where
  "val_gic_generate_interrupt int_id s =
     (let msk = push_bit (unat (int_id mod 32)) 1
      in if int_id > 0 \<and> int_id < 32
         then do { base \<leftarrow> redistributor s;
                   Some (ACS_SUCCESS, gic_disable_interrupt (base + GICD_ISPENDR + ucast (int_id div 32 * 4)) msk s) }
         else if int_id > 31 \<and> int_id < 1020
         then Some (ACS_SUCCESS,
                sdei_val_mmio_write (g_gicd_base (sg s) + GICD_ISPENDR + ucast (int_id div 32 * 4)) msk s)
         else Some (invalid_id int_id s))"

definition val_gic_disable_interrupt :: "u32 \<Rightarrow> sworld \<Rightarrow> (u32 \<times> sworld) option" where
  "val_gic_disable_interrupt int_id s =
     (let msk = push_bit (unat (int_id mod 32)) 1
      in if int_id > 0 \<and> int_id < 32
         then do { base \<leftarrow> redistributor s;
                   Some (ACS_SUCCESS, gic_disable_interrupt (base + GICD_ICENABLER + ucast (int_id div 32 * 4)) msk s) }
         else if int_id > 31 \<and> int_id < 1020
         then Some (ACS_SUCCESS,
                sdei_val_mmio_write (g_gicd_base (sg s) + GICD_ICENABLER + ucast (int_id div 32 * 4)) msk s)
         else Some (invalid_id int_id s))"

definition sdei_pal_gic_end_of_interrupt :: "hw \<Rightarrow> u32 \<Rightarrow> sworld \<Rightarrow> sworld" where
  "sdei_pal_gic_end_of_interrupt hw int_id s =
     snd (firmware hw ''EndOfInterrupt'' [ucast int_id] (snd (firmware hw ''LocateProtocol'' [] s)))"

definition sdei_val_gic_end_of_interrupt :: "hw \<Rightarrow> u32 \<Rightarrow> sworld \<Rightarrow> (u32 \<times> sworld) option" where
  "sdei_val_gic_end_of_interrupt hw int_id s =
     (if int_id > 0 \<and> int_id < 32
      then do { base \<leftarrow> redistributor s;
                Some (ACS_SUCCESS, sdei_pal_gic_end_of_interrupt hw int_id
                        (gic_disable_interrupt (base + GICD_CLRLPIR) int_id s)) }
      else if int_id > 31 \<and> int_id < 1020
      then Some (ACS_SUCCESS, sdei_pal_gic_end_of_interrupt hw int_id
             (sdei_val_mmio_write (g_gicd_base (sg s) + GICD_CLRSPI_NSR) int_id s))
      else Some (invalid_id int_id s))"

definition PE_MPIDR_AFFINITY_LEVEL :: "u64 \<Rightarrow> nat \<Rightarrow> u64" where
  "PE_MPIDR_AFFINITY_LEVEL m level = drop_bit (8 * level) m AND (push_bit 8 1 - 1)"

definition val_gic_mpidr_to_affinity :: "u64 \<Rightarrow> u64" where
  "val_gic_mpidr_to_affinity m =
     push_bit 32 (PE_MPIDR_AFFINITY_LEVEL m 3) OR push_bit 16 (PE_MPIDR_AFFINITY_LEVEL m 2) OR
     push_bit 8 (PE_MPIDR_AFFINITY_LEVEL m 1) OR PE_MPIDR_AFFINITY_LEVEL m 0"

definition sdei_val_gic_route_interrupt_to_pe :: "u32 \<Rightarrow> u64 \<Rightarrow> sworld \<Rightarrow> u32 \<times> sworld" where
  "sdei_val_gic_route_interrupt_to_pe int_id m s =
     (let aff = val_gic_mpidr_to_affinity m
      in if int_id > 31
         then (let s = sdei_val_mmio_write (g_gicd_base (sg s) + GICD_IROUTER + ucast (8 * int_id)) (ucast aff) s
               in (ACS_SUCCESS, sdei_val_mmio_write (g_gicd_base (sg s) + GICD_IROUTER + ucast (8 * int_id) + 0x4)
                    (ucast (drop_bit 32 aff)) s))
         else (ACS_ERROR, sdei_pal_print ACS_LOG_ERR
                ''Only SPIs can be routed, INTID = %d cannot be routed'' [ucast int_id] s))"

definition sdei_val_gic_get_interrupt_state :: "hw \<Rightarrow> u32 \<Rightarrow> sworld \<Rightarrow> (u32 \<times> u32) \<times> sworld" where
  "sdei_val_gic_get_interrupt_state hw int_id s =
     (let reg_offset = int_id div 32;
          reg_shift = int_id mod 32;
          msk = push_bit (unat reg_shift) 1;
          (pending, s) = sdei_val_mmio_read hw (g_gicd_base (sg s) + GICD_ISPENDR + ucast (4 * reg_offset)) s;
          (active, s) = sdei_val_mmio_read hw (g_gicd_base (sg s) + GICD_ISACTIVER0 + ucast (4 * reg_offset)) s;
          s = sdei_pal_print ACS_LOG_DEBUG ''pending: %x active: %x'' [ucast pending, ucast active] s
      in ((ACS_SUCCESS, if msk AND active \<noteq> 0 \<or> msk AND pending \<noteq> 0 then 1 else 0), s))"

definition sdei_val_gic_clear_interrupt :: "u32 \<Rightarrow> sworld \<Rightarrow> u32 \<times> sworld" where
  "sdei_val_gic_clear_interrupt int_id s =
     (let reg_offset = int_id div 32;
          reg_shift = int_id mod 32
      in if int_id > 31 \<and> int_id < 1020
         then (let s = sdei_val_mmio_write (g_gicd_base (sg s) + GICD_ICPENDR0 + ucast (4 * reg_offset))
                         (push_bit (unat reg_shift) 1) s
               in (ACS_SUCCESS, sdei_val_mmio_write (g_gicd_base (sg s) + GICD_ICACTIVER0 + ucast (4 * reg_offset))
                         (push_bit (unat reg_shift) 1) s))
         else invalid_id int_id s)"

subsection \<open>What the operations write\<close>

text \<open>The register bit of a shared interrupt: for an identifier from 32 to 1019 generating and
  disabling write exactly one distributor register, the word of the identifier in the pending and
  in the disable array, with the identifier's own bit, clearing writes that bit in the two clear
  arrays, and an identifier outside 1 to 1019 is refused by all five operations without an access.\<close>

theorem gic_register_bits:
  assumes "b = g_gicd_base (sg s)" "r = ucast (4 * (int_id div 32))" "m = push_bit (unat (int_id mod 32)) 1"
  shows "(31 < int_id \<and> int_id < 1020 \<longrightarrow>
      map_option (\<lambda>(e, t). (e, io t)) (val_gic_generate_interrupt int_id s) =
        Some (ACS_SUCCESS, MmioWrite (b + 0x200 + r) m # io s) \<and>
      map_option (\<lambda>(e, t). (e, io t)) (val_gic_disable_interrupt int_id s) =
        Some (ACS_SUCCESS, MmioWrite (b + 0x180 + r) m # io s) \<and>
      map_prod id io (sdei_val_gic_clear_interrupt int_id s) =
        (ACS_SUCCESS, MmioWrite (b + 0x380 + r) m # MmioWrite (b + 0x280 + r) m # io s)) \<and>
    (int_id = 0 \<or> 1020 \<le> int_id \<longrightarrow>
      map_option (\<lambda>(e, t). (e, io t)) (val_gic_generate_interrupt int_id s) = Some (ACS_ERROR, io s) \<and>
      map_option (\<lambda>(e, t). (e, io t)) (val_gic_disable_interrupt int_id s) = Some (ACS_ERROR, io s) \<and>
      map_option (\<lambda>(e, t). (e, io t)) (sdei_val_gic_end_of_interrupt hw int_id s) = Some (ACS_ERROR, io s) \<and>
      map_prod id io (sdei_val_gic_clear_interrupt int_id s) = (ACS_ERROR, io s) \<and>
      map_prod id io (sdei_val_gic_install_isr hw int_id s) = (ACS_ERROR, io s))"
proof -
  have c: "int_id div 32 * 4 = 4 * (int_id div 32)" by (simp add: mult.commute)
  have big: "\<not> int_id < 1020" "\<not> int_id < 32" "31 < int_id" "1019 < int_id" if "1020 \<le> int_id"
    using that by (simp_all add: word_less_nat_alt word_le_nat_alt)
  have nz: "int_id \<noteq> 0" "\<not> int_id < 32" if "31 < int_id"
    using that by (simp_all add: word_less_nat_alt) auto
  show ?thesis
    using assms big nz
    by (auto simp: val_gic_generate_interrupt_def val_gic_disable_interrupt_def sdei_val_gic_clear_interrupt_def
        sdei_val_gic_end_of_interrupt_def sdei_val_gic_install_isr_def invalid_id_def Let_def c
        GICD_ISPENDR_def GICD_ICENABLER_def GICD_ICPENDR0_def GICD_ICACTIVER0_def)
qed

lemma aligned4_word_offset: "aligned4 (ucast (4 * x :: u32))"
proof -
  have "unat (ucast (4 * x) :: u64) = unat (4 * x)"
    by (rule unat_ucast_small) (rule less_trans [OF unsigned_less], simp)
  moreover have "4 dvd unat (4 * x)" by (simp add: unat_word_ariths dvd_mod)
  ultimately show ?thesis by (simp add: aligned4_unat)
qed

text \<open>An interrupt is reported pending or active exactly when its own bit is set in its word of the
  pending or of the active array.\<close>

theorem sdei_interrupt_state:
  assumes "aligned4 (g_gicd_base (sg s))"
    and "pending = mmio_in hw (io s) (g_gicd_base (sg s) + 0x200 + ucast (4 * (int_id div 32)))"
    and "active = mmio_in hw (MmioRead (g_gicd_base (sg s) + 0x200 + ucast (4 * (int_id div 32))) # io s)
           (g_gicd_base (sg s) + 0x300 + ucast (4 * (int_id div 32)))"
  shows "fst (sdei_val_gic_get_interrupt_state hw int_id s) =
     (ACS_SUCCESS, if bit pending (unat (int_id mod 32)) \<or> bit active (unat (int_id mod 32)) then 1 else 0)"
proof -
  have al: "mmio_addr (g_gicd_base (sg s) + 0x200 + ucast (4 * (int_id div 32))) =
      g_gicd_base (sg s) + 0x200 + ucast (4 * (int_id div 32))"
    "mmio_addr (g_gicd_base (sg s) + 0x300 + ucast (4 * (int_id div 32))) =
      g_gicd_base (sg s) + 0x300 + ucast (4 * (int_id div 32))"
    using assms(1) by (auto intro!: mmio_addr_aligned aligned4_add aligned4_word_offset simp: aligned4_def)
  have b: "(push_bit (unat (int_id mod 32)) 1 AND x = 0) = (\<not> bit x (unat (int_id mod 32)))" for x :: u32
    by (simp add: bit_iff_and_push_bit_not_eq_0 and.commute)
  show ?thesis
    using assms(2,3) al b
    by (simp add: sdei_val_gic_get_interrupt_state_def Let_def split_beta GICD_ISPENDR_def GICD_ISACTIVER0_def)
qed

lemma low_byte: "(x :: u64) AND 0xFF = take_bit 8 x" "(x :: u64) AND 0xFFFFFF = take_bit 24 x"
  by (simp_all add: take_bit_eq_mask mask_eq_exp_minus_1)

lemma affinity_level: "PE_MPIDR_AFFINITY_LEVEL m l = take_bit 8 (drop_bit (8 * l) m)"
  by (simp add: PE_MPIDR_AFFINITY_LEVEL_def take_bit_eq_mask mask_eq_exp_minus_1)

lemma bit_byte_at:
  "bit (push_bit k (take_bit w (drop_bit j (m :: u64)))) n \<longleftrightarrow> n < 64 \<and> k \<le> n \<and> n < k + w \<and> bit m (j + (n - k))"
  by (auto simp: bit_push_bit_iff bit_take_bit_iff bit_drop_bit_eq)

lemma mpidr_to_affinity_bit:
  "bit (val_gic_mpidr_to_affinity m) n \<longleftrightarrow> n < 24 \<and> bit m n \<or> 32 \<le> n \<and> n < 40 \<and> bit m (n - 8)"
proof -
  have e: "val_gic_mpidr_to_affinity m = push_bit 32 (take_bit 8 (drop_bit 24 m)) OR
      push_bit 16 (take_bit 8 (drop_bit 16 m)) OR push_bit 8 (take_bit 8 (drop_bit 8 m)) OR
      push_bit 0 (take_bit 8 (drop_bit 0 m))"
    by (simp add: val_gic_mpidr_to_affinity_def affinity_level)
  have d: "16 \<le> n \<Longrightarrow> 16 + (n - 16) = n" "8 \<le> n \<Longrightarrow> 8 + (n - 8) = n" "32 \<le> n \<Longrightarrow> 24 + (n - 32) = n - 8" by simp_all
  consider "n < 8" | "8 \<le> n" "n < 16" | "16 \<le> n" "n < 24" | "24 \<le> n" by linarith
  then show ?thesis
    unfolding e bit_or_iff bit_byte_at by cases (use d in auto)
qed

lemma affx_bit: "bit (affx m) n \<longleftrightarrow> n < 24 \<and> bit m n \<or> 24 \<le> n \<and> n < 32 \<and> bit m (n + 8)"
proof -
  have "affx m = push_bit 24 (take_bit 8 (drop_bit 32 m)) OR push_bit 0 (take_bit 24 (drop_bit 0 m))"
    unfolding affx_def low_byte by simp
  moreover have "24 \<le> n \<Longrightarrow> 32 + (n - 24) = n + 8" by simp
  ultimately show ?thesis
    by (simp only: bit_or_iff bit_byte_at) (auto simp: add.commute)
qed

lemma routing_bits: "bit (0xFF00FFFFFF :: u64) n \<longleftrightarrow> n < 24 \<or> 32 \<le> n \<and> n < 40"
proof -
  have "(0xFF00FFFFFF :: u64) = push_bit 32 (mask 8) OR mask 24" by (simp add: mask_eq_exp_minus_1)
  then have "bit (0xFF00FFFFFF :: u64) n \<longleftrightarrow> bit (push_bit 32 (mask 8 :: u64) OR mask 24) n" by (simp only:)
  then show ?thesis by (auto simp: bit_or_iff bit_push_bit_iff bit_mask_iff)
qed

lemma routed_words:
  assumes "a = val_gic_mpidr_to_affinity (affx m)"
  shows "push_bit 32 (ucast (ucast (drop_bit 32 a) :: u32)) OR ucast (ucast a :: u32) = m AND 0xFF00FFFFFF"
proof (rule bit_word_eqI)
  fix n
  assume "n < LENGTH(64)"
  have a: "bit a k \<longleftrightarrow> (k < 24 \<or> 32 \<le> k \<and> k < 40) \<and> bit m k" for k
    by (auto simp: assms mpidr_to_affinity_bit affx_bit)
  have u: "bit (ucast (ucast x :: u32) :: u64) k \<longleftrightarrow> k < 32 \<and> bit x k" for x :: u64 and k
    by (auto simp: bit_ucast_iff dest: bit_imp_le_length)
  show "bit (push_bit 32 (ucast (ucast (drop_bit 32 a) :: u32)) OR ucast (ucast a :: u32) :: u64) n =
      bit (m AND 0xFF00FFFFFF) n"
    unfolding bit_or_iff bit_and_iff bit_push_bit_iff u routing_bits bit_drop_bit_eq comp_def a
    using \<open>n < LENGTH(64)\<close> by auto
qed

text \<open>The affinity an interrupt is routed to: for the identifier that val_pe_get_mpid packs, the two
  words written to the routing register of the interrupt hold exactly the four affinity fields of
  the PE's MPIDR_EL1, at their architectural places.\<close>

theorem route_to_this_pe:
  assumes "31 < int_id" "b = g_gicd_base (sg s) + 0x6000 + ucast (8 * int_id)"
  shows "\<exists>hi lo. map_prod id io (sdei_val_gic_route_interrupt_to_pe int_id (affx m) s) =
       (ACS_SUCCESS, MmioWrite (b + 4) hi # MmioWrite b lo # io s) \<and>
     push_bit 32 (ucast hi) OR ucast lo = m AND 0xFF00FFFFFF"
proof -
  note routed_words [OF refl, of m]
  then show ?thesis
    using assms by (simp add: sdei_val_gic_route_interrupt_to_pe_def Let_def GICD_IROUTER_def)
qed

subsection \<open>Witnesses\<close>

definition gicd_world :: sworld where
  "gicd_world = sdei_world0\<lparr>sg := (sg sdei_world0)\<lparr>g_gicd_base := 0x2F000000\<rparr>\<rparr>"

lemma gicd_world_base: "g_gicd_base (sg gicd_world) = 0x2F000000" "io gicd_world = []"
  by (simp_all add: gicd_world_def sdei_world0_def)

lemma gic_register_bits_witness:
  "map_option (\<lambda>(e, t). (e, io t)) (val_gic_generate_interrupt 230 gicd_world) =
     Some (ACS_SUCCESS, [MmioWrite 0x2F00021C 0x40])"
proof -
  have d: "(230 :: u32) div 32 = 7" "(230 :: u32) mod 32 = 6" by simp_all
  from gic_register_bits [of "0x2F000000" gicd_world "0x1C" 230 "0x40" "ram_hw (\<lambda>_. 0) 0"]
  show ?thesis by (simp add: gicd_world_base d)
qed

lemma sdei_interrupt_state_witness:
  "fst (sdei_val_gic_get_interrupt_state (ram_hw (\<lambda>a. if a = 0x2F00021C then 0x40 else 0) 0) 230 gicd_world) =
     (ACS_SUCCESS, 1)"
proof -
  have d: "(230 :: u32) div 32 = 7" "(230 :: u32) mod 32 = 6" by simp_all
  have "aligned4 (g_gicd_base (sg gicd_world))" by (simp add: gicd_world_base aligned4_def)
  from sdei_interrupt_state [OF this refl refl, of "ram_hw (\<lambda>a. if a = 0x2F00021C then 0x40 else 0) 0" 230]
  show ?thesis by (simp add: gicd_world_base d)
qed

lemma route_to_this_pe_witness:
  "\<exists>hi lo. map_prod id io (sdei_val_gic_route_interrupt_to_pe 230 (affx 0x280010203) gicd_world) =
     (ACS_SUCCESS, [MmioWrite 0x2F006734 hi, MmioWrite 0x2F006730 lo]) \<and>
     push_bit 32 (ucast hi) OR ucast lo = (0x200010203 :: u64)"
  using route_to_this_pe [of 230 "0x2F006730" gicd_world "0x280010203"] by (simp add: gicd_world_base)

end
