(* ===== verification/Sdei_Mailbox.thy ===== *)
theory Sdei_Mailbox
  imports Sdei_Pe
begin

text \<open>
  How the SDEI suite runs a function on every PE (platform/pal_uefi/src/pal_pe.c and the entry
  code AArch64/ModuleEntryPoint.S): each secondary PE polls a mailbox at the bottom of its
  stack, and the calling PE fills the mailboxes one after the other, waiting for each to be
  cleared. The PEs run concurrently; every load or store of a mailbox word is one step.
\<close>

unbundle bit_operations_syntax

subsection \<open>Mailbox addresses\<close>

text \<open>PeStackTop with an \<open>int\<close> index: the product is signed and is extended before the addition.\<close>

definition PeStackTop :: "u64 \<Rightarrow> int \<Rightarrow> u64" where
  "PeStackTop stk i = stk + of_int ((i - 1) * 0x200)"

text \<open>With a UINT32 index the product wraps at 32 bits and is zero-extended.\<close>

definition PeStackTop_u32 :: "u64 \<Rightarrow> u32 \<Rightarrow> u64" where
  "PeStackTop_u32 stk i = stk + ucast ((i - 1) * SIZE_STACK_SECONDARY_PE)"

text \<open>The address the entry code of a secondary PE computes and passes to CEntryPoint.\<close>

definition ModuleEntryPoint_slot :: "u64 \<Rightarrow> u64 \<Rightarrow> u64 \<Rightarrow> u64" where
  "ModuleEntryPoint_slot stk mx m =
     stk + (of_nat (core_pos mx m) * 0x200 - 0x200)"

lemma ModuleEntryPoint_slot_eq:
  "ModuleEntryPoint_slot st mx m = PeStackTop st (int (core_pos mx m))"
  by (simp add: ModuleEntryPoint_slot_def PeStackTop_def algebra_simps)

lemma PeStackTop_u32_eq:
  assumes "0 < i" "unat i < 2 ^ 23"
  shows "PeStackTop_u32 st i = PeStackTop st (int (unat i))"
proof -
  have m: "unat (i - 1) = unat i - 1" using assms(1) by (metis unat_minus_one word_gt_0)
  have "unat ((i - 1) * 0x200) = (unat i - 1) * 0x200"
    using assms m by (subst unat_mult_lem [THEN iffD1]) (simp_all del: unat_mult_lem)
  then have "(ucast ((i - 1) * 0x200) :: u64) = of_nat ((unat i - 1) * 0x200)"
    by (metis of_nat_unat)
  moreover have "int ((unat i - 1) * 0x200) = (int (unat i) - 1) * 0x200"
    using assms(1) by (simp add: word_less_nat_alt of_nat_diff)
  ultimately show ?thesis
    by (simp only: PeStackTop_u32_def PeStackTop_def SIZE_STACK_SECONDARY_PE_def) (metis of_int_of_nat_eq)
qed

lemma of_int_u64_eq: "(word_of_int a :: u64) = word_of_int b \<longleftrightarrow> (a - b) mod 2 ^ 64 = 0"
  by (simp add: word_of_int_eq_iff take_bit_eq_mod mod_eq_dvd_iff dvd_eq_mod_eq_0)

lemma PeStackTop_int: "PeStackTop (word_of_int b) i = word_of_int (b + (i - 1) * 0x200)"
  by (simp only: PeStackTop_def wi_hom_add)

lemma base_int: obtains b where "(st :: u64) = word_of_int b"
  by (metis word_of_int_uint)

lemma PeStackTop_inj:
  assumes "PeStackTop st (int i) = PeStackTop st (int j)" "i < 2 ^ 32" "j < 2 ^ 32"
  shows "i = j"
proof -
  obtain b where b: "st = word_of_int b" by (rule base_int)
  have "(b + (int i - 1) * 512 - (b + (int j - 1) * 512)) mod 2 ^ 64 = 0"
    using assms(1) unfolding b PeStackTop_int of_int_u64_eq .
  then have "(512 * 2 ^ 55 :: int) dvd 512 * (int i - int j)" by (simp add: algebra_simps dvd_eq_mod_eq_0)
  then have d: "(2 ^ 55 :: int) dvd int i - int j" by (subst (asm) dvd_mult_cancel_left) simp
  have "\<bar>int i - int j\<bar> < 2 ^ 55" using assms(2,3) by simp
  then have "int i - int j = 0" using d dvd_imp_le_int [of "int i - int j" "2 ^ 55"] by fastforce
  then show ?thesis by simp
qed

lemma PeStackTop_apart: "PeStackTop st (int i) \<noteq> PeStackTop st (int j) + 8"
proof
  obtain b where b: "st = word_of_int b" by (rule base_int)
  have e: "(word_of_int x :: u64) + 8 = word_of_int (x + 8)" for x by (simp flip: wi_hom_add)
  assume "PeStackTop st (int i) = PeStackTop st (int j) + 8"
  then have "(b + (int i - 1) * 512 - (b + (int j - 1) * 512 + 8)) mod 2 ^ 64 = 0"
    unfolding b PeStackTop_int e of_int_u64_eq .
  then have "(2 :: int) ^ 64 dvd (int i - int j) * 512 - 8" by (simp add: algebra_simps dvd_eq_mod_eq_0)
  moreover have "(512 :: int) dvd 2 ^ 64" by simp
  ultimately have "(512 :: int) dvd (int i - int j) * 512 - 8" by (rule dvd_trans [rotated])
  then have "(512 :: int) dvd 8" by (simp only: dvd_diff_right_iff [OF dvd_triv_right])
  then show False by simp
qed

subsection \<open>The PEs as concurrent processes\<close>

text \<open>
  What does not change during a call: the table, the MPIDR of the calling PE, the base of the
  stacks, the mailbox address each PE of the table polls, the function and its argument, and
  the address of PowerOffPe, the one payload from which a PE does not return.
\<close>

record mb_config =
  mb_table :: "pe_info_entry list"
  mb_mpidr :: u64
  mb_base :: u64
  mb_polls :: "nat \<Rightarrow> u64"
  mb_payload :: u64
  mb_arg :: u64
  mb_PowerOffPe :: u64

text \<open>Where a secondary PE stands: the entry code clears the mailbox, then CEntryPoint loops.\<close>

datatype sec_pc = Entry | LoadRes | LoadArg | CallPayload | ClearBox | PoweredOff

record secondary =
  spc :: sec_pc
  ResAddr :: u64
  Arg :: u64

text \<open>Where the caller stands in pal_pe_execute_on_all; the number is the loop index.\<close>

datatype caller_pc = OwnCall | Next nat | PutArg nat | PutPayload nat | Await nat | Finished

record mailboxes =
  mem :: "u64 \<Rightarrow> u64"
  caller :: caller_pc
  secs :: "nat \<Rightarrow> secondary"
  calls :: "(u64 \<times> u64 \<times> u64) list"

definition MyMpidr :: "mb_config \<Rightarrow> u64" where
  "MyMpidr c = mb_mpidr c AND NOT (push_bit 24 0xff)"

definition box :: "mb_config \<Rightarrow> nat \<Rightarrow> u64" where
  "box c i = PeStackTop (mb_base c) (int i)"

text \<open>The caller runs the payload itself, then hands it to the other entries in table order.\<close>

definition execute_on_all_step :: "mb_config \<Rightarrow> mailboxes \<Rightarrow> mailboxes" where
  "execute_on_all_step c s =
     (case caller s of
        OwnCall \<Rightarrow> s\<lparr>calls := calls s @ [(MyMpidr c, mb_payload c, mb_arg c)], caller := Next 0\<rparr>
      | Next i \<Rightarrow>
          (if i < length (mb_table c)
           then (if MyMpidr c = mpidr (mb_table c ! i) then s\<lparr>caller := Next (i + 1)\<rparr>
                 else s\<lparr>caller := PutArg i\<rparr>)
           else s\<lparr>caller := Finished\<rparr>)
      | PutArg i \<Rightarrow> s\<lparr>mem := (mem s)(box c i + 8 := mb_arg c), caller := PutPayload i\<rparr>
      | PutPayload i \<Rightarrow> s\<lparr>mem := (mem s)(box c i := mb_payload c), caller := Await i\<rparr>
      | Await i \<Rightarrow> (if mem s (box c i) = 0 then s\<lparr>caller := Next (i + 1)\<rparr> else s)
      | Finished \<Rightarrow> s)"

definition set_sec :: "nat \<Rightarrow> secondary \<Rightarrow> mailboxes \<Rightarrow> mailboxes" where
  "set_sec i p s = s\<lparr>secs := (secs s)(i := p)\<rparr>"

definition CEntryPoint_step :: "mb_config \<Rightarrow> nat \<Rightarrow> mailboxes \<Rightarrow> mailboxes" where
  "CEntryPoint_step c i s =
     (let p = secs s i; addr = mb_polls c i
      in case spc p of
           Entry \<Rightarrow> set_sec i \<lparr>spc = LoadRes, ResAddr = 0, Arg = 0\<rparr> (s\<lparr>mem := (mem s)(addr := 0)\<rparr>)
         | LoadRes \<Rightarrow> set_sec i (p\<lparr>ResAddr := mem s addr, spc := LoadArg\<rparr>) s
         | LoadArg \<Rightarrow> set_sec i (p\<lparr>Arg := mem s (addr + 8),
                        spc := (if ResAddr p = 0 then LoadRes else CallPayload)\<rparr>) s
         | CallPayload \<Rightarrow>
             set_sec i (p\<lparr>spc := (if ResAddr p = mb_PowerOffPe c then PoweredOff else ClearBox)\<rparr>)
               (s\<lparr>calls := calls s @ [(mpidr (mb_table c ! i), ResAddr p, Arg p)]\<rparr>)
         | ClearBox \<Rightarrow> set_sec i (p\<lparr>ResAddr := 0, spc := LoadRes\<rparr>) (s\<lparr>mem := (mem s)(addr := 0)\<rparr>)
         | PoweredOff \<Rightarrow> s)"

text \<open>The entries of the table that are not the caller run as secondary PEs.\<close>

definition is_secondary :: "mb_config \<Rightarrow> nat \<Rightarrow> bool" where
  "is_secondary c i \<longleftrightarrow> i < length (mb_table c) \<and> mpidr (mb_table c ! i) \<noteq> MyMpidr c"

inductive mb_step :: "mb_config \<Rightarrow> mailboxes \<Rightarrow> mailboxes \<Rightarrow> bool" for c where
  caller_step: "mb_step c s (execute_on_all_step c s)"
| secondary_step: "is_secondary c i \<Longrightarrow> mb_step c s (CEntryPoint_step c i s)"

inductive mb_run :: "mb_config \<Rightarrow> mailboxes \<Rightarrow> mailboxes \<Rightarrow> bool" for c where
  run_refl: "mb_run c s s"
| run_step: "mb_run c s t \<Longrightarrow> mb_step c t u \<Longrightarrow> mb_run c s u"

inductive_cases mb_stepE: "mb_step c s t"

lemma mb_run_trans: "mb_run c t u \<Longrightarrow> mb_run c s t \<Longrightarrow> mb_run c s u"
  by (induction rule: mb_run.induct) (auto intro: mb_run.intros)

lemma mb_run_front: "mb_step c s t \<Longrightarrow> mb_run c t u \<Longrightarrow> mb_run c s u"
  by (blast intro: mb_run_trans mb_run.intros)

lemma mb_run_invariant:
  assumes "mb_run c s t" "P s" "\<And>u v. P u \<Longrightarrow> mb_step c u v \<Longrightarrow> P v"
  shows "P t"
  using assms by (induction rule: mb_run.induct) blast+

text \<open>At the start every secondary PE polls an empty mailbox.\<close>

definition polling :: "mb_config \<Rightarrow> mailboxes \<Rightarrow> nat \<Rightarrow> bool" where
  "polling c s i \<longleftrightarrow> mem s (mb_polls c i) = 0 \<and>
     (spc (secs s i) = LoadRes \<or> spc (secs s i) = LoadArg \<and> ResAddr (secs s i) = 0)"

definition mb_init :: "mb_config \<Rightarrow> mailboxes \<Rightarrow> bool" where
  "mb_init c s \<longleftrightarrow> caller s = OwnCall \<and> calls s = [] \<and>
     list_all (\<lambda>i. is_secondary c i \<longrightarrow> polling c s i) [0..<length (mb_table c)]"

text \<open>The mailboxes the caller fills are the ones the PEs of those entries poll.\<close>

definition boxes_match :: "mb_config \<Rightarrow> bool" where
  "boxes_match c \<longleftrightarrow> length (mb_table c) < 2 ^ 32 \<and>
     list_all (\<lambda>i. is_secondary c i \<longrightarrow> mb_polls c i = box c i) [0..<length (mb_table c)]"

definition payload_ok :: "mb_config \<Rightarrow> bool" where
  "payload_ok c \<longleftrightarrow> mb_payload c \<noteq> 0 \<and> mb_payload c \<noteq> mb_PowerOffPe c"

text \<open>The calls made once the first \<open>n\<close> entries have been served.\<close>

definition calls_upto :: "mb_config \<Rightarrow> nat \<Rightarrow> (u64 \<times> u64 \<times> u64) list" where
  "calls_upto c n = map (\<lambda>m. (m, mb_payload c, mb_arg c))
     (MyMpidr c # map (\<lambda>i. mpidr (mb_table c ! i)) (filter (is_secondary c) [0..<n]))"

lemma calls_upto_Suc:
  "calls_upto c (Suc n) = calls_upto c n @
     (if is_secondary c n then [(mpidr (mb_table c ! n), mb_payload c, mb_arg c)] else [])"
  by (simp add: calls_upto_def)

lemma box_apart [simp]: "box c i \<noteq> box c j + 8" "box c j + 8 \<noteq> box c i"
  using PeStackTop_apart [of "mb_base c" i j] by (simp_all add: box_def eq_commute)

lemma box_eq:
  assumes "boxes_match c" "is_secondary c i" "is_secondary c j"
  shows "box c i = box c j \<longleftrightarrow> i = j"
  using assms PeStackTop_inj [of "mb_base c" i j] by (auto simp: boxes_match_def is_secondary_def box_def)

lemma polls_box: "boxes_match c \<Longrightarrow> is_secondary c i \<Longrightarrow> mb_polls c i = box c i"
  by (auto simp: boxes_match_def is_secondary_def list_all_iff)

definition others_polling :: "mb_config \<Rightarrow> mailboxes \<Rightarrow> nat set \<Rightarrow> bool" where
  "others_polling c s X \<longleftrightarrow> (\<forall>j. is_secondary c j \<longrightarrow> j \<notin> X \<longrightarrow> polling c s j)"

lemma others_pollingD: "others_polling c s X \<Longrightarrow> is_secondary c j \<Longrightarrow> j \<notin> X \<Longrightarrow> polling c s j"
  by (simp add: others_polling_def)

text \<open>While the caller waits for entry \<open>i\<close>: the payload is pending, or has run once.\<close>

definition handing_over :: "mb_config \<Rightarrow> mailboxes \<Rightarrow> nat \<Rightarrow> bool" where
  "handing_over c s i \<longleftrightarrow>
     (let p = secs s i
      in calls s = calls_upto c i \<and> mem s (box c i) = mb_payload c \<and>
           (spc p = LoadRes \<or> spc p = LoadArg \<and> ResAddr p \<in> {0, mb_payload c} \<or>
            spc p = CallPayload \<and> ResAddr p = mb_payload c \<and> Arg p = mb_arg c) \<or>
         calls s = calls_upto c (Suc i) \<and> (spc p = ClearBox \<and> mem s (box c i) = mb_payload c \<or> polling c s i))"

definition mb_inv :: "mb_config \<Rightarrow> mailboxes \<Rightarrow> bool" where
  "mb_inv c s \<longleftrightarrow>
     (case caller s of
        OwnCall \<Rightarrow> calls s = [] \<and> others_polling c s {}
      | Next n \<Rightarrow> n \<le> length (mb_table c) \<and> calls s = calls_upto c n \<and> others_polling c s {}
      | PutArg i \<Rightarrow> is_secondary c i \<and> calls s = calls_upto c i \<and> others_polling c s {}
      | PutPayload i \<Rightarrow> is_secondary c i \<and> calls s = calls_upto c i \<and> others_polling c s {} \<and>
                      mem s (box c i + 8) = mb_arg c
      | Await i \<Rightarrow> is_secondary c i \<and> others_polling c s {i} \<and> mem s (box c i + 8) = mb_arg c \<and>
                      handing_over c s i
      | Finished \<Rightarrow> calls s = calls_upto c (length (mb_table c)) \<and> others_polling c s {})"

lemma mb_init_inv: "mb_init c s \<Longrightarrow> mb_inv c s"
  by (auto simp: mb_init_def mb_inv_def others_polling_def is_secondary_def list_all_iff)

lemma set_sec_simps [simp]:
  "mem (set_sec i p s) = mem s" "caller (set_sec i p s) = caller s" "calls (set_sec i p s) = calls s"
  "secs (set_sec i p s) j = (if j = i then p else secs s j)"
  by (simp_all add: set_sec_def)

lemma polling_set_sec [simp]: "j \<noteq> i \<Longrightarrow> polling c (set_sec i p s) j = polling c s j"
  by (simp add: polling_def)

text \<open>A polling PE changes nothing but its own locals.\<close>

lemma polling_step:
  assumes "polling c s j"
  shows "\<exists>p. CEntryPoint_step c j s = set_sec j p s \<and> polling c (set_sec j p s) j"
  using assms by (auto simp: polling_def CEntryPoint_step_def Let_def)

lemma handing_over_set_sec: "j \<noteq> i \<Longrightarrow> handing_over c (set_sec j p s) i = handing_over c s i"
  by (simp add: handing_over_def Let_def)

lemma others_polling_set_sec:
  assumes "others_polling c s X" "polling c (set_sec j p s) j \<or> j \<in> X"
  shows "others_polling c (set_sec j p s) X"
  using assms unfolding others_polling_def by (metis polling_set_sec)

lemma mb_inv_polling_step:
  assumes "mb_inv c s" "polling c s j" "caller s \<noteq> Await j"
  shows "mb_inv c (CEntryPoint_step c j s)"
proof -
  from polling_step [OF assms(2)] obtain p
    where p: "CEntryPoint_step c j s = set_sec j p s" "polling c (set_sec j p s) j" by blast
  show ?thesis
    unfolding p(1) using assms(1,3) p(2)
    by (auto simp: mb_inv_def handing_over_set_sec intro: others_polling_set_sec split: caller_pc.splits)
qed

lemma others_polling_other_box:
  assumes "others_polling c s X" "boxes_match c" "is_secondary c i" "i \<in> X"
  shows "others_polling c (set_sec i p (s\<lparr>mem := (mem s)(box c i := v), calls := l\<rparr>)) X"
    "others_polling c (set_sec i p (s\<lparr>mem := (mem s)(box c i := v)\<rparr>)) X"
    "others_polling c (set_sec i p (s\<lparr>calls := l\<rparr>)) X" "others_polling c (set_sec i p s) X"
  using assms by (auto simp: others_polling_def polling_def polls_box box_eq)

text \<open>The PE the caller waits for: it takes the payload, calls it once, and clears its mailbox.\<close>

lemma mb_inv_served_step:
  assumes inv: "mb_inv c s" and m: "boxes_match c" and pl: "payload_ok c" and a: "caller s = Await i"
  shows "mb_inv c (CEntryPoint_step c i s)"
proof -
  have i: "is_secondary c i" "others_polling c s {i}" "mem s (box c i + 8) = mb_arg c" "handing_over c s i"
    using inv a by (simp_all add: mb_inv_def)
  note f = a i(1-3) m pl polls_box [OF m i(1)] others_polling_other_box [OF i(2) m i(1)]
  consider (pending) "calls s = calls_upto c i" "mem s (box c i) = mb_payload c"
      "spc (secs s i) = LoadRes \<or> spc (secs s i) = LoadArg \<and> ResAddr (secs s i) \<in> {0, mb_payload c} \<or>
       spc (secs s i) = CallPayload \<and> ResAddr (secs s i) = mb_payload c \<and> Arg (secs s i) = mb_arg c"
    | (clearing) "calls s = calls_upto c (Suc i)" "spc (secs s i) = ClearBox" "mem s (box c i) = mb_payload c"
    | (ran) "calls s = calls_upto c (Suc i)" "polling c s i"
    using i(4) by (auto simp: handing_over_def Let_def)
  then show ?thesis
  proof cases
    case pending
    then show ?thesis using f
      by (auto simp: mb_inv_def handing_over_def CEntryPoint_step_def Let_def payload_ok_def calls_upto_Suc)
  next
    case clearing
    then show ?thesis using f
      by (auto simp: mb_inv_def handing_over_def CEntryPoint_step_def Let_def polling_def)
  next
    case ran
    from polling_step [OF ran(2)] obtain p
      where p: "CEntryPoint_step c i s = set_sec i p s" "polling c (set_sec i p s) i" by blast
    then show ?thesis using f ran by (simp add: mb_inv_def handing_over_def Let_def)
  qed
qed

lemma mb_inv_caller_step:
  assumes "mb_inv c s" "boxes_match c" "payload_ok c"
  shows "mb_inv c (execute_on_all_step c s)"
proof (cases "caller s")
  case OwnCall
  then show ?thesis
    using assms by (auto simp: mb_inv_def execute_on_all_step_def calls_upto_def others_polling_def polling_def)
next
  case (Next n)
  then show ?thesis
    using assms by (auto simp: mb_inv_def execute_on_all_step_def calls_upto_Suc is_secondary_def
      others_polling_def polling_def)
next
  case (PutArg i)
  then show ?thesis
    using assms by (auto simp: mb_inv_def execute_on_all_step_def others_polling_def polling_def polls_box)
next
  case (PutPayload i)
  have "polling c s i" using assms(1) PutPayload by (auto simp: mb_inv_def others_polling_def)
  then show ?thesis
    using assms PutPayload by (auto simp: mb_inv_def execute_on_all_step_def others_polling_def polling_def
      polls_box box_eq handing_over_def Let_def)
next
  case (Await i)
  have "i < length (mb_table c)" using assms(1) Await by (simp add: mb_inv_def is_secondary_def)
  then show ?thesis
    using assms Await by (auto simp: mb_inv_def execute_on_all_step_def others_polling_def polling_def
      polls_box handing_over_def Let_def payload_ok_def split: if_splits)
next
  case Finished
  then show ?thesis using assms by (simp add: execute_on_all_step_def)
qed

lemma mb_inv_step:
  assumes "boxes_match c" "payload_ok c" "mb_inv c s" "mb_step c s t"
  shows "mb_inv c t"
  using assms(4)
proof (cases rule: mb_step.cases)
  case caller_step
  then show ?thesis using mb_inv_caller_step assms(1-3) by simp
next
  case (secondary_step i)
  have "polling c s i" if "caller s \<noteq> Await i"
    using that assms(3) secondary_step(2)
    by (cases "caller s") (auto simp: mb_inv_def elim: others_pollingD)
  then show ?thesis
    using mb_inv_polling_step mb_inv_served_step assms(1-3) secondary_step(1) by blast
qed

lemma calls_upto_all:
  "calls_upto c (length (mb_table c)) = map (\<lambda>m. (m, mb_payload c, mb_arg c))
     (MyMpidr c # filter (\<lambda>m. m \<noteq> MyMpidr c) (map mpidr (mb_table c)))"
proof -
  have "filter (is_secondary c) [0..<length (mb_table c)] =
      filter (\<lambda>i. mpidr (mb_table c ! i) \<noteq> MyMpidr c) [0..<length (mb_table c)]"
    by (rule filter_cong) (simp_all add: is_secondary_def)
  then have "map (\<lambda>i. mpidr (mb_table c ! i)) (filter (is_secondary c) [0..<length (mb_table c)]) =
      filter (\<lambda>m. m \<noteq> MyMpidr c) (map (\<lambda>i. mpidr (mb_table c ! i)) [0..<length (mb_table c)])"
    by (simp add: filter_map comp_def)
  also have "map (\<lambda>i. mpidr (mb_table c ! i)) [0..<length (mb_table c)] = map mpidr (mb_table c)"
    by (rule nth_equalityI) simp_all
  finally show ?thesis by (simp add: calls_upto_def)
qed

text \<open>C1: running a function on all PEs: when every secondary PE polls the mailbox of its table
  entry, whatever the interleaving, once pal_pe_execute_on_all has returned the function has
  been called exactly once on the caller and once on every other PE of the table, in table
  order, each time with the caller's argument.\<close>

theorem execute_on_all_exactly_once:
  assumes "mb_init c s" "boxes_match c" "payload_ok c" "mb_run c s t" "caller t = Finished"
  shows "calls t = map (\<lambda>m. (m, mb_payload c, mb_arg c))
    (MyMpidr c # filter (\<lambda>m. m \<noteq> MyMpidr c) (map mpidr (mb_table c)))"
proof -
  have "mb_inv c t"
    using mb_run_invariant [OF assms(4), of "mb_inv c"] mb_init_inv [OF assms(1)] mb_inv_step [OF assms(2,3)]
    by blast
  then show ?thesis using assms(5) calls_upto_all [of c] by (simp add: mb_inv_def)
qed

subsection \<open>The caller can always finish\<close>

definition awaiting :: "mb_config \<Rightarrow> nat \<Rightarrow> mailboxes \<Rightarrow> bool" where
  "awaiting c i s \<longleftrightarrow> mb_inv c s \<and> caller s = Await i"

lemma caller_CEntryPoint [simp]: "caller (CEntryPoint_step c i s) = caller s"
  by (simp add: CEntryPoint_step_def Let_def split: sec_pc.split)

lemma awaiting_step:
  assumes "boxes_match c" "payload_ok c" "awaiting c i s"
  shows "awaiting c i (CEntryPoint_step c i s) \<and> mb_step c s (CEntryPoint_step c i s)"
proof -
  have "is_secondary c i" using assms(3) by (auto simp: awaiting_def mb_inv_def)
  then have "mb_step c s (CEntryPoint_step c i s)" by (rule secondary_step)
  then show ?thesis using mb_inv_step [OF assms(1,2)] assms(3) by (auto simp: awaiting_def)
qed

text \<open>How far the awaited PE is from having cleared its mailbox.\<close>

fun distance :: "mb_config \<Rightarrow> secondary \<Rightarrow> nat" where
  "distance c p = (case spc p of LoadRes \<Rightarrow> 4 | LoadArg \<Rightarrow> (if ResAddr p = 0 then 5 else 3) | CallPayload \<Rightarrow> 2
     | ClearBox \<Rightarrow> 1 | _ \<Rightarrow> 0)"

lemma awaiting_progress:
  assumes "boxes_match c" "payload_ok c" "awaiting c i s" "mem s (box c i) \<noteq> 0"
  shows "mem (CEntryPoint_step c i s) (box c i) = 0 \<or>
     distance c (secs (CEntryPoint_step c i s) i) < distance c (secs s i)"
proof -
  have i: "is_secondary c i" "handing_over c s i" using assms(3) by (auto simp: awaiting_def mb_inv_def)
  then have "spc (secs s i) \<in> {LoadRes, LoadArg, CallPayload, ClearBox}"
    "spc (secs s i) = CallPayload \<Longrightarrow> ResAddr (secs s i) = mb_payload c"
    using assms(4) by (auto simp: handing_over_def Let_def polling_def polls_box [OF assms(1)])
  then show ?thesis
    using assms(2,4) polls_box [OF assms(1) i(1)] by (auto simp: CEntryPoint_step_def Let_def payload_ok_def)
qed

lemma awaiting_served:
  assumes m: "boxes_match c" and pl: "payload_ok c" and a: "awaiting c i s"
  shows "\<exists>t. mb_run c s t \<and> mb_inv c t \<and> caller t = Next (Suc i)"
  using a
proof (induction "distance c (secs s i)" arbitrary: s rule: less_induct)
  case less
  have cleared: "\<exists>t. mb_run c u t \<and> mb_inv c t \<and> caller t = Next (Suc i)"
    if "awaiting c i u" "mem u (box c i) = 0" for u
  proof -
    let ?v = "execute_on_all_step c u"
    have "mb_run c u ?v" by (blast intro: mb_run.intros caller_step)
    moreover have "caller ?v = Next (Suc i)" using that by (simp add: execute_on_all_step_def awaiting_def)
    moreover have "mb_inv c ?v" using that(1) m pl by (simp add: awaiting_def mb_inv_caller_step)
    ultimately show ?thesis by blast
  qed
  note st = awaiting_step [OF m pl less.prems]
  show ?case
  proof (cases "mem s (box c i) = 0")
    case False
    then show ?thesis
      using awaiting_progress [OF m pl less.prems] less.hyps [of "CEntryPoint_step c i s"] cleared st
      by (blast intro: mb_run_front)
  qed (use cleared less.prems in blast)
qed

lemma next_finishes:
  assumes m: "boxes_match c" and pl: "payload_ok c"
  shows "mb_inv c s \<Longrightarrow> caller s = Next n \<Longrightarrow> \<exists>t. mb_run c s t \<and> caller t = Finished"
proof (induction "length (mb_table c) - n" arbitrary: s n)
  case (0 n s)
  then have "caller (execute_on_all_step c s) = Finished" by (simp add: execute_on_all_step_def)
  then show ?case by (blast intro: mb_run.intros caller_step)
next
  case (Suc k n s)
  let ?e = "execute_on_all_step c"
  have n: "n < length (mb_table c)" using Suc.hyps(2) by simp
  have inv: "mb_inv c (?e u)" if "mb_inv c u" for u using that m pl by (simp add: mb_inv_caller_step)
  have run: "mb_run c s (?e s)" "mb_run c s (?e (?e (?e s)))" by (blast intro: mb_run.intros caller_step)+
  have IH: "\<exists>t. mb_run c u t \<and> caller t = Finished" if "mb_inv c u" "caller u = Next (Suc n)" for u
    using Suc.hyps(1) [of "Suc n" u] Suc.hyps(2) that by simp
  show ?case
  proof (cases "MyMpidr c = mpidr (mb_table c ! n)")
    case True
    then have "caller (?e s) = Next (Suc n)" using n Suc.prems(2) by (simp add: execute_on_all_step_def)
    then show ?thesis using IH [OF inv [OF Suc.prems(1)]] run(1) by (blast intro: mb_run_trans)
  next
    case False
    then have "caller (?e (?e (?e s))) = Await n" using n Suc.prems(2) by (simp add: execute_on_all_step_def)
    then have "awaiting c n (?e (?e (?e s)))" using inv Suc.prems(1) by (simp add: awaiting_def)
    from awaiting_served [OF m pl this] show ?thesis using IH run(2) by (blast intro: mb_run_trans)
  qed
qed

lemma inv_finishes:
  assumes m: "boxes_match c" and pl: "payload_ok c" and inv: "mb_inv c s"
  shows "\<exists>t. mb_run c s t \<and> caller t = Finished"
proof -
  let ?e = "execute_on_all_step c"
  have step: "mb_inv c (?e u)" if "mb_inv c u" for u using that m pl by (simp add: mb_inv_caller_step)
  have run: "mb_run c s (?e s)" "mb_run c s (?e (?e s))" by (blast intro: mb_run.intros caller_step)+
  have await: "\<exists>t. mb_run c u t \<and> caller t = Finished" if "awaiting c i u" for u i
    using awaiting_served [OF m pl that] next_finishes [OF m pl] by (blast intro: mb_run_trans)
  show ?thesis
  proof (cases "caller s")
    case OwnCall
    then have "caller (?e s) = Next 0" by (simp add: execute_on_all_step_def)
    then show ?thesis using next_finishes [OF m pl step [OF inv]] run(1) by (blast intro: mb_run_trans)
  next
    case (Next n)
    then show ?thesis using next_finishes [OF m pl inv] by blast
  next
    case (PutArg i)
    then have "awaiting c i (?e (?e s))" using step inv by (simp add: awaiting_def) (simp add: execute_on_all_step_def)
    then show ?thesis using await run(2) by (blast intro: mb_run_trans)
  next
    case (PutPayload i)
    then have "awaiting c i (?e s)" using step inv by (simp add: awaiting_def) (simp add: execute_on_all_step_def)
    then show ?thesis using await run(1) by (blast intro: mb_run_trans)
  next
    case (Await i)
    then show ?thesis using await inv by (simp add: awaiting_def)
  qed (blast intro: mb_run.intros)
qed

text \<open>C3: running a function on all PEs cannot get stuck: from every state reachable from an
  initial one the PEs can move on to a state in which pal_pe_execute_on_all has returned.\<close>

theorem execute_on_all_can_finish:
  assumes "mb_init c s" "boxes_match c" "payload_ok c" "mb_run c s t"
  shows "\<exists>u. mb_run c t u \<and> caller u = Finished"
proof -
  have "mb_inv c t"
    using mb_run_invariant [OF assms(4), of "mb_inv c"] mb_init_inv [OF assms(1)] mb_inv_step [OF assms(2,3)]
    by blast
  then show ?thesis by (rule inv_finishes [OF assms(2,3)])
qed

subsection \<open>The mailboxes that the entry code selects\<close>

text \<open>The real machine: each PE polls the slot its entry code computes from its MPIDR and from
  the affinity maxima of the table.\<close>

definition entry_polls :: "u64 \<Rightarrow> pe_info_entry list \<Rightarrow> nat \<Rightarrow> u64" where
  "entry_polls st ps i =
     (let f = (\<lambda>m. fold (\<lambda>e x. UPDATE_AFF_MAX x (mpidr e) m) ps 0)
      in ModuleEntryPoint_slot st (f 0xff OR f 0xff00 OR f 0xff0000 OR f 0xff00000000) (mpidr (ps ! i)))"

definition table_core_pos :: "pe_info_entry list \<Rightarrow> nat \<Rightarrow> nat" where
  "table_core_pos ps i =
     (let f = (\<lambda>m. fold (\<lambda>e x. UPDATE_AFF_MAX x (mpidr e) m) ps 0)
      in core_pos (f 0xff OR f 0xff00 OR f 0xff0000 OR f 0xff00000000) (mpidr (ps ! i)))"

lemma entry_polls_slot: "entry_polls st ps i = PeStackTop st (int (table_core_pos ps i))"
  by (simp add: entry_polls_def table_core_pos_def ModuleEntryPoint_slot_eq Let_def)

lemma core_pos_bound: "core_pos mx m < 2 ^ 32"
proof -
  have m: "unat (x AND k) \<le> unat k" for x k :: u64 by (simp flip: word_le_nat_alt add: word_and_le1)
  have a: "unat (aff0 x) < 256" "unat (aff1 x) < 256" "unat (aff2 x) < 256" "unat (aff3 x) < 256" for x
    using m [of x "0xff"] m [of x "0xff00"] m [of x "0xff0000"] m [of x "0xff00000000"] by (simp_all add: unat_aff)
  let ?A = "unat (aff0 mx) + 1" and ?B = "unat (aff1 mx) + 1" and ?C = "unat (aff2 mx) + 1"
  have "?A \<le> 256" "?B \<le> 256" "?C \<le> 256" using a [of mx] by linarith+
  then have b: "?A * ?B \<le> 256 * 256" "?A * ?B * ?C \<le> 256 * 256 * 256" by (blast intro: mult_le_mono)+
  have l: "unat (aff1 m) \<le> 255" "unat (aff2 m) \<le> 255" "unat (aff3 m) \<le> 255"
    using a(2-4) [of m] by linarith+
  have "unat (aff1 m) * ?A \<le> 255 * 256" "unat (aff2 m) * (?A * ?B) \<le> 255 * (256 * 256)"
    "unat (aff3 m) * (?A * ?B * ?C) \<le> 255 * (256 * 256 * 256)"
    by (rule mult_le_mono, fact, fact)+
  then show ?thesis using a(1) [of m] by (simp add: core_pos_def)
qed

lemma entry_boxes_match:
  assumes "mb_polls c = entry_polls (mb_base c) (mb_table c)" "length (mb_table c) < 2 ^ 32"
    and "\<And>i. is_secondary c i \<Longrightarrow> table_core_pos (mb_table c) i = i"
  shows "boxes_match c"
  using assms by (auto simp: boxes_match_def list_all_iff entry_polls_slot box_def)

text \<open>Nothing leaves the wait for a mailbox that no PE polls.\<close>

definition stuck_before :: "mb_config \<Rightarrow> nat \<Rightarrow> mailboxes \<Rightarrow> bool" where
  "stuck_before c i s \<longleftrightarrow>
     (case caller s of
        OwnCall \<Rightarrow> True | Next k \<Rightarrow> k \<le> i | PutArg k \<Rightarrow> k \<le> i | PutPayload k \<Rightarrow> k \<le> i
      | Await k \<Rightarrow> k < i \<or> k = i \<and> mem s (box c i) = mb_payload c
      | Finished \<Rightarrow> False)"

lemma CEntryPoint_mem: "a \<noteq> mb_polls c j \<Longrightarrow> mem (CEntryPoint_step c j s) a = mem s a"
  by (simp add: CEntryPoint_step_def Let_def split: sec_pc.split)

lemma stuck_step:
  assumes "is_secondary c i" "\<And>j. is_secondary c j \<Longrightarrow> mb_polls c j \<noteq> box c i" "mb_payload c \<noteq> 0"
    and "stuck_before c i s" "mb_step c s t"
  shows "stuck_before c i t"
  using assms(5)
proof (cases rule: mb_step.cases)
  case caller_step
  then show ?thesis
    using assms(1,3,4)
    by (auto simp: stuck_before_def execute_on_all_step_def is_secondary_def Suc_le_eq order_le_less split: caller_pc.splits if_splits)
next
  case (secondary_step j)
  have "mem t (box c i) = mem s (box c i)" "caller t = caller s"
    using assms(2) [OF secondary_step(2)] secondary_step(1) CEntryPoint_mem by auto
  then show ?thesis using assms(4) by (auto simp: stuck_before_def split: caller_pc.splits)
qed

text \<open>The mailbox of the entry at position \<open>i\<close> of the table is the one of core position \<open>i\<close>: when
  the topology has a PE whose position in the table is not the core position of any PE that runs as
  a secondary (clusters of different sizes, or a table in another order), pal_pe_execute_on_all
  writes that entry's payload to a mailbox nobody polls and never returns.\<close>

theorem execute_on_all_hangs:
  assumes "mb_polls c = entry_polls (mb_base c) (mb_table c)" "length (mb_table c) < 2 ^ 32" "mb_payload c \<noteq> 0"
    and "is_secondary c i" "\<And>j. is_secondary c j \<Longrightarrow> table_core_pos (mb_table c) j \<noteq> i"
    and "mb_init c s" "mb_run c s t"
  shows "caller t \<noteq> Finished"
proof -
  have i: "i < 2 ^ 32" using assms(2,4) by (simp add: is_secondary_def)
  have "mb_polls c j \<noteq> box c i" if "is_secondary c j" for j
  proof
    assume "mb_polls c j = box c i"
    then have "table_core_pos (mb_table c) j = i"
      using PeStackTop_inj core_pos_bound i by (auto simp: assms(1) entry_polls_slot box_def table_core_pos_def Let_def)
    then show False using assms(5) that by blast
  qed
  then have "stuck_before c i t"
    using mb_run_invariant [OF assms(7), of "stuck_before c i"] stuck_step [OF assms(4) _ assms(3)] assms(6)
    by (force simp: mb_init_def stuck_before_def)
  then show ?thesis by (auto simp: stuck_before_def)
qed

text \<open>There is no handshake after CPU_ON: while the only other PE has not yet passed the entry code,
  which clears its mailbox, pal_pe_execute_on_all can return success although that PE has
  never called the function.\<close>

theorem payload_lost_at_boot:
  assumes "boxes_match c" "length (mb_table c) = 2" "mpidr (mb_table c ! 0) = MyMpidr c" "is_secondary c 1"
    and "caller s = OwnCall" "calls s = []" "spc (secs s 1) = Entry"
  shows "\<exists>t. mb_run c s t \<and> caller t = Finished \<and> calls t = [(MyMpidr c, mb_payload c, mb_arg c)]"
proof -
  let ?s1 = "s\<lparr>calls := [(MyMpidr c, mb_payload c, mb_arg c)], caller := Next 0\<rparr>"
  let ?s4 = "?s1\<lparr>mem := (mem s)(box c 1 + 8 := mb_arg c), caller := PutPayload 1\<rparr>"
  let ?s5 = "?s4\<lparr>mem := (mem ?s4)(box c 1 := mb_payload c), caller := Await 1\<rparr>"
  let ?s6 = "set_sec 1 \<lparr>spc = LoadRes, ResAddr = 0, Arg = 0\<rparr> (?s5\<lparr>mem := (mem ?s5)(box c 1 := 0)\<rparr>)"
  note e = caller_step [of c] execute_on_all_step_def [of c]
  have c: "MyMpidr c \<noteq> mpidr (mb_table c ! Suc 0)" using assms(4) by (auto simp: is_secondary_def)
  have r1: "mb_step c s ?s1" using e [of s] assms(5,6) by simp
  have r2: "mb_step c ?s1 (?s1\<lparr>caller := Next 1\<rparr>)" using e [of ?s1] assms(2,3) by simp
  have r3: "mb_step c (?s1\<lparr>caller := Next 1\<rparr>) (?s1\<lparr>caller := PutArg 1\<rparr>)"
    using e [of "?s1\<lparr>caller := Next 1\<rparr>"] assms(2) c by simp
  have r4: "mb_step c (?s1\<lparr>caller := PutArg 1\<rparr>) ?s4" using e [of "?s1\<lparr>caller := PutArg 1\<rparr>"] by simp
  have r5: "mb_step c ?s4 ?s5" using e [of ?s4] by simp
  have r6: "mb_step c ?s5 ?s6"
    using secondary_step [OF assms(4), of ?s5] assms(7) polls_box [OF assms(1,4)]
    by (simp add: CEntryPoint_step_def Let_def)
  have r7: "mb_step c ?s6 (?s6\<lparr>caller := Next 2\<rparr>)" using e [of ?s6] by (simp add: numeral_2_eq_2)
  have r8: "mb_step c (?s6\<lparr>caller := Next 2\<rparr>) (?s6\<lparr>caller := Finished\<rparr>)"
    using e [of "?s6\<lparr>caller := Next 2\<rparr>"] assms(2) by simp
  have "mb_run c s (?s6\<lparr>caller := Finished\<rparr>)"
    by (rule mb_run.intros r1 r2 r3 r4 r5 r6 r7 r8)+
  moreover have "calls (?s6\<lparr>caller := Finished\<rparr>) = [(MyMpidr c, mb_payload c, mb_arg c)]" by simp
  ultimately show ?thesis by (intro exI [of _ "?s6\<lparr>caller := Finished\<rparr>"]) simp
qed

subsection \<open>Powering off\<close>

definition PeSetData :: "u64 \<Rightarrow> u64 \<Rightarrow> u64 \<Rightarrow> (u64 \<Rightarrow> u64) \<Rightarrow> u64 \<Rightarrow> u64" where
  "PeSetData Addr Payload a m = m(Addr := Payload, Addr + 8 := a)"

definition PeGetData :: "u64 \<Rightarrow> (u64 \<Rightarrow> u64) \<Rightarrow> u64 \<times> u64" where
  "PeGetData Addr m = (m Addr, m (Addr + 8))"

definition pal_pe_poweroff :: "mb_config \<Rightarrow> u32 \<Rightarrow> mailboxes \<Rightarrow> mailboxes" where
  "pal_pe_poweroff c Index s =
     s\<lparr>mem := PeSetData (PeStackTop_u32 (mb_base c) Index) (mb_PowerOffPe c) 0 (mem s)\<rparr>"

definition val_pe_poweroff :: "mb_config \<Rightarrow> u32 \<Rightarrow> mailboxes \<Rightarrow> mailboxes" where
  "val_pe_poweroff c pe_index s = pal_pe_poweroff c pe_index s"

definition pal_pe_clean_up :: "mb_config \<Rightarrow> mailboxes \<Rightarrow> mailboxes" where
  "pal_pe_clean_up c s =
     s\<lparr>mem := fold (\<lambda>i. PeSetData (box c i) (mb_PowerOffPe c) 0) [1..<length (mb_table c)] (mem s)\<rparr>"

lemma PeGetData_SetData: "PeGetData a (PeSetData a p x m) = (p, x)"
  by (simp add: PeGetData_def PeSetData_def)

lemma clean_up_box:
  assumes "i \<in> set is"
  shows "fold (\<lambda>i. PeSetData (box c i) v 0) is m (box c i) = v"
proof -
  have keep: "fold (\<lambda>i. PeSetData (box c i) v 0) js m (box c i) = v" if "m (box c i) = v" for js m
    using that by (induction js arbitrary: m) (simp_all add: PeSetData_def)
  show ?thesis using assms by (induction "is" arbitrary: m) (auto simp: PeSetData_def intro: keep)
qed

text \<open>The clean-up powers off every polling PE but the one of entry 0: once its mailbox has been
  filled by pal_pe_clean_up, the PE of any entry from 1 on that is polling its mailbox calls
  PowerOffPe within five steps of its loop and stays off.\<close>

theorem clean_up_powers_off:
  assumes "boxes_match c" "is_secondary c i" "0 < i" "mb_PowerOffPe c \<noteq> 0" "polling c s i"
  shows "\<exists>n\<le>5. spc (secs ((CEntryPoint_step c i ^^ n) (pal_pe_clean_up c s)) i) = PoweredOff"
proof -
  let ?s = "pal_pe_clean_up c s" and ?f = "CEntryPoint_step c i"
  have i: "mem ?s (box c i) = mb_PowerOffPe c" "secs ?s = secs s" "mb_polls c i = box c i"
    using assms(1-3) clean_up_box [of i "[1..<length (mb_table c)]"]
    by (simp_all add: pal_pe_clean_up_def is_secondary_def polls_box)
  have run: "spc (secs (?f (?f (?f u))) i) = PoweredOff"
    if "spc (secs u i) = LoadRes" "mem u (box c i) = mb_PowerOffPe c" for u
    using that i(3) assms(4) by (simp add: CEntryPoint_step_def Let_def)
  show ?thesis
  proof (cases "spc (secs s i) = LoadRes")
    case True
    then have "spc (secs ((?f ^^ 3) ?s) i) = PoweredOff" using run [of ?s] i by (simp add: numeral_3_eq_3)
    then show ?thesis by (intro exI [of _ 3]) simp
  next
    case False
    then have "spc (secs s i) = LoadArg" "ResAddr (secs s i) = 0" using assms(5) by (auto simp: polling_def)
    then have "spc (secs (?f ?s) i) = LoadRes" "mem (?f ?s) (box c i) = mb_PowerOffPe c"
      using i by (simp_all add: CEntryPoint_step_def Let_def)
    from run [OF this] have "spc (secs ((?f ^^ 4) ?s) i) = PoweredOff" by (simp add: eval_nat_numeral)
    then show ?thesis by (intro exI [of _ 4]) simp
  qed
qed

subsection \<open>Witnesses\<close>

definition pe_entry :: "u32 \<Rightarrow> u64 \<Rightarrow> pe_info_entry" where
  "pe_entry n m = \<lparr>pe_num = n, attr = 0, mpidr = m, pmu_gsiv = 23\<rparr>"

text \<open>Two clusters of one PE each; the boot PE is entry 0 and the mailboxes match.\<close>

definition pair_table :: "pe_info_entry list" where
  "pair_table = [pe_entry 0 0, pe_entry 1 0x100]"

text \<open>A cluster of one PE and a cluster of two.\<close>

definition uneven_table :: "pe_info_entry list" where
  "uneven_table = [pe_entry 0 0, pe_entry 1 0x100, pe_entry 2 0x101]"

definition config_of :: "pe_info_entry list \<Rightarrow> mb_config" where
  "config_of ps = \<lparr>mb_table = ps, mb_mpidr = 0x80000000, mb_base = 0x90000000,
     mb_polls = entry_polls 0x90000000 ps, mb_payload = 0x1000, mb_arg = 7, mb_PowerOffPe = 0x2000\<rparr>"

definition start_at :: "sec_pc \<Rightarrow> mailboxes" where
  "start_at p = \<lparr>mem = (\<lambda>_. 0), caller = OwnCall, secs = (\<lambda>_. \<lparr>spc = p, ResAddr = 0, Arg = 0\<rparr>), calls = []\<rparr>"

lemma pair_secondary: "is_secondary (config_of pair_table) i \<longleftrightarrow> i = 1"
  by (auto simp: is_secondary_def config_of_def pair_table_def pe_entry_def MyMpidr_def less_Suc_eq)

lemma pair_match: "boxes_match (config_of pair_table)"
proof (rule entry_boxes_match)
  fix i
  assume "is_secondary (config_of pair_table) i"
  then have "i = 1" by (simp add: pair_secondary)
  moreover have "table_core_pos pair_table 1 = 1"
    by (simp add: table_core_pos_def pair_table_def pe_entry_def Let_def core_pos_def unat_aff UPDATE_AFF_MAX_def)
  ultimately show "table_core_pos (mb_table (config_of pair_table)) i = i" by (simp add: config_of_def)
qed (simp_all add: config_of_def pair_table_def)

lemma pair_payload: "payload_ok (config_of pair_table)"
  by (simp add: payload_ok_def config_of_def)

lemma start_init: "mb_init (config_of ps) (start_at LoadRes)"
  by (simp add: mb_init_def start_at_def polling_def list_all_iff)

lemma execute_on_all_can_finish_witness:
  "\<exists>u. mb_run (config_of pair_table) (start_at LoadRes) u \<and> caller u = Finished"
  by (rule execute_on_all_can_finish [OF start_init pair_match pair_payload run_refl])

lemma execute_on_all_exactly_once_witness:
  "\<exists>u. mb_run (config_of pair_table) (start_at LoadRes) u \<and> calls u = [(0, 0x1000, 7), (0x100, 0x1000, 7)]"
proof -
  obtain u where u: "mb_run (config_of pair_table) (start_at LoadRes) u" "caller u = Finished"
    using inv_finishes [OF pair_match pair_payload mb_init_inv [OF start_init]] by blast
  from execute_on_all_exactly_once [OF start_init pair_match pair_payload u]
  have "calls u = [(0, 0x1000, 7), (0x100, 0x1000, 7)]"
    by (simp add: config_of_def pair_table_def pe_entry_def MyMpidr_def)
  with u(1) show ?thesis by blast
qed

lemma execute_on_all_hangs_witness:
  "\<not> (\<exists>t. mb_run (config_of uneven_table) (start_at LoadRes) t \<and> caller t = Finished)"
proof -
  have sec: "is_secondary (config_of uneven_table) i \<longleftrightarrow> i = 1 \<or> i = 2" for i
    by (auto simp: is_secondary_def config_of_def uneven_table_def pe_entry_def MyMpidr_def less_Suc_eq nth_Cons')
  have "table_core_pos uneven_table 1 = 2" "table_core_pos uneven_table 2 = 3"
    by (simp_all add: table_core_pos_def uneven_table_def pe_entry_def Let_def core_pos_def unat_aff UPDATE_AFF_MAX_def)
  then have "table_core_pos (mb_table (config_of uneven_table)) j \<noteq> 1"
    if "is_secondary (config_of uneven_table) j" for j
    using that unfolding sec by (auto simp: config_of_def)
  moreover have "mb_polls (config_of uneven_table) = entry_polls (mb_base (config_of uneven_table)) (mb_table (config_of uneven_table))"
    "length (mb_table (config_of uneven_table)) < 2 ^ 32" "mb_payload (config_of uneven_table) \<noteq> 0"
    by (simp_all add: config_of_def uneven_table_def)
  ultimately show ?thesis
    using execute_on_all_hangs [of "config_of uneven_table" 1 "start_at LoadRes"] sec [of 1] start_init by blast
qed

lemma payload_lost_at_boot_witness:
  "\<exists>t. mb_run (config_of pair_table) (start_at Entry) t \<and> caller t = Finished \<and> length (calls t) = 1"
  using payload_lost_at_boot [OF pair_match, of "start_at Entry"] pair_secondary
  by (fastforce simp: config_of_def pair_table_def pe_entry_def MyMpidr_def start_at_def)

lemma clean_up_powers_off_witness:
  "\<exists>n\<le>5. spc (secs ((CEntryPoint_step (config_of pair_table) 1 ^^ n)
     (pal_pe_clean_up (config_of pair_table) (start_at LoadRes))) 1) = PoweredOff"
  by (rule clean_up_powers_off [OF pair_match pair_secondary [THEN iffD2, OF refl]]) (simp_all add: config_of_def polling_def start_at_def)

end
