(* ===== verification/Sdei_Firmware.thy ===== *)
theory Sdei_Firmware
  imports Sdei_Mailbox
begin

text \<open>
  What the SDEI suite asks of the firmware: the ACPI tables it looks up (pal_acpi.c), the SDEI
  calls of the platform layer (pal_sdei_interface.c) and their wrappers (val_sdei_interface.c),
  the PSCI queries (val_psci.c), the table of hardware error events and the initialisation.
\<close>

unbundle bit_operations_syntax

subsection \<open>ACPI tables\<close>

text \<open>
  The firmware's tables as the code reads them: the configuration tables of the UEFI system table
  (is it an ACPI GUID, and the XsdtAddress of the RSDP it points to), the length field and the
  entries of the XSDT, and the first four bytes at a table's address. \<open>sig_of\<close> are the signature
  constants of the ACPI headers.
\<close>

record acpi_view =
  config_tables :: "(bool \<times> u64 option) list"
  xsdt_length :: u32
  xsdt_entries :: "u64 list"
  table_sig :: "u64 \<Rightarrow> u32"
  sig_of :: "string \<Rightarrow> u32"

fun find_rsdp :: "(bool \<times> u64 option) list \<Rightarrow> u64 option" where
  "find_rsdp [] = None"
| "find_rsdp ((is_acpi, r) # ts) = (if is_acpi then r else find_rsdp ts)"

definition pal_get_xsdt_ptr :: "acpi_view \<Rightarrow> u64" where
  "pal_get_xsdt_ptr v = (case find_rsdp (config_tables v) of None \<Rightarrow> 0 | Some x \<Rightarrow> x)"

fun xsdt_find :: "(u64 \<Rightarrow> u32) \<Rightarrow> u32 \<Rightarrow> nat \<Rightarrow> u64 list \<Rightarrow> u64 option" where
  "xsdt_find f g 0 es = Some 0"
| "xsdt_find f g (Suc n) [] = None"
| "xsdt_find f g (Suc n) (e # es) = (if f e = g then Some e else xsdt_find f g n es)"

text \<open>The number of entries: the length less the 36 bytes of the header, in 64 bits, then in 32.\<close>

definition Entry64Num :: "acpi_view \<Rightarrow> u32" where
  "Entry64Num v = ucast (drop_bit 3 (ucast (xsdt_length v) - 36 :: u64))"

definition pal_get_acpi_ptr :: "acpi_view \<Rightarrow> string \<Rightarrow> sworld \<Rightarrow> (u64 \<times> sworld) option" where
  "pal_get_acpi_ptr v name s =
     (if pal_get_xsdt_ptr v = 0 then Some (0, sdei_pal_print ACS_LOG_ERR ''XSDT not found'' [] s)
      else do { p \<leftarrow> xsdt_find (table_sig v) (sig_of v name) (unat (Entry64Num v)) (xsdt_entries v);
                Some (p, s) })"

definition pal_get_fadt_ptr :: "acpi_view \<Rightarrow> sworld \<Rightarrow> (u64 \<times> sworld) option" where
  "pal_get_fadt_ptr v s = pal_get_acpi_ptr v ''FACP'' s"

definition pal_get_sdei_ptr :: "acpi_view \<Rightarrow> sworld \<Rightarrow> (u64 \<times> sworld) option" where
  "pal_get_sdei_ptr v s = pal_get_acpi_ptr v ''SDEI'' s"

definition pal_get_madt_ptr :: "acpi_view \<Rightarrow> sworld \<Rightarrow> (u64 \<times> sworld) option" where
  "pal_get_madt_ptr v s = pal_get_acpi_ptr v ''APIC'' s"

definition pal_get_hest_ptr :: "acpi_view \<Rightarrow> sworld \<Rightarrow> (u64 \<times> sworld) option" where
  "pal_get_hest_ptr v s = pal_get_acpi_ptr v ''HEST'' s"

definition pal_get_gtdt_ptr :: "acpi_view \<Rightarrow> sworld \<Rightarrow> (u64 \<times> sworld) option" where
  "pal_get_gtdt_ptr v s = pal_get_acpi_ptr v ''GTDT'' s"

text \<open>A well-formed XSDT: its length counts its entries.\<close>

definition xsdt_ok :: "acpi_view \<Rightarrow> bool" where
  "xsdt_ok v \<longleftrightarrow> pal_get_xsdt_ptr v \<noteq> 0 \<and> unat (xsdt_length v) = 36 + 8 * length (xsdt_entries v)"

lemma Entry64Num_ok:
  assumes "xsdt_ok v"
  shows "unat (Entry64Num v) = length (xsdt_entries v)"
proof -
  let ?x = "ucast (xsdt_length v) :: u64"
  have l: "unat (xsdt_length v) = 36 + 8 * length (xsdt_entries v)" using assms by (simp add: xsdt_ok_def)
  have "unat (xsdt_length v) < 2 ^ 32" using unsigned_less [of "xsdt_length v"] by simp
  then have b: "length (xsdt_entries v) < 2 ^ 29" using l by simp
  have ux: "unat ?x = unat (xsdt_length v)" by (rule unat_ucast_small) (simp add: less_trans [OF unsigned_less [of "xsdt_length v"]])
  then have "unat (?x - 36) = 8 * length (xsdt_entries v)"
    using l by (subst unat_sub) (simp_all add: word_le_nat_alt)
  then have "unat (drop_bit 3 (?x - 36)) = length (xsdt_entries v)"
    by (simp only: unat_drop_bit_eq) (simp add: drop_bit_eq_div)
  then show ?thesis using b by (simp add: Entry64Num_def unat_ucast_small)
qed

lemma xsdt_find_eq_find:
  "xsdt_find f g (length es) es = Some (case find (\<lambda>e. f e = g) es of None \<Rightarrow> 0 | Some e \<Rightarrow> e)"
  by (induction es) auto


definition small_acpi :: acpi_view where
  "small_acpi = \<lparr>config_tables = [(False, None), (True, Some 0x8000)], xsdt_length = 52,
     xsdt_entries = [0x9000, 0xA000], table_sig = (\<lambda>a. if a = 0xA000 then 5 else 7),
     sig_of = (\<lambda>n. if n = ''SDEI'' then 5 else 6)\<rparr>"


subsection \<open>SDEI calls\<close>

definition SDEI_1_0_FN_BASE :: u64 where "SDEI_1_0_FN_BASE = 0xC4000020"
definition SDEI_1_0_MASK :: u64 where "SDEI_1_0_MASK = 0xFFFFFFE0"
definition SDEI_1_0_FN :: "u64 \<Rightarrow> u64" where "SDEI_1_0_FN n = SDEI_1_0_FN_BASE + n"
definition IS_SDEI_CALL :: "u64 \<Rightarrow> bool" where
  "IS_SDEI_CALL x \<longleftrightarrow> x AND SDEI_1_0_MASK = SDEI_1_0_FN_BASE"

definition SDEI_1_0_FN_SDEI_VERSION :: u64 where "SDEI_1_0_FN_SDEI_VERSION = SDEI_1_0_FN 0x00"
definition SDEI_1_0_FN_SDEI_EVENT_REGISTER :: u64 where "SDEI_1_0_FN_SDEI_EVENT_REGISTER = SDEI_1_0_FN 0x01"
definition SDEI_1_0_FN_SDEI_EVENT_ENABLE :: u64 where "SDEI_1_0_FN_SDEI_EVENT_ENABLE = SDEI_1_0_FN 0x02"
definition SDEI_1_0_FN_SDEI_EVENT_DISABLE :: u64 where "SDEI_1_0_FN_SDEI_EVENT_DISABLE = SDEI_1_0_FN 0x03"
definition SDEI_1_0_FN_SDEI_EVENT_CONTEXT :: u64 where "SDEI_1_0_FN_SDEI_EVENT_CONTEXT = SDEI_1_0_FN 0x04"
definition SDEI_1_0_FN_SDEI_EVENT_COMPLETE :: u64 where "SDEI_1_0_FN_SDEI_EVENT_COMPLETE = SDEI_1_0_FN 0x05"
definition SDEI_1_0_FN_SDEI_EVENT_COMPLETE_AND_RESUME :: u64 where
  "SDEI_1_0_FN_SDEI_EVENT_COMPLETE_AND_RESUME = SDEI_1_0_FN 0x06"
definition SDEI_1_0_FN_SDEI_EVENT_UNREGISTER :: u64 where "SDEI_1_0_FN_SDEI_EVENT_UNREGISTER = SDEI_1_0_FN 0x07"
definition SDEI_1_0_FN_SDEI_EVENT_STATUS :: u64 where "SDEI_1_0_FN_SDEI_EVENT_STATUS = SDEI_1_0_FN 0x08"
definition SDEI_1_0_FN_SDEI_EVENT_GET_INFO :: u64 where "SDEI_1_0_FN_SDEI_EVENT_GET_INFO = SDEI_1_0_FN 0x09"
definition SDEI_1_0_FN_SDEI_EVENT_ROUTING_SET :: u64 where "SDEI_1_0_FN_SDEI_EVENT_ROUTING_SET = SDEI_1_0_FN 0x0A"
definition SDEI_1_0_FN_SDEI_PE_MASK :: u64 where "SDEI_1_0_FN_SDEI_PE_MASK = SDEI_1_0_FN 0x0B"
definition SDEI_1_0_FN_SDEI_PE_UNMASK :: u64 where "SDEI_1_0_FN_SDEI_PE_UNMASK = SDEI_1_0_FN 0x0C"
definition SDEI_1_0_FN_SDEI_INTERRUPT_BIND :: u64 where "SDEI_1_0_FN_SDEI_INTERRUPT_BIND = SDEI_1_0_FN 0x0D"
definition SDEI_1_0_FN_SDEI_INTERRUPT_RELEASE :: u64 where "SDEI_1_0_FN_SDEI_INTERRUPT_RELEASE = SDEI_1_0_FN 0x0E"
definition SDEI_1_0_FN_SDEI_EVENT_SIGNAL :: u64 where "SDEI_1_0_FN_SDEI_EVENT_SIGNAL = SDEI_1_0_FN 0x0F"
definition SDEI_1_0_FN_SDEI_FEATURES :: u64 where "SDEI_1_0_FN_SDEI_FEATURES = SDEI_1_0_FN 0x10"
definition SDEI_1_0_FN_SDEI_PRIVATE_RESET :: u64 where "SDEI_1_0_FN_SDEI_PRIVATE_RESET = SDEI_1_0_FN 0x11"
definition SDEI_1_0_FN_SDEI_SHARED_RESET :: u64 where "SDEI_1_0_FN_SDEI_SHARED_RESET = SDEI_1_0_FN 0x12"

lemmas sdei_fn_defs = SDEI_1_0_FN_BASE_def SDEI_1_0_FN_def SDEI_1_0_FN_SDEI_VERSION_def
  SDEI_1_0_FN_SDEI_EVENT_REGISTER_def SDEI_1_0_FN_SDEI_EVENT_ENABLE_def SDEI_1_0_FN_SDEI_EVENT_DISABLE_def
  SDEI_1_0_FN_SDEI_EVENT_CONTEXT_def SDEI_1_0_FN_SDEI_EVENT_COMPLETE_def
  SDEI_1_0_FN_SDEI_EVENT_COMPLETE_AND_RESUME_def SDEI_1_0_FN_SDEI_EVENT_UNREGISTER_def
  SDEI_1_0_FN_SDEI_EVENT_STATUS_def SDEI_1_0_FN_SDEI_EVENT_GET_INFO_def
  SDEI_1_0_FN_SDEI_EVENT_ROUTING_SET_def SDEI_1_0_FN_SDEI_PE_MASK_def SDEI_1_0_FN_SDEI_PE_UNMASK_def
  SDEI_1_0_FN_SDEI_INTERRUPT_BIND_def SDEI_1_0_FN_SDEI_INTERRUPT_RELEASE_def
  SDEI_1_0_FN_SDEI_EVENT_SIGNAL_def SDEI_1_0_FN_SDEI_FEATURES_def SDEI_1_0_FN_SDEI_PRIVATE_RESET_def
  SDEI_1_0_FN_SDEI_SHARED_RESET_def

definition SDEI_STATUS_NOT_SUPPORTED :: u32 where [reg_defs]: "SDEI_STATUS_NOT_SUPPORTED = 0x80000000"
definition SDEI_STATUS_INVALID :: u32 where [reg_defs]: "SDEI_STATUS_INVALID = 0x80000001"
definition SDEI_STATUS_DENIED :: u32 where [reg_defs]: "SDEI_STATUS_DENIED = 0x80000002"
definition SDEI_STATUS_PENDING :: u32 where [reg_defs]: "SDEI_STATUS_PENDING = 0x80000003"
definition SDEI_STATUS_OUT_OF_RESOURCE :: u32 where [reg_defs]: "SDEI_STATUS_OUT_OF_RESOURCE = 0x80000004"

text \<open>The negative constants, converted to the 64-bit type of the switch.\<close>

definition SDEI_NOT_SUPPORTED :: u64 where [reg_defs]: "SDEI_NOT_SUPPORTED = - 1"
definition SDEI_INVALID_PARAMETERS :: u64 where [reg_defs]: "SDEI_INVALID_PARAMETERS = - 2"
definition SDEI_DENIED :: u64 where [reg_defs]: "SDEI_DENIED = - 3"
definition SDEI_PENDING :: u64 where [reg_defs]: "SDEI_PENDING = - 5"
definition SDEI_OUT_OF_RESOURCE :: u64 where [reg_defs]: "SDEI_OUT_OF_RESOURCE = - 10"

definition pal_sdei_to_uefi_errno :: "u64 \<Rightarrow> u32" where
  "pal_sdei_to_uefi_errno sdei_err =
     (if sdei_err = SDEI_NOT_SUPPORTED then SDEI_STATUS_NOT_SUPPORTED
      else if sdei_err = SDEI_INVALID_PARAMETERS then SDEI_STATUS_INVALID
      else if sdei_err = SDEI_DENIED then SDEI_STATUS_DENIED
      else if sdei_err = SDEI_PENDING then SDEI_STATUS_PENDING
      else if sdei_err = SDEI_OUT_OF_RESOURCE then SDEI_STATUS_OUT_OF_RESOURCE
      else ucast sdei_err)"

definition sdei_is_err :: "u64 \<Rightarrow> bool" where
  "sdei_is_err res \<longleftrightarrow> res \<in> {SDEI_NOT_SUPPORTED, SDEI_INVALID_PARAMETERS, SDEI_DENIED, SDEI_PENDING,
     SDEI_OUT_OF_RESOURCE}"

text \<open>The error of the call and the value stored through \<open>result\<close>, when the caller passes one.\<close>

definition pal_invoke_sdei_fn ::
    "hw \<Rightarrow> u64 \<Rightarrow> u64 \<Rightarrow> u64 \<Rightarrow> u64 \<Rightarrow> u64 \<Rightarrow> u64 \<Rightarrow> sworld \<Rightarrow> (u32 \<times> u64) \<times> sworld" where
  "pal_invoke_sdei_fn hw function_id arg0 arg1 arg2 arg3 arg4 s =
     (let (a, s) = ArmCallSmc hw ((uninit_smc hw s)\<lparr>Arg0 := function_id, Arg1 := arg0, Arg2 := arg1,
                     Arg3 := arg2, Arg4 := arg3, Arg5 := arg4\<rparr>) s;
          res = Arg0 a
      in ((if sdei_is_err res then pal_sdei_to_uefi_errno res else 0, res), s))"

text \<open>The answer in x0 and the logged call; x6 and x7 hold what the stack held.\<close>

definition sdei_answer :: "hw \<Rightarrow> sworld \<Rightarrow> u64 \<Rightarrow> u64 \<Rightarrow> u64 \<Rightarrow> u64 \<Rightarrow> u64 \<Rightarrow> u64 \<Rightarrow> u64" where
  "sdei_answer hw s f a0 a1 a2 a3 a4 =
     fst (smc_in hw (io s) (mpidr_in hw) [f, a0, a1, a2, a3, a4, Arg6 (uninit_smc hw s), Arg7 (uninit_smc hw s)])"

definition sdei_logged :: "hw \<Rightarrow> u64 \<Rightarrow> u64 \<Rightarrow> u64 \<Rightarrow> u64 \<Rightarrow> u64 \<Rightarrow> u64 \<Rightarrow> sworld \<Rightarrow> sworld" where
  "sdei_logged hw f a0 a1 a2 a3 a4 s =
     log_io (Smc (mpidr_in hw) [f, a0, a1, a2, a3, a4, Arg6 (uninit_smc hw s), Arg7 (uninit_smc hw s)]) s"

lemma sdei_logged_frame [frame, simp]:
  "sg (sdei_logged hw f a0 a1 a2 a3 a4 s) = sg s" "shared (sdei_logged hw f a0 a1 a2 a3 a4 s) = shared s"
  "con (sdei_logged hw f a0 a1 a2 a3 a4 s) = con s"
  by (simp_all add: sdei_logged_def log_io_def)

lemma pal_invoke_sdei_fn_run [run]:
  "pal_invoke_sdei_fn hw f a0 a1 a2 a3 a4 s =
     (let r = sdei_answer hw s f a0 a1 a2 a3 a4
      in ((if sdei_is_err r then pal_sdei_to_uefi_errno r else 0, r), sdei_logged hw f a0 a1 a2 a3 a4 s))"
  by (simp add: pal_invoke_sdei_fn_def ArmCallSmc_def smc_list_def sdei_answer_def sdei_logged_def Let_def
      split_beta)

text \<open>The error of an SDEI call: it is nonzero exactly when the firmware answered one of the five
  error codes of the specification that the code lists, different codes give different errors, and
  any other answer, also another negative one, counts as success and is passed on unchanged; one
  call is made, with the function identifier and the arguments in x0 to x5.\<close>

theorem sdei_call_errors:
  "\<exists>err r. pal_invoke_sdei_fn hw f a0 a1 a2 a3 a4 s = ((err, r), sdei_logged hw f a0 a1 a2 a3 a4 s) \<and>
     r = sdei_answer hw s f a0 a1 a2 a3 a4 \<and> (err \<noteq> 0) = (r \<in> {- 1, - 2, - 3, - 5, - 10}) \<and>
     err = (if r = - 1 then 0x80000000 else if r = - 2 then 0x80000001 else if r = - 3 then 0x80000002
            else if r = - 5 then 0x80000003 else if r = - 10 then 0x80000004 else 0)"
  by (simp add: pal_invoke_sdei_fn_run Let_def sdei_is_err_def pal_sdei_to_uefi_errno_def reg_defs)

subsection \<open>The wrappers\<close>

text \<open>A wrapper that passes a result pointer returns the error and the stored value.\<close>

definition val_sdei_event_context :: "hw \<Rightarrow> u32 \<Rightarrow> sworld \<Rightarrow> (u32 \<times> u64) \<times> sworld" where
  "val_sdei_event_context hw query s = pal_invoke_sdei_fn hw SDEI_1_0_FN_SDEI_EVENT_CONTEXT (ucast query) 0 0 0 0 s"

definition val_sdei_event_get_info :: "hw \<Rightarrow> u32 \<Rightarrow> u32 \<Rightarrow> sworld \<Rightarrow> (u32 \<times> u64) \<times> sworld" where
  "val_sdei_event_get_info hw event info s = pal_invoke_sdei_fn hw SDEI_1_0_FN_SDEI_EVENT_GET_INFO (ucast event) (ucast info) 0 0 0 s"

definition val_sdei_event_complete :: "hw \<Rightarrow> u32 \<Rightarrow> sworld \<Rightarrow> u32 \<times> sworld" where
  "val_sdei_event_complete hw status_code s =
     (let ((err, _), s) = pal_invoke_sdei_fn hw SDEI_1_0_FN_SDEI_EVENT_COMPLETE (ucast status_code) 0 0 0 0 s in (err, s))"

definition val_sdei_event_complete_and_resume :: "hw \<Rightarrow> u64 \<Rightarrow> sworld \<Rightarrow> u32 \<times> sworld" where
  "val_sdei_event_complete_and_resume hw return_address s =
     (let ((err, _), s) = pal_invoke_sdei_fn hw SDEI_1_0_FN_SDEI_EVENT_COMPLETE_AND_RESUME return_address 0 0 0 0 s in (err, s))"

definition val_sdei_features :: "hw \<Rightarrow> u32 \<Rightarrow> sworld \<Rightarrow> (u32 \<times> u64) \<times> sworld" where
  "val_sdei_features hw feature s = pal_invoke_sdei_fn hw SDEI_1_0_FN_SDEI_FEATURES (ucast feature) 0 0 0 0 s"

definition val_sdei_get_version :: "hw \<Rightarrow> sworld \<Rightarrow> (u32 \<times> u64) \<times> sworld" where
  "val_sdei_get_version hw s = pal_invoke_sdei_fn hw SDEI_1_0_FN_SDEI_VERSION 0 0 0 0 0 s"

definition val_sdei_mask :: "hw \<Rightarrow> sworld \<Rightarrow> (u32 \<times> u64) \<times> sworld" where
  "val_sdei_mask hw s = pal_invoke_sdei_fn hw SDEI_1_0_FN_SDEI_PE_MASK 0 0 0 0 0 s"

definition val_sdei_unmask :: "hw \<Rightarrow> sworld \<Rightarrow> u32 \<times> sworld" where
  "val_sdei_unmask hw s =
     (let ((err, _), s) = pal_invoke_sdei_fn hw SDEI_1_0_FN_SDEI_PE_UNMASK 0 0 0 0 0 s in (err, s))"

definition val_sdei_private_reset :: "hw \<Rightarrow> sworld \<Rightarrow> u32 \<times> sworld" where
  "val_sdei_private_reset hw s =
     (let ((err, _), s) = pal_invoke_sdei_fn hw SDEI_1_0_FN_SDEI_PRIVATE_RESET 0 0 0 0 0 s in (err, s))"

definition val_sdei_shared_reset :: "hw \<Rightarrow> sworld \<Rightarrow> u32 \<times> sworld" where
  "val_sdei_shared_reset hw s =
     (let ((err, _), s) = pal_invoke_sdei_fn hw SDEI_1_0_FN_SDEI_SHARED_RESET 0 0 0 0 0 s in (err, s))"

definition val_sdei_event_status :: "hw \<Rightarrow> u32 \<Rightarrow> sworld \<Rightarrow> (u32 \<times> u64) \<times> sworld" where
  "val_sdei_event_status hw event_num s = pal_invoke_sdei_fn hw SDEI_1_0_FN_SDEI_EVENT_STATUS (ucast event_num) 0 0 0 0 s"

definition val_sdei_event_enable :: "hw \<Rightarrow> u32 \<Rightarrow> sworld \<Rightarrow> u32 \<times> sworld" where
  "val_sdei_event_enable hw event_num s =
     (let ((err, _), s) = pal_invoke_sdei_fn hw SDEI_1_0_FN_SDEI_EVENT_ENABLE (ucast event_num) 0 0 0 0 s in (err, s))"

definition val_sdei_event_disable :: "hw \<Rightarrow> u32 \<Rightarrow> sworld \<Rightarrow> u32 \<times> sworld" where
  "val_sdei_event_disable hw event_num s =
     (let ((err, _), s) = pal_invoke_sdei_fn hw SDEI_1_0_FN_SDEI_EVENT_DISABLE (ucast event_num) 0 0 0 0 s in (err, s))"

text \<open>The event number is the low word of the answer, whether the call succeeded or not.\<close>

definition val_sdei_interrupt_bind :: "hw \<Rightarrow> u32 \<Rightarrow> sworld \<Rightarrow> (u32 \<times> u32) \<times> sworld" where
  "val_sdei_interrupt_bind hw irq_num s =
     (let ((err, result), s) = pal_invoke_sdei_fn hw SDEI_1_0_FN_SDEI_INTERRUPT_BIND (ucast irq_num) 0 0 0 0 s
      in ((err, ucast result), s))"

definition val_sdei_interrupt_release :: "hw \<Rightarrow> u32 \<Rightarrow> sworld \<Rightarrow> u32 \<times> sworld" where
  "val_sdei_interrupt_release hw event_num s =
     (let ((err, _), s) = pal_invoke_sdei_fn hw SDEI_1_0_FN_SDEI_INTERRUPT_RELEASE (ucast event_num) 0 0 0 0 s in (err, s))"

definition val_sdei_event_unregister :: "hw \<Rightarrow> u32 \<Rightarrow> sworld \<Rightarrow> u32 \<times> sworld" where
  "val_sdei_event_unregister hw event_num s =
     (let ((err, _), s) = pal_invoke_sdei_fn hw SDEI_1_0_FN_SDEI_EVENT_UNREGISTER (ucast event_num) 0 0 0 0 s in (err, s))"

definition val_sdei_event_signal :: "hw \<Rightarrow> u32 \<Rightarrow> u64 \<Rightarrow> sworld \<Rightarrow> u32 \<times> sworld" where
  "val_sdei_event_signal hw event_num affinity s =
     (let ((err, _), s) = pal_invoke_sdei_fn hw SDEI_1_0_FN_SDEI_EVENT_SIGNAL (ucast event_num) affinity 0 0 0 s in (err, s))"

definition val_sdei_event_register :: "hw \<Rightarrow> u32 \<Rightarrow> u64 \<Rightarrow> u64 \<Rightarrow> u64 \<Rightarrow> u64 \<Rightarrow> sworld \<Rightarrow> u32 \<times> sworld" where
  "val_sdei_event_register hw event_num entry arg rm_flags affinity s =
     (let ((err, _), s) = pal_invoke_sdei_fn hw SDEI_1_0_FN_SDEI_EVENT_REGISTER (ucast event_num) entry arg rm_flags affinity s in (err, s))"

definition sdei_event_routing_set :: "hw \<Rightarrow> u32 \<Rightarrow> u64 \<Rightarrow> u64 \<Rightarrow> sworld \<Rightarrow> u32 \<times> sworld" where
  "sdei_event_routing_set hw event_num routing_mode affinity s =
     (let ((err, _), s) = pal_invoke_sdei_fn hw SDEI_1_0_FN_SDEI_EVENT_ROUTING_SET (ucast event_num) routing_mode affinity 0 0 s in (err, s))"

subsection \<open>Routing of an event\<close>

definition SDEI_EVENT_REGISTER_RM_ANY :: u64 where [reg_defs]: "SDEI_EVENT_REGISTER_RM_ANY = 0"
definition SDEI_EVENT_REGISTER_RM_PE :: u64 where [reg_defs]: "SDEI_EVENT_REGISTER_RM_PE = 1"
definition SDEI_EVENT_INFO_EV_TYPE :: u32 where [reg_defs]: "SDEI_EVENT_INFO_EV_TYPE = 0"
definition SDEI_EVENT_INFO_EV_PRIORITY :: u32 where [reg_defs]: "SDEI_EVENT_INFO_EV_PRIORITY = 2"
definition SDEI_EVENT_INFO_EV_ROUTING_MODE :: u32 where [reg_defs]: "SDEI_EVENT_INFO_EV_ROUTING_MODE = 3"
definition SDEI_EVENT_INFO_EV_ROUTING_AFF :: u32 where [reg_defs]: "SDEI_EVENT_INFO_EV_ROUTING_AFF = 4"

definition val_sdei_event_routing_set :: "hw \<Rightarrow> u32 \<Rightarrow> bool \<Rightarrow> u32 \<Rightarrow> sworld \<Rightarrow> (u32 \<times> sworld) option" where
  "val_sdei_event_routing_set hw event_num directed cpu_id s =
     do { (routing_mode, affinity, s) \<leftarrow>
            (if directed
             then do { affinity \<leftarrow> sdei_val_pe_get_mpid_index cpu_id s;
                       Some (SDEI_EVENT_REGISTER_RM_PE, affinity,
                         if affinity = ucast INVALID_INDEX
                         then sdei_pal_print ACS_LOG_DEBUG ''Failed to determine affinity for CPU %u'' [ucast cpu_id] s
                         else s) }
             else Some (SDEI_EVENT_REGISTER_RM_ANY, 0, s));
          let (err, s) = sdei_event_routing_set hw event_num routing_mode affinity s;
          Some (err, if err \<noteq> 0 then sdei_pal_print ACS_LOG_DEBUG ''Failed to set routing mode'' [] s else s) }"

text \<open>The two outputs are set only as far as the queries succeed.\<close>

definition val_sdei_event_routing_get ::
    "hw \<Rightarrow> u32 \<Rightarrow> sworld \<Rightarrow> ((u32 \<times> bool option \<times> u32 option) \<times> sworld) option" where
  "val_sdei_event_routing_get hw event_num s =
     (let ((err, info), s) = val_sdei_event_get_info hw event_num SDEI_EVENT_INFO_EV_ROUTING_MODE s
      in if err \<noteq> 0
         then Some ((err, None, None), sdei_pal_print ACS_LOG_DEBUG ''Failed to query routing mode'' [] s)
         else (let directed = (info = SDEI_EVENT_REGISTER_RM_PE);
                   ((err, info), s) = val_sdei_event_get_info hw event_num SDEI_EVENT_INFO_EV_ROUTING_AFF s
               in if err \<noteq> 0
                  then Some ((err, Some directed, None),
                    sdei_pal_print ACS_LOG_DEBUG ''Failed to query routing affinity'' [] s)
                  else do { cpu_id \<leftarrow> sdei_val_pe_get_index_mpid info s;
                            Some ((err, Some directed, Some cpu_id),
                              if cpu_id = INVALID_INDEX
                              then sdei_pal_print ACS_LOG_ERR
                                     ''Failed to convert firmware description for affinity %llx'' [info] s
                              else s) }))"

text \<open>A firmware that keeps the routing of an event: it accepts every routing request, and the two
  queries answer what the last request for the event said.\<close>

fun last_routing :: "history \<Rightarrow> u64 \<Rightarrow> (u64 \<times> u64) option" where
  "last_routing [] e = None"
| "last_routing (Smc c (f # ev # m # a # _) # h) e =
     (if f = SDEI_1_0_FN_SDEI_EVENT_ROUTING_SET \<and> ev = e then Some (m, a) else last_routing h e)"
| "last_routing (_ # h) e = last_routing h e"

definition keeps_routing :: "hw \<Rightarrow> bool" where
  "keeps_routing hw \<longleftrightarrow>
     (\<forall>h c e m a w. fst (smc_in hw h c (SDEI_1_0_FN_SDEI_EVENT_ROUTING_SET # e # m # a # w)) = 0) \<and>
     (\<forall>h c e w m a. last_routing h e = Some (m, a) \<longrightarrow>
        fst (smc_in hw h c (SDEI_1_0_FN_SDEI_EVENT_GET_INFO # e # 3 # w)) = m \<and>
        fst (smc_in hw h c (SDEI_1_0_FN_SDEI_EVENT_GET_INFO # e # 4 # w)) = a)"

lemma routing_set_run:
  assumes "sdei_val_pe_get_mpid_index i s = Some m" "keeps_routing hw"
  shows "\<exists>t. val_sdei_event_routing_set hw ev True i s = Some (0, t) \<and> sg t = sg s \<and>
     last_routing (io t) (ucast ev) = Some (SDEI_EVENT_REGISTER_RM_PE, m)"
  using assms
  by (simp add: val_sdei_event_routing_set_def sdei_event_routing_set_def pal_invoke_sdei_fn_run Let_def
      sdei_answer_def keeps_routing_def sdei_is_err_def reg_defs sdei_logged_def log_io_def)

lemma get_info_routing:
  assumes "keeps_routing hw" "last_routing (io s) (ucast ev) = Some (m, a)"
  shows "\<not> sdei_is_err m \<Longrightarrow> val_sdei_event_get_info hw ev 3 s =
      ((0, m), sdei_logged hw SDEI_1_0_FN_SDEI_EVENT_GET_INFO (ucast ev) 3 0 0 0 s)"
    "\<not> sdei_is_err a \<Longrightarrow> val_sdei_event_get_info hw ev 4 s =
      ((0, a), sdei_logged hw SDEI_1_0_FN_SDEI_EVENT_GET_INFO (ucast ev) 4 0 0 0 s)"
proof -
  have "sdei_answer hw s SDEI_1_0_FN_SDEI_EVENT_GET_INFO (ucast ev) 3 0 0 0 = m"
    "sdei_answer hw s SDEI_1_0_FN_SDEI_EVENT_GET_INFO (ucast ev) 4 0 0 0 = a"
    using assms unfolding sdei_answer_def keeps_routing_def by blast+
  then show "\<not> sdei_is_err m \<Longrightarrow> val_sdei_event_get_info hw ev 3 s =
      ((0, m), sdei_logged hw SDEI_1_0_FN_SDEI_EVENT_GET_INFO (ucast ev) 3 0 0 0 s)"
    "\<not> sdei_is_err a \<Longrightarrow> val_sdei_event_get_info hw ev 4 s =
      ((0, a), sdei_logged hw SDEI_1_0_FN_SDEI_EVENT_GET_INFO (ucast ev) 4 0 0 0 s)"
    by (simp_all add: val_sdei_event_get_info_def pal_invoke_sdei_fn_run)
qed

lemma routing_get_run:
  assumes "keeps_routing hw" "last_routing (io s) (ucast ev) = Some (1, m)" "\<not> sdei_is_err m"
    and "sdei_val_pe_get_index_mpid m s = Some i"
  shows "\<exists>t. val_sdei_event_routing_get hw ev s = Some ((0, Some True, Some i), t)"
proof -
  let ?s = "sdei_logged hw SDEI_1_0_FN_SDEI_EVENT_GET_INFO (ucast ev) 3 0 0 0 s"
  have l: "last_routing (io ?s) (ucast ev) = Some (1, m)"
    using assms(2) by (simp add: sdei_logged_def log_io_def sdei_fn_defs)
  have i: "sdei_val_pe_get_index_mpid m (sdei_logged hw f b c d e g ?s) = Some i" for f b c d e g
    using assms(4) by (simp add: sdei_val_pe_get_index_mpid_def)
  have "\<not> sdei_is_err 1" by (simp add: sdei_is_err_def reg_defs)
  then show ?thesis
    using get_info_routing(1) [OF assms(1,2)] get_info_routing(2) [OF assms(1) l assms(3)] i
    by (simp add: val_sdei_event_routing_get_def reg_defs)
qed

text \<open>C31: setting and reading the routing of an event are inverse: on a well-formed PE table, routing an
  event to the PE of an index and then asking for its routing gives back a directed routing and
  the same index, when the firmware keeps the routing it was given (the MPIDR of the PE must not
  be one of the five values that a caller takes for an error).\<close>

theorem routing_roundtrip:
  assumes "sdei_wf_pe s" "i < sdei_val_pe_get_num s" "keeps_routing hw"
    and "\<And>m. sdei_val_pe_get_mpid_index i s = Some m \<Longrightarrow> \<not> sdei_is_err m"
  shows "\<exists>t u. val_sdei_event_routing_set hw ev True i s = Some (0, t) \<and>
     val_sdei_event_routing_get hw ev t = Some ((0, Some True, Some i), u)"
proof -
  obtain m where m: "sdei_val_pe_get_mpid_index i s = Some m"
    using sdei_pe.mpid_at_defined [OF assms(1,2)] by blast
  from routing_set_run [OF m assms(3)] obtain t
    where t: "val_sdei_event_routing_set hw ev True i s = Some (0, t)" "sg t = sg s"
      "last_routing (io t) (ucast ev) = Some (1, m)" by (auto simp: SDEI_EVENT_REGISTER_RM_PE_def)
  have "sdei_val_pe_get_index_mpid m t = Some i"
    using sdei_pe.index_mpid [OF assms(1,2) m] t(2) by (simp add: sdei_val_pe_get_index_mpid_def)
  from routing_get_run [OF assms(3) t(3) assms(4) [OF m] this] t(1) show ?thesis by blast
qed

subsection \<open>PSCI queries\<close>

definition PSCI_FN_PSCI_VERSION :: u64 where [reg_defs]: "PSCI_FN_PSCI_VERSION = 0x84000000"
definition PSCI_FN_AFFINITY_INFO :: u64 where [reg_defs]: "PSCI_FN_AFFINITY_INFO = 0xC4000004"
definition PSCI_FN_PSCI_FEATURES :: u64 where [reg_defs]: "PSCI_FN_PSCI_FEATURES = 0x8400000A"

definition val_psci_version :: "hw \<Rightarrow> sworld \<Rightarrow> (u32 \<times> u32) \<times> sworld" where
  "val_psci_version hw s =
     (let (version, s) = pal_invoke_psci_fn hw PSCI_FN_PSCI_VERSION 0 0 0 s in ((0, version), s))"

text \<open>The results are signed: negative means failure.\<close>

definition val_psci_affinity_info :: "hw \<Rightarrow> u64 \<Rightarrow> u64 \<Rightarrow> sworld \<Rightarrow> u32 \<times> sworld" where
  "val_psci_affinity_info hw target_aff lowest_aff_level s =
     (let (err, s) = pal_invoke_psci_fn hw PSCI_FN_AFFINITY_INFO target_aff lowest_aff_level 0 s
      in (if err <s 0 then 1 else 0, s))"

definition val_psci_features :: "hw \<Rightarrow> u32 \<Rightarrow> sworld \<Rightarrow> u32 \<times> sworld" where
  "val_psci_features hw fun_id s =
     (let (err, s) = pal_invoke_psci_fn hw PSCI_FN_PSCI_FEATURES (ucast fun_id) 0 0 s
      in (if err <s 0 then 1 else 0, s))"

subsection \<open>The table of hardware error events\<close>

text \<open>
  The HEST as the code reads it: the structure found at a byte offset behind the table header,
  and the sizes of the two versions of the generic hardware error source structure.
\<close>

record ghes_struct =
  ghes_type :: u16
  notify_type :: u8
  notify_vector :: u32

record hest_view =
  ErrorSourceCount :: u32
  ghes_at :: "nat \<Rightarrow> ghes_struct option"
  sizeof_ghes :: nat
  sizeof_ghes_v2 :: nat

definition GHES_VERSION_2 :: u16 where [reg_defs]: "GHES_VERSION_2 = 10"
definition GHES_NOTIFY_TYPE_SDEI :: u8 where [reg_defs]: "GHES_NOTIFY_TYPE_SDEI = 0xb"

text \<open>The cast of a version 2 structure binds tighter than the addition, so the step to the next
  one is \<open>sizeof_ghes_v2\<close> structures, not bytes.\<close>

definition next_ghes :: "hest_view \<Rightarrow> ghes_struct \<Rightarrow> nat \<Rightarrow> nat" where
  "next_ghes h g off =
     (if ghes_type g = GHES_VERSION_2 then off + sizeof_ghes_v2 h * sizeof_ghes h else off + sizeof_ghes h)"

fun ghes_loop ::
    "hest_view \<Rightarrow> nat \<Rightarrow> nat \<Rightarrow> nat \<Rightarrow> event_info_table_t \<times> sworld \<Rightarrow> (event_info_table_t \<times> sworld) option" where
  "ghes_loop h 0 off k ts = Some ts"
| "ghes_loop h (Suc n) off k (t, s) =
     do { g \<leftarrow> ghes_at h off;
          if notify_type g = GHES_NOTIFY_TYPE_SDEI
          then do {
            _ \<leftarrow> at (event_numbers t) k;
            let t = t\<lparr>event_numbers := (event_numbers t)[k := notify_vector g]\<rparr>;
            let s = sdei_pal_print ACS_LOG_DEBUG ''Found SDEI error event %d'' [ucast (notify_vector g)] s;
            let t = t\<lparr>num_ghes_notify := num_ghes_notify t + 1\<rparr>;
            let t = (if notify_vector g \<noteq> 0 then t\<lparr>num_events := num_events t + 1\<rparr> else t);
            ghes_loop h n (next_ghes h g off) (k + 1) (t, s) }
          else ghes_loop h n (next_ghes h g off) k (t, s) }"

definition pal_sdei_create_event_info_table ::
    "acpi_view \<Rightarrow> hest_view \<Rightarrow> event_info_table_t \<Rightarrow> sworld \<Rightarrow> ((u32 \<times> event_info_table_t) \<times> sworld) option" where
  "pal_sdei_create_event_info_table v h t s =
     do { let t = t\<lparr>num_events := 0, hest_found := 0, num_ghes_notify := 0\<rparr>;
          (Hest, s) \<leftarrow> pal_get_hest_ptr v s;
          if Hest = 0 then Some ((- 1, t), s)
          else do { (t, s) \<leftarrow> ghes_loop h (unat (ErrorSourceCount h)) 0 0 (t\<lparr>hest_found := 1\<rparr>, s);
                    Some ((0, t), s) } }"

definition val_sdei_create_event_info_table ::
    "acpi_view \<Rightarrow> hest_view \<Rightarrow> event_info_table_t option \<Rightarrow> sworld \<Rightarrow> (u32 \<times> sworld) option" where
  "val_sdei_create_event_info_table v h table s =
     (case table of
        None \<Rightarrow> Some (ACS_ERROR, s)
      | Some t \<Rightarrow> do {
          ((st, t), s) \<leftarrow> pal_sdei_create_event_info_table v h t s;
          let s = s\<lparr>sg := (sg s)\<lparr>g_event_info_table := Some t\<rparr>\<rparr>;
          let s = (if st = 0
                   then sdei_pal_print ACS_LOG_TEST ''EVT_INFO: Number of hardware error events  : %4d''
                          [ucast (num_events t)] s
                   else sdei_pal_print ACS_LOG_ERR ''EVT_INFO: No hardware error event found'' [] s);
          Some (ACS_SUCCESS, pal_pe_data_cache_clean_invalidate (LVar ''g_event_info_table'') s) })"

datatype hest_info = HEST_FOUND | NUM_GHES | NUM_EVENTS | HEST_NOTIFY | BadHestInfo

text \<open>HEST_NOTIFY returns the address of the numbers, a location of the model.\<close>

datatype hest_value = HestNumber u64 | HestNumbers "u32 list"

definition val_event_get_hest_info :: "hest_info \<Rightarrow> sworld \<Rightarrow> ((u32 \<times> hest_value) \<times> sworld) option" where
  "val_event_get_hest_info ty s =
     (if ty = BadHestInfo
      then Some ((1, HestNumber 0), sdei_pal_print ACS_LOG_ERR ''HEST type is not valid'' [] s)
      else do { t \<leftarrow> g_event_info_table (sg s);
                Some ((0, case ty of HEST_FOUND \<Rightarrow> HestNumber (scast (hest_found t))
                          | NUM_GHES \<Rightarrow> HestNumber (ucast (num_ghes_notify t))
                          | NUM_EVENTS \<Rightarrow> HestNumber (ucast (num_events t))
                          | _ \<Rightarrow> HestNumbers (event_numbers t)), s) })"

definition is_sdei :: "ghes_struct \<Rightarrow> bool" where
  "is_sdei g \<longleftrightarrow> notify_type g = GHES_NOTIFY_TYPE_SDEI"

text \<open>A HEST of version 1 structures only, laid out one behind the other.\<close>

definition hest_lists :: "hest_view \<Rightarrow> nat \<Rightarrow> ghes_struct list \<Rightarrow> bool" where
  "hest_lists h off gs \<longleftrightarrow>
     (\<forall>k<length gs. ghes_at h (off + k * sizeof_ghes h) = Some (gs ! k)) \<and> (\<forall>g\<in>set gs. ghes_type g \<noteq> GHES_VERSION_2)"

lemma hest_lists_Cons:
  assumes "hest_lists h off (g # gs)"
  shows "ghes_at h off = Some g" "ghes_type g \<noteq> GHES_VERSION_2" "hest_lists h (off + sizeof_ghes h) gs"
proof -
  note a = assms [unfolded hest_lists_def, THEN conjunct1, rule_format]
  show "ghes_at h off = Some g" using a [of 0] by simp
  show "ghes_type g \<noteq> GHES_VERSION_2" using assms by (simp add: hest_lists_def)
  show "hest_lists h (off + sizeof_ghes h) gs"
    using a [of "Suc k" for k] assms by (simp add: hest_lists_def algebra_simps)
qed

definition write_at :: "nat \<Rightarrow> 'a list \<Rightarrow> 'a list \<Rightarrow> 'a list" where
  "write_at k ys xs = take k xs @ ys @ drop (k + length ys) xs"

lemma ghes_loop_run:
  assumes "hest_lists h off gs"
  shows "(case ghes_loop h (length gs) off k (t, s) of
       None \<Rightarrow> length (event_numbers t) < k + length (filter is_sdei gs)
     | Some (t', s') \<Rightarrow>
         (gs \<noteq> [] \<longrightarrow> filter is_sdei gs \<noteq> [] \<longrightarrow> k + length (filter is_sdei gs) \<le> length (event_numbers t)) \<and>
         (k \<le> length (event_numbers t) \<longrightarrow>
            event_numbers t' = write_at k (map notify_vector (filter is_sdei gs)) (event_numbers t)) \<and>
         num_ghes_notify t' = num_ghes_notify t + of_nat (length (filter is_sdei gs)) \<and>
         num_events t' = num_events t + of_nat (length (filter (\<lambda>g. is_sdei g \<and> notify_vector g \<noteq> 0) gs)) \<and>
         hest_found t' = hest_found t \<and> io s' = io s \<and> sg s' = sg s)"
  using assms
proof (induction gs arbitrary: off k t s)
  case Nil
  then show ?case by (simp add: write_at_def)
next
  case (Cons g gs)
  note c = hest_lists_Cons [OF Cons.prems]
  have nx: "next_ghes h g off = off + sizeof_ghes h" using c(2) by (simp add: next_ghes_def)
  show ?case
  proof (cases "is_sdei g")
    case False
    then show ?thesis using Cons.IH [OF c(3), where k = k and t = t and s = s] c(1) nx
      by (auto simp: is_sdei_def split: option.splits)
  next
    case True
    show ?thesis
    proof (cases "k < length (event_numbers t)")
      case False
      then show ?thesis using True c(1) by (simp add: is_sdei_def)
    next
      case k: True
      let ?t = "t\<lparr>event_numbers := (event_numbers t)[k := notify_vector g],
          num_ghes_notify := num_ghes_notify t + 1\<rparr>"
      let ?u = "if notify_vector g \<noteq> 0 then ?t\<lparr>num_events := num_events t + 1\<rparr> else ?t"
      let ?s = "sdei_pal_print ACS_LOG_DEBUG ''Found SDEI error event %d'' [ucast (notify_vector g)] s"
      have w: "write_at (Suc k) ys ((event_numbers t)[k := x]) = write_at k (x # ys) (event_numbers t)" for x ys
        using k by (simp add: write_at_def take_Suc_conv_app_nth drop_update_cancel)
      show ?thesis using Cons.IH [OF c(3), where k = "Suc k" and t = ?u and s = ?s] True c(1) nx k
        by (auto simp: is_sdei_def w algebra_simps Let_def split: option.splits if_splits)
    qed
  qed
qed

lemma take_write_at: "k + length ys \<le> length xs \<Longrightarrow> take (length ys) (drop k (write_at k ys xs)) = ys"
  by (simp add: write_at_def)

text \<open>C35: the table of hardware error events: from a HEST of version 1 structures the code collects
  the vectors of exactly those that notify by SDEI, in table order, counts them, counts the
  nonzero ones as events, and this is defined exactly when the caller's table has a slot for each
  of them; no bound is checked.\<close>

theorem event_table_from_hest:
  assumes "pal_get_hest_ptr v s = Some (p, s)" "p \<noteq> 0" "hest_lists h 0 gs"
    and "length gs = unat (ErrorSourceCount h)" "n = length (filter is_sdei gs)"
  shows "(\<exists>t' s'. pal_sdei_create_event_info_table v h t s = Some ((0, t'), s') \<and>
       take n (event_numbers t') = map notify_vector (filter is_sdei gs) \<and>
       hest_found t' = 1 \<and> num_ghes_notify t' = of_nat n \<and>
       num_events t' = of_nat (length (filter (\<lambda>g. is_sdei g \<and> notify_vector g \<noteq> 0) gs)))
     \<longleftrightarrow> n \<le> length (event_numbers t)"
proof -
  let ?t = "t\<lparr>num_events := 0, num_ghes_notify := 0, hest_found := 1\<rparr>"
  have e: "pal_sdei_create_event_info_table v h t s =
      map_option (\<lambda>(t', s'). ((0, t'), s')) (ghes_loop h (length gs) 0 0 (?t, s))"
    using assms(1,2,4)
    by (cases "ghes_loop h (length gs) 0 0 (?t, s)") (auto simp: pal_sdei_create_event_info_table_def Let_def)
  note r = ghes_loop_run [OF assms(3), where k = 0 and t = "?t" and s = s]
  show ?thesis
  proof (cases "ghes_loop h (length gs) 0 0 (?t, s)")
    case None
    then show ?thesis using r e assms(5) by simp
  next
    case (Some ts)
    obtain t' s' where ts: "ts = (t', s')" by (cases ts)
    have "n \<le> length (event_numbers t)"
      using r Some ts assms(5) by (cases "filter is_sdei gs = []") (auto split: if_splits)
    moreover have "take n (event_numbers t') = map notify_vector (filter is_sdei gs)"
      using r Some ts assms(5) calculation take_write_at [of 0 "map notify_vector (filter is_sdei gs)" "event_numbers t"]
      by simp
    ultimately show ?thesis using r Some ts e assms(5) by simp
  qed
qed

text \<open>After a version 2 structure the code reads far behind the next one: two SDEI error sources, 92
  and 64 bytes, of which only the first is found.\<close>

definition two_sources :: hest_view where
  "two_sources = \<lparr>ErrorSourceCount = 2,
     ghes_at = (\<lambda>off. if off = 0 then Some \<lparr>ghes_type = 10, notify_type = 0xb, notify_vector = 804\<rparr>
       else if off = 92 then Some \<lparr>ghes_type = 9, notify_type = 0xb, notify_vector = 805\<rparr>
       else if off = 92 * 64 then Some \<lparr>ghes_type = 0, notify_type = 0, notify_vector = 0\<rparr> else None),
     sizeof_ghes = 64, sizeof_ghes_v2 = 92\<rparr>"

lemma version_2_stride:
  "map_option (\<lambda>(t, s). (num_events t, event_numbers t))
     (ghes_loop two_sources (Suc (Suc 0)) 0 0
        (\<lparr>num_events = 0, hest_found = 1, num_ghes_notify = 0, event_numbers = [0, 0, 0]\<rparr>, s)) =
   Some (1, [804, 0, 0])"
proof -
  have g: "ghes_at two_sources 0 = Some \<lparr>ghes_type = 10, notify_type = 0xb, notify_vector = 804\<rparr>"
    "ghes_at two_sources 5888 = Some \<lparr>ghes_type = 0, notify_type = 0, notify_vector = 0\<rparr>"
    by (simp_all add: two_sources_def)
  have n: "next_ghes two_sources \<lparr>ghes_type = 10, notify_type = 0xb, notify_vector = 804\<rparr> 0 = 5888"
    by (simp add: next_ghes_def two_sources_def GHES_VERSION_2_def)
  show ?thesis by (simp add: g n GHES_NOTIFY_TYPE_SDEI_def at_def)
qed

subsection \<open>Choosing an event\<close>

definition SDEI_EVENT_TYPE_PRIVATE :: u32 where [reg_defs]: "SDEI_EVENT_TYPE_PRIVATE = 0"
definition SDEI_EVENT_TYPE_SHARED :: u32 where [reg_defs]: "SDEI_EVENT_TYPE_SHARED = 1"
definition SDEI_EVENT_TYPE_ANY :: u32 where [reg_defs]: "SDEI_EVENT_TYPE_ANY = 2"
definition SDEI_EVENT_PRIORITY_ANY :: u32 where [reg_defs]: "SDEI_EVENT_PRIORITY_ANY = 2"

text \<open>Type and priority of an event, and the error of the first query that fails.\<close>

definition val_event_create :: "hw \<Rightarrow> u32 \<Rightarrow> sworld \<Rightarrow> (u32 \<times> u64 \<times> u64 option) \<times> sworld" where
  "val_event_create hw event_num s =
     (let ((err, priority), s) = val_sdei_event_get_info hw event_num SDEI_EVENT_INFO_EV_PRIORITY s
      in if err \<noteq> 0 then ((err, priority, None), s)
         else (let ((err, ty), s) = val_sdei_event_get_info hw event_num SDEI_EVENT_INFO_EV_TYPE s
               in ((err, priority, Some ty), s)))"

text \<open>The pointer into the table is not advanced: every round looks at the first event.\<close>

fun event_loop :: "hw \<Rightarrow> nat \<Rightarrow> u32 \<Rightarrow> u32 \<Rightarrow> u32 list \<Rightarrow> sworld \<Rightarrow> (u32 \<times> sworld) option" where
  "event_loop hw 0 ty prio nums s = Some (0, s)"
| "event_loop hw (Suc n) ty prio nums s =
     do { event_num \<leftarrow> at nums 0;
          if prio = SDEI_EVENT_PRIORITY_ANY \<and> ty = SDEI_EVENT_TYPE_ANY then Some (event_num, s)
          else (let ((err, priority, ety), s) = val_event_create hw event_num s
                in if err \<noteq> 0 then Some (0, s)
                   else if ucast prio = priority \<and> Some (ucast ty) = ety \<or>
                           prio = SDEI_EVENT_PRIORITY_ANY \<and> Some (ucast ty) = ety \<or>
                           ucast prio = priority \<and> ty = SDEI_EVENT_TYPE_ANY
                        then Some (event_num, s)
                   else event_loop hw n ty prio nums s) }"

definition bind_event :: "hw \<Rightarrow> u32 \<Rightarrow> string \<Rightarrow> sworld \<Rightarrow> u32 \<times> sworld" where
  "bind_event hw irq message s =
     (let ((err, event_num), s) = val_sdei_interrupt_bind hw irq s
      in (event_num, if err \<noteq> 0 then sdei_pal_print ACS_LOG_ERR message [ucast err] s else s))"

definition val_event_get :: "hw \<Rightarrow> u32 \<Rightarrow> u32 \<Rightarrow> sworld \<Rightarrow> (u32 \<times> sworld) option" where
  "val_event_get hw ty prio s =
     (if ty = SDEI_EVENT_TYPE_PRIVATE
      then Some (bind_event hw PPI_INTR_NUM ''PPI Interrupt bind failed with err %d'' s)
      else if ty = SDEI_EVENT_TYPE_SHARED
      then Some (bind_event hw SPI_INTR_NUM ''SPI Interrupt bind failed with err %d'' s)
      else do { t \<leftarrow> g_event_info_table (sg s);
                event_loop hw (unat (num_events t)) ty prio (event_numbers t) s })"

lemma ucast_minus_1: "(ucast (- 1 :: u64) :: u32) = - 1"
  by (rule bit_word_eqI) (simp add: bit_simps)

text \<open>A failed bind looks like an event: when the firmware refuses to bind the interrupt with one
  of the five error codes, val_event_get still returns a nonzero event number (the low word of the
  error code), though its callers take 0 as the sign of failure.\<close>

theorem event_get_bind_failure:
  assumes "sdei_answer hw s SDEI_1_0_FN_SDEI_INTERRUPT_BIND (ucast irq) 0 0 0 0 = r" "sdei_is_err r"
    and "ty = SDEI_EVENT_TYPE_PRIVATE \<and> irq = PPI_INTR_NUM \<or> ty = SDEI_EVENT_TYPE_SHARED \<and> irq = SPI_INTR_NUM"
  shows "\<exists>e t. val_event_get hw ty prio s = Some (e, t) \<and> e \<noteq> 0 \<and> e = ucast r"
  using assms
  by (auto simp: val_event_get_def bind_event_def val_sdei_interrupt_bind_def pal_invoke_sdei_fn_run Let_def
      sdei_is_err_def reg_defs ucast_minus_1)

text \<open>A search by type and priority in the table looks at its first event only.\<close>

lemma event_loop_first:
  assumes "event_loop hw n ty prio nums s = Some (e, t)" "e \<noteq> 0"
  shows "nums \<noteq> [] \<and> e = hd nums"
  using assms
proof (induction n arbitrary: s)
  case (Suc n)
  then show ?case
    by (cases nums) (auto simp: hd_conv_nth at_def Let_def split: prod.splits if_splits)
qed simp

subsection \<open>Running a payload on all PEs, and initialisation\<close>

definition own_mpidr :: "hw \<Rightarrow> u64" where
  "own_mpidr hw = mpidr_in hw AND NOT (push_bit 24 0xff)"

definition other_pes :: "hw \<Rightarrow> sworld \<Rightarrow> u64 list" where
  "other_pes hw s =
     (case sd_pe_table (sg s) of None \<Rightarrow> []
      | Some t \<Rightarrow> filter (\<lambda>m. m \<noteq> own_mpidr hw) (map mpidr (take (unat (num_of_pe t)) (pe_info t))))"

text \<open>
  The calls of pal_pe_execute_on_all one after the other: a payload is a function of the PE it
  runs on, here the machine with that PE's MPIDR. Without a PE table only the caller runs it.
\<close>

definition sdei_val_pe_execute_on_all :: "hw \<Rightarrow> (hw \<Rightarrow> sworld \<Rightarrow> sworld) \<Rightarrow> sworld \<Rightarrow> sworld" where
  "sdei_val_pe_execute_on_all hw payload s =
     fold (\<lambda>m. payload (hw\<lparr>mpidr_in := m\<rparr>)) (other_pes hw s) (payload hw s)"

fun run_calls :: "hw \<Rightarrow> (hw \<Rightarrow> sworld \<Rightarrow> sworld) \<Rightarrow> (u64 \<times> u64 \<times> u64) list \<Rightarrow> sworld \<Rightarrow> sworld" where
  "run_calls hw payload [] s = s"
| "run_calls hw payload ((m, p, a) # cs) s =
     run_calls hw payload cs (payload (if m = own_mpidr hw then hw else hw\<lparr>mpidr_in := m\<rparr>) s)"

lemma run_calls_map:
  "\<forall>m\<in>set ms. m \<noteq> own_mpidr hw \<Longrightarrow>
     run_calls hw payload (map (\<lambda>m. (m, p, a)) ms) s = fold (\<lambda>m. payload (hw\<lparr>mpidr_in := m\<rparr>)) ms s"
  by (induction ms arbitrary: s) auto


definition SDEI_VERSION_MAJOR :: "u64 \<Rightarrow> u64" where "SDEI_VERSION_MAJOR x = drop_bit 48 x AND 0x7fff"
definition SDEI_VERSION_MINOR :: "u64 \<Rightarrow> u64" where "SDEI_VERSION_MINOR x = drop_bit 32 x AND 0xffff"
definition SDEI_VERSION_VENDOR :: "u64 \<Rightarrow> u64" where "SDEI_VERSION_VENDOR x = drop_bit 0 x AND 0xffffffff"

definition pal_acpi_present :: "acpi_view \<Rightarrow> sworld \<Rightarrow> (bool \<times> sworld) option" where
  "pal_acpi_present v s =
     do { (p, s) \<leftarrow> pal_get_sdei_ptr v s;
          if p = 0 then Some (False, sdei_pal_print ACS_LOG_ERR ''SDEI entry not found in ACPI table'' [] s)
          else Some (True, s) }"

definition val_acpi_present :: "acpi_view \<Rightarrow> sworld \<Rightarrow> (u32 \<times> sworld) option" where
  "val_acpi_present v s = do { (p, s) \<leftarrow> pal_acpi_present v s; Some (if p then 0 else - 1, s) }"

definition CONDUIT_SMC :: u32 where [reg_defs]: "CONDUIT_SMC = 1"

definition pal_conduit_get :: "sworld \<Rightarrow> u32 \<times> sworld" where
  "pal_conduit_get s = (CONDUIT_SMC, s\<lparr>sg := (sg s)\<lparr>sdei_firmware_call := True\<rparr>\<rparr>)"

definition pal_interface_broken :: "sworld \<Rightarrow> sworld" where
  "pal_interface_broken s = s\<lparr>sg := (sg s)\<lparr>sdei_firmware_call := False\<rparr>\<rparr>"

definition val_sdei_initialization :: "hw \<Rightarrow> acpi_view \<Rightarrow> sworld \<Rightarrow> (u32 \<times> sworld) option" where
  "val_sdei_initialization hw v s =
     do { (present, s) \<leftarrow> pal_acpi_present v s;
          if \<not> present
          then Some (- 1, sdei_pal_print ACS_LOG_WARN ''SDEI entry not found in ACPI table'' [] s)
          else (let (conduit, s) = pal_conduit_get s
                in if conduit = 0 then Some (- 1, s)
                   else (let ((err, ver), s) = val_sdei_get_version hw s;
                             s = (if err = SDEI_STATUS_NOT_SUPPORTED
                                  then sdei_pal_print ACS_LOG_ERR
                                         ''advertised but not implemented in platform firmware'' [] s else s)
                         in if err \<noteq> 0
                            then Some (err, sdei_pal_print ACS_LOG_ERR ''Failed to get SDEI version: %d'' [ucast err] s)
                            else (let s = sdei_pal_print ACS_LOG_TEST ''SDEIv%d.%d (0x%x) detected in firmware.''
                                            [SDEI_VERSION_MAJOR ver, SDEI_VERSION_MINOR ver, SDEI_VERSION_VENDOR ver] s
                                  in if SDEI_VERSION_MAJOR ver \<noteq> 1
                                     then Some (SDEI_STATUS_INVALID,
                                            sdei_pal_print ACS_LOG_WARN ''Conflicting SDEI version detected.'' [] s)
                                     else (let s = sdei_val_pe_execute_on_all hw (\<lambda>hw s. snd (val_sdei_unmask hw s)) s;
                                               s = sdei_val_pe_execute_on_all hw (\<lambda>hw s. snd (val_sdei_private_reset hw s)) s;
                                               (_, s) = val_sdei_shared_reset hw s
                                           in Some (0, s))))) }"

text \<open>The function identifiers of the firmware calls of a history, oldest first.\<close>

fun smc_ids :: "history \<Rightarrow> u64 list" where
  "smc_ids [] = []"
| "smc_ids (Smc c (f # _) # h) = smc_ids h @ [f]"
| "smc_ids (_ # h) = smc_ids h"

lemma smc_ids_logged [simp]: "smc_ids (io (sdei_logged hw f a0 a1 a2 a3 a4 s)) = smc_ids (io s) @ [f]"
  by (simp add: sdei_logged_def log_io_def)

lemma execute_on_all_smc:
  assumes "\<And>h u. smc_ids (io (f h u)) = smc_ids (io u) @ [i] \<and> sg (f h u) = sg u"
  shows "smc_ids (io (sdei_val_pe_execute_on_all hw f s)) =
      smc_ids (io s) @ replicate (Suc (length (other_pes hw s))) i \<and> sg (sdei_val_pe_execute_on_all hw f s) = sg s"
proof -
  have "smc_ids (io (fold (\<lambda>m. f (hw\<lparr>mpidr_in := m\<rparr>)) ms u)) = smc_ids (io u) @ replicate (length ms) i \<and>
      sg (fold (\<lambda>m. f (hw\<lparr>mpidr_in := m\<rparr>)) ms u) = sg u" for ms u
    by (induction ms arbitrary: u) (simp_all add: assms)
  then show ?thesis by (simp add: sdei_val_pe_execute_on_all_def assms)
qed

text \<open>What the initialisation asks of the firmware: with an SDEI table and a dispatcher of major version
  1 it succeeds and makes, in this order, one version call, one unmask and then one private
  reset per PE that pal_pe_execute_on_all reaches, and one shared reset. Before the PE table exists,
  which is when the program calls it, that is the calling PE alone.\<close>

theorem initialization_calls:
  assumes "pal_get_sdei_ptr v s = Some (p, s)" "p \<noteq> 0"
    and "sdei_answer hw s SDEI_1_0_FN_SDEI_VERSION 0 0 0 0 0 = ver" "\<not> sdei_is_err ver" "SDEI_VERSION_MAJOR ver = 1"
    and "n = Suc (length (other_pes hw s))"
  shows "\<exists>t. val_sdei_initialization hw v s = Some (0, t) \<and>
     smc_ids (io t) = smc_ids (io s) @ [SDEI_1_0_FN_SDEI_VERSION] @ replicate n SDEI_1_0_FN_SDEI_PE_UNMASK @
       replicate n SDEI_1_0_FN_SDEI_PRIVATE_RESET @ [SDEI_1_0_FN_SDEI_SHARED_RESET] \<and>
     (sd_pe_table (sg s) = None \<longrightarrow> n = 1)"
proof -
  let ?s = "s\<lparr>sg := (sg s)\<lparr>sdei_firmware_call := True\<rparr>\<rparr>"
  have a: "sdei_answer hw ?s SDEI_1_0_FN_SDEI_VERSION 0 0 0 0 0 = ver"
    using assms(3) by (simp add: sdei_answer_def uninit_smc_def)
  define u where "u = sdei_pal_print ACS_LOG_TEST ''SDEIv%d.%d (0x%x) detected in firmware.''
      [SDEI_VERSION_MAJOR ver, SDEI_VERSION_MINOR ver, SDEI_VERSION_VENDOR ver]
      (sdei_logged hw SDEI_1_0_FN_SDEI_VERSION 0 0 0 0 0 ?s)"
  define w where "w = sdei_val_pe_execute_on_all hw (\<lambda>hw s. snd (val_sdei_unmask hw s)) u"
  define x where "x = sdei_val_pe_execute_on_all hw (\<lambda>hw s. snd (val_sdei_private_reset hw s)) w"
  have o: "other_pes hw q = other_pes hw s" if "sg q = sg ?s" for q
    using that by (simp add: other_pes_def)
  have u: "smc_ids (io u) = smc_ids (io s) @ [SDEI_1_0_FN_SDEI_VERSION]" "sg u = sg ?s"
    by (simp_all add: u_def)
  have w: "smc_ids (io w) = smc_ids (io u) @ replicate n SDEI_1_0_FN_SDEI_PE_UNMASK" "sg w = sg ?s"
    unfolding w_def using execute_on_all_smc [of "\<lambda>hw s. snd (val_sdei_unmask hw s)"
        SDEI_1_0_FN_SDEI_PE_UNMASK hw u] u(2) o [OF u(2)] assms(6)
    by (auto simp: val_sdei_unmask_def pal_invoke_sdei_fn_run Let_def)
  have x: "smc_ids (io x) = smc_ids (io w) @ replicate n SDEI_1_0_FN_SDEI_PRIVATE_RESET"
    unfolding x_def using execute_on_all_smc [of "\<lambda>hw s. snd (val_sdei_private_reset hw s)"
        SDEI_1_0_FN_SDEI_PRIVATE_RESET hw w] o [OF w(2)] assms(6)
    by (auto simp: val_sdei_private_reset_def pal_invoke_sdei_fn_run Let_def)
  have "val_sdei_initialization hw v s = Some (0, snd (val_sdei_shared_reset hw x))"
    using assms(1,2,4,5) a
    by (simp add: val_sdei_initialization_def pal_acpi_present_def pal_conduit_get_def CONDUIT_SMC_def
        val_sdei_get_version_def pal_invoke_sdei_fn_run Let_def split_beta x_def w_def u_def SDEI_STATUS_NOT_SUPPORTED_def)
  moreover have "smc_ids (io (snd (val_sdei_shared_reset hw x))) = smc_ids (io x) @ [SDEI_1_0_FN_SDEI_SHARED_RESET]"
    by (simp add: val_sdei_shared_reset_def pal_invoke_sdei_fn_run Let_def)
  ultimately show ?thesis using u w x assms(6) by (simp add: other_pes_def)
qed

subsection \<open>Witnesses\<close>

text \<open>A firmware of version 1.0 that answers 0 to everything else but keeps event routings.\<close>

definition routing_hw :: hw where
  "routing_hw = (ram_hw (\<lambda>_. 0) 0)\<lparr>smc_in := (\<lambda>h m args.
     (case args of
        f # e # i # _ \<Rightarrow>
          (if f = SDEI_1_0_FN_SDEI_EVENT_GET_INFO
           then (case last_routing h e of None \<Rightarrow> 0 | Some (m, a) \<Rightarrow> if i = 3 then m else a)
           else if f = SDEI_1_0_FN_SDEI_VERSION then 0x1000000000000 else 0)
      | _ \<Rightarrow> 0, 0, 0, 0))\<rparr>"

lemma routing_hw_keeps: "keeps_routing routing_hw"
  by (simp add: keeps_routing_def routing_hw_def sdei_fn_defs)

definition pair_world :: sworld where
  "pair_world = sdei_world0\<lparr>sg := (sg sdei_world0)\<lparr>sd_pe_table := Some \<lparr>num_of_pe = 2, pe_info = pair_table\<rparr>\<rparr>\<rparr>"

lemma pair_world_wf: "sdei_wf_pe pair_world" "sdei_val_pe_get_num pair_world = 2"
  by (simp_all add: sdei_wf_pe_def pair_world_def wf_pe_table_def pair_table_def pe_entry_def less_Suc_eq
      sdei_val_pe_get_num_def)

lemma routing_roundtrip_witness:
  "\<exists>t u. val_sdei_event_routing_set routing_hw 804 True 1 pair_world = Some (0, t) \<and>
     val_sdei_event_routing_get routing_hw 804 t = Some ((0, Some True, Some 1), u)"
proof (rule routing_roundtrip [OF pair_world_wf(1) _ routing_hw_keeps])
  show "1 < sdei_val_pe_get_num pair_world" by (simp add: pair_world_wf)
  fix m
  assume "sdei_val_pe_get_mpid_index 1 pair_world = Some m"
  then have "m = 0x100"
    by (simp add: sdei_val_pe_get_mpid_index_def pair_world_def pair_table_def pe_entry_def)
  then show "\<not> sdei_is_err m" by (simp add: sdei_is_err_def reg_defs)
qed

definition one_source :: hest_view where
  "one_source = \<lparr>ErrorSourceCount = 1,
     ghes_at = (\<lambda>off. if off = 0 then Some \<lparr>ghes_type = 9, notify_type = 0xb, notify_vector = 804\<rparr> else None),
     sizeof_ghes = 64, sizeof_ghes_v2 = 92\<rparr>"

lemma event_table_from_hest_witness:
  "\<exists>t' s'. pal_sdei_create_event_info_table (small_acpi\<lparr>sig_of := (\<lambda>_. 5)\<rparr>) one_source
      \<lparr>num_events = 7, hest_found = 0, num_ghes_notify = 0, event_numbers = [0]\<rparr> sdei_world0 = Some ((0, t'), s') \<and>
     take 1 (event_numbers t') = [804] \<and> num_events t' = 1"
proof -
  let ?v = "small_acpi\<lparr>sig_of := (\<lambda>_. 5)\<rparr>" and ?g = "\<lparr>ghes_type = 9, notify_type = 0xb, notify_vector = 804\<rparr>"
  have "xsdt_ok ?v" by (simp add: xsdt_ok_def small_acpi_def pal_get_xsdt_ptr_def)
  then have v: "pal_get_hest_ptr ?v sdei_world0 = Some (0xA000, sdei_world0)"
    by (simp add: pal_get_hest_ptr_def pal_get_acpi_ptr_def xsdt_ok_def xsdt_find_eq_find Entry64Num_ok)
       (simp add: small_acpi_def)
  have h: "hest_lists one_source 0 [?g]" by (simp add: hest_lists_def one_source_def reg_defs)
  show ?thesis
    using event_table_from_hest [OF v _ h _ refl, of
        "\<lparr>num_events = 7, hest_found = 0, num_ghes_notify = 0, event_numbers = [0]\<rparr>"]
    by (fastforce simp: is_sdei_def reg_defs one_source_def)
qed

lemma event_get_bind_failure_witness:
  "\<exists>t. val_event_get ((ram_hw (\<lambda>_. 0) 0)\<lparr>smc_in := (\<lambda>_ _ _. (- 3, 0, 0, 0))\<rparr>) 0 2 sdei_world0 =
     Some (0xFFFFFFFD, t)"
proof -
  let ?hw = "(ram_hw (\<lambda>_. 0) 0)\<lparr>smc_in := (\<lambda>_ _ _. (- 3, 0, 0, 0))\<rparr>"
  have "sdei_answer ?hw sdei_world0 SDEI_1_0_FN_SDEI_INTERRUPT_BIND (ucast PPI_INTR_NUM) 0 0 0 0 = - 3"
    by (simp add: sdei_answer_def)
  moreover have "sdei_is_err (- 3)" by (simp add: sdei_is_err_def reg_defs)
  ultimately obtain t where "val_event_get ?hw 0 2 sdei_world0 = Some (ucast (- 3 :: u64), t)"
    using event_get_bind_failure [of ?hw sdei_world0 PPI_INTR_NUM "- 3" 0 2] by (auto simp: reg_defs)
  moreover have "(ucast (- 3 :: u64) :: u32) = 0xFFFFFFFD" by simp
  ultimately show ?thesis by metis
qed


lemma initialization_calls_witness:
  "\<exists>t. val_sdei_initialization routing_hw small_acpi sdei_world0 = Some (0, t) \<and>
     smc_ids (io t) = [0xC4000020, 0xC400002C, 0xC4000031, 0xC4000032]"
proof -
  have "xsdt_ok small_acpi" by (simp add: xsdt_ok_def small_acpi_def pal_get_xsdt_ptr_def)
  then have v: "pal_get_sdei_ptr small_acpi sdei_world0 = Some (0xA000, sdei_world0)"
    by (simp add: pal_get_sdei_ptr_def pal_get_acpi_ptr_def xsdt_ok_def xsdt_find_eq_find Entry64Num_ok)
       (simp add: small_acpi_def)
  have a: "sdei_answer routing_hw sdei_world0 SDEI_1_0_FN_SDEI_VERSION 0 0 0 0 0 = 0x1000000000000"
    by (simp add: sdei_answer_def routing_hw_def sdei_fn_defs)
  have "\<not> sdei_is_err 0x1000000000000" "SDEI_VERSION_MAJOR 0x1000000000000 = 1"
    by (simp_all add: sdei_is_err_def reg_defs SDEI_VERSION_MAJOR_def)
  from initialization_calls [OF v _ a this refl]
  show ?thesis by (simp add: other_pes_def sdei_world0_def sdei_fn_defs)
qed

end
