(* ===== verification/Sdei_Timer.thy ===== *)
theory Sdei_Timer
  imports Sdei_Firmware
begin

text \<open>
  The timers and watchdogs of the SDEI suite: the tables built from the GTDT and the watchdog
  writes (platform/pal_uefi/src/pal_wd_timer.c, val_wd_timer.c), the generic timers
  (val_timer.c, val_timer_support.c), and the look-up of a platform timer by its number.
\<close>

unbundle bit_operations_syntax

subsection \<open>The generic timers\<close>

datatype ARM_ARCH_TIMER_REGS =
  CntFrq | CntPct | CntkCtl | CntpTval | CntpCtl | CntvTval | CntvCtl | CntvCt | CntpCval | CntvCval | CntvOff
| CnthCtl | CnthpTval | CnthpCtl | CnthpCval | CnthvTval | CnthvCtl | CnthvCval | RegMaximum

definition ARM_ARCH_TIMER_ENABLE :: u64 where [reg_defs]: "ARM_ARCH_TIMER_ENABLE = 1"

definition ArmArchTimerReadReg :: "hw \<Rightarrow> ARM_ARCH_TIMER_REGS \<Rightarrow> sworld \<Rightarrow> u64 \<times> sworld" where
  "ArmArchTimerReadReg hw Reg s =
     (case Reg of
        CntFrq \<Rightarrow> read_sysreg hw ''ArmReadCntFrq'' s
      | CntPct \<Rightarrow> read_sysreg hw ''ArmReadCntPct'' s
      | CntkCtl \<Rightarrow> read_sysreg hw ''ArmReadCntkCtl'' s
      | CntpTval \<Rightarrow> read_sysreg hw ''ArmReadCntpTval'' s
      | CntpCtl \<Rightarrow> read_sysreg hw ''ArmReadCntpCtl'' s
      | CntvTval \<Rightarrow> read_sysreg hw ''ArmReadCntvTval'' s
      | CntvCtl \<Rightarrow> read_sysreg hw ''ArmReadCntvCtl'' s
      | CntvCt \<Rightarrow> read_sysreg hw ''ArmReadCntvCt'' s
      | CntpCval \<Rightarrow> read_sysreg hw ''ArmReadCntpCval'' s
      | CntvCval \<Rightarrow> read_sysreg hw ''ArmReadCntvCval'' s
      | CntvOff \<Rightarrow> read_sysreg hw ''ArmReadCntvOff'' s
      | CnthpCtl \<Rightarrow> read_sysreg hw ''ArmReadCnthpCtl'' s
      | CnthpTval \<Rightarrow> read_sysreg hw ''ArmReadCnthpTval'' s
      | CnthCtl \<Rightarrow> (ucast INVALID_INDEX,
          sdei_pal_print ACS_LOG_ERR ''The register is related to Hypervisor Mode.'' [] s)
      | CnthpCval \<Rightarrow> (ucast INVALID_INDEX,
          sdei_pal_print ACS_LOG_ERR ''The register is related to Hypervisor Mode.'' [] s)
      | _ \<Rightarrow> (ucast INVALID_INDEX,
          sdei_pal_print ACS_LOG_ERR ''Unknown ARM Generic Timer register %x'' [] s))"

definition ArmArchTimerWriteReg :: "ARM_ARCH_TIMER_REGS \<Rightarrow> u64 \<Rightarrow> sworld \<Rightarrow> sworld" where
  "ArmArchTimerWriteReg Reg data s =
     (case Reg of
        CntPct \<Rightarrow> sdei_pal_print ACS_LOG_ERR ''Cannot write to Read Only Register: CNTPCT'' [] s
      | CntkCtl \<Rightarrow> write_sysreg ''ArmWriteCntkCtl'' data s
      | CntpTval \<Rightarrow> write_sysreg ''ArmWriteCntpTval'' data s
      | CntpCtl \<Rightarrow> write_sysreg ''ArmWriteCntpCtl'' data s
      | CntvTval \<Rightarrow> write_sysreg ''ArmWriteCntvTval'' data s
      | CntvCtl \<Rightarrow> write_sysreg ''ArmWriteCntvCtl'' data s
      | CntvCt \<Rightarrow> sdei_pal_print ACS_LOG_ERR ''Cannot write to Read Only Register: CNTVCT'' [] s
      | CntpCval \<Rightarrow> write_sysreg ''ArmWriteCntpCval'' data s
      | CntvCval \<Rightarrow> write_sysreg ''ArmWriteCntvCval'' data s
      | CntvOff \<Rightarrow> write_sysreg ''ArmWriteCntvOff'' data s
      | CnthpTval \<Rightarrow> write_sysreg ''ArmWriteCnthpTval'' data s
      | CnthpCtl \<Rightarrow> write_sysreg ''ArmWriteCnthpCtl'' data s
      | CnthCtl \<Rightarrow> sdei_pal_print ACS_LOG_ERR ''The register is related to Hypervisor Mode.'' [] s
      | CnthpCval \<Rightarrow> sdei_pal_print ACS_LOG_ERR ''The register is related to Hypervisor Mode.'' [] s
      | _ \<Rightarrow> sdei_pal_print ACS_LOG_ERR ''Unknown ARM Generic Timer register %x'' [] s)"

definition ArmGenericTimerEnableTimer :: "hw \<Rightarrow> ARM_ARCH_TIMER_REGS \<Rightarrow> sworld \<Rightarrow> sworld" where
  "ArmGenericTimerEnableTimer hw reg s =
     (let (timer_ctrl_reg, s) = ArmArchTimerReadReg hw reg s
      in ArmArchTimerWriteReg reg (timer_ctrl_reg OR ARM_ARCH_TIMER_ENABLE) s)"

definition ArmGenericTimerDisableTimer :: "hw \<Rightarrow> ARM_ARCH_TIMER_REGS \<Rightarrow> sworld \<Rightarrow> sworld" where
  "ArmGenericTimerDisableTimer hw reg s =
     (let (timer_ctrl_reg, s) = ArmArchTimerReadReg hw reg s
      in ArmArchTimerWriteReg reg (timer_ctrl_reg AND NOT ARM_ARCH_TIMER_ENABLE) s)"

definition set_timer :: "hw \<Rightarrow> ARM_ARCH_TIMER_REGS \<Rightarrow> ARM_ARCH_TIMER_REGS \<Rightarrow> u64 \<Rightarrow> sworld \<Rightarrow> sworld" where
  "set_timer hw ctl tval timeout s =
     (if timeout \<noteq> 0
      then ArmGenericTimerEnableTimer hw ctl (ArmArchTimerWriteReg tval timeout (ArmGenericTimerDisableTimer hw ctl s))
      else ArmGenericTimerDisableTimer hw ctl s)"

definition val_timer_set_phy_el1 :: "hw \<Rightarrow> u64 \<Rightarrow> sworld \<Rightarrow> sworld" where
  "val_timer_set_phy_el1 hw timeout s = set_timer hw CntpCtl CntpTval timeout s"

definition val_timer_set_vir_el1 :: "hw \<Rightarrow> u64 \<Rightarrow> sworld \<Rightarrow> sworld" where
  "val_timer_set_vir_el1 hw timeout s = set_timer hw CntvCtl CntvTval timeout s"

definition val_timer_set_phy_el2 :: "hw \<Rightarrow> u64 \<Rightarrow> sworld \<Rightarrow> sworld" where
  "val_timer_set_phy_el2 hw timeout s = set_timer hw CnthpCtl CnthpTval timeout s"

definition val_timer_set_vir_el2 :: "hw \<Rightarrow> u64 \<Rightarrow> sworld \<Rightarrow> sworld" where
  "val_timer_set_vir_el2 hw timeout s = set_timer hw CnthvCtl CnthvTval timeout s"

text \<open>The cases of the virtual EL2 timer are commented out: programming it touches no register.\<close>

lemma set_vir_el2_no_access: "io (val_timer_set_vir_el2 hw timeout s) = io s"
  by (simp add: val_timer_set_vir_el2_def set_timer_def ArmGenericTimerEnableTimer_def
      ArmGenericTimerDisableTimer_def ArmArchTimerReadReg_def ArmArchTimerWriteReg_def)

subsection \<open>The tables of the GTDT\<close>

record gt_block_timer =
  CntBaseX :: u64
  CntEL0BaseX :: u64
  GTxPhysicalTimerGSIV :: u32
  GTxVirtualTimerGSIV :: u32
  GTxPhysicalTimerFlags :: u32
  GTxVirtualTimerFlags :: u32
  GTxCommonFlags :: u32

text \<open>The platform timer structures in the order they are visited.\<close>

datatype gtdt_entry =
    GtBlock u64 u32 "gt_block_timer list"
  | SbsaWatchdog wd_info_entry_t
  | OtherGtdtEntry

record gtdt =
  g_s_el1_flag :: u32
  g_ns_el1_flag :: u32
  g_el2_flag :: u32
  g_s_el1_gsiv :: u32
  g_ns_el1_gsiv :: u32
  g_el2_gsiv :: u32
  g_virt_flag :: u32
  g_virt_gsiv :: u32
  PlatformTimerCount :: u32
  platform_timers :: "gtdt_entry list"

text \<open>One frame of a block: the five arrays of the block have a fixed number of slots.\<close>

definition put_frame ::
    "gt_block_timer \<Rightarrow> nat \<Rightarrow> timer_info_gtblock_t \<Rightarrow> timer_info_gtblock_t option" where
  "put_frame f i b =
     do { a \<leftarrow> set_at i (CntBaseX f) (GtCntBase b);
          e \<leftarrow> set_at i (CntEL0BaseX f) (GtCntEl0Base b);
          g \<leftarrow> set_at i (GTxPhysicalTimerGSIV f) (tgsiv b);
          v \<leftarrow> set_at i (GTxVirtualTimerGSIV f) (tvirt_gsiv b);
          l \<leftarrow> set_at i (GTxPhysicalTimerFlags f OR push_bit 8 (GTxVirtualTimerFlags f) OR
                          push_bit 16 (GTxCommonFlags f)) (tflags b);
          Some (b\<lparr>GtCntBase := a, GtCntEl0Base := e, tgsiv := g, tvirt_gsiv := v, tflags := l\<rparr>) }"

fun frame_loop ::
    "gt_block_timer list \<Rightarrow> nat \<Rightarrow> nat \<Rightarrow> timer_info_gtblock_t \<times> u32 \<times> sworld
       \<Rightarrow> (timer_info_gtblock_t \<times> u32 \<times> sworld) option" where
  "frame_loop fs 0 i bns = Some bns"
| "frame_loop [] (Suc n) i bns = None"
| "frame_loop (f # fs) (Suc n) i (b, num, s) =
     do { let s = sdei_pal_print ACS_LOG_INFO ''Found timer entry'' [] s;
          b \<leftarrow> put_frame f i b;
          let s = pal_pe_data_cache_clean_invalidate (LVar ''GtEntry'') s;
          let s = sdei_pal_print ACS_LOG_DEBUG ''CNTBaseN = %x for sys counter = %d'' [CntBaseX f, of_nat i] s;
          frame_loop fs n (i + 1) (b, num + 1, s) }"

fun block_loop ::
    "nat \<Rightarrow> gtdt_entry list \<Rightarrow> nat \<Rightarrow> timer_info_table_t \<times> sworld \<Rightarrow> (timer_info_table_t \<times> sworld) option" where
  "block_loop 0 es k ts = Some ts"
| "block_loop (Suc n) [] k ts = None"
| "block_loop (Suc n) (e # es) k (t, s) =
     (case e of
        GtBlock ctl cnt fs \<Rightarrow>
          do { let s = sdei_pal_print ACS_LOG_INFO ''Found block entry'' [] s;
               b \<leftarrow> at (gt_info t) k;
               let b = b\<lparr>block_cntl_base := ctl, timer_count := cnt\<rparr>;
               let s = sdei_pal_print ACS_LOG_DEBUG ''CNTCTLBase = %x'' [ctl] s;
               (b, num, s) \<leftarrow> frame_loop fs (unat cnt) 0 (b, num_platform_timer t, s);
               block_loop n es (k + 1) (t\<lparr>gt_info := (gt_info t)[k := b], num_platform_timer := num\<rparr>, s) }
      | _ \<Rightarrow> block_loop n es k (t, s))"

definition pal_timer_create_info_table ::
    "gtdt option \<Rightarrow> timer_info_table_t \<Rightarrow> sworld \<Rightarrow> (timer_info_table_t \<times> sworld) option" where
  "pal_timer_create_info_table g t s =
     (let t = t\<lparr>num_platform_timer := 0\<rparr>
      in case g of
           None \<Rightarrow> Some (t, sdei_pal_print ACS_LOG_ERR ''GTDT not found'' [] s)
         | Some g \<Rightarrow> do {
             let s = sdei_pal_print ACS_LOG_INFO ''GTDT is at %x and length is %x'' [] s;
             let t = t\<lparr>s_el1_timer_flag := g_s_el1_flag g, ns_el1_timer_flag := g_ns_el1_flag g,
                       el2_timer_flag := g_el2_flag g, s_el1_timer_gsiv := g_s_el1_gsiv g,
                       ns_el1_timer_gsiv := g_ns_el1_gsiv g, el2_timer_gsiv := g_el2_gsiv g,
                       virtual_timer_flag := g_virt_flag g, virtual_timer_gsiv := g_virt_gsiv g\<rparr>;
             (t, s) \<leftarrow> block_loop (unat (PlatformTimerCount g)) (platform_timers g) 0 (t, s);
             let s = pal_pe_data_cache_clean_invalidate (LVar ''TimerTable'') s;
             Some (t, s\<lparr>sg := (sg s)\<lparr>g_sys_timertable := Some t\<rparr>\<rparr>) })"

definition val_timer_create_info_table ::
    "hw \<Rightarrow> gtdt option \<Rightarrow> timer_info_table_t option \<Rightarrow> sworld \<Rightarrow> sworld option" where
  "val_timer_create_info_table hw g table s =
     (case table of
        None \<Rightarrow> Some (sdei_pal_print ACS_LOG_ERR ''Input for Create Info table cannot be NULL'' [] s)
      | Some t \<Rightarrow> do {
          (t, s) \<leftarrow> pal_timer_create_info_table g t s;
          let s = s\<lparr>sg := (sg s)\<lparr>g_timer_info_table := Some t\<rparr>\<rparr>;
          let s = val_timer_set_phy_el1 hw 0 s;
          let s = sdei_pal_print ACS_LOG_TEST ''TIMER_INFO: Number of system timers  : %4d''
                    [ucast (num_platform_timer t)] s;
          Some (pal_pe_data_cache_clean_invalidate (LVar ''g_timer_info_table'') s) })"

fun wd_loop :: "nat \<Rightarrow> gtdt_entry list \<Rightarrow> nat \<Rightarrow> wd_info_table_t \<times> sworld \<Rightarrow> (wd_info_table_t \<times> sworld) option" where
  "wd_loop 0 es k ts = Some ts"
| "wd_loop (Suc n) [] k ts = None"
| "wd_loop (Suc n) (e # es) k (t, s) =
     (case e of
        SbsaWatchdog w \<Rightarrow>
          do { ws \<leftarrow> set_at k w (wd_info t);
               let s = pal_pe_data_cache_clean_invalidate (LVar ''WdEntry'') s;
               let t = t\<lparr>wd_info := ws, num_wd := num_wd t + 1\<rparr>;
               let s = sdei_pal_print ACS_LOG_INFO ''Watchdog base = 0x%x INTID = 0x%x''
                         [wd_ctrl_base w, ucast (wd_gsiv w)] s;
               wd_loop n es (k + 1) (t, s) }
      | _ \<Rightarrow> wd_loop n es k (t, s))"

definition pal_wd_create_info_table ::
    "gtdt option \<Rightarrow> wd_info_table_t \<Rightarrow> sworld \<Rightarrow> ((u32 \<times> wd_info_table_t) \<times> sworld) option" where
  "pal_wd_create_info_table g t s =
     (let t = t\<lparr>num_wd := 0\<rparr>
      in case g of
           None \<Rightarrow> Some ((1, t), sdei_pal_print ACS_LOG_ERR ''GTDT not found'' [] s)
         | Some g \<Rightarrow> do {
             (t, s) \<leftarrow> wd_loop (unat (PlatformTimerCount g)) (platform_timers g) 0 (t, s);
             Some ((0, t), pal_pe_data_cache_clean_invalidate (LVar ''WdTable'') s) })"

subsection \<open>Watchdogs\<close>

datatype WD_INFO_TYPE =
  WD_INFO_COUNT | WD_INFO_CTRL_BASE | WD_INFO_REFRESH_BASE | WD_INFO_GSIV | WD_INFO_ISSECURE | WD_INFO_OTHER

definition val_wd_get_info :: "u32 \<Rightarrow> WD_INFO_TYPE \<Rightarrow> sworld \<Rightarrow> u64 option" where
  "val_wd_get_info index info_type s =
     (case g_wd_info_table (sg s) of
        None \<Rightarrow> Some 0
      | Some t \<Rightarrow>
          (case info_type of
             WD_INFO_COUNT \<Rightarrow> Some (ucast (num_wd t))
           | WD_INFO_CTRL_BASE \<Rightarrow> map_option wd_ctrl_base (at (wd_info t) (unat index))
           | WD_INFO_REFRESH_BASE \<Rightarrow> map_option wd_refresh_base (at (wd_info t) (unat index))
           | WD_INFO_GSIV \<Rightarrow> map_option (\<lambda>w. ucast (wd_gsiv w)) (at (wd_info t) (unat index))
           | WD_INFO_ISSECURE \<Rightarrow>
               map_option (\<lambda>w. ucast (drop_bit 2 (wd_flags w) AND 1)) (at (wd_info t) (unat index))
           | WD_INFO_OTHER \<Rightarrow> Some 0))"

definition val_wd_create_info_table ::
    "gtdt option \<Rightarrow> wd_info_table_t option \<Rightarrow> sworld \<Rightarrow> (u32 \<times> sworld) option" where
  "val_wd_create_info_table g table s =
     (case table of
        None \<Rightarrow> Some (1, sdei_pal_print ACS_LOG_ERR ''Input for Create Info table cannot be NULL'' [] s)
      | Some t \<Rightarrow> do {
          ((ret, t), s) \<leftarrow> pal_wd_create_info_table g t s;
          let s = s\<lparr>sg := (sg s)\<lparr>g_wd_info_table := Some t\<rparr>\<rparr>;
          n \<leftarrow> val_wd_get_info 0 WD_INFO_COUNT s;
          let s = sdei_pal_print ACS_LOG_INFO ''WATCHDOG_INFO: Number of Watchdogs   : %lld'' [n] s;
          Some (ret, pal_pe_data_cache_clean_invalidate (LVar ''g_wd_info_table'') s) })"

definition WD_REG_CTRL :: u64 where [reg_defs]: "WD_REG_CTRL = 0x8"
definition WD_REG_BASE :: u64 where [reg_defs]: "WD_REG_BASE = 0x0"
definition WD_ENABLE :: u32 where [reg_defs]: "WD_ENABLE = 0x1"
definition WD_DISABLE :: u32 where [reg_defs]: "WD_DISABLE = 0x0"

definition wd_ctrl :: "u32 \<Rightarrow> sworld \<Rightarrow> u64 option" where
  "wd_ctrl index s =
     do { t \<leftarrow> g_wd_info_table (sg s); w \<leftarrow> at (wd_info t) (unat index); Some (wd_ctrl_base w) }"

definition val_wd_enable :: "u32 \<Rightarrow> sworld \<Rightarrow> sworld option" where
  "val_wd_enable index s = do { b \<leftarrow> wd_ctrl index s; Some (sdei_val_mmio_write b 1 s) }"

definition val_wd_disable :: "u32 \<Rightarrow> sworld \<Rightarrow> sworld option" where
  "val_wd_disable index s = do { b \<leftarrow> wd_ctrl index s; Some (sdei_val_mmio_write b 0 s) }"

definition pal_wd_set_ws0 :: "u64 \<Rightarrow> u32 \<Rightarrow> sworld \<Rightarrow> sworld" where
  "pal_wd_set_ws0 base timeout s =
     (if timeout = 0 then sdei_pal_mmio_write (base + WD_REG_BASE) WD_DISABLE s
      else sdei_pal_mmio_write (base + WD_REG_BASE) WD_ENABLE
             (sdei_pal_mmio_write (base + WD_REG_CTRL) timeout s))"

definition val_wd_set_ws0 :: "u32 \<Rightarrow> u32 \<Rightarrow> sworld \<Rightarrow> sworld option" where
  "val_wd_set_ws0 index timeout s = do { b \<leftarrow> wd_ctrl index s; Some (pal_wd_set_ws0 b timeout s) }"

text \<open>The watchdogs of the GTDT, in the order of their structures.\<close>

fun watchdogs :: "gtdt_entry list \<Rightarrow> wd_info_entry_t list" where
  "watchdogs [] = []"
| "watchdogs (SbsaWatchdog w # es) = w # watchdogs es"
| "watchdogs (_ # es) = watchdogs es"

lemma wd_loop_run:
  "k + length (watchdogs es) \<le> length (wd_info t) \<Longrightarrow>
     \<exists>t' s'. wd_loop (length es) es k (t, s) = Some (t', s') \<and>
       wd_info t' = write_at k (watchdogs es) (wd_info t) \<and>
       num_wd t' = num_wd t + of_nat (length (watchdogs es))"
proof (induction es arbitrary: k t s)
  case Nil
  then show ?case by (simp add: write_at_def)
next
  case (Cons e es)
  show ?case
  proof (cases e)
    case (SbsaWatchdog w)
    have k: "k < length (wd_info t)" using Cons.prems SbsaWatchdog by simp
    let ?t = "t\<lparr>wd_info := (wd_info t)[k := w], num_wd := num_wd t + 1\<rparr>"
    have "write_at (Suc k) ys ((wd_info t)[k := w]) = write_at k (w # ys) (wd_info t)" for ys
      using k by (simp add: write_at_def take_Suc_conv_app_nth drop_update_cancel)
    then show ?thesis
      using Cons.IH [where k = "Suc k" and t = ?t] Cons.prems SbsaWatchdog k
      by (fastforce simp: set_at_def Let_def algebra_simps)
  qed (use Cons in auto)
qed

text \<open>The watchdog table: with room for them, the table holds exactly the watchdogs of the GTDT in
  order, and arming watchdog number k then writes first the time-out and then the enable bit to
  the control frame of the k-th of them (and only clears the enable bit for time-out 0).\<close>

theorem watchdog_table_armed:
  assumes "unat (PlatformTimerCount g) = length (platform_timers g)" "ws = watchdogs (platform_timers g)"
    and "length ws \<le> length (wd_info old)" "k < length ws" "length ws < 2 ^ 32"
  shows "\<exists>u v. val_wd_create_info_table (Some g) (Some old) s = Some (0, u) \<and>
     val_wd_get_info 0 WD_INFO_COUNT u = Some (of_nat (length ws)) \<and>
     val_wd_set_ws0 (of_nat k) timeout u = Some v \<and>
     io v = (if timeout = 0 then [MmioWrite (wd_ctrl_base (ws ! k)) 0]
             else [MmioWrite (wd_ctrl_base (ws ! k)) 1, MmioWrite (wd_ctrl_base (ws ! k) + 8) timeout]) @ io u"
proof -
  obtain t' s' where t: "wd_loop (length (platform_timers g)) (platform_timers g) 0 (old\<lparr>num_wd := 0\<rparr>, s) = Some (t', s')"
      "wd_info t' = write_at 0 ws (wd_info old)" "num_wd t' = of_nat (length ws)"
    using wd_loop_run [of 0 "platform_timers g" "old\<lparr>num_wd := 0\<rparr>" s] assms(2,3) by auto
  obtain u where u: "val_wd_create_info_table (Some g) (Some old) s = Some (0, u)" "g_wd_info_table (sg u) = Some t'"
    using t(1) assms(1)
    by (simp add: val_wd_create_info_table_def pal_wd_create_info_table_def val_wd_get_info_def Let_def
        pal_pe_data_cache_clean_invalidate_def)
  have k: "unat (of_nat k :: u32) = k" using assms(4,5) by (simp add: unat_of_nat)
  have "at (wd_info t') k = Some (ws ! k)"
    using t(2) assms(3,4) by (simp add: write_at_def at_def nth_append)
  then have c: "wd_ctrl (of_nat k) u = Some (wd_ctrl_base (ws ! k))" using u(2) k by (simp add: wd_ctrl_def)
  have "(ucast (of_nat (length ws) :: u32) :: u64) = of_nat (length ws)"
  proof -
    have "unat (of_nat (length ws) :: u32) = length ws" using assms(5) by (simp add: unat_of_nat)
    then show ?thesis by (metis of_nat_unat)
  qed
  then have n: "val_wd_get_info 0 WD_INFO_COUNT u = Some (of_nat (length ws))"
    using u(2) t(3) by (simp add: val_wd_get_info_def)
  show ?thesis
    using u(1) n c by (simp add: val_wd_set_ws0_def pal_wd_set_ws0_def sdei_pal_mmio_write_def reg_defs log_io_def)
qed

subsection \<open>Looking up a platform timer\<close>

text \<open>The loop compares with \<open>>\<close>: number and count may be equal when it stops.\<close>

fun entry_loop :: "timer_info_gtblock_t list \<Rightarrow> 'a::len word \<Rightarrow> u32 \<Rightarrow> (u32 \<times> u32) option" where
  "entry_loop [] inst block = None"
| "entry_loop (b # bs) inst block =
     (if inst > ucast (timer_count b) then entry_loop bs (inst - ucast (timer_count b)) (block + 1)
      else Some (block, ucast inst))"

definition val_platform_timer_get_entry_index :: "u64 \<Rightarrow> sworld \<Rightarrow> (u32 \<times> u32 option) option" where
  "val_platform_timer_get_entry_index inst s =
     do { t \<leftarrow> g_timer_info_table (sg s);
          if inst > ucast (num_platform_timer t) then Some (0xFFFF, None)
          else do { (b, i) \<leftarrow> entry_loop (gt_info t) inst 0; Some (b, Some i) } }"

definition pal_platform_timer_get_entry_index :: "u32 \<Rightarrow> sworld \<Rightarrow> (u32 \<times> u32 option) option" where
  "pal_platform_timer_get_entry_index index s =
     do { t \<leftarrow> g_sys_timertable (sg s);
          if index > num_platform_timer t then Some (INVALID_INDEX, None)
          else do { (b, i) \<leftarrow> entry_loop (gt_info t) index 0; Some (b, Some i) } }"

text \<open>What a look-up by number is for: the frame number \<open>n\<close> counted through all blocks.\<close>

fun nth_frame :: "timer_info_gtblock_t list \<Rightarrow> nat \<Rightarrow> nat \<Rightarrow> (nat \<times> nat) option" where
  "nth_frame [] n block = None"
| "nth_frame (b # bs) n block =
     (if n < unat (timer_count b) then Some (block, n)
      else nth_frame bs (n - unat (timer_count b)) (block + 1))"

fun count_loop :: "timer_info_gtblock_t list \<Rightarrow> nat \<Rightarrow> nat \<Rightarrow> (nat \<times> nat) option" where
  "count_loop [] n block = None"
| "count_loop (b # bs) n block =
     (if unat (timer_count b) < n then count_loop bs (n - unat (timer_count b)) (block + 1)
      else Some (block, n))"

lemma entry_loop_nat:
  assumes "32 \<le> LENGTH('a)"
  shows "entry_loop bs (inst :: 'a::len word) (of_nat k) =
     map_option (\<lambda>(b, i). (of_nat b, of_nat i)) (count_loop bs (unat inst) k)"
proof (induction bs arbitrary: inst k)
  case (Cons b bs)
  have c: "unat (ucast (timer_count b) :: 'a word) = unat (timer_count b)"
  proof (rule unat_ucast_small)
    have "(2 :: nat) ^ LENGTH(32) \<le> 2 ^ LENGTH('a)" using assms by (intro power_increasing) simp_all
    then show "unat (timer_count b) < 2 ^ LENGTH('a)" by (rule less_le_trans [OF unsigned_less])
  qed
  show ?case
  proof (cases "unat (timer_count b) < unat inst")
    case True
    then have "unat (inst - ucast (timer_count b)) = unat inst - unat (timer_count b)"
      using c by (subst unat_sub) (simp_all add: word_le_nat_alt)
    then show ?thesis using True c Cons.IH [of "inst - ucast (timer_count b)" "Suc k"]
      by (simp add: word_less_nat_alt add.commute)
  next
    case False
    then show ?thesis using c by (simp add: word_less_nat_alt)
  qed
qed simp

lemma count_loop_block: "count_loop bs n k = Some (b, i) \<Longrightarrow> k \<le> b"
  by (induction bs arbitrary: n k) (fastforce split: if_splits)+

lemma nth_frame_block: "nth_frame bs n k = Some (b, i) \<Longrightarrow> k \<le> b"
  by (induction bs arbitrary: n k) (fastforce split: if_splits)+

lemma nth_frame_zero: "nth_frame bs 0 k = Some (b, i) \<Longrightarrow> i = 0"
  by (induction bs arbitrary: k) (auto split: if_splits)

lemma nth_frame_first: "nth_frame bs n k = Some (k, i) \<Longrightarrow> i = n"
  by (cases bs) (auto dest: nth_frame_block split: if_splits)

lemma count_loop_vs_frame:
  assumes "nth_frame bs n k = Some (b, i)"
  shows "if b = k \<or> 0 < i then count_loop bs n k = Some (b, i)
     else \<exists>j. count_loop bs n k = Some (j, unat (timer_count (bs ! (j - k)))) \<and> k \<le> j \<and> j < b"
  using assms
proof (induction bs arbitrary: n k)
  case (Cons c bs)
  show ?case
  proof (cases "n < unat (timer_count c)")
    case True
    then show ?thesis using Cons.prems by auto
  next
    case False
    then have f: "nth_frame bs (n - unat (timer_count c)) (Suc k) = Some (b, i)" using Cons.prems by simp
    note b = nth_frame_block [OF f]
    show ?thesis
    proof (cases "n = unat (timer_count c)")
      case True
      then have "i = 0" using f nth_frame_zero by simp
      then show ?thesis using True b by auto
    next
      case False
      have "b = Suc k \<longrightarrow> 0 < i" using f nth_frame_first False \<open>\<not> n < unat (timer_count c)\<close> by fastforce
      then show ?thesis using False Cons.IH [OF f] b \<open>\<not> n < unat (timer_count c)\<close>
        by (auto split: if_splits simp: Suc_diff_le)
    qed
  qed
qed simp

text \<open>A platform timer by its number: the look-up agrees with counting the frames through the blocks
  for every frame of the first block and for every frame but the first of a later block; for the
  first frame of a later block it returns an earlier block and, as index, that block's number of
  frames, which is one past its last frame.\<close>

theorem platform_timer_lookup:
  assumes "g_timer_info_table (sg s) = Some t" "inst \<le> ucast (num_platform_timer t)"
    and "nth_frame (gt_info t) (unat inst) 0 = Some (b, i)"
  shows "if b = 0 \<or> 0 < i
     then val_platform_timer_get_entry_index inst s = Some (of_nat b, Some (of_nat i))
     else \<exists>j<b. val_platform_timer_get_entry_index inst s = Some (of_nat j, Some (timer_count (gt_info t ! j)))"
proof -
  have "\<not> ucast (num_platform_timer t) < inst" using assms(2) by simp
  then have e: "val_platform_timer_get_entry_index inst s =
      map_option (\<lambda>(b, i). (of_nat b, Some (of_nat i))) (count_loop (gt_info t) (unat inst) 0)"
    using assms(1) entry_loop_nat [of "gt_info t" inst 0]
    by (cases "count_loop (gt_info t) (unat inst) 0") (auto simp: val_platform_timer_get_entry_index_def)
  show ?thesis using count_loop_vs_frame [OF assms(3)] e by (auto split: if_splits)
qed

datatype timer_info_t =
  TIMER_INFO_CNTFREQ | TIMER_INFO_PHY_EL1_INTID | TIMER_INFO_PHY_EL1_FLAGS | TIMER_INFO_VIR_EL1_INTID
| TIMER_INFO_VIR_EL1_FLAGS | TIMER_INFO_PHY_EL2_INTID | TIMER_INFO_PHY_EL2_FLAGS | TIMER_INFO_VIR_EL2_INTID
| TIMER_INFO_VIR_EL2_FLAGS | TIMER_INFO_NUM_PLATFORM_TIMERS | TIMER_INFO_IS_PLATFORM_TIMER_SECURE
| TIMER_INFO_SYS_CNTL_BASE | TIMER_INFO_SYS_CNT_BASE_N | TIMER_INFO_SYS_INTID | TIMER_INFO_SYS_TIMER_STATUS

text \<open>A value of the frame that the look-up selects.\<close>

definition frame_value ::
    "timer_info_table_t \<Rightarrow> u32 \<times> u32 option \<Rightarrow> u32 \<Rightarrow> (timer_info_gtblock_t \<Rightarrow> 'v list) \<Rightarrow> ('v \<Rightarrow> u64) \<Rightarrow> u64 option" where
  "frame_value t bi missing sel f =
     (if fst bi = missing then Some (ucast INVALID_INDEX)
      else do { i \<leftarrow> snd bi; b \<leftarrow> at (gt_info t) (unat (fst bi)); v \<leftarrow> at (sel b) (unat i); Some (f v) })"

definition secure_bit :: "u32 \<Rightarrow> u64" where
  "secure_bit fl = ucast (drop_bit 16 fl AND 1)"

definition val_timer_get_info :: "hw \<Rightarrow> timer_info_t \<Rightarrow> u64 \<Rightarrow> sworld \<Rightarrow> (u64 \<times> sworld) option" where
  "val_timer_get_info hw info_type inst s =
     (case g_timer_info_table (sg s) of
        None \<Rightarrow> Some (0, s)
      | Some t \<Rightarrow>
          (case info_type of
             TIMER_INFO_CNTFREQ \<Rightarrow> Some (ArmArchTimerReadReg hw CntFrq s)
           | TIMER_INFO_PHY_EL1_INTID \<Rightarrow> Some (ucast (ns_el1_timer_gsiv t), s)
           | TIMER_INFO_VIR_EL1_INTID \<Rightarrow> Some (ucast (virtual_timer_gsiv t), s)
           | TIMER_INFO_PHY_EL2_INTID \<Rightarrow> Some (ucast (el2_timer_gsiv t), s)
           | TIMER_INFO_VIR_EL2_INTID \<Rightarrow> Some (ucast (el2_virt_timer_gsiv t), s)
           | TIMER_INFO_NUM_PLATFORM_TIMERS \<Rightarrow> Some (ucast (num_platform_timer t), s)
           | TIMER_INFO_IS_PLATFORM_TIMER_SECURE \<Rightarrow>
               do { bi \<leftarrow> val_platform_timer_get_entry_index inst s;
                    v \<leftarrow> frame_value t bi 0xFFFF tflags secure_bit; Some (v, s) }
           | TIMER_INFO_SYS_CNTL_BASE \<Rightarrow>
               do { bi \<leftarrow> val_platform_timer_get_entry_index inst s;
                    if fst bi = 0xFFFF then Some (ucast INVALID_INDEX, s)
                    else do { b \<leftarrow> at (gt_info t) (unat (fst bi)); Some (block_cntl_base b, s) } }
           | TIMER_INFO_SYS_CNT_BASE_N \<Rightarrow>
               do { bi \<leftarrow> val_platform_timer_get_entry_index inst s;
                    v \<leftarrow> frame_value t bi 0xFFFF GtCntBase id; Some (v, s) }
           | TIMER_INFO_SYS_INTID \<Rightarrow>
               do { bi \<leftarrow> val_platform_timer_get_entry_index inst s;
                    v \<leftarrow> frame_value t bi 0xFFFF tgsiv ucast; Some (v, s) }
           | TIMER_INFO_PHY_EL1_FLAGS \<Rightarrow> Some (ucast (ns_el1_timer_flag t), s)
           | TIMER_INFO_VIR_EL1_FLAGS \<Rightarrow> Some (ucast (virtual_timer_flag t), s)
           | TIMER_INFO_PHY_EL2_FLAGS \<Rightarrow> Some (ucast (el2_timer_flag t), s)
           | TIMER_INFO_SYS_TIMER_STATUS \<Rightarrow> Some (ucast (sys_timer_status t), s)
           | TIMER_INFO_VIR_EL2_FLAGS \<Rightarrow> Some (0, s)))"

definition val_timer_set_system_timer :: "u64 \<Rightarrow> u32 \<Rightarrow> sworld \<Rightarrow> sworld" where
  "val_timer_set_system_timer cnt_base_n timeout s =
     sdei_val_mmio_write (cnt_base_n + 0x2C) 1 (sdei_val_mmio_write (cnt_base_n + 0x28) timeout s)"

definition val_timer_disable_system_timer :: "u64 \<Rightarrow> sworld \<Rightarrow> sworld" where
  "val_timer_disable_system_timer cnt_base_n s = sdei_val_mmio_write (cnt_base_n + 0x2C) 0 s"

definition SDEI_TEST_SKIP :: u32 where [reg_defs]: "SDEI_TEST_SKIP = 0x7"

text \<open>The access bit of CNTACR is tried when it is not set; an invalid base is used like a valid one.\<close>

definition val_timer_skip_if_cntbase_access_not_allowed :: "hw \<Rightarrow> u64 \<Rightarrow> sworld \<Rightarrow> (u32 \<times> sworld) option" where
  "val_timer_skip_if_cntbase_access_not_allowed hw index s =
     do { (cnt_ctl_base, s) \<leftarrow> val_timer_get_info hw TIMER_INFO_SYS_CNTL_BASE index s;
          if cnt_ctl_base \<noteq> 0
          then (let (data, s) = sdei_val_mmio_read hw (cnt_ctl_base + 0x40) s
                in if data AND 1 = 1 then Some (0, s)
                   else (let s = sdei_val_mmio_write (cnt_ctl_base + 0x40) (data OR 1) s;
                             (data, s) = sdei_val_mmio_read hw (cnt_ctl_base + 0x40) s
                         in Some (if data AND 1 = 1 then 0 else SDEI_TEST_SKIP, s)))
          else Some (SDEI_TEST_SKIP, s) }"

subsection \<open>A second interrupt\<close>

definition pal_timer_get_info ::
    "u32 \<Rightarrow> (timer_info_gtblock_t \<Rightarrow> 'v list) \<Rightarrow> ('v \<Rightarrow> u64) \<Rightarrow> sworld \<Rightarrow> u64 option" where
  "pal_timer_get_info index sel f s =
     (case g_sys_timertable (sg s) of
        None \<Rightarrow> Some (ucast INVALID_INDEX)
      | Some t \<Rightarrow> do { bi \<leftarrow> pal_platform_timer_get_entry_index index s; frame_value t bi INVALID_INDEX sel f })"

text \<open>The search runs from the last timer to the first and stops at one that is not secure.\<close>

fun second_loop :: "nat \<Rightarrow> sworld \<Rightarrow> (u32 \<times> u64) option option" where
  "second_loop 0 s = Some None"
| "second_loop (Suc n) s =
     do { sec \<leftarrow> pal_timer_get_info (of_nat n) tflags secure_bit s;
          if sec \<noteq> 0 then second_loop n s
          else do { intid \<leftarrow> pal_timer_get_info (of_nat n) tgsiv ucast s; Some (Some (of_nat n, intid)) } }"

definition pal_configure_second_interrupt :: "sworld \<Rightarrow> ((u32 \<times> (u32 \<times> u64) option) \<times> sworld) option" where
  "pal_configure_second_interrupt s =
     do { t \<leftarrow> g_sys_timertable (sg s);
          if num_platform_timer t = 0
          then Some ((ACS_ERROR, None), sdei_pal_print ACS_LOG_ERR ''No System timers are defined'' [] s)
          else do { r \<leftarrow> second_loop (unat (num_platform_timer t)) s;
                    Some (case r of
                      None \<Rightarrow> ((ACS_ERROR, None),
                        sdei_pal_print ACS_LOG_ERR ''No non-secure systimer implemented'' [] s)
                    | Some x \<Rightarrow> ((ACS_SUCCESS, Some x), s)) } }"

definition pal_generate_second_interrupt :: "u32 \<Rightarrow> u32 \<Rightarrow> sworld \<Rightarrow> sworld option" where
  "pal_generate_second_interrupt index timeout s =
     do { cnt_base_n \<leftarrow> pal_timer_get_info index GtCntBase id s;
          Some (sdei_pal_mmio_write (cnt_base_n + 0x2C) 1 (sdei_pal_mmio_write (cnt_base_n + 0x28) timeout s)) }"

definition pal_disable_second_interrupt :: "u32 \<Rightarrow> sworld \<Rightarrow> sworld option" where
  "pal_disable_second_interrupt index s =
     do { cnt_base_n \<leftarrow> pal_timer_get_info index GtCntBase id s;
          Some (sdei_pal_mmio_write (cnt_base_n + 0x2C) 0 s) }"

definition val_configure_second_interrupt :: "sworld \<Rightarrow> ((u32 \<times> (u32 \<times> u64) option) \<times> sworld) option" where
  "val_configure_second_interrupt s = pal_configure_second_interrupt s"

definition val_generate_second_interrupt :: "u32 \<Rightarrow> u32 \<Rightarrow> sworld \<Rightarrow> sworld option" where
  "val_generate_second_interrupt index timeout s = pal_generate_second_interrupt index timeout s"

definition val_disable_second_interrupt :: "u32 \<Rightarrow> sworld \<Rightarrow> sworld option" where
  "val_disable_second_interrupt index s = pal_disable_second_interrupt index s"

lemma pal_timer_first_block:
  assumes "g_sys_timertable (sg s) = Some t" "gt_info t = b # bs" "num_platform_timer t = timer_count b"
    and "i < unat (timer_count b)" "i < length (sel b)"
  shows "pal_timer_get_info (of_nat i) sel f s = Some (f (sel b ! i))"
proof -
  have i: "unat (of_nat i :: u32) = i" using assms(4) by (rule unat_of_nat_below)
  then have "\<not> timer_count b < of_nat i" using assms(4) by (simp add: word_less_nat_alt)
  then show ?thesis
    using assms i by (simp add: pal_timer_get_info_def pal_platform_timer_get_entry_index_def frame_value_def
      INVALID_INDEX_def)
qed

lemma second_loop_find:
  assumes "g_sys_timertable (sg s) = Some t" "gt_info t = b # bs" "num_platform_timer t = timer_count b"
    and "unat (timer_count b) \<le> length (tflags b)" "unat (timer_count b) \<le> length (tgsiv b)"
  shows "n \<le> unat (timer_count b) \<Longrightarrow> second_loop n s =
     Some (map_option (\<lambda>i. (of_nat i, ucast (tgsiv b ! i))) (find (\<lambda>i. secure_bit (tflags b ! i) = 0) (rev [0..<n])))"
proof (induction n)
  case (Suc n)
  then show ?case
    using pal_timer_first_block [OF assms(1-3), of n tflags secure_bit]
      pal_timer_first_block [OF assms(1-3), of n tgsiv ucast] assms(4,5) by simp
qed simp

text \<open>The second interrupt: on a platform whose timers are one block, the timer chosen is the
  non-secure frame with the highest number, reported with its own number and interrupt, and an
  error is returned exactly when there is no timer or all are secure.\<close>

theorem second_interrupt_choice:
  assumes "g_sys_timertable (sg s) = Some t" "gt_info t = b # bs" "num_platform_timer t = timer_count b"
    and "unat (timer_count b) \<le> length (tflags b)" "unat (timer_count b) \<le> length (tgsiv b)"
  shows "map_option fst (pal_configure_second_interrupt s) =
     Some (case find (\<lambda>i. secure_bit (tflags b ! i) = 0) (rev [0..<unat (timer_count b)]) of
        None \<Rightarrow> (ACS_ERROR, None)
      | Some i \<Rightarrow> (ACS_SUCCESS, Some (of_nat i, ucast (tgsiv b ! i))))"
  using assms second_loop_find [OF assms, of "unat (timer_count b)"]
  by (cases "timer_count b = 0") (auto simp: pal_configure_second_interrupt_def split: option.split)

subsection \<open>Witnesses\<close>

definition timer_block :: "u32 \<Rightarrow> timer_info_gtblock_t" where
  "timer_block n = \<lparr>timer_count = n, block_cntl_base = 0x2A810000, GtCntBase = [0x2A820000, 0x2A830000],
     GtCntEl0Base = [0, 0], tgsiv = [90, 91], tvirt_gsiv = [0, 0], tflags = [0, 0x10000]\<rparr>"

definition timer_table :: "timer_info_gtblock_t list \<Rightarrow> u32 \<Rightarrow> timer_info_table_t" where
  "timer_table bs n = \<lparr>s_el1_timer_flag = 0, ns_el1_timer_flag = 0, el2_timer_flag = 0, el2_virt_timer_flag = 0,
     s_el1_timer_gsiv = 29, ns_el1_timer_gsiv = 30, el2_timer_gsiv = 26, virtual_timer_flag = 0,
     virtual_timer_gsiv = 27, el2_virt_timer_gsiv = 0, num_platform_timer = n, sys_timer_status = 0, gt_info = bs\<rparr>"

definition timer_world :: "timer_info_table_t \<Rightarrow> sworld" where
  "timer_world t = sdei_world0\<lparr>sg := (sg sdei_world0)\<lparr>g_timer_info_table := Some t, g_sys_timertable := Some t\<rparr>\<rparr>"

lemma platform_timer_lookup_witness:
  "val_platform_timer_get_entry_index 2 (timer_world (timer_table [timer_block 2, timer_block 2] 4)) = Some (0, Some 2)"
proof -
  let ?t = "timer_table [timer_block 2, timer_block 2] 4"
  have "nth_frame (gt_info ?t) (unat (2 :: u64)) 0 = Some (1, 0)"
    by (simp add: timer_table_def timer_block_def)
  then show ?thesis
    using platform_timer_lookup [of "timer_world ?t" ?t 2 1 0]
    by (simp add: timer_world_def) (simp add: timer_table_def timer_block_def)
qed

lemma second_interrupt_choice_witness:
  "map_option fst (pal_configure_second_interrupt (timer_world (timer_table [timer_block 2] 2))) =
     Some (ACS_SUCCESS, Some (0, 90))"
proof -
  have r: "rev [0..<2] = [1, 0 :: nat]" by (simp add: upt_rec)
  show ?thesis
    using second_interrupt_choice [of "timer_world (timer_table [timer_block 2] 2)" "timer_table [timer_block 2] 2"
        "timer_block 2" "[]"]
    by (simp add: timer_world_def) (simp add: timer_table_def timer_block_def r secure_bit_def)
qed

lemma watchdog_table_armed_witness:
  "\<exists>u v. val_wd_create_info_table
      (Some \<lparr>g_s_el1_flag = 0, g_ns_el1_flag = 0, g_el2_flag = 0, g_s_el1_gsiv = 29, g_ns_el1_gsiv = 30,
         g_el2_gsiv = 26, g_virt_flag = 0, g_virt_gsiv = 27, PlatformTimerCount = 2, platform_timers =
           [OtherGtdtEntry, SbsaWatchdog \<lparr>wd_ctrl_base = 0x2A440000, wd_refresh_base = 0x2A450000, wd_gsiv = 93, wd_flags = 0\<rparr>]\<rparr>)
      (Some \<lparr>num_wd = 9, wd_info = [\<lparr>wd_ctrl_base = 0, wd_refresh_base = 0, wd_gsiv = 0, wd_flags = 0\<rparr>]\<rparr>) sdei_world0 = Some (0, u) \<and>
     val_wd_set_ws0 0 5 u = Some v \<and> io v = [MmioWrite 0x2A440000 1, MmioWrite 0x2A440008 5] @ io u"
  using watchdog_table_armed [of
      "\<lparr>g_s_el1_flag = 0, g_ns_el1_flag = 0, g_el2_flag = 0, g_s_el1_gsiv = 29, g_ns_el1_gsiv = 30,
         g_el2_gsiv = 26, g_virt_flag = 0, g_virt_gsiv = 27, PlatformTimerCount = 2, platform_timers =
           [OtherGtdtEntry, SbsaWatchdog \<lparr>wd_ctrl_base = 0x2A440000, wd_refresh_base = 0x2A450000, wd_gsiv = 93, wd_flags = 0\<rparr>]\<rparr>"
      "[\<lparr>wd_ctrl_base = 0x2A440000, wd_refresh_base = 0x2A450000, wd_gsiv = 93, wd_flags = 0\<rparr>]"
      "\<lparr>num_wd = 9, wd_info = [\<lparr>wd_ctrl_base = 0, wd_refresh_base = 0, wd_gsiv = 0, wd_flags = 0\<rparr>]\<rparr>" 0 sdei_world0 5]
  by simp blast

end
