(* ===== verification/Sdei_App.thy ===== *)
theory Sdei_App
  imports Sdei_Tests Sdei_Gic Sdei_Timer Mpam_Suite
begin

text \<open>
  The UEFI application of the SDEI suite (uefi_app/SdeiAcsMain.c): the options that select tests,
  the tables it builds, in their order, the run of the tests and the totals. What the application
  finds on the machine is the record \<open>sdei_platform\<close>: the command line as the UEFI shell library
  parsed it (\<open>app_dec\<close> is its decimal conversion), the ACPI tables, the content of fresh pool memory
  and of the stack, and the bodies of the tests. The copy of the console in the log file is not
  modelled.
\<close>

unbundle bit_operations_syntax

record sdei_platform =
  app_argv :: "string list"
  app_parse_status :: u32
  app_opt_v :: "string option"
  app_opt_f :: "string option"
  app_opt_help :: bool
  app_dec :: "string \<Rightarrow> u64"
  app_acpi :: acpi_view
  app_hest :: hest_view
  app_gtdt :: "gtdt option"
  app_madt :: "madt option"
  fresh_pes :: pe_info_table
  fresh_gics :: gic_info_table
  fresh_events :: event_info_table_t
  fresh_wds :: wd_info_table_t
  fresh_timers :: timer_info_table_t
  app_junk_attr :: u32
  app_junk_gbase :: u64
  stack_control :: sdei_test_control
  app_test_fn :: "nat \<Rightarrow> sworld \<Rightarrow> sworld option"

definition PE_INFO_TABLE_SZ :: u64 where "PE_INFO_TABLE_SZ = 8192"
definition GIC_INFO_TABLE_SZ :: u64 where "GIC_INFO_TABLE_SZ = 8192"
definition EVENT_INFO_TABLE_SZ :: u64 where "EVENT_INFO_TABLE_SZ = 64"
definition WD_INFO_TABLE_SZ :: u64 where "WD_INFO_TABLE_SZ = 512"
definition TIMER_INFO_TABLE_SZ :: u64 where "TIMER_INFO_TABLE_SZ = 1024"

text \<open>\<open>Print\<close> is the UEFI library's and is not filtered by the print level.\<close>

definition Print :: "string \<Rightarrow> u64 list \<Rightarrow> sworld \<Rightarrow> sworld" where
  "Print str args s = s\<lparr>con := (0, str, args) # con s\<rparr>"

definition HelpMsg :: "sworld \<Rightarrow> sworld" where
  "HelpMsg s = Print ''Usage: Sdei.efi [-v <n>] | [-l <n>] | [-f <filename>] | [-s] | [-skip <n>]'' [] s"

subsection \<open>The tables\<close>

definition alloc_table ::
    "hw \<Rightarrow> u64 \<Rightarrow> (sworld \<Rightarrow> (u32 \<times> sworld) option) \<Rightarrow> sworld \<Rightarrow> (u32 \<times> sworld) option" where
  "alloc_table hw n create s =
     (let ((st, _), s) = firmware hw ''AllocatePool'' [n] s
      in if EFI_ERROR st then Some (ucast st, Print ''Allocate Pool failed %x'' [st] s) else create s)"

definition sdei_createPeInfoTable :: "hw \<Rightarrow> sdei_platform \<Rightarrow> sworld \<Rightarrow> (u32 \<times> sworld) option" where
  "sdei_createPeInfoTable hw p s =
     alloc_table hw PE_INFO_TABLE_SZ
       (sdei_val_pe_create_info_table hw (app_madt p) (app_junk_attr p) (Some (fresh_pes p))) s"

definition sdei_createGicInfoTable :: "hw \<Rightarrow> sdei_platform \<Rightarrow> sworld \<Rightarrow> (u32 \<times> sworld) option" where
  "sdei_createGicInfoTable hw p s =
     alloc_table hw GIC_INFO_TABLE_SZ
       (sdei_val_gic_create_info_table (app_madt p) (app_junk_gbase p) (Some (fresh_gics p))) s"

definition createEventInfoTable :: "hw \<Rightarrow> sdei_platform \<Rightarrow> sworld \<Rightarrow> (u32 \<times> sworld) option" where
  "createEventInfoTable hw p s =
     alloc_table hw EVENT_INFO_TABLE_SZ
       (val_sdei_create_event_info_table (app_acpi p) (app_hest p) (Some (fresh_events p))) s"

definition createWatchdogInfoTable :: "hw \<Rightarrow> sdei_platform \<Rightarrow> sworld \<Rightarrow> (u32 \<times> sworld) option" where
  "createWatchdogInfoTable hw p s =
     alloc_table hw WD_INFO_TABLE_SZ (val_wd_create_info_table (app_gtdt p) (Some (fresh_wds p))) s"

definition createTimerInfoTable :: "hw \<Rightarrow> sdei_platform \<Rightarrow> sworld \<Rightarrow> (u32 \<times> sworld) option" where
  "createTimerInfoTable hw p s =
     (let ((st, _), s) = firmware hw ''AllocatePool'' [TIMER_INFO_TABLE_SZ] s
      in if EFI_ERROR st then Some (ucast st, Print ''Allocate Pool failed %x'' [st] s)
         else do { s \<leftarrow> val_timer_create_info_table hw (app_gtdt p) (Some (fresh_timers p)) s;
                   Some (ucast st, s) })"

text \<open>\<open>if (Status) return Status\<close> between the steps of main.\<close>

definition and_then ::
    "(sworld \<Rightarrow> (u32 \<times> sworld) option) \<Rightarrow> (sworld \<Rightarrow> (u32 \<times> sworld) option) \<Rightarrow> sworld \<Rightarrow> (u32 \<times> sworld) option" where
  "and_then f g s = do { (st, s) \<leftarrow> f s; if st \<noteq> 0 then Some (st, s) else g s }"

text \<open>The clean-up leaves PowerOffPe in the mailboxes of the entries from 1 on
  (\<open>Sdei_Mailbox.clean_up_powers_off\<close>); here the PEs that poll one perform the call, one after
  the other.\<close>

definition val_shared_mem_free :: "hw \<Rightarrow> sworld \<Rightarrow> sworld" where
  "val_shared_mem_free hw s =
     (let s = pal_pe_free_shared_mem hw s;
          ms = (case sd_pe_table (sg s) of None \<Rightarrow> []
                | Some t \<Rightarrow> filter (\<lambda>m. m \<noteq> own_mpidr hw) (map mpidr (tl (take (unat (num_of_pe t)) (pe_info t)))))
      in fold (\<lambda>m. PowerOffPe (hw\<lparr>mpidr_in := m\<rparr>)) ms s)"

subsection \<open>Selecting tests on the command line\<close>

text \<open>
  The loop over the arguments leaves its index at 0 after a -skip, at 100 after a -run, and at
  the number of arguments without either; the next argument is the list. There is no argument
  past the last one.
\<close>

fun find_list :: "nat \<Rightarrow> string list \<Rightarrow> (nat \<times> string option) option" where
  "find_list i [] = Some (i, None)"
| "find_list i (a # as) =
     (if a = ''-skip'' then (case as of [] \<Rightarrow> None | b # _ \<Rightarrow> Some (0, Some b))
      else if a = ''-run'' then (case as of [] \<Rightarrow> None | b # _ \<Rightarrow> Some (100, Some b))
      else find_list (i + 1) as)"

fun after_commas ::
    "(u32 \<Rightarrow> sdei_test_control \<Rightarrow> sdei_test_control option) \<Rightarrow> (string \<Rightarrow> u64) \<Rightarrow> string \<Rightarrow>
     sdei_test_control \<Rightarrow> sdei_test_control option" where
  "after_commas f d [] c = Some c"
| "after_commas f d (x # r) c =
     (if x = CHR '','' then do { c \<leftarrow> f (ucast (d r)) c; after_commas f d r c } else after_commas f d r c)"

text \<open>The list of the skip branch is walked with the same index, which ends at the length of the
  list and is then compared with 100.\<close>

definition select_tests :: "sdei_platform \<Rightarrow> sdei_test_desc list \<Rightarrow> sdei_test_control \<Rightarrow> sdei_test_control option" where
  "select_tests p ts c =
     do { (i, arg) \<leftarrow> find_list 1 (tl (app_argv p));
          (i, c) \<leftarrow> (if i = 0
             then do { cmd \<leftarrow> arg;
                       c \<leftarrow> val_test_disable ts (ucast (app_dec p cmd)) c;
                       c \<leftarrow> after_commas (val_test_disable ts) (app_dec p) cmd c;
                       Some (length cmd, c) }
             else Some (i, c));
          if i = 100
          then do { cmd \<leftarrow> arg;
                    c \<leftarrow> val_test_run_specific ts (ucast (app_dec p cmd)) True c;
                    after_commas (\<lambda>n. val_test_run_specific ts n False) (app_dec p) cmd c }
          else Some c }"

definition sdei_verbosity :: "sdei_platform \<Rightarrow> u32" where
  "sdei_verbosity p =
     (case app_opt_v p of None \<Rightarrow> ACS_LOG_TEST
      | Some v \<Rightarrow> let l = ucast (app_dec p v) in if l > 5 then ACS_LOG_TEST else l)"

subsection \<open>Main\<close>

definition open_log :: "hw \<Rightarrow> sdei_platform \<Rightarrow> sworld \<Rightarrow> bool \<times> sworld" where
  "open_log hw p s =
     (case app_opt_f p of None \<Rightarrow> (False, s)
      | Some f \<Rightarrow> (let ((st, h), s) = firmware hw ''ShellOpenFileByName'' [] s
                   in if EFI_ERROR st then (h \<noteq> 0, Print ''Failed to open log file %s'' [] s) else (h \<noteq> 0, s)))"

definition report :: "sdei_test_control \<Rightarrow> sworld \<Rightarrow> sworld" where
  "report c s =
     (let s = Print ''Tests passed  : %d'' [ucast (tests_passed c)] s;
          s = Print ''Tests failed  : %d'' [ucast (tests_failed c)] s;
          s = Print ''Tests skipped : %d'' [ucast (tests_skipped c)] s
      in Print ''Tests aborted : %d'' [ucast (tests_aborted c)] s)"

definition run_suite ::
    "hw \<Rightarrow> sdei_platform \<Rightarrow> sdei_test_desc list \<Rightarrow> sdei_test_control \<Rightarrow> bool \<Rightarrow> sworld \<Rightarrow> (u32 \<times> sworld) option" where
  "run_suite hw p ts c log s =
     do { let (_, s) = val_shared_mem_alloc hw s;
          let c = c\<lparr>tests_passed := 0, tests_failed := 0, tests_skipped := 0, tests_aborted := 0\<rparr>;
          let s = Print ''SDEI Architecture Compliance Suite'' [] s;
          let s = Print ''Version %d.%d'' [1, 0] s;
          (ts, c, s) \<leftarrow> val_test_execute hw (app_test_fn p) (ts, c, s);
          let s = val_shared_mem_free hw (report c s);
          let s = (if log then snd (firmware hw ''ShellCloseFile'' [] s) else s);
          Some (0, Print ''*** SDEI tests complete. Reset the system. ***'' [] s) }"

definition sdei_ShellAppMain :: "hw \<Rightarrow> sdei_platform \<Rightarrow> sworld \<Rightarrow> (u32 \<times> sworld) option" where
  "sdei_ShellAppMain hw p s =
     (let (ts, c) = val_test_init (stack_control p)
      in if app_parse_status p \<noteq> 0
         then Some (2, HelpMsg (Print ''Unrecognized option %s passed'' []
                         (Print ''Shell command line parse error %x'' [ucast (app_parse_status p)] s)))
         else do {
           c \<leftarrow> select_tests p ts c;
           let s = s\<lparr>print_level := sdei_verbosity p\<rparr>;
           let (log, s) = open_log hw p s;
           if app_opt_help p then Some (0, HelpMsg s)
           else do {
             (st, s) \<leftarrow> val_sdei_initialization hw (app_acpi p) s;
             if st \<noteq> 0 then Some (st, sdei_pal_print ACS_LOG_ERR ''SDEI initialization failed'' [] s)
             else and_then (sdei_createPeInfoTable hw p) (and_then (sdei_createGicInfoTable hw p)
                    (and_then (createEventInfoTable hw p) (and_then (createWatchdogInfoTable hw p)
                    (and_then (createTimerInfoTable hw p) (run_suite hw p ts c log))))) s } })"

subsection \<open>What the options select\<close>

lemma after_commas_field:
  "CHR '','' \<notin> set f \<Longrightarrow> after_commas g d (f @ r) c = after_commas g d r c"
  by (induction f) auto

lemma after_commas_fields:
  assumes "\<forall>f\<in>set (f # fs). CHR '','' \<notin> set f" "\<And>f r. CHR '','' \<notin> set f \<Longrightarrow> d (f @ CHR '','' # r) = d f"
  shows "after_commas g d (join (f # fs)) c = for_each (\<lambda>f. g (ucast (d f))) fs c"
  using assms(1)
proof (induction fs arbitrary: f c)
  case Nil
  then show ?case using after_commas_field [of f g d "[]"] by simp
next
  case (Cons h fs)
  have "d (join (h # fs)) = d h" using Cons.prems assms(2) by (cases fs) auto
  moreover have "after_commas g d (join (h # fs)) = for_each (\<lambda>f. g (ucast (d f))) fs"
    using Cons.prems by (intro ext Cons.IH) simp
  ultimately show ?case using Cons.prems by (simp add: after_commas_field)
qed

lemma test_pos_sdei_iff: "test_pos sdei_test n = Some i \<longleftrightarrow> i < SDEI_NUM_TESTS \<and> n = of_nat (i + 1)"
proof
  assume "test_pos sdei_test n = Some i"
  from test_pos_correct(1) [OF this] show "i < SDEI_NUM_TESTS \<and> n = of_nat (i + 1)"
    by (auto simp: published_def)
qed (use test_pos_sdei in blast)

definition enabled_set :: "sdei_test_control \<Rightarrow> nat set" where
  "enabled_set c = {i. i < SDEI_NUM_TESTS \<and> test_enabled c i = Some True}"

definition numbered :: "u32 set \<Rightarrow> nat set" where
  "numbered ns = {i. i < SDEI_NUM_TESTS \<and> of_nat (i + 1) \<in> ns}"

lemma numbered_single:
  "numbered {n} = (case test_pos sdei_test n of None \<Rightarrow> {} | Some i \<Rightarrow> {i})"
proof -
  have "i \<in> numbered {n} \<longleftrightarrow> test_pos sdei_test n = Some i" for i
    unfolding numbered_def test_pos_sdei_iff by blast
  then show ?thesis by (auto split: option.splits)
qed

lemma disable_set:
  assumes "length (test_flags c) = 2"
  shows "\<exists>c'. val_test_disable sdei_test n c = Some c' \<and> length (test_flags c') = 2 \<and>
     enabled_set c' = enabled_set c - numbered {n}"
proof (cases "test_pos sdei_test n")
  case None
  with assms show ?thesis by (simp add: val_test_disable_def numbered_single)
next
  case (Some i)
  note i = Some [unfolded test_pos_sdei_iff]
  from i have "i div 64 < length (test_flags c)" using assms by (simp add: SDEI_NUM_TESTS_def)
  from flag_ops_defined(2) [OF this] obtain c' where c': "disable_test i c = Some c'" by blast
  moreover have "numbered {n} = {i}" using Some by (simp add: numbered_single)
  moreover have "enabled_set c' = enabled_set c - {i}"
    using test_enabled_disable [OF c'] by (auto simp: enabled_set_def)
  ultimately show ?thesis using Some assms flag_ops_length(2) [OF c'] by (simp add: val_test_disable_def)
qed

lemma run_specific_set:
  assumes "length (test_flags c) = 2"
  shows "\<exists>c'. val_test_run_specific sdei_test n init c = Some c' \<and> length (test_flags c') = 2 \<and>
     enabled_set c' = (if init then {} else enabled_set c) \<union> numbered {n}"
proof -
  define z where "z = (if init then c\<lparr>test_flags := (test_flags c)[0 := 0, 1 := 0]\<rparr> else c)"
  have z2: "length (test_flags z) = 2" using assms by (simp add: z_def)
  have zset: "enabled_set z = (if init then {} else enabled_set c)"
    using assms by (auto simp: z_def enabled_set_def test_enabled_def SDEI_NUM_TESTS_def at_eq_Some)
  show ?thesis
  proof (cases "test_pos sdei_test n")
    case None
    with z2 zset show ?thesis by (simp add: val_test_run_specific_def z_def numbered_single)
  next
    case (Some i)
    note i = Some [unfolded test_pos_sdei_iff]
    from i have "i div 64 < length (test_flags z)" using z2 by (simp add: SDEI_NUM_TESTS_def)
    from flag_ops_defined(1) [OF this] obtain c' where c': "enable_test i z = Some c'" by blast
    moreover have "numbered {n} = {i}" using Some by (simp add: numbered_single)
    moreover have "enabled_set c' = insert i (enabled_set z)"
      using test_enabled_enable [OF c'] i by (auto simp: enabled_set_def)
    ultimately show ?thesis using Some z2 zset flag_ops_length(1) [OF c']
      by (simp add: val_test_run_specific_def z_def)
  qed
qed

lemma disable_list:
  assumes "length (test_flags c) = 2"
  shows "\<exists>c'. for_each (\<lambda>n. val_test_disable sdei_test (h n)) ns c = Some c' \<and> length (test_flags c') = 2 \<and>
     enabled_set c' = enabled_set c - numbered (h ` set ns)"
  using assms
proof (induction ns arbitrary: c)
  case Nil
  then show ?case by (simp add: numbered_def)
next
  case (Cons n ns)
  from disable_set [OF Cons.prems, of "h n"] obtain u where u: "val_test_disable sdei_test (h n) c = Some u"
    "length (test_flags u) = 2" "enabled_set u = enabled_set c - numbered {h n}" by blast
  from Cons.IH [OF u(2)] u show ?case by (auto simp: numbered_def)
qed

lemma run_list:
  assumes "length (test_flags c) = 2"
  shows "\<exists>c'. for_each (\<lambda>n. val_test_run_specific sdei_test (h n) False) ns c = Some c' \<and>
     length (test_flags c') = 2 \<and> enabled_set c' = enabled_set c \<union> numbered (h ` set ns)"
  using assms
proof (induction ns arbitrary: c)
  case Nil
  then show ?case by (simp add: numbered_def)
next
  case (Cons n ns)
  from run_specific_set [OF Cons.prems, of "h n" False] obtain u
    where u: "val_test_run_specific sdei_test (h n) False c = Some u"
      "length (test_flags u) = 2" "enabled_set u = enabled_set c \<union> numbered {h n}" by auto
  from Cons.IH [OF u(2)] u show ?case by (auto simp: numbered_def)
qed

lemma all_selected:
  assumes "test_flags c = [NOT 0, NOT 0]"
  shows "enabled_set c = {..<SDEI_NUM_TESTS}"
proof -
  have "test_enabled c i = Some True" if "i < SDEI_NUM_TESTS" for i
    using that assms by (simp add: test_enabled_bit SDEI_NUM_TESTS_def)
  then show ?thesis by (auto simp: enabled_set_def)
qed

text \<open>The tests that main selects for a list of numbers: all but the listed ones after -skip, exactly
  the listed ones after -run. But the index that tells the two branches apart is reused to walk
  the list, so after a -skip whose list is 100 characters long exactly the listed tests are
  selected, the opposite of what was asked for.\<close>

theorem options_select:
  assumes "app_argv p = [prog, opt, join (f # fs)]" "opt = ''-skip'' \<or> opt = ''-run''"
    and "\<forall>f\<in>set (f # fs). CHR '','' \<notin> set f"
    and "\<And>f r. CHR '','' \<notin> set f \<Longrightarrow> app_dec p (f @ CHR '','' # r) = app_dec p f"
    and "val_test_init stack = (ts, c)" "length (test_flags stack) = 2"
  shows "\<exists>c'. select_tests p ts c = Some c' \<and>
     enabled_set c' = (let listed = numbered ((\<lambda>f. ucast (app_dec p f)) ` set (f # fs))
                       in if opt = ''-run'' \<or> length (join (f # fs)) = 100 then listed
                          else {..<SDEI_NUM_TESTS} - listed)"
proof -
  let ?d = "\<lambda>f. ucast (app_dec p f) :: u32" and ?arg = "join (f # fs)"
  have ts: "ts = sdei_test" "test_flags c = [NOT 0, NOT 0]" using assms(5) by (auto simp: val_test_init_def)
  then have two: "length (test_flags c) = 2" by simp
  have d0: "app_dec p ?arg = app_dec p f" using assms(3,4) by (cases fs) auto
  have fields: "after_commas g (app_dec p) ?arg = for_each (\<lambda>f. g (?d f)) fs" for g
    by (rule ext, rule after_commas_fields [OF assms(3,4)])
  have run: "\<exists>c'. (do { c \<leftarrow> val_test_run_specific ts (?d ?arg) True u;
        after_commas (\<lambda>n. val_test_run_specific ts n False) (app_dec p) ?arg c }) = Some c' \<and>
      enabled_set c' = numbered (?d ` set (f # fs))" if u: "length (test_flags u) = 2" for u
  proof -
    obtain v where v: "val_test_run_specific ts (?d f) True u = Some v" "length (test_flags v) = 2"
      "enabled_set v = numbered {?d f}" using run_specific_set [OF u, of "?d f" True] ts(1) by auto
    obtain w where "for_each (\<lambda>f. val_test_run_specific ts (?d f) False) fs v = Some w"
      "enabled_set w = enabled_set v \<union> numbered (?d ` set fs)"
      using run_list [OF v(2), of ?d fs] ts(1) by auto
    with v show ?thesis by (auto simp: d0 fields numbered_def)
  qed
  obtain v where v: "val_test_disable ts (?d f) c = Some v" "length (test_flags v) = 2"
    "enabled_set v = enabled_set c - numbered {?d f}" using disable_set [OF two, of "?d f"] ts(1) by auto
  obtain w where w: "for_each (\<lambda>f. val_test_disable ts (?d f)) fs v = Some w" "length (test_flags w) = 2"
    "enabled_set w = enabled_set v - numbered (?d ` set fs)"
    using disable_list [OF v(2), of ?d fs] ts(1) by auto
  have off: "enabled_set w = {..<SDEI_NUM_TESTS} - numbered (?d ` set (f # fs))"
    using v(3) w(3) all_selected [OF ts(2)] by (auto simp: numbered_def)
  show ?thesis
  proof (cases "opt = ''-run''")
    case True
    then show ?thesis using run [OF two] assms(1) by (simp add: select_tests_def Let_def)
  next
    case False
    then have "opt = ''-skip''" using assms(2) by blast
    then show ?thesis
      using run [OF w(2)] v(1) w(1) off assms(1) by (auto simp: select_tests_def d0 fields Let_def)
  qed
qed

text \<open>Without an SDEI table in ACPI main ends with an error before it builds a table: no firmware call
  is made, no PE is woken and no test runs.\<close>

theorem not_advertised_stops:
  assumes "app_parse_status p = 0" "\<not> app_opt_help p" "app_opt_f p = None"
    and "select_tests p sdei_test (snd (val_test_init (stack_control p))) = Some c"
    and "pal_get_sdei_ptr (app_acpi p) (s\<lparr>print_level := sdei_verbosity p\<rparr>) = Some (0, u)"
  shows "\<exists>t. sdei_ShellAppMain hw p s = Some (- 1, t) \<and> io t = io u \<and> sg t = sg u"
  using assms
  by (simp add: sdei_ShellAppMain_def val_test_init_def open_log_def val_sdei_initialization_def
      pal_acpi_present_def)

definition app0 :: "string list \<Rightarrow> sdei_platform" where
  "app0 args = \<lparr>app_argv = args, app_parse_status = 0, app_opt_v = None, app_opt_f = None, app_opt_help = False,
     app_dec = dec_from 0,
     app_acpi = \<lparr>config_tables = [], xsdt_length = 0, xsdt_entries = [], table_sig = (\<lambda>_. 0), sig_of = (\<lambda>_. 1)\<rparr>,
     app_hest = \<lparr>ErrorSourceCount = 0, ghes_at = (\<lambda>_. None), sizeof_ghes = 64, sizeof_ghes_v2 = 92\<rparr>,
     app_gtdt = None, app_madt = None, fresh_pes = \<lparr>num_of_pe = 0, pe_info = []\<rparr>,
     fresh_gics = \<lparr>gic_version = 0, num_gicd = 0, num_gicrd = 0, num_its = 0, gic_info = []\<rparr>,
     fresh_events = \<lparr>num_events = 0, hest_found = 0, num_ghes_notify = 0, event_numbers = []\<rparr>,
     fresh_wds = \<lparr>num_wd = 0, wd_info = []\<rparr>,
     fresh_timers = \<lparr>s_el1_timer_flag = 0, ns_el1_timer_flag = 0, el2_timer_flag = 0, el2_virt_timer_flag = 0,
       s_el1_timer_gsiv = 0, ns_el1_timer_gsiv = 0, el2_timer_gsiv = 0, virtual_timer_flag = 0,
       virtual_timer_gsiv = 0, el2_virt_timer_gsiv = 0, num_platform_timer = 0, sys_timer_status = 0, gt_info = []\<rparr>,
     app_junk_attr = 0, app_junk_gbase = 0, stack_control = control0, app_test_fn = (\<lambda>_. Some)\<rparr>"

text \<open>A list of 100 characters that names the tests 1 and 17: they are the ones that run.\<close>

definition padded_one :: string where "padded_one = replicate 96 (CHR ''0'') @ ''1''"

lemma options_select_witness:
  "\<exists>c'. select_tests (app0 [''Sdei.efi'', ''-skip'', padded_one @ '',17'']) sdei_test
        (snd (val_test_init control0)) = Some c' \<and> enabled_set c' = {0, 16}"
proof -
  let ?p = "app0 [''Sdei.efi'', ''-skip'', padded_one @ '',17'']"
  have one: "dec_from 0 padded_one = 1" "CHR '','' \<notin> set padded_one" "length padded_one = 97"
    unfolding padded_one_def by code_simp+
  have seventeen: "dec_from 0 ''17'' = 17" by code_simp
  have "app_argv ?p = [''Sdei.efi'', ''-skip'', join (padded_one # [''17''])]"
    "app_dec ?p = dec_from 0" "length (test_flags control0) = 2"
    by (simp_all add: app0_def control0_def)
  moreover have "val_test_init control0 = (sdei_test, snd (val_test_init control0))"
    by (simp add: val_test_init_def)
  moreover have "\<forall>f\<in>set (padded_one # [''17'']). CHR '','' \<notin> set f" using one(2) by simp
  ultimately obtain c' where c': "select_tests ?p sdei_test (snd (val_test_init control0)) = Some c'"
    "enabled_set c' = numbered {1, 17}"
    using options_select [of ?p "''Sdei.efi''" "''-skip''" padded_one "[''17'']" control0 sdei_test
        "snd (val_test_init control0)"]
    by (auto simp: dec_from_field one seventeen)
  have "numbered {1, 17} = numbered {1} \<union> numbered {17 :: u32}" by (auto simp: numbered_def)
  also have "\<dots> = {0, 16}"
    using test_pos_sdei [of 0] test_pos_sdei [of 16] by (simp add: numbered_single SDEI_NUM_TESTS_def) blast
  finally show ?thesis using c' by auto
qed

lemma not_advertised_stops_witness:
  "\<exists>t. sdei_ShellAppMain (ram_hw (\<lambda>_. 0) 0) (app0 [''Sdei.efi'']) sdei_world0 = Some (- 1, t) \<and> io t = []"
proof -
  let ?p = "app0 [''Sdei.efi'']"
  have "select_tests ?p sdei_test (snd (val_test_init (stack_control ?p))) = Some (snd (val_test_init (stack_control ?p)))"
    by (simp add: select_tests_def app0_def)
  moreover have "pal_get_sdei_ptr (app_acpi ?p) (sdei_world0\<lparr>print_level := sdei_verbosity ?p\<rparr>) =
      Some (0, sdei_pal_print ACS_LOG_ERR ''XSDT not found'' [] (sdei_world0\<lparr>print_level := sdei_verbosity ?p\<rparr>))"
    by (simp add: pal_get_sdei_ptr_def pal_get_acpi_ptr_def pal_get_xsdt_ptr_def app0_def)
  moreover have "app_parse_status ?p = 0" "\<not> app_opt_help ?p" "app_opt_f ?p = None" by (simp_all add: app0_def)
  ultimately show ?thesis
    using not_advertised_stops [of ?p _ sdei_world0] by (fastforce simp: sdei_world0_def)
qed

end
