(* ===== verification/Sdei_Linux.thy ===== *)
theory Sdei_Linux
  imports Sdei_Tests
begin

text \<open>
  The Linux application of the SDEI suite (linux_app/sdei-acs-app): it selects tests on its command
  line and hands the selection to the kernel module through /proc/sdei, then polls the file until
  the run is over. getopt, strtok and atoi are the C library's: the options come as a list, and the
  conversion of a number is a parameter. What is copied from /proc/sdei_msg to the terminal is not
  modelled.
\<close>

unbundle bit_operations_syntax

definition linux_NUM_TESTS :: int where "linux_NUM_TESTS = 50"
definition SDEI_FAIL :: int where "SDEI_FAIL = 2"
definition SDEI_TEST_COMPLETE :: u32 where "SDEI_TEST_COMPLETE = 0xFFFFFFFF"
definition ACS_LOG_KERNEL :: int where "ACS_LOG_KERNEL = 6"

record sdei_control_t =
  level :: int
  tst_control :: sdei_test_control

text \<open>A negative index is a shift by a negative count or a read before the array.\<close>

definition linux_enable_test :: "int \<Rightarrow> sdei_test_control \<Rightarrow> sdei_test_control option" where
  "linux_enable_test i c = (if i < 0 then None else set_flag (\<lambda>w m. w OR m) (nat i) c)"

definition linux_disable_test :: "int \<Rightarrow> sdei_test_control \<Rightarrow> sdei_test_control option" where
  "linux_disable_test i c = (if i < 0 then None else set_flag (\<lambda>w m. w AND NOT m) (nat i) c)"

definition with_tst ::
    "(sdei_test_control \<Rightarrow> sdei_test_control option) \<Rightarrow> sdei_control_t \<Rightarrow> sdei_control_t option" where
  "with_tst f c = do { t \<leftarrow> f (tst_control c); Some (c\<lparr>tst_control := t\<rparr>) }"

definition testlib_run_specific :: "int \<Rightarrow> nat \<Rightarrow> sdei_control_t \<Rightarrow> sdei_control_t option" where
  "testlib_run_specific i count c =
     (let c = (if count = 1
               then c\<lparr>tst_control := (tst_control c)\<lparr>test_flags := (test_flags (tst_control c))[0 := 0, 1 := 0]\<rparr>\<rparr>
               else c)
      in if i \<le> linux_NUM_TESTS then with_tst (linux_enable_test i) c else Some c)"

definition testlib_enable_test :: "int \<Rightarrow> sdei_control_t \<Rightarrow> sdei_control_t option" where
  "testlib_enable_test i c =
     (if i < linux_NUM_TESTS then with_tst (linux_enable_test i) c else Some c)"

definition testlib_disable_test :: "int \<Rightarrow> sdei_control_t \<Rightarrow> sdei_control_t option" where
  "testlib_disable_test i c =
     (if i < linux_NUM_TESTS then with_tst (linux_disable_test i) c else Some c)"

definition init_test_env :: "bool \<Rightarrow> sdei_control_t \<Rightarrow> int \<times> sdei_control_t" where
  "init_test_env can_open c =
     (if \<not> can_open then (SDEI_FAIL, c)
      else (0, c\<lparr>tst_control := (tst_control c)\<lparr>tests_passed := 0, tests_failed := 0, tests_skipped := 0,
                    tests_aborted := 0, test_flags := [NOT 0, NOT 0]\<rparr>, level := 3\<rparr>))"

subsection \<open>The command line\<close>

datatype linux_option = OptV string | OptSkip string | OptRun string | OptHelp | OptUnknown

text \<open>The tokens strtok finds: the non-empty pieces between commas.\<close>

fun pieces :: "string \<Rightarrow> string \<Rightarrow> string list" where
  "pieces acc [] = (if acc = [] then [] else [rev acc])"
| "pieces acc (x # r) =
     (if x = CHR '','' then (if acc = [] then pieces [] r else rev acc # pieces [] r) else pieces (x # acc) r)"

definition tokens :: "string \<Rightarrow> string list" where
  "tokens s = pieces [] s"

fun run_tokens :: "(string \<Rightarrow> int) \<Rightarrow> string list \<Rightarrow> nat \<Rightarrow> sdei_control_t \<Rightarrow> (nat \<times> sdei_control_t) option" where
  "run_tokens atoi [] count c = Some (count, c)"
| "run_tokens atoi (t # ts) count c =
     do { c \<leftarrow> testlib_run_specific (atoi t - 1) (count + 1) c; run_tokens atoi ts (count + 1) c }"

text \<open>The options in their order; the counter of -run is shared by all of them. The level is an
  int: a long that does not fit is cut off.\<close>

fun parse_options ::
    "(string \<Rightarrow> int) \<Rightarrow> linux_option list \<Rightarrow> nat \<Rightarrow> sdei_control_t \<Rightarrow> (int \<times> sdei_control_t) option" where
  "parse_options atoi [] count c = Some (0, c)"
| "parse_options atoi (OptV s # os) count c =
     (let c = c\<lparr>level := signed_take_bit 31 (atoi s)\<rparr>
      in if level c > 6 then Some (1, c) else parse_options atoi os count c)"
| "parse_options atoi (OptHelp # os) count c = Some (1, c)"
| "parse_options atoi (OptSkip s # os) count c =
     do { c \<leftarrow> for_each (\<lambda>t. testlib_disable_test (atoi t - 1)) (tokens s) c; parse_options atoi os count c }"
| "parse_options atoi (OptRun s # os) count c =
     do { (count, c) \<leftarrow> run_tokens atoi (tokens s) count c; parse_options atoi os count c }"
| "parse_options atoi (OptUnknown # os) count c = Some (1, c)"

definition parse_cmdline :: "(string \<Rightarrow> int) \<Rightarrow> linux_option list \<Rightarrow> sdei_control_t \<Rightarrow> (int \<times> sdei_control_t) option" where
  "parse_cmdline atoi os c = parse_options atoi os 0 c"

subsection \<open>Handing the tests over\<close>

text \<open>The reads of /proc/sdei until the end of the run is reported; \<open>None\<close> while it is not.\<close>

fun wait_complete :: "u32 list \<Rightarrow> unit option" where
  "wait_complete [] = None"
| "wait_complete (w # ws) = (if w = SDEI_TEST_COMPLETE then Some () else wait_complete ws)"

text \<open>What is written to the file is the control.\<close>

definition testlib_execute_tests ::
    "bool \<Rightarrow> u32 list \<Rightarrow> sdei_control_t \<Rightarrow> (int \<times> sdei_control_t option \<times> sdei_control_t) option" where
  "testlib_execute_tests can_open answers c =
     (if \<not> can_open then Some (SDEI_FAIL, None, c)
      else do { c \<leftarrow> testlib_disable_test 44 c;
                c \<leftarrow> testlib_disable_test 46 c;
                c \<leftarrow> testlib_disable_test 47 c;
                _ \<leftarrow> (if level c \<noteq> ACS_LOG_KERNEL then wait_complete answers else Some ());
                Some (0, Some c, c) })"

text \<open>The result is the exit code and the control that was handed over, if any.\<close>

definition linux_main ::
    "(string \<Rightarrow> int) \<Rightarrow> bool \<Rightarrow> u32 list \<Rightarrow> linux_option list \<Rightarrow> sdei_control_t \<Rightarrow> (int \<times> sdei_control_t option) option" where
  "linux_main atoi can_open answers os c =
     (let (st, c) = init_test_env can_open c
      in if st \<noteq> 0 then Some (0, None)
         else do { (st, c) \<leftarrow> parse_cmdline atoi os c;
                   if st \<noteq> 0 then Some (1, None)
                   else do { (_, sent, _) \<leftarrow> testlib_execute_tests can_open answers c; Some (0, sent) } })"

subsection \<open>What is selected\<close>

definition selected :: "sdei_control_t \<Rightarrow> nat set" where
  "selected c = {i. test_enabled (tst_control c) i = Some True}"

definition two_words_of_flags :: "sdei_control_t \<Rightarrow> bool" where
  "two_words_of_flags c \<longleftrightarrow> length (test_flags (tst_control c)) = 2"

lemma disable_selected:
  assumes "two_words_of_flags c" "0 \<le> i" "i < linux_NUM_TESTS"
  shows "\<exists>c'. testlib_disable_test i c = Some c' \<and> two_words_of_flags c' \<and> level c' = level c \<and>
     selected c' = selected c - {nat i}"
proof -
  have "nat i div 64 < length (test_flags (tst_control c))"
    using assms by (simp add: two_words_of_flags_def linux_NUM_TESTS_def)
  from flag_ops_defined(2) [OF this] obtain t where t: "disable_test (nat i) (tst_control c) = Some t" by blast
  moreover have "linux_disable_test i (tst_control c) = Some t"
    using t assms(2) by (simp add: linux_disable_test_def disable_test_def)
  ultimately show ?thesis
    using assms flag_ops_length(2) [OF t] test_enabled_disable [OF t]
    by (auto simp: testlib_disable_test_def with_tst_def two_words_of_flags_def selected_def)
qed

lemma run_selected:
  assumes "two_words_of_flags c" "0 \<le> i" "i \<le> linux_NUM_TESTS"
  shows "\<exists>c'. testlib_run_specific i n c = Some c' \<and> two_words_of_flags c' \<and> level c' = level c \<and>
     selected c' = (if n = 1 then {} else selected c) \<union> {nat i}"
proof -
  define z where "z = (if n = 1
      then c\<lparr>tst_control := (tst_control c)\<lparr>test_flags := (test_flags (tst_control c))[0 := 0, 1 := 0]\<rparr>\<rparr> else c)"
  have z: "two_words_of_flags z" "level z = level c" using assms(1) by (simp_all add: z_def two_words_of_flags_def)
  have none: "at [0, 0 :: u64] (j div 64) = Some w \<Longrightarrow> w = 0" for j w
    by (cases "j div 64") (auto simp: at_eq_Some less_Suc_eq)
  have zs: "selected z = (if n = 1 then {} else selected c)"
  proof (cases "n = 1")
    case True
    have "(test_flags (tst_control c))[0 := 0, 1 := 0] = [0, 0]"
      using assms(1) by (cases "test_flags (tst_control c)") (auto simp: two_words_of_flags_def length_Suc_conv)
    with True show ?thesis by (auto simp: z_def selected_def test_enabled_bit dest!: none)
  qed (simp add: z_def)
  have "nat i div 64 < length (test_flags (tst_control z))"
    using z assms(2,3) by (simp add: two_words_of_flags_def linux_NUM_TESTS_def)
  from flag_ops_defined(1) [OF this] obtain t where t: "enable_test (nat i) (tst_control z) = Some t" by blast
  moreover have "linux_enable_test i (tst_control z) = Some t"
    using t assms(2) by (simp add: linux_enable_test_def enable_test_def)
  ultimately have "testlib_run_specific i n c = Some (z\<lparr>tst_control := t\<rparr>)"
    using assms(3) unfolding testlib_run_specific_def z_def [symmetric] Let_def by (simp add: with_tst_def)
  moreover have "selected (z\<lparr>tst_control := t\<rparr>) = selected z \<union> {nat i}"
    using test_enabled_enable [OF t] by (auto simp: selected_def)
  ultimately show ?thesis
    using z zs flag_ops_length(1) [OF t] by (simp add: two_words_of_flags_def)
qed

lemma skip_tokens:
  assumes "two_words_of_flags c" "\<forall>t\<in>set ts. 1 \<le> atoi t \<and> atoi t \<le> 50"
  shows "\<exists>c'. for_each (\<lambda>t. testlib_disable_test (atoi t - 1)) ts c = Some c' \<and> two_words_of_flags c' \<and>
     level c' = level c \<and> selected c' = selected c - (\<lambda>t. nat (atoi t - 1)) ` set ts"
  using assms
proof (induction ts arbitrary: c)
  case Nil
  then show ?case by simp
next
  case (Cons t ts)
  from disable_selected [OF Cons.prems(1), of "atoi t - 1"] Cons.prems(2)
  obtain u where u: "testlib_disable_test (atoi t - 1) c = Some u" "two_words_of_flags u" "level u = level c"
    "selected u = selected c - {nat (atoi t - 1)}" by (auto simp: linux_NUM_TESTS_def)
  from Cons.IH [OF u(2)] Cons.prems(2) u show ?case by auto
qed

lemma run_tokens_selected:
  assumes "two_words_of_flags c" "\<forall>t\<in>set ts. 1 \<le> atoi t \<and> atoi t \<le> 50"
  shows "\<exists>k c'. run_tokens atoi ts n c = Some (k, c') \<and> two_words_of_flags c' \<and> level c' = level c \<and>
     selected c' = (if n = 0 \<and> ts \<noteq> [] then {} else selected c) \<union> (\<lambda>t. nat (atoi t - 1)) ` set ts"
  using assms
proof (induction ts arbitrary: c n)
  case Nil
  then show ?case by simp
next
  case (Cons t ts)
  from run_selected [OF Cons.prems(1), of "atoi t - 1" "n + 1"] Cons.prems(2)
  obtain u where u: "testlib_run_specific (atoi t - 1) (n + 1) c = Some u" "two_words_of_flags u" "level u = level c"
    "selected u = (if n = 0 then {} else selected c) \<union> {nat (atoi t - 1)}" by (auto simp: linux_NUM_TESTS_def)
  from Cons.IH [OF u(2), of "n + 1"] Cons.prems(2) u show ?case by auto
qed

lemma wait_complete_found: "SDEI_TEST_COMPLETE \<in> set ws \<Longrightarrow> wait_complete ws = Some ()"
  by (induction ws) auto

lemma handed_over:
  assumes "two_words_of_flags c" "SDEI_TEST_COMPLETE \<in> set answers"
  shows "\<exists>c'. testlib_execute_tests True answers c = Some (0, Some c', c') \<and>
     selected c' = selected c - {44, 46, 47}"
proof -
  obtain u where u: "testlib_disable_test 44 c = Some u" "two_words_of_flags u" "selected u = selected c - {44}"
    using disable_selected [OF assms(1), of 44] by (auto simp: linux_NUM_TESTS_def)
  obtain v where v: "testlib_disable_test 46 u = Some v" "two_words_of_flags v" "selected v = selected u - {46}"
    using disable_selected [OF u(2), of 46] by (auto simp: linux_NUM_TESTS_def)
  obtain w where w: "testlib_disable_test 47 v = Some w" "selected w = selected v - {47}"
    using disable_selected [OF v(2), of 47] by (auto simp: linux_NUM_TESTS_def)
  have "testlib_execute_tests True answers c = Some (0, Some w, w)"
    using u(1) v(1) w(1) wait_complete_found [OF assms(2)] by (simp add: testlib_execute_tests_def)
  moreover have "selected w = selected c - {44, 46, 47}" using u(3) v(3) w(2) by auto
  ultimately show ?thesis by blast
qed

text \<open>What the Linux application hands over for one list of valid numbers: after --run the listed
  tests, after --skip all others, in both cases without the tests 45, 47 and 48 that need UEFI;
  a --run of one of those hands over nothing to run.\<close>

theorem linux_selects:
  assumes "opt = OptSkip l \<or> opt = OptRun l \<and> tokens l \<noteq> []" "\<forall>t\<in>set (tokens l). 1 \<le> atoi t \<and> atoi t \<le> 50"
    and "SDEI_TEST_COMPLETE \<in> set answers"
  shows "\<exists>c'. linux_main atoi True answers [opt] c = Some (0, Some c') \<and>
     selected c' = (let ids = (\<lambda>t. nat (atoi t - 1)) ` set (tokens l)
                    in (if opt = OptRun l then ids else {..<128} - ids) - {44, 46, 47})"
proof -
  obtain c0 where c0: "init_test_env True c = (0, c0)" "test_flags (tst_control c0) = [NOT 0, NOT 0]"
    by (simp add: init_test_env_def)
  then have two: "two_words_of_flags c0" by (simp add: two_words_of_flags_def)
  have "at [NOT 0, NOT 0 :: u64] (i div 64) = (if i < 128 then Some (NOT 0) else None)" for i
    by (cases "i div 64") (auto simp: at_def less_Suc_eq div_eq_0_iff nth_Cons' )
  then have all: "selected c0 = {..<128}"
    using c0(2) by (auto simp: selected_def test_enabled_bit)
  let ?ids = "(\<lambda>t. nat (atoi t - 1)) ` set (tokens l)"
  have "\<exists>u. parse_cmdline atoi [opt] c0 = Some (0, u) \<and> two_words_of_flags u \<and>
      selected u = (if opt = OptRun l then ?ids else {..<128} - ?ids)"
    using assms(1)
  proof
    assume "opt = OptSkip l"
    with skip_tokens [OF two assms(2)] all show ?thesis by (auto simp: parse_cmdline_def)
  next
    assume "opt = OptRun l \<and> tokens l \<noteq> []"
    with run_tokens_selected [OF two assms(2), of 0] show ?thesis by (auto simp: parse_cmdline_def)
  qed
  then obtain u where u: "parse_cmdline atoi [opt] c0 = Some (0, u)" "two_words_of_flags u"
    "selected u = (if opt = OptRun l then ?ids else {..<128} - ?ids)" by blast
  from handed_over [OF u(2) assms(3)] c0(1) u(1,3) show ?thesis
    by (auto simp: linux_main_def Let_def)
qed

lemma linux_selects_witness:
  "\<exists>c'. linux_main (\<lambda>_. 48) True [0, 0xFFFFFFFF] [OptRun ''48''] \<lparr>level = 0, tst_control = control0\<rparr> =
     Some (0, Some c') \<and> selected c' = {}"
proof -
  have "tokens ''48'' = [''48'']" by (simp add: tokens_def)
  with linux_selects [of "OptRun ''48''" "''48''" "\<lambda>_. 48" "[0, 0xFFFFFFFF]" "\<lparr>level = 0, tst_control = control0\<rparr>"]
  show ?thesis by (simp add: SDEI_TEST_COMPLETE_def Let_def)
qed

text \<open>The number 0, and a list entry that is no number, ask for a shift by a negative count.\<close>

lemma linux_zero_undefined:
  assumes "tokens l = t # ts" "atoi t = 0"
  shows "parse_cmdline atoi [OptSkip l] c = None" "parse_cmdline atoi [OptRun l] c = None"
  using assms
  by (simp_all add: parse_cmdline_def testlib_disable_test_def testlib_run_specific_def with_tst_def
      linux_disable_test_def linux_enable_test_def linux_NUM_TESTS_def)

end
