(* ===== verification/Sdei_Event_Tests.thy ===== *)
theory Sdei_Event_Tests
  imports Sdei_Firmware Sdei_Tests
begin

text \<open>
  The tests of registering, enabling, disabling and unregistering an event
  (test_pool/tests/test_003.c, test_005.c, test_006.c, test_007.c). The first part compares the
  verdict of a payload with the answers of the firmware, the second follows the four tests on a
  firmware that keeps the life cycle of the SDEI specification, through all PEs and up to the
  verdict of the test runner.
\<close>

unbundle bit_operations_syntax

subsection \<open>What the tests share\<close>

definition SDEI_UNKNOWN_EVENT :: u32 where [reg_defs]: "SDEI_UNKNOWN_EVENT = 0x10000"
definition EVENT_STATUS_REGISTER_BIT :: u64 where [reg_defs]: "EVENT_STATUS_REGISTER_BIT = 1"
definition EVENT_STATUS_ENABLE_BIT :: u64 where [reg_defs]: "EVENT_STATUS_ENABLE_BIT = 2"

text \<open>\<open>val_test_pe_set_status(val_pe_get_index(), status)\<close>.\<close>

definition set_own_status :: "hw \<Rightarrow> u32 \<Rightarrow> sworld \<Rightarrow> sworld option" where
  "set_own_status hw st s = do { (i, s) \<leftarrow> sdei_val_pe_get_index hw s; val_test_pe_set_status hw i st s }"

text \<open>The end of the four payloads: \<open>return_status\<close>, and \<open>event_unregister\<close> before it.\<close>

definition return_status :: "hw \<Rightarrow> u32 \<Rightarrow> sworld \<Rightarrow> (u32 \<times> sworld) option" where
  "return_status hw st s = do { s \<leftarrow> set_own_status hw st s; Some (st, s) }"

definition event_unregister :: "hw \<Rightarrow> u32 \<Rightarrow> u32 \<Rightarrow> sworld \<Rightarrow> (u32 \<times> sworld) option" where
  "event_unregister hw event_num st s =
     (let (err, s) = val_sdei_event_unregister hw event_num s
      in return_status hw (if err \<noteq> 0 then SDEI_TEST_ERROR else st) s)"

text \<open>A payload runs on the caller and then on the others, one after the other
  (\<open>execute_on_all_refines\<close>); here it can also have undefined behaviour.\<close>

definition on_all_pes :: "hw \<Rightarrow> (hw \<Rightarrow> sworld \<Rightarrow> sworld option) \<Rightarrow> sworld \<Rightarrow> sworld option" where
  "on_all_pes hw payload s =
     do { t \<leftarrow> payload hw s; for_each (\<lambda>m. payload (hw\<lparr>mpidr_in := m\<rparr>)) (other_pes hw s) t }"

lemma on_all_pes_total:
  "on_all_pes hw (\<lambda>hw s. Some (payload hw s)) s = Some (sdei_val_pe_execute_on_all hw payload s)"
proof -
  have "for_each (\<lambda>m s. Some (payload (hw\<lparr>mpidr_in := m\<rparr>) s)) ms t =
      Some (fold (\<lambda>m. payload (hw\<lparr>mpidr_in := m\<rparr>)) ms t)" for ms t
    by (induction ms arbitrary: t) simp_all
  then show ?thesis by (simp add: on_all_pes_def sdei_val_pe_execute_on_all_def)
qed

subsection \<open>The four tests\<close>

text \<open>\<open>h\<close> is the address of asm_event_handler.\<close>

definition payload_003 :: "u64 \<Rightarrow> hw \<Rightarrow> u32 \<Rightarrow> sworld \<Rightarrow> (u32 \<times> sworld) option" where
  "payload_003 h hw ty s =
     do { (event_num, s) \<leftarrow> val_event_get hw ty SDEI_EVENT_PRIORITY_ANY s;
          if event_num = 0 then return_status hw SDEI_TEST_SKIP s
          else (let (err, s) = val_sdei_event_register hw event_num h 0 0 0 s
                in if err \<noteq> 0 then return_status hw SDEI_TEST_FAIL s
          else (let (err, s) = val_sdei_event_register hw event_num h 0 0 0 s
                in if err \<noteq> SDEI_STATUS_DENIED then event_unregister hw event_num SDEI_TEST_FAIL s
          else (let ((err, event_status), s) = val_sdei_event_status hw event_num s
                in if err \<noteq> 0 then event_unregister hw event_num SDEI_TEST_ERROR s
                   else if event_status AND EVENT_STATUS_REGISTER_BIT = 0
                        then event_unregister hw event_num SDEI_TEST_FAIL s
                   else event_unregister hw event_num SDEI_TEST_PASS s))) }"

definition payload_005 :: "u64 \<Rightarrow> hw \<Rightarrow> u32 \<Rightarrow> sworld \<Rightarrow> (u32 \<times> sworld) option" where
  "payload_005 h hw ty s =
     do { (event_num, s) \<leftarrow> val_event_get hw ty SDEI_EVENT_PRIORITY_ANY s;
          if event_num = 0 then return_status hw SDEI_TEST_SKIP s
          else (let (err, s) = val_sdei_event_enable hw event_num s
                in if err \<noteq> SDEI_STATUS_DENIED then return_status hw SDEI_TEST_FAIL s
          else (let (err, s) = val_sdei_event_register hw event_num h 0 0 0 s
                in if err \<noteq> 0 then return_status hw SDEI_TEST_FAIL s
          else (let (err, s) = val_sdei_event_enable hw event_num s
                in if err \<noteq> 0 then event_unregister hw event_num SDEI_TEST_FAIL s
          else (let ((err, event_status), s) = val_sdei_event_status hw event_num s
                in if err \<noteq> 0 then event_unregister hw event_num SDEI_TEST_ERROR s
                   else if event_status AND EVENT_STATUS_ENABLE_BIT = 0
                        then event_unregister hw event_num SDEI_TEST_FAIL s
                   else event_unregister hw event_num SDEI_TEST_PASS s)))) }"

definition payload_006 :: "u64 \<Rightarrow> hw \<Rightarrow> u32 \<Rightarrow> sworld \<Rightarrow> (u32 \<times> sworld) option" where
  "payload_006 h hw ty s =
     do { (event_num, s) \<leftarrow> val_event_get hw ty SDEI_EVENT_PRIORITY_ANY s;
          if event_num = 0 then return_status hw SDEI_TEST_SKIP s
          else (let (err, s) = val_sdei_event_disable hw event_num s
                in if err \<noteq> SDEI_STATUS_DENIED then return_status hw SDEI_TEST_FAIL s
          else (let (err, s) = val_sdei_event_register hw event_num h 0 0 0 s
                in if err \<noteq> 0 then return_status hw SDEI_TEST_FAIL s
          else (let (err, s) = val_sdei_event_disable hw event_num s
                in if err \<noteq> 0 then event_unregister hw event_num SDEI_TEST_FAIL s
          else (let ((err, event_status), s) = val_sdei_event_status hw event_num s
                in if err \<noteq> 0 then event_unregister hw event_num SDEI_TEST_ERROR s
                   else if event_status AND EVENT_STATUS_ENABLE_BIT \<noteq> 0
                        then event_unregister hw event_num SDEI_TEST_FAIL s
                   else event_unregister hw event_num SDEI_TEST_PASS s)))) }"

definition payload_007 :: "u64 \<Rightarrow> hw \<Rightarrow> u32 \<Rightarrow> sworld \<Rightarrow> (u32 \<times> sworld) option" where
  "payload_007 h hw ty s =
     do { (event_num, s) \<leftarrow> val_event_get hw ty SDEI_EVENT_PRIORITY_ANY s;
          if event_num = 0 then return_status hw SDEI_TEST_SKIP s
          else (let (err, s) = val_sdei_event_unregister hw event_num s
                in if err \<noteq> SDEI_STATUS_DENIED then return_status hw SDEI_TEST_FAIL s
          else (let (err, s) = val_sdei_event_register hw event_num h 0 0 0 s
                in if err \<noteq> 0 then return_status hw SDEI_TEST_FAIL s
          else (let (err, s) = val_sdei_event_unregister hw event_num s
                in if err \<noteq> 0 then return_status hw SDEI_TEST_FAIL s
          else (let ((err, event_status), s) = val_sdei_event_status hw event_num s
                in if err \<noteq> 0 then return_status hw SDEI_TEST_ERROR s
                   else if event_status AND EVENT_STATUS_REGISTER_BIT \<noteq> 0
                        then return_status hw SDEI_TEST_FAIL s
                   else return_status hw SDEI_TEST_PASS s)))) }"

text \<open>The entry functions: the shared event on the caller, a call with an unknown event, and the
  private event on all PEs. FAIL is bit 0 of the result, which SKIP and ERROR have as well.\<close>

definition event_test ::
    "(hw \<Rightarrow> u32 \<Rightarrow> sworld \<Rightarrow> (u32 \<times> sworld) option) \<Rightarrow> (hw \<Rightarrow> sworld \<Rightarrow> u32 \<times> sworld) \<Rightarrow>
     hw \<Rightarrow> sworld \<Rightarrow> sworld option" where
  "event_test payload unknown_event hw s =
     do { (ret, s) \<leftarrow> payload hw SDEI_EVENT_TYPE_SHARED s;
          if ret AND SDEI_TEST_FAIL \<noteq> 0 then Some s
          else (let (ret, s) = unknown_event hw s
                in if ret \<noteq> SDEI_STATUS_INVALID then set_own_status hw SDEI_TEST_FAIL s
                   else on_all_pes hw (\<lambda>hw s. map_option snd (payload hw SDEI_EVENT_TYPE_PRIVATE s)) s) }"

definition test_003_entry :: "u64 \<Rightarrow> hw \<Rightarrow> sworld \<Rightarrow> sworld option" where
  "test_003_entry h =
     event_test (payload_003 h) (\<lambda>hw. val_sdei_event_register hw SDEI_UNKNOWN_EVENT h 0 0 0)"

definition test_005_entry :: "u64 \<Rightarrow> hw \<Rightarrow> sworld \<Rightarrow> sworld option" where
  "test_005_entry h = event_test (payload_005 h) (\<lambda>hw. val_sdei_event_enable hw SDEI_UNKNOWN_EVENT)"

definition test_006_entry :: "u64 \<Rightarrow> hw \<Rightarrow> sworld \<Rightarrow> sworld option" where
  "test_006_entry h = event_test (payload_006 h) (\<lambda>hw. val_sdei_event_disable hw SDEI_UNKNOWN_EVENT)"

definition test_007_entry :: "u64 \<Rightarrow> hw \<Rightarrow> sworld \<Rightarrow> sworld option" where
  "test_007_entry h = event_test (payload_007 h) (\<lambda>hw. val_sdei_event_unregister hw SDEI_UNKNOWN_EVENT)"

subsection \<open>The verdict of a payload and the answers of the firmware\<close>

text \<open>The calls of a history with what the firmware answered, oldest first.\<close>

fun answers :: "hw \<Rightarrow> history \<Rightarrow> (u64 \<times> u64) list" where
  "answers hw [] = []"
| "answers hw (Smc c (f # w) # h) = answers hw h @ [(f, fst (smc_in hw h c (f # w)))]"
| "answers hw (_ # h) = answers hw h"

definition accepted :: "u64 \<Rightarrow> bool" where "accepted r \<longleftrightarrow> \<not> sdei_is_err r"
definition denied :: "u64 \<Rightarrow> bool" where "denied r \<longleftrightarrow> r = SDEI_DENIED"

text \<open>What each test expects: its calls in order, each with what the answer must be.\<close>

definition event_spec :: "nat \<Rightarrow> (u64 \<times> (u64 \<Rightarrow> bool)) list" where
  "event_spec n =
     (SDEI_1_0_FN_SDEI_INTERRUPT_BIND, \<lambda>r. (ucast r :: u32) \<noteq> 0) #
     (if n = 3 then
        [(SDEI_1_0_FN_SDEI_EVENT_REGISTER, accepted), (SDEI_1_0_FN_SDEI_EVENT_REGISTER, denied),
         (SDEI_1_0_FN_SDEI_EVENT_STATUS, \<lambda>r. accepted r \<and> bit r 0), (SDEI_1_0_FN_SDEI_EVENT_UNREGISTER, accepted)]
      else if n = 5 then
        [(SDEI_1_0_FN_SDEI_EVENT_ENABLE, denied), (SDEI_1_0_FN_SDEI_EVENT_REGISTER, accepted),
         (SDEI_1_0_FN_SDEI_EVENT_ENABLE, accepted), (SDEI_1_0_FN_SDEI_EVENT_STATUS, \<lambda>r. accepted r \<and> bit r 1),
         (SDEI_1_0_FN_SDEI_EVENT_UNREGISTER, accepted)]
      else if n = 6 then
        [(SDEI_1_0_FN_SDEI_EVENT_DISABLE, denied), (SDEI_1_0_FN_SDEI_EVENT_REGISTER, accepted),
         (SDEI_1_0_FN_SDEI_EVENT_DISABLE, accepted), (SDEI_1_0_FN_SDEI_EVENT_STATUS, \<lambda>r. accepted r \<and> \<not> bit r 1),
         (SDEI_1_0_FN_SDEI_EVENT_UNREGISTER, accepted)]
      else
        [(SDEI_1_0_FN_SDEI_EVENT_UNREGISTER, denied), (SDEI_1_0_FN_SDEI_EVENT_REGISTER, accepted),
         (SDEI_1_0_FN_SDEI_EVENT_UNREGISTER, accepted), (SDEI_1_0_FN_SDEI_EVENT_STATUS, \<lambda>r. accepted r \<and> \<not> bit r 0)])"

definition meets :: "(u64 \<times> (u64 \<Rightarrow> bool)) list \<Rightarrow> (u64 \<times> u64) list \<Rightarrow> bool" where
  "meets spec tr \<longleftrightarrow> list_all2 (\<lambda>(f, p) (g, r). f = g \<and> p r) spec tr"

definition event_payload :: "nat \<Rightarrow> u64 \<Rightarrow> hw \<Rightarrow> u32 \<Rightarrow> sworld \<Rightarrow> (u32 \<times> sworld) option" where
  "event_payload n = (if n = 3 then payload_003 else if n = 5 then payload_005 else if n = 6 then payload_006 else payload_007)"

text \<open>The error of a call, as a function of the answer.\<close>

definition sdei_error :: "u64 \<Rightarrow> u32" where
  "sdei_error r = (if sdei_is_err r then pal_sdei_to_uefi_errno r else 0)"

lemma sdei_error_cases [simp]:
  "sdei_error r = 0 \<longleftrightarrow> accepted r" "sdei_error r = SDEI_STATUS_DENIED \<longleftrightarrow> denied r"
  "sdei_error r = SDEI_STATUS_INVALID \<longleftrightarrow> r = SDEI_INVALID_PARAMETERS"
  by (auto simp: sdei_error_def accepted_def denied_def sdei_is_err_def pal_sdei_to_uefi_errno_def reg_defs)

lemma call_runs:
  "val_sdei_event_register hw e a b c d s =
     (sdei_error (sdei_answer hw s SDEI_1_0_FN_SDEI_EVENT_REGISTER (ucast e) a b c d),
      sdei_logged hw SDEI_1_0_FN_SDEI_EVENT_REGISTER (ucast e) a b c d s)"
  "val_sdei_event_enable hw e s = (sdei_error (sdei_answer hw s SDEI_1_0_FN_SDEI_EVENT_ENABLE (ucast e) 0 0 0 0),
      sdei_logged hw SDEI_1_0_FN_SDEI_EVENT_ENABLE (ucast e) 0 0 0 0 s)"
  "val_sdei_event_disable hw e s = (sdei_error (sdei_answer hw s SDEI_1_0_FN_SDEI_EVENT_DISABLE (ucast e) 0 0 0 0),
      sdei_logged hw SDEI_1_0_FN_SDEI_EVENT_DISABLE (ucast e) 0 0 0 0 s)"
  "val_sdei_event_unregister hw e s = (sdei_error (sdei_answer hw s SDEI_1_0_FN_SDEI_EVENT_UNREGISTER (ucast e) 0 0 0 0),
      sdei_logged hw SDEI_1_0_FN_SDEI_EVENT_UNREGISTER (ucast e) 0 0 0 0 s)"
  "val_sdei_event_status hw e s =
     ((sdei_error (sdei_answer hw s SDEI_1_0_FN_SDEI_EVENT_STATUS (ucast e) 0 0 0 0),
       sdei_answer hw s SDEI_1_0_FN_SDEI_EVENT_STATUS (ucast e) 0 0 0 0),
      sdei_logged hw SDEI_1_0_FN_SDEI_EVENT_STATUS (ucast e) 0 0 0 0 s)"
  "val_sdei_interrupt_bind hw irq s =
     ((sdei_error (sdei_answer hw s SDEI_1_0_FN_SDEI_INTERRUPT_BIND (ucast irq) 0 0 0 0),
       ucast (sdei_answer hw s SDEI_1_0_FN_SDEI_INTERRUPT_BIND (ucast irq) 0 0 0 0)),
      sdei_logged hw SDEI_1_0_FN_SDEI_INTERRUPT_BIND (ucast irq) 0 0 0 0 s)"
  by (simp_all add: val_sdei_event_register_def val_sdei_event_enable_def val_sdei_event_disable_def
      val_sdei_event_unregister_def val_sdei_event_status_def val_sdei_interrupt_bind_def pal_invoke_sdei_fn_run
      sdei_error_def Let_def)

lemma answers_logged [simp]:
  "answers hw (io (sdei_logged hw f a0 a1 a2 a3 a4 s)) = answers hw (io s) @ [(f, sdei_answer hw s f a0 a1 a2 a3 a4)]"
  by (simp add: sdei_logged_def log_io_def sdei_answer_def)

lemma set_own_status_run:
  "yields (\<lambda>t. answers hw (io t) = answers hw (io s)) (set_own_status hw' st s)"
  by (auto simp: yields_def set_own_status_def sdei_val_pe_get_index_def sdei_val_pe_get_mpid_def
      sdei_val_pe_reg_read_def val_test_pe_set_status_def val_shared_mem_write_def Let_def
      Option.bind_eq_Some_conv split_beta)

lemma return_status_yields:
  "(\<And>t. answers hw (io t) = answers hw (io s) \<Longrightarrow> Q (st, t)) \<Longrightarrow> yields Q (return_status hw' st s)"
  unfolding return_status_def by (rule yields_seq [OF set_own_status_run [of hw]]) simp

lemma event_unregister_yields:
  assumes "\<And>v t. answers hw (io t) =
       answers hw (io s) @ [(SDEI_1_0_FN_SDEI_EVENT_UNREGISTER, sdei_answer hw s SDEI_1_0_FN_SDEI_EVENT_UNREGISTER (ucast e) 0 0 0 0)] \<Longrightarrow>
     v = (if accepted (sdei_answer hw s SDEI_1_0_FN_SDEI_EVENT_UNREGISTER (ucast e) 0 0 0 0) then st else SDEI_TEST_ERROR) \<Longrightarrow> Q (v, t)"
  shows "yields Q (event_unregister hw e st s)"
  unfolding event_unregister_def
  by (simp add: call_runs; intro conjI impI return_status_yields [of hw] assms; simp)


text \<open>The calls a run made, with their answers.\<close>

definition transcript :: "hw \<Rightarrow> sworld \<Rightarrow> sworld \<Rightarrow> (u64 \<times> u64) list" where
  "transcript hw s t = drop (length (answers hw (io s))) (answers hw (io t))"

definition verdict_matches :: "nat \<Rightarrow> hw \<Rightarrow> sworld \<Rightarrow> u32 \<times> sworld \<Rightarrow> bool" where
  "verdict_matches n hw s r \<longleftrightarrow>
     answers hw (io (snd r)) = answers hw (io s) @ transcript hw s (snd r) \<and>
     (fst r = SDEI_TEST_PASS \<longleftrightarrow> meets (event_spec n) (transcript hw s (snd r)))"

lemma status_values [simp]:
  "SDEI_TEST_SKIP \<noteq> SDEI_TEST_PASS" "SDEI_TEST_FAIL \<noteq> SDEI_TEST_PASS" "SDEI_TEST_ERROR \<noteq> SDEI_TEST_PASS"
  by (simp_all add: reg_defs)

lemma status_bits:
  "r AND EVENT_STATUS_REGISTER_BIT = 0 \<longleftrightarrow> \<not> bit r 0" "r AND EVENT_STATUS_ENABLE_BIT = 0 \<longleftrightarrow> \<not> bit r 1"
  using and_exp_eq_0_iff_not_bit [of r 0] and_exp_eq_0_iff_not_bit [of r 1]
  by (simp_all add: reg_defs)

lemma event_get_bound:
  assumes "ty = SDEI_EVENT_TYPE_SHARED \<and> irq = SPI_INTR_NUM \<or> ty = SDEI_EVENT_TYPE_PRIVATE \<and> irq = PPI_INTR_NUM"
  shows "\<exists>t. val_event_get hw ty prio s =
       Some (ucast (sdei_answer hw s SDEI_1_0_FN_SDEI_INTERRUPT_BIND (ucast irq) 0 0 0 0), t) \<and>
     io t = io (sdei_logged hw SDEI_1_0_FN_SDEI_INTERRUPT_BIND (ucast irq) 0 0 0 0 s) \<and> sg t = sg s \<and> shared t = shared s"
  using assms
  by (auto simp: val_event_get_def bind_event_def call_runs SDEI_EVENT_TYPE_SHARED_def SDEI_EVENT_TYPE_PRIVATE_def)

lemmas verdict_steps = return_status_yields [where hw = hw and hw' = hw for hw] event_unregister_yields

lemma spec_values:
  "event_spec 3 = [(SDEI_1_0_FN_SDEI_INTERRUPT_BIND, \<lambda>r. (ucast r :: u32) \<noteq> 0),
     (SDEI_1_0_FN_SDEI_EVENT_REGISTER, accepted), (SDEI_1_0_FN_SDEI_EVENT_REGISTER, denied),
     (SDEI_1_0_FN_SDEI_EVENT_STATUS, \<lambda>r. accepted r \<and> bit r 0), (SDEI_1_0_FN_SDEI_EVENT_UNREGISTER, accepted)]"
  "event_spec 5 = [(SDEI_1_0_FN_SDEI_INTERRUPT_BIND, \<lambda>r. (ucast r :: u32) \<noteq> 0),
     (SDEI_1_0_FN_SDEI_EVENT_ENABLE, denied), (SDEI_1_0_FN_SDEI_EVENT_REGISTER, accepted),
     (SDEI_1_0_FN_SDEI_EVENT_ENABLE, accepted), (SDEI_1_0_FN_SDEI_EVENT_STATUS, \<lambda>r. accepted r \<and> bit r 1),
     (SDEI_1_0_FN_SDEI_EVENT_UNREGISTER, accepted)]"
  "event_spec 6 = [(SDEI_1_0_FN_SDEI_INTERRUPT_BIND, \<lambda>r. (ucast r :: u32) \<noteq> 0),
     (SDEI_1_0_FN_SDEI_EVENT_DISABLE, denied), (SDEI_1_0_FN_SDEI_EVENT_REGISTER, accepted),
     (SDEI_1_0_FN_SDEI_EVENT_DISABLE, accepted), (SDEI_1_0_FN_SDEI_EVENT_STATUS, \<lambda>r. accepted r \<and> \<not> bit r 1),
     (SDEI_1_0_FN_SDEI_EVENT_UNREGISTER, accepted)]"
  "event_spec 7 = [(SDEI_1_0_FN_SDEI_INTERRUPT_BIND, \<lambda>r. (ucast r :: u32) \<noteq> 0),
     (SDEI_1_0_FN_SDEI_EVENT_UNREGISTER, denied), (SDEI_1_0_FN_SDEI_EVENT_REGISTER, accepted),
     (SDEI_1_0_FN_SDEI_EVENT_UNREGISTER, accepted), (SDEI_1_0_FN_SDEI_EVENT_STATUS, \<lambda>r. accepted r \<and> \<not> bit r 0)]"
  by (simp_all add: event_spec_def)

lemma test_bind:
  assumes "ty = SDEI_EVENT_TYPE_SHARED \<and> irq = SPI_INTR_NUM \<or> ty = SDEI_EVENT_TYPE_PRIVATE \<and> irq = PPI_INTR_NUM"
    and "\<And>e r t. answers hw (io t) = answers hw (io s) @ [(SDEI_1_0_FN_SDEI_INTERRUPT_BIND, r)] \<Longrightarrow> e = ucast r \<Longrightarrow>
      yields Q (f e t)"
  shows "yields Q (Option.bind (val_event_get hw ty prio s) (\<lambda>(e, t). f e t))"
  using event_get_bound [OF assms(1), of hw prio s] assms(2) by auto

lemma payload_verdicts:
  assumes "ty = SDEI_EVENT_TYPE_SHARED \<and> irq = SPI_INTR_NUM \<or> ty = SDEI_EVENT_TYPE_PRIVATE \<and> irq = PPI_INTR_NUM"
  shows "yields (verdict_matches 3 hw s) (payload_003 h hw ty s)"
    "yields (verdict_matches 5 hw s) (payload_005 h hw ty s)"
    "yields (verdict_matches 6 hw s) (payload_006 h hw ty s)"
    "yields (verdict_matches 7 hw s) (payload_007 h hw ty s)"
proof -
  show "yields (verdict_matches 3 hw s) (payload_003 h hw ty s)"
    unfolding payload_003_def
    by (rule test_bind [OF assms], simp add: call_runs status_bits,
        intro conjI impI verdict_steps; simp add: verdict_matches_def transcript_def spec_values meets_def sdei_fn_defs)
  show "yields (verdict_matches 5 hw s) (payload_005 h hw ty s)"
    unfolding payload_005_def
    by (rule test_bind [OF assms], simp add: call_runs status_bits,
        intro conjI impI verdict_steps; simp add: verdict_matches_def transcript_def spec_values meets_def sdei_fn_defs)
  show "yields (verdict_matches 6 hw s) (payload_006 h hw ty s)"
    unfolding payload_006_def
    by (rule test_bind [OF assms], simp add: call_runs status_bits,
        intro conjI impI verdict_steps; simp add: verdict_matches_def transcript_def spec_values meets_def sdei_fn_defs)
  show "yields (verdict_matches 7 hw s) (payload_007 h hw ty s)"
    unfolding payload_007_def
    by (rule test_bind [OF assms], simp add: call_runs status_bits,
        intro conjI impI verdict_steps; simp add: verdict_matches_def transcript_def spec_values meets_def sdei_fn_defs)
qed


text \<open>C5: The verdict of the four event tests is the comparison with their specification: a payload
  reports PASS exactly when the calls it made, with the answers of the firmware, are those of the
  table \<open>event_spec\<close> (bind, then every life cycle call with the answer the specification demands,
  the clean-up included); on any other answer it reports something else.\<close>

theorem event_payload_verdict:
  assumes "event_payload n h hw ty s = Some (st, t)" "n \<in> {3, 5, 6, 7}"
    and "ty \<in> {SDEI_EVENT_TYPE_SHARED, SDEI_EVENT_TYPE_PRIVATE}"
  shows "\<exists>tr. answers hw (io t) = answers hw (io s) @ tr \<and> (st = SDEI_TEST_PASS \<longleftrightarrow> meets (event_spec n) tr)"
proof -
  have "\<exists>irq. ty = SDEI_EVENT_TYPE_SHARED \<and> irq = SPI_INTR_NUM \<or> ty = SDEI_EVENT_TYPE_PRIVATE \<and> irq = PPI_INTR_NUM"
    using assms(3) by auto
  then have "yields (verdict_matches n hw s) (event_payload n h hw ty s)"
    using payload_verdicts [of ty _ hw s h] assms(2) by (auto simp: event_payload_def)
  then show ?thesis using assms(1) by (auto simp: verdict_matches_def)
qed

subsection \<open>The life cycle of an event\<close>

text \<open>
  The contract of the firmware, from the SDEI specification (ARM DEN 0054): the handler of an event
  is unregistered, registered or enabled; it exists once for a shared event and once per PE for a
  private one. \<open>handler\<close> reads the state off the calls made so far, as if each were answered as
  the specification says.
\<close>

datatype event_key = SharedEvent | PrivateEvent u64

datatype handler_state = Unregistered | Registered | Enabled

definition concerns :: "event_key \<Rightarrow> u64 \<Rightarrow> bool" where
  "concerns k c = (case k of SharedEvent \<Rightarrow> True | PrivateEvent m \<Rightarrow> c = m)"

definition reset_call :: "event_key \<Rightarrow> u64" where
  "reset_call k = (case k of SharedEvent \<Rightarrow> SDEI_1_0_FN_SDEI_SHARED_RESET | PrivateEvent _ \<Rightarrow> SDEI_1_0_FN_SDEI_PRIVATE_RESET)"

definition bound_interrupt :: "event_key \<Rightarrow> u32" where
  "bound_interrupt k = (case k of SharedEvent \<Rightarrow> SPI_INTR_NUM | PrivateEvent _ \<Rightarrow> PPI_INTR_NUM)"

definition life_cycle :: "u64 \<Rightarrow> handler_state \<Rightarrow> handler_state" where
  "life_cycle f st =
     (if f = SDEI_1_0_FN_SDEI_EVENT_REGISTER then (if st = Unregistered then Registered else st)
      else if f = SDEI_1_0_FN_SDEI_EVENT_ENABLE then (if st = Unregistered then st else Enabled)
      else if f = SDEI_1_0_FN_SDEI_EVENT_DISABLE then (if st = Unregistered then st else Registered)
      else if f = SDEI_1_0_FN_SDEI_EVENT_UNREGISTER then Unregistered else st)"

definition life_cycle_answer :: "u64 \<Rightarrow> handler_state \<Rightarrow> u64" where
  "life_cycle_answer f st =
     (if (st = Unregistered) = (f = SDEI_1_0_FN_SDEI_EVENT_REGISTER) then 0 else SDEI_DENIED)"

definition life_cycle_calls :: "u64 set" where
  "life_cycle_calls = {SDEI_1_0_FN_SDEI_EVENT_REGISTER, SDEI_1_0_FN_SDEI_EVENT_ENABLE,
     SDEI_1_0_FN_SDEI_EVENT_DISABLE, SDEI_1_0_FN_SDEI_EVENT_UNREGISTER}"

definition status_of :: "handler_state \<Rightarrow> u64" where
  "status_of st = (case st of Unregistered \<Rightarrow> 0 | Registered \<Rightarrow> 1 | Enabled \<Rightarrow> 3)"

fun handler :: "event_key \<Rightarrow> u64 \<Rightarrow> history \<Rightarrow> handler_state" where
  "handler k e [] = Unregistered"
| "handler k e (Smc c (f # x # w) # h) =
     (if concerns k c \<and> f = reset_call k then Unregistered
      else if concerns k c \<and> x = e then life_cycle f (handler k e h)
      else handler k e h)"
| "handler k e (_ # h) = handler k e h"

text \<open>The interrupt is bound to its event, by a PE that the event concerns, and nothing was released or
  reset since.\<close>

fun bound :: "event_key \<Rightarrow> history \<Rightarrow> bool" where
  "bound k [] = False"
| "bound k (Smc c (f # x # w) # h) \<longleftrightarrow>
     concerns k c \<and> f = SDEI_1_0_FN_SDEI_INTERRUPT_BIND \<and> x = ucast (bound_interrupt k) \<or>
     f \<notin> {SDEI_1_0_FN_SDEI_INTERRUPT_RELEASE, SDEI_1_0_FN_SDEI_SHARED_RESET, SDEI_1_0_FN_SDEI_PRIVATE_RESET} \<and> bound k h"
| "bound k (_ # h) = bound k h"

text \<open>Accesses after which a bound event keeps its number: everything but releases, resets and the
  binding of other interrupts.\<close>

definition event_calls :: "u64 set" where
  "event_calls = life_cycle_calls \<union> {SDEI_1_0_FN_SDEI_EVENT_STATUS, SDEI_1_0_FN_SDEI_EVENT_GET_INFO,
     SDEI_1_0_FN_SDEI_EVENT_ROUTING_SET}"

fun keeps_numbers :: "io_event \<Rightarrow> bool" where
  "keeps_numbers (Smc c (f # x # w)) \<longleftrightarrow>
     f \<in> event_calls \<or>
     f = SDEI_1_0_FN_SDEI_INTERRUPT_BIND \<and> (x = ucast SPI_INTR_NUM \<or> x = ucast PPI_INTR_NUM)"
| "keeps_numbers (Smc c w) \<longleftrightarrow> False"
| "keeps_numbers _ \<longleftrightarrow> True"

text \<open>\<open>ev k h\<close> is the event that the interrupt of \<open>k\<close> is bound to after \<open>h\<close>. The flags of a
  registration are its third argument. The event of the test's unknown number does not exist, and
  no event is delivered while these tests run.\<close>

definition keeps_life_cycle :: "hw \<Rightarrow> (event_key \<Rightarrow> history \<Rightarrow> u64) \<Rightarrow> bool" where
  "keeps_life_cycle hw ev \<longleftrightarrow>
     (\<forall>k h. ev k h \<noteq> 0 \<and> ev k h < 2 ^ 32 \<and> ev k h \<noteq> ucast SDEI_UNKNOWN_EVENT) \<and>
     (\<forall>m h. ev SharedEvent h \<noteq> ev (PrivateEvent m) h) \<and>
     (\<forall>k h x. keeps_numbers x \<longrightarrow> ev k (x # h) = ev k h) \<and>
     (\<forall>k h m w. concerns k m \<longrightarrow>
        fst (smc_in hw h m (SDEI_1_0_FN_SDEI_INTERRUPT_BIND # ucast (bound_interrupt k) # w)) = ev k h) \<and>
     (\<forall>k h m w. concerns k m \<longrightarrow> bound k h \<longrightarrow>
        fst (smc_in hw h m (SDEI_1_0_FN_SDEI_EVENT_STATUS # ev k h # w)) = status_of (handler k (ev k h) h) \<and>
        (\<forall>a b. fst (smc_in hw h m (SDEI_1_0_FN_SDEI_EVENT_REGISTER # ev k h # a # b # 0 # w)) =
           life_cycle_answer SDEI_1_0_FN_SDEI_EVENT_REGISTER (handler k (ev k h) h)) \<and>
        (\<forall>f\<in>life_cycle_calls - {SDEI_1_0_FN_SDEI_EVENT_REGISTER}.
           fst (smc_in hw h m (f # ev k h # w)) = life_cycle_answer f (handler k (ev k h) h))) \<and>
     (\<forall>f\<in>life_cycle_calls. \<forall>h m w. fst (smc_in hw h m (f # ucast SDEI_UNKNOWN_EVENT # w)) = SDEI_INVALID_PARAMETERS)"

text \<open>No event that the tests use is registered.\<close>

definition idle :: "(event_key \<Rightarrow> history \<Rightarrow> u64) \<Rightarrow> history \<Rightarrow> bool" where
  "idle ev h \<longleftrightarrow> (\<forall>k. handler k (ev k h) h = Unregistered)"

lemma keeps_life_cycle_mpidr [simp]: "keeps_life_cycle (hw\<lparr>mpidr_in := m\<rparr>) ev = keeps_life_cycle hw ev"
  by (simp add: keeps_life_cycle_def)

lemma life_cycle_simps [simp]:
  "life_cycle SDEI_1_0_FN_SDEI_EVENT_REGISTER st = (if st = Unregistered then Registered else st)"
  "life_cycle SDEI_1_0_FN_SDEI_EVENT_ENABLE st = (if st = Unregistered then st else Enabled)"
  "life_cycle SDEI_1_0_FN_SDEI_EVENT_DISABLE st = (if st = Unregistered then st else Registered)"
  "life_cycle SDEI_1_0_FN_SDEI_EVENT_UNREGISTER st = Unregistered"
  "life_cycle SDEI_1_0_FN_SDEI_EVENT_STATUS st = st" "life_cycle SDEI_1_0_FN_SDEI_EVENT_ROUTING_SET st = st" "life_cycle SDEI_1_0_FN_SDEI_INTERRUPT_BIND st = st"
  by (simp_all add: life_cycle_def sdei_fn_defs)

lemma life_cycle_answers [simp]:
  "life_cycle_answer SDEI_1_0_FN_SDEI_EVENT_REGISTER st = (if st = Unregistered then 0 else SDEI_DENIED)"
  "life_cycle_answer SDEI_1_0_FN_SDEI_EVENT_ENABLE st = (if st = Unregistered then SDEI_DENIED else 0)"
  "life_cycle_answer SDEI_1_0_FN_SDEI_EVENT_DISABLE st = (if st = Unregistered then SDEI_DENIED else 0)"
  "life_cycle_answer SDEI_1_0_FN_SDEI_EVENT_UNREGISTER st = (if st = Unregistered then SDEI_DENIED else 0)"
  by (simp_all add: life_cycle_answer_def sdei_fn_defs)


lemma logged_history:
  "\<exists>w. io (sdei_logged hw f e a0 a1 a2 a3 s) = Smc (mpidr_in hw) (f # e # w) # io s"
  by (simp add: sdei_logged_def log_io_def)

text \<open>The event stays what it is and bound along the calls of the tests.\<close>

lemma logged_keeps:
  assumes "keeps_life_cycle hw ev"
    and "f \<in> event_calls \<or>
      f = SDEI_1_0_FN_SDEI_INTERRUPT_BIND \<and> (e = ucast SPI_INTR_NUM \<or> e = ucast PPI_INTR_NUM)"
  shows "ev k (io (sdei_logged hw f e a0 a1 a2 a3 s)) = ev k (io s)"
    "bound k (io s) \<Longrightarrow> bound k (io (sdei_logged hw f e a0 a1 a2 a3 s))"
proof -
  obtain w where w: "io (sdei_logged hw f e a0 a1 a2 a3 s) = Smc (mpidr_in hw) (f # e # w) # io s"
    using logged_history by blast
  show "ev k (io (sdei_logged hw f e a0 a1 a2 a3 s)) = ev k (io s)"
    unfolding w using assms by (simp add: keeps_life_cycle_def)
  show "bound k (io (sdei_logged hw f e a0 a1 a2 a3 s))" if "bound k (io s)"
    unfolding w using that assms(2) by (auto simp: event_calls_def life_cycle_calls_def sdei_fn_defs)
qed

lemma logged_handler:
  assumes "f \<in> event_calls \<or> f = SDEI_1_0_FN_SDEI_INTERRUPT_BIND"
  shows "handler k e (io (sdei_logged hw f x a0 a1 a2 a3 s)) =
     (if concerns k (mpidr_in hw) \<and> x = e then life_cycle f (handler k e (io s)) else handler k e (io s))"
proof -
  obtain w where w: "io (sdei_logged hw f x a0 a1 a2 a3 s) = Smc (mpidr_in hw) (f # x # w) # io s"
    using logged_history by blast
  have "f \<noteq> reset_call k"
    using assms by (auto simp: event_calls_def life_cycle_calls_def reset_call_def sdei_fn_defs split: event_key.splits)
  then show ?thesis by (simp add: w)
qed

lemma life_cycle_members [simp]:
  "SDEI_1_0_FN_SDEI_EVENT_REGISTER \<in> life_cycle_calls" "SDEI_1_0_FN_SDEI_EVENT_ENABLE \<in> life_cycle_calls"
  "SDEI_1_0_FN_SDEI_EVENT_DISABLE \<in> life_cycle_calls" "SDEI_1_0_FN_SDEI_EVENT_UNREGISTER \<in> life_cycle_calls"
  "SDEI_1_0_FN_SDEI_EVENT_ENABLE \<noteq> SDEI_1_0_FN_SDEI_EVENT_REGISTER"
  "SDEI_1_0_FN_SDEI_EVENT_DISABLE \<noteq> SDEI_1_0_FN_SDEI_EVENT_REGISTER"
  "SDEI_1_0_FN_SDEI_EVENT_UNREGISTER \<noteq> SDEI_1_0_FN_SDEI_EVENT_REGISTER"
  by (simp_all add: life_cycle_calls_def) (simp_all add: sdei_fn_defs)

lemma event_calls_members [simp]:
  "f \<in> life_cycle_calls \<Longrightarrow> f \<in> event_calls" "SDEI_1_0_FN_SDEI_EVENT_STATUS \<in> event_calls"
  "SDEI_1_0_FN_SDEI_EVENT_ROUTING_SET \<in> event_calls" "SDEI_1_0_FN_SDEI_EVENT_GET_INFO \<in> event_calls"
  by (simp_all add: event_calls_def)

text \<open>What the firmware answers to the event of \<open>k\<close>.\<close>

lemma life_cycle_answered:
  assumes "keeps_life_cycle hw ev" "concerns k (mpidr_in hw)" "bound k (io s)" "ev k (io s) = e"
  shows "sdei_answer hw s SDEI_1_0_FN_SDEI_EVENT_REGISTER e a b 0 0 =
      life_cycle_answer SDEI_1_0_FN_SDEI_EVENT_REGISTER (handler k e (io s))"
    "sdei_answer hw s SDEI_1_0_FN_SDEI_EVENT_ENABLE e 0 0 0 0 =
      life_cycle_answer SDEI_1_0_FN_SDEI_EVENT_ENABLE (handler k e (io s))"
    "sdei_answer hw s SDEI_1_0_FN_SDEI_EVENT_DISABLE e 0 0 0 0 =
      life_cycle_answer SDEI_1_0_FN_SDEI_EVENT_DISABLE (handler k e (io s))"
    "sdei_answer hw s SDEI_1_0_FN_SDEI_EVENT_UNREGISTER e 0 0 0 0 =
      life_cycle_answer SDEI_1_0_FN_SDEI_EVENT_UNREGISTER (handler k e (io s))"
    "sdei_answer hw s SDEI_1_0_FN_SDEI_EVENT_STATUS e 0 0 0 0 = status_of (handler k e (io s))"
proof -
  note laws = assms(1) [unfolded keeps_life_cycle_def, THEN conjunct2, THEN conjunct2, THEN conjunct2,
      THEN conjunct2, THEN conjunct1, rule_format, OF assms(2,3), unfolded assms(4)]
  show "sdei_answer hw s SDEI_1_0_FN_SDEI_EVENT_REGISTER e a b 0 0 =
      life_cycle_answer SDEI_1_0_FN_SDEI_EVENT_REGISTER (handler k e (io s))"
    "sdei_answer hw s SDEI_1_0_FN_SDEI_EVENT_STATUS e 0 0 0 0 = status_of (handler k e (io s))"
    unfolding sdei_answer_def using laws by blast+
  have "fst (smc_in hw (io s) (mpidr_in hw) (f # e # w)) = life_cycle_answer f (handler k e (io s))"
    if "f \<in> life_cycle_calls - {SDEI_1_0_FN_SDEI_EVENT_REGISTER}" for f w
    using laws that by blast
  then show "sdei_answer hw s SDEI_1_0_FN_SDEI_EVENT_ENABLE e 0 0 0 0 =
      life_cycle_answer SDEI_1_0_FN_SDEI_EVENT_ENABLE (handler k e (io s))"
    "sdei_answer hw s SDEI_1_0_FN_SDEI_EVENT_DISABLE e 0 0 0 0 =
      life_cycle_answer SDEI_1_0_FN_SDEI_EVENT_DISABLE (handler k e (io s))"
    "sdei_answer hw s SDEI_1_0_FN_SDEI_EVENT_UNREGISTER e 0 0 0 0 =
      life_cycle_answer SDEI_1_0_FN_SDEI_EVENT_UNREGISTER (handler k e (io s))"
    unfolding sdei_answer_def by simp_all
qed


subsection \<open>The payloads on a firmware that keeps the life cycle\<close>

text \<open>While a payload runs: its event is bound and in the given state, no other event is registered,
  and nothing was stored since \<open>s0\<close>.\<close>

definition own_event ::
    "(event_key \<Rightarrow> history \<Rightarrow> u64) \<Rightarrow> event_key \<Rightarrow> u64 \<Rightarrow> sworld \<Rightarrow> handler_state \<Rightarrow> sworld \<Rightarrow> bool" where
  "own_event ev k e s0 st s \<longleftrightarrow>
     bound k (io s) \<and> ev k (io s) = e \<and> handler k e (io s) = st \<and>
     (\<forall>k'. k' \<noteq> k \<longrightarrow> handler k' (ev k' (io s)) (io s) = Unregistered) \<and> sg s = sg s0 \<and> shared s = shared s0"

lemma own_event_idle: "own_event ev k e s0 Unregistered s \<Longrightarrow> idle ev (io s)"
  unfolding own_event_def idle_def by metis

lemma apart:
  assumes "keeps_life_cycle hw ev" "k \<noteq> k'" "concerns k m" "concerns k' m"
  shows "ev k h \<noteq> ev k' h"
proof -
  have "ev SharedEvent h \<noteq> ev (PrivateEvent m) h" using assms(1) by (simp add: keeps_life_cycle_def)
  then show ?thesis using assms(2-4) by (cases k; cases k') (auto simp: concerns_def)
qed

lemma own_event_step:
  assumes "keeps_life_cycle hw ev" "concerns k (mpidr_in hw)" "own_event ev k e s0 st s"
    and "f \<in> event_calls"
  shows "own_event ev k e s0 (life_cycle f st) (sdei_logged hw f e a b c d s)"
proof -
  have f: "f \<in> event_calls \<or> f = SDEI_1_0_FN_SDEI_INTERRUPT_BIND \<and> P"
      "f \<in> event_calls \<or> f = SDEI_1_0_FN_SDEI_INTERRUPT_BIND" for P
    using assms(4) by auto
  note keeps = logged_keeps [OF assms(1) f(1), where ?a0.0 = a and ?a1.0 = b and ?a2.0 = c and ?a3.0 = d]
  have "handler k' (ev k' (io s)) (io (sdei_logged hw f e a b c d s)) = Unregistered" if "k' \<noteq> k" for k'
    using that assms(3) apart [OF assms(1) that [symmetric] assms(2), of "io s"]
    by (auto simp: logged_handler [OF f(2)] own_event_def)
  then show ?thesis using assms(2,3) keeps by (simp add: own_event_def logged_handler [OF f(2)])
qed

text \<open>One rule per call: what it returns and where the event is then.\<close>

lemma call_steps:
  assumes "keeps_life_cycle hw ev" "concerns k (mpidr_in hw)" "own_event ev k e s0 st s" "ucast (ucast e :: u32) = e"
  shows "(\<And>t. own_event ev k e s0 (if st = Unregistered then Registered else st) t \<Longrightarrow>
        returns Q (g (if st = Unregistered then 0 else SDEI_STATUS_DENIED) t)) \<Longrightarrow>
      returns Q (case val_sdei_event_register hw (ucast e) h 0 0 0 s of (err, t) \<Rightarrow> g err t)"
    "(\<And>t. own_event ev k e s0 (if st = Unregistered then st else Enabled) t \<Longrightarrow>
        returns Q (g (if st = Unregistered then SDEI_STATUS_DENIED else 0) t)) \<Longrightarrow>
      returns Q (case val_sdei_event_enable hw (ucast e) s of (err, t) \<Rightarrow> g err t)"
    "(\<And>t. own_event ev k e s0 (if st = Unregistered then st else Registered) t \<Longrightarrow>
        returns Q (g (if st = Unregistered then SDEI_STATUS_DENIED else 0) t)) \<Longrightarrow>
      returns Q (case val_sdei_event_disable hw (ucast e) s of (err, t) \<Rightarrow> g err t)"
    "(\<And>t. own_event ev k e s0 Unregistered t \<Longrightarrow>
        returns Q (g (if st = Unregistered then SDEI_STATUS_DENIED else 0) t)) \<Longrightarrow>
      returns Q (case val_sdei_event_unregister hw (ucast e) s of (err, t) \<Rightarrow> g err t)"
    "(\<And>t. own_event ev k e s0 st t \<Longrightarrow> returns Q (g' 0 (status_of st) t)) \<Longrightarrow>
      returns Q (case_prod (case_prod g') (val_sdei_event_status hw (ucast e) s))"
proof -
  have b: "bound k (io s)" "ev k (io s) = e" "handler k e (io s) = st" using assms(3) by (simp_all add: own_event_def)
  note ans = life_cycle_answered [OF assms(1,2) b(1,2), unfolded b(3)]
  note steps = own_event_step [OF assms(1-3)]
  have "accepted 0" "accepted (status_of st)"
    by (simp_all add: accepted_def sdei_is_err_def reg_defs status_of_def split: handler_state.splits)
  then have e: "sdei_error 0 = 0" "sdei_error SDEI_DENIED = SDEI_STATUS_DENIED" "sdei_error (status_of st) = 0"
    by (simp_all add: denied_def)
  note run = call_runs assms(4) ans life_cycle_answers e if_distrib [of sdei_error]
  show "returns Q (case val_sdei_event_register hw (ucast e) h 0 0 0 s of (err, t) \<Rightarrow> g err t)"
    if "\<And>t. own_event ev k e s0 (if st = Unregistered then Registered else st) t \<Longrightarrow>
        returns Q (g (if st = Unregistered then 0 else SDEI_STATUS_DENIED) t)"
    using that [OF steps [of SDEI_1_0_FN_SDEI_EVENT_REGISTER, unfolded life_cycle_simps]] by (cases "st = Unregistered") (simp_all add: run)
  show "returns Q (case val_sdei_event_enable hw (ucast e) s of (err, t) \<Rightarrow> g err t)"
    if "\<And>t. own_event ev k e s0 (if st = Unregistered then st else Enabled) t \<Longrightarrow>
        returns Q (g (if st = Unregistered then SDEI_STATUS_DENIED else 0) t)"
    using that [OF steps [of SDEI_1_0_FN_SDEI_EVENT_ENABLE, unfolded life_cycle_simps]] by (cases "st = Unregistered") (simp_all add: run)
  show "returns Q (case val_sdei_event_disable hw (ucast e) s of (err, t) \<Rightarrow> g err t)"
    if "\<And>t. own_event ev k e s0 (if st = Unregistered then st else Registered) t \<Longrightarrow>
        returns Q (g (if st = Unregistered then SDEI_STATUS_DENIED else 0) t)"
    using that [OF steps [of SDEI_1_0_FN_SDEI_EVENT_DISABLE, unfolded life_cycle_simps]] by (cases "st = Unregistered") (simp_all add: run)
  show "returns Q (case val_sdei_event_unregister hw (ucast e) s of (err, t) \<Rightarrow> g err t)"
    if "\<And>t. own_event ev k e s0 Unregistered t \<Longrightarrow>
        returns Q (g (if st = Unregistered then SDEI_STATUS_DENIED else 0) t)"
    using that [OF steps [of SDEI_1_0_FN_SDEI_EVENT_UNREGISTER, unfolded life_cycle_simps]] by (cases "st = Unregistered") (simp_all add: run)
  show "returns Q (case_prod (case_prod g') (val_sdei_event_status hw (ucast e) s))"
    if "\<And>t. own_event ev k e s0 st t \<Longrightarrow> returns Q (g' 0 (status_of st) t)"
    using that [OF steps [of SDEI_1_0_FN_SDEI_EVENT_STATUS, unfolded life_cycle_simps]] by (simp add: run)
qed


text \<open>The PE that runs is in the table and has a status word.\<close>

definition runs_as :: "hw \<Rightarrow> u32 \<Rightarrow> sworld \<Rightarrow> bool" where
  "runs_as hw i s \<longleftrightarrow> sdei_val_pe_get_index_mpid (affx (mpidr_in hw)) s = Some i \<and> unat i < shared_size s"

text \<open>A run that reported PASS for PE \<open>i\<close>, stored nothing else, and left no event registered.\<close>

definition passed :: "(event_key \<Rightarrow> history \<Rightarrow> u64) \<Rightarrow> u32 \<Rightarrow> sworld \<Rightarrow> sworld \<Rightarrow> bool" where
  "passed ev i s t \<longleftrightarrow> idle ev (io t) \<and> sg t = sg s \<and> shared_size t = shared_size s \<and>
     (\<forall>j. status_word j t = (if j = i then SDEI_TEST_PASS else status_word j s))"

lemma idle_tame:
  assumes "keeps_life_cycle hw ev" "idle ev h"
  shows "idle ev (SysRead r # h)" "idle ev (CacheOp l c # h)"
  using assms by (simp_all add: idle_def keeps_life_cycle_def)

text \<open>What a report does.\<close>

lemma own_status_stored:
  assumes "runs_as hw i s"
  shows "\<exists>t a b c. set_own_status hw st s = Some t \<and> sg t = sg s \<and> shared_size t = shared_size s \<and>
     (\<forall>j. status_word j t = (if j = i then st else status_word j s)) \<and>
     io t = [CacheOp a CLEAN_AND_INVALIDATE, CacheOp b CLEAN_AND_INVALIDATE, CacheOp c CLEAN_AND_INVALIDATE,
       SysRead ''ArmReadMpidr''] @ io s"
proof -
  let ?s = "log_io (SysRead ''ArmReadMpidr'') s"
  have "sdei_val_pe_get_index_mpid m ?s = sdei_val_pe_get_index_mpid m s" for m
    by (simp add: sdei_val_pe_get_index_mpid_def)
  then have i: "sdei_val_pe_get_index hw s = Some (i, ?s)"
    using assms by (simp add: sdei_val_pe_get_index_def sdei_val_pe_get_mpid_def sdei_val_pe_reg_read_def runs_as_def)
  have sz: "shared_size ?s = shared_size s" "status_word j ?s = status_word j s" for j
    by (simp_all add: shared_size_def status_word_def)
  obtain t where t: "val_test_pe_set_status hw i st ?s = Some t"
    using sdei_set_status_defined [of hw i st ?s] assms by (auto simp: runs_as_def sz)
  then have "\<exists>a b c. io t = [CacheOp a CLEAN_AND_INVALIDATE, CacheOp b CLEAN_AND_INVALIDATE,
      CacheOp c CLEAN_AND_INVALIDATE, SysRead ''ArmReadMpidr''] @ io s"
    by (auto simp: val_test_pe_set_status_def val_shared_mem_write_def Let_def Option.bind_eq_Some_conv)
  then show ?thesis using sdei_set_status_run [OF t] by (simp add: set_own_status_def i t sz)
qed

lemma set_own_status_returns:
  assumes "keeps_life_cycle hw ev" "idle ev (io s)" "runs_as hw i s"
  shows "returns (\<lambda>t. idle ev (io t) \<and> sg t = sg s \<and> shared_size t = shared_size s \<and>
      (\<forall>j. status_word j t = (if j = i then st else status_word j s))) (set_own_status hw st s)"
  using own_status_stored [OF assms(3), of st] idle_tame [OF assms(1)] assms(2) by (auto simp: returns_def)

lemma return_pass:
  assumes "keeps_life_cycle hw ev" "runs_as hw i s0" "own_event ev k e s0 Unregistered s"
  shows "returns (\<lambda>(st, t). st = SDEI_TEST_PASS \<and> passed ev i s0 t) (return_status hw SDEI_TEST_PASS s)"
proof -
  have same: "sg s = sg s0" "shared s = shared s0" using assms(3) by (simp_all add: own_event_def)
  have "runs_as hw i s"
    using assms(2) sdei_shared_size_cong [OF same(2)] same(1)
    by (simp add: runs_as_def sdei_val_pe_get_index_mpid_def)
  from set_own_status_returns [OF assms(1) own_event_idle [OF assms(3)] this, of SDEI_TEST_PASS]
  show ?thesis
    unfolding return_status_def
    by (rule returns_seq) (simp add: passed_def same sdei_shared_size_cong [OF same(2)] sdei_status_word_cong [OF same(2)])
qed

definition key_of :: "u32 \<Rightarrow> hw \<Rightarrow> event_key" where
  "key_of ty hw = (if ty = SDEI_EVENT_TYPE_SHARED then SharedEvent else PrivateEvent (mpidr_in hw))"

lemma event_number:
  assumes "keeps_life_cycle hw ev"
  shows "ucast (ucast (ev k h) :: u32) = ev k h" "(ucast (ev k h) :: u32) \<noteq> 0" "accepted (ev k h)"
proof -
  have ev: "ev k h \<noteq> 0" "ev k h < 2 ^ 32" using assms by (simp_all add: keeps_life_cycle_def)
  have "unat (2 ^ 32 :: u64) = 2 ^ 32" by simp
  with unat_mono [OF ev(2)] have b: "unat (ev k h) < 2 ^ 32" by (simp only:)
  have "unat (ucast (ev k h) :: u32) = unat (ev k h)" by (rule unat_ucast_small) (use b in simp)
  moreover have "unat (ucast (ucast (ev k h) :: u32) :: u64) = unat (ucast (ev k h) :: u32)"
    by (rule unat_ucast_small) (use calculation b in simp)
  ultimately show u: "ucast (ucast (ev k h) :: u32) = ev k h" by (simp add: word_unat_eq_iff)
  show "(ucast (ev k h) :: u32) \<noteq> 0" using u ev(1) by auto
  show "accepted (ev k h)" using ev(2) by (auto simp: accepted_def sdei_is_err_def reg_defs)
qed

lemma bind_step:
  assumes "keeps_life_cycle hw ev" "idle ev (io s)" "ty \<in> {SDEI_EVENT_TYPE_SHARED, SDEI_EVENT_TYPE_PRIVATE}"
    and "\<And>t. own_event ev (key_of ty hw) (ev (key_of ty hw) (io s)) s Unregistered t \<Longrightarrow>
      returns Q (f (ucast (ev (key_of ty hw) (io s))) t)"
  shows "returns Q (Option.bind (val_event_get hw ty prio s) (\<lambda>(e, t). f e t))"
proof -
  let ?k = "key_of ty hw" and ?irq = "bound_interrupt (key_of ty hw)"
  have c: "concerns ?k (mpidr_in hw)" by (simp add: concerns_def key_of_def)
  have irq: "ty = SDEI_EVENT_TYPE_SHARED \<and> ?irq = SPI_INTR_NUM \<or> ty = SDEI_EVENT_TYPE_PRIVATE \<and> ?irq = PPI_INTR_NUM"
    using assms(3) by (auto simp: key_of_def bound_interrupt_def reg_defs)
  have a: "sdei_answer hw s SDEI_1_0_FN_SDEI_INTERRUPT_BIND (ucast ?irq) 0 0 0 0 = ev ?k (io s)"
    using assms(1) c unfolding sdei_answer_def keeps_life_cycle_def by blast
  from event_get_bound [OF irq, of hw prio s] obtain t where t: "val_event_get hw ty prio s = Some (ucast (ev ?k (io s)), t)"
      "io t = io (sdei_logged hw SDEI_1_0_FN_SDEI_INTERRUPT_BIND (ucast ?irq) 0 0 0 0 s)" "sg t = sg s" "shared t = shared s"
    by (auto simp: a)
  obtain w where w: "io t = Smc (mpidr_in hw) (SDEI_1_0_FN_SDEI_INTERRUPT_BIND # ucast ?irq # w) # io s"
    using t(2) logged_history by metis
  have e: "ev k (io t) = ev k (io s)" for k
    unfolding t(2) by (rule logged_keeps(1) [OF assms(1)]) (use irq in auto)
  have h: "handler k x (io t) = handler k x (io s)" for k x
    unfolding t(2) by (subst logged_handler) auto
  have "bound ?k (io t)" using c by (simp add: w)
  then have "own_event ev ?k (ev ?k (io s)) s Unregistered t"
    using assms(2) t(3,4) by (simp add: own_event_def e h idle_def)
  then show ?thesis using assms(4) t(1) by simp
qed


text \<open>Each of the four payloads passes and leaves its event unregistered.\<close>

lemma payload_passes:
  assumes "keeps_life_cycle hw ev" "idle ev (io s)" "runs_as hw i s"
    and "ty \<in> {SDEI_EVENT_TYPE_SHARED, SDEI_EVENT_TYPE_PRIVATE}" "n \<in> {3, 5, 6, 7}"
  shows "returns (\<lambda>(st, t). st = SDEI_TEST_PASS \<and> passed ev i s t) (event_payload n h hw ty s)"
proof -
  let ?k = "key_of ty hw"
  have c: "concerns ?k (mpidr_in hw)" by (simp add: concerns_def key_of_def)
  note calls = call_steps [OF assms(1) c _ event_number(1) [OF assms(1)]]
  note ends = return_pass [OF assms(1,3)]
  have "SDEI_STATUS_DENIED \<noteq> 0" by (simp add: reg_defs)
  note simps = this event_number(2) [OF assms(1)] event_unregister_def Let_def status_of_def status_bits
  have bits: "bit (1 :: u64) 0" "bit (3 :: u64) 1" "\<not> bit (1 :: u64) 1" by simp_all
  have "returns (\<lambda>(st, t). st = SDEI_TEST_PASS \<and> passed ev i s t) (payload_003 h hw ty s)"
    unfolding payload_003_def Let_def
    by (rule bind_step [OF assms(1,2,4)], simp add: simps, rule calls(1), assumption, simp, rule calls(1), assumption, simp,
        rule calls(5), assumption, simp add: simps bits, rule calls(4), assumption, simp, rule ends)
  moreover have "returns (\<lambda>(st, t). st = SDEI_TEST_PASS \<and> passed ev i s t) (payload_005 h hw ty s)"
    unfolding payload_005_def Let_def
    by (rule bind_step [OF assms(1,2,4)], simp add: simps, rule calls(2), assumption, simp, rule calls(1), assumption, simp,
        rule calls(2), assumption, simp,
        rule calls(5), assumption, simp add: simps bits, rule calls(4), assumption, simp, rule ends)
  moreover have "returns (\<lambda>(st, t). st = SDEI_TEST_PASS \<and> passed ev i s t) (payload_006 h hw ty s)"
    unfolding payload_006_def Let_def
    by (rule bind_step [OF assms(1,2,4)], simp add: simps, rule calls(3), assumption, simp, rule calls(1), assumption, simp,
        rule calls(3), assumption, simp,
        rule calls(5), assumption, simp add: simps bits, rule calls(4), assumption, simp, rule ends)
  moreover have "returns (\<lambda>(st, t). st = SDEI_TEST_PASS \<and> passed ev i s t) (payload_007 h hw ty s)"
    unfolding payload_007_def Let_def
    by (rule bind_step [OF assms(1,2,4)], simp add: simps, rule calls(4), assumption, simp, rule calls(1), assumption, simp,
        rule calls(4), assumption, simp,
        rule calls(5), assumption, simp add: simps bits, rule ends)
  ultimately show ?thesis using assms(5) by (auto simp: event_payload_def)
qed


subsection \<open>The tests on all PEs\<close>

text \<open>The PE table is well-formed, its identifiers have no fields above Aff2, the running PE is in it,
  and every PE has a status word.\<close>

definition pes_ready :: "hw \<Rightarrow> sworld \<Rightarrow> bool" where
  "pes_ready hw s \<longleftrightarrow>
     (\<exists>t. sd_pe_table (sg s) = Some t \<and> wf_pe_table t \<and> unat (num_of_pe t) \<le> shared_size s \<and>
        (\<forall>e\<in>set (pe_info t). affx (mpidr e) = mpidr e) \<and> affx (mpidr_in hw) = own_mpidr hw \<and>
        own_mpidr hw \<in> mpidr ` set (pe_info t))"

lemma pes_ready_cong: "sg t = sg s \<Longrightarrow> shared_size t = shared_size s \<Longrightarrow> pes_ready hw t = pes_ready hw s"
  by (simp add: pes_ready_def)

lemma table_index:
  assumes "pes_ready hw s" "i < sdei_val_pe_get_num s"
  shows "\<exists>m. affx m = m \<and> sdei_val_pe_get_index_mpid m s = Some i \<and> unat i < shared_size s \<and>
     (m = own_mpidr hw \<or> m \<in> set (other_pes hw s))"
proof -
  obtain t where t: "sd_pe_table (sg s) = Some t" "wf_pe_table t" "unat (num_of_pe t) \<le> shared_size s"
      "\<forall>e\<in>set (pe_info t). affx (mpidr e) = mpidr e"
    using assms(1) by (auto simp: pes_ready_def)
  have i: "i < num_of_pe t" "unat i < length (pe_info t)" "length (pe_info t) = unat (num_of_pe t)"
    using assms(2) t by (auto simp: sdei_val_pe_get_num_def wf_pe_table_def word_less_nat_alt)
  define m where "m = mpidr (pe_info t ! unat i)"
  have "sdei_val_pe_get_mpid_index i s = Some m"
    using t(1) i wf_pe_table_at(1) [OF t(2) i(1)] by (auto simp: sdei_val_pe_get_mpid_index_def m_def)
  then have "sdei_val_pe_get_index_mpid m s = Some i"
    using sdei_pe.index_mpid [of s i m] assms(2) t(1,2) by (auto simp: sdei_wf_pe_def)
  moreover have "m \<in> mpidr ` set (take (unat (num_of_pe t)) (pe_info t))" using i by (simp add: m_def)
  then have "m = own_mpidr hw \<or> m \<in> set (other_pes hw s)" using t(1) by (auto simp: other_pes_def)
  ultimately show ?thesis using t(3,4) i by (auto simp: m_def)
qed

lemma table_member:
  assumes "pes_ready hw s" "m = own_mpidr hw \<or> m \<in> set (other_pes hw s)"
  shows "affx m = m \<and> (\<exists>i. sdei_val_pe_get_index_mpid m s = Some i \<and> unat i < shared_size s)"
proof -
  obtain t where t: "sd_pe_table (sg s) = Some t" "wf_pe_table t" "unat (num_of_pe t) \<le> shared_size s"
      "\<forall>e\<in>set (pe_info t). affx (mpidr e) = mpidr e" "own_mpidr hw \<in> mpidr ` set (pe_info t)"
    using assms(1) by (auto simp: pes_ready_def)
  then obtain e where e: "e \<in> set (pe_info t)" "m = mpidr e"
    using assms(2) by (auto simp: other_pes_def dest: in_set_takeD)
  then obtain k where k: "k < length (pe_info t)" "pe_info t ! k = e" by (auto simp: in_set_conv_nth)
  have len: "length (pe_info t) = unat (num_of_pe t)" using t(2) by (simp add: wf_pe_table_def)
  have u: "unat (of_nat k :: u32) = k" using k(1) by (simp add: unat_of_nat_below len)
  then have lt: "of_nat k < num_of_pe t" using k(1) len by (simp add: word_less_nat_alt)
  have "sdei_val_pe_get_mpid_index (of_nat k) s = Some m"
    using t(1) lt wf_pe_table_at(1) [OF t(2) lt] k(2) e(2) by (auto simp: sdei_val_pe_get_mpid_index_def u)
  then have "sdei_val_pe_get_index_mpid m s = Some (of_nat k)"
    using sdei_pe.index_mpid [of s "of_nat k" m] t(1,2) lt by (auto simp: sdei_wf_pe_def sdei_val_pe_get_num_def)
  then show ?thesis using t(3,4) e k(1) len u by auto
qed

lemma own_runs:
  assumes "pes_ready hw s"
  obtains i where "sdei_val_pe_get_index_mpid (own_mpidr hw) s = Some i" "runs_as hw i s"
proof -
  obtain i where "sdei_val_pe_get_index_mpid (own_mpidr hw) s = Some i" "unat i < shared_size s"
    using table_member [OF assms, of "own_mpidr hw"] by auto
  then show thesis using that [of i] assms by (auto simp: runs_as_def pes_ready_def)
qed

text \<open>Running a payload on a list of PEs: every one of them passes, and a PASS is never lost.\<close>

definition all_passed :: "(event_key \<Rightarrow> history \<Rightarrow> u64) \<Rightarrow> u64 set \<Rightarrow> sworld \<Rightarrow> sworld \<Rightarrow> bool" where
  "all_passed ev ms s t \<longleftrightarrow> idle ev (io t) \<and> sg t = sg s \<and> shared_size t = shared_size s \<and>
     (\<forall>m\<in>ms. \<forall>i. sdei_val_pe_get_index_mpid m s = Some i \<longrightarrow> status_word i t = SDEI_TEST_PASS)"

lemma all_passed_one:
  assumes "all_passed ev ms s t" "passed ev i t u" "sdei_val_pe_get_index_mpid m s = Some i"
  shows "all_passed ev (insert m ms) s u"
  using assms by (auto simp: all_passed_def passed_def)

lemma others_pass:
  assumes "keeps_life_cycle hw ev" "pes_ready hw s" "n \<in> {3, 5, 6, 7}" "set ms \<subseteq> set (other_pes hw s)"
    and "all_passed ev done s t"
  shows "returns (all_passed ev (done \<union> set ms) s)
     (for_each (\<lambda>m. (\<lambda>hw s. map_option snd (event_payload n h hw SDEI_EVENT_TYPE_PRIVATE s)) (hw\<lparr>mpidr_in := m\<rparr>)) ms t)"
  using assms(4,5)
proof (induction ms arbitrary: "done" t)
  case Nil
  then show ?case by simp
next
  case (Cons m ms)
  obtain i where m: "affx m = m" "sdei_val_pe_get_index_mpid m s = Some i" "unat i < shared_size s"
    using table_member [OF assms(2), of m] Cons.prems(1) by auto
  have t: "idle ev (io t)" "sg t = sg s" "shared_size t = shared_size s"
    using Cons.prems(2) by (simp_all add: all_passed_def)
  have r: "runs_as (hw\<lparr>mpidr_in := m\<rparr>) i t"
    using m t by (simp add: runs_as_def sdei_val_pe_get_index_mpid_def)
  obtain u where u: "event_payload n h (hw\<lparr>mpidr_in := m\<rparr>) SDEI_EVENT_TYPE_PRIVATE t = Some (SDEI_TEST_PASS, u)"
      "passed ev i t u"
    using payload_passes [of "hw\<lparr>mpidr_in := m\<rparr>" ev t i SDEI_EVENT_TYPE_PRIVATE n h] assms(1,3) t(1) r
    by (auto simp: returns_def)
  have "all_passed ev (insert m done) s u" by (rule all_passed_one [OF Cons.prems(2) u(2) m(2)])
  from Cons.IH [OF _ this] Cons.prems(1) show ?case by (simp add: u(1))
qed

lemma all_pes_pass:
  assumes "keeps_life_cycle hw ev" "pes_ready hw s" "n \<in> {3, 5, 6, 7}" "idle ev (io s)"
  shows "returns (\<lambda>t. idle ev (io t) \<and> sg t = sg s \<and> shared_size t = shared_size s \<and>
      (\<forall>i < sdei_val_pe_get_num s. status_word i t = SDEI_TEST_PASS))
     (on_all_pes hw (\<lambda>hw s. map_option snd (event_payload n h hw SDEI_EVENT_TYPE_PRIVATE s)) s)"
proof -
  obtain i where i: "sdei_val_pe_get_index_mpid (own_mpidr hw) s = Some i" and r: "runs_as hw i s"
    by (rule own_runs [OF assms(2)])
  obtain t where t: "event_payload n h hw SDEI_EVENT_TYPE_PRIVATE s = Some (SDEI_TEST_PASS, t)" "passed ev i s t"
    using payload_passes [OF assms(1,4) r, of SDEI_EVENT_TYPE_PRIVATE n h] assms(3) by (auto simp: returns_def)
  have "all_passed ev {own_mpidr hw} s t" using t(2) i by (auto simp: all_passed_def passed_def)
  from others_pass [OF assms(1-3) subset_refl this, of h]
  have "returns (all_passed ev ({own_mpidr hw} \<union> set (other_pes hw s)) s)
     (on_all_pes hw (\<lambda>hw s. map_option snd (event_payload n h hw SDEI_EVENT_TYPE_PRIVATE s)) s)"
    by (simp add: on_all_pes_def t(1))
  then show ?thesis
    using table_index [OF assms(2)] by (elim returns_mono) (auto simp: all_passed_def; metis)
qed


lemma all_words_pass:
  assumes "quiet_peers hw" "0 < timeout" "\<forall>i < sdei_val_pe_get_num s. status_word i s = SDEI_TEST_PASS"
    and "unat (sdei_val_pe_get_num s) \<le> shared_size s"
  shows "\<exists>u. val_test_get_status hw (sdei_val_pe_get_num s) timeout s = Some (SDEI_TEST_PASS, u)"
proof (cases "sdei_val_pe_get_num s = 1")
  case False
  then show ?thesis using sdei_verdict [OF assms(1,2) False assms(4)] assms(3) by auto
next
  case True
  then have "\<forall>i\<in>set (upto_u32 1). unat i < shared_size s" using assms(4) by simp
  from poll_any_first [OF assms(1) this] obtain u where
    "poll_any hw (upto_u32 1) s = Some (Some SDEI_TEST_PASS, u)"
    using assms(3) True by (auto simp: reg_defs)
  then show ?thesis using True assms(2) by (cases timeout) (auto simp: val_test_get_status_def)
qed


definition event_entry :: "nat \<Rightarrow> u64 \<Rightarrow> hw \<Rightarrow> sworld \<Rightarrow> sworld option" where
  "event_entry n =
     (if n = 3 then test_003_entry else if n = 5 then test_005_entry else if n = 6 then test_006_entry else test_007_entry)"

definition unknown_call :: "nat \<Rightarrow> u64 \<Rightarrow> hw \<Rightarrow> sworld \<Rightarrow> u32 \<times> sworld" where
  "unknown_call n h =
     (if n = 3 then (\<lambda>hw. val_sdei_event_register hw SDEI_UNKNOWN_EVENT h 0 0 0)
      else if n = 5 then (\<lambda>hw. val_sdei_event_enable hw SDEI_UNKNOWN_EVENT)
      else if n = 6 then (\<lambda>hw. val_sdei_event_disable hw SDEI_UNKNOWN_EVENT)
      else (\<lambda>hw. val_sdei_event_unregister hw SDEI_UNKNOWN_EVENT))"

lemma event_entry_parts:
  "n \<in> {3, 5, 6, 7} \<Longrightarrow> event_entry n h = event_test (event_payload n h) (unknown_call n h)"
  by (auto simp: event_entry_def event_payload_def unknown_call_def test_003_entry_def test_005_entry_def
      test_006_entry_def test_007_entry_def)

lemma unknown_refused:
  assumes "keeps_life_cycle hw ev" "n \<in> {3, 5, 6, 7}" "idle ev (io s)"
  shows "\<exists>t. unknown_call n h hw s = (SDEI_STATUS_INVALID, t) \<and> idle ev (io t) \<and> sg t = sg s \<and> shared t = shared s"
proof -
  let ?u = "ucast SDEI_UNKNOWN_EVENT :: u64"
  have inv: "sdei_answer hw s f ?u a b c d = SDEI_INVALID_PARAMETERS" if "f \<in> life_cycle_calls" for f a b c d
    using assms(1) that unfolding sdei_answer_def keeps_life_cycle_def by blast
  have "sdei_error SDEI_INVALID_PARAMETERS = SDEI_STATUS_INVALID" by simp
  moreover define f a where
    "f = (if n = 3 then SDEI_1_0_FN_SDEI_EVENT_REGISTER else if n = 5 then SDEI_1_0_FN_SDEI_EVENT_ENABLE
          else if n = 6 then SDEI_1_0_FN_SDEI_EVENT_DISABLE else SDEI_1_0_FN_SDEI_EVENT_UNREGISTER)"
    and "a = (if n = 3 then h else 0)"
  ultimately have f: "f \<in> life_cycle_calls"
      "unknown_call n h hw s = (SDEI_STATUS_INVALID, sdei_logged hw f ?u a 0 0 0 s)"
    using assms(2) by (auto simp: unknown_call_def call_runs inv)
  have "idle ev (io (sdei_logged hw f ?u a 0 0 0 s))"
    unfolding idle_def
  proof
    fix k
    have "ev k (io s) \<noteq> ?u" using assms(1) by (simp add: keeps_life_cycle_def)
    then show "handler k (ev k (io (sdei_logged hw f ?u a 0 0 0 s))) (io (sdei_logged hw f ?u a 0 0 0 s)) = Unregistered"
      using assms(3) f(1) logged_handler [of f k "ev k (io s)" hw ?u a 0 0 0 s]
      by (simp add: logged_keeps(1) [OF assms(1)] idle_def)
  qed
  then show ?thesis using f(2) by simp
qed



subsection \<open>Witnesses\<close>

text \<open>A dispatcher with one shared event, 500, and one private event, 400, whatever the interrupt.\<close>

definition dispatcher :: "history \<Rightarrow> u64 \<Rightarrow> u64 list \<Rightarrow> u64" where
  "dispatcher h m args =
     (case args of
        f # e # _ \<Rightarrow>
          (let st = handler (if e = 500 then SharedEvent else PrivateEvent m) e h
           in if f = SDEI_1_0_FN_SDEI_INTERRUPT_BIND then (if e = ucast SPI_INTR_NUM then 500 else 400)
              else if e = ucast SDEI_UNKNOWN_EVENT then SDEI_INVALID_PARAMETERS
              else if f = SDEI_1_0_FN_SDEI_EVENT_STATUS then status_of st
              else life_cycle_answer f st)
      | _ \<Rightarrow> 0)"

definition dispatcher_hw :: hw where
  "dispatcher_hw = (ram_hw (\<lambda>_. 0) 0x80000000)\<lparr>smc_in := (\<lambda>h m args. (dispatcher h m args, 0, 0, 0))\<rparr>"

definition dispatcher_events :: "event_key \<Rightarrow> history \<Rightarrow> u64" where
  "dispatcher_events k h = (case k of SharedEvent \<Rightarrow> 500 | PrivateEvent _ \<Rightarrow> 400)"

lemma dispatcher_keeps: "keeps_life_cycle dispatcher_hw dispatcher_events"
proof -
  have n: "SDEI_1_0_FN_SDEI_EVENT_STATUS \<noteq> SDEI_1_0_FN_SDEI_INTERRUPT_BIND"
    "\<And>f. f \<in> life_cycle_calls \<Longrightarrow> f \<noteq> SDEI_1_0_FN_SDEI_INTERRUPT_BIND \<and> f \<noteq> SDEI_1_0_FN_SDEI_EVENT_STATUS"
    by (auto simp: life_cycle_calls_def sdei_fn_defs)
  have r: "SDEI_1_0_FN_SDEI_EVENT_REGISTER \<noteq> SDEI_1_0_FN_SDEI_INTERRUPT_BIND"
    "SDEI_1_0_FN_SDEI_EVENT_REGISTER \<noteq> SDEI_1_0_FN_SDEI_EVENT_STATUS" using n(2) by simp_all
  show ?thesis
    unfolding keeps_life_cycle_def
    by (intro conjI allI impI ballI)
      (auto simp: dispatcher_events_def dispatcher_hw_def dispatcher_def concerns_def bound_interrupt_def n r
        SPI_INTR_NUM_def PPI_INTR_NUM_def SDEI_UNKNOWN_EVENT_def split: event_key.splits)
qed

definition ready_world :: sworld where
  "ready_world = pair_world\<lparr>shared := Some (replicate 2 \<lparr>data0 = 0, data1 = 0, status = SDEI_TEST_PENDING\<rparr>)\<rparr>"

lemma ready_world_ready: "pes_ready dispatcher_hw ready_world" "io ready_world = []"
proof -
  have "shared_size ready_world = 2" by (simp add: ready_world_def shared_size_def)
  moreover have "wf_pe_table \<lparr>num_of_pe = 2, pe_info = pair_table\<rparr>"
    using pair_world_wf(1) by (simp add: sdei_wf_pe_def pair_world_def)
  ultimately show "pes_ready dispatcher_hw ready_world"
    by (simp add: pes_ready_def ready_world_def pair_world_def pair_table_def pe_entry_def affx_def own_mpidr_def
        dispatcher_hw_def)
  show "io ready_world = []" by (simp add: ready_world_def pair_world_def sdei_world0_def)
qed

lemma sdei_find_pe_numeral [simp]:
  "sdei_find_pe (e # es) (numeral k) m =
     (if mpidr e = m then Some (pe_num e) else sdei_find_pe es (pred_numeral k) m)"
  by (simp add: numeral_eq_Suc)

lemma ready_runs:
  assumes "mpidr_in hw = 0x80000000"
  shows "runs_as hw 0 ready_world"
proof -
  have "affx (mpidr_in hw) = 0" by (simp add: assms affx_def)
  then show ?thesis
    by (simp add: runs_as_def ready_world_def pair_world_def sdei_val_pe_get_index_mpid_def pair_table_def pe_entry_def
        shared_size_def)
qed


text \<open>A firmware that answers 0 to everything: it has no event to bind.\<close>

lemma dispatcher_disables:
  obtains t where "event_payload 6 0x7000 dispatcher_hw SDEI_EVENT_TYPE_SHARED ready_world = Some (SDEI_TEST_PASS, t)"
proof -
  have r: "runs_as dispatcher_hw 0 ready_world" by (rule ready_runs) (simp add: dispatcher_hw_def)
  have "idle dispatcher_events (io ready_world)" by (simp add: ready_world_ready(2) idle_def)
  from payload_passes [OF dispatcher_keeps this r, where n = 6 and h = "0x7000" and ty = SDEI_EVENT_TYPE_SHARED]
  show thesis using that by (auto simp: returns_def)
qed

lemma event_payload_verdict_witness:
  "\<exists>t tr. event_payload 6 0x7000 dispatcher_hw SDEI_EVENT_TYPE_SHARED ready_world = Some (SDEI_TEST_PASS, t) \<and>
     answers dispatcher_hw (io t) = tr \<and> meets (event_spec 6) tr"
proof -
  obtain t where t: "event_payload 6 0x7000 dispatcher_hw SDEI_EVENT_TYPE_SHARED ready_world = Some (SDEI_TEST_PASS, t)"
    by (rule dispatcher_disables)
  show ?thesis using event_payload_verdict [OF t] t by (simp add: ready_world_ready(2))
qed

text \<open>The test of disabling never enables the event: a firmware that ignores the call passes.\<close>

lemma disable_test_never_enables:
  assumes "payload_006 h hw ty s = Some (st, t)" "ty \<in> {SDEI_EVENT_TYPE_SHARED, SDEI_EVENT_TYPE_PRIVATE}"
  shows "SDEI_1_0_FN_SDEI_EVENT_ENABLE \<notin> fst ` set (transcript hw s t)"
proof -
  have irq: "\<exists>irq. ty = SDEI_EVENT_TYPE_SHARED \<and> irq = SPI_INTR_NUM \<or> ty = SDEI_EVENT_TYPE_PRIVATE \<and> irq = PPI_INTR_NUM"
    using assms(2) by auto
  have "yields (\<lambda>r. SDEI_1_0_FN_SDEI_EVENT_ENABLE \<notin> fst ` set (transcript hw s (snd r))) (payload_006 h hw ty s)"
    unfolding payload_006_def
    by (rule exE [OF irq], rule test_bind, assumption, simp add: call_runs status_bits,
        intro conjI impI verdict_steps; simp add: transcript_def sdei_fn_defs)
  then show ?thesis using assms(1) by simp
qed

lemma disable_test_never_enables_witness:
  "\<exists>t. payload_006 0x7000 dispatcher_hw SDEI_EVENT_TYPE_SHARED ready_world = Some (SDEI_TEST_PASS, t) \<and>
     SDEI_1_0_FN_SDEI_EVENT_ENABLE \<notin> fst ` set (transcript dispatcher_hw ready_world t)"
proof -
  obtain t where "payload_006 0x7000 dispatcher_hw SDEI_EVENT_TYPE_SHARED ready_world = Some (SDEI_TEST_PASS, t)"
    by (rule dispatcher_disables) (auto simp: event_payload_def)
  then show ?thesis using disable_test_never_enables by blast
qed

end
