(* ===== verification/Sdei_Call_Tests.thy ===== *)
theory Sdei_Call_Tests
  imports Sdei_Event_Tests Sdei_Gic
begin

text \<open>
  The tests that make single calls of the dispatcher (test_pool/tests/test_001.c to test_023.c
  without the life cycle tests of Sdei_Event_Tests, and test_026.c): exception levels, GIC version,
  binding and releasing interrupts, routing, status and information of an event, resets, masking,
  features, version and error codes.
\<close>

unbundle bit_operations_syntax

subsection \<open>Reports\<close>

text \<open>A message and FAIL for the PE that runs.\<close>

definition failed :: "hw \<Rightarrow> string \<Rightarrow> u64 list \<Rightarrow> sworld \<Rightarrow> sworld option" where
  "failed hw message args s = set_own_status hw SDEI_TEST_FAIL (sdei_pal_print ACS_LOG_ERR message args s)"

text \<open>Unregistering at the end, with a message when it fails.\<close>

definition unregister_quietly :: "hw \<Rightarrow> u32 \<Rightarrow> string \<Rightarrow> u32 \<Rightarrow> sworld \<Rightarrow> sworld" where
  "unregister_quietly hw level message event_num s =
     (let (err, s) = val_sdei_event_unregister hw event_num s
      in if err \<noteq> 0 then sdei_pal_print level message [ucast event_num, ucast err] s else s)"

definition release_quietly :: "hw \<Rightarrow> u32 \<Rightarrow> u32 \<Rightarrow> sworld \<Rightarrow> sworld" where
  "release_quietly hw level event_num s =
     (let (err, s) = val_sdei_interrupt_release hw event_num s
      in if err \<noteq> 0
         then sdei_pal_print level ''Event number %d intrrupt release failed with err %d'' [ucast event_num, ucast err] s
         else s)"

definition EXTRACT_BITS :: "u64 \<Rightarrow> nat \<Rightarrow> nat \<Rightarrow> u64" where
  "EXTRACT_BITS data start len = drop_bit start data AND (push_bit len 1 - 1)"

subsection \<open>The system: test 1, test 2, test 8\<close>

definition payload_001 :: "hw \<Rightarrow> sworld \<Rightarrow> sworld option" where
  "payload_001 hw s =
     (let ((st, cfg), s) = sdei_val_pe_reg_read hw ID_AA64PFR0_EL1 s
      in case cfg of
           None \<Rightarrow> set_own_status hw SDEI_TEST_ABORT s
         | Some cfg \<Rightarrow>
             (let el3 = (cfg AND push_bit 12 0xf \<noteq> 0);
                  el2 = (cfg AND push_bit 8 0xf \<noteq> 0)
              in if el3 \<or> el2 then set_own_status hw SDEI_TEST_PASS s else set_own_status hw SDEI_TEST_FAIL s))"

definition test_001_entry :: "hw \<Rightarrow> sworld \<Rightarrow> sworld option" where
  "test_001_entry hw s = on_all_pes hw payload_001 s"

definition GIC_INFO_VERSION :: u32 where [reg_defs]: "GIC_INFO_VERSION = 3"

definition test_002_entry :: "hw \<Rightarrow> sworld \<Rightarrow> sworld option" where
  "test_002_entry hw s =
     do { ((st, gic_version), s) \<leftarrow> val_gic_get_version hw s;
          if st = ACS_SUCCESS
          then (if gic_version = GIC_INFO_VERSION
                then set_own_status hw SDEI_TEST_PASS (sdei_pal_print ACS_LOG_INFO ''GICv3 implemented'' [] s)
                else set_own_status hw SDEI_TEST_FAIL (sdei_pal_print ACS_LOG_INFO ''GICv3 not implemented'' [] s))
          else set_own_status hw SDEI_TEST_ABORT (sdei_pal_print ACS_LOG_ERR ''val_gic_get_version failed'' [] s) }"

definition test_008_entry :: "hw \<Rightarrow> sworld \<Rightarrow> sworld option" where
  "test_008_entry hw s = set_own_status hw SDEI_TEST_SKIP (sdei_pal_print ACS_LOG_ERR ''Not implemented'' [] s)"

subsection \<open>Binding and releasing interrupts: test 4, test 10\<close>

definition SGI_INTR_NUM :: u32 where [reg_defs]: "SGI_INTR_NUM = 5"

text \<open>The interrupt is disabled first; if that fails the test returns without a status. \<open>k\<close> is
  what follows.\<close>

definition with_disabled :: "u32 \<Rightarrow> (sworld \<Rightarrow> sworld option) \<Rightarrow> sworld \<Rightarrow> sworld option" where
  "with_disabled irq k s =
     do { (err, s) \<leftarrow> val_gic_disable_interrupt irq s;
          if err \<noteq> 0 then Some (sdei_pal_print ACS_LOG_ERR ''Interrupt %d disable failed'' [ucast irq] s) else k s }"

text \<open>The same interrupt is bound twice and must give the same event.\<close>

definition bind_twice :: "hw \<Rightarrow> u32 \<Rightarrow> string \<Rightarrow> (sworld \<Rightarrow> sworld option) \<Rightarrow> sworld \<Rightarrow> sworld option" where
  "bind_twice hw irq name k =
     with_disabled irq (\<lambda>s.
       (let ((err, event_num), s) = val_sdei_interrupt_bind hw irq s
        in if err \<noteq> 0 then failed hw (name @ '' interrupt number %d bind failed with err %d'') [ucast irq, ucast err] s
       else (let ((err, new_event_num), s) = val_sdei_interrupt_bind hw irq s
        in if err \<noteq> 0 then failed hw (name @ '' interrupt number %d bind failed with err %d'') [ucast irq, ucast err] s
           else if event_num \<noteq> new_event_num
                then failed hw (name @ '' interrupt number %d re-bind testfailed with err %d'') [ucast irq, ucast err] s
           else k (release_quietly hw ACS_LOG_WARN event_num s))))"

definition payload_004 :: "hw \<Rightarrow> sworld \<Rightarrow> sworld option" where
  "payload_004 hw =
     bind_twice hw SPI_INTR_NUM ''SPI'' (bind_twice hw PPI_INTR_NUM ''PPI'' (with_disabled SGI_INTR_NUM (\<lambda>s.
       (let ((err, _), s) = val_sdei_interrupt_bind hw SGI_INTR_NUM s
        in if err \<noteq> SDEI_STATUS_INVALID
           then failed hw ''SGI interrupt number %d bind failed'' [ucast SGI_INTR_NUM] s
           else set_own_status hw SDEI_TEST_PASS s))))"

definition release_after_bind ::
    "hw \<Rightarrow> u32 \<Rightarrow> string \<Rightarrow> (u32 \<Rightarrow> sworld \<Rightarrow> sworld option) \<Rightarrow> sworld \<Rightarrow> sworld option" where
  "release_after_bind hw irq name k =
     with_disabled irq (\<lambda>s.
       (let ((err, event_num), s) = val_sdei_interrupt_bind hw irq s
        in if err \<noteq> 0 then failed hw (name @ '' interrupt number %d bind failed with err %d'') [ucast irq, ucast err] s
       else (let (err, s) = val_sdei_interrupt_release hw event_num s
        in if err \<noteq> 0
           then failed hw (name @ '' event number %d release failed with err %d'') [ucast event_num, ucast err] s
           else k event_num s)))"

definition test_010_entry :: "hw \<Rightarrow> sworld \<Rightarrow> sworld option" where
  "test_010_entry hw =
     release_after_bind hw SPI_INTR_NUM ''SPI'' (\<lambda>_. release_after_bind hw PPI_INTR_NUM ''PPI'' (\<lambda>event_num s.
       (let (err, s) = val_sdei_interrupt_release hw event_num s
        in if err \<noteq> SDEI_STATUS_INVALID
           then failed hw ''Interrupt release failed for unbounded event %dwith err %d'' [ucast event_num, ucast err] s
           else set_own_status hw SDEI_TEST_PASS s)))"

subsection \<open>Routing: test 9\<close>

definition INVALID_AFFINITY :: u32 where [reg_defs]: "INVALID_AFFINITY = 0xFFFFFFFF"

definition register_failed :: "hw \<Rightarrow> u32 \<Rightarrow> u32 \<Rightarrow> sworld \<Rightarrow> sworld option" where
  "register_failed hw event_num err s =
     failed hw ''SDEI event %d register failed with err %x'' [ucast event_num, ucast err] s"

definition routing_failed :: "hw \<Rightarrow> u32 \<Rightarrow> sworld \<Rightarrow> sworld option" where
  "routing_failed hw err s = failed hw ''SDEI event routing set failed with err %x'' [ucast err] s"

text \<open>Register, set the routing with the expected outcome, unregister.\<close>

definition routed_once ::
    "u64 \<Rightarrow> hw \<Rightarrow> u32 \<Rightarrow> bool \<Rightarrow> u32 \<Rightarrow> u32 \<Rightarrow> (sworld \<Rightarrow> sworld option) \<Rightarrow> sworld \<Rightarrow> sworld option" where
  "routed_once h hw event_num directed cpu_id expected k s =
     (let (err, s) = val_sdei_event_register hw event_num h 0 0 0 s
      in if err \<noteq> 0 then register_failed hw event_num err s
         else do { (evt_routing_err, s) \<leftarrow> val_sdei_event_routing_set hw event_num directed cpu_id s;
                   if evt_routing_err \<noteq> expected
                   then do { s \<leftarrow> routing_failed hw evt_routing_err s;
                             Some (unregister_quietly hw ACS_LOG_WARN ''SDEI event %d unregister failed with err %x'' event_num s) }
                   else (let (err, s) = val_sdei_event_unregister hw event_num s
                         in if err \<noteq> 0
                            then failed hw ''SDEI event %d unregister failed with err %x'' [ucast event_num, ucast err] s
                            else k s) })"

text \<open>A routing request that must be refused.\<close>

definition routing_refused :: "hw \<Rightarrow> u32 \<Rightarrow> u32 \<Rightarrow> (sworld \<Rightarrow> sworld option) \<Rightarrow> sworld \<Rightarrow> sworld option" where
  "routing_refused hw event_num expected k s =
     do { (evt_routing_err, s) \<leftarrow> val_sdei_event_routing_set hw event_num False 0 s;
          if evt_routing_err \<noteq> expected then routing_failed hw evt_routing_err s else k s }"

definition test_009_private :: "u64 \<Rightarrow> hw \<Rightarrow> sworld \<Rightarrow> sworld option" where
  "test_009_private h hw s =
     do { (event_num, s) \<leftarrow> val_event_get hw SDEI_EVENT_TYPE_PRIVATE SDEI_EVENT_PRIORITY_ANY s;
          if event_num \<noteq> 0
          then routed_once h hw event_num False 0 SDEI_STATUS_INVALID (set_own_status hw SDEI_TEST_PASS) s
          else set_own_status hw SDEI_TEST_PASS (sdei_pal_print ACS_LOG_TEST ''SDEI private event not found'' [] s) }"

definition test_009_entry :: "u64 \<Rightarrow> hw \<Rightarrow> sworld \<Rightarrow> sworld option" where
  "test_009_entry h hw s =
     do { let cpu_id = 2;
          (event_num, s) \<leftarrow> val_event_get hw SDEI_EVENT_TYPE_SHARED SDEI_EVENT_PRIORITY_ANY s;
          routed_once h hw event_num False 0 0 (\<lambda>s. do {
            (event_num, s) \<leftarrow> val_event_get hw SDEI_EVENT_TYPE_SHARED SDEI_EVENT_PRIORITY_ANY s;
            routing_refused hw event_num SDEI_STATUS_DENIED
             (routed_once h hw event_num True cpu_id 0
               (routed_once h hw event_num True INVALID_AFFINITY SDEI_STATUS_INVALID
                 (routing_refused hw SDEI_UNKNOWN_EVENT SDEI_STATUS_INVALID (test_009_private h hw)))) s }) s }"

subsection \<open>Status and information of an event: test 11, test 12\<close>

text \<open>\<open>h\<close> is the handler of the test itself.\<close>

definition test_011_unknown :: "hw \<Rightarrow> sworld \<Rightarrow> sworld option" where
  "test_011_unknown hw s =
     (let ((err, _), s) = val_sdei_event_status hw SDEI_UNKNOWN_EVENT s
      in if err \<noteq> SDEI_STATUS_INVALID then failed hw ''SDEI event status test failed with err %d'' [ucast err] s
         else set_own_status hw SDEI_TEST_PASS s)"

definition test_011_undo :: "hw \<Rightarrow> string \<Rightarrow> u64 list \<Rightarrow> u32 \<Rightarrow> sworld \<Rightarrow> sworld option" where
  "test_011_undo hw message args event_num s =
     do { s \<leftarrow> failed hw message args s;
          Some (unregister_quietly hw ACS_LOG_ERR ''SDEI event %d unregister fail with err %x'' event_num s) }"

definition test_011_entry :: "u64 \<Rightarrow> hw \<Rightarrow> sworld \<Rightarrow> sworld option" where
  "test_011_entry h hw s =
     do { (event_num, s) \<leftarrow> val_event_get hw SDEI_EVENT_TYPE_SHARED SDEI_EVENT_PRIORITY_ANY s;
          (let ((err, result), s) = val_sdei_event_status hw event_num s
           in if err \<noteq> 0 then failed hw ''SDEI event status test failed with err %d'' [ucast err] s
              else if result \<noteq> 0 then failed hw ''SDEI event status test failed'' [] s
           else (let s = sdei_pal_print ACS_LOG_INFO ''SDEI event %d unregistered, disabled, event handler not running''
                       [ucast event_num] s;
                     (err, s) = val_sdei_event_register hw event_num h 0 0 0 s
                 in if err \<noteq> 0 then register_failed hw event_num err s
           else (let (err, s) = val_sdei_event_enable hw event_num s
                 in if err \<noteq> 0 then test_011_undo hw ''SDEI event enable test failed with err %d'' [ucast err] event_num s
           else (let ((err, result), s) = val_sdei_event_status hw event_num s
                 in if err \<noteq> 0 then test_011_undo hw ''SDEI event status test failed with err %d'' [ucast err] event_num s
                    else if result AND (EVENT_STATUS_REGISTER_BIT OR EVENT_STATUS_ENABLE_BIT) = 0
                         then test_011_undo hw ''SDEI event status test failed'' [] event_num s
                    else test_011_unknown hw
                      (unregister_quietly hw ACS_LOG_WARN ''SDEI event %d unregister failed with err %x'' event_num s))))) }"

definition SDEI_EVENT_INFO_EV_SIGNALED :: u32 where [reg_defs]: "SDEI_EVENT_INFO_EV_SIGNALED = 1"

text \<open>A query that fails ends the test; otherwise the answer decides. \<open>bad\<close> is how the test ends.\<close>

definition queried ::
    "hw \<Rightarrow> u32 \<Rightarrow> u32 \<Rightarrow> (sworld \<Rightarrow> sworld option) \<Rightarrow> (u64 \<Rightarrow> sworld \<Rightarrow> sworld option) \<Rightarrow> sworld \<Rightarrow> sworld option" where
  "queried hw event_num info bad k s =
     (let ((err, result), s) = val_sdei_event_get_info hw event_num info s
      in if err \<noteq> 0
         then do { s \<leftarrow> failed hw ''SDEI event get info failed with err %x'' [ucast err] s; bad s }
         else k result s)"

definition query_refused ::
    "hw \<Rightarrow> u32 \<Rightarrow> u32 \<Rightarrow> u32 \<Rightarrow> (sworld \<Rightarrow> sworld option) \<Rightarrow> sworld \<Rightarrow> sworld option" where
  "query_refused hw event_num info expected k s =
     (let ((err, _), s) = val_sdei_event_get_info hw event_num info s
      in if err \<noteq> expected then failed hw ''SDEI event get info failed with err %x'' [ucast err] s else k s)"

definition info_failed :: "hw \<Rightarrow> (sworld \<Rightarrow> sworld option) \<Rightarrow> sworld \<Rightarrow> sworld option" where
  "info_failed hw bad s = do { s \<leftarrow> failed hw ''SDEI event get info failed'' [] s; bad s }"

definition test_012_private :: "hw \<Rightarrow> (sworld \<Rightarrow> sworld option) \<Rightarrow> sworld \<Rightarrow> sworld option" where
  "test_012_private hw k s =
     do { (event_num, s) \<leftarrow> val_event_get hw SDEI_EVENT_TYPE_PRIVATE SDEI_EVENT_PRIORITY_ANY s;
          let args = [ucast event_num];
          if event_num = 0 then k (sdei_pal_print ACS_LOG_TEST ''SDEI private event not found'' [] s)
          else queried hw event_num SDEI_EVENT_INFO_EV_TYPE Some (\<lambda>result s.
            if result \<noteq> ucast SDEI_EVENT_TYPE_PRIVATE then info_failed hw Some s
            else queried hw event_num SDEI_EVENT_INFO_EV_SIGNALED Some (\<lambda>result s.
              queried hw event_num SDEI_EVENT_INFO_EV_PRIORITY Some (\<lambda>result s.
                query_refused hw event_num SDEI_EVENT_INFO_EV_ROUTING_MODE SDEI_STATUS_INVALID
                  (query_refused hw event_num SDEI_EVENT_INFO_EV_ROUTING_AFF SDEI_STATUS_INVALID k)
                (sdei_pal_print ACS_LOG_INFO
                  (if result \<noteq> 0 then ''SDEI event %d is critical event'' else ''SDEI event %d is normal event'') args s))
              (sdei_pal_print ACS_LOG_INFO
                (if result \<noteq> 0 then ''SDEI event %d cannot be software signalled''
                 else ''SDEI event %d can be software signalled'') args s))
            (sdei_pal_print ACS_LOG_INFO ''SDEI event %d type is private'' args s)) s }"

definition test_012_shared :: "u64 \<Rightarrow> hw \<Rightarrow> (sworld \<Rightarrow> sworld option) \<Rightarrow> sworld \<Rightarrow> sworld option" where
  "test_012_shared h hw k s =
     do { let cpu_id = 2;
          (event_num, s) \<leftarrow> val_event_get hw SDEI_EVENT_TYPE_SHARED SDEI_EVENT_PRIORITY_ANY s;
          let args = [ucast event_num];
          let undo = (\<lambda>s. Some (unregister_quietly hw ACS_LOG_ERR ''SDEI event %d unregister failed with err %x'' event_num s));
          let (err, s) = val_sdei_event_register hw event_num h 0 0 0 s;
          if err \<noteq> 0 then register_failed hw event_num err s
          else do {
            (err, s) \<leftarrow> val_sdei_event_routing_set hw event_num True cpu_id s;
            if err \<noteq> 0 then do { s \<leftarrow> routing_failed hw err s; undo s }
            else queried hw event_num SDEI_EVENT_INFO_EV_TYPE Some (\<lambda>result s.
              if result \<noteq> ucast SDEI_EVENT_TYPE_SHARED then info_failed hw Some s
              else queried hw event_num SDEI_EVENT_INFO_EV_ROUTING_MODE undo (\<lambda>result s.
                if result \<noteq> SDEI_EVENT_REGISTER_RM_PE then info_failed hw undo s
                else queried hw event_num SDEI_EVENT_INFO_EV_ROUTING_AFF undo (\<lambda>result s.
                  k (unregister_quietly hw ACS_LOG_WARN ''SDEI event %d unregister failed with err %x'' event_num
                       (sdei_pal_print ACS_LOG_INFO ''SDEI event %d affinity is %llx'' [ucast event_num, result] s)))
                (sdei_pal_print ACS_LOG_INFO ''SDEI event %d routing mode is RM_PE'' args s))
              (sdei_pal_print ACS_LOG_INFO ''SDEI event %d type is shared'' args s)) s } }"

definition test_012_bound :: "hw \<Rightarrow> (sworld \<Rightarrow> sworld option) \<Rightarrow> sworld \<Rightarrow> sworld option" where
  "test_012_bound hw k =
     with_disabled SPI_INTR_NUM (\<lambda>s.
       (let ((err, event_num), s) = val_sdei_interrupt_bind hw SPI_INTR_NUM s;
            undo = (\<lambda>s. Some (release_quietly hw ACS_LOG_ERR event_num s))
        in if err \<noteq> 0
           then failed hw ''SPI interrupt number %d bind failed with err %d'' [ucast SPI_INTR_NUM, ucast err] s
           else queried hw event_num SDEI_EVENT_INFO_EV_PRIORITY undo (\<lambda>result s.
             if result \<noteq> 0 then info_failed hw undo s
             else k (release_quietly hw ACS_LOG_WARN event_num
                       (sdei_pal_print ACS_LOG_INFO ''SDEI event %d is normal priority event'' [ucast event_num] s))) s))"

definition payload_012 :: "u64 \<Rightarrow> hw \<Rightarrow> sworld \<Rightarrow> sworld option" where
  "payload_012 h hw =
     test_012_private hw (test_012_shared h hw (\<lambda>s. do {
       (event_num, s) \<leftarrow> val_event_get hw SDEI_EVENT_TYPE_SHARED SDEI_EVENT_PRIORITY_ANY s;
       query_refused hw event_num SDEI_EVENT_INFO_EV_ROUTING_MODE SDEI_STATUS_DENIED
        (query_refused hw event_num SDEI_EVENT_INFO_EV_ROUTING_AFF SDEI_STATUS_DENIED
          (queried hw 0 SDEI_EVENT_INFO_EV_SIGNALED Some (\<lambda>result s.
             if result \<noteq> 0 then info_failed hw Some s
             else test_012_bound hw
               (query_refused hw SDEI_UNKNOWN_EVENT SDEI_EVENT_INFO_EV_ROUTING_AFF SDEI_STATUS_INVALID
                 (set_own_status hw SDEI_TEST_PASS))
               (sdei_pal_print ACS_LOG_INFO ''SDEI event %d can be software signalled'' [0] s)))) s }))"

subsection \<open>Resets, masking, features, version and error codes: tests 13 to 21\<close>

definition payload_013 :: "u64 \<Rightarrow> hw \<Rightarrow> sworld \<Rightarrow> (u32 \<times> sworld) option" where
  "payload_013 h hw s =
     do { (event_num, s) \<leftarrow> val_event_get hw SDEI_EVENT_TYPE_PRIVATE SDEI_EVENT_PRIORITY_ANY s;
          if event_num = 0 then return_status hw SDEI_TEST_SKIP s
          else (let (err, s) = val_sdei_event_register hw event_num h 0 0 0 s
                in if err \<noteq> 0 then return_status hw SDEI_TEST_SKIP s
          else (let (err, s) = val_sdei_private_reset hw s
                in if err \<noteq> 0 then event_unregister hw event_num SDEI_TEST_FAIL s
          else (let ((err, event_status), s) = val_sdei_event_status hw event_num s
                in if err \<noteq> 0 then event_unregister hw event_num SDEI_TEST_ERROR s
                   else if event_status AND EVENT_STATUS_REGISTER_BIT \<noteq> 0
                        then event_unregister hw event_num SDEI_TEST_FAIL s
                   else return_status hw SDEI_TEST_PASS s))) }"

definition test_013_entry :: "u64 \<Rightarrow> hw \<Rightarrow> sworld \<Rightarrow> sworld option" where
  "test_013_entry h hw s = on_all_pes hw (\<lambda>hw s. map_option snd (payload_013 h hw s)) s"

definition test_014_entry :: "u64 \<Rightarrow> hw \<Rightarrow> sworld \<Rightarrow> sworld option" where
  "test_014_entry h hw s =
     do { (event_num, s) \<leftarrow> val_event_get hw SDEI_EVENT_TYPE_SHARED SDEI_EVENT_PRIORITY_ANY s;
          let undo = unregister_quietly hw ACS_LOG_WARN ''SDEI event %d unregister fail with err %x'' event_num;
          let (err, s) = val_sdei_event_register hw event_num h 0 0 0 s;
          if err \<noteq> 0 then register_failed hw event_num err s
          else (let (err, s) = val_sdei_shared_reset hw s
                in if err \<noteq> 0 then failed hw ''Failed SDEI shared reset: %d'' [ucast err] s
          else (let ((err, result), s) = val_sdei_event_status hw event_num s
                in if err \<noteq> 0
                   then map_option undo (failed hw ''SDEI event status test failed with err %d'' [ucast err] s)
                   else if result AND EVENT_STATUS_REGISTER_BIT \<noteq> 0
                        then map_option undo (set_own_status hw SDEI_TEST_FAIL s)
                   else set_own_status hw SDEI_TEST_PASS s)) }"

definition ALREADY_MASKED :: u64 where [reg_defs]: "ALREADY_MASKED = 0"
definition MASKED :: u64 where [reg_defs]: "MASKED = 1"

definition payload_015 :: "hw \<Rightarrow> sworld \<Rightarrow> sworld option" where
  "payload_015 hw s =
     (let (err, s) = val_sdei_unmask hw s
      in if err \<noteq> 0 then set_own_status hw SDEI_TEST_SKIP s
      else (let ((err, result), s) = val_sdei_mask hw s
            in if err \<noteq> 0 \<or> result \<noteq> MASKED then set_own_status hw SDEI_TEST_FAIL s
      else (let ((err, result), s) = val_sdei_mask hw s
            in if err \<noteq> 0 \<or> result \<noteq> ALREADY_MASKED then set_own_status hw SDEI_TEST_FAIL s
               else set_own_status hw SDEI_TEST_PASS s)))"

definition test_015_entry :: "hw \<Rightarrow> sworld \<Rightarrow> sworld option" where
  "test_015_entry hw s = on_all_pes hw payload_015 s"

definition payload_016 :: "hw \<Rightarrow> sworld \<Rightarrow> sworld option" where
  "payload_016 hw s =
     (let (err, s) = val_sdei_unmask hw s
      in if err \<noteq> 0 then set_own_status hw SDEI_TEST_FAIL s else set_own_status hw SDEI_TEST_PASS s)"

definition test_016_entry :: "hw \<Rightarrow> sworld \<Rightarrow> sworld option" where
  "test_016_entry hw s = on_all_pes hw payload_016 s"

definition VALID_FEATURE :: u32 where [reg_defs]: "VALID_FEATURE = 0"
definition INVALID_FEATURE :: u32 where [reg_defs]: "INVALID_FEATURE = 0x10"

definition payload_017 :: "hw \<Rightarrow> sworld \<Rightarrow> sworld option" where
  "payload_017 hw s =
     (let ((err, num_slots), s) = val_sdei_features hw VALID_FEATURE s
      in if err \<noteq> 0 then failed hw ''SDEI_FEATURES failed with err %d'' [ucast err] s
      else (let private_slots = EXTRACT_BITS num_slots 0 16;
                shared_slots = EXTRACT_BITS num_slots 16 16
            in if EXTRACT_BITS num_slots 32 32 \<noteq> 0 \<or> private_slots < 2 \<or> shared_slots < 2
               then failed hw ''SDEI_FEATURES expected value mismatch'' [] s
      else (let ((err, num_slots), s) = val_sdei_features hw INVALID_FEATURE s
            in if err \<noteq> SDEI_STATUS_INVALID then failed hw ''SDEI_FEATURES failed with err %d'' [ucast err] s
               else set_own_status hw SDEI_TEST_PASS s)))"

definition test_018_entry :: "hw \<Rightarrow> sworld \<Rightarrow> sworld option" where
  "test_018_entry hw s =
     (let ((err, version), s) = val_sdei_get_version hw s
      in if err \<noteq> 0 then failed hw ''SDEI_VERSION failed with err %d'' [ucast err] s
      else (let major_rev = EXTRACT_BITS version 48 15;
                minor_rev = EXTRACT_BITS version 32 16;
                s = sdei_pal_print ACS_LOG_INFO ''SDEI minor revision = %llx'' [major_rev] s;
                s = sdei_pal_print ACS_LOG_INFO ''SDEI major revision = %llx'' [minor_rev] s
            in if major_rev \<noteq> 1
               then failed hw ''SDEI_VERSION major revision value mismatch expected = %d: found = %llx'' [1, major_rev] s
               else if minor_rev \<noteq> 0
               then failed hw ''SDEI_VERSION minor revision value mismatchexpected = %d: found = %llx'' [0, minor_rev] s
               else if EXTRACT_BITS version 63 1 \<noteq> 0 then failed hw ''SDEI_VERSION expected value mismatch'' [] s
               else set_own_status hw SDEI_TEST_PASS s))"

definition test_019_entry :: "hw \<Rightarrow> sworld \<Rightarrow> sworld option" where
  "test_019_entry hw s =
     (let ((err, version), s) = val_sdei_get_version hw s
      in if err = 0
         then set_own_status hw SDEI_TEST_SKIP
                (sdei_pal_print ACS_LOG_WARN ''SDEI dispatcher present, skipping test'' [] s)
         else if err = SDEI_STATUS_NOT_SUPPORTED then set_own_status hw SDEI_TEST_PASS s
         else set_own_status hw SDEI_TEST_FAIL s)"

definition test_020_entry :: "u64 \<Rightarrow> hw \<Rightarrow> sworld \<Rightarrow> sworld option" where
  "test_020_entry h hw s =
     (let (err, s) = val_sdei_event_register hw SDEI_UNKNOWN_EVENT h 0 0 0 s
      in if err \<noteq> SDEI_STATUS_INVALID then failed hw ''Invalid parameters check failed'' [] s
         else set_own_status hw SDEI_TEST_PASS s)"

definition test_021_entry :: "u64 \<Rightarrow> hw \<Rightarrow> sworld \<Rightarrow> sworld option" where
  "test_021_entry h hw s =
     do { (event_num, s) \<leftarrow> val_event_get hw SDEI_EVENT_TYPE_SHARED SDEI_EVENT_PRIORITY_ANY s;
          let (err, s) = val_sdei_event_register hw event_num h 0 0 0 s;
          if err \<noteq> 0 then register_failed hw event_num err s
          else (let (err, s) = val_sdei_event_register hw event_num h 0 0 0 s
                in if err \<noteq> SDEI_STATUS_DENIED
                   then do { s \<leftarrow> failed hw ''ERROR CODE-DENIED check failed'' [] s;
                             Some (unregister_quietly hw ACS_LOG_ERR ''SDEI event %d unregister failed with err %x'' event_num s) }
          else (let (err, s) = val_sdei_event_unregister hw event_num s
                in if err \<noteq> 0
                   then set_own_status hw SDEI_TEST_FAIL
                          (sdei_pal_print ACS_LOG_WARN ''SDEI event %d unregister failed with err %x''
                             [ucast event_num, ucast err] s)
                   else set_own_status hw SDEI_TEST_PASS s)) }"


subsection \<open>Running out of slots: test 23\<close>

text \<open>\<open>event_num\<close> is a local array of 100 numbers with the content \<open>junk\<close>. A bind stores its number
  whether it succeeds or not. \<open>Inl\<close> is a return from within the loop.\<close>

definition EVENT_NUM_SIZE :: nat where "EVENT_NUM_SIZE = 100"

fun bind_slots :: "hw \<Rightarrow> nat \<Rightarrow> u32 \<Rightarrow> u32 list \<Rightarrow> sworld \<Rightarrow> (sworld + u32 list \<times> sworld) option" where
  "bind_slots hw 0 i event_num s = Some (Inr (event_num, s))"
| "bind_slots hw (Suc n) i event_num s =
     do { let irq = SPI_INTR_NUM + i;
          (err, s) \<leftarrow> val_gic_disable_interrupt irq s;
          if err \<noteq> 0 then map_option Inl (failed hw ''Interrupt %d disable failed'' [ucast irq] s)
          else do {
            let ((err, e), s) = val_sdei_interrupt_bind hw irq s;
            event_num \<leftarrow> set_at (unat i) e event_num;
            if err \<noteq> 0
            then map_option Inl (failed hw ''Interrupt number %d bind failed with err %d'' [ucast irq, ucast err] s)
            else bind_slots hw n (i + 1) event_num s } }"

fun release_slots :: "hw \<Rightarrow> u32 list \<Rightarrow> sworld \<Rightarrow> sworld option" where
  "release_slots hw [] s = Some s"
| "release_slots hw (e # es) s =
     do { let (err, s) = val_sdei_interrupt_release hw e s;
          s \<leftarrow> (if err \<noteq> 0
                then failed hw ''Event number %d intrrupt release failed with err %d'' [ucast e, ucast err] s
                else Some s);
          release_slots hw es s }"

definition slots_filled :: "u32 list \<Rightarrow> hw \<Rightarrow> nat \<Rightarrow> sworld \<Rightarrow> sworld option" where
  "slots_filled junk hw shared_slots s =
     do { r \<leftarrow> bind_slots hw shared_slots 0 junk s;
          case r of
            Inl s \<Rightarrow> Some s
          | Inr (event_num, s) \<Rightarrow> with_disabled (SPI_INTR_NUM + of_nat shared_slots) (\<lambda>s. do {
              let ((err, e), s) = val_sdei_interrupt_bind hw (SPI_INTR_NUM + of_nat shared_slots) s;
              event_num \<leftarrow> set_at shared_slots e event_num;
              s \<leftarrow> (if err \<noteq> SDEI_STATUS_OUT_OF_RESOURCE
                    then failed hw ''ERROR CODE-OUT_OF_RESOURCE check failed'' [] s
                    else set_own_status hw SDEI_TEST_PASS s);
              release_slots hw (take shared_slots event_num) s }) s }"

definition test_023_entry :: "u32 list \<Rightarrow> hw \<Rightarrow> sworld \<Rightarrow> sworld option" where
  "test_023_entry junk hw s =
     (let ((err, num_slots), s) = val_sdei_features hw VALID_FEATURE s
      in if err \<noteq> 0 then failed hw ''SDEI_FEATURES failed with err %d'' [ucast err] s
         else slots_filled junk hw (unat (EXTRACT_BITS num_slots 16 16)) s)"

subsection \<open>The events of the HEST: test 26\<close>

fun hest_nonzero :: "hest_value \<Rightarrow> bool" where
  "hest_nonzero (HestNumber n) \<longleftrightarrow> n \<noteq> 0"
| "hest_nonzero (HestNumbers _) \<longleftrightarrow> True"

fun hest_events :: "u64 \<Rightarrow> hw \<Rightarrow> nat \<Rightarrow> u32 list \<Rightarrow> sworld \<Rightarrow> sworld option" where
  "hest_events h hw 0 nums s = set_own_status hw SDEI_TEST_PASS s"
| "hest_events h hw (Suc n) nums s =
     do { event_num \<leftarrow> at nums 0;
          let (err, s) = val_sdei_event_register hw event_num h 0 0 0 s;
          if err \<noteq> 0 then register_failed hw event_num err s
          else hest_events h hw n (tl nums)
                 (unregister_quietly hw ACS_LOG_WARN ''SDEI event %d unregister failed with err %x'' event_num s) }"

definition test_026_entry :: "u64 \<Rightarrow> hw \<Rightarrow> sworld \<Rightarrow> sworld option" where
  "test_026_entry h hw s =
     do { ((err, result), s) \<leftarrow> val_event_get_hest_info HEST_FOUND s;
          if \<not> (hest_nonzero result \<and> err = 0) then failed hw ''Generic hardware error source not found'' [] s
          else do {
          let s = sdei_pal_print ACS_LOG_INFO ''Generic hardware error source found in ACPI'' [] s;
          ((err, result), s) \<leftarrow> val_event_get_hest_info NUM_GHES s;
          if \<not> (hest_nonzero result \<and> err = 0)
          then failed hw ''Generic hardware error source notify structures not found'' [] s
          else do {
          let s = sdei_pal_print ACS_LOG_INFO ''Generic hardware error source notify structures found'' [] s;
          ((err, result), s) \<leftarrow> val_event_get_hest_info NUM_EVENTS s;
          if \<not> (hest_nonzero result \<and> err = 0)
          then failed hw ''Generic hardware error source SDEI events not found'' [] s
          else do {
          let num_events = (case result of HestNumber n \<Rightarrow> n | HestNumbers _ \<Rightarrow> 0);
          let s = sdei_pal_print ACS_LOG_INFO ''Generic hardware error source SDEI events found: %lld'' [num_events] s;
          ((err, result), s) \<leftarrow> val_event_get_hest_info HEST_NOTIFY s;
          if \<not> hest_nonzero result \<and> err = 0 then failed hw ''HEST SDEI events info not found'' [] s
          else hest_events h hw (nat (sint (ucast num_events :: u32)))
                 (case result of HestNumbers ns \<Rightarrow> ns | HestNumber _ \<Rightarrow> []) s } } } }"

subsection \<open>The verdict of the version test\<close>

lemma extract_bit: "EXTRACT_BITS v 63 (Suc 0) \<noteq> 0 \<longleftrightarrow> bit v 63"
proof -
  have "EXTRACT_BITS v 63 (Suc 0) = drop_bit 63 v AND 1" by (simp add: EXTRACT_BITS_def)
  then show ?thesis by (simp add: and_one_eq odd_iff_mod_2_eq_one bit_iff_odd_drop_bit)
qed

lemma call_values:
  "val_sdei_get_version hw s = ((sdei_error (sdei_answer hw s SDEI_1_0_FN_SDEI_VERSION 0 0 0 0 0),
      sdei_answer hw s SDEI_1_0_FN_SDEI_VERSION 0 0 0 0 0), sdei_logged hw SDEI_1_0_FN_SDEI_VERSION 0 0 0 0 0 s)"
  "val_sdei_features hw f s = ((sdei_error (sdei_answer hw s SDEI_1_0_FN_SDEI_FEATURES (ucast f) 0 0 0 0),
      sdei_answer hw s SDEI_1_0_FN_SDEI_FEATURES (ucast f) 0 0 0 0), sdei_logged hw SDEI_1_0_FN_SDEI_FEATURES (ucast f) 0 0 0 0 s)"
  "val_sdei_interrupt_release hw e s = (sdei_error (sdei_answer hw s SDEI_1_0_FN_SDEI_INTERRUPT_RELEASE (ucast e) 0 0 0 0),
      sdei_logged hw SDEI_1_0_FN_SDEI_INTERRUPT_RELEASE (ucast e) 0 0 0 0 s)"
  by (simp_all add: val_sdei_get_version_def val_sdei_features_def val_sdei_interrupt_release_def pal_invoke_sdei_fn_run
      sdei_error_def Let_def)

lemma runs_as_cong: "sg t = sg s \<Longrightarrow> shared t = shared s \<Longrightarrow> runs_as hw i t = runs_as hw i s"
  using sdei_shared_size_cong [of t s] by (simp add: runs_as_def sdei_val_pe_get_index_mpid_def)

lemma bit_EXTRACT_BITS: "len < 64 \<Longrightarrow> bit (EXTRACT_BITS v start len) n \<longleftrightarrow> n < len \<and> bit v (start + n)"
proof -
  assume "len < 64"
  have "EXTRACT_BITS v start len = take_bit len (drop_bit start v)"
    by (simp add: EXTRACT_BITS_def take_bit_eq_mask mask_eq_exp_minus_1 push_bit_of_1)
  then show ?thesis by (auto simp: bit_simps dest: bit_imp_le_length)
qed

lemma version_fields:
  "EXTRACT_BITS v 48 15 = 1 \<and> EXTRACT_BITS v 32 16 = 0 \<and> \<not> bit v 63 \<longleftrightarrow> drop_bit 32 v = 0x10000"
  (is "?l \<longleftrightarrow> ?r")
proof -
  have e: "(x :: u64) = y \<longleftrightarrow> (\<forall>n < 64. bit x n = bit y n)" for x y
    by (auto intro: bit_word_eqI)
  have one: "bit (1 :: u64) n \<longleftrightarrow> n = 0" "bit (0x10000 :: u64) n \<longleftrightarrow> n = 16" for n
    using bit_exp_iff [of 16 n, where 'a = u64] by (auto simp: bit_1_iff)
  have v: "bit v n \<Longrightarrow> n < 64" for n using bit_imp_le_length [of v n] by simp
  have hi: "EXTRACT_BITS v 48 15 = 1 \<longleftrightarrow> (\<forall>n < 15. bit v (48 + n) = (n = 0))"
  proof -
    have "(\<forall>n < 64. (n < 15 \<and> bit v (48 + n)) = (n = 0)) \<longleftrightarrow> (\<forall>n < 15. bit v (48 + n) = (n = 0))"
    proof (rule iffI; intro allI impI)
      fix n :: nat
      assume "\<forall>n<64. (n < 15 \<and> bit v (48 + n)) = (n = 0)" "n < 15"
      then show "bit v (48 + n) = (n = 0)" by (elim allE [of _ n]) simp
    next
      fix n :: nat
      assume "\<forall>n<15. bit v (48 + n) = (n = 0)"
      then show "(n < 15 \<and> bit v (48 + n)) = (n = 0)" by (cases "n < 15") auto
    qed
    then show ?thesis by (simp add: e bit_EXTRACT_BITS one)
  qed
  have lo: "EXTRACT_BITS v 32 16 = 0 \<longleftrightarrow> (\<forall>n < 16. \<not> bit v (32 + n))"
    by (auto simp: e bit_EXTRACT_BITS)
  have k: "bit (0x10000 :: u64) n = (n = 16)" for n by (rule one(2))
  have r: "?r \<longleftrightarrow> (\<forall>n < 32. bit v (32 + n) = (n = 16))"
  proof
    assume "?r"
    then have "bit (drop_bit 32 v) n = bit (0x10000 :: u64) n" for n by (rule arg_cong)
    then show "\<forall>n < 32. bit v (32 + n) = (n = 16)" unfolding k bit_drop_bit_eq o_def by simp
  next
    assume l: "\<forall>n < 32. bit v (32 + n) = (n = 16)"
    show "?r"
    proof (rule bit_word_eqI)
      fix n :: nat
      assume "n < LENGTH(64)"
      show "bit (drop_bit 32 v) n = bit (0x10000 :: u64) n"
        using l v [of "32 + n"] unfolding k bit_drop_bit_eq o_def by (cases "n < 32") auto
    qed
  qed
  show ?thesis unfolding hi lo r
  proof
    assume l: "(\<forall>n<15. bit v (48 + n) = (n = 0)) \<and> (\<forall>n<16. \<not> bit v (32 + n)) \<and> \<not> bit v 63"
    show "\<forall>n<32. bit v (32 + n) = (n = 16)"
    proof (intro allI impI)
      fix n :: nat
      assume "n < 32"
      then consider "n < 16" | "n = 31" | "16 \<le> n" "n - 16 < 15" by linarith
      then show "bit v (32 + n) = (n = 16)"
      proof cases
        case 3
        then have "bit v (48 + (n - 16)) = (n - 16 = 0)" using l by blast
        moreover have "48 + (n - 16) = 32 + n" using 3(1) by simp
        ultimately show ?thesis using 3(1) by auto
      qed (use l in auto)
    qed
  next
    assume r: "\<forall>n<32. bit v (32 + n) = (n = 16)"
    have "bit v (48 + n) = (n = 0)" if "n < 15" for n using r [rule_format, of "16 + n"] that by simp
    moreover have "\<not> bit v 63" using r [rule_format, of 31] by simp
    ultimately show "(\<forall>n<15. bit v (48 + n) = (n = 0)) \<and> (\<forall>n<16. \<not> bit v (32 + n)) \<and> \<not> bit v 63"
      using r by auto
  qed
qed

text \<open>The version test passes exactly for version 1.0 of the interface, whatever the vendor part says,
  and fails otherwise, error codes included; it always returns.\<close>

theorem version_test_verdict:
  assumes "runs_as hw i s" "v = sdei_answer hw s SDEI_1_0_FN_SDEI_VERSION 0 0 0 0 0"
  shows "\<exists>t. test_018_entry hw s = Some t \<and>
     status_word i t = (if drop_bit 32 v = 0x10000 then SDEI_TEST_PASS else SDEI_TEST_FAIL)"
proof -
  have r: "runs_as hw i t" if "sg t = sg s" "shared t = shared s" for t
    using assms(1) runs_as_cong [OF that] by simp
  have w: "\<exists>u. set_own_status hw st t = Some u \<and> status_word i u = st" if "sg t = sg s" "shared t = shared s" for t st
    using own_status_stored [OF r [OF that], of st] by auto
  have "drop_bit 32 v \<noteq> 0x10000" if "sdei_is_err v"
    using that by (auto simp: sdei_is_err_def reg_defs mask_eq_exp_minus_1)
  then show ?thesis
    using version_fields [of v] extract_bit [of v]
    by (auto simp: test_018_entry_def call_values assms(2) [symmetric] Let_def failed_def extract_bit accepted_def intro!: w)
qed

lemma version_test_verdict_witness:
  "\<exists>t. test_018_entry (dispatcher_hw\<lparr>smc_in := (\<lambda>_ _ _. (0x1000000000007, 0, 0, 0))\<rparr>) ready_world = Some t \<and>
     status_word 0 t = SDEI_TEST_PASS"
proof -
  let ?hw = "dispatcher_hw\<lparr>smc_in := (\<lambda>_ _ _. (0x1000000000007, 0, 0, 0))\<rparr>"
  have "runs_as ?hw 0 ready_world" by (rule ready_runs) (simp add: dispatcher_hw_def)
  moreover have "sdei_answer ?hw ready_world SDEI_1_0_FN_SDEI_VERSION 0 0 0 0 0 = 0x1000000000007"
    by (simp add: sdei_answer_def)
  ultimately show ?thesis using version_test_verdict [of ?hw 0 ready_world "0x1000000000007"] by simp
qed



subsection \<open>The slots that test 23 can hold\<close>

lemma disable_spi:
  assumes "irq = SPI_INTR_NUM + of_nat i" "i \<le> EVENT_NUM_SIZE"
  shows "\<exists>a d. val_gic_disable_interrupt irq s = Some (0, sdei_val_mmio_write a d s)"
proof -
  have "of_nat i \<le> (100 :: u32)" using assms(2) by (simp add: word_le_nat_alt unat_of_nat EVENT_NUM_SIZE_def)
  then have "31 < irq" "irq < 1020" "\<not> irq < 32"
    unfolding assms(1) SPI_INTR_NUM_def by (simp_all add: word_less_nat_alt word_le_nat_alt unat_word_ariths)
  then show ?thesis by (auto simp: val_gic_disable_interrupt_def ACS_SUCCESS_def Let_def)
qed

lemma mmio_write_frame [simp]:
  "sg (sdei_val_mmio_write a d s) = sg s" "shared (sdei_val_mmio_write a d s) = shared s"
  by (simp_all add: sdei_val_mmio_write_def sdei_pal_mmio_write_def log_io_def)

text \<open>The firmware binds the interrupts of the first \<open>n\<close> slots.\<close>

definition binds_slots :: "nat \<Rightarrow> hw \<Rightarrow> bool" where
  "binds_slots n hw \<longleftrightarrow> (\<forall>i < n. \<forall>h w. accepted (fst (smc_in hw h (mpidr_in hw)
     (SDEI_1_0_FN_SDEI_INTERRUPT_BIND # ucast (SPI_INTR_NUM + of_nat i) # w))))"

lemma bind_slots_run:
  assumes "binds_slots (min (i + n) EVENT_NUM_SIZE) hw" "length ev = EVENT_NUM_SIZE" "i \<le> EVENT_NUM_SIZE"
  shows "if i + n \<le> EVENT_NUM_SIZE
     then \<exists>ev' t. bind_slots hw n (of_nat i) ev s = Some (Inr (ev', t)) \<and> length ev' = EVENT_NUM_SIZE \<and>
        sg t = sg s \<and> shared t = shared s
     else bind_slots hw n (of_nat i) ev s = None"
  using assms
proof (induction n arbitrary: i ev s)
  case (Suc n)
  let ?irq = "SPI_INTR_NUM + of_nat i"
  obtain a d where d: "val_gic_disable_interrupt ?irq s = Some (0, sdei_val_mmio_write a d s)"
    using disable_spi [OF refl Suc.prems(3)] by blast
  have i: "unat (of_nat i :: u32) = i" using Suc.prems(3) by (simp add: unat_of_nat EVENT_NUM_SIZE_def)
  show ?case
  proof (cases "i = EVENT_NUM_SIZE")
    case True
    then have "set_at i e ev = None" for e using Suc.prems(2) by (simp add: set_at_def)
    then have "bind_slots hw (Suc n) (of_nat i) ev s = None" by (simp add: d call_runs i)
    then show ?thesis using True by simp
  next
    case False
    then have lt: "i < EVENT_NUM_SIZE" using Suc.prems(3) by simp
    let ?u = "sdei_logged hw SDEI_1_0_FN_SDEI_INTERRUPT_BIND (ucast ?irq) 0 0 0 0 (sdei_val_mmio_write a d s)"
    let ?r = "sdei_answer hw (sdei_val_mmio_write a d s) SDEI_1_0_FN_SDEI_INTERRUPT_BIND (ucast ?irq) 0 0 0 0"
    have "accepted ?r" using Suc.prems(1) lt by (simp add: binds_slots_def sdei_answer_def)
    then have step: "bind_slots hw (Suc n) (of_nat i) ev s = bind_slots hw n (of_nat (Suc i)) (ev[i := ucast ?r]) ?u"
      using lt by (simp add: d call_runs i Suc.prems(2) Let_def add.commute)
    have "binds_slots (min (Suc i + n) EVENT_NUM_SIZE) hw" using Suc.prems(1) by simp
    note ih = Suc.IH [OF this, of "ev[i := ucast ?r]" ?u, unfolded sdei_logged_frame mmio_write_frame
        add_Suc_right add_Suc length_list_update, OF Suc.prems(2)]
    have "if i + Suc n \<le> EVENT_NUM_SIZE
      then \<exists>ev' t. bind_slots hw n (of_nat (Suc i)) (ev[i := ucast ?r]) ?u = Some (Inr (ev', t)) \<and>
        length ev' = EVENT_NUM_SIZE \<and> sg t = sg s \<and> shared t = shared s
      else bind_slots hw n (of_nat (Suc i)) (ev[i := ucast ?r]) ?u = None"
      unfolding add_Suc_right by (rule ih) (use lt in simp)
    then show ?thesis unfolding step .
  qed
qed simp

lemma release_slots_run:
  assumes "\<forall>h e w. accepted (fst (smc_in hw h (mpidr_in hw) (SDEI_1_0_FN_SDEI_INTERRUPT_RELEASE # e # w)))"
  shows "\<exists>t. release_slots hw es s = Some t \<and> shared t = shared s"
proof (induction es arbitrary: s)
  case (Cons e es)
  have "accepted (sdei_answer hw s SDEI_1_0_FN_SDEI_INTERRUPT_RELEASE (ucast e) 0 0 0 0)"
    using assms by (simp add: sdei_answer_def)
  then show ?case
    using Cons.IH [of "sdei_logged hw SDEI_1_0_FN_SDEI_INTERRUPT_RELEASE (ucast e) 0 0 0 0 s"]
    by (auto simp: call_values sdei_logged_frame)
qed simp

text \<open>C7: On a firmware that binds as many interrupts as it says it has shared slots, refuses one more and
  releases what it bound, the test of the slots passes when there are fewer slots than its array has
  elements. With 100 slots or more the run writes past the end of the array.\<close>

theorem slots_test_verdict:
  assumes "runs_as hw i s" "length junk = EVENT_NUM_SIZE"
    and "accepted (sdei_answer hw s SDEI_1_0_FN_SDEI_FEATURES 0 0 0 0 0)"
    and "n = unat (EXTRACT_BITS (sdei_answer hw s SDEI_1_0_FN_SDEI_FEATURES 0 0 0 0 0) 16 16)"
    and "binds_slots n hw"
    and "\<forall>h w. fst (smc_in hw h (mpidr_in hw)
        (SDEI_1_0_FN_SDEI_INTERRUPT_BIND # ucast (SPI_INTR_NUM + of_nat n) # w)) = SDEI_OUT_OF_RESOURCE"
    and "\<forall>h e w. accepted (fst (smc_in hw h (mpidr_in hw) (SDEI_1_0_FN_SDEI_INTERRUPT_RELEASE # e # w)))"
  shows "if n < EVENT_NUM_SIZE then \<exists>t. test_023_entry junk hw s = Some t \<and> status_word i t = SDEI_TEST_PASS
     else test_023_entry junk hw s = None"
proof -
  let ?u = "sdei_logged hw SDEI_1_0_FN_SDEI_FEATURES 0 0 0 0 0 s"
  have b: "binds_slots (min (0 + n) EVENT_NUM_SIZE) hw" using assms(5) by (simp add: binds_slots_def)
  note run = bind_slots_run [OF b assms(2), of ?u, simplified]
  have entry: "test_023_entry junk hw s = slots_filled junk hw n ?u"
    using assms(3,4) by (simp add: test_023_entry_def call_values VALID_FEATURE_def)
  show ?thesis
  proof (cases "n \<le> EVENT_NUM_SIZE")
    case False
    then show ?thesis using run by (simp add: entry slots_filled_def)
  next
    case True
    then obtain ev t where t: "bind_slots hw n 0 junk ?u = Some (Inr (ev, t))" "length ev = EVENT_NUM_SIZE"
        "sg t = sg s" "shared t = shared s"
      using run by (auto simp: sdei_logged_frame)
    obtain a d where d: "val_gic_disable_interrupt (SPI_INTR_NUM + of_nat n) t = Some (0, sdei_val_mmio_write a d t)"
      using disable_spi [OF refl True] by blast
    let ?v = "sdei_logged hw SDEI_1_0_FN_SDEI_INTERRUPT_BIND (ucast (SPI_INTR_NUM + of_nat n :: u32)) 0 0 0 0
        (sdei_val_mmio_write a d t)"
    have ans: "sdei_answer hw (sdei_val_mmio_write a d t) SDEI_1_0_FN_SDEI_INTERRUPT_BIND
        (ucast (SPI_INTR_NUM + of_nat n :: u32)) 0 0 0 0 = SDEI_OUT_OF_RESOURCE"
      using assms(6) by (simp add: sdei_answer_def)
    have err: "sdei_error SDEI_OUT_OF_RESOURCE = SDEI_STATUS_OUT_OF_RESOURCE"
      by (simp add: sdei_error_def sdei_is_err_def pal_sdei_to_uefi_errno_def reg_defs)
    note go = entry slots_filled_def with_disabled_def t d call_runs ans err
    show ?thesis
    proof (cases "n < EVENT_NUM_SIZE")
      case False
      then have "set_at n e ev = None" for e using t(2) by (simp add: set_at_def)
      then have "slots_filled junk hw n ?u = None" by (simp add: go)
      then show ?thesis using False by (simp add: entry)
    next
      case n: True
      have "runs_as hw i ?v"
        using assms(1) runs_as_cong [of ?v s] by (simp add: sdei_logged_frame t)
      then obtain w where w: "set_own_status hw SDEI_TEST_PASS ?v = Some w" "status_word i w = SDEI_TEST_PASS"
        using own_status_stored by metis
      obtain x where "release_slots hw (take n (ev[n := ucast SDEI_OUT_OF_RESOURCE])) w = Some x" "shared x = shared w"
        using release_slots_run [OF assms(7)] by blast
      then show ?thesis using n w sdei_status_word_cong [of x w] by (simp add: go)
    qed
  qed
qed

lemma slots_test_verdict_witness:
  "test_023_entry (replicate 100 0) (dispatcher_hw\<lparr>smc_in := (\<lambda>_ _ args.
       (if hd args = SDEI_1_0_FN_SDEI_FEATURES then 0x640000
        else if hd args = SDEI_1_0_FN_SDEI_INTERRUPT_BIND \<and> args ! 1 = 330 then SDEI_OUT_OF_RESOURCE else 0, 0, 0, 0))\<rparr>)
     ready_world = None"
proof -
  let ?hw = "dispatcher_hw\<lparr>smc_in := (\<lambda>_ _ args.
       (if hd args = SDEI_1_0_FN_SDEI_FEATURES then 0x640000
        else if hd args = SDEI_1_0_FN_SDEI_INTERRUPT_BIND \<and> args ! 1 = 330 then SDEI_OUT_OF_RESOURCE else 0, 0, 0, 0))\<rparr>"
  have fns: "SDEI_1_0_FN_SDEI_INTERRUPT_BIND \<noteq> SDEI_1_0_FN_SDEI_FEATURES"
      "SDEI_1_0_FN_SDEI_INTERRUPT_RELEASE \<noteq> SDEI_1_0_FN_SDEI_FEATURES"
      "SDEI_1_0_FN_SDEI_INTERRUPT_RELEASE \<noteq> SDEI_1_0_FN_SDEI_INTERRUPT_BIND"
    by (simp_all add: sdei_fn_defs)
  have a: "sdei_answer ?hw ready_world SDEI_1_0_FN_SDEI_FEATURES 0 0 0 0 0 = 0x640000"
    by (simp add: sdei_answer_def)
  have n: "100 = unat (EXTRACT_BITS 0x640000 16 16)" by (simp add: EXTRACT_BITS_def)
  have irq: "unat (ucast (SPI_INTR_NUM + of_nat i :: u32) :: u64) = 230 + i" if "i \<le> 100" for i
  proof -
    have "unat (SPI_INTR_NUM + of_nat i :: u32) = 230 + i"
      using that by (simp add: SPI_INTR_NUM_def unat_word_ariths unat_of_nat)
    moreover have "unat (ucast (SPI_INTR_NUM + of_nat i :: u32) :: u64) = unat (SPI_INTR_NUM + of_nat i :: u32)"
      by (rule unat_ucast_small) (use calculation that in simp)
    ultimately show ?thesis by simp
  qed
  have "ucast (SPI_INTR_NUM + of_nat i :: u32) \<noteq> (330 :: u64)" if "i < 100" for i
    using irq [of i] that by auto
  then have b: "binds_slots 100 ?hw" by (simp add: binds_slots_def fns accepted_def sdei_is_err_def reg_defs)
  have "ucast (SPI_INTR_NUM + of_nat 100 :: u32) = (330 :: u64)" by (simp add: SPI_INTR_NUM_def)
  then have o: "\<forall>h w. fst (smc_in ?hw h (mpidr_in ?hw)
      (SDEI_1_0_FN_SDEI_INTERRUPT_BIND # ucast (SPI_INTR_NUM + of_nat 100 :: u32) # w)) = SDEI_OUT_OF_RESOURCE"
    by (simp add: fns)
  have r: "runs_as ?hw 0 ready_world" by (rule ready_runs) (simp add: dispatcher_hw_def)
  have acc: "accepted 0x640000" "accepted 0" by (simp_all add: accepted_def sdei_is_err_def reg_defs)
  show ?thesis
    using slots_test_verdict [OF r _ _ _ b o, of "replicate 100 0", unfolded a, OF _ acc(1) n]
    by (simp add: EVENT_NUM_SIZE_def fns acc)
qed

subsection \<open>The affinity of the routing test\<close>

text \<open>Routing a registered event to any PE is accepted, routing an unregistered one is denied.\<close>

definition routes_registered :: "hw \<Rightarrow> (event_key \<Rightarrow> history \<Rightarrow> u64) \<Rightarrow> bool" where
  "routes_registered hw ev \<longleftrightarrow> (\<forall>h m w. bound SharedEvent h \<longrightarrow>
     fst (smc_in hw h m (SDEI_1_0_FN_SDEI_EVENT_ROUTING_SET # ev SharedEvent h # SDEI_EVENT_REGISTER_RM_ANY # 0 # w)) =
       (if handler SharedEvent (ev SharedEvent h) h = Unregistered then SDEI_DENIED else 0))"

lemma routing_step:
  assumes "keeps_life_cycle hw ev" "routes_registered hw ev" "own_event ev SharedEvent e s0 st s"
    and "ucast (ucast e :: u32) = e"
  obtains t where "val_sdei_event_routing_set hw (ucast e) False c s =
      Some (if st = Unregistered then SDEI_STATUS_DENIED else 0, t)" "own_event ev SharedEvent e s0 st t"
proof -
  have c: "concerns SharedEvent (mpidr_in hw)" by (simp add: concerns_def)
  have b: "bound SharedEvent (io s)" "ev SharedEvent (io s) = e" "handler SharedEvent e (io s) = st"
    using assms(3) by (simp_all add: own_event_def)
  have a: "sdei_answer hw s SDEI_1_0_FN_SDEI_EVENT_ROUTING_SET e SDEI_EVENT_REGISTER_RM_ANY 0 0 0 =
      (if st = Unregistered then SDEI_DENIED else 0)"
    using assms(2) b by (auto simp: sdei_answer_def routes_registered_def)
  let ?u = "sdei_logged hw SDEI_1_0_FN_SDEI_EVENT_ROUTING_SET e SDEI_EVENT_REGISTER_RM_ANY 0 0 0 s"
  have own: "own_event ev SharedEvent e s0 st ?u"
    using own_event_step [OF assms(1) c assms(3), of SDEI_1_0_FN_SDEI_EVENT_ROUTING_SET] by simp
  then have "own_event ev SharedEvent e s0 st (sdei_pal_print l m as ?u)" for l m as by (simp add: own_event_def)
  moreover have "(if sdei_is_err r then pal_sdei_to_uefi_errno r else 0) = sdei_error r" for r
    by (simp add: sdei_error_def)
  moreover have "sdei_error SDEI_DENIED = SDEI_STATUS_DENIED" "sdei_error 0 = 0"
    by (simp add: denied_def) (simp add: accepted_def sdei_is_err_def reg_defs)
  moreover have "SDEI_STATUS_DENIED \<noteq> 0" by (simp add: reg_defs)
  ultimately show thesis
    using that own
    by (cases "st = Unregistered") (auto simp: val_sdei_event_routing_set_def sdei_event_routing_set_def
        pal_invoke_sdei_fn_run assms(4) a Let_def)
qed

text \<open>The routing test routes its event to PE 2 whatever the table holds. With two PEs that index is
  past the end of the table, and the guard of the lookup lets it through: on a firmware that does
  everything the test asks for, the run has undefined behaviour.\<close>

theorem routing_test_two_pes:
  assumes "keeps_life_cycle hw ev" "routes_registered hw ev" "idle ev (io s)"
    and "sd_pe_table (sg s) = Some t" "num_of_pe t = 2" "length (pe_info t) = 2"
  shows "test_009_entry h hw s = None"
proof -
  have key: "key_of SDEI_EVENT_TYPE_SHARED hw = SharedEvent" by (simp add: key_of_def)
  have c: "concerns SharedEvent (mpidr_in hw)" by (simp add: concerns_def)
  note ty = insertI1 [of SDEI_EVENT_TYPE_SHARED "{SDEI_EVENT_TYPE_PRIVATE}"]
  have get: "\<exists>t. val_event_get hw SDEI_EVENT_TYPE_SHARED SDEI_EVENT_PRIORITY_ANY u = Some (ucast (ev SharedEvent (io u)), t) \<and>
      own_event ev SharedEvent (ev SharedEvent (io u)) u Unregistered t" if "idle ev (io u)" for u
    using bind_step [OF assms(1) that ty, where f = "\<lambda>e t. Some (e, t)" and
        Q = "\<lambda>(e, t). e = ucast (ev SharedEvent (io u)) \<and> own_event ev SharedEvent (ev SharedEvent (io u)) u Unregistered t"]
    by (auto simp: key returns_def)
  note calls = call_steps [OF assms(1) c _ event_number(1) [OF assms(1)]]
  have reg: "\<exists>t. val_sdei_event_register hw (ucast (ev SharedEvent (io v))) h 0 0 0 u = (0, t) \<and>
      own_event ev SharedEvent (ev SharedEvent (io v)) s0 Registered t"
    if "own_event ev SharedEvent (ev SharedEvent (io v)) s0 Unregistered u" for u v s0
    using calls(1) [OF that, where g = "\<lambda>err t. Some (err, t)" and Q = "\<lambda>(err, t). err = 0 \<and> own_event ev SharedEvent (ev SharedEvent (io v)) s0 Registered t"]
    by (auto simp: returns_def split: prod.splits)
  have unreg: "\<exists>t. val_sdei_event_unregister hw (ucast (ev SharedEvent (io v))) u = (0, t) \<and>
      own_event ev SharedEvent (ev SharedEvent (io v)) s0 Unregistered t"
    if "own_event ev SharedEvent (ev SharedEvent (io v)) s0 Registered u" for u v s0
    using calls(4) [OF that, where g = "\<lambda>err t. Some (err, t)" and Q = "\<lambda>(err, t). err = 0 \<and> own_event ev SharedEvent (ev SharedEvent (io v)) s0 Unregistered t"]
    by (auto simp: returns_def split: prod.splits)
  note route = routing_step [OF assms(1,2) _ event_number(1) [OF assms(1)]]
  let ?e = "ucast (ev SharedEvent (io s)) :: u32"
  obtain s1 where s1: "val_event_get hw SDEI_EVENT_TYPE_SHARED SDEI_EVENT_PRIORITY_ANY s = Some (?e, s1)"
      "own_event ev SharedEvent (ev SharedEvent (io s)) s Unregistered s1" using get [OF assms(3)] by blast
  obtain s2 where s2: "val_sdei_event_register hw ?e h 0 0 0 s1 = (0, s2)"
      "own_event ev SharedEvent (ev SharedEvent (io s)) s Registered s2" using reg [OF s1(2)] by blast
  obtain s3 where s3: "val_sdei_event_routing_set hw ?e False 0 s2 = Some (0, s3)"
      "own_event ev SharedEvent (ev SharedEvent (io s)) s Registered s3" by (rule route [OF s2(2)]) simp
  obtain s4 where s4: "val_sdei_event_unregister hw ?e s3 = (0, s4)"
      "own_event ev SharedEvent (ev SharedEvent (io s)) s Unregistered s4" using unreg [OF s3(2)] by blast
  let ?f = "ucast (ev SharedEvent (io s4)) :: u32"
  obtain s5 where s5: "val_event_get hw SDEI_EVENT_TYPE_SHARED SDEI_EVENT_PRIORITY_ANY s4 = Some (?f, s5)"
      "own_event ev SharedEvent (ev SharedEvent (io s4)) s4 Unregistered s5"
    using get [OF own_event_idle [OF s4(2)]] by blast
  obtain s6 where s6: "val_sdei_event_routing_set hw ?f False 0 s5 = Some (SDEI_STATUS_DENIED, s6)"
      "own_event ev SharedEvent (ev SharedEvent (io s4)) s4 Unregistered s6" by (rule route [OF s5(2)]) simp
  obtain s7 where s7: "val_sdei_event_register hw ?f h 0 0 0 s6 = (0, s7)"
      "own_event ev SharedEvent (ev SharedEvent (io s4)) s4 Registered s7" using reg [OF s6(2)] by blast
  have "sg s7 = sg s" using s7(2) s4(2) by (simp add: own_event_def)
  then have "val_sdei_event_routing_set hw ?f True 2 s7 = None"
    using assms(4-6) by (simp add: val_sdei_event_routing_set_def sdei_val_pe_get_mpid_index_def at_def)
  then show ?thesis
    by (simp add: test_009_entry_def routed_once_def routing_refused_def s1(1) s2(1) s3(1) s4(1) s5(1) s6(1) s7(1) Let_def)
qed

lemma routing_test_two_pes_witness: "test_009_entry 0x7000 dispatcher_hw ready_world = None"
proof -
  have n: "SDEI_1_0_FN_SDEI_EVENT_ROUTING_SET \<noteq> SDEI_1_0_FN_SDEI_INTERRUPT_BIND"
      "SDEI_1_0_FN_SDEI_EVENT_ROUTING_SET \<noteq> SDEI_1_0_FN_SDEI_EVENT_STATUS"
      "SDEI_1_0_FN_SDEI_EVENT_ROUTING_SET \<noteq> SDEI_1_0_FN_SDEI_EVENT_REGISTER"
    by (simp_all add: sdei_fn_defs)
  have "routes_registered dispatcher_hw dispatcher_events"
    by (simp add: routes_registered_def dispatcher_hw_def dispatcher_def dispatcher_events_def n
        SDEI_UNKNOWN_EVENT_def life_cycle_answer_def Let_def)
  moreover have "idle dispatcher_events (io ready_world)" by (simp add: ready_world_ready(2) idle_def)
  moreover have "length pair_table = 2" by (simp add: pair_table_def)
  ultimately show ?thesis
    by (intro routing_test_two_pes [OF dispatcher_keeps, where t = "\<lparr>num_of_pe = 2, pe_info = pair_table\<rparr>"])
       (simp_all add: ready_world_def pair_world_def)
qed

end
