(* ===== verification/Sdei_Watchdog_Tests.thy ===== *)
theory Sdei_Watchdog_Tests
  imports Sdei_Call_Tests Sdei_Timer
begin

text \<open>
  The tests that let a watchdog signal an event and look at the firmware from within the handler
  (test_pool/tests: 22, 24, 25, 27, 28, 31, 32, 34 to 38, 44, 46, 49). A test is a list of steps;
  a step that fails names the label the test jumps to. When the event arrives, and on which PE, is a
  parameter.
\<close>

unbundle bit_operations_syntax

subsection \<open>The state of a test\<close>

definition EVENT_STATUS_RUNNING_BIT :: u64 where [reg_defs]: "EVENT_STATUS_RUNNING_BIT = 4"
definition WD_TIME_OUT :: u64 where [reg_defs]: "WD_TIME_OUT = 0x10000000"
definition TIMEOUT_MEDIUM :: u64 where [reg_defs]: "TIMEOUT_MEDIUM = 0x100000"
definition SPI_INTR_NUM1 :: u32 where [reg_defs]: "SPI_INTR_NUM1 = 231"

text \<open>The static variables, and the locals that live across steps; \<open>g_second_num\<close> is the variable
  g_event_num of test_038.c.\<close>

record wd_vars =
  g_wd_num :: u32
  g_int_id :: u64
  g_event_num :: u32
  g_second_num :: u32
  g_handler_flag :: u32
  g_test_status :: u32

type_synonym wd_state = "wd_vars \<times> sworld"
type_synonym wd_handler = "hw \<Rightarrow> wd_state \<Rightarrow> wd_state option"

text \<open>The event arrives between two looks at g_handler_flag: \<open>arr n h\<close> is the PE that takes it before
  the look with the count \<open>n\<close> after the history \<open>h\<close>, if any. The handler runs to its end.\<close>

type_synonym arrivals = "nat \<Rightarrow> history \<Rightarrow> u64 option"

definition look :: "arrivals \<Rightarrow> wd_handler \<Rightarrow> hw \<Rightarrow> nat \<Rightarrow> wd_state \<Rightarrow> wd_state option" where
  "look arr hdl hw n t = (case arr n (io (snd t)) of None \<Rightarrow> Some t | Some m \<Rightarrow> hdl (hw\<lparr>mpidr_in := m\<rparr>) t)"

text \<open>The waiting loops. \<open>pre\<close>: the flag is part of the condition; \<open>body\<close>: it is invalidated in the
  cache and looked at in the body.\<close>

fun await :: "bool \<Rightarrow> bool \<Rightarrow> arrivals \<Rightarrow> wd_handler \<Rightarrow> hw \<Rightarrow> nat \<Rightarrow> wd_state \<Rightarrow> wd_state option" where
  "await pre body arr hdl hw n t =
     do { t \<leftarrow> (if pre then look arr hdl hw n t else Some t);
          if pre \<and> g_handler_flag (fst t) = 0 then Some t
          else (case n of
              0 \<Rightarrow> Some t
            | Suc k \<Rightarrow> do {
                t \<leftarrow> (if body
                      then look arr hdl hw k (fst t, val_pe_data_cache_invalidate (LVar ''g_handler_flag'') (snd t))
                      else Some t);
                if body \<and> g_handler_flag (fst t) = 0 then Some t else await pre body arr hdl hw k t }) }"

declare await.simps [simp del]

subsection \<open>Steps and labels\<close>

datatype label = Go | To_unregister | To_release | To_unmap | Return

type_synonym step = "hw \<Rightarrow> wd_state \<Rightarrow> (label \<times> wd_state) option"

fun run_steps :: "step list \<Rightarrow> step" where
  "run_steps [] hw t = Some (Go, t)"
| "run_steps (f # fs) hw t =
     do { (lab, t) \<leftarrow> f hw t; if lab = Go then run_steps fs hw t else Some (lab, t) }"

text \<open>A failure: a message, then FAIL for the PE that runs (\<open>direct\<close>) or in g_test_status.\<close>

definition flunk :: "bool \<Rightarrow> label \<Rightarrow> string \<Rightarrow> u64 list \<Rightarrow> step" where
  "flunk direct lab message args hw t =
     (let (l, s) = t; s = sdei_pal_print ACS_LOG_ERR message args s
      in if direct then do { s \<leftarrow> set_own_status hw SDEI_TEST_FAIL s; Some (lab, l, s) }
         else Some (lab, l\<lparr>g_test_status := SDEI_TEST_FAIL\<rparr>, s))"

text \<open>No watchdog was chosen: the tests that keep g_test_status return without reporting it.\<close>

definition no_watchdog :: "bool \<Rightarrow> step" where
  "no_watchdog direct hw t =
     (let (l, s) = t; message = ''No non-secure Watchdogs reported''
      in if direct
         then do { s \<leftarrow> set_own_status hw SDEI_TEST_FAIL s; Some (Return, l, sdei_pal_print ACS_LOG_ERR message [] s) }
         else Some (Return, l\<lparr>g_test_status := SDEI_TEST_FAIL\<rparr>, sdei_pal_print ACS_LOG_ERR message [] s))"

text \<open>The loop over the watchdogs is \<open>do { ... } while (0)\<close>, and \<open>continue\<close> jumps to its condition:
  only the last watchdog is considered.\<close>

definition select_watchdog :: "bool \<Rightarrow> step" where
  "select_watchdog direct hw t =
     (let (l, s) = t
      in do { count \<leftarrow> val_wd_get_info 0 WD_INFO_COUNT s;
              let n = ucast count - 1;
              secure \<leftarrow> val_wd_get_info n WD_INFO_ISSECURE s;
              if secure \<noteq> 0 then no_watchdog direct hw (l\<lparr>g_wd_num := n\<rparr>, s)
              else do {
                gsiv \<leftarrow> val_wd_get_info n WD_INFO_GSIV s;
                let s = sdei_pal_print ACS_LOG_DEBUG ''WS0 interrupt id: %lld'' [gsiv] s;
                _ \<leftarrow> val_wd_get_info n WD_INFO_CTRL_BASE s;
                Some (Go, l\<lparr>g_wd_num := n, g_int_id := gsiv\<rparr>, s) } })"

definition disable_irq :: "bool \<Rightarrow> step" where
  "disable_irq direct hw t =
     (let (l, s) = t
      in do { (err, s) \<leftarrow> val_gic_disable_interrupt (ucast (g_int_id l)) s;
              if err \<noteq> 0 then flunk direct To_unmap ''Interrupt %lld disable failed'' [g_int_id l] hw (l, s)
              else Some (Go, l, s) })"

text \<open>Binding stores the number of the event, also when it fails; \<open>flush\<close> cleans its cache line.\<close>

definition bind_watchdog :: "bool \<Rightarrow> bool \<Rightarrow> label \<Rightarrow> string \<Rightarrow> step" where
  "bind_watchdog direct flush lab message hw t =
     (let (l, s) = t;
          ((err, e), s) = val_sdei_interrupt_bind hw (ucast (g_int_id l)) s;
          l = l\<lparr>g_event_num := e\<rparr>
      in if err \<noteq> 0 then flunk direct lab message [g_int_id l, ucast err] hw (l, s)
         else Some (Go, l, if flush then val_pe_data_cache_clean_invalidate (LVar ''g_event.event_num'') s else s))"

definition register_watchdog :: "bool \<Rightarrow> u64 \<Rightarrow> u64 \<Rightarrow> string \<Rightarrow> step" where
  "register_watchdog direct h f message hw t =
     (let (l, s) = t; (err, s) = val_sdei_event_register hw (g_event_num l) h f 0 0 s
      in if err \<noteq> 0 then flunk direct To_release message [ucast (g_event_num l), ucast err] hw (l, s)
         else Some (Go, l, s))"

definition enable_watchdog :: "bool \<Rightarrow> string \<Rightarrow> step" where
  "enable_watchdog direct message hw t =
     (let (l, s) = t; (err, s) = val_sdei_event_enable hw (g_event_num l) s
      in if err \<noteq> 0 then flunk direct To_unregister message [ucast err] hw (l, s) else Some (Go, l, s))"

text \<open>The watchdog is started, and the test waits for its handler.\<close>

definition trigger_watchdog :: "bool \<Rightarrow> bool \<Rightarrow> bool \<Rightarrow> arrivals \<Rightarrow> wd_handler \<Rightarrow> u32 \<Rightarrow> step" where
  "trigger_watchdog direct pre body arr hdl ticks hw t =
     do { let (l, s) = t;
          s \<leftarrow> val_wd_set_ws0 (g_wd_num l) ticks s;
          t \<leftarrow> await pre body arr hdl hw (unat WD_TIME_OUT) (l, s);
          if g_handler_flag (fst t) \<noteq> 0
          then do { let (l, s) = t;
                    let s = sdei_pal_print ACS_LOG_ERR ''Watchdog interrupt trigger failed'' [] s;
                    s \<leftarrow> val_wd_set_ws0 (g_wd_num l) 0 s;
                    s \<leftarrow> (if direct then set_own_status hw SDEI_TEST_FAIL s else Some s);
                    Some (To_unregister, if direct then l else l\<lparr>g_test_status := SDEI_TEST_FAIL\<rparr>, s) }
          else Some (Go, t) }"

text \<open>A call whose error ends the test.\<close>

definition check_call :: "label \<Rightarrow> string \<Rightarrow> (hw \<Rightarrow> sworld \<Rightarrow> u32 \<times> sworld) \<Rightarrow> step" where
  "check_call lab message call hw t =
     (let (l, s) = t; (err, s) = call hw s
      in if err \<noteq> 0 then flunk False lab message [ucast err] hw (l, s) else Some (Go, l, s))"

text \<open>The status of the event is read until its handler does not run: at most \<open>n + 1\<close> times.\<close>

fun poll_running :: "hw \<Rightarrow> u32 \<Rightarrow> nat \<Rightarrow> sworld \<Rightarrow> u64 \<times> sworld" where
  "poll_running hw e n s =
     (let ((err, res), s) = val_sdei_event_status hw e s;
          s = (if err \<noteq> 0 then sdei_pal_print ACS_LOG_ERR ''SDEI event %d status failed err %x'' [ucast e, ucast err] s else s)
      in if res AND EVENT_STATUS_RUNNING_BIT = 0 then (res, s)
         else (case n of 0 \<Rightarrow> (res, s) | Suc k \<Rightarrow> poll_running hw e k s))"

declare poll_running.simps [simp del]

text \<open>The same loop, left at the first error; \<open>Inl\<close> is the error.\<close>

fun poll_strictly :: "hw \<Rightarrow> u32 \<Rightarrow> nat \<Rightarrow> sworld \<Rightarrow> (u32 + u64) \<times> sworld" where
  "poll_strictly hw e n s =
     (let ((err, res), s) = val_sdei_event_status hw e s
      in if err \<noteq> 0 then (Inl err, s)
         else if res AND EVENT_STATUS_RUNNING_BIT = 0 then (Inr res, s)
         else (case n of 0 \<Rightarrow> (Inr res, s) | Suc k \<Rightarrow> poll_strictly hw e k s))"

declare poll_strictly.simps [simp del]

definition not_running :: "bool \<Rightarrow> string \<Rightarrow> step" where
  "not_running direct message hw t =
     (let (l, s) = t; (r, s) = poll_strictly hw (g_event_num l) (unat TIMEOUT_MEDIUM) s
      in case r of
           Inl err \<Rightarrow> flunk direct To_unregister ''SDEI event status failed with err %d'' [ucast err] hw (l, s)
         | Inr res \<Rightarrow>
             if res AND EVENT_STATUS_RUNNING_BIT \<noteq> 0 then flunk direct To_unregister message [] hw (l, s)
             else Some (Go, l, s))"

definition report :: "u32 \<Rightarrow> step" where
  "report st hw t = (let (l, s) = t in do { s \<leftarrow> set_own_status hw st s; Some (Go, l, s) })"

text \<open>The handler has unregistered the event: when it is gone the interrupt is released, otherwise the
  test is in error and unregisters it.\<close>

definition after_handler :: "bool \<Rightarrow> bool \<Rightarrow> string \<Rightarrow> step" where
  "after_handler direct release message hw t =
     do { let (l, s) = t;
          let (res, s) = poll_running hw (g_event_num l) (unat TIMEOUT_MEDIUM) s;
          let error = (\<lambda>lab l s. if direct then do { s \<leftarrow> set_own_status hw SDEI_TEST_ERROR s; Some (lab, l, s) }
                                  else Some (lab, l\<lparr>g_test_status := SDEI_TEST_ERROR\<rparr>, s));
          if res AND EVENT_STATUS_REGISTER_BIT \<noteq> 0 then error To_unregister l s
          else if \<not> release then Some (To_unmap, l, s)
          else (let (err, s) = val_sdei_interrupt_release hw (g_event_num l) s
                in if err \<noteq> 0
                   then error To_unmap l (sdei_pal_print ACS_LOG_ERR message [ucast (g_event_num l), ucast err] s)
                   else Some (To_unmap, l, s)) }"

subsection \<open>The end of a test\<close>

text \<open>The labels in their order, each falling through to the next; a test without a jump arrives at the
  first. \<open>poll\<close>: the handler is waited for before the event is unregistered. Freeing the virtual
  address does nothing on UEFI.\<close>

definition wind_up :: "bool \<Rightarrow> string \<Rightarrow> string \<Rightarrow> (wd_vars \<Rightarrow> u32) \<Rightarrow> label \<Rightarrow> hw \<Rightarrow> wd_state \<Rightarrow> wd_state" where
  "wind_up poll message release bound_num lab hw t =
     (let (l, s) = t; e = g_event_num l; b = bound_num l;
          s = (if lab \<in> {Go, To_unregister}
               then unregister_quietly hw ACS_LOG_ERR message e
                      (if poll then snd (poll_running hw e (unat TIMEOUT_MEDIUM) s) else s)
               else s);
          s = (if lab \<in> {Go, To_unregister, To_release}
               then (let (err, s) = val_sdei_interrupt_release hw b s
                     in if err \<noteq> 0
                        then sdei_pal_print ACS_LOG_ERR release [ucast b, ucast err] s
                        else s)
               else s)
      in (l, s))"

text \<open>The tests with g_test_status report it at the end.\<close>

definition report_kept :: "label \<Rightarrow> hw \<Rightarrow> wd_state \<Rightarrow> wd_state option" where
  "report_kept lab hw t =
     (if lab = Return then Some t
      else (let (l, s) = t
            in do { s \<leftarrow> set_own_status hw (if g_test_status l = SDEI_TEST_PASS then SDEI_TEST_PASS else SDEI_TEST_FAIL) s;
                    Some (l, s) }))"

definition run_watchdog_test :: "step list \<Rightarrow> (label \<Rightarrow> hw \<Rightarrow> wd_state \<Rightarrow> wd_state option) \<Rightarrow> hw \<Rightarrow> wd_state \<Rightarrow> wd_state option" where
  "run_watchdog_test steps finish hw t =
     do { (lab, t) \<leftarrow> run_steps steps hw ((fst t)\<lparr>g_handler_flag := 1\<rparr>, snd t); finish lab hw t }"

abbreviation "RELEASE_FAILED \<equiv> ''Event number %d release failed with err %x''"
abbreviation "UNREGISTER_FAILED \<equiv> ''SDEI event %d unregister fail with err %x''"

definition wound_up :: "bool \<Rightarrow> label \<Rightarrow> hw \<Rightarrow> wd_state \<Rightarrow> wd_state option" where
  "wound_up poll lab hw t =
     (if lab = Return then Some t else Some (wind_up poll UNREGISTER_FAILED RELEASE_FAILED g_event_num lab hw t))"

definition wound_up_kept :: "string \<Rightarrow> string \<Rightarrow> (wd_vars \<Rightarrow> u32) \<Rightarrow> label \<Rightarrow> hw \<Rightarrow> wd_state \<Rightarrow> wd_state option" where
  "wound_up_kept message release bound_num lab hw t = report_kept lab hw (wind_up False message release bound_num lab hw t)"

subsection \<open>The handlers\<close>

text \<open>Every handler stops the watchdog; most of them end with g_handler_flag = 0.\<close>

definition handled :: "bool \<Rightarrow> bool \<Rightarrow> wd_state \<Rightarrow> wd_state" where
  "handled flush bad t =
     (let (l, s) = t
      in ((if bad then l\<lparr>g_test_status := SDEI_TEST_FAIL\<rparr> else l)\<lparr>g_handler_flag := 0\<rparr>,
          if flush then val_pe_data_cache_clean_invalidate (LVar ''g_handler_flag'') s else s))"

definition plain_handler :: wd_handler where
  "plain_handler hw t = (let (l, s) = t in do { s \<leftarrow> val_wd_set_ws0 (g_wd_num l) 0 s; Some (handled False False (l, s)) })"

definition handler_022 :: wd_handler where
  "handler_022 hw t =
     do { let (l, s) = t;
          let s = sdei_pal_print ACS_LOG_DEBUG ''Received WD0 event'' [] s;
          s \<leftarrow> val_wd_set_ws0 (g_wd_num l) 0 s;
          let (err, s) = val_sdei_event_unregister hw (g_event_num l) s;
          s \<leftarrow> (if err \<noteq> SDEI_STATUS_PENDING
                then set_own_status hw SDEI_TEST_FAIL (sdei_pal_print ACS_LOG_ERR ''ERROR CODE-PENDING check failed'' [] s)
                else set_own_status hw SDEI_TEST_PASS s);
          Some (handled False False (l, s)) }"

text \<open>\<open>x0\<close> and \<open>x1\<close> are the arguments that the handler gets, \<open>f\<close> is its address.\<close>

definition INVALID_PARAM_ID :: u32 where [reg_defs]: "INVALID_PARAM_ID = 0x100"

definition handler_025 :: "u64 \<Rightarrow> u64 \<Rightarrow> u64 \<Rightarrow> wd_handler" where
  "handler_025 f x0 x1 hw t =
     do { let (l, s) = t;
          s \<leftarrow> val_wd_set_ws0 (g_wd_num l) 0 s;
          let (_, s) = val_sdei_event_context hw 0 s;
          let ends = (\<lambda>st s. do { s \<leftarrow> set_own_status hw st s; Some (handled False False (l, s)) });
          if x0 \<noteq> ucast (g_event_num l) then ends SDEI_TEST_FAIL s
          else if x1 \<noteq> f then ends SDEI_TEST_FAIL s
          else (let ((err, _), s) = val_sdei_event_context hw INVALID_PARAM_ID s
                in if err \<noteq> SDEI_STATUS_INVALID then ends SDEI_TEST_FAIL s else ends SDEI_TEST_PASS s) }"

text \<open>A failed check that does not end the handler.\<close>

definition noted :: "bool \<Rightarrow> string \<Rightarrow> u64 list \<Rightarrow> wd_state \<Rightarrow> wd_state" where
  "noted bad message args t =
     (let (l, s) = t
      in if bad then (l\<lparr>g_test_status := SDEI_TEST_FAIL\<rparr>, sdei_pal_print ACS_LOG_ERR message args s) else (l, s))"

text \<open>The two checks in the handlers of the tests of availability, with the unregistering between them.\<close>

definition pending_check :: "hw \<Rightarrow> wd_state \<Rightarrow> wd_state" where
  "pending_check hw t =
     (let (l, s) = t; (err, s) = val_sdei_event_unregister hw (g_event_num l) s
      in noted (err \<noteq> SDEI_STATUS_PENDING) ''Unregister-Pending check failed'' [] (l, s))"

definition version_check :: "hw \<Rightarrow> wd_state \<Rightarrow> wd_state" where
  "version_check hw t =
     (let (l, s) = t; ((err, _), s) = val_sdei_get_version hw s
      in noted (err \<noteq> 0) ''Handler-Enabled & Running check failed with err %d'' [ucast err] (l, s))"

definition handler_031 :: wd_handler where
  "handler_031 hw t =
     (let (l, s) = t
      in do { s \<leftarrow> val_wd_set_ws0 (g_wd_num l) 0 s;
              Some (handled False False (version_check hw (pending_check hw (version_check hw (l, s))))) })"

definition running_check :: "hw \<Rightarrow> wd_state \<Rightarrow> wd_state" where
  "running_check hw t =
     (let (l, s) = t; ((err, result), s) = val_sdei_event_status hw (g_event_num l) s
      in if err \<noteq> 0 then noted True ''Handler-Enabled & Running check failed with err %d'' [ucast err] (l, s)
         else noted (result AND EVENT_STATUS_RUNNING_BIT = 0)
                ''SDEI_EVENT_STATUS running bit mismatch,found value = %llx'' [result AND EVENT_STATUS_RUNNING_BIT] (l, s))"

definition handler_032 :: wd_handler where
  "handler_032 hw t =
     (let (l, s) = t
      in do { s \<leftarrow> val_wd_set_ws0 (g_wd_num l) 0 s;
              Some (handled False False (running_check hw (pending_check hw (running_check hw (l, s))))) })"

text \<open>The handlers that end at the first failed check; \<open>call\<close> says whether its check holds.\<close>

definition checking_handler :: "bool \<Rightarrow> (hw \<Rightarrow> wd_state \<Rightarrow> bool \<times> wd_state) \<Rightarrow> wd_handler" where
  "checking_handler flush call hw t =
     do { let (l, s) = t;
          s \<leftarrow> val_wd_set_ws0 (g_wd_num l) 0 s;
          let (ok, (l, s)) = call hw (l, s);
          if \<not> ok then Some (handled flush True (l, s))
          else (let (err, s) = val_sdei_event_unregister hw (g_event_num l) s
                in if err \<noteq> SDEI_STATUS_PENDING then Some (handled flush True (l, s))
                   else (let (ok, t) = call hw (l, s) in Some (handled flush (\<not> ok) t))) }"

definition handler_034 :: wd_handler where
  "handler_034 = checking_handler False (\<lambda>hw t.
     (let (l, s) = t; ((err, _), s) = val_sdei_features hw VALID_FEATURE s in (err = 0, (l, s))))"

definition handler_035 :: wd_handler where
  "handler_035 = checking_handler False (\<lambda>hw t.
     (let (l, s) = t; (err, s) = val_sdei_shared_reset hw s in (err = SDEI_STATUS_DENIED, (l, s))))"

definition handler_037 :: wd_handler where
  "handler_037 = checking_handler True (\<lambda>hw t.
     (let (l, s) = t; (err, s) = val_sdei_unmask hw s in (err = 0, (l, s))))"

definition handler_038 :: wd_handler where
  "handler_038 = checking_handler False (\<lambda>hw t.
     (let (l, s) = t; ((err, e), s) = val_sdei_interrupt_bind hw SPI_INTR_NUM1 s
      in (err = 0, (l\<lparr>g_second_num := e\<rparr>, s))))"

text \<open>Masking and unmasking: a failed unmask ends the handler with the flag still set.\<close>

definition handler_036 :: wd_handler where
  "handler_036 hw t =
     do { let (l, s) = t;
          s \<leftarrow> val_wd_set_ws0 (g_wd_num l) 0 s;
          let ((err, _), s) = val_sdei_mask hw s;
          if err \<noteq> 0 then Some (handled True True (l, s))
          else (let (err, s) = val_sdei_unmask hw s
                in if err \<noteq> 0 then Some (l\<lparr>g_test_status := SDEI_TEST_FAIL\<rparr>, s)
          else (let (err, s) = val_sdei_event_unregister hw (g_event_num l) s
                in if err \<noteq> SDEI_STATUS_PENDING then Some (handled True True (l, s))
          else (let ((err, _), s) = val_sdei_mask hw s;
                    l = (if err \<noteq> 0 then l\<lparr>g_test_status := SDEI_TEST_FAIL\<rparr> else l);
                    (err, s) = val_sdei_unmask hw s
                in if err \<noteq> 0 then Some (l\<lparr>g_test_status := SDEI_TEST_FAIL\<rparr>, s)
                   else Some (handled True False (l, s))))) }"

definition PSCI_FN_PSCI_CPU_SUSPEND :: u32 where [reg_defs]: "PSCI_FN_PSCI_CPU_SUSPEND = 0xC400000E"

definition handler_044 :: wd_handler where
  "handler_044 hw t =
     do { let (l, s) = t;
          s \<leftarrow> val_wd_set_ws0 (g_wd_num l) 0 s;
          let ((err, _), s) = val_psci_version hw s;
          if err \<noteq> 0 then Some (handled False True (l, s))
          else (let (err, s) = val_psci_affinity_info hw 0 0 s
                in if err \<noteq> 0 then Some (handled False True (l, s))
          else (let (err, s) = val_psci_features hw PSCI_FN_PSCI_CPU_SUSPEND s
                in Some (handled False (err \<noteq> 0) (l, s)))) }"

definition PE_MASKED :: u64 where [reg_defs]: "PE_MASKED = 1"

definition handler_046 :: wd_handler where
  "handler_046 hw t =
     do { let (l, s) = t;
          s \<leftarrow> val_wd_set_ws0 (g_wd_num l) 0 s;
          let ((err, result), s) = val_sdei_mask hw s;
          Some (handled False (err \<noteq> 0 \<or> result \<noteq> PE_MASKED) (l, s)) }"

text \<open>The interrupted PC and PSTATE are what the assembly entry has stored.\<close>

definition CLIENT_EL :: u64 where [reg_defs]: "CLIENT_EL = 2"
definition EXPECTED_DAIF :: u64 where [reg_defs]: "EXPECTED_DAIF = 0xF"
definition EXPECTED_SPsel :: u64 where [reg_defs]: "EXPECTED_SPsel = 1"

definition reg_check :: "pe_reg_id_t \<Rightarrow> (u64 \<Rightarrow> u64) \<Rightarrow> u64 \<Rightarrow> hw \<Rightarrow> wd_state \<Rightarrow> wd_state" where
  "reg_check r part expected hw t =
     (let (l, s) = t; ((err, v), s) = sdei_val_pe_reg_read hw r s
      in (if err \<noteq> 0 \<or> map_option part v \<noteq> Some expected then l\<lparr>g_test_status := SDEI_TEST_FAIL\<rparr> else l, s))"

definition handler_049 :: "u64 \<Rightarrow> u64 \<Rightarrow> wd_handler" where
  "handler_049 pc pstate hw t =
     (let t = reg_check DAIF id EXPECTED_DAIF hw t;
          t = reg_check SPsel id EXPECTED_SPsel hw t;
          t = reg_check CurrentEL (\<lambda>v. EXTRACT_BITS v 2 2) CLIENT_EL hw t;
          t = reg_check ELR_EL id pc hw t;
          t = reg_check SPSR_EL id pstate hw t
      in plain_handler hw t)"

subsection \<open>The tests\<close>

text \<open>\<open>h\<close> is the entry point in assembly, \<open>f\<close> the handler's address.\<close>

definition test_022_entry :: "arrivals \<Rightarrow> u64 \<Rightarrow> u64 \<Rightarrow> hw \<Rightarrow> wd_state \<Rightarrow> wd_state option" where
  "test_022_entry arr h f = run_watchdog_test
     [select_watchdog True, disable_irq True,
      bind_watchdog True False To_unmap ''SPI intr number %lld bind failed with err %d'',
      register_watchdog True h f ''SDEI event %d register failed with err %x'',
      enable_watchdog True ''SDEI event enable test failed with err %d'',
      trigger_watchdog True True False arr handler_022 1,
      after_handler True True ''Event number %d release failed with err %d''] (wound_up False)"

definition test_024_entry :: "arrivals \<Rightarrow> u64 \<Rightarrow> u64 \<Rightarrow> hw \<Rightarrow> wd_state \<Rightarrow> wd_state option" where
  "test_024_entry arr h f = run_watchdog_test
     [select_watchdog True, disable_irq True,
      bind_watchdog True False To_unmap ''SPI intr number %lld bind failed with err %d'',
      register_watchdog True h f ''SDEI event %d register fail with err %x'',
      enable_watchdog True ''SDEI event enable failed with err %d'',
      trigger_watchdog True False True arr plain_handler 1,
      not_running True ''SDEI_EVENT_COMPLETE test failed, handler running'',
      report SDEI_TEST_PASS] (wound_up False)"

text \<open>\<open>x\<close> gives the arguments of the handler after a history.\<close>

definition flush_args :: step where
  "flush_args hw t =
     (let (l, s) = t
      in Some (Go, l, val_pe_data_cache_clean_invalidate (LVar ''g_x1_arg'')
                        (val_pe_data_cache_clean_invalidate (LVar ''g_x0_arg'') s)))"

definition test_025_entry ::
    "(history \<Rightarrow> u64 \<times> u64) \<Rightarrow> arrivals \<Rightarrow> u64 \<Rightarrow> u64 \<Rightarrow> hw \<Rightarrow> wd_state \<Rightarrow> wd_state option" where
  "test_025_entry x arr h f = run_watchdog_test
     [select_watchdog True, disable_irq True,
      bind_watchdog True False To_unmap ''SPI interrupt number %lld bind failed with err %d'',
      flush_args,
      register_watchdog True h f ''SDEI event %d register failed with err %x'',
      enable_watchdog True ''SDEI event enable test failed with err %d'',
      trigger_watchdog True False True arr
        (\<lambda>hw t. handler_025 f (fst (x (io (snd t)))) (snd (x (io (snd t)))) hw t) 1] (wound_up True)"

definition context_denied :: step where
  "context_denied hw t =
     (let (l, s) = t; ((err, _), s) = val_sdei_event_context hw 2 s
      in if err \<noteq> SDEI_STATUS_DENIED
         then flunk True To_unregister ''val_api_event_context failed with err %x'' [ucast err] hw (l, s)
         else Some (Go, l, s))"

definition test_027_entry :: "arrivals \<Rightarrow> u64 \<Rightarrow> u64 \<Rightarrow> hw \<Rightarrow> wd_state \<Rightarrow> wd_state option" where
  "test_027_entry arr h f = run_watchdog_test
     [select_watchdog True, disable_irq True,
      bind_watchdog True False To_unmap ''SPI interrupt number %lld bind failed with err %d'',
      register_watchdog True h f ''SDEI event %d register failed with err %x'',
      enable_watchdog True ''SDEI event enable test failed with err %d'',
      trigger_watchdog True True True arr plain_handler 1,
      context_denied, report SDEI_TEST_PASS] (wound_up True)"

text \<open>\<open>h\<close> is asm_handler_resume here.\<close>

definition test_028_entry :: "arrivals \<Rightarrow> u64 \<Rightarrow> u64 \<Rightarrow> hw \<Rightarrow> wd_state \<Rightarrow> wd_state option" where
  "test_028_entry arr h f = run_watchdog_test
     [select_watchdog True, disable_irq True,
      bind_watchdog True False To_unmap ''SPI intr number %lld bind failed with err %d'',
      register_watchdog True h f ''SDEI event %d register fail with err %x'',
      enable_watchdog True ''SDEI event enable failed with err %d'',
      trigger_watchdog True False True arr plain_handler 100,
      not_running True ''SDEI_EVENT_COMPLETE test failed, handler running'',
      report SDEI_TEST_PASS] (wound_up False)"

text \<open>The tests of availability make their call when the handler of the event is unregistered,
  registered, enabled, running, and waiting to be unregistered.\<close>

abbreviation "CHECK_1 \<equiv> ''Handler-Unregistered state check failed with err %d''"
abbreviation "CHECK_2 \<equiv> ''Handler-Registered state check failed with err %d''"
abbreviation "CHECK_3 \<equiv> ''Handler-Enabled state check failed with err %d''"
abbreviation "BIND_FAILED \<equiv> ''SPI intr number %lld bind failed with err %d''"
abbreviation "ENABLE_FAILED \<equiv> ''SDEI event enable failed with err %d''"

definition test_031_entry :: "arrivals \<Rightarrow> u64 \<Rightarrow> u64 \<Rightarrow> hw \<Rightarrow> wd_state \<Rightarrow> wd_state option" where
  "test_031_entry arr h f =
     (let version = (\<lambda>hw s. let ((err, _), s) = val_sdei_get_version hw s in (err, s))
      in run_watchdog_test
     [select_watchdog False, disable_irq False, bind_watchdog False True To_unmap BIND_FAILED,
      check_call To_unmap CHECK_1 version,
      register_watchdog False h f ''SDEI event %d register fail with err %x'',
      check_call To_unregister CHECK_2 version,
      enable_watchdog False ENABLE_FAILED,
      check_call To_unregister CHECK_3 version,
      trigger_watchdog False False True arr handler_031 1,
      after_handler False True ''Event num %d release failed : err %d'']
     (wound_up_kept ''SDEI event %d unregister failed : err %x'' RELEASE_FAILED g_event_num))"

definition status_check :: "label \<Rightarrow> string \<Rightarrow> string \<Rightarrow> u64 \<Rightarrow> bool \<Rightarrow> step" where
  "status_check lab message mismatch msk expected hw t =
     (let (l, s) = t; ((err, result), s) = val_sdei_event_status hw (g_event_num l) s
      in if err \<noteq> 0 then flunk False lab message [ucast err] hw (l, s)
         else if (result AND msk \<noteq> 0) \<noteq> expected then flunk False lab mismatch [result AND msk] hw (l, s)
         else Some (Go, l, s))"

definition test_032_entry :: "arrivals \<Rightarrow> u64 \<Rightarrow> u64 \<Rightarrow> hw \<Rightarrow> wd_state \<Rightarrow> wd_state option" where
  "test_032_entry arr h f =
     (let mismatch = ''SDEI_EVENT_STATUS register bit mismatch,found = %llx''
      in run_watchdog_test
     [select_watchdog False, disable_irq False, bind_watchdog False True To_unmap BIND_FAILED,
      status_check To_unmap CHECK_1 mismatch EVENT_STATUS_REGISTER_BIT False,
      register_watchdog False h f ''SDEI evt %d register fail with err %x'',
      status_check To_unregister CHECK_2 mismatch EVENT_STATUS_REGISTER_BIT True,
      enable_watchdog False ENABLE_FAILED,
      status_check To_unregister CHECK_3 ''SDEI_EVENT_STATUS enable bit mismatch,found value = %llx''
        EVENT_STATUS_ENABLE_BIT True,
      trigger_watchdog False False True arr handler_032 1,
      after_handler False True ''Event num %d release failed :err %d'']
     (wound_up_kept ''SDEI event %d unregister failed :err %x'' RELEASE_FAILED g_event_num))"

definition test_034_entry :: "arrivals \<Rightarrow> u64 \<Rightarrow> u64 \<Rightarrow> hw \<Rightarrow> wd_state \<Rightarrow> wd_state option" where
  "test_034_entry arr h f =
     (let features = (\<lambda>hw s. let ((err, _), s) = val_sdei_features hw VALID_FEATURE s in (err, s))
      in run_watchdog_test
     [select_watchdog False, disable_irq False,
      bind_watchdog False True To_unmap ''SPI Intr number %lld bind failed with err %d'',
      check_call To_unmap CHECK_1 features,
      register_watchdog False h f ''SDEI event %d register fail with err %x'',
      check_call To_unregister CHECK_2 features,
      enable_watchdog False ENABLE_FAILED,
      check_call To_unregister CHECK_3 features,
      trigger_watchdog False False True arr handler_034 1,
      after_handler False True ''Event num %d release failed : err %d'']
     (wound_up_kept ''SDEI event %d unregister failed : err %x'' RELEASE_FAILED g_event_num))"

text \<open>A reset unbinds the interrupt, so it is bound and registered again after each.\<close>

definition test_035_entry :: "arrivals \<Rightarrow> u64 \<Rightarrow> u64 \<Rightarrow> hw \<Rightarrow> wd_state \<Rightarrow> wd_state option" where
  "test_035_entry arr h f =
     (let again = [disable_irq False, bind_watchdog False True To_unmap BIND_FAILED,
                   register_watchdog False h f ''SDEI event %d register fail with err %x'']
      in run_watchdog_test
     ([select_watchdog False, check_call To_unmap CHECK_1 val_sdei_shared_reset] @ again @
      [check_call To_unregister CHECK_2 val_sdei_shared_reset] @ again @
      [enable_watchdog False ENABLE_FAILED,
       check_call To_unregister CHECK_3 val_sdei_shared_reset] @ again @
      [enable_watchdog False ENABLE_FAILED,
       trigger_watchdog False False True arr handler_035 1,
       after_handler False False []])
     (wound_up_kept ''SDEI event %d unregister failed : err %x'' RELEASE_FAILED g_event_num))"

definition test_036_entry :: "arrivals \<Rightarrow> u64 \<Rightarrow> u64 \<Rightarrow> hw \<Rightarrow> wd_state \<Rightarrow> wd_state option" where
  "test_036_entry arr h f =
     (let masks = (\<lambda>hw s. let ((err, _), s) = val_sdei_mask hw s in (err, s));
          unmask = ''Unmask failed with err %d''
      in run_watchdog_test
     [select_watchdog False, disable_irq False, bind_watchdog False True To_unmap BIND_FAILED,
      check_call To_release CHECK_1 masks, check_call To_release unmask val_sdei_unmask,
      register_watchdog False h f ''SDEI evt %d register fail with err %x'',
      check_call To_unregister CHECK_2 masks, check_call To_unmap unmask val_sdei_unmask,
      enable_watchdog False ENABLE_FAILED,
      check_call To_unregister CHECK_3 masks, check_call To_unmap unmask val_sdei_unmask,
      trigger_watchdog False False True arr handler_036 1,
      after_handler False True ''Evt num %d release failed : err %d'']
     (wound_up_kept ''SDEI evt %d unregister failed : err %x'' RELEASE_FAILED g_event_num))"

definition test_037_entry :: "arrivals \<Rightarrow> u64 \<Rightarrow> u64 \<Rightarrow> hw \<Rightarrow> wd_state \<Rightarrow> wd_state option" where
  "test_037_entry arr h f = run_watchdog_test
     [select_watchdog False, disable_irq False, bind_watchdog False True To_unmap BIND_FAILED,
      check_call To_release CHECK_1 val_sdei_unmask,
      register_watchdog False h f ''SDEI evt %d register fail with err %x'',
      check_call To_unregister CHECK_2 val_sdei_unmask,
      enable_watchdog False ENABLE_FAILED,
      check_call To_unregister CHECK_3 val_sdei_unmask,
      trigger_watchdog False False True arr handler_037 1,
      after_handler False True ''Evt num %d release failed : err %d'']
     (wound_up_kept ''SDEI evt %d unregister failed : err %x'' RELEASE_FAILED g_event_num)"

text \<open>Test 38 binds a second interrupt; at its end it releases that one.\<close>

definition bind_second :: step where
  "bind_second hw t =
     (let (l, s) = t; ((err, e), s) = val_sdei_interrupt_bind hw SPI_INTR_NUM1 s; l = l\<lparr>g_second_num := e\<rparr>
      in if err \<noteq> 0
         then flunk False To_unregister ''SPI intr number %d bind failed with err %d'' [ucast SPI_INTR_NUM1, ucast err] hw (l, s)
         else Some (Go, l, val_pe_data_cache_clean_invalidate (LVar ''g_event_num'') s))"

definition disable_second :: step where
  "disable_second hw t =
     (let (l, s) = t
      in do { (err, s) \<leftarrow> val_gic_disable_interrupt SPI_INTR_NUM1 s;
              if err \<noteq> 0
              then flunk False To_unregister ''Interrupt %d disable failed'' [ucast SPI_INTR_NUM1] hw (l, s)
              else Some (Go, l, s) })"

definition test_038_entry :: "arrivals \<Rightarrow> u64 \<Rightarrow> u64 \<Rightarrow> hw \<Rightarrow> wd_state \<Rightarrow> wd_state option" where
  "test_038_entry arr h f = run_watchdog_test
     [select_watchdog False, disable_irq False, bind_watchdog False True To_release BIND_FAILED,
      register_watchdog False h f ''SDEI event %d register fail with err %x'',
      disable_second, bind_second,
      enable_watchdog False ENABLE_FAILED,
      bind_second,
      trigger_watchdog False False True arr handler_038 1,
      after_handler False True ''Event num %d release failed : err %d'']
     (wound_up_kept ''SDEI event %d unregister failed : err %x'' ''Event num %d release failed : err %d'' g_second_num)"

definition report_failed_check :: step where
  "report_failed_check hw t =
     (if g_test_status (fst t) AND SDEI_TEST_FAIL \<noteq> 0 then report SDEI_TEST_FAIL hw t else report SDEI_TEST_PASS hw t)"

definition test_044_entry :: "arrivals \<Rightarrow> u64 \<Rightarrow> u64 \<Rightarrow> hw \<Rightarrow> wd_state \<Rightarrow> wd_state option" where
  "test_044_entry arr h f = run_watchdog_test
     [select_watchdog True, disable_irq True,
      bind_watchdog True False To_unmap ''SPI interrupt number %lld bind failed with err %d'',
      register_watchdog True h f ''SDEI event %d register failed with err %x'',
      enable_watchdog True ''SDEI event enable test failed with err %d'',
      trigger_watchdog True True True arr handler_044 1,
      report_failed_check] (wound_up True)"

definition still_running :: step where
  "still_running hw t =
     (let (l, s) = t; (r, s) = poll_strictly hw (g_event_num l) (unat TIMEOUT_MEDIUM) s;
          failed = l\<lparr>g_test_status := SDEI_TEST_FAIL\<rparr>
      in case r of
           Inl err \<Rightarrow> Some (Go, failed,
             sdei_pal_print ACS_LOG_ERR ''SDEI event %d status failed err %x'' [ucast (g_event_num l), ucast err] s)
         | Inr res \<Rightarrow> Some (Go, if res AND EVENT_STATUS_RUNNING_BIT \<noteq> 0 then failed else l, s))"

definition unmask_all :: step where
  "unmask_all hw t =
     (let (l, s) = t in Some (Go, l, sdei_val_pe_execute_on_all hw (\<lambda>hw s. snd (val_sdei_unmask hw s)) s))"

definition test_046_entry :: "arrivals \<Rightarrow> u64 \<Rightarrow> u64 \<Rightarrow> hw \<Rightarrow> wd_state \<Rightarrow> wd_state option" where
  "test_046_entry arr h f = run_watchdog_test
     [select_watchdog True, disable_irq True,
      bind_watchdog True False To_unmap ''SPI interrupt number %lld bind failed with err %d'',
      register_watchdog True h f ''SDEI event %d register failed with err %x'',
      enable_watchdog True ''SDEI event enable test failed with err %d'',
      trigger_watchdog True True True arr handler_046 1,
      still_running, report_failed_check, unmask_all] (wound_up False)"

definition pass_kept :: step where
  "pass_kept hw t = Some (Go, (fst t)\<lparr>g_test_status := SDEI_TEST_PASS\<rparr>, snd t)"

definition test_049_entry :: "u64 \<Rightarrow> u64 \<Rightarrow> arrivals \<Rightarrow> u64 \<Rightarrow> u64 \<Rightarrow> hw \<Rightarrow> wd_state \<Rightarrow> wd_state option" where
  "test_049_entry pc pstate arr h f = run_watchdog_test
     [select_watchdog False, disable_irq False, bind_watchdog False False To_unmap BIND_FAILED,
      register_watchdog False h f ''SDEI event %d register fail with err %x'',
      enable_watchdog False ENABLE_FAILED,
      trigger_watchdog False False True arr (handler_049 pc pstate) 100,
      not_running False ''SDEI_EVENT_COMPLETE test failed, Handler Running'',
      pass_kept] (wound_up_kept UNREGISTER_FAILED RELEASE_FAILED g_event_num)"


subsection \<open>Machines without a non-secure watchdog at the end of the table\<close>

definition watchdog_test ::
    "nat \<Rightarrow> (history \<Rightarrow> u64 \<times> u64) \<Rightarrow> u64 \<Rightarrow> u64 \<Rightarrow> arrivals \<Rightarrow> u64 \<Rightarrow> u64 \<Rightarrow> hw \<Rightarrow> wd_state \<Rightarrow> wd_state option" where
  "watchdog_test n x pc pstate =
     (if n = 22 then test_022_entry else if n = 24 then test_024_entry else if n = 25 then test_025_entry x
      else if n = 27 then test_027_entry else if n = 28 then test_028_entry else if n = 31 then test_031_entry
      else if n = 32 then test_032_entry else if n = 34 then test_034_entry else if n = 35 then test_035_entry
      else if n = 36 then test_036_entry else if n = 37 then test_037_entry else if n = 38 then test_038_entry
      else if n = 44 then test_044_entry else if n = 46 then test_046_entry else test_049_entry pc pstate)"

definition direct_tests :: "nat set" where "direct_tests = {22, 24, 25, 27, 28, 44, 46}"
definition kept_tests :: "nat set" where "kept_tests = {31, 32, 34, 35, 36, 37, 38, 49}"

lemmas watchdog_entries = test_022_entry_def test_024_entry_def test_025_entry_def test_027_entry_def
  test_028_entry_def test_031_entry_def test_032_entry_def test_034_entry_def test_035_entry_def
  test_036_entry_def test_037_entry_def test_038_entry_def test_044_entry_def test_046_entry_def test_049_entry_def

definition selects :: "bool \<Rightarrow> (hw \<Rightarrow> wd_state \<Rightarrow> wd_state option) \<Rightarrow> bool" where
  "selects d test \<longleftrightarrow> (\<exists>steps fin. test = run_watchdog_test (select_watchdog d # steps) fin \<and>
     (\<forall>hw t. fin Return hw t = Some t))"

lemma selects_first:
  "(\<And>hw t. fin Return hw t = Some t) \<Longrightarrow> selects d (run_watchdog_test (select_watchdog d # steps) fin)"
  by (auto simp: selects_def)

lemma starts_with_selection:
  assumes "n \<in> direct_tests \<union> kept_tests"
  shows "selects (n \<in> direct_tests) (watchdog_test n x pc pstate arr h f)"
proof -
  have ends: "wound_up poll Return hw t = Some t" "wound_up_kept m r b Return hw t = Some t" for poll m r b hw t
    by (simp_all add: wound_up_def wound_up_kept_def report_kept_def wind_up_def split_beta)
  have n: "n = 22 \<or> n = 24 \<or> n = 25 \<or> n = 27 \<or> n = 28 \<or> n = 31 \<or> n = 32 \<or> n = 34 \<or> n = 35 \<or> n = 36 \<or> n = 37 \<or>
      n = 38 \<or> n = 44 \<or> n = 46 \<or> n = 49"
    using assms by (auto simp: direct_tests_def kept_tests_def)
  show ?thesis
    using n by (elim disjE) (simp_all add: watchdog_test_def watchdog_entries direct_tests_def Let_def selects_first ends)
qed

text \<open>Without any watchdog the number of the last one is -1, and all these tests read the entry with that
  index: undefined behaviour, instead of the message they have for the case.\<close>

theorem watchdog_tests_need_watchdog:
  assumes "g_wd_info_table (sg s) = Some t" "num_wd t = 0" "length (wd_info t) < 2 ^ 32"
    and "n \<in> direct_tests \<union> kept_tests"
  shows "watchdog_test n x pc pstate arr h f hw (l, s) = None"
proof -
  obtain steps fin where t: "watchdog_test n x pc pstate arr h f = run_watchdog_test (select_watchdog (n \<in> direct_tests) # steps) fin"
    using starts_with_selection [OF assms(4)] unfolding selects_def by blast
  have "(- 1 :: u32) = 0xFFFFFFFF" by simp
  then have "unat (- 1 :: u32) = 0xFFFFFFFF" by (simp only:) simp
  then have "at (wd_info t) (unat (- 1 :: u32)) = None" using assms(3) by (simp add: at_def)
  then show ?thesis
    using assms(1,2) by (simp add: t run_watchdog_test_def select_watchdog_def val_wd_get_info_def)
qed

text \<open>The last watchdog of the table is secure.\<close>

definition last_secure :: "sworld \<Rightarrow> bool" where
  "last_secure s \<longleftrightarrow> (\<exists>t. g_wd_info_table (sg s) = Some t \<and> 0 < num_wd t \<and> unat (num_wd t) \<le> length (wd_info t) \<and>
     bit (wd_flags (wd_info t ! (unat (num_wd t) - 1))) 2)"

lemma secure_flag: "ucast (drop_bit 2 v AND 1 :: u32) = (0 :: u64) \<longleftrightarrow> \<not> bit v 2"
proof -
  have "drop_bit 2 v AND 1 = of_bool (bit v 2)" by (simp add: and_one_eq bit_iff_odd_drop_bit mod_2_eq_odd)
  then show ?thesis by simp
qed

lemma selects_last:
  assumes "g_wd_info_table (sg s) = Some t" "0 < num_wd t" "unat (num_wd t) \<le> length (wd_info t)"
  shows "val_wd_get_info 0 WD_INFO_COUNT s = Some (ucast (num_wd t))"
    "val_wd_get_info (num_wd t - 1) k s = (case k of
        WD_INFO_COUNT \<Rightarrow> Some (ucast (num_wd t))
      | WD_INFO_CTRL_BASE \<Rightarrow> Some (wd_ctrl_base (wd_info t ! (unat (num_wd t) - 1)))
      | WD_INFO_REFRESH_BASE \<Rightarrow> Some (wd_refresh_base (wd_info t ! (unat (num_wd t) - 1)))
      | WD_INFO_GSIV \<Rightarrow> Some (ucast (wd_gsiv (wd_info t ! (unat (num_wd t) - 1))))
      | WD_INFO_ISSECURE \<Rightarrow> Some (ucast (drop_bit 2 (wd_flags (wd_info t ! (unat (num_wd t) - 1))) AND 1))
      | WD_INFO_OTHER \<Rightarrow> Some 0)"
    "unat (num_wd t - 1) < length (wd_info t)"
proof -
  have u: "unat (num_wd t - 1) = unat (num_wd t) - 1" using assms(2) by (simp add: unat_minus_one word_gt_0)
  have pos: "0 < unat (num_wd t)" using assms(2) by (simp add: word_gt_0 unat_gt_0)
  show "unat (num_wd t - 1) < length (wd_info t)" using u pos assms(3) by linarith
  then show "val_wd_get_info 0 WD_INFO_COUNT s = Some (ucast (num_wd t))"
    "val_wd_get_info (num_wd t - 1) k s = (case k of
        WD_INFO_COUNT \<Rightarrow> Some (ucast (num_wd t))
      | WD_INFO_CTRL_BASE \<Rightarrow> Some (wd_ctrl_base (wd_info t ! (unat (num_wd t) - 1)))
      | WD_INFO_REFRESH_BASE \<Rightarrow> Some (wd_refresh_base (wd_info t ! (unat (num_wd t) - 1)))
      | WD_INFO_GSIV \<Rightarrow> Some (ucast (wd_gsiv (wd_info t ! (unat (num_wd t) - 1))))
      | WD_INFO_ISSECURE \<Rightarrow> Some (ucast (drop_bit 2 (wd_flags (wd_info t ! (unat (num_wd t) - 1))) AND 1))
      | WD_INFO_OTHER \<Rightarrow> Some 0)"
    using assms(1) u by (auto simp: val_wd_get_info_def split: WD_INFO_TYPE.splits)
qed

lemma count_minus_one: "ucast (ucast (v :: u32) :: u64) - 1 = v - (1 :: u32)"
proof -
  have "(ucast (ucast v :: u64) :: u32) = v" by (rule bit_word_eqI) (simp add: bit_simps)
  then show ?thesis by simp
qed



subsection \<open>A machine on which the event arrives\<close>

text \<open>The last watchdog is non-secure with a shared interrupt, and the calls that arm the event are
  accepted.\<close>

definition watchdog_ready :: "sworld \<Rightarrow> bool" where
  "watchdog_ready s \<longleftrightarrow> (\<exists>t. g_wd_info_table (sg s) = Some t \<and> 0 < num_wd t \<and> unat (num_wd t) \<le> length (wd_info t) \<and>
     (let w = wd_info t ! (unat (num_wd t) - 1)
      in \<not> bit (wd_flags w) 2 \<and> 31 < wd_gsiv w \<and> wd_gsiv w < 1020))"

definition accepts :: "hw \<Rightarrow> u64 set \<Rightarrow> bool" where
  "accepts hw F \<longleftrightarrow> (\<forall>f\<in>F. \<forall>h w. accepted (fst (smc_in hw h (mpidr_in hw) (f # w))))"

lemma accepts_answer: "accepts hw F \<Longrightarrow> f \<in> F \<Longrightarrow> accepted (sdei_answer hw s f a0 a1 a2 a3 a4)"
  by (simp add: accepts_def sdei_answer_def)

definition arming_calls :: "u64 set" where
  "arming_calls = {SDEI_1_0_FN_SDEI_INTERRUPT_BIND, SDEI_1_0_FN_SDEI_EVENT_REGISTER, SDEI_1_0_FN_SDEI_EVENT_ENABLE}"

lemma arming_calls_simps [simp]:
  "SDEI_1_0_FN_SDEI_INTERRUPT_BIND \<in> arming_calls" "SDEI_1_0_FN_SDEI_EVENT_REGISTER \<in> arming_calls"
  "SDEI_1_0_FN_SDEI_EVENT_ENABLE \<in> arming_calls"
  by (simp_all add: arming_calls_def)

lemma arming_accepted:
  "accepts hw F \<Longrightarrow> arming_calls \<subseteq> F \<Longrightarrow> f \<in> arming_calls \<Longrightarrow> accepted (sdei_answer hw s f a0 a1 a2 a3 a4)"
  using accepts_answer by blast

lemma val_wd_get_info_print [simp]: "val_wd_get_info n k (sdei_pal_print lvl m a s) = val_wd_get_info n k s"
  by (simp add: val_wd_get_info_def)

lemma run_steps_append:
  "run_steps (fs @ gs) hw t =
     Option.bind (run_steps fs hw t) (\<lambda>(lab, t). if lab = Go then run_steps gs hw t else Some (lab, t))"
  by (induction fs arbitrary: t) (auto simp: Option.bind_eq_Some_conv split: Option.bind_splits)

text \<open>The first five steps, with any way of registering: the state of the suite is as before.\<close>

lemma armed_with:
  assumes "watchdog_ready s" "accepts hw F" "arming_calls \<subseteq> F"
    and "\<And>l u. sg u = sg s \<Longrightarrow> \<exists>v. register hw (l, u) = Some (Go, l, v) \<and> sg v = sg u \<and> shared v = shared u"
  shows "\<exists>l' s'. run_steps [select_watchdog d, disable_irq d, bind_watchdog d fl lab m1, register,
      enable_watchdog d m3] hw (l, s) = Some (Go, l', s') \<and>
     g_handler_flag l' = g_handler_flag l \<and> g_test_status l' = g_test_status l \<and> sg s' = sg s \<and> shared s' = shared s \<and>
     (\<forall>k u. sg u = sg s \<longrightarrow> (\<exists>v. val_wd_set_ws0 (g_wd_num l') k u = Some v \<and> sg v = sg u \<and> shared v = shared u))"
proof -
  obtain t where t: "g_wd_info_table (sg s) = Some t" "0 < num_wd t" "unat (num_wd t) \<le> length (wd_info t)"
      "\<not> bit (wd_flags (wd_info t ! (unat (num_wd t) - 1))) 2" "31 < wd_gsiv (wd_info t ! (unat (num_wd t) - 1))"
      "wd_gsiv (wd_info t ! (unat (num_wd t) - 1)) < 1020"
    using assms(1) by (auto simp: watchdog_ready_def Let_def)
  note sel = selects_last [OF t(1-3)]
  define g where "g = wd_gsiv (wd_info t ! (unat (num_wd t) - 1))"
  have u: "(ucast (ucast g :: u64) :: u32) = g" by (rule bit_word_eqI) (simp add: bit_simps)
  have "\<not> g < 32" using t(5) by (simp add: g_def word_less_nat_alt)
  then have dis: "\<exists>a b. val_gic_disable_interrupt g v = Some (0, sdei_val_mmio_write a b v)" for v
    using t(5,6) by (auto simp: g_def val_gic_disable_interrupt_def ACS_SUCCESS_def Let_def)
  have acc: "sdei_error (sdei_answer hw v f a0 a1 a2 a3 a4) = 0" if "f \<in> arming_calls" for f v a0 a1 a2 a3 a4
    using accepts_answer [OF assms(2), of f] assms(3) that by auto
  let ?l = "l\<lparr>g_wd_num := num_wd t - 1, g_int_id := ucast g\<rparr>"
  let ?s = "sdei_pal_print ACS_LOG_DEBUG ''WS0 interrupt id: %lld'' [ucast g] s"
  have "val_wd_get_info (num_wd t - 1) WD_INFO_ISSECURE s = Some 0"
    using sel(2) [of WD_INFO_ISSECURE] secure_flag [THEN iffD2, OF t(4)] by simp
  then have one: "select_watchdog d hw (l, s) = Some (Go, ?l, ?s)"
    using sel(1) sel(2) [of WD_INFO_GSIV] sel(2) [of WD_INFO_CTRL_BASE]
    by (simp add: select_watchdog_def count_minus_one g_def Let_def)
  obtain a b where ab: "val_gic_disable_interrupt g ?s = Some (0, sdei_val_mmio_write a b ?s)" using dis by blast
  have two: "disable_irq d hw (?l, ?s) = Some (Go, ?l, sdei_val_mmio_write a b ?s)"
    by (simp add: disable_irq_def u ab)
  have set: "\<exists>v. val_wd_set_ws0 (num_wd t - 1) k x = Some v \<and> sg v = sg x \<and> shared v = shared x" if "sg x = sg s" for k x
    using that t(1) sel(3) by (auto simp: val_wd_set_ws0_def wd_ctrl_def pal_wd_set_ws0_def sdei_pal_mmio_write_def log_io_def)
  obtain l3 s3 where three: "bind_watchdog d fl lab m1 hw (?l, sdei_val_mmio_write a b ?s) = Some (Go, l3, s3)" "sg s3 = sg s"
      "shared s3 = shared s" "g_wd_num l3 = num_wd t - 1" "g_handler_flag l3 = g_handler_flag l" "g_test_status l3 = g_test_status l"
    by (auto simp: bind_watchdog_def call_runs acc Let_def)
  obtain s4 where four: "register hw (l3, s3) = Some (Go, l3, s4)" "sg s4 = sg s" "shared s4 = shared s"
    using assms(4) [of s3 l3] three(2,3) by auto
  show ?thesis
    using set three(4-6) four(2,3) by (auto simp: one two three(1) four(1) enable_watchdog_def call_runs acc Let_def)
qed

lemma armed:
  assumes "watchdog_ready s" "accepts hw F" "arming_calls \<subseteq> F"
  shows "\<exists>l' s'. run_steps [select_watchdog d, disable_irq d, bind_watchdog d fl lab m1, register_watchdog d h f m2,
      enable_watchdog d m3] hw (l, s) = Some (Go, l', s') \<and>
     g_handler_flag l' = g_handler_flag l \<and> g_test_status l' = g_test_status l \<and> sg s' = sg s \<and> shared s' = shared s \<and>
     (\<forall>k u. sg u = sg s \<longrightarrow> (\<exists>v. val_wd_set_ws0 (g_wd_num l') k u = Some v \<and> sg v = sg u \<and> shared v = shared u))"
proof (rule armed_with [OF assms])
  note arming_accepted [OF assms(2,3) arming_calls_simps(2)]
  then show "\<exists>v. register_watchdog d h f m2 hw (l, u) = Some (Go, l, v) \<and> sg v = sg u \<and> shared v = shared u" for l u
    by (simp add: register_watchdog_def call_runs Let_def)
qed

text \<open>The wait ends at the first look when the event arrives at once and its handler clears the flag.\<close>

lemma trigger_arrives:
  assumes "\<And>k u. sg u = sg s \<Longrightarrow> \<exists>v. val_wd_set_ws0 (g_wd_num l) k u = Some v \<and> sg v = sg u \<and> shared v = shared u"
    and "\<And>n h. arr n h = Some m" "pre \<or> body" "g_handler_flag l \<noteq> 0"
    and "\<And>u. sg u = sg s \<Longrightarrow> shared u = shared s \<Longrightarrow> \<exists>l' s'. hdl (hw\<lparr>mpidr_in := m\<rparr>) (l, u) = Some (l', s') \<and>
      g_handler_flag l' = 0 \<and> Q l' s'"
  shows "\<exists>l' s'. trigger_watchdog d pre body arr hdl ticks hw (l, s) = Some (Go, l', s') \<and> Q l' s'"
proof -
  obtain v where v: "val_wd_set_ws0 (g_wd_num l) ticks s = Some v" "sg v = sg s" "shared v = shared s"
    using assms(1) [of s] by blast
  let ?v = "if pre then v else val_pe_data_cache_invalidate (LVar ''g_handler_flag'') v"
  have "sg ?v = sg s" "shared ?v = shared s" using v by simp_all
  then obtain l' s' where q: "hdl (hw\<lparr>mpidr_in := m\<rparr>) (l, ?v) = Some (l', s')" "g_handler_flag l' = 0" "Q l' s'"
    using assms(5) by blast
  have "unat WD_TIME_OUT \<noteq> 0" by (simp add: WD_TIME_OUT_def)
  then obtain k where k: "unat WD_TIME_OUT = Suc k" using not0_implies_Suc by blast
  have "await pre body arr hdl hw (unat WD_TIME_OUT) (l, v) = Some (l', s')"
    unfolding k await.simps [of _ _ _ _ _ "Suc k"] using assms(3,4) q by (cases pre) (simp_all add: look_def assms(2))
  then show ?thesis using v(1) q by (simp add: trigger_watchdog_def)
qed

text \<open>The event has been handled and its handler is gone.\<close>

definition settles :: "hw \<Rightarrow> bool" where
  "settles hw \<longleftrightarrow> (\<forall>h w. let r = fst (smc_in hw h (mpidr_in hw) (SDEI_1_0_FN_SDEI_EVENT_STATUS # w))
     in accepted r \<and> r AND EVENT_STATUS_RUNNING_BIT = 0 \<and> r AND EVENT_STATUS_REGISTER_BIT = 0)"

lemma settled:
  assumes "settles hw"
  shows "\<exists>r t. poll_strictly hw e n s = (Inr r, t) \<and> r AND EVENT_STATUS_RUNNING_BIT = 0 \<and> sg t = sg s \<and> shared t = shared s"
    "\<exists>r t. poll_running hw e n s = (r, t) \<and> r AND EVENT_STATUS_REGISTER_BIT = 0 \<and> sg t = sg s \<and> shared t = shared s"
proof -
  let ?r = "sdei_answer hw s SDEI_1_0_FN_SDEI_EVENT_STATUS (ucast e) 0 0 0 0"
  have r: "accepted ?r" "?r AND EVENT_STATUS_RUNNING_BIT = 0" "?r AND EVENT_STATUS_REGISTER_BIT = 0"
    using assms by (auto simp: settles_def sdei_answer_def Let_def)
  then show "\<exists>r t. poll_strictly hw e n s = (Inr r, t) \<and> r AND EVENT_STATUS_RUNNING_BIT = 0 \<and> sg t = sg s \<and> shared t = shared s"
    "\<exists>r t. poll_running hw e n s = (r, t) \<and> r AND EVENT_STATUS_REGISTER_BIT = 0 \<and> sg t = sg s \<and> shared t = shared s"
    by (simp_all add: poll_strictly.simps poll_running.simps call_runs)
qed

lemma wind_up_frame: "\<exists>s'. wind_up poll m r b lab hw (l, s) = (l, s') \<and> sg s' = sg s \<and> shared s' = shared s"
proof -
  have "sg (snd (poll_running hw e n s)) = sg s \<and> shared (snd (poll_running hw e n s)) = shared s" for e n s
  proof (induction n arbitrary: s)
    case 0
    show ?case by (simp add: poll_running.simps [of _ _ 0] call_runs Let_def)
  next
    case (Suc n)
    then show ?case by (simp add: poll_running.simps [of _ _ "Suc n"] call_runs Let_def)
  qed
  then show ?thesis
    by (simp add: wind_up_def unregister_quietly_def call_runs call_values Let_def)
qed

subsection \<open>Checks that do not count\<close>

lemma reg_check_frame [simp]:
  "g_wd_num (fst (reg_check r p e hw t)) = g_wd_num (fst t)" "sg (snd (reg_check r p e hw t)) = sg (snd t)"
  "shared (snd (reg_check r p e hw t)) = shared (snd t)"
  by (cases r; simp add: reg_check_def sdei_val_pe_reg_read_def read_sysreg_def Let_def split_beta)+


text \<open>The handler of the pending test reports for the PE that runs it, and the test itself never reports
  a pass: when the firmware delivers the shared event to another PE of the table, as routing to any
  PE allows, the PE that runs the test keeps the status it had, whatever the handler found.\<close>

theorem pending_test_reports_elsewhere:
  assumes "runs_as hw i s" "watchdog_ready s" "accepts hw (insert SDEI_1_0_FN_SDEI_INTERRUPT_RELEASE arming_calls)"
    and "settles hw" "\<And>n h. arr n h = Some m" "runs_as (hw\<lparr>mpidr_in := m\<rparr>) j s" "i \<noteq> j"
  shows "\<exists>l' s'. test_022_entry arr h f hw (l, s) = Some (l', s') \<and> status_word i s' = status_word i s"
proof -
  let ?l = "l\<lparr>g_handler_flag := 1\<rparr>" and ?hw = "hw\<lparr>mpidr_in := m\<rparr>"
  let ?five = "[select_watchdog True, disable_irq True,
      bind_watchdog True False To_unmap ''SPI intr number %lld bind failed with err %d'',
      register_watchdog True h f ''SDEI event %d register failed with err %x'',
      enable_watchdog True ''SDEI event enable test failed with err %d'']"
  obtain l1 s1 where a: "run_steps ?five hw (?l, s) = Some (Go, l1, s1)" "g_handler_flag l1 = 1" "sg s1 = sg s" "shared s1 = shared s"
      "\<And>k u. sg u = sg s \<Longrightarrow> \<exists>v. val_wd_set_ws0 (g_wd_num l1) k u = Some v \<and> sg v = sg u \<and> shared v = shared u"
    using armed [OF assms(2,3) subset_insertI, of True False To_unmap "''SPI intr number %lld bind failed with err %d''" h f
        "''SDEI event %d register failed with err %x''" "''SDEI event enable test failed with err %d''" ?l] by auto
  have hdl: "\<exists>l' s'. handler_022 ?hw (l1, u) = Some (l', s') \<and> g_handler_flag l' = 0 \<and>
      sg s' = sg s \<and> status_word i s' = status_word i s" if u: "sg u = sg s1" "shared u = shared s1" for u
  proof -
    let ?p = "sdei_pal_print ACS_LOG_DEBUG ''Received WD0 event'' [] u"
    obtain v where v: "val_wd_set_ws0 (g_wd_num l1) 0 ?p = Some v" "sg v = sg s" "shared v = shared s"
      using a(5) [of ?p 0] u a(3,4) by auto
    have st: "\<exists>w. set_own_status ?hw st x = Some w \<and> sg w = sg s \<and> status_word i w = status_word i s"
      if x: "sg x = sg s" "shared x = shared s" for st x
    proof -
      have "runs_as ?hw j x" using assms(6) runs_as_cong [of x s] x by simp
      then show ?thesis
        using own_status_stored [of ?hw j x st] assms(7) sdei_status_word_cong [OF x(2)] x(1) by auto
    qed
    let ?v = "sdei_logged ?hw SDEI_1_0_FN_SDEI_EVENT_UNREGISTER (ucast (g_event_num l1)) 0 0 0 0 v"
    let ?m = "sdei_pal_print ACS_LOG_ERR ''ERROR CODE-PENDING check failed'' [] ?v"
    obtain w x where "set_own_status ?hw SDEI_TEST_FAIL ?m = Some w" "sg w = sg s" "status_word i w = status_word i s"
        "set_own_status ?hw SDEI_TEST_PASS ?v = Some x" "sg x = sg s" "status_word i x = status_word i s"
      using st [of ?m SDEI_TEST_FAIL] st [of ?v SDEI_TEST_PASS] v(2,3) by auto
    then show ?thesis by (simp add: handler_022_def v(1) handled_def call_runs)
  qed
  obtain l2 s2 where b: "trigger_watchdog True True False arr handler_022 1 hw (l1, s1) = Some (Go, l2, s2)"
      "sg s2 = sg s" "status_word i s2 = status_word i s"
    using trigger_arrives [of s1 l1 arr m True False handler_022 hw "\<lambda>l' s'. sg s' = sg s \<and> status_word i s' = status_word i s"
        True 1] a(2,3,5) assms(5) hdl by auto
  obtain r s3 where c: "poll_running hw (g_event_num l2) (unat TIMEOUT_MEDIUM) s2 = (r, s3)"
      "r AND EVENT_STATUS_REGISTER_BIT = 0" "shared s3 = shared s2"
    using settled(2) [OF assms(4), of "g_event_num l2" "unat TIMEOUT_MEDIUM" s2] by auto
  have "accepted (sdei_answer hw s3 SDEI_1_0_FN_SDEI_INTERRUPT_RELEASE e 0 0 0 0)" for e
    by (rule accepts_answer [OF assms(3)]) simp
  then obtain s4 where d: "after_handler True True ''Event number %d release failed with err %d'' hw (l2, s2) =
      Some (To_unmap, l2, s4)" "shared s4 = shared s2"
    using c by (simp add: after_handler_def call_values)
  have "run_steps (?five @ [trigger_watchdog True True False arr handler_022 1,
      after_handler True True ''Event number %d release failed with err %d'']) hw (?l, s) = Some (To_unmap, l2, s4)"
    unfolding run_steps_append a(1) by (simp add: b(1) d(1))
  then show ?thesis
    using b(3) sdei_status_word_cong [OF d(2)] unfolding append_Cons append_Nil
    by (simp add: test_022_entry_def run_watchdog_test_def wound_up_def wind_up_def Let_def del: run_steps.simps(2))
qed

subsection \<open>Witnesses\<close>

definition fresh_vars :: wd_vars where
  "fresh_vars = \<lparr>g_wd_num = 0, g_int_id = 0, g_event_num = 0, g_second_num = 0, g_handler_flag = 0, g_test_status = SDEI_TEST_PASS\<rparr>"

definition watchdog_world :: "u32 \<Rightarrow> sworld" where
  "watchdog_world fl = ready_world\<lparr>sg := (sg ready_world)\<lparr>g_wd_info_table :=
     Some \<lparr>num_wd = 2, wd_info = [\<lparr>wd_ctrl_base = 0x2a440000, wd_refresh_base = 0x2a450000, wd_gsiv = 92, wd_flags = 0\<rparr>,
       \<lparr>wd_ctrl_base = 0x2a460000, wd_refresh_base = 0x2a470000, wd_gsiv = 93, wd_flags = fl\<rparr>]\<rparr>\<rparr>\<rparr>"

lemma watchdog_world_runs:
  "runs_as (dispatcher_hw\<lparr>smc_in := a\<rparr>) 0 (watchdog_world fl)"
  "runs_as (dispatcher_hw\<lparr>smc_in := a, mpidr_in := 0x80000100\<rparr>) 1 (watchdog_world fl)"
proof -
  have "affx 0x80000000 = 0" "affx 0x80000100 = 0x100" by (simp_all add: affx_def)
  then show "runs_as (dispatcher_hw\<lparr>smc_in := a\<rparr>) 0 (watchdog_world fl)"
    "runs_as (dispatcher_hw\<lparr>smc_in := a, mpidr_in := 0x80000100\<rparr>) 1 (watchdog_world fl)"
    by (simp_all add: runs_as_def watchdog_world_def ready_world_def pair_world_def sdei_val_pe_get_index_mpid_def
        pair_table_def pe_entry_def shared_size_def dispatcher_hw_def)
qed

lemma watchdog_world_ready: "watchdog_ready (watchdog_world 0)" "last_secure (watchdog_world 4)"
proof -
  have "bit (4 :: u32) 2" by (simp add: bit_numeral_rec)
  then show "watchdog_ready (watchdog_world 0)" "last_secure (watchdog_world 4)"
    by (simp_all add: watchdog_ready_def last_secure_def watchdog_world_def)
qed

lemma watchdog_tests_need_watchdog_witness:
  "watchdog_test 31 (\<lambda>_. (0, 0)) 0 0 (\<lambda>_ _. None) 0x7000 0x8000 dispatcher_hw
     (fresh_vars, ready_world\<lparr>sg := (sg ready_world)\<lparr>g_wd_info_table := Some \<lparr>num_wd = 0, wd_info = []\<rparr>\<rparr>\<rparr>) = None"
proof -
  let ?t = "\<lparr>num_wd = 0, wd_info = []\<rparr>"
  have "num_wd ?t = 0" "length (wd_info ?t) < 2 ^ 32" by simp_all
  then show ?thesis using watchdog_tests_need_watchdog [where t = ?t and n = 31] by (simp add: kept_tests_def)
qed


lemma accepts_zero: "accepts (hw\<lparr>smc_in := (\<lambda>_ _ _. (0, 0, 0, 0))\<rparr>) F" "settles (hw\<lparr>smc_in := (\<lambda>_ _ _. (0, 0, 0, 0))\<rparr>)"
  by (simp_all add: accepts_def settles_def accepted_def sdei_is_err_def reg_defs)


lemma pending_test_reports_elsewhere_witness:
  "\<exists>l' s'. test_022_entry (\<lambda>_ _. Some 0x80000100) 0x7000 0x8000 (dispatcher_hw\<lparr>smc_in := (\<lambda>_ _ _. (0, 0, 0, 0))\<rparr>)
     (fresh_vars,
      watchdog_world 0) = Some (l', s') \<and> status_word 0 s' = SDEI_TEST_PENDING"
proof -
  have "status_word 0 (watchdog_world 0) = SDEI_TEST_PENDING"
    by (simp add: status_word_def watchdog_world_def ready_world_def)
  then show ?thesis
    using pending_test_reports_elsewhere [OF watchdog_world_runs(1) watchdog_world_ready(1) accepts_zero refl
        watchdog_world_runs(2)] by simp
qed


end
