(* ===== verification/Sdei_Pair_Tests.thy ===== *)
theory Sdei_Pair_Tests
  imports Sdei_Watchdog_Tests
begin

text \<open>
  The tests with two sources (test_pool/tests/test_029.c, test_030.c, test_040.c, test_041.c,
  test_043.c): the event of the watchdog, and the event of a system timer or an interrupt of the
  client. A handler that waits can be preempted; what arrives, where and when is a parameter.
\<close>

unbundle bit_operations_syntax

subsection \<open>Two handlers\<close>

text \<open>The static variables; those that the tests with one event have as well are in \<open>wd\<close>. The number of the
  second event is g_second_num, g_event_counter is g_handler_counter in the tests 29 and 30.\<close>

record pair_vars =
  wd :: wd_vars
  g_index :: u32
  g_event_counter :: u32

type_synonym pair_state = "pair_vars \<times> sworld"
type_synonym pair_handler = "hw \<Rightarrow> pair_state \<Rightarrow> pair_state option"

datatype source = Watchdog_Source | Second_Source

text \<open>What arrives before the look with a count, after a history: the sources in their order, each with
  the PE that takes it. A handler that waits looks with the counts of its own loop.\<close>

type_synonym pair_arrivals = "nat \<Rightarrow> history \<Rightarrow> (source \<times> u64) list"

definition take_all :: "pair_arrivals \<Rightarrow> (source \<Rightarrow> pair_handler) \<Rightarrow> hw \<Rightarrow> nat \<Rightarrow> pair_state \<Rightarrow> pair_state option" where
  "take_all arr hdl hw n t = for_each (\<lambda>(src, m). hdl src (hw\<lparr>mpidr_in := m\<rparr>)) (arr n (io (snd t))) t"

text \<open>A handler that preempts another one is not preempted itself.\<close>

definition nothing_arrives :: pair_arrivals where "nothing_arrives n h = []"

text \<open>The waiting loops of the tests. \<open>pre\<close>: g_handler_flag is part of the condition; \<open>vars\<close> are the
  variables that are invalidated in the cache, \<open>over\<close> is the condition for leaving.\<close>

fun await_both ::
    "bool \<Rightarrow> string list \<Rightarrow> (pair_vars \<Rightarrow> bool) \<Rightarrow> pair_arrivals \<Rightarrow> (source \<Rightarrow> pair_handler) \<Rightarrow> hw \<Rightarrow> nat \<Rightarrow> pair_state \<Rightarrow>
     pair_state option" where
  "await_both pre vars over arr hdl hw n t =
     (if pre \<and> g_handler_flag (wd (fst t)) = 0 then Some t
      else (case n of
          0 \<Rightarrow> Some t
        | Suc k \<Rightarrow> do {
            t \<leftarrow> take_all arr hdl hw k (fst t, fold (\<lambda>v. val_pe_data_cache_invalidate (LVar v)) vars (snd t));
            if over (fst t) then Some t else await_both pre vars over arr hdl hw k t }))"

declare await_both.simps [simp del]

text \<open>The ends of the handlers.\<close>

definition counted :: "pair_vars \<Rightarrow> pair_vars" where
  "counted l = l\<lparr>g_event_counter := g_event_counter l + 1\<rparr>"

definition flag_down :: "pair_vars \<Rightarrow> pair_vars" where
  "flag_down l = l\<lparr>wd := (wd l)\<lparr>g_handler_flag := 0\<rparr>\<rparr>"

definition verdict :: "u32 \<Rightarrow> pair_vars \<Rightarrow> pair_vars" where
  "verdict st l = l\<lparr>wd := (wd l)\<lparr>g_test_status := st\<rparr>\<rparr>"

definition cleaned :: "string list \<Rightarrow> sworld \<Rightarrow> sworld" where
  "cleaned vars s = fold (\<lambda>v. val_pe_data_cache_clean_invalidate (LVar v)) vars s"

subsection \<open>Registering the two events\<close>

definition register_directed :: "bool \<Rightarrow> u64 \<Rightarrow> u64 \<Rightarrow> string \<Rightarrow> step" where
  "register_directed direct h f message hw t =
     (let (l, s) = t
      in do { m \<leftarrow> sdei_val_pe_get_mpid_index 0 s;
              let (err, s) = val_sdei_event_register hw (g_event_num l) h f SDEI_EVENT_REGISTER_RM_PE m s;
              if err \<noteq> 0 then flunk direct To_release message [ucast (g_event_num l), ucast err] hw (l, s)
              else Some (Go, l, s) })"

text \<open>\<open>f\<close> is the address of the handler.\<close>

definition wd_event_register :: "u64 \<Rightarrow> u64 \<Rightarrow> hw \<Rightarrow> pair_state \<Rightarrow> (u32 \<times> pair_state) option" where
  "wd_event_register h f hw t =
     do { let (p, s) = t;
          (lab, l, s) \<leftarrow> run_steps [select_watchdog False, disable_irq False, bind_watchdog False False To_unmap BIND_FAILED,
              register_directed False h f ''SDEI event %d register fail with err %x'',
              enable_watchdog False ENABLE_FAILED] hw (wd p, s);
          let (l, s) = (if lab = Go then (l, s)
                        else wind_up False UNREGISTER_FAILED RELEASE_FAILED g_event_num lab hw (l, s));
          Some (g_test_status l, p\<lparr>wd := l\<rparr>, s) }"

text \<open>The labels of \<open>second_event_register\<close>; the event is released after a failure.\<close>

definition second_release :: "hw \<Rightarrow> u32 \<Rightarrow> sworld \<Rightarrow> sworld" where
  "second_release hw e s =
     (let (err, s) = val_sdei_interrupt_release hw e s
      in if err \<noteq> 0 then sdei_pal_print ACS_LOG_ERR RELEASE_FAILED [ucast e, ucast err] s else s)"

definition second_event_register :: "u64 \<Rightarrow> u64 \<Rightarrow> hw \<Rightarrow> pair_state \<Rightarrow> (u32 \<times> pair_state) option" where
  "second_event_register h f hw t =
     do { let (p, s) = t;
          ((err, found), s) \<leftarrow> val_configure_second_interrupt s;
          let p = (case found of None \<Rightarrow> p | Some (index, _) \<Rightarrow> p\<lparr>g_index := index\<rparr>);
          let s = val_pe_data_cache_clean_invalidate (LVar ''g_index'') s;
          case found of
            None \<Rightarrow> Some (SDEI_TEST_FAIL, p, sdei_pal_print ACS_LOG_ERR ''Second interrupt enable failed'' [] s)
          | Some (_, int_id) \<Rightarrow> do {
              let s = sdei_pal_print ACS_LOG_DEBUG ''Found second source intid %llx'' [int_id] s;
              (err, s) \<leftarrow> val_gic_disable_interrupt (ucast int_id) s;
              if err \<noteq> 0
              then Some (SDEI_TEST_FAIL, p, sdei_pal_print ACS_LOG_ERR ''Interrupt %lld disable failed'' [int_id] s)
              else do {
                let ((err, e), s) = val_sdei_interrupt_bind hw (ucast int_id) s;
                let p = p\<lparr>wd := (wd p)\<lparr>g_second_num := e\<rparr>\<rparr>;
                if err \<noteq> 0 then Some (SDEI_TEST_FAIL, p, sdei_pal_print ACS_LOG_ERR BIND_FAILED [int_id, ucast err] s)
                else do {
                  m \<leftarrow> sdei_val_pe_get_mpid_index 0 s;
                  let (err, s) = val_sdei_event_register hw e h f SDEI_EVENT_REGISTER_RM_PE m s;
                  if err \<noteq> 0
                  then Some (SDEI_TEST_FAIL, p, second_release hw e
                         (sdei_pal_print ACS_LOG_ERR ''SDEI event %d register fail with err %x'' [ucast e, ucast err] s))
                  else (let (err, s) = val_sdei_event_enable hw e s
                        in if err = 0 then Some (g_test_status (wd p), p, s)
                           else Some (SDEI_TEST_FAIL, p, second_release hw e (unregister_quietly hw ACS_LOG_ERR UNREGISTER_FAILED e
                                  (sdei_pal_print ACS_LOG_ERR ''SDEI event enable test failed with err %d'' [ucast err] s)))) } } } }"

subsection \<open>The tests of two events\<close>

text \<open>Both statuses are read until no handler runs; \<open>False\<close> after an error. A time-out is not noticed.\<close>

fun poll_both :: "hw \<Rightarrow> u32 \<Rightarrow> u32 \<Rightarrow> nat \<Rightarrow> sworld \<Rightarrow> bool \<times> sworld" where
  "poll_both hw e1 e2 n s =
     (let message = ''SDEI event status failed with err %d'';
          ((err, result1), s) = val_sdei_event_status hw e1 s
      in if err \<noteq> 0 then (False, sdei_pal_print ACS_LOG_ERR message [ucast err] s)
         else (let ((err, result2), s) = val_sdei_event_status hw e2 s
               in if err \<noteq> 0 then (False, sdei_pal_print ACS_LOG_ERR message [ucast err] s)
                  else if result1 AND EVENT_STATUS_RUNNING_BIT = 0 \<and> result2 AND EVENT_STATUS_RUNNING_BIT = 0 then (True, s)
                  else (case n of 0 \<Rightarrow> (True, s) | Suc k \<Rightarrow> poll_both hw e1 e2 k s)))"

declare poll_both.simps [simp del]

definition unregister_pair :: "hw \<Rightarrow> u32 \<Rightarrow> sworld \<Rightarrow> sworld" where
  "unregister_pair hw e s = second_release hw e (unregister_quietly hw ACS_LOG_ERR UNREGISTER_FAILED e s)"

text \<open>After the wait. \<open>over\<close> says that both handlers have run, \<open>final\<close> is the status that is reported then.\<close>

definition conclude_pair :: "(pair_vars \<Rightarrow> bool) \<Rightarrow> (pair_vars \<Rightarrow> u32) \<Rightarrow> hw \<Rightarrow> pair_state \<Rightarrow> pair_state option" where
  "conclude_pair over final hw t =
     do { let (p, s) = t;
          s \<leftarrow> (if \<not> over p
                then do { s \<leftarrow> val_wd_set_ws0 (g_wd_num (wd p)) 0 (sdei_pal_print ACS_LOG_ERR ''Event trigger failed'' [] s);
                          s \<leftarrow> val_disable_second_interrupt (g_index p) s;
                          set_own_status hw SDEI_TEST_FAIL s }
                else (let (ok, s) = poll_both hw (g_event_num (wd p)) (g_second_num (wd p)) (unat TIMEOUT_MEDIUM) s
                      in set_own_status hw (if ok then final p else SDEI_TEST_FAIL) s));
          Some (p, unregister_pair hw (g_event_num (wd p)) (unregister_pair hw (g_second_num (wd p)) s)) }"

text \<open>\<open>start\<close> sets the variables, \<open>second\<close> generates the second event as well.\<close>

definition two_events_test ::
    "(pair_vars \<Rightarrow> pair_vars) \<Rightarrow> bool \<Rightarrow> string list \<Rightarrow> (pair_vars \<Rightarrow> bool) \<Rightarrow> (pair_vars \<Rightarrow> u32) \<Rightarrow>
     pair_arrivals \<Rightarrow> (source \<Rightarrow> pair_handler) \<Rightarrow> u64 \<Rightarrow> u64 \<Rightarrow> u64 \<Rightarrow> hw \<Rightarrow> pair_state \<Rightarrow> pair_state option" where
  "two_events_test start second vars over final arr hdl h f1 f2 hw t =
     do { (st, p, s) \<leftarrow> wd_event_register h f1 hw (start (fst t), snd t);
          let p = verdict st p;
          if st AND SDEI_TEST_FAIL \<noteq> 0 then do { s \<leftarrow> set_own_status hw SDEI_TEST_FAIL s; Some (p, s) }
          else do {
            (st, p, s) \<leftarrow> second_event_register h f2 hw (p, s);
            let p = verdict st p;
            if st AND SDEI_TEST_FAIL \<noteq> 0
            then do { s \<leftarrow> set_own_status hw SDEI_TEST_FAIL s; Some (p, unregister_pair hw (g_event_num (wd p)) s) }
            else do {
              s \<leftarrow> val_wd_set_ws0 (g_wd_num (wd p)) 100 s;
              s \<leftarrow> (if second then val_generate_second_interrupt (g_index p) 100 s else Some s);
              t \<leftarrow> await_both False vars over arr hdl hw (unat WD_TIME_OUT) (p, s);
              conclude_pair over final hw t } } }"

definition both_counted :: "pair_vars \<Rightarrow> bool" where "both_counted p \<longleftrightarrow> g_event_counter p = 2"

definition kept_verdict :: "pair_vars \<Rightarrow> u32" where
  "kept_verdict p = (if g_test_status (wd p) AND SDEI_TEST_FAIL \<noteq> 0 then SDEI_TEST_FAIL else SDEI_TEST_PASS)"

text \<open>Test 40: the handlers only count.\<close>

fun handler_040 :: "source \<Rightarrow> pair_handler" where
  "handler_040 Watchdog_Source hw t =
     (let (p, s) = t
      in do { s \<leftarrow> val_wd_set_ws0 (g_wd_num (wd p)) 0 s; Some (counted p, cleaned [''g_event_counter''] s) })"
| "handler_040 Second_Source hw t =
     (let (p, s) = t
      in do { s \<leftarrow> val_disable_second_interrupt (g_index p) s; Some (counted p, cleaned [''g_event_counter''] s) })"

definition test_040_entry :: "pair_arrivals \<Rightarrow> u64 \<Rightarrow> u64 \<Rightarrow> u64 \<Rightarrow> hw \<Rightarrow> pair_state \<Rightarrow> pair_state option" where
  "test_040_entry arr = two_events_test (\<lambda>p. p\<lparr>g_event_counter := 0\<rparr>) True [''g_event_counter''] both_counted
     (\<lambda>_. SDEI_TEST_PASS) arr handler_040"

text \<open>Test 41: the handler of the first event generates the second one and waits; the handler of the
  second event fails the test when it finds g_handler_flag set, which is set nowhere.\<close>

fun handler_041 :: "pair_arrivals \<Rightarrow> (source \<Rightarrow> pair_handler) \<Rightarrow> source \<Rightarrow> pair_handler" where
  "handler_041 arr preempting Watchdog_Source hw t =
     (let (p, s) = t
      in do { s \<leftarrow> val_wd_set_ws0 (g_wd_num (wd p)) 0 s;
              s \<leftarrow> val_generate_second_interrupt (g_index p) 10 s;
              (p, s) \<leftarrow> take_all arr preempting hw (unat TIMEOUT_MEDIUM) (p, s);
              Some (counted (flag_down p), cleaned [''g_event_counter'', ''g_handler_flag''] s) })"
| "handler_041 arr preempting Second_Source hw t =
     (let (p, s) = t
      in do { s \<leftarrow> val_disable_second_interrupt (g_index p) s;
              let p = (if g_handler_flag (wd p) \<noteq> 0 then verdict SDEI_TEST_FAIL p else p);
              Some (counted p, cleaned [''g_event_counter''] s) })"

definition handlers_041 :: "pair_arrivals \<Rightarrow> source \<Rightarrow> pair_handler" where
  "handlers_041 arr = handler_041 arr (handler_041 nothing_arrives (\<lambda>_ _. Some))"

definition test_041_entry :: "pair_arrivals \<Rightarrow> u64 \<Rightarrow> u64 \<Rightarrow> u64 \<Rightarrow> hw \<Rightarrow> pair_state \<Rightarrow> pair_state option" where
  "test_041_entry arr = two_events_test (\<lambda>p. (flag_down p)\<lparr>g_event_counter := 0\<rparr>) False
     [''g_handler_flag'', ''g_event_counter''] (\<lambda>p. g_handler_flag (wd p) = 0 \<and> both_counted p) kept_verdict arr (handlers_041 arr)"

text \<open>Test 43: while the flag is set a handler waits for the count 2, which is a failure.\<close>

fun watch_counter :: "pair_arrivals \<Rightarrow> (source \<Rightarrow> pair_handler) \<Rightarrow> hw \<Rightarrow> nat \<Rightarrow> pair_state \<Rightarrow> pair_state option" where
  "watch_counter arr preempting hw 0 t = Some t"
| "watch_counter arr preempting hw (Suc k) t =
     do { (p, s) \<leftarrow> take_all arr preempting hw k t;
          if g_event_counter p = 2 then Some (verdict SDEI_TEST_FAIL p, s)
          else watch_counter arr preempting hw k (p, s) }"

definition handler_043 :: "pair_arrivals \<Rightarrow> (source \<Rightarrow> pair_handler) \<Rightarrow> source \<Rightarrow> pair_handler" where
  "handler_043 arr preempting src hw t =
     do { let (p, s) = t;
          s \<leftarrow> (case src of
                 Watchdog_Source \<Rightarrow> val_wd_set_ws0 (g_wd_num (wd p)) 0 s
               | Second_Source \<Rightarrow> val_disable_second_interrupt (g_index p) s);
          let p = counted p;
          (p, s) \<leftarrow> (if g_handler_flag (wd p) \<noteq> 0 then watch_counter arr preempting hw (unat TIMEOUT_MEDIUM) (p, s)
                      else Some (p, s));
          Some (flag_down p, cleaned [''g_handler_flag'', ''g_event_counter''] s) }"

definition handlers_043 :: "pair_arrivals \<Rightarrow> source \<Rightarrow> pair_handler" where
  "handlers_043 arr = handler_043 arr (handler_043 nothing_arrives (\<lambda>_ _. Some))"

definition test_043_entry :: "pair_arrivals \<Rightarrow> u64 \<Rightarrow> u64 \<Rightarrow> u64 \<Rightarrow> hw \<Rightarrow> pair_state \<Rightarrow> pair_state option" where
  "test_043_entry arr = two_events_test (\<lambda>p. p\<lparr>g_event_counter := 0, wd := (wd p)\<lparr>g_handler_flag := 1\<rparr>\<rparr>) True
     [''g_event_counter''] both_counted kept_verdict arr (handlers_043 arr)"

subsection \<open>An event and an interrupt\<close>

text \<open>Test 29: an interrupt must not preempt a handler. The flag is part of the condition of the wait, so
  the test does not wait for the interrupt that comes after the handler.\<close>

fun handler_029 :: "pair_arrivals \<Rightarrow> (source \<Rightarrow> pair_handler) \<Rightarrow> source \<Rightarrow> pair_handler" where
  "handler_029 arr preempting Watchdog_Source hw t =
     (let (p, s) = t
      in do { s \<leftarrow> val_wd_set_ws0 (g_wd_num (wd p)) 0 s;
              (_, s) \<leftarrow> val_gic_generate_interrupt SPI_INTR_NUM1 s;
              (p, s) \<leftarrow> take_all arr preempting hw (unat TIMEOUT_MEDIUM) (p, s);
              Some (counted (flag_down p), cleaned [''g_handler_flag'', ''g_handler_counter''] s) })"
| "handler_029 arr preempting Second_Source hw t =
     (let (p, s) = t;
          p = (if g_handler_flag (wd p) \<noteq> 0 then verdict SDEI_TEST_FAIL p else p)
      in Some (counted p, cleaned [''g_handler_counter''] s))"

text \<open>Test 30: an event must preempt an interrupt.\<close>

fun handler_030 :: "pair_arrivals \<Rightarrow> (source \<Rightarrow> pair_handler) \<Rightarrow> source \<Rightarrow> pair_handler" where
  "handler_030 arr preempting Second_Source hw t =
     (let (p, s) = t
      in do { s \<leftarrow> val_wd_set_ws0 (g_wd_num (wd p)) 1 s;
              (p, s) \<leftarrow> take_all arr preempting hw (unat TIMEOUT_MEDIUM) (p, s);
              Some (counted (flag_down p), cleaned [''g_handler_flag'', ''g_handler_counter''] s) })"
| "handler_030 arr preempting Watchdog_Source hw t =
     (let (p, s) = t
      in do { s \<leftarrow> val_wd_set_ws0 (g_wd_num (wd p)) 0 s;
              Some (counted (if g_handler_flag (wd p) \<noteq> 0 then verdict SDEI_TEST_PASS p else p), s) })"

definition free_client_interrupt :: "hw \<Rightarrow> sworld \<Rightarrow> sworld option" where
  "free_client_interrupt hw s =
     do { (_, s) \<leftarrow> sdei_val_gic_end_of_interrupt hw SPI_INTR_NUM1 s;
          let _ = val_gic_free_interrupt SPI_INTR_NUM1;
          Some s }"

definition interrupt_ends :: "label \<Rightarrow> hw \<Rightarrow> pair_state \<Rightarrow> pair_state option" where
  "interrupt_ends lab hw t =
     do { let (p, s) = t; (l, s) \<leftarrow> wound_up True lab hw (wd p, s); Some (p\<lparr>wd := l\<rparr>, s) }"

text \<open>After the wait.\<close>

definition conclude_interrupt :: "hw \<Rightarrow> pair_state \<Rightarrow> pair_state option" where
  "conclude_interrupt hw t =
     do { let (p, s) = t;
          s \<leftarrow> (if g_handler_flag (wd p) \<noteq> 0 \<or> \<not> both_counted p
                then do { s \<leftarrow> val_wd_set_ws0 (g_wd_num (wd p)) 0
                                 (sdei_pal_print ACS_LOG_ERR ''Watchdog interrupt trigger failed'' [] s);
                          set_own_status hw SDEI_TEST_FAIL s }
                else set_own_status hw (kept_verdict p) s);
          s \<leftarrow> free_client_interrupt hw s;
          interrupt_ends To_unregister hw (p, s) }"

text \<open>\<open>trigger\<close> starts the first of the two, \<open>pre\<close> tells whether the flag is part of the condition of the wait.\<close>

definition interrupt_test ::
    "bool \<Rightarrow> (pair_vars \<Rightarrow> sworld \<Rightarrow> sworld option) \<Rightarrow> pair_arrivals \<Rightarrow> (source \<Rightarrow> pair_handler) \<Rightarrow> u64 \<Rightarrow> u64 \<Rightarrow> hw \<Rightarrow>
     pair_state \<Rightarrow> pair_state option" where
  "interrupt_test pre trigger arr hdl h f hw t =
     do { let p = (fst t)\<lparr>wd := (wd (fst t))\<lparr>g_handler_flag := 1\<rparr>, g_event_counter := 0\<rparr>;
          (lab, l, s) \<leftarrow> run_steps [select_watchdog True, disable_irq True,
              bind_watchdog True False To_unmap ''SPI interrupt number %lld bind failed with err %d'',
              register_directed True h f ''SDEI event %d register failed with err %x'',
              enable_watchdog True ''SDEI event enable test failed with err %d''] hw (wd p, snd t);
          let p = p\<lparr>wd := l\<rparr>;
          if lab \<noteq> Go then interrupt_ends lab hw (p, s)
          else (let (err, s) = sdei_val_gic_install_isr hw SPI_INTR_NUM1 s
                in if err \<noteq> 0
                   then do { s \<leftarrow> set_own_status hw SDEI_TEST_FAIL (sdei_pal_print ACS_LOG_ERR
                                    ''Interrupt register %x failed with err %d'' [ucast SPI_INTR_NUM1, ucast err] s);
                             interrupt_ends To_unregister hw (p, s) }
          else do {
            m \<leftarrow> sdei_val_pe_get_mpid_index 0 s;
            let (_, s) = sdei_val_gic_route_interrupt_to_pe SPI_INTR_NUM1 m s;
            s \<leftarrow> trigger p s;
            t \<leftarrow> await_both pre [''g_handler_flag'', ''g_handler_counter'']
                    (\<lambda>p. g_handler_flag (wd p) = 0 \<and> both_counted p) arr hdl hw (unat WD_TIME_OUT) (p, s);
            conclude_interrupt hw t }) }"

definition test_029_entry :: "pair_arrivals \<Rightarrow> u64 \<Rightarrow> u64 \<Rightarrow> hw \<Rightarrow> pair_state \<Rightarrow> pair_state option" where
  "test_029_entry arr = interrupt_test True (\<lambda>p. val_wd_set_ws0 (g_wd_num (wd p)) 1) arr
     (handler_029 arr (handler_029 nothing_arrives (\<lambda>_ _. Some)))"

definition test_030_entry :: "pair_arrivals \<Rightarrow> u64 \<Rightarrow> u64 \<Rightarrow> hw \<Rightarrow> pair_state \<Rightarrow> pair_state option" where
  "test_030_entry arr = interrupt_test False (\<lambda>_ s. map_option snd (val_gic_generate_interrupt SPI_INTR_NUM1 s)) arr
     (handler_030 arr (handler_030 nothing_arrives (\<lambda>_ _. Some)))"


subsection \<open>A machine with both sources\<close>

text \<open>The watchdog and the last non-secure system timer can be used, and the PE table has an entry.\<close>

definition both_ready :: "sworld \<Rightarrow> bool" where
  "both_ready s \<longleftrightarrow> watchdog_ready s \<and> sdei_val_pe_get_mpid_index 0 s \<noteq> None \<and>
     (\<exists>index int_id. val_configure_second_interrupt s = Some ((ACS_SUCCESS, Some (index, int_id)), s) \<and>
        31 < (ucast int_id :: u32) \<and> (ucast int_id :: u32) < 1020 \<and> pal_timer_get_info index GtCntBase id s \<noteq> None)"

lemma pal_timer_get_info_cong: "sg t = sg s \<Longrightarrow> pal_timer_get_info i sel f t = pal_timer_get_info i sel f s"
  by (simp add: pal_timer_get_info_def pal_platform_timer_get_entry_index_def split: option.split)

lemma second_loop_cong: "sg t = sg s \<Longrightarrow> second_loop n t = second_loop n s"
proof (induction n)
  case (Suc n)
  show ?case
    by (simp only: second_loop.simps Suc pal_timer_get_info_cong [OF Suc.prems])
qed simp

lemma configure_second_cong:
  assumes "sg t = sg s" "val_configure_second_interrupt s = Some ((ACS_SUCCESS, Some x), s)"
  shows "val_configure_second_interrupt t = Some ((ACS_SUCCESS, Some x), t)"
  using assms second_loop_cong [OF assms(1)]
  by (auto simp: val_configure_second_interrupt_def pal_configure_second_interrupt_def Option.bind_eq_Some_conv
      ACS_ERROR_def ACS_SUCCESS_def split: if_splits option.splits)

lemma mpid_index_cong: "sg t = sg s \<Longrightarrow> sdei_val_pe_get_mpid_index i t = sdei_val_pe_get_mpid_index i s"
  by (simp add: sdei_val_pe_get_mpid_index_def)

lemma spi_disabled:
  assumes "31 < n" "n < 1020"
  shows "\<exists>v. val_gic_disable_interrupt n s = Some (0, v) \<and> sg v = sg s \<and> shared v = shared s"
proof -
  have "\<not> n < 32" using assms(1) by (simp add: word_less_nat_alt)
  then show ?thesis using assms by (simp add: val_gic_disable_interrupt_def ACS_SUCCESS_def Let_def)
qed

lemma second_programmable:
  assumes "pal_timer_get_info index GtCntBase id s \<noteq> None" "sg u = sg s"
  shows "returns (\<lambda>v. sg v = sg u \<and> shared v = shared u) (val_generate_second_interrupt index k u)"
    "returns (\<lambda>v. sg v = sg u \<and> shared v = shared u) (val_disable_second_interrupt index u)"
  using assms(1) pal_timer_get_info_cong [OF assms(2), of index GtCntBase id]
  by (auto simp: val_generate_second_interrupt_def pal_generate_second_interrupt_def val_disable_second_interrupt_def
      pal_disable_second_interrupt_def sdei_pal_mmio_write_def log_io_def)

lemma wd_event_armed:
  assumes "both_ready s" "accepts hw arming_calls"
  shows "returns (\<lambda>(st, p', s'). st = g_test_status (wd p) \<and> sg s' = sg s \<and> shared s' = shared s \<and>
       (\<exists>l. p' = p\<lparr>wd := l\<rparr> \<and> g_handler_flag l = g_handler_flag (wd p) \<and> g_test_status l = g_test_status (wd p) \<and>
         (\<forall>k u. sg u = sg s \<longrightarrow> returns (\<lambda>v. sg v = sg u \<and> shared v = shared u) (val_wd_set_ws0 (g_wd_num l) k u))))
     (wd_event_register h f hw (p, s))"
proof -
  obtain m where "sdei_val_pe_get_mpid_index 0 s = Some m" using assms(1) by (auto simp: both_ready_def)
  then have m: "sdei_val_pe_get_mpid_index 0 u = Some m" if "sg u = sg s" for u
    using mpid_index_cong [OF that] by simp
  note acc = arming_accepted [OF assms(2) order_refl arming_calls_simps(2)]
  have r: "\<exists>v. register_directed False h f ''SDEI event %d register fail with err %x'' hw (l, u) = Some (Go, l, v) \<and>
      sg v = sg u \<and> shared v = shared u" if "sg u = sg s" for l u
    using m [OF that] acc by (simp add: register_directed_def call_runs Let_def)
  have w: "watchdog_ready s" using assms(1) by (simp add: both_ready_def)
  obtain l' s' where a: "run_steps [select_watchdog False, disable_irq False, bind_watchdog False False To_unmap BIND_FAILED,
      register_directed False h f ''SDEI event %d register fail with err %x'', enable_watchdog False ENABLE_FAILED] hw (wd p, s) =
      Some (Go, l', s')" and
    b: "g_handler_flag l' = g_handler_flag (wd p)" "g_test_status l' = g_test_status (wd p)" "sg s' = sg s" "shared s' = shared s"
      "\<forall>k u. sg u = sg s \<longrightarrow> (\<exists>v. val_wd_set_ws0 (g_wd_num l') k u = Some v \<and> sg v = sg u \<and> shared v = shared u)"
    using armed_with [where register = "register_directed False h f ''SDEI event %d register fail with err %x''",
        OF w assms(2) order_refl r] by blast
  have "wd_event_register h f hw (p, s) = Some (g_test_status l', p\<lparr>wd := l'\<rparr>, s')"
    unfolding wd_event_register_def by (simp add: a del: run_steps.simps)
  moreover have "returns (\<lambda>v. sg v = sg u \<and> shared v = shared u) (val_wd_set_ws0 (g_wd_num l') k u)" if "sg u = sg s" for k u
    using b(5) that by (auto simp: returns_def)
  ultimately show ?thesis using b(1-4) by auto
qed

lemma second_event_armed:
  assumes "both_ready s" "accepts hw arming_calls" "sg u = sg s"
  shows "returns (\<lambda>(st, p', s'). st = g_test_status (wd p) \<and> sg s' = sg s \<and> shared s' = shared u \<and>
       (\<exists>x e. p' = p\<lparr>g_index := x, wd := (wd p)\<lparr>g_second_num := e\<rparr>\<rparr> \<and> pal_timer_get_info x GtCntBase id s \<noteq> None))
     (second_event_register h f hw (p, u))"
proof -
  obtain x n where c: "val_configure_second_interrupt s = Some ((ACS_SUCCESS, Some (x, n)), s)" and
      n: "31 < (ucast n :: u32)" "(ucast n :: u32) < 1020" and x: "pal_timer_get_info x GtCntBase id s \<noteq> None"
    using assms(1) by (auto simp: both_ready_def)
  obtain m where "sdei_val_pe_get_mpid_index 0 s = Some m" using assms(1) by (auto simp: both_ready_def)
  then have m: "sdei_val_pe_get_mpid_index 0 u = Some m" if "sg u = sg s" for u
    using mpid_index_cong [OF that] by simp
  let ?u = "sdei_pal_print ACS_LOG_DEBUG ''Found second source intid %llx'' [n]
      (log_io (CacheOp (LVar ''g_index'') CLEAN_AND_INVALIDATE) u)"
  obtain v where v: "val_gic_disable_interrupt (ucast n) ?u = Some (0, v)" "sg v = sg u" "shared v = shared u"
    using spi_disabled [OF n, of ?u] by auto
  note acc = arming_accepted [OF assms(2) order_refl arming_calls_simps(1)] arming_accepted [OF assms(2) order_refl arming_calls_simps(2)]
    arming_accepted [OF assms(2) order_refl arming_calls_simps(3)]
  obtain e s' where e: "second_event_register h f hw (p, u) =
      Some (g_test_status (wd p), p\<lparr>g_index := x, wd := (wd p)\<lparr>g_second_num := e\<rparr>\<rparr>, s')" "sg s' = sg v" "shared s' = shared v"
    by (simp add: second_event_register_def configure_second_cong [OF assms(3) c] v(1,2) assms(3) call_runs Let_def m acc)
  show ?thesis using x v(2,3) assms(3) e by auto
qed


subsection \<open>What the handlers and the wait preserve\<close>

text \<open>The tables and the shared memory are those of \<open>s0\<close>, the watchdog can be programmed, and, if \<open>b\<close>, the
  second source as well; \<open>P\<close> holds of the variables.\<close>

definition undisturbed :: "bool \<Rightarrow> (pair_vars \<Rightarrow> bool) \<Rightarrow> sworld \<Rightarrow> pair_state \<Rightarrow> bool" where
  "undisturbed b P s0 t \<longleftrightarrow> sg (snd t) = sg s0 \<and> shared (snd t) = shared s0 \<and> P (fst t) \<and>
     (\<forall>k u. sg u = sg s0 \<longrightarrow> returns (\<lambda>v. sg v = sg u \<and> shared v = shared u) (val_wd_set_ws0 (g_wd_num (wd (fst t))) k u)) \<and>
     (b \<longrightarrow> pal_timer_get_info (g_index (fst t)) GtCntBase id s0 \<noteq> None)"

lemma pair_vars_simps [simp]:
  "wd (counted p) = wd p" "g_handler_flag (wd (flag_down p)) = 0" "g_test_status (wd (flag_down p)) = g_test_status (wd p)"
  "g_index (counted p) = g_index p" "g_index (flag_down p) = g_index p" "g_wd_num (wd (flag_down p)) = g_wd_num (wd p)"
  "g_index (verdict st p) = g_index p" "g_wd_num (wd (verdict st p)) = g_wd_num (wd p)"
  "g_handler_flag (wd (verdict st p)) = g_handler_flag (wd p)" "g_test_status (wd (verdict st p)) = st"
  "g_event_counter (counted p) = g_event_counter p + 1" "g_event_counter (flag_down p) = g_event_counter p"
  "g_event_counter (verdict st p) = g_event_counter p"
  by (simp_all add: counted_def flag_down_def verdict_def)

lemma cleaned_frame [simp]: "sg (cleaned vs s) = sg s" "shared (cleaned vs s) = shared s"
  by (induction vs arbitrary: s) (simp_all add: cleaned_def)

lemma undisturbed_frame:
  "undisturbed b P s0 (p, s) \<Longrightarrow> sg u = sg s \<Longrightarrow> shared u = shared s \<Longrightarrow> undisturbed b P s0 (p, u)"
  by (simp add: undisturbed_def)

lemma undisturbed_mono: "undisturbed b P s0 t \<Longrightarrow> (\<And>p. P p \<Longrightarrow> Q p) \<Longrightarrow> undisturbed b Q s0 t"
  by (simp add: undisturbed_def)

lemma undisturbed_vars: "undisturbed b P s0 (p, s) \<Longrightarrow> P p"
  by (simp add: undisturbed_def)

lemma undisturbed_simps [simp]:
  "undisturbed b P s0 (counted p, s) = undisturbed b (\<lambda>p. P (counted p)) s0 (p, s)"
  "undisturbed b P s0 (flag_down p, s) = undisturbed b (\<lambda>p. P (flag_down p)) s0 (p, s)"
  "undisturbed b P s0 (verdict st p, s) = undisturbed b (\<lambda>p. P (verdict st p)) s0 (p, s)"
  "undisturbed b P s0 (p, cleaned vs s) = undisturbed b P s0 (p, s)"
  "undisturbed b P s0 (p, sdei_pal_print lvl m a s) = undisturbed b P s0 (p, s)"
  by (simp_all add: undisturbed_def)

lemma sources_programmed:
  assumes "undisturbed b P s0 (p, s)" "sg u = sg s" "shared u = shared s"
  shows "returns (\<lambda>v. undisturbed b P s0 (p, v)) (val_wd_set_ws0 (g_wd_num (wd p)) k u)"
    "b \<Longrightarrow> returns (\<lambda>v. undisturbed b P s0 (p, v)) (val_generate_second_interrupt (g_index p) k u)"
    "b \<Longrightarrow> returns (\<lambda>v. undisturbed b P s0 (p, v)) (val_disable_second_interrupt (g_index p) u)"
proof -
  have *: "undisturbed b P s0 (p, v)" if "sg v = sg u \<and> shared v = shared u" for v
    using undisturbed_frame [OF assms(1), of v] that assms(2,3) by simp
  have sg: "sg u = sg s0" using assms(1,2) by (simp add: undisturbed_def)
  then have "returns (\<lambda>v. sg v = sg u \<and> shared v = shared u) (val_wd_set_ws0 (g_wd_num (wd p)) k u)"
    using assms(1) by (simp add: undisturbed_def)
  then show "returns (\<lambda>v. undisturbed b P s0 (p, v)) (val_wd_set_ws0 (g_wd_num (wd p)) k u)"
    by (rule returns_mono) (rule *)
  assume b
  then have "pal_timer_get_info (g_index p) GtCntBase id s0 \<noteq> None" using assms(1) by (simp add: undisturbed_def)
  note second = second_programmable [OF this sg]
  show "returns (\<lambda>v. undisturbed b P s0 (p, v)) (val_generate_second_interrupt (g_index p) k u)"
    by (rule returns_mono [OF second(1)]) (rule *)
  show "returns (\<lambda>v. undisturbed b P s0 (p, v)) (val_disable_second_interrupt (g_index p) u)"
    by (rule returns_mono [OF second(2)]) (rule *)
qed

lemmas programmed = sources_programmed [OF _ refl refl]

lemma take_all_returns:
  assumes "\<And>src m t. I t \<Longrightarrow> returns I (hdl src (hw\<lparr>mpidr_in := m\<rparr>) t)" "I t"
  shows "returns I (take_all arr hdl hw n t)"
  unfolding take_all_def by (rule returns_for_each) (use assms in auto)

lemma invalidated_frame:
  "sg (fold (\<lambda>v. val_pe_data_cache_invalidate (LVar v)) vs s) = sg s"
  "shared (fold (\<lambda>v. val_pe_data_cache_invalidate (LVar v)) vs s) = shared s"
  by (induction vs arbitrary: s) simp_all

lemma await_both_returns:
  assumes "\<And>src m t. undisturbed b P s0 t \<Longrightarrow> returns (undisturbed b P s0) (hdl src (hw\<lparr>mpidr_in := m\<rparr>) t)"
  shows "undisturbed b P s0 t \<Longrightarrow> returns (undisturbed b P s0) (await_both pre vars over arr hdl hw n t)"
proof (induction n arbitrary: t)
  case 0
  then show ?case by (simp add: await_both.simps [of _ _ _ _ _ _ 0])
next
  case (Suc n)
  have "undisturbed b P s0 (fst t, fold (\<lambda>v. val_pe_data_cache_invalidate (LVar v)) vars (snd t))"
    by (rule undisturbed_frame [of b P s0 "fst t" "snd t"]) (simp_all add: Suc.prems invalidated_frame)
  note step = take_all_returns [where I = "undisturbed b P s0" and hdl = hdl and hw = hw, OF assms this]
  show ?case
    using Suc.prems unfolding await_both.simps [of _ _ _ _ _ _ "Suc n"] nat.case
    by (intro returns_if) (auto intro!: returns_seq [OF step] returns_if Suc.IH)
qed

text \<open>The wait ends at the first look when the arrivals there are enough.\<close>

lemma await_both_first:
  assumes "undisturbed b P s0 t" "\<not> (pre \<and> g_handler_flag (wd (fst t)) = 0)"
    and "\<And>u. undisturbed b P s0 u \<Longrightarrow> fst u = fst t \<Longrightarrow> returns (\<lambda>u. undisturbed b R s0 u \<and> over (fst u)) (take_all arr hdl hw n u)"
  shows "returns (undisturbed b R s0) (await_both pre vars over arr hdl hw (Suc n) t)"
proof -
  have "undisturbed b P s0 (fst t, fold (\<lambda>v. val_pe_data_cache_invalidate (LVar v)) vars (snd t))"
    by (rule undisturbed_frame [of b P s0 "fst t" "snd t"]) (simp_all add: assms(1) invalidated_frame)
  with assms(3) have "returns (\<lambda>u. undisturbed b R s0 u \<and> over (fst u))
      (take_all arr hdl hw n (fst t, fold (\<lambda>v. val_pe_data_cache_invalidate (LVar v)) vars (snd t)))" by simp
  then obtain u where
    "take_all arr hdl hw n (fst t, fold (\<lambda>v. val_pe_data_cache_invalidate (LVar v)) vars (snd t)) = Some u"
    "undisturbed b R s0 u" "over (fst u)" unfolding returns_def by blast
  then show ?thesis unfolding await_both.simps [of _ _ _ _ _ _ "Suc n"] using assms(2) by auto
qed

text \<open>What the handlers keep: in the tests 40 and 41 the status, in test 41 also the flag, which nothing sets; so
  the second handler finds it down also when it preempts.\<close>

definition passing :: "pair_vars \<Rightarrow> bool" where
  "passing p \<longleftrightarrow> g_test_status (wd p) = SDEI_TEST_PASS"

definition passing_down :: "pair_vars \<Rightarrow> bool" where
  "passing_down p \<longleftrightarrow> passing p \<and> g_handler_flag (wd p) = 0"

lemma passing_simps [simp]:
  "passing (counted p) = passing p" "passing (flag_down p) = passing p"
  "passing_down (counted p) = passing_down p" "passing_down (flag_down p) = passing p"
  by (simp_all add: passing_def passing_down_def)

lemma passing_down_passing: "undisturbed b passing_down s0 t \<Longrightarrow> undisturbed b passing s0 t"
  by (erule undisturbed_mono) (simp add: passing_down_def)

lemma handlers_040_return:
  "undisturbed True passing s0 t \<Longrightarrow> returns (undisturbed True passing s0) (handler_040 src hw t)"
  by (cases src; cases t) (auto simp: Let_def intro: returns_seq [OF programmed(1)] returns_seq [OF programmed(3)])

lemma handler_041_returns:
  assumes "\<And>src m t. undisturbed True passing_down s0 t \<Longrightarrow>
      returns (undisturbed True passing_down s0) (preempting src (hw\<lparr>mpidr_in := m\<rparr>) t)"
    and "undisturbed True passing_down s0 t"
  shows "returns (undisturbed True passing_down s0) (handler_041 arr preempting src hw t)"
proof (cases src)
  case Watchdog_Source
  obtain p s where t: "t = (p, s)" by (cases t)
  show ?thesis
    unfolding Watchdog_Source t handler_041.simps Let_def prod.case
    by (rule returns_seq [OF programmed(1) [OF assms(2) [unfolded t]]], erule returns_seq [OF programmed(2)],
        simp, rule returns_seq [OF take_all_returns [where I = "undisturbed True passing_down s0"]])
      (use assms(1) in \<open>auto intro: passing_down_passing\<close>)
next
  case Second_Source
  obtain p s where t: "t = (p, s)" by (cases t)
  have "g_handler_flag (wd p) = 0" using assms(2) by (simp add: t undisturbed_def passing_down_def)
  then show ?thesis
    unfolding Second_Source t handler_041.simps Let_def prod.case
    by (intro returns_seq [OF programmed(3) [OF assms(2) [unfolded t]]]) simp_all
qed


subsection \<open>The verdict of the tests with two events\<close>

lemma unregister_pair_frame [simp]: "sg (unregister_pair hw e s) = sg s" "shared (unregister_pair hw e s) = shared s"
  by (simp_all add: unregister_pair_def second_release_def unregister_quietly_def call_runs call_values Let_def)

lemma both_settled:
  assumes "settles hw"
  shows "\<exists>t. poll_both hw e1 e2 n s = (True, t) \<and> sg t = sg s \<and> shared t = shared s"
proof -
  have "accepted (sdei_answer hw u SDEI_1_0_FN_SDEI_EVENT_STATUS (ucast e) 0 0 0 0)"
    "sdei_answer hw u SDEI_1_0_FN_SDEI_EVENT_STATUS (ucast e) 0 0 0 0 AND EVENT_STATUS_RUNNING_BIT = 0" for u and e :: u32
    using assms by (auto simp: settles_def sdei_answer_def Let_def)
  then show ?thesis by (simp add: poll_both.simps call_runs)
qed

lemma own_status_returns:
  assumes "runs_as hw i s" "sg u = sg s" "shared u = shared s"
  shows "returns (\<lambda>v. status_word i v = st \<and> sg v = sg u) (set_own_status hw st u)"
proof -
  have "runs_as hw i u" using assms runs_as_cong [of u s] by simp
  then show ?thesis using own_status_stored unfolding returns_def by metis
qed

lemma conclude_pair_verdict:
  assumes "runs_as hw i s" "settles hw" "undisturbed True P s t"
  shows "returns (\<lambda>(p', s'). p' = fst t \<and> status_word i s' = (if over p' then final p' else SDEI_TEST_FAIL))
     (conclude_pair over final hw t)"
proof -
  obtain q u where t: "t = (q, u)" by (cases t)
  then have u: "undisturbed True P s (q, u)" using assms(3) by simp
  have ends: "returns (\<lambda>v. status_word i v = st) (set_own_status hw st u')" if "undisturbed True P s (q, u')" for u' st
    by (rule returns_mono [OF own_status_returns [OF assms(1)]]) (use that in \<open>auto simp: undisturbed_def\<close>)
  have same: "status_word i (unregister_pair hw e (unregister_pair hw e' v)) = status_word i v" for e e' v
    using sdei_status_word_cong [of "unregister_pair hw e (unregister_pair hw e' v)" v] by simp
  obtain v where v: "poll_both hw (g_event_num (wd q)) (g_second_num (wd q)) (unat TIMEOUT_MEDIUM) u = (True, v)"
      "sg v = sg u" "shared v = shared u" using both_settled [OF assms(2)] by blast
  have "undisturbed True P s (q, v)" by (rule undisturbed_frame [OF u v(2,3)])
  moreover have "returns (\<lambda>v. status_word i v = SDEI_TEST_FAIL)
     (do { s \<leftarrow> val_wd_set_ws0 (g_wd_num (wd q)) 0 (sdei_pal_print ACS_LOG_ERR ''Event trigger failed'' [] u);
           s \<leftarrow> val_disable_second_interrupt (g_index q) s; set_own_status hw SDEI_TEST_FAIL s })"
  proof (rule returns_seq [OF sources_programmed(1) [OF u]])
    fix v assume "undisturbed True P s (q, v)"
    then show "returns (\<lambda>v. status_word i v = SDEI_TEST_FAIL)
        (do { s \<leftarrow> val_disable_second_interrupt (g_index q) v; set_own_status hw SDEI_TEST_FAIL s })"
      by (rule returns_seq [OF programmed(3) [OF _ TrueI]]) (rule ends)
  qed simp_all
  ultimately show ?thesis
    unfolding conclude_pair_def t Let_def prod.case
    by (intro returns_seq [where P = "\<lambda>v. status_word i v = (if over q then final q else SDEI_TEST_FAIL)"])
      (simp_all add: v(1) ends same)
qed

text \<open>The variables when both events have been registered.\<close>

definition started :: "pair_vars \<Rightarrow> pair_vars \<Rightarrow> bool" where
  "started p q \<longleftrightarrow> passing q \<and> g_handler_flag (wd q) = g_handler_flag (wd p) \<and> g_event_counter q = g_event_counter p"

lemma two_events_verdict:
  assumes "runs_as hw i s" "both_ready s" "accepts hw arming_calls" "settles hw" "passing (start p)"
    and waits: "\<And>q v. undisturbed True (started (start p)) s (q, v) \<Longrightarrow>
      returns (undisturbed True R s) (await_both False vars over arr hdl hw (unat WD_TIME_OUT) (q, v))"
  shows "returns (\<lambda>(p', s'). R p' \<and> status_word i s' = (if over p' then final p' else SDEI_TEST_FAIL))
     (two_events_test start second vars over final arr hdl h f1 f2 hw (p, s))"
proof -
  have pass: "SDEI_TEST_PASS AND SDEI_TEST_FAIL = 0" by (simp add: reg_defs)
  obtain l1 s1 where one: "wd_event_register h f1 hw (start p, s) = Some (SDEI_TEST_PASS, (start p)\<lparr>wd := l1\<rparr>, s1)"
      "sg s1 = sg s" "shared s1 = shared s" "g_handler_flag l1 = g_handler_flag (wd (start p))" "g_test_status l1 = SDEI_TEST_PASS"
      "\<And>k u. sg u = sg s \<Longrightarrow> returns (\<lambda>v. sg v = sg u \<and> shared v = shared u) (val_wd_set_ws0 (g_wd_num l1) k u)"
    using wd_event_armed [OF assms(2,3), of "start p" h f1] assms(5) by (auto simp: returns_def passing_def)
  define p1 where "p1 = verdict SDEI_TEST_PASS ((start p)\<lparr>wd := l1\<rparr>)"
  obtain x e s2 where two: "second_event_register h f2 hw (p1, s1) = Some (SDEI_TEST_PASS, p1\<lparr>g_index := x, wd := (wd p1)\<lparr>g_second_num := e\<rparr>\<rparr>, s2)"
      "sg s2 = sg s" "shared s2 = shared s" "pal_timer_get_info x GtCntBase id s \<noteq> None"
    using second_event_armed [OF assms(2,3) one(2), of p1 h f2] one(3) by (auto simp: returns_def p1_def verdict_def)
  define p2 where "p2 = verdict SDEI_TEST_PASS (p1\<lparr>g_index := x, wd := (wd p1)\<lparr>g_second_num := e\<rparr>\<rparr>)"
  have p1: "g_wd_num (wd p1) = g_wd_num l1" by (simp add: p1_def)
  have p2: "g_wd_num (wd p2) = g_wd_num l1" "g_index p2 = x" "started (start p) p2"
    by (simp_all add: p2_def p1_def verdict_def started_def passing_def one(4))
  have u2: "undisturbed True (started (start p)) s (p2, s2)"
    using two(2-4) one(6) unfolding undisturbed_def by (simp add: p2)
  have "returns (\<lambda>v. undisturbed True (started (start p)) s (p2, v)) (val_wd_set_ws0 (g_wd_num l1) 100 s2)"
    using programmed(1) [OF u2] p2(1) by simp
  then obtain s3 where three: "val_wd_set_ws0 (g_wd_num l1) 100 s2 = Some s3" "undisturbed True (started (start p)) s (p2, s3)"
    by (rule returnsE)
  have "returns (\<lambda>v. undisturbed True (started (start p)) s (p2, v))
      (if second then val_generate_second_interrupt x 100 s3 else Some s3)"
    using programmed(2) [OF three(2)] p2(2) three(2) by simp
  then obtain s4 where four: "(if second then val_generate_second_interrupt x 100 s3 else Some s3) = Some s4"
      "undisturbed True (started (start p)) s (p2, s4)" by (rule returnsE)
  have whole: "two_events_test start second vars over final arr hdl h f1 f2 hw (p, s) =
      Option.bind (await_both False vars over arr hdl hw (unat WD_TIME_OUT) (p2, s4)) (conclude_pair over final hw)"
    using three(1) four(1) by (simp add: two_events_test_def one(1) pass two(1) p1_def [symmetric] p2_def [symmetric] p2(1,2) p1 cong: if_cong)
  have rest: "returns (\<lambda>(p', s'). R p' \<and> status_word i s' = (if over p' then final p' else SDEI_TEST_FAIL)) (conclude_pair over final hw x)"
    if "undisturbed True R s x" for x
    by (rule returns_mono [OF conclude_pair_verdict [OF assms(1,4) that]])
      (use that undisturbed_vars [of True R s "fst x" "snd x"] in auto)
  show ?thesis unfolding whole by (rule returns_seq [OF waits [OF four(2)]]) (rule rest)
qed



subsection \<open>Preemption\<close>

definition quiet_at :: "u32 \<Rightarrow> pair_vars \<Rightarrow> bool" where
  "quiet_at c p \<longleftrightarrow> passing_down p \<and> g_event_counter p = c"

lemma take_one:
  assumes "\<And>h. arr n h = [(src, m)]"
  shows "take_all arr hdl hw n t = hdl src (hw\<lparr>mpidr_in := m\<rparr>) t"
  by (cases "hdl src (hw\<lparr>mpidr_in := m\<rparr>) t") (simp_all add: take_all_def assms)

lemma preempted_handler_041:
  assumes "\<And>h. arr (unat TIMEOUT_MEDIUM) h = [(Second_Source, m')]" "undisturbed True (quiet_at 0) s0 (q, v)"
  shows "returns (undisturbed True (quiet_at 2) s0) (handlers_041 arr Watchdog_Source hw (q, v))"
proof -
  have second: "returns (undisturbed True (quiet_at 1) s0) (handler_041 nothing_arrives (\<lambda>_ _. Some) Second_Source hw' (q, u))"
    if u: "undisturbed True (quiet_at 0) s0 (q, u)" for u hw'
  proof -
    have fl: "g_handler_flag (wd q) = 0" using u by (simp add: undisturbed_def quiet_at_def passing_down_def)
    show ?thesis unfolding handler_041.simps Let_def prod.case
      by (rule returns_seq [OF programmed(3) [OF u TrueI]])
        (auto simp: fl undisturbed_def quiet_at_def)
  qed
  have taken: "returns (undisturbed True (quiet_at 1) s0)
      (take_all arr (handler_041 nothing_arrives (\<lambda>_ _. Some)) hw (unat TIMEOUT_MEDIUM) (q, u))"
    if "undisturbed True (quiet_at 0) s0 (q, u)" for u
    unfolding take_one [where arr = arr, OF assms(1)] by (rule second [OF that])
  have last: "undisturbed True (quiet_at 2) s0 (counted (flag_down a), cleaned vs u)"
    if "undisturbed True (quiet_at 1) s0 (a, u)" for a u vs
    using that by (auto simp: undisturbed_def quiet_at_def passing_down_def)
  show ?thesis unfolding handlers_041_def handler_041.simps Let_def prod.case
    by (rule returns_seq [OF programmed(1) [OF assms(2)]], erule returns_seq [OF programmed(2) [OF _ TrueI]],
        erule returns_seq [OF taken]) (auto intro: last simp del: undisturbed_simps)
qed

text \<open>Test 41 is there to show that an event does not preempt the handler of an event of the same
  priority. When the watchdog's event is taken at the first look and the second event preempts its
  handler, which breaks that rule, the test passes.\<close>

theorem preemption_passes:
  assumes "runs_as hw i s" "both_ready s" "accepts hw arming_calls" "settles hw" "g_test_status (wd p) = SDEI_TEST_PASS"
    and first: "\<And>h. arr (unat WD_TIME_OUT - 1) h = [(Watchdog_Source, m)]"
    and preempts: "\<And>h. arr (unat TIMEOUT_MEDIUM) h = [(Second_Source, m')]"
  shows "returns (\<lambda>(_, s'). status_word i s' = SDEI_TEST_PASS) (test_041_entry arr h f1 f2 hw (p, s))"
proof -
  let ?over = "\<lambda>p. g_handler_flag (wd p) = 0 \<and> both_counted p"
  have pass: "SDEI_TEST_PASS AND SDEI_TEST_FAIL = 0" by (simp add: reg_defs)
  have "unat WD_TIME_OUT \<noteq> 0" by (simp add: WD_TIME_OUT_def)
  then obtain k where k: "unat WD_TIME_OUT = Suc k" using not0_implies_Suc by blast
  have waits: "returns (undisturbed True (quiet_at 2) s)
      (await_both False [''g_handler_flag'', ''g_event_counter''] ?over arr (handlers_041 arr) hw (unat WD_TIME_OUT) (q, v))"
    if "undisturbed True (started ((flag_down p)\<lparr>g_event_counter := 0\<rparr>)) s (q, v)" for q v
    unfolding k
  proof (rule await_both_first)
    show "undisturbed True (quiet_at 0) s (q, v)"
      by (rule undisturbed_mono [OF that]) (auto simp: started_def quiet_at_def passing_down_def)
    fix u assume u: "undisturbed True (quiet_at 0) s u"
    have "returns (undisturbed True (quiet_at 2) s) (take_all arr (handlers_041 arr) hw k u)"
      using preempted_handler_041 [where arr = arr, OF preempts, of s "fst u" "snd u"] u
      unfolding take_one [where arr = arr, OF first [unfolded k diff_Suc_1]] by simp
    then show "returns (\<lambda>u. undisturbed True (quiet_at 2) s u \<and> ?over (fst u)) (take_all arr (handlers_041 arr) hw k u)"
      by (rule returns_mono) (auto simp: undisturbed_def quiet_at_def passing_down_def both_counted_def)
  qed simp
  show ?thesis unfolding test_041_entry_def
    by (rule returns_mono [OF two_events_verdict [where R = "quiet_at 2", OF assms(1-4)]])
      (use assms(5) waits in \<open>auto simp: quiet_at_def passing_down_def passing_def both_counted_def kept_verdict_def pass\<close>)
qed

text \<open>In test 43 the first handler to run waits with the flag up. When the second event is taken during
  that wait the test fails.\<close>

definition raised_at :: "u32 \<Rightarrow> pair_vars \<Rightarrow> bool" where
  "raised_at c p \<longleftrightarrow> g_handler_flag (wd p) = 1 \<and> g_event_counter p = c"

definition failed_at_two :: "pair_vars \<Rightarrow> bool" where
  "failed_at_two p \<longleftrightarrow> g_test_status (wd p) = SDEI_TEST_FAIL \<and> g_event_counter p = 2"

lemma watch_two:
  "g_event_counter p = 2 \<Longrightarrow> watch_counter nothing_arrives preempting hw (Suc k) (p, s) = Some (verdict SDEI_TEST_FAIL p, s)"
  by (simp add: take_all_def nothing_arrives_def)

lemma preempted_handler_043:
  assumes "\<And>h. arr (unat TIMEOUT_MEDIUM - 1) h = [(Second_Source, m')]" "undisturbed True (raised_at 0) s0 (q, v)"
  shows "returns (undisturbed True failed_at_two s0) (handlers_043 arr Watchdog_Source hw (q, v))"
proof -
  have "unat TIMEOUT_MEDIUM \<noteq> 0" by (simp add: Sdei_Watchdog_Tests.TIMEOUT_MEDIUM_def)
  then obtain k where k: "unat TIMEOUT_MEDIUM = Suc k" using not0_implies_Suc by blast
  let ?second = "handler_043 nothing_arrives (\<lambda>_ _. Some)"
  have second: "returns (undisturbed True failed_at_two s0) (?second Second_Source hw' (counted q, u))"
    if u: "undisturbed True (raised_at 1) s0 (counted q, u)" for u hw'
  proof -
    have vars: "g_handler_flag (wd q) = 1" "g_event_counter (counted (counted q)) = 2" using u by (simp_all add: undisturbed_def raised_at_def)
    show ?thesis
      unfolding handler_043_def Let_def prod.case source.case k
      by (rule returns_seq [OF programmed(3) [OF u TrueI]])
        (simp add: vars(1) watch_two [OF vars(2)] del: watch_counter.simps, auto simp: undisturbed_def failed_at_two_def raised_at_def)
  qed
  have vars: "g_handler_flag (wd q) = 1" "g_event_counter q = 0" using assms(2) by (simp_all add: undisturbed_def raised_at_def)
  show ?thesis
    unfolding handlers_043_def handler_043_def [of arr] Let_def prod.case source.case
  proof (rule returns_seq [OF programmed(1) [OF assms(2)]])
    fix u assume "undisturbed True (raised_at 0) s0 (q, u)"
    then have "undisturbed True (raised_at 1) s0 (counted q, u)" by (auto simp: undisturbed_def raised_at_def)
    from second [OF this, of "hw\<lparr>mpidr_in := m'\<rparr>"] obtain a w where
      a: "?second Second_Source (hw\<lparr>mpidr_in := m'\<rparr>) (counted q, u) = Some (a, w)" "undisturbed True failed_at_two s0 (a, w)"
      unfolding returns_def by auto
    have "g_event_counter a = 2" using a(2) by (simp add: undisturbed_def failed_at_two_def)
    moreover have "take_all arr ?second hw k (counted q, u) = Some (a, w)"
      unfolding take_one [where arr = arr, OF assms(1) [unfolded k diff_Suc_1]] by (rule a(1))
    ultimately have "watch_counter arr ?second hw (Suc k) (counted q, u) = Some (verdict SDEI_TEST_FAIL a, w)" by simp
    then show "returns (undisturbed True failed_at_two s0)
        (do { (p, s) \<leftarrow> (if g_handler_flag (wd (counted q)) \<noteq> 0
                       then watch_counter arr ?second hw (unat TIMEOUT_MEDIUM) (counted q, u) else Some (counted q, u));
              Some (flag_down p, cleaned [''g_handler_flag'', ''g_event_counter''] s) })"
      using a(2) by (simp add: vars(1) k del: watch_counter.simps) (auto simp: undisturbed_def failed_at_two_def)
  qed
qed

theorem second_instance_fails:
  assumes "runs_as hw i s" "both_ready s" "accepts hw arming_calls" "settles hw" "g_test_status (wd p) = SDEI_TEST_PASS"
    and first: "\<And>h. arr (unat WD_TIME_OUT - 1) h = [(Watchdog_Source, m)]"
    and preempts: "\<And>h. arr (unat TIMEOUT_MEDIUM - 1) h = [(Second_Source, m')]"
  shows "returns (\<lambda>(_, s'). status_word i s' = SDEI_TEST_FAIL) (test_043_entry arr h f1 f2 hw (p, s))"
proof -
  let ?start = "\<lambda>p. p\<lparr>g_event_counter := 0, wd := (wd p)\<lparr>g_handler_flag := 1\<rparr>\<rparr>"
  have "unat WD_TIME_OUT \<noteq> 0" by (simp add: WD_TIME_OUT_def)
  then obtain k where k: "unat WD_TIME_OUT = Suc k" using not0_implies_Suc by blast
  have waits: "returns (undisturbed True failed_at_two s)
      (await_both False [''g_event_counter''] both_counted arr (handlers_043 arr) hw (unat WD_TIME_OUT) (q, v))"
    if "undisturbed True (started (?start p)) s (q, v)" for q v
    unfolding k
  proof (rule await_both_first)
    show "undisturbed True (raised_at 0) s (q, v)"
      by (rule undisturbed_mono [OF that]) (auto simp: started_def raised_at_def)
    fix u assume u: "undisturbed True (raised_at 0) s u"
    have "returns (undisturbed True failed_at_two s) (take_all arr (handlers_043 arr) hw k u)"
      using preempted_handler_043 [where arr = arr, OF preempts, of s "fst u" "snd u"] u
      unfolding take_one [where arr = arr, OF first [unfolded k diff_Suc_1]] by simp
    then show "returns (\<lambda>u. undisturbed True failed_at_two s u \<and> both_counted (fst u)) (take_all arr (handlers_043 arr) hw k u)"
      by (rule returns_mono) (auto simp: undisturbed_def failed_at_two_def both_counted_def)
  qed simp
  have "SDEI_TEST_FAIL AND SDEI_TEST_FAIL \<noteq> 0" by (simp add: reg_defs)
  then show ?thesis unfolding test_043_entry_def
    by (intro returns_mono [OF two_events_verdict [where R = failed_at_two, OF assms(1-4)]])
      (use assms(5) waits in \<open>auto simp: failed_at_two_def passing_def both_counted_def kept_verdict_def\<close>)
qed


subsection \<open>An interrupt that comes late\<close>

lemma firmware_frame [simp]: "sg (snd (firmware hw n w s)) = sg s" "shared (snd (firmware hw n w s)) = shared s"
  by (simp_all add: firmware_def log_io_def Let_def)

text \<open>The interrupt of the client: its controller registers do not belong to the state of the suite.\<close>

lemma client_interrupt_frames:
  "sg (snd (sdei_val_gic_install_isr hw SPI_INTR_NUM1 s)) = sg s"
  "shared (snd (sdei_val_gic_install_isr hw SPI_INTR_NUM1 s)) = shared s"
  "sg (snd (sdei_val_gic_route_interrupt_to_pe SPI_INTR_NUM1 m s)) = sg s"
  "shared (snd (sdei_val_gic_route_interrupt_to_pe SPI_INTR_NUM1 m s)) = shared s"
  "returns (\<lambda>(_, v). sg v = sg s \<and> shared v = shared s) (val_gic_generate_interrupt SPI_INTR_NUM1 s)"
  "returns (\<lambda>v. sg v = sg s \<and> shared v = shared s) (free_client_interrupt hw s)"
proof -
  have "sg (snd (sdei_pal_gic_install_isr hw SPI_INTR_NUM1 s)) = sg s"
    "shared (snd (sdei_pal_gic_install_isr hw SPI_INTR_NUM1 s)) = shared s"
    by (simp_all add: sdei_pal_gic_install_isr_def Let_def split_beta)
  then show "sg (snd (sdei_val_gic_install_isr hw SPI_INTR_NUM1 s)) = sg s"
    "shared (snd (sdei_val_gic_install_isr hw SPI_INTR_NUM1 s)) = shared s"
    by (simp_all add: sdei_val_gic_install_isr_def invalid_id_def Let_def split_beta)
  show "sg (snd (sdei_val_gic_route_interrupt_to_pe SPI_INTR_NUM1 m s)) = sg s"
    "shared (snd (sdei_val_gic_route_interrupt_to_pe SPI_INTR_NUM1 m s)) = shared s"
    by (simp_all add: sdei_val_gic_route_interrupt_to_pe_def SPI_INTR_NUM1_def Let_def)
  show "returns (\<lambda>(_, v). sg v = sg s \<and> shared v = shared s) (val_gic_generate_interrupt SPI_INTR_NUM1 s)"
    by (simp add: val_gic_generate_interrupt_def SPI_INTR_NUM1_def Let_def)
  show "returns (\<lambda>v. sg v = sg s \<and> shared v = shared s) (free_client_interrupt hw s)"
    by (simp add: free_client_interrupt_def sdei_val_gic_end_of_interrupt_def sdei_pal_gic_end_of_interrupt_def SPI_INTR_NUM1_def Let_def)
qed

text \<open>The flag is part of the condition of the wait in test 29: when the handler has run and the interrupt
  has not, the loop is left at once.\<close>

lemma await_both_flag_down: "g_handler_flag (wd (fst t)) = 0 \<Longrightarrow> await_both True vars over arr hdl hw n t = Some t"
  by (simp add: await_both.simps)

text \<open>The event handler of test 29, when no interrupt preempts it.\<close>

lemma handler_029_alone:
  assumes "\<And>h. arr (unat TIMEOUT_MEDIUM) h = []" "undisturbed False (\<lambda>p. g_event_counter p = 0) s0 (q, v)"
  shows "returns (undisturbed False (\<lambda>p. g_handler_flag (wd p) = 0 \<and> g_event_counter p = 1) s0)
      (handler_029 arr preempting Watchdog_Source hw (q, v))"
proof -
  let ?P = "\<lambda>p. g_event_counter p = 0"
  have gen: "returns (\<lambda>(_, w). undisturbed False ?P s0 (q, w)) (val_gic_generate_interrupt SPI_INTR_NUM1 u)"
    if "undisturbed False ?P s0 (q, u)" for u
    by (rule returns_mono [OF client_interrupt_frames(5)]) (use that in \<open>auto intro: undisturbed_frame\<close>)
  show ?thesis unfolding handler_029.simps Let_def prod.case
    by (rule returns_seq [OF programmed(1) [OF assms(2)]], erule returns_seq [OF gen])
      (auto simp: take_all_def assms(1) undisturbed_def)
qed

lemma wound_up_returns:
  "returns (\<lambda>(l', s'). l' = l \<and> sg s' = sg s \<and> shared s' = shared s) (wound_up poll lab hw (l, s))"
  using wind_up_frame [of poll UNREGISTER_FAILED RELEASE_FAILED g_event_num lab hw l s] by (auto simp: wound_up_def)


lemma interrupt_ends_returns:
  "returns (\<lambda>(p', s'). p' = p \<and> status_word i s' = status_word i s) (interrupt_ends lab hw (p, s))"
  unfolding interrupt_ends_def Let_def prod.case
  by (rule returns_seq [OF wound_up_returns]) (auto intro: sdei_status_word_cong)

lemma conclude_interrupt_fails:
  assumes "runs_as hw i s" "undisturbed False (\<lambda>p. g_event_counter p \<noteq> 2) s t"
  shows "returns (\<lambda>(_, s'). status_word i s' = SDEI_TEST_FAIL) (conclude_interrupt hw t)"
proof -
  obtain q u where t: "t = (q, u)" by (cases t)
  then have u: "undisturbed False (\<lambda>p. g_event_counter p \<noteq> 2) s (q, u)" using assms(2) by simp
  have bad: "(g_handler_flag (wd q) \<noteq> 0 \<or> \<not> both_counted q) = True"
    using u by (simp add: undisturbed_def both_counted_def)
  show ?thesis unfolding conclude_interrupt_def t Let_def prod.case bad if_True
  proof (rule returns_seq [where P = "\<lambda>v. status_word i v = SDEI_TEST_FAIL"])
    show "returns (\<lambda>v. status_word i v = SDEI_TEST_FAIL)
        (do { s \<leftarrow> val_wd_set_ws0 (g_wd_num (wd q)) 0 (sdei_pal_print ACS_LOG_ERR ''Watchdog interrupt trigger failed'' [] u);
              set_own_status hw SDEI_TEST_FAIL s })"
      by (rule returns_seq [OF sources_programmed(1) [OF u]])
        (auto simp: undisturbed_def intro: returns_mono [OF own_status_returns [OF assms(1)]])
    fix v :: sworld assume v: "status_word i v = SDEI_TEST_FAIL"
    show "returns (\<lambda>(_, s'). status_word i s' = SDEI_TEST_FAIL)
        (do { s \<leftarrow> free_client_interrupt hw v; interrupt_ends To_unregister hw (q, s) })"
    proof (rule returns_seq [OF client_interrupt_frames(6)])
      fix w :: sworld assume "sg w = sg v \<and> shared w = shared v"
      then have "status_word i w = SDEI_TEST_FAIL" using v sdei_status_word_cong [of w v] by simp
      then show "returns (\<lambda>(_, s'). status_word i s' = SDEI_TEST_FAIL) (interrupt_ends To_unregister hw (q, w))"
        by (intro returns_mono [OF interrupt_ends_returns [of q i w]]) auto
    qed
  qed
qed

lemma register_directed_accepted:
  assumes "sdei_val_pe_get_mpid_index 0 s = Some n" "accepts hw arming_calls" "sg u = sg s"
  shows "\<exists>v. register_directed d h f m hw (l, u) = Some (Go, l, v) \<and> sg v = sg u \<and> shared v = shared u"
  using mpid_index_cong [OF assms(3), of 0] assms(1) arming_accepted [OF assms(2) order_refl arming_calls_simps(2)]
  by (simp add: register_directed_def call_runs Let_def)

text \<open>The wait of test 29, when the watchdog's event is taken at the first look.\<close>

lemma interrupt_wait_ends:
  assumes "\<And>h. arr (unat WD_TIME_OUT - 1) h = [(Watchdog_Source, m)]" "\<And>h. arr (unat TIMEOUT_MEDIUM) h = []"
    and v: "undisturbed False (raised_at 0) s (q, v)"
  shows "returns (undisturbed False (\<lambda>p. g_event_counter p \<noteq> 2) s)
      (await_both True [''g_handler_flag'', ''g_handler_counter''] over arr (handler_029 arr preempting) hw (unat WD_TIME_OUT) (q, v))"
proof -
  let ?hdl = "handler_029 arr preempting"
  let ?v = "val_pe_data_cache_invalidate (LVar ''g_handler_counter'') (val_pe_data_cache_invalidate (LVar ''g_handler_flag'') v)"
  have "unat WD_TIME_OUT \<noteq> 0" by (simp add: WD_TIME_OUT_def)
  then obtain k where k: "unat WD_TIME_OUT = Suc k" using not0_implies_Suc by blast
  have up: "g_handler_flag (wd q) = 1" using v by (simp add: undisturbed_def raised_at_def)
  have "undisturbed False (\<lambda>p. g_event_counter p = 0) s (q, ?v)" using v by (simp add: undisturbed_def raised_at_def)
  from handler_029_alone [where arr = arr, OF assms(2) this]
  obtain t where t: "?hdl Watchdog_Source (hw\<lparr>mpidr_in := m\<rparr>) (q, ?v) = Some t"
      "undisturbed False (\<lambda>p. g_handler_flag (wd p) = 0 \<and> g_event_counter p = 1) s t" by (rule returnsE)
  have fl: "g_handler_flag (wd (fst t)) = 0" using t(2) by (simp add: undisturbed_def)
  have "take_all arr ?hdl hw k (q, ?v) = Some t"
    unfolding take_one [where arr = arr, OF assms(1) [unfolded k diff_Suc_1]] by (rule t(1))
  then have "await_both True [''g_handler_flag'', ''g_handler_counter''] over arr ?hdl hw (unat WD_TIME_OUT) (q, v) = Some t"
    unfolding k await_both.simps [of _ _ _ _ _ _ "Suc k"] by (simp add: up await_both_flag_down [OF fl])
  then show ?thesis using t(2) by (auto simp: undisturbed_def)
qed

lemma not_installed_fails:
  assumes "runs_as hw i s" "sg u = sg s" "shared u = shared s"
  shows "returns (\<lambda>(_, s'). status_word i s' = SDEI_TEST_FAIL)
    (do { s \<leftarrow> set_own_status hw SDEI_TEST_FAIL (sdei_pal_print ACS_LOG_ERR m xs u); interrupt_ends To_unregister hw (q, s) })"
proof (rule returns_seq [OF own_status_returns [OF assms(1)]])
  fix v :: sworld assume "status_word i v = SDEI_TEST_FAIL \<and> sg v = sg (sdei_pal_print ACS_LOG_ERR m xs u)"
  then show "returns (\<lambda>(_, s'). status_word i s' = SDEI_TEST_FAIL) (interrupt_ends To_unregister hw (q, v))"
    by (intro returns_mono [OF interrupt_ends_returns [of q i v]]) auto
qed (simp_all add: assms(2,3))

text \<open>C13: Test 29 waits until its flag is down, and the handler of the event takes it down. When the interrupt
  that the handler generates is taken later than that, as it must be if it does not preempt and the
  event is handled on another PE than the one that waits, the test fails, whatever arrives after.\<close>

theorem late_interrupt_fails:
  assumes "runs_as hw i s" "watchdog_ready s" "sdei_val_pe_get_mpid_index 0 s \<noteq> None" "accepts hw arming_calls"
    and first: "\<And>h. arr (unat WD_TIME_OUT - 1) h = [(Watchdog_Source, m)]" and alone: "\<And>h. arr (unat TIMEOUT_MEDIUM) h = []"
  shows "returns (\<lambda>(_, s'). status_word i s' = SDEI_TEST_FAIL) (test_029_entry arr h f hw (p, s))"
proof -
  let ?m1 = "''SDEI event %d register failed with err %x''" and ?m2 = "''SPI interrupt number %lld bind failed with err %d''"
  let ?m3 = "''SDEI event enable test failed with err %d''" and ?l = "(wd p)\<lparr>g_handler_flag := 1\<rparr>"
  obtain n where n: "sdei_val_pe_get_mpid_index 0 s = Some n" using assms(3) by auto
  obtain l1 s1 where a: "run_steps [select_watchdog True, disable_irq True, bind_watchdog True False To_unmap ?m2,
      register_directed True h f ?m1, enable_watchdog True ?m3] hw (?l, s) = Some (Go, l1, s1)" and
    b: "g_handler_flag l1 = 1" "sg s1 = sg s" "shared s1 = shared s"
      "\<And>k u. sg u = sg s \<Longrightarrow> returns (\<lambda>v. sg v = sg u \<and> shared v = shared u) (val_wd_set_ws0 (g_wd_num l1) k u)"
    using armed_with [where register = "register_directed True h f ?m1" and l = ?l and d = True and fl = False and lab = To_unmap
        and ?m1.0 = ?m2 and ?m3.0 = ?m3, OF assms(2,4) order_refl register_directed_accepted [OF n assms(4)]]
    by (auto simp: returns_def simp del: run_steps.simps)
  define q where "q = p\<lparr>g_event_counter := 0, wd := l1\<rparr>"
  have q: "wd q = l1" "g_event_counter q = 0" by (simp_all add: q_def)
  obtain err s2 where c: "sdei_val_gic_install_isr hw SPI_INTR_NUM1 s1 = (err, s2)" "sg s2 = sg s" "shared s2 = shared s"
    using client_interrupt_frames(1,2) [of hw s1] b(2,3) by (cases "sdei_val_gic_install_isr hw SPI_INTR_NUM1 s1") auto
  let ?s3 = "snd (sdei_val_gic_route_interrupt_to_pe SPI_INTR_NUM1 n s2)"
  let ?wait = "await_both True [''g_handler_flag'', ''g_handler_counter''] (\<lambda>p. g_handler_flag (wd p) = 0 \<and> both_counted p) arr
      (handler_029 arr (handler_029 nothing_arrives (\<lambda>_ _. Some))) hw (unat WD_TIME_OUT)"
  have u3: "undisturbed False (raised_at 0) s (q, ?s3)"
    using b c(2,3) client_interrupt_frames(3,4) [of n s2] by (simp add: undisturbed_def raised_at_def q)
  have goes: "returns (\<lambda>(_, s'). status_word i s' = SDEI_TEST_FAIL)
      (do { s \<leftarrow> val_wd_set_ws0 (g_wd_num (wd q)) 1 ?s3; t \<leftarrow> ?wait (q, s); conclude_interrupt hw t })"
    by (rule returns_seq [OF programmed(1) [OF u3]], rule returns_seq, erule interrupt_wait_ends [where arr = arr, OF first alone])
      (rule conclude_interrupt_fails [OF assms(1)])
  have "test_029_entry arr h f hw (p, s) =
      (if err \<noteq> 0 then do { s \<leftarrow> set_own_status hw SDEI_TEST_FAIL
          (sdei_pal_print ACS_LOG_ERR ''Interrupt register %x failed with err %d'' [ucast SPI_INTR_NUM1, ucast err] s2);
          interrupt_ends To_unregister hw (q, s) }
       else do { s \<leftarrow> val_wd_set_ws0 (g_wd_num (wd q)) 1 ?s3; t \<leftarrow> ?wait (q, s); conclude_interrupt hw t })"
    using mpid_index_cong [OF c(2), of 0] n
    by (simp add: test_029_entry_def interrupt_test_def a c(1) split_beta q_def del: run_steps.simps)
  then show ?thesis using goes not_installed_fails [OF assms(1) c(2,3)] by (simp only: split: if_split) blast
qed


subsection \<open>Witnesses\<close>

definition both_sources_world :: sworld where
  "both_sources_world = (watchdog_world 0)\<lparr>sg := (sg (watchdog_world 0))\<lparr>g_sys_timertable := Some (timer_table [timer_block 1] 1)\<rparr>\<rparr>"

definition pair_hw :: hw where
  "pair_hw = dispatcher_hw\<lparr>smc_in := (\<lambda>_ _ _. (0, 0, 0, 0))\<rparr>"

definition fresh_pair :: pair_vars where
  "fresh_pair = \<lparr>wd = fresh_vars, g_index = 0, g_event_counter = 0\<rparr>"

text \<open>The watchdog's event is taken at once, and the second one while its handler waits.\<close>

definition preempting :: pair_arrivals where
  "preempting n h = (if n = unat WD_TIME_OUT - 1 then [(Watchdog_Source, 0x80000000)]
     else if n = unat TIMEOUT_MEDIUM \<or> n = unat TIMEOUT_MEDIUM - 1 then [(Second_Source, 0x80000000)] else [])"

definition one_event :: pair_arrivals where
  "one_event n h = (if n = unat WD_TIME_OUT - 1 then [(Watchdog_Source, 0x80000000)] else [])"

lemma arrivals_simps:
  "preempting (unat WD_TIME_OUT - 1) h = [(Watchdog_Source, 0x80000000)]"
  "preempting (unat TIMEOUT_MEDIUM) h = [(Second_Source, 0x80000000)]"
  "preempting (unat TIMEOUT_MEDIUM - 1) h = [(Second_Source, 0x80000000)]"
  "one_event (unat WD_TIME_OUT - 1) h = [(Watchdog_Source, 0x80000000)]" "one_event (unat TIMEOUT_MEDIUM) h = []"
  by (simp_all add: preempting_def one_event_def WD_TIME_OUT_def Sdei_Watchdog_Tests.TIMEOUT_MEDIUM_def)

lemma both_sources_ready:
  "runs_as pair_hw 0 both_sources_world" "both_ready both_sources_world" "accepts pair_hw arming_calls" "settles pair_hw"
  "watchdog_ready both_sources_world" "sdei_val_pe_get_mpid_index 0 both_sources_world \<noteq> None"
proof -
  have sg: "sg both_sources_world = (sg (watchdog_world 0))\<lparr>g_sys_timertable := Some (timer_table [timer_block 1] 1)\<rparr>"
    "shared both_sources_world = shared (watchdog_world 0)" by (simp_all add: both_sources_world_def)
  show "accepts pair_hw arming_calls" "settles pair_hw" by (simp_all add: pair_hw_def accepts_zero)
  have "runs_as pair_hw 0 (watchdog_world 0)" unfolding pair_hw_def by (rule watchdog_world_runs(1))
  then show "runs_as pair_hw 0 both_sources_world"
    using sdei_shared_size_cong [of both_sources_world "watchdog_world 0"] sg
    by (simp add: runs_as_def sdei_val_pe_get_index_mpid_def)
  show w: "watchdog_ready both_sources_world"
    using watchdog_world_ready(1) by (simp add: watchdog_ready_def sg)
  show m: "sdei_val_pe_get_mpid_index 0 both_sources_world \<noteq> None"
    by (simp add: sdei_val_pe_get_mpid_index_def sg watchdog_world_def ready_world_def pair_world_def pair_table_def)
  show "both_ready both_sources_world"
    using w m by (simp add: both_ready_def val_configure_second_interrupt_def pal_configure_second_interrupt_def sg timer_table_def timer_block_def INVALID_INDEX_def
        pal_timer_get_info_def pal_platform_timer_get_entry_index_def frame_value_def secure_bit_def ACS_SUCCESS_def)
qed


lemma preemption_passes_witness:
  "returns (\<lambda>(_, s'). status_word 0 s' = SDEI_TEST_PASS)
     (test_041_entry preempting 0x7000 0x8000 0x9000 pair_hw (fresh_pair, both_sources_world))"
  by (rule preemption_passes [OF both_sources_ready(1-4) _ arrivals_simps(1,2)]) (simp add: fresh_pair_def fresh_vars_def)

lemma second_instance_fails_witness:
  "returns (\<lambda>(_, s'). status_word 0 s' = SDEI_TEST_FAIL)
     (test_043_entry preempting 0x7000 0x8000 0x9000 pair_hw (fresh_pair, both_sources_world))"
  by (rule second_instance_fails [OF both_sources_ready(1-4) _ arrivals_simps(1,3)]) (simp add: fresh_pair_def fresh_vars_def)

lemma late_interrupt_fails_witness:
  "returns (\<lambda>(_, s'). status_word 0 s' = SDEI_TEST_FAIL)
     (test_029_entry one_event 0x7000 0x8000 pair_hw (fresh_pair, both_sources_world))"
  by (rule late_interrupt_fails [OF both_sources_ready(1,5,6,3) arrivals_simps(4,5)])

end
