(* ===== verification/Sdei_Power_Tests.thy ===== *)
theory Sdei_Power_Tests
  imports Sdei_Pair_Tests
begin

text \<open>
  The tests of signalled events, of the private reset and of power states (test_pool/tests/test_033.c,
  test_039.c, test_042.c, test_045.c, test_047.c, test_048.c). When a handler runs is a parameter, as in
  Sdei_Watchdog_Tests and Sdei_Pair_Tests.
\<close>

unbundle bit_operations_syntax

subsection \<open>Silent steps\<close>

text \<open>A payload with static variables, on the caller and then on the other PEs.\<close>

definition on_all_kept :: "hw \<Rightarrow> wd_handler \<Rightarrow> wd_state \<Rightarrow> wd_state option" where
  "on_all_kept hw payload t =
     do { u \<leftarrow> payload hw t; for_each (\<lambda>m. payload (hw\<lparr>mpidr_in := m\<rparr>)) (other_pes hw (snd t)) u }"

text \<open>A call whose error fails the test without a message.\<close>

definition quiet_call :: "label \<Rightarrow> (hw \<Rightarrow> wd_state \<Rightarrow> u32 \<times> sworld) \<Rightarrow> step" where
  "quiet_call lab call hw t =
     (let (err, s) = call hw t
      in if err \<noteq> 0 then do { s \<leftarrow> set_own_status hw SDEI_TEST_FAIL s; Some (lab, fst t, s) } else Some (Go, fst t, s))"

definition flag_up :: step where
  "flag_up hw t = Some (Go, (fst t)\<lparr>g_handler_flag := 1\<rparr>, snd t)"

text \<open>The status is read until the bits of \<open>msk\<close> are 0; \<open>False\<close> after the time-out.\<close>

fun poll_quietly :: "hw \<Rightarrow> u32 \<Rightarrow> u64 \<Rightarrow> nat \<Rightarrow> sworld \<Rightarrow> bool \<times> sworld" where
  "poll_quietly hw e msk n s =
     (let ((_, res), s) = val_sdei_event_status hw e s
      in if res AND msk = 0 then (True, s)
         else (case n of 0 \<Rightarrow> (False, s) | Suc k \<Rightarrow> poll_quietly hw e msk k s))"

declare poll_quietly.simps [simp del]

definition unregister_silently :: "u32 \<Rightarrow> label \<Rightarrow> hw \<Rightarrow> wd_state \<Rightarrow> wd_state" where
  "unregister_silently e lab hw t =
     (if lab = Return then t else (fst t, snd (val_sdei_event_unregister hw e (snd t))))"

subsection \<open>Test 33: signalling an event\<close>

definition handler_033 :: wd_handler where
  "handler_033 hw t = Some (handled False False t)"

definition own_affinity :: "hw \<Rightarrow> sworld \<Rightarrow> (u64 \<times> sworld) option" where
  "own_affinity hw s =
     do { (i, s) \<leftarrow> sdei_val_pe_get_index hw s; m \<leftarrow> sdei_val_pe_get_mpid_index i s; Some (m, s) }"

definition signal_self :: step where
  "signal_self hw t =
     do { let (l, s) = t;
          (m, s) \<leftarrow> own_affinity hw s;
          let (err, s) = val_sdei_event_signal hw 0 m s;
          if err \<noteq> 0 then flunk True To_unregister ''SDEI event signal failed with err %d'' [ucast err] hw (l, s)
          else Some (Go, l, s) }"

definition wait_quietly :: "arrivals \<Rightarrow> wd_handler \<Rightarrow> nat \<Rightarrow> step" where
  "wait_quietly arr hdl n hw t =
     do { (l, s) \<leftarrow> await True False arr hdl hw n t;
          if g_handler_flag l \<noteq> 0 then do { s \<leftarrow> set_own_status hw SDEI_TEST_FAIL s; Some (To_unregister, l, s) }
          else Some (Go, l, s) }"

definition settle_quietly :: "u32 \<Rightarrow> step" where
  "settle_quietly e hw t =
     Some (Go, fst t, snd (poll_quietly hw e EVENT_STATUS_RUNNING_BIT (unat TIMEOUT_MEDIUM) (snd t)))"

definition payload_033 :: "arrivals \<Rightarrow> u64 \<Rightarrow> u64 \<Rightarrow> hw \<Rightarrow> wd_state \<Rightarrow> wd_state option" where
  "payload_033 arr h f hw t =
     do { (lab, t) \<leftarrow> run_steps
            [flag_up,
             quiet_call Return (\<lambda>hw t. val_sdei_event_register hw 0 h f 0 0 (snd t)),
             quiet_call To_unregister (\<lambda>hw t. val_sdei_event_enable hw 0 (snd t)),
             signal_self,
             wait_quietly arr handler_033 (unat TIMEOUT_MEDIUM),
             report SDEI_TEST_PASS,
             settle_quietly 0] hw t;
          Some (unregister_silently 0 lab hw t) }"

definition test_033_entry :: "arrivals \<Rightarrow> u64 \<Rightarrow> u64 \<Rightarrow> hw \<Rightarrow> wd_state \<Rightarrow> wd_state option" where
  "test_033_entry arr h f hw t =
     do { let (l, s) = t;
          m \<leftarrow> sdei_val_pe_get_mpid_index 0 s;
          let (err, s) = val_sdei_event_signal hw SDEI_UNKNOWN_EVENT m s;
          if err \<noteq> SDEI_STATUS_INVALID
          then do { let s = sdei_pal_print ACS_LOG_ERR ''SDEI event signal failed with err %d'' [ucast err] s;
                    s \<leftarrow> val_test_set_status hw (sdei_val_pe_get_num s) SDEI_TEST_FAIL s;
                    Some (l, s) }
          else on_all_kept hw (payload_033 arr h f) (l, s) }"

subsection \<open>Test 39: the private reset in every state of the handler\<close>

definition current_el :: "hw \<Rightarrow> sworld \<Rightarrow> (u64 \<times> sworld) option" where
  "current_el hw s =
     (let ((_, v), s) = sdei_val_pe_reg_read hw CurrentEL s in do { v \<leftarrow> v; Some (EXTRACT_BITS v 2 2, s) })"

definition set_phy_timer :: "hw \<Rightarrow> u64 \<Rightarrow> u64 \<Rightarrow> sworld \<Rightarrow> sworld" where
  "set_phy_timer hw el ticks s =
     (if el = 1 then val_timer_set_phy_el1 hw ticks s else if el = 2 then val_timer_set_phy_el2 hw ticks s else s)"

definition handler_039 :: wd_handler where
  "handler_039 hw t =
     do { let (l, s) = t;
          (el, s) \<leftarrow> current_el hw s;
          let s = set_phy_timer hw el 0 s;
          let (err, s) = val_sdei_private_reset hw s;
          if err \<noteq> SDEI_STATUS_DENIED then Some (handled False True (l, s))
          else (let (err, s) = val_sdei_event_unregister hw (g_event_num l) s
                in if err \<noteq> SDEI_STATUS_PENDING then Some (handled False True (l, s))
                   else (let (err, s) = val_sdei_private_reset hw s
                         in Some (handled False (err \<noteq> SDEI_STATUS_DENIED) (l, s)))) }"

definition timer_trigger :: "arrivals \<Rightarrow> wd_handler \<Rightarrow> step" where
  "timer_trigger arr hdl hw t =
     do { let (l, s) = t;
          (el, s) \<leftarrow> current_el hw s;
          let s = set_phy_timer hw el 1 s;
          (l, s) \<leftarrow> await True False arr hdl hw (unat WD_TIME_OUT) (l, s);
          if g_handler_flag l \<noteq> 0
          then do { s \<leftarrow> set_own_status hw SDEI_TEST_FAIL (set_phy_timer hw el 0 s); Some (To_unregister, l, s) }
          else Some (Go, l, s) }"

definition payload_039 :: "arrivals \<Rightarrow> u64 \<Rightarrow> u64 \<Rightarrow> hw \<Rightarrow> wd_state \<Rightarrow> wd_state option" where
  "payload_039 arr h f hw t =
     (let reset = (\<lambda>hw t. val_sdei_private_reset hw (snd t));
          registers = quiet_call Return (\<lambda>hw t. val_sdei_event_register hw (g_event_num (fst t)) h f 0 0 (snd t));
          enables = quiet_call To_unregister (\<lambda>hw t. val_sdei_event_enable hw (g_event_num (fst t)) (snd t))
      in do {
          (lab, l, s) \<leftarrow> run_steps
            [flag_up, pass_kept,
             quiet_call Return reset, registers, quiet_call To_unregister reset, registers, enables,
             quiet_call To_unregister reset, registers, enables,
             timer_trigger arr handler_039] hw t;
          if lab = Go
          then do {
            s \<leftarrow> set_own_status hw (if g_test_status l = SDEI_TEST_PASS then SDEI_TEST_PASS else SDEI_TEST_FAIL) s;
            let (gone, s) = poll_quietly hw (g_event_num l) (EVENT_STATUS_RUNNING_BIT OR EVENT_STATUS_REGISTER_BIT)
                              (unat TIMEOUT_MEDIUM) s;
            Some (unregister_silently (g_event_num l) (if gone then Return else Go) hw (l, s)) }
          else Some (unregister_silently (g_event_num l) lab hw (l, s)) })"

definition PPI_NUM :: u64 where [reg_defs]: "PPI_NUM = 31"

definition test_039_entry :: "arrivals \<Rightarrow> u64 \<Rightarrow> u64 \<Rightarrow> hw \<Rightarrow> wd_state \<Rightarrow> wd_state option" where
  "test_039_entry arr h f hw t =
     do { let (l, s) = t;
          (el, s) \<leftarrow> current_el hw s;
          (int_id, s) \<leftarrow> (if el = 1 then val_timer_get_info hw TIMER_INFO_PHY_EL1_INTID 0 s
                           else if el = 2 then val_timer_get_info hw TIMER_INFO_PHY_EL2_INTID 0 s else Some (0, s));
          let l = l\<lparr>g_handler_flag := 1, g_int_id := int_id\<rparr>;
          if int_id > PPI_NUM then Some (l, sdei_pal_print ACS_LOG_ERR ''Incorrect PPI value %lld'' [int_id] s)
          else do {
            let s = sdei_pal_print ACS_LOG_DEBUG ''timer interrupt id: %lld'' [int_id] s;
            (err, s) \<leftarrow> val_gic_disable_interrupt (ucast int_id) s;
            if err \<noteq> 0
            then do { let s = sdei_pal_print ACS_LOG_ERR ''Interrupt %lld disable failed'' [int_id] s;
                      s \<leftarrow> val_test_set_status hw (sdei_val_pe_get_num s) SDEI_TEST_FAIL s; Some (l, s) }
            else do {
              let ((err, e), s) = val_sdei_interrupt_bind hw (ucast int_id) s;
              let l = l\<lparr>g_event_num := e\<rparr>;
              if err \<noteq> 0
              then do { let s = sdei_pal_print ACS_LOG_ERR BIND_FAILED [int_id, ucast err] s;
                        s \<leftarrow> val_test_set_status hw (sdei_val_pe_get_num s) SDEI_TEST_FAIL s; Some (l, s) }
              else do {
                let s = val_pe_data_cache_clean_invalidate (LVar ''g_event.event_num'') s;
                (l, s) \<leftarrow> on_all_kept hw (payload_039 arr h f) (l, s);
                let (err, s) = val_sdei_interrupt_release hw (g_event_num l) s;
                Some (l, if err \<noteq> 0
                         then sdei_pal_print ACS_LOG_ERR ''Event num %d release failed : err %d'' [ucast (g_event_num l), ucast err] s
                         else s) } } } }"


subsection \<open>Test 42: signalling in every state of the handler\<close>

text \<open>The second source is event 0, which the test signals; g_index is the variable g_main_pe of the test.\<close>

type_synonym pair_step = "hw \<Rightarrow> pair_state \<Rightarrow> (label \<times> pair_state) option"

fun run_pair_steps :: "pair_step list \<Rightarrow> pair_step" where
  "run_pair_steps [] hw t = Some (Go, t)"
| "run_pair_steps (f # fs) hw t =
     do { (lab, t) \<leftarrow> f hw t; if lab = Go then run_pair_steps fs hw t else Some (lab, t) }"

definition on_wd :: "step \<Rightarrow> pair_step" where
  "on_wd f hw t = do { let (p, s) = t; (lab, l, s) \<leftarrow> f hw (wd p, s); Some (lab, p\<lparr>wd := l\<rparr>, s) }"

definition other_index :: "hw \<Rightarrow> sworld \<Rightarrow> (u32 \<times> sworld) option" where
  "other_index hw s =
     do { (my_index, s) \<leftarrow> sdei_val_pe_get_index hw s;
          Some (case find (\<lambda>i. my_index \<noteq> i) (upto_u32 (sdei_val_pe_get_num s)) of None \<Rightarrow> - 1 | Some i \<Rightarrow> i, s) }"

definition wait_signal :: "bool \<Rightarrow> pair_arrivals \<Rightarrow> (source \<Rightarrow> pair_handler) \<Rightarrow> hw \<Rightarrow> pair_state \<Rightarrow> pair_state option" where
  "wait_signal invalidate arr hdl hw t =
     await_both False (if invalidate then [''g_handler_flag''] else []) (\<lambda>p. g_handler_flag (wd p) = 0) arr hdl hw
       (unat TIMEOUT_MEDIUM) t"

definition event_signal_handler :: pair_handler where
  "event_signal_handler hw t = Some (flag_down (fst t), cleaned [''g_handler_flag''] (snd t))"

text \<open>The status is read until the event does not run or the call fails.\<close>

fun poll_or_error :: "hw \<Rightarrow> u32 \<Rightarrow> nat \<Rightarrow> sworld \<Rightarrow> sworld" where
  "poll_or_error hw e n s =
     (let ((err, res), s) = val_sdei_event_status hw e s
      in if err \<noteq> 0 \<or> res AND EVENT_STATUS_RUNNING_BIT = 0 then s
         else (case n of 0 \<Rightarrow> s | Suc k \<Rightarrow> poll_or_error hw e k s))"

declare poll_or_error.simps [simp del]

text \<open>A check of the handler: event 0 is signalled, and its handler must run. \<open>False\<close> ends the handler. The
  flag is down from the first check on, so the second one does not wait.\<close>

definition handler_check :: "pair_arrivals \<Rightarrow> u64 \<Rightarrow> hw \<Rightarrow> pair_state \<Rightarrow> (bool \<times> pair_state) option" where
  "handler_check arr affinity hw t =
     do { let (p, s) = t;
          let (err, s) = val_sdei_event_signal hw 0 affinity s;
          let failed = (\<lambda>p. flag_down (verdict SDEI_TEST_FAIL p));
          if err \<noteq> 0 then Some (False, failed p, s)
          else do {
            (p, s) \<leftarrow> wait_signal False arr
                         (\<lambda>src. case src of Second_Source \<Rightarrow> event_signal_handler | Watchdog_Source \<Rightarrow> (\<lambda>_. Some)) hw (p, s);
            if g_handler_flag (wd p) \<noteq> 0 then Some (False, failed p, s)
            else Some (True, p, poll_or_error hw 0 (unat TIMEOUT_MEDIUM) s) } }"

fun handler_042 :: "pair_arrivals \<Rightarrow> source \<Rightarrow> pair_handler" where
  "handler_042 arr Second_Source hw t = event_signal_handler hw t"
| "handler_042 arr Watchdog_Source hw t =
     do { let (p, s) = t;
          s \<leftarrow> val_wd_set_ws0 (g_wd_num (wd p)) 0 s;
          m \<leftarrow> sdei_val_pe_get_mpid_index (g_index p) s;
          (ok, p, s) \<leftarrow> handler_check arr m hw (p, s);
          if \<not> ok then Some (p, s)
          else (let (err, s) = val_sdei_event_unregister hw (g_event_num (wd p)) s
                in if err \<noteq> SDEI_STATUS_PENDING then Some (flag_down (verdict SDEI_TEST_FAIL p), s)
                   else do {
                     (m, s) \<leftarrow> own_affinity hw s;
                     (ok, p, s) \<leftarrow> handler_check arr m hw (p, s);
                     Some (flag_down p, s) }) }"

definition event_signal_register :: "u64 \<Rightarrow> u64 \<Rightarrow> wd_handler" where
  "event_signal_register h f hw t =
     (let (l, s) = t; (err, s) = val_sdei_event_register hw 0 h f 0 0 s
      in if err \<noteq> 0 then Some (l\<lparr>g_test_status := SDEI_TEST_FAIL\<rparr>, s)
         else (let (err, s) = val_sdei_event_enable hw 0 s
               in if err = 0 then Some (l, s)
                  else Some (l\<lparr>g_test_status := SDEI_TEST_FAIL\<rparr>, snd (val_sdei_event_unregister hw 0 s))))"

definition event_signal_unregister :: wd_handler where
  "event_signal_unregister hw t =
     (let (l, s) = t; (err, s) = val_sdei_event_unregister hw 0 s
      in Some (if err \<noteq> 0 then l\<lparr>g_test_status := SDEI_TEST_FAIL\<rparr> else l, s))"

text \<open>A check of the test: it signals the event to itself, waits for the handler, and raises the flag again.\<close>

definition signal_check :: "bool \<Rightarrow> label \<Rightarrow> string \<Rightarrow> pair_arrivals \<Rightarrow> (source \<Rightarrow> pair_handler) \<Rightarrow> pair_step" where
  "signal_check invalidate lab message arr hdl hw t =
     do { let (p, s) = t;
          (m, s) \<leftarrow> own_affinity hw s;
          let (err, s) = val_sdei_event_signal hw 0 m s;
          if err \<noteq> 0 then on_wd (flunk False lab message [ucast err]) hw (p, s)
          else do {
            (p, s) \<leftarrow> wait_signal invalidate arr hdl hw (p, s);
            if g_handler_flag (wd p) \<noteq> 0 then Some (lab, verdict SDEI_TEST_FAIL p, s)
            else (let (_, s) = poll_running hw 0 (unat TIMEOUT_MEDIUM) s
                  in Some (Go, p\<lparr>wd := (wd p)\<lparr>g_handler_flag := 1\<rparr>\<rparr>, s)) } }"

definition register_other :: "u64 \<Rightarrow> u64 \<Rightarrow> step" where
  "register_other h f hw t =
     do { let (l, s) = t;
          (i, s) \<leftarrow> other_index hw s;
          m \<leftarrow> sdei_val_pe_get_mpid_index i s;
          let (err, s) = val_sdei_event_register hw (g_event_num l) h f SDEI_EVENT_REGISTER_RM_PE m s;
          if err \<noteq> 0
          then flunk False To_release ''SDEI evt %d register fail with err %x'' [ucast (g_event_num l), ucast err] hw (l, s)
          else Some (Go, l, s) }"

definition note_main_pe :: pair_step where
  "note_main_pe hw t =
     do { let (p, s) = t;
          (i, s) \<leftarrow> sdei_val_pe_get_index hw s;
          Some (Go, p\<lparr>g_index := i\<rparr>, val_pe_data_cache_clean_invalidate (LVar ''g_main_pe'') s) }"

definition trigger_other :: "pair_arrivals \<Rightarrow> (source \<Rightarrow> pair_handler) \<Rightarrow> pair_step" where
  "trigger_other arr hdl hw t =
     do { let (p, s) = t;
          s \<leftarrow> val_wd_set_ws0 (g_wd_num (wd p)) 1 s;
          (p, s) \<leftarrow> await_both False [] (\<lambda>p. g_handler_flag (wd p) = 0) arr hdl hw (unat WD_TIME_OUT) (p, s);
          if g_handler_flag (wd p) \<noteq> 0
          then do { s \<leftarrow> val_wd_set_ws0 (g_wd_num (wd p)) 0 (sdei_pal_print ACS_LOG_ERR ''Watchdog interrupt trigger failed'' [] s);
                    Some (To_unregister, verdict SDEI_TEST_FAIL p, s) }
          else Some (Go, p, s) }"

text \<open>\<open>f0\<close> and \<open>f\<close> are the addresses of the two handlers.\<close>

definition test_042_entry :: "pair_arrivals \<Rightarrow> u64 \<Rightarrow> u64 \<Rightarrow> u64 \<Rightarrow> hw \<Rightarrow> pair_state \<Rightarrow> pair_state option" where
  "test_042_entry arr h f0 f hw t =
     do { let hdl = handler_042 arr;
          (l, s) \<leftarrow> on_all_kept hw (event_signal_register h f0) ((wd (fst t))\<lparr>g_handler_flag := 1\<rparr>, snd t);
          let p = (fst t)\<lparr>wd := l\<rparr>;
          if g_test_status l AND SDEI_TEST_FAIL \<noteq> 0
          then do { s \<leftarrow> set_own_status hw SDEI_TEST_FAIL (sdei_pal_print ACS_LOG_ERR ''SDEI event signal register failed'' [] s);
                    Some (p, s) }
          else do {
            (lab, p, s) \<leftarrow> run_pair_steps
              [on_wd (select_watchdog False), on_wd (disable_irq False), on_wd (bind_watchdog False True To_unmap BIND_FAILED),
               signal_check False To_unmap CHECK_1 arr hdl,
               on_wd (register_other h f),
               signal_check False To_unregister CHECK_2 arr hdl,
               on_wd (enable_watchdog False ENABLE_FAILED),
               signal_check True To_unregister CHECK_3 arr hdl,
               note_main_pe, trigger_other arr hdl,
               on_wd (after_handler False True ''Event num %d release failed : err %d'')] hw (p, s);
            if lab = Return then Some (p, s)
            else do {
              let t = wind_up False ''SDEI event %d unregister failed : err %x'' RELEASE_FAILED g_event_num lab hw (wd p, s);
              t \<leftarrow> on_all_kept hw event_signal_unregister t;
              (l, s) \<leftarrow> report_kept lab hw t;
              Some (p\<lparr>wd := l\<rparr>, s) } } }"

subsection \<open>Power states\<close>

text \<open>The tests 45 and 48 look for the last non-secure watchdog; \<open>boxes\<close> are the mailboxes of the PEs, in
  which a request to power off is written.\<close>

record power_vars =
  g_wd_index :: u32
  g_handler_called :: u32
  g_reset_pe_index :: u32
  g_kept_status :: u32
  boxes :: mailboxes

type_synonym power_state = "power_vars \<times> sworld"

fun ns_watchdog :: "nat \<Rightarrow> sworld \<Rightarrow> u32 option option" where
  "ns_watchdog 0 s = Some None"
| "ns_watchdog (Suc n) s =
     do { secure \<leftarrow> val_wd_get_info (of_nat n) WD_INFO_ISSECURE s;
          if secure = 0 then Some (Some (of_nat n)) else ns_watchdog n s }"

definition find_watchdog :: "sworld \<Rightarrow> u32 option" where
  "find_watchdog s =
     do { count \<leftarrow> val_wd_get_info 0 WD_INFO_COUNT s;
          r \<leftarrow> ns_watchdog (unat (ucast count :: u32)) s;
          Some (case r of None \<Rightarrow> - 1 | Some i \<Rightarrow> i) }"

subsubsection \<open>Test 45: suspend\<close>

definition REGISTERED :: u64 where [reg_defs]: "REGISTERED = 1"
definition WD_TIMEOUT :: u32 where [reg_defs]: "WD_TIMEOUT = 0x1000"
definition SUSPEND_POWERDOWN :: u32 where [reg_defs]: "SUSPEND_POWERDOWN = 1"

definition isr_045 :: "u32 \<Rightarrow> hw \<Rightarrow> sworld \<Rightarrow> sworld option" where
  "isr_045 index hw s =
     do { s \<leftarrow> val_wd_set_ws0 index 0 s;
          gsiv \<leftarrow> val_wd_get_info index WD_INFO_GSIV s;
          let wd_int_id = (ucast gsiv :: u32);
          let s = sdei_pal_print ACS_LOG_INFO ''Watchdog interrupt %d recieved'' [ucast wd_int_id] s;
          (_, s) \<leftarrow> sdei_val_gic_end_of_interrupt hw wd_int_id s;
          Some s }"

text \<open>\<open>wakes\<close> tells after which histories the interrupt of the watchdog is taken while the PE is suspended.\<close>

definition suspended :: "(history \<Rightarrow> bool) \<Rightarrow> u32 \<Rightarrow> u32 \<Rightarrow> hw \<Rightarrow> sworld \<Rightarrow> sworld option" where
  "suspended wakes index event_num hw s =
     do { s \<leftarrow> val_wd_set_ws0 index WD_TIMEOUT s;
          let s = val_pe_suspend hw SUSPEND_POWERDOWN s;
          s \<leftarrow> (if wakes (io s) then isr_045 index hw s else Some s);
          let ((err, event_status), s) = val_sdei_event_status hw event_num s;
          if err \<noteq> 0 then set_own_status hw SDEI_TEST_FAIL s
          else if event_status AND REGISTERED = 0
          then set_own_status hw SDEI_TEST_FAIL
                 (sdei_pal_print ACS_LOG_ERR ''Event status changed after waking up 0x%x'' [event_status] s)
          else (let ((err, result), s) = val_sdei_mask hw s
                in if err \<noteq> 0 \<or> result \<noteq> ALREADY_MASKED
                   then set_own_status hw SDEI_TEST_FAIL
                          (sdei_pal_print ACS_LOG_ERR ''PE unmasked after waking up 0x%x'' [result] s)
                   else set_own_status hw SDEI_TEST_PASS s) }"

definition test_045_entry :: "(history \<Rightarrow> bool) \<Rightarrow> u64 \<Rightarrow> hw \<Rightarrow> power_state \<Rightarrow> power_state option" where
  "test_045_entry wakes h hw t =
     do { let (l, s) = t;
          index \<leftarrow> find_watchdog s;
          let l = l\<lparr>g_wd_index := index\<rparr>;
          s \<leftarrow> (if index = - 1 then set_own_status hw Sdei_Tests.SDEI_TEST_SKIP s
                else do {
                  (event_num, s) \<leftarrow> val_event_get hw SDEI_EVENT_TYPE_SHARED SDEI_EVENT_PRIORITY_ANY s;
                  if event_num = 0 then set_own_status hw SDEI_TEST_FAIL s
                  else (let (err, s) = val_sdei_event_register hw event_num h 0 0 0 s
                        in if err \<noteq> 0 then set_own_status hw SDEI_TEST_FAIL s
                  else (let (err, s) = val_sdei_unmask hw s;
                            unregister = unregister_quietly hw ACS_LOG_ERR UNREGISTER_FAILED event_num
                        in if err \<noteq> 0 then map_option unregister (set_own_status hw SDEI_TEST_FAIL s)
                  else do {
                    gsiv \<leftarrow> val_wd_get_info index WD_INFO_GSIV s;
                    let wd_int_id = (ucast gsiv :: u32);
                    let (err, s) = sdei_val_gic_install_isr hw wd_int_id s;
                    if err \<noteq> 0
                    then map_option unregister (set_own_status hw SDEI_TEST_FAIL (sdei_pal_print ACS_LOG_ERR
                           ''Interrupt register %x failed with err %d'' [ucast wd_int_id, ucast err] s))
                    else do {
                      s \<leftarrow> suspended wakes index event_num hw s;
                      let _ = val_gic_free_interrupt wd_int_id;
                      Some (unregister s) } })) });
          Some (l, s) }"

subsubsection \<open>Test 47: reset of a PE\<close>

text \<open>\<open>c\<close> is the layout of the mailboxes.\<close>

definition payload_047 :: "hw \<Rightarrow> power_state \<Rightarrow> power_state option" where
  "payload_047 hw t =
     do { let (l, s) = t;
          (i, s) \<leftarrow> sdei_val_pe_get_index hw s;
          if i \<noteq> g_reset_pe_index l then Some (l, s)
          else (let ((err, result), s) = val_sdei_mask hw s
                in Some (if err \<noteq> 0 \<or> result \<noteq> ALREADY_MASKED then l\<lparr>g_kept_status := SDEI_TEST_FAIL\<rparr> else l, s)) }"

definition test_047_entry :: "mb_config \<Rightarrow> hw \<Rightarrow> power_state \<Rightarrow> power_state option" where
  "test_047_entry c hw t =
     do { let (l, s) = t;
          (i, s) \<leftarrow> other_index hw s;
          let s = val_pe_data_cache_clean_invalidate (LVar ''g_reset_pe_index'') s;
          let l = l\<lparr>g_reset_pe_index := i, boxes := val_pe_poweroff c i (boxes l)\<rparr>;
          s \<leftarrow> val_pe_poweron hw i s;
          t \<leftarrow> payload_047 hw (l, s);
          (l, s) \<leftarrow> for_each (\<lambda>m. payload_047 (hw\<lparr>mpidr_in := m\<rparr>)) (other_pes hw s) t;
          s \<leftarrow> set_own_status hw (if g_kept_status l AND SDEI_TEST_FAIL \<noteq> 0 then SDEI_TEST_FAIL else SDEI_TEST_PASS) s;
          Some (l, s) }"

subsubsection \<open>Test 48: an event for a PE that is off\<close>

definition handler_048 :: "hw \<Rightarrow> power_state \<Rightarrow> power_state option" where
  "handler_048 hw t =
     (let (l, s) = t in do { s \<leftarrow> val_wd_set_ws0 (g_wd_index l) 0 s; Some (l\<lparr>g_handler_called := 1\<rparr>, s) })"

text \<open>\<open>while (!timeout--)\<close>: the body runs when the counter is 0, and only once then, because the
  counter wraps. \<open>arr\<close> says which PE takes the event before a look.\<close>

function off_wait :: "arrivals \<Rightarrow> hw \<Rightarrow> u32 \<Rightarrow> power_state \<Rightarrow> power_state option" where
  "off_wait arr hw timeout t =
     (if timeout \<noteq> 0 then Some t
      else do {
        let (l, s) = t;
        let s = val_pe_data_cache_invalidate (LVar ''g_handler_called'') s;
        (l, s) \<leftarrow> (case arr (unat timeout) (io s) of None \<Rightarrow> Some (l, s) | Some m \<Rightarrow> handler_048 (hw\<lparr>mpidr_in := m\<rparr>) (l, s));
        if g_handler_called l \<noteq> 0 then Some (l, s) else off_wait arr hw (timeout - 1) (l, s) })"
  by pat_completeness auto

termination off_wait
  by (relation "measure (\<lambda>(_, _, timeout, _). if timeout = 0 then 1 else 0)") auto

declare off_wait.simps [simp del]

definition OFF_TIMEOUT :: u32 where [reg_defs]: "OFF_TIMEOUT = 0x1000"

definition test_048_entry :: "mb_config \<Rightarrow> arrivals \<Rightarrow> u64 \<Rightarrow> u64 \<Rightarrow> hw \<Rightarrow> power_state \<Rightarrow> power_state option" where
  "test_048_entry c arr h f hw t =
     do { let (l, s) = t;
          index \<leftarrow> find_watchdog s;
          let l = l\<lparr>g_wd_index := index\<rparr>;
          if index = - 1 then do { s \<leftarrow> set_own_status hw Sdei_Tests.SDEI_TEST_SKIP s; Some (l, s) }
          else do {
            let s = val_pe_data_cache_clean_invalidate (LVar ''g_wd_index'') s;
            gsiv \<leftarrow> val_wd_get_info index WD_INFO_GSIV s;
            let wd_int_id = (ucast gsiv :: u32);
            let ((err, event_num), s) = val_sdei_interrupt_bind hw wd_int_id s;
            let release = (\<lambda>s. let (err, s) = val_sdei_interrupt_release hw event_num s
                             in if err \<noteq> 0 then sdei_pal_print ACS_LOG_ERR ''Interrupt (%d) release failed'' [ucast wd_int_id] s else s);
            let unregister = (\<lambda>s. let (err, s) = val_sdei_event_unregister hw event_num s
                             in if err \<noteq> 0 then sdei_pal_print ACS_LOG_ERR ''Event (%d) unregister failed'' [ucast event_num] s else s);
            if err \<noteq> 0
            then do { s \<leftarrow> set_own_status hw SDEI_TEST_FAIL (sdei_pal_print ACS_LOG_ERR ''Interrupt (%d) bind failed'' [ucast wd_int_id] s);
                      Some (l, s) }
            else do {
              (i, s) \<leftarrow> other_index hw s;
              m \<leftarrow> sdei_val_pe_get_mpid_index i s;
              let (err, s) = val_sdei_event_register hw event_num h f SDEI_EVENT_REGISTER_RM_PE m s;
              if err \<noteq> 0
              then do { s \<leftarrow> set_own_status hw SDEI_TEST_FAIL (sdei_pal_print ACS_LOG_ERR ''Event (%d) register failed'' [ucast event_num] s);
                        Some (l, release s) }
              else (let (err, s) = val_sdei_event_enable hw event_num s
                    in if err \<noteq> 0
                       then do { s \<leftarrow> set_own_status hw SDEI_TEST_FAIL (sdei_pal_print ACS_LOG_ERR ''Event (%d) enable failed'' [ucast event_num] s);
                                 Some (l, release (unregister s)) }
                       else do {
                         let l = l\<lparr>boxes := val_pe_poweroff c i (boxes l)\<rparr>;
                         s \<leftarrow> val_wd_set_ws0 index 1 s;
                         (l, s) \<leftarrow> off_wait arr hw OFF_TIMEOUT (l, s);
                         s \<leftarrow> val_wd_set_ws0 index 0 s;
                         s \<leftarrow> (if g_handler_called l \<noteq> 0
                               then set_own_status hw SDEI_TEST_FAIL
                                      (sdei_pal_print ACS_LOG_ERR ''Event turned on powered off core'' [] s)
                               else set_own_status hw SDEI_TEST_PASS s);
                         Some (l, release (unregister s)) }) } } }"


subsection \<open>The verdict of the signal test\<close>

lemma own_index_known:
  assumes "runs_as hw i s0" "sg s = sg s0" "shared s = shared s0"
  shows "\<exists>v. sdei_val_pe_get_index hw s = Some (i, v) \<and> sg v = sg s \<and> shared v = shared s"
proof -
  have "sdei_val_pe_get_index_mpid (affx (mpidr_in hw)) (log_io (SysRead ''ArmReadMpidr'') s) = Some i"
    using assms by (simp add: runs_as_def sdei_val_pe_get_index_mpid_def)
  then show ?thesis
    by (simp add: sdei_val_pe_get_index_def sdei_val_pe_get_mpid_def sdei_val_pe_reg_read_def read_sysreg_def Let_def)
qed

lemma signal_runs:
  "val_sdei_event_signal hw e m s =
     (sdei_error (sdei_answer hw s SDEI_1_0_FN_SDEI_EVENT_SIGNAL (ucast e) m 0 0 0),
      sdei_logged hw SDEI_1_0_FN_SDEI_EVENT_SIGNAL (ucast e) m 0 0 0 s)"
  by (simp add: val_sdei_event_signal_def pal_invoke_sdei_fn_run sdei_error_def Let_def)

text \<open>The handler of test 33 changes the flag only.\<close>

lemma await_033:
  "returns (\<lambda>(l', s'). sg s' = sg s \<and> shared s' = shared s) (await True False arr handler_033 hw n (l, s))"
proof (induction n arbitrary: l s)
  case 0
  show ?case by (auto simp: await.simps [of _ _ _ _ _ 0] look_def handler_033_def handled_def split: option.split)
next
  case (Suc n)
  show ?case
    using Suc.IH [of s l]
    by (auto simp: await.simps [of _ _ _ _ _ "Suc n"] look_def handler_033_def handled_def split: option.split)
qed

lemma poll_quietly_frame: "sg (snd (poll_quietly hw e msk n s)) = sg s" "shared (snd (poll_quietly hw e msk n s)) = shared s"
proof (induction n arbitrary: s)
  case 0
  { case 1 show ?case by (simp add: poll_quietly.simps [of _ _ _ 0] call_runs Let_def) }
  { case 2 show ?case by (simp add: poll_quietly.simps [of _ _ _ 0] call_runs Let_def) }
next
  case (Suc n)
  { case 1 show ?case using Suc.IH by (simp add: poll_quietly.simps [of _ _ _ "Suc n"] call_runs Let_def) }
  { case 2 show ?case using Suc.IH by (simp add: poll_quietly.simps [of _ _ _ "Suc n"] call_runs Let_def) }
qed

lemma unregister_silently_status: "fst (unregister_silently e lab hw t) = fst t"
  "status_word i (snd (unregister_silently e lab hw t)) = status_word i (snd t)"
  by (auto simp: unregister_silently_def call_runs intro: sdei_status_word_cong)

lemma quiet_call_step:
  assumes "lab \<noteq> Go"
    and "\<And>err v. call hw (l, s) = (err, v) \<Longrightarrow> err \<noteq> 0 \<Longrightarrow>
      returns Q (do { v \<leftarrow> set_own_status hw SDEI_TEST_FAIL v; Some (lab, l, v) })"
    and "\<And>err v. call hw (l, s) = (err, v) \<Longrightarrow> returns Q (run_steps fs hw (l, v))"
  shows "returns Q (run_steps (quiet_call lab call # fs) hw (l, s))"
proof (cases "call hw (l, s)")
  case (Pair err v)
  have "run_steps (quiet_call lab call # fs) hw (l, s) =
      (if err \<noteq> 0 then do { v \<leftarrow> set_own_status hw SDEI_TEST_FAIL v; Some (lab, l, v) } else run_steps fs hw (l, v))"
    using assms(1) by (cases "set_own_status hw SDEI_TEST_FAIL v") (simp_all add: quiet_call_def Pair)
  then show ?thesis using assms(2,3) [OF Pair] by simp
qed

text \<open>What the payload of test 33 must have reported at any of its labels.\<close>

definition flag_reported :: "u32 \<Rightarrow> label \<times> wd_state \<Rightarrow> bool" where
  "flag_reported i t \<longleftrightarrow>
     status_word i (snd (snd t)) = (if g_handler_flag (fst (snd t)) = 0 then SDEI_TEST_PASS else SDEI_TEST_FAIL)"

lemma failure_reported:
  assumes "runs_as hw i s" "sg u = sg s" "shared u = shared s" "g_handler_flag l \<noteq> 0"
  shows "returns (flag_reported i) (do { v \<leftarrow> set_own_status hw SDEI_TEST_FAIL u; Some (lab, l, v) })"
  by (rule returns_seq [OF own_status_returns [OF assms(1-3)]]) (simp add: flag_reported_def assms(4))

definition signal_waits :: "arrivals \<Rightarrow> step list" where
  "signal_waits arr = [wait_quietly arr handler_033 (unat TIMEOUT_MEDIUM), report SDEI_TEST_PASS, settle_quietly 0]"

lemma signal_waits_reported:
  assumes "runs_as hw i s" "sg u = sg s" "shared u = shared s"
  shows "returns (flag_reported i) (run_steps (signal_waits arr) hw (l, u))"
proof -
  obtain l' v where a: "await True False arr handler_033 hw (unat TIMEOUT_MEDIUM) (l, u) = Some (l', v)"
      "sg v = sg s" "shared v = shared s"
    using await_033 [of u arr hw "unat TIMEOUT_MEDIUM" l] assms(2,3) by (auto simp: returns_def)
  obtain w where w: "set_own_status hw SDEI_TEST_PASS v = Some w" "status_word i w = SDEI_TEST_PASS"
    using own_status_returns [OF assms(1) a(2,3), of SDEI_TEST_PASS] by (auto simp: returns_def)
  have "status_word i (snd (poll_quietly hw 0 EVENT_STATUS_RUNNING_BIT (unat TIMEOUT_MEDIUM) w)) = SDEI_TEST_PASS"
    using w(2) sdei_status_word_cong [OF poll_quietly_frame(2)] by simp
  then show ?thesis
    using failure_reported [OF assms(1) a(2,3), of l' To_unregister] w(1)
    by (cases "g_handler_flag l' = 0")
      (auto simp: signal_waits_def flag_reported_def wait_quietly_def a(1) report_def settle_quietly_def returns_def)
qed

lemma signal_self_reported:
  assumes "runs_as hw i s" "sdei_val_pe_get_mpid_index i s \<noteq> None" "sg u = sg s" "shared u = shared s" "g_handler_flag l \<noteq> 0"
  shows "returns (flag_reported i) (run_steps (signal_self # signal_waits arr) hw (l, u))"
proof -
  obtain v where v: "sdei_val_pe_get_index hw u = Some (i, v)" "sg v = sg s" "shared v = shared s"
    using own_index_known [OF assms(1,3,4)] assms(3,4) by auto
  obtain m where m: "sdei_val_pe_get_mpid_index i v = Some m"
    using assms(2) mpid_index_cong [OF v(2), of i] by auto
  define w where "w = sdei_logged hw SDEI_1_0_FN_SDEI_EVENT_SIGNAL (ucast (0 :: u32)) m 0 0 0 v"
  define err where "err = sdei_error (sdei_answer hw v SDEI_1_0_FN_SDEI_EVENT_SIGNAL (ucast (0 :: u32)) m 0 0 0)"
  have w: "sg w = sg s" "shared w = shared s" using v(2,3) by (simp_all add: w_def)
  let ?w = "sdei_pal_print ACS_LOG_ERR ''SDEI event signal failed with err %d'' [ucast err] w"
  have "signal_self hw (l, u) =
      (if err \<noteq> 0 then do { z \<leftarrow> set_own_status hw SDEI_TEST_FAIL ?w; Some (To_unregister, l, z) } else Some (Go, l, w))"
    by (simp add: signal_self_def own_affinity_def v(1) m signal_runs w_def err_def flunk_def Let_def)
  moreover have "returns (flag_reported i) (do { z \<leftarrow> set_own_status hw SDEI_TEST_FAIL ?w; Some (To_unregister, l, z) })"
    by (rule failure_reported [OF assms(1)]) (simp_all add: w assms(5))
  ultimately show ?thesis
    using signal_waits_reported [OF assms(1) w] by (cases "err = 0") (auto simp: returns_def)
qed

text \<open>C11: Whatever the firmware answers and whenever the event arrives, the payload of the signal test ends, and
  it reports PASS exactly when the handler has taken the flag down.\<close>

theorem signal_payload_verdict:
  assumes "runs_as hw i s" "sdei_val_pe_get_mpid_index i s \<noteq> None"
  shows "returns (\<lambda>(l', s'). status_word i s' = (if g_handler_flag l' = 0 then SDEI_TEST_PASS else SDEI_TEST_FAIL))
     (payload_033 arr h f hw (l, s))"
proof -
  let ?l = "l\<lparr>g_handler_flag := 1\<rparr>"
  let ?enable = "quiet_call To_unregister (\<lambda>hw t. val_sdei_event_enable hw 0 (snd t))"
  let ?register = "quiet_call Return (\<lambda>hw t. val_sdei_event_register hw 0 h f 0 0 (snd t))"
  have fails: "returns (flag_reported i) (do { v \<leftarrow> set_own_status hw SDEI_TEST_FAIL u; Some (lab, ?l, v) })"
    if "sg u = sg s" "shared u = shared s" for u lab
    by (rule failure_reported [OF assms(1) that]) simp
  have enables: "returns (flag_reported i) (run_steps (?enable # signal_self # signal_waits arr) hw (?l, u))"
    if "sg u = sg s" "shared u = shared s" for u
    by (rule quiet_call_step)
      (auto simp: call_runs that simp del: run_steps.simps intro: fails signal_self_reported [OF assms])
  have "returns (flag_reported i) (run_steps (?register # ?enable # signal_self # signal_waits arr) hw (?l, s))"
  proof (rule quiet_call_step)
    fix err v assume v: "val_sdei_event_register hw 0 h f 0 0 (snd (?l, s)) = (err, v)"
    then show "returns (flag_reported i) (do { v \<leftarrow> set_own_status hw SDEI_TEST_FAIL v; Some (Return, ?l, v) })"
      by (intro fails) (auto simp: call_runs)
    show "returns (flag_reported i) (run_steps (?enable # signal_self # signal_waits arr) hw (?l, v))"
      using v by (intro enables) (auto simp: call_runs)
  qed simp
  then have "returns (flag_reported i) (run_steps (flag_up # ?register # ?enable # signal_self # signal_waits arr) hw (l, s))"
    unfolding run_steps.simps(2) [of flag_up] by (simp add: flag_up_def del: run_steps.simps)
  then show ?thesis
    unfolding payload_033_def signal_waits_def
    by (rule returns_seq) (simp add: flag_reported_def split_beta unregister_silently_status split: prod.splits)
qed

text \<open>The wait of test 48 ends at once: the watchdog is stopped and the verdict given before the event can arrive.\<close>

lemma off_wait_ends: "off_wait arr hw OFF_TIMEOUT t = Some t"
  by (simp add: off_wait.simps OFF_TIMEOUT_def)

lemma last_watchdog_found:
  assumes "watchdog_ready s"
  shows "\<exists>j g. j \<noteq> - 1 \<and> find_watchdog s = Some j \<and> (\<forall>u. sg u = sg s \<longrightarrow> val_wd_get_info j WD_INFO_GSIV u = Some g \<and>
     (\<forall>k. \<exists>v. val_wd_set_ws0 j k u = Some v \<and> sg v = sg u \<and> shared v = shared u))"
proof -
  obtain t where t: "g_wd_info_table (sg s) = Some t" "0 < num_wd t" "unat (num_wd t) \<le> length (wd_info t)"
      "\<not> bit (wd_flags (wd_info t ! (unat (num_wd t) - 1))) 2"
    using assms by (auto simp: watchdog_ready_def Let_def)
  note sel = selects_last [OF t(1-3)]
  have n: "unat (num_wd t) = Suc (unat (num_wd t - 1))"
    using t(2) by (simp add: unat_minus_one word_gt_0 unat_gt_0)
  have same: "(ucast (ucast (num_wd t) :: u64) :: u32) = num_wd t" by (rule bit_word_eqI) (simp add: bit_simps)
  have "val_wd_get_info (num_wd t - 1) WD_INFO_ISSECURE s = Some 0"
    using sel(2) [of WD_INFO_ISSECURE] secure_flag [THEN iffD2, OF t(4)] by simp
  then have "find_watchdog s = Some (num_wd t - 1)"
    by (simp add: find_watchdog_def sel(1) same n)
  moreover have "num_wd t - 1 \<noteq> - 1" using t(2) by auto
  moreover have "val_wd_get_info (num_wd t - 1) WD_INFO_GSIV u = Some (ucast (wd_gsiv (wd_info t ! (unat (num_wd t) - 1))))"
    if "sg u = sg s" for u using selects_last(2) [of u t WD_INFO_GSIV] t(1-3) that by simp
  moreover have "\<exists>v. val_wd_set_ws0 (num_wd t - 1) k u = Some v \<and> sg v = sg u \<and> shared v = shared u" if "sg u = sg s" for k u
    using that t(1) sel(3) by (auto simp: val_wd_set_ws0_def wd_ctrl_def pal_wd_set_ws0_def sdei_pal_mmio_write_def log_io_def)
  ultimately show ?thesis by blast
qed


lemma signal_payload_verdict_witness:
  "returns (\<lambda>(l', s'). status_word 0 s' = (if g_handler_flag l' = 0 then SDEI_TEST_PASS else SDEI_TEST_FAIL))
     (payload_033 (\<lambda>_ _. None) 0x7000 0x8000 pair_hw (fresh_vars, both_sources_world))"
  by (rule signal_payload_verdict [OF both_sources_ready(1,6)])


end
