(* ===== verification/Sbbr_World.thy ===== *)
theory Sbbr_World
  imports Acs_Machine
begin

text \<open>
  World of the SBBR tests (src/sbbr/tests): black-box test cases for the UEFI Self Certification
  Test (SCT). A test case asks the UEFI firmware under test for tables, memory map, protocols,
  variables and resets, and reports by recording assertions. Neither the firmware nor the SCT is
  code of the repository: both are the parameter \<open>uefi\<close>, a record of the answers the tests use.
  The state holds what the tests change: the recorded assertions, the pool, the runtime table, the
  task priority and the non-volatile storage, whose type \<open>'m\<close> stays open. The formatted text of
  an assertion is left out, its type, GUID and name are kept. \<open>None\<close> is a run that does not return
  or has undefined behaviour.
\<close>

subsection \<open>Types and constants of the UEFI specification\<close>

record EFI_GUID =
  Data1 :: u32
  Data2 :: u16
  Data3 :: u16
  Data4 :: "u8 list"

definition EFI_SUCCESS :: u64 where "EFI_SUCCESS = 0"
definition EFI_LOAD_ERROR :: u64 where "EFI_LOAD_ERROR = 0x8000000000000001"
definition EFI_UNSUPPORTED :: u64 where "EFI_UNSUPPORTED = 0x8000000000000003"
definition EFI_BUFFER_TOO_SMALL :: u64 where "EFI_BUFFER_TOO_SMALL = 0x8000000000000005"
definition EFI_OUT_OF_RESOURCES :: u64 where "EFI_OUT_OF_RESOURCES = 0x8000000000000009"
definition EFI_NO_MEDIA :: u64 where "EFI_NO_MEDIA = 0x800000000000000C"
definition EFI_NOT_FOUND :: u64 where "EFI_NOT_FOUND = 0x800000000000000E"
definition EFI_ABORTED :: u64 where "EFI_ABORTED = 0x8000000000000015"
definition EFI_INCOMPATIBLE_VERSION :: u64 where "EFI_INCOMPATIBLE_VERSION = 0x8000000000000019"

lemmas efi_codes = EFI_SUCCESS_def EFI_LOAD_ERROR_def EFI_UNSUPPORTED_def EFI_BUFFER_TOO_SMALL_def
  EFI_OUT_OF_RESOURCES_def EFI_NO_MEDIA_def EFI_NOT_FOUND_def EFI_ABORTED_def
  EFI_INCOMPATIBLE_VERSION_def

lemma EFI_ERROR_codes [simp]:
  "\<not> EFI_ERROR EFI_SUCCESS" "EFI_ERROR EFI_LOAD_ERROR" "EFI_ERROR EFI_UNSUPPORTED"
  "EFI_ERROR EFI_BUFFER_TOO_SMALL" "EFI_ERROR EFI_OUT_OF_RESOURCES" "EFI_ERROR EFI_NO_MEDIA"
  "EFI_ERROR EFI_NOT_FOUND" "EFI_ERROR EFI_ABORTED" "EFI_ERROR EFI_INCOMPATIBLE_VERSION"
  by (simp_all add: EFI_ERROR_def efi_codes)

datatype EFI_MEMORY_TYPE =
    EfiReservedMemoryType | EfiLoaderCode | EfiLoaderData | EfiBootServicesCode
  | EfiBootServicesData | EfiRuntimeServicesCode | EfiRuntimeServicesData
  | EfiConventionalMemory | EfiOtherMemory u32

record EFI_MEMORY_DESCRIPTOR =
  MemType :: EFI_MEMORY_TYPE
  PhysicalStart :: u64
  VirtualStart :: u64
  NumberOfPages :: u64
  Attribute :: u64

definition EFI_MEMORY_WB :: u64 where "EFI_MEMORY_WB = 8"
definition EFI_PAGE_SIZE :: u64 where "EFI_PAGE_SIZE = 0x1000"

text \<open>The header and the fourteen services of the runtime table.\<close>

record EFI_RUNTIME_SERVICES =
  Signature :: u64
  Revision :: u32
  HeaderSize :: u32
  CRC32 :: u32
  Reserved :: u32
  GetTime :: u64
  SetTime :: u64
  GetWakeupTime :: u64
  SetWakeupTime :: u64
  SetVirtualAddressMap :: u64
  ConvertPointer :: u64
  GetVariablePtr :: u64
  GetNextVariableName :: u64
  SetVariablePtr :: u64
  GetNextHighMonotonicCount :: u64
  ResetSystemPtr :: u64
  QueryVariableInfo :: u64
  QueryCapsuleCapabilities :: u64
  UpdateCapsule :: u64

definition EFI_RUNTIME_SERVICES_SIGNATURE :: u64 where
  "EFI_RUNTIME_SERVICES_SIGNATURE = 0x56524553544e5552"

datatype EFI_RESET_TYPE = EfiResetCold | EfiResetWarm | EfiResetShutdown

subsection \<open>What the tests read\<close>

text \<open>
  The structures the firmware publishes, each as the fields the tests use and, where a test sums
  them, the bytes of the structure.
\<close>

record RSDP =
  rsdp_Signature :: "u8 list"
  rsdp_Length :: u32
  rsdp_XsdtAddress :: u64
  rsdp_bytes :: "nat \<Rightarrow> u8"

record SMBIOS_TABLE_3_0_ENTRY_POINT =
  AnchorString :: "u8 list"
  EntryPointLength :: u8
  MajorVersion :: u8
  MinorVersion :: u8
  EntryPointRevision :: u8
  TableMaximumSize :: u32
  TableAddress :: u64
  smbios_bytes :: "nat \<Rightarrow> u8"

text \<open>What a call of GetMemoryMap leaves: status, size, stride and the descriptor at each stride.\<close>

record memory_map =
  mm_status :: u64
  mm_size :: u64
  mm_stride :: u64
  mm_desc :: "nat \<Rightarrow> EFI_MEMORY_DESCRIPTOR"

text \<open>
  A block device: opening it, its block size, allocating a block, the status of reading a block,
  the fields of block 1 read as a GPT header, and the type GUID at an offset of a block.
\<close>

record block_io =
  open_status :: u64
  BlockSize :: u32
  alloc_status :: u64
  read_status :: "u64 \<Rightarrow> u64"
  gpt_Signature :: "u8 list"
  PartitionEntryLBA :: u64
  NumberOfPartitionEntries :: u32
  SizeOfPartitionEntry :: u32
  PartitionTypeGUID :: "u64 \<Rightarrow> nat \<Rightarrow> EFI_GUID"

text \<open>
  The firmware and the SCT libraries. GetMemoryMap and AllocatePool may answer each call
  differently: the first argument counts the calls. \<open>ReadResetRecord\<close> gives a status, a size and
  the bytes it stores; \<open>reset_returns\<close> says whether a reset of a type fails to happen at a task
  priority, \<open>after_reset\<close> what the storage holds after one, and \<open>uninitialised\<close> what a byte of a
  local array holds before it is written.
\<close>

record 'm uefi =
  standard_lib :: u64
  recovery_lib :: u64
  config_acpi :: "u64 \<times> RSDP"
  config_smbios :: "u64 \<times> SMBIOS_TABLE_3_0_ENTRY_POINT"
  GetMemoryMap :: "nat \<Rightarrow> u64 \<Rightarrow> memory_map"
  AllocatePool :: "nat \<Rightarrow> u64 \<Rightarrow> bool"
  bs_Revision :: u32
  current_el :: u64
  LocateHandleBuffer :: "EFI_GUID \<Rightarrow> u64 \<times> u64"
  block_handles :: "u64 \<times> block_io list"
  CalculateCrc32 :: "EFI_RUNTIME_SERVICES \<Rightarrow> u64 \<times> u32"
  ReadResetRecord :: "'m \<Rightarrow> u64 \<times> u64 \<times> u8 list \<times> 'm"
  WriteResetRecord :: "u8 list \<Rightarrow> 'm \<Rightarrow> u64 \<times> 'm"
  GetVariable :: "string \<Rightarrow> EFI_GUID \<Rightarrow> u64 \<Rightarrow> 'm \<Rightarrow> u64 \<times> u64 \<times> u8 list"
  SetVariable :: "string \<Rightarrow> EFI_GUID \<Rightarrow> u32 \<Rightarrow> u8 list \<Rightarrow> 'm \<Rightarrow> u64 \<times> 'm"
  reset_returns :: "EFI_RESET_TYPE \<Rightarrow> u64 \<Rightarrow> bool"
  after_reset :: "'m \<Rightarrow> 'm"
  uninitialised :: "nat \<Rightarrow> u8"

subsection \<open>The state\<close>

datatype EFI_TEST_ASSERTION =
  EFI_TEST_ASSERTION_PASSED | EFI_TEST_ASSERTION_FAILED | EFI_TEST_ASSERTION_WARNING

text \<open>The GUID of the generic failure is the SCT's own.\<close>

datatype assertion_guid = gTestGenericFailureGuid | Guid EFI_GUID

record assertion =
  a_type :: EFI_TEST_ASSERTION
  a_guid :: assertion_guid
  a_name :: string

record 'm sbbr =
  assertions :: "assertion list"
  gmm_calls :: nat
  pool_calls :: nat
  pool_live :: nat
  protocols_open :: nat
  gtRT :: EFI_RUNTIME_SERVICES
  tpl :: u64
  storage :: 'm

datatype 'm outcome = Returned u64 "'m sbbr" | Restarted "'m sbbr"

fun state_of :: "'m outcome \<Rightarrow> 'm sbbr" where
  "state_of (Returned st s) = s"
| "state_of (Restarted s) = s"

definition RecordAssertion :: "EFI_TEST_ASSERTION \<Rightarrow> assertion_guid \<Rightarrow> string \<Rightarrow> 'm sbbr \<Rightarrow> 'm sbbr" where
  "RecordAssertion t g n s =
     s\<lparr>assertions := assertions s @ [\<lparr>a_type = t, a_guid = g, a_name = n\<rparr>]\<rparr>"

text \<open>Every test asks for the standard library first and returns the status when there is none.\<close>

definition with_standard_lib :: "'m uefi \<Rightarrow> 'm sbbr \<Rightarrow> ('m sbbr \<Rightarrow> 'm outcome option) \<Rightarrow> 'm outcome option" where
  "with_standard_lib fw s k =
     (if EFI_ERROR (standard_lib fw) then Some (Returned (standard_lib fw) s) else k s)"

text \<open>The types of the assertions that a run adds.\<close>

definition added :: "'m sbbr \<Rightarrow> 'm sbbr \<Rightarrow> EFI_TEST_ASSERTION list" where
  "added s t = map a_type (drop (length (assertions s)) (assertions t))"

lemma added_self [simp]: "added s s = []"
  by (simp add: added_def)

lemma RecordAssertion_sel [simp]:
  "assertions (RecordAssertion t g n s) = assertions s @ [\<lparr>a_type = t, a_guid = g, a_name = n\<rparr>]"
  "gmm_calls (RecordAssertion t g n s) = gmm_calls s"
  "pool_calls (RecordAssertion t g n s) = pool_calls s"
  "pool_live (RecordAssertion t g n s) = pool_live s"
  "protocols_open (RecordAssertion t g n s) = protocols_open s"
  "gtRT (RecordAssertion t g n s) = gtRT s"
  "tpl (RecordAssertion t g n s) = tpl s"
  "storage (RecordAssertion t g n s) = storage s"
  by (simp_all add: RecordAssertion_def)

lemma added_Record [simp]: "added s (RecordAssertion t g n s) = [t]"
  by (simp add: added_def)

subsection \<open>Bytes\<close>

text \<open>Little-endian numbers in a buffer, and a service that stores bytes at its start.\<close>

fun le_nat :: "u8 list \<Rightarrow> nat" where
  "le_nat [] = 0"
| "le_nat (b # bs) = unat b + 256 * le_nat bs"

fun le_bytes :: "nat \<Rightarrow> nat \<Rightarrow> u8 list" where
  "le_bytes 0 n = []"
| "le_bytes (Suc k) n = word_of_nat n # le_bytes k (n div 256)"

lemma length_le_bytes [simp]: "length (le_bytes k n) = k"
  by (induction k arbitrary: n) simp_all

lemma le_nat_bytes: "le_nat (le_bytes k n) = n mod 256 ^ k"
proof (induction k arbitrary: n)
  case 0
  then show ?case by simp
next
  case (Suc k)
  have "n mod (256 * 256 ^ k) = 256 * (n div 256 mod 256 ^ k) + n mod 256"
    by (rule mod_mult2_eq)
  then show ?case by (simp add: Suc unat_of_nat)
qed

definition store :: "u8 list \<Rightarrow> u8 list \<Rightarrow> u8 list option" where
  "store bs buf = (if length bs \<le> length buf then Some (bs @ drop (length bs) buf) else None)"

definition stack_bytes :: "'m uefi \<Rightarrow> nat \<Rightarrow> u8 list" where
  "stack_bytes fw n = map (uninitialised fw) [0..<n]"

lemma length_stack_bytes [simp]: "length (stack_bytes fw n) = n"
  by (simp add: stack_bytes_def)

definition GUID_bytes :: "EFI_GUID \<Rightarrow> u8 list" where
  "GUID_bytes g = le_bytes 4 (unat (Data1 g)) @ le_bytes 2 (unat (Data2 g)) @
     le_bytes 2 (unat (Data3 g)) @ Data4 g"

subsection \<open>A concrete firmware\<close>

text \<open>
  A firmware for the witnesses: it keeps one reset record and one variable, answers the memory map
  at once, and resets whenever it is asked to.
\<close>

type_synonym nv = "u8 list option \<times> u8 list option"

definition sample_descriptor :: EFI_MEMORY_DESCRIPTOR where
  "sample_descriptor = \<lparr>MemType = EfiRuntimeServicesData, PhysicalStart = 0x1000, VirtualStart = 0,
     NumberOfPages = 2, Attribute = 8\<rparr>"

definition sample_table :: EFI_RUNTIME_SERVICES where
  "sample_table = \<lparr>Signature = EFI_RUNTIME_SERVICES_SIGNATURE, Revision = 0x00020046,
     HeaderSize = 136, CRC32 = 5, Reserved = 0, GetTime = 1, SetTime = 1, GetWakeupTime = 1,
     SetWakeupTime = 1, SetVirtualAddressMap = 1, ConvertPointer = 1, GetVariablePtr = 1,
     GetNextVariableName = 1, SetVariablePtr = 1, GetNextHighMonotonicCount = 1,
     ResetSystemPtr = 1, QueryVariableInfo = 1, QueryCapsuleCapabilities = 1, UpdateCapsule = 1\<rparr>"

definition sample_uefi :: "block_io list \<Rightarrow> nv uefi" where
  "sample_uefi disks = \<lparr>standard_lib = 0, recovery_lib = 0,
     config_acpi = (0, \<lparr>rsdp_Signature = [], rsdp_Length = 36, rsdp_XsdtAddress = 0x1000,
        rsdp_bytes = (\<lambda>_. 0)\<rparr>),
     config_smbios = (0, \<lparr>AnchorString = [0x5F, 0x53, 0x4D, 0x33, 0x5F], EntryPointLength = 24,
        MajorVersion = 3, MinorVersion = 2, EntryPointRevision = 1, TableMaximumSize = 0x100,
        TableAddress = 0x1000, smbios_bytes = (\<lambda>_. 0)\<rparr>),
     GetMemoryMap = (\<lambda>_ n. \<lparr>mm_status = if n = 0 then EFI_BUFFER_TOO_SMALL else 0, mm_size = 48,
        mm_stride = 48, mm_desc = (\<lambda>_. sample_descriptor)\<rparr>),
     AllocatePool = (\<lambda>_ _. True), bs_Revision = 0x00020046, current_el = 8,
     LocateHandleBuffer = (\<lambda>_. (0, 1)), block_handles = (0, disks),
     CalculateCrc32 = (\<lambda>_. (0, 5)),
     ReadResetRecord = (\<lambda>(r, v). case r of None \<Rightarrow> (EFI_NOT_FOUND, 0, [], (r, v))
        | Some b \<Rightarrow> (EFI_SUCCESS, word_of_nat (length b), b, (r, v))),
     WriteResetRecord = (\<lambda>b (r, v). (EFI_SUCCESS, (Some b, v))),
     GetVariable = (\<lambda>_ _ n (r, v). case v of None \<Rightarrow> (EFI_NOT_FOUND, 0, [])
        | Some d \<Rightarrow> if length d \<le> unat n then (EFI_SUCCESS, word_of_nat (length d), d)
                    else (EFI_BUFFER_TOO_SMALL, word_of_nat (length d), [])),
     SetVariable = (\<lambda>_ _ _ d (r, v). (EFI_SUCCESS, (r, if d = [] then None else Some d))),
     reset_returns = (\<lambda>_ _. False), after_reset = (\<lambda>m. m), uninitialised = (\<lambda>_. 0)\<rparr>"

definition sample_state :: "nv sbbr" where
  "sample_state = \<lparr>assertions = [], gmm_calls = 0, pool_calls = 0, pool_live = 0,
     protocols_open = 0, gtRT = sample_table, tpl = 4, storage = (None, None)\<rparr>"

subsection \<open>GUIDs of the tests\<close>

definition gSBBRRuntimeServicesAssertion001Guid :: EFI_GUID where
  "gSBBRRuntimeServicesAssertion001Guid =
     \<lparr>Data1 = 0x787ad247, Data2 = 0xc901, Data3 = 0x49d8,
      Data4 = [0x84, 0x82, 0x91, 0x5e, 0x09, 0x61, 0xcf, 0x34]\<rparr>"

definition gSBBRRuntimeServicesAssertion002Guid :: EFI_GUID where
  "gSBBRRuntimeServicesAssertion002Guid =
     \<lparr>Data1 = 0xcd4cedc0, Data2 = 0xf8e3, Data3 = 0x4f75,
      Data4 = [0xbd, 0xec, 0x6d, 0xf2, 0xa6, 0x9f, 0xa4, 0x0f]\<rparr>"

definition gSBBRRuntimeServicesAssertion003Guid :: EFI_GUID where
  "gSBBRRuntimeServicesAssertion003Guid =
     \<lparr>Data1 = 0x5a353070, Data2 = 0xc002, Data3 = 0x48b7,
      Data4 = [0xae, 0x15, 0x80, 0x77, 0xe2, 0x7a, 0x25, 0xaf]\<rparr>"

definition gSBBRRuntimeServicesAssertion004Guid :: EFI_GUID where
  "gSBBRRuntimeServicesAssertion004Guid =
     \<lparr>Data1 = 0xe8c528de, Data2 = 0x4b69, Data3 = 0x4c6b,
      Data4 = [0xaa, 0xec, 0x69, 0x64, 0x59, 0x69, 0x26, 0x6f]\<rparr>"

definition gSbbrBootServicesAssertion001Guid :: EFI_GUID where
  "gSbbrBootServicesAssertion001Guid =
     \<lparr>Data1 = 0x58a44f17, Data2 = 0x760e, Data3 = 0x478b,
      Data4 = [0xba, 0xef, 0xe2, 0x0b, 0xfb, 0xcd, 0x74, 0x57]\<rparr>"

definition gSbbrBootServicesAssertion002Guid :: EFI_GUID where
  "gSbbrBootServicesAssertion002Guid =
     \<lparr>Data1 = 0x1e4cdbab, Data2 = 0x9727, Data3 = 0x4f71,
      Data4 = [0x88, 0x25, 0xb4, 0xb1, 0x6a, 0x58, 0xcf, 0x84]\<rparr>"

definition gSbbrBootServicesAssertion003Guid :: EFI_GUID where
  "gSbbrBootServicesAssertion003Guid =
     \<lparr>Data1 = 0x2a326d84, Data2 = 0x5e23, Data3 = 0x40e1,
      Data4 = [0xb8, 0xae, 0xf7, 0xa9, 0xce, 0x18, 0xf9, 0xb5]\<rparr>"

definition gEfiSpecVerLvlAssertion01Guid :: EFI_GUID where
  "gEfiSpecVerLvlAssertion01Guid =
     \<lparr>Data1 = 0x14932290, Data2 = 0x563b, Data3 = 0x4d20,
      Data4 = [0x95, 0xa7, 0xee, 0xc0, 0x2d, 0xbb, 0x1b, 0x13]\<rparr>"

definition gRequiredUefiProtocolsAssertion001Guid :: EFI_GUID where
  "gRequiredUefiProtocolsAssertion001Guid =
     \<lparr>Data1 = 0x6092f275, Data2 = 0x19ca, Data3 = 0x413a,
      Data4 = [0xac, 0xc8, 0x60, 0xd6, 0xe0, 0xca, 0x70, 0x54]\<rparr>"

definition gSbbrSmbiosAssertion001Guid :: EFI_GUID where
  "gSbbrSmbiosAssertion001Guid =
     \<lparr>Data1 = 0xed2399ae, Data2 = 0x416e, Data3 = 0x46c6,
      Data4 = [0xac, 0xa2, 0xd9, 0xb1, 0xcf, 0x99, 0x75, 0xcd]\<rparr>"

definition gSysEnvConfigAssertion001Guid :: EFI_GUID where
  "gSysEnvConfigAssertion001Guid =
     \<lparr>Data1 = 0xcc5c4f70, Data2 = 0xbfc9, Data3 = 0x48be,
      Data4 = [0x97, 0xf8, 0xca, 0xac, 0xfd, 0x8b, 0x97, 0x5e]\<rparr>"

definition gSysEnvConfigAssertion002Guid :: EFI_GUID where
  "gSysEnvConfigAssertion002Guid =
     \<lparr>Data1 = 0x6e3f022e, Data2 = 0x425b, Data3 = 0x42cd,
      Data4 = [0x83, 0x07, 0xb5, 0x67, 0xb9, 0xdb, 0x3d, 0x5d]\<rparr>"

definition gSysEnvConfigAssertion003Guid :: EFI_GUID where
  "gSysEnvConfigAssertion003Guid =
     \<lparr>Data1 = 0x91d5b963, Data2 = 0x1da8, Data3 = 0x4c1d,
      Data4 = [0x91, 0x3e, 0xd3, 0x4b, 0xb3, 0xa7, 0x3a, 0x1c]\<rparr>"

definition gSysEnvConfigAssertion004Guid :: EFI_GUID where
  "gSysEnvConfigAssertion004Guid =
     \<lparr>Data1 = 0x9f0b093e, Data2 = 0x7606, Data3 = 0x4c94,
      Data4 = [0xa1, 0xaa, 0x85, 0x56, 0x7f, 0xd4, 0xbf, 0x15]\<rparr>"

definition SBBRRUNTIMESERVICES_NONVOLATILEVARIABLE_RESET_GUID :: EFI_GUID where
  "SBBRRUNTIMESERVICES_NONVOLATILEVARIABLE_RESET_GUID =
     \<lparr>Data1 = 0xf3a95660, Data2 = 0xce09, Data3 = 0x418b,
      Data4 = [0x93, 0xfe, 0xd3, 0xfa, 0x9d, 0xe3, 0x9b, 0x45]\<rparr>"

definition VENDOR_GUID :: EFI_GUID where
  "VENDOR_GUID =
     \<lparr>Data1 = 0xb110c08e, Data2 = 0x9756, Data3 = 0x4d88,
      Data4 = [0xb5, 0x5a, 0x4a, 0x4f, 0x60, 0x3e, 0x71, 0x70]\<rparr>"

definition GPT_EFI_PARTITION_GUID :: EFI_GUID where
  "GPT_EFI_PARTITION_GUID =
     \<lparr>Data1 = 0xC12A7328, Data2 = 0xF81F, Data3 = 0x11D2,
      Data4 = [0xBA, 0x4B, 0x00, 0xA0, 0xC9, 0x3E, 0xC9, 0x3B]\<rparr>"

definition EFI_LOAD_FILE_PROTOCOL_GUID :: EFI_GUID where
  "EFI_LOAD_FILE_PROTOCOL_GUID =
     \<lparr>Data1 = 0x56EC3091, Data2 = 0x954C, Data3 = 0x11d2,
      Data4 = [0x8E, 0x3F, 0x00, 0xA0, 0xC9, 0x69, 0x72, 0x3B]\<rparr>"

definition SBBRRUNTIMESERVICES_TEST_GUID :: EFI_GUID where
  "SBBRRUNTIMESERVICES_TEST_GUID =
     \<lparr>Data1 = 0x52A69BBF, Data2 = 0xE19F, Data3 = 0x4e82,
      Data4 = [0x93, 0xD6, 0xAA, 0xC4, 0x6E, 0x2E, 0x1E, 0x06]\<rparr>"

definition SBBRRUNTIMESERVICES_TEST_CASE_GUID :: EFI_GUID where
  "SBBRRUNTIMESERVICES_TEST_CASE_GUID =
     \<lparr>Data1 = 0xe867fa15, Data2 = 0x942b, Data3 = 0x4c69,
      Data4 = [0xad, 0xee, 0xf9, 0x3b, 0x11, 0x71, 0xd0, 0x8c]\<rparr>"

definition SBBRRUNTIMESERVICES_TEST_CASE_RESETSHUTDOWN_GUID :: EFI_GUID where
  "SBBRRUNTIMESERVICES_TEST_CASE_RESETSHUTDOWN_GUID =
     \<lparr>Data1 = 0x877143a4, Data2 = 0xad97, Data3 = 0x4213,
      Data4 = [0x8f, 0x7f, 0x7d, 0xd3, 0x7e, 0xa4, 0x63, 0xd5]\<rparr>"

definition SBBRRUNTIMESERVICES_TEST_CASE_NONVOLATILEVARIABLE_GUID :: EFI_GUID where
  "SBBRRUNTIMESERVICES_TEST_CASE_NONVOLATILEVARIABLE_GUID =
     \<lparr>Data1 = 0xa5936aeb, Data2 = 0x3642, Data3 = 0x4d1d,
      Data4 = [0xb2, 0x26, 0x09, 0xe0, 0xe0, 0xa5, 0x2b, 0xaf]\<rparr>"

definition SBBRBOOTSERVICES_TEST_GUID :: EFI_GUID where
  "SBBRBOOTSERVICES_TEST_GUID =
     \<lparr>Data1 = 0x8dafd7a7, Data2 = 0x44d0, Data3 = 0x4cf4,
      Data4 = [0x9d, 0x28, 0x9f, 0x87, 0x08, 0x0f, 0xc0, 0x91]\<rparr>"

definition SBBRBOOTSERVICES_MEMORYMAP_GUID :: EFI_GUID where
  "SBBRBOOTSERVICES_MEMORYMAP_GUID =
     \<lparr>Data1 = 0x8540c12d, Data2 = 0x5413, Data3 = 0x4a0b,
      Data4 = [0xa5, 0x45, 0x89, 0xa8, 0xe3, 0xc7, 0xda, 0x4b]\<rparr>"

definition SBBRBOOTSERVICES_SMBIOSTABLE_GUID :: EFI_GUID where
  "SBBRBOOTSERVICES_SMBIOSTABLE_GUID =
     \<lparr>Data1 = 0xc44ca44c, Data2 = 0x4f4e, Data3 = 0x4760,
      Data4 = [0x96, 0xc9, 0xb8, 0xcd, 0xe5, 0x31, 0xb4, 0xc4]\<rparr>"

definition SBBRBOOTSERVICES_ACPITABLE_GUID :: EFI_GUID where
  "SBBRBOOTSERVICES_ACPITABLE_GUID =
     \<lparr>Data1 = 0x40ff8495, Data2 = 0x8ae9, Data3 = 0x442e,
      Data4 = [0x89, 0xf2, 0xf8, 0x97, 0xbb, 0x7c, 0x41, 0x75]\<rparr>"

definition EFISPECVERLVL_TEST_GUID :: EFI_GUID where
  "EFISPECVERLVL_TEST_GUID =
     \<lparr>Data1 = 0xd6e40d12, Data2 = 0x7a51, Data3 = 0x4454,
      Data4 = [0xb4, 0xfd, 0x4c, 0x93, 0x88, 0x7e, 0xd6, 0xcf]\<rparr>"

definition EFISPECVERLVL_GUID :: EFI_GUID where
  "EFISPECVERLVL_GUID =
     \<lparr>Data1 = 0x6e46b2e2, Data2 = 0x2535, Data3 = 0x4c8e,
      Data4 = [0x82, 0x5a, 0x84, 0x5d, 0xc2, 0xbe, 0xed, 0xdf]\<rparr>"

definition REQUIREDUEFIPROTOCOLS_TEST_GUID :: EFI_GUID where
  "REQUIREDUEFIPROTOCOLS_TEST_GUID =
     \<lparr>Data1 = 0x6b4d5d18, Data2 = 0xf55f, Data3 = 0x4fc5,
      Data4 = [0x84, 0x96, 0xf1, 0x00, 0x22, 0x37, 0x5c, 0x04]\<rparr>"

definition REQUIREDUEFIPROTOCOLS_MEDIAIOPROTOCOLS_GUID :: EFI_GUID where
  "REQUIREDUEFIPROTOCOLS_MEDIAIOPROTOCOLS_GUID =
     \<lparr>Data1 = 0x24d52c4c, Data2 = 0xafeb, Data3 = 0x49ea,
      Data4 = [0xa7, 0x77, 0x8f, 0xe1, 0x9f, 0x32, 0x20, 0x66]\<rparr>"

definition SBBRSMBIOS_TEST_GUID :: EFI_GUID where
  "SBBRSMBIOS_TEST_GUID =
     \<lparr>Data1 = 0x852e92eb, Data2 = 0xd7aa, Data3 = 0x4d61,
      Data4 = [0x84, 0xef, 0xd3, 0x2d, 0xc5, 0xd5, 0x45, 0xec]\<rparr>"

definition SBBRSMBIOS_UEFISMBIOS_GUID :: EFI_GUID where
  "SBBRSMBIOS_UEFISMBIOS_GUID =
     \<lparr>Data1 = 0x71b32221, Data2 = 0x8b9d, Data3 = 0x4b41,
      Data4 = [0x8b, 0x04, 0xee, 0x6d, 0x18, 0xa6, 0xe5, 0x25]\<rparr>"

definition SYSENVCONFIG_TEST_GUID :: EFI_GUID where
  "SYSENVCONFIG_TEST_GUID =
     \<lparr>Data1 = 0xd84a6430, Data2 = 0x99f5, Data3 = 0x4660,
      Data4 = [0x84, 0x54, 0x6e, 0x4c, 0x89, 0x6a, 0x7e, 0x51]\<rparr>"

definition SYSENVCONFIG_BOOT_EXC_LEVEL_GUID :: EFI_GUID where
  "SYSENVCONFIG_BOOT_EXC_LEVEL_GUID =
     \<lparr>Data1 = 0x591cb467, Data2 = 0x530b, Data3 = 0x4b16,
      Data4 = [0xb0, 0x90, 0xc6, 0xce, 0xfa, 0xfc, 0xc1, 0x56]\<rparr>"

definition SYSENVCONFIG_OS_DISK_FORMAT_GUID :: EFI_GUID where
  "SYSENVCONFIG_OS_DISK_FORMAT_GUID =
     \<lparr>Data1 = 0x78f530dd, Data2 = 0xfe16, Data3 = 0x4daf,
      Data4 = [0xa2, 0x01, 0xbc, 0xb9, 0x37, 0x15, 0x03, 0xa2]\<rparr>"

lemmas guid_defs =
  gSBBRRuntimeServicesAssertion001Guid_def gSBBRRuntimeServicesAssertion002Guid_def
  gSBBRRuntimeServicesAssertion003Guid_def gSBBRRuntimeServicesAssertion004Guid_def
  gSbbrBootServicesAssertion001Guid_def gSbbrBootServicesAssertion002Guid_def
  gSbbrBootServicesAssertion003Guid_def gEfiSpecVerLvlAssertion01Guid_def
  gRequiredUefiProtocolsAssertion001Guid_def gSbbrSmbiosAssertion001Guid_def
  gSysEnvConfigAssertion001Guid_def gSysEnvConfigAssertion002Guid_def
  gSysEnvConfigAssertion003Guid_def gSysEnvConfigAssertion004Guid_def
  SBBRRUNTIMESERVICES_NONVOLATILEVARIABLE_RESET_GUID_def VENDOR_GUID_def
  GPT_EFI_PARTITION_GUID_def EFI_LOAD_FILE_PROTOCOL_GUID_def SBBRRUNTIMESERVICES_TEST_GUID_def
  SBBRRUNTIMESERVICES_TEST_CASE_GUID_def SBBRRUNTIMESERVICES_TEST_CASE_RESETSHUTDOWN_GUID_def
  SBBRRUNTIMESERVICES_TEST_CASE_NONVOLATILEVARIABLE_GUID_def SBBRBOOTSERVICES_TEST_GUID_def
  SBBRBOOTSERVICES_MEMORYMAP_GUID_def SBBRBOOTSERVICES_SMBIOSTABLE_GUID_def
  SBBRBOOTSERVICES_ACPITABLE_GUID_def EFISPECVERLVL_TEST_GUID_def EFISPECVERLVL_GUID_def
  REQUIREDUEFIPROTOCOLS_TEST_GUID_def REQUIREDUEFIPROTOCOLS_MEDIAIOPROTOCOLS_GUID_def
  SBBRSMBIOS_TEST_GUID_def SBBRSMBIOS_UEFISMBIOS_GUID_def SYSENVCONFIG_TEST_GUID_def
  SYSENVCONFIG_BOOT_EXC_LEVEL_GUID_def SYSENVCONFIG_OS_DISK_FORMAT_GUID_def

text \<open>The assertions of the tests are told apart by their GUIDs.\<close>

definition assertion_guids :: "EFI_GUID list" where
  "assertion_guids = [
     gSBBRRuntimeServicesAssertion001Guid, gSBBRRuntimeServicesAssertion002Guid,
     gSBBRRuntimeServicesAssertion003Guid, gSBBRRuntimeServicesAssertion004Guid,
     gSbbrBootServicesAssertion001Guid, gSbbrBootServicesAssertion002Guid,
     gSbbrBootServicesAssertion003Guid, gEfiSpecVerLvlAssertion01Guid,
     gRequiredUefiProtocolsAssertion001Guid, gSbbrSmbiosAssertion001Guid,
     gSysEnvConfigAssertion001Guid, gSysEnvConfigAssertion002Guid, gSysEnvConfigAssertion003Guid,
     gSysEnvConfigAssertion004Guid]"

lemma assertion_guids_distinct: "distinct (map Data1 assertion_guids)"
  by (simp add: assertion_guids_def guid_defs)

end
