(* ===== verification/Sbbr_Boot.thy ===== *)
theory Sbbr_Boot
  imports Sbbr_World
begin

text \<open>
  Tests of the boot services and of the SMBIOS table: SbbrBootServicesBBTestFunction.c,
  SbbrSmbiosBBTestMain.c, SbbrSmbiosBBTestFunction.c, EfiSpecVerLvlBBTestFunction.c and
  RequiredUefiProtocolsBBTestFunction.c. Each definition is a test case or a helper of one; the
  theorems say which firmware a test passes.
\<close>

subsection \<open>Checksum and memory types\<close>

definition SbbrBootServicesByteChecksum :: "(nat \<Rightarrow> u8) \<Rightarrow> u32 \<Rightarrow> u8" where
  "SbbrBootServicesByteChecksum Bytes Length =
     fold (\<lambda>i sum. sum + Bytes i) [0..<unat Length] 0"

lemma checksum_sum: "SbbrBootServicesByteChecksum b n = (\<Sum>i<unat n. b i)"
proof -
  have "fold (\<lambda>i sum. sum + b i) [0..<k] 0 = (\<Sum>i<k. b i)" for k
    by (induction k) simp_all
  then show ?thesis by (simp add: SbbrBootServicesByteChecksum_def)
qed

text \<open>The checksum is the sum of the bytes modulo 256.\<close>

lemma checksum_mod:
  "unat (SbbrBootServicesByteChecksum b n) = (\<Sum>i<unat n. unat (b i)) mod 256"
proof -
  have "unat (\<Sum>i<k. b i) = (\<Sum>i<k. unat (b i)) mod 256" for k
    by (induction k) (simp_all add: unat_word_ariths mod_simps)
  then show ?thesis by (simp add: checksum_sum)
qed

text \<open>A single changed byte inside the summed part is noticed.\<close>

lemma checksum_detects:
  assumes "i < unat n" and "v \<noteq> b i" and "SbbrBootServicesByteChecksum b n = 0"
  shows "SbbrBootServicesByteChecksum (b(i := v)) n \<noteq> 0"
proof -
  have split: "(\<Sum>j<unat n. f j) = f i + (\<Sum>j\<in>{..<unat n} - {i}. f j)" for f :: "nat \<Rightarrow> u8"
    using assms(1) by (simp add: sum.remove)
  have "(\<Sum>j\<in>{..<unat n} - {i}. (b(i := v)) j) = (\<Sum>j\<in>{..<unat n} - {i}. b j)"
    by (rule sum.cong) auto
  then have "SbbrBootServicesByteChecksum (b(i := v)) n = v - b i + SbbrBootServicesByteChecksum b n"
    by (simp add: checksum_sum split)
  with assms(2,3) show ?thesis by simp
qed

definition SbbrBootServicesIsRam :: "EFI_MEMORY_DESCRIPTOR \<Rightarrow> bool" where
  "SbbrBootServicesIsRam d = (case MemType d of
     EfiLoaderCode \<Rightarrow> True | EfiLoaderData \<Rightarrow> True
   | EfiBootServicesCode \<Rightarrow> True | EfiBootServicesData \<Rightarrow> True
   | EfiRuntimeServicesCode \<Rightarrow> True | EfiRuntimeServicesData \<Rightarrow> True
   | EfiConventionalMemory \<Rightarrow> True
   | _ \<Rightarrow> False)"

subsection \<open>The memory map\<close>

text \<open>
  A call of GetMemoryMap and of the pool. The number of descriptors is the size divided by the
  stride; a stride of zero is a division by zero.
\<close>

definition call_gmm :: "'m uefi \<Rightarrow> u64 \<Rightarrow> 'm sbbr \<Rightarrow> memory_map \<times> 'm sbbr" where
  "call_gmm fw sz s = (GetMemoryMap fw (gmm_calls s) sz, s\<lparr>gmm_calls := gmm_calls s + 1\<rparr>)"

definition SctAllocatePool :: "'m uefi \<Rightarrow> u64 \<Rightarrow> 'm sbbr \<Rightarrow> bool \<times> 'm sbbr" where
  "SctAllocatePool fw n s = (let ok = AllocatePool fw (pool_calls s) n in
     (ok, s\<lparr>pool_calls := pool_calls s + 1, pool_live := pool_live s + (if ok then 1 else 0)\<rparr>))"

definition SctFreePool :: "'m sbbr \<Rightarrow> 'm sbbr" where
  "SctFreePool s = s\<lparr>pool_live := pool_live s - 1\<rparr>"

definition num_desc :: "memory_map \<Rightarrow> nat option" where
  "num_desc m = (if mm_stride m = 0 then None else Some (unat (mm_size m div mm_stride m)))"

text \<open>The body of the loop of the memory map test, for one descriptor.\<close>

definition check_descriptor :: "EFI_MEMORY_DESCRIPTOR \<Rightarrow> 'm sbbr \<Rightarrow> 'm sbbr" where
  "check_descriptor d s =
     (let g = Guid gSbbrBootServicesAssertion001Guid;
          (error, s) = (if PhysicalStart d = VirtualStart d
             then (True, RecordAssertion EFI_TEST_ASSERTION_WARNING g ''MemoryMap'' s)
             else (False, s));
          (error, s) = (if SbbrBootServicesIsRam d \<and> Attribute d AND EFI_MEMORY_WB = 0
             then (True, RecordAssertion EFI_TEST_ASSERTION_FAILED g ''MemoryMap'' s)
             else (error, s))
      in if error then s else RecordAssertion EFI_TEST_ASSERTION_PASSED g ''MemoryMap 0x%X'' s)"

text \<open>
  The counter has 32 bits and the bound 64: with more descriptors than the counter can count the
  loop does not end.
\<close>

definition BBTestMemoryMapTest :: "'m uefi \<Rightarrow> 'm sbbr \<Rightarrow> 'm outcome option" where
  "BBTestMemoryMapTest fw s = with_standard_lib fw s (\<lambda>s.
     let fail = RecordAssertion EFI_TEST_ASSERTION_FAILED
                  (Guid gSbbrBootServicesAssertion001Guid) ''MemoryMap'';
         (m, s) = call_gmm fw 0 s
     in if mm_status m \<noteq> EFI_BUFFER_TOO_SMALL then Some (Returned EFI_SUCCESS (fail s))
     else let (ok, s) = SctAllocatePool fw (mm_size m) s in
     if \<not> ok then Some (Returned EFI_OUT_OF_RESOURCES s)
     else let (m, s) = call_gmm fw (mm_size m) s in
     if EFI_ERROR (mm_status m) then Some (Returned EFI_SUCCESS (SctFreePool (fail s)))
     else do {
       n \<leftarrow> num_desc m;
       if 2 ^ 32 \<le> n then None
       else Some (Returned EFI_SUCCESS
              (SctFreePool (fold check_descriptor (map (mm_desc m) [0..<n]) s))) })"

subsection \<open>The ACPI root pointer and the SMBIOS entry point\<close>

definition ACPI_TABLE_EXPECTED_LENGTH :: u32 where "ACPI_TABLE_EXPECTED_LENGTH = 36"
definition ACPI_TABLE_CHECKSUM_LENGTH :: u32 where "ACPI_TABLE_CHECKSUM_LENGTH = 20"

definition SMBIOS30_ANCHOR_STRING :: "u8 list" where
  "SMBIOS30_ANCHOR_STRING = [0x5F, 0x53, 0x4D, 0x33, 0x5F]"
definition RSDP_SIGNATURE_STRING :: "u8 list" where
  "RSDP_SIGNATURE_STRING = [0x52, 0x53, 0x44, 0x20, 0x50, 0x54, 0x52, 0x20]"

text \<open>
  The test goes on after it has recorded that the table is missing, with what the pointer variable
  holds then, and after a wrong signature; the other failures end it.
\<close>

definition BBTestAcpiTableTest :: "'m uefi \<Rightarrow> 'm sbbr \<Rightarrow> 'm outcome option" where
  "BBTestAcpiTableTest fw s = with_standard_lib fw s (\<lambda>s.
     let record = (\<lambda>a. RecordAssertion a (Guid gSbbrBootServicesAssertion002Guid) ''AcpiTable'');
         fail = record EFI_TEST_ASSERTION_FAILED;
         (st, AcpiTable) = config_acpi fw;
         s = (if EFI_ERROR st then fail s else s);
         s = (if rsdp_Signature AcpiTable \<noteq> RSDP_SIGNATURE_STRING then fail s else s)
     in Some (Returned EFI_SUCCESS
       (if SbbrBootServicesByteChecksum (rsdp_bytes AcpiTable) ACPI_TABLE_CHECKSUM_LENGTH \<noteq> 0
        then fail s
        else if SbbrBootServicesByteChecksum (rsdp_bytes AcpiTable) (rsdp_Length AcpiTable) \<noteq> 0
        then fail s
        else if rsdp_Length AcpiTable \<noteq> ACPI_TABLE_EXPECTED_LENGTH then fail s
        else if rsdp_XsdtAddress AcpiTable = 0 then fail s
        else record EFI_TEST_ASSERTION_PASSED s)))"

definition BBTestSmbiosTableTest :: "'m uefi \<Rightarrow> 'm sbbr \<Rightarrow> 'm outcome option" where
  "BBTestSmbiosTableTest fw s = with_standard_lib fw s (\<lambda>s.
     let record = (\<lambda>a. RecordAssertion a (Guid gSbbrBootServicesAssertion003Guid) ''SmbiosTable'');
         fail = record EFI_TEST_ASSERTION_FAILED;
         (st, SmbiosTable) = config_smbios fw
     in Some (Returned EFI_SUCCESS
       (if EFI_ERROR st then fail s
        else if AnchorString SmbiosTable \<noteq> SMBIOS30_ANCHOR_STRING then fail s
        else if EntryPointRevision SmbiosTable \<noteq> 1 then fail s
        else if SbbrBootServicesByteChecksum (smbios_bytes SmbiosTable)
                  (ucast (EntryPointLength SmbiosTable)) \<noteq> 0 then fail s
        else record EFI_TEST_ASSERTION_PASSED s)))"

subsection \<open>The region of the SMBIOS table\<close>

definition SBBR_SMBIOS_MIN_VERSION :: nat where "SBBR_SMBIOS_MIN_VERSION = 311"

definition SMBIOS_VERSION :: "SMBIOS_TABLE_3_0_ENTRY_POINT \<Rightarrow> nat" where
  "SMBIOS_VERSION t = unat (MajorVersion t) * 100 + unat (MinorVersion t) * 10"

text \<open>
  The map is asked for until a call succeeds: the size first, a buffer of that size, the map. The
  loop may go on for ever.
\<close>

partial_function (option) SbbrAllocAndGetMemoryMap ::
    "'m uefi \<Rightarrow> 'm sbbr \<Rightarrow> (u64 \<times> memory_map \<times> 'm sbbr) option" where
  "SbbrAllocAndGetMemoryMap fw s =
     (let (m, s) = call_gmm fw 0 s in
      if mm_status m \<noteq> EFI_BUFFER_TOO_SMALL then Some (EFI_NOT_FOUND, m, s)
      else let (ok, s) = SctAllocatePool fw (mm_size m) s in
      if \<not> ok then Some (EFI_OUT_OF_RESOURCES, m, s)
      else let (m, s) = call_gmm fw (mm_size m) s in
      if EFI_ERROR (mm_status m) then SbbrAllocAndGetMemoryMap fw (SctFreePool s)
      else Some (EFI_SUCCESS, m, s))"

text \<open>Whether a descriptor covers the table, in the 64-bit arithmetic of the code.\<close>

definition region_holds :: "SMBIOS_TABLE_3_0_ENTRY_POINT \<Rightarrow> EFI_MEMORY_DESCRIPTOR \<Rightarrow> bool" where
  "region_holds t d \<longleftrightarrow>
     (let EndAddress = PhysicalStart d + NumberOfPages d * EFI_PAGE_SIZE in
      PhysicalStart d \<le> TableAddress t \<and>
      TableAddress t + ucast (TableMaximumSize t) < EndAddress)"

fun scan_regions :: "SMBIOS_TABLE_3_0_ENTRY_POINT \<Rightarrow> EFI_MEMORY_DESCRIPTOR list \<Rightarrow>
    'm sbbr \<Rightarrow> 'm sbbr option" where
  "scan_regions t [] s = None"
| "scan_regions t (d # ds) s =
     (if region_holds t d
      then Some (RecordAssertion (if MemType d \<noteq> EfiRuntimeServicesData
                then EFI_TEST_ASSERTION_FAILED else EFI_TEST_ASSERTION_PASSED)
             (Guid gSbbrSmbiosAssertion001Guid) ''UefiSmbios'' s)
      else scan_regions t ds s)"

definition BBTestUefiSmbiosTest :: "'m uefi \<Rightarrow> 'm sbbr \<Rightarrow> 'm outcome option" where
  "BBTestUefiSmbiosTest fw s = with_standard_lib fw s (\<lambda>s.
     let fail = RecordAssertion EFI_TEST_ASSERTION_FAILED
                  (Guid gSbbrSmbiosAssertion001Guid) ''UefiSmbios'';
         (st, SmbiosTable) = config_smbios fw
     in if EFI_ERROR st then Some (Returned EFI_SUCCESS (fail s))
     else if SMBIOS_VERSION SmbiosTable < SBBR_SMBIOS_MIN_VERSION
     then Some (Returned EFI_SUCCESS (fail s))
     else do {
       (st, m, s) \<leftarrow> SbbrAllocAndGetMemoryMap fw s;
       if EFI_ERROR st
       then Some (Returned EFI_NOT_FOUND
              (RecordAssertion EFI_TEST_ASSERTION_FAILED gTestGenericFailureGuid ''MemoryMap'' s))
       else do {
         n \<leftarrow> num_desc m;
         case scan_regions SmbiosTable (map (mm_desc m) [0..<min n (2 ^ 32)]) s of
           Some s \<Rightarrow> Some (Returned EFI_SUCCESS (SctFreePool s))
         | None \<Rightarrow> if 2 ^ 32 \<le> n then None
                   else Some (Returned EFI_SUCCESS (SctFreePool (fail s))) } })"

subsection \<open>Specification level and required protocols\<close>

definition EFI_2_70_SYSTEM_TABLE_REVISION :: u32 where
  "EFI_2_70_SYSTEM_TABLE_REVISION = 0x00020046"

definition BBTestEfiSpecVerLvlTest :: "'m uefi \<Rightarrow> 'm sbbr \<Rightarrow> 'm outcome option" where
  "BBTestEfiSpecVerLvlTest fw s = with_standard_lib fw s (\<lambda>s.
     if bs_Revision fw < EFI_2_70_SYSTEM_TABLE_REVISION
     then Some (Returned EFI_INCOMPATIBLE_VERSION
            (RecordAssertion EFI_TEST_ASSERTION_FAILED gTestGenericFailureGuid
               ''EFI Specification Version is below 2.7'' s))
     else Some (Returned EFI_SUCCESS
            (RecordAssertion EFI_TEST_ASSERTION_PASSED (Guid gEfiSpecVerLvlAssertion01Guid)
               ''TestEfiSpecVerLvl'' s)))"

text \<open>The list of required protocols ends with the null GUID; it has one entry.\<close>

definition gEfiNullGuid :: EFI_GUID where
  "gEfiNullGuid = \<lparr>Data1 = 0, Data2 = 0, Data3 = 0, Data4 = replicate 8 0\<rparr>"

definition required_protocols :: "(EFI_GUID \<times> string) list" where
  "required_protocols = [(EFI_LOAD_FILE_PROTOCOL_GUID, ''EFI_LOAD_FILE_PROTOCOL''), (gEfiNullGuid, [])]"

fun protocol_loop :: "'m uefi \<Rightarrow> (EFI_GUID \<times> string) list \<Rightarrow> 'm sbbr \<Rightarrow> 'm sbbr option" where
  "protocol_loop fw [] s = None"
| "protocol_loop fw ((g, n) # ps) s =
     (if g = gEfiNullGuid then Some s
      else let (st, NumberOfHandles) = LocateHandleBuffer fw g in
        protocol_loop fw ps
          (RecordAssertion (if st = EFI_NOT_FOUND \<and> NumberOfHandles = 0
               then EFI_TEST_ASSERTION_FAILED else EFI_TEST_ASSERTION_PASSED)
             (Guid gRequiredUefiProtocolsAssertion001Guid) ''MediaIoProtocols'' s))"

definition BBTestMediaIoProtocolsTest :: "'m uefi \<Rightarrow> 'm sbbr \<Rightarrow> 'm outcome option" where
  "BBTestMediaIoProtocolsTest fw s = with_standard_lib fw s (\<lambda>s. do {
     s \<leftarrow> protocol_loop fw required_protocols s;
     Some (Returned EFI_SUCCESS s) })"


subsection \<open>What the memory map test records\<close>

definition lacks_wb :: "EFI_MEMORY_DESCRIPTOR \<Rightarrow> bool" where
  "lacks_wb d \<longleftrightarrow> SbbrBootServicesIsRam d \<and> Attribute d AND EFI_MEMORY_WB = 0"

definition identity_mapped :: "EFI_MEMORY_DESCRIPTOR \<Rightarrow> bool" where
  "identity_mapped d \<longleftrightarrow> PhysicalStart d = VirtualStart d"

definition descriptor_verdict :: "EFI_MEMORY_DESCRIPTOR \<Rightarrow> EFI_TEST_ASSERTION list" where
  "descriptor_verdict d =
     (if identity_mapped d then [EFI_TEST_ASSERTION_WARNING] else []) @
     (if lacks_wb d then [EFI_TEST_ASSERTION_FAILED] else []) @
     (if \<not> identity_mapped d \<and> \<not> lacks_wb d then [EFI_TEST_ASSERTION_PASSED] else [])"

lemma check_descriptor_types:
  "map a_type (assertions (check_descriptor d s)) = map a_type (assertions s) @ descriptor_verdict d"
  "pool_live (check_descriptor d s) = pool_live s"
  by (simp_all add: check_descriptor_def descriptor_verdict_def identity_mapped_def lacks_wb_def Let_def)

lemma check_all_types:
  "map a_type (assertions (fold check_descriptor ds s)) =
     map a_type (assertions s) @ concat (map descriptor_verdict ds) \<and>
   pool_live (fold check_descriptor ds s) = pool_live s"
  by (induction ds arbitrary: s) (simp_all add: check_descriptor_types)

lemma descriptor_verdict_failed: "EFI_TEST_ASSERTION_FAILED \<in> set (descriptor_verdict d) \<longleftrightarrow> lacks_wb d"
  by (simp add: descriptor_verdict_def)

lemma descriptor_verdict_passed:
  "length (filter ((=) EFI_TEST_ASSERTION_PASSED) (descriptor_verdict d)) =
     (if \<not> identity_mapped d \<and> \<not> lacks_wb d then 1 else 0)"
  by (simp add: descriptor_verdict_def)

lemma descriptor_verdicts_passed:
  "length (filter ((=) EFI_TEST_ASSERTION_PASSED) (concat (map descriptor_verdict ds))) =
     length (filter (\<lambda>d. \<not> identity_mapped d \<and> \<not> lacks_wb d) ds)"
  by (induction ds) (simp_all add: descriptor_verdict_passed)

text \<open>The firmware answers both calls, and the number of descriptors fits the counter.\<close>

definition map_answered :: "'m uefi \<Rightarrow> 'm sbbr \<Rightarrow> EFI_MEMORY_DESCRIPTOR list \<Rightarrow> bool" where
  "map_answered fw s ds \<longleftrightarrow>
     (let m = GetMemoryMap fw (gmm_calls s) 0;
          m' = GetMemoryMap fw (gmm_calls s + 1) (mm_size m)
      in mm_status m = EFI_BUFFER_TOO_SMALL \<and> AllocatePool fw (pool_calls s) (mm_size m) \<and>
         \<not> EFI_ERROR (mm_status m') \<and> mm_stride m' \<noteq> 0 \<and>
         unat (mm_size m' div mm_stride m') < 2 ^ 32 \<and>
         ds = map (mm_desc m') [0..<unat (mm_size m' div mm_stride m')])"

text \<open>On a firmware that answers GetMemoryMap, the memory map test returns success, gives its
buffer back, records a failure exactly when some region of RAM cannot be cached write-back, and a
pass for every region that is neither such a region nor mapped one to one.\<close>

theorem memory_map_verdict:
  assumes "\<not> EFI_ERROR (standard_lib fw)" and "map_answered fw s ds"
  shows "\<exists>t. BBTestMemoryMapTest fw s = Some (Returned EFI_SUCCESS t) \<and>
     pool_live t = pool_live s \<and>
     (EFI_TEST_ASSERTION_FAILED \<in> set (added s t) \<longleftrightarrow>
        (\<exists>d\<in>set ds. SbbrBootServicesIsRam d \<and> Attribute d AND EFI_MEMORY_WB = 0)) \<and>
     length (filter ((=) EFI_TEST_ASSERTION_PASSED) (added s t)) =
       length (filter (\<lambda>d. \<not> identity_mapped d \<and> \<not> lacks_wb d) ds)"
proof -
  define u where "u = s\<lparr>pool_calls := Suc (pool_calls s), pool_live := Suc (pool_live s),
    gmm_calls := Suc (Suc (gmm_calls s))\<rparr>"
  define t where "t = SctFreePool (fold check_descriptor ds u)"
  have run: "BBTestMemoryMapTest fw s = Some (Returned EFI_SUCCESS t)"
    using assms
    by (simp add: BBTestMemoryMapTest_def with_standard_lib_def call_gmm_def SctAllocatePool_def
        map_answered_def num_desc_def Let_def t_def u_def)
  have "map a_type (assertions t) = map a_type (assertions s) @ concat (map descriptor_verdict ds)"
    "pool_live t = pool_live s"
    using check_all_types [of ds u] by (simp_all add: t_def u_def SctFreePool_def)
  moreover from this have "added s t = concat (map descriptor_verdict ds)"
    by (simp add: added_def flip: drop_map)
  ultimately show ?thesis
    using run by (auto simp: descriptor_verdicts_passed descriptor_verdict_failed lacks_wb_def [symmetric])
qed


subsection \<open>What the table tests record\<close>

text \<open>The requirements the two tables are tested for.\<close>

definition acpi_root_ok :: "RSDP \<Rightarrow> bool" where
  "acpi_root_ok t \<longleftrightarrow> (\<Sum>i<20. unat (rsdp_bytes t i)) mod 256 = 0 \<and>
     (\<Sum>i<36. unat (rsdp_bytes t i)) mod 256 = 0 \<and> rsdp_Length t = 36 \<and> rsdp_XsdtAddress t \<noteq> 0"

lemma checksum_zero: "SbbrBootServicesByteChecksum b n = 0 \<longleftrightarrow> (\<Sum>i<unat n. unat (b i)) mod 256 = 0"
  by (metis checksum_mod unat_eq_zero)

text \<open>The ACPI test fails nothing exactly when the firmware publishes a root pointer with the
signature, both checksums, length 36 and an XSDT address. But it records a pass whenever the last
three hold: also next to the failure it has recorded for a missing table or a wrong signature.\<close>

theorem acpi_table_verdict:
  assumes "BBTestAcpiTableTest fw s = Some (Returned EFI_SUCCESS t)"
  shows "(EFI_TEST_ASSERTION_FAILED \<notin> set (added s t) \<longleftrightarrow>
      \<not> EFI_ERROR (fst (config_acpi fw)) \<and>
      rsdp_Signature (snd (config_acpi fw)) = RSDP_SIGNATURE_STRING \<and>
      acpi_root_ok (snd (config_acpi fw))) \<and>
    (EFI_TEST_ASSERTION_PASSED \<in> set (added s t) \<longleftrightarrow> acpi_root_ok (snd (config_acpi fw)))"
proof -
  have lib: "\<not> EFI_ERROR (standard_lib fw)"
    using assms by (auto simp: BBTestAcpiTableTest_def with_standard_lib_def EFI_ERROR_def efi_codes split: if_splits)
  obtain st tab where c: "config_acpi fw = (st, tab)" by (cases "config_acpi fw")
  define b where "b = rsdp_bytes tab"
  have sums: "(SbbrBootServicesByteChecksum b ACPI_TABLE_CHECKSUM_LENGTH = 0) = ((\<Sum>i<20. unat (b i)) mod 256 = 0)"
    "rsdp_Length tab = 36 \<Longrightarrow>
       (SbbrBootServicesByteChecksum b (rsdp_Length tab) = 0) = ((\<Sum>i<36. unat (b i)) mod 256 = 0)"
    by (simp_all add: checksum_zero ACPI_TABLE_CHECKSUM_LENGTH_def)
  show ?thesis
    using assms lib c sums
    by (auto simp: BBTestAcpiTableTest_def with_standard_lib_def acpi_root_ok_def Let_def added_def
        ACPI_TABLE_EXPECTED_LENGTH_def b_def [symmetric] split: if_splits)
qed

text \<open>The SMBIOS test records one assertion, a pass exactly for a good entry point.\<close>

lemma smbios_table_verdict:
  assumes "BBTestSmbiosTableTest fw s = Some (Returned st t)" "\<not> EFI_ERROR (standard_lib fw)"
  shows "st = EFI_SUCCESS \<and> added s t =
    [if \<not> EFI_ERROR (fst (config_smbios fw)) \<and>
        (let tab = snd (config_smbios fw) in
         AnchorString tab = SMBIOS30_ANCHOR_STRING \<and> EntryPointRevision tab = 1 \<and>
         (\<Sum>i<unat (EntryPointLength tab). unat (smbios_bytes tab i)) mod 256 = 0)
     then EFI_TEST_ASSERTION_PASSED else EFI_TEST_ASSERTION_FAILED]"
proof -
  have len: "unat (ucast w :: u32) = unat w" for w :: u8
    by (rule unat_ucast_small) (rule less_trans [OF unsigned_less], simp)
  show ?thesis
    using assms
    by (auto simp: BBTestSmbiosTableTest_def with_standard_lib_def Let_def checksum_zero len
        split: if_splits prod.splits)
qed

subsection \<open>The retry loop and the region of the SMBIOS table\<close>

text \<open>Round \<open>k\<close> of the loop fails: the size and a buffer are obtained, the map is not.\<close>

definition round_fails :: "'m uefi \<Rightarrow> nat \<Rightarrow> nat \<Rightarrow> bool" where
  "round_fails fw g p \<longleftrightarrow>
     (let m = GetMemoryMap fw g 0 in
      mm_status m = EFI_BUFFER_TOO_SMALL \<and> AllocatePool fw p (mm_size m) \<and>
      EFI_ERROR (mm_status (GetMemoryMap fw (Suc g) (mm_size m))))"

definition retried :: "'m sbbr \<Rightarrow> 'm sbbr" where
  "retried s = s\<lparr>pool_calls := Suc (pool_calls s), gmm_calls := Suc (Suc (gmm_calls s))\<rparr>"

lemma alloc_map_retries:
  "round_fails fw (gmm_calls s) (pool_calls s) \<Longrightarrow>
     SbbrAllocAndGetMemoryMap fw s = SbbrAllocAndGetMemoryMap fw (retried s)"
  by (subst SbbrAllocAndGetMemoryMap.simps)
    (simp add: round_fails_def retried_def call_gmm_def SctAllocatePool_def SctFreePool_def Let_def)

lemma alloc_map_stops:
  assumes "\<not> round_fails fw (gmm_calls s) (pool_calls s)"
  shows "\<exists>st m t. SbbrAllocAndGetMemoryMap fw s = Some (st, m, t) \<and> assertions t = assertions s \<and>
    pool_live t = pool_live s + (if EFI_ERROR st then 0 else 1)"
  using assms
  by (subst SbbrAllocAndGetMemoryMap.simps)
    (auto simp: round_fails_def call_gmm_def SctAllocatePool_def Let_def)

text \<open>What is known of every result, and that a result means a round that did not fail.\<close>

lemma alloc_map_result:
  assumes "SbbrAllocAndGetMemoryMap fw s = Some (st, m, t)"
  shows "(\<exists>k. \<not> round_fails fw (gmm_calls s + 2 * k) (pool_calls s + k)) \<and>
    assertions t = assertions s \<and> (st = EFI_SUCCESS \<or> EFI_ERROR st)"
proof -
  define P where "P = (\<lambda>(fw :: 'a uefi) (s :: 'a sbbr) (r :: u64 \<times> memory_map \<times> 'a sbbr).
    (\<exists>k. \<not> round_fails fw (gmm_calls s + 2 * k) (pool_calls s + k)) \<and>
    assertions (snd (snd r)) = assertions s \<and> (fst r = EFI_SUCCESS \<or> EFI_ERROR (fst r)))"
  have "P fw s (st, m, t)"
  proof (rule SbbrAllocAndGetMemoryMap.raw_induct [where P = P, OF _ assms])
    fix f and fw :: "'a uefi" and s r
    assume IH: "\<And>fw (s :: 'a sbbr) r. f fw s = Some r \<Longrightarrow> P fw s r"
      and eq: "(let (m, s) = call_gmm fw 0 s in
        if mm_status m \<noteq> EFI_BUFFER_TOO_SMALL then Some (EFI_NOT_FOUND, m, s)
        else let (ok, s) = SctAllocatePool fw (mm_size m) s in
        if \<not> ok then Some (EFI_OUT_OF_RESOURCES, m, s)
        else let (m, s) = call_gmm fw (mm_size m) s in
        if EFI_ERROR (mm_status m) then f fw (SctFreePool s)
        else Some (EFI_SUCCESS, m, s)) = Some r"
    show "P fw s r"
    proof (cases "round_fails fw (gmm_calls s) (pool_calls s)")
      case True
      with eq have "f fw (retried s) = Some r"
        by (simp add: round_fails_def retried_def call_gmm_def SctAllocatePool_def SctFreePool_def Let_def)
      then obtain k where k: "\<not> round_fails fw (gmm_calls (retried s) + 2 * k) (pool_calls (retried s) + k)"
        and r: "assertions (snd (snd r)) = assertions (retried s)" "fst r = EFI_SUCCESS \<or> EFI_ERROR (fst r)"
        using IH [of fw "retried s" r] by (auto simp: P_def)
      have "\<not> round_fails fw (gmm_calls s + 2 * Suc k) (pool_calls s + Suc k)"
        using k by (simp add: retried_def)
      then have "\<exists>k. \<not> round_fails fw (gmm_calls s + 2 * k) (pool_calls s + k)" by blast
      then show ?thesis using r unfolding P_def by (simp add: retried_def)
    next
      case False
      then have "\<not> round_fails fw (gmm_calls s + 2 * 0) (pool_calls s + 0)" by simp
      then have "\<exists>k. \<not> round_fails fw (gmm_calls s + 2 * k) (pool_calls s + k)" by blast
      then show ?thesis
        using False eq
        by (auto simp: P_def round_fails_def call_gmm_def SctAllocatePool_def Let_def split: if_splits)
    qed
  qed
  then show ?thesis by (simp add: P_def)
qed

text \<open>SbbrAllocAndGetMemoryMap returns exactly when some round does not fail, be it that the map
arrives or that the size or the buffer is refused; whatever it returns, it keeps one block of the
pool with a map and none without.\<close>

theorem alloc_map_returns:
  "(\<exists>st m t. SbbrAllocAndGetMemoryMap fw s = Some (st, m, t) \<and> assertions t = assertions s \<and>
      pool_live t = pool_live s + (if EFI_ERROR st then 0 else 1)) \<longleftrightarrow>
   (\<exists>k. \<not> round_fails fw (gmm_calls s + 2 * k) (pool_calls s + k))"
  (is "?returns s \<longleftrightarrow> ?stops s")
proof
  assume "?returns s"
  then show "?stops s" using alloc_map_result by blast
next
  assume "?stops s"
  then obtain k where "\<not> round_fails fw (gmm_calls s + 2 * k) (pool_calls s + k)" by blast
  then show "?returns s"
  proof (induction k arbitrary: s)
    case 0
    then show ?case using alloc_map_stops [of fw s] by simp
  next
    case (Suc k)
    show ?case
    proof (cases "round_fails fw (gmm_calls s) (pool_calls s)")
      case True
      moreover have "?returns (retried s)"
        by (rule Suc.IH) (use Suc.prems in \<open>simp add: retried_def\<close>)
      moreover have "assertions (retried s) = assertions s" "pool_live (retried s) = pool_live s"
        by (simp_all add: retried_def)
      ultimately show ?thesis by (simp only: alloc_map_retries)
    next
      case False
      then show ?thesis by (rule alloc_map_stops)
    qed
  qed
qed


lemma find_append_Some: "find P xs = Some x \<Longrightarrow> find P (xs @ ys) = Some x"
  by (induction xs) (auto split: if_splits)

lemma scan_regions_find:
  "scan_regions tab ds s = (case find (region_holds tab) ds of None \<Rightarrow> None
     | Some d \<Rightarrow> Some (RecordAssertion (if MemType d = EfiRuntimeServicesData
         then EFI_TEST_ASSERTION_PASSED else EFI_TEST_ASSERTION_FAILED)
         (Guid gSbbrSmbiosAssertion001Guid) ''UefiSmbios'' s))"
  by (induction ds) simp_all

text \<open>
  The version check accepts 3.2 and 2.12, not 3.1: the tens are the minor version, and 311 is no
  number of that form.
\<close>

lemma smbios_version_accepts:
  "SMBIOS_VERSION tab < SBBR_SMBIOS_MIN_VERSION \<longleftrightarrow> 10 * unat (MajorVersion tab) + unat (MinorVersion tab) < 32"
  by (simp add: SMBIOS_VERSION_def SBBR_SMBIOS_MIN_VERSION_def) presburger

text \<open>A table that ends with its region is taken for one outside of it.\<close>

lemma region_end_refused:
  "TableAddress tab + ucast (TableMaximumSize tab) = PhysicalStart d + NumberOfPages d * EFI_PAGE_SIZE \<Longrightarrow>
     \<not> region_holds tab d"
  by (simp add: region_holds_def)

text \<open>The scan with its 32-bit counter, when it ends, has looked at all descriptors.\<close>

lemma scan_counter:
  assumes "(case scan_regions tab (map f [0..<min n (2 ^ 32)]) u of
      Some v \<Rightarrow> Some (Returned EFI_SUCCESS (SctFreePool v))
    | None \<Rightarrow> if 2 ^ 32 \<le> n then None
              else Some (Returned EFI_SUCCESS (SctFreePool (RecordAssertion EFI_TEST_ASSERTION_FAILED
                     (Guid gSbbrSmbiosAssertion001Guid) ''UefiSmbios'' u)))) = Some (Returned EFI_SUCCESS t)"
  shows "map a_type (assertions t) = map a_type (assertions u) @
    [if \<exists>d. find (region_holds tab) (map f [0..<n]) = Some d \<and> MemType d = EfiRuntimeServicesData
     then EFI_TEST_ASSERTION_PASSED else EFI_TEST_ASSERTION_FAILED]"
proof (cases "find (region_holds tab) (map f [0..<min n (2 ^ 32)])")
  case None
  with assms have "n < 2 ^ 32" by (simp add: scan_regions_find split: if_splits)
  with None have "find (region_holds tab) (map f [0..<n]) = None" by simp
  then show ?thesis using assms None by (auto simp: scan_regions_find SctFreePool_def split: if_splits)
next
  case (Some d)
  have "[0..<n] = [0..<min n (2 ^ 32)] @ [min n (2 ^ 32)..<n]"
    using upt_add_eq_append [of 0 "min n (2 ^ 32)" "n - min n (2 ^ 32)"] by simp
  then have "find (region_holds tab) (map f [0..<n]) = Some d"
    using find_append_Some [OF Some] by (metis map_append)
  then show ?thesis using assms Some by (auto simp: scan_regions_find SctFreePool_def)
qed

text \<open>C40: When the SMBIOS test returns success it has recorded one assertion, and it is a pass exactly
if there is a table of an accepted version, the memory map arrives, and the first region of the map
that covers the table (its end excluded) is runtime services data.\<close>

theorem smbios_region_verdict:
  assumes "BBTestUefiSmbiosTest fw s = Some (Returned EFI_SUCCESS t)"
    and "\<not> EFI_ERROR (standard_lib fw)"
  shows "added s t = [if \<not> EFI_ERROR (fst (config_smbios fw)) \<and>
      32 \<le> 10 * unat (MajorVersion (snd (config_smbios fw))) + unat (MinorVersion (snd (config_smbios fw))) \<and>
      (\<exists>m u d. SbbrAllocAndGetMemoryMap fw s = Some (EFI_SUCCESS, m, u) \<and>
        find (region_holds (snd (config_smbios fw)))
          (map (mm_desc m) [0..<unat (mm_size m div mm_stride m)]) = Some d \<and>
        MemType d = EfiRuntimeServicesData)
      then EFI_TEST_ASSERTION_PASSED else EFI_TEST_ASSERTION_FAILED]"
proof -
  obtain st tab where c: "config_smbios fw = (st, tab)" by (cases "config_smbios fw")
  note [simp] = BBTestUefiSmbiosTest_def with_standard_lib_def Let_def assms(2) c SctFreePool_def
  show ?thesis
  proof (cases "EFI_ERROR st \<or> SMBIOS_VERSION tab < SBBR_SMBIOS_MIN_VERSION")
    case True
    then have "t = RecordAssertion EFI_TEST_ASSERTION_FAILED
        (Guid gSbbrSmbiosAssertion001Guid) ''UefiSmbios'' s"
      using assms(1) by (elim disjE) (simp_all split: if_splits)
    moreover have "EFI_ERROR st \<or> \<not> 32 \<le> 10 * unat (MajorVersion tab) + unat (MinorVersion tab)"
      using True smbios_version_accepts [of tab] by auto
    ultimately show ?thesis by auto
  next
    case False
    then have [simp]: "\<not> EFI_ERROR st" "\<not> SMBIOS_VERSION tab < SBBR_SMBIOS_MIN_VERSION" by simp_all
    then have version: "32 \<le> 10 * unat (MajorVersion tab) + unat (MinorVersion tab)"
      using smbios_version_accepts [of tab] by simp
    obtain st' m u where u [simp]: "SbbrAllocAndGetMemoryMap fw s = Some (st', m, u)"
      using assms(1) by (cases "SbbrAllocAndGetMemoryMap fw s") auto
    have ok [simp]: "\<not> EFI_ERROR st'"
      using assms(1) by (cases "EFI_ERROR st'") (simp_all add: efi_codes)
    with alloc_map_result [OF u] have st: "st' = EFI_SUCCESS" and a: "assertions u = assertions s"
      by auto
    define n where "n = unat (mm_size m div mm_stride m)"
    have n [simp]: "num_desc m = Some n"
      using assms(1) by (cases "num_desc m") (auto simp: num_desc_def n_def split: if_splits)
    have "added s t = [if \<exists>d. find (region_holds tab) (map (mm_desc m) [0..<n]) = Some d \<and>
        MemType d = EfiRuntimeServicesData then EFI_TEST_ASSERTION_PASSED else EFI_TEST_ASSERTION_FAILED]"
      using scan_counter [where tab = tab and f = "mm_desc m" and n = n and u = u and t = t] assms(1) a
      by (simp add: added_def flip: drop_map)
    then show ?thesis using st version by (simp add: n_def)
  qed
qed

subsection \<open>Protocols and specification level\<close>

text \<open>
  Every answer but "not found" with no handle counts as found, an exhausted firmware included.
\<close>

lemma media_io_verdict:
  assumes "\<not> EFI_ERROR (standard_lib fw)" and "LocateHandleBuffer fw EFI_LOAD_FILE_PROTOCOL_GUID = (st, n)"
  shows "\<exists>t. BBTestMediaIoProtocolsTest fw s = Some (Returned EFI_SUCCESS t) \<and>
    added s t = [if st = EFI_NOT_FOUND \<and> n = 0 then EFI_TEST_ASSERTION_FAILED
                 else EFI_TEST_ASSERTION_PASSED]"
  using assms
  by (simp add: BBTestMediaIoProtocolsTest_def with_standard_lib_def required_protocols_def
      gEfiNullGuid_def EFI_LOAD_FILE_PROTOCOL_GUID_def)

lemma spec_level_verdict:
  assumes "\<not> EFI_ERROR (standard_lib fw)"
  shows "\<exists>st t. BBTestEfiSpecVerLvlTest fw s = Some (Returned st t) \<and>
    added s t = [if st = EFI_SUCCESS then EFI_TEST_ASSERTION_PASSED else EFI_TEST_ASSERTION_FAILED] \<and>
    (st = EFI_SUCCESS \<longleftrightarrow> 0x00020046 \<le> bs_Revision fw)"
  using assms
  by (auto simp: BBTestEfiSpecVerLvlTest_def with_standard_lib_def EFI_2_70_SYSTEM_TABLE_REVISION_def
      efi_codes)


subsection \<open>On the concrete firmware\<close>

lemma memory_map_verdict_witness:
  "\<exists>t. BBTestMemoryMapTest (sample_uefi []) sample_state = Some (Returned EFI_SUCCESS t) \<and>
     EFI_TEST_ASSERTION_FAILED \<notin> set (added sample_state t)"
proof -
  have "\<not> EFI_ERROR (standard_lib (sample_uefi []))"
    by (simp add: sample_uefi_def)
  moreover have "map_answered (sample_uefi []) sample_state [sample_descriptor]"
    by (simp add: map_answered_def sample_uefi_def)
  moreover have "Attribute sample_descriptor AND EFI_MEMORY_WB \<noteq> 0"
    by (simp add: sample_descriptor_def EFI_MEMORY_WB_def)
  ultimately show ?thesis
    using memory_map_verdict [of "sample_uefi []" sample_state "[sample_descriptor]"] by auto
qed

text \<open>The root pointer of the sample has no signature, so a failure and a pass stand side by side.\<close>

lemma acpi_table_verdict_witness:
  "\<exists>t. BBTestAcpiTableTest (sample_uefi []) sample_state = Some (Returned EFI_SUCCESS t) \<and>
     EFI_TEST_ASSERTION_FAILED \<in> set (added sample_state t) \<and>
     EFI_TEST_ASSERTION_PASSED \<in> set (added sample_state t)"
proof -
  obtain t where t: "BBTestAcpiTableTest (sample_uefi []) sample_state = Some (Returned EFI_SUCCESS t)"
    by (simp add: BBTestAcpiTableTest_def with_standard_lib_def sample_uefi_def Let_def)
  have "acpi_root_ok (snd (config_acpi (sample_uefi [])))"
    "rsdp_Signature (snd (config_acpi (sample_uefi []))) \<noteq> RSDP_SIGNATURE_STRING"
    by (simp_all add: acpi_root_ok_def sample_uefi_def RSDP_SIGNATURE_STRING_def)
  then show ?thesis using t acpi_table_verdict [OF t] by auto
qed

lemma smbios_region_verdict_witness:
  "\<exists>t. BBTestUefiSmbiosTest (sample_uefi []) sample_state = Some (Returned EFI_SUCCESS t) \<and>
     added sample_state t = [EFI_TEST_ASSERTION_PASSED]"
proof -
  define fw where "fw = sample_uefi []"
  define m where "m = GetMemoryMap fw 1 48"
  define u where "u = sample_state\<lparr>gmm_calls := 2, pool_calls := 1, pool_live := 1\<rparr>"
  have am: "SbbrAllocAndGetMemoryMap fw sample_state = Some (EFI_SUCCESS, m, u)"
    by (subst SbbrAllocAndGetMemoryMap.simps)
      (simp add: fw_def m_def u_def sample_uefi_def sample_state_def call_gmm_def SctAllocatePool_def Let_def)
  have n: "unat (mm_size m div mm_stride m) = 1" "mm_desc m 0 = sample_descriptor" "mm_stride m \<noteq> 0"
    by (simp_all add: m_def fw_def sample_uefi_def)
  have tab: "region_holds (snd (config_smbios fw)) sample_descriptor"
    "\<not> EFI_ERROR (fst (config_smbios fw))" "\<not> EFI_ERROR (standard_lib fw)"
    "unat (MajorVersion (snd (config_smbios fw))) = 3" "unat (MinorVersion (snd (config_smbios fw))) = 2"
    by (simp_all add: fw_def sample_uefi_def region_holds_def sample_descriptor_def EFI_PAGE_SIZE_def)
  have "\<exists>t. BBTestUefiSmbiosTest fw sample_state = Some (Returned EFI_SUCCESS t)"
    using am n tab
    by (simp add: BBTestUefiSmbiosTest_def with_standard_lib_def num_desc_def case_prod_unfold
        SMBIOS_VERSION_def SBBR_SMBIOS_MIN_VERSION_def)
  then obtain t where t: "BBTestUefiSmbiosTest fw sample_state = Some (Returned EFI_SUCCESS t)" by blast
  have "MemType sample_descriptor = EfiRuntimeServicesData" by (simp add: sample_descriptor_def)
  then show ?thesis
    using t smbios_region_verdict [OF t tab(3)] am n tab unfolding fw_def [symmetric]
    by (intro exI [of _ t]) auto
qed

end
