(* ===== verification/Sbbr_Disk.thy ===== *)
theory Sbbr_Disk
  imports Sbbr_World
begin

text \<open>
  Tests of the system environment (SysEnvConfigBBTestFunction.c): the exception level UEFI runs at,
  and the search of all block devices for a GPT with an EFI system partition.
\<close>

subsection \<open>Exception level\<close>

definition AARCH64_EL1 :: u64 where "AARCH64_EL1 = 0x4"
definition AARCH64_EL2 :: u64 where "AARCH64_EL2 = 0x8"
definition AARCH64_EL3 :: u64 where "AARCH64_EL3 = 0xC"

definition BBTestBootExcLevelTest :: "'m uefi \<Rightarrow> 'm sbbr \<Rightarrow> 'm outcome option" where
  "BBTestBootExcLevelTest fw s = with_standard_lib fw s (\<lambda>s.
     let record = (\<lambda>a. RecordAssertion a (Guid gSysEnvConfigAssertion001Guid) ''TestBootExcLevel'' s);
         CurrentEL = current_el fw
     in if CurrentEL = AARCH64_EL1 \<or> CurrentEL = AARCH64_EL2
        then Some (Returned EFI_SUCCESS (record EFI_TEST_ASSERTION_PASSED))
        else if CurrentEL = AARCH64_EL3
        then Some (Returned EFI_SUCCESS (record EFI_TEST_ASSERTION_FAILED))
        else Some (Returned EFI_UNSUPPORTED
               (RecordAssertion EFI_TEST_ASSERTION_FAILED gTestGenericFailureGuid
                  ''Unrecognized CurrentEL Value'' s)))"

subsection \<open>The search for an EFI system partition\<close>

definition GPT_HEADER_LBA :: u64 where "GPT_HEADER_LBA = 1"

definition GPT_SIGNATURE :: "u8 list" where
  "GPT_SIGNATURE = [0x45, 0x46, 0x49, 0x20, 0x50, 0x41, 0x52, 0x54]"

text \<open>
  The search in one disk gives an error status, a system partition, or none.
\<close>

datatype found = ReadError u64 | Partition | NoPartition

text \<open>
  The inner loop walks the entries of the block that was read: \<open>count\<close> entries of the disk are
  seen, and at most \<open>left\<close> more are in this block. It ends with a partition or the new count.
\<close>

fun lba_loop :: "block_io \<Rightarrow> u64 \<Rightarrow> nat \<Rightarrow> nat \<Rightarrow> nat \<Rightarrow> nat option" where
  "lba_loop d lba per 0 count = Some count"
| "lba_loop d lba per (Suc left) count =
     (if count < unat (NumberOfPartitionEntries d)
      then if PartitionTypeGUID d lba (count mod per * unat (SizeOfPartitionEntry d)) = GPT_EFI_PARTITION_GUID
           then None
           else lba_loop d lba per left (count + 1)
      else Some count)"

text \<open>
  The outer loop reads block after block until all entries are seen. When no entry fits a block it
  makes no progress, and goes on until a block cannot be read.
\<close>

partial_function (option) entry_scan :: "block_io \<Rightarrow> nat \<Rightarrow> u64 \<Rightarrow> nat \<Rightarrow> found option" where
  "entry_scan d per lba count =
     (if count < unat (NumberOfPartitionEntries d)
      then if EFI_ERROR (read_status d lba) then Some (ReadError (read_status d lba))
           else case lba_loop d lba per per count of
                  None \<Rightarrow> Some Partition
                | Some count \<Rightarrow> entry_scan d per (lba + 1) count
      else Some NoPartition)"

text \<open>The division by the size of an entry is undefined when the header says 0.\<close>

definition scan_disk :: "block_io \<Rightarrow> found option" where
  "scan_disk d =
     (if EFI_ERROR (read_status d GPT_HEADER_LBA) then Some (ReadError (read_status d GPT_HEADER_LBA))
      else if gpt_Signature d \<noteq> GPT_SIGNATURE then Some NoPartition
      else if SizeOfPartitionEntry d = 0 then None
      else entry_scan d (unat (BlockSize d div SizeOfPartitionEntry d)) (PartitionEntryLBA d) 0)"

text \<open>
  The loop over the handles: open the protocol, allocate a block, search; free and close only when
  the search ended without an error.
\<close>

fun handle_loop :: "block_io list \<Rightarrow> 'm sbbr \<Rightarrow> 'm outcome option" where
  "handle_loop [] s = Some (Returned EFI_SUCCESS
     (RecordAssertion EFI_TEST_ASSERTION_FAILED (Guid gSysEnvConfigAssertion003Guid)
        ''TestOsDiskFormat'' s))"
| "handle_loop (d # ds) s =
     (if EFI_ERROR (open_status d) then Some (Returned (open_status d) s)
      else let s = s\<lparr>protocols_open := protocols_open s + 1\<rparr> in
      if EFI_ERROR (alloc_status d) then Some (Returned (alloc_status d) s)
      else let s = s\<lparr>pool_live := pool_live s + 1\<rparr>;
               close = (\<lambda>s. s\<lparr>pool_live := pool_live s - 1, protocols_open := protocols_open s - 1\<rparr>)
      in case scan_disk d of
           None \<Rightarrow> None
         | Some (ReadError st) \<Rightarrow> Some (Returned st s)
         | Some Partition \<Rightarrow> Some (Returned EFI_SUCCESS (close
             (RecordAssertion EFI_TEST_ASSERTION_PASSED (Guid gSysEnvConfigAssertion003Guid)
                ''TestOsDiskFormat'' s)))
         | Some NoPartition \<Rightarrow> handle_loop ds (close s))"

text \<open>LocateHandleBuffer allocates the handle buffer; nothing frees it.\<close>

definition BBTestOsDiskFormatTest :: "'m uefi \<Rightarrow> 'm sbbr \<Rightarrow> 'm outcome option" where
  "BBTestOsDiskFormatTest fw s = with_standard_lib fw s (\<lambda>s.
     let (st, HandleBuffer) = block_handles fw in
     if EFI_ERROR st then Some (Returned st s)
     else handle_loop HandleBuffer (s\<lparr>pool_live := pool_live s + 1\<rparr>))"

subsection \<open>The search of one disk\<close>

text \<open>What is searched for: entry \<open>k\<close> lies in block \<open>k div per\<close> of the table.\<close>

definition entry_guid :: "block_io \<Rightarrow> nat \<Rightarrow> nat \<Rightarrow> EFI_GUID" where
  "entry_guid d per k = PartitionTypeGUID d (PartitionEntryLBA d + word_of_nat (k div per))
     (k mod per * unat (SizeOfPartitionEntry d))"

definition has_system_partition :: "block_io \<Rightarrow> bool" where
  "has_system_partition d \<longleftrightarrow> gpt_Signature d = GPT_SIGNATURE \<and>
     (\<exists>k<unat (NumberOfPartitionEntries d).
        entry_guid d (unat (BlockSize d div SizeOfPartitionEntry d)) k = GPT_EFI_PARTITION_GUID)"

text \<open>
  A disk on which the search meets no error: all blocks can be read, and in a GPT an entry fits a
  block.
\<close>

definition readable :: "block_io \<Rightarrow> bool" where
  "readable d \<longleftrightarrow> (\<forall>l. \<not> EFI_ERROR (read_status d l)) \<and>
     (gpt_Signature d = GPT_SIGNATURE \<longrightarrow>
        SizeOfPartitionEntry d \<noteq> 0 \<and> SizeOfPartitionEntry d \<le> BlockSize d)"

text \<open>No system partition among the entries from \<open>a\<close> to below \<open>b\<close>.\<close>

definition none_in :: "block_io \<Rightarrow> nat \<Rightarrow> nat \<Rightarrow> nat \<Rightarrow> bool" where
  "none_in d per a b \<longleftrightarrow> (\<forall>k. a \<le> k \<and> k < b \<longrightarrow> entry_guid d per k \<noteq> GPT_EFI_PARTITION_GUID)"

lemma none_in_empty: "b \<le> a \<Longrightarrow> none_in d per a b"
  by (auto simp: none_in_def)

lemma none_in_head:
  "a < b \<Longrightarrow> none_in d per a b \<longleftrightarrow>
     entry_guid d per a \<noteq> GPT_EFI_PARTITION_GUID \<and> none_in d per (Suc a) b"
  unfolding none_in_def by (metis le_eq_less_or_eq Suc_le_eq)

lemma none_in_split:
  "a \<le> b \<Longrightarrow> b \<le> c \<Longrightarrow> none_in d per a c \<longleftrightarrow> none_in d per a b \<and> none_in d per b c"
  unfolding none_in_def by (meson le_trans less_le_trans not_le)

lemma lba_loop_result:
  assumes "count mod per + left \<le> per" and "lba = PartitionEntryLBA d + word_of_nat (count div per)"
    and "N = unat (NumberOfPartitionEntries d)" and "count \<le> N"
  shows "lba_loop d lba per left count =
    (if none_in d per count (min (count + left) N) then Some (min (count + left) N) else None)"
  using assms
proof (induction left arbitrary: count)
  case 0
  then show ?case by (simp add: none_in_empty)
next
  case (Suc left)
  show ?case
  proof (cases "count < N")
    case True
    define M where "M = min (count + Suc left) N"
    then have M: "min (Suc (count + left)) (unat (NumberOfPartitionEntries d)) = M"
      using Suc.prems(3) by simp
    have inner: "lba_loop d lba per left (Suc count) = (if none_in d per (Suc count) M then Some M else None)"
    proof (cases "left = 0")
      case True
      with \<open>count < N\<close> have "M = Suc count" by (simp add: M_def)
      then show ?thesis using \<open>left = 0\<close> by (simp add: none_in_empty)
    next
      case False
      with Suc.prems(1) have "Suc count div per = count div per" "Suc count mod per = Suc (count mod per)"
        by (auto simp: div_Suc mod_Suc)
      with Suc.IH [of "Suc count"] Suc.prems True show ?thesis by (simp add: M_def)
    qed
    have "entry_guid d per count = PartitionTypeGUID d lba (count mod per * unat (SizeOfPartitionEntry d))"
      using Suc.prems(2) by (simp add: entry_guid_def)
    moreover have "count < M" using True by (simp add: M_def)
    ultimately show ?thesis
      using True Suc.prems(3) inner
      by (simp add: none_in_head [of count M] M)
  next
    case False
    with Suc.prems show ?thesis by (simp add: none_in_empty)
  qed
qed

lemma entry_scan_result:
  assumes "0 < per" and "\<And>l. \<not> EFI_ERROR (read_status d l)"
    and "lba = PartitionEntryLBA d + word_of_nat (count div per)"
    and "N = unat (NumberOfPartitionEntries d)" and "count \<le> N" and "count < N \<longrightarrow> count mod per = 0"
  shows "entry_scan d per lba count = Some (if none_in d per count N then NoPartition else Partition)"
  using assms(3,5,6)
proof (induction "N - count" arbitrary: count lba rule: less_induct)
  case less
  show ?case
  proof (cases "count < N")
    case True
    define c where "c = min (count + per) N"
    have c: "count < c" "c \<le> N" using True assms(1) by (auto simp: c_def)
    have inner: "lba_loop d lba per per count = (if none_in d per count c then Some c else None)"
      using lba_loop_result [of count per per lba d N] less.prems True assms(4)
      by (simp add: c_def)
    have next_block: "c < N \<longrightarrow> c = count + per" by (auto simp: c_def)
    have "entry_scan d per (lba + 1) c = Some (if none_in d per c N then NoPartition else Partition)"
    proof (cases "c < N")
      case True
      with next_block have "c = count + per" by simp
      then show ?thesis
        using less.prems c True assms(1) by (intro less.hyps) auto
    next
      case False
      with c have "c = N" by simp
      then show ?thesis
        by (subst entry_scan.simps) (simp add: assms(4) none_in_empty)
    qed
    then show ?thesis
      using True inner c assms(2,4) none_in_split [of count c N d per]
      by (subst entry_scan.simps) auto
  next
    case False
    with less.prems show ?thesis
      by (subst entry_scan.simps) (simp add: assms(4) none_in_empty)
  qed
qed


lemma entry_scan_error:
  assumes "entry_scan d per lba count = Some (ReadError st)"
  shows "EFI_ERROR st"
proof -
  define P where "P = (\<lambda>(d :: block_io) (per :: nat) (lba :: u64) (count :: nat) r.
    \<forall>st. r = ReadError st \<longrightarrow> EFI_ERROR st)"
  have "P d per lba count (ReadError st)"
    by (rule entry_scan.raw_induct [where P = P, OF _ assms])
      (auto simp: P_def split: if_splits option.splits)
  then show ?thesis by (simp add: P_def)
qed

lemma scan_disk_result:
  assumes "readable d"
  shows "scan_disk d = Some (if has_system_partition d then Partition else NoPartition)"
proof (cases "gpt_Signature d = GPT_SIGNATURE")
  case False
  then show ?thesis using assms by (simp add: scan_disk_def has_system_partition_def readable_def)
next
  case True
  define per where "per = unat (BlockSize d div SizeOfPartitionEntry d)"
  have "0 < unat (SizeOfPartitionEntry d)" "unat (SizeOfPartitionEntry d) \<le> unat (BlockSize d)"
    using assms True by (simp_all add: readable_def word_le_nat_alt unat_gt_0)
  then have "0 < per" by (simp add: per_def unat_div div_greater_zero_iff)
  then have "entry_scan d per (PartitionEntryLBA d) 0 =
      Some (if none_in d per 0 (unat (NumberOfPartitionEntries d)) then NoPartition else Partition)"
    using assms by (intro entry_scan_result) (simp_all add: readable_def)
  moreover have "none_in d per 0 (unat (NumberOfPartitionEntries d)) \<longleftrightarrow>
      \<not> (\<exists>k<unat (NumberOfPartitionEntries d). entry_guid d per k = GPT_EFI_PARTITION_GUID)"
    by (auto simp: none_in_def)
  ultimately show ?thesis
    using assms True by (auto simp: scan_disk_def has_system_partition_def readable_def per_def)
qed

text \<open>A disk that opens, gives its buffer and meets no error.\<close>

definition works :: "block_io \<Rightarrow> bool" where
  "works d \<longleftrightarrow> \<not> EFI_ERROR (open_status d) \<and> \<not> EFI_ERROR (alloc_status d) \<and> readable d"

lemma handle_loop_skips:
  assumes "\<And>d. d \<in> set ds \<Longrightarrow> works d \<and> \<not> has_system_partition d"
  shows "handle_loop (ds @ es) s = handle_loop es s"
  using assms by (induction ds) (simp_all add: works_def scan_disk_result)

lemma handle_loop_found:
  assumes "works d" "has_system_partition d"
  shows "handle_loop (d # ds) s = Some (Returned EFI_SUCCESS
    (RecordAssertion EFI_TEST_ASSERTION_PASSED (Guid gSysEnvConfigAssertion003Guid) ''TestOsDiskFormat'' s))"
  using assms by (simp add: works_def scan_disk_result RecordAssertion_def)

lemma first_with:
  "\<exists>x\<in>set xs. P x \<Longrightarrow> \<exists>ys x zs. xs = ys @ x # zs \<and> P x \<and> (\<forall>y\<in>set ys. \<not> P y)"
  by (metis split_list_first_prop)

text \<open>On block devices that can all be opened and read, the disk test returns success and records
one assertion: a pass exactly when some device holds a GPT one of whose entries, block after block
from the first one of the table, has the type of an EFI system partition. The handle buffer is
never given back.\<close>

theorem os_disk_verdict:
  assumes "\<not> EFI_ERROR (standard_lib fw)" and "block_handles fw = (st, ds)" and "\<not> EFI_ERROR st"
    and "\<And>d. d \<in> set ds \<Longrightarrow> works d"
  shows "\<exists>t. BBTestOsDiskFormatTest fw s = Some (Returned EFI_SUCCESS t) \<and>
     added s t = [if \<exists>d\<in>set ds. has_system_partition d then EFI_TEST_ASSERTION_PASSED
                  else EFI_TEST_ASSERTION_FAILED] \<and>
     protocols_open t = protocols_open s \<and> pool_live t = pool_live s + 1"
proof (cases "\<exists>d\<in>set ds. has_system_partition d")
  case True
  then obtain ys d zs where ds: "ds = ys @ d # zs" "has_system_partition d"
      "\<forall>y\<in>set ys. \<not> has_system_partition y"
    using first_with [OF True] by blast
  define u where "u = s\<lparr>pool_live := pool_live s + 1\<rparr>"
  have "handle_loop ds u = handle_loop (d # zs) u"
    unfolding ds(1) by (rule handle_loop_skips) (use assms(4) ds in auto)
  also have "\<dots> = Some (Returned EFI_SUCCESS (RecordAssertion EFI_TEST_ASSERTION_PASSED
      (Guid gSysEnvConfigAssertion003Guid) ''TestOsDiskFormat'' u))"
    by (rule handle_loop_found) (use assms(4) ds in auto)
  finally have "BBTestOsDiskFormatTest fw s = Some (Returned EFI_SUCCESS (RecordAssertion
      EFI_TEST_ASSERTION_PASSED (Guid gSysEnvConfigAssertion003Guid) ''TestOsDiskFormat'' u))"
    using assms(1-3) by (simp add: BBTestOsDiskFormatTest_def with_standard_lib_def u_def)
  then show ?thesis using True by (simp add: added_def u_def)
next
  case False
  then have "handle_loop ds u = handle_loop [] u" for u :: "'a sbbr"
    using assms(4) handle_loop_skips [of ds "[]" u] by simp
  then show ?thesis
    using False assms by (simp add: BBTestOsDiskFormatTest_def with_standard_lib_def added_def)
qed

text \<open>A device without a medium ends the disk test: it returns the error and records nothing,
whatever partitions the devices after it hold, with the device left open and its buffer and the
handle buffer still allocated.\<close>

theorem os_disk_no_media:
  assumes "\<not> EFI_ERROR (standard_lib fw)" and "block_handles fw = (st, ds @ d # es)"
    and "\<not> EFI_ERROR st" and "\<And>d. d \<in> set ds \<Longrightarrow> works d \<and> \<not> has_system_partition d"
    and "\<not> EFI_ERROR (open_status d)" "\<not> EFI_ERROR (alloc_status d)"
    and "EFI_ERROR (read_status d GPT_HEADER_LBA)"
  shows "\<exists>t. BBTestOsDiskFormatTest fw s = Some (Returned (read_status d GPT_HEADER_LBA) t) \<and>
     added s t = [] \<and> protocols_open t = protocols_open s + 1 \<and> pool_live t = pool_live s + 2"
  using assms handle_loop_skips [of ds "d # es" "s\<lparr>pool_live := Suc (pool_live s)\<rparr>"]
  by (simp add: BBTestOsDiskFormatTest_def with_standard_lib_def scan_disk_def added_def Let_def)

text \<open>An entry larger than a block: the scan makes no progress and ends only at an unreadable block.\<close>

lemma large_entry_scan:
  assumes "count < unat (NumberOfPartitionEntries d)"
    and "EFI_ERROR (read_status d (lba + word_of_nat k))"
  shows "\<exists>st. entry_scan d 0 lba count = Some (ReadError st)"
  using assms(2)
proof (induction k arbitrary: lba)
  case 0
  then show ?case using assms(1) by (subst entry_scan.simps) simp
next
  case (Suc k)
  have "\<exists>st. entry_scan d 0 (lba + 1) count = Some (ReadError st)"
    by (rule Suc.IH) (use Suc.prems in \<open>simp add: add.assoc\<close>)
  then show ?case using assms(1) by (subst entry_scan.simps) simp
qed

lemma large_entry_hangs:
  assumes "count < unat (NumberOfPartitionEntries d)" and "\<And>l. \<not> EFI_ERROR (read_status d l)"
  shows "entry_scan d 0 lba count = None"
proof (rule ccontr)
  assume "entry_scan d 0 lba count \<noteq> None"
  then obtain r where r: "entry_scan d 0 lba count = Some r" by blast
  define P where "P = (\<lambda>d' (per :: nat) (lba :: u64) count' (r :: found). d' = d \<longrightarrow> per = 0 \<longrightarrow> count' = count \<longrightarrow> False)"
  have "P d 0 lba count r"
  proof (rule entry_scan.raw_induct [where P = P, OF _ r])
    fix f d' per lba count' r
    assume IH: "\<And>d per lba count r. f d per lba count = Some r \<Longrightarrow> P d per lba count r"
      and eq: "(if count' < unat (NumberOfPartitionEntries d')
      then if EFI_ERROR (read_status d' lba) then Some (ReadError (read_status d' lba))
           else case lba_loop d' lba per per count' of
                  None \<Rightarrow> Some Partition
                | Some count \<Rightarrow> f d' per (lba + 1) count
      else Some NoPartition) = Some r"
    show "P d' per lba count' r"
      using eq assms IH [of d 0 "lba + 1" count r] by (auto simp: P_def)
  qed
  then show False by (simp add: P_def)
qed

lemma exc_level_verdict:
  assumes "BBTestBootExcLevelTest fw s = Some (Returned EFI_SUCCESS t)"
  shows "added s t = [if current_el fw = AARCH64_EL3 then EFI_TEST_ASSERTION_FAILED
                      else EFI_TEST_ASSERTION_PASSED]"
  using assms
  by (auto simp: BBTestBootExcLevelTest_def with_standard_lib_def Let_def AARCH64_EL1_def
      AARCH64_EL2_def AARCH64_EL3_def EFI_ERROR_def efi_codes split: if_splits)


subsection \<open>A concrete disk\<close>

text \<open>A disk with blocks of 512 bytes, entries of 128, and the system partition in entry 5.\<close>

definition sample_disk :: block_io where
  "sample_disk = \<lparr>open_status = 0, BlockSize = 512, alloc_status = 0, read_status = (\<lambda>_. 0),
     gpt_Signature = GPT_SIGNATURE, PartitionEntryLBA = 2, NumberOfPartitionEntries = 8,
     SizeOfPartitionEntry = 128,
     PartitionTypeGUID = (\<lambda>l k. if l = 3 \<and> k = 128 then GPT_EFI_PARTITION_GUID else VENDOR_GUID)\<rparr>"

lemma sample_disk_works: "works sample_disk"
  by (simp add: sample_disk_def works_def readable_def)

lemma sample_disk_partition: "has_system_partition sample_disk"
proof -
  have "entry_guid sample_disk (unat (BlockSize sample_disk div SizeOfPartitionEntry sample_disk)) 5 =
      GPT_EFI_PARTITION_GUID"
    by (simp add: sample_disk_def entry_guid_def)
  then show ?thesis
    by (auto simp: has_system_partition_def sample_disk_def intro!: exI [of _ 5])
qed


lemma os_disk_verdict_witness:
  "\<exists>t. BBTestOsDiskFormatTest (sample_uefi [sample_disk]) sample_state = Some (Returned EFI_SUCCESS t) \<and>
     added sample_state t = [EFI_TEST_ASSERTION_PASSED]"
proof -
  have "\<not> EFI_ERROR (standard_lib (sample_uefi [sample_disk]))"
    "block_handles (sample_uefi [sample_disk]) = (0, [sample_disk])"
    by (simp_all add: sample_uefi_def)
  then show ?thesis
    using os_disk_verdict [of "sample_uefi [sample_disk]" 0 "[sample_disk]" sample_state]
      sample_disk_works sample_disk_partition
    by auto
qed

text \<open>An empty drive before the sample disk hides its partition.\<close>

lemma os_disk_no_media_witness:
  "\<exists>t. BBTestOsDiskFormatTest
       (sample_uefi [sample_disk\<lparr>read_status := (\<lambda>_. EFI_NO_MEDIA)\<rparr>, sample_disk]) sample_state =
     Some (Returned EFI_NO_MEDIA t) \<and> added sample_state t = []"
proof -
  define d where "d = sample_disk\<lparr>read_status := (\<lambda>_. EFI_NO_MEDIA)\<rparr>"
  have "\<not> EFI_ERROR (standard_lib (sample_uefi [d, sample_disk]))"
    "block_handles (sample_uefi [d, sample_disk]) = (0, [] @ d # [sample_disk])"
    by (simp_all add: sample_uefi_def)
  moreover have "\<not> EFI_ERROR (open_status d)" "\<not> EFI_ERROR (alloc_status d)"
    "read_status d GPT_HEADER_LBA = EFI_NO_MEDIA"
    by (simp_all add: d_def sample_disk_def)
  ultimately show ?thesis
    using os_disk_no_media [of "sample_uefi [d, sample_disk]" 0 "[]" d "[sample_disk]" sample_state]
    by (auto simp: d_def)
qed

end
