(* ===== verification/Sbbr_Runtime.thy ===== *)
theory Sbbr_Runtime
  imports Sbbr_World
begin

text \<open>
  Tests of the runtime services (SBBRRuntimeServicesBBTestFunction.c): the runtime table, the
  shutdown at each task priority, and the survival of a non-volatile variable. The last two reset
  the machine in the middle of the test and go on after it with what they find in the reset record;
  \<open>boots\<close> follows a test through its resets.
\<close>

subsection \<open>The runtime table\<close>

definition runtime_table_ok :: "EFI_RUNTIME_SERVICES \<Rightarrow> bool" where
  "runtime_table_ok t \<longleftrightarrow> Signature t = EFI_RUNTIME_SERVICES_SIGNATURE \<and>
     0x00020000 \<le> Revision t \<and> Reserved t = 0 \<and>
     GetTime t \<noteq> 0 \<and> SetTime t \<noteq> 0 \<and> GetWakeupTime t \<noteq> 0 \<and> SetWakeupTime t \<noteq> 0 \<and>
     SetVirtualAddressMap t \<noteq> 0 \<and> ConvertPointer t \<noteq> 0 \<and>
     GetVariablePtr t \<noteq> 0 \<and> GetNextVariableName t \<noteq> 0 \<and> SetVariablePtr t \<noteq> 0 \<and>
     GetNextHighMonotonicCount t \<noteq> 0 \<and> ResetSystemPtr t \<noteq> 0 \<and>
     QueryVariableInfo t \<noteq> 0 \<and> QueryCapsuleCapabilities t \<noteq> 0 \<and> UpdateCapsule t \<noteq> 0"

text \<open>The checksum field of the live table is cleared for the sum and put back, but not on an error.\<close>

definition BBTestRuntimeServices :: "'m uefi \<Rightarrow> 'm sbbr \<Rightarrow> 'm outcome option" where
  "BBTestRuntimeServices fw s = with_standard_lib fw s (\<lambda>s.
     let crc = CRC32 (gtRT s);
         s = s\<lparr>gtRT := (gtRT s)\<lparr>CRC32 := 0\<rparr>\<rparr>;
         (st, LocalCRC32) = CalculateCrc32 fw (gtRT s);
         (AssertionType, s) =
           (if EFI_ERROR st then (EFI_TEST_ASSERTION_FAILED, s)
            else (if runtime_table_ok (gtRT s) \<and> LocalCRC32 = crc
                    then EFI_TEST_ASSERTION_PASSED else EFI_TEST_ASSERTION_FAILED,
                  s\<lparr>gtRT := (gtRT s)\<lparr>CRC32 := crc\<rparr>\<rparr>))
     in Some (Returned EFI_SUCCESS
          (RecordAssertion AssertionType (Guid gSBBRRuntimeServicesAssertion001Guid)
             ''UEFI Compliant - EFI Runtime Services Table must be implemented'' s)))"

subsection \<open>Shutdown\<close>

definition TPL_APPLICATION :: u64 where "TPL_APPLICATION = 4"
definition TPL_CALLBACK :: u64 where "TPL_CALLBACK = 8"
definition TPL_NOTIFY :: u64 where "TPL_NOTIFY = 16"

definition TplArray :: "u64 list" where
  "TplArray = [TPL_APPLICATION, TPL_CALLBACK, TPL_NOTIFY]"

definition TPL_ARRAY_SIZE :: nat where "TPL_ARRAY_SIZE = 3"

text \<open>\<open>RESET_DATA\<close>: step and index of eight bytes each, a counter of four, four of padding.\<close>

definition sizeof_RESET_DATA :: nat where "sizeof_RESET_DATA = 24"

definition reset_Step :: "u8 list \<Rightarrow> nat" where "reset_Step buf = le_nat (take 8 buf)"
definition reset_TplIndex :: "u8 list \<Rightarrow> nat" where "reset_TplIndex buf = le_nat (take 8 (drop 8 buf))"

definition put_reset_data :: "nat \<Rightarrow> u8 list \<Rightarrow> u8 list" where
  "put_reset_data i buf = le_bytes 8 1 @ le_bytes 8 i @ drop 16 buf"

definition record_shutdown :: "EFI_TEST_ASSERTION \<Rightarrow> nat \<Rightarrow> 'm sbbr \<Rightarrow> 'm sbbr" where
  "record_shutdown a i = RecordAssertion a
     (Guid (if i = 0 then gSBBRRuntimeServicesAssertion003Guid
            else if i = 1 then gSBBRRuntimeServicesAssertion002Guid
            else gSBBRRuntimeServicesAssertion003Guid))
     ''RT.ResetSystem - EfiResetShutdown''"

text \<open>The loop over the priorities that are left: record the step, raise the priority, shut down.\<close>

fun shutdown_loop :: "'m uefi \<Rightarrow> u8 list \<Rightarrow> nat list \<Rightarrow> 'm sbbr \<Rightarrow> 'm outcome" where
  "shutdown_loop fw buf [] s = Returned EFI_SUCCESS s"
| "shutdown_loop fw buf (i # is) s =
     (let buf = put_reset_data i buf;
          (st, m) = WriteResetRecord fw (take sizeof_RESET_DATA buf) (storage s);
          s = s\<lparr>storage := m\<rparr>
      in if EFI_ERROR st
         then Returned st (RecordAssertion EFI_TEST_ASSERTION_FAILED gTestGenericFailureGuid
                ''TestRecoveryLib - WriteResetRecord'' s)
         else let OldTpl = tpl s; s = s\<lparr>tpl := TplArray ! i\<rparr> in
         if reset_returns fw EfiResetShutdown (tpl s)
         then shutdown_loop fw buf is
                (record_shutdown EFI_TEST_ASSERTION_FAILED i (s\<lparr>tpl := OldTpl\<rparr>))
         else Restarted s)"

text \<open>Asking for the recovery library, and reading the reset record into a local buffer.\<close>

definition with_recovery_lib :: "'m uefi \<Rightarrow> 'm sbbr \<Rightarrow> ('m sbbr \<Rightarrow> 'm outcome option) \<Rightarrow> 'm outcome option" where
  "with_recovery_lib fw s k = with_standard_lib fw s (\<lambda>s.
     if EFI_ERROR (recovery_lib fw)
     then Some (Returned (recovery_lib fw)
            (RecordAssertion EFI_TEST_ASSERTION_FAILED gTestGenericFailureGuid
               ''BS.HandleProtocol - Handle recovery library'' s))
     else k s)"

definition read_reset_record :: "'m uefi \<Rightarrow> nat \<Rightarrow> 'm sbbr \<Rightarrow> (u64 \<times> u64 \<times> u8 list \<times> 'm sbbr) option" where
  "read_reset_record fw n s =
     (let (st, size', bytes, m) = ReadResetRecord fw (storage s)
      in do { buf \<leftarrow> store bytes (stack_bytes fw n); Some (st, size', buf, s\<lparr>storage := m\<rparr>) })"

definition BBTestResetShutdown :: "'m uefi \<Rightarrow> 'm sbbr \<Rightarrow> 'm outcome option" where
  "BBTestResetShutdown fw s = with_recovery_lib fw s (\<lambda>s. do {
     (st, Size, buf, s) \<leftarrow> read_reset_record fw 1024 s;
     if EFI_ERROR st \<or> unat Size < sizeof_RESET_DATA
     then Some (shutdown_loop fw buf [0..<TPL_ARRAY_SIZE] s)
     else if reset_Step buf = 1
     then if reset_TplIndex buf < TPL_ARRAY_SIZE
          then let i = reset_TplIndex buf in
            Some (shutdown_loop fw buf [i + 1..<TPL_ARRAY_SIZE]
                    (record_shutdown EFI_TEST_ASSERTION_PASSED i s))
          else Some (shutdown_loop fw buf [0..<TPL_ARRAY_SIZE] s)
     else Some (Returned EFI_LOAD_ERROR s) })"

subsection \<open>Non-volatile variable\<close>

definition TEST_VAR_NAME :: string where "TEST_VAR_NAME = ''SCT_NON_VOLATILE_TEST''"
definition UEFI_VARIABLE_TEST_VALUE :: nat where "UEFI_VARIABLE_TEST_VALUE = 0xDEADBEEF"

text \<open>EFI_VARIABLE_NON_VOLATILE, EFI_VARIABLE_BOOTSERVICE_ACCESS and EFI_VARIABLE_RUNTIME_ACCESS.\<close>

definition variable_attributes :: u32 where "variable_attributes = 1 OR 2 OR 4"

definition set_test_variable :: "'m uefi \<Rightarrow> u32 \<Rightarrow> u8 list \<Rightarrow> 'm sbbr \<Rightarrow> u64 \<times> 'm sbbr" where
  "set_test_variable fw a d s =
     (let (st, m) = SetVariable fw TEST_VAR_NAME VENDOR_GUID a d (storage s)
      in (st, s\<lparr>storage := m\<rparr>))"

definition generic_failure :: "string \<Rightarrow> 'm sbbr \<Rightarrow> 'm sbbr" where
  "generic_failure = RecordAssertion EFI_TEST_ASSERTION_FAILED gTestGenericFailureGuid"

text \<open>Before the reset: delete what is left over, write the value, write the record, reset.\<close>

definition write_test_variable :: "'m uefi \<Rightarrow> 'm sbbr \<Rightarrow> 'm outcome" where
  "write_test_variable fw s =
     (let (st, s) = set_test_variable fw 0 [] s in
      if EFI_ERROR st \<and> st \<noteq> EFI_NOT_FOUND then Returned st (generic_failure ''RS.SetVariable'' s)
      else let (st, s) = set_test_variable fw variable_attributes
                           (le_bytes 4 UEFI_VARIABLE_TEST_VALUE) s in
      if EFI_ERROR st then Returned st (generic_failure ''RS.SetVariable'' s)
      else let (_, m) = WriteResetRecord fw
                          (GUID_bytes SBBRRUNTIMESERVICES_NONVOLATILEVARIABLE_RESET_GUID) (storage s);
               s = s\<lparr>storage := m\<rparr> in
      if reset_returns fw EfiResetCold (tpl s)
      then Returned EFI_ABORTED (generic_failure ''RT.ResetSystem'' s)
      else Restarted s)"

text \<open>After it: read the variable into the same buffer of 20 bytes, erase it, compare.\<close>

definition read_test_variable :: "'m uefi \<Rightarrow> u64 \<Rightarrow> u8 list \<Rightarrow> 'm sbbr \<Rightarrow> 'm outcome option" where
  "read_test_variable fw Size buf s =
     (let (st, Size', bytes) = GetVariable fw TEST_VAR_NAME VENDOR_GUID Size (storage s)
      in do {
        buf \<leftarrow> store bytes buf;
        if EFI_ERROR st then Some (Returned st (generic_failure ''RS.GetVariable'' s))
        else let (st, s) = set_test_variable fw 0 [] s in
        if EFI_ERROR st then Some (Returned st (generic_failure ''RS.SetVariable'' s))
        else Some (Returned EFI_SUCCESS (RecordAssertion
               (if le_nat (take 4 buf) = UEFI_VARIABLE_TEST_VALUE
                then EFI_TEST_ASSERTION_PASSED else EFI_TEST_ASSERTION_FAILED)
               (Guid gSBBRRuntimeServicesAssertion004Guid) ''NonVolatileVariable'' s)) })"

definition BBTestNonVolatileVariable :: "'m uefi \<Rightarrow> 'm sbbr \<Rightarrow> 'm outcome option" where
  "BBTestNonVolatileVariable fw s = with_recovery_lib fw s (\<lambda>s. do {
     (st, Size, buf, s) \<leftarrow> read_reset_record fw 20 s;
     let ResetGuid = GUID_bytes SBBRRUNTIMESERVICES_NONVOLATILEVARIABLE_RESET_GUID;
     if EFI_ERROR st \<or> take 16 buf \<noteq> ResetGuid then Some (write_test_variable fw s)
     else if take 16 buf = ResetGuid then read_test_variable fw Size buf s
     else Some (Returned EFI_LOAD_ERROR s) })"

subsection \<open>A test through its resets\<close>

text \<open>
  After a reset the volatile state is fresh and the storage is what the firmware has kept; the SCT
  starts the test again. \<open>n\<close> bounds the number of starts.
\<close>

definition rebooted :: "'m uefi \<Rightarrow> 'm sbbr \<Rightarrow> 'm sbbr" where
  "rebooted fw s = s\<lparr>tpl := TPL_APPLICATION, pool_live := 0, protocols_open := 0,
     storage := after_reset fw (storage s)\<rparr>"

fun boots :: "nat \<Rightarrow> ('m uefi \<Rightarrow> 'm sbbr \<Rightarrow> 'm outcome option) \<Rightarrow> 'm uefi \<Rightarrow> 'm sbbr \<Rightarrow> (u64 \<times> 'm sbbr) option" where
  "boots 0 test fw s = None"
| "boots (Suc n) test fw s = (case test fw s of
     None \<Rightarrow> None
   | Some (Returned st t) \<Rightarrow> Some (st, t)
   | Some (Restarted t) \<Rightarrow> boots n test fw (rebooted fw t))"

text \<open>What the SCT documents of the reset record: it is kept over a reset.\<close>

definition keeps_record :: "'m uefi \<Rightarrow> bool" where
  "keeps_record fw \<longleftrightarrow> (\<forall>b m. \<not> EFI_ERROR (fst (WriteResetRecord fw b m)) \<and>
     (\<exists>m'. ReadResetRecord fw (after_reset fw (snd (WriteResetRecord fw b m))) =
        (EFI_SUCCESS, word_of_nat (length b), b, m')))"


subsection \<open>What the runtime table test records\<close>

text \<open>The test of the runtime table passes exactly when the checksum service gives the checksum
the table had, and the signature, the revision, the reserved field and all fourteen services are
right. The table is left as it was unless the checksum service fails: then its checksum stays 0.\<close>

theorem runtime_table_verdict:
  assumes "\<not> EFI_ERROR (standard_lib fw)"
    and "CalculateCrc32 fw ((gtRT s)\<lparr>CRC32 := 0\<rparr>) = (st, crc)"
  shows "\<exists>t. BBTestRuntimeServices fw s = Some (Returned EFI_SUCCESS t) \<and>
     added s t = [if \<not> EFI_ERROR st \<and> runtime_table_ok (gtRT s) \<and> crc = CRC32 (gtRT s)
                  then EFI_TEST_ASSERTION_PASSED else EFI_TEST_ASSERTION_FAILED] \<and>
     gtRT t = (if EFI_ERROR st then (gtRT s)\<lparr>CRC32 := 0\<rparr> else gtRT s)"
proof -
  have "runtime_table_ok ((gtRT s)\<lparr>CRC32 := 0\<rparr>) = runtime_table_ok (gtRT s)"
    by (simp add: runtime_table_ok_def)
  then show ?thesis
    using assms by (simp add: BBTestRuntimeServices_def with_standard_lib_def added_def Let_def)
qed

subsection \<open>The shutdown test over its resets\<close>

lemma put_reset_data_read:
  assumes "length buf = 1024" "i < 2 ^ 64"
  shows "reset_Step (put_reset_data i buf @ r) = 1" "reset_TplIndex (put_reset_data i buf @ r) = i"
    "length (put_reset_data i buf) = 1024"
  using assms by (simp_all add: reset_Step_def reset_TplIndex_def put_reset_data_def le_nat_bytes)

text \<open>The first 24 bytes of the buffer are the record, and hold the step and the index.\<close>

lemma reset_record_read:
  assumes "length buf = 1024" "i < 3"
  defines "rec \<equiv> take sizeof_RESET_DATA (put_reset_data i buf)"
  shows "length rec = 24" "reset_Step (rec @ r) = 1" "reset_TplIndex (rec @ r) = i"
proof -
  have "rec = le_bytes 8 1 @ le_bytes 8 i @ take 8 (drop 16 buf)"
    by (simp add: rec_def put_reset_data_def sizeof_RESET_DATA_def)
  then show "length rec = 24" "reset_Step (rec @ r) = 1" "reset_TplIndex (rec @ r) = i"
    using assms(1,2) by (simp_all add: reset_Step_def reset_TplIndex_def le_nat_bytes)
qed

definition shutdown_assertion :: "'m uefi \<Rightarrow> nat \<Rightarrow> assertion" where
  "shutdown_assertion fw i =
     \<lparr>a_type = if reset_returns fw EfiResetShutdown (TplArray ! i)
               then EFI_TEST_ASSERTION_FAILED else EFI_TEST_ASSERTION_PASSED,
      a_guid = Guid (if i = 1 then gSBBRRuntimeServicesAssertion002Guid
                     else gSBBRRuntimeServicesAssertion003Guid),
      a_name = ''RT.ResetSystem - EfiResetShutdown''\<rparr>"

lemma record_shutdown_sel [simp]:
  "assertions (record_shutdown a i s) = assertions s @
     [\<lparr>a_type = a, a_guid = Guid (if i = 1 then gSBBRRuntimeServicesAssertion002Guid
         else gSBBRRuntimeServicesAssertion003Guid), a_name = ''RT.ResetSystem - EfiResetShutdown''\<rparr>]"
  by (simp add: record_shutdown_def)

text \<open>What becomes of an outcome with \<open>n\<close> starts left.\<close>

fun resume :: "nat \<Rightarrow> ('m uefi \<Rightarrow> 'm sbbr \<Rightarrow> 'm outcome option) \<Rightarrow> 'm uefi \<Rightarrow> 'm outcome \<Rightarrow> (u64 \<times> 'm sbbr) option" where
  "resume n test fw (Returned st t) = Some (st, t)"
| "resume n test fw (Restarted t) = boots n test fw (rebooted fw t)"

lemma boots_resume:
  "test fw s = Some out \<Longrightarrow> boots (Suc n) test fw s = resume n test fw out"
  by (cases out) simp_all

text \<open>A start after a reset at priority \<open>i\<close> records the pass and goes on with the next priority.\<close>

lemma shutdown_second_step:
  assumes libs: "\<not> EFI_ERROR (standard_lib fw)" "\<not> EFI_ERROR (recovery_lib fw)"
    and rec: "ReadResetRecord fw (storage s) =
      (EFI_SUCCESS, word_of_nat (length (take sizeof_RESET_DATA (put_reset_data i buf))),
       take sizeof_RESET_DATA (put_reset_data i buf), m)"
    and i: "length buf = 1024" "i < 3"
  shows "\<exists>buf'. length buf' = 1024 \<and> BBTestResetShutdown fw s =
    Some (shutdown_loop fw buf' [i + 1..<3]
      (record_shutdown EFI_TEST_ASSERTION_PASSED i (s\<lparr>storage := m\<rparr>)))"
proof -
  define rec where "rec = take sizeof_RESET_DATA (put_reset_data i buf)"
  note r = reset_record_read [OF i, folded rec_def]
  define buf' where "buf' = rec @ drop 24 (stack_bytes fw 1024)"
  have "store rec (stack_bytes fw 1024) = Some buf'"
    using r(1) by (simp add: store_def buf'_def)
  then have "read_reset_record fw 1024 s = Some (EFI_SUCCESS, 24, buf', s\<lparr>storage := m\<rparr>)"
    using rec r(1) by (simp add: read_reset_record_def rec_def)
  moreover have "reset_Step buf' = 1" "reset_TplIndex buf' = i"
    using r(2,3) by (simp_all add: buf'_def)
  moreover have "length buf' = 1024" by (simp add: buf'_def r(1))
  ultimately show ?thesis
    using libs i
    by (intro exI [of _ buf'])
      (simp add: BBTestResetShutdown_def with_recovery_lib_def with_standard_lib_def
        sizeof_RESET_DATA_def TPL_ARRAY_SIZE_def Let_def)
qed

text \<open>From priority \<open>i\<close> on, over as many resets as there are.\<close>

lemma shutdown_from:
  assumes libs: "\<not> EFI_ERROR (standard_lib fw)" "\<not> EFI_ERROR (recovery_lib fw)"
    and keeps: "keeps_record fw"
  shows "length buf = 1024 \<Longrightarrow> 3 - i \<le> n \<Longrightarrow>
    \<exists>t. resume n BBTestResetShutdown fw (shutdown_loop fw buf [i..<3] s) = Some (EFI_SUCCESS, t) \<and>
      assertions t = assertions s @ map (shutdown_assertion fw) [i..<3]"
proof (induction "3 - i" arbitrary: i n s buf)
  case 0
  then show ?case by simp
next
  case (Suc k)
  then have i: "i < 3" "[i..<3] = i # [Suc i..<3]" "k = 3 - Suc i"
    by (simp_all add: upt_conv_Cons)
  define buf' where "buf' = put_reset_data i buf"
  have buf': "length buf' = 1024"
    using Suc.prems(1) by (simp add: buf'_def put_reset_data_def)
  define b where "b = take sizeof_RESET_DATA buf'"
  obtain st m where w: "WriteResetRecord fw b (storage s) = (st, m)" by fastforce
  with keeps have st: "\<not> EFI_ERROR st"
    and "\<exists>m'. ReadResetRecord fw (after_reset fw m) = (EFI_SUCCESS, word_of_nat (length b), b, m')"
    unfolding keeps_record_def by (metis fst_conv, metis snd_conv)
  then obtain m' where rd: "ReadResetRecord fw (after_reset fw m) =
      (EFI_SUCCESS, word_of_nat (length b), b, m')" by blast
  show ?case
  proof (cases "reset_returns fw EfiResetShutdown (TplArray ! i)")
    case True
    define u where "u = record_shutdown EFI_TEST_ASSERTION_FAILED i (s\<lparr>storage := m\<rparr>)"
    have "\<exists>t. resume n BBTestResetShutdown fw (shutdown_loop fw buf' [Suc i..<3] u) = Some (EFI_SUCCESS, t) \<and>
        assertions t = assertions u @ map (shutdown_assertion fw) [Suc i..<3]"
      using Suc.prems by (intro Suc.hyps(1) [OF i(3) buf']) simp
    moreover have "shutdown_loop fw buf [i..<3] s = shutdown_loop fw buf' [Suc i..<3] u"
      using True st w by (simp add: i(2) Let_def u_def buf'_def [symmetric] b_def [symmetric])
    moreover have "assertions u = assertions s @ [shutdown_assertion fw i]"
      using True by (simp add: u_def shutdown_assertion_def)
    ultimately show ?thesis by (simp add: i(2))
  next
    case False
    define u where "u = rebooted fw (s\<lparr>storage := m, tpl := TplArray ! i\<rparr>)"
    have loop: "shutdown_loop fw buf [i..<3] s = Restarted (s\<lparr>storage := m, tpl := TplArray ! i\<rparr>)"
      using False st w by (simp add: i(2) Let_def buf'_def [symmetric] b_def [symmetric])
    have "ReadResetRecord fw (storage u) = (EFI_SUCCESS, word_of_nat (length b), b, m')"
      by (simp add: u_def rebooted_def rd)
    then obtain buf'' where b'': "length buf'' = 1024"
      and next_start: "BBTestResetShutdown fw u = Some (shutdown_loop fw buf'' [Suc i..<3]
        (record_shutdown EFI_TEST_ASSERTION_PASSED i (u\<lparr>storage := m'\<rparr>)))"
      using shutdown_second_step [OF libs, of u i buf m'] Suc.prems(1) i(1)
      by (auto simp: b_def buf'_def)
    from Suc.prems(2) i(1) obtain n' where n: "n = Suc n'" "3 - Suc i \<le> n'"
      by (cases n) auto
    define v where "v = record_shutdown EFI_TEST_ASSERTION_PASSED i (u\<lparr>storage := m'\<rparr>)"
    have "\<exists>t. resume n' BBTestResetShutdown fw (shutdown_loop fw buf'' [Suc i..<3] v) = Some (EFI_SUCCESS, t) \<and>
        assertions t = assertions v @ map (shutdown_assertion fw) [Suc i..<3]"
      using n(2) by (intro Suc.hyps(1) [OF i(3) b'']) simp
    moreover have "assertions v = assertions s @ [shutdown_assertion fw i]"
      using False by (simp add: v_def u_def rebooted_def shutdown_assertion_def)
    moreover have "resume n BBTestResetShutdown fw (shutdown_loop fw buf [i..<3] s) =
        resume n' BBTestResetShutdown fw (shutdown_loop fw buf'' [Suc i..<3] v)"
      using boots_resume [of BBTestResetShutdown fw u _ n', OF next_start]
      by (simp add: loop n(1) u_def v_def)
    ultimately show ?thesis by (simp add: i(2))
  qed
qed

text \<open>C38: On a firmware that keeps the reset record, the shutdown test started without a record
finishes within four starts and records one assertion per task priority, in order: a pass where the
machine went down, a failure where the reset returned.\<close>

theorem shutdown_run:
  assumes "\<not> EFI_ERROR (standard_lib fw)" "\<not> EFI_ERROR (recovery_lib fw)" "keeps_record fw"
    and "ReadResetRecord fw (storage s) = (st, sz, [], m)" "EFI_ERROR st"
  shows "\<exists>t. boots 4 BBTestResetShutdown fw s = Some (EFI_SUCCESS, t) \<and>
     assertions t = assertions s @ map (shutdown_assertion fw) [0, 1, 2]"
proof -
  have "BBTestResetShutdown fw s =
      Some (shutdown_loop fw (stack_bytes fw 1024) [0..<3] (s\<lparr>storage := m\<rparr>))"
    using assms
    by (simp add: BBTestResetShutdown_def with_recovery_lib_def with_standard_lib_def
        read_reset_record_def store_def TPL_ARRAY_SIZE_def)
  then have "boots (Suc 3) BBTestResetShutdown fw s =
      resume 3 BBTestResetShutdown fw (shutdown_loop fw (stack_bytes fw 1024) [0..<3] (s\<lparr>storage := m\<rparr>))"
    by (rule boots_resume)
  moreover obtain t where t: "resume 3 BBTestResetShutdown fw
      (shutdown_loop fw (stack_bytes fw 1024) [0..<3] (s\<lparr>storage := m\<rparr>)) = Some (EFI_SUCCESS, t)"
    "assertions t = assertions (s\<lparr>storage := m\<rparr>) @ map (shutdown_assertion fw) [0..<3]"
    using shutdown_from [OF assms(1-3), of "stack_bytes fw 1024" 0 3 "s\<lparr>storage := m\<rparr>"] by auto
  ultimately have "boots 4 BBTestResetShutdown fw s = Some (EFI_SUCCESS, t)"
    by (simp del: boots.simps add: eval_nat_numeral)
  moreover have "assertions t = assertions s @ map (shutdown_assertion fw) [0, 1, 2]"
    using t(2) by (simp add: upt_rec numeral_2_eq_2)
  ultimately show ?thesis by blast
qed


lemma sample_keeps_record: "keeps_record (sample_uefi ds)"
  by (auto simp: keeps_record_def sample_uefi_def split: prod.splits)

lemma shutdown_run_witness:
  "\<exists>t. boots 4 BBTestResetShutdown (sample_uefi []) sample_state = Some (EFI_SUCCESS, t) \<and>
     map a_type (assertions t) = replicate 3 EFI_TEST_ASSERTION_PASSED"
proof -
  have "ReadResetRecord (sample_uefi []) (storage sample_state) = (EFI_NOT_FOUND, 0, [], (None, None))"
    by (simp add: sample_uefi_def sample_state_def)
  then obtain t where "boots 4 BBTestResetShutdown (sample_uefi []) sample_state = Some (EFI_SUCCESS, t)"
    "assertions t = assertions sample_state @ map (shutdown_assertion (sample_uefi [])) [0, 1, 2]"
    using shutdown_run [of "sample_uefi []" sample_state EFI_NOT_FOUND 0 "(None, None)"] sample_keeps_record
    by (auto simp: sample_uefi_def)
  then show ?thesis
    by (intro exI [of _ t]) (simp add: shutdown_assertion_def sample_state_def sample_uefi_def
        numeral_3_eq_3)
qed

lemma runtime_table_verdict_witness:
  "\<exists>t. BBTestRuntimeServices (sample_uefi []) sample_state = Some (Returned EFI_SUCCESS t) \<and>
     added sample_state t = [EFI_TEST_ASSERTION_PASSED] \<and> gtRT t = sample_table"
  using runtime_table_verdict [of "sample_uefi []" sample_state 0 5]
  by (simp add: sample_uefi_def sample_state_def sample_table_def runtime_table_ok_def)

subsection \<open>The variable test over its reset\<close>

text \<open>The third branch of the test, for a record that is neither equal nor unequal, is never taken.\<close>

lemma nonvolatile_no_load_error:
  assumes "read_reset_record fw 20 s = Some (st, sz, buf, u)"
    and "\<not> EFI_ERROR (standard_lib fw)" "\<not> EFI_ERROR (recovery_lib fw)"
  shows "BBTestNonVolatileVariable fw s =
    (if EFI_ERROR st \<or> take 16 buf \<noteq> GUID_bytes SBBRRUNTIMESERVICES_NONVOLATILEVARIABLE_RESET_GUID
     then Some (write_test_variable fw u) else read_test_variable fw sz buf u)"
  using assms by (simp add: BBTestNonVolatileVariable_def with_recovery_lib_def with_standard_lib_def Let_def)

text \<open>A reset record longer than the 20 bytes of the buffer overruns it: the size is not given.\<close>

lemma nonvolatile_record_overrun:
  assumes "ReadResetRecord fw (storage s) = (st, sz, bytes, m)" "20 < length bytes"
    and "\<not> EFI_ERROR (standard_lib fw)" "\<not> EFI_ERROR (recovery_lib fw)"
  shows "BBTestNonVolatileVariable fw s = None"
  using assms
  by (simp add: BBTestNonVolatileVariable_def with_recovery_lib_def with_standard_lib_def
      read_reset_record_def store_def)

text \<open>The storage after both writes, the reset and the reading of the record.\<close>

definition storage_at_reset :: "'m uefi \<Rightarrow> 'm \<Rightarrow> 'm" where
  "storage_at_reset fw m =
     (let m = snd (SetVariable fw TEST_VAR_NAME VENDOR_GUID 0 [] m);
          m = snd (SetVariable fw TEST_VAR_NAME VENDOR_GUID variable_attributes
                     (le_bytes 4 UEFI_VARIABLE_TEST_VALUE) m)
      in snd (WriteResetRecord fw (GUID_bytes SBBRRUNTIMESERVICES_NONVOLATILEVARIABLE_RESET_GUID) m))"

lemma length_reset_guid [simp]:
  "length (GUID_bytes SBBRRUNTIMESERVICES_NONVOLATILEVARIABLE_RESET_GUID) = 16"
  by (simp add: GUID_bytes_def SBBRRUNTIMESERVICES_NONVOLATILEVARIABLE_RESET_GUID_def)

text \<open>The first start: with no record, the value and the record are written and the machine resets.\<close>

lemma nonvolatile_first_start:
  assumes "\<not> EFI_ERROR (standard_lib fw)" "\<not> EFI_ERROR (recovery_lib fw)"
    and "\<And>a d m. \<not> EFI_ERROR (fst (SetVariable fw TEST_VAR_NAME VENDOR_GUID a d m))"
    and "\<not> reset_returns fw EfiResetCold (tpl s)"
    and "ReadResetRecord fw (storage s) = (st, sz, [], m0)" "EFI_ERROR st"
  shows "BBTestNonVolatileVariable fw s = Some (Restarted (s\<lparr>storage := storage_at_reset fw m0\<rparr>))"
proof -
  have "BBTestNonVolatileVariable fw s = Some (write_test_variable fw (s\<lparr>storage := m0\<rparr>))"
    using assms by (simp add: nonvolatile_no_load_error read_reset_record_def store_def)
  also have "write_test_variable fw (s\<lparr>storage := m0\<rparr>) = Restarted (s\<lparr>storage := storage_at_reset fw m0\<rparr>)"
    using assms
    by (simp add: write_test_variable_def set_test_variable_def storage_at_reset_def Let_def
        case_prod_unfold)
  finally show ?thesis .
qed

text \<open>The second start: with the record, the variable is read, erased and compared.\<close>

lemma nonvolatile_second_start:
  assumes "\<not> EFI_ERROR (standard_lib fw)" "\<not> EFI_ERROR (recovery_lib fw)"
    and "ReadResetRecord fw (storage u) =
      (EFI_SUCCESS, 16, GUID_bytes SBBRRUNTIMESERVICES_NONVOLATILEVARIABLE_RESET_GUID, m2)"
  shows "\<exists>buf. length buf = 20 \<and>
    BBTestNonVolatileVariable fw u = read_test_variable fw 16 buf (u\<lparr>storage := m2\<rparr>)"
proof -
  define g where "g = GUID_bytes SBBRRUNTIMESERVICES_NONVOLATILEVARIABLE_RESET_GUID"
  define buf where "buf = g @ drop 16 (stack_bytes fw 20)"
  have g: "length g = 16" by (simp add: g_def)
  then have "read_reset_record fw 20 u = Some (EFI_SUCCESS, 16, buf, u\<lparr>storage := m2\<rparr>)"
    using assms(3) by (simp add: read_reset_record_def store_def buf_def g_def [symmetric])
  then have "BBTestNonVolatileVariable fw u = read_test_variable fw 16 buf (u\<lparr>storage := m2\<rparr>)"
    using assms(1,2) g by (simp add: nonvolatile_no_load_error buf_def g_def [symmetric])
  moreover have "length buf = 20" by (simp add: buf_def g)
  ultimately show ?thesis by blast
qed



end
