(* ===== verification/Sbbr_Drivers.thy ===== *)
theory Sbbr_Drivers
  imports Sbbr_Boot Sbbr_Disk Sbbr_Runtime
begin

text \<open>
  The six test drivers (the *BBTestMain.c files): what each registers with the SCT, and how it is
  initialised. The theorem at the end holds of every registered test case.
\<close>

subsection \<open>Registered tests\<close>

record 'm bb_test_entry =
  entry_guid :: EFI_GUID
  entry_name :: string
  entry_manual :: bool
  entry_point :: "'m uefi \<Rightarrow> 'm sbbr \<Rightarrow> 'm outcome option"

record 'm bb_driver =
  driver_guid :: EFI_GUID
  driver_name :: string
  driver_entries :: "'m bb_test_entry list"
  driver_assertions :: "EFI_GUID list"

definition SBBRRuntimeServices_driver :: "'m bb_driver" where
  "SBBRRuntimeServices_driver = \<lparr>driver_guid = SBBRRUNTIMESERVICES_TEST_GUID,
     driver_name = ''SBBRRuntimeServices Tests'',
     driver_entries = [
       \<lparr>entry_guid = SBBRRUNTIMESERVICES_TEST_CASE_GUID, entry_name = ''Runtime Services Test'',
        entry_manual = False, entry_point = BBTestRuntimeServices\<rparr>,
       \<lparr>entry_guid = SBBRRUNTIMESERVICES_TEST_CASE_RESETSHUTDOWN_GUID,
        entry_name = ''ResetSystem Shutdown Test'',
        entry_manual = True, entry_point = BBTestResetShutdown\<rparr>,
       \<lparr>entry_guid = SBBRRUNTIMESERVICES_TEST_CASE_NONVOLATILEVARIABLE_GUID,
        entry_name = ''Non-volatile Variable Reset Test'',
        entry_manual = False, entry_point = BBTestNonVolatileVariable\<rparr>],
     driver_assertions = [gSBBRRuntimeServicesAssertion001Guid, gSBBRRuntimeServicesAssertion002Guid,
       gSBBRRuntimeServicesAssertion003Guid, gSBBRRuntimeServicesAssertion004Guid]\<rparr>"

definition SbbrBootServices_driver :: "'m bb_driver" where
  "SbbrBootServices_driver = \<lparr>driver_guid = SBBRBOOTSERVICES_TEST_GUID,
     driver_name = ''SbbrBootServices Tests'',
     driver_entries = [
       \<lparr>entry_guid = SBBRBOOTSERVICES_MEMORYMAP_GUID, entry_name = ''MemoryMap'',
        entry_manual = False, entry_point = BBTestMemoryMapTest\<rparr>,
       \<lparr>entry_guid = SBBRBOOTSERVICES_SMBIOSTABLE_GUID, entry_name = ''SmbiosTable'',
        entry_manual = False, entry_point = BBTestSmbiosTableTest\<rparr>,
       \<lparr>entry_guid = SBBRBOOTSERVICES_ACPITABLE_GUID, entry_name = ''AcpiTable'',
        entry_manual = False, entry_point = BBTestAcpiTableTest\<rparr>],
     driver_assertions = [gSbbrBootServicesAssertion001Guid, gSbbrBootServicesAssertion002Guid,
       gSbbrBootServicesAssertion003Guid]\<rparr>"

definition EfiSpecVerLvl_driver :: "'m bb_driver" where
  "EfiSpecVerLvl_driver = \<lparr>driver_guid = EFISPECVERLVL_TEST_GUID,
     driver_name = ''SBBR UEFI Specification Version Level Test'',
     driver_entries = [
       \<lparr>entry_guid = EFISPECVERLVL_GUID, entry_name = ''TestEfiSpecVerLvl'',
        entry_manual = False, entry_point = BBTestEfiSpecVerLvlTest\<rparr>],
     driver_assertions = [gEfiSpecVerLvlAssertion01Guid]\<rparr>"

definition RequiredUefiProtocols_driver :: "'m bb_driver" where
  "RequiredUefiProtocols_driver = \<lparr>driver_guid = REQUIREDUEFIPROTOCOLS_TEST_GUID,
     driver_name = ''RequiredUefiProtocols Tests'',
     driver_entries = [
       \<lparr>entry_guid = REQUIREDUEFIPROTOCOLS_MEDIAIOPROTOCOLS_GUID, entry_name = ''MediaIoProtocols'',
        entry_manual = False, entry_point = BBTestMediaIoProtocolsTest\<rparr>],
     driver_assertions = [gRequiredUefiProtocolsAssertion001Guid]\<rparr>"

definition SbbrSmbios_driver :: "'m bb_driver" where
  "SbbrSmbios_driver = \<lparr>driver_guid = SBBRSMBIOS_TEST_GUID,
     driver_name = ''SbbrSmbios Tests'',
     driver_entries = [
       \<lparr>entry_guid = SBBRSMBIOS_UEFISMBIOS_GUID, entry_name = ''UefiSmbios'',
        entry_manual = False, entry_point = BBTestUefiSmbiosTest\<rparr>],
     driver_assertions = [gSbbrSmbiosAssertion001Guid]\<rparr>"

definition SysEnvConfig_driver :: "'m bb_driver" where
  "SysEnvConfig_driver = \<lparr>driver_guid = SYSENVCONFIG_TEST_GUID,
     driver_name = ''SBBR UEFI System Environment and Configuration Tests'',
     driver_entries = [
       \<lparr>entry_guid = SYSENVCONFIG_BOOT_EXC_LEVEL_GUID, entry_name = ''BootExcLevel'',
        entry_manual = False, entry_point = BBTestBootExcLevelTest\<rparr>,
       \<lparr>entry_guid = SYSENVCONFIG_OS_DISK_FORMAT_GUID, entry_name = ''OsDiskFormat'',
        entry_manual = False, entry_point = BBTestOsDiskFormatTest\<rparr>],
     driver_assertions = [gSysEnvConfigAssertion001Guid, gSysEnvConfigAssertion002Guid,
       gSysEnvConfigAssertion003Guid, gSysEnvConfigAssertion004Guid]\<rparr>"

subsection \<open>Initialisation\<close>

text \<open>
  A driver initialises the test library, three of them the SCT library too, and returns what the
  SCT answers to the installation of its interface; unloading returns what it answers to the removal.
\<close>

datatype sct_call =
    EfiInitializeTestLib
  | SctInitializeLib
  | EfiInitAndInstallBBTestInterface EFI_GUID
  | EfiUninstallAndFreeBBTestInterface EFI_GUID

definition InitializeBBTestSBBRRuntimeServices :: "(sct_call \<Rightarrow> u64) \<Rightarrow> sct_call list \<times> u64" where
  "InitializeBBTestSBBRRuntimeServices sct =
     (let inst = EfiInitAndInstallBBTestInterface (driver_guid SBBRRuntimeServices_driver)
      in ([EfiInitializeTestLib, SctInitializeLib, inst], sct inst))"

definition InitializeBBTestSbbrBootServices :: "(sct_call \<Rightarrow> u64) \<Rightarrow> sct_call list \<times> u64" where
  "InitializeBBTestSbbrBootServices sct =
     (let inst = EfiInitAndInstallBBTestInterface (driver_guid SbbrBootServices_driver)
      in ([EfiInitializeTestLib, SctInitializeLib, inst], sct inst))"

definition InitializeBBTestSbbrSmbios :: "(sct_call \<Rightarrow> u64) \<Rightarrow> sct_call list \<times> u64" where
  "InitializeBBTestSbbrSmbios sct =
     (let inst = EfiInitAndInstallBBTestInterface (driver_guid SbbrSmbios_driver)
      in ([EfiInitializeTestLib, SctInitializeLib, inst], sct inst))"

definition InitializeBBTestEfiSpecVerLvl :: "(sct_call \<Rightarrow> u64) \<Rightarrow> sct_call list \<times> u64" where
  "InitializeBBTestEfiSpecVerLvl sct =
     (let inst = EfiInitAndInstallBBTestInterface (driver_guid EfiSpecVerLvl_driver)
      in ([EfiInitializeTestLib, inst], sct inst))"

definition InitializeBBTestRequiredUefiProtocols :: "(sct_call \<Rightarrow> u64) \<Rightarrow> sct_call list \<times> u64" where
  "InitializeBBTestRequiredUefiProtocols sct =
     (let inst = EfiInitAndInstallBBTestInterface (driver_guid RequiredUefiProtocols_driver)
      in ([EfiInitializeTestLib, inst], sct inst))"

definition InitializeBBTestSysEnvConfig :: "(sct_call \<Rightarrow> u64) \<Rightarrow> sct_call list \<times> u64" where
  "InitializeBBTestSysEnvConfig sct =
     (let inst = EfiInitAndInstallBBTestInterface (driver_guid SysEnvConfig_driver)
      in ([EfiInitializeTestLib, inst], sct inst))"

definition BBTestSbbrSmbiosUnload :: "(sct_call \<Rightarrow> u64) \<Rightarrow> sct_call list \<times> u64" where
  "BBTestSbbrSmbiosUnload sct =
     (let rem = EfiUninstallAndFreeBBTestInterface (driver_guid SbbrSmbios_driver) in ([rem], sct rem))"

definition BBTestSBBRRuntimeServicesUnload :: "(sct_call \<Rightarrow> u64) \<Rightarrow> sct_call list \<times> u64" where
  "BBTestSBBRRuntimeServicesUnload sct =
     (let rem = EfiUninstallAndFreeBBTestInterface (driver_guid SBBRRuntimeServices_driver) in ([rem], sct rem))"

definition BBTestSbbrBootServicesUnload :: "(sct_call \<Rightarrow> u64) \<Rightarrow> sct_call list \<times> u64" where
  "BBTestSbbrBootServicesUnload sct =
     (let rem = EfiUninstallAndFreeBBTestInterface (driver_guid SbbrBootServices_driver) in ([rem], sct rem))"

definition BBTestEfiSpecVerLvlUnload :: "(sct_call \<Rightarrow> u64) \<Rightarrow> sct_call list \<times> u64" where
  "BBTestEfiSpecVerLvlUnload sct =
     (let rem = EfiUninstallAndFreeBBTestInterface (driver_guid EfiSpecVerLvl_driver) in ([rem], sct rem))"

definition BBTestRequiredUefiProtocolsUnload :: "(sct_call \<Rightarrow> u64) \<Rightarrow> sct_call list \<times> u64" where
  "BBTestRequiredUefiProtocolsUnload sct =
     (let rem = EfiUninstallAndFreeBBTestInterface (driver_guid RequiredUefiProtocols_driver) in ([rem], sct rem))"

definition BBTestSysEnvConfigUnload :: "(sct_call \<Rightarrow> u64) \<Rightarrow> sct_call list \<times> u64" where
  "BBTestSysEnvConfigUnload sct =
     (let rem = EfiUninstallAndFreeBBTestInterface (driver_guid SysEnvConfig_driver) in ([rem], sct rem))"

definition sbbr_drivers :: "'m bb_driver list" where
  "sbbr_drivers = [SBBRRuntimeServices_driver, SbbrBootServices_driver, EfiSpecVerLvl_driver,
     RequiredUefiProtocols_driver, SbbrSmbios_driver, SysEnvConfig_driver]"

lemmas driver_defs = SBBRRuntimeServices_driver_def SbbrBootServices_driver_def
  EfiSpecVerLvl_driver_def RequiredUefiProtocols_driver_def SbbrSmbios_driver_def
  SysEnvConfig_driver_def

text \<open>No two drivers and no two test cases share a GUID.\<close>

lemma sbbr_guids_distinct:
  "distinct (map Data1 (map driver_guid (sbbr_drivers :: 'm bb_driver list) @
     map entry_guid (concat (map driver_entries (sbbr_drivers :: 'm bb_driver list)))))"
  by (simp add: sbbr_drivers_def driver_defs guid_defs)

subsection \<open>What every test keeps\<close>

text \<open>The assertions only grow, under the GUIDs \<open>gs\<close> of a driver or the generic one.\<close>

definition own_guid :: "EFI_GUID list \<Rightarrow> assertion_guid \<Rightarrow> bool" where
  "own_guid gs g \<longleftrightarrow> g = gTestGenericFailureGuid \<or> g \<in> Guid ` set gs"

definition extends_by :: "EFI_GUID list \<Rightarrow> 'm sbbr \<Rightarrow> 'm sbbr \<Rightarrow> bool" where
  "extends_by gs s t \<longleftrightarrow>
     (\<exists>new. assertions t = assertions s @ new \<and> (\<forall>a\<in>set new. own_guid gs (a_guid a)))"

lemma extends_same: "assertions t = assertions s \<Longrightarrow> extends_by gs s t"
  by (simp add: extends_by_def)

lemma extends_Record: "own_guid gs g \<Longrightarrow> extends_by gs s (RecordAssertion a g n s)"
  by (simp add: extends_by_def)

lemma extends_trans: "extends_by gs s t \<Longrightarrow> extends_by gs t u \<Longrightarrow> extends_by gs s u"
  by (auto simp: extends_by_def ball_Un)

lemma extends_length: "extends_by gs s t \<Longrightarrow> length (assertions s) \<le> length (assertions t)"
  by (auto simp: extends_by_def)

text \<open>A test that returns success has recorded something, unless it may be silent.\<close>

definition reports :: "EFI_GUID list \<Rightarrow> bool \<Rightarrow> 'm sbbr \<Rightarrow> 'm outcome \<Rightarrow> bool" where
  "reports gs silent s out \<longleftrightarrow> extends_by gs s (state_of out) \<and>
     (\<not> silent \<longrightarrow> (\<forall>t. out = Returned EFI_SUCCESS t \<longrightarrow> length (assertions s) < length (assertions t)))"

lemma reports_error:
  "EFI_ERROR st \<Longrightarrow> extends_by gs s t \<Longrightarrow> reports gs q s (Returned st t)"
  by (auto simp: reports_def)

lemma reports_Record:
  "own_guid gs g \<Longrightarrow> assertions u = assertions s \<Longrightarrow> assertions t = assertions (RecordAssertion a g n u) \<Longrightarrow>
     reports gs q s (Returned st t)"
  by (simp add: reports_def extends_by_def)

lemma with_standard_lib_reports:
  assumes "with_standard_lib fw s k = Some out" "\<And>out. k s = Some out \<Longrightarrow> reports gs q s out"
  shows "reports gs q s out"
  using assms by (auto simp: with_standard_lib_def extends_same intro: reports_error split: if_splits)

lemma with_recovery_lib_reports:
  assumes "with_recovery_lib fw s k = Some out" "\<And>out. k s = Some out \<Longrightarrow> reports gs q s out"
  shows "reports gs q s out"
  using assms(1) unfolding with_recovery_lib_def
  by (rule with_standard_lib_reports)
    (auto intro: assms(2) reports_Record [OF _ refl refl] simp: own_guid_def split: if_splits)

lemma bound_by_own:
  "gTestGenericFailureGuid \<noteq> Guid g" "own_guid gs gTestGenericFailureGuid"
  "g \<in> set gs \<Longrightarrow> own_guid gs (Guid g)"
  by (auto simp: own_guid_def)

lemma extends_descriptors:
  assumes "gSbbrBootServicesAssertion001Guid \<in> set gs"
  shows "extends_by gs s (fold check_descriptor ds s)"
proof (induction ds arbitrary: s)
  case Nil
  then show ?case by (simp add: extends_same)
next
  case (Cons d ds)
  have "extends_by gs s (check_descriptor d s)"
    using assms by (simp add: check_descriptor_def extends_by_def own_guid_def Let_def)
  with Cons show ?case by (auto intro: extends_trans)
qed

lemma extends_Free [simp]: "extends_by gs s (SctFreePool u) \<longleftrightarrow> extends_by gs s u"
  by (simp add: extends_by_def SctFreePool_def)

lemma extends_fold:
  "gSbbrBootServicesAssertion001Guid \<in> set gs \<Longrightarrow> assertions u = assertions s \<Longrightarrow>
     extends_by gs s (fold check_descriptor ds u)"
  by (blast intro: extends_trans extends_same extends_descriptors)

lemma memory_map_reports:
  assumes "BBTestMemoryMapTest fw s = Some out" "gSbbrBootServicesAssertion001Guid \<in> set gs"
  shows "reports gs True s out"
  using assms(1) unfolding BBTestMemoryMapTest_def
proof (rule with_standard_lib_reports, goal_cases)
  case (1 out)
  have fail: "extends_by gs s (RecordAssertion EFI_TEST_ASSERTION_FAILED
      (Guid gSbbrBootServicesAssertion001Guid) ''MemoryMap'' u)" if "assertions u = assertions s" for u
    using that assms(2) by (simp add: extends_by_def own_guid_def)
  with 1 show ?case
    by (auto simp: reports_def call_gmm_def SctAllocatePool_def Let_def Option.bind_eq_Some_conv
        fail extends_fold [OF assms(2)] extends_same split: if_splits)
qed

lemma acpi_table_reports:
  assumes "BBTestAcpiTableTest fw s = Some out" "gSbbrBootServicesAssertion002Guid \<in> set gs"
  shows "reports gs False s out"
  using assms(1) unfolding BBTestAcpiTableTest_def
  by (rule with_standard_lib_reports)
    (auto simp: Let_def reports_def extends_by_def own_guid_def assms(2) split: prod.splits if_splits)

lemma smbios_table_reports:
  assumes "BBTestSmbiosTableTest fw s = Some out" "gSbbrBootServicesAssertion003Guid \<in> set gs"
  shows "reports gs False s out"
  using assms(1) unfolding BBTestSmbiosTableTest_def
  by (rule with_standard_lib_reports)
    (auto simp: Let_def reports_def extends_by_def own_guid_def assms(2) split: prod.splits if_splits)

lemma spec_level_reports:
  assumes "BBTestEfiSpecVerLvlTest fw s = Some out" "gEfiSpecVerLvlAssertion01Guid \<in> set gs"
  shows "reports gs False s out"
  using assms(1) unfolding BBTestEfiSpecVerLvlTest_def
  by (rule with_standard_lib_reports)
    (auto simp: reports_def extends_by_def own_guid_def assms(2) split: if_splits)

lemma media_io_reports:
  assumes "BBTestMediaIoProtocolsTest fw s = Some out" "gRequiredUefiProtocolsAssertion001Guid \<in> set gs"
  shows "reports gs False s out"
  using assms(1) unfolding BBTestMediaIoProtocolsTest_def
  by (rule with_standard_lib_reports)
    (auto simp: reports_def extends_by_def own_guid_def assms(2) required_protocols_def gEfiNullGuid_def
      EFI_LOAD_FILE_PROTOCOL_GUID_def split: prod.splits if_splits)

lemma exc_level_reports:
  assumes "BBTestBootExcLevelTest fw s = Some out" "gSysEnvConfigAssertion001Guid \<in> set gs"
  shows "reports gs False s out"
  using assms(1) unfolding BBTestBootExcLevelTest_def
  by (rule with_standard_lib_reports)
    (auto simp: Let_def reports_def extends_by_def own_guid_def assms(2) split: if_splits)

lemma runtime_table_reports:
  assumes "BBTestRuntimeServices fw s = Some out" "gSBBRRuntimeServicesAssertion001Guid \<in> set gs"
  shows "reports gs False s out"
  using assms(1) unfolding BBTestRuntimeServices_def
  by (rule with_standard_lib_reports)
    (auto simp: Let_def reports_def extends_by_def own_guid_def assms(2) split: prod.splits if_splits)

lemma uefi_smbios_reports:
  assumes "BBTestUefiSmbiosTest fw s = Some out" "gSbbrSmbiosAssertion001Guid \<in> set gs"
  shows "reports gs False s out"
  using assms(1) unfolding BBTestUefiSmbiosTest_def
  by (rule with_standard_lib_reports)
    (auto simp: Let_def reports_def extends_by_def own_guid_def assms(2) SctFreePool_def
      scan_regions_find Option.bind_eq_Some_conv dest!: alloc_map_result
      split: prod.splits if_splits option.splits)

lemma scan_disk_error: "scan_disk d = Some (ReadError st) \<Longrightarrow> EFI_ERROR st"
  using entry_scan_error by (auto simp: scan_disk_def split: if_splits)

lemma handle_loop_reports:
  assumes "handle_loop ds u = Some out" "assertions u = assertions s" "gSysEnvConfigAssertion003Guid \<in> set gs"
  shows "reports gs False s out"
  using assms(1,2)
proof (induction ds arbitrary: u)
  case Nil
  then show ?case using assms(3) by (auto simp: reports_def extends_by_def own_guid_def)
next
  case (Cons d ds)
  show ?case
  proof (cases "scan_disk d")
    case None
    with Cons.prems show ?thesis
      by (auto simp: Let_def reports_error extends_same split: if_splits)
  next
    case (Some f)
    show ?thesis
    proof (cases f)
      case (ReadError st)
      have "EFI_ERROR st"
        using Some ReadError scan_disk_error by blast
      with Cons.prems Some ReadError show ?thesis
        by (auto simp: Let_def reports_error extends_same split: if_splits)
    next
      case Partition
      with Cons.prems Some assms(3) show ?thesis
        by (auto simp: Let_def reports_def extends_by_def own_guid_def split: if_splits)
    next
      case NoPartition
      with Cons.prems Some Cons.IH show ?thesis
        by (auto simp: Let_def reports_error extends_same split: if_splits)
    qed
  qed
qed

lemma os_disk_reports:
  assumes "BBTestOsDiskFormatTest fw s = Some out" "gSysEnvConfigAssertion003Guid \<in> set gs"
  shows "reports gs False s out"
  using assms(1) unfolding BBTestOsDiskFormatTest_def
  by (rule with_standard_lib_reports)
    (auto intro: reports_error extends_same handle_loop_reports [OF _ _ assms(2)]
      split: prod.splits if_splits)

text \<open>The loop over the priorities: it returns success only from its end.\<close>

lemma shutdown_loop_reports:
  assumes "gSBBRRuntimeServicesAssertion002Guid \<in> set gs" "gSBBRRuntimeServicesAssertion003Guid \<in> set gs"
    and "extends_by gs s u"
    and "is = [] \<longrightarrow> length (assertions s) < length (assertions u)"
  shows "reports gs False s (shutdown_loop fw buf is u)"
  using assms(3,4)
proof (induction "is" arbitrary: buf u)
  case Nil
  then show ?case by (simp add: reports_def)
next
  case (Cons i "is")
  obtain st m where w: "WriteResetRecord fw (take sizeof_RESET_DATA (put_reset_data i buf)) (storage u) = (st, m)"
    by fastforce
  define v where "v = record_shutdown EFI_TEST_ASSERTION_FAILED i (u\<lparr>storage := m\<rparr>)"
  have ext: "extends_by gs u v"
    using assms(1,2) by (simp add: v_def extends_by_def own_guid_def)
  then have v: "extends_by gs s v" using Cons.prems(1) by (rule extends_trans [rotated])
  have len: "length (assertions s) < length (assertions v)"
    using extends_length [OF Cons.prems(1)] by (simp add: v_def)
  have same: "extends_by gs s (u\<lparr>storage := m, tpl := p\<rparr>)" for p
    using Cons.prems(1) by (simp add: extends_by_def)
  have fail: "extends_by gs s (RecordAssertion a gTestGenericFailureGuid n (u\<lparr>storage := m\<rparr>))" for a n
    using Cons.prems(1) by (auto simp: extends_by_def own_guid_def)
  show ?case
    using w Cons.IH [OF v, of "put_reset_data i buf"] len same fail
    by (simp add: Let_def v_def reports_error) (simp add: reports_def)
qed

lemma read_reset_record_frame:
  "read_reset_record fw n s = Some (st, sz, buf, t) \<Longrightarrow> assertions t = assertions s"
  by (auto simp: read_reset_record_def Option.bind_eq_Some_conv split: prod.splits)

lemma reset_shutdown_reports:
  assumes "BBTestResetShutdown fw s = Some out"
    and gs: "gSBBRRuntimeServicesAssertion002Guid \<in> set gs" "gSBBRRuntimeServicesAssertion003Guid \<in> set gs"
  shows "reports gs False s out"
  using assms(1) unfolding BBTestResetShutdown_def
proof (rule with_recovery_lib_reports, goal_cases)
  case (1 out)
  then obtain st sz buf u where r: "read_reset_record fw 1024 s = Some (st, sz, buf, u)"
    by (auto simp: Option.bind_eq_Some_conv)
  note u = read_reset_record_frame [OF r]
  have from0: "reports gs False s (shutdown_loop fw buf [0..<TPL_ARRAY_SIZE] u)"
    by (rule shutdown_loop_reports [OF gs]) (simp_all add: extends_same u TPL_ARRAY_SIZE_def)
  have rec: "extends_by gs s (record_shutdown EFI_TEST_ASSERTION_PASSED i u)" for i
    using gs u by (simp add: extends_by_def own_guid_def)
  have "reports gs False s (shutdown_loop fw buf is (record_shutdown EFI_TEST_ASSERTION_PASSED i u))" for i "is"
    by (rule shutdown_loop_reports [OF gs rec]) (simp add: u)
  with 1 r from0 show ?case
    by (auto simp: Let_def u extends_same intro: reports_error split: if_splits)
qed

lemma extends_generic [simp]: "assertions u = assertions s \<Longrightarrow> extends_by gs s (generic_failure n u)"
  by (simp add: generic_failure_def extends_by_def own_guid_def)

lemma set_test_variable_frame:
  "set_test_variable fw a d s = (st, t) \<Longrightarrow> assertions t = assertions s"
  by (auto simp: set_test_variable_def split: prod.splits)

lemma nonvolatile_reports:
  assumes "BBTestNonVolatileVariable fw s = Some out" "gSBBRRuntimeServicesAssertion004Guid \<in> set gs"
  shows "reports gs False s out"
  using assms(1) unfolding BBTestNonVolatileVariable_def
proof (rule with_recovery_lib_reports, goal_cases)
  case (1 out)
  then obtain st sz buf u where r: "read_reset_record fw 20 s = Some (st, sz, buf, u)"
    by (auto simp: Option.bind_eq_Some_conv)
  note u = read_reset_record_frame [OF r]
  have "reports gs False s (write_test_variable fw u)"
    by (auto simp: write_test_variable_def Let_def u reports_def extends_same efi_codes
        dest!: set_test_variable_frame split: prod.splits)
  moreover have "reports gs False s o1" if "read_test_variable fw sz buf u = Some o1" for o1
    using that assms(2)
    by (auto simp: read_test_variable_def Let_def u Option.bind_eq_Some_conv own_guid_def
        intro: reports_error reports_Record [OF _ _ refl] dest!: set_test_variable_frame
        split: prod.splits if_splits)
  ultimately show ?case
    using 1 r by (auto simp: Let_def u extends_same intro: reports_error split: if_splits)
qed

subsection \<open>All registered tests\<close>

lemmas test_reports = memory_map_reports acpi_table_reports smbios_table_reports spec_level_reports
  media_io_reports exc_level_reports runtime_table_reports uefi_smbios_reports os_disk_reports
  reset_shutdown_reports nonvolatile_reports

lemma sbbr_test_reports:
  assumes "d \<in> set sbbr_drivers" "e \<in> set (driver_entries d)" "entry_point e fw s = Some out"
  shows "reports (driver_assertions d) (entry_name e = ''MemoryMap'') s out"
  using assms by (auto simp: sbbr_drivers_def driver_defs) (erule test_reports; simp)+

text \<open>C37: Every test case that an SBBR driver registers only adds assertions, each under a GUID of
its own driver or the generic failure; and it never returns success without having recorded one,
but for the memory map test, which says nothing about an empty map.\<close>

theorem sbbr_tests_report:
  assumes "d \<in> set sbbr_drivers" "e \<in> set (driver_entries d)" "entry_point e fw s = Some out"
  shows "\<exists>new. assertions (state_of out) = assertions s @ new \<and>
    (\<forall>a\<in>set new. a_guid a = gTestGenericFailureGuid \<or> a_guid a \<in> Guid ` set (driver_assertions d)) \<and>
    (\<forall>t. out = Returned EFI_SUCCESS t \<longrightarrow> new \<noteq> [] \<or> entry_name e = ''MemoryMap'')"
  using sbbr_test_reports [OF assms] by (auto simp: reports_def extends_by_def own_guid_def)

lemma sbbr_tests_report_witness:
  "\<exists>out a. BBTestEfiSpecVerLvlTest (sample_uefi []) sample_state = Some out \<and>
     assertions (state_of out) = [a] \<and> a_guid a = Guid gEfiSpecVerLvlAssertion01Guid"
proof -
  define e :: "nv bb_test_entry" where "e = \<lparr>entry_guid = EFISPECVERLVL_GUID,
    entry_name = ''TestEfiSpecVerLvl'', entry_manual = False, entry_point = BBTestEfiSpecVerLvlTest\<rparr>"
  have e: "EfiSpecVerLvl_driver \<in> set sbbr_drivers" "e \<in> set (driver_entries EfiSpecVerLvl_driver)"
    by (simp_all add: sbbr_drivers_def EfiSpecVerLvl_driver_def e_def)
  obtain t where t: "BBTestEfiSpecVerLvlTest (sample_uefi []) sample_state = Some (Returned EFI_SUCCESS t)"
    "length (assertions t) = 1" "a_guid (hd (assertions t)) = Guid gEfiSpecVerLvlAssertion01Guid"
    by (simp add: BBTestEfiSpecVerLvlTest_def with_standard_lib_def sample_uefi_def sample_state_def
        EFI_2_70_SYSTEM_TABLE_REVISION_def)
  then obtain new where "assertions t = assertions sample_state @ new" "new \<noteq> []"
    using sbbr_tests_report [OF e, of "sample_uefi []" sample_state "Returned EFI_SUCCESS t"]
    by (auto simp: e_def)
  with t show ?thesis by (auto simp: length_Suc_conv sample_state_def)
qed

end
