(* ===== verification/Spec2Isabelle.thy ===== *)
theory Spec2Isabelle
  imports Acs_Interfaces Mpam_Irq_Tests Mpam_Cache_Tests Mpam_Csu_Tests Mpam_Memory_Tests Acs_Console Mpam_Table Sdei_App Sdei_Linux Sdei_Power_Tests Sbbr_Drivers
begin

text \<open>
  Verification development for the architecture compliance suites of arm-enterprise-acs that are
  written in C: the MPAM suite (src/mpam) and the SDEI suite (src/sdei). Both are layered the same
  way: a platform layer (PAL) that talks to UEFI, ACPI, PSCI and the hardware, a validation layer
  (VAL) on top of it with tables, test execution and device drivers, a pool of tests, and an
  application that parses options, builds the tables, runs the tests and prints totals.

  \<^bold>\<open>Conventions.\<close> A C function that can have undefined behaviour (a NULL table, an index outside an
  array, an over-wide shift) returns an option, and \<open>None\<close> is that behaviour. State is passed
  explicitly: \<open>base\<close> in Acs_Machine holds the device history, the console, the print level and the
  memory shared by the PEs; \<open>world\<close> (MPAM) and \<open>sworld\<close> (SDEI) extend it by the globals of a suite.
  Machine integers are words of their C width, and promotions and truncations are written out.
  The machine is a parameter: \<open>hw\<close> gives the answer of every register, firmware call and PSCI call
  after a history, the content of fresh memory, and what the other PEs have written by now. An
  assumption about it is a named predicate (\<open>rw_reg\<close>, \<open>quiet_peers\<close>, \<open>pools_ok\<close>, \<open>keeps_routing\<close>,
  \<open>holds_sysregs\<close>), and \<open>ram_hw\<close> with its variants instantiates it in the witnesses. Printed
  strings stand without their layout characters.

  \<^bold>\<open>Shared theories.\<close> Acs_Prelude: C integers, array access, counting loops (\<open>for_each\<close>, its
  invariant and definedness rules). Acs_Machine: history, hardware parameter, firmware and secure
  monitor calls. Acs_Interfaces: the locales \<open>status_store\<close> (status words per PE) and the PE
  directories, which both suites interpret on their own definitions.

  \<^bold>\<open>MPAM suite.\<close> Mpam_World: tables and globals of pal_interface.h and MpamAcsMain.c, console and
  register access. Mpam_Status: status words (val_status.c). Mpam_Pe: PE look-ups (val_pe.c,
  val_pe_infra.c). Mpam_Shared: shared memory and buffers (pal_misc.c). Mpam_Exec: running a test on
  one or all PEs (val_test_infra.c, val_pe_infra.c). Mpam_Hwreg, Mpam_Node, Mpam_Errors: registers,
  nodes and error conditions (val_mpam_hwreg_defs.h, val_node_infra.c). Mpam_Partition: portions and
  limits (val_cache.c, val_memory.c). Mpam_Csumon: storage monitors (val_csu_monitor.c). Mpam_Pmu:
  cycle counter (pal_pmu.c, val_measurements.c). Mpam_Madt, Mpam_Gic: tables from ACPI and the
  interrupt controller. Mpam_Table: the board configuration and the node table of every PE
  (platform_cfg.c, pal_mpam.c). Mpam_Suite: test entries, modules and main, over a \<open>pool\<close> of payloads.
  Mpam_Irq_Tests, Mpam_Cache_Tests, Mpam_Csu_Tests, Mpam_Memory_Tests: the payloads of
  test_pool/interrupts, cache, csu_monitor and memory; when an interrupt is taken, what the cycle
  counter and the storage monitors read and when the other PEs see a flag are parameters.

  \<^bold>\<open>SDEI suite.\<close> Sdei_World and Sdei_Pe: tables, look-ups, shared memory, PSCI, PE table (val_pe.c,
  pal_pe.c). Sdei_Mailbox: the hand-over of a payload to the other PEs, as an interleaving of the
  steps of pal_pe_execute_on_all with those of every secondary PE in CEntryPoint. Sdei_Firmware:
  ACPI look-ups, SDEI and PSCI calls, the event table, initialisation (pal_acpi.c,
  pal_sdei_interface.c, val_sdei_interface.c, val_psci.c). Sdei_Gic, Sdei_Timer: interrupt
  controller, timers and watchdogs. Sdei_Tests: the runner with dependencies and selection
  (val_test_infra.c). Sdei_App and Sdei_Linux: the two applications.
  Sdei_Event_Tests: the tests of registering, enabling, disabling and unregistering an event, and the
  life cycle of an event in the SDEI specification as a contract of the firmware. Sdei_Call_Tests:
  the other tests that make single calls (tests 1 to 21, 23, 26). Sdei_Watchdog_Tests: the tests that
  let a watchdog signal an event (22, 24, 25, 27, 28, 31, 32, 34 to 38, 44, 46, 49), as lists of steps
  with the labels they jump to. When the event arrives, and on which PE, is a parameter; its handler
  runs to its end between two looks of the test at the flag. Sdei_Pair_Tests: the tests with two events
  (40, 41, 43) and with an event and an interrupt (29, 30); a handler that waits can be preempted, and
  the arrivals are lists. Sdei_Power_Tests: signalled events (33, 42), the private reset (39), suspend (45),
  reset (47) and a PE that is off (48).

  \<^bold>\<open>SBBR tests.\<close> Sbbr_World: the firmware and the test framework as parameters. Sbbr_Boot,
  Sbbr_Disk, Sbbr_Runtime: the bodies of the tests (src/sbbr/tests/*/BlackBoxTest). Sbbr_Drivers: the
  drivers that register them, and what all of them report.

  \<^bold>\<open>What the theorems show.\<close> Concurrency: on every interleaving each PE runs the payload at most
  once, a finished call has run it on each PE exactly once and in table order, and from every
  reachable state some continuation finishes; the sequential model that the rest of the SDEI
  theories use is refined by the protocol. Test execution: a PE that stays silent fails the test,
  the verdict on several PEs is characterised without its loop in both suites, the counters move by
  exactly the verdicts, waiting and waking terminate. Test payloads: run with their own payloads
  the interrupt, the cache and the storage monitor module come to their end on every machine that
  answers, the cache and monitor tests leave MPAM2_EL2 as it was on each way out, the third monitor
  test cannot fail, the two tests of bandwidth limits cannot pass, the test of bandwidth portions
  writes past its table with six nodes, and the verdict of the level test says
  whether the interrupts came. The four SDEI tests of the life cycle report PASS exactly when the
  answers of the firmware are those of a table, and a firmware that keeps the life cycle passes them
  on all PEs up to the verdict of the runner. The tests with a watchdog look at the last one of the
  table only, the test of resuming a context passes whatever its handler finds, and the test of a
  pending event reports for the PE that happens to take it. The tests with two events of one class
  count two handlers and nothing else, so one that preempts the other passes; the test of an
  interrupt during a handler does not wait for the interrupt; the test of a PE that is off gives
  its verdict before the event can arrive; the payload of the signal test reports PASS exactly
  when its handler has run. Tables: the PE tables and the node table
  hold what the firmware tables and the configuration say. Round trips: error control, monitor
  control, cycle counter, test data, event routing. Bounds of stacks, buffers, field values and
  addresses. Errors: the ways in which the code does not do what it means to (among them the node
  table that is written past its end unless the first PE of the table builds it, mailboxes
  that no PE polls, and an option list that selects its opposite).

  \<^bold>\<open>Bounds and termination.\<close> Loops over a C counter are \<open>for_each\<close> over the list of its values;
  loops with a time-out recurse on it (\<open>wait_loop\<close>, \<open>psci_on_loop\<close>, \<open>poll_rounds\<close>), with the code's
  own constants, so no fuel is added. Walks over ACPI structures recurse on the list of structures
  and are undefined when the length field says there are more. The mailbox protocol is a step
  relation without fairness: finishing is stated as reachability.

  \<^bold>\<open>Not modelled.\<close> Assembly beyond the address computation of ModuleEntryPoint.S; the formatting of
  pal_print (that of pal_print_raw is in Acs_Console); the code between \<open>#if MPAM_SIMULATION_FVP\<close> outside the test payloads, which is compiled
  out (in the payloads the option is a parameter); the SDEI runner over these tests (there every test is the
  parameter \<open>test_fn\<close>); files and
  terminals of the Linux application; sbsa and luvos, which hold submodules, patches and scripts.
\<close>

end
